(* ===== verification/Py_Base.thy ===== *)
theory Py_Base
  imports Complex_Main
begin

text \<open>
  The Python fragment the program is written in, as far as the modelled code uses it:
  exceptions as the left side of a sum, dynamically typed values, insertion-ordered
  dictionaries with string keys, and the methods of \<^verbatim>\<open>str\<close> the code calls.
  Every operation that raises in Python is a value of type \<open>'a res\<close> here.

  Strings are lists of characters. The program compares, splits and joins them with ASCII
  separators only, so a UTF-8 encoded text is treated byte by byte.
\<close>

named_theorems res_simps \<open>unfolding rules of the exception monad\<close>
named_theorems py_defs \<open>definitions of the Python primitives\<close>

section \<open>Exceptions\<close>

text \<open>
  \<open>OpTestGenException\<close> carries the error code of \<^verbatim>\<open>ConstManager\<close>; the others are
  the built-in exceptions that the modelled statements can raise.
\<close>

datatype exn =
    OpTestGenException int
  | OpTestGenMessage string
  | AttributeError
  | KeyError
  | TypeError
  | IndexError
  | ValueError
  | RuntimeError
  | OSError
  | NameError
  | ConfigError
  | SyntaxError
  | ZeroDivisionError
  | SystemExit

type_synonym 'a res = "exn + 'a"

definition bindE :: "'a res \<Rightarrow> ('a \<Rightarrow> 'b res) \<Rightarrow> 'b res" where
  "bindE m f = (case m of Inl e \<Rightarrow> Inl e | Inr x \<Rightarrow> f x)"

text \<open>\<open>raise_if b e\<close> is the statement \<^verbatim>\<open>if b: raise e\<close>.\<close>

definition raise_if :: "bool \<Rightarrow> exn \<Rightarrow> unit res" where
  "raise_if b e = (if b then Inl e else Inr ())"

text \<open>The three shapes of \<^verbatim>\<open>for\<close> loop: collecting, checking, and updating a state.\<close>

fun mapE :: "('a \<Rightarrow> 'b res) \<Rightarrow> 'a list \<Rightarrow> 'b list res" where
  "mapE f [] = Inr []"
| "mapE f (x # xs) = bindE (f x) (\<lambda>y. bindE (mapE f xs) (\<lambda>ys. Inr (y # ys)))"

fun forE :: "('a \<Rightarrow> unit res) \<Rightarrow> 'a list \<Rightarrow> unit res" where
  "forE f [] = Inr ()"
| "forE f (x # xs) = bindE (f x) (\<lambda>_. forE f xs)"

fun foldE :: "('s \<Rightarrow> 'a \<Rightarrow> 's res) \<Rightarrow> 's \<Rightarrow> 'a list \<Rightarrow> 's res" where
  "foldE f s [] = Inr s"
| "foldE f s (x # xs) = bindE (f s x) (\<lambda>s'. foldE f s' xs)"

lemma bindE_simps [simp, res_simps]:
  "bindE (Inl e) f = Inl e" "bindE (Inr x) f = f x"
  by (simp_all add: bindE_def)

lemma bindE_Inr_right [simp]: "bindE m Inr = m"
  by (cases m) simp_all

lemma bindE_assoc: "bindE (bindE m f) g = bindE m (\<lambda>x. bindE (f x) g)"
  by (cases m) simp_all

lemma bindE_eq_Inr [simp]: "bindE m f = Inr y \<longleftrightarrow> (\<exists>x. m = Inr x \<and> f x = Inr y)"
  by (cases m) simp_all

lemma bindE_eq_Inl: "bindE m f = Inl e \<longleftrightarrow> m = Inl e \<or> (\<exists>x. m = Inr x \<and> f x = Inl e)"
  by (cases m) simp_all

lemma bindE_cong [fundef_cong]:
  "m = m' \<Longrightarrow> (\<And>x. m' = Inr x \<Longrightarrow> f x = f' x) \<Longrightarrow> bindE m f = bindE m' f'"
  by (cases m') simp_all

lemma raise_if_simps [simp, res_simps]:
  "raise_if True e = Inl e" "raise_if False e = Inr ()"
  by (simp_all add: raise_if_def)

lemma raise_if_ok [simp]: "raise_if b e = Inr u \<longleftrightarrow> \<not> b"
  by (cases b) simp_all

lemma raise_if_err [simp]: "raise_if b e = Inl e' \<longleftrightarrow> b \<and> e = e'"
  by (cases b) auto

lemma forE_ok: "forE f xs = Inr u \<longleftrightarrow> (\<forall>x\<in>set xs. f x = Inr ())"
  by (induction xs) auto

lemma forE_cong [fundef_cong]:
  "xs = ys \<Longrightarrow> (\<And>x. x \<in> set ys \<Longrightarrow> f x = g x) \<Longrightarrow> forE f xs = forE g ys"
  by (induction ys arbitrary: xs) auto

lemma mapE_length: "mapE f xs = Inr ys \<Longrightarrow> length ys = length xs"
  by (induction xs arbitrary: ys) auto

lemma mapE_ok: "mapE f xs = Inr ys \<longleftrightarrow> list_all2 (\<lambda>x y. f x = Inr y) xs ys"
  by (induction xs arbitrary: ys) (auto simp: list_all2_Cons1)

lemma mapE_Inr [simp]: "mapE (\<lambda>x. Inr (g x)) xs = Inr (map g xs)"
  by (induction xs) simp_all

lemma mapE_cong [fundef_cong]:
  "xs = ys \<Longrightarrow> (\<And>x. x \<in> set ys \<Longrightarrow> f x = g x) \<Longrightarrow> mapE f xs = mapE g ys"
  by (induction ys arbitrary: xs) auto

lemma foldE_append: "foldE f s (xs @ ys) = bindE (foldE f s xs) (\<lambda>s'. foldE f s' ys)"
  by (induction xs arbitrary: s) (simp_all add: bindE_assoc)

text \<open>The invariant rule of a loop that stops at the first exception.\<close>

lemma foldE_inv:
  assumes "foldE f s xs = Inr s'" and "P s"
    and "\<And>s x s'. x \<in> set xs \<Longrightarrow> P s \<Longrightarrow> f s x = Inr s' \<Longrightarrow> P s'"
  shows "P s'"
  using assms
proof (induction xs arbitrary: s)
  case Nil
  then show ?case by simp
next
  case (Cons x xs)
  then obtain t where t: "f s x = Inr t" "foldE f t xs = Inr s'" by auto
  with Cons.prems have "P t" by (meson list.set_intros(1))
  with t Cons.prems(3) show ?case by (intro Cons.IH) auto
qed

section \<open>Elementary checks\<close>

text \<open>
  The validators of the program share one contract: a check on a single element raises one
  fixed exception exactly when a predicate fails. A loop of such a check then raises that
  exception exactly when some element is bad.
\<close>

locale elem_check =
  fixes chk :: "'a \<Rightarrow> unit res" and ok :: "'a \<Rightarrow> bool" and err :: exn
  assumes chk_eq: "chk x = (if ok x then Inr () else Inl err)"
begin

lemma loop_eq: "forE chk xs = (if list_all ok xs then Inr () else Inl err)"
  by (induction xs) (simp_all add: chk_eq)

lemma loop_ok: "forE chk xs = Inr () \<longleftrightarrow> (\<forall>x\<in>set xs. ok x)"
  by (simp add: loop_eq list_all_iff)

lemma loop_err: "forE chk xs = Inl e \<longleftrightarrow> e = err \<and> (\<exists>x\<in>set xs. \<not> ok x)"
  by (auto simp: loop_eq list_all_iff)

lemma loop_append:
  "forE chk (xs @ ys) = Inr () \<longleftrightarrow> forE chk xs = Inr () \<and> forE chk ys = Inr ()"
  by (auto simp: loop_ok)

end

end
