(* ===== verification/Py_Value.thy ===== *)
theory Py_Value
  imports Py_Base "HOL-Library.AList"
begin

text \<open>
  Dynamically typed Python values and insertion-ordered dictionaries. The test cases, the
  operator descriptions and the reports of the program are nested dictionaries read from
  JSON, and the code inspects them with \<^verbatim>\<open>isinstance\<close>, \<^verbatim>\<open>get\<close>, \<^verbatim>\<open>in\<close> and truth tests.
\<close>

section \<open>Values\<close>

text \<open>
  A finite double is a rational number; comparisons between doubles and integers are exact
  in Python, so rationals lose nothing the code observes. \<^verbatim>\<open>bool\<close> is a subclass of
  \<^verbatim>\<open>int\<close>, which \<open>is_int\<close> and \<open>num_view\<close> keep.
\<close>

datatype pyfloat = Fin rat | PInf | NInf | NaN

datatype pyval =
    PyNone
  | PyBool bool
  | PyInt int
  | PyFloat pyfloat
  | PyStr string
  | PyList "pyval list"
  | PyTuple "pyval list"
  | PyDict "(string \<times> pyval) list"

type_synonym pydict = "(string \<times> pyval) list"

fun is_int :: "pyval \<Rightarrow> bool" where
  "is_int (PyInt _) = True" | "is_int (PyBool _) = True" | "is_int _ = False"

fun is_bool :: "pyval \<Rightarrow> bool" where
  "is_bool (PyBool _) = True" | "is_bool _ = False"

fun is_float :: "pyval \<Rightarrow> bool" where
  "is_float (PyFloat _) = True" | "is_float _ = False"

fun is_str :: "pyval \<Rightarrow> bool" where
  "is_str (PyStr _) = True" | "is_str _ = False"

fun is_list :: "pyval \<Rightarrow> bool" where
  "is_list (PyList _) = True" | "is_list _ = False"

fun is_tuple_or_list :: "pyval \<Rightarrow> bool" where
  "is_tuple_or_list (PyList _) = True"
| "is_tuple_or_list (PyTuple _) = True"
| "is_tuple_or_list _ = False"

fun is_dict :: "pyval \<Rightarrow> bool" where
  "is_dict (PyDict _) = True" | "is_dict _ = False"

text \<open>The truth value of \<^verbatim>\<open>if x\<close> and \<^verbatim>\<open>not x\<close>.\<close>

fun truthy :: "pyval \<Rightarrow> bool" where
  "truthy PyNone = False"
| "truthy (PyBool b) = b"
| "truthy (PyInt i) = (i \<noteq> 0)"
| "truthy (PyFloat f) = (f \<noteq> Fin 0)"
| "truthy (PyStr s) = (s \<noteq> [])"
| "truthy (PyList xs) = (xs \<noteq> [])"
| "truthy (PyTuple xs) = (xs \<noteq> [])"
| "truthy (PyDict d) = (d \<noteq> [])"

lemma truthy_not_None: "truthy v \<Longrightarrow> v \<noteq> PyNone"
  by auto

section \<open>Numbers\<close>

fun num_view :: "pyval \<Rightarrow> pyfloat option" where
  "num_view (PyBool b) = Some (Fin (if b then 1 else 0))"
| "num_view (PyInt i) = Some (Fin (of_int i))"
| "num_view (PyFloat f) = Some f"
| "num_view _ = None"

text \<open>Comparisons of doubles: every comparison with NaN is false.\<close>

fun flt_lt :: "pyfloat \<Rightarrow> pyfloat \<Rightarrow> bool" where
  "flt_lt (Fin a) (Fin b) = (a < b)"
| "flt_lt (Fin _) PInf = True"
| "flt_lt NInf (Fin _) = True"
| "flt_lt NInf PInf = True"
| "flt_lt _ _ = False"

fun flt_eq :: "pyfloat \<Rightarrow> pyfloat \<Rightarrow> bool" where
  "flt_eq (Fin a) (Fin b) = (a = b)"
| "flt_eq PInf PInf = True"
| "flt_eq NInf NInf = True"
| "flt_eq _ _ = False"

text \<open>
  \<^verbatim>\<open>x < y\<close> on two values. The modelled code compares numbers only; other operand types
  raise (two strings would compare in Python, and no modelled comparison can meet them).
\<close>

definition py_lt :: "pyval \<Rightarrow> pyval \<Rightarrow> bool res" where
  "py_lt x y = (case (num_view x, num_view y) of
      (Some a, Some b) \<Rightarrow> Inr (flt_lt a b)
    | _ \<Rightarrow> Inl TypeError)"

lemma flt_lt_irrefl [simp]: "\<not> flt_lt a a"
  by (cases a) auto

lemma flt_lt_trans: "flt_lt a b \<Longrightarrow> flt_lt b c \<Longrightarrow> flt_lt a c"
  by (cases a; cases b; cases c) auto

lemma flt_lt_linear: "a \<noteq> NaN \<Longrightarrow> b \<noteq> NaN \<Longrightarrow> flt_lt a b \<or> flt_eq a b \<or> flt_lt b a"
  by (cases a; cases b) auto

section \<open>Equality\<close>

text \<open>
  \<^verbatim>\<open>==\<close>: numbers compare by value across \<^verbatim>\<open>bool\<close>, \<^verbatim>\<open>int\<close> and \<^verbatim>\<open>float\<close>, a list
  never equals a tuple, and dictionaries compare without regard to order.
\<close>

fun py_eq :: "pyval \<Rightarrow> pyval \<Rightarrow> bool"
  and py_eq_list :: "pyval list \<Rightarrow> pyval list \<Rightarrow> bool"
  and py_eq_dict :: "pydict \<Rightarrow> pydict \<Rightarrow> bool" where
  "py_eq PyNone w = (w = PyNone)"
| "py_eq (PyStr s) w = (w = PyStr s)"
| "py_eq (PyList xs) w = (case w of PyList ys \<Rightarrow> py_eq_list xs ys | _ \<Rightarrow> False)"
| "py_eq (PyTuple xs) w = (case w of PyTuple ys \<Rightarrow> py_eq_list xs ys | _ \<Rightarrow> False)"
| "py_eq (PyDict d) w =
     (case w of PyDict e \<Rightarrow> length d = length e \<and> py_eq_dict d e | _ \<Rightarrow> False)"
| "py_eq v w = (case (num_view v, num_view w) of
     (Some a, Some b) \<Rightarrow> flt_eq a b | _ \<Rightarrow> False)"
| "py_eq_list [] ys = (ys = [])"
| "py_eq_list (x # xs) ys =
     (case ys of [] \<Rightarrow> False | y # ys' \<Rightarrow> py_eq x y \<and> py_eq_list xs ys')"
| "py_eq_dict [] e = True"
| "py_eq_dict ((k, v) # d) e =
     (case map_of e k of None \<Rightarrow> False | Some w \<Rightarrow> py_eq v w \<and> py_eq_dict d e)"

text \<open>\<^verbatim>\<open>x in xs\<close> for a list or tuple.\<close>

definition py_in :: "pyval \<Rightarrow> pyval list \<Rightarrow> bool" where
  "py_in x xs = list_ex (\<lambda>y. py_eq y x) xs"

lemma py_eq_PyStr [simp]: "py_eq v (PyStr s) \<longleftrightarrow> v = PyStr s"
  by (cases v) auto

lemma py_in_strs: "py_in v (map PyStr ss) \<longleftrightarrow> (\<exists>s\<in>set ss. v = PyStr s)"
  by (auto simp: py_in_def list_ex_iff)

section \<open>Dictionaries\<close>

text \<open>
  A dictionary keeps the insertion order of its keys; storing to an existing key keeps its
  position. \<open>AList.update\<close> has exactly this behaviour.
\<close>

definition dhas :: "('k \<times> 'v) list \<Rightarrow> 'k \<Rightarrow> bool" where
  "dhas d k = (k \<in> set (map fst d))"

definition dset :: "('k \<times> 'v) list \<Rightarrow> 'k \<Rightarrow> 'v \<Rightarrow> ('k \<times> 'v) list" where
  "dset d k v = AList.update k v d"

definition dpop :: "('k \<times> 'v) list \<Rightarrow> 'k \<Rightarrow> ('k \<times> 'v) list" where
  "dpop d k = AList.delete k d"

definition dupdate :: "('k \<times> 'v) list \<Rightarrow> ('k \<times> 'v) list \<Rightarrow> ('k \<times> 'v) list" where
  "dupdate d e = fold (\<lambda>(k, v) acc. dset acc k v) e d"

text \<open>\<^verbatim>\<open>d.get(k)\<close>, with the default \<^verbatim>\<open>None\<close>, and \<^verbatim>\<open>d[k]\<close>, which raises.\<close>

definition dget :: "pydict \<Rightarrow> string \<Rightarrow> pyval" where
  "dget d k = (case map_of d k of None \<Rightarrow> PyNone | Some v \<Rightarrow> v)"

definition ditem :: "('k \<times> 'v) list \<Rightarrow> 'k \<Rightarrow> 'v res" where
  "ditem d k = (case map_of d k of None \<Rightarrow> Inl KeyError | Some v \<Rightarrow> Inr v)"

text \<open>The same accesses on a value that may not be a dictionary.\<close>

fun as_dict :: "pyval \<Rightarrow> pydict res" where
  "as_dict (PyDict d) = Inr d"
| "as_dict _ = Inl AttributeError"

definition py_get :: "pyval \<Rightarrow> string \<Rightarrow> pyval res" where
  "py_get v k = bindE (as_dict v) (\<lambda>d. Inr (dget d k))"

fun py_item :: "pyval \<Rightarrow> string \<Rightarrow> pyval res" where
  "py_item (PyDict d) k = ditem d k"
| "py_item _ k = Inl TypeError"

text \<open>\<^verbatim>\<open>len(x)\<close> and iteration.\<close>

fun py_len :: "pyval \<Rightarrow> nat res" where
  "py_len (PyStr s) = Inr (length s)"
| "py_len (PyList xs) = Inr (length xs)"
| "py_len (PyTuple xs) = Inr (length xs)"
| "py_len (PyDict d) = Inr (length d)"
| "py_len _ = Inl TypeError"

fun py_iter :: "pyval \<Rightarrow> pyval list res" where
  "py_iter (PyStr s) = Inr (map (\<lambda>c. PyStr [c]) s)"
| "py_iter (PyList xs) = Inr xs"
| "py_iter (PyTuple xs) = Inr xs"
| "py_iter (PyDict d) = Inr (map (PyStr \<circ> fst) d)"
| "py_iter _ = Inl TypeError"

text \<open>\<^verbatim>\<open>x[i]\<close> with a non-negative index.\<close>

fun py_index :: "pyval \<Rightarrow> nat \<Rightarrow> pyval res" where
  "py_index (PyList xs) i = (if i < length xs then Inr (xs ! i) else Inl IndexError)"
| "py_index (PyTuple xs) i = (if i < length xs then Inr (xs ! i) else Inl IndexError)"
| "py_index (PyStr s) i = (if i < length s then Inr (PyStr [s ! i]) else Inl IndexError)"
| "py_index (PyDict d) i = Inl KeyError"
| "py_index _ i = Inl TypeError"

lemma py_iter_len: "py_iter v = Inr xs \<Longrightarrow> py_len v = Inr (length xs)"
  by (cases v) auto

text \<open>
  The interface the rest of the program has of a dictionary, with the laws of lookup after
  store and of insertion order.
\<close>

locale ordered_dict =
  fixes look :: "'d \<Rightarrow> 'k \<Rightarrow> 'v option"
    and store :: "'d \<Rightarrow> 'k \<Rightarrow> 'v \<Rightarrow> 'd"
    and remove :: "'d \<Rightarrow> 'k \<Rightarrow> 'd"
    and keys :: "'d \<Rightarrow> 'k list"
    and inv :: "'d \<Rightarrow> bool"
  assumes look_store: "look (store d k v) j = (if j = k then Some v else look d j)"
    and look_remove: "look (remove d k) j = (if j = k then None else look d j)"
    and keys_store: "keys (store d k v) = (if k \<in> set (keys d) then keys d else keys d @ [k])"
    and keys_look: "k \<in> set (keys d) \<longleftrightarrow> look d k \<noteq> None"
    and inv_store: "inv d \<Longrightarrow> inv (store d k v)"
    and inv_remove: "inv d \<Longrightarrow> inv (remove d k)"
begin

lemma store_idem: "look (store (store d k v) k w) = look (store d k w)"
  by (auto simp: look_store)

lemma store_comm: "j \<noteq> k \<Longrightarrow> look (store (store d j v) k w) = look (store (store d k w) j v)"
  by (auto simp: look_store)

lemma store_keeps_order: "k \<in> set (keys d) \<Longrightarrow> keys (store d k v) = keys d"
  by (simp add: keys_store)

lemma store_all:
  "look (fold (\<lambda>(k, v) acc. store acc k v) kvs d) j =
     (case map_of (rev kvs) j of None \<Rightarrow> look d j | Some v \<Rightarrow> Some v)"
proof (induction kvs arbitrary: d)
  case Nil
  then show ?case by simp
next
  case (Cons kv kvs)
  obtain k v where kv: "kv = (k, v)" by (cases kv)
  show ?case
    by (auto simp: kv Cons.IH look_store map_add_def split: option.splits)
qed

lemma inv_store_all: "inv d \<Longrightarrow> inv (fold (\<lambda>(k, v) acc. store acc k v) kvs d)"
  by (induction kvs arbitrary: d) (auto intro: inv_store)

end

lemma map_of_dset: "map_of (dset d k v) j = (if j = k then Some v else map_of d j)"
  by (simp add: dset_def update_conv)

lemma map_of_dpop: "map_of (dpop d k) j = (if j = k then None else map_of d j)"
  by (simp add: dpop_def delete_conv)

lemma keys_dset: "map fst (dset d k v) =
    (if k \<in> set (map fst d) then map fst d else map fst d @ [k])"
  unfolding dset_def by (induction d) auto

interpretation dict: ordered_dict map_of dset dpop "map fst" "\<lambda>d. distinct (map fst d)"
proof
  show "\<And>d k v j. map_of (dset d k v) j = (if j = k then Some v else map_of d j)"
    by (rule map_of_dset)
  show "\<And>d k j. map_of (dpop d k) j = (if j = k then None else map_of d j)"
    by (rule map_of_dpop)
  show "\<And>d k v. map fst (dset d k v) =
      (if k \<in> set (map fst d) then map fst d else map fst d @ [k])"
    by (rule keys_dset)
  show "\<And>k d. k \<in> set (map fst d) \<longleftrightarrow> map_of d k \<noteq> None"
    by (metis map_of_eq_None_iff list.set_map)
  show "\<And>d k v. distinct (map fst d) \<Longrightarrow> distinct (map fst (dset d k v))"
    by (simp add: dset_def distinct_update)
  show "\<And>d k. distinct (map fst d) \<Longrightarrow> distinct (map fst (dpop d k))"
    by (simp add: dpop_def distinct_delete)
qed

lemma dhas_iff: "dhas d k \<longleftrightarrow> map_of d k \<noteq> None"
  unfolding dhas_def by (rule dict.keys_look)

lemma dhas_dset [simp]: "dhas (dset d k v) j \<longleftrightarrow> j = k \<or> dhas d j"
  by (simp add: dhas_iff map_of_dset)

lemma dhas_Nil [simp]: "\<not> dhas [] k"
  by (simp add: dhas_def)

lemma dhas_Cons [simp]: "dhas ((j, v) # d) k \<longleftrightarrow> j = k \<or> dhas d k"
  by (auto simp: dhas_def)

lemma dget_dset [simp]: "dget (dset d k v) j = (if j = k then v else dget d j)"
  by (simp add: dget_def map_of_dset)

lemma dget_dpop [simp]: "dget (dpop d k) j = (if j = k then PyNone else dget d j)"
  by (simp add: dget_def map_of_dpop)

lemma dget_Nil [simp]: "dget [] k = PyNone"
  by (simp add: dget_def)

lemma dget_Cons [simp]: "dget ((j, v) # d) k = (if k = j then v else dget d k)"
  by (simp add: dget_def)

lemma dget_missing: "\<not> dhas d k \<Longrightarrow> dget d k = PyNone"
  by (simp add: dget_def dhas_iff)

lemma dget_present: "dget d k \<noteq> PyNone \<Longrightarrow> dhas d k"
  using dget_missing by blast

lemma ditem_ok: "ditem d k = Inr v \<longleftrightarrow> map_of d k = Some v"
  by (simp add: ditem_def split: option.splits)

lemma ditem_dget: "dhas d k \<Longrightarrow> ditem d k = Inr (dget d k)"
  by (auto simp: ditem_def dget_def dhas_iff split: option.splits)

lemma ditem_missing: "\<not> dhas d k \<Longrightarrow> ditem d k = Inl KeyError"
  by (simp add: ditem_def dhas_iff)

lemma ditem_err: "ditem d k = Inl e \<longleftrightarrow> e = KeyError \<and> \<not> dhas d k"
  by (auto simp: ditem_def dhas_iff split: option.splits)

lemma as_dict_ok: "as_dict v = Inr d \<longleftrightarrow> v = PyDict d"
  by (cases v) auto

lemma py_get_dict [simp]: "py_get (PyDict d) k = Inr (dget d k)"
  by (simp add: py_get_def)

end
