(* ===== verification/Const_Manager.thy ===== *)
theory Const_Manager
  imports Py_Value
begin

text \<open>
  The class \<^verbatim>\<open>ConstManager\<close> of \<^verbatim>\<open>src/main/const_manager.py\<close>: error codes,
  dictionary keys, and the lists and maps the validators and generators consult. Keys are
  abbreviations, so that proofs see the literal strings; codes are constants.
\<close>

section \<open>Error codes and run modes\<close>

definition OP_TEST_GEN_NONE_ERROR :: int where "OP_TEST_GEN_NONE_ERROR = 0"
definition OP_TEST_GEN_CONFIG_UNSUPPORTED_FMK_TYPE_ERROR :: int where "OP_TEST_GEN_CONFIG_UNSUPPORTED_FMK_TYPE_ERROR = 11"
definition OP_TEST_GEN_CONFIG_INVALID_OUTPUT_PATH_ERROR :: int where "OP_TEST_GEN_CONFIG_INVALID_OUTPUT_PATH_ERROR = 12"
definition OP_TEST_GEN_CONFIG_INVALID_OPINFO_FILE_ERROR :: int where "OP_TEST_GEN_CONFIG_INVALID_OPINFO_FILE_ERROR = 13"
definition OP_TEST_GEN_CONFIG_INVALID_COMPUTE_UNIT_ERROR :: int where "OP_TEST_GEN_CONFIG_INVALID_COMPUTE_UNIT_ERROR = 14"
definition OP_TEST_GEN_CONFIG_UNSUPPORTED_OPTION_ERROR :: int where "OP_TEST_GEN_CONFIG_UNSUPPORTED_OPTION_ERROR = 15"
definition OP_TEST_GEN_CONFIG_OP_DEFINE_ERROR :: int where "OP_TEST_GEN_CONFIG_OP_DEFINE_ERROR = 16"
definition OP_TEST_GEN_INVALID_PARAM_ERROR :: int where "OP_TEST_GEN_INVALID_PARAM_ERROR = 17"
definition OP_TEST_GEN_INVALID_SHEET_PARSE_ERROR :: int where "OP_TEST_GEN_INVALID_SHEET_PARSE_ERROR = 18"
definition OP_TEST_GEN_INVALID_DATA_ERROR :: int where "OP_TEST_GEN_INVALID_DATA_ERROR = 18"
definition OP_TEST_GEN_AND_RUN_ERROR :: int where "OP_TEST_GEN_AND_RUN_ERROR = 19"
definition OP_TEST_GEN_INVALID_PATH_ERROR :: int where "OP_TEST_GEN_INVALID_PATH_ERROR = 101"
definition OP_TEST_GEN_PARSE_JSON_FILE_ERROR :: int where "OP_TEST_GEN_PARSE_JSON_FILE_ERROR = 102"
definition OP_TEST_GEN_OPEN_FILE_ERROR :: int where "OP_TEST_GEN_OPEN_FILE_ERROR = 103"
definition OP_TEST_GEN_CLOSE_FILE_ERROR :: int where "OP_TEST_GEN_CLOSE_FILE_ERROR = 104"
definition OP_TEST_GEN_OPEN_DIR_ERROR :: int where "OP_TEST_GEN_OPEN_DIR_ERROR = 105"
definition OP_TEST_GEN_INDEX_OUT_OF_BOUNDS_ERROR :: int where "OP_TEST_GEN_INDEX_OUT_OF_BOUNDS_ERROR = 106"
definition OP_TEST_GEN_PARSER_JSON_FILE_ERROR :: int where "OP_TEST_GEN_PARSER_JSON_FILE_ERROR = 107"
definition OP_TEST_GEN_WRITE_FILE_ERROR :: int where "OP_TEST_GEN_WRITE_FILE_ERROR = 108"
definition OP_TEST_GEN_READ_FILE_ERROR :: int where "OP_TEST_GEN_READ_FILE_ERROR = 109"
definition OP_TEST_GEN_MAKE_DIR_ERROR :: int where "OP_TEST_GEN_MAKE_DIR_ERROR = 110"
definition OP_TEST_GEN_GET_KEY_ERROR :: int where "OP_TEST_GEN_GET_KEY_ERROR = 111"
definition OP_TEST_GEN_MAKE_DIRS_ERROR :: int where "OP_TEST_GEN_MAKE_DIRS_ERROR = 112"
definition OP_TEST_GEN_INVALID_DEVICE_ID_ERROR :: int where "OP_TEST_GEN_INVALID_DEVICE_ID_ERROR = 113"
definition OP_TEST_GEN_INVALID_INPUT_NAME_ERROR :: int where "OP_TEST_GEN_INVALID_INPUT_NAME_ERROR = 114"
definition OP_TEST_GEN_NONE_TYPICAL_SHAPE_ERROR :: int where "OP_TEST_GEN_NONE_TYPICAL_SHAPE_ERROR = 115"
definition OP_TEST_GEN_INVALID_ERROR_THRESHOLD_ERROR :: int where "OP_TEST_GEN_INVALID_ERROR_THRESHOLD_ERROR = 116"
definition OP_TEST_GEN_INVALID_ERROR_REPORT_ERROR :: int where "OP_TEST_GEN_INVALID_ERROR_REPORT_ERROR = 117"
definition OP_TEST_GEN_UNKNOWN_ERROR :: int where "OP_TEST_GEN_UNKNOWN_ERROR = 1001"
definition OP_TEST_GEN_TF_LOAD_ERROR :: int where "OP_TEST_GEN_TF_LOAD_ERROR = 1002"
definition OP_TEST_GEN_TF_GET_OPERATORS_ERROR :: int where "OP_TEST_GEN_TF_GET_OPERATORS_ERROR = 1003"
definition OP_TEST_GEN_TF_WRITE_GRAPH_ERROR :: int where "OP_TEST_GEN_TF_WRITE_GRAPH_ERROR = 1004"
definition OP_TEST_GEN_TF_GET_PLACEHOLDER_ERROR :: int where "OP_TEST_GEN_TF_GET_PLACEHOLDER_ERROR = 1005"
definition OP_TEST_GEN_TF_CHANGE_PLACEHOLDER_ERROR :: int where "OP_TEST_GEN_TF_CHANGE_PLACEHOLDER_ERROR = 1006"
definition ATC_TRANSFORM_ERROR :: int where "ATC_TRANSFORM_ERROR = 1110"
definition ACL_COMPILE_ERROR :: int where "ACL_COMPILE_ERROR = 1111"
definition ACL_TEST_GEN_NONE_ERROR :: int where "ACL_TEST_GEN_NONE_ERROR = 0"
definition ACL_TEST_GEN_ERROR :: int where "ACL_TEST_GEN_ERROR = 255"
definition BOTH_GEN_AND_RUN_ACL_PROJ :: int where "BOTH_GEN_AND_RUN_ACL_PROJ = 0"
definition ONLY_GEN_WITHOUT_RUN_ACL_PROJ :: int where "ONLY_GEN_WITHOUT_RUN_ACL_PROJ = 1"
definition ONLY_RUN_WITHOUT_GEN_ACL_PROJ :: int where "ONLY_RUN_WITHOUT_GEN_ACL_PROJ = 2"
definition ONLY_RUN_WITHOUT_GEN_ACL_PROJ_PERFORMANCE :: int where "ONLY_RUN_WITHOUT_GEN_ACL_PROJ_PERFORMANCE = 3"
definition BOTH_GEN_AND_RUN_ACL_PROJ_PERFORMANCE :: int where "BOTH_GEN_AND_RUN_ACL_PROJ_PERFORMANCE = 4"

definition error_codes :: "(string \<times> int) list" where
  "error_codes =
    [(''OP_TEST_GEN_NONE_ERROR'', OP_TEST_GEN_NONE_ERROR),
     (''OP_TEST_GEN_CONFIG_UNSUPPORTED_FMK_TYPE_ERROR'', OP_TEST_GEN_CONFIG_UNSUPPORTED_FMK_TYPE_ERROR),
     (''OP_TEST_GEN_CONFIG_INVALID_OUTPUT_PATH_ERROR'', OP_TEST_GEN_CONFIG_INVALID_OUTPUT_PATH_ERROR),
     (''OP_TEST_GEN_CONFIG_INVALID_OPINFO_FILE_ERROR'', OP_TEST_GEN_CONFIG_INVALID_OPINFO_FILE_ERROR),
     (''OP_TEST_GEN_CONFIG_INVALID_COMPUTE_UNIT_ERROR'', OP_TEST_GEN_CONFIG_INVALID_COMPUTE_UNIT_ERROR),
     (''OP_TEST_GEN_CONFIG_UNSUPPORTED_OPTION_ERROR'', OP_TEST_GEN_CONFIG_UNSUPPORTED_OPTION_ERROR),
     (''OP_TEST_GEN_CONFIG_OP_DEFINE_ERROR'', OP_TEST_GEN_CONFIG_OP_DEFINE_ERROR),
     (''OP_TEST_GEN_INVALID_PARAM_ERROR'', OP_TEST_GEN_INVALID_PARAM_ERROR),
     (''OP_TEST_GEN_INVALID_SHEET_PARSE_ERROR'', OP_TEST_GEN_INVALID_SHEET_PARSE_ERROR),
     (''OP_TEST_GEN_INVALID_DATA_ERROR'', OP_TEST_GEN_INVALID_DATA_ERROR),
     (''OP_TEST_GEN_AND_RUN_ERROR'', OP_TEST_GEN_AND_RUN_ERROR),
     (''OP_TEST_GEN_INVALID_PATH_ERROR'', OP_TEST_GEN_INVALID_PATH_ERROR),
     (''OP_TEST_GEN_PARSE_JSON_FILE_ERROR'', OP_TEST_GEN_PARSE_JSON_FILE_ERROR),
     (''OP_TEST_GEN_OPEN_FILE_ERROR'', OP_TEST_GEN_OPEN_FILE_ERROR),
     (''OP_TEST_GEN_CLOSE_FILE_ERROR'', OP_TEST_GEN_CLOSE_FILE_ERROR),
     (''OP_TEST_GEN_OPEN_DIR_ERROR'', OP_TEST_GEN_OPEN_DIR_ERROR),
     (''OP_TEST_GEN_INDEX_OUT_OF_BOUNDS_ERROR'', OP_TEST_GEN_INDEX_OUT_OF_BOUNDS_ERROR),
     (''OP_TEST_GEN_PARSER_JSON_FILE_ERROR'', OP_TEST_GEN_PARSER_JSON_FILE_ERROR),
     (''OP_TEST_GEN_WRITE_FILE_ERROR'', OP_TEST_GEN_WRITE_FILE_ERROR),
     (''OP_TEST_GEN_READ_FILE_ERROR'', OP_TEST_GEN_READ_FILE_ERROR),
     (''OP_TEST_GEN_MAKE_DIR_ERROR'', OP_TEST_GEN_MAKE_DIR_ERROR),
     (''OP_TEST_GEN_GET_KEY_ERROR'', OP_TEST_GEN_GET_KEY_ERROR),
     (''OP_TEST_GEN_MAKE_DIRS_ERROR'', OP_TEST_GEN_MAKE_DIRS_ERROR),
     (''OP_TEST_GEN_INVALID_DEVICE_ID_ERROR'', OP_TEST_GEN_INVALID_DEVICE_ID_ERROR),
     (''OP_TEST_GEN_INVALID_INPUT_NAME_ERROR'', OP_TEST_GEN_INVALID_INPUT_NAME_ERROR),
     (''OP_TEST_GEN_NONE_TYPICAL_SHAPE_ERROR'', OP_TEST_GEN_NONE_TYPICAL_SHAPE_ERROR),
     (''OP_TEST_GEN_INVALID_ERROR_THRESHOLD_ERROR'', OP_TEST_GEN_INVALID_ERROR_THRESHOLD_ERROR),
     (''OP_TEST_GEN_INVALID_ERROR_REPORT_ERROR'', OP_TEST_GEN_INVALID_ERROR_REPORT_ERROR),
     (''OP_TEST_GEN_UNKNOWN_ERROR'', OP_TEST_GEN_UNKNOWN_ERROR),
     (''OP_TEST_GEN_TF_LOAD_ERROR'', OP_TEST_GEN_TF_LOAD_ERROR),
     (''OP_TEST_GEN_TF_GET_OPERATORS_ERROR'', OP_TEST_GEN_TF_GET_OPERATORS_ERROR),
     (''OP_TEST_GEN_TF_WRITE_GRAPH_ERROR'', OP_TEST_GEN_TF_WRITE_GRAPH_ERROR),
     (''OP_TEST_GEN_TF_GET_PLACEHOLDER_ERROR'', OP_TEST_GEN_TF_GET_PLACEHOLDER_ERROR),
     (''OP_TEST_GEN_TF_CHANGE_PLACEHOLDER_ERROR'', OP_TEST_GEN_TF_CHANGE_PLACEHOLDER_ERROR),
     (''ATC_TRANSFORM_ERROR'', ATC_TRANSFORM_ERROR),
     (''ACL_COMPILE_ERROR'', ACL_COMPILE_ERROR),
     (''ACL_TEST_GEN_NONE_ERROR'', ACL_TEST_GEN_NONE_ERROR),
     (''ACL_TEST_GEN_ERROR'', ACL_TEST_GEN_ERROR)]"

abbreviation (input) err_data :: exn where
  "err_data \<equiv> OpTestGenException OP_TEST_GEN_INVALID_DATA_ERROR"
abbreviation (input) err_param :: exn where
  "err_param \<equiv> OpTestGenException OP_TEST_GEN_INVALID_PARAM_ERROR"
abbreviation (input) err_path :: exn where
  "err_path \<equiv> OpTestGenException OP_TEST_GEN_INVALID_PATH_ERROR"

section \<open>Keys, names and paths\<close>

abbreviation (input) FMK_LIST :: string where "FMK_LIST \<equiv> ''tf tensorflow caffe''"
abbreviation (input) EMPTY :: string where "EMPTY \<equiv> ''''"
abbreviation (input) SRC_RELATIVE_TEMPLATE_PATH :: string where "SRC_RELATIVE_TEMPLATE_PATH \<equiv> ''/../template/acl_op_src''"
abbreviation (input) TESTCASE_CPP_RELATIVE_PATH :: string where "TESTCASE_CPP_RELATIVE_PATH \<equiv> ''/src/testcase.cpp''"
abbreviation (input) ACL_OP_JSON_RELATIVE_PATH :: string where "ACL_OP_JSON_RELATIVE_PATH \<equiv> ''/run/out/test_data/config/acl_op.json''"
abbreviation (input) TEST_DATA_CONFIG_RELATIVE_PATH :: string where "TEST_DATA_CONFIG_RELATIVE_PATH \<equiv> ''/run/out/test_data/config''"
abbreviation (input) TESTCASE_PY_RELATIVE_PATH :: string where "TESTCASE_PY_RELATIVE_PATH \<equiv> ''/src/test_{op_name}.py''"
abbreviation (input) PYTEST_INI_RELATIVE_PATH :: string where "PYTEST_INI_RELATIVE_PATH \<equiv> ''/src/pytest.ini''"
abbreviation (input) BIN_FILE :: string where "BIN_FILE \<equiv> ''.bin''"
abbreviation (input) PY_FILE :: string where "PY_FILE \<equiv> ''.py''"
abbreviation (input) TYPE_UNDEFINED :: string where "TYPE_UNDEFINED \<equiv> ''UNDEFINED''"
abbreviation (input) ONLY_GEN_WITHOUT_RUN :: string where "ONLY_GEN_WITHOUT_RUN \<equiv> ''only_gen_without_run''"
abbreviation (input) ONLY_RUN_WITHOUT_GEN :: string where "ONLY_RUN_WITHOUT_GEN \<equiv> ''only_run_without_gen''"
abbreviation (input) ASCEND_GLOBAL_LOG_LEVEL :: string where "ASCEND_GLOBAL_LOG_LEVEL \<equiv> ''ascend_global_log_level''"
abbreviation (input) ASCEND_SLOG_PRINT_TO_STDOUT :: string where "ASCEND_SLOG_PRINT_TO_STDOUT \<equiv> ''ascend_slog_print_to_stdout''"
abbreviation (input) ATC_SINGLEOP_ADVANCE_OPTION :: string where "ATC_SINGLEOP_ADVANCE_OPTION \<equiv> ''atc_singleop_advance_option''"
abbreviation (input) PERFORMACE_MODE :: string where "PERFORMACE_MODE \<equiv> ''performance_mode''"
abbreviation (input) HOST_ARCH :: string where "HOST_ARCH \<equiv> ''host_arch''"
abbreviation (input) TOOL_CHAIN :: string where "TOOL_CHAIN \<equiv> ''tool_chain''"
abbreviation (input) DYNAMIC_INPUT :: string where "DYNAMIC_INPUT \<equiv> ''dynamic''"
abbreviation (input) DYNAMIC_INPUT_ARGS :: string where "DYNAMIC_INPUT_ARGS \<equiv> ''*dynamic_input''"
abbreviation (input) DYNAMIC_INPUT_NAME :: string where "DYNAMIC_INPUT_NAME \<equiv> ''dynamic_input''"
abbreviation (input) SPACE :: string where "SPACE \<equiv> '' ''"
abbreviation (input) COMMA :: string where "COMMA \<equiv> '',''"
abbreviation (input) FALSE :: string where "FALSE \<equiv> ''false''"
abbreviation (input) WHITE_LIST_FILE_NAME :: string where "WHITE_LIST_FILE_NAME \<equiv> ''white_list_config.json''"
abbreviation (input) DTYPE_LIST :: string where "DTYPE_LIST \<equiv> ''DTYPE_LIST''"
abbreviation (input) MINDSPORE_DTYPE_LIST :: string where "MINDSPORE_DTYPE_LIST \<equiv> ''MINDSPORE_DTYPE_LIST''"
abbreviation (input) DATA_DISTRIBUTION_LIST :: string where "DATA_DISTRIBUTION_LIST \<equiv> ''DATA_DISTRIBUTION_LIST''"
abbreviation (input) GET_MODEL_NODES_FUNC :: string where "GET_MODEL_NODES_FUNC \<equiv> ''get_model_nodes''"
abbreviation (input) GET_SHAPE_FUNC :: string where "GET_SHAPE_FUNC \<equiv> ''get_shape''"
abbreviation (input) CHANGE_SHAPE_FUNC :: string where "CHANGE_SHAPE_FUNC \<equiv> ''change_shape''"
abbreviation (input) FILE_NAME_SUFFIX :: string where "FILE_NAME_SUFFIX \<equiv> ''_model_parser''"
abbreviation (input) FRAMEWORK_CONFIG_PATH :: string where "FRAMEWORK_CONFIG_PATH \<equiv> ''./framework/framework.json''"
abbreviation (input) OP :: string where "OP \<equiv> ''op''"
abbreviation (input) INPUT_DESC :: string where "INPUT_DESC \<equiv> ''input_desc''"
abbreviation (input) OUTPUT_DESC :: string where "OUTPUT_DESC \<equiv> ''output_desc''"
abbreviation (input) VALUE_RANGE :: string where "VALUE_RANGE \<equiv> ''value_range''"
abbreviation (input) DATA_DISTRIBUTE :: string where "DATA_DISTRIBUTE \<equiv> ''data_distribute''"
abbreviation (input) ATTR :: string where "ATTR \<equiv> ''attr''"
abbreviation (input) CASE_NAME :: string where "CASE_NAME \<equiv> ''case_name''"
abbreviation (input) ST_MODE :: string where "ST_MODE \<equiv> ''st_mode''"
abbreviation (input) FUZZ_IMPL :: string where "FUZZ_IMPL \<equiv> ''fuzz_impl''"
abbreviation (input) ERROR_THRESHOLD :: string where "ERROR_THRESHOLD \<equiv> ''error_threshold''"
abbreviation (input) INI_INPUT :: string where "INI_INPUT \<equiv> ''input''"
abbreviation (input) INI_OUTPUT :: string where "INI_OUTPUT \<equiv> ''output''"
abbreviation (input) OP_NAME :: string where "OP_NAME \<equiv> ''op_name''"
abbreviation (input) SHAPE_RANGE :: string where "SHAPE_RANGE \<equiv> ''shape_range''"
abbreviation (input) TYPICAL_SHAPE :: string where "TYPICAL_SHAPE \<equiv> ''typical_shape''"
abbreviation (input) VALUE :: string where "VALUE \<equiv> ''value''"
abbreviation (input) IS_CONST :: string where "IS_CONST \<equiv> ''is_const''"
abbreviation (input) CONST_VALUE :: string where "CONST_VALUE \<equiv> ''const_value''"
abbreviation (input) FUZZ_CASE_NUM :: string where "FUZZ_CASE_NUM \<equiv> ''fuzz_case_num''"
abbreviation (input) FUZZ_FUNCTION :: string where "FUZZ_FUNCTION \<equiv> ''fuzz_branch''"
abbreviation (input) CMAKE_LIST_FILE_NAME :: string where "CMAKE_LIST_FILE_NAME \<equiv> ''CMakeLists.txt''"
abbreviation (input) BUILD_INTERMEDIATES_HOST :: string where "BUILD_INTERMEDIATES_HOST \<equiv> ''build/intermediates/host''"
abbreviation (input) RUN_OUT :: string where "RUN_OUT \<equiv> ''run/out''"
abbreviation (input) MAIN :: string where "MAIN \<equiv> ''main''"
abbreviation (input) PROF :: string where "PROF \<equiv> ''prof''"
abbreviation (input) INSTALL_PATH :: string where "INSTALL_PATH \<equiv> ''install_path''"
abbreviation (input) MSPROF_REL_PATH :: string where "MSPROF_REL_PATH \<equiv> ''/toolkit/tools/profiler/bin/msprof''"
abbreviation (input) MSPROF_PYC_REL_PATH :: string where "MSPROF_PYC_REL_PATH \<equiv> ''/toolkit/tools/profiler/profiler_tool/analysis/msprof/msprof.py''"
abbreviation (input) SUMMARY_REL_PATH :: string where "SUMMARY_REL_PATH \<equiv> ''summary''"
abbreviation (input) OP_SUMMARY_CSV :: string where "OP_SUMMARY_CSV \<equiv> ''op_summary_0_1.csv''"
abbreviation (input) PROF_PYTHON_CMD :: string where "PROF_PYTHON_CMD \<equiv> ''python3.7''"
abbreviation (input) PROF_TIME_UNIT :: string where "PROF_TIME_UNIT \<equiv> ''us''"
abbreviation (input) TEST_PY :: string where "TEST_PY \<equiv> ''test_{op_name}.py''"
abbreviation (input) ADVANCE_SECTION :: string where "ADVANCE_SECTION \<equiv> ''RUN''"
abbreviation (input) C_PLUS_PLUS_COMPILER :: string where "C_PLUS_PLUS_COMPILER \<equiv> ''g++''"
abbreviation (input) EXPECT_SUCCESS :: string where "EXPECT_SUCCESS \<equiv> ''success''"
abbreviation (input) EXPECT_FAILED :: string where "EXPECT_FAILED \<equiv> ''failed''"

section \<open>Lists, maps and limits\<close>

definition INPUT_SUFFIX_LIST :: "string list" where
  "INPUT_SUFFIX_LIST = [''.ini'', ''.py'']"

definition IN_OUT_OP_KEY_MAP :: "(string \<times> string) list" where
  "IN_OUT_OP_KEY_MAP =
    [(''INPUT'', ''input''),
     (''DYNAMIC_INPUT'', ''input''),
     (''OPTIONAL_INPUT'', ''input''),
     (''OUTPUT'', ''output''),
     (''DYNAMIC_OUTPUT'', ''output'')]"

definition AICPU_ATTR_LIST :: "string list" where
  "AICPU_ATTR_LIST = [''ATTR'', ''REQUIRED_ATTR'']"

definition ATTR_TYPE_MAP :: "(string \<times> string) list" where
  "ATTR_TYPE_MAP =
    [(''int'', ''int''),
     (''float'', ''float''),
     (''bool'', ''bool''),
     (''str'', ''string''),
     (''type'', ''data_type''),
     (''listInt'', ''list_int''),
     (''listFloat'', ''list_float''),
     (''listBool'', ''list_bool''),
     (''listStr'', ''list_string''),
     (''listListInt'', ''list_list_int'')]"

definition OP_ATTR_TYPE_MAP :: "(string \<times> string) list" where
  "OP_ATTR_TYPE_MAP =
    [(''int'', ''OP_INT''),
     (''float'', ''OP_FLOAT''),
     (''bool'', ''OP_BOOL''),
     (''string'', ''OP_STRING''),
     (''data_type'', ''OP_DTYPE''),
     (''list_int'', ''OP_LIST_INT''),
     (''list_float'', ''OP_LIST_FLOAT''),
     (''list_bool'', ''OP_LIST_BOOL''),
     (''list_string'', ''OP_LIST_STRING''),
     (''list_list_int'', ''OP_LIST_INT_PTR'')]"

definition OP_PROTO_PARSE_ATTR_TYPE_MAP :: "(string \<times> string) list" where
  "OP_PROTO_PARSE_ATTR_TYPE_MAP =
    [(''Int'', ''int''),
     (''Float'', ''float''),
     (''String'', ''str''),
     (''Bool'', ''bool''),
     (''Type'', ''type''),
     (''ListInt'', ''listInt''),
     (''ListFloat'', ''listFloat''),
     (''ListString'', ''listStr''),
     (''ListBool'', ''listBool''),
     (''ListListInt'', ''listListInt'')]"

definition ATTR_MEMBER_VAR_MAP :: "(string \<times> string) list" where
  "ATTR_MEMBER_VAR_MAP =
    [(''int'', ''intAttr''),
     (''float'', ''floatAttr''),
     (''bool'', ''boolAttr''),
     (''string'', ''stringAttr''),
     (''data_type'', ''dtypeAttr''),
     (''list_int'', ''listIntAttr''),
     (''list_float'', ''listFloatAttr''),
     (''list_bool'', ''listBoolAttr''),
     (''list_string'', ''listStringAttr''),
     (''list_list_int'', ''listIntPtrAttr'')]"

definition ATTR_TYPE_SUPPORT_TYPE_MAP :: "(string \<times> string) list" where
  "ATTR_TYPE_SUPPORT_TYPE_MAP =
    [(''int8'', ''DT_INT8''),
     (''int32'', ''DT_INT32''),
     (''int16'', ''DT_INT16''),
     (''int64'', ''DT_INT64''),
     (''uint8'', ''DT_UINT8''),
     (''uint16'', ''DT_UINT16''),
     (''uint32'', ''DT_UINT32''),
     (''uint64'', ''DT_UINT64''),
     (''float'', ''DT_FLOAT''),
     (''float16'', ''DT_FLOAT16''),
     (''float32'', ''DT_FLOAT''),
     (''bool'', ''DT_BOOL''),
     (''double'', ''DT_DOUBLE''),
     (''complex64'', ''DT_COMPLEX64''),
     (''complex128'', ''DT_COMPLEX128'')]"

definition REQUIRED_KEYS :: "string list" where
  "REQUIRED_KEYS = [OP, INPUT_DESC, OUTPUT_DESC, CASE_NAME]"

definition IO_TYPE :: "string list" where
  "IO_TYPE = [''inputs'', ''outputs'']"

definition REQUIRED_OP_INFO_KEYS :: "string list" where
  "REQUIRED_OP_INFO_KEYS = [''paramType'', ''name'']"

definition PARAM_TYPE_VALID_VALUE :: "string list" where
  "PARAM_TYPE_VALID_VALUE = [''dynamic'', ''optional'', ''required'']"

definition OPTIONAL_TYPE_LIST :: "string list" where
  "OPTIONAL_TYPE_LIST = [''UNDEFINED'', ''RESERVED'']"

definition TRUE_OR_FALSE_LIST :: "string list" where
  "TRUE_OR_FALSE_LIST = [''True'', ''False'']"

definition ATTR_REQUIRED_KEYS :: "string list" where
  "ATTR_REQUIRED_KEYS = [''name'', ''type'', ''value'']"

definition INPUT_CROSS_LIST :: "string list" where
  "INPUT_CROSS_LIST = [''format'', ''shape'', ''type'', ''data_distribute'', ''value_range'']"

definition OUTPUT_CROSS_LIST :: "string list" where
  "OUTPUT_CROSS_LIST = [''format'', ''shape'', ''type'']"

definition MS_INPUT_CROSS_LIST :: "string list" where
  "MS_INPUT_CROSS_LIST = [''type'', ''shape'', ''data_distribute'', ''value_range'']"

definition MS_OUTPUT_CROSS_LIST :: "string list" where
  "MS_OUTPUT_CROSS_LIST = [''type'', ''shape'']"

definition OP_CASE_INFO_IN_CSV_COLUMN_NAME_LIST :: "string list" where
  "OP_CASE_INFO_IN_CSV_COLUMN_NAME_LIST = [''Op Name'', ''Task Type'', ''Task Duration(us)'', ''Task ID'']"

definition ERR_REPORT_HEADER :: "string list" where
  "ERR_REPORT_HEADER = [''Index'', ''ExpectOut'', ''RealOut'', ''FpDiff'', ''RateDiff'']"

definition ASCEND_GLOBAL_LOG_LEVEL_LIST :: "string list" where
  "ASCEND_GLOBAL_LOG_LEVEL_LIST = [''0'', ''1'', ''2'', ''3'', ''4'']"

definition ASCEND_SLOG_PRINT_TO_STDOUT_LIST :: "string list" where
  "ASCEND_SLOG_PRINT_TO_STDOUT_LIST = [''0'', ''1'']"

definition HOST_ARCH_LIST :: "string list" where
  "HOST_ARCH_LIST = [''x86_64'', ''aarch64'']"

abbreviation (input) SHAPE_DYNAMIC_SCENARIOS_ONE :: int where "SHAPE_DYNAMIC_SCENARIOS_ONE \<equiv> -1"
abbreviation (input) SHAPE_DYNAMIC_SCENARIOS_TWO :: int where "SHAPE_DYNAMIC_SCENARIOS_TWO \<equiv> -2"

definition SHAPE_RANGE_DEFAULT_VALUE :: "int list list" where
  "SHAPE_RANGE_DEFAULT_VALUE = [[1, -1]]"

definition DEFAULT_ERROR_THRESHOLD :: "rat list" where
  "DEFAULT_ERROR_THRESHOLD = [1 / 100, 5 / 100]"

definition TEN_MB :: int where "TEN_MB = 10 * 1024 * 1024"

definition MAX_NAME_LENGTH :: nat where "MAX_NAME_LENGTH = 256"

definition MAX_FUZZ_CASE_NUM :: int where "MAX_FUZZ_CASE_NUM = 2000"

definition CSV_MAX_LINE :: nat where "CSV_MAX_LINE = 50000"

text \<open>The characters that may not occur in an ATC option (the last two are a backslash, here
  given by its code, and a newline).\<close>

definition INJECT_CHARACTER :: "char list" where
  "INJECT_CHARACTER =
    [CHR ''|'', CHR ''&'', CHR ''$'', CHR ''>'', CHR ''<'', CHR 0x60, CHR 0x5C, CHR ''!'',
     CHR 0x0A]"

text \<open>
  Two names share the code 18, so a caller cannot tell a sheet parse error from invalid
  data; up to that pair and the two success codes the table is injective.
\<close>

lemma error_codes_distinct:
  "distinct (map snd (filter (\<lambda>(n, c). n \<noteq> ''OP_TEST_GEN_INVALID_SHEET_PARSE_ERROR''
      \<and> n \<noteq> ''ACL_TEST_GEN_NONE_ERROR'') error_codes))"
  by code_simp

end
