(* ===== verification/Py_String.thy ===== *)
theory Py_String
  imports Py_Base "HOL-Library.Sublist"
begin

text \<open>
  The string methods the program uses, on lists of characters: prefix and suffix tests,
  \<^verbatim>\<open>split\<close>, \<^verbatim>\<open>join\<close>, \<^verbatim>\<open>replace\<close>, \<^verbatim>\<open>strip\<close>, \<^verbatim>\<open>find\<close>, case conversion and
  the decimal formats, with the laws the component proofs use.
\<close>

section \<open>Characters\<close>

definition c_upper :: "char \<Rightarrow> bool" where
  "c_upper c \<longleftrightarrow> 65 \<le> (of_char c :: nat) \<and> (of_char c :: nat) \<le> 90"

definition c_lower :: "char \<Rightarrow> bool" where
  "c_lower c \<longleftrightarrow> 97 \<le> (of_char c :: nat) \<and> (of_char c :: nat) \<le> 122"

definition c_digit :: "char \<Rightarrow> bool" where
  "c_digit c \<longleftrightarrow> 48 \<le> (of_char c :: nat) \<and> (of_char c :: nat) \<le> 57"

definition c_space :: "char \<Rightarrow> bool" where
  "c_space c \<longleftrightarrow> (of_char c :: nat) \<in> {9, 10, 11, 12, 13, 28, 29, 30, 31, 32}"

definition c_to_lower :: "char \<Rightarrow> char" where
  "c_to_lower c = (if c_upper c then char_of (of_char c + 32 :: nat) else c)"

definition c_to_upper :: "char \<Rightarrow> char" where
  "c_to_upper c = (if c_lower c then char_of (of_char c - 32 :: nat) else c)"

definition s_lower :: "string \<Rightarrow> string" where
  "s_lower s = map c_to_lower s"

definition s_upper :: "string \<Rightarrow> string" where
  "s_upper s = map c_to_upper s"

text \<open>\<^verbatim>\<open>str.isdigit\<close> is false on the empty string.\<close>

definition s_isdigit :: "string \<Rightarrow> bool" where
  "s_isdigit s \<longleftrightarrow> s \<noteq> [] \<and> list_all c_digit s"

lemma of_char_to_lower:
  "(of_char (c_to_lower c) :: nat) = (if c_upper c then of_char c + 32 else of_char c)"
  by (auto simp: c_to_lower_def c_upper_def)

lemma c_to_lower_not_upper [simp]: "\<not> c_upper (c_to_lower c)"
  unfolding c_upper_def of_char_to_lower by (auto simp: c_upper_def)

lemma c_to_lower_idem [simp]: "c_to_lower (c_to_lower c) = c_to_lower c"
  by (subst c_to_lower_def) simp

lemma s_lower_idem [simp]: "s_lower (s_lower s) = s_lower s"
  by (simp add: s_lower_def)

lemma length_s_lower [simp]: "length (s_lower s) = length s"
  by (simp add: s_lower_def)

section \<open>Prefixes, suffixes and substrings\<close>

definition startswith :: "string \<Rightarrow> string \<Rightarrow> bool" where
  "startswith s p = (take (length p) s = p)"

definition endswith :: "string \<Rightarrow> string \<Rightarrow> bool" where
  "endswith s p = (length p \<le> length s \<and> drop (length s - length p) s = p)"

lemma startswith_iff: "startswith s p \<longleftrightarrow> (\<exists>t. s = p @ t)"
  unfolding startswith_def by (metis append_eq_conv_conj append_take_drop_id)

lemma startswith_append [simp]: "startswith (p @ t) p"
  by (simp add: startswith_def)

lemma endswith_iff: "endswith s p \<longleftrightarrow> (\<exists>t. s = t @ p)"
  unfolding endswith_def
  by (metis append_eq_conv_conj append_take_drop_id length_append diff_add_inverse2 le_add2)

text \<open>\<^verbatim>\<open>s.find(p)\<close>: the least index, \<open>None\<close> for Python's -1.\<close>

fun s_find :: "string \<Rightarrow> string \<Rightarrow> nat option" where
  "s_find [] p = (if p = [] then Some 0 else None)"
| "s_find (c # cs) p =
     (if startswith (c # cs) p then Some 0 else map_option Suc (s_find cs p))"

text \<open>\<^verbatim>\<open>s.rfind(p)\<close>: the greatest index.\<close>

fun s_rfind :: "string \<Rightarrow> string \<Rightarrow> nat option" where
  "s_rfind [] p = (if p = [] then Some 0 else None)"
| "s_rfind (c # cs) p =
     (case s_rfind cs p of
        Some i \<Rightarrow> Some (Suc i)
      | None \<Rightarrow> (if startswith (c # cs) p then Some 0 else None))"

definition s_contains :: "string \<Rightarrow> string \<Rightarrow> bool" where
  "s_contains s p = (s_find s p \<noteq> None)"

lemma s_find_Some: "s_find s p = Some i \<Longrightarrow> startswith (drop i s) p \<and> i \<le> length s"
proof (induction s arbitrary: i)
  case Nil
  then show ?case by (auto simp: startswith_def split: if_splits)
next
  case (Cons c cs)
  show ?case
  proof (cases "startswith (c # cs) p")
    case True
    with Cons.prems show ?thesis by simp
  next
    case False
    with Cons.prems obtain j where "s_find cs p = Some j" "i = Suc j" by auto
    with Cons.IH show ?thesis by simp
  qed
qed

lemma s_find_None: "s_find s p = None \<Longrightarrow> \<not> startswith (drop i s) p"
proof (induction s arbitrary: i)
  case Nil
  then show ?case by (auto simp: startswith_def split: if_splits)
next
  case (Cons c cs)
  then have "\<not> startswith (c # cs) p" "s_find cs p = None" by (auto split: if_splits)
  with Cons.IH show ?case by (cases i) auto
qed

lemma s_contains_iff: "s_contains s p \<longleftrightarrow> (\<exists>u v. s = u @ p @ v)"
proof
  assume "s_contains s p"
  then obtain i where "s_find s p = Some i" by (auto simp: s_contains_def)
  then have "startswith (drop i s) p" by (blast dest: s_find_Some)
  then obtain t where "drop i s = p @ t" by (auto simp: startswith_iff)
  then have "s = take i s @ p @ t" by (metis append_take_drop_id)
  then show "\<exists>u v. s = u @ p @ v" by blast
next
  assume "\<exists>u v. s = u @ p @ v"
  then obtain u v where "s = u @ p @ v" by blast
  then have "startswith (drop (length u) s) p" by simp
  then show "s_contains s p" unfolding s_contains_def using s_find_None by blast
qed

lemma s_rfind_Some: "s_rfind s p = Some i \<Longrightarrow> startswith (drop i s) p \<and> i \<le> length s"
  by (induction s arbitrary: i) (auto simp: startswith_def split: if_splits option.splits)

lemma s_rfind_last: "s_rfind s p = Some i \<Longrightarrow> i < j \<Longrightarrow> j \<le> length s \<Longrightarrow> \<not> startswith (drop j s) p"
proof (induction s arbitrary: i j)
  case Nil
  then show ?case by simp
next
  case (Cons c cs)
  have none: "s_rfind cs p = None \<Longrightarrow> k \<le> length cs \<Longrightarrow> \<not> startswith (drop k cs) p" for k
    by (induction cs arbitrary: k) 
       (auto simp: startswith_def drop_Cons split: if_splits option.splits nat.splits)
  from Cons show ?case
    by (auto split: if_splits option.splits simp: drop_Cons none split: nat.splits)
qed

section \<open>Splitting and joining\<close>

text \<open>
  \<^verbatim>\<open>s.split(sep)\<close> for a non-empty separator (every separator in the program is one):
  left to right, without overlaps. The accumulator holds the current piece reversed.
\<close>

function split_aux :: "string \<Rightarrow> string \<Rightarrow> string \<Rightarrow> string list" where
  "split_aux sep acc [] = [rev acc]"
| "split_aux sep acc (c # cs) =
     (if sep \<noteq> [] \<and> startswith (c # cs) sep
      then rev acc # split_aux sep [] (drop (length sep) (c # cs))
      else split_aux sep (c # acc) cs)"
  by pat_completeness auto
termination
  by (relation "measure (\<lambda>(sep, acc, s). length s)") auto

definition s_split :: "string \<Rightarrow> string \<Rightarrow> string list" where
  "s_split sep s = split_aux sep [] s"

fun s_join :: "string \<Rightarrow> string list \<Rightarrow> string" where
  "s_join sep [] = []"
| "s_join sep [x] = x"
| "s_join sep (x # y # xs) = x @ sep @ s_join sep (y # xs)"

text \<open>\<^verbatim>\<open>s.replace(old, new)\<close> replaces the same occurrences that \<^verbatim>\<open>split\<close> finds.\<close>

definition s_replace :: "string \<Rightarrow> string \<Rightarrow> string \<Rightarrow> string" where
  "s_replace s old new = s_join new (s_split old s)"

lemma split_aux_nonempty [simp]: "split_aux sep acc s \<noteq> []"
  by (induction sep acc s rule: split_aux.induct) auto

lemma s_split_nonempty [simp]: "s_split sep s \<noteq> []"
  by (simp add: s_split_def)

lemma s_join_Cons: "xs \<noteq> [] \<Longrightarrow> s_join sep (x # xs) = x @ sep @ s_join sep xs"
  by (cases xs) auto

lemma s_join_split_aux: "s_join sep (split_aux sep acc s) = rev acc @ s"
proof (induction sep acc s rule: split_aux.induct)
  case (1 sep acc)
  then show ?case by simp
next
  case (2 sep acc c cs)
  show ?case
  proof (cases "sep \<noteq> [] \<and> startswith (c # cs) sep")
    case True
    then obtain t where t: "c # cs = sep @ t" by (auto simp: startswith_iff)
    from True "2.IH"(1) have "s_join sep (split_aux sep [] t) = t" by (simp add: t)
    moreover have "drop (length sep) (c # cs) = t" by (simp add: t)
    with True have "split_aux sep acc (c # cs) = rev acc # split_aux sep [] t" by simp
    ultimately show ?thesis by (simp add: s_join_Cons t)
  next
    case False
    with "2.IH"(2) show ?thesis by auto
  qed
qed

lemma s_join_split: "s_join sep (s_split sep s) = s"
  by (simp add: s_split_def s_join_split_aux)

lemma split_aux_no_sep:
  "\<not> s_contains s sep \<Longrightarrow> split_aux sep acc s = [rev acc @ s]"
proof (induction s arbitrary: acc)
  case Nil
  then show ?case by simp
next
  case (Cons c cs)
  then have "\<not> startswith (c # cs) sep" "\<not> s_contains cs sep"
    by (auto simp: s_contains_def split: if_splits)
  with Cons.IH show ?case by auto
qed

text \<open>Splitting at a single character inverts joining pieces without that character.\<close>

lemma split_aux_char_piece:
  "x \<notin> set p \<Longrightarrow> split_aux [x] acc (p @ x # t) = (rev acc @ p) # split_aux [x] [] t"
  by (induction p arbitrary: acc) (auto simp: startswith_def)

lemma split_aux_char_last: "x \<notin> set p \<Longrightarrow> split_aux [x] acc p = [rev acc @ p]"
  by (induction p arbitrary: acc) (auto simp: startswith_def)

lemma s_split_join_char:
  "ps \<noteq> [] \<Longrightarrow> \<forall>p\<in>set ps. x \<notin> set p \<Longrightarrow> s_split [x] (s_join [x] ps) = ps"
  unfolding s_split_def
  by (induction "[x]" ps rule: s_join.induct)
     (simp_all add: split_aux_char_piece split_aux_char_last)

lemma s_split_pieces_clean: "p \<in> set (split_aux [x] acc s) \<Longrightarrow> x \<notin> set acc \<Longrightarrow> x \<notin> set p"
  by (induction "[x]" acc s rule: split_aux.induct)
     (auto simp: startswith_def split: if_splits)

lemma s_replace_absent: "\<not> s_contains s old \<Longrightarrow> s_replace s old new = s"
  by (simp add: s_replace_def s_split_def split_aux_no_sep)

section \<open>Stripping\<close>

definition s_lstrip :: "(char \<Rightarrow> bool) \<Rightarrow> string \<Rightarrow> string" where
  "s_lstrip p s = dropWhile p s"

definition s_rstrip :: "(char \<Rightarrow> bool) \<Rightarrow> string \<Rightarrow> string" where
  "s_rstrip p s = rev (dropWhile p (rev s))"

text \<open>\<^verbatim>\<open>s.strip()\<close> and \<^verbatim>\<open>s.strip(chars)\<close>.\<close>

definition s_strip :: "string \<Rightarrow> string" where
  "s_strip s = s_rstrip c_space (s_lstrip c_space s)"

definition s_strip_char :: "char \<Rightarrow> string \<Rightarrow> string" where
  "s_strip_char x s = s_rstrip (\<lambda>c. c = x) (s_lstrip (\<lambda>c. c = x) s)"

lemma s_strip_hd: "s_strip s \<noteq> [] \<Longrightarrow> \<not> c_space (hd (s_strip s))"
proof -
  assume ne: "s_strip s \<noteq> []"
  let ?t = "dropWhile c_space s"
  have "\<exists>u. ?t = s_strip s @ u"
    unfolding s_strip_def s_rstrip_def s_lstrip_def
    by (metis rev_append rev_rev_ident takeWhile_dropWhile_id)
  then obtain u where u: "?t = s_strip s @ u" by blast
  with ne have "?t \<noteq> []" "hd ?t = hd (s_strip s)" by auto
  with hd_dropWhile [of c_space s] show ?thesis by simp
qed

section \<open>Decimal formats\<close>

definition digit_char :: "nat \<Rightarrow> char" where
  "digit_char n = char_of (48 + n mod 10)"

fun str_nat :: "nat \<Rightarrow> string" where
  "str_nat n = (if n < 10 then [digit_char n] else str_nat (n div 10) @ [digit_char n])"

declare str_nat.simps [simp del]

definition str_int :: "int \<Rightarrow> string" where
  "str_int i = (if i < 0 then CHR ''-'' # str_nat (nat (- i)) else str_nat (nat i))"

text \<open>\<^verbatim>\<open>'%03d' % n\<close> for a natural number.\<close>

definition fmt_03d :: "nat \<Rightarrow> string" where
  "fmt_03d n = replicate (3 - length (str_nat n)) CHR ''0'' @ str_nat n"

text \<open>The value of a digit string, \<^verbatim>\<open>int(s)\<close> on a string of digits.\<close>

definition digits_value :: "string \<Rightarrow> nat" where
  "digits_value s = fold (\<lambda>c acc. 10 * acc + (of_char c - 48)) s 0"

lemma of_char_digit: "(of_char (digit_char n) :: nat) = 48 + n mod 10"
  by (simp add: digit_char_def)

lemma c_digit_digit_char [simp]: "c_digit (digit_char n)"
  by (simp add: c_digit_def of_char_digit)

lemma str_nat_nonempty [simp]: "str_nat n \<noteq> []"
  by (subst str_nat.simps) simp

lemma str_nat_digits: "list_all c_digit (str_nat n)"
proof (induction n rule: str_nat.induct)
  case (1 n)
  then show ?case by (subst str_nat.simps) simp
qed

lemma digits_value_str_nat: "digits_value (str_nat n) = n"
proof (induction n rule: str_nat.induct)
  case (1 n)
  then show ?case
    by (subst str_nat.simps) (simp add: digits_value_def of_char_digit)
qed

lemma str_nat_inj: "str_nat m = str_nat n \<longleftrightarrow> m = n"
  by (metis digits_value_str_nat)

lemma digits_value_zeros:
  "digits_value (replicate k CHR ''0'' @ s) = digits_value s"
proof -
  have "fold (\<lambda>c acc. 10 * acc + (of_char c - 48)) (replicate k CHR ''0'') 0 = (0 :: nat)"
    by (induction k) simp_all
  then show ?thesis by (simp add: digits_value_def)
qed

lemma fmt_03d_value: "digits_value (fmt_03d n) = n"
  by (simp add: fmt_03d_def digits_value_zeros digits_value_str_nat)

lemma fmt_03d_inj: "fmt_03d m = fmt_03d n \<longleftrightarrow> m = n"
  by (metis fmt_03d_value)

lemma fmt_03d_length: "3 \<le> length (fmt_03d n)"
  by (simp add: fmt_03d_def)

lemma fmt_03d_digits: "list_all c_digit (fmt_03d n)"
  using str_nat_digits [of n] by (auto simp: fmt_03d_def list_all_iff c_digit_def)

end
