(* ===== verification/Py_Os.thy ===== *)
theory Py_Os
  imports Py_String
begin

text \<open>
  The part of \<^verbatim>\<open>os\<close> and \<^verbatim>\<open>os.path\<close> the program consults. A file system is what the
  queries answer; \<^verbatim>\<open>os.makedirs\<close>, which changes it, is an argument of the operations
  that call it. Path operations on text are written out for POSIX paths.
\<close>

record fs =
  fs_realpath :: "string \<Rightarrow> string"
  fs_exists :: "string \<Rightarrow> bool"
  fs_isdir :: "string \<Rightarrow> bool"
  fs_isfile :: "string \<Rightarrow> bool"
  fs_readable :: "string \<Rightarrow> bool"
  fs_writable :: "string \<Rightarrow> bool"
  fs_size :: "string \<Rightarrow> int option"
  fs_listdir :: "string \<Rightarrow> string list"

text \<open>\<open>None\<close> stands for the \<^verbatim>\<open>OSError\<close> that \<^verbatim>\<open>os.makedirs\<close> may raise.\<close>

type_synonym makedirs = "fs \<Rightarrow> string \<Rightarrow> fs option"

definition path_join :: "string \<Rightarrow> string \<Rightarrow> string" where
  "path_join a b =
     (if startswith b ''/'' then b
      else if a = [] \<or> endswith a ''/'' then a @ b
      else a @ ''/'' @ b)"

text \<open>\<^verbatim>\<open>os.path.basename\<close>: what follows the last slash.\<close>

definition path_basename :: "string \<Rightarrow> string" where
  "path_basename p = rev (takeWhile (\<lambda>c. c \<noteq> CHR ''/'') (rev p))"

text \<open>\<^verbatim>\<open>os.path.dirname\<close>: what precedes it, trailing slashes dropped unless there is
  nothing else.\<close>

definition path_dirname :: "string \<Rightarrow> string" where
  "path_dirname p =
     (let h = rev (dropWhile (\<lambda>c. c \<noteq> CHR ''/'') (rev p))
      in if list_all (\<lambda>c. c = CHR ''/'') h then h else s_rstrip (\<lambda>c. c = CHR ''/'') h)"

text \<open>
  \<^verbatim>\<open>os.path.splitext\<close>: the extension starts at the last dot of the base name, unless
  only dots precede it there.
\<close>

definition path_splitext :: "string \<Rightarrow> string \<times> string" where
  "path_splitext p =
     (let b = path_basename p; suf = rev (takeWhile (\<lambda>c. c \<noteq> CHR ''.'') (rev b));
          stem = take (length b - Suc (length suf)) b
      in if CHR ''.'' \<in> set b \<and> list_ex (\<lambda>c. c \<noteq> CHR ''.'') stem
         then (take (length p - Suc (length suf)) p, CHR ''.'' # suf)
         else (p, []))"

lemma path_join_relative: "\<not> startswith b ''/'' \<Longrightarrow> endswith (path_join a b) b"
  by (auto simp: path_join_def endswith_iff)

lemma after_last:
  assumes "x \<in> set b"
  obtains ys where "b = ys @ x # rev (takeWhile (\<lambda>c. c \<noteq> x) (rev b))"
proof -
  from split_list_last [OF assms] obtain ys zs where b: "b = ys @ x # zs" "x \<notin> set zs" by blast
  then have "takeWhile (\<lambda>c. c \<noteq> x) (rev zs @ x # rev ys) = rev zs"
    by (subst takeWhile_append2) auto
  with b(1) have "b = ys @ x # rev (takeWhile (\<lambda>c. c \<noteq> x) (rev b))" by simp
  then show ?thesis by (rule that)
qed

lemma path_basename_suffix:
  obtains d where "p = d @ path_basename p"
proof
  show "p = rev (dropWhile (\<lambda>c. c \<noteq> CHR ''/'') (rev p)) @ path_basename p"
    unfolding path_basename_def
    by (simp add: rev_append [symmetric] del: rev_append)
qed

lemma path_splitext_append: "fst (path_splitext p) @ snd (path_splitext p) = p"
proof -
  let ?b = "path_basename p"
  let ?suf = "rev (takeWhile (\<lambda>c. c \<noteq> CHR ''.'') (rev ?b))"
  show ?thesis
  proof (cases "CHR ''.'' \<in> set ?b \<and>
      list_ex (\<lambda>c. c \<noteq> CHR ''.'') (take (length ?b - Suc (length ?suf)) ?b)")
    case True
    then obtain r where r: "?b = r @ CHR ''.'' # ?suf" by (blast elim: after_last)
    obtain d where "p = d @ ?b" by (rule path_basename_suffix)
    with r have "p = (d @ r) @ CHR ''.'' # ?suf" by simp
    then have "take (length p - Suc (length ?suf)) p @ CHR ''.'' # ?suf = p"
      by (metis append_eq_conv_conj diff_add_inverse2 length_Cons length_append)
    with True show ?thesis by (simp add: path_splitext_def Let_def)
  next
    case False
    then show ?thesis unfolding path_splitext_def Let_def by (simp only: if_False) simp
  qed
qed

end
