(* ===== verification/Utils.thy ===== *)
theory Utils
  imports Const_Manager Py_Os
begin

text \<open>
  The shared functions of \<^verbatim>\<open>src/main/utils.py\<close>: rendering of attribute values as C++
  text, type name adaption, validation of paths, names and attribute values, and the
  handling of constant inputs. Logging is left out; every raised exception is kept.
\<close>

section \<open>Text of values\<close>

text \<open>
  \<^verbatim>\<open>repr\<close> and \<^verbatim>\<open>str\<close>. The shortest decimal text of a double is the argument \<open>fr\<close>;
  everything else is written out.
\<close>

definition hex_digit :: "nat \<Rightarrow> char" where
  "hex_digit n = (if n < 10 then char_of (48 + n) else char_of (87 + n))"

definition repr_char :: "char \<Rightarrow> char \<Rightarrow> string" where
  "repr_char q c =
     (if c = q \<or> c = CHR 0x5C then [CHR 0x5C, c]
      else if c = CHR 0x0A then [CHR 0x5C, CHR ''n'']
      else if c = CHR 0x0D then [CHR 0x5C, CHR ''r'']
      else if c = CHR 0x09 then [CHR 0x5C, CHR ''t'']
      else if (of_char c :: nat) < 32 \<or> (of_char c :: nat) = 127
      then [CHR 0x5C, CHR ''x'', hex_digit (of_char c div 16), hex_digit (of_char c mod 16)]
      else [c])"

definition repr_str :: "string \<Rightarrow> string" where
  "repr_str s =
     (let q = (if CHR 0x27 \<in> set s \<and> CHR 0x22 \<notin> set s then CHR 0x22 else CHR 0x27)
      in q # concat (map (repr_char q) s) @ [q])"

fun py_repr :: "(pyfloat \<Rightarrow> string) \<Rightarrow> pyval \<Rightarrow> string"
  and py_repr_items :: "(pyfloat \<Rightarrow> string) \<Rightarrow> pydict \<Rightarrow> string list" where
  "py_repr fr PyNone = ''None''"
| "py_repr fr (PyBool b) = (if b then ''True'' else ''False'')"
| "py_repr fr (PyInt i) = str_int i"
| "py_repr fr (PyFloat f) = fr f"
| "py_repr fr (PyStr s) = repr_str s"
| "py_repr fr (PyList xs) = ''['' @ s_join '', '' (map (py_repr fr) xs) @ '']''"
| "py_repr fr (PyTuple xs) =
     ''('' @ s_join '', '' (map (py_repr fr) xs)
       @ (if length xs = 1 then '','' else []) @ '')''"
| "py_repr fr (PyDict d) = ''{'' @ s_join '', '' (py_repr_items fr d) @ ''}''"
| "py_repr_items fr [] = []"
| "py_repr_items fr ((k, v) # d) =
     (repr_str k @ '': '' @ py_repr fr v) # py_repr_items fr d"

definition py_str :: "(pyfloat \<Rightarrow> string) \<Rightarrow> pyval \<Rightarrow> string" where
  "py_str fr v = (case v of PyStr s \<Rightarrow> s | _ \<Rightarrow> py_repr fr v)"

section \<open>Attribute values as C++ text\<close>

definition quoted :: "string \<Rightarrow> string" where
  "quoted s = CHR 0x22 # s @ [CHR 0x22]"

text \<open>\<^verbatim>\<open>"new int64_t[" + str(len(l)) + "]{" + ", ".join(...) + "}"\<close>\<close>

definition num_list_str :: "(pyfloat \<Rightarrow> string) \<Rightarrow> pyval \<Rightarrow> string res" where
  "num_list_str fr num_list =
     bindE (py_len num_list) (\<lambda>n.
     bindE (py_iter num_list) (\<lambda>items.
       Inr (''new int64_t['' @ str_nat n @ '']{''
            @ s_join '', '' (map (py_str fr) items) @ ''}'')))"

definition create_attr_list_str :: "(pyfloat \<Rightarrow> string) \<Rightarrow> pyval list \<Rightarrow> string res" where
  "create_attr_list_str fr attr_value =
     (case attr_value of
        [] \<Rightarrow> Inr ''{}''
      | first # _ \<Rightarrow>
          if is_list first then
            bindE (mapE (num_list_str fr) attr_value) (\<lambda>ss.
              Inr (''{'' @ s_join '', '' ss @ ''}''))
          else if is_str first then
            bindE (mapE (\<lambda>item. case item of PyStr s \<Rightarrow> Inr (quoted s) | _ \<Rightarrow> Inl TypeError)
                     attr_value) (\<lambda>ss.
              Inr (''{'' @ s_join '', '' ss @ ''}''))
          else if is_bool first then
            Inr (''{'' @ s_join '', '' (map (\<lambda>b. if truthy b then ''1'' else ''0'') attr_value)
                 @ ''}'')
          else
            Inr (''{'' @ s_join '', '' (map (py_str fr) attr_value) @ ''}''))"

definition create_attr_value_str :: "(pyfloat \<Rightarrow> string) \<Rightarrow> pyval \<Rightarrow> string res" where
  "create_attr_value_str fr attr_value =
     (case attr_value of
        PyList xs \<Rightarrow> create_attr_list_str fr xs
      | PyStr s \<Rightarrow> Inr (if startswith s ''ACL'' then s else quoted s)
      | PyBool b \<Rightarrow> Inr (if b then ''1'' else ''0'')
      | v \<Rightarrow> Inr (py_str fr v))"

text \<open>\<^verbatim>\<open>str(list_input)[1:-1]\<close> with square brackets turned into braces, and back.\<close>

definition format_list_str :: "(pyfloat \<Rightarrow> string) \<Rightarrow> pyval list \<Rightarrow> string" where
  "format_list_str fr list_input =
     s_replace (s_replace (butlast (tl (py_repr fr (PyList list_input)))) ''['' ''{'') '']'' ''}''"

definition format_dict_to_list :: "string \<Rightarrow> string" where
  "format_dict_to_list dict_input = s_replace (s_replace dict_input ''{'' ''['') ''}'' '']''"

section \<open>Type names\<close>

definition map_type_to_expect_type :: "string \<Rightarrow> string" where
  "map_type_to_expect_type dtype =
     (case map_of [(''float'', ''float32'')] dtype of Some t \<Rightarrow> t | None \<Rightarrow> dtype)"

definition adapt_acl_datatype :: "string \<Rightarrow> string" where
  "adapt_acl_datatype dtype =
     (case map_of [(''float32'', ''float'')] dtype of Some t \<Rightarrow> t | None \<Rightarrow> dtype)"

definition map_to_acl_datatype_enum :: "string list \<Rightarrow> string" where
  "map_to_acl_datatype_enum dtype_list =
     s_join '', '' (map (\<lambda>dtype. ''ACL_'' @ s_upper (adapt_acl_datatype dtype)) dtype_list)"

text \<open>
  \<^verbatim>\<open>fix_name_lower_with_under\<close>: a capital gets an underscore before it when the next
  letter or the previous one is lower case, except at the two ends of the name.
\<close>

definition fix_step :: "string \<Rightarrow> nat \<Rightarrow> string" where
  "fix_step name index =
     (let c = name ! index in
      if index = 0 then [c_to_lower c]
      else if c_upper c \<and> index \<noteq> length name - 1 then
        (if (index \<noteq> length name - 1 \<and> c_lower (name ! (index + 1)))
            \<or> (index \<noteq> 0 \<and> c_lower (name ! (index - 1)))
         then ''_'' @ [c_to_lower c]
         else [c_to_lower c])
      else [c_to_lower c])"

definition fix_name_lower_with_under :: "string \<Rightarrow> string" where
  "fix_name_lower_with_under name = concat (map (fix_step name) [0..<length name])"

lemma fix_step_shape:
  "fix_step name i = [c_to_lower (name ! i)] \<or> fix_step name i = ''_'' @ [c_to_lower (name ! i)]"
  by (simp add: fix_step_def Let_def)

lemma c_upper_underscore [simp]: "\<not> c_upper CHR ''_''"
  by (simp add: c_upper_def)

lemma fix_step_no_upper: "c \<in> set (fix_step name i) \<Longrightarrow> \<not> c_upper c"
  using fix_step_shape [of name i] by (auto simp: c_upper_underscore)

lemma fix_step_letters:
  "filter (\<lambda>c. c \<noteq> CHR ''_'') (fix_step name i)
     = filter (\<lambda>c. c \<noteq> CHR ''_'') [c_to_lower (name ! i)]"
  using fix_step_shape [of name i] by auto

lemma fix_step_lower: "\<not> c_upper (name ! i) \<Longrightarrow> fix_step name i = [name ! i]"
  by (auto simp: fix_step_def Let_def c_to_lower_def)

section \<open>Paths and names\<close>

definition check_file_size :: "fs \<Rightarrow> string \<Rightarrow> unit res" where
  "check_file_size f input_file =
     (case fs_size f input_file of None \<Rightarrow> Inl err_path | Some _ \<Rightarrow> Inr ())"

text \<open>
  \<^verbatim>\<open>check_path_valid\<close>: with \<^verbatim>\<open>isdir\<close> a missing directory is created first. The
  result is the file system after the call.
\<close>

definition check_path_valid :: "makedirs \<Rightarrow> fs \<Rightarrow> string \<Rightarrow> bool \<Rightarrow> fs res" where
  "check_path_valid mk f path0 isdir =
     bindE (raise_if (path0 = []) err_param) (\<lambda>_.
     (let path = fs_realpath f path0 in
      bindE (if isdir \<and> \<not> fs_exists f path
             then (case mk f path of None \<Rightarrow> Inl err_path | Some f' \<Rightarrow> Inr f')
             else Inr f) (\<lambda>f.
      bindE (raise_if (\<not> fs_exists f path) err_path) (\<lambda>_.
      bindE (raise_if (\<not> fs_readable f path) err_path) (\<lambda>_.
      bindE (raise_if (isdir \<and> \<not> fs_writable f path) err_path) (\<lambda>_.
        if isdir then bindE (raise_if (\<not> fs_isdir f path) err_path) (\<lambda>_. Inr f)
        else bindE (raise_if (\<not> fs_isfile f path) err_path) (\<lambda>_.
             bindE (check_file_size f path) (\<lambda>_. Inr f))))))))"

definition check_path_exists :: "fs \<Rightarrow> string \<Rightarrow> int \<Rightarrow> unit res" where
  "check_path_exists f path exception_type =
     raise_if (\<not> fs_exists f path \<or> fs_listdir f path = []) (OpTestGenException exception_type)"

text \<open>\<^verbatim>\<open>make_dirs\<close> creates a directory that is not there yet.\<close>

definition make_dirs :: "makedirs \<Rightarrow> fs \<Rightarrow> string \<Rightarrow> fs res" where
  "make_dirs mk f op_dir =
     (if \<not> fs_isdir f op_dir \<or> \<not> fs_exists f op_dir
      then (case mk f op_dir of
              None \<Rightarrow> Inl (OpTestGenException OP_TEST_GEN_MAKE_DIRS_ERROR)
            | Some f' \<Rightarrow> Inr f')
      else Inr f)"

text \<open>
  \<^verbatim>\<open>check_output_path\<close>: without a machine type the project goes to a directory named
  after the operator of the first case, which must not hold a \<^verbatim>\<open>src\<close> yet. The first
  branch joins \<^verbatim>\<open>None\<close> or a number as a path, a \<^verbatim>\<open>TypeError\<close>.
\<close>

definition check_output_path ::
    "makedirs \<Rightarrow> fs \<Rightarrow> string \<Rightarrow> pydict list \<Rightarrow> bool \<Rightarrow> (string \<times> fs) res" where
  "check_output_path mk f output_path testcase_list machine_type =
     bindE (check_path_valid mk f (fs_realpath f output_path) True) (\<lambda>f.
     if machine_type then Inr (output_path, f)
     else (case testcase_list of
        [] \<Rightarrow> Inl IndexError
      | tc # _ \<Rightarrow>
         (case dget tc ''op'' of
            PyStr op_name \<Rightarrow>
              (let op_name_path = path_join output_path op_name in
               if \<not> fs_exists f op_name_path then
                 (case mk f op_name_path of
                    None \<Rightarrow> Inl err_path
                  | Some f' \<Rightarrow> Inr (op_name_path, f'))
               else bindE (raise_if (fs_exists f (path_join op_name_path ''src'')) err_path)
                      (\<lambda>_. Inr (op_name_path, f)))
          | _ \<Rightarrow> Inl TypeError)))"

text \<open>
  The pattern \<^verbatim>\<open>^[A-Za-z0-9_,]+$\<close> under \<^verbatim>\<open>re.match\<close>: \<^verbatim>\<open>$\<close> also matches before a
  final newline.
\<close>

definition name_char :: "char \<Rightarrow> bool" where
  "name_char c \<longleftrightarrow> c_upper c \<or> c_lower c \<or> c_digit c \<or> c = CHR ''_'' \<or> c = CHR '',''"

definition name_pattern :: "string \<Rightarrow> bool" where
  "name_pattern s \<longleftrightarrow>
     (s \<noteq> [] \<and> list_all name_char s)
     \<or> (s \<noteq> [] \<and> last s = CHR 0x0A \<and> butlast s \<noteq> [] \<and> list_all name_char (butlast s))"

definition check_name_valid :: "pyval \<Rightarrow> unit res" where
  "check_name_valid name =
     bindE (raise_if (\<not> truthy name) err_param) (\<lambda>_.
     bindE (py_len name) (\<lambda>n.
     bindE (raise_if (n > MAX_NAME_LENGTH) err_param) (\<lambda>_.
       case name of
         PyStr s \<Rightarrow> raise_if (\<not> name_pattern s) err_param
       | _ \<Rightarrow> Inl TypeError)))"

section \<open>Values of attributes\<close>

fun hashable :: "pyval \<Rightarrow> bool" where
  "hashable (PyList _) = False"
| "hashable (PyDict _) = False"
| "hashable (PyTuple xs) = list_all hashable xs"
| "hashable _ = True"

text \<open>
  \<^verbatim>\<open>check_value_valid\<close>. Looking an unhashable value up in the type map raises
  \<^verbatim>\<open>TypeError\<close>; a type name the chain does not list is checked as an integer.
\<close>

function check_value_valid :: "string \<Rightarrow> pyval \<Rightarrow> unit res" where
  "check_value_valid fe_type value =
     (if fe_type = ''int'' then raise_if (\<not> is_int value) err_data
      else if fe_type = ''bool'' then raise_if (\<not> is_bool value) err_data
      else if fe_type = ''string'' then raise_if (\<not> is_str value) err_data
      else if fe_type = ''float'' then raise_if (\<not> is_float value) err_data
      else if fe_type = ''data_type'' then
        bindE (raise_if (\<not> hashable value) TypeError) (\<lambda>_.
        bindE (raise_if (\<not> py_in value (map (PyStr \<circ> fst) ATTR_TYPE_SUPPORT_TYPE_MAP)) err_data)
          (\<lambda>_. raise_if (\<not> is_str value) err_data))
      else if fe_type = ''list_int'' then
        (case value of
           PyList items \<Rightarrow>
             bindE (raise_if (items = []) err_data) (\<lambda>_.
               forE (\<lambda>item. check_value_valid ''int'' item) items)
         | _ \<Rightarrow> Inl err_data)
      else raise_if (\<not> is_int value) err_data)"
  by pat_completeness auto
termination
  by (relation "measure (\<lambda>(fe_type, value). length fe_type)") auto

declare check_value_valid.simps [simp del]

text \<open>\<^verbatim>\<open>check_attr_value_valid\<close>: a missing or non-string type has no \<^verbatim>\<open>startswith\<close>.\<close>

definition check_attr_value_valid :: "pydict \<Rightarrow> unit res" where
  "check_attr_value_valid attr =
     (case dget attr ''type'' of
        PyStr attr_type \<Rightarrow>
          if startswith attr_type ''list_'' then
            (case dget attr ''value'' of
               PyList values \<Rightarrow>
                 forE (\<lambda>value. check_value_valid (drop (length ''list_'') attr_type) value) values
             | _ \<Rightarrow> Inl err_data)
          else check_value_valid attr_type (dget attr ''value'')
      | _ \<Rightarrow> Inl AttributeError)"

text \<open>
  The values a type admits, as a table of the attribute types the program supports
  (\<^verbatim>\<open>ATTR_TYPE_MAP\<close>); lists may be empty, inner lists may not.
\<close>

fun attr_value_ok :: "string \<Rightarrow> pyval \<Rightarrow> bool" where
  "attr_value_ok t v =
     (if t = ''int'' then is_int v
      else if t = ''float'' then is_float v
      else if t = ''bool'' then is_bool v
      else if t = ''string'' then is_str v
      else if t = ''data_type'' then (\<exists>s\<in>fst ` set ATTR_TYPE_SUPPORT_TYPE_MAP. v = PyStr s)
      else if t = ''list_int'' then (\<exists>vs. v = PyList vs \<and> list_all is_int vs)
      else if t = ''list_float'' then (\<exists>vs. v = PyList vs \<and> list_all is_float vs)
      else if t = ''list_bool'' then (\<exists>vs. v = PyList vs \<and> list_all is_bool vs)
      else if t = ''list_string'' then (\<exists>vs. v = PyList vs \<and> list_all is_str vs)
      else if t = ''list_list_int'' then
        (\<exists>vs. v = PyList vs \<and>
          list_all (\<lambda>w. \<exists>ws. w = PyList ws \<and> ws \<noteq> [] \<and> list_all is_int ws) vs)
      else False)"

interpretation int_value: elem_check "check_value_valid ''int''" is_int err_data
  by unfold_locales (simp add: check_value_valid.simps)

interpretation float_value: elem_check "check_value_valid ''float''" is_float err_data
  by unfold_locales (simp add: check_value_valid.simps)

interpretation bool_value: elem_check "check_value_valid ''bool''" is_bool err_data
  by unfold_locales (simp add: check_value_valid.simps)

interpretation string_value: elem_check "check_value_valid ''string''" is_str err_data
  by unfold_locales (simp add: check_value_valid.simps)

interpretation list_int_value: elem_check "check_value_valid ''list_int''"
    "\<lambda>w. \<exists>ws. w = PyList ws \<and> ws \<noteq> [] \<and> list_all is_int ws" err_data
proof
  fix w
  show "check_value_valid ''list_int'' w =
      (if \<exists>ws. w = PyList ws \<and> ws \<noteq> [] \<and> list_all is_int ws then Inr () else Inl err_data)"
    by (cases w) (simp_all add: check_value_valid.simps [of "''list_int''"] int_value.loop_eq raise_if_def)
qed

lemma data_type_value:
  "check_value_valid ''data_type'' v = Inr () \<longleftrightarrow>
     (\<exists>s\<in>fst ` set ATTR_TYPE_SUPPORT_TYPE_MAP. v = PyStr s)"
proof -
  have "map (PyStr \<circ> fst) ATTR_TYPE_SUPPORT_TYPE_MAP = map PyStr (map fst ATTR_TYPE_SUPPORT_TYPE_MAP)"
    by simp
  then show ?thesis
    by (auto simp: check_value_valid.simps [of "''data_type''"] py_in_strs simp del: map_map)
qed

lemmas value_loops = int_value.loop_eq float_value.loop_eq bool_value.loop_eq
  string_value.loop_eq list_int_value.loop_eq

lemmas value_checks = int_value.chk_eq float_value.chk_eq bool_value.chk_eq
  string_value.chk_eq list_int_value.chk_eq

text \<open>
  \<^verbatim>\<open>check_list_float\<close>: every item is a double that is neither above 1 nor below 0.
  A comparison with NaN is false, so NaN passes.
\<close>

definition float_item_ok :: "pyval \<Rightarrow> bool" where
  "float_item_ok i = (case i of
      PyFloat x \<Rightarrow> \<not> flt_lt (Fin 1) x \<and> \<not> flt_lt x (Fin 0)
    | _ \<Rightarrow> False)"

definition check_list_float :: "pyval list \<Rightarrow> (pyval list) res" where
  "check_list_float input_list =
     (if list_all float_item_ok input_list then Inr input_list
      else Inl (OpTestGenException OP_TEST_GEN_INVALID_ERROR_THRESHOLD_ERROR))"

lemma float_item_ok_iff:
  "float_item_ok i \<longleftrightarrow> i = PyFloat NaN \<or> (\<exists>q. i = PyFloat (Fin q) \<and> 0 \<le> q \<and> q \<le> 1)"
proof (cases i)
  case (PyFloat x)
  then show ?thesis by (cases x) (auto simp: float_item_ok_def)
qed (auto simp: float_item_ok_def)

section \<open>Cross keys and constant inputs\<close>

text \<open>\<^verbatim>\<open>add_new_key_to_cross_list\<close> extends the list it is given.\<close>

definition add_new_key_to_cross_list :: "pydict \<Rightarrow> string list \<Rightarrow> string list" where
  "add_new_key_to_cross_list tensor cross_key_list =
     cross_key_list @ filter (\<lambda>key. truthy (dget tensor key)) [SHAPE_RANGE, VALUE, IS_CONST]"

definition check_is_const :: "pyval \<Rightarrow> bool res" where
  "check_is_const is_const =
     (if is_const = PyNone then Inr False
      else bindE (raise_if (\<not> is_bool is_const) err_data) (\<lambda>_. Inr True))"

text \<open>\<^verbatim>\<open>ConstInput.deal_with_const\<close>: a fuzz case stores the flag, a crossed case a list.\<close>

definition deal_with_const :: "pyval \<Rightarrow> pydict \<Rightarrow> bool \<Rightarrow> pydict res" where
  "deal_with_const is_const input_desc for_fuzz =
     bindE (check_is_const is_const) (\<lambda>b.
       if b then
         (if for_fuzz then Inr (dset input_desc IS_CONST is_const)
          else Inr (dset input_desc IS_CONST (PyList [is_const])))
       else Inr input_desc)"

definition get_acl_const_status :: "(pyfloat \<Rightarrow> string) \<Rightarrow> pydict \<Rightarrow> string res" where
  "get_acl_const_status fr testcase_struct =
     bindE (py_iter (dget testcase_struct INPUT_DESC)) (\<lambda>descs.
     bindE (mapE (\<lambda>desc. bindE (py_get desc IS_CONST) (\<lambda>c.
              Inr (if truthy c then s_lower (py_str fr c) else FALSE))) descs) (\<lambda>flags.
       Inr (s_join '', '' flags)))"

lemma deal_with_const_ok:
  "deal_with_const c d z = Inr d' \<longleftrightarrow>
     (c = PyNone \<and> d' = d) \<or>
     (is_bool c \<and> d' = dset d IS_CONST (if z then c else PyList [c]))"
  by (cases c) (auto simp: deal_with_const_def check_is_const_def)

section \<open>Properties\<close>

lemma fix_name_no_upper_id: "list_all (\<lambda>c. \<not> c_upper c) s \<Longrightarrow> fix_name_lower_with_under s = s"
proof -
  assume "list_all (\<lambda>c. \<not> c_upper c) s"
  then have "map (fix_step s) [0..<length s] = map (\<lambda>i. [s ! i]) [0..<length s]"
    by (intro map_cong refl fix_step_lower) (auto simp: list_all_length)
  then have "fix_name_lower_with_under s = map (\<lambda>i. s ! i) [0..<length s]"
    unfolding fix_name_lower_with_under_def by (simp only: concat_map_singleton)
  then show ?thesis by (simp add: map_nth)
qed

lemma fix_name_no_upper: "list_all (\<lambda>c. \<not> c_upper c) (fix_name_lower_with_under s)"
  by (auto simp: fix_name_lower_with_under_def list_all_iff dest: fix_step_no_upper)

lemma fix_name_letters:
  "filter (\<lambda>c. c \<noteq> CHR ''_'') (fix_name_lower_with_under s)
     = filter (\<lambda>c. c \<noteq> CHR ''_'') (s_lower s)"
proof -
  have "filter (\<lambda>c. c \<noteq> CHR ''_'') (concat (map (fix_step s) is)) =
      filter (\<lambda>c. c \<noteq> CHR ''_'') (map (\<lambda>i. c_to_lower (s ! i)) is)" for "is"
    by (induction "is") (simp_all add: fix_step_letters)
  moreover have "map (\<lambda>i. c_to_lower (s ! i)) [0..<length s] = s_lower s"
    unfolding s_lower_def by (rule nth_equalityI) simp_all
  ultimately show ?thesis by (simp add: fix_name_lower_with_under_def)
qed

text \<open>
  \<^verbatim>\<open>fix_name_lower_with_under\<close> produces a name without capitals, changes nothing
  but case and underscores, and is idempotent.
\<close>

theorem fix_name_normal_form:
  "list_all (\<lambda>c. \<not> c_upper c) (fix_name_lower_with_under s)
   \<and> filter (\<lambda>c. c \<noteq> CHR ''_'') (fix_name_lower_with_under s)
       = filter (\<lambda>c. c \<noteq> CHR ''_'') (s_lower s)
   \<and> fix_name_lower_with_under (fix_name_lower_with_under s) = fix_name_lower_with_under s"
  by (intro conjI fix_name_no_upper fix_name_letters fix_name_no_upper_id)

text \<open>The examples of the function's documentation.\<close>

lemma fix_name_examples:
  "fix_name_lower_with_under ''Abc'' = ''abc''"
  "fix_name_lower_with_under ''AbcDef'' = ''abc_def''"
  "fix_name_lower_with_under ''ABCDef'' = ''abc_def''"
  "fix_name_lower_with_under ''Abc2DEf'' = ''abc2d_ef''"
  "fix_name_lower_with_under ''Abc2DEF'' = ''abc2def''"
  "fix_name_lower_with_under ''ABC2dEF'' = ''abc2d_ef''"
  by code_simp+

lemma attr_types: "snd ` set ATTR_TYPE_MAP =
    {''int'', ''float'', ''bool'', ''string'', ''data_type'', ''list_int'', ''list_float'',
     ''list_bool'', ''list_string'', ''list_list_int''}"
  by (simp add: ATTR_TYPE_MAP_def insert_commute)

text \<open>
  For every attribute type the program supports, \<^verbatim>\<open>check_attr_value_valid\<close>
  accepts exactly the values of that type; the inner lists of a list of integer lists must
  not be empty.
\<close>

theorem check_attr_value_valid_exact:
  assumes "t \<in> set (map snd ATTR_TYPE_MAP)" and "dget attr ''type'' = PyStr t"
  shows "check_attr_value_valid attr = Inr () \<longleftrightarrow> attr_value_ok t (dget attr ''value'')"
proof -
  from assms(1) have "t \<in> {''int'', ''float'', ''bool'', ''string'', ''data_type'', ''list_int'',
      ''list_float'', ''list_bool'', ''list_string'', ''list_list_int''}"
    by (simp add: attr_types)
  then show ?thesis
    by (elim insertE emptyE)
       (simp_all add: check_attr_value_valid_def assms(2) startswith_def value_loops value_checks
          data_type_value split: pyval.split)
qed

theorem check_attr_value_valid_exact_witness:
  "check_attr_value_valid [(''type'', PyStr ''list_int''), (''value'', PyList [PyInt 3])] = Inr ()"
  by (subst check_attr_value_valid_exact [of "''list_int''"]) (simp_all add: attr_types)

lemma name_pattern_iff:
  "name_pattern s \<longleftrightarrow> (\<exists>core. core \<noteq> [] \<and> list_all name_char core \<and>
      (s = core \<or> s = core @ [CHR 0x0A]))"
proof
  assume "name_pattern s"
  then consider "s \<noteq> []" "list_all name_char s"
    | "s \<noteq> []" "last s = CHR 0x0A" "butlast s \<noteq> []" "list_all name_char (butlast s)"
    unfolding name_pattern_def by blast
  then show "\<exists>core. core \<noteq> [] \<and> list_all name_char core \<and> (s = core \<or> s = core @ [CHR 0x0A])"
  proof cases
    case 1
    then show ?thesis by blast
  next
    case 2
    then have "s = butlast s @ [CHR 0x0A]" by (metis append_butlast_last_id)
    with 2 show ?thesis by blast
  qed
next
  assume "\<exists>core. core \<noteq> [] \<and> list_all name_char core \<and> (s = core \<or> s = core @ [CHR 0x0A])"
  then show "name_pattern s" by (auto simp: name_pattern_def)
qed

text \<open>
  \<^verbatim>\<open>check_name_valid\<close> accepts a value exactly when it is a text of at most
  256 characters made of letters, digits, underscores and commas, possibly followed by one
  newline, which the pattern's \<^verbatim>\<open>$\<close> lets through.
\<close>

theorem check_name_valid_exact:
  "check_name_valid name = Inr () \<longleftrightarrow>
     (\<exists>core. core \<noteq> [] \<and> list_all name_char core \<and>
       (name = PyStr core \<and> length core \<le> 256 \<or>
        name = PyStr (core @ [CHR 0x0A]) \<and> length core < 256))"
proof (cases name)
  case (PyStr s)
  have "check_name_valid name = Inr () \<longleftrightarrow> length s \<le> 256 \<and> name_pattern s"
    by (auto simp: check_name_valid_def PyStr MAX_NAME_LENGTH_def name_pattern_def)
  also have "\<dots> \<longleftrightarrow> (\<exists>core. length s \<le> 256 \<and> core \<noteq> [] \<and> list_all name_char core \<and>
      (s = core \<or> s = core @ [CHR 0x0A]))"
    unfolding name_pattern_iff by blast
  also have "\<dots> \<longleftrightarrow> (\<exists>core. core \<noteq> [] \<and> list_all name_char core \<and>
       (name = PyStr core \<and> length core \<le> 256 \<or>
        name = PyStr (core @ [CHR 0x0A]) \<and> length core < 256))"
    by (rule arg_cong [where f = Ex], rule ext) (use PyStr in auto)
  finally show ?thesis .
qed (auto simp: check_name_valid_def)

text \<open>
  \<^verbatim>\<open>check_path_valid\<close> on a file accepts exactly the existing, readable regular
  files whose size can be read, and leaves the file system alone.
\<close>

theorem check_path_valid_file:
  "check_path_valid mk f p False = Inr f' \<longleftrightarrow>
     f' = f \<and> p \<noteq> [] \<and> fs_exists f (fs_realpath f p) \<and> fs_readable f (fs_realpath f p)
     \<and> fs_isfile f (fs_realpath f p) \<and> fs_size f (fs_realpath f p) \<noteq> None"
  by (auto simp: check_path_valid_def check_file_size_def Let_def split: option.splits)

text \<open>
  \<^verbatim>\<open>check_path_valid\<close> on a directory, when it returns, leaves an existing
  directory that can be read and written; it creates one only if the path was missing.
\<close>

theorem check_path_valid_dir:
  assumes "check_path_valid mk f p True = Inr f'"
  shows "fs_exists f' (fs_realpath f p) \<and> fs_isdir f' (fs_realpath f p)
    \<and> fs_readable f' (fs_realpath f p) \<and> fs_writable f' (fs_realpath f p)
    \<and> (f' = f \<or> \<not> fs_exists f (fs_realpath f p) \<and> mk f (fs_realpath f p) = Some f')"
  using assms by (auto simp: check_path_valid_def Let_def split: if_splits option.splits)

definition empty_fs :: fs where
  "empty_fs = \<lparr>fs_realpath = \<lambda>p. p, fs_exists = \<lambda>_. False, fs_isdir = \<lambda>_. False,
     fs_isfile = \<lambda>_. False, fs_readable = \<lambda>_. False, fs_writable = \<lambda>_. False,
     fs_size = \<lambda>_. None, fs_listdir = \<lambda>_. []\<rparr>"

definition mkdir_one :: makedirs where
  "mkdir_one f p = Some (f\<lparr>fs_exists := (fs_exists f)(p := True),
     fs_isdir := (fs_isdir f)(p := True), fs_readable := (fs_readable f)(p := True),
     fs_writable := (fs_writable f)(p := True)\<rparr>)"

theorem check_path_valid_dir_witness:
  "fs_isdir (projr (check_path_valid mkdir_one empty_fs ''/out'' True)) ''/out''"
proof -
  have "check_path_valid mkdir_one empty_fs ''/out'' True =
      Inr (the (mkdir_one empty_fs ''/out''))"
    by (simp add: check_path_valid_def mkdir_one_def empty_fs_def Let_def)
  from check_path_valid_dir [OF this] this show ?thesis
    by (simp add: empty_fs_def)
qed

end
