(* ===== verification/Compare_Data.thy ===== *)
theory Compare_Data
  imports Utils
begin

text \<open>
  The comparison of an operator's output with the expected data,
  \<^verbatim>\<open>src/main/compare_data.py\<close> (class \<^verbatim>\<open>CompareData\<close>). The arrays are flat lists of
  values; complex arrays are not modelled. Rounding to single and to double precision belongs
  to numpy and to the interpreter: it is the parameter \<open>rounding\<close>. Everything the code does
  with infinities and NaN is written out. Printing is left out, except that the indices that
  are printed are computed, because the printing code reads the arrays at them.
\<close>

section \<open>Arithmetic on doubles and single precision values\<close>

record rounding =
  r32 :: "rat \<Rightarrow> pyfloat"
  r64 :: "rat \<Rightarrow> pyfloat"

fun fl_round :: "(rat \<Rightarrow> pyfloat) \<Rightarrow> pyfloat \<Rightarrow> pyfloat" where
  "fl_round r (Fin a) = r a"
| "fl_round r x = x"

fun fl_abs :: "pyfloat \<Rightarrow> pyfloat" where
  "fl_abs (Fin a) = Fin \<bar>a\<bar>"
| "fl_abs NaN = NaN"
| "fl_abs _ = PInf"

fun fl_neg :: "pyfloat \<Rightarrow> pyfloat" where
  "fl_neg (Fin a) = Fin (- a)"
| "fl_neg PInf = NInf"
| "fl_neg NInf = PInf"
| "fl_neg NaN = NaN"

fun fl_add :: "(rat \<Rightarrow> pyfloat) \<Rightarrow> pyfloat \<Rightarrow> pyfloat \<Rightarrow> pyfloat" where
  "fl_add r NaN y = NaN"
| "fl_add r x NaN = NaN"
| "fl_add r PInf y = (if y = NInf then NaN else PInf)"
| "fl_add r NInf y = (if y = PInf then NaN else NInf)"
| "fl_add r (Fin a) PInf = PInf"
| "fl_add r (Fin a) NInf = NInf"
| "fl_add r (Fin a) (Fin b) = r (a + b)"

definition fl_sub :: "(rat \<Rightarrow> pyfloat) \<Rightarrow> pyfloat \<Rightarrow> pyfloat \<Rightarrow> pyfloat" where
  "fl_sub r x y = fl_add r x (fl_neg y)"

text \<open>Division; a zero divisor counts as a positive zero, and no divisor below is negative.\<close>

fun fl_div :: "(rat \<Rightarrow> pyfloat) \<Rightarrow> pyfloat \<Rightarrow> pyfloat \<Rightarrow> pyfloat" where
  "fl_div r NaN y = NaN"
| "fl_div r x NaN = NaN"
| "fl_div r PInf (Fin b) = (if b < 0 then NInf else PInf)"
| "fl_div r NInf (Fin b) = (if b < 0 then PInf else NInf)"
| "fl_div r PInf _ = NaN"
| "fl_div r NInf _ = NaN"
| "fl_div r (Fin a) PInf = Fin 0"
| "fl_div r (Fin a) NInf = Fin 0"
| "fl_div r (Fin a) (Fin b) =
     (if b = 0 then (if a = 0 then NaN else if a < 0 then NInf else PInf) else r (a / b))"

text \<open>\<^verbatim>\<open>np.maximum\<close>, which propagates NaN.\<close>

definition fl_max :: "pyfloat \<Rightarrow> pyfloat \<Rightarrow> pyfloat" where
  "fl_max x y = (if x = NaN \<or> y = NaN then NaN else if flt_lt x y then y else x)"

text \<open>\<^verbatim>\<open>x >= y\<close>\<close>

definition flt_ge :: "pyfloat \<Rightarrow> pyfloat \<Rightarrow> bool" where
  "flt_ge x y \<longleftrightarrow> flt_lt y x \<or> flt_eq x y"

section \<open>The relative difference\<close>

text \<open>
  \<^verbatim>\<open>_cal_relative_diff_np\<close>. The quotient \<open>diff_data\<close> is one of Python floats: a threshold of zero
  raises, whatever the arrays hold. The rest is computed element by element by \<open>relative_diff\<close>, which takes the
  quotient as \<open>dd\<close>; a Python float that meets a single precision array is rounded to single precision first.
\<close>

definition diff_data :: "rounding \<Rightarrow> pyfloat \<Rightarrow> pyfloat res" where
  "diff_data rd diff_thd =
     (if flt_eq diff_thd (Fin 0) then Inl ZeroDivisionError
      else Inr (fl_div (r64 rd) (Fin (1 / 16384)) diff_thd))"

definition relative_diff :: "rounding \<Rightarrow> pyfloat \<Rightarrow> pyfloat \<Rightarrow> pyfloat \<Rightarrow> pyfloat \<Rightarrow> pyfloat" where
  "relative_diff rd diff_thd dd npu expect =
     (let uint_data = fl_abs (fl_sub (r32 rd) npu expect);
          max_data = fl_max (fl_abs npu) (fl_abs expect);
          data_add = fl_add (r32 rd) (fl_max max_data (fl_round (r32 rd) dd))
                       (fl_round (r32 rd) (Fin (1 / 1000000000)))
      in if flt_lt uint_data (fl_round (r32 rd) diff_thd) then uint_data
         else fl_div (r32 rd) uint_data data_add)"

definition cal_relative_diff_np ::
    "rounding \<Rightarrow> pyfloat list \<Rightarrow> pyfloat list \<Rightarrow> pyfloat \<Rightarrow> pyfloat list res" where
  "cal_relative_diff_np rd npu expect diff_thd =
     bindE (diff_data rd diff_thd) (\<lambda>dd. Inr (map2 (relative_diff rd diff_thd dd) npu expect))"

text \<open>
  \<^verbatim>\<open>_cal_relative_diff\<close>, used for printing only. \<^verbatim>\<open>'nan' in str(x)\<close> holds for NaN and
  \<^verbatim>\<open>'inf' in str(x)\<close> for the infinities.
\<close>

definition cal_relative_diff :: "rounding \<Rightarrow> string \<Rightarrow> pyfloat \<Rightarrow> pyfloat \<Rightarrow> pyfloat \<Rightarrow> pyfloat" where
  "cal_relative_diff rd type_str real_data expect_data diff_thd =
     (let expect = (if expect_data \<in> {NaN, PInf, NInf}
                    then (if s_lower type_str = ''fp16'' then Fin 65504
                          else Fin (34028 * 10 ^ 34)) else expect_data);
          diff = fl_abs (fl_sub (r64 rd) real_data expect)
      in if flt_lt diff diff_thd then diff
         else fl_div (r64 rd) diff
                (fl_add (r64 rd) (if flt_lt (fl_abs real_data) (fl_abs expect) then fl_abs expect
                                  else fl_abs real_data) (Fin (1 / 1000000000))))"

section \<open>Sizes and printed indices\<close>

definition get_data_size :: "nat \<Rightarrow> int \<times> int \<times> int" where
  "get_data_size n =
     (let start = 0; end0 = int n - 1; e = (if end0 < start then start else end0)
      in (start, e, if e \<noteq> start then e - start + 1 else 1))"

text \<open>The indices \<^verbatim>\<open>_display_output\<close> hands to \<^verbatim>\<open>_display_data_by_index\<close>.\<close>

definition display_indices :: "int \<Rightarrow> int \<Rightarrow> int list" where
  "display_indices start e =
     (let real_data_size = e - start in
      map (\<lambda>i. i + start)
        (if real_data_size \<le> 20 then [0..real_data_size]
         else [0..9] @ [real_data_size - 10 + 1..real_data_size]))"

section \<open>The verdict\<close>

definition diff_abs :: "rounding \<Rightarrow> pyfloat list \<Rightarrow> pyfloat list \<Rightarrow> pyfloat list" where
  "diff_abs rd npu expect =
     map2 (\<lambda>a b. fl_abs (fl_sub (r32 rd) (fl_round (r32 rd) a) (fl_round (r32 rd) b))) npu expect"

text \<open>\<^verbatim>\<open>np.where(diff > 0)\<close>\<close>

definition diff_index :: "pyfloat list \<Rightarrow> nat list" where
  "diff_index ds = filter (\<lambda>i. flt_lt (Fin 0) (ds ! i)) [0..<length ds]"

text \<open>The positions and the relative differences above the threshold (\<^verbatim>\<open>err_idx\<close> and \<^verbatim>\<open>err_diff\<close>).\<close>

definition err_pairs ::
    "rounding \<Rightarrow> pyfloat \<Rightarrow> pyfloat list \<Rightarrow> pyfloat list \<Rightarrow> (nat \<times> pyfloat) list res" where
  "err_pairs rd diff_thd npu expect =
     (let idx = diff_index (diff_abs rd npu expect) in
      bindE (cal_relative_diff_np rd (map (\<lambda>i. fl_round (r32 rd) (npu ! i)) idx)
               (map (\<lambda>i. fl_round (r32 rd) (expect ! i)) idx) diff_thd) (\<lambda>rdiff.
        Inr (filter (\<lambda>(i, r). flt_lt (fl_round (r32 rd) diff_thd) r) (zip idx rdiff))))"

text \<open>Python's \<^verbatim>\<open>max\<close> of a non-empty list: a later element wins when it is greater.\<close>

definition py_max :: "pyfloat list \<Rightarrow> pyfloat" where
  "py_max xs = fold (\<lambda>x m. if flt_lt m x then x else m) (tl xs) (hd xs)"

definition max_diff_hd :: pyfloat where
  "max_diff_hd = Fin (1 / 10)"

definition get_error_percent ::
    "rounding \<Rightarrow> pyfloat \<Rightarrow> pyfloat list \<Rightarrow> pyfloat list \<Rightarrow> int \<Rightarrow> pyfloat
       \<Rightarrow> (bool \<times> (nat \<times> pyfloat) list \<times> pyfloat) res" where
  "get_error_percent rd diff_thd npu expect split_count pct_thd =
     bindE (err_pairs rd diff_thd npu expect) (\<lambda>errs.
       let fulfill_num = split_count - int (length errs);
           fulfill_percent = fl_div (r64 rd) (Fin (of_int fulfill_num)) (Fin (of_int split_count));
           passed = flt_ge fulfill_percent (fl_sub (r64 rd) (Fin 1) pct_thd)
       in Inr (passed \<and> (errs = [] \<or> \<not> flt_ge (py_max (map snd errs)) max_diff_hd),
          errs, (case fulfill_percent of Fin q \<Rightarrow> r64 rd (q * 100) | v \<Rightarrow> v)))"

record compare_result =
  cr_result :: string
  cr_error_percent :: pyfloat
  cr_max_error :: int

text \<open>
  \<^verbatim>\<open>_get_compare_result\<close>; the second component is the list of errors that
  \<^verbatim>\<open>_display_error_output\<close> gets, empty unless the result is \<^verbatim>\<open>Failed\<close>. The maximum
  error that is returned is the constant the function starts with.
\<close>

definition get_compare_result ::
    "rounding \<Rightarrow> pyfloat \<times> pyfloat \<Rightarrow> pyfloat list \<Rightarrow> pyfloat list
       \<Rightarrow> (compare_result \<times> (nat \<times> pyfloat) list) res" where
  "get_compare_result rd err_thr npu expect =
     (if length npu \<noteq> length expect
      then Inr (\<lparr>cr_result = ''Failed'', cr_error_percent = Fin 0, cr_max_error = 0\<rparr>, [])
      else
        (case get_data_size (length npu) of (start, e, real_data_size) \<Rightarrow>
         bindE (get_error_percent rd (fst err_thr) npu expect real_data_size (snd err_thr))
           (\<lambda>(pass, errs, percent).
             Inr (\<lparr>cr_result = (if pass then ''Pass'' else ''Failed''), cr_error_percent = percent,
               cr_max_error = 0\<rparr>, if pass then [] else errs))))"

definition compare_data ::
    "rounding \<Rightarrow> pyfloat \<times> pyfloat \<Rightarrow> pyfloat list \<Rightarrow> pyfloat list
       \<Rightarrow> (compare_result \<times> (nat \<times> pyfloat) list) res" where
  "compare_data rd err_thr npu_output cpu_output =
     (if length npu_output = 0 \<and> length npu_output = length cpu_output
      then Inr (\<lparr>cr_result = ''Pass'', cr_error_percent = Fin 0, cr_max_error = 0\<rparr>, [])
      else get_compare_result rd err_thr npu_output cpu_output)"

section \<open>The error report\<close>

text \<open>The rows; \<open>f7\<close> is the format \<^verbatim>\<open>'%.7f'\<close> and \<open>d8\<close> the format \<^verbatim>\<open>'%08d'\<close>.\<close>

definition fmt_08d :: "nat \<Rightarrow> string" where
  "fmt_08d n = replicate (8 - length (str_nat n)) CHR ''0'' @ str_nat n"

definition err_row ::
    "rounding \<Rightarrow> (pyfloat \<Rightarrow> string) \<Rightarrow> pyfloat list \<Rightarrow> pyfloat list \<Rightarrow> nat \<times> pyfloat \<Rightarrow> string list" where
  "err_row rd f7 npu expect entry =
     [fmt_08d (fst entry + 1), f7 (expect ! fst entry), f7 (npu ! fst entry),
      f7 (fl_abs (fl_sub (r64 rd) (expect ! fst entry) (npu ! fst entry))), f7 (snd entry)]"

definition err_report_rows ::
    "rounding \<Rightarrow> (pyfloat \<Rightarrow> string) \<Rightarrow> string \<Rightarrow> pyfloat list \<Rightarrow> pyfloat list
       \<Rightarrow> (nat \<times> pyfloat) list \<Rightarrow> string list list" where
  "err_report_rows rd f7 error_report npu expect errs =
     (if error_report = ''true'' then map (err_row rd f7 npu expect) errs else [])"

text \<open>The counts (from 1) of the error lines that are printed, and where the dots go.\<close>

definition shown_counts :: "nat \<Rightarrow> nat list" where
  "shown_counts len_err = filter (\<lambda>c. len_err \<le> 20 \<or> c < 10 \<or> c > len_err - 10) [1..<len_err + 1]"

text \<open>\<^verbatim>\<open>_save_data_to_csv\<close>: the files that are written, as name and rows.\<close>

definition csv_chunk :: "nat \<Rightarrow> 'a list \<Rightarrow> nat \<Rightarrow> 'a list" where
  "csv_chunk m rows file_num =
     (if (file_num + 1) * m > length rows then drop (file_num * m) rows
      else take ((file_num + 1) * m - file_num * m) (drop (file_num * m) rows))"

definition csv_file_count :: "nat \<Rightarrow> nat \<Rightarrow> nat" where
  "csv_file_count m n = (n + m - 1) div m"

definition save_data_to_multi_csv :: "string \<Rightarrow> 'a list \<Rightarrow> (string \<times> 'a list) list" where
  "save_data_to_multi_csv csv_path rows =
     map (\<lambda>i. (csv_path @ ''_error_report'' @ str_nat i @ ''.csv'', csv_chunk CSV_MAX_LINE rows i))
       [0..<csv_file_count CSV_MAX_LINE (length rows)]"

definition save_data_to_csv :: "string \<Rightarrow> 'a list \<Rightarrow> (string \<times> 'a list) list" where
  "save_data_to_csv csv_path rows =
     (if length rows > CSV_MAX_LINE then save_data_to_multi_csv csv_path rows
      else [(csv_path @ ''_error_report.csv'', rows)])"

definition write_err_report :: "string \<Rightarrow> string \<Rightarrow> 'a list \<Rightarrow> (string \<times> 'a list) list" where
  "write_err_report error_report csv_path rows =
     (if error_report = ''true'' then save_data_to_csv csv_path rows else [])"

definition get_err_report_path :: "makedirs \<Rightarrow> fs \<Rightarrow> string \<Rightarrow> pydict \<Rightarrow> string \<Rightarrow> (string \<times> fs) res" where
  "get_err_report_path mk f error_report op_params run_dir =
     (if error_report = ''true'' then
        (case dget op_params CASE_NAME of
           PyStr name \<Rightarrow>
             (let dir = path_join run_dir ''run/out/test_data/data/st_error_reports'' in
              bindE (if fs_exists f dir then Inr f
                     else case mk f dir of None \<Rightarrow> Inl OSError | Some f' \<Rightarrow> Inr f') (\<lambda>f.
                Inr (path_join dir name, f)))
         | _ \<Rightarrow> Inl TypeError)
      else Inr ('''', f))"

section \<open>Lemmas\<close>

lemma get_data_size_pos: "0 < n \<Longrightarrow> get_data_size n = (0, int n - 1, int n)"
  by (auto simp: get_data_size_def Let_def)

text \<open>
  Everything that is printed is inside the arrays: for a non-empty output the displayed
  indices are valid positions.
\<close>

theorem display_in_bounds:
  "list_all (\<lambda>i. 0 \<le> i \<and> i < int (Suc n))
     (display_indices (fst (get_data_size (Suc n))) (fst (snd (get_data_size (Suc n)))))"
  by (auto simp: get_data_size_pos display_indices_def Let_def list_all_iff)

text \<open>
  The specification of the errors: the relative difference of the elements at \<open>i\<close>, for a threshold that is not zero,
  and whether it is an error, that is whether the elements differ and the relative difference is above the threshold.
\<close>

definition rel_error :: "rounding \<Rightarrow> pyfloat \<Rightarrow> pyfloat list \<Rightarrow> pyfloat list \<Rightarrow> nat \<Rightarrow> pyfloat" where
  "rel_error rd thd npu expect i =
     relative_diff rd thd (fl_div (r64 rd) (Fin (1 / 16384)) thd)
       (fl_round (r32 rd) (npu ! i)) (fl_round (r32 rd) (expect ! i))"

definition is_error :: "rounding \<Rightarrow> pyfloat \<Rightarrow> pyfloat list \<Rightarrow> pyfloat list \<Rightarrow> nat \<Rightarrow> bool" where
  "is_error rd thd npu expect i \<longleftrightarrow>
     flt_lt (Fin 0) (fl_abs (fl_sub (r32 rd) (fl_round (r32 rd) (npu ! i)) (fl_round (r32 rd) (expect ! i))))
     \<and> flt_lt (fl_round (r32 rd) thd) (rel_error rd thd npu expect i)"

lemma filter_zip_map: "filter (\<lambda>(i, r). P r) (zip is (map f is)) = map (\<lambda>i. (i, f i)) (filter (\<lambda>i. P (f i)) is)"
  by (induction "is") auto

lemma map2_map_same: "map2 g (map f is) (map h is) = map (\<lambda>i. g (f i) (h i)) is"
  by (induction "is") auto

lemma err_pairs_eq:
  assumes "length npu = length expect"
  shows "err_pairs rd thd npu expect =
    (if flt_eq thd (Fin 0) then Inl ZeroDivisionError
     else Inr (map (\<lambda>i. (i, rel_error rd thd npu expect i))
            (filter (is_error rd thd npu expect) [0..<length npu])))"
proof -
  let ?idx = "diff_index (diff_abs rd npu expect)"
  have "filter (\<lambda>i. flt_lt (fl_round (r32 rd) thd) (rel_error rd thd npu expect i)) ?idx
      = filter (is_error rd thd npu expect) [0..<length npu]"
    using assms by (auto simp: diff_index_def diff_abs_def is_error_def intro!: filter_cong)
  then show ?thesis
    by (simp add: err_pairs_def cal_relative_diff_np_def diff_data_def Let_def map2_map_same filter_zip_map
        rel_error_def [symmetric])
qed

lemma py_max_ge:
  "list_all (\<lambda>x. x \<noteq> NaN) (y # ys) \<Longrightarrow>
     flt_ge (py_max (y # ys)) m \<longleftrightarrow> list_ex (\<lambda>x. flt_ge x m) (y # ys)"
proof (induction ys arbitrary: y)
  case Nil
  then show ?case by (simp add: py_max_def)
next
  case (Cons z zs)
  let ?w = "if flt_lt y z then z else y"
  have "py_max (y # z # zs) = py_max (?w # zs)" by (simp add: py_max_def)
  moreover have "flt_ge ?w m \<longleftrightarrow> flt_ge y m \<or> flt_ge z m"
    using Cons.prems by (cases y; cases z; cases m) (auto simp: flt_ge_def)
  moreover have "list_all (\<lambda>x. x \<noteq> NaN) (?w # zs)" using Cons.prems by simp
  ultimately show ?case using Cons.IH [of ?w] by simp
qed

lemma above_not_nan: "flt_lt t r \<Longrightarrow> r \<noteq> NaN"
  by (cases t) auto

text \<open>
  C32. On arrays of the same positive length the comparison raises \<^verbatim>\<open>ZeroDivisionError\<close> exactly when the
  threshold of the differences is zero. Otherwise it passes exactly when the share of elements without an error
  (\<open>is_error\<close>) reaches one minus the percentage threshold and no error reaches 0.1; when it fails, the errors
  it hands to the report are those elements, in order, with their relative differences.
\<close>

theorem compare_data_pass:
  assumes "length npu = length expect" and "0 < length npu"
  shows "case compare_data rd (thd, pct) npu expect of
      Inl e \<Rightarrow> e = ZeroDivisionError \<and> flt_eq thd (Fin 0)
    | Inr (res, shown) \<Rightarrow> \<not> flt_eq thd (Fin 0) \<and>
        (let n = length npu; bad = filter (is_error rd thd npu expect) [0..<n];
             pass = (flt_ge (fl_div (r64 rd) (Fin (of_int (int n - int (length bad)))) (Fin (of_int (int n))))
                       (fl_sub (r64 rd) (Fin 1) pct)
                     \<and> list_all (\<lambda>i. \<not> flt_ge (rel_error rd thd npu expect i) max_diff_hd) bad)
         in cr_result res = (if pass then ''Pass'' else ''Failed'')
           \<and> shown = (if pass then [] else map (\<lambda>i. (i, rel_error rd thd npu expect i)) bad))"
proof -
  let ?bad = "filter (is_error rd thd npu expect) [0..<length npu]"
  let ?errs = "map (\<lambda>i. (i, rel_error rd thd npu expect i)) ?bad"
  have "(?bad = [] \<or> \<not> flt_ge (py_max (map (rel_error rd thd npu expect) ?bad)) max_diff_hd)
      \<longleftrightarrow> list_all (\<lambda>i. \<not> flt_ge (rel_error rd thd npu expect i) max_diff_hd) ?bad"
  proof (cases ?bad)
    case (Cons e es)
    have "list_all (is_error rd thd npu expect) ?bad" by (simp add: list_all_iff)
    then have "list_all (\<lambda>x. x \<noteq> NaN) (map (rel_error rd thd npu expect) (e # es))"
      unfolding Cons using above_not_nan by (auto simp: list_all_iff is_error_def)
    with py_max_ge [of "rel_error rd thd npu expect e" "map (rel_error rd thd npu expect) es" max_diff_hd] Cons
    show ?thesis by (auto simp: list_all_iff list_ex_iff)
  qed simp
  with assms show ?thesis
    by (auto simp: compare_data_def get_compare_result_def get_data_size_pos get_error_percent_def Let_def
        err_pairs_eq comp_def)
qed

text \<open>
  An output of another size fails, an empty one passes against an empty expectation, and
  the maximum error is reported as zero whatever the data are.
\<close>

lemma compare_data_sizes:
  "length npu \<noteq> length expect \<Longrightarrow> \<exists>res. compare_data rd thr npu expect = Inr (res, []) \<and> cr_result res = ''Failed''"
  "\<exists>res. compare_data rd thr [] [] = Inr (res, []) \<and> cr_result res = ''Pass''"
  "compare_data rd thr npu expect = Inr (res, shown) \<Longrightarrow> cr_max_error res = 0"
  by (auto simp: compare_data_def get_compare_result_def Let_def split: if_splits prod.splits)

section \<open>Infinite and undefined outputs\<close>

lemma nonfinite_diff:
  assumes "a \<in> {NaN, PInf, NInf}"
  shows "\<not> flt_lt (Fin 0) (fl_abs (fl_sub r a b)) \<or> fl_abs (fl_sub r a b) = PInf"
  using assms by (cases b) (auto simp: fl_sub_def)

text \<open>
  An infinite difference is divided by an infinite magnitude, which is NaN, and NaN is not
  above the threshold.
\<close>

lemma nonfinite_no_error:
  assumes "npu \<in> {NaN, PInf, NInf}"
  shows "\<not> flt_lt t (relative_diff rd thd dd npu expect)"
proof -
  have nan: "\<not> flt_lt s NaN" for s by (cases s) auto
  have inf: "\<not> flt_lt PInf s" "\<not> flt_lt NaN s" for s by (cases s; simp)+
  show ?thesis
  proof (cases "fl_abs (fl_sub (r32 rd) npu expect) = PInf")
    case True
    then have "npu \<noteq> NaN" "expect \<noteq> NaN" by (cases npu; auto simp: fl_sub_def)+
    with assms have mx: "fl_max (fl_abs npu) (fl_abs expect) = PInf"
      by (cases expect) (auto simp: fl_max_def)
    have "fl_add (r32 rd) (fl_max PInf y) z \<in> {PInf, NaN}" for y z
      by (cases y; cases z) (auto simp: fl_max_def)
    then have "fl_div (r32 rd) PInf (fl_add (r32 rd) (fl_max PInf y) z) = NaN" for y z
      by (metis fl_div.simps(2,7) insertE singletonD fl_div.simps pyfloat.distinct)
    with True mx nan inf show ?thesis by (simp add: relative_diff_def Let_def)
  next
    case False
    with assms have "fl_abs (fl_sub (r32 rd) npu expect) = NaN"
      by (cases expect) (auto simp: fl_sub_def)
    with nan inf show ?thesis by (simp add: relative_diff_def Let_def)
  qed
qed

definition nonfinite :: "pyfloat \<Rightarrow> bool" where
  "nonfinite v \<longleftrightarrow> v = NaN \<or> v = PInf \<or> v = NInf"

lemma equal_no_diff:
  "r 0 = Fin 0 \<Longrightarrow> \<not> flt_lt (Fin 0) (fl_abs (fl_sub r x x))"
  by (cases x) (auto simp: fl_sub_def)

lemma no_errors:
  assumes "r32 rd 0 = Fin 0" and "list_all2 (\<lambda>a b. nonfinite a \<or> a = b) npu expect" and "i < length npu"
  shows "\<not> is_error rd thd npu expect i"
proof -
  from assms(2,3) consider "nonfinite (npu ! i)" | "npu ! i = expect ! i"
    by (auto simp: list_all2_conv_all_nth)
  then show ?thesis
  proof cases
    case 1
    then have "fl_round (r32 rd) (npu ! i) \<in> {NaN, PInf, NInf}" by (auto simp: nonfinite_def)
    from nonfinite_no_error [OF this] show ?thesis by (simp add: is_error_def rel_error_def)
  next
    case 2
    with equal_no_diff [where r = "r32 rd", OF assms(1)] show ?thesis by (simp add: is_error_def)
  qed
qed

lemma share_of_all:
  "0 < n \<Longrightarrow> r 1 = Fin 1 \<Longrightarrow> fl_div r (Fin (of_int (int n))) (Fin (of_int (int n))) = Fin 1"
  by simp

text \<open>
  The comparison does not see an output that is infinite or not a number: if every element
  of the output is NaN, infinite, or equal to the expected one, the result is a pass,
  whatever was expected.
\<close>

lemma nonfinite_output_passes:
  assumes "list_all2 (\<lambda>a b. nonfinite a \<or> a = b) npu expect" and "npu \<noteq> []" and "\<not> flt_eq thd (Fin 0)"
    and "r32 rd 0 = Fin 0" and "r64 rd 1 = Fin 1"
    and "flt_ge (Fin 1) (fl_sub (r64 rd) (Fin 1) pct)"
  shows "\<exists>res. compare_data rd (thd, pct) npu expect = Inr (res, []) \<and> cr_result res = ''Pass''"
proof -
  have len: "length npu = length expect" using assms(1) by (rule list_all2_lengthD)
  have "filter (is_error rd thd npu expect) [0..<length npu] = []"
    using no_errors [OF assms(4,1)] by (simp add: filter_empty_conv)
  then have "err_pairs rd thd npu expect = Inr []" using err_pairs_eq [OF len] assms(3) by simp
  then show ?thesis
    using assms(2,5,6) len share_of_all [of "length npu" "r64 rd"]
    by (simp add: compare_data_def get_compare_result_def get_data_size_pos get_error_percent_def Let_def)
qed

definition exact :: rounding where
  "exact = \<lparr>r32 = Fin, r64 = Fin\<rparr>"

lemma nonfinite_ex:
  "\<exists>res. compare_data exact (Fin (1 / 100), Fin (1 / 20)) [NaN, PInf] [Fin 1, Fin 2] = Inr (res, [])
     \<and> cr_result res = ''Pass''"
  by (rule nonfinite_output_passes)
     (simp_all add: nonfinite_def exact_def fl_sub_def flt_ge_def)

text \<open>The threshold zero, which the check of the arguments accepts, stops every comparison of arrays with elements.\<close>

lemma zero_threshold_raises: "compare_data exact (Fin 0, pct) [Fin 1] [Fin 2] = Inl ZeroDivisionError"
  by (simp add: compare_data_def get_compare_result_def get_data_size_pos get_error_percent_def err_pairs_eq)

lemma compare_ex_bad:
  "filter (is_error exact (Fin (1 / 100)) [Fin 1, Fin 2] [Fin 1, Fin 3]) [0..<2] = [1]"
  by (simp add: is_error_def rel_error_def exact_def fl_sub_def relative_diff_def Let_def fl_max_def upt_rec)

theorem compare_data_pass_witness:
  "\<exists>res e. compare_data exact (Fin (1 / 100), Fin (1 / 20)) [Fin 1, Fin 2] [Fin 1, Fin 3] = Inr (res, [(1, e)])
     \<and> cr_result res = ''Failed''"
proof -
  have "length [Fin 1, Fin 2] = length [Fin 1, Fin 3]" "0 < length [Fin 1, Fin 2]" by simp_all
  note spec = compare_data_pass [OF this, where rd = exact and thd = "Fin (1 / 100)" and pct = "Fin (1 / 20)"]
  have "fl_div (r64 exact) (Fin (of_int (int 2 - int (length [1 :: nat])))) (Fin (of_int (int 2))) = Fin (1 / 2)"
    "\<not> flt_ge (Fin (1 / 2)) (fl_sub (r64 exact) (Fin 1) (Fin (1 / 20)))"
    by (simp_all add: exact_def fl_sub_def flt_ge_def)
  with spec show ?thesis
    by (cases "compare_data exact (Fin (1 / 100), Fin (1 / 20)) [Fin 1, Fin 2] [Fin 1, Fin 3]")
       (auto simp: compare_ex_bad Let_def numeral_2_eq_2 [symmetric] split: prod.splits)
qed

section \<open>The files of the error report\<close>

lemma csv_chunk_eq: "csv_chunk m rows i = take m (drop (i * m) rows)"
  by (auto simp: csv_chunk_def algebra_simps)

lemma csv_chunks_prefix:
  "concat (map (csv_chunk m rows) [0..<k]) = take (k * m) rows"
proof (induction k)
  case 0
  then show ?case by simp
next
  case (Suc k)
  have "take (k * m) rows @ take m (drop (k * m) rows) = take (k * m + m) rows"
    by (simp add: take_add)
  then show ?case by (simp add: Suc) (simp add: csv_chunk_eq add.commute)
qed

lemma csv_files_enough: "0 < m \<Longrightarrow> n \<le> csv_file_count m n * m"
proof -
  assume m: "0 < m"
  have "n + m - 1 = csv_file_count m n * m + (n + m - 1) mod m"
    by (simp add: csv_file_count_def)
  moreover have "(n + m - 1) mod m \<le> m - 1" using m by (simp add: less_Suc_eq_le [symmetric])
  ultimately show ?thesis using m by linarith
qed

text \<open>
  Splitting the error report over several files loses and repeats no row, keeps their
  order, and no file exceeds 50000 rows; a report that fits is written as one file.
\<close>

theorem csv_files_partition:
  "concat (map snd (save_data_to_csv csv_path rows)) = rows
   \<and> list_all (\<lambda>(f, chunk). length chunk \<le> 50000) (save_data_to_csv csv_path rows)
   \<and> distinct (map fst (save_data_to_csv csv_path rows))"
proof -
  have "concat (map snd (save_data_to_multi_csv csv_path rows))
      = take (csv_file_count CSV_MAX_LINE (length rows) * CSV_MAX_LINE) rows"
    by (simp add: save_data_to_multi_csv_def comp_def csv_chunks_prefix)
  moreover have "length rows \<le> csv_file_count CSV_MAX_LINE (length rows) * CSV_MAX_LINE"
    by (rule csv_files_enough) (simp add: CSV_MAX_LINE_def)
  moreover have "distinct (map fst (save_data_to_multi_csv csv_path rows))"
    by (simp add: save_data_to_multi_csv_def comp_def distinct_map inj_on_def str_nat_inj)
  ultimately show ?thesis
    by (auto simp: save_data_to_csv_def list_all_iff save_data_to_multi_csv_def csv_chunk_eq
        CSV_MAX_LINE_def)
qed

end
