(* ===== verification/Dynamic_Handle.thy ===== *)
theory Dynamic_Handle
  imports Utils
begin

text \<open>
  Dynamic shapes, \<^verbatim>\<open>src/main/dynamic_handle.py\<close>: a dimension -1 or -2 makes a shape
  dynamic, and the test then runs with the typical shape.
\<close>

definition dynamic_dims :: "pyval list" where
  "dynamic_dims = [PyInt SHAPE_DYNAMIC_SCENARIOS_ONE, PyInt SHAPE_DYNAMIC_SCENARIOS_TWO]"

definition check_typical_dim :: "pyval \<Rightarrow> unit res" where
  "check_typical_dim dm =
     bindE (raise_if (\<not> is_int dm) err_data) (\<lambda>_.
     bindE (py_lt dm (PyInt 0)) (\<lambda>b. raise_if b err_data))"

definition check_typical_shape_valid :: "pyval \<Rightarrow> unit res" where
  "check_typical_shape_valid typical_shape =
     bindE (py_iter typical_shape) (\<lambda>dims. forE check_typical_dim dims)"

definition check_dynamic_shape :: "pyval \<Rightarrow> int" where
  "check_dynamic_shape dm = (if py_in dm dynamic_dims then 1 else 0)"

definition dynamic_count :: "pyval \<Rightarrow> int" where
  "dynamic_count dm =
     (case dm of PyList items \<Rightarrow> sum_list (map check_dynamic_shape items) | _ \<Rightarrow> 0)
     + (if is_int dm then check_dynamic_shape dm else 0)"

definition check_not_dynamic_shape :: "pyval \<Rightarrow> pyval res" where
  "check_not_dynamic_shape shape_list =
     (if \<not> truthy shape_list then Inr (PyStr '''')
      else bindE (py_iter shape_list) (\<lambda>dims.
             Inr (PyInt (sum_list (map dynamic_count dims)))))"

text \<open>One round of the loop over the dimensions of the current shape.\<close>

definition set_typical_shape_dim :: "pydict \<Rightarrow> pydict \<Rightarrow> pyval \<Rightarrow> pydict res" where
  "set_typical_shape_dim tensor cur_params dm =
     (if py_in dm dynamic_dims then
        (let typical_shape_list = dget tensor TYPICAL_SHAPE in
         bindE (raise_if (typical_shape_list = PyNone)
                  (OpTestGenException OP_TEST_GEN_NONE_TYPICAL_SHAPE_ERROR)) (\<lambda>_.
         bindE (py_index typical_shape_list 0) (\<lambda>first.
           (let cur_params = dset cur_params TYPICAL_SHAPE first in
            if py_eq dm (PyInt SHAPE_DYNAMIC_SCENARIOS_TWO)
               \<and> truthy (dget cur_params SHAPE_RANGE)
            then Inr (dpop cur_params SHAPE_RANGE) else Inr cur_params))))
      else Inr cur_params)"

definition set_typical_shape_in_cur_params :: "pydict \<Rightarrow> pydict \<Rightarrow> pydict res" where
  "set_typical_shape_in_cur_params cur_params tensor =
     bindE (py_iter (dget cur_params ''shape'')) (\<lambda>dims.
       foldE (set_typical_shape_dim tensor) cur_params dims)"

text \<open>\<^verbatim>\<open>len\<close> of the typical shape only decides a warning, but it can raise.\<close>

definition replace_shape_to_typical_shape :: "pydict \<Rightarrow> pyval res" where
  "replace_shape_to_typical_shape op_desc_dict =
     (if dget op_desc_dict TYPICAL_SHAPE \<noteq> PyNone
      then bindE (py_len (dget op_desc_dict TYPICAL_SHAPE)) (\<lambda>_.
             Inr (dget op_desc_dict TYPICAL_SHAPE))
      else Inr (dget op_desc_dict ''shape''))"

section \<open>Lemmas\<close>

fun int_view :: "pyval \<Rightarrow> int" where
  "int_view (PyInt i) = i" | "int_view (PyBool b) = (if b then 1 else 0)" | "int_view _ = 0"

lemma py_lt_int: "is_int v \<Longrightarrow> py_lt v (PyInt n) = Inr (int_view v < n)"
  by (cases v) (auto simp: py_lt_def)

lemma num_view_int: "is_int v \<Longrightarrow> num_view v = Some (Fin (of_int (int_view v)))"
  by (cases v) auto

definition typical_dim_ok :: "pyval \<Rightarrow> bool" where
  "typical_dim_ok v \<longleftrightarrow> is_int v \<and> 0 \<le> int_view v"

interpretation typical: elem_check check_typical_dim typical_dim_ok err_data
  by unfold_locales
     (auto simp: check_typical_dim_def typical_dim_ok_def py_lt_int raise_if_def)

text \<open>A dimension that makes its shape dynamic, as an integer.\<close>

definition is_dynamic_dim :: "pyval \<Rightarrow> bool" where
  "is_dynamic_dim v \<longleftrightarrow> is_int v \<and> (int_view v = -1 \<or> int_view v = -2)"

lemma py_in_dynamic: "is_int v \<Longrightarrow> py_in v dynamic_dims \<longleftrightarrow> is_dynamic_dim v"
  by (simp add: py_in_def dynamic_dims_def is_dynamic_dim_def num_view_int)
     (metis of_int_eq_iff of_int_minus of_int_1 of_int_numeral)

lemma dynamic_count_nonneg: "0 \<le> dynamic_count v"
  by (auto simp: dynamic_count_def check_dynamic_shape_def split: pyval.split intro!: sum_list_nonneg)

lemma dynamic_count_int: "is_int v \<Longrightarrow> dynamic_count v = (if is_dynamic_dim v then 1 else 0)"
  by (cases v) (simp_all add: dynamic_count_def check_dynamic_shape_def py_in_dynamic)

lemma check_not_dynamic_shape_ints:
  "list_all is_int dims \<Longrightarrow>
     check_not_dynamic_shape (PyList dims) =
       Inr (if dims = [] then PyStr '''' else PyInt (int (length (filter is_dynamic_dim dims))))"
proof -
  have "sum_list (map dynamic_count dims) = int (length (filter is_dynamic_dim dims))"
    if "list_all is_int dims" for dims
    using that by (induction dims) (simp_all add: dynamic_count_int)
  then show "list_all is_int dims \<Longrightarrow> ?thesis" by (simp add: check_not_dynamic_shape_def)
qed

text \<open>
  A list of integers counts as dynamic exactly when one of its dimensions is -1 or -2.
\<close>

theorem dynamic_shape_exact:
  assumes "list_all is_int dims"
  shows "\<exists>v. check_not_dynamic_shape (PyList dims) = Inr v
    \<and> (truthy v \<longleftrightarrow> list_ex (\<lambda>d. is_int d \<and> (int_view d = -1 \<or> int_view d = -2)) dims)"
proof -
  have "(0 < length (filter is_dynamic_dim dims)) \<longleftrightarrow> list_ex is_dynamic_dim dims"
    by (simp add: filter_empty_conv list_ex_iff)
  then show ?thesis
    using assms by (auto simp: check_not_dynamic_shape_ints is_dynamic_dim_def [abs_def])
qed

theorem dynamic_shape_exact_witness:
  "\<exists>v. check_not_dynamic_shape (PyList [PyInt 4, PyInt (-2)]) = Inr v \<and> truthy v"
  using dynamic_shape_exact [of "[PyInt 4, PyInt (-2)]"] by simp

text \<open>
  The state of the loop in \<^verbatim>\<open>set_typical_shape_in_cur_params\<close>: after some dimensions,
  the typical shape is set when one of them was dynamic, and the range is gone when one of
  them was -2 (a range that is empty stays).
\<close>

lemma set_typical_shape_keeps:
  assumes "foldE (set_typical_shape_dim tensor) p dims = Inr p'"
    and "k \<noteq> TYPICAL_SHAPE" and "k \<noteq> SHAPE_RANGE"
  shows "dget p' k = dget p k"
  using assms(1)
proof (rule foldE_inv [where P = "\<lambda>q. dget q k = dget p k"])
  fix s x s'
  assume "dget s k = dget p k" and "set_typical_shape_dim tensor s x = Inr s'"
  with assms(2,3) show "dget s' k = dget p k"
    by (auto simp: set_typical_shape_dim_def Let_def split: if_splits)
qed simp

lemma set_typical_shape_static:
  "list_all (\<lambda>d. \<not> py_in d dynamic_dims) dims \<Longrightarrow>
     foldE (set_typical_shape_dim tensor) p dims = Inr p"
  by (induction dims) (simp_all add: set_typical_shape_dim_def)

lemma set_typical_shape_stays:
  assumes "foldE (set_typical_shape_dim tensor) p dims = Inr p'"
    and "dget p TYPICAL_SHAPE = first" and "py_index (dget tensor TYPICAL_SHAPE) 0 = Inr first"
  shows "dget p' TYPICAL_SHAPE = first"
  using assms(1)
proof (rule foldE_inv [where P = "\<lambda>q. dget q TYPICAL_SHAPE = first"])
  fix s x s'
  assume "dget s TYPICAL_SHAPE = first" and "set_typical_shape_dim tensor s x = Inr s'"
  with assms(3) show "dget s' TYPICAL_SHAPE = first"
    by (auto simp: set_typical_shape_dim_def Let_def split: if_splits)
qed (simp add: assms(2))

lemma set_typical_shape_loop:
  assumes "foldE (set_typical_shape_dim tensor) p dims = Inr p'"
    and "list_ex (\<lambda>d. py_in d dynamic_dims) dims"
  shows "\<exists>first. py_index (dget tensor TYPICAL_SHAPE) 0 = Inr first \<and> dget p' TYPICAL_SHAPE = first"
  using assms
proof (induction dims arbitrary: p)
  case Nil
  then show ?case by simp
next
  case (Cons d dims)
  from Cons.prems(1) obtain q where q: "set_typical_shape_dim tensor p d = Inr q"
    "foldE (set_typical_shape_dim tensor) q dims = Inr p'" by auto
  show ?case
  proof (cases "py_in d dynamic_dims")
    case True
    with q(1) obtain first where first: "py_index (dget tensor TYPICAL_SHAPE) 0 = Inr first"
      "dget q TYPICAL_SHAPE = first"
      by (auto simp: set_typical_shape_dim_def Let_def split: if_splits)
    from set_typical_shape_stays [OF q(2) first(2,1)] first(1) show ?thesis by blast
  next
    case False
    with Cons.prems(2) have "list_ex (\<lambda>d. py_in d dynamic_dims) dims" by simp
    with Cons.IH q(2) show ?thesis by blast
  qed
qed

text \<open>
  When the current shape has a dynamic dimension and the call returns, the parameters hold
  the first typical shape of the tensor and are otherwise unchanged, up to the shape range;
  a static shape leaves them alone.
\<close>

theorem set_typical_shape_spec:
  assumes "set_typical_shape_in_cur_params p tensor = Inr p'" and "dget p ''shape'' = PyList dims"
  shows "(if list_ex (\<lambda>d. py_in d dynamic_dims) dims
          then py_index (dget tensor TYPICAL_SHAPE) 0 = Inr (dget p' TYPICAL_SHAPE)
          else p' = p)
    \<and> dget p' ''shape'' = PyList dims \<and> dget p' ''format'' = dget p ''format''
    \<and> dget p' ''type'' = dget p ''type''"
proof -
  from assms have loop: "foldE (set_typical_shape_dim tensor) p dims = Inr p'"
    by (simp add: set_typical_shape_in_cur_params_def)
  note keep = set_typical_shape_keeps [OF loop]
  have "dget p' ''shape'' = PyList dims" "dget p' ''format'' = dget p ''format''"
    "dget p' ''type'' = dget p ''type''"
    using keep [of "''shape''"] keep [of "''format''"] keep [of "''type''"] assms(2) by simp_all
  moreover have "p' = p" if "\<not> list_ex (\<lambda>d. py_in d dynamic_dims) dims"
    using set_typical_shape_static [of dims tensor p] loop that
    by (simp add: list_ex_iff list_all_iff)
  ultimately show ?thesis using set_typical_shape_loop [OF loop] by auto
qed

definition dyn_params :: pydict where
  "dyn_params = [(''format'', PyStr ''ND''), (''shape'', PyList [PyInt 2, PyInt (-2)]),
     (''type'', PyStr ''float''), (''shape_range'', PyList [PyInt 1])]"

definition dyn_tensor :: pydict where
  "dyn_tensor = [(''typical_shape'', PyList [PyList [PyInt 2, PyInt 8]])]"

lemma dyn_params_run:
  "set_typical_shape_in_cur_params dyn_params dyn_tensor =
     Inr [(''format'', PyStr ''ND''), (''shape'', PyList [PyInt 2, PyInt (-2)]),
       (''type'', PyStr ''float''), (''typical_shape'', PyList [PyInt 2, PyInt 8])]"
  by (simp add: set_typical_shape_in_cur_params_def dyn_params_def dyn_tensor_def py_in_def
      set_typical_shape_dim_def dynamic_dims_def dset_def dpop_def)

theorem set_typical_shape_spec_witness:
  "py_index (dget dyn_tensor TYPICAL_SHAPE) 0 = Inr (PyList [PyInt 2, PyInt 8])"
  using set_typical_shape_spec [OF dyn_params_run, of "[PyInt 2, PyInt (-2)]"]
  by (simp add: dyn_params_def py_in_def dynamic_dims_def)

end
