(* ===== verification/St_Report.thy ===== *)
theory St_Report
  imports Utils
begin

text \<open>
  The report of a test run: \<^verbatim>\<open>src/main/op_st_case_info.py\<close> and
  \<^verbatim>\<open>src/main/st_report.py\<close>. Stage results are mutable objects that the code shares
  between the traces of several cases (one object is appended to every trace in a loop), so
  the report holds a store of stage objects and a trace holds references into it.
\<close>

section \<open>Stage results, case information and traces\<close>

text \<open>The names of \<^verbatim>\<open>src/main/op_status.py\<close>.\<close>

abbreviation (input) SUCCESS :: string where "SUCCESS \<equiv> ''success''"
abbreviation (input) FAILED :: string where "FAILED \<equiv> ''failed''"

record op_st_case =
  case_name :: pyval
  op_params :: pyval
  input_data_paths :: pyval
  planned_output_data_paths :: pyval
  expect_data_paths :: pyval

definition new_case :: "pyval \<Rightarrow> pyval \<Rightarrow> op_st_case" where
  "new_case name params =
     \<lparr>case_name = name, op_params = params, input_data_paths = PyNone,
      planned_output_data_paths = PyNone, expect_data_paths = PyNone\<rparr>"

definition case_to_json :: "op_st_case \<Rightarrow> pydict" where
  "case_to_json c =
     [(''case_name'', case_name c), (''op_params'', op_params c),
      (''input_data_path'', input_data_paths c),
      (''expect_data_paths'', expect_data_paths c),
      (''planned_output_data_paths'', planned_output_data_paths c)]"

text \<open>
  \<^verbatim>\<open>OpSTCase.parser_json_obj\<close> on a non-empty object (an empty one gives the text
  \<^verbatim>\<open>""\<close>, which its caller cannot use). The input path is read with an index, so a
  missing key raises.
\<close>

definition case_of_json :: "pydict \<Rightarrow> op_st_case res" where
  "case_of_json j =
     bindE (raise_if (j = []) AttributeError) (\<lambda>_.
     bindE (ditem j ''input_data_path'') (\<lambda>ip.
       Inr \<lparr>case_name = dget j ''case_name'', op_params = dget j ''op_params'',
            input_data_paths = ip,
            planned_output_data_paths = dget j ''planned_output_data_paths'',
            expect_data_paths = dget j ''expect_data_paths''\<rparr>))"

record stage =
  sr_status :: pyval
  sr_result :: pyval
  sr_stage_name :: pyval
  sr_cmd :: pyval

definition stage_is_success :: "stage \<Rightarrow> bool" where
  "stage_is_success s \<longleftrightarrow> sr_status s = PyStr SUCCESS"

definition stage_to_json :: "stage \<Rightarrow> pydict" where
  "stage_to_json s =
     (if truthy (sr_cmd s)
      then [(''status'', sr_status s), (''result'', sr_result s),
            (''stage_name'', sr_stage_name s), (''cmd'', sr_cmd s)]
      else [(''status'', sr_status s), (''result'', sr_result s),
            (''stage_name'', sr_stage_name s)])"

definition stage_of_json :: "pydict \<Rightarrow> stage" where
  "stage_of_json j =
     (if truthy (dget j ''cmd'')
      then \<lparr>sr_status = dget j ''status'', sr_result = dget j ''result'',
            sr_stage_name = dget j ''stage_name'', sr_cmd = dget j ''cmd''\<rparr>
      else \<lparr>sr_status = dget j ''status'', sr_result = dget j ''result'',
            sr_stage_name = dget j ''stage_name'', sr_cmd = PyNone\<rparr>)"

type_synonym store = "stage list"

record case_trace =
  st_case_info :: op_st_case
  stage_result :: "nat list"

text \<open>
  \<^verbatim>\<open>OpSTCaseTrace.add_stage_result\<close>: objects of the same stage name already in the
  trace are overwritten, and the new object is appended as well. References are those of
  objects that were allocated, so they are indices of the store.
\<close>

definition overwrite :: "stage \<Rightarrow> stage \<Rightarrow> stage" where
  "overwrite new old =
     (if sr_stage_name old = sr_stage_name new
      then old\<lparr>sr_result := sr_result new, sr_cmd := sr_cmd new, sr_status := sr_status new\<rparr>
      else old)"

definition overwrite_at :: "stage \<Rightarrow> nat \<Rightarrow> store \<Rightarrow> store" where
  "overwrite_at new r st = (if r < length st then st[r := overwrite new (st ! r)] else st)"

definition add_stage_result :: "nat \<Rightarrow> store \<Rightarrow> case_trace \<Rightarrow> store \<times> case_trace" where
  "add_stage_result ref st tr =
     (fold (overwrite_at (st ! ref)) (stage_result tr) st,
      tr\<lparr>stage_result := stage_result tr @ [ref]\<rparr>)"

section \<open>Case reports and the report\<close>

record case_report =
  rpt_case_name :: pyval
  rpt_status :: string
  trace_detail :: case_trace
  rpt_expect :: string

definition new_case_report :: "case_trace \<Rightarrow> case_report" where
  "new_case_report tr =
     \<lparr>rpt_case_name = case_name (st_case_info tr), rpt_status = SUCCESS,
      trace_detail = tr, rpt_expect = EXPECT_SUCCESS\<rparr>"

text \<open>\<^verbatim>\<open>update_case_status\<close> only ever lowers the status.\<close>

definition update_case_status :: "store \<Rightarrow> case_report \<Rightarrow> case_report" where
  "update_case_status st r =
     fold (\<lambda>ref r. if \<not> stage_is_success (st ! ref) then r\<lparr>rpt_status := FAILED\<rparr> else r)
       (stage_result (trace_detail r)) r"

text \<open>
  \<^verbatim>\<open>update_case_expect\<close>: the name of the parent case is what precedes the last
  marker; with no marker at all \<^verbatim>\<open>rfind\<close> returns -1 and the slice drops the last
  character. A case name that is not a text raises in the membership test.
\<close>

definition parent_case_name :: "string \<Rightarrow> string" where
  "parent_case_name name =
     (let marker = (if s_contains name ''_sub_case'' then ''_sub_case''
                    else if s_contains name ''_fuzz_case'' then ''_fuzz_case''
                    else ''_case'')
      in case s_rfind name marker of Some i \<Rightarrow> take i name | None \<Rightarrow> butlast name)"

definition update_case_expect :: "(string \<times> string) list \<Rightarrow> case_report \<Rightarrow> case_report res" where
  "update_case_expect expect_dict r =
     (case rpt_case_name r of
        PyStr name \<Rightarrow>
          Inr (if map_of expect_dict (parent_case_name name) = Some EXPECT_FAILED
               then r\<lparr>rpt_expect := EXPECT_FAILED\<rparr> else r)
      | _ \<Rightarrow> Inl TypeError)"

record st_report =
  run_cmd :: pyval
  total_cnt :: int
  failed_cnt :: int
  success_cnt :: int
  report_list :: "case_report list"
  expect_dict :: "(string \<times> string) list"
  stages :: store

definition new_report :: "pyval \<Rightarrow> st_report" where
  "new_report cmd = \<lparr>run_cmd = cmd, total_cnt = 0, failed_cnt = 0, success_cnt = 0,
     report_list = [], expect_dict = [], stages = []\<rparr>"

definition add_case_report :: "st_report \<Rightarrow> case_report \<Rightarrow> st_report" where
  "add_case_report rpt c = rpt\<lparr>report_list := report_list rpt @ [c]\<rparr>"

text \<open>\<^verbatim>\<open>get_case_report\<close> returns \<^verbatim>\<open>""\<close> unless exactly one report has the name.\<close>

definition get_case_report :: "st_report \<Rightarrow> pyval \<Rightarrow> case_report option" where
  "get_case_report rpt name =
     (case filter (\<lambda>x. py_eq (rpt_case_name x) name) (report_list rpt) of
        [c] \<Rightarrow> Some c | _ \<Rightarrow> None)"

definition update_cnt :: "st_report \<Rightarrow> case_report \<Rightarrow> st_report" where
  "update_cnt rpt c =
     (let rpt = rpt\<lparr>total_cnt := total_cnt rpt + 1\<rparr> in
      if rpt_status c = rpt_expect c then rpt\<lparr>success_cnt := success_cnt rpt + 1\<rparr>
      else rpt\<lparr>failed_cnt := failed_cnt rpt + 1\<rparr>)"

text \<open>
  \<^verbatim>\<open>set_expect\<close> on the loaded list of cases: every case gets the default, a valid
  \<^verbatim>\<open>expect\<close> entry replaces it.
\<close>

definition set_expect_case :: "(string \<times> string) list \<Rightarrow> pydict \<Rightarrow> (string \<times> string) list res" where
  "set_expect_case ed op_case =
     (case dget op_case CASE_NAME of
        PyStr name \<Rightarrow>
          (let ed = dset ed name EXPECT_SUCCESS in
           if dhas op_case ''expect'' then
             (case dget op_case ''expect'' of
                PyStr v \<Rightarrow> Inr (if v = EXPECT_SUCCESS \<or> v = EXPECT_FAILED then dset ed name v else ed)
              | _ \<Rightarrow> Inr ed)
           else Inr ed)
      | _ \<Rightarrow> Inl TypeError)"

definition set_expect :: "st_report \<Rightarrow> pydict list \<Rightarrow> st_report res" where
  "set_expect rpt cases =
     bindE (foldE set_expect_case (expect_dict rpt) cases) (\<lambda>ed.
       Inr (rpt\<lparr>expect_dict := ed\<rparr>))"

text \<open>The loop of \<^verbatim>\<open>_summary_txt\<close>: each case is updated in place, then counted.\<close>

definition summarise_case :: "st_report \<times> case_report list \<Rightarrow> case_report \<Rightarrow>
    (st_report \<times> case_report list) res" where
  "summarise_case acc c =
     bindE (update_case_expect (expect_dict (fst acc)) (update_case_status (stages (fst acc)) c))
       (\<lambda>c'. Inr (update_cnt (fst acc) c', snd acc @ [c']))"

definition summary :: "st_report \<Rightarrow> st_report res" where
  "summary rpt =
     bindE (foldE summarise_case (rpt, []) (report_list rpt)) (\<lambda>(rpt', cs).
       Inr (rpt'\<lparr>report_list := cs\<rparr>))"

definition summary_to_json :: "st_report \<Rightarrow> (string \<times> int) list" where
  "summary_to_json rpt =
     [(''test case count'', total_cnt rpt), (''success count'', success_cnt rpt),
      (''failed count'', failed_cnt rpt)]"

section \<open>JSON of traces, case reports and reports\<close>

definition trace_to_json :: "store \<Rightarrow> case_trace \<Rightarrow> pydict" where
  "trace_to_json st tr =
     [(''st_case_info'', PyDict (case_to_json (st_case_info tr))),
      (''stage_result'', PyList (map (\<lambda>r. PyDict (stage_to_json (st ! r))) (stage_result tr)))]"

definition case_report_to_json :: "store \<Rightarrow> case_report \<Rightarrow> pydict" where
  "case_report_to_json st r =
     [(''case_name'', rpt_case_name r), (''status'', PyStr (rpt_status r)),
      (''expect'', PyStr (rpt_expect r)),
      (''trace_detail'', PyDict (trace_to_json st (trace_detail r)))]"

definition report_to_json :: "st_report \<Rightarrow> pydict" where
  "report_to_json rpt =
     [(''run_cmd'', run_cmd rpt),
      (''report_list'', PyList (map (\<lambda>c. PyDict (case_report_to_json (stages rpt) c))
                                  (report_list rpt))),
      (''summary'', PyDict (map (\<lambda>(k, n). (k, PyInt n)) (summary_to_json rpt)))]"

text \<open>
  Parsing allocates one new object per stage entry. The model raises \<^verbatim>\<open>AttributeError\<close>
  where the code would go on with an empty text in place of a trace.
\<close>

definition stages_of_json :: "pyval \<Rightarrow> stage list res" where
  "stages_of_json v =
     bindE (py_iter v) (\<lambda>objs. bindE (mapE as_dict objs) (\<lambda>ds. Inr (map stage_of_json ds)))"

definition trace_of_json :: "store \<Rightarrow> pydict \<Rightarrow> (store \<times> case_trace) res" where
  "trace_of_json st j =
     bindE (raise_if (j = []) AttributeError) (\<lambda>_.
     bindE (as_dict (dget j ''st_case_info'')) (\<lambda>ci.
     bindE (case_of_json ci) (\<lambda>c.
     bindE (stages_of_json (dget j ''stage_result'')) (\<lambda>ss.
       Inr (st @ ss, \<lparr>st_case_info = c, stage_result = [length st..<length st + length ss]\<rparr>)))))"

definition load_case :: "st_report \<Rightarrow> pyval \<Rightarrow> st_report res" where
  "load_case rpt obj =
     bindE (as_dict obj) (\<lambda>cj.
     bindE (as_dict (dget cj ''trace_detail'')) (\<lambda>tj.
     bindE (trace_of_json (stages rpt) tj) (\<lambda>(st, tr).
       Inr (add_case_report (rpt\<lparr>stages := st\<rparr>) (new_case_report tr)))))"

definition load :: "st_report \<Rightarrow> pydict \<Rightarrow> st_report res" where
  "load rpt j =
     bindE (py_iter (dget j ''report_list'')) (\<lambda>objs.
       foldE load_case (rpt\<lparr>run_cmd := dget j ''run_cmd''\<rparr>) objs)"

section \<open>Operations on every case\<close>

text \<open>
  \<^verbatim>\<open>add_op_st_stage_result\<close> of \<^verbatim>\<open>AtcTransformOm\<close> and \<^verbatim>\<open>MsOpRunner\<close> (and the loop of
  \<^verbatim>\<open>_check_result_txt\<close>): one object, appended to the trace of every case.
\<close>

definition add_to_case :: "nat \<Rightarrow> store \<times> case_report list \<Rightarrow> case_report \<Rightarrow>
    store \<times> case_report list" where
  "add_to_case ref acc c =
     (let (st, tr) = add_stage_result ref (fst acc) (trace_detail c)
      in (st, snd acc @ [c\<lparr>trace_detail := tr\<rparr>]))"

definition add_op_st_stage_result :: "stage \<Rightarrow> st_report \<Rightarrow> st_report" where
  "add_op_st_stage_result s rpt =
     (let ref = length (stages rpt);
          (st, cs) = fold (\<lambda>c acc. add_to_case ref acc c) (report_list rpt) (stages rpt @ [s], [])
      in rpt\<lparr>stages := st, report_list := cs\<rparr>)"

text \<open>
  \<^verbatim>\<open>_add_op_st_stage_result\<close> of \<^verbatim>\<open>ResultCompare\<close>: a new object for the one case the
  reference \<open>i\<close> selects.
\<close>

definition add_case_stage_result :: "nat \<Rightarrow> stage \<Rightarrow> st_report \<Rightarrow> st_report" where
  "add_case_stage_result i s rpt =
     (if i < length (report_list rpt) then
        (let ref = length (stages rpt); c = report_list rpt ! i;
             (st, tr) = add_stage_result ref (stages rpt @ [s]) (trace_detail c)
         in rpt\<lparr>stages := st, report_list := (report_list rpt)[i := c\<lparr>trace_detail := tr\<rparr>]\<rparr>)
      else rpt)"

section \<open>Lemmas on the store\<close>

lemma length_overwrite_at [simp]: "length (overwrite_at new r st) = length st"
  by (simp add: overwrite_at_def)

lemma length_overwrites [simp]: "length (fold (overwrite_at new) rs st) = length st"
  by (induction rs arbitrary: st) simp_all

lemma overwrite_name [simp]: "sr_stage_name (overwrite new old) = sr_stage_name old"
  by (simp add: overwrite_def)

lemma overwrite_idem [simp]: "overwrite new (overwrite new old) = overwrite new old"
  by (simp add: overwrite_def)

lemma overwrite_at_nth:
  "i < length st \<Longrightarrow> overwrite_at new r st ! i = (if i = r then overwrite new (st ! i) else st ! i)"
  by (simp add: overwrite_at_def nth_list_update)

text \<open>A whole round of overwrites changes exactly the objects of the trace.\<close>

lemma overwrites_nth:
  "i < length st \<Longrightarrow>
     fold (overwrite_at new) rs st ! i = (if i \<in> set rs then overwrite new (st ! i) else st ! i)"
  by (induction rs arbitrary: st) (auto simp: overwrite_at_nth)

definition same_outcome :: "stage \<Rightarrow> stage \<Rightarrow> bool" where
  "same_outcome s t \<longleftrightarrow> sr_status s = sr_status t \<and> sr_result s = sr_result t \<and> sr_cmd s = sr_cmd t"

lemma overwrite_outcome: "sr_stage_name old = sr_stage_name new \<Longrightarrow> same_outcome (overwrite new old) new"
  by (simp add: overwrite_def same_outcome_def)

lemma overwrite_self [simp]: "overwrite s s = s"
  by (simp add: overwrite_def)

text \<open>References of a trace, and of a report, that point into the store.\<close>

definition refs_ok :: "store \<Rightarrow> case_trace \<Rightarrow> bool" where
  "refs_ok st tr \<longleftrightarrow> list_all (\<lambda>r. r < length st) (stage_result tr)"

definition report_ok :: "st_report \<Rightarrow> bool" where
  "report_ok rpt \<longleftrightarrow> list_all (\<lambda>c. refs_ok (stages rpt) (trace_detail c)) (report_list rpt)"

text \<open>The stages a trace shows, resolved in the store.\<close>

definition trace_stages :: "store \<Rightarrow> case_trace \<Rightarrow> stage list" where
  "trace_stages st tr = map ((!) st) (stage_result tr)"

lemma add_stage_result_refs:
  "refs_ok st tr \<Longrightarrow> ref < length st \<Longrightarrow> add_stage_result ref st tr = (st', tr') \<Longrightarrow>
     length st' = length st \<and> refs_ok st' tr' \<and> stage_result tr' = stage_result tr @ [ref]
     \<and> st_case_info tr' = st_case_info tr"
  by (auto simp: add_stage_result_def refs_ok_def)

lemma add_stage_result_nth:
  "i < length st \<Longrightarrow> add_stage_result ref st tr = (st', tr') \<Longrightarrow>
     st' ! i = (if i \<in> set (stage_result tr) then overwrite (st ! ref) (st ! i) else st ! i)"
  by (auto simp: add_stage_result_def overwrites_nth)

text \<open>
  \<^verbatim>\<open>add_stage_result\<close>: afterwards every entry of the trace that has the new
  entry's stage name shows the new entry's status, result and command, entries of other
  names are as before, and the trace is one entry longer.
\<close>

lemma add_stage_result_spec:
  assumes "refs_ok st tr" and "ref < length st" and "add_stage_result ref st tr = (st', tr')"
  shows "trace_stages st' tr' = map (overwrite (st ! ref)) (trace_stages st tr) @ [st ! ref]"
proof -
  note refs = add_stage_result_refs [OF assms]
  have "st' ! r = overwrite (st ! ref) (st ! r)" if "r \<in> set (stage_result tr)" for r
    using that assms by (simp add: add_stage_result_nth [OF _ assms(3)] refs_ok_def list_all_iff)
  moreover have "st' ! ref = st ! ref"
    by (simp add: add_stage_result_nth [OF assms(2,3)])
  ultimately show ?thesis using refs by (simp add: trace_stages_def)
qed

definition stage_ex :: "string \<Rightarrow> string \<Rightarrow> stage" where
  "stage_ex name status =
     \<lparr>sr_status = PyStr status, sr_result = PyNone, sr_stage_name = PyStr name, sr_cmd = PyNone\<rparr>"

definition trace_ex :: "string \<Rightarrow> nat list \<Rightarrow> case_trace" where
  "trace_ex name refs = \<lparr>st_case_info = new_case (PyStr name) (PyDict []), stage_result = refs\<rparr>"

section \<open>Status and summary\<close>

lemma update_case_status_fold:
  "fold (\<lambda>ref r. if \<not> stage_is_success (st ! ref) then r\<lparr>rpt_status := FAILED\<rparr> else r) refs r
     = (if list_all (\<lambda>ref. stage_is_success (st ! ref)) refs then r else r\<lparr>rpt_status := FAILED\<rparr>)"
  by (induction refs arbitrary: r) simp_all

text \<open>
  \<^verbatim>\<open>update_case_status\<close> marks a case failed exactly when some stage of its trace
  did not succeed, and changes nothing otherwise.
\<close>

lemma update_case_status_exact:
  "update_case_status st r =
     (if list_all stage_is_success (trace_stages st (trace_detail r)) then r
      else r\<lparr>rpt_status := FAILED\<rparr>)"
  by (simp add: update_case_status_def update_case_status_fold trace_stages_def list_all_iff)

definition final_case :: "st_report \<Rightarrow> case_report \<Rightarrow> case_report res" where
  "final_case rpt c = update_case_expect (expect_dict rpt) (update_case_status (stages rpt) c)"

definition passed :: "case_report \<Rightarrow> bool" where
  "passed c \<longleftrightarrow> rpt_status c = rpt_expect c"

lemma update_cnt_frame [simp]:
  "expect_dict (update_cnt rpt c) = expect_dict rpt" "stages (update_cnt rpt c) = stages rpt"
  "report_list (update_cnt rpt c) = report_list rpt" "run_cmd (update_cnt rpt c) = run_cmd rpt"
  by (simp_all add: update_cnt_def Let_def)

lemma update_cnt_counts:
  "total_cnt (update_cnt rpt c) = total_cnt rpt + 1"
  "success_cnt (update_cnt rpt c) = success_cnt rpt + (if passed c then 1 else 0)"
  "failed_cnt (update_cnt rpt c) = failed_cnt rpt + (if passed c then 0 else 1)"
  by (simp_all add: update_cnt_def Let_def passed_def)

lemma final_case_cong: "expect_dict rpt = expect_dict rpt' \<Longrightarrow> stages rpt = stages rpt' \<Longrightarrow>
    final_case rpt = final_case rpt'"
  by (rule ext) (simp add: final_case_def)

lemma summarise_case_final:
  "summarise_case (rpt, acc) c
     = bindE (final_case rpt c) (\<lambda>c'. Inr (update_cnt rpt c', acc @ [c']))"
  by (simp add: summarise_case_def final_case_def)

lemma summarise_all:
  "foldE summarise_case (rpt, acc) cs =
     bindE (mapE (final_case rpt) cs) (\<lambda>cs'. Inr (fold (\<lambda>c r. update_cnt r c) cs' rpt, acc @ cs'))"
proof (induction cs arbitrary: rpt acc)
  case Nil
  then show ?case by simp
next
  case (Cons c cs)
  have "final_case (update_cnt rpt c') = final_case rpt" for c'
    by (rule final_case_cong) simp_all
  then show ?case
    by (cases "final_case rpt c") (simp_all add: summarise_case_final Cons.IH bindE_assoc)
qed

lemma update_cnt_fold:
  "total_cnt (fold (\<lambda>c r. update_cnt r c) cs rpt) = total_cnt rpt + int (length cs)"
  "success_cnt (fold (\<lambda>c r. update_cnt r c) cs rpt)
     = success_cnt rpt + int (length (filter passed cs))"
  "failed_cnt (fold (\<lambda>c r. update_cnt r c) cs rpt)
     = failed_cnt rpt + int (length (filter (\<lambda>c. \<not> passed c) cs))"
  by (induction cs arbitrary: rpt) (auto simp: update_cnt_counts)

text \<open>
  \<^verbatim>\<open>_summary_txt\<close> adds the number of cases to the total, and the cases whose
  status equals their expectation, respectively differs from it, to the two other
  counters. Nothing resets the counters, so a second summary counts every case again.
\<close>

theorem summary_counts:
  assumes "summary rpt = Inr rpt'"
  shows "total_cnt rpt' = total_cnt rpt + int (length (report_list rpt))
    \<and> success_cnt rpt' = success_cnt rpt + int (length (filter passed (report_list rpt')))
    \<and> failed_cnt rpt' = failed_cnt rpt + int (length (filter (\<lambda>c. \<not> passed c) (report_list rpt')))
    \<and> mapE (final_case rpt) (report_list rpt) = Inr (report_list rpt')"
proof -
  from assms obtain cs where cs: "mapE (final_case rpt) (report_list rpt) = Inr cs"
    and rpt': "rpt' = (fold (\<lambda>c r. update_cnt r c) cs rpt)\<lparr>report_list := cs\<rparr>"
    by (auto simp: summary_def summarise_all)
  from cs have "length cs = length (report_list rpt)" by (rule mapE_length)
  with cs show ?thesis by (simp add: rpt' update_cnt_fold)
qed

definition report_ex :: st_report where
  "report_ex = (new_report PyNone)\<lparr>stages := [stage_ex ''run'' SUCCESS, stage_ex ''run'' FAILED],
     report_list := [new_case_report (trace_ex ''a_case_001'' [0]),
                     new_case_report (trace_ex ''b_case_001'' [1])]\<rparr>"

lemma report_ex_summary:
  "summary report_ex = Inr (report_ex\<lparr>total_cnt := 2, success_cnt := 1, failed_cnt := 1,
     report_list := [new_case_report (trace_ex ''a_case_001'' [0]),
       (new_case_report (trace_ex ''b_case_001'' [1]))\<lparr>rpt_status := FAILED\<rparr>]\<rparr>)"
  by code_simp

theorem summary_counts_witness:
  "total_cnt (projr (summary report_ex)) = 2 \<and> failed_cnt (projr (summary report_ex)) = 1"
proof -
  have "total_cnt (projr (summary report_ex))
      = total_cnt report_ex + int (length (report_list report_ex))"
    using summary_counts [OF report_ex_summary] unfolding report_ex_summary sum.sel by blast
  moreover have "failed_cnt (projr (summary report_ex)) = 1"
    unfolding report_ex_summary sum.sel by simp
  ultimately show ?thesis by (simp add: report_ex_def new_report_def)
qed

section \<open>The registry of case reports\<close>

text \<open>
  What the stages of a run rely on: a case that was added under a fresh name is found by that
  name, and adding a case does not disturb the others.
\<close>

locale case_registry =
  fixes add :: "'r \<Rightarrow> 'c \<Rightarrow> 'r" and get :: "'r \<Rightarrow> 'n \<Rightarrow> 'c option"
    and named :: "'c \<Rightarrow> 'n \<Rightarrow> bool" and has :: "'r \<Rightarrow> 'n \<Rightarrow> bool"
  assumes get_add_same: "named c n \<Longrightarrow> \<not> has r n \<Longrightarrow> get (add r c) n = Some c"
    and get_add_other: "\<not> named c n \<Longrightarrow> get (add r c) n = get r n"
    and has_add: "has (add r c) n \<longleftrightarrow> named c n \<or> has r n"
begin

lemma get_adds_other:
  "list_all (\<lambda>c. \<not> named c n) cs \<Longrightarrow> get (fold (\<lambda>c r. add r c) cs r) n = get r n"
  by (induction cs arbitrary: r) (simp_all add: get_add_other)

lemma has_adds:
  "has (fold (\<lambda>c r. add r c) cs r) n \<longleftrightarrow> list_ex (\<lambda>c. named c n) cs \<or> has r n"
  by (induction cs arbitrary: r) (auto simp: has_add)

lemma get_adds:
  assumes "named c n" and "\<not> has r n" and "list_all (\<lambda>c. \<not> named c n) (cs @ ds)"
  shows "get (fold (\<lambda>c r. add r c) (cs @ c # ds) r) n = Some c"
proof -
  have "\<not> has (fold (\<lambda>c r. add r c) cs r) n"
    using assms by (auto simp: has_adds list_all_iff list_ex_iff)
  then show ?thesis using assms by (simp add: get_adds_other get_add_same)
qed

end

definition report_named :: "case_report \<Rightarrow> string \<Rightarrow> bool" where
  "report_named c n \<longleftrightarrow> rpt_case_name c = PyStr n"

definition report_has :: "st_report \<Rightarrow> string \<Rightarrow> bool" where
  "report_has rpt n \<longleftrightarrow> list_ex (\<lambda>c. report_named c n) (report_list rpt)"

definition get_named_report :: "st_report \<Rightarrow> string \<Rightarrow> case_report option" where
  "get_named_report rpt n = get_case_report rpt (PyStr n)"

lemma get_named_filter:
  "get_named_report rpt n
     = (case filter (\<lambda>c. report_named c n) (report_list rpt) of [c] \<Rightarrow> Some c | _ \<Rightarrow> None)"
  by (simp add: get_named_report_def get_case_report_def report_named_def)

interpretation reg: case_registry add_case_report get_named_report report_named report_has
proof unfold_locales
  fix c n r
  assume "report_named c n" and "\<not> report_has r n"
  then have "filter (\<lambda>c. report_named c n) (report_list r) = []"
    by (simp add: report_has_def list_ex_iff filter_empty_conv)
  with \<open>report_named c n\<close> show "get_named_report (add_case_report r c) n = Some c"
    by (simp add: get_named_filter add_case_report_def)
qed (auto simp: get_named_filter add_case_report_def report_has_def)

text \<open>
  The reports that the run creates, one per case and with distinct names, are all found by
  name: with no two cases of one name, \<^verbatim>\<open>get_case_report\<close> returns each case's own report.
\<close>

theorem get_case_report_added:
  assumes "cs = ds @ c # es" and "rpt_case_name c = PyStr n"
    and "list_all (\<lambda>c. rpt_case_name c \<noteq> PyStr n) (ds @ es)"
  shows "get_case_report (fold (\<lambda>c r. add_case_report r c) cs (new_report cmd)) (PyStr n) = Some c"
proof -
  have "\<not> report_has (new_report cmd) n" by (simp add: report_has_def new_report_def)
  from reg.get_adds [OF _ this, of c ds es] assms show ?thesis
    by (simp add: report_named_def get_named_report_def)
qed

theorem get_case_report_added_witness:
  "get_case_report (fold (\<lambda>c r. add_case_report r c)
       [new_case_report (trace_ex ''a'' []), new_case_report (trace_ex ''b'' [])]
       (new_report PyNone)) (PyStr ''b'') = Some (new_case_report (trace_ex ''b'' []))"
  by (rule get_case_report_added [where ds = "[new_case_report (trace_ex ''a'' [])]" and es = "[]"])
     (simp_all add: new_case_report_def trace_ex_def new_case_def)

section \<open>One object in every trace\<close>

lemma add_stage_result_eq:
  "add_stage_result ref st tr = (fold (overwrite_at (st ! ref)) (stage_result tr) st,
     tr\<lparr>stage_result := stage_result tr @ [ref]\<rparr>)"
  by (simp add: add_stage_result_def)

definition with_ref :: "nat \<Rightarrow> case_report \<Rightarrow> case_report" where
  "with_ref ref c =
     c\<lparr>trace_detail := (trace_detail c)\<lparr>stage_result := stage_result (trace_detail c) @ [ref]\<rparr>\<rparr>"

definition all_refs :: "case_report list \<Rightarrow> nat list" where
  "all_refs cs = concat (map (\<lambda>c. stage_result (trace_detail c)) cs)"

lemma overwrites_keep_ref:
  "ref < length st \<Longrightarrow> fold (overwrite_at (st ! ref)) rs st ! ref = st ! ref"
  by (simp add: overwrites_nth)

lemma add_to_cases:
  "ref < length st \<Longrightarrow>
     fold (\<lambda>c acc. add_to_case ref acc c) cs (st, acc)
       = (fold (overwrite_at (st ! ref)) (all_refs cs) st, acc @ map (with_ref ref) cs)"
proof (induction cs arbitrary: st acc)
  case Nil
  then show ?case by (simp add: all_refs_def)
next
  case (Cons c cs)
  then show ?case
    by (simp add: add_to_case_def add_stage_result_eq with_ref_def overwrites_keep_ref all_refs_def)
qed

lemma add_op_st_stage_result_eq:
  "add_op_st_stage_result s rpt =
     rpt\<lparr>stages := fold (overwrite_at s) (all_refs (report_list rpt)) (stages rpt @ [s]),
         report_list := map (with_ref (length (stages rpt))) (report_list rpt)\<rparr>"
  by (simp add: add_op_st_stage_result_def Let_def add_to_cases)

definition shown_stages :: "st_report \<Rightarrow> stage list list" where
  "shown_stages rpt = map (\<lambda>c. trace_stages (stages rpt) (trace_detail c)) (report_list rpt)"

lemma all_refs_bound:
  "report_ok rpt \<Longrightarrow> c \<in> set (report_list rpt) \<Longrightarrow> r \<in> set (stage_result (trace_detail c)) \<Longrightarrow>
     r < length (stages rpt) \<and> r \<in> set (all_refs (report_list rpt))"
  by (auto simp: report_ok_def refs_ok_def all_refs_def list_all_iff)

text \<open>
  \<^verbatim>\<open>add_op_st_stage_result\<close> gives every case of the report the new stage, and in every case the
  entries of the same stage name now show the new outcome as well.
\<close>

lemma shown_after_stage:
  assumes "report_ok rpt"
  shows "shown_stages (add_op_st_stage_result s rpt)
    = map (\<lambda>ss. map (overwrite s) ss @ [s]) (shown_stages rpt)"
  using all_refs_bound [OF assms]
  by (simp add: shown_stages_def add_op_st_stage_result_eq trace_stages_def with_ref_def
      overwrites_nth nth_append less_Suc_eq)

lemma report_ex_ok: "report_ok report_ex"
  by (simp add: report_ok_def refs_ok_def report_ex_def new_case_report_def trace_ex_def)

lemma report_ok_add_op:
  "report_ok rpt \<Longrightarrow> report_ok (add_op_st_stage_result s rpt)"
  by (auto simp: report_ok_def refs_ok_def list_all_iff add_op_st_stage_result_eq with_ref_def
      intro: less_SucI)

text \<open>
  The object is shared: when one case later gets a stage of the same name, the trace of
  every other case shows that one case's outcome in place of the common one.
\<close>

theorem shared_stage_leaks:
  assumes "report_ok rpt" and "i < length (report_list rpt)" and "j < length (report_list rpt)"
    and "i \<noteq> j" and "sr_stage_name s = sr_stage_name s'"
  shows "same_outcome
    (last (shown_stages (add_case_stage_result i s' (add_op_st_stage_result s rpt)) ! j)) s'"
proof -
  let ?r1 = "add_op_st_stage_result s rpt" and ?n = "length (stages rpt)"
  let ?st = "stages ?r1"
  have len: "length ?st = Suc ?n" by (simp add: add_op_st_stage_result_eq)
  have last1: "?st ! ?n = s"
    by (simp add: add_op_st_stage_result_eq overwrites_nth nth_append)
  have ci: "?n \<in> set (stage_result (trace_detail (report_list ?r1 ! i)))"
    using assms(2) by (simp add: add_op_st_stage_result_eq with_ref_def)
  have "shown_stages (add_case_stage_result i s' ?r1) ! j
      = map ((!) (fold (overwrite_at s') (stage_result (trace_detail (report_list ?r1 ! i)))
               (?st @ [s']))) (stage_result (trace_detail (report_list rpt ! j)) @ [?n])"
    using assms len
    by (simp add: add_case_stage_result_def shown_stages_def trace_stages_def Let_def nth_append
        add_stage_result_eq) (simp add: add_op_st_stage_result_eq with_ref_def)
  moreover have "fold (overwrite_at s') (stage_result (trace_detail (report_list ?r1 ! i)))
      (?st @ [s']) ! ?n = overwrite s' s"
    using ci len by (simp add: overwrites_nth nth_append last1)
  ultimately show ?thesis using assms(5) by (simp add: overwrite_outcome)
qed

theorem shared_stage_leaks_witness:
  "same_outcome (last (shown_stages (add_case_stage_result 0 (stage_ex ''cmp'' FAILED)
      (add_op_st_stage_result (stage_ex ''cmp'' SUCCESS) report_ex)) ! 1)) (stage_ex ''cmp'' FAILED)"
  by (rule shared_stage_leaks [OF report_ex_ok]) (simp_all add: report_ex_def stage_ex_def)

text \<open>One new entry in the trace of one case.\<close>

definition case_stages :: "st_report \<Rightarrow> nat \<Rightarrow> stage list" where
  "case_stages rpt i = trace_stages (stages rpt) (trace_detail (report_list rpt ! i))"

lemma add_case_stage_result_shown:
  assumes "report_ok rpt" and "i < length (report_list rpt)"
  shows "case_stages (add_case_stage_result i s rpt) i = map (overwrite s) (case_stages rpt i) @ [s]"
proof -
  let ?tr = "trace_detail (report_list rpt ! i)"
  obtain st' tr' where eq: "add_stage_result (length (stages rpt)) (stages rpt @ [s]) ?tr = (st', tr')"
    by (cases "add_stage_result (length (stages rpt)) (stages rpt @ [s]) ?tr")
  have refs: "refs_ok (stages rpt) ?tr" using assms by (simp add: report_ok_def list_all_length)
  then have "refs_ok (stages rpt @ [s]) ?tr" by (auto simp: refs_ok_def list_all_iff intro: less_SucI)
  from add_stage_result_spec [OF this _ eq] have
    "trace_stages st' tr' = map (overwrite s) (trace_stages (stages rpt @ [s]) ?tr) @ [s]" by simp
  moreover have "trace_stages (stages rpt @ [s]) ?tr = trace_stages (stages rpt) ?tr"
    using refs by (simp add: trace_stages_def refs_ok_def list_all_iff nth_append)
  ultimately show ?thesis
    using assms(2) by (simp add: case_stages_def add_case_stage_result_def eq)
qed

lemma add_case_stage_result_frame [simp]:
  "length (report_list (add_case_stage_result i s rpt)) = length (report_list rpt)"
  "i < length (report_list rpt) \<Longrightarrow>
     rpt_status (report_list (add_case_stage_result i s rpt) ! i) = rpt_status (report_list rpt ! i)"
  by (simp_all add: add_case_stage_result_def Let_def split_beta)

lemma report_ok_add_case:
  assumes "report_ok rpt" shows "report_ok (add_case_stage_result i s rpt)"
proof (cases "i < length (report_list rpt)")
  case True
  let ?rpt' = "add_case_stage_result i s rpt"
  have len: "length (stages ?rpt') = Suc (length (stages rpt))"
    using True by (simp add: add_case_stage_result_def add_stage_result_eq Let_def)
  have "refs_ok (stages ?rpt') (trace_detail (report_list ?rpt' ! j))"
    if "j < length (report_list rpt)" for j
  proof -
    have "r < length (stages rpt)" if "r \<in> set (stage_result (trace_detail (report_list rpt ! j)))" for r
      using assms that \<open>j < length (report_list rpt)\<close> nth_mem
      by (fastforce simp: report_ok_def refs_ok_def list_all_iff)
    then show ?thesis
      using that True unfolding refs_ok_def len list_all_iff
      by (cases "j = i") (auto simp: add_case_stage_result_def add_stage_result_eq Let_def intro: less_SucI)
  qed
  then show ?thesis by (simp add: report_ok_def list_all_length)
qed (use assms in \<open>simp add: add_case_stage_result_def\<close>)

section \<open>Reading a report back\<close>

definition kept_stage :: "stage \<Rightarrow> stage" where
  "kept_stage s = (if truthy (sr_cmd s) then s else s\<lparr>sr_cmd := PyNone\<rparr>)"

lemma stage_roundtrip: "stage_of_json (stage_to_json s) = kept_stage s"
  by (simp add: stage_of_json_def stage_to_json_def kept_stage_def dget_def)

lemma case_roundtrip: "case_of_json (case_to_json c) = Inr c"
  by (simp add: case_of_json_def case_to_json_def dget_def ditem_def raise_if_def)

definition kept_stages :: "store \<Rightarrow> case_report \<Rightarrow> stage list" where
  "kept_stages st c = map kept_stage (trace_stages st (trace_detail c))"

primrec loaded :: "store \<Rightarrow> nat \<Rightarrow> case_report list \<Rightarrow> case_report list" where
  "loaded st n [] = []"
| "loaded st n (c # cs) =
     new_case_report \<lparr>st_case_info = st_case_info (trace_detail c),
       stage_result = [n..<n + length (kept_stages st c)]\<rparr>
     # loaded st (n + length (kept_stages st c)) cs"

lemma mapE_as_dict: "mapE as_dict (map PyDict ds) = Inr ds"
  by (induction ds) simp_all

lemma load_case_json:
  "load_case r (PyDict (case_report_to_json st c)) =
     Inr (r\<lparr>stages := stages r @ kept_stages st c,
            report_list := report_list r @ loaded st (length (stages r)) [c]\<rparr>)"
proof -
  have "stages_of_json (PyList (map (\<lambda>r. PyDict (stage_to_json (st ! r)))
      (stage_result (trace_detail c)))) = Inr (kept_stages st c)"
    using mapE_as_dict [of "map (\<lambda>r. stage_to_json (st ! r)) (stage_result (trace_detail c))"]
    by (simp add: stages_of_json_def kept_stages_def trace_stages_def comp_def stage_roundtrip)
  then show ?thesis
    by (simp add: load_case_def case_report_to_json_def trace_to_json_def trace_of_json_def
        raise_if_def case_roundtrip add_case_report_def)
qed

lemma load_cases_json:
  "foldE load_case r (map (\<lambda>c. PyDict (case_report_to_json st c)) cs) =
     Inr (r\<lparr>stages := stages r @ concat (map (kept_stages st) cs),
            report_list := report_list r @ loaded st (length (stages r)) cs\<rparr>)"
  by (induction cs arbitrary: r) (simp_all add: load_case_json)

lemma map_nth_upt_append: "map ((!) (xs @ ys @ zs)) [length xs..<length xs + length ys] = ys"
  by (rule nth_equalityI) (simp_all add: nth_append)

lemma loaded_shown:
  "map (\<lambda>c. trace_stages (pre @ concat (map (kept_stages st) cs)) (trace_detail c))
     (loaded st (length pre) cs) = map (kept_stages st) cs"
proof (induction cs arbitrary: pre)
  case Nil
  then show ?case by simp
next
  case (Cons c cs)
  from Cons.IH [of "pre @ kept_stages st c"] show ?case
    by (simp add: trace_stages_def new_case_report_def map_nth_upt_append)
qed

lemma loaded_infos: "map (\<lambda>c. st_case_info (trace_detail c)) (loaded st n cs)
    = map (\<lambda>c. st_case_info (trace_detail c)) cs"
  by (induction cs arbitrary: n) (simp_all add: new_case_report_def)

lemma loaded_fresh: "list_all (\<lambda>c. rpt_status c = SUCCESS \<and> rpt_expect c = EXPECT_SUCCESS)
    (loaded st n cs)"
  by (induction cs arbitrary: n) (simp_all add: new_case_report_def)

text \<open>
  Reading a saved report always succeeds and restores the command, the information of
  every case and every stage of every trace (a command that is empty comes back as
  \<^verbatim>\<open>None\<close>). The status, the expectation and the counters are not restored: every case
  is a success again.
\<close>

theorem report_roundtrip:
  "\<exists>rpt'. load (new_report cmd) (report_to_json rpt) = Inr rpt'
     \<and> run_cmd rpt' = run_cmd rpt
     \<and> map (\<lambda>c. st_case_info (trace_detail c)) (report_list rpt')
         = map (\<lambda>c. st_case_info (trace_detail c)) (report_list rpt)
     \<and> shown_stages rpt' = map (map kept_stage) (shown_stages rpt)
     \<and> list_all (\<lambda>c. rpt_status c = SUCCESS \<and> rpt_expect c = EXPECT_SUCCESS) (report_list rpt')
     \<and> total_cnt rpt' = 0"
proof -
  let ?st = "stages rpt" and ?cs = "report_list rpt"
  let ?rpt' = "(new_report (run_cmd rpt))\<lparr>stages := concat (map (kept_stages ?st) ?cs),
    report_list := loaded ?st 0 ?cs\<rparr>"
  have "load (new_report cmd) (report_to_json rpt) = Inr ?rpt'"
    by (simp add: load_def report_to_json_def load_cases_json new_report_def)
  moreover have "shown_stages ?rpt' = map (map kept_stage) (shown_stages rpt)"
    using loaded_shown [of "[]" ?st ?cs] by (simp add: shown_stages_def kept_stages_def [abs_def])
  ultimately show ?thesis by (intro exI [of _ ?rpt']) (simp add: loaded_infos loaded_fresh new_report_def)
qed

end
