(* ===== verification/Subcase_Design.thy ===== *)
theory Subcase_Design
  imports Dynamic_Handle St_Report
begin

text \<open>
  The validators of a test case, \<^verbatim>\<open>src/main/subcase_design.py\<close> (class
  \<^verbatim>\<open>SubCaseDesign\<close>), with \<^verbatim>\<open>check_required_key_valid\<close> of
  \<^verbatim>\<open>src/main/case_design.py\<close>. Dictionaries that a method updates in place are returned.
\<close>

section \<open>Surroundings of the design\<close>

text \<open>
  The white lists of \<^verbatim>\<open>white_list_config.json\<close>, the path of the JSON file, and the file
  system the paths in it are looked up in.
\<close>

record design_env =
  format_map_keys :: "string list"
  type_list :: "string list"
  mindspore_type_list :: "string list"
  data_distribution_list :: "string list"
  current_json_path :: string
  env_fs :: fs
  env_mkdirs :: makedirs

text \<open>
  \<^verbatim>\<open>key in x\<close> for a text \<open>key\<close>: keys of a dictionary, items of a list, parts of a text.
\<close>

fun py_has_key :: "pyval \<Rightarrow> string \<Rightarrow> bool res" where
  "py_has_key (PyDict d) k = Inr (dhas d k)"
| "py_has_key (PyList xs) k = Inr (py_in (PyStr k) xs)"
| "py_has_key (PyTuple xs) k = Inr (py_in (PyStr k) xs)"
| "py_has_key (PyStr s) k = Inr (s_contains s k)"
| "py_has_key _ k = Inl TypeError"

section \<open>Static helpers\<close>

definition check_bin_valid :: "design_env \<Rightarrow> string \<Rightarrow> string \<Rightarrow> string res" where
  "check_bin_valid env bin_path dir_path =
     (let real_bin_path = path_join dir_path bin_path in
      bindE (raise_if (snd (path_splitext real_bin_path) \<noteq> BIN_FILE) err_path) (\<lambda>_.
      bindE (check_path_valid (env_mkdirs env) (env_fs env) real_bin_path False) (\<lambda>_.
        Inr real_bin_path)))"

definition parse_expect_output_param :: "pydict \<Rightarrow> pyval \<Rightarrow> pyval \<Rightarrow> pyval \<Rightarrow> pydict" where
  "parse_expect_output_param case0 pyfile function err_thr =
     (if \<not> truthy pyfile \<or> \<not> truthy function then case0
      else
        (let case1 = (if \<not> truthy pyfile \<and> truthy function
                      then dset case0 ''calc_expect_func'' function else case0);
             case2 = (if truthy pyfile \<and> truthy function
                      then dset (dset case1 ''calc_expect_func_file'' pyfile)
                             ''calc_expect_func_file_func'' function
                      else case1)
         in dset case2 ERROR_THRESHOLD err_thr))"

definition check_cur_params_undefined :: "pydict \<Rightarrow> pydict" where
  "check_cur_params_undefined cur_params =
     (let p1 = (if py_in (dget cur_params ''format'') (map PyStr OPTIONAL_TYPE_LIST)
                then dset cur_params ''type'' (PyStr TYPE_UNDEFINED) else cur_params)
      in if dget p1 ''type'' = PyStr TYPE_UNDEFINED
         then dset p1 ''format'' (PyStr TYPE_UNDEFINED) else p1)"

definition check_ori_format_list_str_valid :: "pydict \<Rightarrow> pyval list" where
  "check_ori_format_list_str_valid dic_desc =
     (case dget dic_desc ''ori_format'' of
        PyStr s \<Rightarrow> [PyStr s]
      | PyList xs \<Rightarrow> xs
      | _ \<Rightarrow> [])"

definition check_ori_filed_length_valid :: "pyval list \<Rightarrow> pyval list \<Rightarrow> unit res" where
  "check_ori_filed_length_valid ori_list compare_list =
     raise_if (length ori_list \<noteq> length compare_list) err_data"

definition check_fuzz_in_json :: "pydict \<Rightarrow> string \<Rightarrow> unit res" where
  "check_fuzz_in_json json_obj key = raise_if (dget json_obj key = PyStr ''fuzz'') err_data"

definition check_set_error_threshold :: "pydict \<Rightarrow> pyval res" where
  "check_set_error_threshold json_obj =
     (case dget json_obj ERROR_THRESHOLD of
        PyNone \<Rightarrow> Inr PyNone
      | PyList xs \<Rightarrow>
          if length xs = 2 then bindE (check_list_float xs) (\<lambda>ys. Inr (PyList ys))
          else Inl (OpTestGenException OP_TEST_GEN_INVALID_ERROR_THRESHOLD_ERROR)
      | _ \<Rightarrow> Inl (OpTestGenException OP_TEST_GEN_INVALID_ERROR_THRESHOLD_ERROR))"

text \<open>
  \<^verbatim>\<open>check_required_key_valid\<close> appends \<^verbatim>\<open>st_mode\<close> to the list it is given (for cases
  the list of the class \<^verbatim>\<open>ConstManager\<close>), so the list is part of the result.
\<close>

definition check_required_key ::
    "pydict \<Rightarrow> string list \<Rightarrow> string \<Rightarrow> string list res" where
  "check_required_key json_obj missing_keys key =
     (let missing_keys = (if \<not> dhas json_obj key then missing_keys @ [key] else missing_keys) in
      if key = CASE_NAME \<or> key = OP
      then bindE (check_name_valid (dget json_obj key)) (\<lambda>_. Inr missing_keys)
      else Inr missing_keys)"

definition required_keys_for :: "pydict \<Rightarrow> string list \<Rightarrow> string list" where
  "required_keys_for json_obj required_key_list =
     (if dget json_obj ST_MODE = PyStr ''ms_python_train''
      then required_key_list @ [ST_MODE] else required_key_list)"

definition check_required_key_valid :: "pydict \<Rightarrow> string list \<Rightarrow> string list res" where
  "check_required_key_valid json_obj required_key_list =
     (let required_key_list = required_keys_for json_obj required_key_list in
      bindE (foldE (check_required_key json_obj) [] required_key_list) (\<lambda>missing_keys.
      bindE (raise_if (length missing_keys > 0) err_data) (\<lambda>_. Inr required_key_list)))"

section \<open>Expected outputs and values\<close>

text \<open>
  \<^verbatim>\<open>_check_expect_output_param\<close>: \<^verbatim>\<open>file.py:function\<close> names a file next to the JSON
  file; without a function name the operator's name is taken.
\<close>

definition check_expect_output_param :: "design_env \<Rightarrow> pydict \<Rightarrow> (pyval \<times> pyval) res" where
  "check_expect_output_param env json_obj =
     (let expect_str = dget json_obj ''calc_expect_func_file'' in
      if truthy expect_str then
        (case expect_str of
           PyStr s \<Rightarrow>
             (case s_split '':'' s of
                [file, func] \<Rightarrow>
                  (let func = s_replace func SPACE EMPTY;
                       path = path_join (path_dirname (current_json_path env)) file
                   in bindE (check_path_valid (env_mkdirs env) (env_fs env) path False) (\<lambda>_.
                        Inr (PyStr path, if func = [] then dget json_obj OP else PyStr func)))
              | _ \<Rightarrow> Inr (PyNone, PyNone))
         | _ \<Rightarrow> Inl AttributeError)
      else Inr (PyNone, PyNone))"

definition check_key_exist :: "pyval \<Rightarrow> string \<Rightarrow> unit res" where
  "check_key_exist json_obj key =
     bindE (py_has_key json_obj key) (\<lambda>b. raise_if (\<not> b) err_data)"

definition check_shape_dim :: "pyval \<Rightarrow> unit res" where
  "check_shape_dim d =
     bindE (raise_if (\<not> is_int d) err_data) (\<lambda>_.
     bindE (py_lt d (PyInt SHAPE_DYNAMIC_SCENARIOS_TWO)) (\<lambda>b. raise_if b err_data))"

definition check_shape_valid :: "pyval \<Rightarrow> unit res" where
  "check_shape_valid shape = bindE (py_iter shape) (\<lambda>dims. forE check_shape_dim dims)"

definition check_range_number :: "pyval \<Rightarrow> unit res" where
  "check_range_number value = raise_if (\<not> is_float value \<and> \<not> is_int value) err_data"

definition check_range_value_valid :: "pyval \<Rightarrow> bool \<Rightarrow> unit res" where
  "check_range_value_valid range_value for_shape_range =
     bindE (py_len range_value) (\<lambda>n.
     bindE (raise_if (n \<noteq> 2) err_data) (\<lambda>_.
     bindE (py_iter range_value) (\<lambda>values.
     bindE (forE check_range_number values) (\<lambda>_.
     bindE (py_index range_value 0) (\<lambda>lo.
     bindE (py_index range_value 1) (\<lambda>hi.
       if for_shape_range \<and> (py_eq lo (PyInt (-1)) \<or> py_eq hi (PyInt (-1))) then Inr ()
       else bindE (py_lt hi lo) (\<lambda>b. raise_if b err_data)))))))"

text \<open>The values of a crossed case may have one profile only.\<close>

definition check_one_profile :: "pyval \<Rightarrow> unit res" where
  "check_one_profile v =
     (if v = PyNone then Inr ()
      else bindE (py_len v) (\<lambda>n. raise_if (n > 1) err_data))"

definition check_desc_value :: "design_env \<Rightarrow> pydict \<Rightarrow> pydict \<Rightarrow> bool \<Rightarrow> pyval list res" where
  "check_desc_value env one_input_desc json_obj for_fuzz =
     bindE (if for_fuzz then Inr () else forE (\<lambda>(k, v). check_one_profile v) one_input_desc) (\<lambda>_.
       (case dget json_obj VALUE of
          PyStr s \<Rightarrow> bindE (check_bin_valid env s (path_dirname (current_json_path env)))
                       (\<lambda>p. Inr [PyStr p])
        | PyList xs \<Rightarrow> Inr [PyList xs]
        | _ \<Rightarrow> Inl err_data))"

definition deal_with_value :: "design_env \<Rightarrow> pydict \<Rightarrow> pydict \<Rightarrow> bool \<Rightarrow> pydict res" where
  "deal_with_value env input_desc one_input_desc for_fuzz =
     bindE (if dget input_desc VALUE \<noteq> PyNone then
              bindE (check_desc_value env one_input_desc input_desc for_fuzz) (\<lambda>value_list.
                if for_fuzz
                then bindE (py_index (PyList value_list) 0) (\<lambda>v. Inr (dset one_input_desc ''value'' v))
                else Inr (dset one_input_desc ''value'' (PyList value_list)))
            else Inr one_input_desc) (\<lambda>one_input_desc.
       deal_with_const (dget input_desc IS_CONST) one_input_desc for_fuzz)"

section \<open>Lists of lists and lists of texts\<close>

text \<open>\<^verbatim>\<open>check_type\<close> is \<open>Some True\<close> once a list item was seen, \<open>Some False\<close> after another.\<close>

definition check_item_type :: "bool option \<Rightarrow> pyval \<Rightarrow> bool option res" where
  "check_item_type check_type item =
     (let current_type = is_tuple_or_list item in
      case check_type of
        None \<Rightarrow> Inr (Some current_type)
      | Some t \<Rightarrow> bindE (raise_if (t \<noteq> current_type) err_data) (\<lambda>_. Inr (Some t)))"

definition check_list_list_valid :: "pyval \<Rightarrow> string \<Rightarrow> pyval list res" where
  "check_list_list_valid json_obj key =
     bindE (check_key_exist json_obj key) (\<lambda>_.
     bindE (as_dict json_obj) (\<lambda>d.
     bindE (check_fuzz_in_json d key) (\<lambda>_.
       (case dget d key of
          PyList items \<Rightarrow>
            bindE (foldE check_item_type None items) (\<lambda>check_type.
              if check_type = Some True then Inr items else Inr [PyList items])
        | _ \<Rightarrow> Inl err_data))))"

definition check_name_type_valid :: "pydict \<Rightarrow> string \<Rightarrow> unit res" where
  "check_name_type_valid attr key =
     bindE (ditem attr key) (\<lambda>v.
     bindE (raise_if (\<not> is_str v) err_data) (\<lambda>_.
     bindE (raise_if (v = PyStr '''') err_data) (\<lambda>_.
       raise_if (key = ''type'' \<and> \<not> py_in v (map (PyStr \<circ> snd) ATTR_TYPE_MAP)) err_data)))"

definition check_str_item :: "string list \<Rightarrow> pyval \<Rightarrow> unit res" where
  "check_str_item support_list item =
     (case item of
        PyStr s \<Rightarrow>
          bindE (raise_if (s = '''') err_data) (\<lambda>_. raise_if (s \<notin> set support_list) err_data)
      | _ \<Rightarrow> Inl err_data)"

definition check_list_str_valid :: "pyval \<Rightarrow> string \<Rightarrow> string list \<Rightarrow> pyval list res" where
  "check_list_str_valid json_obj key support_list =
     bindE (check_key_exist json_obj key) (\<lambda>_.
     bindE (as_dict json_obj) (\<lambda>d.
     bindE (check_fuzz_in_json d key) (\<lambda>_.
     bindE (case dget d key of
              PyStr s \<Rightarrow> Inr [PyStr s]
            | PyList xs \<Rightarrow> Inr xs
            | PyTuple xs \<Rightarrow> Inr xs
            | _ \<Rightarrow> Inl err_data) (\<lambda>value_list.
     bindE (raise_if (length value_list = 0) err_data) (\<lambda>_.
     bindE (forE (check_str_item support_list) value_list) (\<lambda>_. Inr value_list))))))"

section \<open>Attributes and fuzz parameters\<close>

text \<open>\<^verbatim>\<open>x.get(k)\<close> for a key that is any value; dictionaries have text keys.\<close>

definition py_get_key :: "pyval \<Rightarrow> pyval \<Rightarrow> pyval res" where
  "py_get_key v k =
     bindE (as_dict v) (\<lambda>d.
       case k of
         PyStr s \<Rightarrow> Inr (dget d s)
       | _ \<Rightarrow> if hashable k then Inr PyNone else Inl TypeError)"

definition attribute_error_as :: "exn \<Rightarrow> 'a res \<Rightarrow> 'a res" where
  "attribute_error_as e m = (if m = Inl AttributeError then Inl e else m)"

definition replace_fuzz_param :: "pydict \<Rightarrow> string \<Rightarrow> string \<Rightarrow> pyval \<Rightarrow> pydict res" where
  "replace_fuzz_param json_obj key param_type fuzz_dict =
     (if dget json_obj key = PyStr ''fuzz'' then
        (let name = dget json_obj ''name'' in
         bindE (raise_if (name = PyNone) err_param) (\<lambda>_.
         bindE (attribute_error_as err_param
                  (bindE (py_get fuzz_dict param_type) (\<lambda>params.
                   bindE (py_get_key params name) (\<lambda>param. py_get param key))))
           (\<lambda>fuzz_result_param. Inr (dset json_obj key fuzz_result_param))))
      else Inr json_obj)"

text \<open>The method \<^verbatim>\<open>_check_attr_value_valid\<close>; \<open>PyNone\<close> is a missing fuzz dictionary.\<close>

definition check_attr_value_fuzz :: "pydict \<Rightarrow> pyval \<Rightarrow> pydict res" where
  "check_attr_value_fuzz attr fuzz_dict =
     bindE (if fuzz_dict \<noteq> PyNone then replace_fuzz_param attr ''value'' ''attr'' fuzz_dict
            else Inr attr) (\<lambda>attr.
     bindE (check_attr_value_valid attr) (\<lambda>_. Inr attr))"

text \<open>
  One attribute: the state is the names and the attributes so far. \<^verbatim>\<open>check_required_key_valid\<close>
  extends the shared list of required keys here too when an attribute has an
  \<^verbatim>\<open>st_mode\<close> of its own; the state keeps that list.
\<close>

definition check_one_attr ::
    "pyval \<Rightarrow> pyval list \<times> pydict list \<times> string list \<Rightarrow> pyval
       \<Rightarrow> (pyval list \<times> pydict list \<times> string list) res" where
  "check_one_attr fuzz_dict st attr0 =
     (case st of (name_list, attr_list, required) \<Rightarrow>
        bindE (as_dict attr0) (\<lambda>attr.
        bindE (check_required_key_valid attr required) (\<lambda>required.
        bindE (check_name_type_valid attr ''name'') (\<lambda>_.
        bindE (ditem attr ''name'') (\<lambda>name.
        bindE (raise_if (py_in name name_list) err_data) (\<lambda>_.
        bindE (check_name_type_valid attr ''type'') (\<lambda>_.
        bindE (check_attr_value_fuzz attr fuzz_dict) (\<lambda>attr.
          Inr (name_list @ [name], attr_list @ [attr], required)))))))))"

definition check_attr_valid ::
    "pydict \<Rightarrow> pyval \<Rightarrow> string list \<Rightarrow> (pydict list \<times> string list) res" where
  "check_attr_valid json_obj fuzz_dict required =
     (if \<not> dhas json_obj ATTR then Inr ([], required)
      else
        bindE (case dget json_obj ATTR of
                 PyList xs \<Rightarrow> Inr xs | PyTuple xs \<Rightarrow> Inr xs | _ \<Rightarrow> Inl err_data) (\<lambda>attrs.
        bindE (foldE (check_one_attr fuzz_dict) ([], [], required) attrs) (\<lambda>(_, attr_list, required).
          Inr (attr_list, required))))"

section \<open>Adding a case\<close>

text \<open>
  What a design run accumulates: the index of the next case of the current description, the
  cases, the report, and the two lists of required keys of \<^verbatim>\<open>ConstManager\<close>, which the code
  extends in place.
\<close>

record design_state =
  case_idx :: int
  total_case_list :: "pydict list"
  design_report :: st_report
  required_keys :: "string list"
  attr_required_keys :: "string list"

definition case_report_for :: "pyval \<Rightarrow> pydict \<Rightarrow> case_report" where
  "case_report_for name cs =
     new_case_report \<lparr>st_case_info = new_case name (PyDict cs), stage_result = []\<rparr>"

definition add_case_to_total_case ::
    "pydict \<Rightarrow> pyval \<times> pyval \<times> pyval \<Rightarrow> design_state \<Rightarrow> design_state res" where
  "add_case_to_total_case case0 py_file_and_function st =
     (case py_file_and_function of (py_file, function, err_thr) \<Rightarrow>
        (let case1 = parse_expect_output_param case0 py_file function err_thr in
         bindE (ditem case1 ''case_name'') (\<lambda>name.
           Inr (st\<lparr>case_idx := case_idx st + 1,
                   total_case_list := total_case_list st @ [case1],
                   design_report := add_case_report (design_report st)
                                      (case_report_for name case1)\<rparr>))))"

section \<open>Original and dynamic shapes\<close>

definition get_ori_filed_data ::
    "pydict \<Rightarrow> pyval list \<Rightarrow> pyval list \<Rightarrow> pyval list list res" where
  "get_ori_filed_data desc format_list shape_list =
     bindE (if dget desc ''ori_format'' \<noteq> PyNone then
              (let ori_format_list = check_ori_format_list_str_valid desc in
               bindE (check_ori_filed_length_valid ori_format_list format_list) (\<lambda>_.
                 Inr [ori_format_list]))
            else Inr []) (\<lambda>fields.
     bindE (if dget desc ''ori_shape'' \<noteq> PyNone then
              bindE (check_list_list_valid (PyDict desc) ''ori_shape'') (\<lambda>ori_shape_list.
              bindE (check_ori_filed_length_valid ori_shape_list shape_list) (\<lambda>_.
                Inr (fields @ [ori_shape_list])))
            else Inr fields) (\<lambda>fields.
     bindE (raise_if (length fields = 1) err_data) (\<lambda>_. Inr fields)))"

definition get_dynamic_shape_info :: "pydict \<Rightarrow> pydict \<Rightarrow> pydict res" where
  "get_dynamic_shape_info op_desc one_op_dict =
     bindE (check_not_dynamic_shape (dget op_desc ''shape'')) (\<lambda>flag.
     if \<not> truthy flag then Inr one_op_dict
     else
       bindE (check_list_list_valid (PyDict op_desc) TYPICAL_SHAPE) (\<lambda>typical_shape_list.
       bindE (forE check_typical_shape_valid typical_shape_list) (\<lambda>_.
       (let one_op_dict = dset one_op_dict TYPICAL_SHAPE (PyList typical_shape_list) in
        if truthy (dget op_desc SHAPE_RANGE) then
          bindE (check_list_list_valid (PyDict op_desc) SHAPE_RANGE) (\<lambda>shape_range_list.
          bindE (forE (\<lambda>item. check_range_value_valid item True) shape_range_list) (\<lambda>_.
            Inr (dset one_op_dict SHAPE_RANGE (PyList [PyList shape_range_list]))))
        else Inr one_op_dict))))"

section \<open>The accepted values\<close>

definition shape_dim_ok :: "pyval \<Rightarrow> bool" where
  "shape_dim_ok d \<longleftrightarrow> is_int d \<and> -2 \<le> int_view d"

interpretation shape_dims: elem_check check_shape_dim shape_dim_ok err_data
  by unfold_locales (auto simp: check_shape_dim_def shape_dim_ok_def py_lt_int raise_if_def)

definition range_number_ok :: "pyval \<Rightarrow> bool" where
  "range_number_ok v \<longleftrightarrow> is_float v \<or> is_int v"

interpretation range_numbers: elem_check check_range_number range_number_ok err_data
  by unfold_locales (auto simp: check_range_number_def range_number_ok_def raise_if_def)

definition str_item_ok :: "string list \<Rightarrow> pyval \<Rightarrow> bool" where
  "str_item_ok support v \<longleftrightarrow> (case v of PyStr s \<Rightarrow> s \<noteq> '''' \<and> s \<in> set support | _ \<Rightarrow> False)"

interpretation str_items: elem_check "check_str_item support" "str_item_ok support" err_data
  for support
  by unfold_locales (auto simp: check_str_item_def str_item_ok_def raise_if_def split: pyval.split)

lemma check_key_exist_dict [simp]:
  "check_key_exist (PyDict d) k = (if dhas d k then Inr () else Inl err_data)"
  by (simp add: check_key_exist_def raise_if_def)

lemma check_item_type_step:
  "check_item_type None i = Inr (Some (is_tuple_or_list i))"
  "check_item_type (Some t) i = (if is_tuple_or_list i = t then Inr (Some t) else Inl err_data)"
  by (auto simp: check_item_type_def Let_def raise_if_def)

lemma check_item_types:
  "foldE check_item_type (Some t) items =
     (if list_all (\<lambda>i. is_tuple_or_list i = t) items then Inr (Some t) else Inl err_data)"
  by (induction items) (simp_all add: check_item_type_step)

lemma check_item_types_start:
  "foldE check_item_type None items =
     (case items of [] \<Rightarrow> Inr None
      | i # rest \<Rightarrow> if list_all (\<lambda>j. is_tuple_or_list j = is_tuple_or_list i) rest
                then Inr (Some (is_tuple_or_list i)) else Inl err_data)"
  by (cases items) (simp_all add: check_item_type_step check_item_types)

lemma fuzz_in_json_ok [simp]:
  "check_fuzz_in_json d k = Inr u \<longleftrightarrow> dget d k \<noteq> PyStr ''fuzz''"
  by (simp add: check_fuzz_in_json_def)

lemma dhas_of_dget: "dget d k = PyList xs \<Longrightarrow> dhas d k" "dget d k = PyStr s \<Longrightarrow> dhas d k"
  "dget d k = PyTuple xs \<Longrightarrow> dhas d k"
  by (auto intro: dget_present)

lemma check_list_list_items:
  "dget d key = PyList items \<Longrightarrow> check_list_list_valid (PyDict d) key =
     (case items of [] \<Rightarrow> Inr [PyList []]
      | i # rest \<Rightarrow> if list_all (\<lambda>j. is_tuple_or_list j = is_tuple_or_list i) rest
                then (if is_tuple_or_list i then Inr items else Inr [PyList items])
                else Inl err_data)"
  by (cases items)
     (simp_all add: check_list_list_valid_def check_item_types check_item_type_step dhas_of_dget
       check_fuzz_in_json_def)

text \<open>
  \<^verbatim>\<open>_check_list_list_valid\<close> accepts exactly the lists that are uniform: a list of
  lists is returned as it is, a list without any list in it (the empty list included) is
  wrapped as a single item.
\<close>

theorem check_list_list_valid_exact:
  "check_list_list_valid (PyDict d) key = Inr vs \<longleftrightarrow>
     (\<exists>items. dget d key = PyList items \<and>
        (items \<noteq> [] \<and> list_all is_tuple_or_list items \<and> vs = items
         \<or> list_all (\<lambda>i. \<not> is_tuple_or_list i) items \<and> vs = [PyList items]))"
proof (cases "\<exists>items. dget d key = PyList items")
  case True
  then obtain items where items: "dget d key = PyList items" by blast
  show ?thesis
  proof (cases items)
    case Nil
    then show ?thesis by (simp add: check_list_list_items items) metis
  next
    case (Cons i rest)
    then show ?thesis
      by (cases "is_tuple_or_list i")
         (auto simp: check_list_list_items items list_all_iff)
  qed
next
  case False
  then show ?thesis by (cases "dget d key") (auto simp: check_list_list_valid_def)
qed

text \<open>
  \<^verbatim>\<open>_check_list_str_valid\<close> accepts exactly a supported text, or a non-empty list of
  supported texts; the text \<^verbatim>\<open>fuzz\<close> is never accepted as the single value.
\<close>

theorem check_list_str_valid_exact:
  "check_list_str_valid (PyDict d) key support = Inr vs \<longleftrightarrow>
     vs \<noteq> [] \<and> list_all (str_item_ok support) vs \<and> dget d key \<noteq> PyStr ''fuzz'' \<and>
     (dget d key = PyList vs \<or> dget d key = PyTuple vs \<or> (\<exists>s. dget d key = PyStr s \<and> vs = [PyStr s]))"
proof -
  have "dhas d key" if "dget d key = PyList vs \<or> dget d key = PyTuple vs \<or>
      (\<exists>s. dget d key = PyStr s \<and> vs = [PyStr s])"
    using that dhas_of_dget by blast
  then show ?thesis
    by (cases "dget d key")
       (auto simp: check_list_str_valid_def str_items.loop_eq split: if_splits)
qed

text \<open>
  \<^verbatim>\<open>_check_range_value_valid\<close> accepts exactly two numbers of which the second is not
  below the first; for a shape range an end of -1 is accepted too.
\<close>

theorem check_range_value_valid_exact:
  "check_range_value_valid (PyList vs) for_shape_range = Inr () \<longleftrightarrow>
     (\<exists>lo hi a b. vs = [lo, hi] \<and> num_view lo = Some a \<and> num_view hi = Some b \<and>
        (\<not> flt_lt b a \<or> for_shape_range \<and> (flt_eq a (Fin (-1)) \<or> flt_eq b (Fin (-1)))))"
proof (cases "\<exists>lo hi. vs = [lo, hi]")
  case True
  then obtain lo hi where vs: "vs = [lo, hi]" by blast
  have num: "range_number_ok v \<longleftrightarrow> num_view v \<noteq> None" for v
    by (cases v) (auto simp: range_number_ok_def)
  have eq: "num_view v = Some a \<Longrightarrow> py_eq v (PyInt (-1)) \<longleftrightarrow> flt_eq a (Fin (-1))" for v a
    by (cases v) auto
  show ?thesis
    by (cases "num_view lo"; cases "num_view hi")
       (auto simp: vs check_range_value_valid_def range_numbers.loop_eq num py_lt_def eq)
next
  case False
  then have "length vs \<noteq> 2" by (auto simp: length_Suc_conv numeral_2_eq_2)
  with False show ?thesis by (auto simp: check_range_value_valid_def)
qed

theorem check_range_value_valid_exact_witness:
  "check_range_value_valid (PyList [PyInt 2, PyInt (-1)]) True = Inr ()
   \<and> check_range_value_valid (PyList [PyInt 2, PyInt (-1)]) False \<noteq> Inr ()
   \<and> check_range_value_valid (PyList [PyInt 2, PyInt 7]) False = Inr ()"
  unfolding check_range_value_valid_exact by simp

section \<open>Required keys and attributes\<close>

definition missing_from :: "pydict \<Rightarrow> string list \<Rightarrow> string list" where
  "missing_from json_obj ks = filter (\<lambda>k. \<not> dhas json_obj k) ks"

definition name_keys_ok :: "pydict \<Rightarrow> string list \<Rightarrow> bool" where
  "name_keys_ok json_obj ks \<longleftrightarrow>
     list_all (\<lambda>k. (k = CASE_NAME \<or> k = OP) \<longrightarrow> check_name_valid (dget json_obj k) = Inr ()) ks"

lemma check_required_keys:
  "foldE (check_required_key j) ms ks = Inr ms' \<longleftrightarrow>
     name_keys_ok j ks \<and> ms' = ms @ missing_from j ks"
  by (induction ks arbitrary: ms)
     (auto simp: check_required_key_def name_keys_ok_def missing_from_def)

text \<open>
  \<^verbatim>\<open>check_required_key_valid\<close> accepts an object exactly when it has every required key
  and valid names; an object in \<^verbatim>\<open>ms_python_train\<close> mode needs \<^verbatim>\<open>st_mode\<close> as well,
  and from then on the caller's list demands it of every later object.
\<close>

theorem check_required_key_valid_exact:
  "check_required_key_valid j ks = Inr ks' \<longleftrightarrow>
     ks' = (if dget j ST_MODE = PyStr ''ms_python_train'' then ks @ [ST_MODE] else ks)
     \<and> list_all (dhas j) ks' \<and> name_keys_ok j ks'"
proof -
  let ?ks = "required_keys_for j ks"
  have "missing_from j ?ks = [] \<longleftrightarrow> list_all (dhas j) ?ks"
    by (simp add: missing_from_def filter_empty_conv list_all_iff)
  then have "check_required_key_valid j ks = Inr ks' \<longleftrightarrow>
      ks' = ?ks \<and> list_all (dhas j) ?ks \<and> name_keys_ok j ?ks"
    unfolding check_required_key_valid_def Let_def bindE_eq_Inr check_required_keys by auto
  then show ?thesis unfolding required_keys_for_def by blast
qed

definition attr_ok :: "pydict \<Rightarrow> bool" where
  "attr_ok a \<longleftrightarrow> (\<exists>n t. dget a ''name'' = PyStr n \<and> n \<noteq> '''' \<and> dget a ''type'' = PyStr t
     \<and> t \<in> snd ` set ATTR_TYPE_MAP \<and> check_attr_value_valid a = Inr ())"

lemma check_name_type_valid_ok:
  "check_name_type_valid a k = Inr () \<longleftrightarrow>
     (\<exists>s. map_of a k = Some (PyStr s) \<and> s \<noteq> '''' \<and>
       (k = ''type'' \<longrightarrow> s \<in> snd ` set ATTR_TYPE_MAP))"
proof -
  have py_in: "py_in v (map (PyStr \<circ> snd) ATTR_TYPE_MAP)
      \<longleftrightarrow> (\<exists>s\<in>snd ` set ATTR_TYPE_MAP. v = PyStr s)" for v
    using py_in_strs [of v "map snd ATTR_TYPE_MAP"] by simp
  show ?thesis
  proof (cases "map_of a k")
    case None
    then show ?thesis by (simp add: check_name_type_valid_def ditem_def)
  next
    case (Some v)
    then show ?thesis
      by (cases v) (auto simp: check_name_type_valid_def ditem_def py_in)
  qed
qed

lemma replace_fuzz_other:
  "replace_fuzz_param j k t z = Inr j' \<Longrightarrow> i \<noteq> k \<Longrightarrow> dget j' i = dget j i"
  by (auto simp: replace_fuzz_param_def Let_def split: if_splits)

lemma check_attr_value_fuzz_ok:
  assumes "check_attr_value_fuzz a z = Inr a'"
  shows "check_attr_value_valid a' = Inr () \<and> dget a' ''name'' = dget a ''name''
    \<and> dget a' ''type'' = dget a ''type''"
  using assms replace_fuzz_other [of a "''value''" "''attr''" z a']
  by (auto simp: check_attr_value_fuzz_def split: if_splits)

lemma dget_of_map: "map_of d k = Some v \<Longrightarrow> dget d k = v"
  by (simp add: dget_def)

definition attrs_inv :: "pyval list \<times> pydict list \<times> string list \<Rightarrow> bool" where
  "attrs_inv st \<longleftrightarrow> (case st of (names, attrs, req) \<Rightarrow>
     names = map (\<lambda>a. dget a ''name'') attrs \<and> distinct names \<and> list_all attr_ok attrs)"

lemma attrs_inv_start: "attrs_inv ([], [], req)"
  by (simp add: attrs_inv_def)

lemma check_one_attr_inv:
  assumes "attrs_inv st" and "check_one_attr z st v = Inr st'"
  shows "attrs_inv st'"
proof -
  obtain names attrs req where st: "st = (names, attrs, req)" by (cases st)
  from assms(2) obtain a req' name a' where a: "v = PyDict a"
    and nm: "check_name_type_valid a ''name'' = Inr ()" "ditem a ''name'' = Inr name"
    and ty: "check_name_type_valid a ''type'' = Inr ()" and fresh: "\<not> py_in name names"
    and val: "check_attr_value_fuzz a z = Inr a'"
    and st': "st' = (names @ [name], attrs @ [a'], req')"
    by (auto simp: check_one_attr_def st as_dict_ok)
  note val' = check_attr_value_fuzz_ok [OF val]
  from nm obtain n where n: "name = PyStr n" "n \<noteq> ''''" "dget a ''name'' = PyStr n"
    by (auto simp: check_name_type_valid_ok ditem_ok dget_of_map)
  from ty obtain t where t: "dget a ''type'' = PyStr t" "t \<in> snd ` set ATTR_TYPE_MAP"
    unfolding check_name_type_valid_ok by (blast dest: dget_of_map)
  have "attr_ok a'" using val' n t by (auto simp: attr_ok_def)
  moreover have "name \<notin> set names"
    using fresh n(1) by (auto simp: py_in_def list_ex_iff)
  ultimately show ?thesis using assms(1) val' n by (auto simp: attrs_inv_def st st')
qed

text \<open>
  The attributes that \<^verbatim>\<open>_check_attr_valid\<close> returns have different, non-empty names,
  supported types, and values their types admit.
\<close>

theorem check_attr_valid_sound:
  assumes "check_attr_valid j z req = Inr (attrs, req')"
  shows "distinct (map (\<lambda>a. dget a ''name'') attrs) \<and> list_all attr_ok attrs"
proof (cases "dhas j ATTR")
  case True
  with assms obtain names xs where
    "foldE (check_one_attr z) ([], [], req) xs = Inr (names, attrs, req')"
    by (auto simp: check_attr_valid_def)
  then have "attrs_inv (names, attrs, req')"
    by (rule foldE_inv) (rule attrs_inv_start, rule check_one_attr_inv)
  then show ?thesis by (auto simp: attrs_inv_def)
qed (use assms in \<open>auto simp: check_attr_valid_def\<close>)

definition axis_attr :: pydict where
  "axis_attr = [(''name'', PyStr ''axis''), (''type'', PyStr ''int''), (''value'', PyInt 1)]"

lemma axis_attr_run:
  "check_attr_valid [(''attr'', PyList [PyDict axis_attr])] PyNone ATTR_REQUIRED_KEYS
     = Inr ([axis_attr], ATTR_REQUIRED_KEYS)"
  by code_simp

theorem check_attr_valid_sound_witness: "list_all attr_ok [axis_attr]"
  using check_attr_valid_sound [OF axis_attr_run] by simp

end
