(* ===== verification/Subcase_Cross.thy ===== *)
theory Subcase_Cross
  imports Subcase_Design
begin

text \<open>
  Sub cases as the cross product of the configured profiles,
  \<^verbatim>\<open>src/main/subcase_design_cross.py\<close> (class \<^verbatim>\<open>SubCaseDesignCross\<close>). The flag
  \<^verbatim>\<open>self.multi\<close> is returned by the two functions that set it.
\<close>

section \<open>Crossing the profiles of one tensor\<close>

text \<open>
  \<^verbatim>\<open>zip(tensor.get(a), tensor.get(b))\<close> as a list of pairs; \<^verbatim>\<open>itertools.product\<close> is
  \<open>product_lists\<close>, the last list varying fastest.
\<close>

definition zip_fields :: "pydict \<Rightarrow> string \<Rightarrow> string \<Rightarrow> pyval list res" where
  "zip_fields tensor a b =
     bindE (py_iter (dget tensor a)) (\<lambda>xs.
     bindE (py_iter (dget tensor b)) (\<lambda>ys.
       Inr (map (\<lambda>(x, y). PyTuple [x, y]) (zip xs ys))))"

definition get_data_list :: "pyval list \<Rightarrow> pyval list" where
  "get_data_list each_cross_list =
     concat (map (\<lambda>field. case field of PyTuple items \<Rightarrow> items | v \<Rightarrow> [v]) each_cross_list)"

definition insert_at :: "nat \<Rightarrow> 'a \<Rightarrow> 'a list \<Rightarrow> 'a list" where
  "insert_at i x xs = take i xs @ x # drop i xs"

definition combine_ori_field_to_cross ::
    "pydict \<Rightarrow> string list \<Rightarrow> (string list \<times> pyval list list) res" where
  "combine_ori_field_to_cross tensor cross_key_list =
     (let keys = insert_at 3 ''ori_shape'' (insert_at 1 ''ori_format'' cross_key_list);
          others = filter (\<lambda>k. k \<noteq> ''format'' \<and> k \<noteq> ''shape'') cross_key_list in
      bindE (zip_fields tensor ''format'' ''ori_format'') (\<lambda>formats.
      bindE (zip_fields tensor ''shape'' ''ori_shape'') (\<lambda>shapes.
      bindE (mapE (\<lambda>k. py_iter (dget tensor k)) others) (\<lambda>cross_list.
        Inr (keys, map get_data_list (product_lists (formats # shapes # cross_list)))))))"

text \<open>One dictionary per element of the product, adapted to dynamic shapes.\<close>

definition make_cur_params :: "string list \<Rightarrow> pyval list \<Rightarrow> pydict res" where
  "make_cur_params cross_key_list cs =
     (if length cs < length cross_key_list then Inl IndexError
      else Inr (dupdate [] (zip cross_key_list cs)))"

definition get_case :: "pydict \<Rightarrow> string list \<Rightarrow> pyval list \<Rightarrow> pydict res" where
  "get_case tensor cross_key_list cs =
     bindE (make_cur_params cross_key_list cs) (\<lambda>cur_params.
       (let cur_params = check_cur_params_undefined cur_params in
        if truthy (dget cur_params ''shape'')
        then set_typical_shape_in_cur_params cur_params tensor
        else Inr cur_params))"

definition get_case_list :: "pydict \<Rightarrow> pyval list list \<Rightarrow> string list \<Rightarrow> pydict list res" where
  "get_case_list tensor cross_list cross_key_list = mapE (get_case tensor cross_key_list) cross_list"

definition cross_one_tensor :: "string list \<Rightarrow> pydict \<Rightarrow> pydict list res" where
  "cross_one_tensor op_cross_key_list tensor =
     (let cross_key_list = add_new_key_to_cross_list tensor op_cross_key_list in
      if truthy (dget tensor ''ori_format'') \<and> truthy (dget tensor ''ori_shape'') then
        bindE (combine_ori_field_to_cross tensor cross_key_list) (\<lambda>(keys, result).
          get_case_list tensor result keys)
      else
        bindE (mapE (\<lambda>key. bindE (ditem tensor key) py_iter) cross_key_list) (\<lambda>ls.
          get_case_list tensor (product_lists ls) cross_key_list))"

definition cross_tensor :: "pydict list \<Rightarrow> string list \<Rightarrow> pydict list list res" where
  "cross_tensor tensor_list op_cross_key_list =
     mapE (cross_one_tensor op_cross_key_list) tensor_list"

section \<open>Descriptions of inputs and outputs\<close>

definition get_data_distribute_list :: "design_env \<Rightarrow> pydict \<Rightarrow> pyval list res" where
  "get_data_distribute_list env input_desc =
     (if dhas input_desc ''data_distribute'' \<and> \<not> dhas input_desc VALUE
      then check_list_str_valid (PyDict input_desc) ''data_distribute'' (data_distribution_list env)
      else Inr [PyStr ''uniform''])"

definition default_value_range :: pyval where
  "default_value_range = PyList [PyFloat (Fin (1 / 10)), PyFloat (Fin 1)]"

definition get_value_range_list :: "pydict \<Rightarrow> pyval list res" where
  "get_value_range_list input_desc =
     (if dhas input_desc ''value_range'' \<and> \<not> dhas input_desc VALUE then
        bindE (check_list_list_valid (PyDict input_desc) ''value_range'') (\<lambda>value_range_list.
        bindE (forE (\<lambda>item. check_range_value_valid item False) value_range_list) (\<lambda>_.
          Inr value_range_list))
      else Inr [default_value_range])"

text \<open>Whether \<^verbatim>\<open>self.multi\<close> is set by the profiles of a description.\<close>

definition is_multi :: "pydict \<Rightarrow> bool res" where
  "is_multi desc = bindE (mapE (\<lambda>(k, v). py_len v) desc) (\<lambda>ns. Inr (list_ex (\<lambda>n. n > 1) ns))"

definition type_and_shape :: "string list \<Rightarrow> pyval \<Rightarrow> (pyval list \<times> pyval list) res" where
  "type_and_shape types desc =
     bindE (check_list_str_valid desc ''type'' types) (\<lambda>type_l.
     bindE (check_list_list_valid desc ''shape'') (\<lambda>shape_l.
     bindE (forE check_shape_valid shape_l) (\<lambda>_. Inr (type_l, shape_l))))"

definition make_one_input_ms :: "design_env \<Rightarrow> pyval \<Rightarrow> pydict res" where
  "make_one_input_ms env desc =
     bindE (type_and_shape (mindspore_type_list env) desc) (\<lambda>(type_l, shape_l).
     bindE (as_dict desc) (\<lambda>d.
     bindE (get_data_distribute_list env d) (\<lambda>dist.
     bindE (get_value_range_list d) (\<lambda>ranges.
       deal_with_value env d
         [(''type'', PyList type_l), (''shape'', PyList shape_l), (''value_range'', PyList ranges),
          (''data_distribute'', PyList dist)] False))))"

definition make_one_output_ms :: "design_env \<Rightarrow> pyval \<Rightarrow> pydict res" where
  "make_one_output_ms env desc =
     bindE (type_and_shape (mindspore_type_list env) desc) (\<lambda>(type_l, shape_l).
       Inr [(''type'', PyList type_l), (''shape'', PyList shape_l)])"

definition with_dynamic_shape :: "pydict \<Rightarrow> pydict \<Rightarrow> pydict res" where
  "with_dynamic_shape d one_desc =
     (if dget d TYPICAL_SHAPE \<noteq> PyNone then get_dynamic_shape_info d one_desc else Inr one_desc)"

definition make_one_input :: "design_env \<Rightarrow> pyval \<Rightarrow> pydict res" where
  "make_one_input env desc =
     bindE (check_list_str_valid desc ''format'' (format_map_keys env)) (\<lambda>format_l.
     bindE (type_and_shape (type_list env) desc) (\<lambda>(type_l, shape_l).
     bindE (as_dict desc) (\<lambda>d.
     bindE (get_data_distribute_list env d) (\<lambda>dist.
     bindE (get_value_range_list d) (\<lambda>ranges.
     bindE (get_ori_filed_data d format_l shape_l) (\<lambda>ori.
       (let one_desc =
          (case ori of
             ori_format # ori_shape # _ \<Rightarrow>
               [(''format'', PyList format_l), (''ori_format'', PyList ori_format),
                (''type'', PyList type_l), (''shape'', PyList shape_l),
                (''ori_shape'', PyList ori_shape), (''value_range'', PyList ranges),
                (''data_distribute'', PyList dist)]
           | _ \<Rightarrow>
               [(''format'', PyList format_l), (''type'', PyList type_l),
                (''shape'', PyList shape_l), (''value_range'', PyList ranges),
                (''data_distribute'', PyList dist)])
        in bindE (with_dynamic_shape d one_desc) (\<lambda>one_desc.
             deal_with_value env d one_desc False))))))))"

definition make_one_output :: "design_env \<Rightarrow> pyval \<Rightarrow> pydict res" where
  "make_one_output env desc =
     bindE (check_list_str_valid desc ''format'' (format_map_keys env)) (\<lambda>format_l.
     bindE (type_and_shape (type_list env) desc) (\<lambda>(type_l, shape_l).
     bindE (as_dict desc) (\<lambda>d.
     bindE (get_ori_filed_data d format_l shape_l) (\<lambda>ori.
       with_dynamic_shape d
         (case ori of
            ori_format # ori_shape # _ \<Rightarrow>
              [(''format'', PyList format_l), (''ori_format'', PyList ori_format),
               (''type'', PyList type_l), (''shape'', PyList shape_l),
               (''ori_shape'', PyList ori_shape)]
          | _ \<Rightarrow> [(''format'', PyList format_l), (''type'', PyList type_l),
                  (''shape'', PyList shape_l)])))))"

text \<open>The loop over the descriptions collects them and the flag.\<close>

definition add_desc ::
    "(pyval \<Rightarrow> pydict res) \<Rightarrow> pydict list \<times> bool \<Rightarrow> pyval \<Rightarrow> (pydict list \<times> bool) res" where
  "add_desc mk acc desc =
     bindE (mk desc) (\<lambda>one_desc.
     bindE (is_multi one_desc) (\<lambda>m. Inr (fst acc @ [one_desc], snd acc \<or> m)))"

definition desc_list ::
    "(pyval \<Rightarrow> pydict res) \<Rightarrow> bool \<Rightarrow> string \<Rightarrow> pydict \<Rightarrow> (pydict list \<times> bool) res" where
  "desc_list mk may_be_empty key json_obj =
     bindE (ditem json_obj key) (\<lambda>descs.
     bindE (py_len descs) (\<lambda>n.
       if n = 0 then (if may_be_empty then Inr ([], False) else Inl err_data)
       else bindE (py_iter descs) (\<lambda>ds. foldE (add_desc mk) ([], False) ds)))"

definition make_input_desc_list :: "design_env \<Rightarrow> pydict \<Rightarrow> (pydict list \<times> bool) res" where
  "make_input_desc_list env json_obj = desc_list (make_one_input env) True INPUT_DESC json_obj"

definition make_output_desc_list :: "design_env \<Rightarrow> pydict \<Rightarrow> (pydict list \<times> bool) res" where
  "make_output_desc_list env json_obj = desc_list (make_one_output env) False OUTPUT_DESC json_obj"

definition make_input_desc_list_ms :: "design_env \<Rightarrow> pydict \<Rightarrow> (pydict list \<times> bool) res" where
  "make_input_desc_list_ms env json_obj =
     desc_list (make_one_input_ms env) False INPUT_DESC json_obj"

definition make_output_desc_list_ms :: "design_env \<Rightarrow> pydict \<Rightarrow> (pydict list \<times> bool) res" where
  "make_output_desc_list_ms env json_obj =
     desc_list (make_one_output_ms env) False OUTPUT_DESC json_obj"

definition check_number_match :: "string \<Rightarrow> nat \<Rightarrow> pydict list \<Rightarrow> unit res" where
  "check_number_match key count descs =
     forE (\<lambda>item. bindE (ditem item key) (\<lambda>v. bindE (py_len v) (\<lambda>n.
             raise_if (count \<noteq> n) err_data))) descs"

definition check_numbers_of :: "pydict list \<Rightarrow> pydict list \<Rightarrow> string \<Rightarrow> unit res" where
  "check_numbers_of inputs outputs key =
     (case inputs of
        [] \<Rightarrow> Inl IndexError
      | first # _ \<Rightarrow>
          bindE (ditem first key) (\<lambda>v. bindE (py_len v) (\<lambda>count.
          bindE (check_number_match key count inputs) (\<lambda>_.
            check_number_match key count outputs))))"

definition check_value_number_valid_ms :: "pydict list \<Rightarrow> pydict list \<Rightarrow> unit res" where
  "check_value_number_valid_ms inputs outputs =
     forE (check_numbers_of inputs outputs) [''type'', ''shape'']"

definition check_value_number_valid :: "pydict list \<Rightarrow> pydict list \<Rightarrow> unit res" where
  "check_value_number_valid inputs outputs =
     (if length inputs < 1 then Inr ()
      else forE (check_numbers_of inputs outputs) [''format'', ''type'', ''shape''])"

section \<open>Building the sub cases\<close>

definition check_input_count :: "pydict list list \<Rightarrow> unit res" where
  "check_input_count cases = raise_if (length (remdups (map length cases)) \<noteq> 1) err_data"

definition get_count :: "pydict list list \<Rightarrow> pydict list list \<Rightarrow> nat res" where
  "get_count input_case_list output_case_list =
     (if length input_case_list > 1
      then bindE (check_input_count input_case_list) (\<lambda>_. Inr (length (hd input_case_list)))
      else bindE (check_input_count output_case_list) (\<lambda>_. Inr (length (hd output_case_list))))"

definition list_item :: "'a list \<Rightarrow> nat \<Rightarrow> 'a res" where
  "list_item xs i = (if i < length xs then Inr (xs ! i) else Inl IndexError)"

text \<open>\<^verbatim>\<open>json_obj[key][i].get('name')\<close>\<close>

definition desc_name :: "pydict \<Rightarrow> string \<Rightarrow> nat \<Rightarrow> pyval res" where
  "desc_name json_obj key i =
     bindE (ditem json_obj key) (\<lambda>descs.
     bindE (py_index descs i) (\<lambda>desc. py_get desc ''name''))"

definition named_input :: "pydict \<Rightarrow> nat \<Rightarrow> nat \<times> pydict list \<Rightarrow> pydict res" where
  "named_input json_obj index entry =
     bindE (desc_name json_obj INPUT_DESC (fst entry)) (\<lambda>name.
     bindE (list_item (snd entry) index) (\<lambda>d.
       Inr (if truthy name then dset d ''name'' name else d)))"

definition append_input_desc_to_case ::
    "pydict \<Rightarrow> nat \<Rightarrow> pydict list list \<Rightarrow> pydict list res" where
  "append_input_desc_to_case json_obj index input_case_list =
     mapE (named_input json_obj index) (List.enumerate 0 input_case_list)"

text \<open>
  One output: the entry at \<open>index\<close> gets the name, the entry at \<open>output_index\<close> joins the
  case. The updated list is returned, because a later case may use the entry again.
\<close>

definition append_output ::
    "pydict \<Rightarrow> nat \<Rightarrow> nat \<Rightarrow> nat \<times> pydict list \<Rightarrow> (pydict list \<times> pydict) res" where
  "append_output json_obj index output_index entry =
     bindE (desc_name json_obj OUTPUT_DESC (fst entry)) (\<lambda>name.
     bindE (if truthy name
            then bindE (list_item (snd entry) index) (\<lambda>d.
                   Inr ((snd entry)[index := dset d ''name'' name]))
            else Inr (snd entry)) (\<lambda>output_case.
     bindE (list_item output_case output_index) (\<lambda>d. Inr (output_case, d))))"

definition is_ms_train :: "pydict \<Rightarrow> bool" where
  "is_ms_train json_obj \<longleftrightarrow> dget json_obj ST_MODE = PyStr ''ms_python_train''"

text \<open>\<^verbatim>\<open>'_'.join(values)\<close>, which raises on a value that is not a text.\<close>

definition join_texts :: "pyval list \<Rightarrow> string res" where
  "join_texts vs =
     bindE (mapE (\<lambda>v. case v of PyStr s \<Rightarrow> Inr s | _ \<Rightarrow> Inl TypeError) vs) (\<lambda>ss.
       Inr (s_join ''_'' ss))"

definition case_suffix :: "bool \<Rightarrow> pydict \<Rightarrow> string res" where
  "case_suffix ms first_output =
     (if ms then join_texts [PyStr '''', dget first_output ''type'']
      else join_texts [PyStr '''', dget first_output ''format'', dget first_output ''type''])"

definition sub_case_name :: "bool \<Rightarrow> string \<Rightarrow> int \<Rightarrow> string \<Rightarrow> string" where
  "sub_case_name ms pfx idx sfx =
     pfx @ (if ms then str_int idx else fmt_03d (nat idx)) @ sfx"

definition make_sub_case ::
    "pydict \<Rightarrow> string \<Rightarrow> pydict list \<Rightarrow> int \<Rightarrow> pydict list \<Rightarrow> pydict list \<Rightarrow> pydict res" where
  "make_sub_case json_obj pfx attr_list idx inputs outputs =
     bindE (ditem json_obj OP) (\<lambda>op.
     bindE (if is_ms_train json_obj
            then bindE (ditem json_obj ST_MODE) (\<lambda>m. Inr [(OP, op), (ST_MODE, m)])
            else Inr [(OP, op)]) (\<lambda>head.
     bindE (list_item outputs 0) (\<lambda>first_output.
     bindE (case_suffix (is_ms_train json_obj) first_output) (\<lambda>sfx.
       Inr (head @ [(INPUT_DESC, PyList (map PyDict inputs)),
                    (OUTPUT_DESC, PyList (map PyDict outputs))]
            @ (if length attr_list > 0 then [(ATTR, PyList (map PyDict attr_list))] else [])
            @ [(''case_name'', PyStr (sub_case_name (is_ms_train json_obj) pfx idx sfx))])))))"

definition sub_test_case ::
    "pydict \<Rightarrow> string \<Rightarrow> pydict list \<Rightarrow> pyval \<times> pyval \<times> pyval \<Rightarrow> pydict list list
       \<Rightarrow> pydict list list \<times> design_state \<Rightarrow> nat \<Rightarrow> (pydict list list \<times> design_state) res" where
  "sub_test_case json_obj pfx attr_list expects input_cases acc index =
     (case acc of (output_cases, st) \<Rightarrow>
        bindE (append_input_desc_to_case json_obj index input_cases) (\<lambda>inputs.
        bindE (list_item output_cases 0) (\<lambda>first_outputs.
          (let output_index = (if index \<ge> length first_outputs
                               then index mod length output_cases else index) in
           bindE (mapE (append_output json_obj index output_index)
                    (List.enumerate 0 output_cases)) (\<lambda>outs.
           bindE (make_sub_case json_obj pfx attr_list (case_idx st) inputs (map snd outs))
             (\<lambda>cs.
           bindE (add_case_to_total_case cs expects st) (\<lambda>st.
             Inr (map fst outs, st))))))))"

definition get_sub_test_cases ::
    "design_env \<Rightarrow> pydict \<Rightarrow> pydict list list \<Rightarrow> pydict list list \<Rightarrow> nat \<Rightarrow> string
       \<Rightarrow> pydict list \<Rightarrow> design_state \<Rightarrow> design_state res" where
  "get_sub_test_cases env json_obj input_cases output_cases count pfx attr_list st =
     bindE (check_expect_output_param env json_obj) (\<lambda>(pyfile, function).
     bindE (check_set_error_threshold json_obj) (\<lambda>err_thr.
     bindE (foldE (sub_test_case json_obj pfx attr_list (pyfile, function, err_thr) input_cases)
              (output_cases, st) [0..<count]) (\<lambda>acc.
       Inr (snd acc))))"

definition case_prefix :: "pydict \<Rightarrow> bool \<Rightarrow> string res" where
  "case_prefix json_obj multi =
     (case dget json_obj CASE_NAME of
        PyStr name \<Rightarrow>
          Inr (s_replace name ''/'' ''_'' @ ''_''
               @ (if multi then (if is_ms_train json_obj then ''sub_'' else ''sub_case_'')
                  else ''case_''))
      | _ \<Rightarrow> Inl AttributeError)"

text \<open>
  \<^verbatim>\<open>subcase_generate\<close>. The object starts with case index 1, which
  \<open>begin_description\<close> sets, the constructor's part of the state.
\<close>

definition begin_description :: "design_state \<Rightarrow> design_state" where
  "begin_description st = st\<lparr>case_idx := 1\<rparr>"

definition cross_generate :: "design_env \<Rightarrow> pydict \<Rightarrow> design_state \<Rightarrow> design_state res" where
  "cross_generate env json_obj st0 =
     (let st = begin_description st0; ms = is_ms_train json_obj in
      bindE (if ms then make_input_desc_list_ms env json_obj
             else make_input_desc_list env json_obj) (\<lambda>(inputs, m1).
      bindE (if ms then make_output_desc_list_ms env json_obj
             else make_output_desc_list env json_obj) (\<lambda>(outputs, m2).
      bindE (check_attr_valid json_obj PyNone (attr_required_keys st)) (\<lambda>(attr_list, req).
      bindE (if ms then check_value_number_valid_ms inputs outputs
             else check_value_number_valid inputs outputs) (\<lambda>_.
      bindE (cross_tensor inputs (if ms then MS_INPUT_CROSS_LIST else INPUT_CROSS_LIST))
        (\<lambda>input_cases.
      bindE (cross_tensor outputs (if ms then MS_OUTPUT_CROSS_LIST else OUTPUT_CROSS_LIST))
        (\<lambda>output_cases.
      bindE (get_count input_cases output_cases) (\<lambda>count.
      bindE (case_prefix json_obj (m1 \<or> m2)) (\<lambda>pfx.
        get_sub_test_cases env json_obj input_cases output_cases count pfx attr_list
          (st\<lparr>attr_required_keys := req\<rparr>))))))))))"

section \<open>Names of the generated cases\<close>

lemma dget_append: "dget (d @ e) k = (if dhas d k then dget d k else dget e k)"
proof (cases "map_of d k")
  case None
  then show ?thesis by (simp add: dget_def dhas_iff map_add_def)
next
  case (Some v)
  then show ?thesis by (simp add: dget_def dhas_iff map_add_def split: option.splits)
qed

lemma case_suffix_underscore: "case_suffix ms out = Inr s \<Longrightarrow> \<exists>r. s = ''_'' @ r"
  by (auto simp: case_suffix_def join_texts_def split: if_splits)

lemma make_sub_case_name:
  assumes "make_sub_case j pfx attrs i ins outs = Inr c"
  shows "\<exists>r. dget c CASE_NAME = PyStr (sub_case_name (is_ms_train j) pfx i (''_'' @ r))"
  using assms unfolding make_sub_case_def
  by (auto split: if_splits dest!: case_suffix_underscore)

lemma parse_expect_keeps [simp]:
  "k \<noteq> ''calc_expect_func'' \<Longrightarrow> k \<noteq> ''calc_expect_func_file'' \<Longrightarrow>
   k \<noteq> ''calc_expect_func_file_func'' \<Longrightarrow> k \<noteq> ERROR_THRESHOLD \<Longrightarrow>
     dget (parse_expect_output_param c p f e) k = dget c k"
  by (simp add: parse_expect_output_param_def Let_def)

lemma add_case_effect:
  assumes "add_case_to_total_case c (p, f, e) st = Inr st'"
  shows "\<exists>c'. st' = st\<lparr>case_idx := case_idx st + 1, total_case_list := total_case_list st @ [c'],
      design_report := add_case_report (design_report st) (case_report_for (dget c' CASE_NAME) c')\<rparr>
    \<and> dget c' CASE_NAME = dget c CASE_NAME"
proof -
  let ?c' = "parse_expect_output_param c p f e"
  from assms obtain name where "ditem ?c' CASE_NAME = Inr name"
    and st': "st' = st\<lparr>case_idx := case_idx st + 1, total_case_list := total_case_list st @ [?c'],
      design_report := add_case_report (design_report st) (case_report_for name ?c')\<rparr>"
    by (auto simp: add_case_to_total_case_def Let_def)
  then have "name = dget ?c' CASE_NAME" by (simp add: ditem_ok dget_def)
  with st' show ?thesis by (intro exI [of _ ?c']) simp
qed

text \<open>Cases whose names carry the indices from \<open>i\<close> on.\<close>

primrec named_from :: "bool \<Rightarrow> string \<Rightarrow> int \<Rightarrow> pydict list \<Rightarrow> bool" where
  "named_from ms pfx i [] = True"
| "named_from ms pfx i (c # cs) =
     ((\<exists>r. dget c CASE_NAME = PyStr (sub_case_name ms pfx i (''_'' @ r)))
      \<and> named_from ms pfx (i + 1) cs)"

definition index_text :: "bool \<Rightarrow> int \<Rightarrow> string" where
  "index_text ms i = (if ms then str_int i else fmt_03d (nat i))"

lemma index_text_digits: "0 \<le> i \<Longrightarrow> list_all c_digit (index_text ms i)"
  by (simp add: index_text_def str_int_def str_nat_digits fmt_03d_digits)

lemma index_text_inj: "0 \<le> i \<Longrightarrow> 0 \<le> j \<Longrightarrow> index_text ms i = index_text ms j \<longleftrightarrow> i = j"
  by (auto simp: index_text_def str_int_def str_nat_inj fmt_03d_inj)

lemma digits_prefix:
  assumes "list_all c_digit a" and "list_all c_digit b"
    and "a @ ''_'' @ r = b @ ''_'' @ s"
  shows "a = b"
proof -
  have "takeWhile c_digit (a @ ''_'' @ r) = a" if "list_all c_digit a" for a r
    using that by (simp add: takeWhile_append2 list_all_iff c_digit_def)
  with assms show ?thesis by metis
qed

lemma sub_case_name_inj:
  assumes "0 \<le> i" and "0 \<le> j"
    and "sub_case_name ms pfx i (''_'' @ r) = sub_case_name ms pfx j (''_'' @ s)"
  shows "i = j"
proof -
  from assms(3) have "index_text ms i @ ''_'' @ r = index_text ms j @ ''_'' @ s"
    by (simp add: sub_case_name_def index_text_def)
  then have "index_text ms i = index_text ms j"
    by (rule digits_prefix [OF index_text_digits index_text_digits, OF assms(1,2)])
  with assms(1,2) show ?thesis by (simp add: index_text_inj)
qed

lemma named_from_later:
  "named_from ms pfx i cs \<Longrightarrow> c \<in> set cs \<Longrightarrow>
     \<exists>k r. i \<le> k \<and> dget c CASE_NAME = PyStr (sub_case_name ms pfx k (''_'' @ r))"
proof (induction cs arbitrary: i)
  case Nil
  then show ?case by simp
next
  case (Cons d cs)
  show ?case
  proof (cases "c = d")
    case True
    with Cons.prems show ?thesis by auto
  next
    case False
    with Cons.prems have "c \<in> set cs" and "named_from ms pfx (i + 1) cs" by auto
    from Cons.IH [OF this(2,1)] obtain k r where "i + 1 \<le> k"
      "dget c CASE_NAME = PyStr (sub_case_name ms pfx k (''_'' @ r))" by blast
    then show ?thesis by (intro exI [of _ k] exI [of _ r]) simp
  qed
qed

lemma named_from_distinct:
  "named_from ms pfx i cs \<Longrightarrow> 0 \<le> i \<Longrightarrow> distinct (map (\<lambda>c. dget c CASE_NAME) cs)"
proof (induction cs arbitrary: i)
  case Nil
  then show ?case by simp
next
  case (Cons c cs)
  from Cons.prems obtain r where
    r: "dget c CASE_NAME = PyStr (sub_case_name ms pfx i (''_'' @ r))" by auto
  have "dget d CASE_NAME \<noteq> dget c CASE_NAME" if "d \<in> set cs" for d
  proof -
    from named_from_later [of ms pfx "i + 1" cs d] that Cons.prems obtain k s where
      "i + 1 \<le> k" "dget d CASE_NAME = PyStr (sub_case_name ms pfx k (''_'' @ s))" by auto
    with r Cons.prems(2) sub_case_name_inj [of i k ms pfx r s] show ?thesis by auto
  qed
  with Cons show ?case by fastforce
qed

text \<open>What a loop over indices adds to the state.\<close>

definition adds_cases :: "bool \<Rightarrow> string \<Rightarrow> design_state \<Rightarrow> design_state \<Rightarrow> pydict list \<Rightarrow> bool" where
  "adds_cases ms pfx st st' new \<longleftrightarrow>
     named_from ms pfx (case_idx st) new
     \<and> case_idx st' = case_idx st + int (length new)
     \<and> total_case_list st' = total_case_list st @ new
     \<and> design_report st' = fold (\<lambda>c r. add_case_report r (case_report_for (dget c CASE_NAME) c))
                             new (design_report st)"

lemma named_from_append:
  "named_from ms pfx i (cs @ ds) \<longleftrightarrow>
     named_from ms pfx i cs \<and> named_from ms pfx (i + int (length cs)) ds"
  by (induction cs arbitrary: i) (simp_all add: add.assoc add.commute)

lemma adds_none: "adds_cases ms pfx st st []"
  by (simp add: adds_cases_def)

lemma adds_append:
  "adds_cases ms pfx st st1 new \<Longrightarrow> adds_cases ms pfx st1 st2 new' \<Longrightarrow>
     adds_cases ms pfx st st2 (new @ new')"
  by (simp add: adds_cases_def named_from_append)

lemma adds_more:
  "adds_cases ms pfx st st1 [c] \<Longrightarrow> adds_cases ms pfx st1 st2 new \<Longrightarrow>
     adds_cases ms pfx st st2 (c # new)"
  using adds_append [of ms pfx st st1 "[c]"] by simp

lemma sub_test_case_adds:
  assumes "sub_test_case j pfx attrs expects ins (outs, st) i = Inr (outs', st')"
  shows "\<exists>c. adds_cases (is_ms_train j) pfx st st' [c]"
proof -
  obtain p f e where ex: "expects = (p, f, e)" by (cases expects)
  from assms obtain inputs os c where
      "make_sub_case j pfx attrs (case_idx st) inputs os = Inr c"
    and add: "add_case_to_total_case c (p, f, e) st = Inr st'"
    by (auto simp: sub_test_case_def Let_def ex)
  with make_sub_case_name obtain r where
    "dget c CASE_NAME = PyStr (sub_case_name (is_ms_train j) pfx (case_idx st) (''_'' @ r))"
    by blast
  with add_case_effect [OF add] show ?thesis by (auto simp: adds_cases_def)
qed

lemma sub_test_cases_add:
  "foldE (sub_test_case j pfx attrs expects ins) (outs, st) is = Inr (outs', st') \<Longrightarrow>
     \<exists>new. length new = length is \<and> adds_cases (is_ms_train j) pfx st st' new"
proof (induction "is" arbitrary: outs st)
  case Nil
  then show ?case by (simp add: adds_none)
next
  case (Cons i rest)
  from Cons.prems obtain outs1 st1 where
      step: "sub_test_case j pfx attrs expects ins (outs, st) i = Inr (outs1, st1)"
    and rest: "foldE (sub_test_case j pfx attrs expects ins) (outs1, st1) rest = Inr (outs', st')"
    by auto
  from sub_test_case_adds [OF step] Cons.IH [OF rest] show ?case
    using adds_more by (metis length_Cons)
qed

lemma add_reports:
  "report_list (fold (\<lambda>c r. add_case_report r (f c)) cs r) = report_list r @ map f cs"
  by (induction cs arbitrary: r) (simp_all add: add_case_report_def)

definition report_for :: "pydict \<Rightarrow> case_report" where
  "report_for c = case_report_for (dget c CASE_NAME) c"

lemma adds_cases_reports:
  "adds_cases ms pfx st st' new \<Longrightarrow>
     report_list (design_report st') = report_list (design_report st) @ map report_for new"
  by (simp add: adds_cases_def add_reports report_for_def [abs_def])

lemma adds_cases_distinct:
  "adds_cases ms pfx st st' new \<Longrightarrow> 0 \<le> case_idx st \<Longrightarrow> distinct (map (\<lambda>c. dget c CASE_NAME) new)"
  by (auto simp: adds_cases_def intro: named_from_distinct)

text \<open>
  C2. \<^verbatim>\<open>_get_sub_test_cases\<close> appends exactly \<open>count\<close> cases, all with different names,
  and registers one report per new case under that case's name; cases and reports of earlier
  descriptions are kept as they are.
\<close>

theorem get_sub_test_cases_spec:
  assumes "get_sub_test_cases env j ins outs count pfx attrs st = Inr st'" and "0 \<le> case_idx st"
  shows "\<exists>new. total_case_list st' = total_case_list st @ new \<and> length new = count
    \<and> distinct (map (\<lambda>c. dget c CASE_NAME) new)
    \<and> report_list (design_report st') = report_list (design_report st) @ map report_for new
    \<and> case_idx st' = case_idx st + int count"
proof -
  from assms(1) obtain expects outs' where
    "foldE (sub_test_case j pfx attrs expects ins) (outs, st) [0..<count] = Inr (outs', st')"
    by (auto simp: get_sub_test_cases_def)
  from sub_test_cases_add [OF this] obtain new where len: "length new = count"
    and new: "adds_cases (is_ms_train j) pfx st st' new" by auto
  with assms(2) adds_cases_reports [OF new] adds_cases_distinct [OF new] show ?thesis
    by (intro exI [of _ new]) (auto simp: adds_cases_def)
qed

section \<open>The product covers every combination\<close>

lemma length_product [simp]: "length (product_lists xss) = prod_list (map length xss)"
  by (simp add: length_product_lists prod_list.eq_foldr foldr_map o_def)

lemma dget_zip:
  assumes "distinct ks" and "length vs = length ks" and "(k, v) \<in> set (zip ks vs)"
  shows "dget (dupdate [] (zip ks vs)) k = v"
proof -
  have "distinct (map fst (zip ks vs))" using assms by simp
  then have "map_of (rev (zip ks vs)) k = Some v"
    using assms(3) by (simp add: distinct_map map_of_is_SomeI rev_map [symmetric])
  then show ?thesis using dict.store_all [of "zip ks vs" "[]" k] by (simp add: dget_def dupdate_def)
qed

definition adapted_keys :: "string list" where
  "adapted_keys = [''format'', ''type'', TYPICAL_SHAPE, SHAPE_RANGE]"

lemma undefined_keeps: "k \<notin> set adapted_keys \<Longrightarrow> dget (check_cur_params_undefined p) k = dget p k"
  by (simp add: check_cur_params_undefined_def adapted_keys_def Let_def)

lemma get_case_keeps:
  assumes "get_case tensor ks vs = Inr c" and "distinct ks" and "length vs = length ks"
    and "(k, v) \<in> set (zip ks vs)" and "k \<notin> set adapted_keys"
  shows "dget c k = v"
proof -
  let ?p = "check_cur_params_undefined (dupdate [] (zip ks vs))"
  have "dget ?p k = v" using assms by (simp add: undefined_keeps dget_zip)
  moreover have "c = ?p \<or> set_typical_shape_in_cur_params ?p tensor = Inr c"
    using assms(1,3) by (auto simp: get_case_def make_cur_params_def Let_def split: if_splits)
  moreover have "dget c k = dget ?p k" if "set_typical_shape_in_cur_params ?p tensor = Inr c"
    using that set_typical_shape_keeps [of tensor ?p _ c k] assms(5)
    by (auto simp: set_typical_shape_in_cur_params_def adapted_keys_def)
  ultimately show ?thesis by auto
qed

text \<open>
  C15. Without original formats, the cases of a tensor are as many as the product of its
  profiles has elements, and every choice of one profile per key occurs in some case; the
  keys that depend on \<^verbatim>\<open>UNDEFINED\<close> and on dynamic shapes (\<open>adapted_keys\<close>) are excepted.
\<close>

theorem cross_covers_product:
  assumes "cross_one_tensor ks tensor = Inr cs"
    and "\<not> (truthy (dget tensor ''ori_format'') \<and> truthy (dget tensor ''ori_shape''))"
    and "keys = add_new_key_to_cross_list tensor ks" and "distinct keys"
  shows "\<exists>ls. list_all2 (\<lambda>k l. bindE (ditem tensor k) py_iter = Inr l) keys ls
    \<and> length cs = prod_list (map length ls)
    \<and> (\<forall>choice. list_all2 (\<lambda>v l. v \<in> set l) choice ls \<longrightarrow>
         (\<exists>c\<in>set cs. \<forall>(k, v)\<in>set (zip keys choice). k \<notin> set adapted_keys \<longrightarrow> dget c k = v))"
proof -
  from assms obtain ls where
      ls: "mapE (\<lambda>key. bindE (ditem tensor key) py_iter) keys = Inr ls"
    and cs: "mapE (get_case tensor keys) (product_lists ls) = Inr cs"
    by (auto simp: cross_one_tensor_def get_case_list_def Let_def)
  have len: "length ls = length keys" using ls by (rule mapE_length)
  have all: "list_all2 (\<lambda>vs c. get_case tensor keys vs = Inr c) (product_lists ls) cs"
    using cs by (simp add: mapE_ok)
  have "\<exists>c\<in>set cs. \<forall>(k, v)\<in>set (zip keys choice). k \<notin> set adapted_keys \<longrightarrow> dget c k = v"
    if choice: "list_all2 (\<lambda>v l. v \<in> set l) choice ls" for choice
  proof -
    have "choice \<in> set (product_lists ls)" using choice by (simp add: product_lists_set)
    then obtain i where i: "i < length (product_lists ls)" "choice = product_lists ls ! i"
      by (metis in_set_conv_nth)
    with all have "get_case tensor keys choice = Inr (cs ! i)" and "i < length cs"
      by (auto simp: list_all2_conv_all_nth simp del: length_product)
    moreover have "length choice = length keys" using choice len by (simp add: list_all2_lengthD)
    ultimately show ?thesis
      using get_case_keeps [of tensor keys choice "cs ! i"] assms(4) by (auto intro!: bexI [of _ "cs ! i"])
  qed
  with ls mapE_length [OF cs] show ?thesis
    by (intro exI [of _ ls]) (simp add: mapE_ok)
qed

definition cross_ex :: pydict where
  "cross_ex = [(''format'', PyList [PyStr ''ND'']), (''type'', PyList [PyStr ''float'', PyStr ''int8'']),
     (''shape'', PyList [PyList [PyInt 4]])]"

lemma cross_ex_run:
  "cross_one_tensor OUTPUT_CROSS_LIST cross_ex =
     Inr [[(''format'', PyStr ''ND''), (''shape'', PyList [PyInt 4]), (''type'', PyStr ''float'')],
          [(''format'', PyStr ''ND''), (''shape'', PyList [PyInt 4]), (''type'', PyStr ''int8'')]]"
  by code_simp

theorem cross_covers_product_witness:
  "\<exists>ls. list_all2 (\<lambda>k l. bindE (ditem cross_ex k) py_iter = Inr l) OUTPUT_CROSS_LIST ls
     \<and> prod_list (map length ls) = 2"
  using cross_covers_product [OF cross_ex_run, of OUTPUT_CROSS_LIST]
  by (auto simp: cross_ex_def OUTPUT_CROSS_LIST_def add_new_key_to_cross_list_def)

section \<open>Original formats and shapes\<close>

lemma get_data_list_pair: "get_data_list (PyTuple [a, b] # vs) = a # b # get_data_list vs"
  by (simp add: get_data_list_def)

definition not_tuple :: "pyval \<Rightarrow> bool" where
  "not_tuple v \<longleftrightarrow> (case v of PyTuple _ \<Rightarrow> False | _ \<Rightarrow> True)"

lemma get_data_list_plain: "list_all not_tuple vs \<Longrightarrow> get_data_list vs = vs"
  by (induction vs) (auto simp: get_data_list_def not_tuple_def split: pyval.splits)

lemma not_tuples_chosen:
  "list_all2 (\<lambda>v l. v \<in> set l) vs ls \<Longrightarrow> list_all (list_all not_tuple) ls \<Longrightarrow> list_all not_tuple vs"
  by (induction vs ls rule: list_all2_induct) (auto simp: list_all_iff)

lemma choose_two:
  "{xs. list_all2 P xs (F # S # ls)} = {p # q # vs | p q vs. P p F \<and> P q S \<and> list_all2 P vs ls}"
  by (auto simp: list_all2_Cons2)

text \<open>
  With original formats, each case takes format and original format from the same
  position, and shape and original shape from the same position, in the order of the keys
  that \<^verbatim>\<open>insert\<close> produces; the other keys are crossed freely.
\<close>

theorem combine_ori_field_pairs:
  assumes "combine_ori_field_to_cross tensor (''format'' # ''shape'' # rest) = Inr (keys, result)"
    and "dget tensor ''format'' = PyList fs" and "dget tensor ''ori_format'' = PyList ofs"
    and "dget tensor ''shape'' = PyList ss" and "dget tensor ''ori_shape'' = PyList oss"
    and "''format'' \<notin> set rest" and "''shape'' \<notin> set rest"
    and "mapE (\<lambda>k. py_iter (dget tensor k)) rest = Inr ls"
    and "list_all (list_all not_tuple) ls"
  shows "keys = [''format'', ''ori_format'', ''shape'', ''ori_shape''] @ rest
    \<and> set result = {[f, fo, s, so] @ vs | f fo s so vs.
         (f, fo) \<in> set (zip fs ofs) \<and> (s, so) \<in> set (zip ss oss) \<and> list_all2 (\<lambda>v l. v \<in> set l) vs ls}"
proof -
  let ?F = "map (\<lambda>(x, y). PyTuple [x, y]) (zip fs ofs)"
  let ?S = "map (\<lambda>(x, y). PyTuple [x, y]) (zip ss oss)"
  have others: "filter (\<lambda>k. k \<noteq> ''format'' \<and> k \<noteq> ''shape'') rest = rest"
    using assms(6,7) by (auto simp: filter_id_conv)
  from assms have keys: "keys = insert_at 3 ''ori_shape'' (insert_at 1 ''ori_format'' (''format'' # ''shape'' # rest))"
    and result: "result = map get_data_list (product_lists (?F # ?S # ls))"
    by (auto simp: combine_ori_field_to_cross_def zip_fields_def Let_def others)
  have "set result = get_data_list ` {p # q # vs | p q vs. p \<in> set ?F \<and> q \<in> set ?S
      \<and> list_all2 (\<lambda>v l. v \<in> set l) vs ls}"
    unfolding result set_map product_lists_set choose_two by (rule refl)
  also have "\<dots> = {[f, fo, s, so] @ vs | f fo s so vs.
         (f, fo) \<in> set (zip fs ofs) \<and> (s, so) \<in> set (zip ss oss) \<and> list_all2 (\<lambda>v l. v \<in> set l) vs ls}"
    (is "get_data_list ` ?A = ?B")
  proof
    show "get_data_list ` ?A \<subseteq> ?B"
      using not_tuples_chosen [OF _ assms(9)]
      by (auto simp: get_data_list_pair get_data_list_plain)
    show "?B \<subseteq> get_data_list ` ?A"
    proof
      fix x
      assume "x \<in> ?B"
      then obtain f fo s so vs where x: "x = [f, fo, s, so] @ vs"
        and mem: "(f, fo) \<in> set (zip fs ofs)" "(s, so) \<in> set (zip ss oss)"
          "list_all2 (\<lambda>v l. v \<in> set l) vs ls" by blast
      let ?a = "PyTuple [f, fo] # PyTuple [s, so] # vs"
      have "?a \<in> ?A" using mem by force
      moreover have "get_data_list ?a = x"
        using not_tuples_chosen [OF mem(3) assms(9)]
        by (simp add: x get_data_list_pair get_data_list_plain)
      ultimately show "x \<in> get_data_list ` ?A" by blast
    qed
  qed
  finally show ?thesis by (simp add: keys insert_at_def)
qed

definition ori_ex :: pydict where
  "ori_ex = [(''format'', PyList [PyStr ''NC1HWC0'', PyStr ''ND'']),
     (''ori_format'', PyList [PyStr ''NCHW'', PyStr ''ND'']), (''shape'', PyList [PyList [PyInt 4]]),
     (''ori_shape'', PyList [PyList [PyInt 1]]), (''type'', PyList [PyStr ''int8''])]"

lemma ori_ex_run:
  "combine_ori_field_to_cross ori_ex [''format'', ''shape'', ''type''] =
     Inr ([''format'', ''ori_format'', ''shape'', ''ori_shape'', ''type''],
       [[PyStr ''NC1HWC0'', PyStr ''NCHW'', PyList [PyInt 4], PyList [PyInt 1], PyStr ''int8''],
        [PyStr ''ND'', PyStr ''ND'', PyList [PyInt 4], PyList [PyInt 1], PyStr ''int8'']])"
  by code_simp

theorem combine_ori_field_pairs_witness:
  "[PyStr ''NC1HWC0'', PyStr ''NCHW'', PyList [PyInt 4], PyList [PyInt 1], PyStr ''int8'']
     \<in> {[f, fo, s, so] @ vs | f fo s so vs.
         (f, fo) \<in> set (zip [PyStr ''NC1HWC0'', PyStr ''ND''] [PyStr ''NCHW'', PyStr ''ND''])
         \<and> (s, so) \<in> set (zip [PyList [PyInt 4]] [PyList [PyInt 1]])
         \<and> list_all2 (\<lambda>v l. v \<in> set l) vs [[PyStr ''int8'']]}"
proof -
  have "list_all (list_all not_tuple) [[PyStr ''int8'']]" by (simp add: not_tuple_def)
  from combine_ori_field_pairs [OF ori_ex_run _ _ _ _ _ _ _ this] show ?thesis
    by (simp add: ori_ex_def)
qed

section \<open>Concrete runs\<close>

definition start_state :: design_state where
  "start_state = \<lparr>case_idx = 1, total_case_list = [], design_report = new_report PyNone,
     required_keys = REQUIRED_KEYS, attr_required_keys = ATTR_REQUIRED_KEYS\<rparr>"

definition env_ex :: design_env where
  "env_ex = \<lparr>format_map_keys = [''ND''], type_list = [''float'', ''int8''],
     mindspore_type_list = [''int8_Default''], data_distribution_list = [''uniform'', ''normal''],
     current_json_path = ''/t/add.json'', env_fs = empty_fs, env_mkdirs = mkdir_one\<rparr>"

definition desc_ex :: "pyval list \<Rightarrow> pydict" where
  "desc_ex ranges = [(''format'', PyList [PyStr ''ND'']), (''type'', PyStr ''float''),
     (''shape'', PyList [PyInt 4])]
     @ (if ranges = [] then [] else [(''value_range'', PyList ranges)])"

definition json_ex :: pydict where
  "json_ex = [(''case_name'', PyStr ''Add''), (''op'', PyStr ''Add''),
     (''input_desc'', PyList [PyDict (desc_ex [PyList [PyInt 0, PyInt 1], PyList [PyInt 2, PyInt 3]])]),
     (''output_desc'', PyList [PyDict (desc_ex [])])]"

definition out_ex :: "pydict" where
  "out_ex = [(''format'', PyStr ''ND''), (''shape'', PyList [PyInt 4]), (''type'', PyStr ''float'')]"

definition sub_case_ex :: pydict where
  "sub_case_ex = [(''op'', PyStr ''Add''), (''input_desc'', PyList [PyDict out_ex]),
     (''output_desc'', PyList [PyDict out_ex]), (''case_name'', PyStr ''Add_case_001_ND_float'')]"

lemma sub_cases_ex:
  "get_sub_test_cases env_ex json_ex [[out_ex]] [[out_ex]] 1 ''Add_case_'' [] start_state =
     Inr (start_state\<lparr>case_idx := 2, total_case_list := [sub_case_ex],
       design_report := add_case_report (new_report PyNone)
         (case_report_for (PyStr ''Add_case_001_ND_float'') sub_case_ex)\<rparr>)"
  by code_simp

theorem get_sub_test_cases_spec_witness:
  "\<exists>new. [sub_case_ex] = total_case_list start_state @ new \<and> length new = 1"
proof -
  have "0 \<le> case_idx start_state" by (simp add: start_state_def)
  from get_sub_test_cases_spec [OF sub_cases_ex this] show ?thesis by auto
qed

text \<open>
  The number of sub cases comes from the inputs only if there are at least two of them. With
  one input, the profiles the output does not have, here the second value range, are dropped.
\<close>

lemma single_input_drops_profiles:
  "bindE (bindE (make_input_desc_list env_ex json_ex) (\<lambda>(ds, _). cross_tensor ds INPUT_CROSS_LIST))
     (\<lambda>cases. Inr (map length cases)) = Inr [2]"
  "bindE (cross_generate env_ex json_ex start_state) (\<lambda>st. Inr (length (total_case_list st))) = Inr 1"
  by code_simp+

end
