(* ===== verification/Subcase_Fuzz.thy ===== *)
theory Subcase_Fuzz
  imports Subcase_Cross
begin

text \<open>
  Sub cases from a user's fuzz function, \<^verbatim>\<open>src/main/subcase_design_fuzz.py\<close> (class
  \<^verbatim>\<open>SubCaseDesignFuzz\<close>). The user's module is a parameter: \<open>modules\<close> finds a function
  by module and name, and a function maps the number of the call to what that call returns
  or raises. Descriptions whose \<^verbatim>\<open>fuzz\<close> entries are replaced in place are returned.
\<close>

type_synonym fuzz_fun = "nat \<Rightarrow> pyval res"
type_synonym fuzz_modules = "string \<Rightarrow> string \<Rightarrow> fuzz_fun option"

section \<open>The fuzz function\<close>

definition get_fuzz_func_return :: "fuzz_fun \<Rightarrow> nat \<Rightarrow> pyval list res" where
  "get_fuzz_func_return fuzz_func call =
     bindE (fuzz_func call) (\<lambda>fuzz_return.
       case fuzz_return of
         PyDict d \<Rightarrow> Inr [PyDict d]
       | PyList xs \<Rightarrow> Inr xs
       | _ \<Rightarrow> Inl err_data)"

text \<open>\<^verbatim>\<open>_get_fuzz_func\<close>; its caller turns every failure into the parameter error.\<close>

definition get_fuzz_func :: "fuzz_modules \<Rightarrow> string \<Rightarrow> string \<Rightarrow> fuzz_fun res" where
  "get_fuzz_func modules module_name fuzz_func =
     (case modules module_name fuzz_func of None \<Rightarrow> Inl err_param | Some f \<Rightarrow> Inr f)"

definition fuzz_impl_parts :: "string \<Rightarrow> (string \<times> string) res" where
  "fuzz_impl_parts impl =
     (case s_split '':'' impl of
        [_] \<Rightarrow> Inr (impl, FUZZ_FUNCTION)
      | [path, func] \<Rightarrow> Inr (path, s_replace func SPACE EMPTY)
      | _ \<Rightarrow> Inl err_path)"

definition check_fuzz_valid :: "fuzz_modules \<Rightarrow> design_env \<Rightarrow> pydict \<Rightarrow> fuzz_fun res" where
  "check_fuzz_valid modules env json_obj =
     (case dget json_obj FUZZ_IMPL of
        PyStr impl \<Rightarrow>
          bindE (fuzz_impl_parts impl) (\<lambda>(fuzz_impl_path, fuzz_func).
            (let real_fuzz_path = path_join (path_dirname (current_json_path env)) fuzz_impl_path in
             bindE (raise_if (snd (path_splitext real_fuzz_path) \<noteq> PY_FILE) err_path) (\<lambda>_.
             bindE (check_path_valid (env_mkdirs env) (env_fs env) real_fuzz_path False) (\<lambda>_.
               get_fuzz_func modules (fst (path_splitext (path_basename real_fuzz_path)))
                 fuzz_func))))
      | _ \<Rightarrow> Inl AttributeError)"

definition check_fuzz_case_num_valid :: "pydict \<Rightarrow> int res" where
  "check_fuzz_case_num_valid json_obj =
     (let fuzz_case_num = dget json_obj FUZZ_CASE_NUM in
      if is_int fuzz_case_num then
        (if 0 < int_view fuzz_case_num \<and> int_view fuzz_case_num \<le> MAX_FUZZ_CASE_NUM
         then Inr (int_view fuzz_case_num) else Inl err_param)
      else Inl err_param)"

section \<open>Values of one description\<close>

definition key_exists_if :: "bool \<Rightarrow> pyval \<Rightarrow> string \<Rightarrow> unit res" where
  "key_exists_if required json_obj key =
     (if required then check_key_exist json_obj key else Inr ())"

definition check_fuzz_value_valid ::
    "pyval \<Rightarrow> string \<Rightarrow> string list option \<Rightarrow> string \<Rightarrow> pyval \<Rightarrow> bool \<Rightarrow> (pyval \<times> pydict) res" where
  "check_fuzz_value_valid json_obj key support_list param_type fuzz_dict required =
     bindE (key_exists_if required json_obj key) (\<lambda>_.
     bindE (as_dict json_obj) (\<lambda>d.
     bindE (replace_fuzz_param d key param_type fuzz_dict) (\<lambda>d.
     bindE (if is_tuple_or_list (dget d key)
            then bindE (py_len (dget d key)) (\<lambda>n.
                 bindE (raise_if (n \<noteq> 1) err_data) (\<lambda>_. py_index (dget d key) 0))
            else Inr (dget d key)) (\<lambda>param_value.
     bindE (case support_list of
              None \<Rightarrow> Inr ()
            | Some sl \<Rightarrow> raise_if (\<not> py_in param_value (map PyStr sl)) err_data) (\<lambda>_.
       Inr (param_value, d))))))"

definition check_fuzz_shape_valid ::
    "pyval \<Rightarrow> string \<Rightarrow> string \<Rightarrow> pyval \<Rightarrow> bool \<Rightarrow> (pyval \<times> pydict) res" where
  "check_fuzz_shape_valid json_obj key param_type fuzz_dict required =
     bindE (key_exists_if required json_obj key) (\<lambda>_.
     bindE (as_dict json_obj) (\<lambda>d.
     bindE (replace_fuzz_param d key param_type fuzz_dict) (\<lambda>d.
       if is_list (dget d key)
       then bindE (check_shape_valid (dget d key)) (\<lambda>_. Inr (dget d key, d))
       else Inl err_data)))"

definition check_fuzz_data_distribute_valid ::
    "design_env \<Rightarrow> pydict \<Rightarrow> string \<Rightarrow> pyval \<Rightarrow> (pyval \<times> pydict) res" where
  "check_fuzz_data_distribute_valid env d param_type fuzz_dict =
     (if dhas d ''data_distribute'' \<and> \<not> dhas d VALUE
      then check_fuzz_value_valid (PyDict d) ''data_distribute''
             (Some (data_distribution_list env)) param_type fuzz_dict True
      else Inr (PyStr ''uniform'', d))"

definition check_fuzz_value_range_valid ::
    "pydict \<Rightarrow> string \<Rightarrow> pyval \<Rightarrow> (pyval \<times> pydict) res" where
  "check_fuzz_value_range_valid d param_type fuzz_dict =
     (if dhas d ''value_range'' \<and> \<not> dhas d VALUE then
        bindE (replace_fuzz_param d ''value_range'' param_type fuzz_dict) (\<lambda>d.
          case dget d ''value_range'' of
            PyList xs \<Rightarrow>
              (let value_range = (case xs of [PyList ys] \<Rightarrow> PyList ys | _ \<Rightarrow> PyList xs) in
               bindE (check_range_value_valid value_range False) (\<lambda>_. Inr (value_range, d)))
          | _ \<Rightarrow> Inl err_data)
      else Inr (default_value_range, d))"

text \<open>The part of a description that only inputs have.\<close>

definition fuzz_input_part ::
    "design_env \<Rightarrow> string \<Rightarrow> pyval \<Rightarrow> pydict \<Rightarrow> pydict \<Rightarrow> (pydict \<times> pydict) res" where
  "fuzz_input_part env desc_type fuzz_dict base d =
     bindE (check_fuzz_data_distribute_valid env d desc_type fuzz_dict) (\<lambda>(data_distribute, d).
     bindE (check_fuzz_value_range_valid d desc_type fuzz_dict) (\<lambda>(value_range, d).
     bindE (replace_fuzz_param d VALUE desc_type fuzz_dict) (\<lambda>d.
     bindE (deal_with_value env d
              (base @ [(''value_range'', value_range), (''data_distribute'', data_distribute)]) True)
       (\<lambda>one_desc. Inr (one_desc, d)))))"

definition make_one_desc_ms_fuzz ::
    "design_env \<Rightarrow> string \<Rightarrow> pyval \<Rightarrow> pyval \<Rightarrow> (pydict \<times> pydict) res" where
  "make_one_desc_ms_fuzz env desc_type fuzz_dict desc_obj =
     bindE (check_fuzz_value_valid desc_obj ''type'' (Some (mindspore_type_list env)) desc_type
              fuzz_dict True) (\<lambda>(type_value, d).
     bindE (check_fuzz_shape_valid (PyDict d) ''shape'' desc_type fuzz_dict True)
       (\<lambda>(shape_value, d).
       (let base = [(''type'', type_value), (''shape'', shape_value)] in
        if desc_type = INPUT_DESC then fuzz_input_part env desc_type fuzz_dict base d
        else Inr (base, d))))"

definition deal_with_ori_filed_data_fuzz ::
    "pydict \<Rightarrow> string \<Rightarrow> pyval \<Rightarrow> pydict \<Rightarrow> (pydict \<times> pydict) res" where
  "deal_with_ori_filed_data_fuzz d param_type fuzz_dict one_desc =
     bindE (check_fuzz_value_valid (PyDict d) ''ori_format'' None param_type fuzz_dict False)
       (\<lambda>(ori_format_value, d).
     bindE (if dget d ''ori_shape'' \<noteq> PyNone
            then check_fuzz_shape_valid (PyDict d) ''ori_shape'' param_type fuzz_dict False
            else Inr (PyNone, d)) (\<lambda>(ori_shape_value, d).
       Inr (if truthy ori_format_value \<and> truthy ori_shape_value
            then dset (dset one_desc ''ori_format'' ori_format_value) ''ori_shape'' ori_shape_value
            else one_desc, d)))"

definition check_fuzz_shape_range_valid ::
    "pydict \<Rightarrow> string \<Rightarrow> pyval \<Rightarrow> (pyval \<times> pydict) res" where
  "check_fuzz_shape_range_valid d param_type fuzz_dict =
     bindE (replace_fuzz_param d SHAPE_RANGE param_type fuzz_dict) (\<lambda>d.
     bindE (check_list_list_valid (PyDict d) SHAPE_RANGE) (\<lambda>shape_range.
     bindE (forE (\<lambda>item. check_range_value_valid item True) shape_range) (\<lambda>_.
       Inr (PyList shape_range, d))))"

definition deal_with_dynamic_shape_fuzz ::
    "pydict \<Rightarrow> string \<Rightarrow> pyval \<Rightarrow> pydict \<Rightarrow> (pydict \<times> pydict) res" where
  "deal_with_dynamic_shape_fuzz d param_type fuzz_dict one_desc =
     bindE (check_not_dynamic_shape (dget d ''shape'')) (\<lambda>flag.
     if \<not> truthy flag then Inr (one_desc, d)
     else
       bindE (check_fuzz_shape_valid (PyDict d) TYPICAL_SHAPE param_type fuzz_dict True)
         (\<lambda>(typical_shape, d).
       bindE (check_typical_shape_valid typical_shape) (\<lambda>_.
       bindE (check_fuzz_shape_range_valid d param_type fuzz_dict) (\<lambda>(shape_range, d).
         Inr (dset (dset one_desc TYPICAL_SHAPE typical_shape) SHAPE_RANGE shape_range, d)))))"

definition make_one_desc_fuzz ::
    "design_env \<Rightarrow> string \<Rightarrow> pyval \<Rightarrow> pyval \<Rightarrow> (pydict \<times> pydict) res" where
  "make_one_desc_fuzz env desc_type fuzz_dict desc_obj =
     bindE (check_fuzz_value_valid desc_obj ''format'' (Some (format_map_keys env)) desc_type
              fuzz_dict True) (\<lambda>(format_value, d).
     bindE (check_fuzz_value_valid (PyDict d) ''type'' (Some (type_list env)) desc_type
              fuzz_dict True) (\<lambda>(type_value, d).
     bindE (check_fuzz_shape_valid (PyDict d) ''shape'' desc_type fuzz_dict True)
       (\<lambda>(shape_value, d).
     bindE (let base = [(''format'', format_value), (''type'', type_value), (''shape'', shape_value)]
            in if desc_type = INPUT_DESC then fuzz_input_part env desc_type fuzz_dict base d
               else Inr (base, d)) (\<lambda>(one_desc, d).
     bindE (deal_with_ori_filed_data_fuzz d desc_type fuzz_dict one_desc) (\<lambda>(one_desc, d).
     bindE (if dget d TYPICAL_SHAPE \<noteq> PyNone
            then deal_with_dynamic_shape_fuzz d desc_type fuzz_dict one_desc
            else Inr (one_desc, d)) (\<lambda>(one_desc, d).
       Inr (if truthy (dget d ''name'') then dset one_desc ''name'' (dget d ''name'') else one_desc,
            d)))))))"

section \<open>All descriptions and the loop\<close>

definition fuzz_desc_list ::
    "(pyval \<Rightarrow> (pydict \<times> pydict) res) \<Rightarrow> bool \<Rightarrow> string \<Rightarrow> pydict \<Rightarrow> (pydict list \<times> pydict) res" where
  "fuzz_desc_list mk may_be_empty desc_type json_obj =
     bindE (ditem json_obj desc_type) (\<lambda>descs.
     bindE (py_len descs) (\<lambda>n.
       if n = 0 then (if may_be_empty then Inr ([], json_obj) else Inl err_data)
       else bindE (py_iter descs) (\<lambda>ds.
            bindE (mapE mk ds) (\<lambda>pairs.
              Inr (map fst pairs,
                   dset json_obj desc_type (PyList (map (PyDict \<circ> snd) pairs)))))))"

definition make_desc_list_ms_fuzz ::
    "design_env \<Rightarrow> pydict \<Rightarrow> pyval \<Rightarrow> string \<Rightarrow> (pydict list \<times> pydict) res" where
  "make_desc_list_ms_fuzz env json_obj fuzz_dict desc_type =
     fuzz_desc_list (make_one_desc_ms_fuzz env desc_type fuzz_dict) False desc_type json_obj"

definition make_desc_list_fuzz ::
    "design_env \<Rightarrow> pydict \<Rightarrow> pyval \<Rightarrow> string \<Rightarrow> (pydict list \<times> pydict) res" where
  "make_desc_list_fuzz env json_obj fuzz_dict desc_type =
     fuzz_desc_list (make_one_desc_fuzz env desc_type fuzz_dict) (desc_type = INPUT_DESC)
       desc_type json_obj"

text \<open>
  One dictionary of a fuzz return value. The attributes that \<^verbatim>\<open>_check_attr_valid\<close> fills in
  are objects of the description too, hence the update of its \<^verbatim>\<open>attr\<close> entry.
\<close>

definition fuzz_case ::
    "design_env \<Rightarrow> string \<Rightarrow> pyval \<times> pyval \<times> pyval \<Rightarrow> pydict \<times> design_state \<Rightarrow> pyval
       \<Rightarrow> (pydict \<times> design_state) res" where
  "fuzz_case env pfx expects acc fuzz_dict =
     (case acc of (ori_json, st) \<Rightarrow>
        (let ms = is_ms_train ori_json;
             descs = (if ms then make_desc_list_ms_fuzz env else make_desc_list_fuzz env) in
         bindE (descs ori_json fuzz_dict INPUT_DESC) (\<lambda>(inputs, ori_json).
         bindE (descs ori_json fuzz_dict OUTPUT_DESC) (\<lambda>(outputs, ori_json).
         bindE (check_attr_valid ori_json fuzz_dict (attr_required_keys st)) (\<lambda>(attr_list, req).
         bindE (list_item outputs 0) (\<lambda>first_output.
         bindE (case_suffix ms first_output) (\<lambda>sfx.
         bindE (ditem ori_json OP) (\<lambda>op.
           (let cs = [(OP, op), (INPUT_DESC, PyList (map PyDict inputs)),
                      (OUTPUT_DESC, PyList (map PyDict outputs)),
                      (''case_name'', PyStr (sub_case_name False pfx (case_idx st) sfx))]
                     @ (if ms then [(ST_MODE, PyStr ''ms_python_train'')] else [])
                     @ (if length attr_list > 0 then [(ATTR, PyList (map PyDict attr_list))] else []);
                ori_json = (if length attr_list > 0
                            then dset ori_json ATTR (PyList (map PyDict attr_list)) else ori_json)
            in bindE (add_case_to_total_case cs expects (st\<lparr>attr_required_keys := req\<rparr>)) (\<lambda>st.
                 Inr (ori_json, st)))))))))))"

definition fuzz_round ::
    "design_env \<Rightarrow> pydict \<Rightarrow> string \<Rightarrow> pyval \<times> pyval \<times> pyval \<Rightarrow> fuzz_fun
       \<Rightarrow> design_state \<Rightarrow> nat \<Rightarrow> design_state res" where
  "fuzz_round env json_obj pfx expects fuzz_function st call =
     bindE (get_fuzz_func_return fuzz_function call) (\<lambda>fuzz_return_list.
     bindE (foldE (fuzz_case env pfx expects) (json_obj, st) fuzz_return_list) (\<lambda>acc.
       Inr (snd acc)))"

definition fuzz_prefix :: "pydict \<Rightarrow> string res" where
  "fuzz_prefix json_obj =
     (case dget json_obj CASE_NAME of
        PyStr name \<Rightarrow> Inr (s_replace name ''/'' ''_'' @ ''_fuzz_case_'')
      | _ \<Rightarrow> Inl AttributeError)"

definition fuzz_generate ::
    "fuzz_modules \<Rightarrow> design_env \<Rightarrow> pydict \<Rightarrow> design_state \<Rightarrow> design_state res" where
  "fuzz_generate modules env json_obj st =
     bindE (check_fuzz_valid modules env json_obj) (\<lambda>fuzz_function.
     bindE (check_fuzz_case_num_valid json_obj) (\<lambda>loop_num.
     bindE (fuzz_prefix json_obj) (\<lambda>pfx.
     bindE (check_expect_output_param env json_obj) (\<lambda>(pyfile, function).
     bindE (check_set_error_threshold json_obj) (\<lambda>err_thr.
       foldE (fuzz_round env json_obj pfx (pyfile, function, err_thr) fuzz_function)
         (begin_description st) [0..<nat loop_num])))))"

section \<open>What a fuzz run adds\<close>

lemma fuzz_case_adds:
  assumes "fuzz_case env pfx (p, f, e) (j, st) z = Inr (j', st')"
  shows "\<exists>c. adds_cases False pfx st st' [c]"
proof -
  from assms obtain cs op ins outs first sfx rest req where
      add: "add_case_to_total_case cs (p, f, e) (st\<lparr>attr_required_keys := req\<rparr>) = Inr st'"
    and sfx: "case_suffix (is_ms_train j) first = Inr sfx"
    and cs: "cs = [(OP, op), (INPUT_DESC, ins), (OUTPUT_DESC, outs),
                (''case_name'', PyStr (sub_case_name False pfx (case_idx st) sfx))] @ rest"
    by (fastforce simp: fuzz_case_def Let_def)
  from sfx obtain r where "sfx = ''_'' @ r" using case_suffix_underscore by blast
  then have "dget cs CASE_NAME = PyStr (sub_case_name False pfx (case_idx st) (''_'' @ r))"
    by (simp add: cs)
  with add_case_effect [OF add] show ?thesis by (auto simp: adds_cases_def)
qed

lemma fuzz_cases_add:
  "foldE (fuzz_case env pfx (p, f, e)) (j, st) zs = Inr (j', st') \<Longrightarrow>
     \<exists>new. length new = length zs \<and> adds_cases False pfx st st' new"
proof (induction zs arbitrary: j st)
  case Nil
  then show ?case by (simp add: adds_none)
next
  case (Cons z zs)
  from Cons.prems obtain j1 st1 where
      step: "fuzz_case env pfx (p, f, e) (j, st) z = Inr (j1, st1)"
    and rest: "foldE (fuzz_case env pfx (p, f, e)) (j1, st1) zs = Inr (j', st')" by auto
  from fuzz_case_adds [OF step] Cons.IH [OF rest] show ?case
    using adds_more by (metis length_Cons)
qed

definition returned :: "fuzz_fun \<Rightarrow> nat \<Rightarrow> nat" where
  "returned f call = (case get_fuzz_func_return f call of Inr zs \<Rightarrow> length zs | Inl _ \<Rightarrow> 0)"

lemma fuzz_rounds_add:
  "foldE (fuzz_round env j pfx (p, f, e) g) st calls = Inr st' \<Longrightarrow>
     \<exists>new. length new = sum_list (map (returned g) calls) \<and> adds_cases False pfx st st' new"
proof (induction calls arbitrary: st)
  case Nil
  then show ?case by (simp add: adds_none)
next
  case (Cons n calls)
  from Cons.prems obtain st1 where round: "fuzz_round env j pfx (p, f, e) g st n = Inr st1"
    and rest: "foldE (fuzz_round env j pfx (p, f, e) g) st1 calls = Inr st'" by auto
  from round obtain zs j1 where ret: "get_fuzz_func_return g n = Inr zs"
    and step: "foldE (fuzz_case env pfx (p, f, e)) (j, st) zs = Inr (j1, st1)"
    by (auto simp: fuzz_round_def)
  from fuzz_cases_add [OF step] obtain new1 where
    new1: "length new1 = length zs" "adds_cases False pfx st st1 new1" by blast
  from Cons.IH [OF rest] obtain new2 where
    new2: "length new2 = sum_list (map (returned g) calls)" "adds_cases False pfx st1 st' new2" by blast
  from adds_append [OF new1(2) new2(2)] new1(1) new2(1) show ?case
    using ret by (intro exI [of _ "new1 @ new2"]) (simp add: returned_def [of g n])
qed

text \<open>
  C28. A fuzz run that succeeds calls the user's function between one and 2000 times and adds
  one case per dictionary returned, with different names and one report each.
\<close>

theorem fuzz_generate_spec:
  assumes "fuzz_generate modules env j st = Inr st'"
  shows "\<exists>f n new. check_fuzz_valid modules env j = Inr f
    \<and> check_fuzz_case_num_valid j = Inr n \<and> 1 \<le> n \<and> n \<le> 2000
    \<and> length new = sum_list (map (returned f) [0..<nat n])
    \<and> total_case_list st' = total_case_list st @ new
    \<and> distinct (map (\<lambda>c. dget c CASE_NAME) new)
    \<and> report_list (design_report st') = report_list (design_report st) @ map report_for new"
proof -
  from assms obtain f n pfx p g e where f: "check_fuzz_valid modules env j = Inr f"
    and n: "check_fuzz_case_num_valid j = Inr n"
    and run: "foldE (fuzz_round env j pfx (p, g, e) f) (begin_description st) [0..<nat n] = Inr st'"
    by (auto simp: fuzz_generate_def)
  from n have "1 \<le> n" "n \<le> 2000"
    by (auto simp: check_fuzz_case_num_valid_def Let_def MAX_FUZZ_CASE_NUM_def split: if_splits)
  moreover from fuzz_rounds_add [OF run] obtain new where
    len: "length new = sum_list (map (returned f) [0..<nat n])"
    and new: "adds_cases False pfx (begin_description st) st' new" by blast
  ultimately show ?thesis
    using f n adds_cases_reports [OF new] adds_cases_distinct [OF new]
    by (intro exI [of _ f] exI [of _ n] exI [of _ new])
       (auto simp: adds_cases_def begin_description_def)
qed

section \<open>A fuzz entry is replaced once\<close>

text \<open>
  Replacing is done in the description itself: once a \<^verbatim>\<open>fuzz\<close> entry has got a value,
  a later dictionary of the same call no longer reaches it.
\<close>

theorem fuzz_replaced_once:
  assumes "replace_fuzz_param d k param_type z = Inr d'" and "dget d' k \<noteq> PyStr ''fuzz''"
  shows "replace_fuzz_param d' k param_type z' = Inr d'"
  using assms by (simp add: replace_fuzz_param_def)

definition fuzz_fs :: fs where
  "fuzz_fs = empty_fs\<lparr>fs_exists := \<lambda>_. True, fs_isfile := \<lambda>_. True, fs_readable := \<lambda>_. True,
     fs_size := \<lambda>_. Some 10\<rparr>"

definition fuzz_env :: design_env where
  "fuzz_env = env_ex\<lparr>env_fs := fuzz_fs\<rparr>"

definition fuzz_desc :: pydict where
  "fuzz_desc = [(''name'', PyStr ''x''), (''format'', PyStr ''ND''), (''type'', PyStr ''fuzz''),
     (''shape'', PyList [PyInt 4])]"

definition fuzz_json :: pydict where
  "fuzz_json = [(''case_name'', PyStr ''Add''), (''op'', PyStr ''Add''), (''input_desc'', PyList []),
     (''output_desc'', PyList [PyDict fuzz_desc]), (''fuzz_impl'', PyStr ''fuzz.py:gen''),
     (''fuzz_case_num'', PyInt 1)]"

definition fuzz_answer :: "string \<Rightarrow> pyval" where
  "fuzz_answer t =
     PyDict [(''output_desc'', PyDict [(''x'', PyDict [(''type'', PyStr t)])])]"

definition fuzz_user :: fuzz_modules where
  "fuzz_user m f = (if m = ''fuzz'' \<and> f = ''gen''
     then Some (\<lambda>_. Inr (PyList [fuzz_answer ''float'', fuzz_answer ''int8''])) else None)"

lemma fuzz_json_runs: "\<exists>st'. fuzz_generate fuzz_user fuzz_env fuzz_json start_state = Inr st'"
proof -
  have "\<not> isl (fuzz_generate fuzz_user fuzz_env fuzz_json start_state)" by code_simp
  then show ?thesis by (metis isl_def sum.exhaust)
qed

theorem fuzz_generate_spec_witness:
  "\<exists>st' new. fuzz_generate fuzz_user fuzz_env fuzz_json start_state = Inr st'
     \<and> total_case_list st' = total_case_list start_state @ new
     \<and> distinct (map (\<lambda>c. dget c CASE_NAME) new)"
proof -
  obtain st' where run: "fuzz_generate fuzz_user fuzz_env fuzz_json start_state = Inr st'"
    using fuzz_json_runs by blast
  from fuzz_generate_spec [OF run] run show ?thesis by blast
qed

lemma fuzz_desc_replaced:
  "replace_fuzz_param fuzz_desc ''type'' OUTPUT_DESC (fuzz_answer ''float'') =
     Inr [(''name'', PyStr ''x''), (''format'', PyStr ''ND''), (''type'', PyStr ''float''),
       (''shape'', PyList [PyInt 4])]"
  by code_simp

theorem fuzz_replaced_once_witness:
  "replace_fuzz_param [(''name'', PyStr ''x''), (''format'', PyStr ''ND''), (''type'', PyStr ''float''),
       (''shape'', PyList [PyInt 4])] ''type'' OUTPUT_DESC (fuzz_answer ''int8'') =
     Inr [(''name'', PyStr ''x''), (''format'', PyStr ''ND''), (''type'', PyStr ''float''),
       (''shape'', PyList [PyInt 4])]"
  by (rule fuzz_replaced_once [OF fuzz_desc_replaced]) simp

text \<open>The second dictionary asks for \<^verbatim>\<open>int8\<close>, and both cases are of type \<^verbatim>\<open>float\<close>.\<close>

lemma second_dictionary_ignored:
  "bindE (fuzz_generate fuzz_user fuzz_env fuzz_json start_state) (\<lambda>st.
     Inr (map (\<lambda>c. dget c CASE_NAME) (total_case_list st)))
   = Inr [PyStr ''Add_fuzz_case_001_ND_float'', PyStr ''Add_fuzz_case_002_ND_float'']"
  by code_simp

end
