(* ===== verification/Case_Design.thy ===== *)
theory Case_Design
  imports Subcase_Fuzz
begin

text \<open>
  The design of all test cases of a run, \<^verbatim>\<open>src/main/case_design.py\<close> (class
  \<^verbatim>\<open>CaseDesign\<close>). Loading a JSON file is a parameter \<open>load_json\<close>, the white lists and the
  file system come in with the surroundings \<open>env\<close>.
\<close>

record case_design =
  json_path_list :: "string list"
  case_name_list :: "string list option"
  case_name_map :: "(string \<times> string) list"
  cd_state :: design_state
  compile_flag :: pyval

definition init_case_design :: "string \<Rightarrow> string \<Rightarrow> design_state \<Rightarrow> case_design" where
  "init_case_design json_paths case_names st =
     \<lparr>json_path_list = s_split '','' json_paths,
      case_name_list = (if case_names = ''all'' then None else Some (s_split '','' case_names)),
      case_name_map = [], cd_state = st, compile_flag = PyNone\<rparr>"

definition check_json_path :: "design_env \<Rightarrow> string \<Rightarrow> string res" where
  "check_json_path env json_path =
     (let path = fs_realpath (env_fs env) json_path in
      bindE (raise_if (\<not> endswith path ''.json'') err_path) (\<lambda>_.
      bindE (check_path_valid (env_mkdirs env) (env_fs env) path False) (\<lambda>_. Inr path)))"

definition check_argument_valid :: "design_env \<Rightarrow> case_design \<Rightarrow> case_design res" where
  "check_argument_valid env cd =
     bindE (mapE (check_json_path env) (json_path_list cd)) (\<lambda>paths.
       Inr (cd\<lparr>json_path_list := paths\<rparr>))"

definition get_total_case ::
    "fuzz_modules \<Rightarrow> design_env \<Rightarrow> pydict \<Rightarrow> string \<Rightarrow> string \<Rightarrow> case_design \<Rightarrow> case_design res" where
  "get_total_case modules env json_obj name json_path cd =
     bindE (raise_if (dhas (case_name_map cd) name) err_data) (\<lambda>_.
       (let cd = cd\<lparr>case_name_map := dset (case_name_map cd) name json_path\<rparr> in
        bindE (if truthy (dget json_obj FUZZ_IMPL)
               then fuzz_generate modules env json_obj (cd_state cd)
               else cross_generate env json_obj (cd_state cd)) (\<lambda>st.
          Inr (cd\<lparr>cd_state := st\<rparr>))))"

text \<open>
  One object of a JSON file. After the check of the required keys the case name is a text
  (\<^verbatim>\<open>case_name\<close> is one of the required keys, and its value passed \<^verbatim>\<open>check_name_valid\<close>).
  A case that was not asked for is skipped.
\<close>

definition select_case ::
    "fuzz_modules \<Rightarrow> design_env \<Rightarrow> string \<Rightarrow> pydict \<Rightarrow> pyval \<Rightarrow> case_design \<Rightarrow> case_design res" where
  "select_case modules env json_path json_obj v cd =
     (case v of
        PyStr name \<Rightarrow>
          (if (case case_name_list cd of None \<Rightarrow> False | Some ns \<Rightarrow> ns \<noteq> [] \<and> name \<notin> set ns)
           then Inr cd
           else get_total_case modules env json_obj name json_path cd)
      | _ \<Rightarrow> Inl TypeError)"

definition generate_case ::
    "fuzz_modules \<Rightarrow> design_env \<Rightarrow> string \<Rightarrow> case_design \<Rightarrow> pyval \<Rightarrow> case_design res" where
  "generate_case modules env json_path cd obj =
     bindE (as_dict obj) (\<lambda>json_obj.
       if truthy (dget json_obj ''compile_flag'')
       then Inr (cd\<lparr>compile_flag := dget json_obj ''compile_flag''\<rparr>)
       else
         bindE (check_required_key_valid json_obj (required_keys (cd_state cd))) (\<lambda>req.
         bindE (ditem json_obj CASE_NAME) (\<lambda>v.
           select_case modules env json_path json_obj v
             (cd\<lparr>cd_state := (cd_state cd)\<lparr>required_keys := req\<rparr>\<rparr>))))"

definition generate_from_json ::
    "(string \<Rightarrow> pyval res) \<Rightarrow> fuzz_modules \<Rightarrow> design_env \<Rightarrow> case_design \<Rightarrow> string \<Rightarrow> case_design res" where
  "generate_from_json load_json modules env cd json_path =
     bindE (load_json json_path) (\<lambda>json_object.
     bindE (py_iter json_object) (\<lambda>objs.
       foldE (generate_case modules (env\<lparr>current_json_path := json_path\<rparr>) json_path) cd objs))"

definition generate_cases ::
    "(string \<Rightarrow> pyval res) \<Rightarrow> fuzz_modules \<Rightarrow> design_env \<Rightarrow> case_design \<Rightarrow> case_design res" where
  "generate_cases load_json modules env cd =
     foldE (generate_from_json load_json modules env) cd (json_path_list cd)"

definition design ::
    "(string \<Rightarrow> pyval res) \<Rightarrow> fuzz_modules \<Rightarrow> design_env \<Rightarrow> case_design
       \<Rightarrow> (pydict list \<times> pyval \<times> case_design) res" where
  "design load_json modules env cd =
     bindE (check_argument_valid env cd) (\<lambda>cd.
     bindE (generate_cases load_json modules env cd) (\<lambda>cd.
     bindE (raise_if (length (total_case_list (cd_state cd)) = 0) err_data) (\<lambda>_.
       Inr (total_case_list (cd_state cd), compile_flag cd, cd))))"

section \<open>Invariants of a design run\<close>

text \<open>
  The report has one case report per generated case, under the case's name and with the case
  itself as its parameters.
\<close>

definition reports_match :: "design_state \<Rightarrow> bool" where
  "reports_match st \<longleftrightarrow> report_list (design_report st) = map report_for (total_case_list st)"

lemma adds_cases_match:
  "adds_cases ms pfx st st' new \<Longrightarrow> reports_match st \<Longrightarrow> reports_match st'"
  using adds_cases_reports [of ms pfx st st' new] by (simp add: reports_match_def adds_cases_def)

lemma cross_generate_adds:
  assumes "cross_generate env j st = Inr st'"
  shows "\<exists>ms pfx new. adds_cases ms pfx (begin_description st) st' new"
proof -
  from assms obtain req ins outs pfx attrs count where
    "get_sub_test_cases env j ins outs count pfx attrs
       ((begin_description st)\<lparr>attr_required_keys := req\<rparr>) = Inr st'"
    by (auto simp: cross_generate_def Let_def)
  then obtain expects outs' where
    "foldE (sub_test_case j pfx attrs expects ins)
       (outs, (begin_description st)\<lparr>attr_required_keys := req\<rparr>) [0..<count] = Inr (outs', st')"
    by (auto simp: get_sub_test_cases_def)
  from sub_test_cases_add [OF this] show ?thesis by (auto simp: adds_cases_def)
qed

lemma fuzz_generate_adds:
  assumes "fuzz_generate modules env j st = Inr st'"
  shows "\<exists>ms pfx new. adds_cases ms pfx (begin_description st) st' new"
proof -
  from assms obtain f n pfx p g e where
    "foldE (fuzz_round env j pfx (p, g, e) f) (begin_description st) [0..<nat n] = Inr st'"
    by (auto simp: fuzz_generate_def)
  from fuzz_rounds_add [OF this] show ?thesis by blast
qed

lemma begin_match [simp]: "reports_match (begin_description st) = reports_match st"
  by (simp add: reports_match_def begin_description_def)

text \<open>A cross or fuzz run keeps the correspondence and only ever appends cases.\<close>

definition extends :: "design_state \<Rightarrow> design_state \<Rightarrow> bool" where
  "extends st st' \<longleftrightarrow> (reports_match st \<longrightarrow> reports_match st')
     \<and> (\<exists>new. total_case_list st' = total_case_list st @ new)"

lemma extends_refl: "extends st st"
  by (simp add: extends_def)

lemma extends_trans: "extends a b \<Longrightarrow> extends b c \<Longrightarrow> extends a c"
  by (auto simp: extends_def)

lemma adds_extends: "adds_cases ms pfx (begin_description st) st' new \<Longrightarrow> extends st st'"
  unfolding extends_def
  using adds_cases_match [of ms pfx "begin_description st" st' new]
  by (auto simp: adds_cases_def) (auto simp: begin_description_def)

lemma get_total_case_extends:
  assumes "get_total_case modules env j name path cd = Inr cd'"
  shows "extends (cd_state cd) (cd_state cd') \<and> \<not> dhas (case_name_map cd) name
    \<and> case_name_map cd' = dset (case_name_map cd) name path
    \<and> case_name_list cd' = case_name_list cd"
proof -
  from assms obtain st where
      st: "(if truthy (dget j FUZZ_IMPL) then fuzz_generate modules env j (cd_state cd)
        else cross_generate env j (cd_state cd)) = Inr st"
    and cd': "cd' = cd\<lparr>case_name_map := dset (case_name_map cd) name path, cd_state := st\<rparr>"
    and fresh: "\<not> dhas (case_name_map cd) name"
    by (auto simp: get_total_case_def Let_def split: if_splits)
  from st have "extends (cd_state cd) st"
    using cross_generate_adds fuzz_generate_adds adds_extends by (metis (full_types))
  with cd' fresh show ?thesis by simp
qed

text \<open>
  The invariant of the run between two objects: the report matches the cases, and the map of
  case names has no duplicates.
\<close>

definition cd_inv :: "case_design \<Rightarrow> bool" where
  "cd_inv cd \<longleftrightarrow> reports_match (cd_state cd) \<and> distinct (map fst (case_name_map cd))"

definition cd_grows :: "case_design \<Rightarrow> case_design \<Rightarrow> bool" where
  "cd_grows cd cd' \<longleftrightarrow> (cd_inv cd \<longrightarrow> cd_inv cd')
     \<and> (\<exists>new. total_case_list (cd_state cd') = total_case_list (cd_state cd) @ new)
     \<and> (\<exists>names. map fst (case_name_map cd') = map fst (case_name_map cd) @ names
          \<and> (case case_name_list cd of None \<Rightarrow> True | Some ns \<Rightarrow> ns \<noteq> [] \<longrightarrow> set names \<subseteq> set ns))
     \<and> case_name_list cd' = case_name_list cd"

lemma cd_grows_refl: "cd_grows cd cd"
  by (auto simp: cd_grows_def split: option.splits)

lemma cd_grows_trans:
  assumes "cd_grows a b" and "cd_grows b c" shows "cd_grows a c"
proof -
  from assms obtain n1 n2 where
    "map fst (case_name_map b) = map fst (case_name_map a) @ n1"
    "map fst (case_name_map c) = map fst (case_name_map b) @ n2"
    "case case_name_list a of None \<Rightarrow> True | Some ns \<Rightarrow> ns \<noteq> [] \<longrightarrow> set n1 \<subseteq> set ns"
    "case case_name_list a of None \<Rightarrow> True | Some ns \<Rightarrow> ns \<noteq> [] \<longrightarrow> set n2 \<subseteq> set ns"
    by (auto simp: cd_grows_def)
  then have "\<exists>n. map fst (case_name_map c) = map fst (case_name_map a) @ n
      \<and> (case case_name_list a of None \<Rightarrow> True | Some ns \<Rightarrow> ns \<noteq> [] \<longrightarrow> set n \<subseteq> set ns)"
    by (intro exI [of _ "n1 @ n2"]) (auto split: option.splits)
  with assms show ?thesis by (auto simp: cd_grows_def)
qed

definition selected :: "case_design \<Rightarrow> string \<Rightarrow> bool" where
  "selected cd name \<longleftrightarrow>
     (case case_name_list cd of None \<Rightarrow> True | Some ns \<Rightarrow> ns = [] \<or> name \<in> set ns)"

lemma get_total_case_grows:
  assumes "get_total_case modules env j name path cd = Inr cd'" and "selected cd name"
  shows "cd_grows cd cd'"
proof -
  note ext = get_total_case_extends [OF assms(1)]
  then have keys: "map fst (case_name_map cd') = map fst (case_name_map cd) @ [name]"
    using keys_dset [of "case_name_map cd" name path] by (auto simp: dhas_def)
  with ext have "cd_inv cd \<longrightarrow> cd_inv cd'"
    by (auto simp: cd_inv_def extends_def dhas_def)
  moreover have "\<exists>new. total_case_list (cd_state cd') = total_case_list (cd_state cd) @ new"
    using ext by (simp add: extends_def)
  ultimately show ?thesis
    using keys ext assms(2)
    by (auto simp: cd_grows_def selected_def split: option.splits)
qed

lemma grows_same_cases:
  assumes "case_name_map cd' = case_name_map cd" and "case_name_list cd' = case_name_list cd"
    and "total_case_list (cd_state cd') = total_case_list (cd_state cd)"
    and "design_report (cd_state cd') = design_report (cd_state cd)"
  shows "cd_grows cd cd'"
  using assms by (auto simp: cd_grows_def cd_inv_def reports_match_def split: option.splits)

lemma select_case_grows:
  assumes "select_case modules env path j v cd = Inr cd'"
  shows "cd_grows cd cd'"
proof -
  from assms obtain name where name: "v = PyStr name" by (cases v) (auto simp: select_case_def)
  show ?thesis
  proof (cases "selected cd name")
    case True
    with assms name have "get_total_case modules env j name path cd = Inr cd'"
      by (auto simp: select_case_def selected_def split: option.splits if_splits)
    from get_total_case_grows [OF this True] show ?thesis .
  next
    case False
    with assms name have "cd' = cd"
      by (auto simp: select_case_def selected_def split: option.splits if_splits)
    then show ?thesis by (simp add: cd_grows_refl)
  qed
qed

lemma generate_case_grows:
  assumes "generate_case modules env path cd obj = Inr cd'"
  shows "cd_grows cd cd'"
proof -
  from assms obtain j where j: "as_dict obj = Inr j" by (auto simp: generate_case_def)
  show ?thesis
  proof (cases "truthy (dget j ''compile_flag'')")
    case True
    with assms j have "cd' = cd\<lparr>compile_flag := dget j ''compile_flag''\<rparr>"
      by (simp add: generate_case_def)
    then show ?thesis by (intro grows_same_cases) simp_all
  next
    case False
    with assms j obtain req v where
      run: "select_case modules env path j v
        (cd\<lparr>cd_state := (cd_state cd)\<lparr>required_keys := req\<rparr>\<rparr>) = Inr cd'"
      by (auto simp: generate_case_def)
    have "cd_grows cd (cd\<lparr>cd_state := (cd_state cd)\<lparr>required_keys := req\<rparr>\<rparr>)"
      by (rule grows_same_cases) simp_all
    from cd_grows_trans [OF this select_case_grows [OF run]] show ?thesis .
  qed
qed

text \<open>A loop whose every step grows the design grows it.\<close>

lemma loop_grows:
  assumes "foldE f cd xs = Inr cd'" and "\<And>cd x cd'. f cd x = Inr cd' \<Longrightarrow> cd_grows cd cd'"
  shows "cd_grows cd cd'"
  using assms(1) by (rule foldE_inv) (blast intro: cd_grows_refl cd_grows_trans assms(2))+

lemma generate_cases_grows:
  assumes "generate_cases load_json modules env cd = Inr cd'"
  shows "cd_grows cd cd'"
proof (rule loop_grows)
  show "foldE (generate_from_json load_json modules env) cd (json_path_list cd) = Inr cd'"
    using assms by (simp add: generate_cases_def)
  fix c p c'
  assume "generate_from_json load_json modules env c p = Inr c'"
  then obtain objs where
    "foldE (generate_case modules (env\<lparr>current_json_path := p\<rparr>) p) c objs = Inr c'"
    by (auto simp: generate_from_json_def)
  then show "cd_grows c c'" by (rule loop_grows) (rule generate_case_grows)
qed

section \<open>Which cases are designed\<close>

text \<open>
  The name of the case an object of a file describes, when it is to be designed: an object with a compile flag
  describes none, and with a list of names the others are skipped.
\<close>

definition described :: "string list option \<Rightarrow> pyval \<Rightarrow> string list" where
  "described ns obj =
     (case obj of
        PyDict j \<Rightarrow>
          (if truthy (dget j ''compile_flag'') then []
           else (case dget j CASE_NAME of
               PyStr name \<Rightarrow> (case ns of None \<Rightarrow> [name]
                 | Some ns \<Rightarrow> if ns = [] \<or> name \<in> set ns then [name] else [])
             | _ \<Rightarrow> []))
      | _ \<Rightarrow> [])"

abbreviation (input) designed_names :: "case_design \<Rightarrow> string list" where
  "designed_names cd \<equiv> map fst (case_name_map cd)"

lemma ditem_result: "ditem j k = Inr v \<Longrightarrow> dget j k = v"
  by (auto simp: ditem_def dget_def split: option.splits)

lemma get_total_case_names:
  assumes "get_total_case modules env j name path cd = Inr cd'"
  shows "designed_names cd' = designed_names cd @ [name] \<and> case_name_list cd' = case_name_list cd"
  using get_total_case_extends [OF assms] keys_dset [of "case_name_map cd" name path] by (auto simp: dhas_def)

lemma select_case_names:
  assumes "select_case modules env path j v cd = Inr cd'" and "\<not> truthy (dget j ''compile_flag'')"
    and "dget j CASE_NAME = v"
  shows "designed_names cd' = designed_names cd @ described (case_name_list cd) (PyDict j)
    \<and> case_name_list cd' = case_name_list cd"
proof -
  from assms(1) obtain name where name: "v = PyStr name" by (cases v) (auto simp: select_case_def)
  show ?thesis
  proof (cases "selected cd name")
    case True
    with assms(1) name have "get_total_case modules env j name path cd = Inr cd'"
      by (auto simp: select_case_def selected_def split: option.splits if_splits)
    from get_total_case_names [OF this] True assms(2,3) name show ?thesis
      by (auto simp: described_def selected_def split: option.splits)
  next
    case False
    with assms name show ?thesis
      by (auto simp: select_case_def selected_def described_def split: option.splits if_splits)
  qed
qed

lemma generate_case_names:
  assumes "generate_case modules env path cd obj = Inr cd'"
  shows "designed_names cd' = designed_names cd @ described (case_name_list cd) obj
    \<and> case_name_list cd' = case_name_list cd"
proof -
  from assms obtain j where j: "as_dict obj = Inr j" by (auto simp: generate_case_def)
  then have obj: "obj = PyDict j" by (cases obj) auto
  show ?thesis
  proof (cases "truthy (dget j ''compile_flag'')")
    case True
    with assms j obj show ?thesis by (auto simp: generate_case_def described_def)
  next
    case False
    with assms j obtain req v where "ditem j CASE_NAME = Inr v" and
      run: "select_case modules env path j v
        (cd\<lparr>cd_state := (cd_state cd)\<lparr>required_keys := req\<rparr>\<rparr>) = Inr cd'"
      by (auto simp: generate_case_def)
    from select_case_names [OF run False ditem_result [OF this(1)]] show ?thesis by (simp add: obj)
  qed
qed

lemma one_file_names:
  assumes "foldE (generate_case modules env path) cd objs = Inr cd'"
  shows "designed_names cd' = designed_names cd @ concat (map (described (case_name_list cd)) objs)
    \<and> case_name_list cd' = case_name_list cd"
  using assms
proof (induction objs arbitrary: cd)
  case (Cons obj objs)
  then obtain c where c: "generate_case modules env path cd obj = Inr c"
    and rest: "foldE (generate_case modules env path) c objs = Inr cd'" by auto
  from Cons.IH [OF rest] generate_case_names [OF c] show ?case by simp
qed simp

abbreviation (input) objects_of :: "(string \<Rightarrow> pyval res) \<Rightarrow> string \<Rightarrow> pyval list res" where
  "objects_of load_json p \<equiv> bindE (load_json p) py_iter"

lemma files_names:
  assumes "foldE (generate_from_json load_json modules env) cd paths = Inr cd'"
  shows "\<exists>objss. mapE (\<lambda>p. objects_of load_json p) paths = Inr objss
    \<and> designed_names cd' = designed_names cd @ concat (map (described (case_name_list cd)) (concat objss))"
  using assms
proof (induction paths arbitrary: cd)
  case (Cons p paths)
  then obtain c where c: "generate_from_json load_json modules env cd p = Inr c"
    and rest: "foldE (generate_from_json load_json modules env) c paths = Inr cd'" by auto
  from c obtain objs where objs: "objects_of load_json p = Inr objs"
    and run: "foldE (generate_case modules (env\<lparr>current_json_path := p\<rparr>) p) cd objs = Inr c"
    by (auto simp: generate_from_json_def)
  from Cons.IH [OF rest] obtain objss where
      "mapE (\<lambda>p. objects_of load_json p) paths = Inr objss"
      "designed_names cd' = designed_names c @ concat (map (described (case_name_list c)) (concat objss))" by blast
  with objs one_file_names [OF run] show ?case by (intro exI [of _ "objs # objss"]) simp
qed simp

lemma mapE_function: "mapE f xs = Inr ys \<Longrightarrow> (\<And>x y. f x = Inr y \<Longrightarrow> y = g x) \<Longrightarrow> ys = map g xs"
  by (induction xs arbitrary: ys) auto

lemma checked_paths:
  "mapE (check_json_path env) ps = Inr qs \<Longrightarrow> qs = map (fs_realpath (env_fs env)) ps"
  by (erule mapE_function) (auto simp: check_json_path_def Let_def)

text \<open>
  C3. A design run that succeeds yields at least one case; the report has exactly one entry per
  case, in the same order, named after the case and holding it. The names it has designed are those of the
  objects of the given files, in order, that have no compile flag and, when names were given, one of these names;
  and no two of these objects have the same name.
\<close>

theorem design_spec:
  assumes "design load_json modules env (init_case_design paths names st) = Inr (cases, flag, cd)"
    and "total_case_list st = []" and "report_list (design_report st) = []"
  shows "cases \<noteq> []
    \<and> report_list (design_report (cd_state cd)) = map report_for cases
    \<and> (\<exists>objss. mapE (\<lambda>p. bindE (load_json p) py_iter) (map (fs_realpath (env_fs env)) (s_split '','' paths)) = Inr objss
      \<and> (let asked = (if names = ''all'' then None else Some (s_split '','' names));
             designed = concat (map (described asked) (concat objss))
         in distinct designed \<and> map fst (case_name_map cd) = designed))"
proof -
  let ?cd0 = "init_case_design paths names st"
  from assms(1) obtain ps where
      ps: "mapE (check_json_path env) (json_path_list ?cd0) = Inr ps"
    and gen: "generate_cases load_json modules env (?cd0\<lparr>json_path_list := ps\<rparr>) = Inr cd"
    and cases: "cases = total_case_list (cd_state cd)" "cases \<noteq> []"
    by (auto simp: design_def check_argument_valid_def)
  have "cd_inv (?cd0\<lparr>json_path_list := ps\<rparr>)"
    using assms(2,3) by (simp add: cd_inv_def init_case_design_def reports_match_def)
  with generate_cases_grows [OF gen] have inv: "cd_inv cd" by (simp add: cd_grows_def)
  have p: "ps = map (fs_realpath (env_fs env)) (s_split '','' paths)"
    using checked_paths [OF ps] by (simp add: init_case_design_def)
  from files_names [OF gen [unfolded generate_cases_def]] obtain objss where
      "mapE (\<lambda>p. bindE (load_json p) py_iter) ps = Inr objss"
      "designed_names cd = concat (map (described (case_name_list ?cd0)) (concat objss))"
    by (auto simp: init_case_design_def)
  with inv cases p show ?thesis
    by (intro conjI exI [of _ objss]) (auto simp: cd_inv_def reports_match_def init_case_design_def Let_def)
qed

definition add_json :: "string \<Rightarrow> pyval res" where
  "add_json path = Inr (PyList [PyDict json_ex])"

definition design_ex :: "(pydict list \<times> pyval \<times> case_design) res" where
  "design_ex = design add_json fuzz_user fuzz_env (init_case_design ''/t/add.json'' ''all'' start_state)"

lemma design_ex_ok: "\<not> isl design_ex"
  by code_simp

theorem design_spec_witness:
  "\<exists>cases flag cd. design_ex = Inr (cases, flag, cd) \<and> cases \<noteq> []
     \<and> report_list (design_report (cd_state cd)) = map report_for cases
     \<and> map fst (case_name_map cd) = [''Add'']"
proof -
  from design_ex_ok obtain cases flag cd where run: "design_ex = Inr (cases, flag, cd)"
    by (metis isl_def sum.exhaust prod_cases3)
  have st: "total_case_list start_state = []" "report_list (design_report start_state) = []"
    by (simp_all add: start_state_def new_report_def)
  have "mapE (\<lambda>p. bindE (add_json p) py_iter) (map (fs_realpath (env_fs fuzz_env)) (s_split '','' ''/t/add.json''))
      = Inr [[PyDict json_ex]]" "described None (PyDict json_ex) = [''Add'']"
    by code_simp+
  with design_spec [OF run [unfolded design_ex_def] st] have "cases \<noteq> []
      \<and> report_list (design_report (cd_state cd)) = map report_for cases \<and> map fst (case_name_map cd) = [''Add'']"
    by simp
  with run show ?thesis by (intro exI [of _ cases] exI [of _ flag] exI [of _ cd] conjI) simp_all
qed

text \<open>
  Distinct case names do not give distinct sub case names: a crossed case \<^verbatim>\<open>Add\<close> with
  several profiles and a single case \<^verbatim>\<open>Add_sub\<close> both produce
  \<^verbatim>\<open>Add_sub_case_001_ND_float\<close>, and the report then finds neither.
\<close>

definition two_types :: pydict where
  "two_types = [(''format'', PyList [PyStr ''ND'']), (''type'', PyList [PyStr ''float'', PyStr ''int8'']),
     (''shape'', PyList [PyInt 4])]"

definition clash_json :: "string \<Rightarrow> pyval res" where
  "clash_json path = Inr (PyList
     [PyDict [(''case_name'', PyStr ''Add''), (''op'', PyStr ''Add''), (''input_desc'', PyList []),
        (''output_desc'', PyList [PyDict two_types])],
      PyDict [(''case_name'', PyStr ''Add_sub''), (''op'', PyStr ''Add''), (''input_desc'', PyList []),
        (''output_desc'', PyList [PyDict (desc_ex [])])]])"

lemma sub_case_names_clash:
  "bindE (design clash_json fuzz_user fuzz_env (init_case_design ''/t/add.json'' ''all'' start_state))
     (\<lambda>(cases, _, cd). Inr (map (\<lambda>c. dget c CASE_NAME) cases,
        get_case_report (design_report (cd_state cd)) (PyStr ''Add_sub_case_001_ND_float'')))
   = Inr ([PyStr ''Add_sub_case_001_ND_float'', PyStr ''Add_sub_case_002_ND_int8'',
           PyStr ''Add_sub_case_001_ND_float''], None)"
  by code_simp

end
