(* ===== verification/Result_Compare.thy ===== *)
theory Result_Compare
  imports Compare_Data Case_Design
begin

text \<open>
  From the run's \<^verbatim>\<open>result.txt\<close> to the report, \<^verbatim>\<open>src/main/result_comparer.py\<close>
  (classes \<^verbatim>\<open>ResultTxtParser\<close> and \<^verbatim>\<open>ResultCompare\<close>). Reading a text file and
  \<^verbatim>\<open>np.fromfile\<close> are parameters.
\<close>

record compare_env =
  cmp_fs :: fs
  read_text :: "string \<Rightarrow> string res"
  from_file :: "string \<Rightarrow> string \<Rightarrow> pyfloat list res"
  cmp_rounding :: rounding
  cmp_run_dir :: string
  cmp_err_thr :: pyval

section \<open>result.txt\<close>

definition parse_result_line :: "string \<Rightarrow> (string \<times> string \<times> string) option" where
  "parse_result_line line =
     (case s_split ''  '' line of
        [index, name, result] \<Rightarrow> if s_isdigit index then Some (index, name, result) else None
      | _ \<Rightarrow> None)"

definition parse_result_lines :: "string list \<Rightarrow> (string \<times> string \<times> string) list" where
  "parse_result_lines ls = List.map_filter parse_result_line ls"

definition parser_result_txt :: "string \<Rightarrow> (string \<times> string \<times> string) list" where
  "parser_result_txt txt = parse_result_lines (s_split [CHR 0x0A] txt)"

definition result_txt_path :: "compare_env \<Rightarrow> string" where
  "result_txt_path env = path_join (cmp_run_dir env) ''run/out/result_files/result.txt''"

text \<open>Without a readable file every case gets one shared failed stage.\<close>

definition stage_of :: "string \<Rightarrow> string \<Rightarrow> stage" where
  "stage_of status name = \<lparr>sr_status = PyStr status, sr_result = PyNone,
     sr_stage_name = PyStr name, sr_cmd = PyNone\<rparr>"

definition run_failed :: stage where
  "run_failed = stage_of FAILED ''run_acl_code''"

definition read_result_txt :: "compare_env \<Rightarrow> st_report
    \<Rightarrow> ((string \<times> string \<times> string) list \<times> st_report) res" where
  "read_result_txt env rpt =
     (let path = result_txt_path env in
      if \<not> fs_exists (cmp_fs env) path \<or> \<not> fs_readable (cmp_fs env) path
      then Inr ([], add_op_st_stage_result run_failed rpt)
      else bindE (read_text env path) (\<lambda>txt. Inr (parser_result_txt txt, rpt)))"

section \<open>Types and thresholds\<close>

definition np_types :: "(string \<times> string) list" where
  "np_types =
     [(''fp64'', ''float64''), (''fp32'', ''float32''), (''float32'', ''float32''),
      (''float'', ''float32''), (''fp16'', ''float16''), (''float16'', ''float16''),
      (''int64'', ''int64''), (''int32'', ''int32''), (''int16'', ''int16''),
      (''int8'', ''int8''), (''double'', ''float64''),
      (''uint64'', ''uint64''), (''uint32'', ''uint32''), (''uint16'', ''uint16''),
      (''uint8'', ''uint8''),
      (''bool'', ''bool''), (''complex64'', ''complex64''),
      (''complex128'', ''complex128'')]"

definition get_np_dtype :: "string \<Rightarrow> string option" where
  "get_np_dtype type_str = map_of np_types type_str"

definition parse_dtype_by_filename :: "string \<Rightarrow> string option" where
  "parse_dtype_by_filename file_name =
     get_np_dtype (hd (s_split ''.'' (last (s_split ''_'' file_name))))"

text \<open>\<^verbatim>\<open>_get_data_type\<close>: the type of output \<open>idx\<close>; a type that is not hashable raises.\<close>

definition get_data_type :: "pyval \<Rightarrow> nat \<Rightarrow> string option res" where
  "get_data_type params idx =
     bindE (py_get params ''output_desc'') (\<lambda>output_configs.
       if \<not> truthy output_configs then Inr None
       else bindE (py_index output_configs idx) (\<lambda>c. bindE (py_get c ''type'') (\<lambda>t.
              case t of
                PyStr s \<Rightarrow> Inr (get_np_dtype s)
              | _ \<Rightarrow> if hashable t then Inr None else Inl TypeError)))"

definition default_err_thr :: pyval where
  "default_err_thr = PyList (map (\<lambda>q. PyFloat (Fin q)) DEFAULT_ERROR_THRESHOLD)"

definition get_err_thr :: "compare_env \<Rightarrow> pyval \<Rightarrow> pyval res" where
  "get_err_thr env params =
     (if truthy (cmp_err_thr env) then Inr (cmp_err_thr env)
      else bindE (py_get params ERROR_THRESHOLD) (\<lambda>t.
             Inr (if truthy t then t else default_err_thr)))"

text \<open>\<^verbatim>\<open>err_thr[0]\<close> and \<^verbatim>\<open>err_thr[1]\<close> as numbers.\<close>

definition err_thr_pair :: "pyval \<Rightarrow> (pyfloat \<times> pyfloat) res" where
  "err_thr_pair v =
     bindE (py_index v 0) (\<lambda>a. bindE (py_index v 1) (\<lambda>b.
       case (num_view a, num_view b) of
         (Some x, Some y) \<Rightarrow> Inr (x, y)
       | _ \<Rightarrow> Inl TypeError))"

section \<open>Comparing the outputs of one case\<close>

definition check_isfile :: "compare_env \<Rightarrow> string \<Rightarrow> string \<Rightarrow> bool" where
  "check_isfile env result_file expect_file \<longleftrightarrow>
     fs_isfile (cmp_fs env) result_file \<and> fs_isfile (cmp_fs env) expect_file"

definition compare_output :: "compare_env \<Rightarrow> op_st_case \<Rightarrow> nat \<times> pyval \<Rightarrow> compare_result list res" where
  "compare_output env info entry =
     bindE (py_index (planned_output_data_paths info) (fst entry)) (\<lambda>result_file.
       case (result_file, snd entry) of
         (PyStr r, PyStr x) \<Rightarrow>
           if \<not> check_isfile env r x then Inr []
           else bindE (get_data_type (op_params info) (fst entry)) (\<lambda>np_type.
             case np_type of
               None \<Rightarrow> Inr []
             | Some t \<Rightarrow>
                 bindE (from_file env r t) (\<lambda>npu_output.
                 bindE (from_file env x t) (\<lambda>cpu_output.
                 bindE (bindE (get_err_thr env (op_params info)) err_thr_pair) (\<lambda>thr.
                 bindE (compare_data (cmp_rounding env) thr npu_output cpu_output) (\<lambda>(res, _).
                   Inr [res])))))
       | _ \<Rightarrow> Inl TypeError)"

definition get_compare_result_list :: "compare_env \<Rightarrow> op_st_case \<Rightarrow> compare_result list res" where
  "get_compare_result_list env info =
     bindE (py_iter (expect_data_paths info)) (\<lambda>paths.
     bindE (mapE (compare_output env info) (List.enumerate 0 paths)) (\<lambda>rs. Inr (concat rs)))"

text \<open>\<^verbatim>\<open>compare_by_path\<close>: the results of the files of a directory; the code only logs them.\<close>

definition compare_named_file ::
    "compare_env \<Rightarrow> string \<Rightarrow> string \<Rightarrow> string \<Rightarrow> compare_result list res" where
  "compare_named_file env result_dir expect_dir name =
     (let result_file = path_join result_dir name;
          expect_file = path_join expect_dir (s_replace name ''_output_'' ''_expect_output_'') in
      if \<not> fs_isfile (cmp_fs env) result_file \<or> \<not> fs_isfile (cmp_fs env) expect_file then Inr []
      else (case parse_dtype_by_filename result_file of
              None \<Rightarrow> Inr []
            | Some t \<Rightarrow>
                bindE (from_file env result_file t) (\<lambda>npu_output.
                bindE (from_file env expect_file t) (\<lambda>cpu_output.
                bindE (compare_data (cmp_rounding env) (Fin (1 / 100), Fin (5 / 100)) npu_output cpu_output)
                  (\<lambda>(res, _). Inr [res])))))"

definition compare_by_path :: "compare_env \<Rightarrow> string \<Rightarrow> string \<Rightarrow> compare_result list res" where
  "compare_by_path env result_dir expect_dir =
     bindE (mapE (compare_named_file env result_dir expect_dir) (fs_listdir (cmp_fs env) result_dir))
       (\<lambda>rs. Inr (concat rs))"

section \<open>Stages of a case\<close>

text \<open>The case a stage is added to is given by its position \<open>i\<close> in the report list.\<close>
definition compare_status :: "compare_result list \<Rightarrow> string" where
  "compare_status rs =
     (if rs = [] then FAILED
      else if list_ex (\<lambda>r. cr_result r = ''Failed'') rs then FAILED else SUCCESS)"

definition get_run_stage_result :: "string \<Rightarrow> nat \<Rightarrow> st_report \<Rightarrow> st_report" where
  "get_run_stage_result result i rpt =
     (if result = ''[fail]'' then add_case_stage_result i (stage_of FAILED ''run_acl_code'') rpt
      else if result = ''[pass]'' then add_case_stage_result i (stage_of SUCCESS ''run_acl_code'') rpt
      else rpt)"

definition get_compare_stage_result ::
    "compare_env \<Rightarrow> string \<Rightarrow> nat \<Rightarrow> op_st_case \<Rightarrow> st_report \<Rightarrow> st_report res" where
  "get_compare_stage_result env result i info rpt =
     (if result = ''[fail]''
      then Inr (add_case_stage_result i (stage_of FAILED ''run_acl_code'') rpt)
      else if result = ''[pass]'' then
        (let rpt = add_case_stage_result i (stage_of SUCCESS ''run_acl_code'') rpt in
         if \<not> truthy (expect_data_paths info)
         then Inr (add_case_stage_result i (stage_of FAILED ''compare_data'') rpt)
         else bindE (get_compare_result_list env info) (\<lambda>rs.
                Inr (add_case_stage_result i (stage_of (compare_status rs) ''compare_data'') rpt)))
      else Inr rpt)"

text \<open>The position of the one report of a name, as \<^verbatim>\<open>get_case_report\<close> selects it.\<close>

definition case_position :: "st_report \<Rightarrow> string \<Rightarrow> nat option" where
  "case_position rpt name =
     (case filter (\<lambda>i. py_eq (rpt_case_name (report_list rpt ! i)) (PyStr name))
             [0..<length (report_list rpt)] of
        [i] \<Rightarrow> Some i | _ \<Rightarrow> None)"

definition compare_line ::
    "compare_env \<Rightarrow> st_report \<Rightarrow> string \<times> string \<times> string \<Rightarrow> st_report res" where
  "compare_line env rpt entry =
     (case entry of (index, name, result) \<Rightarrow>
       (case case_position rpt name of
          None \<Rightarrow> Inr rpt
        | Some i \<Rightarrow>
            (let info = st_case_info (trace_detail (report_list rpt ! i)) in
             bindE (py_get (op_params info) ''calc_expect_func_file_func'') (\<lambda>f.
               if truthy f then get_compare_stage_result env result i info rpt
               else Inr (get_run_stage_result result i rpt)))))"

definition compare_run :: "compare_env \<Rightarrow> st_report \<Rightarrow> st_report res" where
  "compare_run env rpt =
     bindE (read_result_txt env rpt) (\<lambda>(entries, rpt). foldE (compare_line env) rpt entries)"

section \<open>Reading result.txt\<close>

lemma split_aux_piece:
  "sep \<noteq> [] \<Longrightarrow> hd sep \<notin> set p \<Longrightarrow>
     split_aux sep acc (p @ sep @ t) = (rev acc @ p) # split_aux sep [] t"
proof (induction p arbitrary: acc)
  case Nil
  then obtain c cs where "sep = c # cs" by (cases sep) auto
  then show ?case by (simp add: startswith_def)
next
  case (Cons c p)
  then have "\<not> startswith (c # p @ sep @ t) sep" by (cases sep) (auto simp: startswith_def)
  with Cons show ?case by simp
qed

lemma split_aux_last: "hd sep \<notin> set p \<Longrightarrow> sep \<noteq> [] \<Longrightarrow> split_aux sep acc p = [rev acc @ p]"
  by (induction p arbitrary: acc) (auto simp: startswith_def neq_Nil_conv)

definition result_line :: "string \<times> string \<times> string \<Rightarrow> string" where
  "result_line entry = (case entry of (i, n, r) \<Rightarrow> i @ ''  '' @ n @ ''  '' @ r)"

definition clean :: "string \<Rightarrow> bool" where
  "clean s \<longleftrightarrow> CHR '' '' \<notin> set s \<and> CHR 0x0A \<notin> set s"

definition result_entry_ok :: "string \<times> string \<times> string \<Rightarrow> bool" where
  "result_entry_ok entry = (case entry of (i, n, r) \<Rightarrow> s_isdigit i \<and> clean i \<and> clean n \<and> clean r)"

lemma split_result_line:
  assumes "CHR '' '' \<notin> set a" and "CHR '' '' \<notin> set b" and "CHR '' '' \<notin> set c"
  shows "s_split ''  '' (a @ ''  '' @ b @ ''  '' @ c) = [a, b, c]"
  using split_aux_piece [of "''  ''" a "[]" "b @ ''  '' @ c"] split_aux_piece [of "''  ''" b "[]" c]
    split_aux_last [of "''  ''" c "[]"] assms
  by (simp add: s_split_def)

lemma parse_result_line_ok: "result_entry_ok e \<Longrightarrow> parse_result_line (result_line e) = Some e"
proof (cases e)
  case (fields i n r)
  moreover assume "result_entry_ok e"
  ultimately have "s_split ''  '' (result_line e) = [i, n, r]" "s_isdigit i"
    using split_result_line [of i n r] by (simp_all add: result_entry_ok_def clean_def result_line_def)
  then show ?thesis by (simp add: parse_result_line_def fields)
qed

lemma result_line_no_newline: "result_entry_ok e \<Longrightarrow> CHR 0x0A \<notin> set (result_line e)"
  by (cases e) (auto simp: result_entry_ok_def clean_def result_line_def)

text \<open>
  Reading back a \<^verbatim>\<open>result.txt\<close> with one line per case yields exactly the cases and
  verdicts that were written, in order.
\<close>

theorem result_txt_roundtrip:
  assumes "list_all result_entry_ok entries" and "entries \<noteq> []"
  shows "parser_result_txt (s_join [CHR 0x0A] (map result_line entries)) = entries"
proof -
  have "s_split [CHR 0x0A] (s_join [CHR 0x0A] (map result_line entries)) = map result_line entries"
    using assms result_line_no_newline by (intro s_split_join_char) (auto simp: list_all_iff)
  moreover have "parse_result_lines (map result_line entries) = entries"
    using assms(1) by (induction entries)
      (simp_all add: parse_result_lines_def List.map_filter_simps parse_result_line_ok)
  ultimately show ?thesis by (simp add: parser_result_txt_def)
qed

theorem result_txt_roundtrip_witness:
  "parser_result_txt (s_join [CHR 0x0A] (map result_line
      [(''1'', ''Add_case_001'', ''[pass]''), (''2'', ''Add_case_002'', ''[fail]'')]))
   = [(''1'', ''Add_case_001'', ''[pass]''), (''2'', ''Add_case_002'', ''[fail]'')]"
  by (rule result_txt_roundtrip)
     (simp_all add: result_entry_ok_def clean_def s_isdigit_def c_digit_def)

section \<open>The verdict in the report\<close>



lemma stage_of_success [simp]: "stage_is_success (stage_of s n) \<longleftrightarrow> s = SUCCESS"
  by (simp add: stage_is_success_def stage_of_def)
















end
