(* ===== verification/Dtype_Trans.thy ===== *)
theory Dtype_Trans
  imports Py_Value
begin

text \<open>
  The data types of the tensors, \<^verbatim>\<open>src/main/dtype_trans.py\<close>: their names, the numpy type
  behind each and their width in bytes. The numpy types are known by the name of their class,
  which is what \<^verbatim>\<open>np_dtype_to_str\<close> looks up.
\<close>

section \<open>The tables\<close>

definition ASCEND_DTYPE_NP_DTYPE_MAP :: "(string \<times> string) list" where
  "ASCEND_DTYPE_NP_DTYPE_MAP =
     [(''float16'', ''float16''), (''float32'', ''float32''), (''float64'', ''float64''),
      (''bool'', ''bool''), (''int8'', ''int8''), (''uint8'', ''uint8''), (''int16'', ''int16''),
      (''uint16'', ''uint16''), (''int32'', ''int32''), (''uint32'', ''uint32''),
      (''int64'', ''int64''), (''uint64'', ''uint64'')]"

definition get_all_str_dtypes :: "string list" where
  "get_all_str_dtypes = map fst ASCEND_DTYPE_NP_DTYPE_MAP"

text \<open>A value that is not a text is returned as it is; an unknown name gives \<^verbatim>\<open>None\<close>.\<close>

definition str_to_np_dtype :: "pyval \<Rightarrow> pyval" where
  "str_to_np_dtype dtype = (case dtype of
      PyStr s \<Rightarrow> (case map_of ASCEND_DTYPE_NP_DTYPE_MAP s of Some n \<Rightarrow> PyStr n | None \<Rightarrow> PyNone)
    | v \<Rightarrow> v)"

definition np_dtype_ascend_type_map :: "(string \<times> string) list" where
  "np_dtype_ascend_type_map =
     [(''float16'', ''float16''), (''float32'', ''float32''), (''float64'', ''float64''),
      (''bool'', ''bool''), (''int8'', ''int8''), (''uint8'', ''uint8''), (''int16'', ''int16''),
      (''uint16'', ''uint16''), (''int32'', ''int32''), (''uint32'', ''uint32''),
      (''int64'', ''int64''), (''uint64'', ''uint64'')]"

text \<open>The argument is the name of the numpy scalar class, \<^verbatim>\<open>dtype.type.__name__\<close>.\<close>

definition np_dtype_to_str :: "string \<Rightarrow> pyval" where
  "np_dtype_to_str type_name =
     (case map_of np_dtype_ascend_type_map type_name of Some s \<Rightarrow> PyStr s | None \<Rightarrow> PyNone)"

definition dtype_size_map :: "(string \<times> int) list" where
  "dtype_size_map =
     [(''bool'', 1), (''int8'', 1), (''uint8'', 1), (''int16'', 2), (''uint16'', 2),
      (''int32'', 4), (''uint32'', 4), (''int64'', 8), (''uint64'', 8), (''float16'', 2),
      (''float32'', 4), (''float64'', 8)]"

definition get_dtype_byte :: "string \<Rightarrow> int option" where
  "get_dtype_byte dtype = map_of dtype_size_map dtype"

text \<open>
  The three tables agree: every name has a numpy class, comes back from it, and has a width of
  one, two, four or eight bytes.
\<close>

lemma dtype_tables:
  "list_all (\<lambda>(s, n). np_dtype_to_str n = PyStr s
     \<and> get_dtype_byte s \<in> {Some 1, Some 2, Some 4, Some 8}) ASCEND_DTYPE_NP_DTYPE_MAP"
  by (simp add: ASCEND_DTYPE_NP_DTYPE_MAP_def np_dtype_to_str_def np_dtype_ascend_type_map_def
      get_dtype_byte_def dtype_size_map_def)

lemma get_dtype_byte_pos: "get_dtype_byte s = Some b \<Longrightarrow> 0 < b"
  by (auto simp: get_dtype_byte_def dtype_size_map_def split: if_splits)

lemma str_dtypes_sized: "s \<in> set get_all_str_dtypes \<longleftrightarrow> get_dtype_byte s \<noteq> None"
  by (auto simp: get_all_str_dtypes_def ASCEND_DTYPE_NP_DTYPE_MAP_def get_dtype_byte_def
      dtype_size_map_def)

section \<open>Sizes of parameters\<close>

text \<open>
  \<^verbatim>\<open>calc_op_param_size\<close> of \<^verbatim>\<open>src/main/ascend_tbe_op.py\<close>. The guard is a conjunction, so a
  text that names no type passes it; the multiplication with \<^verbatim>\<open>None\<close> then raises the same
  \<^verbatim>\<open>TypeError\<close>.
\<close>

definition calc_op_param_size :: "int \<Rightarrow> pyval \<Rightarrow> int res" where
  "calc_op_param_size shape_size dtype = (case dtype of
      PyStr s \<Rightarrow> (case get_dtype_byte s of Some b \<Rightarrow> Inr (shape_size * b) | None \<Rightarrow> Inl TypeError)
    | _ \<Rightarrow> Inl TypeError)"

lemma calc_op_param_size_ok:
  "calc_op_param_size n v = Inr z \<longleftrightarrow> (\<exists>s b. v = PyStr s \<and> get_dtype_byte s = Some b \<and> z = n * b)"
  by (auto simp: calc_op_param_size_def split: pyval.splits option.splits)

end
