(* ===== verification/Ascend_Op.thy ===== *)
theory Ascend_Op
  imports Dtype_Trans Py_Os
begin

text \<open>
  Operators and their compiled kernels: the classes \<^verbatim>\<open>AscendOp\<close> and \<^verbatim>\<open>AscendOpKernel\<close>
  of \<^verbatim>\<open>src/main/ascend_tbe_op.py\<close>. The operator's own function, the import system, the
  JSON reader and \<^verbatim>\<open>shape_utils.calc_shape_size\<close> are not part of the program; they are
  arguments of the definitions that use them.
\<close>

section \<open>Compiled kernels\<close>

text \<open>The attributes of a kernel object; the fields read from its JSON file are raw values.\<close>

record op_kernel =
  bin_path :: string
  json_path :: string
  block_dim :: pyval
  stub_func_name :: pyval
  magic :: pyval
  workspace :: pyval
  has_tiling :: bool
  tiling_data_size :: pyval
  stub_func_p :: "string option"
  input_infos :: "pydict list"
  output_infos :: "pydict list"
  compile_info :: pyval
  need_do_tiling :: bool

definition parse_json_file :: "pyval \<Rightarrow> op_kernel \<Rightarrow> op_kernel res" where
  "parse_json_file json_obj k =
     bindE (as_dict json_obj) (\<lambda>d.
     bindE (if \<not> truthy (dget d ''workspace'') then Inr (PyList [])
            else bindE (as_dict (dget d ''workspace'')) (\<lambda>w.
              Inr (if dhas w ''size'' then dget w ''size'' else PyList []))) (\<lambda>ws.
       Inr (k\<lparr>block_dim := dget d ''blockDim'', stub_func_name := dget d ''kernelName'',
              magic := dget d ''magic'', workspace := ws,
              has_tiling := truthy (dget d ''opParaSize''),
              tiling_data_size := (if truthy (dget d ''opParaSize'') then dget d ''opParaSize''
                                   else PyInt 0)\<rparr>)))"

definition init_kernel ::
    "fs \<Rightarrow> (string \<Rightarrow> pyval res) \<Rightarrow> string \<Rightarrow> string \<Rightarrow> op_kernel res" where
  "init_kernel f read_json bin json =
     bindE (raise_if (\<not> fs_exists f bin) OSError) (\<lambda>_.
     bindE (raise_if (\<not> fs_exists f json) OSError) (\<lambda>_.
     bindE (read_json json) (\<lambda>obj.
       parse_json_file obj
         \<lparr>bin_path = bin, json_path = json, block_dim = PyNone, stub_func_name = PyNone,
          magic = PyNone, workspace = PyNone, has_tiling = False, tiling_data_size = PyNone,
          stub_func_p = None, input_infos = [], output_infos = [], compile_info = PyNone,
          need_do_tiling = False\<rparr>)))"

definition is_registered_to_device :: "op_kernel \<Rightarrow> bool" where
  "is_registered_to_device k = (stub_func_p k \<noteq> None)"

definition set_stub_func_p :: "string \<Rightarrow> op_kernel \<Rightarrow> op_kernel" where
  "set_stub_func_p p k = k\<lparr>stub_func_p := Some p\<rparr>"

definition set_input_info :: "pydict list \<Rightarrow> op_kernel \<Rightarrow> op_kernel" where
  "set_input_info infos k = k\<lparr>input_infos := infos\<rparr>"

definition set_output_info :: "pydict list \<Rightarrow> op_kernel \<Rightarrow> op_kernel" where
  "set_output_info infos k = k\<lparr>output_infos := infos\<rparr>"

definition set_compile_info :: "pyval \<Rightarrow> op_kernel \<Rightarrow> op_kernel" where
  "set_compile_info info k = k\<lparr>compile_info := info, need_do_tiling := True\<rparr>"

section \<open>The arguments of an operator\<close>

definition get_param_type :: "pyval \<Rightarrow> pyval" where
  "get_param_type one_param =
     (if \<not> truthy one_param then PyNone
      else (case one_param of
              PyList (PyDict d # _) \<Rightarrow> dget d ''param_type''
            | PyTuple (PyDict d # _) \<Rightarrow> dget d ''param_type''
            | PyDict d \<Rightarrow> dget d ''param_type''
            | _ \<Rightarrow> PyNone))"

text \<open>Only a list is spread out; a tuple is added as one parameter.\<close>

definition add_to_params :: "pyval list \<Rightarrow> pyval \<Rightarrow> pyval list" where
  "add_to_params params one_param =
     (case one_param of PyList ps \<Rightarrow> params @ ps | p \<Rightarrow> params @ [p])"

definition get_input_outputs :: "pyval list \<Rightarrow> pyval list \<times> pyval list" where
  "get_input_outputs param_list =
     foldl (\<lambda>(ins, outs) arg.
         (if get_param_type arg = PyStr ''input'' then add_to_params ins arg else ins,
          if get_param_type arg = PyStr ''output'' then add_to_params outs arg else outs))
       ([], []) param_list"

definition kernel_arg :: "(pyval \<Rightarrow> int res) \<Rightarrow> pyval \<Rightarrow> pydict res" where
  "kernel_arg calc_shape_size info =
     bindE (as_dict info) (\<lambda>d.
     bindE (calc_shape_size (dget d ''shape'')) (\<lambda>shape_size.
     bindE (if shape_size < 0 then Inr (-1) else calc_op_param_size shape_size (dget d ''dtype''))
       (\<lambda>size. Inr [(''shape'', dget d ''shape''), (''dtype'', dget d ''dtype''),
                    (''format'', dget d ''format''), (''size'', PyInt size)])))"

definition pick_kernel_args ::
    "(pyval \<Rightarrow> int res) \<Rightarrow> pyval list \<Rightarrow> (pydict list \<times> pydict list) res" where
  "pick_kernel_args calc_shape_size args =
     bindE (mapE (kernel_arg calc_shape_size) (fst (get_input_outputs args))) (\<lambda>ins.
     bindE (mapE (kernel_arg calc_shape_size) (snd (get_input_outputs args))) (\<lambda>outs.
       Inr (ins, outs)))"

section \<open>Compiling an operator\<close>

text \<open>
  An operator function either raises or leaves compile information and a file system with
  the compiled files in it.
\<close>

type_synonym op_func = "pyval list \<Rightarrow> pydict \<Rightarrow> (pyval \<times> fs) option"

record ascend_op =
  op_type :: string
  op_module_name :: string
  op_intf_name :: string

definition init_op :: "pyval \<Rightarrow> pyval \<Rightarrow> pyval \<Rightarrow> ascend_op res" where
  "init_op t m i = (case (t, m, i) of
      (PyStr t, PyStr m, PyStr i) \<Rightarrow> Inr \<lparr>op_type = t, op_module_name = m, op_intf_name = i\<rparr>
    | _ \<Rightarrow> Inl TypeError)"

definition load_op_func :: "(string \<Rightarrow> (string \<times> op_func) list option) \<Rightarrow> ascend_op \<Rightarrow> op_func res" where
  "load_op_func modules op = (case modules (op_module_name op) of
      None \<Rightarrow> Inl RuntimeError
    | Some m \<Rightarrow> (case map_of m (op_intf_name op) of
        None \<Rightarrow> Inl AttributeError
      | Some f \<Rightarrow> Inr f))"

definition compile_op ::
    "(string \<Rightarrow> (string \<times> op_func) list option) \<Rightarrow> (fs \<Rightarrow> string \<Rightarrow> pyval res)
     \<Rightarrow> (pyval \<Rightarrow> int res) \<Rightarrow> ascend_op \<Rightarrow> pyval list \<Rightarrow> pydict \<Rightarrow> op_kernel res" where
  "compile_op modules read_json calc_shape_size op args kwargs =
     bindE (load_op_func modules op) (\<lambda>op_func.
     case op_func args kwargs of
       None \<Rightarrow> Inl RuntimeError
     | Some (info, f) \<Rightarrow> (case dget kwargs ''kernel_name'' of
         PyStr kernel_name \<Rightarrow>
           (let dir = fs_realpath f ''./kernel_meta'';
                bin = path_join dir (kernel_name @ ''.o'');
                json = path_join dir (kernel_name @ ''.json'') in
            bindE (raise_if (\<not> fs_exists f bin \<or> \<not> fs_exists f json) RuntimeError) (\<lambda>_.
            bindE (init_kernel f (read_json f) bin json) (\<lambda>k.
            bindE (pick_kernel_args calc_shape_size args) (\<lambda>(ins, outs).
              Inr (set_output_info outs (set_input_info ins (set_compile_info info k)))))))
       | _ \<Rightarrow> Inl TypeError))"


section \<open>The tensors among the arguments\<close>

text \<open>
  \<open>tensors t args\<close>: the parameters of type \<open>t\<close>, lists spread out, in the order of the
  arguments; \<open>describes\<close> relates a tensor to the kernel's information about it.
\<close>

definition spread :: "pyval \<Rightarrow> pyval list" where
  "spread p = (case p of PyList ps \<Rightarrow> ps | p \<Rightarrow> [p])"

definition tensors :: "string \<Rightarrow> pyval list \<Rightarrow> pyval list" where
  "tensors t args = concat (map spread (filter (\<lambda>a. get_param_type a = PyStr t) args))"

definition describes :: "(pyval \<Rightarrow> int res) \<Rightarrow> pyval \<Rightarrow> pydict \<Rightarrow> bool" where
  "describes calc v info \<longleftrightarrow> (\<exists>d n. v = PyDict d \<and> calc (dget d ''shape'') = Inr n
     \<and> dget info ''shape'' = dget d ''shape'' \<and> dget info ''dtype'' = dget d ''dtype''
     \<and> dget info ''format'' = dget d ''format''
     \<and> (if n < 0 then dget info ''size'' = PyInt (-1)
        else \<exists>s b. dget d ''dtype'' = PyStr s \<and> get_dtype_byte s = Some b
               \<and> dget info ''size'' = PyInt (n * b)))"

lemma add_to_params_eq: "add_to_params params p = params @ spread p"
  by (auto simp: add_to_params_def spread_def split: pyval.split)

lemma get_input_outputs_eq:
  "get_input_outputs args = (tensors ''input'' args, tensors ''output'' args)"
proof -
  have "foldl (\<lambda>(ins, outs) arg.
         (if get_param_type arg = PyStr ''input'' then add_to_params ins arg else ins,
          if get_param_type arg = PyStr ''output'' then add_to_params outs arg else outs)) (i, j) args
      = (i @ tensors ''input'' args, j @ tensors ''output'' args)" for i j
    by (induction args arbitrary: i j) (simp_all add: tensors_def add_to_params_eq)
  then show ?thesis by (simp add: get_input_outputs_def)
qed

lemma kernel_arg_describes: "kernel_arg calc v = Inr info \<Longrightarrow> describes calc v info"
proof -
  assume "kernel_arg calc v = Inr info"
  then obtain d n z where d: "v = PyDict d" "calc (dget d ''shape'') = Inr n"
    and z: "(if n < 0 then Inr (-1) else calc_op_param_size n (dget d ''dtype'')) = Inr z"
    and info: "info = [(''shape'', dget d ''shape''), (''dtype'', dget d ''dtype''),
                       (''format'', dget d ''format''), (''size'', PyInt z)]"
    unfolding kernel_arg_def as_dict_ok bindE_eq_Inr by blast
  have "if n < 0 then z = -1 else \<exists>s b. dget d ''dtype'' = PyStr s \<and> get_dtype_byte s = Some b \<and> z = n * b"
    using z by (simp add: calc_op_param_size_ok split: if_splits)
  then show ?thesis
    unfolding describes_def
    by (intro exI [of _ d] exI [of _ n]) (auto simp: d info)
qed

text \<open>
  When \<^verbatim>\<open>_pick_kernel_args\<close> returns, there is one entry per input tensor and one per
  output tensor, in the order of the arguments; each keeps shape, type and format, and its size is
  -1 for a dynamic shape and the number of elements times the width of the type otherwise.
\<close>

theorem pick_kernel_args_spec:
  assumes "pick_kernel_args calc args = Inr (ins, outs)"
  shows "list_all2 (describes calc) (tensors ''input'' args) ins
    \<and> list_all2 (describes calc) (tensors ''output'' args) outs"
  using assms unfolding pick_kernel_args_def get_input_outputs_eq
  by (auto simp: mapE_ok intro: list_all2_mono kernel_arg_describes)

definition calc_ex :: "pyval \<Rightarrow> int res" where
  "calc_ex v = (case v of PyList [PyInt a, PyInt b] \<Rightarrow> Inr (if a < 0 \<or> b < 0 then -1 else a * b)
     | _ \<Rightarrow> Inl TypeError)"

definition args_ex :: "pyval list" where
  "args_ex =
     [PyDict [(''shape'', PyList [PyInt 2, PyInt 3]), (''dtype'', PyStr ''float16''),
              (''format'', PyStr ''ND''), (''param_type'', PyStr ''input'')],
      PyList [PyDict [(''shape'', PyList [PyInt (-1), PyInt 3]), (''dtype'', PyStr ''int8''),
              (''format'', PyStr ''ND''), (''param_type'', PyStr ''output'')]],
      PyInt 5]"

lemma pick_kernel_args_ex:
  "pick_kernel_args calc_ex args_ex = Inr
     ([[(''shape'', PyList [PyInt 2, PyInt 3]), (''dtype'', PyStr ''float16''),
        (''format'', PyStr ''ND''), (''size'', PyInt 12)]],
      [[(''shape'', PyList [PyInt (-1), PyInt 3]), (''dtype'', PyStr ''int8''),
        (''format'', PyStr ''ND''), (''size'', PyInt (-1))]])"
  by (simp add: pick_kernel_args_def get_input_outputs_def args_ex_def get_param_type_def
      add_to_params_def kernel_arg_def calc_ex_def calc_op_param_size_def get_dtype_byte_def
      dtype_size_map_def)

theorem pick_kernel_args_spec_witness:
  "list_all2 (describes calc_ex) (tensors ''input'' args_ex)
     [[(''shape'', PyList [PyInt 2, PyInt 3]), (''dtype'', PyStr ''float16''),
       (''format'', PyStr ''ND''), (''size'', PyInt 12)]]"
  using pick_kernel_args_spec [OF pick_kernel_args_ex] by blast

text \<open>
  A tuple of tensors is recognised as an input or an output but is not spread out, so the
  access to its \<^verbatim>\<open>shape\<close> raises.
\<close>

lemma tuple_of_tensors_raises:
  assumes "dget d ''param_type'' = PyStr ''input''"
  shows "pick_kernel_args calc (PyTuple (PyDict d # ds) # args) = Inl AttributeError"
  using assms
  by (simp add: pick_kernel_args_def get_input_outputs_eq tensors_def get_param_type_def spread_def
      kernel_arg_def)

text \<open>A compiled kernel is not registered yet, and always asks for tiling data.\<close>

lemma compile_op_fresh:
  assumes "compile_op modules rj calc op args kwargs = Inr k"
  shows "stub_func_p k = None \<and> need_do_tiling k \<and> \<not> is_registered_to_device k"
proof -
  have init: "stub_func_p k' = None" if "init_kernel f rj' b j = Inr k'" for f rj' b j k'
    using that by (auto simp: init_kernel_def parse_json_file_def)
  obtain func where func: "load_op_func modules op = Inr func"
    using assms unfolding compile_op_def bindE_eq_Inr by blast
  then obtain info f where f: "func args kwargs = Some (info, f)"
    using assms by (cases "func args kwargs") (auto simp: compile_op_def)
  with func obtain n where n: "dget kwargs ''kernel_name'' = PyStr n"
    using assms by (cases "dget kwargs ''kernel_name''") (auto simp: compile_op_def)
  with f func obtain b j k' ins outs where "init_kernel f (rj f) b j = Inr k'"
    and "k = set_output_info outs (set_input_info ins (set_compile_info info k'))"
    using assms unfolding compile_op_def Let_def by auto
  with init show ?thesis
    by (auto simp: set_output_info_def set_input_info_def set_compile_info_def
        is_registered_to_device_def)
qed

end
