(* ===== verification/Rts_Info.thy ===== *)
theory Rts_Info
  imports Py_Base "HOL-Library.Word"
begin

unbundle bit_operations_syntax

text \<open>
  The constants of the Ascend runtime, \<^verbatim>\<open>src/main/rts_info.py\<close>. Dictionaries are
  association lists; their values are 32 bit words, as the calls of the runtime take them.
\<close>

section \<open>Kernel magic numbers\<close>

definition RT_DEV_BINARY_MAGIC_PLAIN :: "32 word" where "RT_DEV_BINARY_MAGIC_PLAIN = 0xabceed50"
definition RT_DEV_BINARY_MAGIC_PLAIN_AICPU :: "32 word" where "RT_DEV_BINARY_MAGIC_PLAIN_AICPU = 0xabceed51"
definition RT_DEV_BINARY_MAGIC_PLAIN_AIVEC :: "32 word" where "RT_DEV_BINARY_MAGIC_PLAIN_AIVEC = 0xabceed52"
definition RT_DEV_BINARY_MAGIC_ELF :: "32 word" where "RT_DEV_BINARY_MAGIC_ELF = 0x43554245"
definition RT_DEV_BINARY_MAGIC_ELF_AICPU :: "32 word" where "RT_DEV_BINARY_MAGIC_ELF_AICPU = 0x41415243"
definition RT_DEV_BINARY_MAGIC_ELF_AIVEC :: "32 word" where "RT_DEV_BINARY_MAGIC_ELF_AIVEC = 0x41415246"
definition RT_DEV_BINARY_MAGIC_ELF_AICUBE :: "32 word" where "RT_DEV_BINARY_MAGIC_ELF_AICUBE = 0x41494343"

definition MAGIC_MAP :: "(string \<times> 32 word) list" where
  "MAGIC_MAP =
    [(''RT_DEV_BINARY_MAGIC_ELF_AIVEC'', RT_DEV_BINARY_MAGIC_ELF_AIVEC),
     (''RT_DEV_BINARY_MAGIC_ELF_AIVECTOR'', RT_DEV_BINARY_MAGIC_ELF_AIVEC),
     (''RT_DEV_BINARY_MAGIC_ELF'', RT_DEV_BINARY_MAGIC_ELF),
     (''RT_DEV_BINARY_MAGIC_ELF_AICPU'', RT_DEV_BINARY_MAGIC_ELF_AICPU),
     (''RT_DEV_BINARY_MAGIC_PLAIN_AIVEC'', RT_DEV_BINARY_MAGIC_PLAIN_AIVEC),
     (''RT_DEV_BINARY_MAGIC_PLAIN_AICPU'', RT_DEV_BINARY_MAGIC_PLAIN_AICPU),
     (''RT_DEV_BINARY_MAGIC_PLAIN'', RT_DEV_BINARY_MAGIC_PLAIN),
     (''RT_DEV_BINARY_MAGIC_ELF_AICUBE'', RT_DEV_BINARY_MAGIC_ELF_AICUBE)]"

section \<open>Memory, devices and modes\<close>

definition RT_MEMORY_TYPE :: "(string \<times> 32 word) list" where
  "RT_MEMORY_TYPE =
    [(''RT_MEMORY_DEFAULT'', 0),
     (''RT_MEMORY_HBM'', 2),
     (''RT_MEMORY_DDR'', 4),
     (''RT_MEMORY_SPM'', 8),
     (''RT_MEMORY_P2P_HBM'', 0x10),
     (''RT_MEMORY_P2P_DDR'', 0x11),
     (''RT_MEMORY_DDR_NC'', 0x20),
     (''RT_MEMORY_TS_4G'', 0x40),
     (''RT_MEMORY_TS'', 0x80),
     (''RT_MEMORY_RESERVED'', 0x100),
     (''RT_MEMORY_L1'', 0x10000),
     (''RT_MEMORY_L2'', 0x20000)]"

definition RT_MODULE_TYPE :: "(string \<times> 32 word) list" where
  "RT_MODULE_TYPE =
    [(''MODULE_TYPE_SYSTEM'', 0),
     (''MODULE_TYPE_AICPU'', 1),
     (''MODULE_TYPE_CCPU'', 2),
     (''MODULE_TYPE_DCPU'', 3),
     (''MODULE_TYPE_AICORE'', 4),
     (''MODULE_TYPE_TSCPU'', 5),
     (''MODULE_TYPE_PCIE'', 6)]"

definition RT_INFO_TYPE :: "(string \<times> 32 word) list" where
  "RT_INFO_TYPE =
    [(''INFO_TYPE_ENV'', 0),
     (''INFO_TYPE_VERSION'', 1),
     (''INFO_TYPE_MASTERID'', 2),
     (''INFO_TYPE_CORE_NUM'', 3),
     (''INFO_TYPE_OS_SCHED'', 4),
     (''INFO_TYPE_IN_USED'', 5),
     (''INFO_TYPE_ERROR_MAP'', 6),
     (''INFO_TYPE_OCCUPY'', 7),
     (''INFO_TYPE_ID'', 8),
     (''INFO_TYPE_IP'', 9),
     (''INFO_TYPE_ENDIAN'', 10)]"

definition RT_MEMORY_POLICY :: "(string \<times> 32 word) list" where
  "RT_MEMORY_POLICY =
    [(''RT_MEMORY_POLICY_NONE'', 0),
     (''RT_MEMORY_POLICY_HUGE_PAGE_FIRST'', 0x400),
     (''RT_MEMORY_POLICY_HUGE_PAGE_ONLY'', 0x800),
     (''RT_MEMORY_POLICY_DEFAULT_PAGE_ONLY'', 0x1000),
     (''RT_MEMORY_POLICY_HUGE_PAGE_FIRST_P2P'', 0x2000),
     (''RT_MEMORY_POLICY_HUGE_PAGE_ONLY_P2P'', 0x4000),
     (''RT_MEMORY_POLICY_DEFAULT_PAGE_ONLY_P2P'', 0x8000)]"

definition RT_MEMCPY_KIND :: "(string \<times> 32 word) list" where
  "RT_MEMCPY_KIND =
    [(''RT_MEMCPY_HOST_TO_HOST'', 0),
     (''RT_MEMCPY_HOST_TO_DEVICE'', 1),
     (''RT_MEMCPY_DEVICE_TO_HOST'', 2),
     (''RT_MEMCPY_DEVICE_TO_DEVICE'', 3),
     (''RT_MEMCPY_MANAGED'', 4),
     (''RT_MEMCPY_ADDR_DEVICE_TO_DEVICE'', 5),
     (''RT_MEMCPY_HOST_TO_DEVICE_EX'', 6),
     (''RT_MEMCPY_DEVICE_TO_HOST_EX'', 7),
     (''RT_MEMCPY_RESERVED'', 8)]"

definition MEMORY_INFO_TYPE :: "(string \<times> 32 word) list" where
  "MEMORY_INFO_TYPE =
    [(''RT_MEMORYINFO_DDR'', 0),
     (''RT_MEMORYINFO_HBM'', 1),
     (''RT_MEMORYINFO_DDR_HUGE'', 2),
     (''RT_MEMORYINFO_DDR_NORMAL'', 3),
     (''RT_MEMORYINFO_HBM_HUGE'', 4),
     (''RT_MEMORYINFO_HBM_NORMAL'', 5),
     (''RT_MEMORYINFO_DDR_P2P_HUGE'', 6),
     (''RT_MEMORYINFO_DDR_P2P_NORMAL'', 7),
     (''RT_MEMORYINFO_HBM_P2P_HUGE'', 8),
     (''RT_MEMORYINFO_HBM_P2P_NORMAL'', 9)]"

definition RT_CONTEXT_MODE :: "(string \<times> 32 word) list" where
  "RT_CONTEXT_MODE =
    [(''RT_CTX_NORMAL_MODE'', 0),
     (''RT_CTX_GEN_MODE'', 1)]"

definition RT_KERNEL_FLAGS :: "(string \<times> 32 word) list" where
  "RT_KERNEL_FLAGS =
    [(''default'', 0),
     (''convert'', 1),
     (''dumpflag'', 2)]"

definition RT_FUNC_MODE_DICT :: "(string \<times> 32 word) list" where
  "RT_FUNC_MODE_DICT =
    [(''FUNC_MODE_NORMAL'', 0),
     (''FUNC_MODE_PCTRACE_USERPROFILE_RECORDLOOP'', 1),
     (''FUNC_MODE_PCTRACE_USERPROFILE_SKIPLOOP'', 2),
     (''FUNC_MODE_PCTRACE_CYCLECNT_RECORDLOOP'', 3),
     (''FUNC_MODE_PCTRACE_CYCLECNT_SKIPLOOP'', 4),
     (''FUNC_MODE_BUTT'', 5)]"

definition RT_ENV_TYPE :: "(int \<times> string) list" where
  "RT_ENV_TYPE =
    [(0, ''FPGA''),
     (1, ''EMU''),
     (2, ''ESL'')]"

section \<open>Error codes\<close>

text \<open>Both dictionaries are keyed by bits 16 to 23 of an error code.\<close>

definition RT_ERROR_TYPE_DICT :: "(64 word \<times> string) list" where
  "RT_ERROR_TYPE_DICT =
    [(0, ''UNKNOWN''),
     (0x10000, ''DEVICE''),
     (0x20000, ''DRV''),
     (0x30000, ''STREAM''),
     (0x40000, ''MODEL''),
     (0x50000, ''EVENT''),
     (0x60000, ''NOTIFY''),
     (0x70000, ''CONTEXT''),
     (0x80000, ''KERNEL''),
     (0x90000, ''PROGRAM''),
     (0xa0000, ''MODULE''),
     (0xb0000, ''INSTANCE''),
     (0xc0000, ''API''),
     (0xd0000, ''DATADUMP''),
     (0xe0000, ''PROF''),
     (0xf0000, ''PCTRACE''),
     (0x100000, ''TASK''),
     (0x110000, ''COMMON''),
     (0x120000, ''DEBUG''),
     (0x130000, ''ENGINE''),
     (0x140000, ''LABEL''),
     (0x150000, ''TSFW''),
     (0x160000, ''SUBSCRIBE''),
     (0x170000, ''GROUP''),
     (0xff0000, ''RESERVED'')]"

definition codes_core :: "(64 word \<times> string list) list" where
  "codes_core =
    [(0,
        [''RT_ERROR_UNKNOWN_UNKNOWN0'',
         ''RT_ERROR_UNKNOWN_UNKNOWN1'',
         ''RT_ERROR_UNKNOWN_UNKNOWN2'',
         ''RT_ERROR_UNKNOWN_UNKNOWN3'',
         ''RT_ERROR_UNKNOWN_UNKNOWN4'',
         ''RT_ERROR_UNKNOWN_UNKNOWN5'',
         ''RT_ERROR_UNKNOWN_UNKNOWN6'',
         ''RT_ERROR_UNKNOWN_UNKNOWN7'',
         ''RT_ERROR_UNKNOWN_UNKNOWN8'',
         ''RT_ERROR_UNKNOWN_UNKNOWN9'',
         ''RT_ERROR_UNKNOWN_UNKNOWNA'',
         ''RT_ERROR_UNKNOWN_UNKNOWNB'',
         ''RT_ERROR_UNKNOWN_UNKNOWNC'',
         ''RT_ERROR_UNKNOWN_UNKNOWND'',
         ''RT_ERROR_UNKNOWN_UNKNOWNE'',
         ''RT_ERROR_UNKNOWN_UNKNOWNF'']),
     (0x10000,
        [''RT_ERROR_DEVICE_BASE'',
         ''RT_ERROR_DEVICE_NULL'',
         ''RT_ERROR_DEVICE_NEW'',
         ''RT_ERROR_DEVICE_ID'',
         ''RT_ERROR_DEVICE_CHIPTYPE'',
         ''RT_ERROR_DEVICE_DEPLOY'',
         ''RT_ERROR_DEVICE_RETAIN'',
         ''RT_ERROR_DEVICE_PLATFORM'',
         ''RT_ERROR_DEVICE_LOADER'',
         ''RT_ERROR_DEVICE_LIMIT'',
         ''RT_ERROR_DEVICE_PROC_HANG_OUT'',
         ''RT_ERROR_DEVICE_POWER_UP_FAIL'',
         ''RT_ERROR_DEVICE_POWER_DOWN_FAIL'',
         ''RT_ERROR_DEVICE_INVALID'']),
     (0x20000,
        [''RT_ERROR_DRV_BASE'',
         ''RT_ERROR_DRV_NULL'',
         ''RT_ERROR_DRV_NEW'',
         ''RT_ERROR_DRV_MEMORY'',
         ''RT_ERROR_DRV_INPUT'',
         ''RT_ERROR_DRV_PTRNULL'',
         ''RT_ERROR_DRV_OPEN_AICPU'',
         ''RT_ERROR_DRV_CLOSE_AICPU'',
         ''RT_ERROR_DRV_SYM_AICPU'',
         ''RT_ERROR_DRV_OPEN_TSD'',
         ''RT_ERROR_DRV_CLOSE_TSD'',
         ''RT_ERROR_DRV_SYM_TSD'',
         ''RT_ERROR_DRV_SOURCE'',
         ''RT_ERROR_DRV_REPORT'',
         ''RT_ERROR_DRV_COMMAND'',
         ''RT_ERROR_DRV_OCCUPY'',
         ''RT_ERROR_DRV_ERR'']),
     (0x30000,
        [''RT_ERROR_STREAM_BASE'',
         ''RT_ERROR_STREAM_NULL'',
         ''RT_ERROR_STREAM_NEW'',
         ''RT_ERROR_STREAM_CONTEXT'',
         ''RT_ERROR_STREAM_INVALID'',
         ''RT_ERROR_STREAM_MODEL'',
         ''RT_ERROR_STREAM_FUSION'',
         ''RT_ERROR_STREAM_FULL'',
         ''RT_ERROR_STREAM_EMPTY'',
         ''RT_ERROR_STREAM_NOT_COMPLETE'',
         ''RT_ERROR_STREAM_SYNC'',
         ''RT_ERROR_STREAM_NO_CB_REG'',
         ''RT_ERROR_STREAM_DUPLICATE'',
         ''RT_ERROR_STREAM_NOT_EXIST'',
         ''RT_ERROR_SQ_NO_EXIST_SQ_TO_REUSE'',
         ''RT_ERROR_SQID_FULL'']),
     (0x40000,
        [''RT_ERROR_MODEL_BASE'',
         ''RT_ERROR_MODEL_NULL'',
         ''RT_ERROR_MODEL_NEW'',
         ''RT_ERROR_MODEL_CONTEXT'',
         ''RT_ERROR_MODEL_ENDGRAPH'',
         ''RT_ERROR_MODEL_STREAM'',
         ''RT_ERROR_MODEL_EXCUTOR'',
         ''RT_ERROR_MODEL_SETUP'',
         ''RT_ERROR_MODEL_ID'',
         ''RT_ERROR_MODEL_EXE_FAILED'',
         ''RT_ERROR_END_OF_SEQUENCE'']),
     (0x50000,
        [''RT_ERROR_EVENT_BASE'',
         ''RT_ERROR_EVENT_NULL'',
         ''RT_ERROR_EVENT_NEW'',
         ''RT_ERROR_EVENT_RECORDER_NULL'',
         ''RT_ERROR_EVENT_TIMESTAMP_INVALID'',
         ''RT_ERROR_EVENT_TIMESTAMP_REVERSAL'',
         ''RT_ERROR_EVENT_NOT_COMPLETE''])]"

definition codes_objects :: "(64 word \<times> string list) list" where
  "codes_objects =
    [(0x60000,
        [''RT_ERROR_NOTIFY_BASE'',
         ''RT_ERROR_NOTIFY_NULL'',
         ''RT_ERROR_NOTIFY_NEW'',
         ''RT_ERROR_NOTIFY_TYPE'',
         ''RT_ERROR_NOTIFY_NOT_COMPLETE'']),
     (0x70000,
        [''RT_ERROR_CONTEXT_BASE'',
         ''RT_ERROR_CONTEXT_NULL'',
         ''RT_ERROR_CONTEXT_NEW'',
         ''RT_ERROR_CONTEXT_DEL'',
         ''RT_ERROR_CONTEXT_DEFAULT_STREAM_NULL'',
         ''RT_ERROR_CONTEXT_ONLINE_STREAM_NULL'']),
     (0x80000,
        [''RT_ERROR_KERNEL_BASE'',
         ''RT_ERROR_KERNEL_NULL'',
         ''RT_ERROR_KERNEL_NEW'',
         ''RT_ERROR_KERNEL_LOOKUP'',
         ''RT_ERROR_KERNEL_NAME'',
         ''RT_ERROR_KERNEL_TYPE'',
         ''RT_ERROR_KERNEL_OFFSET'',
         ''RT_ERROR_KERNEL_DUPLICATE'',
         ''RT_ERROR_KERNEL_UNREGISTERING'']),
     (0x90000,
        [''RT_ERROR_PROGRAM_BASE'',
         ''RT_ERROR_PROGRAM_NULL'',
         ''RT_ERROR_PROGRAM_NEW'',
         ''RT_ERROR_PROGRAM_DATA'',
         ''RT_ERROR_PROGRAM_SIZE'',
         ''RT_ERROR_PROGRAM_MEM_TYPE'',
         ''RT_ERROR_PROGRAM_MACHINE_TYPE'',
         ''RT_ERROR_PROGRAM_USEOUT'']),
     (0xa0000,
        [''RT_ERROR_MODULE_BASE'',
         ''RT_ERROR_MODULE_NULL'',
         ''RT_ERROR_MODULE_NEW'']),
     (0xb0000,
        [''RT_ERROR_INSTANCE_BASE'',
         ''RT_ERROR_INSTANCE_NULL'',
         ''RT_ERROR_INSTANCE_NEW'',
         ''RT_ERROR_INSTANCE_VERSION'']),
     (0xc0000,
        [''RT_ERROR_API_BASE'',
         ''RT_ERROR_API_NULL'',
         ''RT_ERROR_API_NEW'']),
     (0xd0000,
        [''RT_ERROR_DATADUMP_BASE'',
         ''RT_ERROR_DATADUMP_NULL'',
         ''RT_ERROR_DATADUMP_NEW'',
         ''RT_ERROR_DATADUMP_TIME'',
         ''RT_ERROR_DATADUMP_FILE'',
         ''RT_ERROR_DATADUMP_ADDRESS'',
         ''RT_ERROR_DATADUMP_LOAD_FAILED'',
         ''RT_ERROR_DUMP_ADDR_SET_FAILED'']),
     (0xe0000,
        [''RT_ERROR_PROF_BASE'',
         ''RT_ERROR_PROF_NULL'',
         ''RT_ERROR_PROF_NEW'',
         ''RT_ERROR_PROF_START'',
         ''RT_ERROR_PROF_DEVICE_MEM'',
         ''RT_ERROR_PROF_HOST_MEM'',
         ''RT_ERROR_PROF_SET_DIR'',
         ''RT_ERROR_PROF_OPER'',
         ''RT_ERROR_PROF_FULL'',
         ''RT_ERROR_PROF_NAME'']),
     (0xf0000,
        [''RT_ERROR_PCTRACE_BASE'',
         ''RT_ERROR_PCTRACE_NULL'',
         ''RT_ERROR_PCTRACE_NEW'',
         ''RT_ERROR_PCTRACE_TIME'',
         ''RT_ERROR_PCTRACE_FILE'']),
     (0x100000,
        [''RT_ERROR_TASK_BASE'',
         ''RT_ERROR_TASK_NULL'',
         ''RT_ERROR_TASK_NEW'',
         ''RT_ERROR_TASK_TYPE'',
         ''RT_ERROR_TASK_ALLOCATOR'']),
     (0x110000,
        [''RT_ERROR_COMMON_BASE'',
         ''RT_ERROR_INVALID_VALUE'',
         ''RT_ERROR_MEMORY_ADDRESS_UNALIGNED'',
         ''RT_ERROR_SEC_HANDLE'',
         ''RT_ERROR_OS_HANDLE'',
         ''RT_ERROR_MUTEX_LOCK'',
         ''RT_ERROR_MUTEX_UNLOCK'',
         ''RT_ERROR_CALLOC'',
         ''RT_ERROR_POOL_RESOURCE'',
         ''RT_ERROR_TRANS_ARGS'',
         ''RT_ERROR_METADATA'',
         ''RT_ERROR_LOST_HEARTBEAT'',
         ''RT_ERROR_REPORT_TIMEOUT'',
         ''RT_ERROR_FEATURE_NOT_SUPPORT'',
         ''RT_ERROR_MEMORY_ALLOCATION'',
         ''RT_ERROR_MEMORY_FREE'',
         ''RT_ERROR_INVALID_MEMORY_TYPE'']),
     (0x120000,
        [''RT_ERROR_DEBUG_BASE'',
         ''RT_ERROR_DEBUG_NULL'',
         ''RT_ERROR_DEBUG_NEW'',
         ''RT_ERROR_DEBUG_SIGNAL'',
         ''RT_ERROR_DEBUG_OPEN'',
         ''RT_ERROR_DEBUG_WRITE'',
         ''RT_ERROR_DEBUG_REGISTER_FAILED'',
         ''RT_ERROR_DEBUG_UNREGISTER_FAILED''])]"

definition codes_engine :: "(64 word \<times> string list) list" where
  "codes_engine =
    [(0x130000,
        [''RT_ERROR_ENGINE_BASE'',
         ''RT_ERROR_ENGINE_NULL'',
         ''RT_ERROR_ENGINE_NEW'',
         ''RT_ERROR_ENGINE_THREAD'']),
     (0x140000,
        [''RT_ERROR_LABEL_BASE'',
         ''RT_ERROR_LABEL_NULL'',
         ''RT_ERROR_LABEL_NEW'',
         ''RT_ERROR_LABEL_CONTEXT'',
         ''RT_ERROR_LABEL_STREAM'',
         ''RT_ERROR_LABEL_MODEL'',
         ''RT_ERROR_LABEL_ALLOCATOR'',
         ''RT_ERROR_LABEL_FREE'',
         ''RT_ERROR_LABEL_SET'',
         ''RT_ERROR_LABEL_ID''])]"

definition codes_tsfw :: "(64 word \<times> string list) list" where
  "codes_tsfw =
    [(0x150000,
        [''RT_ERROR_TSFW_BASE'',
         ''RT_ERROR_TSFW_UNKNOWN'',
         ''RT_ERROR_TSFW_NULL_PTR'',
         ''RT_ERROR_TSFW_ILLEGAL_AI_CORE_ID'',
         ''RT_ERROR_TSFW_ILLEGAL_PARAM'',
         ''RT_ERROR_TSFW_TASK_CMD_QUEUE_FULL'',
         ''RT_ERROR_TSFW_TASK_CMD_QUEUE_EMPTY'',
         ''RT_ERROR_TSFW_TASK_REPORT_QUEUE_FULL'',
         ''RT_ERROR_TSFW_TASK_REPORT_QUEUE_EMPTY'',
         ''RT_ERROR_TSFW_TASK_NODE_BUFF_ALL_OCCUPYED'',
         ''RT_ERROR_TSFW_TASK_NODE_BUFF_ALL_FREED'',
         ''RT_ERROR_TSFW_L2_MEM_INSUFFICIENT_SPACE'',
         ''RT_ERROR_TSFW_L2_MALLOC_FAILED'',
         ''RT_ERROR_TSFW_DMA_CHANNEL_ALL_OCCUPYED'',
         ''RT_ERROR_TSFW_MEMCPY_OP_FAILED'',
         ''RT_ERROR_TSFW_BS_SLOT_ALL_OCCUPYED'',
         ''RT_ERROR_TSFW_TBS_SLOT_REPEAT_FREE'',
         ''RT_ERROR_TSFW_PRIORITY_TASK_LIST_FULL'',
         ''RT_ERROR_TSFW_PRIORITY_TASK_LIST_EMPTY'',
         ''RT_ERROR_TSFW_NO_STREAM_LIST_NEED_TO_BE_PROCESSED'',
         ''RT_ERROR_TSFW_REPEAT_MARK_STREAM_NEED_SERVICE'',
         ''RT_ERROR_TSFW_SYS_DMA_CHANNEL_ALL_OCCUPAPYED'',
         ''RT_ERROR_TSFW_NO_HBML2TASKNODE_FOUND'',
         ''RT_ERROR_TSFW_SQNODE_NODE_SLOT_ALL_OCCUPAPYED'',
         ''RT_ERROR_TSFW_CQNODE_NODE_SLOT_ALL_OCCUPAPYED'',
         ''RT_ERROR_TSFW_SQNODE_NOT_ENOUGH'',
         ''RT_ERROR_TSFW_SQNODE_SLOT_REPEAT_FREE'',
         ''RT_ERROR_TSFW_CQNODE_SLOT_REPEAT_FREE'',
         ''RT_ERROR_TSFW_CQ_REPORT_FAILED'',
         ''RT_ERROR_TSFW_SYS_DMA_RESET_SUCCESS'',
         ''RT_ERROR_TSFW_SYS_DMA_RESET_FAILED'',
         ''RT_ERROR_TSFW_SYS_DMA_TRNSFER_FAILED'',
         ''RT_ERROR_TSFW_SYS_DMA_MEMADDRALIGN_FAILED'',
         ''RT_ERROR_TSFW_SYS_DMA_ERROR_QUEUE_FULL'',
         ''RT_ERROR_TSFW_SYS_DMA_ERROR_QUEUE_EMPTY'',
         ''RT_ERROR_TSFW_TIMER_EVENT_FULL'',
         ''RT_ERROR_TSFW_TASK_L2_DESC_ENTRY_NOT_ENOUGH'',
         ''RT_ERROR_TSFW_AICORE_TIMEOUT'',
         ''RT_ERROR_TSFW_AICORE_EXCEPTION'',
         ''RT_ERROR_TSFW_AICORE_TRAP_EXCEPTION'',
         ''RT_ERROR_TSFW_AICPU_TIMEOUT'',
         ''RT_ERROR_TSFW_SDMA_L2_TO_DDR_MALLOC_FAIL'',
         ''RT_ERROR_TSFW_AICPU_EXCEPTION'',
         ''RT_ERROR_TSFW_AICPU_DATADUMP_RSP_ERR'',
         ''RT_ERROR_TSFW_AICPU_MODEL_RSP_ERR'',
         ''RT_ERROR_TSFW_REPEAT_ACTIVE_MODEL_STREAM'',
         ''RT_ERROR_TSFW_REPEAT_NOTIFY_WAIT'',
         ''RT_ERROR_TSFW_DEBUG_INVALID_SQCQ'',
         ''RT_ERROR_TSFW_DEBUG_WRONG_COMMAND_TYPE'',
         ''RT_ERROR_TSFW_DEBUG_CMD_PROCESS'',
         ''RT_ERROR_TSFW_DEBUG_INVALID_DEVICE_STATUS'',
         ''RT_ERROR_TSFW_DEBUG_NOT_IN_DEBUG_STATUS'',
         ''RT_ERROR_TSFW_DEBUG_INVALID_TASK_STATUS'',
         ''RT_ERROR_TSFW_DEBUG_TASK_EMPTY'',
         ''RT_ERROR_TSFW_DEBUG_TASK_FULL'',
         ''RT_ERROR_TSFW_DEBUG_TASK_NOT_EXIST'',
         ''RT_ERROR_TSFW_DEBUG_AI_CORE_FULL'',
         ''RT_ERROR_TSFW_DEBUG_AI_CORE_NOT_EXIST'',
         ''RT_ERROR_TSFW_DEBUG_AI_CORE_EXCEPTION'',
         ''RT_ERROR_TSFW_DEBUG_AI_CORE_TIMEOUT'',
         ''RT_ERROR_TSFW_DEBUG_BREAKPOINT_FULL'',
         ''RT_ERROR_TSFW_DEBUG_READ_ERROR'',
         ''RT_ERROR_TSFW_DEBUG_WRITE_FAIL'',
         ''RT_ERROR_TSFW_QUEUE_FULL'',
         ''RT_ERROR_TSFW_QUEUE_EMPTY'',
         ''RT_ERROR_TSFW_QUEUE_ALLOC_MEM_FAIL'',
         ''RT_ERROR_TSFW_QUEUE_DATA_SIZE_UNMATCH'',
         ''RT_ERROR_TSFW_PCIE_DMA_INVLD_CPY_TYPE'',
         ''RT_ERROR_TSFW_INVLD_CPY_DIR'',
         ''RT_ERROR_TSFW_PCIE_DMA_INVLD_CQ_DES'',
         ''RT_ERROR_TSFW_PCIE_DMA_CPY_ERR'',
         ''RT_ERROR_TSFW_PCIE_DMA_LNK_CHN_BUSY'',
         ''RT_ERROR_TSFW_PROFILE_BUFF_FULL'',
         ''RT_ERROR_TSFW_PROFILE_MODE_CONFLICT'',
         ''RT_ERROR_TSFW_PROFILE_OTHER_PID_ON'',
         ''RT_ERROR_TSFW_SCHD_AIC_TASK_PRELOAD_FAILED'',
         ''RT_ERROR_TSFW_TSCPU_CLOSE_FAILED'',
         ''RT_ERROR_TSFW_EXPECT_FAIL'',
         ''RT_ERROR_TSFW_REPEAT_MODEL_STREAM'',
         ''RT_ERROR_TSFW_STREAM_MODEL_UNBIND'',
         ''RT_ERROR_TSFW_MODEL_EXE_FAILED'',
         ''RT_ERROR_TSFW_IPC_SEND_FAILED'',
         ''RT_ERROR_TSFW_IPC_PROC_REG_FAILED'',
         ''RT_ERROR_TSFW_STREAM_FULL'',
         ''RT_ERROR_TSFW_END_OF_SEQUENCE'',
         ''RT_ERROR_TSFW_SWITCH_STREAM_LABEL'',
         ''RT_ERROR_TSFW_TRANS_SQE_FAIL'',
         ''RT_ERROR_TSFW_RESERVED''])]"

definition codes_rest :: "(64 word \<times> string list) list" where
  "codes_rest =
    [(0x160000,
        [''RT_ERROR_SUBSCRIBE_BASE'',
         ''RT_ERROR_SUBSCRIBE_NULL'',
         ''RT_ERROR_SUBSCRIBE_NEW'',
         ''RT_ERROR_SUBSCRIBE_STREAM'',
         ''RT_ERROR_SUBSCRIBE_THREAD'',
         ''RT_ERROR_SUBSCRIBE_GROUP'']),
     (0x170000,
        [''RT_ERROR_GROUP_BASE'',
         ''RT_ERROR_GROUP_NOT_SET'',
         ''RT_ERROR_GROUP_NOT_CREATE'']),
     (0xff0000,
        [''RT_ERROR_RESERVED''])]"

definition RT_ERROR_CODE_DICT :: "(64 word \<times> string list) list" where
  "RT_ERROR_CODE_DICT = codes_core @ codes_objects @ codes_engine @ codes_tsfw @ codes_rest"

text \<open>Every error type has a name and a list of codes, and no type is listed twice.\<close>

lemma error_types_match:
  "map fst RT_ERROR_TYPE_DICT = map fst RT_ERROR_CODE_DICT"
  "distinct (map fst RT_ERROR_CODE_DICT)"
  "list_all (\<lambda>(t, cs). cs \<noteq> [] \<and> t AND 0xFF0000 = t) RT_ERROR_CODE_DICT"
  by (simp_all add: RT_ERROR_TYPE_DICT_def RT_ERROR_CODE_DICT_def codes_core_def codes_objects_def
      codes_engine_def codes_tsfw_def codes_rest_def)

end
