(* ===== verification/Rts_Api.thy ===== *)
theory Rts_Api
  imports Rts_Info Utils
begin

unbundle bit_operations_syntax

text \<open>
  The Python interface to the Ascend runtime, \<^verbatim>\<open>src/main/rts_api.py\<close> (class
  \<^verbatim>\<open>AscendRTSApi\<close>). The runtime library itself is not part of the program: its functions
  are the fields of the parameter \<open>'d dll\<close>, each of which takes the device state, returns the
  64 bit status and any output values, and the new device state. Arguments are converted to
  the machine integers that the \<^verbatim>\<open>ctypes\<close> constructors in the code produce.
\<close>

section \<open>The runtime library and the state of the interface\<close>

type_synonym ptr = "64 word"
type_synonym byte = "8 word"

datatype mem_src = Bytes "byte list" | Pointer ptr

record 'd dll_control =
  rtSetDevice :: "int \<Rightarrow> 'd \<Rightarrow> 64 word \<times> 'd"
  rtGetDeviceInfo :: "32 word \<Rightarrow> 32 word \<Rightarrow> 32 word \<Rightarrow> 'd \<Rightarrow> 64 word \<times> int \<times> 'd"
  rtCtxCreate :: "32 word \<Rightarrow> 32 word \<Rightarrow> 'd \<Rightarrow> 64 word \<times> ptr \<times> 'd"
  rtCtxDestroy :: "ptr \<Rightarrow> 'd \<Rightarrow> 64 word \<times> 'd"
  rtCtxSetCurrent :: "ptr \<Rightarrow> 'd \<Rightarrow> 64 word \<times> 'd"
  rtStreamCreate :: "int \<Rightarrow> 'd \<Rightarrow> 64 word \<times> ptr \<times> 'd"
  rtStreamDestroy :: "ptr \<Rightarrow> 'd \<Rightarrow> 64 word \<times> 'd"
  rtDevBinaryRegister :: "32 word \<Rightarrow> byte list \<Rightarrow> 'd \<Rightarrow> 64 word \<times> ptr \<times> 'd"

record 'd dll_memory = "'d dll_control" +
  rtDevBinaryUnRegister :: "ptr \<Rightarrow> 'd \<Rightarrow> 64 word \<times> 'd"
  rtFunctionRegister :: "ptr \<Rightarrow> string \<Rightarrow> 32 word \<Rightarrow> 'd \<Rightarrow> 64 word \<times> 'd"
  rtMemcpy :: "ptr \<Rightarrow> 64 word \<Rightarrow> mem_src \<Rightarrow> 64 word \<Rightarrow> 32 word \<Rightarrow> 'd \<Rightarrow> 64 word \<times> 'd"
  rtMemset :: "ptr \<Rightarrow> 64 word \<Rightarrow> 32 word \<Rightarrow> 64 word \<Rightarrow> 'd \<Rightarrow> 64 word \<times> 'd"
  rtMalloc :: "64 word \<Rightarrow> 32 word \<Rightarrow> 'd \<Rightarrow> 64 word \<times> ptr \<times> 'd"
  rtMallocHost :: "64 word \<Rightarrow> 'd \<Rightarrow> 64 word \<times> ptr \<times> 'd"
  rtFree :: "ptr \<Rightarrow> 'd \<Rightarrow> 64 word \<times> 'd"
  rtFreeHost :: "ptr \<Rightarrow> 'd \<Rightarrow> 64 word \<times> 'd"

record 'd dll = "'d dll_memory" +
  rtKernelLaunch :: "string \<Rightarrow> 32 word \<Rightarrow> 64 word list \<Rightarrow> 32 word \<Rightarrow> ptr \<Rightarrow> 'd \<Rightarrow> 64 word \<times> 'd"
  rtStreamSynchronize :: "ptr \<Rightarrow> 'd \<Rightarrow> 64 word \<times> 'd"
  rtDeviceReset :: "32 word \<Rightarrow> 'd \<Rightarrow> 64 word \<times> 'd"
  rtStartOnlineProf :: "ptr \<Rightarrow> 32 word \<Rightarrow> 'd \<Rightarrow> 64 word \<times> 'd"
  rtStopOnlineProf :: "ptr \<Rightarrow> 'd \<Rightarrow> 64 word \<times> 'd"
  rtGetOnlineProfData :: "ptr \<Rightarrow> 32 word \<Rightarrow> 'd \<Rightarrow> 64 word \<times> 64 word list \<times> 'd"
  rtMemGetInfoEx :: "32 word \<Rightarrow> 'd \<Rightarrow> 64 word \<times> (64 word \<times> 64 word) \<times> 'd"
  host_bytes :: "ptr \<Rightarrow> nat \<Rightarrow> 'd \<Rightarrow> byte list"

text \<open>
  Errors: \<open>RtsRuntime\<close> carries the fixed part of the message and, when the code was decoded,
  the name of the runtime error.
\<close>

datatype rts_exn =
  RtsRuntime string string | RtsKey | RtsValue | RtsType | RtsIndex | RtsOS | RtsAttribute

text \<open>
  A context is a Python object that wraps a pointer, and membership in
  \<^verbatim>\<open>context_storage\<close> is identity of the object: contexts carry a number.
\<close>

type_synonym ctx = "nat \<times> ptr"

record 'd rts =
  device :: 'd
  device_id :: "int option"
  cur_context :: "ctx option"
  camodel :: bool
  simulator :: "string option"
  ld_library_path :: string
  kernel_binary_storage :: "(ptr \<times> byte list) list"
  kernel_name_storage :: "(ptr \<times> string list) list"
  context_storage :: "ctx list"

type_synonym ('s, 'a) sm = "'s \<Rightarrow> (rts_exn + 'a) \<times> 's"
type_synonym ('d, 'a) rt = "('d rts, 'a) sm"

definition ret :: "'a \<Rightarrow> ('s, 'a) sm" where
  "ret x s = (Inr x, s)"

definition raise :: "rts_exn \<Rightarrow> ('s, 'a) sm" where
  "raise e s = (Inl e, s)"

definition rbind :: "('s, 'a) sm \<Rightarrow> ('a \<Rightarrow> ('s, 'b) sm) \<Rightarrow> ('s, 'b) sm" where
  "rbind m f s = (case m s of (Inl e, s') \<Rightarrow> (Inl e, s') | (Inr x, s') \<Rightarrow> f x s')"

definition gets :: "('s \<Rightarrow> 'a) \<Rightarrow> ('s, 'a) sm" where
  "gets f s = (Inr (f s), s)"

definition modify :: "('s \<Rightarrow> 's) \<Rightarrow> ('s, unit) sm" where
  "modify f s = (Inr (), f s)"

definition lookup :: "(string \<times> 'a) list \<Rightarrow> string \<Rightarrow> ('d, 'a) rt" where
  "lookup d k = (case map_of d k of None \<Rightarrow> raise RtsKey | Some v \<Rightarrow> ret v)"

definition call :: "('d \<Rightarrow> 64 word \<times> 'd) \<Rightarrow> ('d, 64 word) rt" where
  "call f s = (case f (device s) of (e, d) \<Rightarrow> (Inr e, s\<lparr>device := d\<rparr>))"

definition call_out :: "('d \<Rightarrow> 64 word \<times> 'a \<times> 'd) \<Rightarrow> ('d, 64 word \<times> 'a) rt" where
  "call_out f s = (case f (device s) of (e, x, d) \<Rightarrow> (Inr (e, x), s\<lparr>device := d\<rparr>))"

section \<open>Error codes\<close>

definition parse_error_code :: "bool \<Rightarrow> 64 word \<Rightarrow> 64 word \<Rightarrow> rts_exn + string" where
  "parse_error_code cam error_type error_code =
     (if cam \<and> error_code = 3 then Inr ''CAMODEL_NULL_CONTEXT''
      else (case map_of RT_ERROR_CODE_DICT error_type of
              None \<Rightarrow> Inl RtsKey
            | Some names \<Rightarrow>
                if unat error_code \<ge> length names
                then Inl (RtsRuntime ''Received invalid runtime error code: '' '''')
                else Inr (names ! unat error_code)))"

text \<open>The parts of a status: class, type and code.\<close>

definition rt_error_magic :: "64 word \<Rightarrow> 64 word" where
  "rt_error_magic rt_error = rt_error AND 0xFF000000"

definition rt_error_type :: "64 word \<Rightarrow> 64 word" where
  "rt_error_type rt_error = rt_error AND 0x00FF0000"

definition rt_error_code :: "64 word \<Rightarrow> 64 word" where
  "rt_error_code rt_error = rt_error AND 0x0000FFFF"

definition parse_error :: "bool \<Rightarrow> 64 word \<Rightarrow> rts_exn + unit" where
  "parse_error cam rt_error =
     (if rt_error = 0 then Inr ()
      else if rt_error_magic rt_error \<noteq> 0x07000000 \<and> \<not> cam
      then Inl (RtsRuntime ''Received invalid runtime error code:'' '''')
      else if map_of RT_ERROR_CODE_DICT (rt_error_type rt_error) = None \<and> \<not> cam
      then Inl (RtsRuntime ''Received invalid runtime error type: '' '''')
      else (case parse_error_code cam (rt_error_type rt_error) (rt_error_code rt_error) of
              Inl e \<Rightarrow> Inl e
            | Inr name \<Rightarrow> Inl (RtsRuntime ''Runtime API call () failed:'' name)))"

definition check :: "64 word \<Rightarrow> ('d, unit) rt" where
  "check e s = (parse_error (camodel s) e, s)"

definition checked :: "('d \<Rightarrow> 64 word \<times> 'd) \<Rightarrow> ('d, unit) rt" where
  "checked f = rbind (call f) check"

definition checked_out :: "('d \<Rightarrow> 64 word \<times> 'a \<times> 'd) \<Rightarrow> ('d, 'a) rt" where
  "checked_out f = rbind (call_out f) (\<lambda>(e, x). rbind (check e) (\<lambda>_. ret x))"

section \<open>Devices, contexts and streams\<close>

definition set_device :: "'d dll \<Rightarrow> int \<Rightarrow> ('d, unit) rt" where
  "set_device dll i =
     rbind (checked (rtSetDevice dll i)) (\<lambda>_. modify (\<lambda>s. s\<lparr>device_id := Some i\<rparr>))"

definition env_names :: "(int \<times> string) list" where
  "env_names = [(0, ''FPGA''), (1, ''EMU''), (2, ''ESL''), (3, ''ASIC'')]"

definition get_device_info :: "'d dll \<Rightarrow> int \<Rightarrow> string \<Rightarrow> string \<Rightarrow> ('d, string + int) rt" where
  "get_device_info dll i module_type info_type =
     rbind (lookup RT_MODULE_TYPE module_type) (\<lambda>m.
     rbind (lookup RT_INFO_TYPE info_type) (\<lambda>t.
     rbind (checked_out (rtGetDeviceInfo dll (word_of_int i) m t)) (\<lambda>result.
       ret (if t = 0 then (case map_of env_names result of Some n \<Rightarrow> Inl n | None \<Rightarrow> Inr result)
            else Inr result))))"

definition create_context :: "'d dll \<Rightarrow> string \<Rightarrow> ('d, ctx) rt" where
  "create_context dll context_mode =
     rbind (lookup RT_CONTEXT_MODE context_mode) (\<lambda>m.
     rbind (gets device_id) (\<lambda>i. case i of
       None \<Rightarrow> raise RtsType
     | Some i \<Rightarrow>
         rbind (checked_out (rtCtxCreate dll m (word_of_int i))) (\<lambda>p.
         rbind (gets (\<lambda>s. (length (context_storage s), p))) (\<lambda>c.
         rbind (modify (\<lambda>s. s\<lparr>cur_context := Some c, context_storage := context_storage s @ [c]\<rparr>))
           (\<lambda>_. ret c)))))"

text \<open>\<^verbatim>\<open>destroy_context\<close> forgets the current context, also when another one is destroyed.\<close>

definition destroy_context :: "'d dll \<Rightarrow> ctx option \<Rightarrow> ('d, unit) rt" where
  "destroy_context dll c_context =
     rbind (gets (\<lambda>s. case c_context of None \<Rightarrow> cur_context s | Some c \<Rightarrow> Some c)) (\<lambda>target.
     rbind (gets context_storage) (\<lambda>storage. case target of
       None \<Rightarrow> raise RtsValue
     | Some c \<Rightarrow>
         if c \<notin> set storage then raise RtsValue
         else rbind (checked (rtCtxDestroy dll (snd c))) (\<lambda>_. modify (\<lambda>s. s\<lparr>cur_context := None\<rparr>))))"

definition set_context :: "'d dll \<Rightarrow> ctx \<Rightarrow> ('d, unit) rt" where
  "set_context dll c =
     rbind (gets context_storage) (\<lambda>storage.
       if c \<notin> set storage then raise RtsValue
       else rbind (checked (rtCtxSetCurrent dll (snd c))) (\<lambda>_. modify (\<lambda>s. s\<lparr>cur_context := Some c\<rparr>)))"

definition create_stream :: "'d dll \<Rightarrow> int \<Rightarrow> ('d, ptr) rt" where
  "create_stream dll priority = checked_out (rtStreamCreate dll priority)"

definition destroy_stream :: "'d dll \<Rightarrow> ptr \<Rightarrow> ('d, unit) rt" where
  "destroy_stream dll stream = checked (rtStreamDestroy dll stream)"

section \<open>Kernels\<close>

text \<open>The kernel file is read by \<^verbatim>\<open>file_util.read_file\<close>, the parameter \<open>read_file\<close>.\<close>

definition register_device_binary_kernel ::
    "'d dll \<Rightarrow> (string \<Rightarrow> byte list option) \<Rightarrow> string \<Rightarrow> string option \<Rightarrow> ('d, ptr) rt" where
  "register_device_binary_kernel dll read_file kernel_path magic =
     (let magic = (case magic of None \<Rightarrow> ''RT_DEV_BINARY_MAGIC_ELF''
                   | Some m \<Rightarrow> if m = '''' then ''RT_DEV_BINARY_MAGIC_ELF'' else m) in
      case read_file kernel_path of
        None \<Rightarrow> raise RtsOS
      | Some binary \<Rightarrow>
          rbind (lookup MAGIC_MAP magic) (\<lambda>m.
          rbind (checked_out (rtDevBinaryRegister dll m binary)) (\<lambda>h.
          rbind (modify (\<lambda>s. s\<lparr>kernel_binary_storage := AList.update h binary (kernel_binary_storage s)\<rparr>))
            (\<lambda>_. ret h))))"

definition unregister_device_binary_kernel :: "'d dll \<Rightarrow> ptr \<Rightarrow> ('d, unit) rt" where
  "unregister_device_binary_kernel dll h =
     rbind (checked (rtDevBinaryUnRegister dll h)) (\<lambda>_.
     rbind (gets kernel_binary_storage) (\<lambda>kbs.
       if map_of kbs h = None then raise RtsKey
       else modify (\<lambda>s. s\<lparr>kernel_binary_storage := AList.delete h (kernel_binary_storage s),
                          kernel_name_storage := AList.delete h (kernel_name_storage s)\<rparr>)))"

definition names_of :: "(ptr \<times> string list) list \<Rightarrow> ptr \<Rightarrow> string list" where
  "names_of kns h = (case map_of kns h of None \<Rightarrow> [] | Some ns \<Rightarrow> ns)"

definition register_function :: "'d dll \<Rightarrow> ptr \<Rightarrow> string \<Rightarrow> int \<Rightarrow> ('d, string) rt" where
  "register_function dll h kernel_name func_mode =
     rbind (modify (\<lambda>s. if map_of (kernel_name_storage s) h = None
              then s\<lparr>kernel_name_storage := AList.update h [] (kernel_name_storage s)\<rparr> else s)) (\<lambda>_.
     rbind (checked (rtFunctionRegister dll h kernel_name (word_of_int func_mode))) (\<lambda>_.
     rbind (modify (\<lambda>s. s\<lparr>kernel_name_storage :=
              AList.update h (names_of (kernel_name_storage s) h @ [kernel_name])
                (kernel_name_storage s)\<rparr>)) (\<lambda>_. ret kernel_name)))"

definition launch_kernel ::
    "'d dll \<Rightarrow> string \<Rightarrow> int \<Rightarrow> 64 word list \<Rightarrow> nat \<Rightarrow> ptr \<Rightarrow> ('d, unit) rt" where
  "launch_kernel dll stub_func block_dim args s_args stream =
     (if length args > s_args then raise RtsIndex
      else checked (rtKernelLaunch dll stub_func (word_of_int block_dim)
             (args @ replicate (s_args - length args) 0) (word_of_nat (s_args * 8)) stream))"

definition synchronize_with_stream :: "'d dll \<Rightarrow> ptr \<Rightarrow> ('d, unit) rt" where
  "synchronize_with_stream dll stream = checked (rtStreamSynchronize dll stream)"

section \<open>Memory\<close>

definition malloc :: "'d dll \<Rightarrow> int \<Rightarrow> string \<Rightarrow> string \<Rightarrow> ('d, ptr) rt" where
  "malloc dll memory_size memory_type memory_policy =
     rbind (lookup RT_MEMORY_TYPE memory_type) (\<lambda>t.
     rbind (lookup RT_MEMORY_POLICY memory_policy) (\<lambda>p.
       checked_out (rtMalloc dll (word_of_int memory_size) (t OR p))))"

definition host_malloc :: "'d dll \<Rightarrow> int \<Rightarrow> ('d, ptr) rt" where
  "host_malloc dll memory_size = checked_out (rtMallocHost dll (word_of_int memory_size))"

definition free :: "'d dll \<Rightarrow> ptr \<Rightarrow> ('d, unit) rt" where
  "free dll p = checked (rtFree dll p)"

definition host_free :: "'d dll \<Rightarrow> ptr \<Rightarrow> ('d, unit) rt" where
  "host_free dll p = checked (rtFreeHost dll p)"

text \<open>
  \<^verbatim>\<open>memcpy\<close> calls itself with a higher retry count when the runtime reports an error. Only
  \<^verbatim>\<open>RuntimeError\<close> is caught.
\<close>

function memcpy ::
    "'d dll \<Rightarrow> ptr \<Rightarrow> int \<Rightarrow> mem_src \<Rightarrow> int \<Rightarrow> string \<Rightarrow> nat \<Rightarrow> ('d, unit) rt" where
  "memcpy dll p memory_size src data_size kind retry_count s =
     (case map_of RT_MEMCPY_KIND kind of
        None \<Rightarrow> (Inl RtsKey, s)
      | Some k \<Rightarrow>
          (case checked (rtMemcpy dll p (word_of_int memory_size) src (word_of_int data_size) k) s of
             (Inl (RtsRuntime m n), s') \<Rightarrow>
               if retry_count < 3
               then memcpy dll p memory_size src data_size kind (retry_count + 1) s'
               else (Inl (RtsRuntime ''After three retrys,memcpy still fails'' ''''), s')
           | r \<Rightarrow> r))"
  by pat_completeness auto
termination
  by (relation "measure (\<lambda>(dll, p, m, src, n, k, retry_count, s). 4 - retry_count)") auto

declare memcpy.simps [simp del]

definition memset :: "'d dll \<Rightarrow> ptr \<Rightarrow> int \<Rightarrow> int \<Rightarrow> int \<Rightarrow> ('d, unit) rt" where
  "memset dll p memory_size data count =
     (if 0xFFFFFFFF < data \<and> data < 0 then raise (RtsRuntime ''Invalid memset value'' '''')
      else checked (rtMemset dll p (word_of_int memory_size) (word_of_int data) (word_of_int count)))"

definition get_memory_info_ex :: "'d dll \<Rightarrow> string \<Rightarrow> ('d, 64 word \<times> 64 word) rt" where
  "get_memory_info_ex dll memory_info_type =
     (case map_of MEMORY_INFO_TYPE memory_info_type of
        None \<Rightarrow> raise (RtsRuntime ''Invalid memory info type'' '''')
      | Some t \<Rightarrow> checked_out (rtMemGetInfoEx dll t))"

text \<open>The buffer of \<^verbatim>\<open>copy_bin_to_hbm\<close>: the size rounded up to 32, and 32 more.\<close>

definition hbm_size :: "nat \<Rightarrow> int" where
  "hbm_size n = int ((n + 31) div 32 * 32 + 32)"

definition hbm_alloc :: "'d dll \<Rightarrow> nat \<Rightarrow> ('d, ptr) rt" where
  "hbm_alloc dll n s =
     (case malloc dll (hbm_size n) ''RT_MEMORY_HBM'' ''RT_MEMORY_POLICY_NONE'' s of
        (Inr p, s') \<Rightarrow> (Inr p, s')
      | (Inl e, s') \<Rightarrow>
          (case get_memory_info_ex dll ''RT_MEMORYINFO_HBM'' s' of
             (Inl e', s'') \<Rightarrow> (Inl e', s'')
           | (Inr _, s'') \<Rightarrow> (Inl e, s'')))"

definition copy_bin_to_hbm :: "'d dll \<Rightarrow> byte list \<Rightarrow> ('d, ptr) rt" where
  "copy_bin_to_hbm dll data =
     rbind (hbm_alloc dll (length data)) (\<lambda>p.
     rbind (memcpy dll p (hbm_size (length data)) (Bytes data) (int (length data))
              ''RT_MEMCPY_HOST_TO_DEVICE'' 0) (\<lambda>_. ret p))"

definition copy_bin_file_to_hbm ::
    "'d dll \<Rightarrow> (string \<Rightarrow> byte list option) \<Rightarrow> string \<Rightarrow> ('d, ptr) rt" where
  "copy_bin_file_to_hbm dll read_file bin_path =
     (case read_file bin_path of None \<Rightarrow> raise RtsOS | Some data \<Rightarrow> copy_bin_to_hbm dll data)"

definition get_data_from_hbm :: "'d dll \<Rightarrow> ptr \<Rightarrow> nat \<Rightarrow> ('d, byte list \<times> ptr) rt" where
  "get_data_from_hbm dll p data_size =
     rbind (host_malloc dll (int data_size)) (\<lambda>buf.
     rbind (memcpy dll buf (int data_size) (Pointer p) (int data_size)
              ''RT_MEMCPY_DEVICE_TO_HOST'' 0) (\<lambda>_.
     rbind (gets (\<lambda>s. host_bytes dll buf data_size (device s))) (\<lambda>bytes. ret (bytes, buf))))"

section \<open>Profiling, reset and the environment\<close>

definition start_online_profiling :: "'d dll \<Rightarrow> ptr \<Rightarrow> int \<Rightarrow> ('d, unit) rt" where
  "start_online_profiling dll stream n = checked (rtStartOnlineProf dll stream (word_of_int n))"

definition stop_online_profiling :: "'d dll \<Rightarrow> ptr \<Rightarrow> ('d, unit) rt" where
  "stop_online_profiling dll stream = checked (rtStopOnlineProf dll stream)"

definition get_online_profiling_data :: "'d dll \<Rightarrow> ptr \<Rightarrow> int \<Rightarrow> ('d, 64 word list) rt" where
  "get_online_profiling_data dll stream n =
     checked_out (rtGetOnlineProfData dll stream (word_of_int n))"

definition without_last_two :: "string \<Rightarrow> string" where
  "without_last_two path =
     (let ps = s_split '':'' path
      in s_join '':'' (if length ps > 2 then take (length ps - 2) ps else ps))"

definition clear_env :: "('d, unit) rt" where
  "clear_env = modify (\<lambda>s. case simulator s of
      Some m \<Rightarrow> if m \<noteq> '''' then s\<lparr>ld_library_path := without_last_two (ld_library_path s)\<rparr> else s
    | None \<Rightarrow> s)"

definition reset :: "'d dll \<Rightarrow> int option \<Rightarrow> ('d, unit) rt" where
  "reset dll i =
     rbind (gets (\<lambda>s. case i of None \<Rightarrow> device_id s | Some j \<Rightarrow> Some j)) (\<lambda>i. case i of
       None \<Rightarrow> raise RtsType
     | Some j \<Rightarrow> rbind (checked (rtDeviceReset dll (word_of_int j))) (\<lambda>_. clear_env))"

section \<open>Finding the libraries\<close>

definition MODEL_SO_LIST :: "(string \<times> string list) list" where
  "MODEL_SO_LIST =
     [(''pv'', [''lib_pvmodel.so'', ''libtsch.so'', ''libnpu_drv_pvmodel.so'', ''libruntime_cmodel.so'']),
      (''ca'', [''libcamodel.so'', ''libtsch_camodel.so'', ''libnpu_drv_camodel.so'',
              ''libruntime_camodel.so'']),
      (''tm'', [''libpem_davinci.so'', ''libtsch.so'', ''libnpu_drv_pvmodel.so'', ''libruntime_cmodel.so'']),
      (''esl'', [''libnpu_drv_camodel.so'', ''libruntime_camodel.so''])]"

definition find_runtime_so :: "fs \<Rightarrow> string \<Rightarrow> rts_exn + string" where
  "find_runtime_so f ld_lib_paths =
     (if ld_lib_paths = '''' then Inl (RtsRuntime ''LD_LIBRARY_PATH is empty'' '''')
      else (case List.find (\<lambda>p. fs_exists f (path_join p ''libruntime.so'')) (s_split '':'' ld_lib_paths) of
              None \<Rightarrow> Inl (RtsRuntime ''Not found libruntime.so'' '''')
            | Some p \<Rightarrow> Inr (path_join p ''libruntime.so'')))"

definition init_simulator_so_path ::
    "fs \<Rightarrow> string \<Rightarrow> string \<Rightarrow> string \<Rightarrow> rts_exn + string list \<times> string" where
  "init_simulator_so_path f simulator_mode soc_version simulator_lib_path =
     (let root = fs_realpath f simulator_lib_path;
          lib_dir = path_join (path_join root soc_version) ''lib'';
          data_dir = path_join root ''common/data'' in
      if \<not> fs_exists f lib_dir then Inl (RtsRuntime ''Simulator lib path is not exist'' '''')
      else (case map_of MODEL_SO_LIST simulator_mode of
              None \<Rightarrow> Inl RtsKey
            | Some names \<Rightarrow>
                if \<not> list_all (\<lambda>n. fs_exists f (path_join lib_dir n)) names
                then Inl (RtsRuntime ''Simulator so is not exist'' '''')
                else if \<not> fs_exists f data_dir
                then Inl (RtsRuntime ''Simulator common data path is not exist'' '''')
                else Inr (map (path_join lib_dir) names, lib_dir @ '':'' @ data_dir)))"

text \<open>\<^verbatim>\<open>_load_simulator_so\<close> up to the loading: the libraries and the new search path.\<close>

definition load_simulator_so ::
    "fs \<Rightarrow> string \<Rightarrow> string \<Rightarrow> string \<Rightarrow> string \<Rightarrow> string \<Rightarrow> rts_exn + string list \<times> string" where
  "load_simulator_so f simulator_mode soc_version simulator_lib_path dump_path ld_path =
     (if map_of MODEL_SO_LIST simulator_mode = None then Inl RtsValue
      else if \<not> fs_exists f (fs_realpath f dump_path)
      then Inl (RtsRuntime ''simulator_dump_path is not exist'' '''')
      else (case init_simulator_so_path f simulator_mode soc_version simulator_lib_path of
              Inl e \<Rightarrow> Inl e
            | Inr (sos, addition) \<Rightarrow> Inr (sos, ld_path @ '':'' @ addition)))"

section \<open>Error codes are decoded\<close>

definition known_code :: "64 word \<Rightarrow> string option" where
  "known_code e =
     (case map_of RT_ERROR_CODE_DICT (rt_error_type e) of
        Some names \<Rightarrow> if unat (rt_error_code e) < length names
                      then Some (names ! unat (rt_error_code e)) else None
      | None \<Rightarrow> None)"

text \<open>
  On a real device, \<^verbatim>\<open>parse_error\<close> returns exactly for the status 0, and every other
  status becomes a \<^verbatim>\<open>RuntimeError\<close>; a status of the runtime's own class whose code is
  listed is reported under its name.
\<close>

theorem parse_error_device:
  "(parse_error False e = Inr () \<longleftrightarrow> e = 0)
   \<and> (e \<noteq> 0 \<longrightarrow> (\<exists>m n. parse_error False e = Inl (RtsRuntime m n)))
   \<and> (rt_error_magic e = 0x07000000 \<longrightarrow> known_code e = Some n \<longrightarrow> e \<noteq> 0 \<longrightarrow>
        parse_error False e = Inl (RtsRuntime ''Runtime API call () failed:'' n))"
  by (cases "map_of RT_ERROR_CODE_DICT (rt_error_type e)")
     (simp_all add: parse_error_def parse_error_code_def known_code_def linorder_not_le)

theorem parse_error_device_witness:
  "parse_error False 0x07000001
     = Inl (RtsRuntime ''Runtime API call () failed:'' ''RT_ERROR_UNKNOWN_UNKNOWN1'')"
proof -
  have parts: "rt_error_magic 0x07000001 = 0x07000000" "rt_error_type 0x07000001 = 0"
    "rt_error_code 0x07000001 = 1"
    by (simp_all add: rt_error_magic_def rt_error_type_def rt_error_code_def)
  then have "known_code 0x07000001 = Some ''RT_ERROR_UNKNOWN_UNKNOWN1''"
    by (simp add: known_code_def RT_ERROR_CODE_DICT_def codes_core_def)
  with parts parse_error_device [of "0x07000001" "''RT_ERROR_UNKNOWN_UNKNOWN1''"]
  show ?thesis by simp
qed

lemma parse_error_0 [simp]: "parse_error cam 0 = Inr ()"
  by (simp add: parse_error_def)

lemma parse_error_zero: "parse_error cam e = Inr () \<longleftrightarrow> e = 0"
proof (cases "e = 0")
  case False
  then show ?thesis by (simp add: parse_error_def split: sum.split)
qed simp

text \<open>
  In the simulator the class of a status is not checked, and a status of an unknown type
  raises \<^verbatim>\<open>KeyError\<close>, which the retry of \<^verbatim>\<open>memcpy\<close> does not catch.
\<close>

lemma camodel_unknown_type: "parse_error True 0x07200001 = Inl RtsKey"
proof -
  have parts: "rt_error_type 0x07200001 = 0x200000" "rt_error_code 0x07200001 = 1"
    by (simp_all add: rt_error_type_def rt_error_code_def)
  have "(0x200000 :: 64 word) \<notin> set (map fst RT_ERROR_TYPE_DICT)"
    by (simp add: RT_ERROR_TYPE_DICT_def)
  then have "map_of RT_ERROR_CODE_DICT 0x200000 = None"
    unfolding error_types_match(1) map_of_eq_None_iff by simp
  with parts show ?thesis by (simp add: parse_error_def parse_error_code_def)
qed

section \<open>The monad\<close>

lemma rbind_Inr: "rbind m f s = (Inr y, t) \<longleftrightarrow> (\<exists>x s'. m s = (Inr x, s') \<and> f x s' = (Inr y, t))"
  by (auto simp: rbind_def split: prod.splits sum.splits)

lemma gets_Inr [simp]: "gets f s = (Inr x, t) \<longleftrightarrow> x = f s \<and> t = s"
  by (auto simp: gets_def)

lemma modify_Inr [simp]: "modify f s = (Inr x, t) \<longleftrightarrow> t = f s"
  by (auto simp: modify_def)

lemma ret_Inr [simp]: "ret a s = (Inr x, t) \<longleftrightarrow> x = a \<and> t = s"
  by (auto simp: ret_def)

lemma raise_Inr [simp]: "raise e s \<noteq> (Inr x, t)"
  by (simp add: raise_def)

lemma checked_eq:
  "checked f s = (case f (device s) of (e, d) \<Rightarrow> (parse_error (camodel s) e, s\<lparr>device := d\<rparr>))"
  by (simp add: checked_def rbind_def call_def check_def split: prod.splits)

lemma checked_out_eq:
  "checked_out f s = (case f (device s) of (e, x, d) \<Rightarrow>
     (case parse_error (camodel s) e of Inl err \<Rightarrow> Inl err | Inr _ \<Rightarrow> Inr x, s\<lparr>device := d\<rparr>))"
  by (simp add: checked_out_def rbind_def call_out_def check_def ret_def split: prod.splits sum.splits)

text \<open>A checked call succeeds exactly with status 0, and changes nothing but the device.\<close>

lemma checked_ok: "checked f s = (Inr u, t) \<longleftrightarrow> (\<exists>d. f (device s) = (0, d) \<and> t = s\<lparr>device := d\<rparr>)"
proof -
  obtain e d where "f (device s) = (e, d)" by fastforce
  then show ?thesis by (auto simp: checked_eq parse_error_zero)
qed

lemma checked_out_ok:
  "checked_out f s = (Inr x, t) \<longleftrightarrow> (\<exists>d. f (device s) = (0, x, d) \<and> t = s\<lparr>device := d\<rparr>)"
proof -
  obtain e y d where "f (device s) = (e, y, d)" by (metis prod_cases3)
  then show ?thesis by (auto simp: checked_out_eq parse_error_zero split: sum.splits)
qed

section \<open>Copying retries\<close>

text \<open>The status and the device after \<open>n\<close> earlier attempts.\<close>

primrec attempt :: "('d \<Rightarrow> 64 word \<times> 'd) \<Rightarrow> nat \<Rightarrow> 'd \<Rightarrow> 64 word \<times> 'd" where
  "attempt f 0 d = f d"
| "attempt f (Suc n) d = attempt f n (snd (f d))"

lemma attempt_numerals:
  "attempt f 1 d = attempt f 0 (snd (f d))" "attempt f 2 d = attempt f 1 (snd (f d))"
  "attempt f 3 d = attempt f 2 (snd (f d))"
  by (simp_all add: numeral_2_eq_2 numeral_3_eq_3)

lemma memcpy_step:
  assumes "map_of RT_MEMCPY_KIND kind = Some k" and "\<not> camodel s"
    and "f = rtMemcpy dll p (word_of_int m) src (word_of_int n) k"
  shows "memcpy dll p m src n kind r s =
    (case f (device s) of (e, d) \<Rightarrow>
       if e = 0 then (Inr (), s\<lparr>device := d\<rparr>)
       else if r < 3 then memcpy dll p m src n kind (r + 1) (s\<lparr>device := d\<rparr>)
       else (Inl (RtsRuntime ''After three retrys,memcpy still fails'' ''''), s\<lparr>device := d\<rparr>))"
proof -
  obtain e d where fd: "f (device s) = (e, d)" by fastforce
  have "e \<noteq> 0 \<Longrightarrow> \<exists>a b. parse_error False e = Inl (RtsRuntime a b)"
    by (auto simp: parse_error_def parse_error_code_def split: option.splits)
  moreover have "parse_error False 0 = Inr ()" by (simp add: parse_error_def)
  ultimately show ?thesis
    using assms fd by (subst memcpy.simps) (auto simp: checked_eq)
qed

lemma memcpy_four:
  assumes "map_of RT_MEMCPY_KIND kind = Some k" and "\<not> camodel s"
    and "f = rtMemcpy dll p (word_of_int m) src (word_of_int n) k"
  shows "memcpy dll p m src n kind 0 s =
    (case find (\<lambda>i. fst (attempt f i (device s)) = 0) [0..<4] of
       Some i \<Rightarrow> (Inr (), s\<lparr>device := snd (attempt f i (device s))\<rparr>)
     | None \<Rightarrow> (Inl (RtsRuntime ''After three retrys,memcpy still fails'' ''''),
         s\<lparr>device := snd (attempt f 3 (device s))\<rparr>))"
proof -
  obtain e0 d0 where f0: "f (device s) = (e0, d0)" by fastforce
  obtain e1 d1 where f1: "f d0 = (e1, d1)" by fastforce
  obtain e2 d2 where f2: "f d1 = (e2, d2)" by fastforce
  obtain e3 d3 where f3: "f d2 = (e3, d3)" by fastforce
  have step: "memcpy dll p m src n kind r (s\<lparr>device := d\<rparr>) =
    (case f d of (e, d) \<Rightarrow>
       if e = 0 then (Inr (), s\<lparr>device := d\<rparr>)
       else if r < 3 then memcpy dll p m src n kind (r + 1) (s\<lparr>device := d\<rparr>)
       else (Inl (RtsRuntime ''After three retrys,memcpy still fails'' ''''), s\<lparr>device := d\<rparr>))" for r d
    using memcpy_step [OF assms(1) _ assms(3), of "s\<lparr>device := d\<rparr>" r] assms(2) by (cases "f d") simp
  have four: "[0..<4] = [0, 1, 2, 3 :: nat]" by (simp add: upt_rec)
  have at: "attempt f 0 (device s) = (e0, d0)" "attempt f 1 (device s) = (e1, d1)"
    "attempt f 2 (device s) = (e2, d2)" "attempt f 3 (device s) = (e3, d3)"
    by (simp_all only: attempt_numerals attempt.simps f0 f1 f2 f3 snd_conv)
  show ?thesis
    using step [of 0 "device s"] step [of 1 d0] step [of 2 d1] step [of 3 d2]
    by (simp add: four at f0 f1 f2 f3 del: One_nat_def)
qed

text \<open>
  C40. On a real device and for a known kind of copy, \<^verbatim>\<open>memcpy\<close> copies again until the first attempt that reports
  status 0, at most four times: it returns with the device as this attempt left it, no copy comes
  after it; when the four attempts all fail it stops with its error, with the device after exactly
  four attempts. Nothing else of the state changes.
\<close>

theorem memcpy_retries:
  assumes "map_of RT_MEMCPY_KIND kind = Some k" and "\<not> camodel s"
    and "f = rtMemcpy dll p (word_of_int m) src (word_of_int n) k"
  shows "memcpy dll p m src n kind 0 s =
    (case find (\<lambda>i. fst (attempt f i (device s)) = 0) [0..<4] of
       Some i \<Rightarrow> (Inr (), s\<lparr>device := snd (attempt f i (device s))\<rparr>)
     | None \<Rightarrow> (Inl (RtsRuntime ''After three retrys,memcpy still fails'' ''''),
         s\<lparr>device := snd (attempt f 3 (device s))\<rparr>))"
  by (rule memcpy_four [OF assms])

section \<open>Sizes and values\<close>

text \<open>
  The buffer for \<open>n\<close> bytes holds them, is a multiple of 32, has at least 32 spare bytes,
  and its size survives the conversion to 64 bits for every length that fits.
\<close>

theorem hbm_size_bounds:
  "int n + 32 \<le> hbm_size n \<and> hbm_size n \<le> int n + 63 \<and> 32 dvd hbm_size n
   \<and> (int n + 63 < 2 ^ 64 \<longrightarrow> uint (word_of_int (hbm_size n) :: 64 word) = hbm_size n)"
proof -
  have "n \<le> (n + 31) div 32 * 32" "(n + 31) div 32 * 32 \<le> n + 31" by linarith+
  then have b: "int n + 32 \<le> hbm_size n" "hbm_size n \<le> int n + 63"
    unfolding hbm_size_def by linarith+
  moreover have "32 dvd hbm_size n" unfolding hbm_size_def by presburger
  moreover have "uint (word_of_int (hbm_size n) :: 64 word) = hbm_size n" if "int n + 63 < 2 ^ 64"
    using b that by (simp add: uint_word_of_int)
  ultimately show ?thesis by blast
qed

theorem hbm_size_bounds_witness:
  "hbm_size 5 = 64 \<and> 32 dvd hbm_size 5 \<and> uint (word_of_int (hbm_size 5) :: 64 word) = 64"
proof -
  have "hbm_size 5 = 64" by (simp add: hbm_size_def)
  with hbm_size_bounds [of 5] show ?thesis by simp
qed

text \<open>
  The range check of \<^verbatim>\<open>memset\<close> never fires: a value outside 32 bits is truncated.
\<close>

theorem memset_truncates:
  "memset dll p m data n = memset dll p m (data mod 2 ^ 32) n"
proof -
  have "(word_of_int data :: 32 word) = word_of_int (data mod 2 ^ 32)"
    by transfer (simp add: take_bit_eq_mod)
  moreover have "\<not> (0xFFFFFFFF < data \<and> data < 0)"
    "\<not> (0xFFFFFFFF < data mod 2 ^ 32 \<and> data mod 2 ^ 32 < 0)" by linarith+
  ultimately show ?thesis unfolding memset_def by presburger
qed

section \<open>A simulated library\<close>

text \<open>
  A library for the examples: it hands out increasing pointers, keeps the list of live
  device buffers, and its copies fail as often as \<open>sim_fails\<close> says.
\<close>

record sim =
  sim_next :: nat
  sim_live :: "ptr list"
  sim_fails :: nat

definition sim_ok :: "sim \<Rightarrow> 64 word \<times> sim" where
  "sim_ok d = (0, d)"

definition sim_new :: "sim \<Rightarrow> 64 word \<times> ptr \<times> sim" where
  "sim_new d = (0, of_nat (sim_next d), d\<lparr>sim_next := sim_next d + 1\<rparr>)"

definition sim_alloc :: "sim \<Rightarrow> 64 word \<times> ptr \<times> sim" where
  "sim_alloc d =
     (if (of_nat (sim_next d) :: ptr) = 0 then (0x07020010, 0, d)
      else (0, of_nat (sim_next d),
            d\<lparr>sim_next := sim_next d + 1, sim_live := of_nat (sim_next d) # sim_live d\<rparr>))"

definition sim_copy :: "sim \<Rightarrow> 64 word \<times> sim" where
  "sim_copy d = (if sim_fails d = 0 then (0, d) else (0x07020010, d\<lparr>sim_fails := sim_fails d - 1\<rparr>))"

definition sim_dll :: "sim dll" where
  "sim_dll = \<lparr>rtSetDevice = \<lambda>_. sim_ok, rtGetDeviceInfo = \<lambda>_ _ _ d. (0, 3, d),
     rtCtxCreate = \<lambda>_ _. sim_new, rtCtxDestroy = \<lambda>_. sim_ok, rtCtxSetCurrent = \<lambda>_. sim_ok,
     rtStreamCreate = \<lambda>_. sim_new, rtStreamDestroy = \<lambda>_. sim_ok,
     rtDevBinaryRegister = \<lambda>_ _. sim_new, rtDevBinaryUnRegister = \<lambda>_. sim_ok,
     rtFunctionRegister = \<lambda>_ _ _. sim_ok, rtMemcpy = \<lambda>_ _ _ _ _. sim_copy,
     rtMemset = \<lambda>_ _ _ _. sim_ok, rtMalloc = \<lambda>_ _. sim_alloc, rtMallocHost = \<lambda>_. sim_new,
     rtFree = \<lambda>p d. (0, d\<lparr>sim_live := remove1 p (sim_live d)\<rparr>), rtFreeHost = \<lambda>_. sim_ok,
     rtKernelLaunch = \<lambda>_ _ _ _ _. sim_ok, rtStreamSynchronize = \<lambda>_. sim_ok,
     rtDeviceReset = \<lambda>_. sim_ok, rtStartOnlineProf = \<lambda>_ _. sim_ok,
     rtStopOnlineProf = \<lambda>_. sim_ok, rtGetOnlineProfData = \<lambda>_ n d. (0, replicate (unat n) 7, d),
     rtMemGetInfoEx = \<lambda>_ d. (0, (0, 0), d), host_bytes = \<lambda>_ n d. replicate n 0\<rparr>"

definition sim_start :: "nat \<Rightarrow> sim rts" where
  "sim_start fails =
     \<lparr>device = \<lparr>sim_next = 1, sim_live = [], sim_fails = fails\<rparr>, device_id = Some 0,
      cur_context = None, camodel = False, simulator = None, ld_library_path = '''',
      kernel_binary_storage = [], kernel_name_storage = [], context_storage = []\<rparr>"

theorem memcpy_retries_witness:
  "memcpy sim_dll 1 32 (Bytes []) 0 ''RT_MEMCPY_HOST_TO_DEVICE'' 0 (sim_start 2) = (Inr (), sim_start 0)
   \<and> memcpy sim_dll 1 32 (Bytes []) 0 ''RT_MEMCPY_HOST_TO_DEVICE'' 0 (sim_start 5) =
     (Inl (RtsRuntime ''After three retrys,memcpy still fails'' ''''), sim_start 1)"
proof -
  have kind: "map_of RT_MEMCPY_KIND ''RT_MEMCPY_HOST_TO_DEVICE'' = Some 1"
    by (simp add: RT_MEMCPY_KIND_def)
  have cam: "\<not> camodel (sim_start n)" for n by (simp add: sim_start_def)
  have four: "[0..<4] = [0, 1, 2, 3 :: nat]" by (simp add: upt_rec)
  have f: "sim_copy = rtMemcpy sim_dll 1 (word_of_int 32) (Bytes []) (word_of_int 0) 1"
    by (simp add: sim_dll_def)
  show ?thesis
    unfolding memcpy_retries [OF kind cam f] four
    by (simp add: attempt_numerals sim_copy_def sim_start_def del: One_nat_def)
qed

section \<open>Registering kernels\<close>

lemma delete_update_fresh: "k \<notin> fst ` set al \<Longrightarrow> AList.delete k (AList.update k x al) = al"
  by (induction al) (auto simp: delete_id)

text \<open>
  Unregistering a kernel that was registered under a new handle leaves the two storages as
  they were: no binary and no function name stays behind.
\<close>

theorem register_unregister:
  assumes "register_device_binary_kernel dll rd path magic s = (Inr h, s1)"
    and "register_function dll h name mode s1 = (Inr f, s2)"
    and "unregister_device_binary_kernel dll h s2 = (Inr (), s3)"
    and "h \<notin> fst ` set (kernel_binary_storage s)" and "h \<notin> fst ` set (kernel_name_storage s)"
  shows "kernel_binary_storage s3 = kernel_binary_storage s
    \<and> kernel_name_storage s3 = kernel_name_storage s"
proof -
  obtain b d1 where s1: "s1 = s\<lparr>device := d1, kernel_binary_storage := AList.update h b (kernel_binary_storage s)\<rparr>"
    using assms(1) by (auto simp: register_device_binary_kernel_def Let_def rbind_Inr
        checked_out_ok lookup_def split: option.splits)
  have "map_of (kernel_name_storage s) h = None" using assms(5) by (simp add: map_of_eq_None_iff)
  then obtain ns d2 where s2: "s2 = s1\<lparr>device := d2,
      kernel_name_storage := AList.update h ns (AList.update h [] (kernel_name_storage s))\<rparr>"
    using assms(2) by (auto simp: register_function_def rbind_Inr checked_ok s1)
  obtain d3 where s3: "s3 = s2\<lparr>device := d3,
      kernel_binary_storage := AList.delete h (kernel_binary_storage s2),
      kernel_name_storage := AList.delete h (kernel_name_storage s2)\<rparr>"
    using assms(3) by (auto simp: unregister_device_binary_kernel_def rbind_Inr checked_ok
        split: if_splits)
  from assms(4,5) show ?thesis
    by (simp add: s1 s2 s3 delete_update_fresh)
qed

lemma sim_register:
  "register_device_binary_kernel sim_dll (\<lambda>_. Some [1]) ''k.o'' None (sim_start 0) =
     (Inr 1, (sim_start 0)\<lparr>device := \<lparr>sim_next = 2, sim_live = [], sim_fails = 0\<rparr>,
        kernel_binary_storage := [(1, [1])]\<rparr>)"
  by (simp add: register_device_binary_kernel_def rbind_def lookup_def MAGIC_MAP_def ret_def
      modify_def checked_out_eq sim_dll_def sim_new_def sim_start_def)

lemma sim_function:
  "register_function sim_dll 1 ''k'' 0 ((sim_start 0)\<lparr>device := \<lparr>sim_next = 2, sim_live = [], sim_fails = 0\<rparr>,
        kernel_binary_storage := [(1, [1])]\<rparr>) =
     (Inr ''k'', (sim_start 0)\<lparr>device := \<lparr>sim_next = 2, sim_live = [], sim_fails = 0\<rparr>,
        kernel_binary_storage := [(1, [1])], kernel_name_storage := [(1, [''k''])]\<rparr>)"
  by (simp add: register_function_def rbind_def ret_def modify_def checked_eq sim_dll_def sim_ok_def
      sim_start_def names_of_def)

lemma sim_unregister:
  "unregister_device_binary_kernel sim_dll 1
     ((sim_start 0)\<lparr>device := \<lparr>sim_next = 2, sim_live = [], sim_fails = 0\<rparr>,
        kernel_binary_storage := [(1, [1])], kernel_name_storage := [(1, [''k''])]\<rparr>) =
     (Inr (), (sim_start 0)\<lparr>device := \<lparr>sim_next = 2, sim_live = [], sim_fails = 0\<rparr>\<rparr>)"
  by (simp add: unregister_device_binary_kernel_def rbind_def gets_def modify_def checked_eq
      sim_dll_def sim_ok_def sim_start_def)

theorem register_unregister_witness:
  "kernel_binary_storage ((sim_start 0)\<lparr>device := \<lparr>sim_next = 2, sim_live = [], sim_fails = 0\<rparr>\<rparr>)
     = kernel_binary_storage (sim_start 0)"
  using register_unregister [OF sim_register sim_function sim_unregister]
  by (simp add: sim_start_def)

section \<open>Contexts\<close>

text \<open>
  Destroying a context does not take it out of the storage: binding the destroyed context
  again passes the interface's own check and calls the runtime with it.
\<close>

theorem destroyed_context_still_known:
  assumes "destroy_context dll (Some c) s = (Inr (), t)"
  shows "c \<in> set (context_storage t) \<and> cur_context t = None
    \<and> set_context dll c t = rbind (checked (rtCtxSetCurrent dll (snd c)))
        (\<lambda>_. modify (\<lambda>s. s\<lparr>cur_context := Some c\<rparr>)) t"
proof -
  obtain d where "c \<in> set (context_storage s)" and t: "t = s\<lparr>device := d, cur_context := None\<rparr>"
    using assms by (auto simp: destroy_context_def rbind_Inr checked_ok split: if_splits)
  then show ?thesis by (simp add: set_context_def rbind_def gets_def)
qed

lemma sim_destroy:
  "destroy_context sim_dll (Some (0, 5)) ((sim_start 0)\<lparr>context_storage := [(0, 5)]\<rparr>)
     = (Inr (), (sim_start 0)\<lparr>context_storage := [(0, 5)]\<rparr>)"
  by (simp add: destroy_context_def rbind_def gets_def checked_eq modify_def sim_dll_def
      sim_ok_def sim_start_def)

theorem destroyed_context_still_known_witness:
  "(0, 5) \<in> set (context_storage ((sim_start 0)\<lparr>context_storage := [(0, 5)]\<rparr>))"
  using destroyed_context_still_known [OF sim_destroy] by blast

end
