(* ===== verification/Kernel_Runner.thy ===== *)
theory Kernel_Runner
  imports Ascend_Op Rts_Api "HOL-Library.Multiset"
begin

text \<open>
  Running a compiled kernel: the classes \<^verbatim>\<open>AscendOpKernelParam\<close> and
  \<^verbatim>\<open>AscendOpKernelRunner\<close> of \<^verbatim>\<open>src/main/ascend_tbe_op.py\<close>. Parameters and kernels are
  Python objects with identity: the state keeps them in two stores and refers to them by
  their position. The device is reached through the interface of \<open>Rts_Api\<close>. Numpy and
  \<^verbatim>\<open>shape_utils\<close> are the parameter \<open>'n numpy\<close>.
\<close>

section \<open>Numpy, parameters and the runner\<close>

record 'n numpy =
  nd_shape :: "'n \<Rightarrow> pyval"
  nd_type :: "'n \<Rightarrow> string"
  nd_bytes :: "'n \<Rightarrow> byte list"
  nd_len :: "'n \<Rightarrow> int"
  nd_take :: "int \<Rightarrow> 'n \<Rightarrow> 'n"
  nd_reshape :: "pyval \<Rightarrow> 'n \<Rightarrow> 'n res"
  np_fromfile :: "string \<Rightarrow> pyval \<Rightarrow> 'n res"
  np_frombuffer :: "byte list \<Rightarrow> pyval \<Rightarrow> 'n res"
  calc_shape_size :: "pyval \<Rightarrow> int res"

text \<open>
  A parameter. \<open>on_device\<close> says that \<^verbatim>\<open>_ascend_device\<close> is set; it is the runner's own device,
  since parameters of another runner are not modelled.
\<close>

record 'n kernel_param =
  np_data :: "'n option"
  is_const :: bool
  kp_shape :: pyval
  kp_dtype :: pyval
  kp_size :: int
  kp_shape_size :: int
  hbm_pointer :: "ptr option"
  on_device :: bool

record ('d, 'n) runner =
  api :: "'d rts"
  objects :: "'n kernel_param list"
  kernels :: "op_kernel list"
  kernel_params :: "nat list"
  run_stream :: ptr
  profiling :: bool
  profiling_times :: int

type_synonym ('d, 'n, 'a) op = "(('d, 'n) runner, 'a) sm"

text \<open>Calls of the device interface, and of functions without a state.\<close>

definition on_api :: "('d, 'a) rt \<Rightarrow> ('d, 'n, 'a) op" where
  "on_api m s = (case m (api s) of (r, t) \<Rightarrow> (r, s\<lparr>api := t\<rparr>))"

fun rts_of_exn :: "exn \<Rightarrow> rts_exn" where
  "rts_of_exn (OpTestGenException _) = RtsRuntime '''' ''''"
| "rts_of_exn (OpTestGenMessage m) = RtsRuntime m ''''"
| "rts_of_exn AttributeError = RtsAttribute"
| "rts_of_exn KeyError = RtsKey"
| "rts_of_exn TypeError = RtsType"
| "rts_of_exn IndexError = RtsIndex"
| "rts_of_exn ValueError = RtsValue"
| "rts_of_exn RuntimeError = RtsRuntime '''' ''''"
| "rts_of_exn OSError = RtsOS"

definition lift_res :: "'a res \<Rightarrow> ('s, 'a) sm" where
  "lift_res r = (case r of Inl e \<Rightarrow> raise (rts_of_exn e) | Inr x \<Rightarrow> ret x)"

text \<open>\<^verbatim>\<open>ctypes\<close> integers accept an \<^verbatim>\<open>int\<close> (and a \<^verbatim>\<open>bool\<close>) only.\<close>

fun c_int :: "pyval \<Rightarrow> int res" where
  "c_int (PyInt i) = Inr i"
| "c_int (PyBool b) = Inr (if b then 1 else 0)"
| "c_int _ = Inl TypeError"

fun each :: "('a \<Rightarrow> ('s, 'b) sm) \<Rightarrow> 'a list \<Rightarrow> ('s, 'b list) sm" where
  "each f [] = ret []"
| "each f (x # xs) = rbind (f x) (\<lambda>y. rbind (each f xs) (\<lambda>ys. ret (y # ys)))"

definition for_each :: "('a \<Rightarrow> ('s, unit) sm) \<Rightarrow> 'a list \<Rightarrow> ('s, unit) sm" where
  "for_each f xs = rbind (each f xs) (\<lambda>_. ret ())"

section \<open>Parameters\<close>

definition update_object :: "nat \<Rightarrow> ('n kernel_param \<Rightarrow> 'n kernel_param) \<Rightarrow> ('d, 'n, unit) op" where
  "update_object i f = modify (\<lambda>s. s\<lparr>objects := (objects s)[i := f (objects s ! i)]\<rparr>)"

definition init_param ::
    "'n numpy \<Rightarrow> 'n option \<Rightarrow> pyval \<Rightarrow> pyval \<Rightarrow> bool \<Rightarrow> ptr option \<Rightarrow> ('d, 'n, nat) op" where
  "init_param np data shape dtype dev hbm =
     (let shape = (case data of Some a \<Rightarrow> nd_shape np a | None \<Rightarrow> shape);
          dtype = (case data of Some a \<Rightarrow> np_dtype_to_str (nd_type np a) | None \<Rightarrow> dtype) in
      rbind (lift_res (calc_shape_size np shape)) (\<lambda>n.
      if n < 0 then raise (RtsRuntime ''Shape size < 0.'' '''')
      else rbind (lift_res (calc_op_param_size n dtype)) (\<lambda>size.
           rbind (gets (\<lambda>s. length (objects s))) (\<lambda>i.
           rbind (modify (\<lambda>s. s\<lparr>objects := objects s @
                    [\<lparr>np_data = data, is_const = (data \<noteq> None), kp_shape = shape, kp_dtype = dtype,
                      kp_size = size, kp_shape_size = n, hbm_pointer = hbm, on_device = dev\<rparr>]\<rparr>))
             (\<lambda>_. ret i)))))"

definition build_op_param_by_np_data :: "'n numpy \<Rightarrow> 'n \<Rightarrow> ('d, 'n, nat) op" where
  "build_op_param_by_np_data np a = init_param np (Some a) PyNone PyNone False None"

definition build_op_param_by_data_file ::
    "'n numpy \<Rightarrow> fs \<Rightarrow> string \<Rightarrow> pyval \<Rightarrow> pyval \<Rightarrow> ('d, 'n, nat) op" where
  "build_op_param_by_data_file np f path dtype shape =
     (if \<not> fs_exists f path then raise RtsOS
      else if \<not> truthy (str_to_np_dtype dtype) then raise (RtsRuntime ''dtype must in'' '''')
      else rbind (lift_res (np_fromfile np path (str_to_np_dtype dtype))) (\<lambda>a.
           rbind (lift_res (calc_shape_size np shape)) (\<lambda>n.
           if n < 0 then raise (RtsRuntime ''Shape size < 0'' '''')
           else if nd_len np a < n then raise (RtsRuntime ''Data size in data_file < shape size'' '''')
           else rbind (lift_res (nd_reshape np shape (nd_take np n a))) (\<lambda>b.
                init_param np (Some b) PyNone PyNone False None))))"

text \<open>A \<^verbatim>\<open>c_void_p\<close> is true when it is not the null pointer.\<close>

definition has_buffer :: "'n kernel_param \<Rightarrow> bool" where
  "has_buffer p = (on_device p \<and> hbm_pointer p \<noteq> None \<and> hbm_pointer p \<noteq> Some 0)"

definition sync_from_device :: "'d dll \<Rightarrow> 'n numpy \<Rightarrow> nat \<Rightarrow> ('d, 'n, unit) op" where
  "sync_from_device dll np i =
     rbind (gets (\<lambda>s. objects s ! i)) (\<lambda>p.
       if \<not> has_buffer p then ret ()
       else rbind (on_api (get_data_from_hbm dll (the (hbm_pointer p)) (nat (kp_size p)))) (\<lambda>(bytes, _).
            rbind (lift_res (np_frombuffer np bytes (str_to_np_dtype (kp_dtype p)))) (\<lambda>a.
            rbind (lift_res (nd_reshape np (kp_shape p) (nd_take np (kp_shape_size p) a))) (\<lambda>b.
              update_object i (\<lambda>p. p\<lparr>np_data := Some b\<rparr>)))))"

definition sync_to_device :: "'d dll \<Rightarrow> 'n numpy \<Rightarrow> nat \<Rightarrow> ('d, 'n, unit) op" where
  "sync_to_device dll np i =
     rbind (update_object i (\<lambda>p. p\<lparr>on_device := True\<rparr>)) (\<lambda>_.
     rbind (gets (\<lambda>s. np_data (objects s ! i))) (\<lambda>data. case data of
       None \<Rightarrow> raise RtsAttribute
     | Some a \<Rightarrow> rbind (on_api (copy_bin_to_hbm dll (nd_bytes np a))) (\<lambda>p.
                  update_object i (\<lambda>o'. o'\<lparr>hbm_pointer := Some p\<rparr>))))"

definition is_in_device :: "'n kernel_param \<Rightarrow> bool" where
  "is_in_device p = (hbm_pointer p \<noteq> None)"

definition release_device :: "'d dll \<Rightarrow> nat \<Rightarrow> ('d, 'n, unit) op" where
  "release_device dll i =
     rbind (gets (\<lambda>s. objects s ! i)) (\<lambda>p.
     rbind (if has_buffer p
            then rbind (on_api (free dll (the (hbm_pointer p)))) (\<lambda>_.
                 update_object i (\<lambda>p. p\<lparr>hbm_pointer := None\<rparr>))
            else ret ()) (\<lambda>_.
       update_object i (\<lambda>p. p\<lparr>on_device := False\<rparr>)))"

definition get_data :: "'d dll \<Rightarrow> 'n numpy \<Rightarrow> nat \<Rightarrow> ('d, 'n, 'n option) op" where
  "get_data dll np i =
     rbind (sync_from_device dll np i) (\<lambda>_. gets (\<lambda>s. np_data (objects s ! i)))"

section \<open>The runner\<close>

text \<open>\<^verbatim>\<open>__init__\<close>, given the loaded interface; the log files of a simulator are left out.\<close>

definition init_runner ::
    "'d dll \<Rightarrow> pyval \<Rightarrow> int \<Rightarrow> bool \<Rightarrow> 'd rts \<Rightarrow> rts_exn + ('d, 'n) runner" where
  "init_runner dll rounds dev prof rts =
     (case c_int rounds of
        Inl e \<Rightarrow> Inl (rts_of_exn e)
      | Inr n \<Rightarrow>
          if n < 1 \<or> n > 100 then Inl RtsValue
          else (case set_device dll dev rts of
                  (Inl e, _) \<Rightarrow> Inl e
                | (Inr _, t) \<Rightarrow> (case create_stream dll 0 t of
                    (Inl e, _) \<Rightarrow> Inl e
                  | (Inr st, u) \<Rightarrow> Inr \<lparr>api = u, objects = [], kernels = [], kernel_params = [],
                      run_stream = st, profiling = prof, profiling_times = n\<rparr>)))"

definition build_kernel_param_np :: "'d dll \<Rightarrow> 'n numpy \<Rightarrow> ('d, 'n, nat) op \<Rightarrow> ('d, 'n, nat) op" where
  "build_kernel_param_np dll np build =
     rbind build (\<lambda>i.
     rbind (sync_to_device dll np i) (\<lambda>_.
     rbind (modify (\<lambda>s. s\<lparr>kernel_params := kernel_params s @ [i]\<rparr>)) (\<lambda>_. ret i)))"

text \<open>An argument of \<^verbatim>\<open>run\<close>: a parameter object, the name of a data file, or an array.\<close>

datatype 'n op_input = Param nat | File string | Array 'n
datatype 'n op_inputs = Single "'n op_input" | Several "'n op_input list"

definition build_kernel_param ::
    "'d dll \<Rightarrow> 'n numpy \<Rightarrow> fs \<Rightarrow> string + 'n \<Rightarrow> pyval \<Rightarrow> pyval \<Rightarrow> ('d, 'n, nat) op" where
  "build_kernel_param dll np f data shape dtype =
     build_kernel_param_np dll np
       (case data of Inl path \<Rightarrow> build_op_param_by_data_file np f path dtype shape
        | Inr a \<Rightarrow> build_op_param_by_np_data np a)"

definition cache_kernel_param :: "nat \<Rightarrow> ('d, 'n, unit) op" where
  "cache_kernel_param i =
     modify (\<lambda>s. if i \<in> set (kernel_params s) then s
                 else s\<lparr>kernel_params := kernel_params s @ [i]\<rparr>)"

section \<open>Preparing the arguments\<close>

text \<open>
  The lists that the code fills in place are returned: \<open>fill_input\<close> gives the kernel argument
  of one input and, for a parameter object only, the parameter.
\<close>

definition fill_input ::
    "'d dll \<Rightarrow> 'n numpy \<Rightarrow> fs \<Rightarrow> 'n op_input \<Rightarrow> ('d, 'n, ptr option \<times> nat list) op" where
  "fill_input dll np f input = (case input of
      Param i \<Rightarrow>
        rbind (cache_kernel_param i) (\<lambda>_.
        rbind (gets (\<lambda>s. objects s ! i)) (\<lambda>p.
        rbind (if is_in_device p then ret () else sync_to_device dll np i) (\<lambda>_.
          gets (\<lambda>s. (hbm_pointer (objects s ! i), [i])))))
    | File path \<Rightarrow>
        rbind (build_kernel_param dll np f (Inl path) PyNone PyNone) (\<lambda>i.
          gets (\<lambda>s. (hbm_pointer (objects s ! i), [])))
    | Array a \<Rightarrow>
        rbind (build_kernel_param dll np f (Inr a) PyNone PyNone) (\<lambda>i.
          gets (\<lambda>s. (hbm_pointer (objects s ! i), []))))"

definition fill_inputs ::
    "'d dll \<Rightarrow> 'n numpy \<Rightarrow> fs \<Rightarrow> 'n op_input list \<Rightarrow> ('d, 'n, ptr option list \<times> nat list) op" where
  "fill_inputs dll np f inputs =
     rbind (each (fill_input dll np f) inputs) (\<lambda>rs. ret (map fst rs, concat (map snd rs)))"

definition fill_workspace :: "'d dll \<Rightarrow> op_kernel \<Rightarrow> ('d, 'n, ptr list) op" where
  "fill_workspace dll k =
     rbind (lift_res (py_iter (workspace k))) (each (\<lambda>w.
       rbind (lift_res (c_int w)) (\<lambda>n.
         on_api (malloc dll (n + 32) ''RT_MEMORY_DEFAULT'' ''RT_MEMORY_POLICY_NONE''))))"

text \<open>\<^verbatim>\<open>xs[i]\<close>, negative positions included.\<close>

definition list_get :: "'a list \<Rightarrow> int \<Rightarrow> 'a res" where
  "list_get xs i =
     (if 0 \<le> i \<and> i < int (length xs) then Inr (xs ! nat i)
      else if - int (length xs) \<le> i \<and> i < 0 then Inr (xs ! nat (int (length xs) + i))
      else Inl IndexError)"

definition output_shape :: "pydict \<Rightarrow> pyval" where
  "output_shape info =
     (if dget info ''run_shape'' = PyNone then dget info ''shape'' else dget info ''run_shape'')"

definition output_size :: "'n numpy \<Rightarrow> pydict \<Rightarrow> int res" where
  "output_size np info =
     (if truthy (dget info ''size'') then c_int (dget info ''size'')
      else bindE (calc_shape_size np (output_shape info)) (\<lambda>n.
           if n < 0 then Inr (-1) else calc_op_param_size n (dget info ''dtype'')))"

definition new_output :: "'d dll \<Rightarrow> 'n numpy \<Rightarrow> pydict \<Rightarrow> ('d, 'n, nat) op" where
  "new_output dll np info =
     rbind (lift_res (output_size np info)) (\<lambda>n.
     rbind (on_api (malloc dll n ''RT_MEMORY_DEFAULT'' ''RT_MEMORY_POLICY_NONE'')) (\<lambda>p.
     rbind (on_api (memset dll p n 0 n)) (\<lambda>_.
       init_param np None (output_shape info) (dget info ''dtype'') True (Some p))))"

text \<open>
  \<^verbatim>\<open>_fill_outputs\<close> looks up the position \<^verbatim>\<open>output_idx\<close> of the output, which it sets to 0
  before the loop and never changes. \<^verbatim>\<open>dict\<close> keeps the last pair of a key.
\<close>

definition fill_output ::
    "'d dll \<Rightarrow> 'n numpy \<Rightarrow> (int \<times> int) list \<Rightarrow> nat list \<Rightarrow> pydict \<Rightarrow> ('d, 'n, nat) op" where
  "fill_output dll np refs input_params info =
     (let output_idx = 0 in
      rbind (case map_of (rev refs) output_idx of
               Some j \<Rightarrow> lift_res (list_get input_params j)
             | None \<Rightarrow> new_output dll np info) (\<lambda>i.
      rbind (cache_kernel_param i) (\<lambda>_. ret i)))"

definition output_info_list :: "op_kernel \<Rightarrow> pydict option list option \<Rightarrow> pydict option list" where
  "output_info_list k actual = (case actual of
      Some (i # is) \<Rightarrow> i # is
    | _ \<Rightarrow> map Some (output_infos k))"

definition fill_outputs ::
    "'d dll \<Rightarrow> 'n numpy \<Rightarrow> op_kernel \<Rightarrow> (int \<times> int) list \<Rightarrow> pydict option list option \<Rightarrow> nat list
     \<Rightarrow> ('d, 'n, ptr option list \<times> nat list) op" where
  "fill_outputs dll np k refs actual input_params =
     rbind (each (\<lambda>info. rbind (fill_output dll np refs input_params info) (\<lambda>i.
              gets (\<lambda>s. (hbm_pointer (objects s ! i), i))))
            (List.map_filter (\<lambda>i. i) (output_info_list k actual)))
       (\<lambda>rs. ret (map fst rs, map snd rs))"

definition fill_tiling :: "'d dll \<Rightarrow> op_kernel \<Rightarrow> byte list option \<Rightarrow> ('d, 'n, ptr list) op" where
  "fill_tiling dll k tiling =
     (if \<not> need_do_tiling k then ret []
      else (case tiling of
              Some (b # bs) \<Rightarrow> rbind (on_api (copy_bin_to_hbm dll (b # bs))) (\<lambda>p. ret [p])
            | _ \<Rightarrow> raise (RtsRuntime ''Tiling data is None'' '''')))"

section \<open>Executing\<close>

text \<open>
  \<^verbatim>\<open>magic\<close> and the function name come from the JSON file; values of other types raise where
  the interface uses them. A null pointer has the \<^verbatim>\<open>value\<close> \<^verbatim>\<open>None\<close>, which the array of
  arguments refuses.
\<close>

definition magic_name :: "pyval \<Rightarrow> string option res" where
  "magic_name m = (case m of
      PyStr s \<Rightarrow> Inr (Some s)
    | PyList (_ # _) \<Rightarrow> Inl TypeError
    | PyDict (_ # _) \<Rightarrow> Inl TypeError
    | v \<Rightarrow> if truthy v then Inl KeyError else Inr None)"

definition register_kernel ::
    "'d dll \<Rightarrow> (string \<Rightarrow> byte list option) \<Rightarrow> nat \<Rightarrow> ('d, 'n, unit) op" where
  "register_kernel dll read_file ki =
     rbind (gets (\<lambda>s. kernels s ! ki)) (\<lambda>k.
     if is_registered_to_device k then ret ()
     else rbind (if read_file (bin_path k) = None then raise RtsOS else lift_res (magic_name (magic k))) (\<lambda>m.
          rbind (on_api (register_device_binary_kernel dll read_file (bin_path k) m)) (\<lambda>h.
          case stub_func_name k of
            PyStr name \<Rightarrow>
              rbind (on_api (register_function dll h name 0)) (\<lambda>p.
                modify (\<lambda>s. s\<lparr>kernels := (kernels s)[ki := set_stub_func_p p (kernels s ! ki)]\<rparr>))
          | _ \<Rightarrow> raise RtsAttribute)))"

definition launch_once :: "'d dll \<Rightarrow> nat \<Rightarrow> ptr list \<Rightarrow> pyval \<Rightarrow> ('d, 'n, unit) op" where
  "launch_once dll ki args blocks =
     rbind (gets (\<lambda>s. (stub_func_p (kernels s ! ki), run_stream s))) (\<lambda>(stub, st).
     rbind (lift_res (c_int blocks)) (\<lambda>n.
     if 0 \<in> set args then raise RtsType
     else rbind (on_api (launch_kernel dll (the stub) n args (length args) st)) (\<lambda>_.
          on_api (synchronize_with_stream dll st))))"

definition execute_kernel ::
    "'d dll \<Rightarrow> (string \<Rightarrow> byte list option) \<Rightarrow> nat \<Rightarrow> ptr list \<Rightarrow> pyval \<Rightarrow> ('d, 'n, unit) op" where
  "execute_kernel dll read_file ki args blocks =
     rbind (gets (\<lambda>s. (profiling s, profiling_times s, run_stream s))) (\<lambda>(prof, n, st).
     rbind (if prof then on_api (start_online_profiling dll st n) else ret ()) (\<lambda>_.
     rbind (register_kernel dll read_file ki) (\<lambda>_.
     rbind (for_each (\<lambda>_. launch_once dll ki args blocks) [0..<(if prof then nat n else 1)]) (\<lambda>_.
       if prof
       then rbind (on_api (get_online_profiling_data dll st n)) (\<lambda>_.
            on_api (stop_online_profiling dll st))
       else ret ()))))"

section \<open>A run, and leaving the runner\<close>

datatype op_outputs = One_Output nat | Outputs "nat list"

definition arg_value :: "ptr option \<Rightarrow> ptr res" where
  "arg_value a = (case a of None \<Rightarrow> Inl AttributeError | Some p \<Rightarrow> Inr p)"

text \<open>The record of what \<^verbatim>\<open>run\<close> is called with.\<close>

record 'n run_args =
  ra_inputs :: "'n op_inputs"
  ra_refs :: "(int \<times> int) list"
  ra_tiling :: "byte list option"
  ra_block_dim :: pyval
  ra_actual_output_info :: "pydict option list option"

definition inputs_of :: "'n op_inputs \<Rightarrow> 'n op_input list" where
  "inputs_of x = (case x of Single i \<Rightarrow> [i] | Several is \<Rightarrow> is)"

definition run ::
    "'d dll \<Rightarrow> 'n numpy \<Rightarrow> fs \<Rightarrow> (string \<Rightarrow> byte list option) \<Rightarrow> nat \<Rightarrow> 'n run_args
     \<Rightarrow> ('d, 'n, op_outputs) op" where
  "run dll np f read_file ki a =
     rbind (gets (\<lambda>s. kernels s ! ki)) (\<lambda>k.
     rbind (fill_inputs dll np f (inputs_of (ra_inputs a))) (\<lambda>(in_args, input_params).
     rbind (fill_outputs dll np k (ra_refs a) (ra_actual_output_info a) input_params)
       (\<lambda>(out_args, output_params).
     rbind (fill_workspace dll k) (\<lambda>wksp.
     rbind (fill_tiling dll k (ra_tiling a)) (\<lambda>tiling_hbm.
     rbind (lift_res (mapE arg_value (in_args @ out_args @ map Some wksp @ map Some tiling_hbm)))
       (\<lambda>knl_args.
     rbind (execute_kernel dll read_file ki knl_args
              (if truthy (ra_block_dim a) then ra_block_dim a else block_dim k)) (\<lambda>_.
     rbind (for_each (\<lambda>p. on_api (free dll p)) wksp) (\<lambda>_.
     rbind (for_each (\<lambda>p. on_api (free dll p)) tiling_hbm) (\<lambda>_.
       ret (case output_params of [o'] \<Rightarrow> One_Output o' | os \<Rightarrow> Outputs os))))))))))"

text \<open>\<^verbatim>\<open>__exit__\<close>, without the log files of a simulator.\<close>

definition exit_runner :: "'d dll \<Rightarrow> int \<Rightarrow> ('d, 'n, unit) op" where
  "exit_runner dll dev =
     rbind (gets (\<lambda>s. (kernel_params s, run_stream s))) (\<lambda>(ps, st).
     rbind (for_each (release_device dll) ps) (\<lambda>_.
     rbind (on_api (destroy_stream dll st)) (\<lambda>_.
       on_api (reset dll (Some dev)))))"


section \<open>Data files\<close>

text \<open>
  \<^verbatim>\<open>run\<close> passes neither a shape nor a type for an input that is the name of a data file, and
  the type is required: such an input always raises, before the file is read.
\<close>

lemma data_file_input_raises:
  "fst (fill_input dll np f (File path) s) =
     Inl (if fs_exists f path then RtsRuntime ''dtype must in'' '''' else RtsOS)"
  by (simp add: fill_input_def build_kernel_param_def build_kernel_param_np_def
      build_op_param_by_data_file_def str_to_np_dtype_def rbind_def raise_def)

end
