(* ===== verification/Runner_Memory.thy ===== *)
theory Runner_Memory
  imports Kernel_Runner
begin

text \<open>
  What a run does to the memory of the device. The runtime library is a parameter, so its
  account of the live buffers is one too: \<open>live\<close> gives the buffers of a device state, and
  \<open>memory_model\<close> says what the documentation of the library says of it. Everything else is
  proved for the code's own functions.
\<close>

section \<open>The library's memory\<close>

definition allocates :: "'d dll \<Rightarrow> ('d \<Rightarrow> ptr multiset) \<Rightarrow> bool" where
  "allocates dll live \<longleftrightarrow>
     (\<forall>n t d p d'. rtMalloc dll n t d = (0, p, d') \<longrightarrow> p \<noteq> 0 \<and> live d' = add_mset p (live d))
   \<and> (\<forall>p d d'. rtFree dll p d = (0, d') \<longrightarrow> live d' = live d - {#p#})"

definition keeps_live :: "('d \<Rightarrow> ptr multiset) \<Rightarrow> ('d \<Rightarrow> 'd) \<Rightarrow> bool" where
  "keeps_live live f \<longleftrightarrow> (\<forall>d. live (f d) = live d)"

definition memory_model :: "'d dll \<Rightarrow> ('d \<Rightarrow> ptr multiset) \<Rightarrow> bool" where
  "memory_model dll live \<longleftrightarrow> allocates dll live
   \<and> (\<forall>p m src n k. keeps_live live (snd \<circ> rtMemcpy dll p m src n k))
   \<and> (\<forall>p m x n. keeps_live live (snd \<circ> rtMemset dll p m x n))
   \<and> (\<forall>n. keeps_live live (snd \<circ> snd \<circ> rtMallocHost dll n))
   \<and> (\<forall>m b. keeps_live live (snd \<circ> snd \<circ> rtDevBinaryRegister dll m b))
   \<and> (\<forall>h n m. keeps_live live (snd \<circ> rtFunctionRegister dll h n m))
   \<and> (\<forall>f b xs n st. keeps_live live (snd \<circ> rtKernelLaunch dll f b xs n st))
   \<and> (\<forall>st. keeps_live live (snd \<circ> rtStreamSynchronize dll st))
   \<and> (\<forall>st n. keeps_live live (snd \<circ> rtStartOnlineProf dll st n))
   \<and> (\<forall>st. keeps_live live (snd \<circ> rtStopOnlineProf dll st))
   \<and> (\<forall>st n. keeps_live live (snd \<circ> snd \<circ> rtGetOnlineProfData dll st n))"

section \<open>Accounting\<close>

text \<open>
  A relation between states that carries an account, and adds the accounts of successive
  steps. What a loop leaves behind is then the sum of what its rounds leave behind.
\<close>

locale accounting =
  fixes acc :: "'s \<Rightarrow> 'm :: comm_monoid_add \<Rightarrow> 's \<Rightarrow> bool"
  assumes acc_refl: "acc s 0 s"
    and acc_trans: "acc s v t \<Longrightarrow> acc t w u \<Longrightarrow> acc s (v + w) u"
begin

lemma each_acc:
  assumes "each f xs s = (Inr ys, t)" and "\<And>x. x \<in> set xs \<Longrightarrow> I s x"
    and "\<And>s w t x. acc s w t \<Longrightarrow> I s x \<Longrightarrow> I t x"
    and "\<And>x y s t. x \<in> set xs \<Longrightarrow> I s x \<Longrightarrow> f x s = (Inr y, t) \<Longrightarrow> acc s (V y) t"
  shows "acc s (\<Sum>y\<leftarrow>ys. V y) t"
  using assms(1,2,4)
proof (induction xs arbitrary: s ys)
  case Nil
  then show ?case by (simp add: acc_refl)
next
  case (Cons x xs)
  then obtain y zs s' where y: "f x s = (Inr y, s')" "each f xs s' = (Inr zs, t)" "ys = y # zs"
    by (auto simp: rbind_Inr)
  have first: "acc s (V y) s'"
    using Cons.prems y(1) by (meson list.set_intros(1))
  moreover have "acc s' (\<Sum>y\<leftarrow>zs. V y) t"
  proof (rule Cons.IH [OF y(2)])
    show "I s' z" if "z \<in> set xs" for z
      using assms(3) [OF first] Cons.prems(2) that by (meson list.set_intros(2))
    show "acc r (V b) r'" if "z \<in> set xs" "I r z" "f z r = (Inr b, r')" for z b r r'
      using Cons.prems(3) that by (meson list.set_intros(2))
  qed
  ultimately show ?case by (auto simp: y(3) intro: acc_trans)
qed

lemma each_none:
  assumes "each f xs s = (Inr ys, t)"
    and "\<And>x y s t. x \<in> set xs \<Longrightarrow> f x s = (Inr y, t) \<Longrightarrow> acc s 0 t"
  shows "acc s 0 t"
  using each_acc [OF assms(1), of "\<lambda>_ _. True" "\<lambda>_. 0"] assms(2) by simp

lemma for_each_none:
  assumes "for_each f xs s = (Inr u, t)"
    and "\<And>x y s t. x \<in> set xs \<Longrightarrow> f x s = (Inr y, t) \<Longrightarrow> acc s 0 t"
  shows "acc s 0 t"
  using assms by (auto simp: for_each_def rbind_Inr intro: each_none)

lemma acc_none: "acc s 0 t \<Longrightarrow> acc t w u \<Longrightarrow> acc s w u"
  using acc_trans [of s 0 t w u] by simp

end

section \<open>The balance of a run\<close>

text \<open>
  The buffers that parameter objects own. In a balanced step the live buffers change by what the
  objects have got, and by the account \<open>w\<close> of buffers that no object owns.
\<close>

definition buffer :: "'n kernel_param \<Rightarrow> ptr multiset" where
  "buffer p = (case hbm_pointer p of None \<Rightarrow> {#} | Some q \<Rightarrow> {#q#})"

definition owned :: "('d, 'n) runner \<Rightarrow> ptr multiset" where
  "owned s = (\<Sum>p\<leftarrow>objects s. buffer p)"

definition live_of :: "('d \<Rightarrow> ptr multiset) \<Rightarrow> ('d, 'n) runner \<Rightarrow> ptr multiset" where
  "live_of live s = live (device (api s))"

definition balanced ::
    "('d \<Rightarrow> ptr multiset) \<Rightarrow> ('d, 'n) runner \<Rightarrow> ptr multiset \<Rightarrow> ('d, 'n) runner \<Rightarrow> bool" where
  "balanced live s w t \<longleftrightarrow> live_of live t + owned s = live_of live s + owned t + w
     \<and> length (objects s) \<le> length (objects t)"

lemma balanced_trans:
  assumes "balanced live s v t" and "balanced live t w u"
  shows "balanced live s (v + w) u"
proof -
  have "(live_of live u + owned s) + (live_of live t + owned t)
      = (live_of live u + owned t) + (live_of live t + owned s)"
    by (simp add: ac_simps)
  also have "\<dots> = (live_of live t + owned u + w) + (live_of live s + owned t + v)"
    using assms by (simp add: balanced_def)
  also have "\<dots> = (live_of live s + owned u + (v + w)) + (live_of live t + owned t)"
    by (simp add: ac_simps)
  finally show ?thesis using assms by (simp add: balanced_def)
qed

interpretation bal: accounting "balanced live" for live
  by unfold_locales (simp add: balanced_def, rule balanced_trans)


section \<open>The interface under the memory model\<close>

named_theorems mem_laws \<open>what the memory model says of each call\<close>

lemma lookup_Inr [simp]: "lookup d k s = (Inr x, t) \<longleftrightarrow> map_of d k = Some x \<and> t = s"
  by (auto simp: lookup_def split: option.splits)

lemma malloc_live:
  assumes "memory_model dll live" and "malloc dll n t pol s = (Inr p, s')"
  shows "live (device s') = add_mset p (live (device s)) \<and> p \<noteq> 0"
proof -
  obtain m d where d: "rtMalloc dll (word_of_int n) m (device s) = (0, p, d)" "s' = s\<lparr>device := d\<rparr>"
    using assms(2) by (auto simp: malloc_def rbind_Inr checked_out_ok)
  have "allocates dll live" using assms(1) by (simp add: memory_model_def)
  with d(1) have "p \<noteq> 0 \<and> live d = add_mset p (live (device s))"
    unfolding allocates_def by blast
  with d(2) show ?thesis by simp
qed

lemma free_live:
  assumes "memory_model dll live" and "free dll p s = (Inr u, s')"
  shows "live (device s') = live (device s) - {#p#}"
  using assms by (auto simp: memory_model_def allocates_def free_def checked_ok)

lemma checked_live:
  assumes "keeps_live live (snd \<circ> f)" and "checked f s = (r, s')"
  shows "live (device s') = live (device s)"
  using assms by (auto simp: checked_eq keeps_live_def split: prod.splits) (metis snd_conv)

lemma checked_out_live:
  assumes "keeps_live live (snd \<circ> snd \<circ> f)" and "checked_out f s = (r, s')"
  shows "live (device s') = live (device s)"
  using assms by (auto simp: checked_out_eq keeps_live_def split: prod.splits) (metis snd_conv)

lemma memory_model_keeps:
  assumes "memory_model dll live"
  shows "keeps_live live (snd \<circ> rtMemcpy dll p m src n k)"
    "keeps_live live (snd \<circ> rtMemset dll p m x n)"
    "keeps_live live (snd \<circ> snd \<circ> rtDevBinaryRegister dll mg b)"
    "keeps_live live (snd \<circ> rtFunctionRegister dll h nm md)"
    "keeps_live live (snd \<circ> rtKernelLaunch dll fn bl xs sz st)"
    "keeps_live live (snd \<circ> rtStreamSynchronize dll st)"
    "keeps_live live (snd \<circ> rtStartOnlineProf dll st c)"
    "keeps_live live (snd \<circ> rtStopOnlineProf dll st)"
    "keeps_live live (snd \<circ> snd \<circ> rtGetOnlineProfData dll st c)"
    "keeps_live live (snd \<circ> snd \<circ> rtMallocHost dll hn)"
  using assms by (simp_all add: memory_model_def)

lemma memcpy_live:
  assumes "memory_model dll live" and "memcpy dll p m src n kind r s = (x, t)"
  shows "live (device t) = live (device s)"
  using assms
proof (induction dll p m src n kind r s rule: memcpy.induct)
  case (1 dll p m src n kind r s)
  show ?case
  proof (cases "map_of RT_MEMCPY_KIND kind")
    case None
    then show ?thesis using 1(3) by (simp add: memcpy.simps)
  next
    case (Some k)
    obtain y s' where y: "checked (rtMemcpy dll p (word_of_int m) src (word_of_int n) k) s = (y, s')"
      by fastforce
    with 1(2) have "live (device s') = live (device s)"
      by (auto intro: checked_live memory_model_keeps(1))
    with 1 Some y show ?thesis
      by (subst (asm) memcpy.simps) (auto split: sum.splits rts_exn.splits if_splits)
  qed
qed

lemma copy_bin_to_hbm_live:
  assumes "memory_model dll live" and "copy_bin_to_hbm dll bs s = (Inr p, s')"
  shows "live (device s') = add_mset p (live (device s)) \<and> p \<noteq> 0"
proof -
  obtain s1 u where "hbm_alloc dll (length bs) s = (Inr p, s1)"
    and copy: "memcpy dll p (hbm_size (length bs)) (Bytes bs) (int (length bs))
      ''RT_MEMCPY_HOST_TO_DEVICE'' 0 s1 = (Inr u, s')"
    using assms(2) by (auto simp: copy_bin_to_hbm_def rbind_Inr)
  then have "malloc dll (hbm_size (length bs)) ''RT_MEMORY_HBM'' ''RT_MEMORY_POLICY_NONE'' s = (Inr p, s1)"
    by (auto simp: hbm_alloc_def split: prod.splits sum.splits)
  from malloc_live [OF assms(1) this] memcpy_live [OF assms(1) copy] show ?thesis by simp
qed

section \<open>Objects and their buffers\<close>

lemma on_api_Inr [simp]:
  "on_api m s = (Inr x, t) \<longleftrightarrow> (\<exists>u. m (api s) = (Inr x, u) \<and> t = s\<lparr>api := u\<rparr>)"
  by (auto simp: on_api_def split: prod.splits)

lemma lift_res_Inr [simp]: "lift_res r s = (Inr x, t) \<longleftrightarrow> r = Inr x \<and> t = s"
  by (auto simp: lift_res_def split: sum.splits)

lemma balanced_api:
  assumes "live (device u) = live (device (api s)) + w"
  shows "balanced live s w (s\<lparr>api := u\<rparr>)"
  using assms by (simp add: balanced_def live_of_def owned_def ac_simps)

lemma owned_update:
  assumes "i < length ps"
  shows "(\<Sum>p\<leftarrow>ps[i := q]. buffer p) + buffer (ps ! i) = (\<Sum>p\<leftarrow>ps. buffer p) + buffer q"
  using assms
proof (induction ps arbitrary: i)
  case Nil
  then show ?case by simp
next
  case (Cons p ps)
  then show ?case by (cases i) (auto simp: ac_simps dest: Cons.IH)
qed

lemma owned_same_buffers:
  assumes "map buffer (objects t) = map buffer (objects s)"
  shows "owned t = owned s"
  using assms by (simp add: owned_def)

lemma update_keeps_buffer:
  assumes "\<And>p. buffer (f p) = buffer p"
  shows "map buffer (ps[i := f (ps ! i)]) = map buffer ps"
  by (metis assms list_update_beyond list_update_id map_update not_le_imp_less)

lemma update_object_Inr [simp]:
  "update_object i f s = (Inr u, t) \<longleftrightarrow> t = s\<lparr>objects := (objects s)[i := f (objects s ! i)]\<rparr>"
  by (simp add: update_object_def)

lemma cache_kernel_param_balanced:
  "cache_kernel_param i s = (Inr u, t) \<Longrightarrow> balanced live s {#} t"
  by (auto simp: cache_kernel_param_def balanced_def live_of_def owned_def)

lemma init_param_ok:
  assumes "init_param np data shape dtype dev hbm s = (Inr i, t)"
  shows "\<exists>p. i = length (objects s) \<and> t = s\<lparr>objects := objects s @ [p]\<rparr> \<and> np_data p = data
    \<and> hbm_pointer p = hbm \<and> on_device p = dev"
  using assms by (auto simp: init_param_def Let_def rbind_Inr split: if_splits)

lemma init_param_balanced:
  assumes "init_param np data shape dtype dev hbm s = (Inr i, t)"
    and "live_of live s = live_of live r + buffer_of" and "owned r = owned s"
    and "length (objects r) = length (objects s)"
    and "buffer_of = (case hbm of None \<Rightarrow> {#} | Some q \<Rightarrow> {#q#})"
  shows "balanced live r {#} t"
  using init_param_ok [OF assms(1)] assms(2-)
  by (auto simp: balanced_def live_of_def owned_def buffer_def ac_simps split: option.splits)


section \<open>Every step of a run is balanced\<close>

lemma sync_to_device_balanced:
  assumes m: "memory_model dll live" and run: "sync_to_device dll np i s = (Inr u, t)"
    and i: "i < length (objects s)" and none: "hbm_pointer (objects s ! i) = None"
  shows "balanced live s {#} t"
proof -
  define ps where "ps = (objects s)[i := (objects s ! i)\<lparr>on_device := True\<rparr>]"
  obtain bs p v where copy: "copy_bin_to_hbm dll bs (api s) = (Inr p, v)"
    and t: "t = s\<lparr>api := v, objects := ps[i := (ps ! i)\<lparr>hbm_pointer := Some p\<rparr>]\<rparr>"
    using run i
    by (auto simp: sync_to_device_def rbind_Inr ps_def split: option.splits)
  have "map buffer ps = map buffer (objects s)"
    unfolding ps_def by (rule update_keeps_buffer) (simp add: buffer_def)
  then have "(\<Sum>q\<leftarrow>ps. buffer q) + buffer (objects s ! i) = owned s + buffer (objects s ! i)"
    by (simp add: owned_def)
  moreover have "(\<Sum>q\<leftarrow>objects t. buffer q) + buffer (ps ! i) = (\<Sum>q\<leftarrow>ps. buffer q) + {#p#}"
    using owned_update [of i ps "(ps ! i)\<lparr>hbm_pointer := Some p\<rparr>"] i
    by (simp add: t buffer_def ps_def)
  moreover have "buffer (ps ! i) = {#}" "buffer (objects s ! i) = {#}"
    using i none by (simp_all add: ps_def buffer_def)
  ultimately have "owned t = owned s + {#p#}" by (simp add: owned_def)
  with copy_bin_to_hbm_live [OF m copy] show ?thesis
    by (simp add: balanced_def live_of_def t ps_def)
qed

lemma build_kernel_param_balanced:
  assumes m: "memory_model dll live" and run: "build_kernel_param dll np f data shape dtype s = (Inr i, t)"
  shows "balanced live s {#} t"
proof -
  obtain r u where build: "(case data of Inl path \<Rightarrow> build_op_param_by_data_file np f path dtype shape
        | Inr a \<Rightarrow> build_op_param_by_np_data np a) s = (Inr i, r)"
    and sync: "sync_to_device dll np i r = (Inr (), u)"
    and t: "t = u\<lparr>kernel_params := kernel_params u @ [i]\<rparr>"
    using run unfolding build_kernel_param_def build_kernel_param_np_def by (auto simp: rbind_Inr)
  have "\<exists>a. init_param np (Some a) PyNone PyNone False None s = (Inr i, r)"
    using build
    by (auto simp: build_op_param_by_data_file_def build_op_param_by_np_data_def rbind_Inr
        split: sum.splits if_splits)
  then obtain p where r: "i = length (objects s)" "r = s\<lparr>objects := objects s @ [p]\<rparr>"
    "hbm_pointer p = None"
    using init_param_ok by blast
  then have "balanced live s {#} r" by (simp add: balanced_def live_of_def owned_def buffer_def)
  moreover have "balanced live r {#} u" using m sync r by (auto intro: sync_to_device_balanced)
  ultimately have "balanced live s {#} u" using bal.acc_none by fastforce
  then show ?thesis by (simp add: t balanced_def live_of_def owned_def)
qed

lemma fill_input_balanced:
  assumes m: "memory_model dll live" and run: "fill_input dll np f x s = (Inr y, t)"
    and valid: "\<And>i. x = Param i \<Longrightarrow> i < length (objects s)"
  shows "balanced live s {#} t"
proof (cases x)
  case (Param i)
  obtain r where r: "cache_kernel_param i s = (Inr (), r)"
    and sync: "(if is_in_device (objects r ! i) then ret () else sync_to_device dll np i) r = (Inr (), t)"
    using run by (auto simp: fill_input_def Param rbind_Inr)
  have "objects r = objects s" using r by (auto simp: cache_kernel_param_def)
  then have "balanced live r {#} t"
    using sync valid [OF Param] m
    by (auto simp: is_in_device_def intro: sync_to_device_balanced bal.acc_refl
        split: if_splits)
  with cache_kernel_param_balanced [OF r] show ?thesis using bal.acc_none by fastforce
next
  case (File path)
  with run m show ?thesis
    by (auto simp: fill_input_def rbind_Inr intro: build_kernel_param_balanced)
next
  case (Array a)
  with run m show ?thesis
    by (auto simp: fill_input_def rbind_Inr intro: build_kernel_param_balanced)
qed

lemma new_output_balanced:
  assumes m: "memory_model dll live" and run: "new_output dll np info s = (Inr i, t)"
  shows "balanced live s {#} t"
proof -
  obtain n p v w where a: "malloc dll n ''RT_MEMORY_DEFAULT'' ''RT_MEMORY_POLICY_NONE'' (api s) = (Inr p, v)"
    and b: "memset dll p n 0 n v = (Inr (), w)"
    and c: "init_param np None (output_shape info) (dget info ''dtype'') True (Some p) (s\<lparr>api := w\<rparr>) = (Inr i, t)"
    using run by (auto simp: new_output_def rbind_Inr)
  have "live (device w) = live (device v)"
    using b m by (auto simp: memset_def intro: checked_live memory_model_keeps(2) split: if_splits)
  with malloc_live [OF m a] have "live (device w) = add_mset p (live (device (api s)))" by simp
  with c show ?thesis
    by (intro init_param_balanced [OF c, of live s "{#p#}"]) (simp_all add: live_of_def owned_def)
qed

lemma fill_output_balanced:
  assumes m: "memory_model dll live" and run: "fill_output dll np refs ps info s = (Inr i, t)"
  shows "balanced live s {#} t"
proof -
  obtain r where "(case map_of (rev refs) 0 of Some j \<Rightarrow> lift_res (list_get ps j)
                   | None \<Rightarrow> new_output dll np info) s = (Inr i, r)"
    and c: "cache_kernel_param i r = (Inr (), t)"
    using run by (auto simp: fill_output_def rbind_Inr)
  then have "balanced live s {#} r"
    using m by (auto intro: new_output_balanced bal.acc_refl split: option.splits)
  with cache_kernel_param_balanced [OF c] show ?thesis using bal.acc_none by fastforce
qed


definition valid_input :: "('d, 'n) runner \<Rightarrow> 'n op_input \<Rightarrow> bool" where
  "valid_input s x = (case x of Param i \<Rightarrow> i < length (objects s) | _ \<Rightarrow> True)"

lemma fill_inputs_balanced:
  assumes m: "memory_model dll live" and run: "fill_inputs dll np f xs s = (Inr r, t)"
    and valid: "list_all (valid_input s) xs"
  shows "balanced live s {#} t"
proof -
  obtain ys where ys: "each (fill_input dll np f) xs s = (Inr ys, t)"
    using run by (auto simp: fill_inputs_def rbind_Inr)
  have "balanced live s (\<Sum>y\<leftarrow>ys. {#}) t"
  proof (rule bal.each_acc [OF ys, where I = valid_input])
    show "valid_input s x" if "x \<in> set xs" for x using valid that by (simp add: list_all_iff)
    show "valid_input r' x" if "balanced live r w r'" "valid_input r x" for r w r' x
      using that by (auto simp: valid_input_def balanced_def split: op_input.splits)
    show "balanced live r {#} r'" if "valid_input r x" "fill_input dll np f x r = (Inr y, r')" for x y r r'
      using that m by (auto simp: valid_input_def intro: fill_input_balanced)
  qed
  then show ?thesis by simp
qed

lemma fill_outputs_balanced:
  assumes m: "memory_model dll live" and run: "fill_outputs dll np k refs actual ps s = (Inr r, t)"
  shows "balanced live s {#} t"
proof -
  obtain ys where ys: "each (\<lambda>info. rbind (fill_output dll np refs ps info) (\<lambda>i.
      gets (\<lambda>s. (hbm_pointer (objects s ! i), i)))) (List.map_filter (\<lambda>i. i) (output_info_list k actual)) s
      = (Inr ys, t)"
    using run by (auto simp: fill_outputs_def rbind_Inr)
  show ?thesis
    by (rule bal.each_none [OF ys]) (auto simp: rbind_Inr intro: fill_output_balanced [OF m])
qed

lemma fill_workspace_balanced:
  assumes m: "memory_model dll live" and run: "fill_workspace dll k s = (Inr ws, t)"
  shows "balanced live s (mset ws) t \<and> objects t = objects s"
proof -
  obtain xs where ys: "each (\<lambda>w. rbind (lift_res (c_int w)) (\<lambda>n.
      on_api (malloc dll (n + 32) ''RT_MEMORY_DEFAULT'' ''RT_MEMORY_POLICY_NONE''))) xs s = (Inr ws, t)"
    using run by (auto simp: fill_workspace_def rbind_Inr)
  have "balanced live s (\<Sum>w\<leftarrow>ws. {#w#}) t"
    by (rule bal.each_acc [OF ys, where I = "\<lambda>_ _. True"])
       (auto simp: rbind_Inr dest!: malloc_live [OF m] intro!: balanced_api)
  moreover have "(\<Sum>w\<leftarrow>ws. {#w#}) = mset ws" by (induction ws) simp_all
  moreover have "objects t = objects s"
    using ys by (induction xs arbitrary: s ws) (fastforce simp: rbind_Inr)+
  ultimately show ?thesis by simp
qed

lemma fill_tiling_balanced:
  assumes m: "memory_model dll live" and run: "fill_tiling dll k tiling s = (Inr ws, t)"
  shows "balanced live s (mset ws) t \<and> objects t = objects s"
  using run
  by (auto simp: fill_tiling_def rbind_Inr dest!: copy_bin_to_hbm_live [OF m] intro!: balanced_api
      bal.acc_refl split: if_splits option.splits list.splits)

lemma register_kernel_ok:
  assumes run: "register_kernel dll rf ki s = (Inr u, t)"
    and new: "\<not> is_registered_to_device (kernels s ! ki)"
  shows "\<exists>mg h name p a b.
    register_device_binary_kernel dll rf (bin_path (kernels s ! ki)) mg (api s) = (Inr h, a)
    \<and> register_function dll h name 0 a = (Inr p, b)
    \<and> t = s\<lparr>api := b, kernels := (kernels s)[ki := set_stub_func_p p (kernels s ! ki)]\<rparr>"
proof -
  obtain name where "stub_func_name (kernels s ! ki) = PyStr name"
    using run new by (cases "stub_func_name (kernels s ! ki)") (auto simp: register_kernel_def rbind_Inr)
  then show ?thesis
    using run new by (fastforce simp: register_kernel_def rbind_Inr split: if_splits)
qed

lemma register_kernel_balanced:
  assumes m: "memory_model dll live" and run: "register_kernel dll rf ki s = (Inr u, t)"
  shows "balanced live s {#} t \<and> objects t = objects s"
proof (cases "is_registered_to_device (kernels s ! ki)")
  case True
  with run show ?thesis by (auto simp: register_kernel_def rbind_Inr intro: bal.acc_refl)
next
  case False
  obtain mg h name p a b where
    h: "register_device_binary_kernel dll rf (bin_path (kernels s ! ki)) mg (api s) = (Inr h, a)"
    and p: "register_function dll h name 0 a = (Inr p, b)"
    and t: "t = s\<lparr>api := b, kernels := (kernels s)[ki := set_stub_func_p p (kernels s ! ki)]\<rparr>"
    using register_kernel_ok [OF run False] by blast
  have "live (device a) = live (device (api s))"
    using h by (auto simp: register_device_binary_kernel_def Let_def rbind_Inr
        dest!: checked_out_live [OF memory_model_keeps(3) [OF m]] split: option.splits)
  moreover have "live (device b) = live (device a)"
    using p by (auto simp: register_function_def rbind_Inr
        dest!: checked_live [OF memory_model_keeps(4) [OF m]] split: if_splits)
  ultimately show ?thesis by (simp add: t balanced_def live_of_def owned_def)
qed

lemma launch_once_balanced:
  assumes m: "memory_model dll live" and run: "launch_once dll ki args blocks s = (Inr u, t)"
  shows "balanced live s {#} t \<and> objects t = objects s"
  using run
  by (auto simp: launch_once_def rbind_Inr launch_kernel_def synchronize_with_stream_def
      dest!: checked_live [OF memory_model_keeps(5) [OF m]] checked_live [OF memory_model_keeps(6) [OF m]]
      intro!: balanced_api split: if_splits)

text \<open>The same for steps that leave the objects alone, as one relation.\<close>

interpretation quiet: accounting "\<lambda>s w t. balanced live s w t \<and> objects t = objects s" for live
  by unfold_locales (auto intro: bal.acc_refl balanced_trans)

lemma execute_kernel_balanced:
  assumes m: "memory_model dll live" and run: "execute_kernel dll rf ki args blocks s = (Inr u, t)"
  shows "balanced live s {#} t \<and> objects t = objects s"
proof -
  obtain a b c where 1: "(if profiling s then on_api (start_online_profiling dll (run_stream s) (profiling_times s))
      else ret ()) s = (Inr (), a)"
    and 2: "register_kernel dll rf ki a = (Inr (), b)"
    and 3: "for_each (\<lambda>_. launch_once dll ki args blocks)
      [0..<(if profiling s then nat (profiling_times s) else 1)] b = (Inr (), c)"
    and 4: "(if profiling s
       then rbind (on_api (get_online_profiling_data dll (run_stream s) (profiling_times s))) (\<lambda>_.
            on_api (stop_online_profiling dll (run_stream s)))
       else ret ()) c = (Inr (), t)"
    using run by (auto simp: execute_kernel_def rbind_Inr)
  have "balanced live s {#} a \<and> objects a = objects s"
    using 1 by (auto simp: start_online_profiling_def bal.acc_refl split: if_splits
        dest!: checked_live [OF memory_model_keeps(7) [OF m]] intro!: balanced_api)
  moreover have "balanced live b {#} c \<and> objects c = objects b"
    by (rule quiet.for_each_none [OF 3]) (use launch_once_balanced [OF m] in blast)
  moreover have "balanced live c {#} t \<and> objects t = objects c"
    using 4 by (auto simp: get_online_profiling_data_def stop_online_profiling_def rbind_Inr
        bal.acc_refl split: if_splits dest!: checked_live [OF memory_model_keeps(8) [OF m]]
        checked_out_live [OF memory_model_keeps(9) [OF m]] intro!: balanced_api)
  ultimately show ?thesis
    using register_kernel_balanced [OF m 2] quiet.acc_none by blast
qed


lemma free_all:
  assumes m: "memory_model dll live" and run: "for_each (\<lambda>p. on_api (free dll p)) ws s = (Inr u, t)"
  shows "live_of live t = live_of live s - mset ws \<and> objects t = objects s"
proof -
  obtain ys where "each (\<lambda>p. on_api (free dll p)) ws s = (Inr ys, t)"
    using run by (auto simp: for_each_def rbind_Inr)
  then show ?thesis
  proof (induction ws arbitrary: s ys)
    case (Cons w ws)
    then obtain v zs where v: "free dll w (api s) = (Inr (), v)"
      and rest: "each (\<lambda>p. on_api (free dll p)) ws (s\<lparr>api := v\<rparr>) = (Inr zs, t)"
      by (auto simp: rbind_Inr)
    with Cons.IH [OF rest] free_live [OF m v] show ?case by (simp add: live_of_def)
  qed simp
qed

text \<open>The parts of a run that returns.\<close>

lemma run_parts:
  assumes "run dll np f rf ki a s = (Inr out, t)"
  obtains in_args input_params s1 out_args output_params s2 wksp s3 tls s4 knl_args s5 s6 where
    "fill_inputs dll np f (inputs_of (ra_inputs a)) s = (Inr (in_args, input_params), s1)"
    "fill_outputs dll np (kernels s ! ki) (ra_refs a) (ra_actual_output_info a) input_params s1
       = (Inr (out_args, output_params), s2)"
    "fill_workspace dll (kernels s ! ki) s2 = (Inr wksp, s3)"
    "fill_tiling dll (kernels s ! ki) (ra_tiling a) s3 = (Inr tls, s4)"
    "mapE arg_value (in_args @ out_args @ map Some wksp @ map Some tls) = Inr knl_args"
    "execute_kernel dll rf ki knl_args
       (if truthy (ra_block_dim a) then ra_block_dim a else block_dim (kernels s ! ki)) s4 = (Inr (), s5)"
    "for_each (\<lambda>p. on_api (free dll p)) wksp s5 = (Inr (), s6)"
    "for_each (\<lambda>p. on_api (free dll p)) tls s6 = (Inr (), t)"
    "out = (case output_params of [o'] \<Rightarrow> One_Output o' | os \<Rightarrow> Outputs os)"
  using assms by (auto simp: run_def rbind_Inr)

definition unowned :: "('d \<Rightarrow> ptr multiset) \<Rightarrow> ('d, 'n) runner \<Rightarrow> ptr multiset" where
  "unowned live s = live_of live s - owned s"

lemma balanced_unowned:
  assumes "balanced live s w t" and "owned s \<subseteq># live_of live s"
  shows "live_of live t = unowned live s + owned t + w"
proof -
  obtain d where d: "live_of live s = owned s + d" using assms(2) by (meson mset_subset_eq_exists_conv)
  have "live_of live t + owned s = (d + owned t + w) + owned s"
    using assms(1) by (simp add: balanced_def d ac_simps)
  then show ?thesis by (simp add: unowned_def d)
qed

text \<open>
  A run that returns frees its workspace and its tiling data and nothing else: the live
  device buffers that no parameter object owns are the same as before, and every buffer of
  a parameter object is still live.
\<close>

lemma run_unowned:
  assumes "memory_model dll live" and "owned s \<subseteq># live_of live s"
    and "list_all (valid_input s) (inputs_of (ra_inputs a))"
    and "run dll np f read_file ki a s = (Inr out, t)"
  shows "unowned live t = unowned live s \<and> owned t \<subseteq># live_of live t"
proof -
  note m = assms(1)
  obtain in_args ips s1 out_args ops s2 wksp s3 tls s4 args s5 s6 bl where
    1: "fill_inputs dll np f (inputs_of (ra_inputs a)) s = (Inr (in_args, ips), s1)"
    and 2: "fill_outputs dll np (kernels s ! ki) (ra_refs a) (ra_actual_output_info a) ips s1
       = (Inr (out_args, ops), s2)"
    and 3: "fill_workspace dll (kernels s ! ki) s2 = (Inr wksp, s3)"
    and 4: "fill_tiling dll (kernels s ! ki) (ra_tiling a) s3 = (Inr tls, s4)"
    and 5: "execute_kernel dll read_file ki args bl s4 = (Inr (), s5)"
    and 6: "for_each (\<lambda>p. on_api (free dll p)) wksp s5 = (Inr (), s6)"
    and 7: "for_each (\<lambda>p. on_api (free dll p)) tls s6 = (Inr (), t)"
    using assms(4) by (elim run_parts)
  have "balanced live s {#} s2"
    using bal.acc_none fill_inputs_balanced [OF m 1 assms(3)] fill_outputs_balanced [OF m 2] by blast
  then have "balanced live s (mset wksp + mset tls) s4"
    using bal.acc_none balanced_trans fill_workspace_balanced [OF m 3] fill_tiling_balanced [OF m 4]
    by blast
  then have "balanced live s (mset wksp + mset tls) s5"
    using execute_kernel_balanced [OF m 5] balanced_trans [of live s _ s4 "{#}" s5] by simp
  then have "live_of live s5 = unowned live s + owned s5 + (mset wksp + mset tls)"
    by (rule balanced_unowned [OF _ assms(2)])
  moreover have "live_of live t = live_of live s5 - mset wksp - mset tls" "owned t = owned s5"
    using free_all [OF m 6] free_all [OF m 7] by (simp_all add: owned_def)
  ultimately show ?thesis
    by (simp add: unowned_def [of live t] add.assoc [symmetric])
qed


section \<open>An example run\<close>

definition np_ex :: "byte list numpy" where
  "np_ex = \<lparr>nd_shape = \<lambda>a. PyTuple [PyInt (int (length a))], nd_type = \<lambda>_. ''uint8'',
     nd_bytes = \<lambda>a. a, nd_len = \<lambda>a. int (length a), nd_take = \<lambda>n a. take (nat n) a,
     nd_reshape = \<lambda>_ a. Inr a, np_fromfile = \<lambda>_ _. Inr [], np_frombuffer = \<lambda>b _. Inr b,
     calc_shape_size = \<lambda>v. case v of PyTuple [PyInt n] \<Rightarrow> Inr n | _ \<Rightarrow> Inl TypeError\<rparr>"

definition kernel_ex :: op_kernel where
  "kernel_ex = \<lparr>bin_path = ''k.o'', json_path = ''k.json'', block_dim = PyInt 1,
     stub_func_name = PyStr ''k'', magic = PyNone, workspace = PyList [PyInt 64],
     has_tiling = True, tiling_data_size = PyInt 8, stub_func_p = None, input_infos = [],
     output_infos = [[(''shape'', PyTuple [PyInt 4]), (''dtype'', PyStr ''uint8'')]],
     compile_info = PyNone, need_do_tiling = True\<rparr>"

definition runner_ex :: "nat \<Rightarrow> (sim, byte list) runner" where
  "runner_ex fails = \<lparr>api = sim_start fails, objects = [], kernels = [kernel_ex], kernel_params = [],
     run_stream = 1, profiling = False, profiling_times = 1\<rparr>"

definition args_run_ex :: "byte list run_args" where
  "args_run_ex = \<lparr>ra_inputs = Single (Array [1, 2]), ra_refs = [], ra_tiling = Some [7],
     ra_block_dim = PyNone, ra_actual_output_info = None\<rparr>"

definition fs_ex :: fs where
  "fs_ex = \<lparr>fs_realpath = \<lambda>p. p, fs_exists = \<lambda>_. True, fs_isdir = \<lambda>_. False, fs_isfile = \<lambda>_. True,
     fs_readable = \<lambda>_. True, fs_writable = \<lambda>_. True, fs_size = \<lambda>_. None, fs_listdir = \<lambda>_. []\<rparr>"

definition run_ex :: "nat \<Rightarrow> (rts_exn + op_outputs) \<times> (sim, byte list) runner" where
  "run_ex fails = run sim_dll np_ex fs_ex (\<lambda>_. Some [1]) 0 args_run_ex (runner_ex fails)"

definition sim_memory :: "sim \<Rightarrow> ptr multiset" where
  "sim_memory d = mset (sim_live d)"

lemma sim_memory_model: "memory_model sim_dll sim_memory"
  by (auto simp: memory_model_def allocates_def keeps_live_def sim_memory_def sim_dll_def sim_ok_def
      sim_new_def sim_alloc_def sim_copy_def split: if_splits)

lemma run_ex_returns: "fst (run_ex 0) = Inr (One_Output 1)"
  by code_simp

text \<open>
  Only a run that returns is clean. When the tiling data is missing, \<^verbatim>\<open>run\<close> raises after the
  workspace has been allocated: the buffer stays live and no object knows it.
\<close>

lemma failed_run_leaks:
  "(let (r, t) = run sim_dll np_ex fs_ex (\<lambda>_. Some [1]) 0 (args_run_ex\<lparr>ra_tiling := None\<rparr>) (runner_ex 0)
    in r = Inl (RtsRuntime ''Tiling data is None'' '''') \<and> map hbm_pointer (objects t) = [Some 1, Some 2]
       \<and> sim_live (device (api t)) = [3, 2, 1])"
  by code_simp

section \<open>Outputs that refer to inputs\<close>

lemma each_const:
  assumes "\<And>x s. x \<in> set xs \<Longrightarrow> P s \<Longrightarrow> \<exists>t. f x s = (Inr y, t) \<and> P t" and "P s"
  shows "\<exists>t. each f xs s = (Inr (replicate (length xs) y), t) \<and> P t"
  using assms
proof (induction xs arbitrary: s)
  case Nil
  then show ?case by simp
next
  case (Cons x xs)
  obtain r where r: "f x s = (Inr y, r)" "P r"
    using Cons.prems by (meson list.set_intros(1))
  then obtain t where "each f xs r = (Inr (replicate (length xs) y), t)" "P t"
    using Cons.IH [of r] Cons.prems(1) by (meson list.set_intros(2))
  with r show ?case by (auto simp: rbind_def ret_def)
qed

text \<open>Without a pair for output 0, the pairs are not looked at.\<close>

lemma output_refs_without_zero:
  "map_of (rev refs) 0 = None \<Longrightarrow>
     fill_outputs dll np k refs actual ps = fill_outputs dll np k [] actual ps"
  by (simp add: fill_outputs_def fill_output_def [abs_def])

text \<open>
  \<^verbatim>\<open>_fill_outputs\<close> never advances its output index: as soon as the pairs name an input for
  output 0, that input's parameter becomes every output, whatever the other pairs say.
\<close>

theorem output_refs_of_zero:
  assumes "map_of (rev refs) 0 = Some j" and "list_get ps j = Inr i"
    and "infos = List.map_filter (\<lambda>i. i) (output_info_list k actual)"
  shows "\<exists>t. fill_outputs dll np k refs actual ps s
    = (Inr (replicate (length infos) (hbm_pointer (objects s ! i)), replicate (length infos) i), t)
    \<and> objects t = objects s"
proof -
  let ?f = "\<lambda>info. rbind (fill_output dll np refs ps info) (\<lambda>i. gets (\<lambda>s. (hbm_pointer (objects s ! i), i)))"
  let ?y = "(hbm_pointer (objects s ! i), i)"
  have step: "\<exists>t. ?f info r = (Inr ?y, t) \<and> objects t = objects s" if "objects r = objects s" for info r
  proof -
    have "fill_output dll np refs ps info r = (Inr i, snd (cache_kernel_param i r))"
      using assms(1,2)
      by (simp add: fill_output_def rbind_def lift_res_def ret_def cache_kernel_param_def modify_def)
    moreover have "objects (snd (cache_kernel_param i r)) = objects r"
      by (simp add: cache_kernel_param_def modify_def)
    ultimately show ?thesis using that by (simp add: rbind_def gets_def)
  qed
  obtain t where "each ?f infos s = (Inr (replicate (length infos) ?y), t)" "objects t = objects s"
    using each_const [where P = "\<lambda>r. objects r = objects s" and f = ?f and y = ?y and s = s and xs = infos]
      step by blast
  then show ?thesis by (simp add: assms(3) fill_outputs_def rbind_def ret_def)
qed

definition refs_ex :: "(sim, byte list) runner" where
  "refs_ex = (runner_ex 0)\<lparr>objects := replicate 7
     \<lparr>np_data = None, is_const = False, kp_shape = PyNone, kp_dtype = PyNone, kp_size = 0,
      kp_shape_size = 0, hbm_pointer = Some 9, on_device = True\<rparr>\<rparr>"

theorem output_refs_of_zero_witness:
  "\<exists>t. fill_outputs sim_dll np_ex kernel_ex [(1, 1), (0, 0)] (Some [Some [], None, Some []]) [5, 6] refs_ex
     = (Inr ([Some 9, Some 9], [5, 5]), t)"
proof -
  have pair: "map_of (rev [(1, 1), (0, 0)]) 0 = Some (0 :: int)" by simp
  have get: "list_get [5, 6] 0 = Inr (5 :: nat)" by (simp add: list_get_def)
  have "List.map_filter (\<lambda>i. i) (output_info_list kernel_ex (Some [Some [], None, Some []])) = [[], []]"
    by (simp add: output_info_list_def List.map_filter_simps)
  moreover have "hbm_pointer (objects refs_ex ! 5) = Some 9" by (simp add: refs_ex_def)
  ultimately show ?thesis
    using output_refs_of_zero [OF pair get refl, where dll = sim_dll and np = np_ex and k = kernel_ex
        and actual = "Some [Some [], None, Some []]" and s = refs_ex]
    by (auto simp: numeral_2_eq_2)
qed

end
