(* ===== verification/Runner_Session.thy ===== *)
theory Runner_Session
  imports Runner_Memory
begin

text \<open>
  The life of a runner as a state machine: it is created, it builds parameters, runs kernels and
  reads results back, and it is left. The theory shows that the memory of the device is accounted
  for throughout, and that a kernel is registered once.
\<close>

section \<open>Calls that touch the device only\<close>

definition same_host :: "'d rts \<Rightarrow> 'd rts \<Rightarrow> bool" where
  "same_host s t \<longleftrightarrow> device_id t = device_id s \<and> cur_context t = cur_context s \<and> camodel t = camodel s
     \<and> simulator t = simulator s \<and> ld_library_path t = ld_library_path s
     \<and> kernel_binary_storage t = kernel_binary_storage s
     \<and> kernel_name_storage t = kernel_name_storage s \<and> context_storage t = context_storage s"

definition device_only :: "('d, 'a) rt \<Rightarrow> bool" where
  "device_only m \<longleftrightarrow> (\<forall>s r t. m s = (r, t) \<longrightarrow> same_host s t)"

named_theorems device_only_intros \<open>which calls touch the device only\<close>

lemma same_host_simps [simp]: "same_host s s" "same_host s (s\<lparr>device := d\<rparr>)"
  by (simp_all add: same_host_def)

lemma same_host_trans: "same_host s t \<Longrightarrow> same_host t u \<Longrightarrow> same_host s u"
  by (simp add: same_host_def)

lemma device_only_checked [device_only_intros]: "device_only (checked f)"
  by (auto simp: device_only_def checked_eq split: prod.splits)

lemma device_only_checked_out [device_only_intros]: "device_only (checked_out f)"
  by (auto simp: device_only_def checked_out_eq split: prod.splits)

lemma device_only_pure [device_only_intros]:
  "device_only (ret x)" "device_only (raise e)" "device_only (gets g)" "device_only (lookup d k)"
  by (auto simp: device_only_def ret_def raise_def gets_def lookup_def split: option.splits)

lemma device_only_rbind [device_only_intros]:
  assumes "device_only m" and "\<And>x. device_only (f x)"
  shows "device_only (rbind m f)"
  using assms unfolding device_only_def
  by (auto simp: rbind_def split: prod.splits sum.splits) (blast intro: same_host_trans)+

lemma device_only_memcpy [device_only_intros]: "device_only (memcpy dll p m src n kind r)"
proof -
  have "same_host s t" if "memcpy dll p m src n kind r s = (x, t)" for s x t
    using that
  proof (induction dll p m src n kind r s rule: memcpy.induct)
    case (1 dll p m src n kind r s)
    show ?case
    proof (cases "map_of RT_MEMCPY_KIND kind")
      case None
      then show ?thesis using 1(2) by (auto simp: memcpy.simps)
    next
      case (Some k)
      obtain y s' where y: "checked (rtMemcpy dll p (word_of_int m) src (word_of_int n) k) s = (y, s')"
        by fastforce
      then have first: "same_host s s'" using device_only_checked unfolding device_only_def by blast
      have "same_host s' t"
        using 1 Some y
        by (subst (asm) memcpy.simps) (auto split: sum.splits rts_exn.splits if_splits)
      with first show ?thesis by (rule same_host_trans)
    qed
  qed
  then show ?thesis by (auto simp: device_only_def)
qed

lemma device_only_malloc [device_only_intros]: "device_only (malloc dll n t p)"
  unfolding malloc_def by (intro device_only_intros)

lemma device_only_copy_bin_to_hbm [device_only_intros]: "device_only (copy_bin_to_hbm dll bs)"
proof -
  have "device_only (get_memory_info_ex dll ''RT_MEMORYINFO_HBM'')"
    unfolding get_memory_info_ex_def by (auto intro!: device_only_intros split: option.split)
  then have info: "same_host s t" if "get_memory_info_ex dll ''RT_MEMORYINFO_HBM'' s = (r, t)" for s r t
    using that unfolding device_only_def by blast
  have "device_only (hbm_alloc dll n)" for n
    unfolding device_only_def
  proof (intro allI impI)
    fix s r t assume run: "hbm_alloc dll n s = (r, t)"
    obtain a s1 where a: "malloc dll (hbm_size n) ''RT_MEMORY_HBM'' ''RT_MEMORY_POLICY_NONE'' s = (a, s1)"
      by fastforce
    obtain b s2 where b: "get_memory_info_ex dll ''RT_MEMORYINFO_HBM'' s1 = (b, s2)" by fastforce
    have "t = s1 \<or> t = s2" using run by (auto simp: hbm_alloc_def a b split: sum.splits)
    moreover have "same_host s s1" using a device_only_malloc unfolding device_only_def by blast
    ultimately show "same_host s t" using info [OF b] same_host_trans by blast
  qed
  then show ?thesis unfolding copy_bin_to_hbm_def by (intro device_only_intros)
qed

lemma device_only_rest [device_only_intros]:
  "device_only (free dll p)" "device_only (memset dll p m x n)"
  "device_only (launch_kernel dll f b xs k st)" "device_only (synchronize_with_stream dll st)"
  "device_only (start_online_profiling dll st c)" "device_only (stop_online_profiling dll st)"
  "device_only (get_online_profiling_data dll st c)" "device_only (get_data_from_hbm dll p k)"
  unfolding free_def memset_def launch_kernel_def synchronize_with_stream_def
    start_online_profiling_def stop_online_profiling_def get_online_profiling_data_def
    get_data_from_hbm_def host_malloc_def
  by (auto intro!: device_only_intros)

section \<open>Relations that successful steps respect\<close>

definition stays_in :: "('s \<Rightarrow> 's \<Rightarrow> bool) \<Rightarrow> ('s, 'a) sm \<Rightarrow> bool" where
  "stays_in R m \<longleftrightarrow> (\<forall>s x t. m s = (Inr x, t) \<longrightarrow> R s t)"

lemma stays_inD: "m s = (Inr x, t) \<Longrightarrow> stays_in R m \<Longrightarrow> R s t"
  by (auto simp: stays_in_def)

locale step_order =
  fixes R :: "'s \<Rightarrow> 's \<Rightarrow> bool"
  assumes step_refl: "R s s"
    and step_trans: "R s t \<Longrightarrow> R t u \<Longrightarrow> R s u"
begin

lemma pure: "stays_in R (ret x)" "stays_in R (raise e)" "stays_in R (gets g)" "stays_in R (lift_res r)"
  by (auto simp: stays_in_def step_refl)

lemma seq: "stays_in R m \<Longrightarrow> (\<And>x. stays_in R (f x)) \<Longrightarrow> stays_in R (rbind m f)"
  unfolding stays_in_def rbind_Inr by (blast intro: step_trans)

lemma loop: "(\<And>x. x \<in> set xs \<Longrightarrow> stays_in R (f x)) \<Longrightarrow> stays_in R (each f xs)"
  by (induction xs) (auto intro!: pure seq)

lemma for_loop: "(\<And>x. x \<in> set xs \<Longrightarrow> stays_in R (f x)) \<Longrightarrow> stays_in R (for_each f xs)"
  unfolding for_each_def by (intro pure seq loop)

end

text \<open>An accounting relation without an account is such a relation.\<close>

sublocale accounting \<subseteq> none: step_order "\<lambda>s t. acc s 0 t"
  by unfold_locales (rule acc_refl, rule acc_none)

section \<open>A kernel is registered once\<close>

definition silent_step :: "('d, 'n) runner \<Rightarrow> ('d, 'n) runner \<Rightarrow> bool" where
  "silent_step s t \<longleftrightarrow> kernels t = kernels s
     \<and> kernel_binary_storage (api t) = kernel_binary_storage (api s)
     \<and> kernel_name_storage (api t) = kernel_name_storage (api s)"

interpretation silent: step_order silent_step
  by unfold_locales (simp_all add: silent_step_def)

named_theorems silent_intros \<open>operations that register nothing\<close>

lemmas silent_rules = silent.pure silent.seq silent.loop silent.for_loop

lemma silent_op_api [silent_intros]: "device_only m \<Longrightarrow> stays_in silent_step (on_api m)"
  by (auto simp: stays_in_def silent_step_def device_only_def same_host_def)

lemma silent_op_update [silent_intros]: "stays_in silent_step (update_object i f)" "stays_in silent_step (cache_kernel_param i)"
  by (auto simp: stays_in_def silent_step_def cache_kernel_param_def)

lemma silent_op_init_param [silent_intros]: "stays_in silent_step (init_param np data sh dt dev hbm)"
  unfolding stays_in_def by (auto dest!: init_param_ok simp: silent_step_def)

lemma silent_op_params [silent_intros]:
  "stays_in silent_step (sync_to_device dll np i)" "stays_in silent_step (build_kernel_param dll np f d sh dt)"
proof -
  show sync: "stays_in silent_step (sync_to_device dll np i)" for i
    unfolding sync_to_device_def
    by (auto intro!: silent_rules silent_intros device_only_intros split: option.split)
  have append: "stays_in silent_step (modify (\<lambda>s. s\<lparr>kernel_params := kernel_params s @ [i]\<rparr>))" for i
    by (simp add: stays_in_def silent_step_def)
  show "stays_in silent_step (build_kernel_param dll np f d sh dt)"
    unfolding build_kernel_param_def build_kernel_param_np_def build_op_param_by_data_file_def
      build_op_param_by_np_data_def
    by (auto intro!: silent_rules silent_intros sync append split: sum.split)
qed

lemma silent_op_fill [silent_intros]:
  "stays_in silent_step (fill_inputs dll np f xs)" "stays_in silent_step (fill_workspace dll k)"
  "stays_in silent_step (fill_outputs dll np k refs actual ps)" "stays_in silent_step (fill_tiling dll k tiling)"
  unfolding fill_inputs_def fill_input_def fill_workspace_def fill_outputs_def fill_output_def
    new_output_def fill_tiling_def
  by (auto intro!: silent_rules silent_intros device_only_intros split: op_input.split option.split list.split prod.split)

lemma silent_op_launch [silent_intros]: "stays_in silent_step (launch_once dll ki args blocks)"
  unfolding launch_once_def
  by (auto intro!: silent_rules silent_intros device_only_intros split: prod.split)

text \<open>What registering a kernel does to the kernel itself.\<close>

lemma register_kernel_registered:
  assumes "register_kernel dll rf ki s = (Inr u, t)" and "ki < length (kernels s)"
  shows "is_registered_to_device (kernels t ! ki)
    \<and> (is_registered_to_device (kernels s ! ki) \<longrightarrow> silent_step s t)
    \<and> length (kernels t) = length (kernels s)"
proof (cases "is_registered_to_device (kernels s ! ki)")
  case True
  with assms show ?thesis by (auto simp: register_kernel_def rbind_Inr silent.step_refl)
next
  case False
  with register_kernel_ok [OF assms(1)] assms(2) show ?thesis
    by (auto simp: is_registered_to_device_def set_stub_func_p_def)
qed

lemma execute_kernel_registers:
  assumes run: "execute_kernel dll rf ki args blocks s = (Inr u, t)" and ki: "ki < length (kernels s)"
  shows "is_registered_to_device (kernels t ! ki)
    \<and> (is_registered_to_device (kernels s ! ki) \<longrightarrow> silent_step s t)
    \<and> length (kernels t) = length (kernels s)"
proof -
  obtain a b c where 1: "(if profiling s then on_api (start_online_profiling dll (run_stream s) (profiling_times s))
      else ret ()) s = (Inr (), a)"
    and 2: "register_kernel dll rf ki a = (Inr (), b)"
    and 3: "for_each (\<lambda>_. launch_once dll ki args blocks)
      [0..<(if profiling s then nat (profiling_times s) else 1)] b = (Inr (), c)"
    and 4: "(if profiling s
       then rbind (on_api (get_online_profiling_data dll (run_stream s) (profiling_times s))) (\<lambda>_.
            on_api (stop_online_profiling dll (run_stream s)))
       else ret ()) c = (Inr (), t)"
    using run by (auto simp: execute_kernel_def rbind_Inr)
  have a: "silent_step s a" using 1
    by (rule stays_inD) (auto intro!: silent_rules silent_intros device_only_intros)
  have c: "silent_step b c" using 3
    by (rule stays_inD) (intro silent_rules silent_intros)
  have t: "silent_step c t" using 4
    by (rule stays_inD) (auto intro!: silent_rules silent_intros device_only_intros)
  have "silent_step b t" using c t by (rule silent.step_trans)
  then show ?thesis
    using register_kernel_registered [OF 2] a ki
    by (auto simp: silent_step_def)
qed


lemma run_registers:
  assumes run: "run dll np f rf ki a s = (Inr out, t)" and ki: "ki < length (kernels s)"
  shows "is_registered_to_device (kernels t ! ki)
    \<and> (is_registered_to_device (kernels s ! ki) \<longrightarrow> silent_step s t)
    \<and> length (kernels t) = length (kernels s)"
proof -
  obtain in_args ips s1 out_args ops s2 wksp s3 tls s4 args s5 s6 bl where
    1: "fill_inputs dll np f (inputs_of (ra_inputs a)) s = (Inr (in_args, ips), s1)"
    and 2: "fill_outputs dll np (kernels s ! ki) (ra_refs a) (ra_actual_output_info a) ips s1
       = (Inr (out_args, ops), s2)"
    and 3: "fill_workspace dll (kernels s ! ki) s2 = (Inr wksp, s3)"
    and 4: "fill_tiling dll (kernels s ! ki) (ra_tiling a) s3 = (Inr tls, s4)"
    and 5: "execute_kernel dll rf ki args bl s4 = (Inr (), s5)"
    and 6: "for_each (\<lambda>p. on_api (free dll p)) wksp s5 = (Inr (), s6)"
    and 7: "for_each (\<lambda>p. on_api (free dll p)) tls s6 = (Inr (), t)"
    using run by (elim run_parts)
  have "silent_step s s1" "silent_step s1 s2" "silent_step s2 s3" "silent_step s3 s4"
    using 1 2 3 4 by (blast intro: stays_inD silent_intros)+
  then have before: "silent_step s s4" by (simp add: silent_step_def)
  have "silent_step s5 s6" using 6
    by (rule stays_inD) (intro silent_rules silent_intros device_only_intros)
  moreover have "silent_step s6 t" using 7
    by (rule stays_inD) (intro silent_rules silent_intros device_only_intros)
  ultimately have after: "silent_step s5 t" by (simp add: silent_step_def)
  show ?thesis
    using execute_kernel_registers [OF 5] before after ki by (auto simp: silent_step_def)
qed


text \<open>
  C31. A kernel is registered by its first run that returns; a later run of it with the same
  runner registers nothing: the kernel objects and the interface's storages stay as they are.
\<close>

theorem kernel_registered_once:
  assumes "run dll np f read_file ki a s = (Inr out, t)" and "ki < length (kernels s)"
    and "run dll np f' read_file' ki a' t = (Inr out', u)"
  shows "is_registered_to_device (kernels t ! ki) \<and> kernels u = kernels t
    \<and> kernel_binary_storage (api u) = kernel_binary_storage (api t)
    \<and> kernel_name_storage (api u) = kernel_name_storage (api t)"
proof -
  from run_registers [OF assms(1,2)]
  have t: "is_registered_to_device (kernels t ! ki)" "ki < length (kernels t)"
    using assms(2) by simp_all
  with run_registers [OF assms(3)] show ?thesis by (simp add: silent_step_def)
qed

definition second_run_ex :: "(rts_exn + op_outputs) \<times> (sim, byte list) runner" where
  "second_run_ex =
     run sim_dll np_ex fs_ex (\<lambda>_. Some [1]) 0 (args_run_ex\<lparr>ra_inputs := Several [Param 0]\<rparr>) (snd (run_ex 0))"

lemma second_run_returns: "fst second_run_ex = Inr (One_Output 2)"
  by code_simp

theorem kernel_registered_once_witness:
  "kernels (snd second_run_ex) = kernels (snd (run_ex 0))"
proof -
  have first: "run sim_dll np_ex fs_ex (\<lambda>_. Some [1]) 0 args_run_ex (runner_ex 0)
      = (Inr (One_Output 1), snd (run_ex 0))"
    using run_ex_returns by (metis prod.collapse run_ex_def)
  have second: "run sim_dll np_ex fs_ex (\<lambda>_. Some [1]) 0 (args_run_ex\<lparr>ra_inputs := Several [Param 0]\<rparr>)
      (snd (run_ex 0)) = (Inr (One_Output 2), snd second_run_ex)"
    using second_run_returns by (metis prod.collapse second_run_ex_def)
  show ?thesis
    using kernel_registered_once [OF first _ second] by (simp add: runner_ex_def)
qed

section \<open>The registered parameters\<close>

text \<open>
  The invariant of a runner between two calls: the parameters it has cached exist, and every
  object that holds a buffer is cached, is bound to the device and has a real pointer.
\<close>

definition holder_ok :: "nat list \<Rightarrow> nat \<Rightarrow> 'n kernel_param \<Rightarrow> bool" where
  "holder_ok cached i p =
     (case hbm_pointer p of None \<Rightarrow> True | Some q \<Rightarrow> q \<noteq> 0 \<and> on_device p \<and> i \<in> set cached)"

definition tracked :: "('d, 'n) runner \<Rightarrow> bool" where
  "tracked s \<longleftrightarrow> list_all (\<lambda>i. i < length (objects s)) (kernel_params s)
     \<and> (\<forall>i < length (objects s). holder_ok (kernel_params s) i (objects s ! i))"

definition same_params :: "('d, 'n) runner \<Rightarrow> ('d, 'n) runner \<Rightarrow> bool" where
  "same_params s t \<longleftrightarrow> objects t = objects s \<and> kernel_params t = kernel_params s"

interpretation params: step_order same_params
  by unfold_locales (simp_all add: same_params_def)

lemmas params_rules = params.pure params.seq params.loop params.for_loop

lemma same_params_api: "stays_in same_params (on_api m)"
  by (auto simp: stays_in_def same_params_def)

lemma tracked_same: "same_params s t \<Longrightarrow> tracked s \<Longrightarrow> tracked t"
  by (simp add: same_params_def tracked_def)

definition keeps_tracked :: "('d, 'n) runner \<Rightarrow> ('d, 'n) runner \<Rightarrow> bool" where
  "keeps_tracked s t \<longleftrightarrow> (tracked s \<longrightarrow> tracked t)"

interpretation tracked: step_order keeps_tracked
  by unfold_locales (simp_all add: keeps_tracked_def)

lemma holder_ok_more: "holder_ok c i p \<Longrightarrow> holder_ok (c @ d) i p"
  by (auto simp: holder_ok_def split: option.splits)

lemma tracked_cache: "cache_kernel_param i s = (Inr u, t) \<Longrightarrow> tracked s \<Longrightarrow> i < length (objects s) \<Longrightarrow> tracked t"
  by (auto simp: cache_kernel_param_def tracked_def intro: holder_ok_more split: if_splits)

text \<open>What \<^verbatim>\<open>sync_to_device\<close> makes of a parameter.\<close>

lemma sync_to_device_ok:
  assumes m: "memory_model dll live" and run: "sync_to_device dll np i s = (Inr u, t)"
    and i: "i < length (objects s)"
  shows "\<exists>v q p. t = s\<lparr>api := v, objects := (objects s)[i := q]\<rparr> \<and> hbm_pointer q = Some p
    \<and> p \<noteq> 0 \<and> on_device q"
proof -
  define ps where "ps = (objects s)[i := (objects s ! i)\<lparr>on_device := True\<rparr>]"
  obtain bs p v where copy: "copy_bin_to_hbm dll bs (api s) = (Inr p, v)"
    and t: "t = s\<lparr>api := v, objects := ps[i := (ps ! i)\<lparr>hbm_pointer := Some p\<rparr>]\<rparr>"
    using run i by (auto simp: sync_to_device_def rbind_Inr ps_def split: option.splits)
  have "ps[i := (ps ! i)\<lparr>hbm_pointer := Some p\<rparr>]
      = (objects s)[i := (objects s ! i)\<lparr>on_device := True, hbm_pointer := Some p\<rparr>]"
    using i by (simp add: ps_def)
  with t copy_bin_to_hbm_live [OF m copy] show ?thesis
    by (intro exI [of _ v] exI [of _ "(objects s ! i)\<lparr>on_device := True, hbm_pointer := Some p\<rparr>"]
        exI [of _ p]) simp
qed

lemma tracked_update:
  assumes "tracked s" and "i \<in> set (kernel_params s)" and "hbm_pointer q = Some p" and "p \<noteq> 0" and "on_device q"
  shows "tracked (s\<lparr>api := v, objects := (objects s)[i := q]\<rparr>)"
proof -
  have "i < length (objects s)" using assms(1,2) by (simp add: tracked_def list_all_iff)
  with assms show ?thesis by (auto simp: tracked_def nth_list_update holder_ok_def)
qed

lemma tracked_sync:
  assumes "memory_model dll live" and "sync_to_device dll np i s = (Inr u, t)"
    and "i \<in> set (kernel_params s)" and "tracked s"
  shows "tracked t"
proof -
  have "i < length (objects s)" using assms(3,4) by (simp add: tracked_def list_all_iff)
  from sync_to_device_ok [OF assms(1,2) this] assms(3,4) show ?thesis by (auto intro: tracked_update)
qed

lemma tracked_build:
  assumes m: "memory_model dll live" and run: "build_kernel_param dll np f data shape dtype s = (Inr i, t)"
    and s: "tracked s"
  shows "tracked t"
proof -
  obtain r u where build: "(case data of Inl path \<Rightarrow> build_op_param_by_data_file np f path dtype shape
        | Inr a \<Rightarrow> build_op_param_by_np_data np a) s = (Inr i, r)"
    and sync: "sync_to_device dll np i r = (Inr (), u)"
    and t: "t = u\<lparr>kernel_params := kernel_params u @ [i]\<rparr>"
    using run unfolding build_kernel_param_def build_kernel_param_np_def by (auto simp: rbind_Inr)
  have "\<exists>a. init_param np (Some a) PyNone PyNone False None s = (Inr i, r)"
    using build
    by (auto simp: build_op_param_by_data_file_def build_op_param_by_np_data_def rbind_Inr
        split: sum.splits if_splits)
  then obtain p where r: "i = length (objects s)" "r = s\<lparr>objects := objects s @ [p]\<rparr>"
    using init_param_ok by blast
  from sync_to_device_ok [OF m sync] r obtain v q x where
    "u = r\<lparr>api := v, objects := (objects r)[i := q]\<rparr>" "hbm_pointer q = Some x" "x \<noteq> 0" "on_device q"
    by auto
  with s show ?thesis
    by (auto simp: t r tracked_def list_all_iff holder_ok_def nth_append split: option.splits)
qed


lemma tracked_fill_input:
  assumes m: "memory_model dll live" and run: "fill_input dll np f x s = (Inr y, t)"
    and valid: "valid_input s x" and s: "tracked s"
  shows "tracked t \<and> list_all (\<lambda>i. i < length (objects t)) (snd y)"
proof (cases x)
  case (Param i)
  obtain r where r: "cache_kernel_param i s = (Inr (), r)"
    and sync: "(if is_in_device (objects r ! i) then ret () else sync_to_device dll np i) r = (Inr (), t)"
    and y: "y = (hbm_pointer (objects t ! i), [i])"
    using run by (auto simp: fill_input_def Param rbind_Inr)
  have i: "i < length (objects s)" using valid by (simp add: valid_input_def Param)
  have "tracked r" using tracked_cache [OF r s i] .
  moreover have "i \<in> set (kernel_params r)" using r by (auto simp: cache_kernel_param_def split: if_splits)
  ultimately have "tracked t"
    using sync tracked_sync [OF m, of np i r "()" t] by (auto split: if_splits)
  moreover have "i < length (objects t)"
    using sync r i sync_to_device_ok [OF m, of np i r "()" t]
    by (auto simp: cache_kernel_param_def split: if_splits)
  ultimately show ?thesis by (simp add: y)
next
  case (File path)
  with run s show ?thesis
    by (auto simp: fill_input_def rbind_Inr dest: tracked_build [OF m])
next
  case (Array a)
  with run s show ?thesis
    by (auto simp: fill_input_def rbind_Inr dest: tracked_build [OF m])
qed

lemma tracked_fill_inputs:
  assumes m: "memory_model dll live" and run: "fill_inputs dll np f xs s = (Inr (args, ps), t)"
    and valid: "list_all (valid_input s) xs" and s: "tracked s"
  shows "tracked t \<and> list_all (\<lambda>i. i < length (objects t)) ps"
proof -
  obtain ys where ys: "each (fill_input dll np f) xs s = (Inr ys, t)" and ps: "ps = concat (map snd ys)"
    using run by (auto simp: fill_inputs_def rbind_Inr)
  from ys valid s have "tracked t \<and> list_all (\<lambda>y. list_all (\<lambda>i. i < length (objects t)) (snd y)) ys
      \<and> length (objects s) \<le> length (objects t)"
  proof (induction xs arbitrary: s ys)
    case (Cons x xs)
    then obtain y zs r where y: "fill_input dll np f x s = (Inr y, r)" "each (fill_input dll np f) xs r = (Inr zs, t)"
      "ys = y # zs"
      by (auto simp: rbind_Inr)
    have vx: "valid_input s x" using Cons.prems(2) by simp
    have r: "tracked r" "list_all (\<lambda>i. i < length (objects r)) (snd y)"
      using tracked_fill_input [OF m y(1) vx Cons.prems(3)] by simp_all
    have "balanced live s {#} r"
      using fill_input_balanced [OF m y(1)] vx by (cases x) (auto simp: valid_input_def)
    then have le: "length (objects s) \<le> length (objects r)" by (simp add: balanced_def)
    have "list_all (valid_input r) xs"
      using Cons.prems(2) le by (fastforce simp: list_all_iff valid_input_def split: op_input.splits)
    from Cons.IH [OF y(2) this r(1)] le r(2) show ?case
      by (auto simp: y(3) list_all_iff)
  qed simp
  then show ?thesis by (auto simp: ps list_all_iff)
qed

lemma list_get_in: "list_get xs i = Inr x \<Longrightarrow> x \<in> set xs"
  by (auto simp: list_get_def split: if_splits)

lemma tracked_fill_output:
  assumes m: "memory_model dll live" and run: "fill_output dll np refs ps info s = (Inr i, t)"
    and ps: "list_all (\<lambda>i. i < length (objects s)) ps" and s: "tracked s"
  shows "tracked t \<and> length (objects s) \<le> length (objects t)"
proof -
  obtain r where pick: "(case map_of (rev refs) 0 of Some j \<Rightarrow> lift_res (list_get ps j)
                   | None \<Rightarrow> new_output dll np info) s = (Inr i, r)"
    and c: "cache_kernel_param i r = (Inr (), t)"
    using run by (auto simp: fill_output_def rbind_Inr)
  show ?thesis
  proof (cases "map_of (rev refs) 0")
    case None
    with pick obtain n p v w where a: "malloc dll n ''RT_MEMORY_DEFAULT'' ''RT_MEMORY_POLICY_NONE'' (api s) = (Inr p, v)"
      and b: "init_param np None (output_shape info) (dget info ''dtype'') True (Some p) (s\<lparr>api := w\<rparr>) = (Inr i, r)"
      by (auto simp: new_output_def rbind_Inr)
    from init_param_ok [OF b] obtain q where q: "i = length (objects s)" "hbm_pointer q = Some p" "on_device q"
      "r = s\<lparr>api := w, objects := objects s @ [q]\<rparr>" by auto
    have "i \<notin> set (kernel_params s)" using s q(1) by (auto simp: tracked_def list_all_iff)
    then have t: "t = s\<lparr>api := w, objects := objects s @ [q], kernel_params := kernel_params s @ [i]\<rparr>"
      using c by (simp add: q(4) cache_kernel_param_def)
    show ?thesis
      using s q malloc_live [OF m a]
      by (auto simp: t tracked_def list_all_iff holder_ok_def nth_append split: option.splits)
  next
    case (Some j)
    with pick have "r = s" "i < length (objects s)"
      using ps by (auto simp: list_all_iff dest: list_get_in)
    with tracked_cache [OF c] c s show ?thesis by (auto simp: cache_kernel_param_def)
  qed
qed

lemma tracked_fill_outputs:
  assumes m: "memory_model dll live" and run: "fill_outputs dll np k refs actual ps s = (Inr y, t)"
    and ps: "list_all (\<lambda>i. i < length (objects s)) ps" and s: "tracked s"
  shows "tracked t"
proof -
  define f where "f = (\<lambda>info. rbind (fill_output dll np refs ps info) (\<lambda>i.
      gets (\<lambda>s. (hbm_pointer (objects s ! i), i)) :: ('a, 'b, _) op))"
  obtain xs ys where "each f xs s = (Inr ys, t)"
    using run by (auto simp: fill_outputs_def rbind_Inr f_def)
  then show ?thesis using ps s
  proof (induction xs arbitrary: s ys)
    case (Cons x xs)
    then obtain i r zs where r: "fill_output dll np refs ps x s = (Inr i, r)" "each f xs r = (Inr zs, t)"
      by (auto simp: rbind_Inr f_def)
    from tracked_fill_output [OF m r(1) Cons.prems(2,3)] Cons.prems(2)
    show ?case by (intro Cons.IH [OF r(2)]) (auto simp: list_all_iff)
  qed simp
qed

lemma execute_same_params: "stays_in same_params (execute_kernel dll rf ki args blocks)"
proof -
  have "stays_in same_params (modify (\<lambda>s. s\<lparr>kernels := f s\<rparr>))" for f
    by (simp add: stays_in_def same_params_def)
  then show ?thesis
    unfolding execute_kernel_def register_kernel_def launch_once_def
    by (auto intro!: params_rules same_params_api split: prod.split pyval.split)
qed

lemma tracked_run:
  assumes m: "memory_model dll live" and valid: "list_all (valid_input s) (inputs_of (ra_inputs a))"
    and s: "tracked s" and run: "run dll np f rf ki a s = (Inr out, t)"
  shows "tracked t"
proof -
  obtain in_args ips s1 out_args ops s2 wksp s3 tls s4 args s5 s6 bl where
    1: "fill_inputs dll np f (inputs_of (ra_inputs a)) s = (Inr (in_args, ips), s1)"
    and 2: "fill_outputs dll np (kernels s ! ki) (ra_refs a) (ra_actual_output_info a) ips s1
       = (Inr (out_args, ops), s2)"
    and 3: "fill_workspace dll (kernels s ! ki) s2 = (Inr wksp, s3)"
    and 4: "fill_tiling dll (kernels s ! ki) (ra_tiling a) s3 = (Inr tls, s4)"
    and 5: "execute_kernel dll rf ki args bl s4 = (Inr (), s5)"
    and 6: "for_each (\<lambda>p. on_api (free dll p)) wksp s5 = (Inr (), s6)"
    and 7: "for_each (\<lambda>p. on_api (free dll p)) tls s6 = (Inr (), t)"
    using run by (elim run_parts)
  have "tracked s2" using tracked_fill_inputs [OF m 1 valid s] tracked_fill_outputs [OF m 2] by blast
  moreover have "same_params s2 s3" using 3
    by (rule stays_inD) (auto simp: fill_workspace_def intro!: params_rules same_params_api)
  moreover have "same_params s3 s4" using 4
    by (rule stays_inD) (auto simp: fill_tiling_def intro!: params_rules same_params_api split: option.split list.split)
  moreover have "same_params s4 s5" using 5 execute_same_params by (rule stays_inD)
  moreover have "same_params s5 s6" using 6
    by (rule stays_inD) (intro params_rules same_params_api)
  moreover have "same_params s6 t" using 7
    by (rule stays_inD) (intro params_rules same_params_api)
  ultimately show ?thesis by (blast intro: tracked_same)
qed


section \<open>Sessions\<close>

text \<open>
  What may happen between entering and leaving a runner: a kernel object is made, a parameter
  is built, a kernel is run, the data of a parameter is read back.
\<close>

inductive session_step ::
    "'d dll \<Rightarrow> 'n numpy \<Rightarrow> fs \<Rightarrow> (string \<Rightarrow> byte list option)
     \<Rightarrow> ('d, 'n) runner \<Rightarrow> ('d, 'n) runner \<Rightarrow> bool"
  for dll np f read_file where
  new_kernel: "session_step dll np f read_file s (s\<lparr>kernels := kernels s @ [k]\<rparr>)"
| build: "build_kernel_param dll np f data shape dtype s = (Inr i, t)
    \<Longrightarrow> session_step dll np f read_file s t"
| run_kernel: "list_all (valid_input s) (inputs_of (ra_inputs a))
    \<Longrightarrow> run dll np f read_file ki a s = (Inr out, t)
    \<Longrightarrow> session_step dll np f read_file s t"
| read_back: "i < length (objects s) \<Longrightarrow> get_data dll np i s = (Inr d, t)
    \<Longrightarrow> session_step dll np f read_file s t"

inductive session ::
    "'d dll \<Rightarrow> 'n numpy \<Rightarrow> fs \<Rightarrow> (string \<Rightarrow> byte list option)
     \<Rightarrow> ('d, 'n) runner \<Rightarrow> ('d, 'n) runner \<Rightarrow> bool"
  for dll np f read_file s where
  start: "session dll np f read_file s s"
| step: "session dll np f read_file s t \<Longrightarrow> session_step dll np f read_file t u
    \<Longrightarrow> session dll np f read_file s u"


text \<open>The invariant of a session that started with the live buffers \<open>L\<close>.\<close>

definition session_inv :: "('d \<Rightarrow> ptr multiset) \<Rightarrow> ptr multiset \<Rightarrow> ('d, 'n) runner \<Rightarrow> bool" where
  "session_inv live L s \<longleftrightarrow> unowned live s = L \<and> owned s \<subseteq># live_of live s \<and> tracked s"

lemma session_inv_balanced:
  assumes "session_inv live L s" and "balanced live s {#} t" and "tracked t"
  shows "session_inv live L t"
  using assms balanced_unowned [OF assms(2)] by (simp add: session_inv_def unowned_def [of live t])

lemma get_data_balanced:
  assumes m: "memory_model dll live" and run: "get_data dll np i s = (Inr d, t)"
  shows "balanced live s {#} t \<and> (tracked s \<longrightarrow> tracked t)"
proof -
  have host: "live (device b) = live (device a)" if "get_data_from_hbm dll p k a = (Inr y, b)" for p k a y b
    using that by (auto simp: get_data_from_hbm_def host_malloc_def rbind_Inr
        dest!: checked_out_live [OF memory_model_keeps(10) [OF m]] memcpy_live [OF m])
  have "sync_from_device dll np i s = (Inr (), t)"
    using run by (auto simp: get_data_def rbind_Inr)
  then consider "t = s"
    | v b where "live (device v) = live (device (api s))"
        "t = s\<lparr>api := v, objects := (objects s)[i := (objects s ! i)\<lparr>np_data := Some b\<rparr>]\<rparr>"
    by (auto simp: sync_from_device_def rbind_Inr dest: host split: if_splits prod.splits)
  then show ?thesis
  proof cases
    case 1
    then show ?thesis by (simp add: bal.acc_refl)
  next
    case 2
    have "map buffer (objects t) = map buffer (objects s)"
      unfolding 2(2) by (simp add: update_keeps_buffer buffer_def)
    moreover have "tracked t" if "tracked s"
      using that by (cases "i < length (objects s)")
        (auto simp: 2(2) tracked_def nth_list_update holder_ok_def split: option.splits)
    ultimately show ?thesis
      using 2 owned_same_buffers [of t s] by (simp add: balanced_def live_of_def)
  qed
qed

lemma session_step_inv:
  assumes m: "memory_model dll live" and step: "session_step dll np f rf s t"
    and inv: "session_inv live L s"
  shows "session_inv live L t"
  using step
proof (cases rule: session_step.cases)
  case (new_kernel k)
  with inv show ?thesis
    by (simp add: session_inv_def unowned_def live_of_def owned_def tracked_def)
next
  case (build data shape dtype i)
  then show ?thesis
    using inv session_inv_balanced build_kernel_param_balanced [OF m] tracked_build [OF m]
    by (metis session_inv_def)
next
  case (run_kernel a ki out)
  then show ?thesis
    using inv run_unowned [OF m] tracked_run [OF m] unfolding session_inv_def by blast
next
  case (read_back i d)
  then show ?thesis
    using inv session_inv_balanced get_data_balanced [OF m] by (metis session_inv_def)
qed


lemma session_keeps:
  assumes m: "memory_model dll live" and "session dll np f rf s t" and "session_inv live L s"
  shows "session_inv live L t"
  using assms(2,3) by (induction rule: session.induct) (auto intro: session_step_inv [OF m])

lemma init_runner_inv:
  assumes "init_runner dll rounds dev prof rts = Inr s"
  shows "session_inv live (live_of live s) s"
  using assms
  by (auto simp: init_runner_def session_inv_def unowned_def live_of_def owned_def tracked_def
      split: sum.splits if_splits prod.splits)

text \<open>Releasing the parameters one after the other.\<close>

lemma release_device_ok:
  assumes m: "memory_model dll live" and run: "release_device dll i s = (Inr u, t)"
    and i: "i < length (objects s)" and inv: "session_inv live L s"
  shows "session_inv live L t \<and> hbm_pointer (objects t ! i) = None
    \<and> kernel_params t = kernel_params s \<and> length (objects t) = length (objects s)
    \<and> (\<forall>j. j \<noteq> i \<longrightarrow> objects t ! j = objects s ! j)"
proof (cases "hbm_pointer (objects s ! i)")
  case None
  then have t: "t = s\<lparr>objects := (objects s)[i := (objects s ! i)\<lparr>on_device := False\<rparr>]\<rparr>"
    using run
    by (simp add: release_device_def has_buffer_def rbind_def gets_def ret_def update_object_def
        modify_def)
  have "map buffer (objects t) = map buffer (objects s)"
    unfolding t by (simp add: update_keeps_buffer buffer_def)
  then have "owned t = owned s" by (rule owned_same_buffers)
  with inv i None show ?thesis
    by (auto simp: session_inv_def unowned_def live_of_def tracked_def t nth_list_update holder_ok_def)
next
  case (Some p)
  have hold: "p \<noteq> 0" "on_device (objects s ! i)"
    using inv i Some by (auto simp: session_inv_def tracked_def holder_ok_def split: option.splits)
  define q where "q = (objects s ! i)\<lparr>hbm_pointer := None, on_device := False\<rparr>"
  obtain v where v: "free dll p (api s) = (Inr (), v)" and t: "t = s\<lparr>api := v, objects := (objects s)[i := q]\<rparr>"
    using run hold Some i by (auto simp: release_device_def has_buffer_def rbind_Inr q_def)
  have live: "live_of live t = live_of live s - {#p#}"
    using free_live [OF m v] by (simp add: live_of_def t)
  have owned: "owned s = add_mset p (owned t)"
    using owned_update [OF i, of q] Some by (simp add: owned_def t buffer_def q_def)
  have "unowned live t = unowned live s \<and> owned t \<subseteq># live_of live t"
    using inv by (simp add: session_inv_def unowned_def live owned insert_subset_eq_iff)
  moreover have "tracked t"
    using inv i by (auto simp: session_inv_def tracked_def t nth_list_update holder_ok_def q_def)
  ultimately show ?thesis using inv i by (simp add: session_inv_def t q_def)
qed

lemma release_all:
  assumes m: "memory_model dll live" and run: "each (release_device dll) ps s = (Inr us, t)"
    and "list_all (\<lambda>i. i < length (objects s)) ps" and "session_inv live L s"
  shows "session_inv live L t \<and> kernel_params t = kernel_params s
    \<and> (\<forall>i\<in>set ps. hbm_pointer (objects t ! i) = None)
    \<and> (\<forall>i. hbm_pointer (objects s ! i) = None \<longrightarrow> hbm_pointer (objects t ! i) = None)"
  using assms(2-)
proof (induction ps arbitrary: s us)
  case (Cons p ps)
  then obtain r zs where r: "release_device dll p s = (Inr (), r)" "each (release_device dll) ps r = (Inr zs, t)"
    by (auto simp: rbind_Inr)
  have "p < length (objects s)" using Cons.prems(2) by simp
  note first = release_device_ok [OF m r(1) this Cons.prems(3)]
  have "list_all (\<lambda>i. i < length (objects r)) ps" using Cons.prems(2) first by simp
  from Cons.IH [OF r(2) this] first show ?case by (metis set_ConsD)
qed simp

lemma no_buffers: "(\<And>p. p \<in> set ps \<Longrightarrow> buffer p = {#}) \<Longrightarrow> (\<Sum>p\<leftarrow>ps. buffer p) = {#}"
  by (induction ps) simp_all

lemma owned_empty:
  assumes "tracked s" and "\<forall>i\<in>set (kernel_params s). hbm_pointer (objects s ! i) = None"
  shows "owned s = {#}"
proof -
  have "hbm_pointer p = None" if p: "p \<in> set (objects s)" for p
  proof -
    obtain i where i: "i < length (objects s)" "objects s ! i = p"
      using p unfolding in_set_conv_nth by blast
    have "holder_ok (kernel_params s) i (objects s ! i)"
      using assms(1) i(1) unfolding tracked_def by blast
    then have ok: "holder_ok (kernel_params s) i p" by (simp only: i(2))
    show ?thesis
    proof (cases "hbm_pointer p")
      case (Some q)
      with ok have "i \<in> set (kernel_params s)" by (simp add: holder_ok_def)
      with assms(2) have "hbm_pointer (objects s ! i) = None" by blast
      then show ?thesis by (simp only: i(2))
    qed
  qed
  then have "buffer p = {#}" if "p \<in> set (objects s)" for p
    using that by (simp add: buffer_def)
  then show ?thesis unfolding owned_def by (rule no_buffers)
qed

text \<open>
  C1. A session in which every call returns gives back what it took: after \<^verbatim>\<open>__exit__\<close> has
  released the parameters, and before it resets the device, the live device buffers are those
  of the moment the runner was created, and no parameter object holds a pointer.
\<close>

theorem session_ends_clean:
  assumes "memory_model dll live" and "init_runner dll rounds dev prof rts = Inr s"
    and "session dll np f read_file s t" and "exit_runner dll dev t = (Inr (), z)"
  shows "\<exists>u. for_each (release_device dll) (kernel_params t) t = (Inr (), u)
    \<and> live_of live u = live_of live s \<and> owned u = {#} \<and> owned z = {#}"
proof -
  have t: "session_inv live (live_of live s) t"
    using session_keeps [OF assms(1,3)] init_runner_inv [OF assms(2)] by blast
  obtain u where u: "for_each (release_device dll) (kernel_params t) t = (Inr (), u)"
    and z: "objects z = objects u"
    using assms(4) by (auto simp: exit_runner_def rbind_Inr)
  then obtain us where us: "each (release_device dll) (kernel_params t) t = (Inr us, u)"
    by (auto simp: for_each_def rbind_Inr)
  have "list_all (\<lambda>i. i < length (objects t)) (kernel_params t)"
    using t by (simp add: session_inv_def tracked_def)
  from release_all [OF assms(1) us this t]
  have inv: "session_inv live (live_of live s) u" and "owned u = {#}"
    by (auto simp: session_inv_def intro: owned_empty)
  with u z show ?thesis
    by (auto simp: session_inv_def unowned_def owned_def)
qed


definition start_res :: "rts_exn + (sim, byte list) runner" where
  "start_res = init_runner sim_dll (PyInt 1) 0 False (sim_start 0)"

definition entered_ex :: "(sim, byte list) runner" where
  "entered_ex = projr start_res"

definition ran_ex :: "(rts_exn + op_outputs) \<times> (sim, byte list) runner" where
  "ran_ex = run sim_dll np_ex fs_ex (\<lambda>_. Some [1]) 0 args_run_ex
     (entered_ex\<lparr>kernels := kernels entered_ex @ [kernel_ex]\<rparr>)"

definition left_ex :: "(rts_exn + unit) \<times> (sim, byte list) runner" where
  "left_ex = exit_runner sim_dll 0 (snd ran_ex)"

lemma example_returns: "\<not> isl start_res" "fst ran_ex = Inr (One_Output 1)" "fst left_ex = Inr ()"
  by code_simp+

lemma session_ex:
  "session sim_dll np_ex fs_ex (\<lambda>_. Some [1]) entered_ex (snd ran_ex)"
proof -
  have "run sim_dll np_ex fs_ex (\<lambda>_. Some [1]) 0 args_run_ex
      (entered_ex\<lparr>kernels := kernels entered_ex @ [kernel_ex]\<rparr>) = (Inr (One_Output 1), snd ran_ex)"
    using example_returns(2) by (metis prod.collapse ran_ex_def)
  then have "session_step sim_dll np_ex fs_ex (\<lambda>_. Some [1])
      (entered_ex\<lparr>kernels := kernels entered_ex @ [kernel_ex]\<rparr>) (snd ran_ex)"
    by (intro session_step.run_kernel) (simp_all add: inputs_of_def args_run_ex_def valid_input_def)
  then show ?thesis
    using session.step [OF session.step [OF session.start session_step.new_kernel]] by blast
qed

theorem session_ends_clean_witness:
  "owned (snd left_ex) = {#}"
proof -
  have "init_runner sim_dll (PyInt 1) 0 False (sim_start 0) = Inr entered_ex"
    using example_returns(1) by (simp add: start_res_def entered_ex_def)
  moreover have "exit_runner sim_dll 0 (snd ran_ex) = (Inr (), snd left_ex)"
    using example_returns(3) by (metis prod.collapse left_ex_def)
  ultimately show ?thesis
    using session_ends_clean [OF sim_memory_model _ session_ex] by blast
qed

end
