(* ===== verification/Py_Number.thy ===== *)
theory Py_Number
  imports Py_Value Py_String "HOL-Library.Log_Nat"
begin

text \<open>
  Numbers written as text: \<^verbatim>\<open>int(s)\<close> and \<^verbatim>\<open>float(s)\<close>, with \<open>None\<close> for the
  \<^verbatim>\<open>ValueError\<close> both raise. A float is read exactly and then rounded to the nearest
  double, ties to even, as the language does; a value beyond the largest double is infinite.
\<close>

section \<open>Digits and signs\<close>

text \<open>Digits with single underscores between them; the result is the digits alone.\<close>

fun digit_part :: "string \<Rightarrow> string option" where
  "digit_part [] = None"
| "digit_part [c] = (if c_digit c then Some [c] else None)"
| "digit_part (c # d # cs) =
     (if c_digit c
      then map_option ((#) c) (if d = CHR ''_'' then digit_part cs else digit_part (d # cs))
      else None)"

fun take_sign :: "string \<Rightarrow> bool \<times> string" where
  "take_sign [] = (False, [])"
| "take_sign (c # cs) =
     (if c = CHR ''-'' then (True, cs) else if c = CHR ''+'' then (False, cs) else (False, c # cs))"

definition signed_int :: "string \<Rightarrow> int option" where
  "signed_int s =
     (let (neg, t) = take_sign s in
      map_option (\<lambda>ds. if neg then - int (digits_value ds) else int (digits_value ds)) (digit_part t))"

definition py_int_of :: "string \<Rightarrow> int option" where
  "py_int_of s = signed_int (s_strip s)"

section \<open>Rounding to a double\<close>

definition pow2 :: "int \<Rightarrow> rat" where
  "pow2 k = (if 0 \<le> k then 2 ^ nat k else 1 / 2 ^ nat (- k))"

text \<open>The exponent of a positive rational: the largest \<open>e\<close> with \<open>2 ^ e\<close> not above it.\<close>

definition exponent :: "rat \<Rightarrow> int" where
  "exponent x =
     (let (n, d) = quotient_of x;
          e = int (floorlog 2 (nat n)) - int (floorlog 2 (nat d))
      in if pow2 e \<le> x then e else e - 1)"

definition nearest_even :: "rat \<Rightarrow> int" where
  "nearest_even m =
     (let f = \<lfloor>m\<rfloor>; r = m - of_int f
      in if r < 1 / 2 \<or> (r = 1 / 2 \<and> even f) then f else f + 1)"

definition round_pos :: "rat \<Rightarrow> rat" where
  "round_pos x =
     (let q = max (exponent x - 52) (-1074) in of_int (nearest_even (x / pow2 q)) * pow2 q)"

definition round_double :: "rat \<Rightarrow> pyfloat" where
  "round_double x =
     (if x = 0 then Fin 0
      else let y = round_pos \<bar>x\<bar> in
        if pow2 1024 \<le> y then (if x < 0 then NInf else PInf)
        else Fin (if x < 0 then - y else y))"

section \<open>Decimal floats\<close>

definition opt_digits :: "string \<Rightarrow> string option" where
  "opt_digits s = (if s = [] then Some [] else digit_part s)"

definition mantissa_value :: "string \<Rightarrow> (nat \<times> nat) option" where
  "mantissa_value s =
     (let ip = takeWhile (\<lambda>c. c \<noteq> CHR ''.'') s; rest = dropWhile (\<lambda>c. c \<noteq> CHR ''.'') s in
      case (opt_digits ip, opt_digits (tl rest)) of
        (Some i, Some f) \<Rightarrow>
          if i = [] \<and> f = [] then None else Some (digits_value (i @ f), length f)
      | _ \<Rightarrow> None)"

definition is_exp_mark :: "char \<Rightarrow> bool" where
  "is_exp_mark c \<longleftrightarrow> c = CHR ''e'' \<or> c = CHR ''E''"

definition exponent_value :: "string \<Rightarrow> int option" where
  "exponent_value s = (case s of [] \<Rightarrow> Some 0 | _ # t \<Rightarrow> signed_int t)"

definition pow10 :: "int \<Rightarrow> rat" where
  "pow10 k = (if 0 \<le> k then 10 ^ nat k else 1 / 10 ^ nat (- k))"

definition unsigned_float :: "string \<Rightarrow> rat option" where
  "unsigned_float s =
     (case (mantissa_value (takeWhile (\<lambda>c. \<not> is_exp_mark c) s),
            exponent_value (dropWhile (\<lambda>c. \<not> is_exp_mark c) s)) of
        (Some (n, k), Some e) \<Rightarrow> Some (of_nat n * pow10 (e - int k))
      | _ \<Rightarrow> None)"

definition py_float_of :: "string \<Rightarrow> pyfloat option" where
  "py_float_of s =
     (let (neg, t) = take_sign (s_strip s) in
      if s_lower t = ''inf'' \<or> s_lower t = ''infinity'' then Some (if neg then NInf else PInf)
      else if s_lower t = ''nan'' then Some NaN
      else map_option (\<lambda>x. round_double (if neg then - x else x)) (unsigned_float t))"

text \<open>A decimal literal, \<^verbatim>\<open>n / d\<close> with a power of ten below, is the nearest double.\<close>

definition decimal :: "nat \<Rightarrow> nat \<Rightarrow> pyfloat" where
  "decimal n d = round_double (of_nat n / of_nat d)"

section \<open>Laws\<close>

lemma pow2_pos [simp]: "0 < pow2 k"
  by (simp add: pow2_def)

lemma pow2_nonzero [simp]: "pow2 k \<noteq> 0"
  by (simp add: pow2_def)

lemma nearest_even_error: "\<bar>of_int (nearest_even m) - m\<bar> \<le> 1 / 2"
proof -
  define r where "r = m - of_int \<lfloor>m\<rfloor>"
  have "0 \<le> r" "r < 1" unfolding r_def by linarith+
  then show ?thesis
    by (auto simp: nearest_even_def Let_def r_def [symmetric])
       (simp_all add: r_def)
qed

text \<open>Rounding moves a value by at most half a unit in the last place.\<close>

lemma round_pos_error:
  "\<bar>round_pos x - x\<bar> \<le> pow2 (max (exponent x - 52) (-1074)) / 2"
proof -
  define p where "p = pow2 (max (exponent x - 52) (-1074))"
  have p: "0 < p" by (simp add: p_def)
  have "round_pos x - x = (of_int (nearest_even (x / p)) - x / p) * p"
    using p by (simp add: round_pos_def Let_def p_def left_diff_distrib)
  moreover have "\<bar>(of_int (nearest_even (x / p)) - x / p) * p\<bar> \<le> 1 / 2 * p"
    unfolding abs_mult using nearest_even_error [of "x / p"] p by (intro mult_mono) auto
  ultimately show ?thesis unfolding p_def [symmetric] by simp
qed

lemma nearest_even_int [simp]: "nearest_even (of_int i) = i"
  by (simp add: nearest_even_def Let_def)

lemma digit_part_plain: "ds \<noteq> [] \<Longrightarrow> list_all c_digit ds \<Longrightarrow> digit_part ds = Some ds"
proof (induction ds rule: digit_part.induct)
  case (3 c d cs)
  then have "d \<noteq> CHR ''_''" by (auto simp: c_digit_def)
  with 3 show ?case by simp
qed simp_all

lemma no_sign: "list_all c_digit ds \<Longrightarrow> take_sign ds = (False, ds)"
  by (cases ds) (auto simp: c_digit_def)

lemma digits_not_space: "c_digit c \<Longrightarrow> \<not> c_space c"
  by (auto simp: c_digit_def c_space_def)

lemma strip_solid:
  assumes "s \<noteq> []" "\<not> c_space (hd s)" "\<not> c_space (last s)"
  shows "s_strip s = s"
proof -
  have "dropWhile c_space s = s" using assms by (cases s) auto
  moreover have "dropWhile c_space (rev s) = rev s"
    using assms by (cases "rev s") (auto simp: last_rev [symmetric] hd_rev)
  ultimately show ?thesis by (simp add: s_strip_def s_lstrip_def s_rstrip_def)
qed

lemma py_int_of_str_int: "py_int_of (str_int i) = Some i"
proof -
  have solid: "s_strip (str_int i) = str_int i"
  proof (rule strip_solid)
    show "str_int i \<noteq> []" by (simp add: str_int_def)
    have d: "list_all c_digit (str_nat n)" for n by (rule str_nat_digits)
    have hd: "\<not> c_space (hd (str_nat n))" and last: "\<not> c_space (last (str_nat n))" for n
      using d [of n] digits_not_space hd_in_set [of "str_nat n"] last_in_set [of "str_nat n"]
      by (auto simp: list_all_iff)
    show "\<not> c_space (hd (str_int i))" using hd by (simp add: str_int_def c_space_def)
    show "\<not> c_space (last (str_int i))" using last by (simp add: str_int_def)
  qed
  have nat: "digit_part (str_nat n) = Some (str_nat n)" for n
    by (rule digit_part_plain) (simp_all add: str_nat_digits)
  show ?thesis
    unfolding py_int_of_def solid
    by (auto simp: str_int_def signed_int_def nat no_sign [OF str_nat_digits] digits_value_str_nat)
qed

end
