(* ===== verification/Case_Ini.thy ===== *)
theory Case_Ini
  imports Utils Py_Number
begin

text \<open>
  The first half of \<^verbatim>\<open>main/case_generator.py\<close>: reading the operator description from an
  \<^verbatim>\<open>.ini\<close> file, checking it, and reading the default value of an attribute. Warnings are
  printed only; \<open>check_op_info_list_valid\<close> returns the values it warns about.
\<close>

abbreviation err_opinfo :: exn where
  "err_opinfo \<equiv> OpTestGenException OP_TEST_GEN_CONFIG_INVALID_OPINFO_FILE_ERROR"

section \<open>The state of a generator\<close>

text \<open>
  The attributes of \<^verbatim>\<open>CaseGenerator\<close>; of the command line only the model's path is kept.
  The name of the operator is whatever a \<^verbatim>\<open>.py\<close> file gives, so it is a value.
\<close>

type_synonym op_infos = "(string \<times> pydict) list"

record case_gen =
  cg_input_file_path :: string
  cg_output_path :: string
  cg_op_info :: op_infos
  cg_op_type :: pyval
  cg_model_path :: string

definition init_case_gen :: "fs \<Rightarrow> string \<Rightarrow> string \<Rightarrow> string \<Rightarrow> case_gen" where
  "init_case_gen f input_file output_path model_path =
     \<lparr>cg_input_file_path = fs_realpath f input_file, cg_output_path = fs_realpath f output_path,
      cg_op_info = [], cg_op_type = PyStr [], cg_model_path = model_path\<rparr>"

definition gen_check_argument_valid :: "makedirs \<Rightarrow> fs \<Rightarrow> case_gen \<Rightarrow> fs res" where
  "gen_check_argument_valid mk f g =
     bindE (raise_if (snd (path_splitext (cg_input_file_path g)) \<notin> set INPUT_SUFFIX_LIST)
              (OpTestGenException OP_TEST_GEN_INVALID_PATH_ERROR)) (\<lambda>_.
     bindE (check_path_valid mk f (cg_input_file_path g) False) (\<lambda>f.
       check_path_valid mk f (cg_output_path g) True))"

definition is_py :: "case_gen \<Rightarrow> bool" where
  "is_py g = endswith (cg_input_file_path g) ''.py''"

definition info_get :: "op_infos \<Rightarrow> string \<Rightarrow> pydict" where
  "info_get info k = (case map_of info k of None \<Rightarrow> [] | Some d \<Rightarrow> d)"

definition is_aicpu_op :: "op_infos \<Rightarrow> bool" where
  "is_aicpu_op info = truthy (dget (info_get info ''opInfo'') ''kernelSo'')"

section \<open>Reading an ini file\<close>

definition get_op_info :: "op_infos \<Rightarrow> string \<Rightarrow> op_infos res" where
  "get_op_info info line =
     (case s_split ''='' line of
        [lhs, rhs] \<Rightarrow>
          (case s_split ''.'' lhs of
             [k0, k1] \<Rightarrow>
               (let key0 = s_strip k0 in
                Inr (dset info key0
                  (dset (info_get info key0) (s_strip k1) (PyStr (s_replace rhs '' '' [])))))
           | _ \<Rightarrow> Inl err_opinfo)
      | _ \<Rightarrow> Inl err_opinfo)"

text \<open>
  The reader's state: \<^verbatim>\<open>op_type\<close>, \<^verbatim>\<open>op_info\<close>, and the keys of the local dictionary
  \<^verbatim>\<open>tbe_ops_info\<close>, of which only the number is used.
\<close>

type_synonym ini_state = "pyval \<times> op_infos \<times> string list"

definition get_tbe_ops_info :: "ini_state \<Rightarrow> string \<Rightarrow> ini_state res" where
  "get_tbe_ops_info st line =
     (case st of (_, _, tbe) \<Rightarrow>
        if endswith line '']'' then
          (let op_type = s_strip (butlast (tl line)) in
           Inr (PyStr op_type, [], if op_type \<in> set tbe then tbe else tbe @ [op_type]))
        else Inl err_opinfo)"

definition parse_ini_line :: "ini_state \<Rightarrow> string \<Rightarrow> ini_state res" where
  "parse_ini_line st raw =
     (let line = s_strip raw in
      if line = [] then Inr st
      else if startswith line ''['' then get_tbe_ops_info st line
      else (case st of (op_type, info, tbe) \<Rightarrow>
              bindE (get_op_info info line) (\<lambda>info'. Inr (op_type, info', tbe))))"

definition parse_ini_to_json :: "case_gen \<Rightarrow> string list \<Rightarrow> case_gen res" where
  "parse_ini_to_json g lines =
     bindE (foldE parse_ini_line (cg_op_type g, cg_op_info g, []) lines) (\<lambda>(op_type, info, tbe).
     bindE (raise_if (length tbe \<noteq> 1) err_opinfo) (\<lambda>_.
       Inr (g\<lparr>cg_op_type := op_type, cg_op_info := info\<rparr>)))"

section \<open>Checking the description\<close>

definition missing_info_keys :: "pydict \<Rightarrow> string list" where
  "missing_info_keys op_info = filter (\<lambda>k. \<not> dhas op_info k) REQUIRED_OP_INFO_KEYS"

definition gen_check_required_key :: "pydict \<Rightarrow> unit res" where
  "gen_check_required_key op_info = raise_if (length (missing_info_keys op_info) > 0) err_opinfo"

definition check_op_info_list_valid :: "pyval list \<Rightarrow> string list \<Rightarrow> pyval list res" where
  "check_op_info_list_valid value_list support_list =
     bindE (raise_if (length value_list = 0) err_opinfo) (\<lambda>_.
     bindE (forE (\<lambda>value. raise_if (value = PyStr []) err_opinfo) value_list) (\<lambda>_.
       Inr (filter (\<lambda>value. \<not> py_in value (map PyStr support_list)) value_list)))"

text \<open>\<^verbatim>\<open>v.split(sep)\<close> on a value.\<close>

definition py_split :: "string \<Rightarrow> pyval \<Rightarrow> string list res" where
  "py_split sep v = (case v of PyStr s \<Rightarrow> Inr (s_split sep s) | _ \<Rightarrow> Inl AttributeError)"

record gen_lists =
  gl_format_keys :: "string list"
  gl_type_list :: "string list"
  gl_mindspore_type_list :: "string list"
  gl_aicpu_type_map :: "(string \<times> string) list"

definition check_basic_dtype :: "gen_lists \<Rightarrow> bool \<Rightarrow> nat \<Rightarrow> pydict \<Rightarrow> (pydict \<times> nat) res" where
  "check_basic_dtype wl py dtype_count op_info =
     (case map_of op_info ''dtype'' of
        Some dtype \<Rightarrow>
          bindE (py_split '','' dtype) (\<lambda>dtype_list.
          bindE (check_op_info_list_valid (map PyStr dtype_list)
                  (if py then gl_mindspore_type_list wl else gl_type_list wl)) (\<lambda>_.
            let current = length dtype_list;
                dtype_count = (if dtype_count = 0 then current else dtype_count) in
            bindE (raise_if (dtype_count \<noteq> current) err_opinfo) (\<lambda>_. Inr (op_info, current))))
      | None \<Rightarrow> Inr (dset op_info ''dtype'' (PyStr []), 0))"

definition check_basic_format :: "gen_lists \<Rightarrow> nat \<Rightarrow> pydict \<Rightarrow> pydict res" where
  "check_basic_format wl current op_info =
     (case map_of op_info ''format'' of
        Some fmt \<Rightarrow>
          bindE (py_split '','' fmt) (\<lambda>format_list.
          bindE (check_op_info_list_valid (map PyStr format_list) (gl_format_keys wl)) (\<lambda>_.
          bindE (raise_if (current \<noteq> length format_list) err_opinfo) (\<lambda>_. Inr op_info)))
      | None \<Rightarrow> Inr (dset op_info ''format'' (PyStr [])))"

definition check_basic_filed_vaild :: "gen_lists \<Rightarrow> bool \<Rightarrow> nat \<Rightarrow> pydict \<Rightarrow> pydict res" where
  "check_basic_filed_vaild wl py dtype_count op_info =
     bindE (ditem op_info ''paramType'') (\<lambda>param_type.
     bindE (check_op_info_list_valid [param_type] PARAM_TYPE_VALID_VALUE) (\<lambda>_.
     bindE (check_basic_dtype wl py dtype_count op_info) (\<lambda>(op_info, current).
       check_basic_format wl current op_info)))"

definition is_io_key :: "string \<Rightarrow> bool" where
  "is_io_key k \<longleftrightarrow> startswith k INI_INPUT \<or> startswith k INI_OUTPUT"

text \<open>
  \<^verbatim>\<open>_check_op_info\<close>: the local \<^verbatim>\<open>dtype_count\<close> is passed as it is, 0, to every call.
\<close>

definition check_one_op_info :: "gen_lists \<Rightarrow> bool \<Rightarrow> nat \<Rightarrow> string \<times> pydict \<Rightarrow> (string \<times> pydict) res" where
  "check_one_op_info wl py dtype_count kd = (case kd of (k, d) \<Rightarrow>
     if is_io_key k then
       bindE (gen_check_required_key d) (\<lambda>_.
       bindE (check_basic_filed_vaild wl py dtype_count d) (\<lambda>d'. Inr (k, d')))
     else Inr (k, d))"

definition check_op_info :: "gen_lists \<Rightarrow> bool \<Rightarrow> op_infos \<Rightarrow> op_infos res" where
  "check_op_info wl py info = (let dtype_count = 0 in mapE (check_one_op_info wl py dtype_count) info)"

section \<open>Default values of attributes\<close>

definition value_or :: "'a option \<Rightarrow> 'a res" where
  "value_or x = (case x of None \<Rightarrow> Inl ValueError | Some v \<Rightarrow> Inr v)"

definition parse_bool_value :: "string \<Rightarrow> pyval res" where
  "parse_bool_value value =
     (let new_value = s_lower (s_strip value) in
      if new_value = ''true'' then Inr (PyBool True)
      else if new_value = ''false'' then Inr (PyBool False)
      else Inl ValueError)"

definition parse_int_value :: "string \<Rightarrow> pyval res" where
  "parse_int_value s = bindE (value_or (py_int_of s)) (\<lambda>i. Inr (PyInt i))"

definition parse_float_value :: "string \<Rightarrow> pyval res" where
  "parse_float_value s = bindE (value_or (py_float_of s)) (\<lambda>r. Inr (PyFloat r))"

definition parse_values :: "(string \<Rightarrow> pyval res) \<Rightarrow> string list \<Rightarrow> pyval res" where
  "parse_values p xs = bindE (mapE p xs) (\<lambda>vs. Inr (PyList vs))"

definition parse_int_list_item :: "string \<Rightarrow> pyval res" where
  "parse_int_list_item item =
     bindE (raise_if (s_contains item '']'' \<or> s_contains item ''['') ValueError) (\<lambda>_.
       parse_values parse_int_value (s_split '','' item))"

definition parse_list_list_int_value :: "string \<Rightarrow> pyval res" where
  "parse_list_list_int_value raw =
     (let value = s_replace raw '' '' [] in
      bindE (raise_if (\<not> startswith value ''[['' \<or> \<not> endswith value '']]'') ValueError) (\<lambda>_.
        parse_values parse_int_list_item (s_split ''],['' (drop 2 (take (length value - 2) value)))))"

definition get_attr_type_list_value :: "string \<Rightarrow> string \<Rightarrow> pyval res" where
  "get_attr_type_list_value attr_type s =
     bindE (raise_if (s = []) IndexError) (\<lambda>_.
     bindE (raise_if (hd s \<noteq> CHR ''['' \<or> last s \<noteq> CHR '']'') ValueError) (\<lambda>_.
     bindE (if attr_type = ''listListInt'' then parse_list_list_int_value s else Inr PyNone) (\<lambda>default_value.
       if s = ''[]'' then Inr (PyList [])
       else (let value_list = s_split '','' (butlast (tl s)) in
         if attr_type = ''listInt'' then parse_values parse_int_value value_list
         else if attr_type = ''listFloat'' then parse_values parse_float_value value_list
         else if attr_type = ''listStr'' then Inr (PyList (map (PyStr \<circ> s_strip) value_list))
         else if attr_type = ''listBool'' then parse_values parse_bool_value value_list
         else Inr default_value))))"

definition get_default_value :: "string \<Rightarrow> string \<Rightarrow> pyval res" where
  "get_default_value attr_type s =
     (if attr_type = ''float'' then parse_float_value s
      else if attr_type = ''int'' then parse_int_value s
      else if attr_type = ''bool'' then parse_bool_value s
      else if attr_type = ''str'' then Inr (PyStr s)
      else if startswith attr_type ''list'' then get_attr_type_list_value attr_type s
      else Inr (PyStr []))"

text \<open>Only a \<^verbatim>\<open>ValueError\<close> is turned into the default \<^verbatim>\<open>None\<close>.\<close>

definition get_default_attr_value :: "string \<Rightarrow> pyval \<Rightarrow> pyval res" where
  "get_default_attr_value attr_type default_value = (case default_value of
      PyStr s \<Rightarrow>
        (case get_default_value attr_type (s_strip s) of
           Inl e \<Rightarrow> if e = ValueError then Inr PyNone else Inl e
         | Inr v \<Rightarrow> Inr v)
    | _ \<Rightarrow> Inl AttributeError)"

text \<open>\<^verbatim>\<open>_make_attr\<close>: \<^verbatim>\<open>name\<close> is the key without \<^verbatim>\<open>attr_\<close>.\<close>

definition attr_data_type :: "pyval \<Rightarrow> pyval res" where
  "attr_data_type ty = (case ty of
      PyStr s \<Rightarrow> Inr (case map_of ATTR_TYPE_MAP s of None \<Rightarrow> PyNone | Some t \<Rightarrow> PyStr t)
    | _ \<Rightarrow> if hashable ty then Inr PyNone else Inl TypeError)"

definition make_attr :: "op_infos \<Rightarrow> string \<Rightarrow> pydict \<Rightarrow> pydict res" where
  "make_attr info key value =
     (let name = drop (length ''attr_'') key in
      bindE (if \<not> is_aicpu_op info then
               bindE (raise_if (\<not> dhas value ''type'') err_opinfo) (\<lambda>_.
               bindE (check_op_info_list_valid [dget value ''type''] (map fst ATTR_TYPE_MAP)) (\<lambda>_. Inr ()))
             else Inr ()) (\<lambda>_.
      bindE (attr_data_type (dget value ''type'')) (\<lambda>data_type.
      bindE (case (map_of value ''defaultValue'', dget value ''type'') of
               (Some dv, PyStr t) \<Rightarrow>
                 if data_type \<noteq> PyNone then get_default_attr_value t dv else Inr PyNone
             | _ \<Rightarrow> Inr PyNone) (\<lambda>default_value.
      Inr [(''name'', PyStr name), (''type'', data_type), (''value'', default_value)]))))"

section \<open>Lemmas on the text primitives\<close>

lemma s_join_empty: "s_join [] ps = concat ps"
  by (induction "[] :: string" ps rule: s_join.induct) simp_all

lemma split_char_filter: "concat (split_aux [x] acc s) = rev acc @ filter (\<lambda>c. c \<noteq> x) s"
  by (induction "[x]" acc s rule: split_aux.induct) (auto simp: startswith_def split: if_splits)

lemma s_replace_del_char: "s_replace s [x] [] = filter (\<lambda>c. c \<noteq> x) s"
  by (simp add: s_replace_def s_join_empty s_split_def split_char_filter)

lemma s_strip_cases: "s_strip s = s \<longleftrightarrow> s = [] \<or> \<not> c_space (hd s) \<and> \<not> c_space (last s)"
proof
  assume e: "s_strip s = s"
  have "\<not> c_space (last s)" if "s \<noteq> []"
  proof -
    have "s = rev (dropWhile c_space (rev (dropWhile c_space s)))"
      using e by (simp add: s_strip_def s_lstrip_def s_rstrip_def)
    then have "rev s = dropWhile c_space (rev (dropWhile c_space s))" by (metis rev_rev_ident)
    moreover have "rev s \<noteq> []" using that by simp
    ultimately have "\<not> c_space (hd (rev s))" by (metis hd_dropWhile)
    then show ?thesis by (simp add: hd_rev)
  qed
  then show "s = [] \<or> \<not> c_space (hd s) \<and> \<not> c_space (last s)" using s_strip_hd [of s] e by auto
next
  assume "s = [] \<or> \<not> c_space (hd s) \<and> \<not> c_space (last s)"
  then show "s_strip s = s"
    using strip_solid by (cases "s = []") (auto simp: s_strip_def s_lstrip_def s_rstrip_def)
qed

lemma s_strip_last: "s_strip s \<noteq> [] \<Longrightarrow> \<not> c_space (last (s_strip s))"
proof -
  assume ne: "s_strip s \<noteq> []"
  have "s_strip s = rev (dropWhile c_space (rev (dropWhile c_space s)))"
    by (simp add: s_strip_def s_lstrip_def s_rstrip_def)
  with ne hd_dropWhile [of c_space "rev (dropWhile c_space s)"] show ?thesis
    by (simp add: last_rev)
qed

lemma s_strip_idem [simp]: "s_strip (s_strip s) = s_strip s"
  unfolding s_strip_cases [of "s_strip s"] using s_strip_hd [of s] s_strip_last [of s] by blast

lemma set_s_strip: "set (s_strip s) \<subseteq> set s"
  using set_dropWhileD [of _ c_space s] set_dropWhileD [of _ c_space "rev (dropWhile c_space s)"]
  by (auto simp: s_strip_def s_lstrip_def s_rstrip_def)

section \<open>Well-formed descriptions\<close>

text \<open>
  A description an \<^verbatim>\<open>.ini\<close> file can hold: names without the separators and without
  surrounding blanks, values without blanks, no key twice.
\<close>

definition ini_entry_ok :: "string \<times> pyval \<Rightarrow> bool" where
  "ini_entry_ok e = (case e of
      (s, PyStr v) \<Rightarrow>
        s_strip s = s \<and> CHR ''='' \<notin> set s \<and> CHR ''.'' \<notin> set s
        \<and> CHR ''='' \<notin> set v \<and> CHR '' '' \<notin> set v \<and> (v = [] \<or> \<not> c_space (last v))
    | _ \<Rightarrow> False)"

definition ini_section_ok :: "string \<times> pydict \<Rightarrow> bool" where
  "ini_section_ok kd = (case kd of (k, d) \<Rightarrow>
     s_strip k = k \<and> CHR ''='' \<notin> set k \<and> CHR ''.'' \<notin> set k \<and> (k = [] \<or> hd k \<noteq> CHR ''['')
     \<and> d \<noteq> [] \<and> distinct (map fst d) \<and> list_all ini_entry_ok d)"

definition ini_ok :: "op_infos \<Rightarrow> bool" where
  "ini_ok info \<longleftrightarrow> distinct (map fst info) \<and> list_all ini_section_ok info"

text \<open>Printing a description the way the files are written.\<close>

definition str_of :: "pyval \<Rightarrow> string" where
  "str_of v = (case v of PyStr s \<Rightarrow> s | _ \<Rightarrow> [])"

definition print_entry :: "string \<Rightarrow> string \<times> pyval \<Rightarrow> string" where
  "print_entry k e = k @ ''.'' @ fst e @ ''='' @ str_of (snd e)"

definition print_ini :: "string \<Rightarrow> op_infos \<Rightarrow> string list" where
  "print_ini op_type info =
     (''['' @ op_type @ '']'') # concat (map (\<lambda>(k, d). map (print_entry k) d) info)"

section \<open>Reading a printed description\<close>

lemma split_two:
  "x \<notin> set a \<Longrightarrow> x \<notin> set b \<Longrightarrow> s_split [x] (a @ x # b) = [a, b]"
  by (simp add: s_split_def split_aux_char_piece split_aux_char_last)

lemma get_op_info_entry:
  assumes "ini_section_ok (k, d)" and "ini_entry_ok (s, PyStr v)"
  shows "get_op_info info (print_entry k (s, PyStr v)) = Inr (dset info k (dset (info_get info k) s (PyStr v)))"
proof -
  have 1: "s_split ''='' (print_entry k (s, PyStr v)) = [k @ ''.'' @ s, v]"
    using split_two [of "CHR ''=''" "k @ ''.'' @ s" v] assms
    by (simp add: print_entry_def str_of_def ini_section_ok_def ini_entry_ok_def)
  have 2: "s_split ''.'' (k @ CHR ''.'' # s) = [k, s]"
    using split_two [of "CHR ''.''" k s] assms by (simp add: ini_section_ok_def ini_entry_ok_def)
  have "filter (\<lambda>c. c \<noteq> CHR '' '') v = v"
    using assms(2) by (auto simp: ini_entry_ok_def filter_id_conv)
  with assms show ?thesis
    by (simp add: get_op_info_def 1 2 s_replace_del_char ini_section_ok_def ini_entry_ok_def)
qed

lemma strip_entry:
  assumes "ini_section_ok (k, d)" and "ini_entry_ok (s, PyStr v)"
  shows "s_strip (print_entry k (s, PyStr v)) = print_entry k (s, PyStr v)"
    and "\<not> startswith (print_entry k (s, PyStr v)) ''[''"
proof -
  have "k = [] \<or> \<not> c_space (hd k)" using assms(1) s_strip_cases [of k] by (auto simp: ini_section_ok_def)
  then have "\<not> c_space (hd (print_entry k (s, PyStr v)))"
    by (cases k) (auto simp: print_entry_def c_space_def)
  moreover have "\<not> c_space (last (print_entry k (s, PyStr v)))"
    using assms(2) by (auto simp: print_entry_def str_of_def ini_entry_ok_def c_space_def)
  ultimately show "s_strip (print_entry k (s, PyStr v)) = print_entry k (s, PyStr v)"
    unfolding s_strip_cases by blast
  show "\<not> startswith (print_entry k (s, PyStr v)) ''[''"
    using assms(1) by (cases k) (auto simp: print_entry_def startswith_def ini_section_ok_def)
qed

lemma parse_entry:
  assumes "ini_section_ok (k, d)" and "ini_entry_ok (s, PyStr v)"
  shows "parse_ini_line (ty, info, tbe) (print_entry k (s, PyStr v))
    = Inr (ty, dset info k (dset (info_get info k) s (PyStr v)), tbe)"
proof -
  have "print_entry k (s, PyStr v) \<noteq> []" by (simp add: print_entry_def)
  with strip_entry [OF assms] get_op_info_entry [OF assms] show ?thesis
    by (simp add: parse_ini_line_def Let_def)
qed

lemma dset_new: "k \<notin> set (map fst d) \<Longrightarrow> dset d k v = d @ [(k, v)]"
  unfolding dset_def by (induction d) auto

lemma dset_last: "k \<notin> set (map fst d) \<Longrightarrow> dset (d @ [(k, v)]) k w = d @ [(k, w)]"
  unfolding dset_def by (induction d) auto

lemma info_get_last: "k \<notin> set (map fst info) \<Longrightarrow> info_get (info @ [(k, d)]) k = d"
  by (auto simp: info_get_def map_of_eq_None_iff [symmetric] split: option.splits)

lemma info_get_new: "k \<notin> set (map fst info) \<Longrightarrow> info_get info k = []"
  by (simp add: info_get_def map_of_eq_None_iff [symmetric])


lemma parse_entries:
  assumes "ini_section_ok (k, d0)" and "list_all ini_entry_ok es" and "k \<notin> set (map fst info)"
    and "distinct (map fst (d @ es))" and "d \<noteq> []"
  shows "foldE parse_ini_line (ty, info @ [(k, d)], tbe) (map (print_entry k) es)
    = Inr (ty, info @ [(k, d @ es)], tbe)"
  using assms(2,4,5)
proof (induction es arbitrary: d)
  case Nil
  then show ?case by simp
next
  case (Cons e es)
  from Cons.prems obtain s v where e: "e = (s, PyStr v)" "ini_entry_ok (s, PyStr v)"
    by (cases e) (auto simp: ini_entry_ok_def split: pyval.splits)
  have "dset d s (PyStr v) = d @ [e]" using Cons.prems by (simp add: e dset_new)
  then have "parse_ini_line (ty, info @ [(k, d)], tbe) (print_entry k e)
      = Inr (ty, info @ [(k, d @ [e])], tbe)"
    using parse_entry [OF assms(1) e(2)] assms(3) by (simp add: e(1) dset_last info_get_last)
  with Cons.IH [of "d @ [e]"] Cons.prems show ?case by simp
qed

lemma parse_section:
  assumes "ini_section_ok (k, d)" and "k \<notin> set (map fst info)"
  shows "foldE parse_ini_line (ty, info, tbe) (map (print_entry k) d) = Inr (ty, info @ [(k, d)], tbe)"
proof -
  from assms obtain e es where d: "d = e # es" by (cases d) (auto simp: ini_section_ok_def)
  with assms(1) have ok: "ini_entry_ok e" "list_all ini_entry_ok es" "distinct (map fst ([e] @ es))"
    by (simp_all add: ini_section_ok_def)
  then obtain s v where e: "e = (s, PyStr v)"
    by (cases e) (auto simp: ini_entry_ok_def split: pyval.splits)
  have "parse_ini_line (ty, info, tbe) (print_entry k e) = Inr (ty, info @ [(k, [e])], tbe)"
    using parse_entry [OF assms(1)] ok(1) assms(2)
    by (simp add: e dset_new info_get_new)
  with parse_entries [OF assms(1) ok(2) assms(2) ok(3)] show ?thesis by (simp add: d)
qed

lemma parse_sections:
  assumes "list_all ini_section_ok sections" and "distinct (map fst (info @ sections))"
  shows "foldE parse_ini_line (ty, info, tbe) (concat (map (\<lambda>(k, d). map (print_entry k) d) sections))
    = Inr (ty, info @ sections, tbe)"
  using assms
proof (induction sections arbitrary: info)
  case Nil
  then show ?case by simp
next
  case (Cons kd sections)
  obtain k d where kd: "kd = (k, d)" by (cases kd)
  with Cons.prems have "ini_section_ok (k, d)" "k \<notin> set (map fst info)" by auto
  from parse_section [OF this] Cons.IH [of "info @ [(k, d)]"] Cons.prems show ?case
    by (simp add: kd foldE_append)
qed

lemma parse_printed:
  assumes "ini_ok info" and "s_strip op_type = op_type"
  shows "parse_ini_to_json g (print_ini op_type info)
    = Inr (g\<lparr>cg_op_type := PyStr op_type, cg_op_info := info\<rparr>)"
proof -
  have line: "s_strip (''['' @ op_type @ '']'') = ''['' @ op_type @ '']''"
    unfolding s_strip_cases by (simp add: c_space_def)
  have "endswith (''['' @ op_type @ '']'') '']''" unfolding endswith_iff by auto
  moreover have "startswith (''['' @ op_type @ '']'') ''[''" by (rule startswith_append)
  ultimately have "parse_ini_line (cg_op_type g, cg_op_info g, []) (''['' @ op_type @ '']'')
      = Inr (PyStr op_type, [], [op_type])"
    using line assms(2) by (simp add: parse_ini_line_def get_tbe_ops_info_def Let_def butlast_append)
  moreover have "foldE parse_ini_line (PyStr op_type, [], [op_type])
      (concat (map (\<lambda>(k, d). map (print_entry k) d) info)) = Inr (PyStr op_type, info, [op_type])"
    using parse_sections [of info "[]"] assms(1) by (simp add: ini_ok_def)
  ultimately show ?thesis by (simp add: parse_ini_to_json_def print_ini_def)
qed

section \<open>What the reader accepts\<close>

lemma dset_keys: "distinct (map fst d) \<Longrightarrow> distinct (map fst (dset d k v))"
  unfolding dset_def by (rule distinct_update)

lemma dset_all: "list_all P d \<Longrightarrow> P (k, v) \<Longrightarrow> list_all P (dset d k v)"
  unfolding dset_def by (induction d) auto

lemma dset_nonempty [simp]: "dset d k v \<noteq> []"
  unfolding dset_def by (cases d) auto

lemma split_three: "s_split [x] s = [a, b] \<Longrightarrow> s = a @ x # b \<and> x \<notin> set a \<and> x \<notin> set b"
proof -
  assume a: "s_split [x] s = [a, b]"
  then have "s_join [x] [a, b] = s" by (metis s_join_split)
  moreover have "p \<in> set (s_split [x] s) \<Longrightarrow> x \<notin> set p" for p
    using s_split_pieces_clean [of p x "[]" s] by (simp add: s_split_def)
  ultimately show ?thesis using a by auto
qed

lemma get_op_info_ok:
  assumes "get_op_info info line = Inr info'" and "ini_ok info"
    and "s_strip line = line" and "line \<noteq> []" and "\<not> startswith line ''[''"
  shows "ini_ok info'"
proof -
  obtain lhs rhs where 1: "s_split ''='' line = [lhs, rhs]"
    and rest: "(case s_split ''.'' lhs of
             [k0, k1] \<Rightarrow>
               (let key0 = s_strip k0 in
                Inr (dset info key0
                  (dset (info_get info key0) (s_strip k1) (PyStr (s_replace rhs '' '' [])))))
           | _ \<Rightarrow> Inl err_opinfo) = Inr info'"
    using assms(1) unfolding get_op_info_def by (auto split: list.splits)
  then obtain k0 k1 where 2: "s_split ''.'' lhs = [k0, k1]"
    and info': "info' = dset info (s_strip k0) (dset (info_get info (s_strip k0)) (s_strip k1)
      (PyStr (s_replace rhs '' '' [])))"
    by (auto simp: Let_def split: list.splits)
  from split_three [OF 1] split_three [OF 2]
  have line: "line = k0 @ CHR ''.'' # k1 @ CHR ''='' # rhs"
    and clean: "CHR ''='' \<notin> set rhs" "CHR ''='' \<notin> set k0" "CHR ''='' \<notin> set k1"
      "CHR ''.'' \<notin> set k0" "CHR ''.'' \<notin> set k1" by auto
  have "rhs = [] \<or> \<not> c_space (last rhs)"
    using assms(3) line s_strip_cases [of line] by auto
  then have last_rhs: "filter (\<lambda>c. c \<noteq> CHR '' '') rhs = []
      \<or> \<not> c_space (last (filter (\<lambda>c. c \<noteq> CHR '' '') rhs))"
    by (cases rhs rule: rev_cases) (auto simp: c_space_def)
  have entry: "ini_entry_ok (s_strip k1, PyStr (s_replace rhs '' '' []))"
    using clean set_s_strip [of k1] last_rhs by (auto simp: ini_entry_ok_def s_replace_del_char)
  have hd_k0: "s_strip k0 = [] \<or> hd (s_strip k0) \<noteq> CHR ''[''"
  proof (cases k0)
    case Nil
    then show ?thesis by (simp add: s_strip_def s_lstrip_def s_rstrip_def)
  next
    case (Cons c cs)
    then have "\<not> c_space c" "c \<noteq> CHR ''[''"
      using assms(3,5) line s_strip_cases [of line] by (auto simp: startswith_def)
    then have "s_strip k0 = rev (dropWhile c_space (rev (c # cs)))"
      by (simp add: Cons s_strip_def s_lstrip_def s_rstrip_def)
    moreover have "rev (dropWhile c_space (rev (c # cs))) \<noteq> [] \<Longrightarrow>
        hd (rev (dropWhile c_space (rev (c # cs)))) = c"
      using \<open>\<not> c_space c\<close> by (simp add: dropWhile_append)
    ultimately show ?thesis using \<open>c \<noteq> CHR ''[''\<close> by metis
  qed
  have old: "distinct (map fst (info_get info (s_strip k0)))"
      "list_all ini_entry_ok (info_get info (s_strip k0))"
    using assms(2) by (auto simp: info_get_def ini_ok_def list_all_iff ini_section_ok_def
        split: option.splits dest!: map_of_SomeD)
  have "ini_section_ok (s_strip k0, dset (info_get info (s_strip k0)) (s_strip k1)
      (PyStr (s_replace rhs '' '' [])))"
    using clean set_s_strip [of k0] hd_k0 dset_keys [OF old(1)] dset_all [OF old(2) entry]
    by (auto simp: ini_section_ok_def)
  then show ?thesis
    using assms(2) unfolding info' ini_ok_def by (blast intro: dset_keys dset_all)
qed

definition ini_state_ok :: "ini_state \<Rightarrow> bool" where
  "ini_state_ok st = (case st of (op_type, info, tbe) \<Rightarrow>
     ini_ok info \<and> (tbe \<noteq> [] \<longrightarrow> (\<exists>t. op_type = PyStr t \<and> s_strip t = t)))"

lemma parse_ini_line_ok:
  assumes "parse_ini_line st raw = Inr st'" and "ini_state_ok st"
  shows "ini_state_ok st'"
proof -
  obtain op_type info tbe where st: "st = (op_type, info, tbe)" by (cases st)
  consider "s_strip raw = []"
    | "s_strip raw \<noteq> []" "startswith (s_strip raw) ''[''"
    | "s_strip raw \<noteq> []" "\<not> startswith (s_strip raw) ''[''" by blast
  then show ?thesis
  proof cases
    case 1
    with assms show ?thesis by (simp add: parse_ini_line_def)
  next
    case 2
    with assms(1) have "st' = (PyStr (s_strip (butlast (tl (s_strip raw)))), [], snd (snd st'))"
      by (auto simp: parse_ini_line_def get_tbe_ops_info_def st Let_def split: if_splits)
    moreover have "ini_ok []" by (simp add: ini_ok_def)
    ultimately show ?thesis
      unfolding ini_state_ok_def by (metis (mono_tags, lifting) case_prod_conv s_strip_idem)
  next
    case 3
    with assms(1) obtain info' where "get_op_info info (s_strip raw) = Inr info'"
      "st' = (op_type, info', tbe)"
      by (auto simp: parse_ini_line_def st Let_def)
    moreover have "ini_ok info" using assms(2) by (simp add: ini_state_ok_def st)
    ultimately show ?thesis
      using get_op_info_ok [of info "s_strip raw" info'] 3 assms(2) by (simp add: ini_state_ok_def st)
  qed
qed

lemma parse_ini_lines_ok:
  "foldE parse_ini_line st ls = Inr st' \<Longrightarrow> ini_state_ok st \<Longrightarrow> ini_state_ok st'"
  by (erule foldE_inv [where P = ini_state_ok]) (auto dest: parse_ini_line_ok)

lemma parse_ini_ok:
  assumes "parse_ini_to_json g ls = Inr g'" and "ini_ok (cg_op_info g)"
  shows "\<exists>t. cg_op_type g' = PyStr t \<and> s_strip t = t \<and> ini_ok (cg_op_info g')
    \<and> g' = g\<lparr>cg_op_type := PyStr t, cg_op_info := cg_op_info g'\<rparr>"
proof -
  from assms(1) obtain op_type info tbe where
    run: "foldE parse_ini_line (cg_op_type g, cg_op_info g, []) ls = Inr (op_type, info, tbe)"
    and one: "length tbe = 1" and g': "g' = g\<lparr>cg_op_type := op_type, cg_op_info := info\<rparr>"
    by (auto simp: parse_ini_to_json_def raise_if_def split: if_splits)
  have "ini_state_ok (op_type, info, tbe)"
    using parse_ini_lines_ok [OF run] assms(2) by (simp add: ini_state_ok_def)
  moreover have "tbe \<noteq> []" using one by auto
  ultimately show ?thesis by (auto simp: ini_state_ok_def g')
qed

text \<open>
  C11. Reading and writing a description are inverse. What the reader accepts from an
  \<^verbatim>\<open>.ini\<close> file is a well-formed description of one operator; printing it and reading the
  print gives the same generator back, and every well-formed description is read back as it is.
\<close>

theorem ini_round_trip:
  assumes "ini_ok (cg_op_info g)"
  shows "(parse_ini_to_json g ls = Inr g' \<longrightarrow>
      (\<exists>t. cg_op_type g' = PyStr t \<and> s_strip t = t \<and> ini_ok (cg_op_info g')
        \<and> parse_ini_to_json g (print_ini t (cg_op_info g')) = Inr g'))
    \<and> (ini_ok info \<and> s_strip t = t \<longrightarrow>
        parse_ini_to_json g (print_ini t info) = Inr (g\<lparr>cg_op_type := PyStr t, cg_op_info := info\<rparr>))"
  using parse_ini_ok [of g ls g'] parse_printed [of info t g] assms
    parse_printed [of "cg_op_info g'" _ g] by metis

definition gen_ex :: case_gen where
  "gen_ex = \<lparr>cg_input_file_path = ''/op/add.ini'', cg_output_path = ''/out'', cg_op_info = [],
     cg_op_type = PyStr [], cg_model_path = []\<rparr>"

definition add_info :: op_infos where
  "add_info = [(''input0'', [(''name'', PyStr ''x1''), (''dtype'', PyStr ''float,int8'')]),
     (''output0'', [(''name'', PyStr ''y'')])]"

theorem ini_round_trip_witness:
  "parse_ini_to_json gen_ex (print_ini ''Add'' add_info)
   = Inr (gen_ex\<lparr>cg_op_type := PyStr ''Add'', cg_op_info := add_info\<rparr>)"
proof -
  have "ini_ok add_info" "s_strip ''Add'' = ''Add''" by code_simp+
  moreover have "ini_ok (cg_op_info gen_ex)" by (simp add: ini_ok_def gen_ex_def)
  ultimately show ?thesis
    using ini_round_trip [of gen_ex ls g' add_info "''Add''" for ls g'] by blast
qed

text \<open>
  The reader counts different names only: two sections of the same name are accepted, and the
  first of them is lost.
\<close>

lemma repeated_section_wins:
  assumes "ini_ok a" and "ini_ok b" and "s_strip t = t"
  shows "parse_ini_to_json g (print_ini t a @ print_ini t b) = parse_ini_to_json g (print_ini t b)"
proof -
  have line: "s_strip (''['' @ t @ '']'') = ''['' @ t @ '']''"
    unfolding s_strip_cases by (simp add: c_space_def)
  have "endswith (''['' @ t @ '']'') '']''" unfolding endswith_iff by auto
  moreover have "startswith (''['' @ t @ '']'') ''[''" by (rule startswith_append)
  ultimately have open_line: "parse_ini_line st (''['' @ t @ '']'')
      = Inr (PyStr t, [], if t \<in> set (snd (snd st)) then snd (snd st) else snd (snd st) @ [t])" for st
    using line assms(3)
    by (simp add: parse_ini_line_def get_tbe_ops_info_def Let_def butlast_append split: prod.split)
  have "foldE parse_ini_line st (print_ini t a @ print_ini t b) = foldE parse_ini_line st (print_ini t b)" for st
    using parse_sections [of a "[]"] parse_sections [of b "[]"] assms(1,2)
    by (simp add: print_ini_def open_line foldE_append ini_ok_def del: append.simps)
  then show ?thesis by (simp add: parse_ini_to_json_def)
qed

section \<open>What the checks accept\<close>

definition pieces_ok :: "pyval \<Rightarrow> bool" where
  "pieces_ok v = (case v of PyStr s \<Rightarrow> [] \<notin> set (s_split '','' s) | _ \<Rightarrow> False)"

definition piece_count :: "pyval \<Rightarrow> nat" where
  "piece_count v = (case v of PyStr s \<Rightarrow> length (s_split '','' s) | _ \<Rightarrow> 0)"

text \<open>What a description of one input or output must look like, and how gaps are filled.\<close>

definition io_desc_ok :: "pydict \<Rightarrow> bool" where
  "io_desc_ok d \<longleftrightarrow> dhas d ''paramType'' \<and> dhas d ''name'' \<and> dget d ''paramType'' \<noteq> PyStr []
     \<and> (if dhas d ''dtype'' then pieces_ok (dget d ''dtype'')
         \<and> (dhas d ''format'' \<longrightarrow> pieces_ok (dget d ''format'')
              \<and> piece_count (dget d ''format'') = piece_count (dget d ''dtype''))
       else \<not> dhas d ''format'')"

definition fill_missing :: "string \<Rightarrow> pydict \<Rightarrow> pydict" where
  "fill_missing k d = (if dhas d k then d else dset d k (PyStr []))"

definition section_ok :: "string \<times> pydict \<Rightarrow> bool" where
  "section_ok kd \<longleftrightarrow> (is_io_key (fst kd) \<longrightarrow> io_desc_ok (snd kd))"

definition completed :: "string \<times> pydict \<Rightarrow> string \<times> pydict" where
  "completed kd = (fst kd,
     if is_io_key (fst kd) then fill_missing ''format'' (fill_missing ''dtype'' (snd kd)) else snd kd)"

lemma dhas_map_of: "dhas d k \<longleftrightarrow> map_of d k \<noteq> None"
  by (simp add: dhas_def map_of_eq_None_iff)

lemma check_list_ok:
  "check_op_info_list_valid vs ss = Inr w \<longleftrightarrow>
     vs \<noteq> [] \<and> PyStr [] \<notin> set vs \<and> w = filter (\<lambda>v. \<not> py_in v (map PyStr ss)) vs"
  by (auto simp: check_op_info_list_valid_def forE_ok)

lemma piece_count_str: "pieces_ok v \<Longrightarrow> piece_count v = length (s_split '','' (str_of v))"
  by (auto simp: pieces_ok_def piece_count_def str_of_def split: pyval.splits)

lemma check_basic_dtype_0:
  "check_basic_dtype wl py 0 d = Inr (d', n) \<longleftrightarrow>
     (dhas d ''dtype'' \<longrightarrow> pieces_ok (dget d ''dtype'')) \<and> d' = fill_missing ''dtype'' d
     \<and> n = (if dhas d ''dtype'' then piece_count (dget d ''dtype'') else 0)"
proof (cases "map_of d ''dtype''")
  case None
  then show ?thesis by (auto simp: check_basic_dtype_def dhas_map_of fill_missing_def)
next
  case (Some v)
  then show ?thesis
    by (cases v) (auto simp: check_basic_dtype_def Let_def py_split_def check_list_ok pieces_ok_def
        dhas_map_of dget_def fill_missing_def piece_count_def)
qed

lemma check_basic_format_ok:
  "check_basic_format wl n d = Inr d' \<longleftrightarrow>
     (dhas d ''format'' \<longrightarrow> pieces_ok (dget d ''format'') \<and> n = piece_count (dget d ''format''))
     \<and> d' = fill_missing ''format'' d"
proof (cases "map_of d ''format''")
  case None
  then show ?thesis by (auto simp: check_basic_format_def dhas_map_of fill_missing_def)
next
  case (Some v)
  then show ?thesis
    by (cases v) (auto simp: check_basic_format_def py_split_def check_list_ok pieces_ok_def
        dhas_map_of dget_def fill_missing_def piece_count_def)
qed

lemma fill_missing_other:
  "j \<noteq> k \<Longrightarrow> dhas (fill_missing k d) j = dhas d j \<and> dget (fill_missing k d) j = dget d j"
  by (auto simp: fill_missing_def dhas_map_of dget_def dset_def update_conv' split: option.splits)

lemma piece_count_zero: "pieces_ok v \<Longrightarrow> piece_count v \<noteq> 0"
  by (simp add: piece_count_str)

lemma check_basic_filed_ok:
  "check_basic_filed_vaild wl py 0 d = Inr d' \<longleftrightarrow>
      dhas d ''paramType'' \<and> dget d ''paramType'' \<noteq> PyStr []
      \<and> (dhas d ''dtype'' \<longrightarrow> pieces_ok (dget d ''dtype''))
      \<and> (dhas d ''format'' \<longrightarrow> pieces_ok (dget d ''format'')
          \<and> (if dhas d ''dtype'' then piece_count (dget d ''dtype'') else 0) = piece_count (dget d ''format''))
      \<and> d' = fill_missing ''format'' (fill_missing ''dtype'' d)"
proof -
  have ptype: "ditem d ''paramType'' = Inr v \<longleftrightarrow> dhas d ''paramType'' \<and> v = dget d ''paramType''" for v
    by (cases "map_of d ''paramType''") (auto simp: ditem_def dhas_map_of dget_def)
  have other: "dhas (fill_missing ''dtype'' d) ''format'' = dhas d ''format''"
      "dget (fill_missing ''dtype'' d) ''format'' = dget d ''format''"
    using fill_missing_other [of "''format''" "''dtype''" d] by simp_all
  show ?thesis
    unfolding check_basic_filed_vaild_def
    by (simp add: ptype check_list_ok check_basic_dtype_0 check_basic_format_ok other
        eq_commute [of "PyStr []" "dget d ''paramType''"])
qed

lemma gen_check_required_key_ok:
  "gen_check_required_key d = Inr u \<longleftrightarrow> dhas d ''paramType'' \<and> dhas d ''name''"
  by (simp add: gen_check_required_key_def missing_info_keys_def REQUIRED_OP_INFO_KEYS_def)

lemma check_one_op_info_ok:
  "check_one_op_info wl py 0 kd = Inr kd' \<longleftrightarrow> section_ok kd \<and> kd' = completed kd"
proof -
  obtain k d where kd: "kd = (k, d)" by (cases kd)
  have "io_desc_ok d \<longleftrightarrow> dhas d ''paramType'' \<and> dhas d ''name'' \<and> dget d ''paramType'' \<noteq> PyStr []
      \<and> (dhas d ''dtype'' \<longrightarrow> pieces_ok (dget d ''dtype''))
      \<and> (dhas d ''format'' \<longrightarrow> pieces_ok (dget d ''format'')
          \<and> (if dhas d ''dtype'' then piece_count (dget d ''dtype'') else 0) = piece_count (dget d ''format''))"
    using piece_count_zero [of "dget d ''format''"]
    by (cases "dhas d ''dtype''"; cases "dhas d ''format''"; simp add: io_desc_ok_def; fastforce)
  then show ?thesis
    by (cases "is_io_key k"; cases "dhas d ''dtype''"; cases "dhas d ''format''")
       (simp_all add: kd check_one_op_info_def section_ok_def completed_def gen_check_required_key_ok
          check_basic_filed_ok, fast+)
qed

lemma check_op_info_ok:
  "check_op_info wl py info = Inr info' \<longleftrightarrow> list_all section_ok info \<and> info' = map completed info"
  unfolding check_op_info_def Let_def mapE_ok
  by (simp add: check_one_op_info_ok list_all2_conv_all_nth list_all_length list_eq_iff_nth_eq) auto

text \<open>
  C33. The check of an operator description accepts exactly the descriptions whose inputs and
  outputs each have a parameter type, a name and as many formats as data types; it looks at
  one entry at a time and fills a missing type or format with the empty text.
\<close>

theorem check_op_info_spec:
  "check_op_info wl py info = Inr info' \<longleftrightarrow> list_all section_ok info \<and> info' = map completed info"
  by (rule check_op_info_ok)

text \<open>So inputs and outputs with different numbers of types pass.\<close>

lemma dtype_counts_not_compared:
  "check_op_info wl False
     [(''input0'', [(''paramType'', PyStr ''required''), (''name'', PyStr ''x''), (''dtype'', PyStr ''float,int8'')]),
      (''output0'', [(''paramType'', PyStr ''required''), (''name'', PyStr ''y''), (''dtype'', PyStr ''float'')])]
   \<noteq> Inl err_opinfo"
  by (simp add: check_op_info_def check_one_op_info_def is_io_key_def startswith_def
      gen_check_required_key_def missing_info_keys_def REQUIRED_OP_INFO_KEYS_def dhas_def
      check_basic_filed_vaild_def ditem_def check_op_info_list_valid_def check_basic_dtype_def
      py_split_def s_split_def check_basic_format_def)

section \<open>Default values\<close>

text \<open>The parsers raise \<^verbatim>\<open>ValueError\<close> only, and give values of their type.\<close>

definition parses_to :: "(string \<Rightarrow> pyval res) \<Rightarrow> (pyval \<Rightarrow> bool) \<Rightarrow> bool" where
  "parses_to p ok \<longleftrightarrow> (\<forall>s. p s = Inl ValueError \<or> (\<exists>v. p s = Inr v \<and> ok v))"

lemma parses_to_cases:
  assumes "parses_to p ok"
  obtains "p s = Inl ValueError" | v where "p s = Inr v" "ok v"
  using assms by (auto simp: parses_to_def)

lemma parses_int: "parses_to parse_int_value is_int"
  by (auto simp: parses_to_def parse_int_value_def value_or_def split: option.splits)

lemma parses_float: "parses_to parse_float_value is_float"
  by (auto simp: parses_to_def parse_float_value_def value_or_def split: option.splits)

lemma parses_bool: "parses_to parse_bool_value is_bool"
  by (auto simp: parses_to_def parse_bool_value_def Let_def)

definition non_empty_list_of :: "(pyval \<Rightarrow> bool) \<Rightarrow> pyval \<Rightarrow> bool" where
  "non_empty_list_of ok v \<longleftrightarrow> (\<exists>ws. v = PyList ws \<and> ws \<noteq> [] \<and> list_all ok ws)"

lemma mapE_parses:
  assumes "parses_to p ok"
  shows "mapE p xs = Inl ValueError \<or> (\<exists>vs. mapE p xs = Inr vs \<and> length vs = length xs \<and> list_all ok vs)"
proof (induction xs)
  case (Cons x xs)
  then show ?case by (rule_tac parses_to_cases [OF assms, of x]) auto
qed simp

lemma parse_values_ok:
  assumes "parses_to p ok" and "xs \<noteq> []"
  shows "parse_values p xs = Inl ValueError \<or> (\<exists>v. parse_values p xs = Inr v \<and> non_empty_list_of ok v)"
  using mapE_parses [OF assms(1), of xs] assms(2) by (auto simp: parse_values_def non_empty_list_of_def)

lemma parses_inner: "parses_to parse_int_list_item (non_empty_list_of is_int)"
  using parse_values_ok [OF parses_int s_split_nonempty]
  by (auto simp: parses_to_def parse_int_list_item_def raise_if_def)

lemma parses_list_list: "parses_to parse_list_list_int_value (non_empty_list_of (non_empty_list_of is_int))"
  using parse_values_ok [OF parses_inner s_split_nonempty]
  by (auto simp: parses_to_def parse_list_list_int_value_def Let_def raise_if_def)

definition list_type_ok :: "string \<Rightarrow> pyval \<Rightarrow> bool" where
  "list_type_ok t v \<longleftrightarrow> (case map_of ATTR_TYPE_MAP t of None \<Rightarrow> True | Some u \<Rightarrow> attr_value_ok u v)"

definition plain_types :: "string set" where
  "plain_types = {''int'', ''float'', ''bool'', ''str'', ''type''}"

definition list_types :: "string set" where
  "list_types = {''listInt'', ''listFloat'', ''listBool'', ''listStr'', ''listListInt''}"

lemma attr_type_names: "map_of ATTR_TYPE_MAP t = None \<or> t \<in> plain_types \<or> t \<in> list_types"
proof -
  have "fst ` set ATTR_TYPE_MAP = plain_types \<union> list_types"
    by (simp add: ATTR_TYPE_MAP_def plain_types_def list_types_def insert_commute)
  then show ?thesis unfolding map_of_eq_None_iff by blast
qed

lemma list_names:
  "t \<in> list_types \<Longrightarrow> startswith t ''list''" "t \<in> plain_types \<Longrightarrow> \<not> startswith t ''list''"
  by (auto simp: startswith_def list_types_def plain_types_def)

lemma list_type_unknown: "map_of ATTR_TYPE_MAP t = None \<Longrightarrow> list_type_ok t v"
  by (simp add: list_type_ok_def)

lemma list_types_ok:
  "list_type_ok ''listInt'' v \<longleftrightarrow> attr_value_ok ''list_int'' v"
  "list_type_ok ''listFloat'' v \<longleftrightarrow> attr_value_ok ''list_float'' v"
  "list_type_ok ''listBool'' v \<longleftrightarrow> attr_value_ok ''list_bool'' v"
  "list_type_ok ''listStr'' v \<longleftrightarrow> attr_value_ok ''list_string'' v"
  "list_type_ok ''listListInt'' v \<longleftrightarrow> attr_value_ok ''list_list_int'' v"
  "list_type_ok ''int'' v \<longleftrightarrow> attr_value_ok ''int'' v"
  "list_type_ok ''float'' v \<longleftrightarrow> attr_value_ok ''float'' v"
  "list_type_ok ''bool'' v \<longleftrightarrow> attr_value_ok ''bool'' v"
  "list_type_ok ''str'' v \<longleftrightarrow> attr_value_ok ''string'' v"
  by (simp_all add: list_type_ok_def ATTR_TYPE_MAP_def del: attr_value_ok.simps)

lemma list_values_ok:
  "attr_value_ok ''list_int'' v \<longleftrightarrow> v = PyList [] \<or> non_empty_list_of is_int v"
  "attr_value_ok ''list_float'' v \<longleftrightarrow> v = PyList [] \<or> non_empty_list_of is_float v"
  "attr_value_ok ''list_bool'' v \<longleftrightarrow> v = PyList [] \<or> non_empty_list_of is_bool v"
  "attr_value_ok ''list_string'' v \<longleftrightarrow> v = PyList [] \<or> non_empty_list_of is_str v"
  "attr_value_ok ''list_list_int'' v \<longleftrightarrow> v = PyList [] \<or> non_empty_list_of (non_empty_list_of is_int) v"
  by (auto simp: non_empty_list_of_def list_all_iff)

lemma get_attr_type_list_value_ok:
  assumes "s \<noteq> []" and "startswith t ''list''"
  shows "get_attr_type_list_value t s = Inl ValueError
    \<or> (\<exists>v. get_attr_type_list_value t s = Inr v \<and> list_type_ok t v)"
proof -
  note items = parse_values_ok [OF parses_int s_split_nonempty [of "'',''" "butlast (tl s)"]]
    parse_values_ok [OF parses_float s_split_nonempty [of "'',''" "butlast (tl s)"]]
    parse_values_ok [OF parses_bool s_split_nonempty [of "'',''" "butlast (tl s)"]]
  note rules = list_types_ok list_values_ok get_attr_type_list_value_def raise_if_def Let_def
  consider "t = ''listInt''" | "t = ''listFloat''" | "t = ''listBool''" | "t = ''listStr''"
    | "t = ''listListInt''" | "t \<notin> list_types"
    unfolding list_types_def by blast
  then show ?thesis
  proof cases
    case 1
    with items(1) assms(1) show ?thesis by (auto simp: rules simp del: attr_value_ok.simps)
  next
    case 2
    with items(2) assms(1) show ?thesis by (auto simp: rules simp del: attr_value_ok.simps)
  next
    case 3
    with items(3) assms(1) show ?thesis by (auto simp: rules simp del: attr_value_ok.simps)
  next
    case 4
    have "list_all is_str (map (PyStr \<circ> s_strip) vs)" for vs by (simp add: list_all_iff)
    with 4 assms(1) show ?thesis
      by (auto simp: rules non_empty_list_of_def simp del: attr_value_ok.simps)
  next
    case 5
    have "parse_list_list_int_value s = Inl ValueError
      \<or> (\<exists>v. parse_list_list_int_value s = Inr v \<and> list_type_ok t v)"
      using parses_list_list unfolding parses_to_def 5 list_types_ok list_values_ok by blast
    moreover have "list_type_ok t (PyList [])" by (simp add: 5 list_types_ok)
    ultimately show ?thesis using assms(1) 5
      by (cases "s = ''[]''") (auto simp: get_attr_type_list_value_def raise_if_def Let_def)
  next
    case 6
    then have "list_type_ok t v" for v
      using attr_type_names [of t] list_names(2) [of t] assms(2) list_type_unknown [of t] by blast
    with 6 assms show ?thesis
      by (simp add: list_types_def get_attr_type_list_value_def raise_if_def Let_def)
  qed
qed

lemma get_default_value_ok:
  assumes "s \<noteq> [] \<or> \<not> startswith t ''list''" and "t \<noteq> ''type''"
  shows "get_default_value t s = Inl ValueError
    \<or> (\<exists>v. get_default_value t s = Inr v \<and> list_type_ok t v)"
proof -
  consider "t = ''int''" | "t = ''float''" | "t = ''bool''" | "t = ''str''" | "startswith t ''list''"
    | "t \<notin> plain_types" "\<not> startswith t ''list''"
    using assms(2) unfolding plain_types_def by blast
  then show ?thesis
  proof cases
    case 5
    with assms(1) have "s \<noteq> []" by blast
    moreover have "t \<notin> plain_types" using list_names(2) [of t] 5 by blast
    ultimately show ?thesis
      using get_attr_type_list_value_ok [of s t] 5 by (simp add: get_default_value_def plain_types_def)
  next
    case 6
    then have "list_type_ok t v" for v
      using attr_type_names [of t] list_names(1) [of t] assms(2) list_type_unknown [of t] by blast
    with 6 show ?thesis by (simp add: get_default_value_def plain_types_def)
  next
    case 1
    then show ?thesis using parses_int
      unfolding parses_to_def by (simp add: get_default_value_def list_types_ok)
  next
    case 2
    then show ?thesis using parses_float
      unfolding parses_to_def by (simp add: get_default_value_def list_types_ok)
  next
    case 3
    then show ?thesis using parses_bool
      unfolding parses_to_def by (simp add: get_default_value_def list_types_ok)
  next
    case 4
    then show ?thesis by (simp add: get_default_value_def list_types_ok)
  qed
qed

text \<open>
  The default value written for an attribute has the attribute's type: it is absent, when the text is not of
  the type, or a value that the designer's own check accepts. Only an empty text for a list
  escapes as \<^verbatim>\<open>IndexError\<close>. (The type \<^verbatim>\<open>type\<close> has no reader and always gives the empty text.)
\<close>

theorem default_value_typed:
  assumes "map_of ATTR_TYPE_MAP t = Some u" and "t \<noteq> ''type''"
  shows "get_default_attr_value t (PyStr s) = Inr PyNone
    \<or> (\<exists>v. get_default_attr_value t (PyStr s) = Inr v \<and> attr_value_ok u v)
    \<or> (startswith t ''list'' \<and> s_strip s = [] \<and> get_default_attr_value t (PyStr s) = Inl IndexError)"
proof (cases "s_strip s \<noteq> [] \<or> \<not> startswith t ''list''")
  case True
  from get_default_value_ok [OF this assms(2)] assms(1) show ?thesis
    by (auto simp: get_default_attr_value_def list_type_ok_def simp del: attr_value_ok.simps)
next
  case False
  then have "t \<notin> {''float'', ''int'', ''bool'', ''str''}" by (auto simp: startswith_def)
  with False show ?thesis
    by (simp add: get_default_attr_value_def get_default_value_def get_attr_type_list_value_def)
qed

theorem default_value_typed_witness:
  "get_default_attr_value ''listListInt'' (PyStr ''[[1,2],[3]]'')
     = Inr (PyList [PyList [PyInt 1, PyInt 2], PyList [PyInt 3]])
   \<and> attr_value_ok ''list_list_int'' (PyList [PyList [PyInt 1, PyInt 2], PyList [PyInt 3]])"
proof -
  have v: "get_default_attr_value ''listListInt'' (PyStr ''[[1,2],[3]]'')
     = Inr (PyList [PyList [PyInt 1, PyInt 2], PyList [PyInt 3]])" by code_simp
  have "map_of ATTR_TYPE_MAP ''listListInt'' = Some ''list_list_int''" by (simp add: ATTR_TYPE_MAP_def)
  from default_value_typed [OF this, of "''[[1,2],[3]]''"] v show ?thesis by simp
qed

text \<open>An empty list of lists is refused, although the other lists may be empty.\<close>

lemma empty_defaults:
  "get_default_attr_value ''listListInt'' (PyStr ''[]'') = Inr PyNone"
  "get_default_attr_value ''listInt'' (PyStr ''[]'') = Inr (PyList [])"
  by code_simp+

text \<open>A default of type \<^verbatim>\<open>type\<close> is dropped, and the empty text that replaces it is not a type.\<close>

lemma type_default_lost:
  "get_default_attr_value ''type'' (PyStr s) = Inr (PyStr [])"
  "\<not> attr_value_ok ''data_type'' (PyStr [])"
  by (simp_all add: get_default_attr_value_def get_default_value_def startswith_def
      ATTR_TYPE_SUPPORT_TYPE_MAP_def)

end
