(* ===== verification/Op_Proto.thy ===== *)
theory Op_Proto
  imports Case_Ini
begin

text \<open>
  Reading the declaration of an operator of the AI CPU from its C++ header
  (\<^verbatim>\<open>_parse_aicpu_op_proto\<close> and its parts in \<^verbatim>\<open>main/case_generator.py\<close>): comments are
  removed, the text is cut at \<^verbatim>\<open>).\<close>, and each piece that declares an input, an output or an
  attribute adds an entry to the description. The order of \<^verbatim>\<open>list(set(..))\<close> only matters to
  warnings here.
\<close>

abbreviation (input) NEW_LINE_MARK :: string where "NEW_LINE_MARK \<equiv> [CHR 0x5C]"
abbreviation (input) QUOTATION_MARK :: string where "QUOTATION_MARK \<equiv> [CHR 0x22]"

section \<open>Searching the text\<close>

text \<open>The text after the first occurrence of \<^verbatim>\<open>*/\<close>.\<close>

fun after_comment :: "string \<Rightarrow> string option" where
  "after_comment [] = None"
| "after_comment (c # cs) =
     (if startswith (c # cs) ''*/'' then Some (tl cs) else after_comment cs)"

lemma after_comment_shorter: "after_comment s = Some t \<Longrightarrow> length t < length s"
  by (induction s) (auto split: if_splits)

text \<open>
  \<^verbatim>\<open>re.sub\<close> with the two alternatives of \<^verbatim>\<open>_delete_comments\<close>: from \<^verbatim>\<open>//\<close> to the end of
  the line, and from \<^verbatim>\<open>/*\<close> to the nearest \<^verbatim>\<open>*/\<close>; without an end it is kept.
\<close>

function drop_comments :: "string \<Rightarrow> string" where
  "drop_comments [] = []"
| "drop_comments (c # cs) =
     (if startswith (c # cs) ''//'' then drop_comments (dropWhile (\<lambda>x. x \<noteq> CHR 0x0A) cs)
      else if startswith (c # cs) ''/*'' then
        (case after_comment (tl cs) of
           Some t \<Rightarrow> drop_comments t
         | None \<Rightarrow> c # drop_comments cs)
      else c # drop_comments cs)"
  by pat_completeness auto
termination
proof (relation "measure length")
  show "wf (measure length)" by simp
next
  fix c :: char and cs :: string
  show "(dropWhile (\<lambda>x. x \<noteq> CHR 0x0A) cs, c # cs) \<in> measure length"
    by (simp add: le_imp_less_Suc length_dropWhile_le)
next
  fix c :: char and cs t :: string
  assume "after_comment (tl cs) = Some t"
  then have "length t < length (tl cs)" by (rule after_comment_shorter)
  then show "(t, c # cs) \<in> measure length" by simp
qed auto

definition delete_comments :: "string \<Rightarrow> string" where
  "delete_comments content = s_strip (drop_comments content)"

text \<open>
  \<^verbatim>\<open>re.findall\<close> of \<^verbatim>\<open>[(](.*?)[,]\<close>, its first group: the text between the first
  parenthesis that has a comma after it on its line, and that comma.
\<close>

fun paren_name :: "string \<Rightarrow> string option" where
  "paren_name [] = None"
| "paren_name (c # cs) =
     (let t = takeWhile (\<lambda>x. x \<noteq> CHR '','' \<and> x \<noteq> CHR 0x0A) cs in
      if c = CHR ''('' \<and> length t < length cs \<and> cs ! length t = CHR '','' then Some t
      else paren_name cs)"

definition parse_name_from_op_proto_file :: "string \<Rightarrow> string" where
  "parse_name_from_op_proto_file start_str =
     (case paren_name start_str of Some name \<Rightarrow> name | None \<Rightarrow> [])"

text \<open>
  \<^verbatim>\<open>s[s.find(a) + 1 : s.find(b)]\<close>: a failed search is -1, so the slice then starts at the
  beginning or ends before the last character.
\<close>

definition slice_between :: "string \<Rightarrow> string \<Rightarrow> string \<Rightarrow> string" where
  "slice_between s a b =
     (let start = (case s_find s a of Some i \<Rightarrow> i + 1 | None \<Rightarrow> 0);
          stop = (case s_find s b of Some j \<Rightarrow> j | None \<Rightarrow> length s - 1)
      in drop start (take stop s))"

definition slice_after :: "string \<Rightarrow> string \<Rightarrow> string" where
  "slice_after s a = drop (case s_find s a of Some i \<Rightarrow> i + 1 | None \<Rightarrow> 0) s"

section \<open>Inputs and outputs\<close>

definition set_default_section :: "op_infos \<Rightarrow> string \<Rightarrow> op_infos" where
  "set_default_section info k = (if dhas info k then info else dset info k [])"

definition info_set :: "op_infos \<Rightarrow> string \<Rightarrow> string \<Rightarrow> pyval \<Rightarrow> op_infos" where
  "info_set info k j v = dset info k (dset (info_get info k) j v)"

definition get_op_info_from_head_file ::
    "gen_lists \<Rightarrow> op_infos \<Rightarrow> string \<Rightarrow> string \<Rightarrow> string \<Rightarrow> op_infos res" where
  "get_op_info_from_head_file wl info op_info_key input_tensor_type name =
     (let info = set_default_section info op_info_key in
      if op_info_key = [] then Inr info
      else (let tensor_type = s_replace (s_replace input_tensor_type NEW_LINE_MARK EMPTY) SPACE EMPTY in
        bindE (check_op_info_list_valid (map PyStr (remdups (s_split COMMA tensor_type)))
                (map fst (gl_aicpu_type_map wl))) (\<lambda>_.
          Inr (info_set (info_set (info_set info op_info_key ''name'' (PyStr name))
                op_info_key ''type'' (PyStr (s_replace tensor_type '' '' [])))
                op_info_key ''format'' (PyStr [])))))"

type_synonym proto_state = "op_infos \<times> nat \<times> nat"

definition declare_io :: "gen_lists \<Rightarrow> string \<Rightarrow> proto_state \<Rightarrow> string \<Rightarrow> proto_state res" where
  "declare_io wl line st kind = (case st of (info, input_count, output_count) \<Rightarrow>
     (let name = parse_name_from_op_proto_file line;
          input_tensor_type = slice_between line ''{'' ''}'' in
      (let (op_info_key, input_count, output_count) =
              (if kind = ''input'' then (kind @ str_nat input_count, input_count + 1, output_count)
               else if kind = ''output'' then (kind @ str_nat output_count, input_count, output_count + 1)
               else ([], input_count, output_count)) in
            bindE (get_op_info_from_head_file wl info op_info_key input_tensor_type name)
              (\<lambda>info. Inr (info, input_count, output_count)))))"

text \<open>
  The loop over the keywords, where a declaration without a name leaves it. The piece starts with
  the keyword, so \<^verbatim>\<open>line[line.find(op_key):]\<close> is the piece.
\<close>

fun parse_aicpu_input_output_info ::
    "gen_lists \<Rightarrow> string \<Rightarrow> (string \<times> string) list \<Rightarrow> proto_state \<Rightarrow> proto_state res" where
  "parse_aicpu_input_output_info wl line [] st = Inr st"
| "parse_aicpu_input_output_info wl line ((op_key, kind) # keys) st =
     (if startswith line op_key then
        (if parse_name_from_op_proto_file line = [] then Inr st
         else bindE (declare_io wl line st kind)
                (\<lambda>st'. parse_aicpu_input_output_info wl line keys st'))
      else parse_aicpu_input_output_info wl line keys st)"

section \<open>Attributes\<close>

text \<open>
  \<^verbatim>\<open>_get_attr_tensor_type\<close>: the type and, for \<^verbatim>\<open>ATTR\<close>, the default. Without a default
  the empty dictionary is printed as \<^verbatim>\<open>[]\<close> and the type is empty.
\<close>

definition split_type_attrs :: "string \<Rightarrow> (string \<times> string) res" where
  "split_type_attrs type_attrs =
     (case s_find type_attrs '','' of
        Some i \<Rightarrow> Inr (take i type_attrs, drop (i + 1) type_attrs)
      | None \<Rightarrow> Inl IndexError)"

definition get_attr_tensor_type :: "string \<Rightarrow> string \<Rightarrow> string \<times> string option" where
  "get_attr_tensor_type op_key type_attrs =
     (if op_key = ''ATTR'' then
        (let (attr_tensor_type, default_value_str) =
               (case split_type_attrs type_attrs of Inr p \<Rightarrow> p | Inl _ \<Rightarrow> ([], ''{}''));
             default_value = s_replace (format_dict_to_list default_value_str) NEW_LINE_MARK EMPTY
         in (attr_tensor_type, Some (s_replace default_value QUOTATION_MARK EMPTY)))
      else (hd (s_split '')'' type_attrs), None))"

definition declare_attr :: "string \<Rightarrow> op_infos \<Rightarrow> string \<Rightarrow> op_infos res" where
  "declare_attr line info op_key =
     (if startswith line op_key then
        (let name = parse_name_from_op_proto_file line;
             attr_name = ''attr_'' @ name;
             info = info_set (set_default_section info attr_name) attr_name ''name'' (PyStr name);
             type_attrs = s_strip (slice_after line '','');
             (attr_tensor_type, default_value) = get_attr_tensor_type op_key type_attrs;
             info = (case default_value of None \<Rightarrow> info
                     | Some dv \<Rightarrow> info_set info attr_name ''defaultValue'' (PyStr dv)) in
         bindE (check_op_info_list_valid [PyStr attr_tensor_type] (map fst OP_PROTO_PARSE_ATTR_TYPE_MAP))
           (\<lambda>_. Inr (info_set info attr_name ''type''
             (case map_of OP_PROTO_PARSE_ATTR_TYPE_MAP attr_tensor_type of
                Some t \<Rightarrow> PyStr t | None \<Rightarrow> PyNone))))
      else Inr info)"

definition parse_aicpu_attr :: "string \<Rightarrow> op_infos \<Rightarrow> op_infos res" where
  "parse_aicpu_attr line info = foldE (declare_attr line) info AICPU_ATTR_LIST"

section \<open>The whole header\<close>

definition parse_proto_piece :: "gen_lists \<Rightarrow> proto_state \<Rightarrow> string \<Rightarrow> proto_state res" where
  "parse_proto_piece wl st piece =
     (let line = s_strip piece in
      bindE (parse_aicpu_input_output_info wl line IN_OUT_OP_KEY_MAP st)
        (\<lambda>(info, input_count, output_count).
      bindE (parse_aicpu_attr line info) (\<lambda>info. Inr (info, input_count, output_count))))"

definition proto_pieces :: "string \<Rightarrow> string list" where
  "proto_pieces reg_op_info_str =
     (let no_comments_content = delete_comments reg_op_info_str;
          new_line = s_replace (s_replace (s_replace no_comments_content [CHR 0x0A] EMPTY)
                       [CHR 0x0D] EMPTY) [CHR 0x09] EMPTY;
          line = s_replace new_line SPACE EMPTY
      in s_split '').'' line)"

text \<open>The text from \<^verbatim>\<open>REG_OP\<close> on; a failed search leaves the last character.\<close>

definition from_reg_op :: "string \<Rightarrow> string" where
  "from_reg_op text =
     (case s_find text ''REG_OP'' of Some i \<Rightarrow> drop i text | None \<Rightarrow> drop (length text - 1) text)"

definition parse_aicpu_op_proto :: "gen_lists \<Rightarrow> op_infos \<Rightarrow> string \<Rightarrow> (op_infos \<times> bool) res" where
  "parse_aicpu_op_proto wl info op_name_h_text =
     (let reg_op_info_str = s_strip (from_reg_op op_name_h_text) in
      if op_name_h_text \<noteq> [] \<and> startswith reg_op_info_str ''REG_OP'' then
        bindE (foldE (parse_proto_piece wl) (info, 0, 0) (proto_pieces reg_op_info_str))
          (\<lambda>(info, _, _). Inr (info, True))
      else Inr (info, False))"

section \<open>Declarations and their text\<close>

text \<open>The declarations an operator's header is made of, as the macros write them.\<close>

datatype decl =
    D_Input string "string list"
  | D_Output string "string list"
  | D_Attr string string string
  | D_Required_Attr string string

fun render :: "decl \<Rightarrow> string" where
  "render (D_Input n ts) = ''INPUT('' @ n @ '',TensorType({'' @ s_join '','' ts @ ''}))''"
| "render (D_Output n ts) = ''OUTPUT('' @ n @ '',TensorType({'' @ s_join '','' ts @ ''}))''"
| "render (D_Attr n t v) = ''ATTR('' @ n @ '','' @ t @ '','' @ v @ '')''"
| "render (D_Required_Attr n t) = ''REQUIRED_ATTR('' @ n @ '','' @ t @ '')''"

definition header_text :: "string \<Rightarrow> decl list \<Rightarrow> string" where
  "header_text op ds =
     ''REG_OP('' @ op @ '').'' @ concat (map (\<lambda>d. render d @ ''.'') ds) @ ''OP_END_FACTORY_REG('' @ op @ '')''"

definition ident_char :: "char \<Rightarrow> bool" where
  "ident_char c \<longleftrightarrow> c_upper c \<or> c_lower c \<or> c_digit c \<or> c = CHR ''_''"

definition ident :: "string \<Rightarrow> bool" where
  "ident s \<longleftrightarrow> s \<noteq> [] \<and> list_all ident_char s"

fun decl_ok :: "decl \<Rightarrow> bool" where
  "decl_ok (D_Input n ts) \<longleftrightarrow> ident n \<and> ts \<noteq> [] \<and> list_all ident ts"
| "decl_ok (D_Output n ts) \<longleftrightarrow> ident n \<and> ts \<noteq> [] \<and> list_all ident ts"
| "decl_ok (D_Attr n t v) \<longleftrightarrow> ident n \<and> ident t \<and> list_all (\<lambda>c. ident_char c \<or> c = CHR ''.'') v"
| "decl_ok (D_Required_Attr n t) \<longleftrightarrow> ident n \<and> ident t"

text \<open>What a declaration adds to the description: the specification of the parser.\<close>

definition io_entry :: "op_infos \<Rightarrow> string \<Rightarrow> string \<Rightarrow> string list \<Rightarrow> op_infos" where
  "io_entry info key n ts =
     info_set (info_set (info_set (set_default_section info key) key ''name'' (PyStr n))
       key ''type'' (PyStr (s_join '','' ts))) key ''format'' (PyStr [])"

definition attr_type_value :: "string \<Rightarrow> pyval" where
  "attr_type_value t = (case map_of OP_PROTO_PARSE_ATTR_TYPE_MAP t of Some u \<Rightarrow> PyStr u | None \<Rightarrow> PyNone)"

fun add_decl :: "proto_state \<Rightarrow> decl \<Rightarrow> proto_state" where
  "add_decl (info, i, j) (D_Input n ts) = (io_entry info (''input'' @ str_nat i) n ts, i + 1, j)"
| "add_decl (info, i, j) (D_Output n ts) = (io_entry info (''output'' @ str_nat j) n ts, i, j + 1)"
| "add_decl (info, i, j) (D_Attr n t v) =
     (let a = ''attr_'' @ n in
      (info_set (info_set (info_set (set_default_section info a) a ''name'' (PyStr n))
         a ''defaultValue'' (PyStr v)) a ''type'' (attr_type_value t), i, j))"
| "add_decl (info, i, j) (D_Required_Attr n t) =
     (let a = ''attr_'' @ n in
      (info_set (info_set (set_default_section info a) a ''name'' (PyStr n))
         a ''type'' (attr_type_value t), i, j))"

section \<open>Characters of the text\<close>

lemma ident_not:
  assumes "list_all ident_char s" and "\<not> ident_char c"
  shows "c \<notin> set s"
  using assms by (auto simp: list_all_iff)

lemma not_ident_chars [simp]:
  "\<not> ident_char CHR ''/''" "\<not> ident_char CHR ''.''" "\<not> ident_char CHR '',''" "\<not> ident_char CHR ''(''"
  "\<not> ident_char CHR '')''" "\<not> ident_char CHR ''{''" "\<not> ident_char CHR ''}''" "\<not> ident_char CHR '' ''"
  "\<not> ident_char CHR 0x0A" "\<not> ident_char CHR 0x0D" "\<not> ident_char CHR 0x09" "\<not> ident_char CHR 0x5C"
  "\<not> ident_char CHR 0x22"
  by (simp_all add: ident_char_def c_upper_def c_lower_def c_digit_def)

lemma ident_no_space: "ident_char c \<Longrightarrow> \<not> c_space c"
  by (auto simp: ident_char_def c_upper_def c_lower_def c_digit_def c_space_def)

lemma set_s_join: "set (s_join sep xs) \<subseteq> (\<Union>x\<in>set xs. set x) \<union> set sep"
  by (induction sep xs rule: s_join.induct) auto

lemma join_chars: "list_all ident ts \<Longrightarrow> c \<in> set (s_join '','' ts) \<Longrightarrow> ident_char c \<or> c = CHR '',''"
  using set_s_join [of "'',''" ts] by (auto simp: list_all_iff ident_def)

lemma drop_comments_none: "CHR ''/'' \<notin> set s \<Longrightarrow> drop_comments s = s"
  by (induction s rule: drop_comments.induct) (auto simp: startswith_def)

lemma s_replace_char_absent: "x \<notin> set s \<Longrightarrow> s_replace s [x] [] = s"
  by (auto simp: s_replace_del_char filter_id_conv)

lemma s_find_char: "x \<notin> set p \<Longrightarrow> s_find (p @ x # t) [x] = Some (length p)"
  by (induction p) (auto simp: startswith_def)

text \<open>Cutting at \<^verbatim>\<open>).\<close>.\<close>

lemma split_piece:
  assumes "CHR ''.'' \<notin> set p \<or> CHR '')'' \<notin> set p"
  shows "split_aux '').'' acc (p @ CHR '')'' # CHR ''.'' # t) = (rev acc @ p) # split_aux '').'' [] t"
  using assms
proof (induction p arbitrary: acc)
  case Nil
  then show ?case by (simp add: startswith_def)
next
  case (Cons c p)
  have "\<not> startswith (c # p @ CHR '')'' # CHR ''.'' # t) '').''"
    using Cons.prems by (cases p) (auto simp: startswith_def)
  with Cons show ?case by auto
qed

section \<open>Cutting a header into declarations\<close>

fun piece :: "decl \<Rightarrow> string" where
  "piece (D_Input n ts) = ''INPUT('' @ n @ '',TensorType({'' @ s_join '','' ts @ ''})''"
| "piece (D_Output n ts) = ''OUTPUT('' @ n @ '',TensorType({'' @ s_join '','' ts @ ''})''"
| "piece (D_Attr n t v) = ''ATTR('' @ n @ '','' @ t @ '','' @ v"
| "piece (D_Required_Attr n t) = ''REQUIRED_ATTR('' @ n @ '','' @ t"

lemma render_piece: "render d @ ''.'' @ r = piece d @ CHR '')'' # CHR ''.'' # r"
  by (cases d) simp_all

definition quiet_char :: "char \<Rightarrow> bool" where
  "quiet_char c \<longleftrightarrow> c \<notin> {CHR ''/'', CHR '' '', CHR 0x0A, CHR 0x0D, CHR 0x09}"

lemma ident_quiet: "ident_char c \<Longrightarrow> quiet_char c"
  by (auto simp: quiet_char_def)

lemma list_all_ident: "ident s \<Longrightarrow> list_all ident_char s"
  by (simp add: ident_def)

lemma quiet_ident: "list_all ident_char s \<Longrightarrow> list_all quiet_char s"
  by (auto simp: list_all_iff ident_quiet)

lemma quiet_join: "list_all ident ts \<Longrightarrow> list_all quiet_char (s_join '','' ts)"
proof -
  assume "list_all ident ts"
  then have "quiet_char c" if "c \<in> set (s_join '','' ts)" for c
    using join_chars [of ts c] that ident_quiet [of c] by (auto simp: quiet_char_def)
  then show ?thesis by (simp add: list_all_iff)
qed
lemma piece_quiet: "decl_ok d \<Longrightarrow> list_all quiet_char (piece d)"
proof (cases d)
  case (D_Attr n t v)
  assume "decl_ok d"
  then have "list_all quiet_char v" by (auto simp: D_Attr list_all_iff quiet_char_def)
  with \<open>decl_ok d\<close> show ?thesis
    using quiet_ident [of n] quiet_ident [of t] by (simp add: D_Attr ident_def quiet_char_def)
qed (auto simp: ident_def quiet_ident quiet_join, auto simp: quiet_char_def)

lemma piece_cut: "decl_ok d \<Longrightarrow> CHR ''.'' \<notin> set (piece d) \<or> CHR '')'' \<notin> set (piece d)"
proof (cases d)
  case (D_Attr n t v)
  assume "decl_ok d"
  then show ?thesis by (auto simp: D_Attr list_all_iff ident_def)
next
  case (D_Input n ts)
  assume "decl_ok d"
  then show ?thesis using join_chars [of ts "CHR ''.''"] by (auto simp: D_Input list_all_iff ident_def)
next
  case (D_Output n ts)
  assume "decl_ok d"
  then show ?thesis using join_chars [of ts "CHR ''.''"] by (auto simp: D_Output list_all_iff ident_def)
next
  case (D_Required_Attr n t)
  assume "decl_ok d"
  then show ?thesis by (auto simp: D_Required_Attr list_all_iff ident_def)
qed

lemma cut_declarations:
  assumes "list_all decl_ok ds" and "CHR ''.'' \<notin> set r"
  shows "split_aux '').'' [] (concat (map (\<lambda>d. render d @ ''.'') ds) @ r) = map piece ds @ [r]"
  using assms(1)
proof (induction ds)
  case Nil
  have "\<not> s_contains r '').''" using assms(2) by (auto simp: s_contains_iff)
  then show ?case by (simp add: split_aux_no_sep)
next
  case (Cons d ds)
  have "concat (map (\<lambda>d. render d @ ''.'') (d # ds)) @ r
      = piece d @ CHR '')'' # CHR ''.'' # concat (map (\<lambda>d. render d @ ''.'') ds) @ r"
    using render_piece [of d "concat (map (\<lambda>d. render d @ ''.'') ds) @ r"] by simp
  with Cons show ?case
    using split_piece [OF piece_cut [of d], of "[]"] by (simp del: split_aux.simps)
qed

lemma header_quiet:
  assumes "list_all decl_ok ds" and "ident op"
  shows "list_all quiet_char (header_text op ds)"
proof -
  have "list_all quiet_char (render d @ ''.'')" if "decl_ok d" for d
    using render_piece [of d "[]"] piece_quiet [OF that] by (simp add: quiet_char_def)
  then have "list_all quiet_char (concat (map (\<lambda>d. render d @ ''.'') ds))"
    using assms(1) by (induction ds) (simp_all add: quiet_char_def)
  with assms(2) show ?thesis
    by (simp add: header_text_def ident_def quiet_ident) (simp add: quiet_char_def)
qed

lemma header_pieces:
  assumes "list_all decl_ok ds" and "ident op"
  shows "proto_pieces (header_text op ds)
    = (''REG_OP('' @ op) # map piece ds @ [''OP_END_FACTORY_REG('' @ op @ '')'']"
proof -
  let ?h = "header_text op ds"
  have quiet: "CHR ''/'' \<notin> set ?h" "CHR '' '' \<notin> set ?h" "CHR 0x0A \<notin> set ?h" "CHR 0x0D \<notin> set ?h"
      "CHR 0x09 \<notin> set ?h"
    using header_quiet [OF assms] by (auto simp: list_all_iff quiet_char_def)
  have "?h \<noteq> []" "\<not> c_space (hd ?h)" "\<not> c_space (last ?h)" by (simp_all add: header_text_def c_space_def)
  then have "s_strip ?h = ?h" by (rule strip_solid)
  then have "proto_pieces ?h = s_split '').'' ?h"
    using quiet by (simp add: proto_pieces_def delete_comments_def drop_comments_none s_replace_char_absent)
  moreover have "CHR ''.'' \<notin> set op" using assms(2) by (intro ident_not [OF list_all_ident]) simp_all
  moreover have "?h = (''REG_OP('' @ op) @ CHR '')'' # CHR ''.'' # concat (map (\<lambda>d. render d @ ''.'') ds)
      @ ''OP_END_FACTORY_REG('' @ op @ '')''" by (simp add: header_text_def)
  ultimately show ?thesis
    using split_piece [of "''REG_OP('' @ op" "[]"] cut_declarations [OF assms(1), of "''OP_END_FACTORY_REG('' @ op @ '')''"]
    by (simp add: s_split_def del: split_aux.simps append.simps)
qed

section \<open>Parsing a declaration\<close>

lemma paren_name_at:
  assumes "CHR ''('' \<notin> set p" and "CHR '','' \<notin> set n" and "CHR 0x0A \<notin> set n"
  shows "paren_name (p @ CHR ''('' # n @ CHR '','' # t) = Some n"
  using assms(1)
proof (induction p)
  case Nil
  have "takeWhile (\<lambda>x. x \<noteq> CHR '','' \<and> x \<noteq> CHR 0x0A) (n @ CHR '','' # t) = n"
    using assms(2,3) by (subst takeWhile_append2) auto
  then show ?case by (simp add: Let_def)
qed (auto simp: Let_def)
lemma slice_between_at:
  assumes "CHR ''{'' \<notin> set p" and "CHR ''}'' \<notin> set p" and "CHR ''}'' \<notin> set m"
  shows "slice_between (p @ CHR ''{'' # m @ CHR ''}'' # t) ''{'' ''}'' = m"
proof -
  have "s_find (p @ CHR ''{'' # m @ CHR ''}'' # t) ''{'' = Some (length p)"
    using assms(1) by (rule s_find_char)
  moreover have "s_find ((p @ CHR ''{'' # m) @ CHR ''}'' # t) ''}'' = Some (length (p @ CHR ''{'' # m))"
    using assms(2,3) by (intro s_find_char) auto
  ultimately show ?thesis by (simp add: slice_between_def)
qed

lemma slice_after_at: "x \<notin> set p \<Longrightarrow> slice_after (p @ x # t) [x] = t"
  by (simp add: slice_after_def s_find_char)

lemma strip_ends: "\<not> c_space c \<Longrightarrow> \<not> c_space (last (c # s)) \<Longrightarrow> s_strip (c # s) = c # s"
  by (rule strip_solid) simp_all


lemma types_text:
  assumes "list_all ident ts" and "ts \<noteq> []"
  shows "s_replace (s_replace (s_join '','' ts) NEW_LINE_MARK EMPTY) SPACE EMPTY = s_join '','' ts"
    and "s_split '','' (s_join '','' ts) = ts"
    and "CHR ''{'' \<notin> set (s_join '','' ts)" and "CHR ''}'' \<notin> set (s_join '','' ts)"
proof -
  have no: "c \<notin> set (s_join '','' ts)" if "\<not> ident_char c" "c \<noteq> CHR '',''" for c
    using join_chars [OF assms(1)] that by blast
  show "s_replace (s_replace (s_join '','' ts) NEW_LINE_MARK EMPTY) SPACE EMPTY = s_join '','' ts"
    using no by (simp add: s_replace_char_absent)
  show "CHR ''{'' \<notin> set (s_join '','' ts)" "CHR ''}'' \<notin> set (s_join '','' ts)" using no by simp_all
  have "\<forall>p\<in>set ts. CHR '','' \<notin> set p"
  proof
    fix p
    assume "p \<in> set ts"
    then have "list_all ident_char p" using assms(1) by (simp add: list_all_iff ident_def)
    then show "CHR '','' \<notin> set p" by (rule ident_not) simp
  qed
  with assms(2) show "s_split '','' (s_join '','' ts) = ts" by (rule s_split_join_char)
qed

lemma head_file_entry:
  assumes "list_all ident ts" and "ts \<noteq> []" and "key \<noteq> []"
  shows "get_op_info_from_head_file wl info key (s_join '','' ts) n = Inr (io_entry info key n ts)"
proof -
  have "PyStr [] \<notin> PyStr ` set ts" using assms(1) by (auto simp: list_all_iff ident_def)
  then have "\<exists>w. check_op_info_list_valid (map PyStr (remdups ts)) ss = Inr w" for ss
    using assms(2) by (auto simp: check_list_ok)
  moreover have "s_replace (s_join '','' ts) '' '' [] = s_join '','' ts"
    using join_chars [OF assms(1), of "CHR '' ''"] by (intro s_replace_char_absent) auto
  ultimately show ?thesis
    using assms(3) types_text [OF assms(1,2)]
    by (auto simp: get_op_info_from_head_file_def Let_def io_entry_def)
qed

lemma io_piece:
  assumes "ident n" and "list_all ident ts" and "CHR ''('' \<notin> set p" "CHR ''{'' \<notin> set p" "CHR ''}'' \<notin> set p"
  shows "parse_name_from_op_proto_file (p @ CHR ''('' # n @ '',TensorType({'' @ s_join '','' ts @ ''})'') = n"
    and "slice_between (p @ CHR ''('' # n @ '',TensorType({'' @ s_join '','' ts @ ''})'') ''{'' ''}'' = s_join '','' ts"
proof -
  have n: "c \<notin> set n" if "\<not> ident_char c" for c using list_all_ident [OF assms(1)] that by (rule ident_not)
  have j: "CHR ''}'' \<notin> set (s_join '','' ts)" using join_chars [OF assms(2), of "CHR ''}''"] by auto
  show "parse_name_from_op_proto_file (p @ CHR ''('' # n @ '',TensorType({'' @ s_join '','' ts @ ''})'') = n"
    using paren_name_at [OF assms(3) n n, of "''TensorType({'' @ s_join '','' ts @ ''})''"]
    by (simp add: parse_name_from_op_proto_file_def)
  have "slice_between ((p @ ''('' @ n @ '',TensorType('') @ CHR ''{'' # s_join '','' ts @ CHR ''}'' # '')'') ''{'' ''}''
      = s_join '','' ts"
    using assms(4,5) n [of "CHR ''{''"] n [of "CHR ''}''"] j by (intro slice_between_at) auto
  then show "slice_between (p @ CHR ''('' # n @ '',TensorType({'' @ s_join '','' ts @ ''})'') ''{'' ''}'' = s_join '','' ts"
    by simp
qed

lemma parse_input:
  assumes "decl_ok (D_Input n ts)"
  shows "parse_proto_piece wl (info, i, j) (piece (D_Input n ts)) = Inr (add_decl (info, i, j) (D_Input n ts))"
proof -
  have ok: "ident n" "ts \<noteq> []" "list_all ident ts" using assms by simp_all
  have strip: "s_strip (piece (D_Input n ts)) = piece (D_Input n ts)"
    by (simp add: strip_ends c_space_def)
  from io_piece [OF ok(1,3), of "''INPUT''"]
  have name: "parse_name_from_op_proto_file (piece (D_Input n ts)) = n"
    and types: "slice_between (piece (D_Input n ts)) ''{'' ''}'' = s_join '','' ts" by simp_all
  have keys: "startswith (piece (D_Input n ts)) ''INPUT''" "\<not> startswith (piece (D_Input n ts)) ''DYNAMIC_INPUT''"
    "\<not> startswith (piece (D_Input n ts)) ''OPTIONAL_INPUT''" "\<not> startswith (piece (D_Input n ts)) ''OUTPUT''"
    "\<not> startswith (piece (D_Input n ts)) ''DYNAMIC_OUTPUT''" "\<not> startswith (piece (D_Input n ts)) ''ATTR''"
    "\<not> startswith (piece (D_Input n ts)) ''REQUIRED_ATTR''"
    by (simp_all add: startswith_def)
  have "n \<noteq> []" using ok(1) by (simp add: ident_def)
  with keys name types head_file_entry [OF ok(3,2)] show ?thesis
    by (simp add: parse_proto_piece_def strip Let_def IN_OUT_OP_KEY_MAP_def declare_io_def
        parse_aicpu_attr_def AICPU_ATTR_LIST_def declare_attr_def del: piece.simps)
qed

lemma parse_output:
  assumes "decl_ok (D_Output n ts)"
  shows "parse_proto_piece wl (info, i, j) (piece (D_Output n ts)) = Inr (add_decl (info, i, j) (D_Output n ts))"
proof -
  have ok: "ident n" "ts \<noteq> []" "list_all ident ts" using assms by simp_all
  have strip: "s_strip (piece (D_Output n ts)) = piece (D_Output n ts)"
    by (simp add: strip_ends c_space_def)
  from io_piece [OF ok(1,3), of "''OUTPUT''"]
  have name: "parse_name_from_op_proto_file (piece (D_Output n ts)) = n"
    and types: "slice_between (piece (D_Output n ts)) ''{'' ''}'' = s_join '','' ts" by simp_all
  have keys: "\<not> startswith (piece (D_Output n ts)) ''INPUT''" "\<not> startswith (piece (D_Output n ts)) ''DYNAMIC_INPUT''"
    "\<not> startswith (piece (D_Output n ts)) ''OPTIONAL_INPUT''" "startswith (piece (D_Output n ts)) ''OUTPUT''"
    "\<not> startswith (piece (D_Output n ts)) ''DYNAMIC_OUTPUT''" "\<not> startswith (piece (D_Output n ts)) ''ATTR''"
    "\<not> startswith (piece (D_Output n ts)) ''REQUIRED_ATTR''"
    by (simp_all add: startswith_def)
  have "n \<noteq> []" using ok(1) by (simp add: ident_def)
  with keys name types head_file_entry [OF ok(3,2)] show ?thesis
    by (simp add: parse_proto_piece_def strip Let_def IN_OUT_OP_KEY_MAP_def declare_io_def
        parse_aicpu_attr_def AICPU_ATTR_LIST_def declare_attr_def del: piece.simps)
qed

lemma attr_name_at:
  assumes "ident n" and "CHR ''('' \<notin> set p" and "CHR '','' \<notin> set p"
  shows "parse_name_from_op_proto_file (p @ CHR ''('' # n @ CHR '','' # r) = n"
    and "slice_after (p @ CHR ''('' # n @ CHR '','' # r) '','' = r"
proof -
  have n: "c \<notin> set n" if "\<not> ident_char c" for c using list_all_ident [OF assms(1)] that by (rule ident_not)
  show "parse_name_from_op_proto_file (p @ CHR ''('' # n @ CHR '','' # r) = n"
    using paren_name_at [OF assms(2) n n, of r] by (simp add: parse_name_from_op_proto_file_def)
  have "slice_after ((p @ CHR ''('' # n) @ CHR '','' # r) '','' = r"
    using assms(3) n [of "CHR '',''"] by (intro slice_after_at) auto
  then show "slice_after (p @ CHR ''('' # n @ CHR '','' # r) '','' = r" by simp
qed

lemma ident_strip: "ident s \<Longrightarrow> s_strip s = s"
  by (rule strip_solid) (auto simp: ident_def list_all_iff dest: ident_no_space)

lemma one_type_ok: "ident t \<Longrightarrow> \<exists>w. check_op_info_list_valid [PyStr t] ss = Inr w"
  by (auto simp: check_list_ok ident_def)

lemma parse_required_attr:
  assumes "decl_ok (D_Required_Attr n t)"
  shows "parse_proto_piece wl (info, i, j) (piece (D_Required_Attr n t)) = Inr (add_decl (info, i, j) (D_Required_Attr n t))"
proof -
  have ok: "ident n" "ident t" using assms by simp_all
  have "\<not> c_space (last t)" "t \<noteq> []"
    using ok(2) last_in_set [of t] by (auto simp: ident_def list_all_iff dest: ident_no_space)
  then have strip: "s_strip (piece (D_Required_Attr n t)) = piece (D_Required_Attr n t)"
    by (simp add: strip_ends c_space_def)
  from attr_name_at [OF ok(1), of "''REQUIRED_ATTR''" t]
  have name: "parse_name_from_op_proto_file (piece (D_Required_Attr n t)) = n"
    and after: "slice_after (piece (D_Required_Attr n t)) '','' = t" by simp_all
  have keys: "\<not> startswith (piece (D_Required_Attr n t)) ''INPUT''" "\<not> startswith (piece (D_Required_Attr n t)) ''DYNAMIC_INPUT''"
    "\<not> startswith (piece (D_Required_Attr n t)) ''OPTIONAL_INPUT''" "\<not> startswith (piece (D_Required_Attr n t)) ''OUTPUT''"
    "\<not> startswith (piece (D_Required_Attr n t)) ''DYNAMIC_OUTPUT''" "\<not> startswith (piece (D_Required_Attr n t)) ''ATTR''"
    "startswith (piece (D_Required_Attr n t)) ''REQUIRED_ATTR''"
    by (simp_all add: startswith_def)
  have "CHR '')'' \<notin> set t" using list_all_ident [OF ok(2)] by (rule ident_not) simp
  then have "hd (s_split '')'' t) = t" by (simp add: s_split_def split_aux_char_last)
  with keys name after one_type_ok [OF ok(2)] ident_strip [OF ok(2)] show ?thesis
    by (auto simp: parse_proto_piece_def strip Let_def IN_OUT_OP_KEY_MAP_def parse_aicpu_attr_def
        AICPU_ATTR_LIST_def declare_attr_def get_attr_tensor_type_def attr_type_value_def simp del: piece.simps)
qed

lemma parse_attr:
  assumes "decl_ok (D_Attr n t v)"
  shows "parse_proto_piece wl (info, i, j) (piece (D_Attr n t v)) = Inr (add_decl (info, i, j) (D_Attr n t v))"
proof -
  have ok: "ident n" "ident t" "list_all (\<lambda>c. ident_char c \<or> c = CHR ''.'') v" using assms by simp_all
  have v: "c \<notin> set v" if "\<not> ident_char c" "c \<noteq> CHR ''.''" for c
    using ok(3) that by (auto simp: list_all_iff)
  have last: "\<not> c_space (last (CHR '','' # v))"
  proof (cases "v = []")
    case False
    then have "ident_char (last v) \<or> last v = CHR ''.''" using ok(3) by (simp add: list_all_iff)
    then have "\<not> c_space (last v)" by (auto simp: c_space_def dest: ident_no_space)
    with False show ?thesis by simp
  qed (simp add: c_space_def)
  have strip: "s_strip (piece (D_Attr n t v)) = piece (D_Attr n t v)"
    using last by (simp add: strip_ends c_space_def)
  from attr_name_at [OF ok(1), of "''ATTR''" "t @ '','' @ v"]
  have name: "parse_name_from_op_proto_file (piece (D_Attr n t v)) = n"
    and after: "slice_after (piece (D_Attr n t v)) '','' = t @ '','' @ v" by simp_all
  have keys: "\<not> startswith (piece (D_Attr n t v)) ''INPUT''" "\<not> startswith (piece (D_Attr n t v)) ''DYNAMIC_INPUT''"
    "\<not> startswith (piece (D_Attr n t v)) ''OPTIONAL_INPUT''" "\<not> startswith (piece (D_Attr n t v)) ''OUTPUT''"
    "\<not> startswith (piece (D_Attr n t v)) ''DYNAMIC_OUTPUT''" "startswith (piece (D_Attr n t v)) ''ATTR''"
    "\<not> startswith (piece (D_Attr n t v)) ''REQUIRED_ATTR''"
    by (simp_all add: startswith_def)
  have "t \<noteq> []" "\<not> c_space (hd t)"
    using ok(2) hd_in_set [of t] by (auto simp: ident_def list_all_iff dest: ident_no_space)
  then have args: "s_strip (t @ '','' @ v) = t @ '','' @ v"
    using last by (intro strip_solid) simp_all
  have "CHR '','' \<notin> set t" using list_all_ident [OF ok(2)] by (rule ident_not) simp
  then have cut: "split_type_attrs (t @ '','' @ v) = Inr (t, v)"
    using s_find_char [of "CHR '',''" t v] by (simp add: split_type_attrs_def)
  have absent: "\<not> s_contains v [c]" if "\<not> ident_char c" "c \<noteq> CHR ''.''" for c
    using v [OF that] by (auto simp: s_contains_iff)
  have dv: "s_replace (s_replace (format_dict_to_list v) NEW_LINE_MARK EMPTY) QUOTATION_MARK EMPTY = v"
    using v by (simp add: format_dict_to_list_def s_replace_absent absent s_replace_char_absent)
  have "get_attr_tensor_type ''ATTR'' (t @ '','' @ v) = (t, Some v)"
    by (simp only: get_attr_tensor_type_def cut dv Let_def) (simp add: dv)
  with keys name after one_type_ok [OF ok(2)] args show ?thesis
    by (auto simp: parse_proto_piece_def strip Let_def IN_OUT_OP_KEY_MAP_def parse_aicpu_attr_def
        AICPU_ATTR_LIST_def declare_attr_def attr_type_value_def simp del: piece.simps)
qed

section \<open>Parsing a header\<close>

lemma parse_declarations:
  "list_all decl_ok ds \<Longrightarrow>
     foldE (parse_proto_piece wl) st (map piece ds) = Inr (fold (\<lambda>d st. add_decl st d) ds st)"
proof (induction ds arbitrary: st)
  case (Cons d ds)
  obtain info i j where st: "st = (info, i, j)" by (cases st)
  have "parse_proto_piece wl st (piece d) = Inr (add_decl st d)"
    unfolding st using Cons.prems parse_input parse_output parse_attr parse_required_attr
    by (cases d) (simp_all del: piece.simps add_decl.simps decl_ok.simps)
  with Cons show ?case by (simp del: piece.simps add_decl.simps decl_ok.simps)
qed simp

lemma parse_frame:
  assumes "ident op"
  shows "parse_proto_piece wl st (''REG_OP('' @ op) = Inr st"
    and "parse_proto_piece wl st (''OP_END_FACTORY_REG('' @ op @ '')'') = Inr st"
proof -
  obtain info i j where st: "st = (info, i, j)" by (cases st)
  have "\<not> c_space (last op)" "op \<noteq> []"
    using assms last_in_set [of op] by (auto simp: ident_def list_all_iff dest: ident_no_space)
  then have strip: "s_strip (''REG_OP('' @ op) = ''REG_OP('' @ op"
    "s_strip (''OP_END_FACTORY_REG('' @ op @ '')'') = ''OP_END_FACTORY_REG('' @ op @ '')''"
    by (simp_all add: strip_ends c_space_def)
  show "parse_proto_piece wl st (''REG_OP('' @ op) = Inr st"
    and "parse_proto_piece wl st (''OP_END_FACTORY_REG('' @ op @ '')'') = Inr st"
    unfolding parse_proto_piece_def Let_def strip st
    by (simp_all add: IN_OUT_OP_KEY_MAP_def parse_aicpu_attr_def AICPU_ATTR_LIST_def declare_attr_def
        startswith_def)
qed

text \<open>
  C10. The parser of an operator's header implements its specification: from the text of a list
  of declarations it adds to the description, in order, one entry for each declaration, numbers inputs
  and outputs separately from 0, keeps the listed data types, the type of each attribute and its default.
\<close>

theorem parse_header:
  assumes "list_all decl_ok ds" and "ident op"
  shows "parse_aicpu_op_proto wl info (header_text op ds)
    = Inr (fst (fold (\<lambda>d st. add_decl st d) ds (info, 0, 0)), True)"
proof -
  let ?h = "header_text op ds"
  have start: "startswith ?h ''REG_OP''" by (simp add: header_text_def startswith_def)
  have "s_find ?h ''REG_OP'' = Some 0"
    using start by (cases ?h) (simp_all add: startswith_def)
  moreover have "?h \<noteq> []" "\<not> c_space (hd ?h)" "\<not> c_space (last ?h)"
    by (simp_all add: header_text_def c_space_def)
  then have "s_strip ?h = ?h" by (rule strip_solid)
  ultimately have "s_strip (from_reg_op ?h) = ?h" by (simp add: from_reg_op_def)
  then show ?thesis
    using start \<open>?h \<noteq> []\<close> parse_frame [OF assms(2)] parse_declarations [OF assms(1)]
    by (simp add: parse_aicpu_op_proto_def Let_def header_pieces [OF assms] foldE_append
        split: prod.split del: append.simps)
qed

definition add_decls :: "decl list" where
  "add_decls = [D_Input ''x'' [''DT_FLOAT'', ''DT_INT8''], D_Output ''y'' [''DT_FLOAT''],
     D_Attr ''axis'' ''Int'' ''0'', D_Required_Attr ''keep'' ''Bool'']"

definition no_lists :: gen_lists where
  "no_lists = \<lparr>gl_format_keys = [], gl_type_list = [], gl_mindspore_type_list = [], gl_aicpu_type_map = []\<rparr>"

theorem parse_header_witness:
  "parse_aicpu_op_proto no_lists [] (header_text ''Add'' add_decls)
     = Inr ([(''input0'', [(''name'', PyStr ''x''), (''type'', PyStr ''DT_FLOAT,DT_INT8''), (''format'', PyStr [])]),
             (''output0'', [(''name'', PyStr ''y''), (''type'', PyStr ''DT_FLOAT''), (''format'', PyStr [])]),
             (''attr_axis'', [(''name'', PyStr ''axis''), (''defaultValue'', PyStr ''0''), (''type'', PyStr ''int'')]),
             (''attr_keep'', [(''name'', PyStr ''keep''), (''type'', PyStr ''bool'')])], True)"
proof -
  have "list_all decl_ok add_decls" "ident ''Add''" by code_simp+
  moreover have "fst (fold (\<lambda>d st. add_decl st d) add_decls ([], 0, 0))
     = [(''input0'', [(''name'', PyStr ''x''), (''type'', PyStr ''DT_FLOAT,DT_INT8''), (''format'', PyStr [])]),
             (''output0'', [(''name'', PyStr ''y''), (''type'', PyStr ''DT_FLOAT''), (''format'', PyStr [])]),
             (''attr_axis'', [(''name'', PyStr ''axis''), (''defaultValue'', PyStr ''0''), (''type'', PyStr ''int'')]),
             (''attr_keep'', [(''name'', PyStr ''keep''), (''type'', PyStr ''bool'')])]"
    by code_simp
  ultimately show ?thesis by (simp only: parse_header)
qed

end
