(* ===== verification/Case_Template.thy ===== *)
theory Case_Template
  imports Op_Proto
begin

text \<open>
  The second half of \<^verbatim>\<open>main/case_generator.py\<close>: from an operator description to the base
  case of a test-case file, for both kinds of operators, and its update from the nodes of a
  model. The model parsers, the file system and the order of \<^verbatim>\<open>list(set(..))\<close> are in
  \<open>gen_env\<close>.
\<close>

record gen_env =
  ge_lists :: gen_lists
  ge_uniq :: "string list \<Rightarrow> string list"
  ge_fs :: fs
  ge_mkdirs :: makedirs
  ge_read :: "string \<Rightarrow> string option"
  ge_frameworks :: "(string \<times> string list) list"
  ge_parser :: "string \<Rightarrow> pyval \<Rightarrow> pydict list res"

text \<open>What the code may rely on of \<^verbatim>\<open>list(set(xs))\<close>: the same elements, each once.\<close>

definition uniq_ok :: "(string list \<Rightarrow> string list) \<Rightarrow> bool" where
  "uniq_ok u \<longleftrightarrow> (\<forall>xs. set (u xs) = set xs \<and> distinct (u xs))"

section \<open>The base case\<close>

text \<open>
  A base case with its keys in the order the code inserts them; \<^verbatim>\<open>st_mode\<close> is present for
  \<^verbatim>\<open>.py\<close> files and \<^verbatim>\<open>attr\<close> once the first attribute is added.
\<close>

record base_case =
  bc_case_name :: pyval
  bc_st_mode :: bool
  bc_op :: pyval
  bc_input_desc :: "pydict list"
  bc_output_desc :: "pydict list"
  bc_attr :: "pydict list option"

definition base_case_dict :: "base_case \<Rightarrow> pydict" where
  "base_case_dict b =
     [(''case_name'', bc_case_name b)]
     @ (if bc_st_mode b then [(''st_mode'', PyStr ''ms_python_train'')] else [])
     @ [(''op'', bc_op b),
        (''input_desc'', PyList (map PyDict (bc_input_desc b))),
        (''output_desc'', PyList (map PyDict (bc_output_desc b)))]
     @ (case bc_attr b of None \<Rightarrow> [] | Some attrs \<Rightarrow> [(''attr'', PyList (map PyDict attrs))])"

text \<open>The double nearest to 0.1, and the default distribution of an input.\<close>

definition tenth :: pyfloat where
  "tenth = Fin (3602879701896397 / 36028797018963968)"

definition input_defaults :: pydict where
  "input_defaults = [(''data_distribute'', PyList [PyStr ''uniform'']),
     (''value_range'', PyList [PyList [PyFloat tenth, PyFloat (Fin 1)]])]"

definition str_list :: "string list \<Rightarrow> pyval" where
  "str_list ss = PyList (map PyStr ss)"

definition case_name_of :: "pyval \<Rightarrow> pyval res" where
  "case_name_of op_type = (case op_type of
      PyStr s \<Rightarrow> Inr (PyStr (''Test_'' @ s_replace s ''/'' ''_'' @ ''_001''))
    | _ \<Rightarrow> Inl AttributeError)"

section \<open>AI Core operators\<close>

definition unique_items :: "gen_env \<Rightarrow> pyval \<Rightarrow> string list res" where
  "unique_items env v =
     bindE (py_len v) (\<lambda>n.
       if n = 0 then Inr [] else bindE (py_split '','' v) (\<lambda>items. Inr (ge_uniq env items)))"

definition generate_input_desc :: "gen_env \<Rightarrow> bool \<Rightarrow> pydict \<Rightarrow> pydict res" where
  "generate_input_desc env py value =
     (let input_name = dget value ''name'' in
      bindE (bindE (ditem value ''format'') (unique_items env)) (\<lambda>input_format.
      bindE (bindE (ditem value ''dtype'') (unique_items env)) (\<lambda>input_dtype.
      let optional = (dget value ''paramType'' = PyStr ''optional'');
          input_format = (if optional then map (\<lambda>_. ''UNDEFINED'') input_format else input_format);
          input_dtype = (if optional then map (\<lambda>_. ''UNDEFINED'') input_dtype else input_dtype) in
      bindE (if dget value ''paramType'' = PyStr ''dynamic''
             then (case input_name of PyStr s \<Rightarrow> Inr (PyStr (s @ ''0'')) | _ \<Rightarrow> Inl TypeError)
             else Inr input_name) (\<lambda>input_name.
      Inr ((if py then [] else [(''format'', str_list input_format)])
           @ [(''type'', str_list input_dtype), (''shape'', PyList [])]
           @ input_defaults @ [(''name'', input_name)])))))"

definition generate_output_desc :: "gen_env \<Rightarrow> bool \<Rightarrow> pydict \<Rightarrow> pydict res" where
  "generate_output_desc env py value =
     (let output_name = dget value ''name'' in
      bindE (bindE (ditem value ''format'') (unique_items env)) (\<lambda>output_format.
      bindE (bindE (ditem value ''dtype'') (unique_items env)) (\<lambda>output_dtype.
      Inr ((if py then [] else [(''format'', str_list output_format)])
           @ [(''type'', str_list output_dtype), (''shape'', PyList [])] @ [(''name'', output_name)]))))"

definition add_input :: "pydict \<Rightarrow> base_case \<Rightarrow> base_case" where
  "add_input d b = b\<lparr>bc_input_desc := bc_input_desc b @ [d]\<rparr>"

definition add_output :: "pydict \<Rightarrow> base_case \<Rightarrow> base_case" where
  "add_output d b = b\<lparr>bc_output_desc := bc_output_desc b @ [d]\<rparr>"

definition add_attr :: "pydict \<Rightarrow> base_case \<Rightarrow> base_case" where
  "add_attr d b = b\<lparr>bc_attr := Some ((case bc_attr b of None \<Rightarrow> [] | Some ds \<Rightarrow> ds) @ [d])\<rparr>"

definition aicore_step :: "gen_env \<Rightarrow> bool \<Rightarrow> op_infos \<Rightarrow> base_case \<Rightarrow> string \<times> pydict \<Rightarrow> base_case res" where
  "aicore_step env py info b kv = (case kv of (key, value) \<Rightarrow>
     bindE (if startswith key INI_INPUT
            then bindE (generate_input_desc env py value) (\<lambda>d. Inr (add_input d b)) else Inr b) (\<lambda>b.
     bindE (if startswith key INI_OUTPUT
            then bindE (generate_output_desc env py value) (\<lambda>d. Inr (add_output d b)) else Inr b) (\<lambda>b.
     if startswith key ''attr_''
     then bindE (make_attr info key value) (\<lambda>d. Inr (add_attr d b)) else Inr b)))"

definition check_desc_valid :: "pydict list \<Rightarrow> unit res" where
  "check_desc_valid descs = raise_if (length descs = 0) err_opinfo"

definition aicore_base_case :: "gen_env \<Rightarrow> case_gen \<Rightarrow> base_case res" where
  "aicore_base_case env g =
     bindE (case_name_of (cg_op_type g)) (\<lambda>name.
     bindE (foldE (aicore_step env (is_py g) (cg_op_info g))
              \<lparr>bc_case_name = name, bc_st_mode = is_py g, bc_op = cg_op_type g,
               bc_input_desc = [], bc_output_desc = [], bc_attr = None\<rparr> (cg_op_info g)) (\<lambda>b.
     bindE (check_desc_valid (bc_output_desc b)) (\<lambda>_. Inr b)))"

section \<open>AI CPU operators\<close>

text \<open>\<^verbatim>\<open>_get_aicpu_op_info_from_ini_file\<close>: the number of inputs and outputs with a type.\<close>

definition count_typed :: "gen_env \<Rightarrow> nat \<Rightarrow> string \<times> pydict \<Rightarrow> nat res" where
  "count_typed env n kv = (case kv of (key, value) \<Rightarrow>
     if is_io_key key \<and> dget value ''type'' \<noteq> PyNone then
       bindE (py_split '','' (dget value ''type'')) (\<lambda>items.
       bindE (check_op_info_list_valid (map PyStr (ge_uniq env items))
                (map fst (gl_aicpu_type_map (ge_lists env)))) (\<lambda>_. Inr (n + 1)))
     else Inr n)"

definition get_aicpu_op_info_from_ini_file :: "gen_env \<Rightarrow> op_infos \<Rightarrow> nat res" where
  "get_aicpu_op_info_from_ini_file env info = foldE (count_typed env) 0 info"

definition check_op_proto_path_valid :: "fs \<Rightarrow> string \<Rightarrow> bool" where
  "check_op_proto_path_valid f path = (fs_exists f path \<and> fs_readable f path)"

text \<open>\<^verbatim>\<open>_find_aicpu_op_proto_path\<close>: the header is next to the operator's project.\<close>

definition op_proto_file_path :: "fs \<Rightarrow> case_gen \<Rightarrow> string \<Rightarrow> string" where
  "op_proto_file_path f g op_type =
     path_join (fs_realpath f (path_join (path_dirname (cg_input_file_path g)) ''../../../op_proto''))
       (fix_name_lower_with_under op_type @ ''.h'')"

definition find_aicpu_op_proto_path :: "gen_env \<Rightarrow> case_gen \<Rightarrow> op_infos res" where
  "find_aicpu_op_proto_path env g = (case cg_op_type g of
      PyStr op_type \<Rightarrow>
        (let path = op_proto_file_path (ge_fs env) g op_type in
         if check_op_proto_path_valid (ge_fs env) path then
           (case ge_read env path of
              None \<Rightarrow> Inl (OpTestGenException OP_TEST_GEN_OPEN_FILE_ERROR)
            | Some text \<Rightarrow> bindE (parse_aicpu_op_proto (ge_lists env) (cg_op_info g) text)
                             (\<lambda>(info, _). Inr info))
         else Inr (cg_op_info g))
    | _ \<Rightarrow> Inl TypeError)"

definition generate_aicpu_op_desc :: "gen_env \<Rightarrow> bool \<Rightarrow> pydict \<Rightarrow> pydict res" where
  "generate_aicpu_op_desc env is_input value =
     (let variable_name = dget value ''name''; fmt = dget value ''format''; ty = dget value ''type'' in
      bindE (if fmt = PyNone then Inr [] else bindE (py_len fmt) (\<lambda>n.
               if n = 0 then Inr []
               else (case fmt of
                  PyStr s \<Rightarrow> Inr (ge_uniq env (s_split '','' (s_replace s QUOTATION_MARK EMPTY)))
                | _ \<Rightarrow> Inl AttributeError))) (\<lambda>op_format.
      bindE (if ty = PyNone then Inr [] else bindE (py_len ty) (\<lambda>n.
               if n = 0 then Inr []
               else bindE (py_split '','' ty) (\<lambda>items.
                 Inr (List.map_filter (map_of (gl_aicpu_type_map (ge_lists env))) (ge_uniq env items))))) (\<lambda>op_dtype.
      Inr ([(''format'', str_list op_format), (''type'', str_list op_dtype), (''shape'', PyList [])]
           @ (if is_input then input_defaults else [])
           @ (if variable_name \<noteq> PyNone then [(''name'', variable_name)] else [])))))"

definition aicpu_step :: "gen_env \<Rightarrow> op_infos \<Rightarrow> base_case \<Rightarrow> string \<times> pydict \<Rightarrow> base_case res" where
  "aicpu_step env info b kv = (case kv of (key, value) \<Rightarrow>
     if startswith key INI_INPUT then
       bindE (generate_aicpu_op_desc env True value) (\<lambda>d. Inr (add_input d b))
     else if startswith key INI_OUTPUT then
       bindE (generate_aicpu_op_desc env False value) (\<lambda>d. Inr (add_output d b))
     else if startswith key ''attr_'' then bindE (make_attr info key value) (\<lambda>d. Inr (add_attr d b))
     else Inr b)"

definition empty_output :: pydict where
  "empty_output = [(''format'', PyList []), (''type'', PyList []), (''shape'', PyList [])]"

definition empty_input :: pydict where
  "empty_input = empty_output @ input_defaults"

definition fill_empty_desc :: "base_case \<Rightarrow> base_case" where
  "fill_empty_desc b =
     (let b = (if bc_input_desc b = [] then add_input empty_input b else b)
      in if bc_output_desc b = [] then add_output empty_output b else b)"

definition aicpu_base_case :: "gen_env \<Rightarrow> case_gen \<Rightarrow> base_case res" where
  "aicpu_base_case env g =
     bindE (get_aicpu_op_info_from_ini_file env (cg_op_info g)) (\<lambda>count_ini_with_type.
     bindE (if count_ini_with_type = 0 then find_aicpu_op_proto_path env g else Inr (cg_op_info g)) (\<lambda>info.
     bindE (case_name_of (cg_op_type g)) (\<lambda>name.
     bindE (foldE (aicpu_step env info)
              \<lparr>bc_case_name = name, bc_st_mode = False, bc_op = cg_op_type g,
               bc_input_desc = [], bc_output_desc = [], bc_attr = None\<rparr> info) (\<lambda>b.
     Inr (fill_empty_desc b)))))"

end
