(* ===== verification/Case_Gen.thy ===== *)
theory Case_Gen
  imports Case_Template
begin

text \<open>
  The rest of \<^verbatim>\<open>main/case_generator.py\<close>: the description from a MindSpore \<^verbatim>\<open>.py\<close> file,
  the base cases from the nodes of a model (\<^verbatim>\<open>main/model_parser.py\<close> chooses the parser), and
  \<^verbatim>\<open>generate\<close>, which puts the two halves together.
\<close>

section \<open>Descriptions from a MindSpore file\<close>

text \<open>
  \<^verbatim>\<open>importlib.import_module\<close> and \<^verbatim>\<open>getattr\<close>: the dictionary found under a class name of a
  module, or nothing.
\<close>

type_synonym importer = "string \<Rightarrow> string \<Rightarrow> pydict option"

text \<open>\<^verbatim>\<open>module_name.rstrip("impl")\<close> strips the four letters, not the suffix.\<close>

definition ms_class_name :: "string \<Rightarrow> string" where
  "ms_class_name module_name = s_rstrip (\<lambda>c. c \<in> set ''impl'') module_name @ ''op_info''"

definition get_mindspore_op_dtype :: "pydict \<Rightarrow> nat \<Rightarrow> string res" where
  "get_mindspore_op_dtype ops count_input =
     bindE (py_iter (dget ops ''dtype_format'')) (\<lambda>values.
     bindE (mapE (\<lambda>value.
        bindE (py_index value count_input) (\<lambda>item.
        bindE (raise_if (\<not> truthy item) err_data) (\<lambda>_.
        bindE (py_index item 0) (\<lambda>t. case t of PyStr s \<Rightarrow> Inr s | _ \<Rightarrow> Inl TypeError)))) values) (\<lambda>dtype.
     Inr (s_join '','' dtype)))"

definition add_ms_desc ::
    "pydict \<Rightarrow> string \<Rightarrow> op_infos \<times> nat \<Rightarrow> pyval \<Rightarrow> (op_infos \<times> nat) res" where
  "add_ms_desc ops i_o_type st desc = (case st of (info, count_input) \<Rightarrow>
     bindE (py_get desc ''name'') (\<lambda>op_name.
     bindE (raise_if (\<not> truthy op_name) err_data) (\<lambda>_.
     bindE (py_get desc ''param_type'') (\<lambda>param_type.
     bindE (py_get desc ''shape'') (\<lambda>shape.
     bindE (get_mindspore_op_dtype ops count_input) (\<lambda>dtype.
     let op_key = butlast i_o_type @ str_nat count_input;
         info = set_default_section info op_key in
     Inr (info_set (info_set (info_set (info_set info op_key ''name'' op_name)
            op_key ''paramType'' param_type) op_key ''shape'' shape) op_key ''dtype'' (PyStr dtype),
          count_input + 1)))))))"

definition get_basic_op_info_mindspore :: "pydict \<Rightarrow> op_infos \<Rightarrow> op_infos res" where
  "get_basic_op_info_mindspore ops info =
     bindE (foldE (\<lambda>st i_o_type.
        bindE (py_iter (dget ops i_o_type)) (\<lambda>descs. foldE (add_ms_desc ops i_o_type) st descs))
       (info, 0) IO_TYPE) (\<lambda>(info, _). Inr info)"

definition add_ms_attr :: "op_infos \<Rightarrow> pyval \<Rightarrow> op_infos res" where
  "add_ms_attr info attr_info =
     bindE (as_dict attr_info) (\<lambda>d.
       let name = dget d ''name'' in
       if name = PyNone \<or> name = PyStr ''cust_aicpu'' then Inr info
       else (case name of PyStr s \<Rightarrow> Inr (dset info (''attr_'' @ s) d) | _ \<Rightarrow> Inl TypeError))"

definition parse_py_to_json :: "importer \<Rightarrow> case_gen \<Rightarrow> case_gen res" where
  "parse_py_to_json imp g =
     (let module_name = fst (path_splitext (path_basename (cg_input_file_path g))) in
      case imp module_name (ms_class_name module_name) of
        None \<Rightarrow> Inl err_data
      | Some ops \<Rightarrow>
          bindE (get_basic_op_info_mindspore ops (cg_op_info g)) (\<lambda>info.
          bindE (if truthy (dget ops ''attr'')
                 then bindE (py_iter (dget ops ''attr'')) (\<lambda>attrs. foldE add_ms_attr info attrs)
                 else Inr info) (\<lambda>info.
          Inr (g\<lparr>cg_op_type := dget ops ''op_name'', cg_op_info := info\<rparr>))))"

section \<open>The parser of a model\<close>

text \<open>\<^verbatim>\<open>_get_framework_type\<close>: the first framework with a suffix of the path.\<close>

definition get_framework_type :: "(string \<times> string list) list \<Rightarrow> string \<Rightarrow> string res" where
  "get_framework_type frameworks path =
     (case find (\<lambda>(_, suffixes). list_ex (endswith path) suffixes) frameworks of
        Some (key, _) \<Rightarrow> Inr key
      | None \<Rightarrow> Inl (OpTestGenException OP_TEST_GEN_INVALID_PARAM_ERROR))"

text \<open>\<^verbatim>\<open>_function_call\<close> turns every exception of the parser into its own.\<close>

definition get_model_nodes :: "gen_env \<Rightarrow> string \<Rightarrow> pyval \<Rightarrow> pydict list res" where
  "get_model_nodes env model_path op_type =
     bindE (get_framework_type (ge_frameworks env) model_path) (\<lambda>framework.
       case ge_parser env framework op_type of
         Inl _ \<Rightarrow> Inl (OpTestGenException OP_TEST_GEN_INVALID_PARAM_ERROR)
       | Inr nodes \<Rightarrow> Inr nodes)"

section \<open>Base cases from the nodes of a model\<close>

definition layer_case_name :: "pydict \<Rightarrow> pyval res" where
  "layer_case_name node = (case dget node ''layer'' of
      PyStr s \<Rightarrow> Inr (PyStr (''Test_'' @ s_replace s ''/'' ''_''))
    | _ \<Rightarrow> Inl AttributeError)"

definition model_desc :: "pydict \<Rightarrow> string \<Rightarrow> pydict \<Rightarrow> nat \<times> pyval \<Rightarrow> pydict res" where
  "model_desc node shape_key extra entry = (case entry of (index, dtype) \<Rightarrow>
     bindE (py_index (dget node shape_key) index) (\<lambda>shape.
       Inr ([(''format'', PyList [PyStr ''ND'']), (''type'', dtype), (''shape'', shape)] @ extra)))"

definition update_aicpu_io_from_model :: "case_gen \<Rightarrow> pydict \<Rightarrow> base_case res" where
  "update_aicpu_io_from_model g node =
     bindE (layer_case_name node) (\<lambda>name.
     bindE (py_iter (dget node ''input_dtype'')) (\<lambda>in_dtypes.
     bindE (mapE (model_desc node ''input_shape'' input_defaults) (enumerate 0 in_dtypes)) (\<lambda>ins.
     bindE (py_iter (dget node ''output_dtype'')) (\<lambda>out_dtypes.
     bindE (mapE (model_desc node ''output_shape'' []) (enumerate 0 out_dtypes)) (\<lambda>outs.
     Inr \<lparr>bc_case_name = name, bc_st_mode = False, bc_op = cg_op_type g,
          bc_input_desc = ins, bc_output_desc = outs, bc_attr = None\<rparr>)))))"

definition model_dim_check :: "pyval \<Rightarrow> unit res" where
  "model_dim_check d =
     bindE (raise_if (\<not> is_int d) err_data) (\<lambda>_.
     bindE (py_lt (PyInt 0) d) (\<lambda>pos. raise_if (\<not> pos) err_data))"

definition model_shape_check :: "pyval \<Rightarrow> unit res" where
  "model_shape_check shape = bindE (py_iter shape) (forE model_dim_check)"

text \<open>\<^verbatim>\<open>descs[index]\<close> changed in place.\<close>

definition at_index :: "'a list \<Rightarrow> nat \<Rightarrow> ('a \<Rightarrow> 'a res) \<Rightarrow> 'a list res" where
  "at_index xs i f =
     (if i < length xs then bindE (f (xs ! i)) (\<lambda>y. Inr (xs[i := y])) else Inl IndexError)"

definition append_shape :: "pyval \<Rightarrow> pydict \<Rightarrow> pydict res" where
  "append_shape shape d =
     bindE (ditem d ''shape'') (\<lambda>old. case old of
        PyList shapes \<Rightarrow> Inr (dset d ''shape'' (PyList (shapes @ [shape])))
      | _ \<Rightarrow> Inl AttributeError)"

definition set_shape_at :: "pydict list \<Rightarrow> nat \<times> pyval \<Rightarrow> pydict list res" where
  "set_shape_at descs entry = (case entry of (index, shape) \<Rightarrow>
     bindE (model_shape_check shape) (\<lambda>_. at_index descs index (append_shape shape)))"

definition set_type_at :: "pydict list \<Rightarrow> nat \<times> pyval \<Rightarrow> pydict list res" where
  "set_type_at descs entry = (case entry of (index, dtype) \<Rightarrow>
     at_index descs index (\<lambda>d. Inr (dset d ''type'' dtype)))"

definition modify_new_base_case_dict :: "pydict \<Rightarrow> base_case \<Rightarrow> base_case res" where
  "modify_new_base_case_dict node b =
     bindE (py_iter (dget node ''input_shape'')) (\<lambda>in_shapes.
     bindE (foldE set_shape_at (bc_input_desc b) (enumerate 0 in_shapes)) (\<lambda>ins.
     bindE (bindE (ditem node ''output_shape'') py_iter) (\<lambda>out_shapes.
     bindE (foldE set_shape_at (bc_output_desc b) (enumerate 0 out_shapes)) (\<lambda>outs.
     bindE (bindE (ditem node ''input_dtype'') py_iter) (\<lambda>in_dtypes.
     bindE (foldE set_type_at ins (enumerate 0 in_dtypes)) (\<lambda>ins.
     bindE (bindE (ditem node ''output_dtype'') py_iter) (\<lambda>out_dtypes.
     bindE (foldE set_type_at outs (enumerate 0 out_dtypes)) (\<lambda>outs.
     Inr (b\<lparr>bc_input_desc := ins, bc_output_desc := outs\<rparr>)))))))))"

text \<open>\<open>None\<close> is the empty dictionary of a layer that is skipped.\<close>

definition get_new_base_case :: "base_case \<Rightarrow> pydict \<Rightarrow> base_case option res" where
  "get_new_base_case b node =
     bindE (layer_case_name node) (\<lambda>name.
     bindE (py_len (dget node ''input_shape'')) (\<lambda>n_in.
     if n_in \<noteq> length (bc_input_desc b) then Inr None
     else bindE (py_len (dget node ''output_shape'')) (\<lambda>n_out.
     if n_out \<noteq> length (bc_output_desc b) then Inr None
     else bindE (modify_new_base_case_dict node
            (b\<lparr>bc_case_name := name, bc_st_mode := False, bc_attr := None\<rparr>)) (\<lambda>b'. Inr (Some b')))))"

definition update_aicore_io_from_model :: "base_case \<Rightarrow> pydict \<Rightarrow> base_case option res" where
  "update_aicore_io_from_model b node =
     (case get_new_base_case b node of
        Inl e \<Rightarrow> Inl (if e = KeyError then err_opinfo else e)
      | Inr r \<Rightarrow> Inr r)"

section \<open>Attributes from the nodes of a model\<close>

definition update_format :: "string \<Rightarrow> pydict \<Rightarrow> pydict" where
  "update_format format_value d =
     (if dhas d ''format'' then dset d ''format'' (PyList [PyStr format_value]) else d)"

definition update_format_from_model :: "string \<Rightarrow> base_case \<Rightarrow> base_case" where
  "update_format_from_model format_value b =
     b\<lparr>bc_input_desc := map (update_format format_value) (bc_input_desc b),
       bc_output_desc := map (update_format format_value) (bc_output_desc b)\<rparr>"

definition format_text :: "pyval \<Rightarrow> string res" where
  "format_text v = (case v of
      PyStr s \<Rightarrow> Inr (s_strip (s_replace s QUOTATION_MARK EMPTY)) | _ \<Rightarrow> Inl AttributeError)"

definition update_aicpu_attr_from_model :: "pydict \<Rightarrow> base_case \<Rightarrow> base_case res" where
  "update_aicpu_attr_from_model node b =
     (if truthy (dget node ''attr'') then
        bindE (py_iter (dget node ''attr'')) (\<lambda>items.
          foldE (\<lambda>b item. bindE (as_dict item) (\<lambda>d.
             if dget d ''name'' = PyStr ''data_format''
             then bindE (format_text (dget d ''value'')) (\<lambda>t. Inr (update_format_from_model t b))
             else Inr b)) b items)
      else Inr b)"

definition model_attr_value :: "pyval \<Rightarrow> pyval \<Rightarrow> pyval res" where
  "model_attr_value ty v =
     (if ty = PyStr ''string'' then
        (case v of PyStr s \<Rightarrow> Inr (PyStr (s_replace (s_replace s QUOTATION_MARK EMPTY) SPACE EMPTY))
         | _ \<Rightarrow> Inl AttributeError)
      else Inr v)"

definition get_info_from_model ::
    "pydict \<Rightarrow> pydict list \<times> base_case \<Rightarrow> pyval \<Rightarrow> (pydict list \<times> base_case) res" where
  "get_info_from_model attr st item_v = (case st of (new_attr_list, b) \<Rightarrow>
     bindE (py_item item_v ''name'') (\<lambda>node_attr_name.
     bindE (as_dict item_v) (\<lambda>item.
     bindE (if node_attr_name = dget attr ''name'' then
              bindE (model_attr_value (dget attr ''type'') (dget item ''value'')) (\<lambda>v.
              bindE (ditem attr ''type'') (\<lambda>ty.
              let new_attr = [(''name'', node_attr_name), (''type'', ty), (''value'', v)] in
              bindE (check_attr_value_valid new_attr) (\<lambda>_. Inr (new_attr_list @ [new_attr]))))
            else Inr new_attr_list) (\<lambda>new_attr_list.
     if node_attr_name = PyStr ''data_format'' then
       bindE (bindE (ditem item ''value'') format_text)
         (\<lambda>t. Inr (new_attr_list, update_format_from_model t b))
     else Inr (new_attr_list, b)))))"

definition update_aicore_attr_from_model :: "base_case \<Rightarrow> pydict \<Rightarrow> base_case \<Rightarrow> base_case res" where
  "update_aicore_attr_from_model b node new_b =
     (case bc_attr b of
        Some attrs \<Rightarrow>
          if dhas node ''attr'' then
            bindE (foldE (\<lambda>st attr. bindE (py_iter (dget node ''attr'')) (foldE (get_info_from_model attr) st))
                    ([], new_b) attrs) (\<lambda>(new_attr_list, new_b).
            Inr (if length new_attr_list > 0 then new_b\<lparr>bc_attr := Some new_attr_list\<rparr> else new_b))
          else Inr new_b
      | None \<Rightarrow> Inr new_b)"

definition case_from_node :: "case_gen \<Rightarrow> bool \<Rightarrow> base_case \<Rightarrow> pydict \<Rightarrow> base_case list res" where
  "case_from_node g is_aicpu b node =
     (if is_aicpu then
        bindE (update_aicpu_io_from_model g node) (\<lambda>new_b.
        bindE (update_aicpu_attr_from_model node new_b) (\<lambda>new_b. Inr [new_b]))
      else
        bindE (update_aicore_io_from_model b node) (\<lambda>r. case r of
          None \<Rightarrow> Inr []
        | Some new_b \<Rightarrow> bindE (update_aicore_attr_from_model b node new_b) (\<lambda>new_b. Inr [new_b])))"

definition generate_base_case_from_model ::
    "gen_env \<Rightarrow> case_gen \<Rightarrow> bool \<Rightarrow> base_case \<Rightarrow> base_case list res" where
  "generate_base_case_from_model env g is_aicpu b =
     bindE (get_model_nodes env (cg_model_path g) (cg_op_type g)) (\<lambda>nodes.
       if nodes = [] then Inr [b]
       else bindE (mapE (case_from_node g is_aicpu b) nodes) (\<lambda>bss.
              let base_case_list = concat bss in
              Inr (if base_case_list = [] then [b] else base_case_list)))"

section \<open>Generating the cases\<close>

definition base_cases :: "gen_env \<Rightarrow> case_gen \<Rightarrow> bool \<Rightarrow> base_case \<Rightarrow> base_case list res" where
  "base_cases env g is_aicpu b =
     (if cg_model_path g \<noteq> [] then generate_base_case_from_model env g is_aicpu b else Inr [b])"

definition generate_base_cases :: "gen_env \<Rightarrow> case_gen \<Rightarrow> base_case list res" where
  "generate_base_cases env g =
     (if is_aicpu_op (cg_op_info g) then bindE (aicpu_base_case env g) (base_cases env g True)
      else bindE (check_op_info (ge_lists env) (is_py g) (cg_op_info g)) (\<lambda>info.
           let g = g\<lparr>cg_op_info := info\<rparr> in
           bindE (aicore_base_case env g) (base_cases env g False)))"

text \<open>
  \<^verbatim>\<open>generate\<close>: the path of the file and the cases that are written to it. \<open>lines\<close> gives the
  lines of a file, \<open>stamp\<close> is the printed time.
\<close>

definition case_file_name :: "pyval \<Rightarrow> string \<Rightarrow> string res" where
  "case_file_name op_type stamp = (case op_type of
      PyStr s \<Rightarrow> Inr (s_replace s ''/'' ''_'' @ ''_case_'' @ stamp @ ''.json'')
    | _ \<Rightarrow> Inl AttributeError)"

definition gen_generate ::
    "gen_env \<Rightarrow> (string \<Rightarrow> string list option) \<Rightarrow> importer \<Rightarrow> string \<Rightarrow> case_gen \<Rightarrow> (string \<times> pydict list) res" where
  "gen_generate env lines imp stamp g =
     bindE (gen_check_argument_valid (ge_mkdirs env) (ge_fs env) g) (\<lambda>_.
     bindE (if endswith (cg_input_file_path g) ''.ini'' then
              (case lines (cg_input_file_path g) of
                 None \<Rightarrow> Inl OSError | Some ls \<Rightarrow> parse_ini_to_json g ls)
            else if is_py g then parse_py_to_json imp g else Inr g) (\<lambda>g.
     bindE (generate_base_cases env g) (\<lambda>bs.
     bindE (case_file_name (cg_op_type g) stamp) (\<lambda>file_name.
     Inr (path_join (cg_output_path g) file_name, map base_case_dict bs)))))"

section \<open>The base case as three passes\<close>

text \<open>The reference definition: inputs, outputs and attributes are made one group after the other.\<close>

definition group :: "string \<Rightarrow> op_infos \<Rightarrow> op_infos" where
  "group p info = filter (\<lambda>kd. startswith (fst kd) p) info"

definition extend_attrs :: "pydict list option \<Rightarrow> pydict list \<Rightarrow> pydict list option" where
  "extend_attrs old new = (if new = [] then old else Some ((case old of None \<Rightarrow> [] | Some ds \<Rightarrow> ds) @ new))"

definition three_passes :: "gen_env \<Rightarrow> case_gen \<Rightarrow> base_case res" where
  "three_passes env g =
     (let info = cg_op_info g in
      bindE (case_name_of (cg_op_type g)) (\<lambda>name.
      bindE (mapE (generate_input_desc env (is_py g) \<circ> snd) (group ''input'' info)) (\<lambda>ins.
      bindE (mapE (generate_output_desc env (is_py g) \<circ> snd) (group ''output'' info)) (\<lambda>outs.
      bindE (mapE (\<lambda>(k, d). make_attr info k d) (group ''attr_'' info)) (\<lambda>attrs.
      bindE (check_desc_valid outs) (\<lambda>_.
      Inr \<lparr>bc_case_name = name, bc_st_mode = is_py g, bc_op = cg_op_type g, bc_input_desc = ins,
           bc_output_desc = outs, bc_attr = extend_attrs None attrs\<rparr>))))))"

lemma prefixes_disjoint:
  "startswith k ''input'' \<Longrightarrow> \<not> startswith k ''output''"
  "startswith k ''input'' \<Longrightarrow> \<not> startswith k ''attr_''"
  "startswith k ''output'' \<Longrightarrow> \<not> startswith k ''attr_''"
  by (auto simp: startswith_iff)

lemma extend_attrs_Cons: "extend_attrs old (a # as) = extend_attrs (bc_attr (add_attr a (b\<lparr>bc_attr := old\<rparr>))) as"
  by (simp add: extend_attrs_def add_attr_def split: option.split)

definition extended :: "base_case \<Rightarrow> pydict list \<Rightarrow> pydict list \<Rightarrow> pydict list \<Rightarrow> base_case" where
  "extended b ins outs attrs =
     b\<lparr>bc_input_desc := bc_input_desc b @ ins, bc_output_desc := bc_output_desc b @ outs,
       bc_attr := extend_attrs (bc_attr b) attrs\<rparr>"

lemma extended_steps:
  "extended (add_input d b) ins outs attrs = extended b (d # ins) outs attrs"
  "extended (add_output d b) ins outs attrs = extended b ins (d # outs) attrs"
  "extended (add_attr d b) ins outs attrs = extended b ins outs (d # attrs)"
  "extended b [] [] [] = b"
  by (simp_all add: extended_def add_input_def add_output_def add_attr_def extend_attrs_def)

lemma group_simps:
  "group p [] = []"
  "group p (kd # info) = (if startswith (fst kd) p then kd # group p info else group p info)"
  by (simp_all add: group_def)

lemma aicore_steps:
  "startswith k ''input'' \<Longrightarrow> aicore_step env py full b (k, d)
     = bindE (generate_input_desc env py d) (\<lambda>x. Inr (add_input x b))"
  "startswith k ''output'' \<Longrightarrow> aicore_step env py full b (k, d)
     = bindE (generate_output_desc env py d) (\<lambda>x. Inr (add_output x b))"
  "startswith k ''attr_'' \<Longrightarrow> aicore_step env py full b (k, d)
     = bindE (make_attr full k d) (\<lambda>x. Inr (add_attr x b))"
  "\<not> startswith k ''input'' \<Longrightarrow> \<not> startswith k ''output'' \<Longrightarrow> \<not> startswith k ''attr_''
     \<Longrightarrow> aicore_step env py full b (k, d) = Inr b"
  using prefixes_disjoint [of k] by (auto simp: aicore_step_def bindE_assoc)

lemma aicore_fold:
  "foldE (aicore_step env py full) b info = Inr b' \<longleftrightarrow>
    (\<exists>ins outs attrs. mapE (generate_input_desc env py \<circ> snd) (group ''input'' info) = Inr ins
      \<and> mapE (generate_output_desc env py \<circ> snd) (group ''output'' info) = Inr outs
      \<and> mapE (\<lambda>(k, d). make_attr full k d) (group ''attr_'' info) = Inr attrs
      \<and> b' = extended b ins outs attrs)"
proof (induction info arbitrary: b)
  case Nil
  then show ?case by (auto simp: group_simps extended_steps)
next
  case (Cons kd info)
  obtain k d where kd: "kd = (k, d)" by (cases kd)
  consider "startswith k ''input''" | "startswith k ''output''" | "startswith k ''attr_''"
    | "\<not> startswith k ''input''" "\<not> startswith k ''output''" "\<not> startswith k ''attr_''" by blast
  then show ?case
  proof cases
    case 1
    with prefixes_disjoint [of k] show ?thesis
      by (cases "generate_input_desc env py d")
         (simp_all add: kd group_simps aicore_steps Cons.IH extended_steps, blast)
  next
    case 2
    with prefixes_disjoint [of k] show ?thesis
      by (cases "generate_output_desc env py d")
         (simp_all add: kd group_simps aicore_steps Cons.IH extended_steps, blast)
  next
    case 3
    with prefixes_disjoint [of k] show ?thesis
      by (cases "make_attr full k d")
         (simp_all add: kd group_simps aicore_steps Cons.IH extended_steps, blast)
  next
    case 4
    then show ?thesis by (simp add: kd group_simps aicore_steps Cons.IH)
  qed
qed

lemma aicore_base_case_passes:
  "aicore_base_case env g = Inr b \<longleftrightarrow> three_passes env g = Inr b"
proof (cases "case_name_of (cg_op_type g)")
  case (Inl e)
  then show ?thesis by (simp add: aicore_base_case_def three_passes_def)
next
  case (Inr name)
  then show ?thesis
    unfolding aicore_base_case_def three_passes_def Let_def
    by (cases "mapE (generate_input_desc env (is_py g) \<circ> snd) (group ''input'' (cg_op_info g))";
        cases "mapE (generate_output_desc env (is_py g) \<circ> snd) (group ''output'' (cg_op_info g))";
        cases "mapE (\<lambda>(k, d). make_attr (cg_op_info g) k d) (group ''attr_'' (cg_op_info g))";
        simp add: aicore_fold check_desc_valid_def extended_def)
qed

text \<open>
  C29. The single loop that builds the base case of an AI Core operator is equivalent to three
  passes: the inputs in the order of the file, then the outputs, of which there must be one,
  then the attributes; whatever the order of the sections, one succeeds exactly when the other
  does, with the same case.
\<close>

theorem aicore_base_case_three_passes:
  "(\<lambda>g. case aicore_base_case env g of Inr b \<Rightarrow> Some (base_case_dict b) | Inl _ \<Rightarrow> None)
   = (\<lambda>g. case three_passes env g of Inr b \<Rightarrow> Some (base_case_dict b) | Inl _ \<Rightarrow> None)"
proof
  fix g
  show "(case aicore_base_case env g of Inr b \<Rightarrow> Some (base_case_dict b) | Inl _ \<Rightarrow> None)
      = (case three_passes env g of Inr b \<Rightarrow> Some (base_case_dict b) | Inl _ \<Rightarrow> None)"
  proof (cases "three_passes env g")
    case (Inr b)
    then have "aicore_base_case env g = Inr b" by (simp only: aicore_base_case_passes)
    with Inr show ?thesis by simp
  next
    case (Inl e)
    then have "aicore_base_case env g \<noteq> Inr b" for b by (simp add: aicore_base_case_passes)
    then obtain e' where "aicore_base_case env g = Inl e'" by (cases "aicore_base_case env g") auto
    with Inl show ?thesis by simp
  qed
qed

section \<open>Only configuration errors\<close>

definition config_error :: "exn \<Rightarrow> bool" where
  "config_error e \<longleftrightarrow> e = err_opinfo \<or> e = IndexError"

lemma mapE_error: "mapE f xs = Inl e \<Longrightarrow> \<exists>x\<in>set xs. f x = Inl e"
  by (induction xs) (auto simp: bindE_eq_Inl)

lemma foldE_error:
  assumes "foldE f s xs = Inl e" and "P s" and "\<And>s x s'. x \<in> set xs \<Longrightarrow> P s \<Longrightarrow> f s x = Inr s' \<Longrightarrow> P s'"
  shows "\<exists>s x. P s \<and> x \<in> set xs \<and> f s x = Inl e"
  using assms
proof (induction xs arbitrary: s)
  case (Cons x xs)
  from Cons.prems(1) consider "f s x = Inl e" | s' where "f s x = Inr s'" "foldE f s' xs = Inl e"
    by (auto simp: bindE_eq_Inl)
  then show ?case
  proof cases
    case 1
    with Cons.prems(2) show ?thesis by auto
  next
    case (2 s')
    have "P s'" using Cons.prems(3) [of x s s'] Cons.prems(2) 2(1) by simp
    with 2(2) have "\<exists>s y. P s \<and> y \<in> set xs \<and> f s y = Inl e"
      by (rule Cons.IH) (rule Cons.prems(3), rule list.set_intros(2), assumption+)
    then show ?thesis by auto
  qed
qed simp

definition only :: "(exn \<Rightarrow> bool) \<Rightarrow> 'a res \<Rightarrow> bool" where
  "only P r \<longleftrightarrow> (\<forall>e. r = Inl e \<longrightarrow> P e)"

lemma only_simps [simp]:
  "only P (Inl e) \<longleftrightarrow> P e" "only P (Inr x)" "only P (raise_if b e) \<longleftrightarrow> (b \<longrightarrow> P e)"
  by (auto simp: only_def)

lemma only_bindE: "only P m \<Longrightarrow> (\<And>x. m = Inr x \<Longrightarrow> only P (f x)) \<Longrightarrow> only P (bindE m f)"
  by (auto simp: only_def bindE_eq_Inl)

lemma only_mapE: "(\<And>x. x \<in> set xs \<Longrightarrow> only P (f x)) \<Longrightarrow> only P (mapE f xs)"
  by (auto simp: only_def dest: mapE_error)

lemma only_forE: "(\<And>x. x \<in> set xs \<Longrightarrow> only P (f x)) \<Longrightarrow> only P (forE f xs)"
  by (induction xs) (auto intro: only_bindE)

lemma only_foldE: "(\<And>s x. x \<in> set xs \<Longrightarrow> only P (f s x)) \<Longrightarrow> only P (foldE f s xs)"
  by (induction xs arbitrary: s) (auto intro!: only_bindE)

definition str_dict :: "pydict \<Rightarrow> bool" where
  "str_dict d \<longleftrightarrow> (\<forall>k v. map_of d k = Some v \<longrightarrow> (\<exists>s. v = PyStr s))"

lemma ini_str_dict: "ini_section_ok (k, d) \<Longrightarrow> str_dict d"
  by (auto simp: str_dict_def ini_section_ok_def list_all_iff ini_entry_ok_def
      split: pyval.splits dest!: map_of_SomeD)

lemma str_dict_dset: "str_dict d \<Longrightarrow> str_dict (dset d k (PyStr s))"
  by (auto simp: str_dict_def dset_def update_conv' split: if_splits)

lemma str_dict_ditem:
  assumes "str_dict d"
  shows "ditem d k = (if dhas d k then Inr (dget d k) else Inl KeyError)"
    and "dhas d k \<Longrightarrow> \<exists>s. dget d k = PyStr s"
proof -
  show "ditem d k = (if dhas d k then Inr (dget d k) else Inl KeyError)"
    by (simp add: ditem_def dhas_map_of dget_def split: option.split)
  assume "dhas d k"
  then obtain v where v: "map_of d k = Some v" by (auto simp: dhas_map_of)
  with assms have "\<exists>s. v = PyStr s" by (auto simp: str_dict_def)
  then show "\<exists>s. dget d k = PyStr s" using v by (auto simp: dget_def)
qed

lemma only_check_list: "P err_opinfo \<Longrightarrow> only P (check_op_info_list_valid vs ss)"
  unfolding check_op_info_list_valid_def by (intro only_bindE only_forE) auto

lemma only_check_one:
  assumes "str_dict d" and "P err_opinfo"
  shows "only P (check_one_op_info wl py n (k, d))"
proof -
  have split: "only P (py_split '','' (dget d j))" if "dhas d j" for j
    using str_dict_ditem(2) [OF assms(1) that] by (auto simp: py_split_def)
  have field: "map_of d j = Some v \<Longrightarrow> dhas d j \<and> dget d j = v" for j v
    by (simp add: dhas_map_of dget_def)
  have str: "\<exists>s. v = PyStr s" if "map_of d j = Some v" for j v
    using str_dict_ditem(2) [OF assms(1)] field [OF that] by blast
  have fmt: "only P (check_basic_format wl m d')" if sd: "str_dict d'" for m d'
  proof (cases "map_of d' ''format''")
    case (Some v)
    then obtain s where "v = PyStr s" using sd by (auto simp: str_dict_def)
    with Some assms(2) show ?thesis
      unfolding check_basic_format_def by (auto simp: py_split_def intro!: only_bindE only_check_list)
  qed (simp add: check_basic_format_def)
  have dtype: "only P (check_basic_dtype wl py n d)"
  proof (cases "map_of d ''dtype''")
    case (Some v)
    with str [OF Some] assms(2) show ?thesis
      unfolding check_basic_dtype_def by (auto simp: py_split_def Let_def intro!: only_bindE only_check_list)
  qed (simp add: check_basic_dtype_def)
  have kept: "str_dict d'" if "check_basic_dtype wl py n d = Inr (d', m)" for d' m
    using that assms(1) str_dict_dset [OF assms(1)]
    by (auto simp: check_basic_dtype_def Let_def split: option.splits)
  have "only P (check_basic_filed_vaild wl py n d)" if "dhas d ''paramType''"
    unfolding check_basic_filed_vaild_def str_dict_ditem(1) [OF assms(1)]
    using that assms(2) by (auto intro!: only_bindE only_check_list dtype fmt dest: kept)
  moreover have "only P (gen_check_required_key d)"
    using assms(2) by (simp add: gen_check_required_key_def)
  ultimately show ?thesis
    by (auto simp: check_one_op_info_def gen_check_required_key_ok intro!: only_bindE)
qed

lemma unique_items_str: "\<exists>xs. unique_items env (PyStr s) = Inr xs"
  by (simp add: unique_items_def py_split_def)

lemma desc_total:
  assumes "str_dict d" and "dhas d ''format''" and "dhas d ''dtype''" and "dhas d ''name''"
  shows "\<exists>x. generate_input_desc env py d = Inr x" and "\<exists>x. generate_output_desc env py d = Inr x"
proof -
  obtain f t n where s: "dget d ''format'' = PyStr f" "dget d ''dtype'' = PyStr t" "dget d ''name'' = PyStr n"
    using str_dict_ditem(2) [OF assms(1)] assms(2-4) by meson
  obtain xs ys where u: "unique_items env (PyStr f) = Inr xs" "unique_items env (PyStr t) = Inr ys"
    using unique_items_str by meson
  show "\<exists>x. generate_input_desc env py d = Inr x" and "\<exists>x. generate_output_desc env py d = Inr x"
    using assms u by (simp_all add: generate_input_desc_def generate_output_desc_def Let_def
        str_dict_ditem(1) [OF assms(1)] s)
qed

lemma only_default: "only (\<lambda>e. e = IndexError) (get_default_attr_value t (PyStr s))"
proof (cases "s_strip s \<noteq> [] \<or> \<not> startswith t ''list''"; cases "t = ''type''")
  assume "s_strip s \<noteq> [] \<or> \<not> startswith t ''list''" "t \<noteq> ''type''"
  then show ?thesis
    using get_default_value_ok [of "s_strip s" t] by (auto simp: get_default_attr_value_def)
next
  assume "\<not> (s_strip s \<noteq> [] \<or> \<not> startswith t ''list'')" "t \<noteq> ''type''"
  then have "s_strip s = []" "t \<notin> plain_types" using list_names(2) [of t] by blast+
  then show ?thesis
    by (simp add: get_default_attr_value_def get_default_value_def get_attr_type_list_value_def
        plain_types_def)
qed (simp_all add: type_default_lost)

lemma only_make_attr:
  assumes "str_dict d" and "\<not> is_aicpu_op info"
  shows "only config_error (make_attr info k d)"
proof -
  have def: "only config_error (get_default_attr_value t (PyStr s))" for t s
    using only_default [of t s] by (auto simp: only_def config_error_def)
  have ty: "dget d ''type'' = PyNone \<or> (\<exists>t. dget d ''type'' = PyStr t)"
    using str_dict_ditem(2) [OF assms(1), of "''type''"] by (cases "dhas d ''type''") (auto simp: dhas_map_of dget_def)
  have dv: "\<exists>s. v = PyStr s" if "map_of d ''defaultValue'' = Some v" for v
    using assms(1) that by (auto simp: str_dict_def)
  have chk: "only config_error (bindE (raise_if b err_opinfo)
      (\<lambda>_. bindE (check_op_info_list_valid vs ss) (\<lambda>_. Inr ())))" for b vs ss
    by (auto intro!: only_bindE only_check_list simp: config_error_def)
  have dt: "only config_error (attr_data_type (dget d ''type''))"
    using ty by (auto simp: attr_data_type_def)
  have val: "only config_error (case map_of d ''defaultValue'' of None \<Rightarrow> Inr PyNone
     | Some dv \<Rightarrow> (case dget d ''type'' of
         PyStr t \<Rightarrow> if data_type \<noteq> PyNone then get_default_attr_value t dv else Inr PyNone
       | _ \<Rightarrow> Inr PyNone))" for data_type
    using ty dv by (cases "map_of d ''defaultValue''") (auto simp: def)
  show ?thesis
    unfolding make_attr_def Let_def using assms(2)
    by (intro only_bindE) (simp_all add: chk dt val)
qed

lemma completed_str_dict: "str_dict d \<Longrightarrow> str_dict (snd (completed (k, d)))"
  by (simp add: completed_def fill_missing_def str_dict_dset)

lemma completed_fields:
  assumes "is_io_key k"
  shows "dhas (snd (completed (k, d))) ''format''" and "dhas (snd (completed (k, d))) ''dtype''"
    and "dhas d ''name'' \<Longrightarrow> dhas (snd (completed (k, d))) ''name''"
proof -
  have set: "dhas (dset e j v) i \<longleftrightarrow> i = j \<or> dhas e i" for e :: pydict and j i v
    by (auto simp: dhas_map_of dset_def update_conv')
  show "dhas (snd (completed (k, d))) ''format''" and "dhas (snd (completed (k, d))) ''dtype''"
    and "dhas d ''name'' \<Longrightarrow> dhas (snd (completed (k, d))) ''name''"
    using assms by (auto simp: completed_def fill_missing_def set)
qed

lemma completed_aicpu:
  "is_aicpu_op (map completed info) = is_aicpu_op info"
proof -
  have "map_of (map completed info) k = map_option (\<lambda>d. snd (completed (k, d))) (map_of info k)" for k
    by (induction info) (auto simp: completed_def)
  moreover have "\<not> is_io_key ''opInfo''" by (simp add: is_io_key_def startswith_def)
  ultimately have "info_get (map completed info) ''opInfo'' = info_get info ''opInfo''"
    by (auto simp: info_get_def completed_def split: option.split)
  then show ?thesis by (simp add: is_aicpu_op_def)
qed

lemma only_aicore:
  assumes "list_all (\<lambda>kd. str_dict (snd kd)) info" and "list_all section_ok info" and "\<not> is_aicpu_op info"
    and "cg_op_info g = map completed info" and "cg_op_type g = PyStr t"
  shows "only config_error (aicore_base_case env g)"
proof -
  have io: "\<exists>x. generate_input_desc env py (snd kd) = Inr x" "\<exists>x. generate_output_desc env py (snd kd) = Inr x"
    if kd: "kd \<in> set (map completed info)" "is_io_key (fst kd)" for kd py
  proof -
    from kd(1) obtain k d where d: "(k, d) \<in> set info" "kd = completed (k, d)" by auto
    with kd(2) have k: "is_io_key k" by (simp add: completed_def)
    have "str_dict d" "io_desc_ok d"
      using d(1) k assms(1,2) by (auto simp: list_all_iff section_ok_def)
    then have "dhas d ''name''" by (simp add: io_desc_ok_def)
    from desc_total [OF completed_str_dict [OF \<open>str_dict d\<close>] completed_fields(1,2) [OF k]
        completed_fields(3) [OF k this]]
    show "\<exists>x. generate_input_desc env py (snd kd) = Inr x" "\<exists>x. generate_output_desc env py (snd kd) = Inr x"
      unfolding d(2) by blast+
  qed
  have attr: "only config_error (make_attr (map completed info) (fst kd) (snd kd))"
    if "kd \<in> set (map completed info)" for kd
  proof -
    from that obtain k d where d: "(k, d) \<in> set info" "kd = completed (k, d)" by auto
    with assms(1) have "str_dict d" by (auto simp: list_all_iff)
    from only_make_attr [OF completed_str_dict [OF this]] show ?thesis
      unfolding d(2) using assms(3) completed_aicpu by blast
  qed
  have step: "only config_error (aicore_step env (is_py g) (map completed info) b kd)"
    if kd: "kd \<in> set (map completed info)" for b kd
  proof -
    obtain k d where p: "kd = (k, d)" by (cases kd)
    have "is_io_key k \<Longrightarrow> \<exists>x. generate_input_desc env (is_py g) d = Inr x"
      "is_io_key k \<Longrightarrow> \<exists>x. generate_output_desc env (is_py g) d = Inr x"
      using io [OF kd] by (simp_all add: p)
    with attr [OF kd] show ?thesis
      unfolding p aicore_step_def by (auto simp: is_io_key_def intro!: only_bindE)
  qed
  show ?thesis
    unfolding aicore_base_case_def assms(4,5)
    by (intro only_bindE only_foldE step) (auto simp: case_name_of_def check_desc_valid_def config_error_def)
qed

text \<open>
  C8. For an operator that is no AI CPU operator, and without a model file, generating from an \<^verbatim>\<open>.ini\<close> file
  that the reader accepts fails in two ways only: with the error of the configuration file, or with the
  \<^verbatim>\<open>IndexError\<close> of an empty list default; otherwise it returns one base case. No missing key and no wrong
  type of value gets through the checks. (The AI CPU route and the layers of a model have other failures and
  several cases.)
\<close>

theorem generate_from_ini_errors:
  assumes "parse_ini_to_json g0 ls = Inr g" and "cg_op_info g0 = []"
    and "\<not> is_aicpu_op (cg_op_info g)" and "cg_model_path g = []"
  shows "(\<exists>b. generate_base_cases env g = Inr [b])
    \<or> (\<exists>e. generate_base_cases env g = Inl e \<and> config_error e)"
proof -
  have "ini_ok (cg_op_info g0)" by (simp add: assms(2) ini_ok_def)
  from parse_ini_ok [OF assms(1) this] obtain t where t: "cg_op_type g = PyStr t"
    and ok: "ini_ok (cg_op_info g)" by blast
  then have strs: "list_all (\<lambda>kd. str_dict (snd kd)) (cg_op_info g)"
    by (auto simp: ini_ok_def list_all_iff dest: ini_str_dict)
  have "only config_error (check_op_info (ge_lists env) (is_py g) (cg_op_info g))"
    unfolding check_op_info_def Let_def
    using strs by (intro only_mapE) (auto simp: list_all_iff config_error_def intro!: only_check_one)
  moreover have "only config_error (aicore_base_case env (g\<lparr>cg_op_info := info'\<rparr>))"
    if "check_op_info (ge_lists env) (is_py g) (cg_op_info g) = Inr info'" for info'
    using that only_aicore [OF strs _ assms(3), of "g\<lparr>cg_op_info := info'\<rparr>" t] t
    by (simp add: check_op_info_ok)
  ultimately have "only config_error (generate_base_cases env g)"
    unfolding generate_base_cases_def Let_def
    using assms(3,4) by (auto intro!: only_bindE simp: base_cases_def)
  moreover have "\<exists>b. bs = [b]" if "generate_base_cases env g = Inr bs" for bs
    using that assms(3,4) by (auto simp: generate_base_cases_def base_cases_def Let_def)
  ultimately show ?thesis
    by (cases "generate_base_cases env g") (auto simp: only_def)
qed
definition plain_lists :: gen_lists where
  "plain_lists = \<lparr>gl_format_keys = [''ND''], gl_type_list = [''float'', ''int8''],
     gl_mindspore_type_list = [], gl_aicpu_type_map = [(''DT_FLOAT'', ''float'')]\<rparr>"

definition gen_env_ex :: gen_env where
  "gen_env_ex = \<lparr>ge_lists = plain_lists, ge_uniq = remdups, ge_fs = empty_fs, ge_mkdirs = mkdir_one,
     ge_read = (\<lambda>_. None), ge_frameworks = [(''tensorflow'', [''.pb''])], ge_parser = (\<lambda>_ _. Inr [])\<rparr>"

definition full_info :: op_infos where
  "full_info =
     [(''input0'', [(''name'', PyStr ''x''), (''paramType'', PyStr ''dynamic''), (''dtype'', PyStr ''float,int8'')]),
      (''attr_axis'', [(''type'', PyStr ''listInt''), (''defaultValue'', PyStr ''[1,-2]'')]),
      (''output0'', [(''name'', PyStr ''y''), (''paramType'', PyStr ''required''), (''dtype'', PyStr ''float'')])]"

definition ini_gen :: case_gen where
  "ini_gen = gen_ex\<lparr>cg_op_type := PyStr ''Add'', cg_op_info := full_info\<rparr>"

theorem generate_from_ini_errors_witness:
  "\<exists>b. generate_base_cases gen_env_ex ini_gen = Inr [b]"
proof -
  have "ini_ok full_info" "s_strip ''Add'' = ''Add''" by code_simp+
  from parse_printed [OF this, of gen_ex]
  have parsed: "parse_ini_to_json gen_ex (print_ini ''Add'' full_info) = Inr ini_gen"
    by (simp add: ini_gen_def)
  have "cg_op_info gen_ex = []" "cg_model_path ini_gen = []" by (simp_all add: gen_ex_def ini_gen_def)
  moreover have "\<not> is_aicpu_op (cg_op_info ini_gen)" by code_simp
  moreover have "\<not> isl (generate_base_cases gen_env_ex ini_gen)" by code_simp
  ultimately show ?thesis
    using generate_from_ini_errors [OF parsed, of gen_env_ex] by auto
qed

section \<open>Cases from the layers of a model\<close>

lemma at_index_ok:
  "at_index xs i f = Inr ys \<longleftrightarrow> i < length xs \<and> (\<exists>y. f (xs ! i) = Inr y \<and> ys = xs[i := y])"
  by (auto simp: at_index_def)

lemma set_shape_at_ok:
  "set_shape_at descs (n, s) = Inr descs' \<longleftrightarrow> model_shape_check s = Inr () \<and> n < length descs
     \<and> (\<exists>y. append_shape s (descs ! n) = Inr y \<and> descs' = descs[n := y])"
  by (auto simp: set_shape_at_def at_index_ok)

lemma set_shapes:
  assumes "foldE set_shape_at descs (enumerate n shapes) = Inr descs'"
  shows "length descs' = length descs \<and> (shapes \<noteq> [] \<longrightarrow> n + length shapes \<le> length descs)
    \<and> list_all (\<lambda>s. model_shape_check s = Inr ()) shapes
    \<and> (\<forall>i<length descs. if n \<le> i \<and> i < n + length shapes
         then append_shape (shapes ! (i - n)) (descs ! i) = Inr (descs' ! i) else descs' ! i = descs ! i)"
  using assms
proof (induction shapes arbitrary: n descs)
  case Nil
  then show ?case by auto
next
  case (Cons s shapes)
  then obtain y where y: "n < length descs" "append_shape s (descs ! n) = Inr y"
      "model_shape_check s = Inr ()"
    and run: "foldE set_shape_at (descs[n := y]) (enumerate (Suc n) shapes) = Inr descs'"
    by (auto simp: set_shape_at_ok)
  from Cons.IH [OF run] y show ?case
    by (auto simp: nth_Cons' nth_list_update le_Suc_eq Suc_le_eq split: if_splits)
qed

lemma set_type_at_ok:
  "set_type_at descs (n, t) = Inr descs' \<longleftrightarrow>
     n < length descs \<and> descs' = descs[n := dset (descs ! n) ''type'' t]"
  by (auto simp: set_type_at_def at_index_ok)

lemma set_types:
  assumes "foldE set_type_at descs (enumerate n dtypes) = Inr descs'"
  shows "map (\<lambda>d. dget d ''shape'') descs' = map (\<lambda>d. dget d ''shape'') descs"
  using assms
proof (induction dtypes arbitrary: n descs)
  case (Cons t dtypes)
  then obtain y where y: "n < length descs" "y = dset (descs ! n) ''type'' t"
    and run: "foldE set_type_at (descs[n := y]) (enumerate (Suc n) dtypes) = Inr descs'"
    by (auto simp: set_type_at_ok)
  have "dget y ''shape'' = dget (descs ! n) ''shape''"
    by (simp add: y(2) dget_def dset_def update_conv')
  with y(1) have "map (\<lambda>d. dget d ''shape'') (descs[n := y]) = map (\<lambda>d. dget d ''shape'') descs"
    by (simp add: map_update list_update_same_conv)
  with Cons.IH [OF run] show ?case by simp
qed simp

definition positive_shape :: "pyval \<Rightarrow> bool" where
  "positive_shape s \<longleftrightarrow> (\<exists>ds. py_iter s = Inr ds \<and> list_all (\<lambda>d. is_int d \<and> py_lt (PyInt 0) d = Inr True) ds)"

lemma model_dim_check_ok: "model_dim_check d = Inr () \<longleftrightarrow> is_int d \<and> py_lt (PyInt 0) d = Inr True"
  by (cases "py_lt (PyInt 0) d") (auto simp: model_dim_check_def)

lemma model_shape_check_ok: "model_shape_check s = Inr () \<longleftrightarrow> positive_shape s"
  by (auto simp: model_shape_check_def positive_shape_def forE_ok list_all_iff model_dim_check_ok)

lemma shapes_of_layer:
  assumes "foldE set_shape_at descs (enumerate 0 shapes) = Inr descs'" and "length shapes = length descs"
    and "list_all (\<lambda>d. dget d ''shape'' = PyList []) descs"
  shows "map (\<lambda>d. dget d ''shape'') descs' = map (\<lambda>s. PyList [s]) shapes \<and> list_all positive_shape shapes"
proof -
  note run = set_shapes [OF assms(1)]
  have "dget (descs' ! i) ''shape'' = PyList [shapes ! i]" if i: "i < length descs" for i
  proof -
    have "if 0 \<le> i \<and> i < 0 + length shapes
        then append_shape (shapes ! (i - 0)) (descs ! i) = Inr (descs' ! i) else descs' ! i = descs ! i"
      using run i by blast
    then have "append_shape (shapes ! i) (descs ! i) = Inr (descs' ! i)" using i assms(2) by simp
    moreover have "dget (descs ! i) ''shape'' = PyList []" using assms(3) i by (simp add: list_all_length)
    ultimately have "dset (descs ! i) ''shape'' (PyList [shapes ! i]) = descs' ! i"
      by (auto simp: append_shape_def ditem_def dget_def split: option.splits pyval.splits)
    then have "descs' ! i = dset (descs ! i) ''shape'' (PyList [shapes ! i])" by (rule sym)
    then show ?thesis by (simp only: dget_dset if_True refl)
  qed
  moreover have "length descs' = length descs" using run by blast
  ultimately have "map (\<lambda>d. dget d ''shape'') descs' = map (\<lambda>s. PyList [s]) shapes"
    using assms(2) by (intro nth_equalityI) simp_all
  then show ?thesis using run by (simp only: model_shape_check_ok)
qed

text \<open>The base case of an AI Core operator leaves every shape open.\<close>

lemma input_desc_open: "generate_input_desc env py value = Inr d \<Longrightarrow> dget d ''shape'' = PyList []"
  by (auto simp: generate_input_desc_def Let_def dget_def)

lemma output_desc_open: "generate_output_desc env py value = Inr d \<Longrightarrow> dget d ''shape'' = PyList []"
  by (auto simp: generate_output_desc_def Let_def dget_def)

lemma base_shapes_open:
  assumes "aicore_base_case env g = Inr b"
  shows "list_all (\<lambda>d. dget d ''shape'' = PyList []) (bc_input_desc b @ bc_output_desc b)"
proof -
  have each: "mapE (f \<circ> snd) xs = Inr ds \<Longrightarrow> (\<And>v d. f v = Inr d \<Longrightarrow> P d) \<Longrightarrow> list_all P ds"
    for f :: "pydict \<Rightarrow> pydict res" and P and xs :: op_infos and ds
    by (induction xs arbitrary: ds) auto
  from assms have
    "mapE (generate_input_desc env (is_py g) \<circ> snd) (group ''input'' (cg_op_info g)) = Inr (bc_input_desc b)"
    "mapE (generate_output_desc env (is_py g) \<circ> snd) (group ''output'' (cg_op_info g)) = Inr (bc_output_desc b)"
    unfolding aicore_base_case_passes three_passes_def Let_def by auto
  from each [OF this(1) input_desc_open] each [OF this(2) output_desc_open] show ?thesis by simp
qed

text \<open>
  C34. A case made from a layer of a model and the base case of an AI Core operator has one shape for each input
  and output, the layer's, in order, and every dimension of it is a positive integer; a layer with other numbers
  of inputs or outputs makes no case. (The AI CPU route copies the layer's shapes without these checks.)
\<close>

theorem model_case_shapes:
  assumes "aicore_base_case env g = Inr b" and "update_aicore_io_from_model b node = Inr (Some b')"
  shows "\<exists>ins outs. py_iter (dget node ''input_shape'') = Inr ins \<and> py_iter (dget node ''output_shape'') = Inr outs
    \<and> length ins = length (bc_input_desc b) \<and> length outs = length (bc_output_desc b)
    \<and> map (\<lambda>d. dget d ''shape'') (bc_input_desc b') = map (\<lambda>s. PyList [s]) ins
    \<and> map (\<lambda>d. dget d ''shape'') (bc_output_desc b') = map (\<lambda>s. PyList [s]) outs
    \<and> list_all positive_shape ins \<and> list_all positive_shape outs"
proof -
  note open_shapes = base_shapes_open [OF assms(1)]
  from assms(2) have "get_new_base_case b node = Inr (Some b')"
    by (auto simp: update_aicore_io_from_model_def split: sum.splits)
  then obtain name n where len_in: "py_len (dget node ''input_shape'') = Inr (length (bc_input_desc b))"
    and len_out: "py_len (dget node ''output_shape'') = Inr (length (bc_output_desc b))"
    and run: "modify_new_base_case_dict node
      (b\<lparr>bc_case_name := name, bc_st_mode := False, bc_attr := None\<rparr>) = Inr b'"
    by (auto simp: get_new_base_case_def split: if_splits)
  then obtain ins outs i1 o1 i2 o2 it ot v where
    it_in: "py_iter (dget node ''input_shape'') = Inr ins"
    and f1: "foldE set_shape_at (bc_input_desc b) (enumerate 0 ins) = Inr i1"
    and v: "ditem node ''output_shape'' = Inr v" "py_iter v = Inr outs"
    and f2: "foldE set_shape_at (bc_output_desc b) (enumerate 0 outs) = Inr o1"
    and f3: "foldE set_type_at i1 (enumerate 0 it) = Inr i2"
    and f4: "foldE set_type_at o1 (enumerate 0 ot) = Inr o2"
    and b': "bc_input_desc b' = i2" "bc_output_desc b' = o2"
    unfolding modify_new_base_case_dict_def by (auto simp del: enumerate_simps)
  have it_out: "py_iter (dget node ''output_shape'') = Inr outs"
    using v by (simp add: ditem_def dget_def split: option.splits)
  have lens: "length ins = length (bc_input_desc b)" "length outs = length (bc_output_desc b)"
    using py_iter_len [OF it_in] py_iter_len [OF it_out] len_in len_out by simp_all
  from shapes_of_layer [OF f1 lens(1)] shapes_of_layer [OF f2 lens(2)] open_shapes
    set_types [OF f3] set_types [OF f4] b' lens it_in it_out
  show ?thesis by simp
qed

definition relu_case :: base_case where
  "relu_case = \<lparr>bc_case_name = PyStr ''Test_Relu_001'', bc_st_mode = False, bc_op = PyStr ''Relu'',
     bc_input_desc = [[(''format'', str_list [''ND'']), (''type'', str_list [''float'']), (''shape'', PyList [])]],
     bc_output_desc = [[(''format'', str_list [''ND'']), (''type'', str_list [''float'']), (''shape'', PyList [])]],
     bc_attr = None\<rparr>"

definition relu_node :: pydict where
  "relu_node = [(''layer'', PyStr ''net/relu''),
     (''input_dtype'', PyList [PyStr ''float'']), (''input_shape'', PyList [PyList [PyInt 8, PyInt 16]]),
     (''output_dtype'', PyList [PyStr ''float'']), (''output_shape'', PyList [PyList [PyInt 8, PyInt 16]])]"

definition relu_gen :: case_gen where
  "relu_gen = gen_ex\<lparr>cg_op_type := PyStr ''Relu'', cg_op_info :=
     [(''input0'', [(''name'', PyStr ''x''), (''paramType'', PyStr ''required''), (''dtype'', PyStr ''float''), (''format'', PyStr ''ND'')]),
      (''output0'', [(''name'', PyStr ''y''), (''paramType'', PyStr ''required''), (''dtype'', PyStr ''float''), (''format'', PyStr ''ND'')])]\<rparr>"

definition relu_cases :: "(base_case \<times> base_case option) res" where
  "relu_cases = bindE (aicore_base_case gen_env_ex relu_gen) (\<lambda>b.
     bindE (update_aicore_io_from_model b relu_node) (\<lambda>b'. Inr (b, b')))"

theorem model_case_shapes_witness:
  "\<exists>b b'. aicore_base_case gen_env_ex relu_gen = Inr b \<and> update_aicore_io_from_model b relu_node = Inr (Some b')
     \<and> map (\<lambda>d. dget d ''shape'') (bc_input_desc b') = [PyList [PyList [PyInt 8, PyInt 16]]]"
proof -
  have "case relu_cases of Inr (_, Some _) \<Rightarrow> True | _ \<Rightarrow> False"
    by code_simp
  then obtain b b' where b: "aicore_base_case gen_env_ex relu_gen = Inr b"
    and b': "update_aicore_io_from_model b relu_node = Inr (Some b')"
    by (auto simp: relu_cases_def split: sum.splits option.splits)
  from model_case_shapes [OF b b'] b b' show ?thesis
    by (auto simp: relu_node_def dget_def)
qed

lemma foldE_set_shape_length:
  "foldE set_shape_at descs es = Inr descs' \<Longrightarrow> length descs' = length descs"
  by (erule foldE_inv) (auto simp: set_shape_at_ok split_paired_all)

lemma foldE_set_type_length:
  "foldE set_type_at descs es = Inr descs' \<Longrightarrow> length descs' = length descs"
  by (erule foldE_inv) (auto simp: set_type_at_ok split_paired_all)

definition same_arity :: "base_case \<Rightarrow> base_case \<Rightarrow> bool" where
  "same_arity b b' \<longleftrightarrow> length (bc_input_desc b') = length (bc_input_desc b)
     \<and> length (bc_output_desc b') = length (bc_output_desc b) \<and> bc_op b' = bc_op b"

lemma modify_arity:
  assumes "modify_new_base_case_dict node b = Inr b'"
  shows "same_arity b b'"
proof -
  from assms obtain e1 e2 e3 e4 i1 o1 i2 o2 where
    "foldE set_shape_at (bc_input_desc b) e1 = Inr i1" "foldE set_shape_at (bc_output_desc b) e2 = Inr o1"
    "foldE set_type_at i1 e3 = Inr i2" "foldE set_type_at o1 e4 = Inr o2"
    "b' = b\<lparr>bc_input_desc := i2, bc_output_desc := o2\<rparr>"
    unfolding modify_new_base_case_dict_def by (auto simp del: enumerate_simps)
  then show ?thesis
    by (auto simp: same_arity_def dest!: foldE_set_shape_length foldE_set_type_length)
qed

lemma update_format_arity: "same_arity b (update_format_from_model t b') = same_arity b b'"
  by (simp add: same_arity_def update_format_from_model_def)

lemma attr_arity:
  assumes "update_aicore_attr_from_model b node b1 = Inr b2" and "same_arity b b1"
  shows "same_arity b b2"
proof -
  have item: "same_arity b (snd st')"
    if "get_info_from_model attr st v = Inr st'" "same_arity b (snd st)" for attr st v st'
    using that by (auto simp: get_info_from_model_def Let_def update_format_arity split: prod.splits if_splits)
  have items: "same_arity b (snd st')"
    if "foldE (get_info_from_model attr) st vs = Inr st'" "same_arity b (snd st)" for attr st vs st'
    using that by (rule foldE_inv) (rule item)
  have attrs: "same_arity b (snd st')"
    if "foldE (\<lambda>st attr. bindE (py_iter v) (foldE (get_info_from_model attr) st)) st as = Inr st'"
      "same_arity b (snd st)" for v st as st'
    using that by (rule foldE_inv) (auto intro: items)
  show ?thesis
    using assms attrs [where st = "([], b1)"]
    by (fastforce simp: update_aicore_attr_from_model_def same_arity_def split: option.splits if_splits)
qed

lemma node_arity:
  assumes "case_from_node g False b node = Inr bs" and "b' \<in> set bs"
  shows "same_arity b b'"
proof -
  from assms obtain b1 where up: "update_aicore_io_from_model b node = Inr (Some b1)"
    and attr: "update_aicore_attr_from_model b node b1 = Inr b'"
    by (auto simp: case_from_node_def split: option.splits)
  from up obtain name where
    "modify_new_base_case_dict node (b\<lparr>bc_case_name := name, bc_st_mode := False, bc_attr := None\<rparr>) = Inr b1"
    by (auto simp: update_aicore_io_from_model_def get_new_base_case_def split: sum.splits if_splits)
  from modify_arity [OF this] have "same_arity b b1" by (simp add: same_arity_def)
  with attr show ?thesis by (rule attr_arity)
qed

text \<open>
  Generating from a model never returns nothing: when no node of the model is the operator, or no
  layer fits it, the case of the description is returned; and a case of an AI Core operator has as many inputs and
  outputs as the description.
\<close>

theorem model_cases_keep_arity:
  assumes "generate_base_case_from_model env g is_aicpu b = Inr bs"
  shows "bs \<noteq> [] \<and> (is_aicpu \<or> list_all (same_arity b) bs)"
proof -
  have refl: "same_arity b b" by (simp add: same_arity_def)
  from assms consider "bs = [b]"
    | nodes bss where "mapE (case_from_node g is_aicpu b) nodes = Inr bss" "bs = concat bss" "bs \<noteq> []"
    by (auto simp: generate_base_case_from_model_def Let_def split: if_splits)
  then show ?thesis
  proof cases
    case 1
    with refl show ?thesis by simp
  next
    case (2 nodes bss)
    have "same_arity b b'" if "\<not> is_aicpu" "b' \<in> set bs" for b'
    proof -
      from that(2) 2(2) obtain bs' where bs': "bs' \<in> set bss" "b' \<in> set bs'" by auto
      then obtain i where i: "i < length bss" "bss ! i = bs'" by (auto simp: in_set_conv_nth)
      with 2(1) have "case_from_node g is_aicpu b (nodes ! i) = Inr bs'"
        by (auto simp: mapE_ok list_all2_conv_all_nth)
      with that(1) bs'(2) show ?thesis using node_arity by simp
    qed
    with 2(3) show ?thesis by (auto simp: list_all_iff)
  qed
qed

theorem model_cases_keep_arity_witness:
  "generate_base_case_from_model gen_env_ex (ini_gen\<lparr>cg_model_path := ''/m/net.pb''\<rparr>) False relu_case
     = Inr [relu_case]
   \<and> [relu_case] \<noteq> [] \<and> list_all (same_arity relu_case) [relu_case]"
proof -
  have run: "generate_base_case_from_model gen_env_ex (ini_gen\<lparr>cg_model_path := ''/m/net.pb''\<rparr>) False relu_case
     = Inr [relu_case]"
    by (simp add: generate_base_case_from_model_def get_model_nodes_def get_framework_type_def
        gen_env_ex_def endswith_def)
  from model_cases_keep_arity [OF run] run show ?thesis by simp
qed

end
