(* ===== verification/Gen_Design.thy ===== *)
theory Gen_Design
  imports Case_Gen Case_Design
begin

text \<open>
  The generator and the designer together: the file that \<^verbatim>\<open>CaseGenerator\<close> writes is what
  \<^verbatim>\<open>CaseDesign\<close> reads. A generated case has the keys the designer requires and names it accepts.
\<close>

section \<open>Names\<close>

lemma check_name_plain:
  assumes "s \<noteq> []" and "list_all name_char s" and "length s \<le> MAX_NAME_LENGTH"
  shows "check_name_valid (PyStr s) = Inr ()"
  using assms by (simp add: check_name_valid_def name_pattern_def)

lemma plain_no_slash: "list_all name_char s \<Longrightarrow> s_replace s ''/'' x = s"
proof -
  assume "list_all name_char s"
  then have "CHR ''/'' \<notin> set s" by (auto simp: list_all_iff name_char_def c_upper_def c_lower_def c_digit_def)
  then have "\<not> s_contains s ''/''" by (auto simp: s_contains_iff)
  then show ?thesis by (rule s_replace_absent)
qed

lemma plain_chars: "list_all name_char ''Test_''" "list_all name_char ''_001''"
  by (simp_all add: name_char_def c_upper_def c_lower_def c_digit_def)

section \<open>The keys of a generated case\<close>

lemma base_case_keys:
  "dhas (base_case_dict b) CASE_NAME" "dhas (base_case_dict b) OP"
  "dhas (base_case_dict b) INPUT_DESC" "dhas (base_case_dict b) OUTPUT_DESC"
  "dget (base_case_dict b) CASE_NAME = bc_case_name b" "dget (base_case_dict b) OP = bc_op b"
  "dget (base_case_dict b) ST_MODE = (if bc_st_mode b then PyStr ''ms_python_train'' else PyNone)"
  "bc_st_mode b \<Longrightarrow> dhas (base_case_dict b) ST_MODE"
  by (auto simp: base_case_dict_def dhas_def dget_def split: option.split)

lemma aicore_names:
  assumes "aicore_base_case env g = Inr b"
  shows "case_name_of (cg_op_type g) = Inr (bc_case_name b)" and "bc_op b = cg_op_type g"
  using assms by (auto simp: aicore_base_case_passes three_passes_def Let_def)

text \<open>
  What the generator makes of an \<^verbatim>\<open>.ini\<close> or \<^verbatim>\<open>.py\<close> file passes the designer's check of keys: for an AI Core
  operator whose name is made of the characters allowed in names and is short enough, the generated case has every required
  key, \<^verbatim>\<open>st_mode\<close> included where the case asks for it, and valid names.
\<close>

lemma generated_case_acceptable:
  assumes "\<not> is_aicpu_op (cg_op_info g)" and "cg_model_path g = []"
    and "cg_op_type g = PyStr t" and "t \<noteq> []" and "list_all name_char t"
    and "length t + 9 \<le> MAX_NAME_LENGTH"
    and "generate_base_cases env g = Inr bs"
  shows "\<exists>b. bs = [b] \<and> bc_case_name b = PyStr (''Test_'' @ s_replace t ''/'' ''_'' @ ''_001'')
    \<and> bc_op b = PyStr t \<and> check_required_key_valid (base_case_dict b) REQUIRED_KEYS
    = Inr (REQUIRED_KEYS @ (if bc_st_mode b then [ST_MODE] else []))"
proof -
  from assms(1,2,7) obtain b info where bs: "bs = [b]"
    and run: "aicore_base_case env (g\<lparr>cg_op_info := info\<rparr>) = Inr b"
    by (auto simp: generate_base_cases_def base_cases_def Let_def)
  from aicore_names [OF run] assms(3) have
    name: "bc_case_name b = PyStr (''Test_'' @ s_replace t ''/'' ''_'' @ ''_001'')" and op: "bc_op b = PyStr t"
    by (simp_all add: case_name_of_def)
  have "check_name_valid (bc_case_name b) = Inr ()"
    unfolding name plain_no_slash [OF assms(5)]
    by (rule check_name_plain) (use assms(5,6) plain_chars in \<open>simp_all add: list_all_append\<close>)
  moreover have "check_name_valid (bc_op b) = Inr ()"
    unfolding op by (rule check_name_plain) (use assms(4-6) in simp_all)
  ultimately have "foldE (check_required_key (base_case_dict b)) [] (required_keys_for (base_case_dict b) REQUIRED_KEYS)
      = Inr []"
    unfolding check_required_keys
    by (auto simp: name_keys_ok_def missing_from_def required_keys_for_def REQUIRED_KEYS_def base_case_keys)
  then show ?thesis
    by (simp add: bs name op check_required_key_valid_def required_keys_for_def base_case_keys)
qed

end
