(* ===== verification/Data_Gen.thy ===== *)
theory Data_Gen
  imports Utils Py_Number St_Report Dynamic_Handle
begin

text \<open>
  The data generator, \<^verbatim>\<open>main/data_generator.py\<close>: the input data of every case, and its
  expected outputs when the case names a function for them. numpy is an argument: a draw is an
  expression over numpy's distributions, which \<open>np_eval\<close> evaluates to an array. \<open>None\<close>
  stands for \<^verbatim>\<open>MemoryError\<close>. Files written are kept with their arrays; the rest of the file
  system is a query.
\<close>

abbreviation err_write :: exn where
  "err_write \<equiv> OpTestGenException OP_TEST_GEN_WRITE_FILE_ERROR"

section \<open>Draws\<close>

datatype sample =
    Uniform pyval pyval
  | Normal pyval pyval
  | Beta pyval pyval
  | Laplace pyval pyval
  | Triangular pyval pyval

text \<open>
  \<open>Draw s t\<close> is a sample of the shape asked for, converted to the type \<open>t\<close>. The mode of a
  triangular sample is itself drawn uniformly between the bounds.
\<close>

datatype np_expr =
    Draw sample string
  | Num int
  | Maximum np_expr np_expr
  | Exp np_expr
  | Neg np_expr
  | Add np_expr np_expr
  | Sub np_expr np_expr
  | Div np_expr np_expr
  | SumAll np_expr

text \<open>
  \<^verbatim>\<open>abs(x) + 1e-4\<close>. An integer beyond the largest double cannot be added to a float; Python's
  \<^verbatim>\<open>OverflowError\<close> is shown as \<open>ValueError\<close>.
\<close>

definition small_double :: rat where
  "small_double = 7378697629483821 / 73786976294838206464"

definition abs_plus :: "pyval \<Rightarrow> pyval res" where
  "abs_plus v = (case num_view v of
      Some (Fin x) \<Rightarrow>
        (case round_double \<bar>x\<bar> of
           Fin y \<Rightarrow> Inr (PyFloat (round_double (y + small_double)))
         | _ \<Rightarrow> Inl ValueError)
    | Some NaN \<Rightarrow> Inr (PyFloat NaN)
    | Some _ \<Rightarrow> Inr (PyFloat PInf)
    | None \<Rightarrow> Inl TypeError)"

text \<open>
  \<^verbatim>\<open>gen_data\<close> after the type is known: a draw of booleans is a draw of integers from 0 to 1,
  and its type is an 8-bit integer from then on, so that the conversion back at the end never
  happens.
\<close>

definition draw_expr :: "pyval \<Rightarrow> pyval \<Rightarrow> string \<Rightarrow> string \<Rightarrow> np_expr res" where
  "draw_expr lo hi t distribution =
     (let pool = Draw (Uniform lo hi) t in
      if distribution = ''uniform'' then Inr pool
      else if distribution = ''normal'' then bindE (abs_plus hi) (\<lambda>s. Inr (Draw (Normal lo s) t))
      else if distribution = ''beta'' then
        bindE (abs_plus lo) (\<lambda>a. bindE (abs_plus hi) (\<lambda>b. Inr (Draw (Beta a b) t)))
      else if distribution = ''laplace'' then bindE (abs_plus hi) (\<lambda>s. Inr (Draw (Laplace lo s) t))
      else if distribution = ''triangular'' then Inr (Draw (Triangular lo hi) t)
      else if distribution = ''relu'' then Inr (Maximum (Num 0) pool)
      else if distribution = ''sigmoid'' then Inr (Div (Num 1) (Add (Num 1) (Exp (Neg pool))))
      else if distribution = ''softmax'' then Inr (Div (Exp pool) (SumAll (Exp pool)))
      else if distribution = ''tanh'' then
        Inr (Div (Sub (Exp pool) (Exp (Neg pool))) (Add (Exp pool) (Exp (Neg pool))))
      else Inl err_write)"

datatype 'a outcome = Single 'a | Many "'a list"

text \<open>A parameter of the function that computes the expected outputs.\<close>

datatype 'a io_param = Io "'a option" pyval pyval pyval | Attr_Param pyval

type_synonym 'a params = "(pyval \<times> 'a io_param) list"

record 'a dg_env =
  np_type :: "string \<Rightarrow> string res"
  np_eval :: "np_expr \<Rightarrow> pyval \<Rightarrow> 'a option res"
  np_array :: "pyval \<Rightarrow> string \<Rightarrow> 'a option res"
  np_fromfile :: "string \<Rightarrow> string \<Rightarrow> 'a option res"
  np_shape :: "'a \<Rightarrow> int list"
  np_reshape :: "'a \<Rightarrow> pyval \<Rightarrow> 'a res"
  os_exists :: "string \<Rightarrow> bool"
  can_write :: "string \<Rightarrow> bool"
  dg_mkdirs :: makedirs
  import_module :: "string \<Rightarrow> (string \<Rightarrow> 'a params \<Rightarrow> 'a outcome res) res"

definition gen_data ::
    "'a dg_env \<Rightarrow> pyval \<Rightarrow> pyval \<Rightarrow> pyval \<Rightarrow> string \<Rightarrow> string \<Rightarrow> 'a option res" where
  "gen_data env data_shape min_value max_value dtype distribution =
     bindE (np_type env (map_type_to_expect_type dtype)) (\<lambda>t.
       let (lo, hi, t) = (if t = ''bool'' then (PyInt 0, PyInt 2, ''int8'') else (min_value, max_value, t)) in
       bindE (draw_expr lo hi t distribution) (\<lambda>e. np_eval env e data_shape))"

section \<open>Given values\<close>

text \<open>\<^verbatim>\<open>functools.reduce\<close> of the product, which raises on an empty shape.\<close>

definition shape_size :: "pyval \<Rightarrow> int res" where
  "shape_size shape =
     bindE (py_iter shape) (\<lambda>dims.
     bindE (raise_if (dims = [] \<or> \<not> list_all is_int dims) TypeError) (\<lambda>_. Inr (prod_list (map int_view dims))))"

definition array_size :: "int list \<Rightarrow> int res" where
  "array_size dims = (if dims = [] then Inl TypeError else Inr (prod_list dims))"

definition check_data_size :: "'a dg_env \<Rightarrow> 'a \<Rightarrow> pyval \<Rightarrow> unit res" where
  "check_data_size env data input_shape =
     bindE (shape_size input_shape) (\<lambda>input_size.
     bindE (array_size (np_shape env data)) (\<lambda>data_size.
       raise_if (input_size \<noteq> data_size) err_write))"

definition gen_data_with_value :: "'a dg_env \<Rightarrow> pyval \<Rightarrow> pyval \<Rightarrow> string \<Rightarrow> 'a option res" where
  "gen_data_with_value env input_shape value dtype0 =
     (let dtype = map_type_to_expect_type dtype0 in
      case value of
        PyStr path \<Rightarrow>
          bindE (np_fromfile env path dtype) (\<lambda>r. case r of
            None \<Rightarrow> Inr None
          | Some data \<Rightarrow>
              bindE (check_data_size env data input_shape) (\<lambda>_.
              bindE (np_reshape env data input_shape) (\<lambda>data. Inr (Some data))))
      | _ \<Rightarrow>
          bindE (np_array env value dtype) (\<lambda>r. case r of
            None \<Rightarrow> Inr None
          | Some data \<Rightarrow>
              if PyList (map PyInt (np_shape env data)) = input_shape then Inr (Some data)
              else bindE (py_len input_shape) (\<lambda>n. if n = 0 then Inr (Some data) else Inl err_write)))"

text \<open>\<^verbatim>\<open>range_min, range_max = value_range\<close> needs exactly two values.\<close>

definition unpack_range :: "pyval \<Rightarrow> (pyval \<times> pyval) res" where
  "unpack_range v = bindE (py_iter v) (\<lambda>vs. case vs of [a, b] \<Rightarrow> Inr (a, b) | _ \<Rightarrow> Inl ValueError)"

definition str_field :: "pydict \<Rightarrow> string \<Rightarrow> string res" where
  "str_field d k = (case dget d k of PyStr s \<Rightarrow> Inr s | _ \<Rightarrow> Inl TypeError)"

text \<open>A distribution that is no text equals none of the names.\<close>

definition distribution_of :: "pydict \<Rightarrow> string" where
  "distribution_of d = (case dget d ''data_distribute'' of PyStr s \<Rightarrow> s | _ \<Rightarrow> [])"

definition gen_op_iput_data :: "'a dg_env \<Rightarrow> pyval \<Rightarrow> pydict \<Rightarrow> 'a option res" where
  "gen_op_iput_data env input_shape input_desc =
     bindE (unpack_range (dget input_desc ''value_range'')) (\<lambda>(range_min, range_max).
     bindE (str_field input_desc ''type'') (\<lambda>dtype.
     if truthy (dget input_desc ''value'')
     then gen_data_with_value env input_shape (dget input_desc ''value'') dtype
     else gen_data env input_shape range_min range_max dtype (distribution_of input_desc)))"

definition gen_input_data :: "'a dg_env \<Rightarrow> pyval \<Rightarrow> pydict \<Rightarrow> 'a res" where
  "gen_input_data env input_shape input_desc =
     bindE (gen_op_iput_data env input_shape input_desc) (\<lambda>r.
       case r of None \<Rightarrow> Inl err_write | Some data \<Rightarrow> Inr data)"

section \<open>The state and the files\<close>

record 'a dg_state =
  dg_files :: "(string \<times> 'a) list"
  dg_fs :: fs
  dg_report :: st_report

definition file_there :: "'a dg_env \<Rightarrow> 'a dg_state \<Rightarrow> string \<Rightarrow> bool" where
  "file_there env s path \<longleftrightarrow> os_exists env path \<or> path \<in> fst ` set (dg_files s)"

definition write_file :: "string \<Rightarrow> 'a \<Rightarrow> 'a dg_state \<Rightarrow> 'a dg_state" where
  "write_file path data s = s\<lparr>dg_files := dg_files s @ [(path, data)]\<rparr>"

definition get_const_data_input_dict :: "'a dg_env \<Rightarrow> pydict \<Rightarrow> string \<Rightarrow> pyval \<Rightarrow> 'a io_param res" where
  "get_const_data_input_dict env input_desc file_path input_shape =
     bindE (str_field input_desc ''type'') (\<lambda>dtype.
     bindE (np_fromfile env file_path dtype) (\<lambda>r. case r of
       None \<Rightarrow> Inl RuntimeError
     | Some data_list \<Rightarrow>
         bindE (check_data_size env data_list input_shape) (\<lambda>_.
         bindE (py_iter input_shape) (\<lambda>dims.
         bindE (np_reshape env data_list (PyTuple dims)) (\<lambda>data.
           Inr (Io (Some data) (dget input_desc ''type'') (PyTuple dims) (dget input_desc ''format'')))))))"

definition get_trans_data_input_dict ::
    "'a dg_env \<Rightarrow> pydict \<Rightarrow> string \<Rightarrow> pyval \<Rightarrow> 'a dg_state \<Rightarrow> ('a io_param \<times> 'a dg_state) res" where
  "get_trans_data_input_dict env input_desc file_path input_shape s =
     bindE (raise_if (file_there env s file_path) err_write) (\<lambda>_.
     bindE (gen_input_data env input_shape input_desc) (\<lambda>data.
     bindE (raise_if (\<not> can_write env file_path) err_write) (\<lambda>_.
       Inr (Io (Some data) (dget input_desc ''type'') input_shape (dget input_desc ''format''),
            write_file file_path data s))))"

definition get_input_dict_with_data ::
    "'a dg_env \<Rightarrow> pydict \<Rightarrow> string \<Rightarrow> pyval \<Rightarrow> 'a dg_state \<Rightarrow> ('a io_param \<times> 'a dg_state) res" where
  "get_input_dict_with_data env input_desc file_path input_shape s =
     (if truthy (dget input_desc IS_CONST) \<and> truthy (dget input_desc DATA_DISTRIBUTE)
         \<and> dget input_desc VALUE = PyNone
      then bindE (get_const_data_input_dict env input_desc file_path input_shape) (\<lambda>p. Inr (p, s))
      else get_trans_data_input_dict env input_desc file_path input_shape s)"

section \<open>The parameters of a case\<close>

definition input_file_path :: "string \<Rightarrow> string \<Rightarrow> nat \<Rightarrow> string" where
  "input_file_path output_path case_nm index =
     path_join output_path (case_nm @ ''_input_'' @ str_nat index @ ''.bin'')"

definition py_name :: "pyval \<Rightarrow> string res" where
  "py_name v = (case v of PyStr s \<Rightarrow> Inr s | _ \<Rightarrow> Inl TypeError)"

type_synonym 'a param_state = "pyval list \<times> 'a params \<times> 'a dg_state"

definition add_param :: "pyval \<Rightarrow> 'a io_param \<Rightarrow> 'a param_state \<Rightarrow> 'a param_state res" where
  "add_param name p st = (case st of (names, params, s) \<Rightarrow>
     if truthy name then
       bindE (raise_if (\<not> hashable name) TypeError) (\<lambda>_. Inr (names @ [name], dset params name p, s))
     else Inr st)"

definition gen_one_input ::
    "'a dg_env \<Rightarrow> string \<Rightarrow> pyval \<Rightarrow> 'a param_state \<Rightarrow> nat \<times> pyval \<Rightarrow> 'a param_state res" where
  "gen_one_input env output_path case_nm st entry = (case entry of (index, desc) \<Rightarrow>
     bindE (as_dict desc) (\<lambda>input_desc.
     if py_in (dget input_desc ''type'') (map PyStr OPTIONAL_TYPE_LIST) then Inr st
     else
       bindE (replace_shape_to_typical_shape input_desc) (\<lambda>input_shape.
       bindE (py_name case_nm) (\<lambda>nm.
       case st of (names, params, s) \<Rightarrow>
       bindE (get_input_dict_with_data env input_desc (input_file_path output_path nm index) input_shape s)
         (\<lambda>(p, s). add_param (dget input_desc ''name'') p (names, params, s))))))"

definition gen_one_output :: "'a param_state \<Rightarrow> pyval \<Rightarrow> 'a param_state res" where
  "gen_one_output st desc =
     bindE (as_dict desc) (\<lambda>output_desc.
     bindE (replace_shape_to_typical_shape output_desc) (\<lambda>output_shape.
       add_param (dget output_desc ''name'')
         (Io None (dget output_desc ''type'') output_shape (dget output_desc ''format'')) st))"

definition generate_params_desc ::
    "'a dg_env \<Rightarrow> string \<Rightarrow> pydict \<Rightarrow> pyval \<Rightarrow> 'a dg_state \<Rightarrow> 'a param_state res" where
  "generate_params_desc env output_path c case_nm s =
     bindE (py_iter (dget c INPUT_DESC)) (\<lambda>ins.
     bindE (foldE (gen_one_input env output_path case_nm) ([], [], s) (enumerate 0 ins)) (\<lambda>st.
     bindE (bindE (ditem c OUTPUT_DESC) py_iter) (\<lambda>outs.
       foldE gen_one_output st outs)))"

definition add_attr_param :: "'a param_state \<Rightarrow> pyval \<Rightarrow> 'a param_state res" where
  "add_attr_param st a = (case st of (names, params, s) \<Rightarrow>
     bindE (as_dict a) (\<lambda>attr.
     bindE (raise_if (\<not> hashable (dget attr ''name'')) TypeError) (\<lambda>_.
       Inr (names @ [dget attr ''name''],
            dset params (dget attr ''name'') (Attr_Param (dget attr ''value'')), s))))"

section \<open>Expected outputs\<close>

definition get_tensors_and_func :: "'a dg_env \<Rightarrow> pydict \<Rightarrow> 'a params \<Rightarrow> 'a list res" where
  "get_tensors_and_func env c params =
     bindE (py_name (dget c ''calc_expect_func_file'')) (\<lambda>file.
     bindE (py_name (dget c ''calc_expect_func_file_func'')) (\<lambda>func.
     bindE (import_module env (fst (path_splitext (path_basename file)))) (\<lambda>call.
       case call func params of
         Inl _ \<Rightarrow> Inl err_param
       | Inr (Single a) \<Rightarrow> Inr [a]
       | Inr (Many as) \<Rightarrow> Inr as)))"

definition expect_file_path :: "string \<Rightarrow> string \<Rightarrow> nat \<Rightarrow> string \<Rightarrow> string" where
  "expect_file_path dir case_nm idx dtype =
     path_join dir (case_nm @ ''_expect_output_'' @ str_nat idx @ ''_'' @ dtype @ ''.bin'')"

definition write_expect ::
    "'a dg_env \<Rightarrow> pydict \<Rightarrow> string \<Rightarrow> string list \<times> 'a dg_state \<Rightarrow> nat \<times> 'a \<Rightarrow> (string list \<times> 'a dg_state) res" where
  "write_expect env c dir st entry = (case (st, entry) of ((paths, s), (idx, tensor)) \<Rightarrow>
     bindE (ditem c OUTPUT_DESC) (\<lambda>outs.
     bindE (py_index outs idx) (\<lambda>desc.
     bindE (bindE (py_item desc ''type'') py_name) (\<lambda>dtype.
     bindE (py_name (dget c ''case_name'')) (\<lambda>nm.
     let path = expect_file_path dir nm idx dtype in
     bindE (raise_if (\<not> can_write env path) OSError) (\<lambda>_.
       Inr (paths @ [path], write_file path tensor s)))))))"

definition wants_expect :: "pydict \<Rightarrow> bool" where
  "wants_expect c \<longleftrightarrow> truthy (dget c ''calc_expect_func_file'') \<and> truthy (dget c ''calc_expect_func_file_func'')"

definition generate_expect_data ::
    "'a dg_env \<Rightarrow> string \<Rightarrow> pydict \<Rightarrow> 'a params \<Rightarrow> 'a dg_state \<Rightarrow> (string list \<times> 'a dg_state) res" where
  "generate_expect_data env output_path c params s =
     (let dir = path_join output_path ''expect'' in
      bindE (make_dirs (dg_mkdirs env) (dg_fs s) dir) (\<lambda>f.
      let s = s\<lparr>dg_fs := f\<rparr> in
      if wants_expect c then
        bindE (get_tensors_and_func env c params) (\<lambda>tensors.
          foldE (write_expect env c dir) ([], s) (enumerate 0 tensors))
      else Inr ([], s)))"

section \<open>All cases\<close>

text \<open>
  \<^verbatim>\<open>__init__\<close>: without the machine type the path of the operator is joined to the output path
  once more, which only is harmless when it is absolute.
\<close>

definition data_output_path :: "pydict list \<Rightarrow> string \<Rightarrow> bool \<Rightarrow> string res" where
  "data_output_path cases output_path cmd_mi =
     (let tail = ''run/out/test_data/data'' in
      if cmd_mi then Inr (path_join output_path tail)
      else (case cases of
          [] \<Rightarrow> Inl IndexError
        | c # _ \<Rightarrow>
            bindE (bindE (ditem c ''op'') py_name) (\<lambda>op.
              Inr (path_join (path_join output_path (path_join output_path op)) tail))))"

definition update_case_report ::
    "pyval \<Rightarrow> string \<Rightarrow> string list \<Rightarrow> st_report \<Rightarrow> st_report res" where
  "update_case_report case_nm output_path paths rpt =
     (case get_case_report rpt case_nm of
        None \<Rightarrow> Inl AttributeError
      | Some _ \<Rightarrow>
          Inr (rpt\<lparr>report_list := map (\<lambda>r. if py_eq (rpt_case_name r) case_nm
             then r\<lparr>trace_detail := (trace_detail r)\<lparr>st_case_info :=
                 (let info = (st_case_info (trace_detail r))\<lparr>input_data_paths := PyStr output_path\<rparr> in
                  if paths \<noteq> [] then info\<lparr>expect_data_paths := PyList (map PyStr paths)\<rparr> else info)\<rparr>\<rparr>
             else r) (report_list rpt)\<rparr>))"

definition dg_generate_case :: "'a dg_env \<Rightarrow> string \<Rightarrow> pydict \<Rightarrow> 'a dg_state \<Rightarrow> 'a dg_state res" where
  "dg_generate_case env output_path c s =
     (let case_nm = dget c ''case_name'' in
      bindE (generate_params_desc env output_path c case_nm s) (\<lambda>st.
      bindE (if truthy (dget c ''attr'')
             then bindE (py_iter (dget c ''attr'')) (foldE add_attr_param st) else Inr st)
        (\<lambda>(names, params, s).
      bindE (generate_expect_data env output_path c params s) (\<lambda>(paths, s).
      bindE (update_case_report case_nm output_path paths (dg_report s)) (\<lambda>rpt.
        Inr (s\<lparr>dg_report := rpt\<rparr>))))))"

text \<open>A case without inputs ends the loop over the cases: it returns from \<^verbatim>\<open>generate\<close>.\<close>

fun dg_generate_cases :: "'a dg_env \<Rightarrow> string \<Rightarrow> pydict list \<Rightarrow> 'a dg_state \<Rightarrow> 'a dg_state res" where
  "dg_generate_cases env output_path [] s = Inr s"
| "dg_generate_cases env output_path (c # cs) s =
     bindE (py_len (dget c INPUT_DESC)) (\<lambda>n.
       if n < 1 then Inr s
       else bindE (dg_generate_case env output_path c s) (\<lambda>s. dg_generate_cases env output_path cs s))"

definition dg_generate :: "'a dg_env \<Rightarrow> string \<Rightarrow> pydict list \<Rightarrow> 'a dg_state \<Rightarrow> 'a dg_state res" where
  "dg_generate env output_path cases s =
     bindE (check_path_valid (dg_mkdirs env) (dg_fs s) output_path True) (\<lambda>f.
       dg_generate_cases env output_path cases (s\<lparr>dg_fs := f\<rparr>))"

section \<open>The files of a case\<close>

definition const_input :: "pydict \<Rightarrow> bool" where
  "const_input d \<longleftrightarrow> truthy (dget d IS_CONST) \<and> truthy (dget d DATA_DISTRIBUTE) \<and> dget d VALUE = PyNone"

definition makes_file :: "pyval \<Rightarrow> bool" where
  "makes_file desc = (case desc of
      PyDict d \<Rightarrow> \<not> py_in (dget d ''type'') (map PyStr OPTIONAL_TYPE_LIST) \<and> \<not> const_input d
    | _ \<Rightarrow> False)"

text \<open>The paths a case writes: one for each input that is neither optional nor a stored constant.\<close>

definition input_paths :: "string \<Rightarrow> string \<Rightarrow> (nat \<times> pyval) list \<Rightarrow> string list" where
  "input_paths output_path nm entries =
     map (\<lambda>(i, _). input_file_path output_path nm i) (filter (\<lambda>(_, desc). makes_file desc) entries)"

text \<open>\<open>s'\<close> has new files at exactly these paths, none of which was there before.\<close>

definition fresh_files :: "'a dg_env \<Rightarrow> string list \<Rightarrow> 'a dg_state \<Rightarrow> 'a dg_state \<Rightarrow> bool" where
  "fresh_files env paths s s' \<longleftrightarrow>
     (\<exists>new. dg_files s' = dg_files s @ new \<and> map fst new = paths) \<and> distinct paths
     \<and> list_all (\<lambda>p. \<not> file_there env s p) paths \<and> dg_report s' = dg_report s"

lemma fresh_nil: "fresh_files env [] s s"
  by (simp add: fresh_files_def)

lemma fresh_write:
  "\<not> file_there env s p \<Longrightarrow> fresh_files env [p] s (write_file p data s)"
  by (simp add: fresh_files_def write_file_def)

lemma fresh_trans:
  assumes "fresh_files env ps s t" and "fresh_files env qs t u"
  shows "fresh_files env (ps @ qs) s u"
proof -
  from assms(1) obtain new where new: "dg_files t = dg_files s @ new" "map fst new = ps"
    by (auto simp: fresh_files_def)
  from assms(2) obtain new' where new': "dg_files u = dg_files t @ new'" "map fst new' = qs"
    by (auto simp: fresh_files_def)
  have there: "file_there env t p \<longleftrightarrow> file_there env s p \<or> p \<in> set ps" for p
    using new(1) unfolding new(2) [symmetric] by (auto simp: file_there_def image_Un)
  have "set ps \<inter> set qs = {}" "list_all (\<lambda>p. \<not> file_there env s p) qs"
    using assms(2) there by (auto simp: fresh_files_def list_all_iff)
  moreover have "dg_files u = dg_files s @ (new @ new')" "map fst (new @ new') = ps @ qs"
    using new new' by simp_all
  ultimately show ?thesis
    using assms unfolding fresh_files_def by (metis distinct_append list_all_append)
qed

lemma add_param_state: "add_param name p (names, params, s) = Inr (names', params', s') \<Longrightarrow> s' = s"
  by (auto simp: add_param_def split: if_splits)

lemma input_dict_files:
  assumes "get_input_dict_with_data env d path shape s = Inr (p, s')"
  shows "fresh_files env (if const_input d then [] else [path]) s s'"
  using assms
  by (auto simp: get_input_dict_with_data_def const_input_def get_trans_data_input_dict_def
      fresh_nil fresh_write split: if_splits)

lemma one_input_files:
  assumes "gen_one_input env output_path (PyStr nm) (names, params, s) e = Inr (names', params', s')"
  shows "fresh_files env (input_paths output_path nm [e]) s s'"
proof -
  obtain i desc where e: "e = (i, desc)" by (cases e)
  from assms obtain d where d: "desc = PyDict d"
    by (cases desc) (auto simp: gen_one_input_def e)
  show ?thesis
  proof (cases "py_in (dget d ''type'') (map PyStr OPTIONAL_TYPE_LIST)")
    case True
    with assms show ?thesis by (simp add: gen_one_input_def e d input_paths_def makes_file_def fresh_nil)
  next
    case False
    with assms obtain shape p s1 where
      "get_input_dict_with_data env d (input_file_path output_path nm i) shape s = Inr (p, s1)"
      and "add_param (dget d ''name'') p (names, params, s1) = Inr (names', params', s')"
      by (auto simp: gen_one_input_def e d py_name_def)
    with input_dict_files add_param_state False show ?thesis
      by (fastforce simp: e d input_paths_def makes_file_def)
  qed
qed

lemma inputs_files:
  assumes "foldE (gen_one_input env output_path (PyStr nm)) (names, params, s) es = Inr (names', params', s')"
  shows "fresh_files env (input_paths output_path nm es) s s'"
  using assms
proof (induction es arbitrary: names params s)
  case Nil
  then show ?case by (simp add: input_paths_def fresh_nil)
next
  case (Cons e es)
  then obtain n1 p1 s1 where
    one: "gen_one_input env output_path (PyStr nm) (names, params, s) e = Inr (n1, p1, s1)"
    and rest: "foldE (gen_one_input env output_path (PyStr nm)) (n1, p1, s1) es = Inr (names', params', s')"
    by auto
  have "input_paths output_path nm (e # es) = input_paths output_path nm [e] @ input_paths output_path nm es"
    by (simp add: input_paths_def)
  with fresh_trans [OF one_input_files [OF one] Cons.IH [OF rest]] show ?case by simp
qed

lemma outputs_files:
  "foldE gen_one_output st outs = Inr st' \<Longrightarrow> snd (snd st') = snd (snd st)"
proof (induction outs arbitrary: st)
  case (Cons desc outs)
  obtain names params s where st: "st = (names, params, s)" by (cases st)
  from Cons.prems obtain st1 where one: "gen_one_output st desc = Inr st1"
    and rest: "foldE gen_one_output st1 outs = Inr st'" by auto
  obtain n1 p1 s1 where st1: "st1 = (n1, p1, s1)" by (cases st1)
  from one have "s1 = s" by (auto simp: gen_one_output_def st st1 dest: add_param_state)
  with Cons.IH [OF rest] show ?case by (simp add: st st1)
qed simp

text \<open>
  C30. Generating the input data of a case writes one file for each input that is neither optional nor a stored
  constant, named after the case and the position of the input, and never writes over a file that is already there.
\<close>

theorem input_files_fresh:
  assumes "generate_params_desc env output_path c (PyStr nm) s = Inr (names, params, s')"
    and "dget c INPUT_DESC = PyList ins"
  shows "fresh_files env (input_paths output_path nm (enumerate 0 ins)) s s'"
proof -
  from assms obtain n1 p1 s1 outs where
    "foldE (gen_one_input env output_path (PyStr nm)) ([], [], s) (enumerate 0 ins) = Inr (n1, p1, s1)"
    and "foldE gen_one_output (n1, p1, s1) outs = Inr (names, params, s')"
    by (auto simp: generate_params_desc_def)
  with inputs_files outputs_files show ?thesis by fastforce
qed

section \<open>Cases without inputs\<close>

text \<open>
  A case without inputs ends the generation: the cases after it get no data, their expected
  outputs are not computed, and no error is reported.
\<close>

theorem no_input_case_ends:
  assumes "dget c INPUT_DESC = PyList []"
  shows "dg_generate_cases env output_path (cs @ c # rest) s = dg_generate_cases env output_path cs s"
proof (induction cs arbitrary: s)
  case Nil
  then show ?case by (simp add: assms)
next
  case (Cons a cs)
  have "dg_generate_cases env output_path (cs @ c # rest) = dg_generate_cases env output_path cs"
    by (rule ext) (rule Cons.IH)
  then show ?case by (simp cong: if_cong)
qed

theorem no_input_case_ends_witness:
  "(\<lambda>env s. dg_generate_cases env ''/out'' ([] @ [(''input_desc'', PyList [])] # [[(''input_desc'', PyInt 1)]]) s)
   = (\<lambda>(env :: nat dg_env) s. Inr s)"
proof -
  have "dget [(''input_desc'', PyList [])] INPUT_DESC = PyList []" by (simp add: dget_def)
  from no_input_case_ends [OF this, of _ "''/out''" "[]" "[[(''input_desc'', PyInt 1)]]"]
  show ?thesis by (intro ext) (simp only: dg_generate_cases.simps)
qed

section \<open>Draws of booleans\<close>

lemma bool_draw:
  assumes "np_type env (map_type_to_expect_type dtype) = Inr ''bool''"
  shows "gen_data env shape lo hi dtype ''uniform''
    = np_eval env (Draw (Uniform (PyInt 0) (PyInt 2)) ''int8'') shape"
  using assms by (simp add: gen_data_def draw_expr_def)

lemma output_path_twice:
  assumes "ditem c ''op'' = Inr (PyStr op)" and "\<not> startswith out ''/''" and "out \<noteq> []"
    and "\<not> endswith out ''/''" and "\<not> startswith op ''/''"
  shows "data_output_path (c # cs) out False
    = Inr (path_join (out @ ''/'' @ out @ ''/'' @ op) ''run/out/test_data/data'')"
proof -
  have "path_join out op = out @ ''/'' @ op" using assms(3-5) by (simp add: path_join_def)
  moreover have "\<not> startswith (out @ ''/'' @ op) ''/''"
    using assms(2,3) by (cases out) (auto simp: startswith_def)
  then have "path_join out (out @ ''/'' @ op) = out @ ''/'' @ out @ ''/'' @ op"
    using assms(3,4) by (simp add: path_join_def)
  ultimately show ?thesis
    using assms(1) by (simp add: data_output_path_def py_name_def Let_def)
qed

definition zeros_env :: "nat dg_env" where
  "zeros_env = \<lparr>np_type = Inr, np_eval = (\<lambda>_ _. Inr (Some 0)), np_array = (\<lambda>_ _. Inr (Some 0)),
     np_fromfile = (\<lambda>_ _. Inr (Some 0)), np_shape = (\<lambda>_. [1]), np_reshape = (\<lambda>a _. Inr a),
     os_exists = (\<lambda>_. False), can_write = (\<lambda>_. True), dg_mkdirs = mkdir_one,
     import_module = (\<lambda>_. Inl RuntimeError)\<rparr>"

definition two_inputs :: pydict where
  "two_inputs = [(''input_desc'', PyList
       [PyDict [(''type'', PyStr ''float''), (''shape'', PyList [PyInt 2]), (''name'', PyStr ''x''),
          (''value_range'', PyList [PyInt 0, PyInt 1]), (''data_distribute'', PyStr ''uniform'')],
        PyDict [(''type'', PyStr ''UNDEFINED'')]]),
     (''output_desc'', PyList [])]"

definition start_state :: "nat dg_state" where
  "start_state = \<lparr>dg_files = [], dg_fs = empty_fs, dg_report = new_report PyNone\<rparr>"

theorem input_files_fresh_witness:
  "\<exists>s'. fresh_files zeros_env [''/d/t_input_0.bin''] start_state s' \<and> map fst (dg_files s') = [''/d/t_input_0.bin'']"
proof -
  have "\<not> isl (generate_params_desc zeros_env ''/d'' two_inputs (PyStr ''t'') start_state)"
    by code_simp
  then obtain names params s' where
    run: "generate_params_desc zeros_env ''/d'' two_inputs (PyStr ''t'') start_state = Inr (names, params, s')"
    by (cases "generate_params_desc zeros_env ''/d'' two_inputs (PyStr ''t'') start_state") auto
  obtain ins where ins: "dget two_inputs INPUT_DESC = PyList ins" by (simp add: two_inputs_def dget_def)
  have "input_file_path ''/d'' ''t'' 0 = ''/d/t_input_0.bin''" by code_simp
  then have "input_paths ''/d'' ''t'' (enumerate 0 ins) = [''/d/t_input_0.bin'']"
    using ins unfolding two_inputs_def dget_def
    by (auto simp: input_paths_def makes_file_def OPTIONAL_TYPE_LIST_def py_in_def const_input_def dget_def)
  with input_files_fresh [OF run ins] have fresh: "fresh_files zeros_env [''/d/t_input_0.bin''] start_state s'" by simp
  then have "map fst (dg_files s') = [''/d/t_input_0.bin'']"
    by (auto simp: fresh_files_def start_state_def)
  then show ?thesis by (intro exI [of _ s'] conjI fresh)
qed

end
