(* ===== verification/Dsl_Tables.thy ===== *)
theory Dsl_Tables
  imports Py_Value
begin

text \<open>
  The tables of \<^verbatim>\<open>src/auto_schedule/python/util.py\<close>: for every function of the operator
  language the data types it supports, in general and per product version. The version names
  are constants of the platform package; they are constructors here, and a product that the
  tables do not list is an \<open>Other_Version\<close>.
\<close>

datatype soc_version =
  VERSION_MINI | VERSION_CLOUD | VERSION_SHISI | VERSION_MINI_NG1 | VERSION_MINI_NG1M
  | VERSION_MINI_NG1PG2 | Other_Version string

datatype soc_key = AllSoc | Version soc_version

type_synonym support_row = "(soc_key \<times> string list) list"
type_synonym support_map = "(string \<times> support_row) list"

definition dsl_broadcast :: support_map where
  "dsl_broadcast =
   [(''broadcast'',
      [(AllSoc, [''float16'', ''float32'', ''int32'', ''int16'', ''uint16'', ''int8'',
         ''uint8'']),
       (Version VERSION_MINI, [''float16'', ''float32'', ''int32'', ''int16'', ''uint16'',
         ''int8'', ''uint8'']),
       (Version VERSION_CLOUD, [''float16'', ''float32'', ''int32'', ''int16'', ''uint16'',
         ''int8'', ''uint8'']),
       (Version VERSION_MINI_NG1, [''float16'', ''float32'', ''int32'', ''int16'', ''uint16'',
         ''int8'', ''uint8'']),
       (Version VERSION_MINI_NG1M, [''float16'', ''float32'', ''int32'', ''int16'', ''uint16'',
         ''int8'', ''uint8'']),
       (Version VERSION_MINI_NG1PG2, [''float16'', ''float32'', ''int32'', ''int16'', ''uint16'',
         ''int8'', ''uint8'']),
       (Version VERSION_SHISI, [''float16'', ''float32'', ''int32'', ''int16'', ''uint16'',
         ''int8'', ''uint8''])])]"

definition dsl_segment :: support_map where
  "dsl_segment =
   [(''unsorted_segment_sum'',
      [(AllSoc, [''float16'', ''float32'', ''int32'']),
       (Version VERSION_MINI, [''float16'', ''float32'', ''int32'']),
       (Version VERSION_CLOUD, [''float16'', ''float32'', ''int32'']),
       (Version VERSION_MINI_NG1, [''float16'', ''float32'', ''int32'']),
       (Version VERSION_MINI_NG1M, [''float16'', ''float32'', ''int32'']),
       (Version VERSION_MINI_NG1PG2, [''float16'', ''float32'', ''int32'']),
       (Version VERSION_SHISI, [''float16'', ''float32'', ''int32''])]),
    (''unsorted_segment_mean'',
      [(AllSoc, [''float16'', ''float32'', ''int32'']),
       (Version VERSION_MINI, [''float16'', ''float32'', ''int32'']),
       (Version VERSION_CLOUD, [''float16'', ''float32'', ''int32'']),
       (Version VERSION_MINI_NG1, [''float16'', ''float32'', ''int32'']),
       (Version VERSION_MINI_NG1M, [''float16'', ''float32'', ''int32'']),
       (Version VERSION_MINI_NG1PG2, [''float16'', ''float32'', ''int32'']),
       (Version VERSION_SHISI, [''float16'', ''float32'', ''int32''])]),
    (''unsorted_segment_prod'',
      [(AllSoc, [''float16'', ''float32'', ''int32'']),
       (Version VERSION_MINI, [''float16'', ''float32'', ''int32'']),
       (Version VERSION_CLOUD, [''float16'', ''float32'', ''int32'']),
       (Version VERSION_MINI_NG1, [''float16'', ''float32'', ''int32'', ''int16'']),
       (Version VERSION_MINI_NG1M, [''float16'', ''float32'', ''int32'', ''int16'']),
       (Version VERSION_MINI_NG1PG2, [''float16'', ''float32'', ''int32'', ''int16'']),
       (Version VERSION_SHISI, [''float16'', ''float32'', ''int32''])]),
    (''unsorted_segment_min'',
      [(AllSoc, [''float16'', ''float32'', ''int32'']),
       (Version VERSION_MINI, [''float16'', ''float32'', ''int32'']),
       (Version VERSION_CLOUD, [''float16'', ''float32'', ''int32'']),
       (Version VERSION_MINI_NG1, [''float16'', ''float32'', ''int32'', ''int16'']),
       (Version VERSION_MINI_NG1M, [''float16'', ''float32'', ''int32'', ''int16'']),
       (Version VERSION_MINI_NG1PG2, [''float16'', ''float32'', ''int32'', ''int16'']),
       (Version VERSION_SHISI, [''float16'', ''float32'', ''int32''])]),
    (''unsorted_segment_max'',
      [(AllSoc, [''float16'', ''float32'', ''int32'']),
       (Version VERSION_MINI, [''float16'', ''float32'', ''int32'']),
       (Version VERSION_CLOUD, [''float16'', ''float32'', ''int32'']),
       (Version VERSION_MINI_NG1, [''float16'', ''float32'', ''int32'', ''int16'']),
       (Version VERSION_MINI_NG1M, [''float16'', ''float32'', ''int32'', ''int16'']),
       (Version VERSION_MINI_NG1PG2, [''float16'', ''float32'', ''int32'', ''int16'']),
       (Version VERSION_SHISI, [''float16'', ''float32'', ''int32''])])]"

definition dsl_inplace :: support_map where
  "dsl_inplace =
   [(''inplace_add'',
      [(AllSoc, [''float16'', ''float32'', ''int32'']),
       (Version VERSION_MINI, [''float16'', ''float32'', ''int32'']),
       (Version VERSION_CLOUD, [''float16'', ''float32'', ''int32'']),
       (Version VERSION_MINI_NG1, [''float16'', ''float32'', ''int32'']),
       (Version VERSION_MINI_NG1M, [''float16'', ''float32'', ''int32'']),
       (Version VERSION_MINI_NG1PG2, [''float16'', ''float32'', ''int32'']),
       (Version VERSION_SHISI, [''float16'', ''float32'', ''int32''])]),
    (''inplace_sub'',
      [(AllSoc, [''float16'', ''float32'', ''int32'']),
       (Version VERSION_MINI, [''float16'', ''float32'', ''int32'']),
       (Version VERSION_CLOUD, [''float16'', ''float32'', ''int32'']),
       (Version VERSION_MINI_NG1, [''float16'', ''float32'', ''int32'']),
       (Version VERSION_MINI_NG1M, [''float16'', ''float32'', ''int32'']),
       (Version VERSION_MINI_NG1PG2, [''float16'', ''float32'', ''int32'']),
       (Version VERSION_SHISI, [''float16'', ''float32'', ''int32''])]),
    (''inplace_update'',
      [(AllSoc, [''float16'', ''float32'', ''int32'']),
       (Version VERSION_MINI, [''float16'', ''float32'', ''int32'']),
       (Version VERSION_CLOUD, [''float16'', ''float32'', ''int32'']),
       (Version VERSION_MINI_NG1, [''float16'', ''float32'', ''int32'']),
       (Version VERSION_MINI_NG1M, [''float16'', ''float32'', ''int32'']),
       (Version VERSION_MINI_NG1PG2, [''float16'', ''float32'', ''int32'']),
       (Version VERSION_SHISI, [''float16'', ''float32'', ''int32''])])]"

definition dsl_rounding :: support_map where
  "dsl_rounding =
   [(''ceil'',
      [(AllSoc, [''float16'']),
       (Version VERSION_MINI, [''float16'']),
       (Version VERSION_CLOUD, [''float16'', ''float32'']),
       (Version VERSION_MINI_NG1, [''float16'', ''float32'']),
       (Version VERSION_MINI_NG1M, [''float16'', ''float32'']),
       (Version VERSION_MINI_NG1PG2, [''float16'', ''float32'']),
       (Version VERSION_SHISI, [''float16''])]),
    (''floor'',
      [(AllSoc, [''float16'']),
       (Version VERSION_MINI, [''float16'']),
       (Version VERSION_CLOUD, [''float16'', ''float32'']),
       (Version VERSION_MINI_NG1, [''float16'', ''float32'']),
       (Version VERSION_MINI_NG1M, [''float16'', ''float32'']),
       (Version VERSION_MINI_NG1PG2, [''float16'', ''float32'']),
       (Version VERSION_SHISI, [''float16''])]),
    (''round'',
      [(AllSoc, [''float16'']),
       (Version VERSION_MINI, [''float16'']),
       (Version VERSION_CLOUD, [''float16'', ''float32'']),
       (Version VERSION_MINI_NG1, [''float16'', ''float32'']),
       (Version VERSION_MINI_NG1M, [''float16'', ''float32'']),
       (Version VERSION_MINI_NG1PG2, [''float16'', ''float32'']),
       (Version VERSION_SHISI, [''float16''])]),
    (''trunc'',
      [(AllSoc, [''float16'']),
       (Version VERSION_MINI, []),
       (Version VERSION_CLOUD, [''float16'', ''float32'']),
       (Version VERSION_MINI_NG1, [''float16'', ''float32'']),
       (Version VERSION_MINI_NG1M, [''float16'', ''float32'']),
       (Version VERSION_MINI_NG1PG2, [''float16'', ''float32'']),
       (Version VERSION_SHISI, [''float16''])]),
    (''round_d'',
      [(AllSoc, [''float16'']),
       (Version VERSION_MINI, []),
       (Version VERSION_CLOUD, [''float16'', ''float32'']),
       (Version VERSION_MINI_NG1, [''float16'', ''float32'']),
       (Version VERSION_MINI_NG1M, [''float16'', ''float32'']),
       (Version VERSION_MINI_NG1PG2, [''float16'', ''float32'']),
       (Version VERSION_SHISI, [''float16''])])]"

definition dsl_reduce :: support_map where
  "dsl_reduce =
   [(''reduce_sum'',
      [(AllSoc, [''float16'']),
       (Version VERSION_MINI, [''float16'', ''float32'']),
       (Version VERSION_CLOUD, [''float16'', ''float32'']),
       (Version VERSION_MINI_NG1, [''float16'', ''float32'']),
       (Version VERSION_MINI_NG1M, [''float16'', ''float32'']),
       (Version VERSION_MINI_NG1PG2, [''float16'', ''float32'']),
       (Version VERSION_SHISI, [''float16''])]),
    (''reduce_max'',
      [(AllSoc, [''float16'']),
       (Version VERSION_MINI, [''float16'', ''float32'', ''int32'']),
       (Version VERSION_CLOUD, [''float16'', ''float32'', ''int32'']),
       (Version VERSION_MINI_NG1, [''float16'', ''float32'']),
       (Version VERSION_MINI_NG1M, [''float16'', ''float32'']),
       (Version VERSION_MINI_NG1PG2, [''float16'', ''float32'']),
       (Version VERSION_SHISI, [''float16''])]),
    (''reduce_min'',
      [(AllSoc, [''float16'']),
       (Version VERSION_MINI, [''float16'', ''float32'']),
       (Version VERSION_CLOUD, [''float16'', ''float32'']),
       (Version VERSION_MINI_NG1, [''float16'', ''float32'']),
       (Version VERSION_MINI_NG1M, [''float16'', ''float32'']),
       (Version VERSION_MINI_NG1PG2, [''float16'', ''float32'']),
       (Version VERSION_SHISI, [''float16''])]),
    (''reduce_prod'',
      [(AllSoc, [''float16'']),
       (Version VERSION_MINI, [''float16'', ''float32'']),
       (Version VERSION_CLOUD, [''float16'', ''float32'']),
       (Version VERSION_MINI_NG1, [''float16'', ''float32'']),
       (Version VERSION_MINI_NG1M, [''float16'', ''float32'']),
       (Version VERSION_MINI_NG1PG2, [''float16'', ''float32'']),
       (Version VERSION_SHISI, [''float16''])])]"

definition dsl_arith :: support_map where
  "dsl_arith =
   [(''vadd'',
      [(AllSoc, [''float16'', ''int32'']),
       (Version VERSION_MINI, [''float16'', ''float32'', ''int32'']),
       (Version VERSION_CLOUD, [''float16'', ''float32'', ''int32'']),
       (Version VERSION_MINI_NG1, [''float16'', ''float32'', ''int32'']),
       (Version VERSION_MINI_NG1M, [''float16'', ''float32'', ''int32'']),
       (Version VERSION_MINI_NG1PG2, [''float16'', ''float32'', ''int32'']),
       (Version VERSION_SHISI, [''float16'', ''int32''])]),
    (''vsub'',
      [(AllSoc, [''float16'', ''int32'']),
       (Version VERSION_MINI, [''float16'', ''float32'', ''int32'']),
       (Version VERSION_CLOUD, [''float16'', ''float32'', ''int32'']),
       (Version VERSION_MINI_NG1, [''float16'', ''float32'', ''int32'']),
       (Version VERSION_MINI_NG1M, [''float16'', ''float32'', ''int32'']),
       (Version VERSION_MINI_NG1PG2, [''float16'', ''float32'', ''int32'']),
       (Version VERSION_SHISI, [''float16'', ''int32''])]),
    (''vmul'',
      [(AllSoc, [''float16'', ''int32'']),
       (Version VERSION_MINI, [''float16'', ''float32'', ''int32'']),
       (Version VERSION_CLOUD, [''float16'', ''float32'', ''int32'']),
       (Version VERSION_MINI_NG1, [''float16'', ''float32'', ''int32'', ''int16'']),
       (Version VERSION_MINI_NG1M, [''float16'', ''float32'', ''int32'', ''int16'']),
       (Version VERSION_MINI_NG1PG2, [''float16'', ''float32'', ''int32'', ''int16'']),
       (Version VERSION_SHISI, [''float16'', ''int32''])]),
    (''vdiv'',
      [(AllSoc, [''float16'']),
       (Version VERSION_MINI, [''float16'', ''float32'']),
       (Version VERSION_CLOUD, [''float16'', ''float32'']),
       (Version VERSION_MINI_NG1, [''float16'', ''float32'']),
       (Version VERSION_MINI_NG1M, [''float16'', ''float32'']),
       (Version VERSION_MINI_NG1PG2, [''float16'', ''float32'']),
       (Version VERSION_SHISI, [''float16''])]),
    (''vmod'',
      [(AllSoc, [''float16'']),
       (Version VERSION_MINI, [''float16'']),
       (Version VERSION_CLOUD, [''float16'', ''float32'']),
       (Version VERSION_MINI_NG1, [''float16'', ''float32'']),
       (Version VERSION_MINI_NG1M, [''float16'', ''float32'']),
       (Version VERSION_MINI_NG1PG2, [''float16'', ''float32'']),
       (Version VERSION_SHISI, [''float16''])]),
    (''vmin'',
      [(AllSoc, [''float16'', ''int32'']),
       (Version VERSION_MINI, [''float16'', ''float32'', ''int32'']),
       (Version VERSION_CLOUD, [''float16'', ''float32'', ''int32'']),
       (Version VERSION_MINI_NG1, [''float16'', ''float32'', ''int32'']),
       (Version VERSION_MINI_NG1M, [''float16'', ''float32'', ''int32'']),
       (Version VERSION_MINI_NG1PG2, [''float16'', ''float32'', ''int32'']),
       (Version VERSION_SHISI, [''float16'', ''int32''])]),
    (''vmax'',
      [(AllSoc, [''float16'', ''int32'']),
       (Version VERSION_MINI, [''float16'', ''float32'', ''int32'']),
       (Version VERSION_CLOUD, [''float16'', ''float32'', ''int32'']),
       (Version VERSION_MINI_NG1, [''float16'', ''float32'', ''int32'']),
       (Version VERSION_MINI_NG1M, [''float16'', ''float32'', ''int32'']),
       (Version VERSION_MINI_NG1PG2, [''float16'', ''float32'', ''int32'']),
       (Version VERSION_SHISI, [''float16'', ''int32''])])]"

definition dsl_scalar :: support_map where
  "dsl_scalar =
   [(''vadds'',
      [(AllSoc, [''float16'', ''int32'']),
       (Version VERSION_MINI, [''float16'', ''float32'', ''int32'']),
       (Version VERSION_CLOUD, [''float16'', ''float32'', ''int32'']),
       (Version VERSION_MINI_NG1, [''float16'', ''float32'', ''int32'']),
       (Version VERSION_MINI_NG1M, [''float16'', ''float32'', ''int32'']),
       (Version VERSION_MINI_NG1PG2, [''float16'', ''float32'', ''int32'']),
       (Version VERSION_SHISI, [''float16'', ''int32''])]),
    (''vmins'',
      [(AllSoc, [''float16'', ''int32'']),
       (Version VERSION_MINI, [''float16'', ''float32'', ''int32'']),
       (Version VERSION_CLOUD, [''float16'', ''float32'', ''int32'']),
       (Version VERSION_MINI_NG1, [''float16'', ''float32'', ''int32'']),
       (Version VERSION_MINI_NG1M, [''float16'', ''float32'', ''int32'']),
       (Version VERSION_MINI_NG1PG2, [''float16'', ''float32'', ''int32'']),
       (Version VERSION_SHISI, [''float16'', ''int32''])]),
    (''vmaxs'',
      [(AllSoc, [''float16'', ''int32'']),
       (Version VERSION_MINI, [''float16'', ''float32'', ''int32'']),
       (Version VERSION_CLOUD, [''float16'', ''float32'', ''int32'']),
       (Version VERSION_MINI_NG1, [''float16'', ''float32'', ''int32'']),
       (Version VERSION_MINI_NG1M, [''float16'', ''float32'', ''int32'']),
       (Version VERSION_MINI_NG1PG2, [''float16'', ''float32'', ''int32'']),
       (Version VERSION_SHISI, [''float16'', ''int32''])]),
    (''vmuls'',
      [(AllSoc, [''float16'', ''int32'']),
       (Version VERSION_MINI, [''float16'', ''float32'', ''int32'']),
       (Version VERSION_CLOUD, [''float16'', ''float32'', ''int32'']),
       (Version VERSION_MINI_NG1, [''float16'', ''float32'', ''int32'']),
       (Version VERSION_MINI_NG1M, [''float16'', ''float32'', ''int32'']),
       (Version VERSION_MINI_NG1PG2, [''float16'', ''float32'', ''int32'']),
       (Version VERSION_SHISI, [''float16'', ''int32''])])]"

definition dsl_logic :: support_map where
  "dsl_logic =
   [(''vnot'',
      [(AllSoc, [''int16'', ''uint16'']),
       (Version VERSION_MINI, [''int16'', ''uint16'']),
       (Version VERSION_CLOUD, [''int16'', ''uint16'']),
       (Version VERSION_MINI_NG1, [''int16'', ''uint16'']),
       (Version VERSION_MINI_NG1M, [''int16'', ''uint16'']),
       (Version VERSION_MINI_NG1PG2, [''int16'', ''uint16'']),
       (Version VERSION_SHISI, [''int16'', ''uint16''])]),
    (''vor'',
      [(AllSoc, [''int16'', ''uint16'']),
       (Version VERSION_MINI, [''int16'', ''uint16'']),
       (Version VERSION_CLOUD, [''int16'', ''uint16'']),
       (Version VERSION_MINI_NG1, [''int16'', ''uint16'']),
       (Version VERSION_MINI_NG1M, [''int16'', ''uint16'']),
       (Version VERSION_MINI_NG1PG2, [''int16'', ''uint16'']),
       (Version VERSION_SHISI, [''int16'', ''uint16''])]),
    (''vand'',
      [(AllSoc, [''int16'', ''uint16'']),
       (Version VERSION_MINI, [''int16'', ''uint16'']),
       (Version VERSION_CLOUD, [''int16'', ''uint16'']),
       (Version VERSION_MINI_NG1, [''int16'', ''uint16'']),
       (Version VERSION_MINI_NG1M, [''int16'', ''uint16'']),
       (Version VERSION_MINI_NG1PG2, [''int16'', ''uint16'']),
       (Version VERSION_SHISI, [''int16'', ''uint16''])]),
    (''vcmp'',
      [(AllSoc, [''float16'']),
       (Version VERSION_MINI, [''float16'']),
       (Version VERSION_CLOUD, [''float16'', ''float32'']),
       (Version VERSION_MINI_NG1, [''float16'', ''float32'']),
       (Version VERSION_MINI_NG1M, [''float16'', ''float32'']),
       (Version VERSION_MINI_NG1PG2, [''float16'', ''float32'']),
       (Version VERSION_SHISI, [''float16''])]),
    (''vlogic'',
      [(AllSoc, [''bool'']),
       (Version VERSION_MINI, [''bool'']),
       (Version VERSION_CLOUD, [''bool'']),
       (Version VERSION_MINI_NG1, [''bool'']),
       (Version VERSION_MINI_NG1M, [''bool'']),
       (Version VERSION_MINI_NG1PG2, [''bool'']),
       (Version VERSION_SHISI, [''bool''])]),
    (''vsel'',
      [(AllSoc, [''float16'']),
       (Version VERSION_MINI, [''float16'']),
       (Version VERSION_CLOUD, [''float16'', ''float32'']),
       (Version VERSION_MINI_NG1, [''float16'', ''float32'']),
       (Version VERSION_MINI_NG1M, [''float16'', ''float32'']),
       (Version VERSION_MINI_NG1PG2, [''float16'', ''float32'']),
       (Version VERSION_SHISI, [''float16''])]),
    (''vcmpsel'',
      [(AllSoc, [''float16'']),
       (Version VERSION_MINI, [''float16'']),
       (Version VERSION_CLOUD, [''float16'', ''float32'']),
       (Version VERSION_MINI_NG1, [''float16'', ''float32'']),
       (Version VERSION_MINI_NG1M, [''float16'', ''float32'']),
       (Version VERSION_MINI_NG1PG2, [''float16'', ''float32'']),
       (Version VERSION_SHISI, [''float16''])])]"

definition dsl_unary :: support_map where
  "dsl_unary =
   [(''vlog'',
      [(AllSoc, [''float16'']),
       (Version VERSION_MINI, [''float16'']),
       (Version VERSION_CLOUD, [''float16'', ''float32'']),
       (Version VERSION_MINI_NG1, [''float16'', ''float32'']),
       (Version VERSION_MINI_NG1M, [''float16'', ''float32'']),
       (Version VERSION_MINI_NG1PG2, [''float16'', ''float32'']),
       (Version VERSION_SHISI, [''float16''])]),
    (''vexp'',
      [(AllSoc, [''float16'']),
       (Version VERSION_MINI, [''float16'']),
       (Version VERSION_CLOUD, [''float16'', ''float32'']),
       (Version VERSION_MINI_NG1, [''float16'', ''float32'']),
       (Version VERSION_MINI_NG1M, [''float16'', ''float32'']),
       (Version VERSION_MINI_NG1PG2, [''float16'', ''float32'']),
       (Version VERSION_SHISI, [''float16''])]),
    (''vabs'',
      [(AllSoc, [''float16'']),
       (Version VERSION_MINI, [''float16'', ''float32'']),
       (Version VERSION_CLOUD, [''float16'', ''float32'']),
       (Version VERSION_MINI_NG1, [''float16'', ''float32'']),
       (Version VERSION_MINI_NG1M, [''float16'', ''float32'']),
       (Version VERSION_MINI_NG1PG2, [''float16'', ''float32'']),
       (Version VERSION_SHISI, [''float16''])]),
    (''vrec'',
      [(AllSoc, [''float16'']),
       (Version VERSION_MINI, [''float16'', ''float32'']),
       (Version VERSION_CLOUD, [''float16'', ''float32'']),
       (Version VERSION_MINI_NG1, [''float16'', ''float32'']),
       (Version VERSION_MINI_NG1M, [''float16'', ''float32'']),
       (Version VERSION_MINI_NG1PG2, [''float16'', ''float32'']),
       (Version VERSION_SHISI, [''float16''])]),
    (''vrelu'',
      [(AllSoc, [''float16'']),
       (Version VERSION_MINI, [''float16'']),
       (Version VERSION_CLOUD, [''float16'']),
       (Version VERSION_MINI_NG1, [''float16'', ''float32'']),
       (Version VERSION_MINI_NG1M, [''float16'', ''float32'']),
       (Version VERSION_MINI_NG1PG2, [''float16'', ''float32'']),
       (Version VERSION_SHISI, [''float16''])]),
    (''vsqrt'',
      [(AllSoc, [''float16'']),
       (Version VERSION_MINI, [''float16'', ''float32'']),
       (Version VERSION_CLOUD, [''float16'', ''float32'']),
       (Version VERSION_MINI_NG1, [''float16'', ''float32'']),
       (Version VERSION_MINI_NG1M, [''float16'', ''float32'']),
       (Version VERSION_MINI_NG1PG2, [''float16'', ''float32'']),
       (Version VERSION_SHISI, [''float16''])]),
    (''vrsqrt'',
      [(AllSoc, [''float16'']),
       (Version VERSION_MINI, [''float16'', ''float32'']),
       (Version VERSION_CLOUD, [''float16'', ''float32'']),
       (Version VERSION_MINI_NG1, [''float16'', ''float32'']),
       (Version VERSION_MINI_NG1M, [''float16'', ''float32'']),
       (Version VERSION_MINI_NG1PG2, [''float16'', ''float32'']),
       (Version VERSION_SHISI, [''float16''])])]"

definition dsl_fused :: support_map where
  "dsl_fused =
   [(''vaxpy'',
      [(AllSoc, [''float16'']),
       (Version VERSION_MINI, [''float16'', ''float32'']),
       (Version VERSION_CLOUD, [''float16'', ''float32'']),
       (Version VERSION_MINI_NG1, [''float16'', ''float32'']),
       (Version VERSION_MINI_NG1M, [''float16'', ''float32'']),
       (Version VERSION_MINI_NG1PG2, [''float16'', ''float32'']),
       (Version VERSION_SHISI, [''float16''])]),
    (''vmla'',
      [(AllSoc, [''float16'']),
       (Version VERSION_MINI, [''float16'', ''float32'']),
       (Version VERSION_CLOUD, [''float16'', ''float32'']),
       (Version VERSION_MINI_NG1, [''float16'', ''float32'']),
       (Version VERSION_MINI_NG1M, [''float16'', ''float32'']),
       (Version VERSION_MINI_NG1PG2, [''float16'', ''float32'']),
       (Version VERSION_SHISI, [''float16''])]),
    (''vmadd'',
      [(AllSoc, [''float16'']),
       (Version VERSION_MINI, [''float16'', ''float32'']),
       (Version VERSION_CLOUD, [''float16'', ''float32'']),
       (Version VERSION_MINI_NG1, [''float16'', ''float32'']),
       (Version VERSION_MINI_NG1M, [''float16'', ''float32'']),
       (Version VERSION_MINI_NG1PG2, [''float16'', ''float32'']),
       (Version VERSION_SHISI, [''float16''])]),
    (''vmaddrelu'',
      [(AllSoc, [''float16'']),
       (Version VERSION_MINI, [''float16'', ''float32'']),
       (Version VERSION_CLOUD, [''float16'', ''float32'']),
       (Version VERSION_MINI_NG1, [''float16'', ''float32'']),
       (Version VERSION_MINI_NG1M, [''float16'', ''float32'']),
       (Version VERSION_MINI_NG1PG2, [''float16'', ''float32'']),
       (Version VERSION_SHISI, [''float16''])]),
    (''vlrelu'',
      [(AllSoc, [''float16'']),
       (Version VERSION_MINI, [''float16'', ''float32'', ''int32'']),
       (Version VERSION_CLOUD, [''float16'', ''float32'', ''int32'']),
       (Version VERSION_MINI_NG1, [''float16'', ''float32'']),
       (Version VERSION_MINI_NG1M, [''float16'', ''float32'']),
       (Version VERSION_MINI_NG1PG2, [''float16'', ''float32'']),
       (Version VERSION_SHISI, [''float16''])]),
    (''vaddrelu'',
      [(AllSoc, [''float16'']),
       (Version VERSION_MINI, [''float16'']),
       (Version VERSION_CLOUD, [''float16'']),
       (Version VERSION_MINI_NG1, [''int16'', ''float16'', ''float32'']),
       (Version VERSION_MINI_NG1M, [''int16'', ''float16'', ''float32'']),
       (Version VERSION_MINI_NG1PG2, [''int16'', ''float16'', ''float32'']),
       (Version VERSION_SHISI, [''int16'', ''float16''])]),
    (''vsubrelu'',
      [(AllSoc, [''float16'']),
       (Version VERSION_MINI, [''float16'']),
       (Version VERSION_CLOUD, [''float16'']),
       (Version VERSION_MINI_NG1, [''int16'', ''float16'', ''float32'']),
       (Version VERSION_MINI_NG1M, [''int16'', ''float16'', ''float32'']),
       (Version VERSION_MINI_NG1PG2, [''int16'', ''float16'', ''float32'']),
       (Version VERSION_SHISI, [''int16'', ''float16''])])]"

definition dsl_common :: support_map where
  "dsl_common =
   [(''round_to'',
      [(AllSoc, [''float16'']),
       (Version VERSION_MINI, [''float16'', ''float32'', ''int32'']),
       (Version VERSION_CLOUD, [''float16'', ''float32'', ''int32'']),
       (Version VERSION_MINI_NG1, [''float16'', ''float32'']),
       (Version VERSION_MINI_NG1M, [''float16'', ''float32'']),
       (Version VERSION_MINI_NG1PG2, [''float16'', ''float32'']),
       (Version VERSION_SHISI, [''float16''])]),
    (''cast_to'',
      [(AllSoc, [''f162f32'', ''f162s8'', ''f162u8'', ''f162s32'', ''s82f16'', ''s82u8'',
         ''u82f16'', ''u82s8'', ''s322f16'', ''s322s8'', ''s322u8'', ''s322f32'']),
       (Version VERSION_MINI, [''f322f16'', ''f322s8'', ''f322u8'', ''f322s32'', ''f162f32'',
         ''f162s8'', ''f162u8'', ''f162s32'', ''s82f16'', ''s82u8'', ''u82f16'', ''u82s8'',
         ''s322f16'', ''s322s8'', ''s322u8'', ''s322f32'']),
       (Version VERSION_CLOUD, [''f322f16'', ''f322s8'', ''f322u8'', ''f322s32'', ''f162f32'',
         ''f162s8'', ''f162u8'', ''f162s32'', ''s82f16'', ''s82u8'', ''u82f16'', ''u82s8'',
         ''s322f16'', ''s322s8'', ''s322u8'', ''s322f32'']),
       (Version VERSION_MINI_NG1, [''f322f16'', ''f322s8'', ''f322u8'', ''f322s32'', ''f162f32'',
         ''f162s8'', ''f162u8'', ''f162s32'', ''s82f16'', ''s82u8'', ''u82f16'', ''u82s8'',
         ''s322f16'', ''s322s8'', ''s322u8'', ''s322f32'']),
       (Version VERSION_MINI_NG1M, [''f322f16'', ''f322s8'', ''f322u8'', ''f322s32'',
         ''f162f32'', ''f162s8'', ''f162u8'', ''f162s32'', ''s82f16'', ''s82u8'', ''u82f16'',
         ''u82s8'', ''s322f16'', ''s322s8'', ''s322u8'', ''s322f32'']),
       (Version VERSION_MINI_NG1PG2, [''f322f16'', ''f322s8'', ''f322u8'', ''f322s32'',
         ''f162f32'', ''f162s8'', ''f162u8'', ''f162s32'', ''s82f16'', ''s82u8'', ''u82f16'',
         ''u82s8'', ''s322f16'', ''s322s8'', ''s322u8'', ''s322f32'']),
       (Version VERSION_SHISI, [''f162f32'', ''f162s8'', ''f162u8'', ''f162s32'', ''s82f16'',
         ''s82u8'', ''u82f16'', ''u82s8'', ''s322f16'', ''s322s8'', ''s322u8'', ''s322f32''])]),
    (''conv'',
      [(AllSoc, [''float16''])]),
    (''compute_four2five'',
      [(AllSoc, [''float16''])]),
    (''compute_five2four'',
      [(AllSoc, [''float16''])]),
    (''matmul'',
      [(AllSoc, [''float16'', ''f162f16'', ''f162f32''])]),
    (''pooling2d'',
      [(AllSoc, [''float16''])]),
    (''concat'',
      [(AllSoc, [''int8'', ''int16'', ''int32'', ''int64'', ''uint8'', ''uint16'', ''uint32'',
         ''uint64'', ''float16'', ''float32''])])]"

definition UNIFY_DSL_CHECK_SUPPORT_MAP :: support_map where
  "UNIFY_DSL_CHECK_SUPPORT_MAP =
   [(''reduce_prod'',
      [(AllSoc, [''float16'']),
       (Version VERSION_MINI, [''float16'', ''float32'']),
       (Version VERSION_CLOUD, [''float16'', ''float32'']),
       (Version VERSION_MINI_NG1, [''float16'', ''float32'']),
       (Version VERSION_MINI_NG1M, [''float16'', ''float32'']),
       (Version VERSION_MINI_NG1PG2, [''float16'', ''float32'']),
       (Version VERSION_SHISI, [''float16''])]),
    (''vsel'',
      [(AllSoc, [''float16'']),
       (Version VERSION_MINI, [''float16'']),
       (Version VERSION_CLOUD, [''float16'']),
       (Version VERSION_MINI_NG1, [''float16'', ''float32'']),
       (Version VERSION_MINI_NG1M, [''float16'', ''float32'']),
       (Version VERSION_MINI_NG1PG2, [''float16'', ''float32'']),
       (Version VERSION_SHISI, [''float16''])])]"

definition DSL_CHECK_SUPPORT_MAP :: support_map where
  "DSL_CHECK_SUPPORT_MAP = dsl_broadcast @ dsl_segment @ dsl_inplace @
      dsl_rounding @ dsl_reduce @ dsl_arith @ dsl_scalar @
      dsl_logic @ dsl_unary @ dsl_fused @ dsl_common"

end
