(* ===== verification/Dsl_Util.thy ===== *)
theory Dsl_Util
  imports Dsl_Tables Py_String
begin

text \<open>
  The helpers of the operator language, \<^verbatim>\<open>src/auto_schedule/python/util.py\<close>: which data types a
  function supports, the check that wraps every function of the language, casts, and the
  arithmetic of axes and shapes. The compiler (tensors, expressions, intrinsics, the operation
  context) is not part of the program; what the code asks of it is in \<open>dsl_env\<close> and in the
  constructors of \<open>dsl_arg\<close>.
\<close>

section \<open>What the code asks of the platform\<close>

record dsl_env =
  product_version :: soc_version
  context_mode :: "string option option"
  intrinsic_check_support :: "string \<Rightarrow> string \<Rightarrow> bool"
  in_dynamic :: bool

text \<open>\<^verbatim>\<open>get_context()\<close> gives a context or \<^verbatim>\<open>None\<close>, and the mode of a context may be unset.\<close>

definition in_dynamic_and_static_unify :: "dsl_env \<Rightarrow> bool" where
  "in_dynamic_and_static_unify env =
     (case context_mode env of
        None \<Rightarrow> False
      | Some mode \<Rightarrow> mode = Some ''dynamic'' \<or> mode = Some ''static'')"

text \<open>
  An argument of a function of the language: a tensor, an expression with a type, a Python number,
  a list, or anything else.
\<close>

datatype dsl_arg =
    Tensor string
  | Typed_Expr string
  | Int_Arg
  | Float_Arg
  | List_Arg "dsl_arg list"
  | Other_Arg

text \<open>The error code of the dictionary that the raised \<^verbatim>\<open>RuntimeError\<close> carries.\<close>

definition err_arg :: exn where
  "err_arg = OpTestGenMessage ''E90001''"

definition err_dtype :: exn where
  "err_dtype = OpTestGenMessage ''E90003''"

section \<open>Supported data types\<close>

definition canonical_name :: "string \<Rightarrow> string" where
  "canonical_name dsl_name =
     (let dsl_name = (if dsl_name = ''reduce_sum'' \<or> dsl_name = ''sum'' then ''reduce_sum'' else dsl_name)
      in if dsl_name = ''round_half_up'' \<or> dsl_name = ''round_d'' then ''round_d'' else dsl_name)"

definition all_support_dtype :: "dsl_env \<Rightarrow> string \<Rightarrow> support_row option" where
  "all_support_dtype env dsl_name =
     (if in_dynamic_and_static_unify env \<and> map_of UNIFY_DSL_CHECK_SUPPORT_MAP dsl_name \<noteq> None
      then map_of UNIFY_DSL_CHECK_SUPPORT_MAP dsl_name
      else map_of DSL_CHECK_SUPPORT_MAP dsl_name)"

definition soc_support_dtype :: "dsl_env \<Rightarrow> support_row \<Rightarrow> string list option" where
  "soc_support_dtype env all_support =
     (case map_of all_support (Version (product_version env)) of
        Some ds \<Rightarrow> Some ds
      | None \<Rightarrow> map_of all_support AllSoc)"

definition dsl_support_dtype :: "dsl_env \<Rightarrow> pyval \<Rightarrow> string list" where
  "dsl_support_dtype env dsl_name = (case dsl_name of
      PyStr s \<Rightarrow>
        (case all_support_dtype env (canonical_name s) of
           None \<Rightarrow> []
         | Some all_support \<Rightarrow>
             (case soc_support_dtype env all_support of None \<Rightarrow> [] | Some ds \<Rightarrow> ds))
    | _ \<Rightarrow> [])"

definition dsl_check_support :: "dsl_env \<Rightarrow> string \<Rightarrow> pyval \<Rightarrow> bool" where
  "dsl_check_support env dsl_api dtype =
     (if \<not> startswith dsl_api ''te.lang.cce.'' then False
      else if dtype \<noteq> PyNone \<and> \<not> is_str dtype then False
      else (let dsl_name = canonical_name (last (s_split ''te.lang.cce.'' dsl_api)) in
            case all_support_dtype env dsl_name of
              None \<Rightarrow> False
            | Some all_support \<Rightarrow>
                (case soc_support_dtype env all_support of
                   None \<Rightarrow> False
                 | Some ds \<Rightarrow>
                     \<not> (dtype \<noteq> PyNone \<and> dtype \<noteq> PyStr '''' \<and> \<not> py_in dtype (map PyStr ds)))))"

section \<open>The check around every function\<close>

definition is_tensor :: "dsl_arg \<Rightarrow> bool" where
  "is_tensor a = (case a of Tensor _ \<Rightarrow> True | _ \<Rightarrow> False)"

text \<open>\<^verbatim>\<open>args[i]\<close> and \<^verbatim>\<open>x.dtype\<close>.\<close>

definition arg_at :: "dsl_arg list \<Rightarrow> nat \<Rightarrow> dsl_arg res" where
  "arg_at args i = (if i < length args then Inr (args ! i) else Inl IndexError)"

definition arg_dtype :: "dsl_arg \<Rightarrow> string res" where
  "arg_dtype a = (case a of Tensor d \<Rightarrow> Inr d | Typed_Expr d \<Rightarrow> Inr d | _ \<Rightarrow> Inl AttributeError)"

definition first_dtype :: "string \<Rightarrow> dsl_arg list \<Rightarrow> string res" where
  "first_dtype func_name args =
     bindE (arg_at args 0) (\<lambda>a.
       if func_name = ''broadcast'' then
         (case a of Int_Arg \<Rightarrow> Inr ''int32'' | Float_Arg \<Rightarrow> Inr ''float16'' | _ \<Rightarrow> arg_dtype a)
       else if func_name = ''concat'' then
         (case a of
            List_Arg xs \<Rightarrow> bindE (arg_at xs 0) (\<lambda>x.
              bindE (raise_if (\<not> is_tensor x) err_arg) (\<lambda>_. arg_dtype x))
          | _ \<Rightarrow> Inl err_arg)
       else bindE (raise_if (\<not> is_tensor a) err_arg) (\<lambda>_. arg_dtype a))"

definition is_skip_dtype_check :: "dsl_env \<Rightarrow> string \<Rightarrow> dsl_arg list \<Rightarrow> bool res" where
  "is_skip_dtype_check env func_name args =
     (if in_dynamic_and_static_unify env then
        (if func_name \<noteq> ''vsel'' then Inr False
         else bindE (arg_at args 1) (\<lambda>x.
              if is_tensor x then Inr False
              else bindE (arg_at args 2) (\<lambda>y. Inr (\<not> is_tensor y))))
      else Inr (func_name = ''vcmp'' \<or> func_name = ''vsel'' \<or> func_name = ''vcmpsel''))"

definition get_vsel_dtype :: "dsl_arg \<Rightarrow> dsl_arg \<Rightarrow> pyval" where
  "get_vsel_dtype lhs rhs = (case (lhs, rhs) of
      (Tensor d, _) \<Rightarrow> PyStr d
    | (_, Tensor d) \<Rightarrow> PyStr d
    | _ \<Rightarrow> PyNone)"

text \<open>\<^verbatim>\<open>dtype_check_decorator\<close>, with the wrapped function as an argument.\<close>

definition dtype_check_decorator ::
    "dsl_env \<Rightarrow> (dsl_arg list \<Rightarrow> 'r res) \<Rightarrow> string \<Rightarrow> dsl_arg list \<Rightarrow> 'r res" where
  "dtype_check_decorator env func func_name args =
     bindE (first_dtype func_name args) (\<lambda>judge_dtype.
     bindE (is_skip_dtype_check env func_name args) (\<lambda>skip.
       if skip then func args
       else bindE (if func_name = ''vsel''
                   then bindE (arg_at args 1) (\<lambda>x. bindE (arg_at args 2) (\<lambda>y. Inr (get_vsel_dtype x y)))
                   else Inr (PyStr judge_dtype)) (\<lambda>judge.
            bindE (raise_if (\<not> dsl_check_support env (''te.lang.cce.'' @ func_name) judge) err_dtype)
              (\<lambda>_. func args))))"

section \<open>Casts\<close>

definition DTYPE_MAP :: "(string \<times> string) list" where
  "DTYPE_MAP = [(''float32'', ''f32''), (''float16'', ''f16''), (''int8'', ''s8''),
     (''uint8'', ''u8''), (''int32'', ''s32'')]"

definition get_cast_type :: "string \<Rightarrow> string \<Rightarrow> string res" where
  "get_cast_type src_type dst_type =
     (case (map_of DTYPE_MAP src_type, map_of DTYPE_MAP dst_type) of
        (Some a, Some b) \<Rightarrow>
          (let cast_type = a @ ''2'' @ b in
           Inr (if cast_type = ''s322f16'' then ''deq'' else cast_type))
      | _ \<Rightarrow> Inl err_arg)"

definition is_cast_support :: "dsl_env \<Rightarrow> string \<Rightarrow> string \<Rightarrow> bool res" where
  "is_cast_support env src_type dst_type =
     (if src_type = dst_type then Inr True
      else bindE (get_cast_type src_type dst_type) (\<lambda>cast_type.
           Inr (intrinsic_check_support env ''Intrinsic_vconv'' cast_type
                \<or> intrinsic_check_support env ''Intrinsic_vconv'' (cast_type @ ''z''))))"

text \<open>
  \<^verbatim>\<open>auto_cast_tensor\<close>: the type the tensor is cast to with \<^verbatim>\<open>_cast\<close>, \<open>None\<close> when it is
  left as it is.
\<close>

definition auto_cast_tensor ::
    "dsl_env \<Rightarrow> dsl_arg \<Rightarrow> string \<Rightarrow> string list option \<Rightarrow> string option res" where
  "auto_cast_tensor env tensor intr supported_types = (case tensor of
      Tensor dtype \<Rightarrow>
        (let supports = (\<lambda>t. case supported_types of
               None \<Rightarrow> intrinsic_check_support env (''Intrinsic_'' @ intr) t
             | Some ts \<Rightarrow> t \<in> set ts) in
         if supports dtype then Inr None
         else bindE (if supports ''float32'' then is_cast_support env dtype ''float32'' else Inr False)
                (\<lambda>wide. Inr (Some (if wide then ''float32'' else ''float16''))))
    | _ \<Rightarrow> Inr None)"

section \<open>Scalars\<close>

text \<open>
  The scalars by the exact class that \<^verbatim>\<open>type(num)\<close> gives; \<^verbatim>\<open>bool\<close> is a class of its own
  here. The compiler's constants carry their type.
\<close>

datatype scalar =
    Py_Int int | Py_Float pyfloat | Py_Bool bool
  | Tvm_Const pyval string
  | Tvm_Var string
  | Other_Scalar

definition judge_var :: "scalar \<Rightarrow> string res" where
  "judge_var num = (case num of
      Py_Int _ \<Rightarrow> Inr ''python_const''
    | Py_Float _ \<Rightarrow> Inr ''python_const''
    | Tvm_Const _ _ \<Rightarrow> Inr ''tvm_const''
    | Tvm_Var _ \<Rightarrow> Inr ''tvm_var''
    | _ \<Rightarrow> Inl err_arg)"

definition get_tvm_scalar :: "scalar \<Rightarrow> string \<Rightarrow> scalar res" where
  "get_tvm_scalar num dtype =
     bindE (judge_var num) (\<lambda>_. Inr (case num of
        Tvm_Const v d \<Rightarrow> if d \<noteq> dtype then Tvm_Const v dtype else num
      | Py_Int i \<Rightarrow> Tvm_Const (PyInt i) dtype
      | Py_Float x \<Rightarrow> Tvm_Const (PyFloat x) dtype
      | _ \<Rightarrow> num))"

section \<open>Arithmetic of axes and shapes\<close>

definition str_to_tuple :: "string \<Rightarrow> string list" where
  "str_to_tuple str_local = (if str_local \<noteq> '''' then s_split '','' str_local else [])"

definition int_ceil_div :: "int \<Rightarrow> int \<Rightarrow> int res" where
  "int_ceil_div num_a num_b =
     (if num_b = 0 then Inl err_arg else Inr ((num_a + num_b - 1) div num_b))"

definition align :: "int \<Rightarrow> int \<Rightarrow> int res" where
  "align x_1 x_2 = (if x_2 = 0 then Inl err_arg else Inr ((x_1 + x_2 - 1) div x_2 * x_2))"

text \<open>An axis argument: one integer or several.\<close>

definition refine_one_axis :: "int \<Rightarrow> int \<Rightarrow> int res" where
  "refine_one_axis shape_len i =
     (let laxis = (if i < 0 then shape_len + i else i) in
      if laxis \<ge> shape_len \<or> laxis < 0 then Inl err_arg else Inr laxis)"

definition refine_axis :: "int + int list \<Rightarrow> 'a list \<Rightarrow> int list res" where
  "refine_axis axis shape =
     (let local_axis = (case axis of Inl i \<Rightarrow> [i] | Inr is \<Rightarrow> is) in
      bindE (mapE (refine_one_axis (int (length shape))) local_axis) (\<lambda>res_axis. Inr (sort res_axis)))"

fun axis_int :: "pyval \<Rightarrow> int" where
  "axis_int (PyInt i) = i"
| "axis_int (PyBool b) = (if b then 1 else 0)"
| "axis_int _ = 0"

definition axis_value_type_check :: "int \<Rightarrow> pyval \<Rightarrow> int res" where
  "axis_value_type_check shape_len v =
     (if \<not> is_int v then Inl err_arg
      else (let i = axis_int v in
            if i \<ge> shape_len \<or> i < - shape_len then Inl err_arg
            else Inr (if i < 0 then shape_len + i else i)))"

text \<open>
  \<^verbatim>\<open>reduce_axis_check\<close> starts with \<^verbatim>\<open>list(axis)\<close>, so its branch for a single axis is never
  taken: an integer raises \<^verbatim>\<open>TypeError\<close>.
\<close>

definition reduce_axis_check :: "int \<Rightarrow> pyval \<Rightarrow> int list res" where
  "reduce_axis_check shape_len axis =
     bindE (py_iter axis) (\<lambda>vs.
     bindE (mapE (axis_value_type_check shape_len) vs) (\<lambda>is.
       Inr (sorted_list_of_set (set is))))"

text \<open>A dimension of a shape: an integer or an expression of the compiler.\<close>

datatype shape_value = Dim_Int int | Dim_Expr

definition check_one_dim :: "bool \<Rightarrow> shape_value \<Rightarrow> unit res" where
  "check_one_dim dyn val = (case val of
      Dim_Int i \<Rightarrow> raise_if (i \<le> 0) err_arg
    | Dim_Expr \<Rightarrow> raise_if (\<not> dyn) err_arg)"

definition check_input_tensor_shape :: "dsl_env \<Rightarrow> shape_value list \<Rightarrow> unit res" where
  "check_input_tensor_shape env shape = forE (check_one_dim (in_dynamic env)) shape"


section \<open>The tables are complete\<close>

text \<open>Every function is listed once, with an entry for all products and no version twice.\<close>

definition row_ok :: "support_row \<Rightarrow> bool" where
  "row_ok r \<longleftrightarrow> map_of r AllSoc \<noteq> None \<and> distinct (map fst r)"

lemmas support_tables =
  dsl_broadcast_def dsl_segment_def dsl_inplace_def dsl_rounding_def dsl_reduce_def dsl_arith_def
  dsl_scalar_def dsl_logic_def dsl_unary_def dsl_fused_def dsl_common_def

lemma support_rows_ok:
  "list_all (\<lambda>(n, r). row_ok r) DSL_CHECK_SUPPORT_MAP"
  "list_all (\<lambda>(n, r). row_ok r) UNIFY_DSL_CHECK_SUPPORT_MAP"
  by (simp_all add: DSL_CHECK_SUPPORT_MAP_def UNIFY_DSL_CHECK_SUPPORT_MAP_def support_tables row_ok_def)

lemma support_names_distinct:
  "distinct (map fst DSL_CHECK_SUPPORT_MAP)" "distinct (map fst UNIFY_DSL_CHECK_SUPPORT_MAP)"
  by (simp_all add: DSL_CHECK_SUPPORT_MAP_def UNIFY_DSL_CHECK_SUPPORT_MAP_def support_tables)

lemma soc_support_dtype_found:
  assumes "all_support_dtype env n = Some r"
  shows "\<exists>ds. soc_support_dtype env r = Some ds"
proof -
  have "row_ok r"
    using assms support_rows_ok
    by (auto simp: all_support_dtype_def list_all_iff split: if_splits dest!: map_of_SomeD)
  then show ?thesis by (auto simp: row_ok_def soc_support_dtype_def split: option.splits)
qed

section \<open>The two queries agree\<close>

lemma api_name:
  assumes "\<not> s_contains n ''te.lang.cce.''"
  shows "startswith (''te.lang.cce.'' @ n) ''te.lang.cce.''"
    and "last (s_split ''te.lang.cce.'' (''te.lang.cce.'' @ n)) = n"
proof -
  show start: "startswith (''te.lang.cce.'' @ n) ''te.lang.cce.''" by (rule startswith_append)
  have "split_aux ''te.lang.cce.'' [] (''te.lang.cce.'' @ n) = [] # split_aux ''te.lang.cce.'' [] n"
    using start by (simp add: startswith_def)
  then show "last (s_split ''te.lang.cce.'' (''te.lang.cce.'' @ n)) = n"
    using assms by (simp add: s_split_def split_aux_no_sep)
qed

lemma support_query:
  assumes "\<not> s_contains n ''te.lang.cce.''" and "d \<noteq> ''''"
  shows "dsl_check_support env (''te.lang.cce.'' @ n) (PyStr d)
    \<longleftrightarrow> d \<in> set (dsl_support_dtype env (PyStr n))"
proof -
  have "py_in (PyStr d) (map PyStr ds) \<longleftrightarrow> d \<in> set ds" for ds by (auto simp: py_in_strs)
  with assms api_name [OF assms(1)] show ?thesis
    unfolding dsl_check_support_def dsl_support_dtype_def Let_def
    by (auto split: option.splits)
qed

text \<open>
  The two queries about data types agree: \<^verbatim>\<open>dsl_check_support\<close> accepts a type for a function
  exactly when \<^verbatim>\<open>dsl_support_dtype\<close> lists it, for every product, context and function name.
\<close>

theorem support_queries_agree:
  assumes "\<not> s_contains n ''te.lang.cce.''" and "d \<noteq> ''''"
  shows "dsl_check_support env (''te.lang.cce.'' @ n) (PyStr d)
    \<longleftrightarrow> d \<in> set (dsl_support_dtype env (PyStr n))"
  by (rule support_query [OF assms])

text \<open>Without a type the check only asks whether the function is known, even if it supports none.\<close>

lemma check_without_type:
  assumes "\<not> s_contains n ''te.lang.cce.''"
  shows "dsl_check_support env (''te.lang.cce.'' @ n) PyNone
    \<longleftrightarrow> all_support_dtype env (canonical_name n) \<noteq> None"
  using api_name [OF assms] soc_support_dtype_found
  by (fastforce simp: dsl_check_support_def Let_def split: option.splits)

definition env_ex :: dsl_env where
  "env_ex = \<lparr>product_version = VERSION_MINI, context_mode = None,
     intrinsic_check_support = (\<lambda>_ _. True), in_dynamic = False\<rparr>"

theorem support_queries_agree_witness:
  "dsl_check_support env_ex (''te.lang.cce.'' @ ''vmul'') (PyStr ''int32'')
   \<and> \<not> dsl_check_support env_ex (''te.lang.cce.'' @ ''vmul'') (PyStr ''int16'')"
proof -
  have n: "\<not> s_contains ''vmul'' ''te.lang.cce.''" by (simp add: s_contains_def startswith_def)
  have "dsl_support_dtype env_ex (PyStr ''vmul'') = [''float16'', ''float32'', ''int32'']"
    by (simp add: dsl_support_dtype_def canonical_name_def all_support_dtype_def env_ex_def
        in_dynamic_and_static_unify_def DSL_CHECK_SUPPORT_MAP_def support_tables soc_support_dtype_def)
  then show ?thesis
    using support_queries_agree [OF n, of "''int32''" env_ex]
      support_queries_agree [OF n, of "''int16''" env_ex] by simp
qed

text \<open>
  The wrapped functions are typed: outside the comparisons and selections that skip the
  check, a function of the language runs exactly when the type of its first argument is
  supported, and the call fails with the type error otherwise.
\<close>

theorem dtype_check_exact:
  assumes "first_dtype name args = Inr d" and "d \<noteq> ''''"
    and "is_skip_dtype_check env name args = Inr False" and "name \<noteq> ''vsel''"
    and "\<not> s_contains name ''te.lang.cce.''"
  shows "dtype_check_decorator env func name args =
    (if d \<in> set (dsl_support_dtype env (PyStr name)) then func args else Inl err_dtype)"
  unfolding dtype_check_decorator_def
  using assms by (simp add: support_query del: append.simps)
theorem dtype_check_exact_witness:
  "dtype_check_decorator env_ex (\<lambda>_. Inr 7) ''vmul'' [Tensor ''int16''] = Inl err_dtype"
proof -
  have f: "first_dtype ''vmul'' [Tensor ''int16''] = Inr ''int16''"
    by (simp add: first_dtype_def arg_at_def is_tensor_def arg_dtype_def)
  have s: "is_skip_dtype_check env_ex ''vmul'' [Tensor ''int16''] = Inr False"
    by (simp add: is_skip_dtype_check_def in_dynamic_and_static_unify_def env_ex_def)
  have n: "\<not> s_contains ''vmul'' ''te.lang.cce.''" by (simp add: s_contains_def startswith_def)
  have "dsl_support_dtype env_ex (PyStr ''vmul'') = [''float16'', ''float32'', ''int32'']"
    by (simp add: dsl_support_dtype_def canonical_name_def all_support_dtype_def env_ex_def
        in_dynamic_and_static_unify_def DSL_CHECK_SUPPORT_MAP_def support_tables soc_support_dtype_def)
  then have "\<not> (''int16'' \<in> set (dsl_support_dtype env_ex (PyStr ''vmul'')))" by (simp only:) simp
  then show ?thesis
    by (subst dtype_check_exact [OF f _ s _ n]) (simp_all only: if_False, simp_all)
qed

section \<open>Casts have different names\<close>

lemma cast_names:
  assumes "a \<in> set (map snd DTYPE_MAP)" "b \<in> set (map snd DTYPE_MAP)"
    and "a' \<in> set (map snd DTYPE_MAP)" "b' \<in> set (map snd DTYPE_MAP)"
    and "(if a @ ''2'' @ b = ''s322f16'' then ''deq'' else a @ ''2'' @ b)
       = (if a' @ ''2'' @ b' = ''s322f16'' then ''deq'' else a' @ ''2'' @ b')"
  shows "a = a' \<and> b = b'"
proof -
  define names where "names = map snd DTYPE_MAP"
  have "list_all (\<lambda>a. list_all (\<lambda>b. list_all (\<lambda>a'. list_all (\<lambda>b'.
      (if a @ ''2'' @ b = ''s322f16'' then ''deq'' else a @ ''2'' @ b)
       = (if a' @ ''2'' @ b' = ''s322f16'' then ''deq'' else a' @ ''2'' @ b')
      \<longrightarrow> a = a' \<and> b = b') names) names) names) names"
    unfolding names_def by code_simp
  with assms show ?thesis unfolding list_all_iff names_def [symmetric] by blast
qed

lemma map_of_range: "map_of ps k = Some v \<Longrightarrow> v \<in> set (map snd ps)"
  by (force dest: map_of_SomeD)

text \<open>
  The name of a cast determines it: two pairs of types with the same cast name are the same
  pair, and exactly the pairs of listed types have a name.
\<close>

theorem cast_type_injective:
  assumes "get_cast_type s d = Inr c" and "get_cast_type s' d' = Inr c"
  shows "s = s' \<and> d = d'"
proof -
  have pairs: "(\<exists>a b. map_of DTYPE_MAP s = Some a \<and> map_of DTYPE_MAP d = Some b
      \<and> c = (if a @ ''2'' @ b = ''s322f16'' then ''deq'' else a @ ''2'' @ b))"
    if "get_cast_type s d = Inr c" for s d
    using that by (auto simp: get_cast_type_def Let_def split: option.splits)
  obtain a b where 1: "map_of DTYPE_MAP s = Some a" "map_of DTYPE_MAP d = Some b"
    "c = (if a @ ''2'' @ b = ''s322f16'' then ''deq'' else a @ ''2'' @ b)"
    using pairs [OF assms(1)] by blast
  obtain a' b' where 2: "map_of DTYPE_MAP s' = Some a'" "map_of DTYPE_MAP d' = Some b'"
    "c = (if a' @ ''2'' @ b' = ''s322f16'' then ''deq'' else a' @ ''2'' @ b')"
    using pairs [OF assms(2)] by blast
  have inj: "u = v" if "map_of DTYPE_MAP u = Some x" "map_of DTYPE_MAP v = Some x" for u v x
    using that by (auto simp: DTYPE_MAP_def split: if_splits)
  have "a = a' \<and> b = b'"
    using cast_names [OF map_of_range [OF 1(1)] map_of_range [OF 1(2)]
        map_of_range [OF 2(1)] map_of_range [OF 2(2)]] 1(3) 2(3) by metis
  with inj 1 2 show ?thesis by blast
qed

theorem cast_type_injective_witness:
  "get_cast_type ''int32'' ''float16'' = Inr ''deq'' \<and> ''int32'' = ''int32''"
proof -
  have "get_cast_type ''int32'' ''float16'' = Inr ''deq''"
    by (simp add: get_cast_type_def DTYPE_MAP_def)
  with cast_type_injective [OF this this] show ?thesis by simp
qed

section \<open>Axes\<close>

lemma refine_one_axis_eq:
  "refine_one_axis n i = (if - n \<le> i \<and> i < n then Inr (i mod n) else Inl err_arg)"
proof (cases "i < 0")
  case True
  have "(n + i) mod n = i mod n" by simp
  with True show ?thesis
    by (auto simp: refine_one_axis_def Let_def mod_pos_pos_trivial simp del: mod_add_self1)
next
  case False
  then show ?thesis by (simp add: refine_one_axis_def Let_def mod_pos_pos_trivial)
qed

lemma axis_value_type_check_int: "axis_value_type_check n (PyInt i) = refine_one_axis n i"
  by (auto simp: axis_value_type_check_def refine_one_axis_def Let_def)

lemma mapE_uniform:
  assumes "\<And>x. f x = (if ok x then Inr (g x) else Inl e)"
  shows "mapE f xs = (if list_all ok xs then Inr (map g xs) else Inl e)"
  by (induction xs) (auto simp: assms)

lemma refine_axis_list:
  "refine_axis (Inr is) shape =
     (let n = int (length shape) in
      if list_all (\<lambda>i. - n \<le> i \<and> i < n) is then Inr (sort (map (\<lambda>i. i mod n) is)) else Inl err_arg)"
  unfolding refine_axis_def Let_def
  by (subst mapE_uniform [OF refine_one_axis_eq]) simp

lemma remdups_adj_sort: "remdups_adj (sort xs) = sorted_list_of_set (set (xs :: int list))"
proof -
  have "distinct (remdups_adj ys)" if "sorted ys" for ys :: "int list"
    using that by (induction ys rule: remdups_adj.induct) auto
  then have "distinct (remdups_adj (sort xs))" by simp
  moreover have "sorted (remdups_adj (sort xs))" by (rule sorted_remdups_adj) simp
  ultimately show ?thesis
    by (intro sorted_distinct_set_unique) auto
qed

text \<open>
  Both checks of a list of axes accept exactly the axes from minus the rank to the rank minus one and
  count negative ones from the end; \<^verbatim>\<open>refine_axis\<close> returns them sorted, and
  \<^verbatim>\<open>reduce_axis_check\<close> returns the same without duplicates.
\<close>

theorem axis_checks_agree:
  "refine_axis (Inr is) shape =
     (let n = int (length shape) in
      if list_all (\<lambda>i. - n \<le> i \<and> i < n) is then Inr (sort (map (\<lambda>i. i mod n) is)) else Inl err_arg)
   \<and> reduce_axis_check (int (length shape)) (PyList (map PyInt is)) =
     (case refine_axis (Inr is) shape of Inl e \<Rightarrow> Inl e | Inr r \<Rightarrow> Inr (remdups_adj r))"
proof -
  have "mapE (axis_value_type_check n) (map PyInt is) = mapE (refine_one_axis n) is" for n
    by (induction "is") (simp_all add: axis_value_type_check_int)
  then show ?thesis
    by (simp add: reduce_axis_check_def refine_axis_list Let_def remdups_adj_sort
        mapE_uniform [OF refine_one_axis_eq])
qed

lemma single_axis_rejected: "reduce_axis_check n (PyInt i) = Inl TypeError"
  by (simp add: reduce_axis_check_def)

section \<open>Alignment\<close>

text \<open>
  For a positive block size, \<^verbatim>\<open>align\<close> gives the least multiple of it that is not below the
  value, and \<^verbatim>\<open>int_ceil_div\<close> the number of blocks.
\<close>

theorem align_least_multiple:
  assumes "0 < b"
  shows "\<exists>q. int_ceil_div x b = Inr q \<and> align x b = Inr (q * b) \<and> x \<le> q * b \<and> q * b < x + b"
proof -
  define q where "q = (x + b - 1) div b"
  have "x + b - 1 = q * b + (x + b - 1) mod b" by (simp add: q_def)
  moreover have "0 \<le> (x + b - 1) mod b" "(x + b - 1) mod b < b" using assms by simp_all
  ultimately have "x \<le> q * b" "q * b < x + b" by linarith+
  then show ?thesis
    using assms by (intro exI [of _ q]) (simp add: int_ceil_div_def align_def q_def)
qed

theorem align_least_multiple_witness: "\<exists>q. align 33 32 = Inr (q * 32) \<and> q * 32 < 65"
  using align_least_multiple [of 32 33] by auto

end
