(* ===== verification/Dsl_Cast.thy ===== *)
theory Dsl_Cast
  imports Dsl_Util
begin

text \<open>
  The decorators of the operator language, \<^verbatim>\<open>src/auto_schedule/python/auto_cast.py\<close>: before a
  function runs, its tensors are cast to a type the intrinsic supports and its scalars become
  constants of that type. Tensors are values of an arbitrary type \<open>'t\<close>; what the compiler and
  the package \<^verbatim>\<open>tbe.dsl\<close> answer is in \<open>dsl_ops\<close>. The package \<^verbatim>\<open>decorator\<close> passes
  every argument by position, defaults included, so keyword arguments do not occur.
\<close>

section \<open>Arguments and the platform\<close>

datatype 't arg =
    T 't
  | Val pyval
  | Const pyval string
  | Expr string
  | Tensors "'t arg list"
  | Obj

record 't dsl_ops =
  unify :: bool
  t_dtype :: "'t \<Rightarrow> string"
  t_rank :: "'t \<Rightarrow> nat"
  t_cast :: "'t \<Rightarrow> string \<Rightarrow> 't res"
  intrinsic :: "string \<Rightarrow> string option \<Rightarrow> bool"
  cast_support :: "string \<Rightarrow> string \<Rightarrow> bool res"
  judge :: "'t arg \<Rightarrow> string res"
  axis_check :: "nat \<Rightarrow> pyval list \<Rightarrow> int list res"
  support_dtype :: "string \<Rightarrow> string list"
  cast_tensor :: "'t \<Rightarrow> string \<Rightarrow> string list \<Rightarrow> 't res"

text \<open>The error code \<^verbatim>\<open>E90002\<close>: the function or its type is not supported.\<close>

definition err_support :: exn where
  "err_support = OpTestGenMessage ''E90002''"

definition is_tensor_arg :: "'t arg \<Rightarrow> bool" where
  "is_tensor_arg a = (case a of T _ \<Rightarrow> True | _ \<Rightarrow> False)"

definition supported :: "'t dsl_ops \<Rightarrow> string \<Rightarrow> string \<Rightarrow> bool" where
  "supported ops intr dtype = intrinsic ops (''Intrinsic_'' @ intr) (Some dtype)"

section \<open>Element-wise functions\<close>

definition check_args_type :: "'t arg list \<Rightarrow> unit res" where
  "check_args_type args =
     (if length args \<in> {1, 2, 3} then
        bindE (raise_if (\<not> is_tensor_arg (args ! 0)) err_arg) (\<lambda>_.
          raise_if (length args = 3 \<and> \<not> is_tensor_arg (args ! 1)) err_arg)
      else Inr ())"

definition intrinsic_check :: "'t dsl_ops \<Rightarrow> string \<Rightarrow> string" where
  "intrinsic_check ops intr =
     (if \<not> intrinsic ops (''Intrinsic_'' @ intr) None then
        (if intr = ''vdiv'' then ''vrec''
         else if intr = ''vsqrt'' then ''vrsqrt''
         else if intr = ''vlog'' then ''vln''
         else if intr = ''vmaxs'' then ''vmax''
         else if intr = ''vmins'' then ''vmin''
         else intr)
      else intr)"

fun all_cast_support :: "'t dsl_ops \<Rightarrow> string list \<Rightarrow> bool res" where
  "all_cast_support ops [] = Inr True"
| "all_cast_support ops (d # ds) =
     bindE (cast_support ops d ''float32'') (\<lambda>b. if b then all_cast_support ops ds else Inr False)"

text \<open>The type the tensors are cast to: \<^verbatim>\<open>float32\<close> if the intrinsic and the casts allow it.\<close>

definition wider :: "'t dsl_ops \<Rightarrow> bool \<Rightarrow> string list \<Rightarrow> string res" where
  "wider ops is_support_fp32 dtypes =
     bindE (if is_support_fp32 then all_cast_support ops dtypes else Inr False)
       (\<lambda>b. Inr (if b then ''float32'' else ''float16''))"

definition const_value :: "'t arg \<Rightarrow> pyval res" where
  "const_value a = (case a of Const v _ \<Rightarrow> Inr v | _ \<Rightarrow> Inl AttributeError)"

definition const_dtype :: "'t arg \<Rightarrow> string res" where
  "const_dtype a = (case a of Const _ d \<Rightarrow> Inr d | _ \<Rightarrow> Inl AttributeError)"

definition make_const :: "'t arg \<Rightarrow> string \<Rightarrow> 't arg res" where
  "make_const a dtype = (case a of Val v \<Rightarrow> Inr (Const v dtype) | _ \<Rightarrow> Inl TypeError)"

definition cast_scalar :: "'t dsl_ops \<Rightarrow> 't arg \<Rightarrow> string \<Rightarrow> 't arg res" where
  "cast_scalar ops scalar dtype =
     bindE (judge ops scalar) (\<lambda>scalar_type.
       if scalar_type = ''tvm_const'' then
         bindE (const_dtype scalar) (\<lambda>d.
           if d \<noteq> dtype then bindE (const_value scalar) (\<lambda>v. Inr (Const v dtype)) else Inr scalar)
       else if scalar_type = ''python_const'' then make_const scalar dtype
       else Inr scalar)"

definition cast_one_input_tensor :: "'t dsl_ops \<Rightarrow> string \<Rightarrow> bool \<Rightarrow> 't \<Rightarrow> 't res" where
  "cast_one_input_tensor ops intr fp32 t =
     (if supported ops intr (t_dtype ops t) then Inr t
      else bindE (wider ops fp32 [t_dtype ops t]) (t_cast ops t))"

definition needs_cast :: "'t dsl_ops \<Rightarrow> string \<Rightarrow> 't \<Rightarrow> 't \<Rightarrow> bool" where
  "needs_cast ops intr lhs rhs \<longleftrightarrow>
     \<not> supported ops intr (t_dtype ops lhs) \<or> \<not> supported ops intr (t_dtype ops rhs)
     \<or> t_dtype ops lhs \<noteq> t_dtype ops rhs"

text \<open>Two tensors, and the type they have afterwards.\<close>

definition cast_two_input_tensor ::
    "'t dsl_ops \<Rightarrow> string \<Rightarrow> bool \<Rightarrow> 't \<Rightarrow> 't \<Rightarrow> ('t \<times> 't \<times> string) res" where
  "cast_two_input_tensor ops intr fp32 lhs rhs =
     (if needs_cast ops intr lhs rhs then
        bindE (wider ops fp32 [t_dtype ops lhs, t_dtype ops rhs]) (\<lambda>d.
        bindE (t_cast ops lhs d) (\<lambda>lhs_t.
        bindE (t_cast ops rhs d) (\<lambda>rhs_t. Inr (lhs_t, rhs_t, d))))
      else Inr (lhs, rhs, t_dtype ops lhs))"

definition cast_tensor_scalar_two_input ::
    "'t dsl_ops \<Rightarrow> string \<Rightarrow> bool \<Rightarrow> 't \<Rightarrow> 't arg \<Rightarrow> ('t \<times> 't arg) res" where
  "cast_tensor_scalar_two_input ops intr fp32 t scalar =
     bindE (if supported ops intr (t_dtype ops t) then Inr (t, t_dtype ops t)
            else bindE (wider ops fp32 [t_dtype ops t]) (\<lambda>d.
                 bindE (t_cast ops t d) (\<lambda>t'. Inr (t', d)))) (\<lambda>(temp_tensor, dtype).
     bindE (cast_scalar ops scalar dtype) (\<lambda>tmp_arg. Inr (temp_tensor, tmp_arg)))"

definition cast_three_input_tensor ::
    "'t dsl_ops \<Rightarrow> string \<Rightarrow> bool \<Rightarrow> 't \<Rightarrow> 't \<Rightarrow> 't \<Rightarrow> ('t \<times> 't \<times> 't) res" where
  "cast_three_input_tensor ops intr fp32 t0 t1 t2 =
     (let d0 = t_dtype ops t0; d1 = t_dtype ops t1; d2 = t_dtype ops t2 in
      bindE (raise_if (d0 \<noteq> d1 \<or> d0 \<noteq> d2 \<or> d2 \<noteq> d1) err_arg) (\<lambda>_.
      if supported ops intr d0 then Inr (t0, t1, t2)
      else bindE (wider ops fp32 [d0]) (\<lambda>d.
           bindE (t_cast ops t0 d) (\<lambda>t0'. bindE (t_cast ops t1 d) (\<lambda>t1'.
           bindE (t_cast ops t2 d) (\<lambda>t2'. Inr (t0', t1', t2')))))))"

definition is_str_arg :: "'t arg \<Rightarrow> bool" where
  "is_str_arg a = (case a of Val v \<Rightarrow> is_str v | _ \<Rightarrow> False)"

definition cast_tensors_scalar_in_three_input ::
    "'t dsl_ops \<Rightarrow> string \<Rightarrow> bool \<Rightarrow> 't \<Rightarrow> 't \<Rightarrow> 't arg \<Rightarrow> ('t \<times> 't \<times> 't arg) res" where
  "cast_tensors_scalar_in_three_input ops intr fp32 lhs rhs scalar =
     bindE (cast_two_input_tensor ops intr fp32 lhs rhs) (\<lambda>(lhs_t, rhs_t, dtype_l).
     bindE (if is_str_arg scalar then Inr scalar else cast_scalar ops scalar dtype_l)
       (\<lambda>tmp_arg. Inr (lhs_t, rhs_t, tmp_arg)))"

text \<open>The arguments the function is finally called with.\<close>

definition elewise_args :: "'t dsl_ops \<Rightarrow> string \<Rightarrow> 't arg list \<Rightarrow> 't arg list res" where
  "elewise_args ops name args =
     bindE (check_args_type args) (\<lambda>_.
       let intr = intrinsic_check ops name; fp32 = supported ops intr ''float32'' in
       case args of
         [T t] \<Rightarrow> bindE (cast_one_input_tensor ops intr fp32 t) (\<lambda>t'. Inr [T t'])
       | [T t, T u] \<Rightarrow> bindE (cast_two_input_tensor ops intr fp32 t u) (\<lambda>(t', u', _). Inr [T t', T u'])
       | [T t, s] \<Rightarrow> bindE (cast_tensor_scalar_two_input ops intr fp32 t s) (\<lambda>(t', s'). Inr [T t', s'])
       | [T t, T u, T v] \<Rightarrow> bindE (cast_three_input_tensor ops intr fp32 t u v) (\<lambda>(t', u', v'). Inr [T t', T u', T v'])
       | [T t, T u, s] \<Rightarrow>
           bindE (cast_tensors_scalar_in_three_input ops intr fp32 t u s) (\<lambda>(t', u', s'). Inr [T t', T u', s'])
       | _ \<Rightarrow> Inr args)"

definition auto_cast_of_elewise ::
    "'t dsl_ops \<Rightarrow> string \<Rightarrow> ('t arg list \<Rightarrow> 'r res) \<Rightarrow> 't arg list \<Rightarrow> 'r res" where
  "auto_cast_of_elewise ops name func args =
     (if unify ops then func args else bindE (elewise_args ops name args) func)"

section \<open>Reductions\<close>

definition last_axis :: "nat \<Rightarrow> int list \<Rightarrow> bool" where
  "last_axis rank axis =
     (int rank - 1 \<in> set (map (\<lambda>i. if i < 0 then i + int rank else i) axis))"

definition check_dynamic_dtype :: "'t dsl_ops \<Rightarrow> 't \<Rightarrow> string list \<Rightarrow> bool \<Rightarrow> unit res" where
  "check_dynamic_dtype ops t supported_dtypes is_last_axis =
     (let ds = (if \<not> is_last_axis then supported_dtypes @ [''int32''] else supported_dtypes) in
      raise_if (t_dtype ops t \<notin> set ds) err_support)"

definition axis_values :: "'t arg \<Rightarrow> pyval list" where
  "axis_values a = (case a of
      Val (PyList xs) \<Rightarrow> xs | Val (PyTuple xs) \<Rightarrow> xs | Val v \<Rightarrow> [v] | _ \<Rightarrow> [PyNone])"

definition arg_truthy :: "'t arg \<Rightarrow> bool" where
  "arg_truthy a = (case a of Val v \<Rightarrow> truthy v | _ \<Rightarrow> True)"

text \<open>
  The types a static reduction is cast to. The set difference loses the order, which the
  later membership test does not see.
\<close>

definition static_reduce_dtypes :: "'t dsl_ops \<Rightarrow> string \<Rightarrow> bool \<Rightarrow> bool \<Rightarrow> string list \<Rightarrow> string list" where
  "static_reduce_dtypes ops intr priority_flag is_last_axis supported_dtypes =
     (let support_fp32 = (intrinsic ops ''Intrinsic_vcmax'' (Some ''float32'') \<or> priority_flag);
          ds = (if (intr = ''reduce_max'' \<or> intr = ''reduce_min'') \<and> is_last_axis \<and> \<not> support_fp32
                then filter (\<lambda>d. d \<noteq> ''float32'') (remdups supported_dtypes) else supported_dtypes)
      in if (intr = ''reduce_max'' \<or> intr = ''reduce_min'' \<or> intr = ''reduce_sum'') \<and> \<not> is_last_axis
         then ds @ [''int32''] else ds)"

text \<open>
  A first argument that is no tensor is noticed, but nothing is raised then; reading its shape
  fails with \<^verbatim>\<open>AttributeError\<close>. The function is called with three arguments.
\<close>

definition reduce_args :: "'t dsl_ops \<Rightarrow> string \<Rightarrow> 't arg list \<Rightarrow> 't arg list res" where
  "reduce_args ops name args =
     (let intr = (if name = ''sum'' then ''reduce_sum'' else name) in
      if length args = 3 \<or> length args = 4 then
        (let axis = args ! 1; keepdims = args ! 2;
             priority_flag = (length args = 4 \<and> arg_truthy (args ! 3)) in
         case args ! 0 of
           T raw_tensor \<Rightarrow>
             bindE (axis_check ops (t_rank ops raw_tensor) (axis_values axis)) (\<lambda>axis.
             let is_last_axis = last_axis (t_rank ops raw_tensor) axis;
                 supported_dtypes = support_dtype ops intr in
             bindE (raise_if (supported_dtypes = []) err_support) (\<lambda>_.
             if unify ops then
               bindE (check_dynamic_dtype ops raw_tensor supported_dtypes is_last_axis) (\<lambda>_.
                 Inr [T raw_tensor, Val (PyList (map PyInt axis)), keepdims])
             else
               bindE (cast_tensor ops raw_tensor intr
                        (static_reduce_dtypes ops intr priority_flag is_last_axis supported_dtypes)) (\<lambda>temp_tensor.
                 Inr [T temp_tensor, Val (PyList (map PyInt axis)), keepdims])))
         | _ \<Rightarrow> Inl AttributeError)
      else Inr args)"

definition auto_cast_of_reduce ::
    "'t dsl_ops \<Rightarrow> string \<Rightarrow> ('t arg list \<Rightarrow> 'r res) \<Rightarrow> 't arg list \<Rightarrow> 'r res" where
  "auto_cast_of_reduce ops name func args = bindE (reduce_args ops name args) func"

section \<open>Casts\<close>

definition cast_args :: "'t dsl_ops \<Rightarrow> string \<Rightarrow> 't arg list \<Rightarrow> 't arg list res" where
  "cast_args ops name args =
     (if length args = 1 then
        (case args ! 0 of
           T raw_tensor \<Rightarrow>
             (let supported_dtypes = support_dtype ops name in
              bindE (raise_if (supported_dtypes = []) err_support) (\<lambda>_.
              bindE (cast_tensor ops raw_tensor name supported_dtypes) (\<lambda>t. Inr [T t])))
         | _ \<Rightarrow> Inl err_arg)
      else Inr args)"

definition auto_cast_of_cast ::
    "'t dsl_ops \<Rightarrow> string \<Rightarrow> ('t arg list \<Rightarrow> 'r res) \<Rightarrow> 't arg list \<Rightarrow> 'r res" where
  "auto_cast_of_cast ops name func args =
     (if unify ops then func args else bindE (cast_args ops name args) func)"

section \<open>What the compiler promises\<close>

text \<open>
  What becomes of one argument when the type of the call is \<open>d\<close>: a tensor is cast unless it has the type, a Python
  number becomes a constant and a constant gets the type, both with their value; a variable, a text and any other
  argument is passed on. \<open>uniform\<close> says so of all arguments, and that the intrinsic supports the type or it is
  \<^verbatim>\<open>float16\<close>.
\<close>

definition converted :: "'t dsl_ops \<Rightarrow> string \<Rightarrow> 't arg \<Rightarrow> 't arg \<Rightarrow> bool" where
  "converted ops d a a' \<longleftrightarrow>
     (case a of
        T t \<Rightarrow> (\<exists>t'. a' = T t' \<and> t_dtype ops t' = d \<and> (t' = t \<or> t_cast ops t d = Inr t'))
      | Const v e \<Rightarrow> a' = Const v d
      | Val v \<Rightarrow> a' = (if judge ops (Val v) = Inr ''python_const'' then Const v d else Val v)
      | _ \<Rightarrow> a' = a)"

definition uniform :: "'t dsl_ops \<Rightarrow> string \<Rightarrow> string \<Rightarrow> 't arg list \<Rightarrow> 't arg list \<Rightarrow> bool" where
  "uniform ops intr d args args' \<longleftrightarrow> (supported ops intr d \<or> d = ''float16'') \<and> list_all2 (converted ops d) args args'"

lemma short_args:
  "length args \<in> {1, 2, 3} \<Longrightarrow> (\<exists>a. args = [a]) \<or> (\<exists>a b. args = [a, b]) \<or> (\<exists>a b c. args = [a, b, c])"
  by (cases args; cases "tl args"; cases "tl (tl args)") auto

lemma tensor_cases: "(\<exists>t. a = T t) \<or> \<not> is_tensor_arg a"
  by (cases a) (auto simp: is_tensor_arg_def)

text \<open>
  The laws of the compiler the decorators rely on: a cast gives a tensor of the type asked for, a
  constant is recognised as one, and a text is not taken for a number.
\<close>

locale cast_platform =
  fixes ops :: "'t dsl_ops"
  assumes cast_dtype: "t_cast ops t d = Inr t' \<Longrightarrow> t_dtype ops t' = d"
    and judge_const: "judge ops (Const v d) = Inr ''tvm_const''"
    and judge_text: "is_str v \<Longrightarrow> judge ops (Val v) \<noteq> Inr ''python_const''"
begin

lemma wider_ok:
  assumes "wider ops (supported ops intr ''float32'') ds = Inr d"
  shows "supported ops intr d \<or> d = ''float16''"
  using assms by (auto simp: wider_def split: if_splits)

lemma converted_cast: "t_cast ops t d = Inr t' \<Longrightarrow> converted ops d (T t) (T t')"
  by (simp add: converted_def cast_dtype)

lemma converted_same: "t_dtype ops t = d \<Longrightarrow> converted ops d (T t) (T t)"
  by (simp add: converted_def)

lemma cast_scalar_converted:
  "cast_scalar ops s d = Inr s' \<Longrightarrow> \<not> is_tensor_arg s \<Longrightarrow> converted ops d s s'"
  by (cases s) (auto simp: cast_scalar_def const_dtype_def const_value_def make_const_def judge_const
      converted_def is_tensor_arg_def split: if_splits)

lemma text_converted: "is_str_arg s \<Longrightarrow> converted ops d s s"
  by (cases s) (auto simp: is_str_arg_def converted_def judge_text)

lemma one_uniform:
  "cast_one_input_tensor ops intr (supported ops intr ''float32'') t = Inr t' \<Longrightarrow> \<exists>d. uniform ops intr d [T t] [T t']"
  by (auto simp: cast_one_input_tensor_def uniform_def split: if_splits
      dest: wider_ok intro: converted_same converted_cast)

lemma two_uniform:
  "cast_two_input_tensor ops intr (supported ops intr ''float32'') t u = Inr (t', u', d)
    \<Longrightarrow> uniform ops intr d [T t, T u] [T t', T u']"
  by (auto simp: cast_two_input_tensor_def needs_cast_def uniform_def split: if_splits
      dest: wider_ok intro: converted_same converted_cast)

lemma three_uniform:
  assumes "cast_three_input_tensor ops intr (supported ops intr ''float32'') t u v = Inr (t', u', v')"
  shows "\<exists>d. uniform ops intr d [T t, T u, T v] [T t', T u', T v']"
proof (cases "supported ops intr (t_dtype ops t)")
  case True
  with assms show ?thesis
    by (intro exI [of _ "t_dtype ops t"])
      (auto simp: cast_three_input_tensor_def Let_def uniform_def intro: converted_same)
next
  case False
  with assms show ?thesis
    by (auto simp: cast_three_input_tensor_def Let_def uniform_def dest: wider_ok intro: converted_cast)
qed

lemma scalar_uniform:
  "cast_tensor_scalar_two_input ops intr (supported ops intr ''float32'') t s = Inr (t', s') \<Longrightarrow>
     \<not> is_tensor_arg s \<Longrightarrow> \<exists>d. uniform ops intr d [T t, s] [T t', s']"
  by (auto simp: cast_tensor_scalar_two_input_def uniform_def split: if_splits
      dest: wider_ok cast_scalar_converted intro: converted_same converted_cast)

lemma two_scalar_uniform:
  assumes "cast_tensors_scalar_in_three_input ops intr (supported ops intr ''float32'') t u s = Inr (t', u', s')"
    and "\<not> is_tensor_arg s"
  shows "\<exists>d. uniform ops intr d [T t, T u, s] [T t', T u', s']"
proof -
  from assms(1) obtain d where two: "cast_two_input_tensor ops intr (supported ops intr ''float32'') t u = Inr (t', u', d)"
    and s: "if is_str_arg s then s' = s else cast_scalar ops s d = Inr s'"
    by (auto simp: cast_tensors_scalar_in_three_input_def split: if_splits)
  have "converted ops d s s'"
    using s assms(2) cast_scalar_converted text_converted by (auto split: if_splits)
  with two_uniform [OF two] show ?thesis by (auto simp: uniform_def)
qed

lemma elewise_uniform:
  assumes "elewise_args ops name args = Inr args'" and "length args \<in> {1, 2, 3}"
  shows "\<exists>d. uniform ops (intrinsic_check ops name) d args args'"
proof -
  from assms(1) have first: "check_args_type args = Inr ()"
    by (auto simp: elewise_args_def)
  from short_args [OF assms(2)] consider a where "args = [a]" | a b where "args = [a, b]"
    | a b c where "args = [a, b, c]" by blast
  then consider t where "args = [T t]" | t u where "args = [T t, T u]"
    | t s where "args = [T t, s]" "\<not> is_tensor_arg s"
    | t u v where "args = [T t, T u, T v]" | t u s where "args = [T t, T u, s]" "\<not> is_tensor_arg s"
  proof cases
    case (1 a)
    with first tensor_cases [of a] that(1) show ?thesis by (auto simp: check_args_type_def)
  next
    case (2 a b)
    with first tensor_cases [of a] tensor_cases [of b] that(2,3) show ?thesis
      by (auto simp: check_args_type_def)
  next
    case (3 a b c)
    with first tensor_cases [of a] tensor_cases [of b] tensor_cases [of c] that(4,5) show ?thesis
      by (auto simp: check_args_type_def)
  qed
  then show ?thesis
  proof cases
    case (1 t)
    with assms(1) show ?thesis
      by (auto simp: elewise_args_def Let_def dest: one_uniform)
  next
    case (2 t u)
    with assms(1) show ?thesis
      by (auto simp: elewise_args_def Let_def dest: two_uniform)
  next
    case (3 t s)
    with assms(1) obtain t' s' where
      "cast_tensor_scalar_two_input ops (intrinsic_check ops name)
        (supported ops (intrinsic_check ops name) ''float32'') t s = Inr (t', s')" "args' = [T t', s']"
      by (auto simp: elewise_args_def Let_def is_tensor_arg_def split: arg.splits)
    with scalar_uniform [OF this(1) 3(2)] 3 show ?thesis by simp
  next
    case (4 t u v)
    with assms(1) show ?thesis
      by (auto simp: elewise_args_def Let_def dest: three_uniform)
  next
    case (5 t u s)
    with assms(1) obtain t' u' s' where
      "cast_tensors_scalar_in_three_input ops (intrinsic_check ops name)
        (supported ops (intrinsic_check ops name) ''float32'') t u s = Inr (t', u', s')" "args' = [T t', T u', s']"
      by (auto simp: elewise_args_def Let_def is_tensor_arg_def split: arg.splits)
    with two_scalar_uniform [OF this(1) 5(2)] 5 show ?thesis by simp
  qed
qed

end

section \<open>The helpers of the package as a platform\<close>

text \<open>
  The platform that \<^verbatim>\<open>util.py\<close> of the package gives, for tensors known by their type and
  rank.
\<close>

definition scalar_of :: "'t arg \<Rightarrow> scalar" where
  "scalar_of a = (case a of
      Val (PyInt i) \<Rightarrow> Py_Int i | Val (PyFloat x) \<Rightarrow> Py_Float x | Val (PyBool b) \<Rightarrow> Py_Bool b
    | Const v d \<Rightarrow> Tvm_Const v d | Expr d \<Rightarrow> Tvm_Var d | _ \<Rightarrow> Other_Scalar)"

definition util_ops :: "dsl_env \<Rightarrow> (string \<Rightarrow> bool) \<Rightarrow> (string \<times> nat) dsl_ops" where
  "util_ops env known =
     \<lparr>unify = in_dynamic_and_static_unify env, t_dtype = fst, t_rank = snd,
      t_cast = (\<lambda>t d. Inr (d, snd t)),
      intrinsic = (\<lambda>name dtype. case dtype of
         None \<Rightarrow> known name | Some d \<Rightarrow> intrinsic_check_support env name d),
      cast_support = is_cast_support env, judge = (\<lambda>a. judge_var (scalar_of a)),
      axis_check = (\<lambda>n vs. reduce_axis_check (int n) (PyList vs)),
      support_dtype = (\<lambda>name. dsl_support_dtype env (PyStr name)),
      cast_tensor = (\<lambda>t intr ds. bindE (auto_cast_tensor env (Tensor (fst t)) intr (Some ds))
         (\<lambda>r. Inr (case r of None \<Rightarrow> t | Some d \<Rightarrow> (d, snd t))))\<rparr>"

interpretation util_platform: cast_platform "util_ops env known"
  by unfold_locales (auto simp: util_ops_def scalar_of_def judge_var_def split: pyval.splits)

lemma util_judges_numbers:
  "judge (util_ops env known) (Val (PyInt i)) = Inr ''python_const''"
  "judge (util_ops env known) (Val (PyFloat x)) = Inr ''python_const''"
  by (simp_all add: util_ops_def scalar_of_def judge_var_def)

text \<open>
  C12. The automatic cast makes an element-wise call well typed: outside the dynamic mode, the function
  behind one of two or three arguments is called with the arguments converted to one data type, which the intrinsic
  supports or which is \<^verbatim>\<open>float16\<close>: every tensor has this type, itself or as its cast, every Python number and every
  constant is a constant of this type with the same value, and variables and texts are passed on as they are.
\<close>

theorem auto_cast_types:
  assumes "cast_platform ops" and "\<not> unify ops" and "length args \<in> {1, 2, 3}"
    and "auto_cast_of_elewise ops name func args = Inr r"
  shows "\<exists>args' d. func args' = Inr r \<and> (supported ops (intrinsic_check ops name) d \<or> d = ''float16'')
    \<and> list_all2 (converted ops d) args args'"
proof -
  from assms(2,4) obtain args' where "elewise_args ops name args = Inr args'" "func args' = Inr r"
    by (auto simp: auto_cast_of_elewise_def)
  with cast_platform.elewise_uniform [OF assms(1) this(1) assms(3)] show ?thesis
    unfolding uniform_def by blast
qed

definition float16_only :: dsl_env where
  "float16_only = \<lparr>product_version = VERSION_MINI, context_mode = None,
     intrinsic_check_support = (\<lambda>_ d. d = ''float16''), in_dynamic = False\<rparr>"

theorem auto_cast_types_witness:
  "\<exists>d. auto_cast_of_elewise (util_ops float16_only (\<lambda>_. True)) ''vadds'' Inr [T (''int8'', 2), Val (PyInt 3)]
     = Inr [T (d, 2), Const (PyInt 3) d] \<and> d = ''float16''"
proof -
  let ?ops = "util_ops float16_only (\<lambda>_. True)"
  have run: "auto_cast_of_elewise ?ops ''vadds'' Inr [T (''int8'', 2), Val (PyInt 3)]
     = Inr [T (''float16'', 2), Const (PyInt 3) ''float16'']"
    by code_simp
  have static: "\<not> unify ?ops" by code_simp
  from auto_cast_types [OF util_platform.cast_platform_axioms static _ run] obtain d where
    "list_all2 (converted ?ops d) [T (''int8'', 2), Val (PyInt 3)] [T (''float16'', 2), Const (PyInt 3) ''float16'']"
    by auto
  with run show ?thesis by (intro exI [of _ d]) (auto simp: converted_def util_judges_numbers)
qed

section \<open>No cast without need\<close>

lemma supported_tensors_untouched:
  assumes "supported ops (intrinsic_check ops name) d" and "length ts \<in> {1, 2, 3}"
    and "list_all (\<lambda>t. t_dtype ops t = d) ts"
  shows "elewise_args ops name (map T ts) = Inr (map T ts)"
proof -
  from short_args [OF assms(2)] consider a where "ts = [a]" | a b where "ts = [a, b]"
    | a b c where "ts = [a, b, c]" by blast
  then show ?thesis
    using assms(1,3)
    by cases (simp_all add: elewise_args_def check_args_type_def is_tensor_arg_def Let_def
        cast_one_input_tensor_def cast_two_input_tensor_def needs_cast_def cast_three_input_tensor_def)
qed

lemma reduce_args_three:
  "length args = 3 \<or> length args = 4 \<Longrightarrow> reduce_args ops name args = Inr args' \<Longrightarrow> length args' = 3"
  by (auto simp: reduce_args_def Let_def split: arg.splits if_splits)

text \<open>A reduction of something that is no tensor does not get the error prepared for it.\<close>

lemma reduce_no_tensor:
  "\<not> is_tensor_arg a \<Longrightarrow> reduce_args ops name [a, axis, keepdims] = Inl AttributeError"
  by (cases a) (simp_all add: reduce_args_def is_tensor_arg_def)

end
