(* ===== verification/Dsl_Api.thy ===== *)
theory Dsl_Api
  imports Dsl_Cast
begin

text \<open>
  The public functions of the operator language, \<^verbatim>\<open>src/auto_schedule/python/api.py\<close>: each fills
  its defaults, is cast by its decorator, and hands the arguments to a function of \<^verbatim>\<open>tbe.dsl\<close>
  or of the package, which is the argument \<open>dsl\<close>. The deprecation warnings are not modelled.
\<close>

type_synonym 't dsl_api =
  "'t dsl_ops \<Rightarrow> (string \<Rightarrow> 't arg list \<Rightarrow> 't arg res) \<Rightarrow> 't arg list \<Rightarrow> 't arg res"

text \<open>Binding arguments by position; a missing one takes its default.\<close>

fun fill_args :: "'t arg option list \<Rightarrow> 't arg list \<Rightarrow> 't arg list res" where
  "fill_args [] [] = Inr []"
| "fill_args [] (a # as) = Inl TypeError"
| "fill_args (d # ds) (a # as) = bindE (fill_args ds as) (\<lambda>rest. Inr (a # rest))"
| "fill_args (Some d # ds) [] = bindE (fill_args ds []) (\<lambda>rest. Inr (d # rest))"
| "fill_args (None # ds) [] = Inl TypeError"

text \<open>\<^verbatim>\<open>_get_priority_flag_value\<close>: a number, or the value of a constant.\<close>

definition get_priority_flag_value :: "'t arg \<Rightarrow> pyval res" where
  "get_priority_flag_value a = (case a of
      Val v \<Rightarrow> if is_int v \<or> is_float v then Inr v else Inl AttributeError
    | Const v _ \<Rightarrow> Inr v
    | _ \<Rightarrow> Inl AttributeError)"

text \<open>The functions with two implementations: the flag selects the second one.\<close>

definition unary_with_mode ::
    "(string \<Rightarrow> 't arg list \<Rightarrow> 't arg res) \<Rightarrow> string \<Rightarrow> string \<Rightarrow> int \<Rightarrow> string \<Rightarrow> 't arg list \<Rightarrow> 't arg res" where
  "unary_with_mode dsl name mode flag other args = (case args of
      [t, priority_flag] \<Rightarrow>
        bindE (get_priority_flag_value priority_flag) (\<lambda>v.
          let impl_mode = (if py_eq v (PyFloat (Fin (of_int flag))) then other else mode) in
          dsl name [t, Val (PyStr impl_mode)])
    | _ \<Rightarrow> Inl TypeError)"

text \<open>A reduction; called with three arguments its flag is \<^verbatim>\<open>False\<close>.\<close>

definition reduce_with_mode ::
    "(string \<Rightarrow> 't arg list \<Rightarrow> 't arg res) \<Rightarrow> string \<Rightarrow> 't arg list \<Rightarrow> 't arg res" where
  "reduce_with_mode dsl name args =
     bindE (fill_args [None, None, None, Some (Val (PyBool False))] args) (\<lambda>args.
       let impl_mode = (if arg_truthy (args ! 3) then ''high_precision'' else ''high_performance'') in
       dsl name (take 3 args @ [Val (PyStr impl_mode)]))"

section \<open>The functions\<close>

definition te_ceil :: "'t dsl_api" where
  "te_ceil ops dsl args =
     bindE (fill_args (replicate 1 None) args)
       (auto_cast_of_cast ops ''ceil'' (dsl ''ceil''))"

definition te_floor :: "'t dsl_api" where
  "te_floor ops dsl args =
     bindE (fill_args (replicate 1 None) args)
       (auto_cast_of_cast ops ''floor'' (dsl ''floor''))"

definition te_round :: "'t dsl_api" where
  "te_round ops dsl args =
     bindE (fill_args (replicate 1 None) args)
       (auto_cast_of_cast ops ''round'' (dsl ''round''))"

definition te_trunc :: "'t dsl_api" where
  "te_trunc ops dsl args =
     bindE (fill_args (replicate 1 None) args)
       (auto_cast_of_cast ops ''trunc'' (dsl ''trunc''))"

definition te_round_half_up :: "'t dsl_api" where
  "te_round_half_up ops dsl args =
     bindE (fill_args (replicate 1 None) args)
       (dsl ''round_half_up'')"

definition te_cast_to :: "'t dsl_api" where
  "te_cast_to ops dsl args =
     bindE (fill_args [None, None, Some (Val (PyBool True))] args)
       (dsl ''cast_to'')"

definition te_vadd :: "'t dsl_api" where
  "te_vadd ops dsl args =
     bindE (fill_args (replicate 2 None) args)
       (auto_cast_of_elewise ops ''vadd'' (dsl ''vadd''))"

definition te_vsub :: "'t dsl_api" where
  "te_vsub ops dsl args =
     bindE (fill_args (replicate 2 None) args)
       (auto_cast_of_elewise ops ''vsub'' (dsl ''vsub''))"

definition te_vmul :: "'t dsl_api" where
  "te_vmul ops dsl args =
     bindE (fill_args (replicate 2 None) args)
       (auto_cast_of_elewise ops ''vmul'' (dsl ''vmul''))"

definition te_vdiv :: "'t dsl_api" where
  "te_vdiv ops dsl args =
     bindE (fill_args (replicate 2 None) args)
       (auto_cast_of_elewise ops ''vdiv'' (dsl ''vdiv''))"

definition te_vrec :: "'t dsl_api" where
  "te_vrec ops dsl args =
     bindE (fill_args [None, Some (Val (PyInt 1))] args)
       (auto_cast_of_elewise ops ''vrec'' (unary_with_mode dsl ''vrec'' ''high_precision'' 0
           ''high_performance''))"

definition te_vmod :: "'t dsl_api" where
  "te_vmod ops dsl args =
     bindE (fill_args (replicate 2 None) args)
       (dsl ''vmod'')"

definition te_vmax :: "'t dsl_api" where
  "te_vmax ops dsl args =
     bindE (fill_args (replicate 2 None) args)
       (auto_cast_of_elewise ops ''vmax'' (dsl ''vmax''))"

definition te_vmin :: "'t dsl_api" where
  "te_vmin ops dsl args =
     bindE (fill_args (replicate 2 None) args)
       (auto_cast_of_elewise ops ''vmin'' (dsl ''vmin''))"

definition te_vlog :: "'t dsl_api" where
  "te_vlog ops dsl args =
     bindE (fill_args [None, Some (Val (PyInt 0))] args)
       (auto_cast_of_elewise ops ''vlog'' (unary_with_mode dsl ''vlog'' ''high_performance'' 1
           ''high_precision''))"

definition te_vexp :: "'t dsl_api" where
  "te_vexp ops dsl args =
     bindE (fill_args (replicate 1 None) args)
       (auto_cast_of_elewise ops ''vexp'' (dsl ''vexp''))"

definition te_vabs :: "'t dsl_api" where
  "te_vabs ops dsl args =
     bindE (fill_args (replicate 1 None) args)
       (auto_cast_of_elewise ops ''vabs'' (dsl ''vabs''))"

definition te_vsqrt :: "'t dsl_api" where
  "te_vsqrt ops dsl args =
     bindE (fill_args [None, Some (Val (PyInt 0))] args)
       (auto_cast_of_elewise ops ''vsqrt'' (unary_with_mode dsl ''vsqrt'' ''high_performance'' 1
           ''high_precision''))"

definition te_vrsqrt :: "'t dsl_api" where
  "te_vrsqrt ops dsl args =
     bindE (fill_args [None, Some (Val (PyInt 0))] args)
       (auto_cast_of_elewise ops ''vrsqrt'' (unary_with_mode dsl ''vrsqrt'' ''high_performance'' 1
           ''high_precision''))"

definition te_vnot :: "'t dsl_api" where
  "te_vnot ops dsl args =
     bindE (fill_args (replicate 1 None) args)
       (auto_cast_of_elewise ops ''vnot'' (dsl ''vnot''))"

definition te_vor :: "'t dsl_api" where
  "te_vor ops dsl args =
     bindE (fill_args (replicate 2 None) args)
       (auto_cast_of_elewise ops ''vor'' (dsl ''vor''))"

definition te_vand :: "'t dsl_api" where
  "te_vand ops dsl args =
     bindE (fill_args (replicate 2 None) args)
       (auto_cast_of_elewise ops ''vand'' (dsl ''vand''))"

definition te_vlogic :: "'t dsl_api" where
  "te_vlogic ops dsl args =
     bindE (fill_args [None, Some (Val PyNone), Some (Val (PyStr ''logic_and''))] args)
       (dsl ''vlogic'')"

definition te_vadds :: "'t dsl_api" where
  "te_vadds ops dsl args =
     bindE (fill_args (replicate 2 None) args)
       (auto_cast_of_elewise ops ''vadds'' (dsl ''vadds''))"

definition te_vmuls :: "'t dsl_api" where
  "te_vmuls ops dsl args =
     bindE (fill_args (replicate 2 None) args)
       (auto_cast_of_elewise ops ''vmuls'' (dsl ''vmuls''))"

definition te_vmaxs :: "'t dsl_api" where
  "te_vmaxs ops dsl args =
     bindE (fill_args (replicate 2 None) args)
       (auto_cast_of_elewise ops ''vmaxs'' (dsl ''vmaxs''))"

definition te_vmins :: "'t dsl_api" where
  "te_vmins ops dsl args =
     bindE (fill_args (replicate 2 None) args)
       (auto_cast_of_elewise ops ''vmins'' (dsl ''vmins''))"

definition te_vaxpy :: "'t dsl_api" where
  "te_vaxpy ops dsl args =
     bindE (fill_args (replicate 3 None) args)
       (auto_cast_of_elewise ops ''vaxpy'' (dsl ''vaxpy''))"

definition te_vmla :: "'t dsl_api" where
  "te_vmla ops dsl args =
     bindE (fill_args (replicate 3 None) args)
       (auto_cast_of_elewise ops ''vmla'' (dsl ''vmla''))"

definition te_vmadd :: "'t dsl_api" where
  "te_vmadd ops dsl args =
     bindE (fill_args (replicate 3 None) args)
       (auto_cast_of_elewise ops ''vmadd'' (dsl ''vmadd''))"

definition te_vcmp :: "'t dsl_api" where
  "te_vcmp ops dsl args =
     bindE (fill_args [None, None, Some (Val (PyStr ''lt'')), Some (Val (PyStr ''bool''))] args)
       (dsl ''vcmp'')"

definition te_vsel :: "'t dsl_api" where
  "te_vsel ops dsl args =
     bindE (fill_args (replicate 3 None) args)
       (dsl ''vsel'')"

definition te_vcmpsel :: "'t dsl_api" where
  "te_vcmpsel ops dsl args =
     bindE (fill_args [None, Some (Val PyNone), Some (Val (PyStr ''lt'')), Some (Val PyNone), Some
           (Val PyNone)] args)
       (dsl ''vcmpsel'')"

definition te_vmaddrelu :: "'t dsl_api" where
  "te_vmaddrelu ops dsl args =
     bindE (fill_args (replicate 3 None) args)
       (auto_cast_of_elewise ops ''vmaddrelu'' (dsl ''vmaddrelu''))"

definition te_vaddrelu :: "'t dsl_api" where
  "te_vaddrelu ops dsl args =
     bindE (fill_args (replicate 2 None) args)
       (dsl ''vaddrelu'')"

definition te_vsubrelu :: "'t dsl_api" where
  "te_vsubrelu ops dsl args =
     bindE (fill_args (replicate 2 None) args)
       (dsl ''vsubrelu'')"

definition te_vrelu :: "'t dsl_api" where
  "te_vrelu ops dsl args =
     bindE (fill_args (replicate 1 None) args)
       (auto_cast_of_elewise ops ''vrelu'' (dsl ''vrelu''))"

definition te_round_to :: "'t dsl_api" where
  "te_round_to ops dsl args =
     bindE (fill_args (replicate 3 None) args)
       (dsl ''clip'')"

definition te_broadcast :: "'t dsl_api" where
  "te_broadcast ops dsl args =
     bindE (fill_args [None, None, Some (Val PyNone)] args)
       (dsl ''broadcast'')"

definition te_sum :: "'t dsl_api" where
  "te_sum ops dsl args =
     bindE (fill_args [None, None, Some (Val (PyBool False))] args)
       (auto_cast_of_reduce ops ''sum'' (dsl ''reduce_sum''))"

definition te_reduce_min :: "'t dsl_api" where
  "te_reduce_min ops dsl args =
     bindE (fill_args [None, None, Some (Val (PyBool False)), Some (Val (PyBool False))] args)
       (auto_cast_of_reduce ops ''reduce_min'' (reduce_with_mode dsl ''reduce_min''))"

definition te_reduce_max :: "'t dsl_api" where
  "te_reduce_max ops dsl args =
     bindE (fill_args [None, None, Some (Val (PyBool False)), Some (Val (PyBool False))] args)
       (auto_cast_of_reduce ops ''reduce_max'' (reduce_with_mode dsl ''reduce_max''))"

definition te_reduce_prod :: "'t dsl_api" where
  "te_reduce_prod ops dsl args =
     bindE (fill_args [None, None, Some (Val (PyBool False))] args)
       (auto_cast_of_reduce ops ''reduce_prod'' (dsl ''reduce_prod''))"

definition te_split :: "'t dsl_api" where
  "te_split ops dsl args =
     bindE (fill_args (replicate 3 None) args)
       (dsl ''split'')"

definition te_split_compute_com :: "'t dsl_api" where
  "te_split_compute_com ops dsl args =
     bindE (fill_args (replicate 3 None) args)
       (dsl ''split'')"

definition te_split_schedule_com :: "'t dsl_api" where
  "te_split_schedule_com ops dsl args =
     bindE (fill_args (replicate 4 None) args)
       (dsl ''split_schedule_com'')"

definition te_concat :: "'t dsl_api" where
  "te_concat ops dsl args =
     bindE (fill_args (replicate 2 None) args)
       (dsl ''concat'')"

definition te_inplace_add :: "'t dsl_api" where
  "te_inplace_add ops dsl args =
     bindE (fill_args (replicate 3 None) args)
       (dsl ''inplace_add'')"

definition te_inplace_sub :: "'t dsl_api" where
  "te_inplace_sub ops dsl args =
     bindE (fill_args (replicate 3 None) args)
       (dsl ''inplace_sub'')"

definition te_inplace_update :: "'t dsl_api" where
  "te_inplace_update ops dsl args =
     bindE (fill_args (replicate 3 None) args)
       (dsl ''inplace_update'')"

definition te_pooling2d :: "'t dsl_api" where
  "te_pooling2d ops dsl args =
     bindE (fill_args [None, None, None, None, Some (Val (PyStr ''SAME'')), Some (Val (PyTuple
           [PyInt 0, PyInt 0, PyInt 0, PyInt 0])), Some (Val (PyTuple [PyInt 1, PyInt 1])), Some
           (Val (PyInt 1)), Some (Val (PyInt 0)), Some (Val PyNone), Some (Val (PyStr
           ''high_performance''))] args)
       (dsl ''pooling2d'')"

definition te_pooling3d :: "'t dsl_api" where
  "te_pooling3d ops dsl args =
     bindE (fill_args [None, None, None, Some (Val (PyStr ''SAME'')), Some (Val (PyTuple [PyInt 0,
           PyInt 0, PyInt 0, PyInt 0, PyInt 0, PyInt 0])), Some (Val (PyStr ''MAX'')), Some (Val
           (PyTuple [PyInt 1, PyInt 1, PyInt 1])), Some (Val (PyInt 0))] args)
       (dsl ''pooling3d'')"

definition te_max_pooling3d_grad_grad :: "'t dsl_api" where
  "te_max_pooling3d_grad_grad ops dsl args =
     bindE (fill_args [None, None, None, None, None, None, Some (Val (PyTuple [PyInt 0, PyInt 0,
           PyInt 0, PyInt 0, PyInt 0, PyInt 0])), Some (Val (PyStr ''NDHWC'')), Some (Val (PyStr
           ''SAME''))] args)
       (dsl ''max_pooling3d_grad_grad'')"

definition te_pooling3d_max_grad_grad :: "'t dsl_api" where
  "te_pooling3d_max_grad_grad ops dsl args =
     bindE (fill_args [None, None, None, None, None, None, Some (Val (PyTuple [PyInt 0, PyInt 0,
           PyInt 0, PyInt 0, PyInt 0, PyInt 0])), Some (Val (PyStr ''NDHWC'')), Some (Val (PyStr
           ''SAME''))] args)
       (dsl ''max_pooling3d_grad_grad'')"

definition te_auto_schedule :: "'t dsl_api" where
  "te_auto_schedule ops dsl args =
     bindE (fill_args [None, Some (Val PyNone)] args)
       (dsl ''auto_schedule'')"

definition te_cce_build_code :: "'t dsl_api" where
  "te_cce_build_code ops dsl args =
     bindE (fill_args [None, Some (Val PyNone)] args)
       (dsl ''build'')"

definition te_tuple_sum :: "'t dsl_api" where
  "te_tuple_sum ops dsl args =
     bindE (fill_args [None, None, Some (Val (PyBool False))] args)
       (dsl ''tuple_sum'')"

definition te_unsorted_segment_sum :: "'t dsl_api" where
  "te_unsorted_segment_sum ops dsl args =
     bindE (fill_args [None, None, None, Some (Val (PyInt 0))] args)
       (dsl ''unsorted_segment_sum'')"

definition te_unsorted_segment_mean :: "'t dsl_api" where
  "te_unsorted_segment_mean ops dsl args =
     bindE (fill_args [None, None, None, Some (Val (PyInt 0))] args)
       (dsl ''unsorted_segment_mean'')"

definition te_unsorted_segment_prod :: "'t dsl_api" where
  "te_unsorted_segment_prod ops dsl args =
     bindE (fill_args [None, None, None, Some (Val (PyInt 0))] args)
       (dsl ''unsorted_segment_prod'')"

definition te_unsorted_segment_min :: "'t dsl_api" where
  "te_unsorted_segment_min ops dsl args =
     bindE (fill_args [None, None, None, Some (Val (PyInt 0))] args)
       (dsl ''unsorted_segment_min'')"

definition te_unsorted_segment_max :: "'t dsl_api" where
  "te_unsorted_segment_max ops dsl args =
     bindE (fill_args [None, None, None, Some (Val (PyInt 0))] args)
       (dsl ''unsorted_segment_max'')"

definition arg_type :: "'t dsl_ops \<Rightarrow> 't arg \<Rightarrow> string res" where
  "arg_type ops a = (case a of
      T t \<Rightarrow> Inr (t_dtype ops t) | Const _ d \<Rightarrow> Inr d | Expr d \<Rightarrow> Inr d | _ \<Rightarrow> Inl AttributeError)"

text \<open>\<^verbatim>\<open>vlrelu\<close> goes through \<^verbatim>\<open>float32\<close> for integers on chips without the intrinsic.\<close>

definition te_vlrelu :: "'t dsl_api" where
  "te_vlrelu ops dsl args =
 bindE (fill_args [None, Some (Val (PyInt 0))] args) (\<lambda>args. case args of
       [t, alpha] \<Rightarrow>
         bindE (arg_type ops t) (\<lambda>dtype.
         if \<not> intrinsic ops ''Intrinsic_vlrelu'' None \<and> dtype = ''int32'' then
           bindE (te_cast_to ops dsl [t, Val (PyStr ''float32'')]) (\<lambda>t'.
           bindE (dsl ''vlrelu'' [t', alpha]) (\<lambda>res.
             te_cast_to ops dsl [res, Val (PyStr ''int32'')]))
         else dsl ''vlrelu'' [t, alpha])
     | _ \<Rightarrow> Inl TypeError)"

section \<open>What reaches the language\<close>

definition unary_api :: "(string \<times> 't dsl_api) list" where
  "unary_api = [(''vexp'', te_vexp), (''vabs'', te_vabs), (''vnot'', te_vnot), (''vrelu'', te_vrelu)]"

definition binary_api :: "(string \<times> 't dsl_api) list" where
  "binary_api = [(''vadd'', te_vadd), (''vsub'', te_vsub), (''vmul'', te_vmul), (''vdiv'', te_vdiv),
     (''vmax'', te_vmax), (''vmin'', te_vmin), (''vor'', te_vor), (''vand'', te_vand)]"

definition ternary_api :: "(string \<times> 't dsl_api) list" where
  "ternary_api = [(''vmla'', te_vmla), (''vmadd'', te_vmadd), (''vmaddrelu'', te_vmaddrelu)]"

text \<open>A function is transparent for tensors when they are passed on as they are.\<close>

definition transparent :: "'t dsl_ops \<Rightarrow> (string \<Rightarrow> 't arg list \<Rightarrow> 't arg res) \<Rightarrow> 't list
    \<Rightarrow> string \<times> 't dsl_api \<Rightarrow> bool" where
  "transparent ops dsl ts nf = (case nf of (name, f) \<Rightarrow> f ops dsl (map T ts) = dsl name (map T ts))"

lemma elewise_call:
  assumes "list_all (\<lambda>t. supported ops (intrinsic_check ops name) (t_dtype ops t)) ts"
    and "length ts \<in> {1, 2, 3}" and "list_all (\<lambda>t. t_dtype ops t = d) ts"
  shows "auto_cast_of_elewise ops name func (map T ts) = func (map T ts)"
proof -
  have "supported ops (intrinsic_check ops name) d" using assms by (cases ts) auto
  from supported_tensors_untouched [OF this assms(2,3)] show ?thesis
    by (simp add: auto_cast_of_elewise_def)
qed

lemmas api_defs = te_vexp_def te_vabs_def te_vnot_def te_vrelu_def te_vadd_def te_vsub_def te_vmul_def
  te_vdiv_def te_vmax_def te_vmin_def te_vor_def te_vand_def te_vmla_def te_vmadd_def te_vmaddrelu_def

text \<open>
  Every element-wise function hands its tensors to the function of the same name, unchanged, when
  they have one data type and every intrinsic supports it, in the static as in the dynamic mode.
\<close>

theorem elewise_api_transparent:
  assumes "list_all (\<lambda>t. t_dtype ops t = d) [t, u, v]" and "\<And>name. supported ops name d"
  shows "list_all (transparent ops dsl [t]) unary_api \<and> list_all (transparent ops dsl [t, u]) binary_api
    \<and> list_all (transparent ops dsl [t, u, v]) ternary_api"
proof -
  have call: "auto_cast_of_elewise ops name (dsl name) (map T ts) = dsl name (map T ts)"
    if "ts \<in> {[t], [t, u], [t, u, v]}" for name ts
    using that assms by (intro elewise_call [where d = d]) auto
  show ?thesis
    using call [of "[t]"] call [of "[t, u]"] call [of "[t, u, v]"]
    by (simp add: transparent_def unary_api_def binary_api_def ternary_api_def api_defs
        numeral_2_eq_2 numeral_3_eq_3)
qed

definition all_types :: dsl_env where
  "all_types = \<lparr>product_version = VERSION_MINI, context_mode = None,
     intrinsic_check_support = (\<lambda>_ _. True), in_dynamic = False\<rparr>"

theorem elewise_api_transparent_witness:
  "te_vadd (util_ops all_types (\<lambda>_. True)) (\<lambda>_ args. Inr (Tensors args)) [T (''int8'', 2), T (''int8'', 2)]
     = Inr (Tensors [T (''int8'', 2), T (''int8'', 2)])"
proof -
  have "list_all (\<lambda>t. t_dtype (util_ops all_types (\<lambda>_. True)) t = ''int8'') [(''int8'', 2), (''int8'', 2), (''int8'', 2)]"
    by (simp add: util_ops_def)
  moreover have "supported (util_ops all_types (\<lambda>_. True)) name ''int8''" for name
    by (simp add: supported_def util_ops_def all_types_def)
  ultimately show ?thesis
    using elewise_api_transparent [of "util_ops all_types (\<lambda>_. True)" "''int8''" "(''int8'', 2)" "(''int8'', 2)" "(''int8'', 2)" "\<lambda>_ args. Inr (Tensors args)"]
    by (simp add: binary_api_def transparent_def)
qed

section \<open>Priority flags\<close>

text \<open>
  The flag that asks a maximum or minimum over axes for the precise implementation has no effect: the decorator
  calls the function with three arguments only, and whatever flag is given the fast implementation is asked for.
\<close>

theorem reduce_flag_lost:
  "te_reduce_max ops dsl [a, axis, keepdims, flag]
     = bindE (reduce_args ops ''reduce_max'' [a, axis, keepdims, flag])
         (\<lambda>args. dsl ''reduce_max'' (args @ [Val (PyStr ''high_performance'')]))
   \<and> te_reduce_min ops dsl [a, axis, keepdims, flag]
     = bindE (reduce_args ops ''reduce_min'' [a, axis, keepdims, flag])
         (\<lambda>args. dsl ''reduce_min'' (args @ [Val (PyStr ''high_performance'')]))"
proof -
  have mode: "reduce_with_mode dsl name args = dsl name (args @ [Val (PyStr ''high_performance'')])"
    if args: "length args = 3" for name args
  proof -
    from args obtain x y z where "args = [x, y, z]"
      by (auto simp: numeral_3_eq_3 length_Suc_conv)
    then show ?thesis by (simp add: reduce_with_mode_def arg_truthy_def)
  qed
  have "bindE (reduce_args ops name [a, axis, keepdims, flag]) (reduce_with_mode dsl name)
      = bindE (reduce_args ops name [a, axis, keepdims, flag])
          (\<lambda>args. dsl name (args @ [Val (PyStr ''high_performance'')]))" for name
    by (rule bindE_cong [OF refl])
       (use reduce_args_three [of "[a, axis, keepdims, flag]" ops name] mode in auto)
  then show ?thesis
    by (simp add: te_reduce_max_def te_reduce_min_def auto_cast_of_reduce_def)
qed

text \<open>The flag of an element-wise function survives, as a constant of the tensor's type.\<close>

lemma vlog_flag:
  assumes "supported ops (intrinsic_check ops ''vlog'') (t_dtype ops t)"
    and "judge ops (Val (PyInt i)) = Inr ''python_const''"
  shows "te_vlog ops dsl [T t, Val (PyInt i)]
    = dsl ''vlog'' [T t, Val (PyStr (if i = 1 then ''high_precision'' else ''high_performance''))]"
  using assms
  by (auto simp: te_vlog_def auto_cast_of_elewise_def elewise_args_def check_args_type_def is_tensor_arg_def
      Let_def cast_tensor_scalar_two_input_def cast_scalar_def make_const_def unary_with_mode_def
      get_priority_flag_value_def)

end
