(* ===== verification/Dsl_Forward.thy ===== *)
theory Dsl_Forward
  imports Dsl_Api
begin

text \<open>
  The functions of the package that have moved to \<^verbatim>\<open>tbe.dsl\<close>: each warns, imports the function of the new
  place and calls it with its own arguments. The library is the argument \<open>lib\<close>, and a call names
  the module and the function in it; the warnings are not modelled.
\<close>

type_synonym 't forward = "(string \<Rightarrow> 't arg list \<Rightarrow> 't arg res) \<Rightarrow> 't arg list \<Rightarrow> 't arg res"

section \<open>\<^verbatim>\<open>cce_schedule.py\<close>\<close>

definition fw_cce_schedule_get_op_info :: "'t forward" where
  "fw_cce_schedule_get_op_info lib args =
     bindE (fill_args (replicate 1 None) args)
       (lib ''tbe.dsl.static_schedule.cce_schedule.get_op_info'')"

definition fw_cce_schedule_verify_compute_tensor :: "'t forward" where
  "fw_cce_schedule_verify_compute_tensor lib args =
     bindE (fill_args (replicate 1 None) args)
       (lib ''tbe.dsl.static_schedule.cce_schedule.verify_compute_tensor'')"

definition fw_cce_schedule_schedule_cce :: "'t forward" where
  "fw_cce_schedule_schedule_cce lib args =
     bindE (fill_args (replicate 1 None @ map (Some \<circ> Val) [PyNone]) args)
       (lib ''tbe.dsl.static_schedule.cce_schedule.schedule_cce'')"

definition fw_cce_schedule_check_is_need_cast :: "'t forward" where
  "fw_cce_schedule_check_is_need_cast lib args =
     bindE (fill_args (replicate 1 None) args)
       (lib ''tbe.dsl.static_schedule.cce_schedule.check_is_need_cast'')"

definition fw_cce_schedule_cce_build_code :: "'t forward" where
  "fw_cce_schedule_cce_build_code lib args =
     bindE (fill_args (replicate 1 None @ map (Some \<circ> Val) [PyNone]) args)
       (lib ''tbe.dsl.static_schedule.cce_schedule.cce_build_code'')"

section \<open>\<^verbatim>\<open>common.py\<close>\<close>

definition fw_common_img2col :: "'t forward" where
  "fw_common_img2col lib args =
     bindE (fill_args (replicate 6 None @ map (Some \<circ> Val) [PyNone, PyFloat (Fin 0)]) args)
       (lib ''tbe.dsl.compute.common.img2col'')"

definition fw_common_im2col_6d :: "'t forward" where
  "fw_common_im2col_6d lib args =
     bindE (fill_args (replicate 6 None @ map (Some \<circ> Val) [PyFloat (Fin 0), PyList [PyInt 1, PyInt 1]]) args)
       (lib ''tbe.dsl.compute.common.im2col_6d'')"

definition fw_common_im2col_fractal :: "'t forward" where
  "fw_common_im2col_fractal lib args =
     bindE (fill_args (replicate 2 None @ map (Some \<circ> Val) [PyStr ''ca'', PyNone]) args)
       (lib ''tbe.dsl.compute.common.im2col_fractal'')"

section \<open>\<^verbatim>\<open>conv2d_backprop_filter_compute.py\<close>\<close>

definition fw_conv2d_backprop_filter_compute_conv2d_backprop_filter_compute :: "'t forward" where
  "fw_conv2d_backprop_filter_compute_conv2d_backprop_filter_compute lib args =
     bindE (fill_args (replicate 4 None) args)
       (lib ''tbe.dsl.compute.conv2d_backprop_filter_compute.conv2d_backprop_filter_compute'')"

section \<open>\<^verbatim>\<open>conv2d_backprop_input_compute.py\<close>\<close>

definition fw_conv2d_backprop_input_compute_conv2d_backprop_input_compute :: "'t forward" where
  "fw_conv2d_backprop_input_compute_conv2d_backprop_input_compute lib args =
     bindE (fill_args (replicate 5 None) args)
       (lib ''tbe.dsl.compute.conv2d_backprop_input_compute.conv2d_backprop_input_compute'')"

section \<open>\<^verbatim>\<open>conv2d_schedule.py\<close>\<close>

definition fw_conv2d_schedule_schedule :: "'t forward" where
  "fw_conv2d_schedule_schedule lib args =
     bindE (fill_args (replicate 2 None) args)
       (lib ''tbe.dsl.unify_schedule.conv2d_schedule.schedule'')"

section \<open>\<^verbatim>\<open>conv2d_tilingcase.py\<close>\<close>

definition fw_conv2d_tilingcase_calc_conv2d :: "'t forward" where
  "fw_conv2d_tilingcase_calc_conv2d lib args =
     bindE (fill_args (replicate 1 None @ map (Some \<circ> Val) [PyNone]) args)
       (lib ''tbe.dsl.unify_schedule.conv2d_tilingcase.calc_conv2d'')"

section \<open>\<^verbatim>\<open>conv3d_backprop_filter_compute.py\<close>\<close>

definition fw_conv3d_backprop_filter_compute_conv3d_dw :: "'t forward" where
  "fw_conv3d_backprop_filter_compute_conv3d_dw lib args =
     bindE (fill_args (replicate 4 None) args)
       (lib ''tbe.dsl.compute.conv3d_backprop_filter_compute.conv3d_dw'')"

section \<open>\<^verbatim>\<open>conv3d_backprop_input_compute.py\<close>\<close>

definition fw_conv3d_backprop_input_compute_conv3d_dx :: "'t forward" where
  "fw_conv3d_backprop_input_compute_conv3d_dx lib args =
     bindE (fill_args (replicate 5 None) args)
       (lib ''tbe.dsl.compute.conv3d_backprop_input_compute.conv3d_dx'')"

section \<open>\<^verbatim>\<open>conv3d_bp_input_schedule.py\<close>\<close>

definition fw_conv3d_bp_input_schedule_schedule :: "'t forward" where
  "fw_conv3d_bp_input_schedule_schedule lib args =
     bindE (fill_args (replicate 2 None) args)
       (lib ''tbe.dsl.unify_schedule.conv3d_bp_input_schedule.schedule'')"

section \<open>\<^verbatim>\<open>conv3d_compute.py\<close>\<close>

definition fw_conv3d_compute_conv3d :: "'t forward" where
  "fw_conv3d_compute_conv3d lib args =
     bindE (fill_args (replicate 4 None) args)
       (lib ''tbe.dsl.compute.conv3d_compute.conv3d'')"

section \<open>\<^verbatim>\<open>conv_compute.py\<close>\<close>

definition fw_conv_compute_is_support_v200 :: "'t forward" where
  "fw_conv_compute_is_support_v200 lib args =
     bindE (fill_args (replicate 0 None) args)
       (lib ''tbe.dsl.compute.conv_compute.is_support_v200'')"

definition fw_conv_compute_check_conv_shape :: "'t forward" where
  "fw_conv_compute_check_conv_shape lib args =
     bindE (fill_args (replicate 10 None @ map (Some \<circ> Val) [PyNone, PyInt 1, PyInt 1, PyNone, PyInt 1]) args)
       (lib ''tbe.dsl.compute.conv_compute.check_conv_shape'')"

definition fw_conv_compute_conv_compress :: "'t forward" where
  "fw_conv_compute_conv_compress lib args =
     bindE (fill_args (replicate 5 None @ map (Some \<circ> Val) [PyNone, PyBool True]) args)
       (lib ''tbe.dsl.compute.conv_compute.conv_compress'')"

definition fw_conv_compute_conv :: "'t forward" where
  "fw_conv_compute_conv lib args =
     bindE (fill_args (replicate 3 None @ map (Some \<circ> Val) [PyNone, PyBool True]) args)
       (lib ''tbe.dsl.compute.conv_compute.conv'')"

section \<open>\<^verbatim>\<open>cube_util.py\<close>\<close>

definition fw_cube_util_shape_to_list :: "'t forward" where
  "fw_cube_util_shape_to_list lib args =
     bindE (fill_args (replicate 1 None) args)
       (lib ''tbe.dsl.compute.cube_util.shape_to_list'')"

definition fw_cube_util_check_pad_zero :: "'t forward" where
  "fw_cube_util_check_pad_zero lib args =
     bindE (fill_args (replicate 1 None) args)
       (lib ''tbe.dsl.compute.cube_util.check_pad_zero'')"

definition fw_cube_util_ceil_div :: "'t forward" where
  "fw_cube_util_ceil_div lib args =
     bindE (fill_args (replicate 2 None) args)
       (lib ''tbe.dsl.compute.cube_util.ceil_div'')"

definition fw_cube_util_raise_cube_util_err :: "'t forward" where
  "fw_cube_util_raise_cube_util_err lib args =
     bindE (fill_args (replicate 1 None) args)
       (lib ''tbe.dsl.compute.cube_util.raise_cube_util_err'')"

definition fw_cube_util_im2col_row_major :: "'t forward" where
  "fw_cube_util_im2col_row_major lib args =
     bindE (fill_args (replicate 6 None @ map (Some \<circ> Val) [PyBool False, PyStr '''', PyTuple [PyInt 1, PyInt 1], PyInt 0, PyInt 0]) args)
       (lib ''tbe.dsl.compute.cube_util.im2col_row_major'')"

definition fw_cube_util_im2col_fractal :: "'t forward" where
  "fw_cube_util_im2col_fractal lib args =
     bindE (fill_args (replicate 2 None) args)
       (lib ''tbe.dsl.compute.cube_util.im2col_fractal'')"

definition fw_cube_util_im2col_fractal_3d :: "'t forward" where
  "fw_cube_util_im2col_fractal_3d lib args =
     bindE (fill_args (replicate 8 None @ map (Some \<circ> Val) [PyStr '''']) args)
       (lib ''tbe.dsl.compute.cube_util.im2col_fractal_3d'')"

definition fw_cube_util_im2col_fractal_v2 :: "'t forward" where
  "fw_cube_util_im2col_fractal_v2 lib args =
     bindE (fill_args (replicate 2 None) args)
       (lib ''tbe.dsl.compute.cube_util.im2col_fractal_v2'')"

definition fw_cube_util_is_support_v200 :: "'t forward" where
  "fw_cube_util_is_support_v200 lib args =
     bindE (fill_args (replicate 0 None) args)
       (lib ''tbe.dsl.compute.cube_util.is_support_v200'')"

definition fw_cube_util_calc_info_of_iter_vars :: "'t forward" where
  "fw_cube_util_calc_info_of_iter_vars lib args =
     bindE (fill_args (replicate 1 None) args)
       (lib ''tbe.dsl.compute.cube_util.calc_info_of_iter_vars'')"

definition fw_cube_util_print_iter_vars :: "'t forward" where
  "fw_cube_util_print_iter_vars lib args =
     bindE (fill_args (replicate 1 None) args)
       (lib ''tbe.dsl.compute.cube_util.print_iter_vars'')"

section \<open>\<^verbatim>\<open>depthwise_conv2d_compute.py\<close>\<close>

definition fw_depthwise_conv2d_compute_depthwise_conv2d_compute :: "'t forward" where
  "fw_depthwise_conv2d_compute_depthwise_conv2d_compute lib args =
     bindE (fill_args (replicate 8 None @ map (Some \<circ> Val) [PyStr ''depthwise_conv2d_compute'']) args)
       (lib ''tbe.dsl.compute.depthwise_conv2d_compute.depthwise_conv2d_compute'')"

definition fw_depthwise_conv2d_compute_depthwise_conv2d_backprop_filter_d_compute :: "'t forward" where
  "fw_depthwise_conv2d_compute_depthwise_conv2d_backprop_filter_d_compute lib args =
     bindE (fill_args (replicate 8 None @ map (Some \<circ> Val) [PyStr ''depthwise_conv2d_compute'']) args)
       (lib ''tbe.dsl.compute.depthwise_conv2d_compute.depthwise_conv2d_backprop_filter_d_compute'')"

definition fw_depthwise_conv2d_compute_depthwise_conv2d_backprop_input_d_compute :: "'t forward" where
  "fw_depthwise_conv2d_compute_depthwise_conv2d_backprop_input_d_compute lib args =
     bindE (fill_args (replicate 6 None @ map (Some \<circ> Val) [PyStr ''depthwise_conv2d_compute'']) args)
       (lib ''tbe.dsl.compute.depthwise_conv2d_compute.depthwise_conv2d_backprop_input_d_compute'')"

section \<open>\<^verbatim>\<open>dilation_compute.py\<close>\<close>

definition fw_dilation_compute_dilation_compute :: "'t forward" where
  "fw_dilation_compute_dilation_compute lib args =
     bindE (fill_args (replicate 2 None @ map (Some \<circ> Val) [PyNone, PyFloat (Fin 0)]) args)
       (lib ''tbe.dsl.compute.dilation_compute.dilation_compute'')"

section \<open>\<^verbatim>\<open>elewise_compute.py\<close>\<close>

definition fw_elewise_compute_binary_elewise_op :: "'t forward" where
  "fw_elewise_compute_binary_elewise_op lib args =
     bindE (fill_args (replicate 3 None @ map (Some \<circ> Val) [PyNone]) args)
       (lib ''tbe.dsl.compute.math.__binary_elewise_op'')"

section \<open>\<^verbatim>\<open>gemm_compute.py\<close>\<close>

definition fw_gemm_compute_gemm :: "'t forward" where
  "fw_gemm_compute_gemm lib args =
     bindE (fill_args (replicate 3 None) args)
       (lib ''tbe.dsl.compute.gemm_compute.gemm'')"

section \<open>\<^verbatim>\<open>max_pool2d_3_2_fusion_compute.py\<close>\<close>

definition fw_max_pool2d_3_2_fusion_compute_max_pool_compute :: "'t forward" where
  "fw_max_pool2d_3_2_fusion_compute_max_pool_compute lib args =
     bindE (fill_args (replicate 3 None @ map (Some \<circ> Val) [PyStr ''VALID'', PyTuple [PyInt 0, PyInt 0, PyInt 0, PyInt 0], PyInt 0, PyInt 0]) args)
       (lib ''tbe.dsl.compute.max_pool2d_3_2_fusion_compute.max_pool_compute'')"

section \<open>\<^verbatim>\<open>mmad_compute.py\<close>\<close>

definition fw_mmad_compute_get_matmul_performance_format :: "'t forward" where
  "fw_mmad_compute_get_matmul_performance_format lib args =
     bindE (fill_args (replicate 2 None @ map (Some \<circ> Val) [PyBool False, PyBool False, PyStr ''ND'', PyStr ''ND'', PyFloat (Fin 1), PyFloat (Fin 1), PyStr ''float16'', PyNone, PyNone, PyNone]) args)
       (lib ''tbe.dsl.compute.mmad_compute.get_matmul_performance_format'')"

section \<open>\<^verbatim>\<open>pooling2d_compute.py\<close>\<close>

definition fw_pooling2d_compute_get_caffe_out_size_and_pad :: "'t forward" where
  "fw_pooling2d_compute_get_caffe_out_size_and_pad lib args =
     bindE (fill_args (replicate 13 None) args)
       (lib ''tbe.dsl.compute.pooling2d.get_caffe_out_size_and_pad'')"

section \<open>The two that look at their arguments\<close>

text \<open>\<^verbatim>\<open>matmul\<close> turns an empty \<^verbatim>\<open>attrs\<close> into a dictionary; the tiling of the backward convolution passes its
  option on only when it is given.\<close>

definition fw_matmul :: "'t forward" where
  "fw_matmul lib args =
     bindE (fill_args (replicate 2 None @ map (Some \<circ> Val) [PyBool False, PyBool False, PyStr ''ND'', PyStr ''ND'',
         PyFloat (Fin 1), PyFloat (Fin 1), PyStr ''float16'', PyNone, PyNone, PyNone, PyNone, PyNone, PyStr ''MatMul'']) args)
       (\<lambda>args. lib ''tbe.dsl.compute.mmad_compute.matmul''
         (args[13 := (if \<not> arg_truthy (args ! 13) then Val (PyDict []) else args ! 13)]))"

definition fw_calc_conv3dbp_input :: "'t forward" where
  "fw_calc_conv3dbp_input lib args =
     bindE (fill_args [None, Some (Val PyNone)] args)
       (\<lambda>args. lib ''tbe.dsl.unify_schedule.conv3d_bp_input_tilingcase.calc_conv3dbp_input''
         (if arg_truthy (args ! 1) then args else take 1 args))"

text \<open>\<^verbatim>\<open>im2col_fractal_6d\<close> first reads the last dimension of its second argument, which it does not use: an
  argument without a shape, or with an empty one, raises. The reading is a parameter.\<close>

definition fw_im2col_fractal_6d :: "('t arg \<Rightarrow> unit res) \<Rightarrow> 't forward" where
  "fw_im2col_fractal_6d last_dim lib args =
     bindE (fill_args (replicate 2 None) args)
       (\<lambda>args. bindE (last_dim (args ! 1)) (\<lambda>_. lib ''tbe.dsl.compute.common.im2col_fractal_6d'' args))"

section \<open>Nothing is lost\<close>

text \<open>The functions with their targets, the number of arguments they need, and the defaults of the others.\<close>

definition forwarders :: "(string \<times> nat \<times> pyval list \<times> 't forward) list" where
  "forwarders =
    [(''tbe.dsl.static_schedule.cce_schedule.get_op_info'', 1, [], fw_cce_schedule_get_op_info),
     (''tbe.dsl.static_schedule.cce_schedule.verify_compute_tensor'', 1, [], fw_cce_schedule_verify_compute_tensor),
     (''tbe.dsl.static_schedule.cce_schedule.schedule_cce'', 1, [PyNone], fw_cce_schedule_schedule_cce),
     (''tbe.dsl.static_schedule.cce_schedule.check_is_need_cast'', 1, [], fw_cce_schedule_check_is_need_cast),
     (''tbe.dsl.static_schedule.cce_schedule.cce_build_code'', 1, [PyNone], fw_cce_schedule_cce_build_code),
     (''tbe.dsl.compute.common.img2col'', 6, [PyNone, PyFloat (Fin 0)], fw_common_img2col),
     (''tbe.dsl.compute.common.im2col_6d'', 6, [PyFloat (Fin 0), PyList [PyInt 1, PyInt 1]], fw_common_im2col_6d),
     (''tbe.dsl.compute.common.im2col_fractal'', 2, [PyStr ''ca'', PyNone], fw_common_im2col_fractal),
     (''tbe.dsl.compute.conv2d_backprop_filter_compute.conv2d_backprop_filter_compute'', 4, [], fw_conv2d_backprop_filter_compute_conv2d_backprop_filter_compute),
     (''tbe.dsl.compute.conv2d_backprop_input_compute.conv2d_backprop_input_compute'', 5, [], fw_conv2d_backprop_input_compute_conv2d_backprop_input_compute),
     (''tbe.dsl.unify_schedule.conv2d_schedule.schedule'', 2, [], fw_conv2d_schedule_schedule),
     (''tbe.dsl.unify_schedule.conv2d_tilingcase.calc_conv2d'', 1, [PyNone], fw_conv2d_tilingcase_calc_conv2d),
     (''tbe.dsl.compute.conv3d_backprop_filter_compute.conv3d_dw'', 4, [], fw_conv3d_backprop_filter_compute_conv3d_dw),
     (''tbe.dsl.compute.conv3d_backprop_input_compute.conv3d_dx'', 5, [], fw_conv3d_backprop_input_compute_conv3d_dx),
     (''tbe.dsl.unify_schedule.conv3d_bp_input_schedule.schedule'', 2, [], fw_conv3d_bp_input_schedule_schedule),
     (''tbe.dsl.compute.conv3d_compute.conv3d'', 4, [], fw_conv3d_compute_conv3d),
     (''tbe.dsl.compute.conv_compute.is_support_v200'', 0, [], fw_conv_compute_is_support_v200),
     (''tbe.dsl.compute.conv_compute.check_conv_shape'', 10, [PyNone, PyInt 1, PyInt 1, PyNone, PyInt 1], fw_conv_compute_check_conv_shape),
     (''tbe.dsl.compute.conv_compute.conv_compress'', 5, [PyNone, PyBool True], fw_conv_compute_conv_compress),
     (''tbe.dsl.compute.conv_compute.conv'', 3, [PyNone, PyBool True], fw_conv_compute_conv),
     (''tbe.dsl.compute.cube_util.shape_to_list'', 1, [], fw_cube_util_shape_to_list),
     (''tbe.dsl.compute.cube_util.check_pad_zero'', 1, [], fw_cube_util_check_pad_zero),
     (''tbe.dsl.compute.cube_util.ceil_div'', 2, [], fw_cube_util_ceil_div),
     (''tbe.dsl.compute.cube_util.raise_cube_util_err'', 1, [], fw_cube_util_raise_cube_util_err),
     (''tbe.dsl.compute.cube_util.im2col_row_major'', 6, [PyBool False, PyStr '''', PyTuple [PyInt 1, PyInt 1], PyInt 0, PyInt 0], fw_cube_util_im2col_row_major),
     (''tbe.dsl.compute.cube_util.im2col_fractal'', 2, [], fw_cube_util_im2col_fractal),
     (''tbe.dsl.compute.cube_util.im2col_fractal_3d'', 8, [PyStr ''''], fw_cube_util_im2col_fractal_3d),
     (''tbe.dsl.compute.cube_util.im2col_fractal_v2'', 2, [], fw_cube_util_im2col_fractal_v2),
     (''tbe.dsl.compute.cube_util.is_support_v200'', 0, [], fw_cube_util_is_support_v200),
     (''tbe.dsl.compute.cube_util.calc_info_of_iter_vars'', 1, [], fw_cube_util_calc_info_of_iter_vars),
     (''tbe.dsl.compute.cube_util.print_iter_vars'', 1, [], fw_cube_util_print_iter_vars),
     (''tbe.dsl.compute.depthwise_conv2d_compute.depthwise_conv2d_compute'', 8, [PyStr ''depthwise_conv2d_compute''], fw_depthwise_conv2d_compute_depthwise_conv2d_compute),
     (''tbe.dsl.compute.depthwise_conv2d_compute.depthwise_conv2d_backprop_filter_d_compute'', 8, [PyStr ''depthwise_conv2d_compute''], fw_depthwise_conv2d_compute_depthwise_conv2d_backprop_filter_d_compute),
     (''tbe.dsl.compute.depthwise_conv2d_compute.depthwise_conv2d_backprop_input_d_compute'', 6, [PyStr ''depthwise_conv2d_compute''], fw_depthwise_conv2d_compute_depthwise_conv2d_backprop_input_d_compute),
     (''tbe.dsl.compute.dilation_compute.dilation_compute'', 2, [PyNone, PyFloat (Fin 0)], fw_dilation_compute_dilation_compute),
     (''tbe.dsl.compute.math.__binary_elewise_op'', 3, [PyNone], fw_elewise_compute_binary_elewise_op),
     (''tbe.dsl.compute.gemm_compute.gemm'', 3, [], fw_gemm_compute_gemm),
     (''tbe.dsl.compute.max_pool2d_3_2_fusion_compute.max_pool_compute'', 3, [PyStr ''VALID'', PyTuple [PyInt 0, PyInt 0, PyInt 0, PyInt 0], PyInt 0, PyInt 0], fw_max_pool2d_3_2_fusion_compute_max_pool_compute),
     (''tbe.dsl.compute.mmad_compute.get_matmul_performance_format'', 2, [PyBool False, PyBool False, PyStr ''ND'', PyStr ''ND'', PyFloat (Fin 1), PyFloat (Fin 1), PyStr ''float16'', PyNone, PyNone, PyNone], fw_mmad_compute_get_matmul_performance_format),
     (''tbe.dsl.compute.pooling2d.get_caffe_out_size_and_pad'', 13, [], fw_pooling2d_compute_get_caffe_out_size_and_pad)]"

lemma fill_args_exact: "fill_args (replicate r None @ map (Some \<circ> Val) ds) args =
    (if length args < r \<or> r + length ds < length args then Inl TypeError
     else Inr (args @ map Val (drop (length args - r) ds)))"
proof (induction r arbitrary: args)
  case 0
  show ?case
  proof (induction ds arbitrary: args)
    case Nil
    then show ?case by (cases args) simp_all
  next
    case (Cons d ds)
    then show ?case by (cases args) simp_all
  qed
next
  case (Suc r)
  then show ?case by (cases args) simp_all
qed

lemma bind_fill: "bindE (fill_args (replicate r None @ map (Some \<circ> Val) ds) args) g =
    (if length args < r \<or> r + length ds < length args then Inl TypeError else g (args @ map Val (drop (length args - r) ds)))"
  by (simp add: fill_args_exact)

lemma bind_fill0: "bindE (fill_args (replicate r None) args) g = (if length args < r \<or> r < length args then Inl TypeError else g args)"
  using bind_fill [of r "[]" args g] by simp

lemmas forward_defs =
  fw_cce_schedule_get_op_info_def
  fw_cce_schedule_verify_compute_tensor_def
  fw_cce_schedule_schedule_cce_def
  fw_cce_schedule_check_is_need_cast_def
  fw_cce_schedule_cce_build_code_def
  fw_common_img2col_def
  fw_common_im2col_6d_def
  fw_common_im2col_fractal_def
  fw_conv2d_backprop_filter_compute_conv2d_backprop_filter_compute_def
  fw_conv2d_backprop_input_compute_conv2d_backprop_input_compute_def
  fw_conv2d_schedule_schedule_def
  fw_conv2d_tilingcase_calc_conv2d_def
  fw_conv3d_backprop_filter_compute_conv3d_dw_def
  fw_conv3d_backprop_input_compute_conv3d_dx_def
  fw_conv3d_bp_input_schedule_schedule_def
  fw_conv3d_compute_conv3d_def
  fw_conv_compute_is_support_v200_def
  fw_conv_compute_check_conv_shape_def
  fw_conv_compute_conv_compress_def
  fw_conv_compute_conv_def
  fw_cube_util_shape_to_list_def
  fw_cube_util_check_pad_zero_def
  fw_cube_util_ceil_div_def
  fw_cube_util_raise_cube_util_err_def
  fw_cube_util_im2col_row_major_def
  fw_cube_util_im2col_fractal_def
  fw_cube_util_im2col_fractal_3d_def
  fw_cube_util_im2col_fractal_v2_def
  fw_cube_util_is_support_v200_def
  fw_cube_util_calc_info_of_iter_vars_def
  fw_cube_util_print_iter_vars_def
  fw_depthwise_conv2d_compute_depthwise_conv2d_compute_def
  fw_depthwise_conv2d_compute_depthwise_conv2d_backprop_filter_d_compute_def
  fw_depthwise_conv2d_compute_depthwise_conv2d_backprop_input_d_compute_def
  fw_dilation_compute_dilation_compute_def
  fw_elewise_compute_binary_elewise_op_def
  fw_gemm_compute_gemm_def
  fw_max_pool2d_3_2_fusion_compute_max_pool_compute_def
  fw_mmad_compute_get_matmul_performance_format_def
  fw_pooling2d_compute_get_caffe_out_size_and_pad_def

lemma forward_exact:
  "list_all (\<lambda>(target, r, ds, f). \<forall>args. f lib args =
     (if length args < r \<or> r + length ds < length args then Inl TypeError
      else lib target (args @ map Val (drop (length args - r) ds)))) forwarders"
  unfolding forwarders_def list.pred_inject prod.case forward_defs
  by (simp add: bind_fill bind_fill0 bind_fill [of 1, simplified replicate_Suc One_nat_def replicate_0 append_Cons append_Nil] bind_fill0 [of 1, simplified] bind_fill0 [of 2, simplified] bind_fill0 [of 0, simplified] list.map(1) del: list.map(2) comp_apply)

text \<open>C1. Every function of the package that has moved hands all its arguments, in their order, to the function of the
  same purpose in the new place, with the missing optional ones filled in, and refuses too few or too many.\<close>

theorem forwarders_exact:
  assumes "(target, r, ds, f) \<in> set forwarders"
  shows "f lib args = (if length args < r \<or> r + length ds < length args then Inl TypeError
      else lib target (args @ map Val (drop (length args - r) ds)))"
  using forward_exact [of lib] assms by (fastforce simp: list_all_iff)

lemma forwarders_exact_witness:
  "fw_cube_util_ceil_div (\<lambda>nm args. Inr (Val (PyStr nm))) [Val (PyInt 7), Val (PyInt 2)]
     = (Inr (Val (PyStr ''tbe.dsl.compute.cube_util.ceil_div'')) :: unit arg res)"
proof -
  have "(''tbe.dsl.compute.cube_util.ceil_div'', 2, [], fw_cube_util_ceil_div) \<in> set (forwarders :: (_ \<times> _ \<times> _ \<times> unit forward) list)"
    by (simp add: forwarders_def)
  from forwarders_exact [OF this, of "\<lambda>nm args. Inr (Val (PyStr nm))" "[Val (PyInt 7), Val (PyInt 2)]"]
  show ?thesis by simp
qed

end
