(* ===== verification/Intf_Spec.thy ===== *)
theory Intf_Spec
  imports Utils
begin

text \<open>
  The first half of the interface checker, \<^verbatim>\<open>cann_check_interface.py\<close>: reading the declarations
  of functions, classes and global variables, from the description of an interface and from a
  Python source. The objects of a class are changed after they have been entered in a
  dictionary, so the objects live in a store and the dictionary of a file and the tree of open
  blocks hold references.
\<close>

section \<open>Specifications\<close>

record func_spec =
  func_name :: string
  func_params :: "string list"

record class_spec =
  class_name :: string
  super_classes :: "string list"
  class_funcs :: "(string \<times> func_spec) list"

record global_var =
  global_var_name :: string
  global_var_values :: string

record file_spec =
  spec_file_name :: string
  source_file_name :: string
  class_specs :: "(string \<times> nat) list"
  func_specs :: "(string \<times> func_spec) list"
  global_var_spec :: "(string \<times> global_var) list"

definition new_class :: "string \<Rightarrow> string list \<Rightarrow> class_spec" where
  "new_class nm supers = \<lparr>class_name = nm, super_classes = supers, class_funcs = []\<rparr>"

definition new_file :: "string \<Rightarrow> string \<Rightarrow> file_spec" where
  "new_file spec source = \<lparr>spec_file_name = spec, source_file_name = source,
     class_specs = [], func_specs = [], global_var_spec = []\<rparr>"

datatype spec_obj =
    File_Obj file_spec
  | Class_Obj class_spec
  | Func_Obj func_spec
  | Global_Obj global_var

text \<open>The store of objects and the list \<^verbatim>\<open>spec_tree\<close>, the innermost open object of every level.\<close>

type_synonym spec_state = "spec_obj list \<times> nat list"

text \<open>The methods that add a specification; an object without the method raises.\<close>

definition file_add_class :: "file_spec \<Rightarrow> string \<Rightarrow> nat \<Rightarrow> file_spec" where
  "file_add_class f nm r = f\<lparr>class_specs := dset (class_specs f) nm r\<rparr>"

definition file_add_func :: "file_spec \<Rightarrow> func_spec \<Rightarrow> file_spec" where
  "file_add_func f s = f\<lparr>func_specs := dset (func_specs f) (func_name s) s\<rparr>"

definition file_add_global_var :: "file_spec \<Rightarrow> global_var \<Rightarrow> file_spec" where
  "file_add_global_var f s = f\<lparr>global_var_spec := dset (global_var_spec f) (global_var_name s) s\<rparr>"

definition class_add_func :: "class_spec \<Rightarrow> func_spec \<Rightarrow> class_spec" where
  "class_add_func c s = c\<lparr>class_funcs := dset (class_funcs c) (func_name s) s\<rparr>"

definition add_spec :: "spec_obj list \<Rightarrow> nat \<Rightarrow> nat \<Rightarrow> spec_obj list res" where
  "add_spec objs parent r =
     (case (objs ! parent, objs ! r) of
        (File_Obj f, Class_Obj c) \<Rightarrow> Inr (objs[parent := File_Obj (file_add_class f (class_name c) r)])
      | (File_Obj f, Func_Obj s) \<Rightarrow> Inr (objs[parent := File_Obj (file_add_func f s)])
      | (File_Obj f, Global_Obj v) \<Rightarrow> Inr (objs[parent := File_Obj (file_add_global_var f v)])
      | (Class_Obj c, Func_Obj s) \<Rightarrow> Inr (objs[parent := Class_Obj (class_add_func c s)])
      | _ \<Rightarrow> Inl AttributeError)"

text \<open>Every branch of the readers ends in the same statements: the new object becomes the innermost
  one of its level and is added to the object of the level above.\<close>

definition enter_spec :: "spec_state \<Rightarrow> nat \<Rightarrow> spec_obj \<Rightarrow> spec_state res" where
  "enter_spec st tree_idx obj = (case st of (objs, spec_tree) \<Rightarrow>
     let r = length objs;
         spec_tree = (if length spec_tree < tree_idx + 1 then spec_tree @ [r] else spec_tree[tree_idx := r]) in
     if length spec_tree \<le> tree_idx - 1 then Inl IndexError
     else bindE (add_spec (objs @ [obj]) (spec_tree ! (tree_idx - 1)) r) (\<lambda>objs. Inr (objs, spec_tree)))"

section \<open>One line\<close>

function get_tree_idx :: "string \<Rightarrow> nat" where
  "get_tree_idx s = (if startswith s ''    '' then 1 + get_tree_idx (drop 4 s) else 1)"
  by pat_completeness auto
termination
  by (relation "measure length") (auto simp: startswith_iff)

declare get_tree_idx.simps [simp del]

definition s_index :: "string \<Rightarrow> string \<Rightarrow> nat res" where
  "s_index s p = (case s_find s p of None \<Rightarrow> Inl ValueError | Some i \<Rightarrow> Inr i)"

definition slice :: "nat \<Rightarrow> nat \<Rightarrow> string \<Rightarrow> string" where
  "slice a b s = drop a (take b s)"

definition s_isupper :: "string \<Rightarrow> bool" where
  "s_isupper s \<longleftrightarrow> list_ex c_upper s \<and> \<not> list_ex c_lower s"

definition rstrip :: "string \<Rightarrow> string" where
  "rstrip s = s_rstrip c_space s"

definition is_global_variable :: "string \<Rightarrow> bool" where
  "is_global_variable spec_line =
     (if startswith spec_line ''    '' then False
      else case s_find spec_line ''='' of
        None \<Rightarrow> False
      | Some i \<Rightarrow> list_all s_isupper (s_split ''_'' (rstrip (take i spec_line))))"

text \<open>The text between the first opening and the first closing parenthesis.\<close>

definition paren_parts :: "string \<Rightarrow> string list res" where
  "paren_parts line =
     bindE (s_index line ''('') (\<lambda>i. bindE (s_index line '')'') (\<lambda>j.
       Inr (s_split '','' (slice (i + 1) j line))))"

definition get_class_spec_info :: "spec_state \<Rightarrow> string \<Rightarrow> spec_state res" where
  "get_class_spec_info st spec_line =
     (let tree_idx = get_tree_idx spec_line in
      bindE (if s_contains spec_line ''('' then
               bindE (s_index spec_line ''('') (\<lambda>i.
               bindE (paren_parts spec_line) (\<lambda>supers.
                 Inr (new_class (slice 6 i spec_line) supers)))
             else Inr (new_class (drop 6 (butlast spec_line)) []))
        (\<lambda>c. enter_spec st tree_idx (Class_Obj c)))"

definition get_def_spec_info :: "spec_state \<Rightarrow> string \<Rightarrow> spec_state res" where
  "get_def_spec_info st spec_line =
     (let tree_idx = get_tree_idx spec_line; spec_line = s_strip spec_line in
      bindE (s_index spec_line ''('') (\<lambda>i.
      bindE (paren_parts spec_line) (\<lambda>parts.
        enter_spec st tree_idx
          (Func_Obj \<lparr>func_name = slice 4 i spec_line, func_params = map s_strip parts\<rparr>))))"

definition get_global_var_spec_info :: "spec_state \<Rightarrow> string \<Rightarrow> spec_state res" where
  "get_global_var_spec_info st spec_line =
     (let tree_idx = get_tree_idx spec_line in
      bindE (s_index spec_line ''='') (\<lambda>i.
        let name = rstrip (take i spec_line); values = drop (length name + 3) spec_line in
        enter_spec st tree_idx (Global_Obj \<lparr>global_var_name = name, global_var_values = values\<rparr>)))"

text \<open>One line of a description, after the test for the name of a source.\<close>

definition declaration_line :: "spec_state \<Rightarrow> string \<Rightarrow> spec_state res" where
  "declaration_line st spec_line =
     (if startswith spec_line ''#'' then Inr st
      else if s_contains spec_line ''class'' then get_class_spec_info st spec_line
      else if s_contains spec_line ''def'' then get_def_spec_info st spec_line
      else if is_global_variable spec_line then get_global_var_spec_info st spec_line
      else Inr st)"

section \<open>The two readers\<close>

text \<open>
  The reader of sources, \<^verbatim>\<open>build_file_spec\<close>, has its own copy of these statements, written out in one loop; the two
  copies are kept apart here. That they are the same is proved below.
\<close>

definition build_enter :: "spec_state \<Rightarrow> nat \<Rightarrow> spec_obj \<Rightarrow> spec_state res" where
  "build_enter st tree_idx spec = (case st of (objs, spec_tree) \<Rightarrow>
     let new = length objs;
         objs = objs @ [spec];
         spec_tree = (if length spec_tree < tree_idx + 1 then spec_tree @ [new]
                      else list_update spec_tree tree_idx new) in
     if tree_idx - 1 < length spec_tree
     then bindE (add_spec objs (spec_tree ! (tree_idx - 1)) new) (\<lambda>objs. Inr (objs, spec_tree))
     else Inl IndexError)"

definition build_class :: "spec_state \<Rightarrow> string \<Rightarrow> spec_state res" where
  "build_class st spec_line =
     (let tree_idx = get_tree_idx spec_line in
      if s_contains spec_line ''('' then
        bindE (s_index spec_line ''('') (\<lambda>i.
        bindE (s_index spec_line ''('') (\<lambda>a. bindE (s_index spec_line '')'') (\<lambda>b.
          build_enter st tree_idx (Class_Obj
            \<lparr>class_name = drop 6 (take i spec_line), super_classes = s_split '','' (slice (a + 1) b spec_line), class_funcs = []\<rparr>))))
      else build_enter st tree_idx (Class_Obj
             \<lparr>class_name = drop 6 (butlast spec_line), super_classes = [], class_funcs = []\<rparr>))"

definition build_def :: "spec_state \<Rightarrow> string \<Rightarrow> spec_state res" where
  "build_def st line =
     (let tree_idx = get_tree_idx line; spec_line = s_strip line in
      bindE (s_index spec_line ''('') (\<lambda>i.
      bindE (s_index spec_line ''('') (\<lambda>a. bindE (s_index spec_line '')'') (\<lambda>b.
        build_enter st tree_idx (Func_Obj
          \<lparr>func_name = drop 4 (take i spec_line), func_params = map s_strip (s_split '','' (slice (a + 1) b spec_line))\<rparr>)))))"

definition build_global_var :: "spec_state \<Rightarrow> string \<Rightarrow> spec_state res" where
  "build_global_var st spec_line =
     (let tree_idx = get_tree_idx spec_line in
      bindE (s_index spec_line ''='') (\<lambda>i.
        let var = rstrip (take i spec_line) in
        build_enter st tree_idx (Global_Obj
          \<lparr>global_var_name = var, global_var_values = drop (length var + 3) spec_line\<rparr>)))"

definition build_line :: "spec_state \<Rightarrow> string \<Rightarrow> spec_state res" where
  "build_line st line =
     (let spec_line = rstrip line in
      if startswith spec_line ''#'' then Inr st
      else if s_contains spec_line ''class'' then build_class st spec_line
      else if s_contains spec_line ''def'' then build_def st spec_line
      else if is_global_variable spec_line then build_global_var st spec_line
      else Inr st)"

definition build_file_spec :: "string list \<Rightarrow> file_spec \<Rightarrow> spec_obj list res" where
  "build_file_spec spec_lines f =
     bindE (foldE build_line ([File_Obj f], [0]) spec_lines) (\<lambda>st. Inr (fst st))"

text \<open>Line by line the two copies do the same.\<close>

lemma build_enter_same: "build_enter st i obj = enter_spec st i obj"
  by (cases st) (simp add: build_enter_def enter_spec_def Let_def not_le [symmetric])

lemma build_line_same: "build_line st line = declaration_line st (rstrip line)"
  by (simp add: build_line_def declaration_line_def Let_def build_class_def get_class_spec_info_def
      build_def_def get_def_spec_info_def build_global_var_def get_global_var_spec_info_def build_enter_same
      paren_parts_def slice_def new_class_def bindE_assoc)

lemma build_file_spec_eq:
  "build_file_spec spec_lines f =
     bindE (foldE (\<lambda>st line. declaration_line st (rstrip line)) ([File_Obj f], [0]) spec_lines)
       (\<lambda>st. Inr (fst st))"
proof -
  have "build_line = (\<lambda>st line. declaration_line st (rstrip line))" by (intro ext) (rule build_line_same)
  then show ?thesis by (simp add: build_file_spec_def)
qed

text \<open>The reader of descriptions: a comment names the source of the declarations below it. The list
  of files is a list of references.\<close>

type_synonym spec_files = "spec_state \<times> nat list"

definition spec_line_step :: "string \<Rightarrow> spec_files \<Rightarrow> string \<Rightarrow> spec_files res" where
  "spec_line_step spec_file st raw = (case st of ((objs, spec_tree), file_spec_list) \<Rightarrow>
     let spec_line = rstrip raw in
     if s_contains spec_line ''# source file:'' then
       let r = length objs; f = new_file spec_file (s_strip (drop 14 spec_line)) in
       Inr ((objs @ [File_Obj f], if spec_tree = [] then [r] else spec_tree[0 := r]), file_spec_list @ [r])
     else bindE (declaration_line (objs, spec_tree) spec_line) (\<lambda>st. Inr (st, file_spec_list)))"

definition process_spec_file ::
    "(string \<Rightarrow> string list) \<Rightarrow> string \<Rightarrow> spec_obj list \<times> nat list \<Rightarrow> string \<Rightarrow> (spec_obj list \<times> nat list) res" where
  "process_spec_file read_lines specs_dir st spec_file = (case st of (objs, file_spec_list) \<Rightarrow>
     if \<not> endswith spec_file ''pyh'' then Inr (objs, file_spec_list)
     else bindE (foldE (spec_line_step spec_file) ((objs, []), file_spec_list)
                   (read_lines (path_join specs_dir spec_file)))
            (\<lambda>st. Inr (fst (fst st), snd st)))"

definition process_dir ::
    "(string \<Rightarrow> string list) \<Rightarrow> fs \<Rightarrow> spec_obj list \<times> nat list \<Rightarrow> string \<Rightarrow> (spec_obj list \<times> nat list) res" where
  "process_dir read_lines f st dir = foldE (process_spec_file read_lines dir) st (fs_listdir f dir)"

definition traversal_dir :: "fs \<Rightarrow> string \<Rightarrow> string list" where
  "traversal_dir f path =
     (if fs_exists f path then filter (fs_isdir f) (map (path_join path) (fs_listdir f path)) else [])"

definition get_spec_info_list :: "(string \<Rightarrow> string list) \<Rightarrow> fs \<Rightarrow> string \<Rightarrow> (spec_obj list \<times> nat list) res" where
  "get_spec_info_list read_lines f specs_dir =
     (let sub_dirs = traversal_dir f specs_dir in
      bindE (process_dir read_lines f ([], []) specs_dir)
        (\<lambda>st. foldE (process_dir read_lines f) st
                (concat (map (\<lambda>d. d # traversal_dir f d) sub_dirs))))"

section \<open>The lines of a source\<close>

definition quotes :: string where
  "quotes = replicate 3 (CHR 0x22)"

text \<open>The state of the loop: the lines kept, whether the loop is inside a text block, whether the
  last declaration is complete.\<close>

type_synonym source_state = "string list \<times> bool \<times> bool"

definition get_new_lines :: "string \<Rightarrow> source_state \<Rightarrow> source_state" where
  "get_new_lines line st = (case st of (new_lines, block_comment, line_end) \<Rightarrow>
     if s_contains line ''def '' \<or> s_contains line ''class '' then
       (new_lines @ [rstrip line], block_comment, if endswith (rstrip line) '':'' then line_end else False)
     else if is_global_variable line then (new_lines @ [rstrip line], block_comment, line_end)
     else (new_lines, block_comment, line_end))"

definition cut_comment :: "string \<Rightarrow> string" where
  "cut_comment line = (case s_find line ''#'' of None \<Rightarrow> line | Some i \<Rightarrow> take i line)"

definition source_line_step :: "source_state \<Rightarrow> string \<Rightarrow> source_state res" where
  "source_line_step st line = (case st of (new_lines, block_comment, line_end) \<Rightarrow>
     let tmp_line = s_strip line in
     if block_comment then Inr (new_lines, \<not> s_contains tmp_line quotes, line_end)
     else if startswith tmp_line ''#'' then Inr st
     else if s_contains tmp_line quotes \<and> \<not> endswith tmp_line quotes then Inr (new_lines, True, line_end)
     else let line = cut_comment line in
       if line_end then Inr (get_new_lines line st)
       else if new_lines = [] then Inl IndexError
       else Inr (butlast new_lines @ [last new_lines @ s_strip line], block_comment,
                 endswith (rstrip line) '':''))"

definition get_spec_from_file :: "string list \<Rightarrow> string list res" where
  "get_spec_from_file lines = bindE (foldE source_line_step ([], False, True) lines) (\<lambda>st. Inr (fst st))"

text \<open>Functions defined inside functions are dropped. \<^verbatim>\<open>type_name\<close> keeps the value of the
  previous line when a line is none of the three kinds; it has none before the first line.\<close>

definition line_type :: "string option \<Rightarrow> string \<Rightarrow> string option" where
  "line_type type_name line =
     (if startswith (s_strip line) ''def '' then Some ''func''
      else if startswith (s_strip line) ''class '' then Some ''class''
      else if is_global_variable line then
        (case s_find line ''='' of None \<Rightarrow> type_name | Some i \<Rightarrow> Some (rstrip (take i line)))
      else type_name)"

fun remove_sub_func :: "string option \<Rightarrow> string list \<Rightarrow> string list \<Rightarrow> string list res" where
  "remove_sub_func prev tree_info [] = Inr []"
| "remove_sub_func prev tree_info (line # lines) =
     (let idx = get_tree_idx line in
      case line_type prev line of
        None \<Rightarrow> Inl NameError
      | Some type_name \<Rightarrow>
          if type_name = ''func'' \<and> tree_info ! (min (length tree_info - 1) (idx - 1)) = ''func''
          then remove_sub_func (Some type_name) tree_info lines
          else bindE (remove_sub_func (Some type_name)
                 (if length tree_info \<le> idx then tree_info @ [type_name] else tree_info[idx := type_name]) lines)
               (\<lambda>rest. Inr (line # rest)))"

definition remove_sub_func_under_func :: "string list \<Rightarrow> string list res" where
  "remove_sub_func_under_func lines = remove_sub_func None [''''] lines"

end
