(* ===== verification/Intf_Check.thy ===== *)
theory Intf_Check
  imports Intf_Spec "HOL-Library.Char_ord" "HOL-Library.List_Lexorder" "HOL-Library.Multiset"
begin

text \<open>
  The second half of the interface checker, \<^verbatim>\<open>cann_check_interface.py\<close>: the comparison of an
  interface description with the declarations of its source, and the whole check. Strings are
  ordered by their characters, as Python orders them.
\<close>

section \<open>Comparing\<close>

definition public_names :: "(string \<times> 'v) list \<Rightarrow> string list" where
  "public_names d = sort (filter (\<lambda>x. \<not> startswith x ''__'' \<and> \<not> startswith x ''_'') (map fst d))"

definition compare_func_spec :: "func_spec \<Rightarrow> func_spec \<Rightarrow> bool" where
  "compare_func_spec spec1 spec2 \<longleftrightarrow>
     sort (map s_strip (func_params spec1)) = sort (map s_strip (func_params spec2))"

text \<open>\<^verbatim>\<open>build_diff_list_result\<close> aligns two lists; \<open>gap\<close> is the row of underscores beside a name
  that the other list does not have. The arguments are what is left of the two lists.\<close>

definition gap :: "string \<Rightarrow> string" where
  "gap x = replicate (length x) (CHR ''_'')"

fun diff_loop :: "string list \<Rightarrow> string list \<Rightarrow> string list \<Rightarrow> string list \<Rightarrow> string list \<times> string list" where
  "diff_loop names1 names2 (x # xs) (y # ys) =
     (if x = y then (case diff_loop names1 names2 xs ys of (l, r) \<Rightarrow> (x # l, y # r))
      else if x \<in> set names2 then (case diff_loop names1 names2 (x # xs) ys of (l, r) \<Rightarrow> (gap y # l, y # r))
      else if y \<in> set names1 then (case diff_loop names1 names2 xs (y # ys) of (l, r) \<Rightarrow> (x # l, gap x # r))
      else (case diff_loop names1 names2 xs ys of (l, r) \<Rightarrow> (x # gap y # l, gap x # y # r)))"
| "diff_loop names1 names2 [] ys = (map gap ys, ys)"
| "diff_loop names1 names2 xs [] = (xs, map gap xs)"

definition build_diff_list_result :: "string list \<Rightarrow> string list \<Rightarrow> string list \<times> string list" where
  "build_diff_list_result xs ys = diff_loop xs ys xs ys"

text \<open>A check over names: the loops go on after a mismatch, but a missing key stops them.\<close>

definition all_match :: "('a \<Rightarrow> bool res) \<Rightarrow> 'a list \<Rightarrow> bool res" where
  "all_match f xs = bindE (mapE f xs) (\<lambda>bs. Inr (list_all (\<lambda>b. b) bs))"

definition compare_class_spec :: "class_spec \<Rightarrow> class_spec \<Rightarrow> bool res" where
  "compare_class_spec spec1 spec2 =
     (let func_names_1 = public_names (class_funcs spec1); func_names_2 = public_names (class_funcs spec2);
          diff_print_name1 = (if func_names_1 \<noteq> func_names_2
            then fst (build_diff_list_result func_names_1 func_names_2) else func_names_1) in
      bindE (all_match (\<lambda>n. if startswith n ''_'' then Inr True
                else bindE (ditem (class_funcs spec1) n) (\<lambda>f1.
                     bindE (ditem (class_funcs spec2) n) (\<lambda>f2. Inr (compare_func_spec f1 f2))))
               diff_print_name1)
        (\<lambda>b. Inr (func_names_1 = func_names_2 \<and> b)))"

definition compare_global_var_spec :: "global_var \<Rightarrow> global_var \<Rightarrow> bool" where
  "compare_global_var_spec spec1 spec2 \<longleftrightarrow>
     sort (map (\<lambda>c. s_strip [c]) (global_var_values spec1))
       = sort (map (\<lambda>c. s_strip [c]) (global_var_values spec2))"

text \<open>The loop shared by global variables and functions.\<close>

definition compare_pairs ::
    "('v \<Rightarrow> 'v \<Rightarrow> bool) \<Rightarrow> (string \<times> 'v) list \<Rightarrow> (string \<times> 'v) list \<Rightarrow> string list \<Rightarrow> string list \<Rightarrow> bool res" where
  "compare_pairs cmp d1 d2 names1 names2 =
     (let (l, r) = (if names1 \<noteq> names2 then build_diff_list_result names1 names2 else (names1, names2)) in
      bindE (all_match (\<lambda>(n1, n2). if n1 \<noteq> n2 then Inr False
                else bindE (ditem d1 n1) (\<lambda>v1. bindE (ditem d2 n2) (\<lambda>v2. Inr (cmp v1 v2))))
               (zip l r))
        (\<lambda>b. Inr (names1 = names2 \<and> b)))"

definition compare_global_var :: "file_spec \<Rightarrow> file_spec \<Rightarrow> bool res" where
  "compare_global_var spec1 spec2 =
     compare_pairs compare_global_var_spec (global_var_spec spec1) (global_var_spec spec2)
       (sort (map (s_strip \<circ> fst) (global_var_spec spec1)))
       (sort (map (s_strip \<circ> fst) (global_var_spec spec2)))"

definition compare_func :: "file_spec \<Rightarrow> file_spec \<Rightarrow> bool res" where
  "compare_func spec1 spec2 =
     compare_pairs compare_func_spec (func_specs spec1) (func_specs spec2)
       (public_names (func_specs spec1)) (public_names (func_specs spec2))"

definition class_at :: "spec_obj list \<Rightarrow> nat \<Rightarrow> class_spec res" where
  "class_at objs r = (case objs ! r of Class_Obj c \<Rightarrow> Inr c | _ \<Rightarrow> Inl AttributeError)"

definition compare_class ::
    "spec_obj list \<Rightarrow> file_spec \<Rightarrow> spec_obj list \<Rightarrow> file_spec \<Rightarrow> bool res" where
  "compare_class objs1 spec1 objs2 spec2 =
     (let class_name1 = sort (map (s_strip \<circ> fst) (class_specs spec1));
          class_name2 = sort (map (s_strip \<circ> fst) (class_specs spec2)) in
      if class_name1 = [] \<and> class_name2 \<noteq> [] then Inr (startswith (hd class_name2) ''_'')
      else if class_name1 \<noteq> class_name2 then Inr False
      else all_match (\<lambda>n.
             bindE (ditem (class_specs spec1) n) (\<lambda>r1. bindE (ditem (class_specs spec2) n) (\<lambda>r2.
             bindE (class_at objs1 r1) (\<lambda>c1. bindE (class_at objs2 r2) (\<lambda>c2.
               compare_class_spec c1 c2))))) class_name1)"

definition compare_file_spec ::
    "spec_obj list \<Rightarrow> file_spec \<Rightarrow> spec_obj list \<Rightarrow> file_spec \<Rightarrow> bool res" where
  "compare_file_spec objs1 spec1 objs2 spec2 =
     bindE (compare_global_var spec1 spec2) (\<lambda>g.
     bindE (compare_func spec1 spec2) (\<lambda>f.
     bindE (compare_class objs1 spec1 objs2 spec2) (\<lambda>c. Inr (g \<and> f \<and> c))))"

section \<open>The whole check\<close>

record intf_env =
  ie_fs :: fs
  ie_lines :: "string \<Rightarrow> string list"
  tbe_root :: string
  specs_dir :: string

definition replace_if_found :: "string \<Rightarrow> string \<Rightarrow> string \<Rightarrow> string" where
  "replace_if_found old new path = (if s_contains path old then s_replace path old new else path)"

definition source_path :: "intf_env \<Rightarrow> string \<Rightarrow> string" where
  "source_path env name =
     (let p = fs_realpath (ie_fs env) (path_join (tbe_root env) name);
          p = (if s_contains p ''/te/'' then s_replace p ''/te'' [] else p);
          p = replace_if_found ''/cann/cann/'' ''/cann/'' p
      in replace_if_found ''/canndev/cann/'' ''/canndev/'' p)"

definition file_at :: "spec_obj list \<Rightarrow> nat \<Rightarrow> file_spec res" where
  "file_at objs r = (case objs ! r of File_Obj f \<Rightarrow> Inr f | _ \<Rightarrow> Inl AttributeError)"

definition source_spec :: "string \<Rightarrow> string list \<Rightarrow> spec_obj list res" where
  "source_spec path lines =
     bindE (get_spec_from_file lines) (\<lambda>lines.
     bindE (remove_sub_func_under_func lines) (\<lambda>new_lines.
       build_file_spec new_lines (new_file [] path)))"

definition check_source_file_match :: "intf_env \<Rightarrow> spec_obj list \<Rightarrow> nat \<Rightarrow> bool res" where
  "check_source_file_match env objs r =
     bindE (file_at objs r) (\<lambda>defined_spec.
     let path = source_path env (source_file_name defined_spec) in
     bindE (source_spec path (ie_lines env path)) (\<lambda>objs2.
     bindE (file_at objs2 0) (\<lambda>spec_in_source.
       compare_file_spec objs defined_spec objs2 spec_in_source)))"

definition check_all :: "intf_env \<Rightarrow> bool res" where
  "check_all env =
     bindE (get_spec_info_list (ie_lines env) (ie_fs env) (specs_dir env)) (\<lambda>(objs, file_spec_list).
       all_match (check_source_file_match env objs) file_spec_list)"

section \<open>The alignment\<close>

definition public_name :: "string \<Rightarrow> bool" where
  "public_name n \<longleftrightarrow> n \<noteq> [] \<and> \<not> startswith n ''_''"

definition aligned :: "string \<Rightarrow> string \<Rightarrow> bool" where
  "aligned a b \<longleftrightarrow> public_name a \<and> b = a \<or> public_name a \<and> b = gap a \<or> public_name b \<and> a = gap b"

lemma gap_not_public [simp]: "\<not> public_name (gap x)"
  by (cases x) (simp_all add: public_name_def gap_def startswith_def)

lemma public_not_gap: "public_name x \<Longrightarrow> x \<noteq> gap y"
  using gap_not_public by blast

lemma public_gap: "public_name x \<Longrightarrow> startswith (gap x) ''_''"
  by (cases x) (simp_all add: public_name_def gap_def startswith_def)

lemma gaps_aligned:
  "list_all public_name xs \<Longrightarrow> list_all2 aligned (map gap xs) xs"
  "list_all public_name xs \<Longrightarrow> list_all2 aligned xs (map gap xs)"
  by (simp_all add: list_all2_conv_all_nth list_all_length aligned_def)

lemma diff_loop_aligned:
  assumes "list_all public_name xs" and "list_all public_name ys"
  shows "case diff_loop names1 names2 xs ys of (l, r) \<Rightarrow>
    filter public_name l = xs \<and> filter public_name r = ys \<and> list_all2 aligned l r"
  using assms
proof (induction names1 names2 xs ys rule: diff_loop.induct)
  case (1 names1 names2 x xs y ys)
  then show ?case
    by (cases "x = y") (auto split: prod.splits simp: aligned_def)
next
  case (2 names1 names2 ys)
  then show ?case by (simp add: gaps_aligned filter_map o_def list_all_iff filter_id_conv)
next
  case (3 names1 names2 v va)
  have "filter public_name (map gap (v # va)) = []" by (simp add: filter_map o_def)
  with 3 show ?case using gaps_aligned(2) [of "v # va"] by (simp add: list_all_iff filter_id_conv del: list.map)
qed

lemma diff_loop_left:
  assumes "list_all public_name xs" and "list_all public_name ys"
  shows "list_all (\<lambda>n. public_name n \<or> startswith n ''_'') (fst (diff_loop names1 names2 xs ys))"
  using assms
proof (induction names1 names2 xs ys rule: diff_loop.induct)
  case (1 names1 names2 x xs y ys)
  then show ?case
    by (cases "x = y") (auto split: prod.splits simp: public_gap)
next
  case (2 names1 names2 ys)
  then show ?case by (auto simp: list_all_iff public_gap)
next
  case (3 names1 names2 v va)
  then show ?case by (auto simp: list_all_iff)
qed

theorem diff_is_alignment:
  assumes "list_all public_name xs" and "list_all public_name ys"
    and "build_diff_list_result xs ys = (l, r)"
  shows "filter public_name l = xs \<and> filter public_name r = ys \<and> list_all2 aligned l r"
  using diff_loop_aligned [OF assms(1,2), of xs ys] assms(3) by (simp add: build_diff_list_result_def)

theorem diff_is_alignment_witness:
  "build_diff_list_result [''add'', ''mul'', ''sub''] [''add'', ''div'', ''sub''] =
     ([''add'', ''mul'', ''___'', ''sub''], [''add'', ''___'', ''div'', ''sub''])
   \<and> filter public_name [''add'', ''mul'', ''___'', ''sub''] = [''add'', ''mul'', ''sub'']"
proof -
  have run: "build_diff_list_result [''add'', ''mul'', ''sub''] [''add'', ''div'', ''sub''] =
     ([''add'', ''mul'', ''___'', ''sub''], [''add'', ''___'', ''div'', ''sub''])" by code_simp
  have "list_all public_name [''add'', ''mul'', ''sub'']" "list_all public_name [''add'', ''div'', ''sub'']"
    by code_simp+
  from diff_is_alignment [OF this run] run show ?thesis by simp
qed

section \<open>What the comparison accepts\<close>

definition agree :: "('v \<Rightarrow> 'v \<Rightarrow> bool) \<Rightarrow> (string \<times> 'v) list \<Rightarrow> (string \<times> 'v) list \<Rightarrow> bool" where
  "agree cmp d1 d2 \<longleftrightarrow> (\<forall>n. rel_option cmp (map_of d1 n) (map_of d2 n))"

definition public_part :: "(string \<times> 'v) list \<Rightarrow> (string \<times> 'v) list" where
  "public_part d = filter (\<lambda>(n, _). public_name n) d"

definition same_params :: "func_spec \<Rightarrow> func_spec \<Rightarrow> bool" where
  "same_params f g \<longleftrightarrow> mset (map s_strip (func_params f)) = mset (map s_strip (func_params g))"

definition same_characters :: "global_var \<Rightarrow> global_var \<Rightarrow> bool" where
  "same_characters v w \<longleftrightarrow>
     mset (map (\<lambda>c. s_strip [c]) (global_var_values v)) = mset (map (\<lambda>c. s_strip [c]) (global_var_values w))"

lemma sort_eq_iff: "sort xs = sort ys \<longleftrightarrow> mset xs = mset ys"
  by (metis mset_sort properties_for_sort sorted_sort)

lemma compare_func_spec_eq: "compare_func_spec = same_params"
  by (intro ext) (simp add: compare_func_spec_def same_params_def sort_eq_iff)

lemma compare_global_var_spec_eq: "compare_global_var_spec = same_characters"
  by (intro ext) (simp add: compare_global_var_spec_def same_characters_def sort_eq_iff)

lemma all_match_Inr:
  assumes "\<And>x. x \<in> set xs \<Longrightarrow> f x = Inr (g x)"
  shows "all_match f xs = Inr (list_all g xs)"
proof -
  have "mapE f xs = mapE (\<lambda>x. Inr (g x)) xs" using assms by (intro mapE_cong) auto
  then show ?thesis by (simp add: all_match_def list_all_iff)
qed

lemma all_match_True: "all_match f xs = Inr True \<longleftrightarrow> list_all (\<lambda>x. f x = Inr True) xs"
proof (induction xs)
  case Nil
  then show ?case by (simp add: all_match_def)
next
  case (Cons x xs)
  then show ?case by (cases "f x"; cases "mapE f xs") (auto simp: all_match_def)
qed

lemma agree_keys: "agree cmp d1 d2 \<Longrightarrow> set (map fst d1) = set (map fst d2)"
proof -
  assume a: "agree cmp d1 d2"
  have "n \<in> set (map fst d1) \<longleftrightarrow> n \<in> set (map fst d2)" for n
  proof -
    have "rel_option cmp (map_of d1 n) (map_of d2 n)" using a by (simp add: agree_def)
    then have "map_of d1 n = None \<longleftrightarrow> map_of d2 n = None" by (cases "map_of d1 n"; cases "map_of d2 n") auto
    then show ?thesis by (simp add: map_of_eq_None_iff)
  qed
  then show ?thesis by blast
qed

lemma sort_keys_eq:
  assumes "distinct (map fst d1)" and "distinct (map fst d2)"
  shows "sort (map fst d1) = sort (map fst d2) \<longleftrightarrow> set (map fst d1) = set (map fst d2)"
  by (simp only: sort_eq_iff set_eq_iff_mset_eq_distinct [OF assms])

lemma agree_iff:
  assumes "set (map fst d1) = set (map fst d2)"
  shows "agree cmp d1 d2 \<longleftrightarrow>
    list_all (\<lambda>n. rel_option cmp (map_of d1 n) (map_of d2 n)) (map fst d1)"
proof
  assume "agree cmp d1 d2"
  then show "list_all (\<lambda>n. rel_option cmp (map_of d1 n) (map_of d2 n)) (map fst d1)"
    by (simp add: agree_def list_all_iff)
next
  assume a: "list_all (\<lambda>n. rel_option cmp (map_of d1 n) (map_of d2 n)) (map fst d1)"
  have "rel_option cmp (map_of d1 n) (map_of d2 n)" for n
  proof (cases "n \<in> set (map fst d1)")
    case True
    then show ?thesis using a by (auto simp: list_all_iff)
  next
    case False
    then have "map_of d1 n = None" "map_of d2 n = None" using assms by (simp_all add: map_of_eq_None_iff)
    then show ?thesis by simp
  qed
  then show "agree cmp d1 d2" by (simp add: agree_def)
qed


lemma compare_pairs_eq:
  assumes d: "distinct (map fst e1)" "distinct (map fst e2)"
    and p: "list_all public_name (map fst e1)" "list_all public_name (map fst e2)"
    and e1: "\<And>n. n \<in> set (map fst e1) \<Longrightarrow> map_of d1 n = map_of e1 n"
    and e2: "\<And>n. n \<in> set (map fst e2) \<Longrightarrow> map_of d2 n = map_of e2 n"
  shows "compare_pairs cmp d1 d2 (sort (map fst e1)) (sort (map fst e2)) = Inr (agree cmp e1 e2)"
proof -
  let ?n1 = "sort (map fst e1)" and ?n2 = "sort (map fst e2)"
  let ?f = "\<lambda>(n1, n2). if n1 \<noteq> n2 then Inr False
     else bindE (ditem d1 n1) (\<lambda>v1. bindE (ditem d2 n2) (\<lambda>v2. Inr (cmp v1 v2)))"
  let ?g = "\<lambda>(n1, n2). n1 = n2 \<and> rel_option cmp (map_of e1 n1) (map_of e2 n2)"
  have f: "?f (n, n) = Inr (?g (n, n))" if "n \<in> set (map fst e1)" "n \<in> set (map fst e2)" for n
  proof -
    from that(1) have "map_of e1 n \<noteq> None" by (simp add: map_of_eq_None_iff)
    then obtain v1 where v1: "map_of e1 n = Some v1" by blast
    from that(2) have "map_of e2 n \<noteq> None" by (simp add: map_of_eq_None_iff)
    then obtain v2 where v2: "map_of e2 n = Some v2" by blast
    have "map_of d1 n = Some v1" "map_of d2 n = Some v2" using e1 [OF that(1)] e2 [OF that(2)] v1 v2 by simp_all
    then show ?thesis using v1 v2 by (simp add: ditem_def)
  qed
  show ?thesis
  proof (cases "?n1 = ?n2")
    case True
    then have keys: "set (map fst e1) = set (map fst e2)" by (metis set_sort)
    have "all_match ?f (zip ?n1 ?n1) = Inr (list_all ?g (zip ?n1 ?n1))"
    proof (rule all_match_Inr)
      fix x assume "x \<in> set (zip ?n1 ?n1)"
      then obtain n where n: "x = (n, n)" "n \<in> set (map fst e1)" by (auto simp: zip_same_conv_map)
      then have "n \<in> set (map fst e2)" unfolding keys [symmetric] by simp
      from f [OF n(2) this] show "?f x = Inr (?g x)" by (simp only: n(1))
    qed
    moreover have "set (zip ?n1 ?n1) = (\<lambda>n. (n, n)) ` set (map fst e1)" by (simp add: zip_same_conv_map)
    then have "list_all ?g (zip ?n1 ?n1) \<longleftrightarrow> agree cmp e1 e2"
      unfolding agree_iff [OF keys] list_all_iff by simp
    ultimately show ?thesis using True [symmetric] by (simp add: compare_pairs_def)
  next
    case False
    obtain l r where lr: "build_diff_list_result ?n1 ?n2 = (l, r)" by fastforce
    have "list_all public_name ?n1" "list_all public_name ?n2" using p by (simp_all add: list_all_iff)
    from diff_loop_aligned [OF this, of ?n1 ?n2] lr
    have al: "filter public_name l = ?n1" "filter public_name r = ?n2" "list_all2 aligned l r"
      by (simp_all add: build_diff_list_result_def)
    have "all_match ?f (zip l r) = Inr (list_all ?g (zip l r))"
    proof (rule all_match_Inr)
      fix x assume x: "x \<in> set (zip l r)"
      obtain n1 n2 where n: "x = (n1, n2)" by (cases x)
      show "?f x = Inr (?g x)"
      proof (cases "n1 = n2")
        case True
        have "\<forall>(a, b)\<in>set (zip l r). aligned a b" using al(3) by (simp add: list_all2_iff)
        with x n have "aligned n1 n2" by blast
        with True have "public_name n1" using gap_not_public [of n1] by (auto simp: aligned_def)
        moreover have "n1 \<in> set l" "n1 \<in> set r" using x n True by (auto dest: set_zip_leftD set_zip_rightD)
        ultimately have "n1 \<in> set (filter public_name l)" "n1 \<in> set (filter public_name r)" by simp_all
        then show ?thesis using f [of n1] al True n by simp
      next
        case False
        then show ?thesis by (simp add: n)
      qed
    qed
    moreover have "\<not> agree cmp e1 e2" using False agree_keys [of cmp e1 e2] sort_keys_eq [OF d] by blast
    ultimately show ?thesis using False lr by (simp add: compare_pairs_def)
  qed
qed


definition funcs_ok :: "(string \<times> func_spec) list \<Rightarrow> bool" where
  "funcs_ok d \<longleftrightarrow> distinct (map fst d) \<and> list_all (\<lambda>n. n \<noteq> []) (map fst d)"

definition methods :: "class_spec \<Rightarrow> (string \<times> func_spec) list" where
  "methods c = public_part (class_funcs c)"

lemma not_underscore: "\<not> startswith x ''__'' \<and> \<not> startswith x ''_'' \<longleftrightarrow> \<not> startswith x ''_''"
  by (auto simp: startswith_iff)

lemma public_part_keys: "map fst (public_part d) = filter public_name (map fst d)"
  by (induction d) (auto simp: public_part_def)

lemma public_part_ok:
  assumes "funcs_ok d"
  shows "distinct (map fst (public_part d))" and "list_all public_name (map fst (public_part d))"
    and "public_names d = sort (map fst (public_part d))"
proof -
  show "distinct (map fst (public_part d))" using assms by (simp add: public_part_keys funcs_ok_def)
  show "list_all public_name (map fst (public_part d))" by (simp add: public_part_keys list_all_iff)
  have "filter (\<lambda>x. \<not> startswith x ''_'') (map fst d) = filter public_name (map fst d)"
    using assms by (intro filter_cong) (auto simp: funcs_ok_def list_all_iff public_name_def)
  then show "public_names d = sort (map fst (public_part d))"
    by (simp only: public_names_def not_underscore public_part_keys)
qed

lemma map_of_public_part: "public_name n \<Longrightarrow> map_of (public_part d) n = map_of d n"
  by (induction d) (auto simp: public_part_def)

lemma map_of_public: "n \<in> set (map fst (public_part d)) \<Longrightarrow> map_of d n = map_of (public_part d) n"
  by (simp add: map_of_public_part public_part_keys)

lemma compare_func_eq:
  assumes "funcs_ok (func_specs f1)" and "funcs_ok (func_specs f2)"
  shows "compare_func f1 f2 = Inr (agree same_params (public_part (func_specs f1)) (public_part (func_specs f2)))"
  unfolding compare_func_def compare_func_spec_eq public_part_ok(3) [OF assms(1)] public_part_ok(3) [OF assms(2)]
  by (intro compare_pairs_eq map_of_public public_part_ok assms)

lemma mapE_mixed:
  assumes "\<And>x. x \<in> set xs \<Longrightarrow> f x = (if p x then Inr (g x) else Inl e)"
  shows "mapE f xs = (if list_all p xs then Inr (map g xs) else Inl e)"
  using assms by (induction xs) auto

lemma compare_class_spec_eq:
  assumes "funcs_ok (class_funcs c1)" and "funcs_ok (class_funcs c2)"
  shows "compare_class_spec c1 c2 =
    (if set (map fst (methods c1)) \<subseteq> set (map fst (methods c2))
     then Inr (agree same_params (methods c1) (methods c2)) else Inl KeyError)"
proof -
  note ok1 = public_part_ok [OF assms(1)] and ok2 = public_part_ok [OF assms(2)]
  let ?k1 = "map fst (methods c1)" and ?k2 = "map fst (methods c2)"
  let ?f = "\<lambda>n. if startswith n ''_'' then Inr True
     else bindE (ditem (class_funcs c1) n) (\<lambda>f1. bindE (ditem (class_funcs c2) n) (\<lambda>f2. Inr (compare_func_spec f1 f2)))"
  let ?p = "\<lambda>n. startswith n ''_'' \<or> n \<in> set ?k2"
  let ?g = "\<lambda>n. startswith n ''_'' \<or> rel_option same_params (map_of (methods c1) n) (map_of (methods c2) n)"
  have n1: "public_names (class_funcs c1) = sort ?k1" and n2: "public_names (class_funcs c2) = sort ?k2"
    using ok1(3) ok2(3) by (simp_all add: methods_def)
  define l where "l = (if sort ?k1 \<noteq> sort ?k2 then fst (build_diff_list_result (sort ?k1) (sort ?k2)) else sort ?k1)"
  have "list_all public_name (sort ?k1)" "list_all public_name (sort ?k2)"
    using ok1(2) ok2(2) by (simp_all add: methods_def list_all_iff)
  note pubs = this
  have pub: "filter public_name l = sort ?k1"
  proof (cases "sort ?k1 = sort ?k2")
    case True
    then show ?thesis using pubs(1) by (simp add: l_def list_all_iff filter_id_conv)
  next
    case False
    obtain u v where uv: "diff_loop (sort ?k1) (sort ?k2) (sort ?k1) (sort ?k2) = (u, v)" by fastforce
    from diff_loop_aligned [OF pubs, of "sort ?k1" "sort ?k2"] False show ?thesis
      by (simp add: l_def build_diff_list_result_def uv)
  qed
  have left: "list_all (\<lambda>n. public_name n \<or> startswith n ''_'') l"
  proof (cases "sort ?k1 = sort ?k2")
    case True
    then show ?thesis using pubs(1) by (simp add: l_def list_all_iff)
  next
    case False
    then show ?thesis using diff_loop_left [OF pubs] by (simp add: l_def build_diff_list_result_def)
  qed
  have k1: "n \<in> set ?k1" if "n \<in> set l" "\<not> startswith n ''_''" for n
  proof -
    have "public_name n" using left that by (auto simp: list_all_iff)
    then have "n \<in> set (filter public_name l)" using that by simp
    then show ?thesis by (simp add: pub)
  qed
  have f: "?f n = (if ?p n then Inr (?g n) else Inl KeyError)" if n: "n \<in> set l" for n
  proof (cases "startswith n ''_''")
    case True
    then show ?thesis by simp
  next
    case False
    from k1 [OF n False] have "map_of (methods c1) n \<noteq> None" by (simp add: map_of_eq_None_iff)
    then obtain v1 where v1: "map_of (methods c1) n = Some v1" by blast
    with k1 [OF n False] have d1: "map_of (class_funcs c1) n = Some v1"
      by (simp add: methods_def map_of_public)
    have pn: "public_name n" using left n False by (auto simp: list_all_iff)
    have d2: "map_of (class_funcs c2) n = map_of (methods c2) n"
      using pn by (simp add: methods_def map_of_public_part)
    show ?thesis
    proof (cases "map_of (methods c2) n")
      case None
      then have "n \<notin> set ?k2" by (simp add: map_of_eq_None_iff)
      then show ?thesis using False d1 d2 None by (simp add: ditem_def)
    next
      case (Some v2)
      then have "map_of (methods c2) n \<noteq> None" by simp
      then have "n \<in> set ?k2" by (simp only: map_of_eq_None_iff set_map not_not)
      then show ?thesis using False d1 d2 v1 Some by (simp add: ditem_def compare_func_spec_eq)
    qed
  qed
  have p: "list_all ?p l \<longleftrightarrow> set ?k1 \<subseteq> set ?k2"
  proof
    assume a: "list_all ?p l"
    show "set ?k1 \<subseteq> set ?k2"
    proof
      fix n assume "n \<in> set ?k1"
      then have "n \<in> set (filter public_name l)" by (simp add: pub)
      then have "n \<in> set l" "\<not> startswith n ''_''" by (simp_all add: public_name_def)
      then show "n \<in> set ?k2" using a by (auto simp: list_all_iff)
    qed
  next
    assume "set ?k1 \<subseteq> set ?k2"
    then show "list_all ?p l" unfolding list_all_iff using k1 by blast
  qed
  have keys: "sort ?k1 = sort ?k2 \<longleftrightarrow> set ?k1 = set ?k2"
    by (rule sort_keys_eq) (use ok1(1) ok2(1) in \<open>simp_all add: methods_def\<close>)
  have g: "list_all ?g l \<longleftrightarrow> agree same_params (methods c1) (methods c2)" if eq: "sort ?k1 = sort ?k2"
  proof -
    have "l = sort ?k1" unfolding l_def by (rule if_not_P) (use eq in blast)
    then have l: "set l = set ?k1" by (simp only: set_sort)
    have ks: "set ?k1 = set ?k2" by (rule iffD1 [OF keys eq])
    have "\<not> startswith n ''_''" if "n \<in> set ?k1" for n
      using ok1(2) that by (auto simp: methods_def list_all_iff public_name_def)
    then show ?thesis unfolding agree_iff [OF ks] list_all_iff l by blast
  qed
  have m: "mapE ?f l = (if list_all ?p l then Inr (map ?g l) else Inl KeyError)"
    by (rule mapE_mixed) (rule f)
  have "all_match ?f l = (if set ?k1 \<subseteq> set ?k2 then Inr (list_all ?g l) else Inl KeyError)"
    by (simp only: all_match_def m p if_distrib [of "\<lambda>m. bindE m _"] bindE_simps list.pred_map comp_def)
  moreover have "compare_class_spec c1 c2 = bindE (all_match ?f l) (\<lambda>b. Inr (sort ?k1 = sort ?k2 \<and> b))"
    unfolding compare_class_spec_def n1 n2 Let_def l_def [symmetric] ..
  moreover have agree_sort: "sort ?k1 = sort ?k2" if "agree same_params (methods c1) (methods c2)"
    using agree_keys [OF that] keys by blast
  ultimately show ?thesis using g by (cases "set ?k1 \<subseteq> set ?k2"; cases "sort ?k1 = sort ?k2") (auto simp del: set_map)
qed


definition keys_plain :: "(string \<times> 'v) list \<Rightarrow> bool" where
  "keys_plain d \<longleftrightarrow> distinct (map fst d) \<and> list_all (\<lambda>n. s_strip n = n) (map fst d)"

definition class_of :: "spec_obj list \<Rightarrow> nat \<Rightarrow> class_spec" where
  "class_of objs r = (case objs ! r of Class_Obj c \<Rightarrow> c | _ \<Rightarrow> new_class [] [])"

text \<open>The specifications that reading produces from names without surrounding blanks.\<close>

definition file_ok :: "spec_obj list \<Rightarrow> file_spec \<Rightarrow> bool" where
  "file_ok objs f \<longleftrightarrow> funcs_ok (func_specs f)
     \<and> keys_plain (global_var_spec f) \<and> list_all public_name (map fst (global_var_spec f))
     \<and> keys_plain (class_specs f)
     \<and> list_all (\<lambda>(_, r). \<exists>c. objs ! r = Class_Obj c \<and> funcs_ok (class_funcs c)) (class_specs f)"

definition same_methods :: "class_spec \<Rightarrow> class_spec \<Rightarrow> bool" where
  "same_methods c1 c2 \<longleftrightarrow> agree same_params (methods c1) (methods c2)"

lemma keys_plain_strip: "keys_plain d \<Longrightarrow> map (s_strip \<circ> fst) d = map fst d"
  by (auto simp: keys_plain_def list_all_iff)

lemma compare_global_var_eq:
  assumes "file_ok objs1 f1" and "file_ok objs2 f2"
  shows "compare_global_var f1 f2 = Inr (agree same_characters (global_var_spec f1) (global_var_spec f2))"
proof -
  have "keys_plain (global_var_spec f1)" "keys_plain (global_var_spec f2)"
    "list_all public_name (map fst (global_var_spec f1))" "list_all public_name (map fst (global_var_spec f2))"
    using assms by (simp_all add: file_ok_def)
  then show ?thesis
    unfolding compare_global_var_def compare_global_var_spec_eq
    by (simp only: keys_plain_strip) (intro compare_pairs_eq; simp add: keys_plain_def)
qed

text \<open>The classes match: a description without classes accepts a source whose first class, in the
  order of the names, is private; otherwise both have the same classes with the same methods.\<close>

definition classes_match :: "spec_obj list \<Rightarrow> file_spec \<Rightarrow> spec_obj list \<Rightarrow> file_spec \<Rightarrow> bool" where
  "classes_match objs1 f1 objs2 f2 \<longleftrightarrow>
     (if class_specs f1 = [] then class_specs f2 = [] \<or> startswith (hd (sort (map fst (class_specs f2)))) ''_''
      else agree (\<lambda>r1 r2. same_methods (class_of objs1 r1) (class_of objs2 r2)) (class_specs f1) (class_specs f2))"

definition same_classes :: "spec_obj list \<Rightarrow> file_spec \<Rightarrow> spec_obj list \<Rightarrow> file_spec \<Rightarrow> bool" where
  "same_classes objs1 f1 objs2 f2 \<longleftrightarrow>
     agree (\<lambda>r1 r2. same_methods (class_of objs1 r1) (class_of objs2 r2)) (class_specs f1) (class_specs f2)"

definition private_class_first :: "file_spec \<Rightarrow> bool" where
  "private_class_first f \<longleftrightarrow>
     class_specs f \<noteq> [] \<and> startswith (hd (sort (map fst (class_specs f)))) ''_''"

lemma agree_Nil: "agree cmp [] d \<longleftrightarrow> d = []"
  by (cases d) (auto simp: agree_def dest: spec [of _ "fst (hd d)"] split: if_splits)

lemma classes_match_iff:
  "classes_match objs1 f1 objs2 f2 \<longleftrightarrow>
     same_classes objs1 f1 objs2 f2 \<or> class_specs f1 = [] \<and> private_class_first f2"
  by (auto simp: classes_match_def same_classes_def private_class_first_def agree_Nil)

lemma compare_class_eq:
  assumes ok1: "file_ok objs1 f1" and ok2: "file_ok objs2 f2"
  shows "compare_class objs1 f1 objs2 f2 = Inr True \<longleftrightarrow> classes_match objs1 f1 objs2 f2"
proof -
  let ?d1 = "class_specs f1" and ?d2 = "class_specs f2"
  have plain: "keys_plain ?d1" "keys_plain ?d2" using ok1 ok2 by (simp_all add: file_ok_def)
  have dist: "distinct (map fst ?d1)" "distinct (map fst ?d2)" using plain by (simp_all add: keys_plain_def)
  have refs1: "\<exists>c. objs1 ! r = Class_Obj c \<and> funcs_ok (class_funcs c)" if "map_of ?d1 n = Some r" for n r
    using ok1 map_of_SomeD [OF that] by (fastforce simp: file_ok_def list_all_iff)
  have refs2: "\<exists>c. objs2 ! r = Class_Obj c \<and> funcs_ok (class_funcs c)" if "map_of ?d2 n = Some r" for n r
    using ok2 map_of_SomeD [OF that] by (fastforce simp: file_ok_def list_all_iff)
  let ?f = "\<lambda>n. bindE (ditem ?d1 n) (\<lambda>r1. bindE (ditem ?d2 n) (\<lambda>r2.
     bindE (class_at objs1 r1) (\<lambda>c1. bindE (class_at objs2 r2) (\<lambda>c2. compare_class_spec c1 c2))))"
  let ?m = "\<lambda>r1 r2. same_methods (class_of objs1 r1) (class_of objs2 r2)"
  have def: "compare_class objs1 f1 objs2 f2 =
    (if sort (map fst ?d1) = [] \<and> sort (map fst ?d2) \<noteq> [] then Inr (startswith (hd (sort (map fst ?d2))) ''_'')
     else if sort (map fst ?d1) \<noteq> sort (map fst ?d2) then Inr False
     else all_match ?f (sort (map fst ?d1)))"
    unfolding compare_class_def keys_plain_strip [OF plain(1)] keys_plain_strip [OF plain(2)] Let_def ..
  have nonempty: "sort (map fst ?d1) = [] \<longleftrightarrow> ?d1 = []" by (metis length_0_conv length_map length_sort)
  consider (none) "?d1 = []" | (differ) "?d1 \<noteq> []" "set (map fst ?d1) \<noteq> set (map fst ?d2)"
    | (same) "?d1 \<noteq> []" "set (map fst ?d1) = set (map fst ?d2)" by blast
  then show ?thesis
  proof cases
    case none
    have "sort (map fst ?d2) = [] \<longleftrightarrow> ?d2 = []" by (metis length_0_conv length_map length_sort)
    then show ?thesis using none
      by (cases "?d2 = []")
         (simp_all add: def classes_match_def all_match_def)
  next
    case differ
    then have "sort (map fst ?d1) \<noteq> sort (map fst ?d2)" using sort_keys_eq [OF dist] by blast
    moreover have "\<not> agree ?m ?d1 ?d2" using differ(2) agree_keys by blast
    ultimately show ?thesis using differ(1) nonempty by (simp add: def classes_match_def)
  next
    case same
    then have keys: "sort (map fst ?d1) = sort (map fst ?d2)" using sort_keys_eq [OF dist] by blast
    have f: "?f n = Inr True \<longleftrightarrow> rel_option ?m (map_of ?d1 n) (map_of ?d2 n)" if n: "n \<in> set (map fst ?d1)" for n
    proof -
      from n have "map_of ?d1 n \<noteq> None" by (simp add: map_of_eq_None_iff)
      then obtain r1 where r1: "map_of ?d1 n = Some r1" by blast
      from n have "map_of ?d2 n \<noteq> None" using same(2) by (simp add: map_of_eq_None_iff)
      then obtain r2 where r2: "map_of ?d2 n = Some r2" by blast
      from refs1 [OF r1] refs2 [OF r2] obtain c1 c2 where
        c: "objs1 ! r1 = Class_Obj c1" "objs2 ! r2 = Class_Obj c2" and ok: "funcs_ok (class_funcs c1)" "funcs_ok (class_funcs c2)" by blast
      show ?thesis
        using compare_class_spec_eq [OF ok] agree_keys [of same_params "methods c1" "methods c2"]
        by (auto simp: r1 r2 c ditem_def class_at_def class_of_def same_methods_def)
    qed
    have "all_match ?f (sort (map fst ?d1)) = Inr True \<longleftrightarrow> list_all (\<lambda>n. ?f n = Inr True) (sort (map fst ?d1))"
      by (rule all_match_True)
    also have "\<dots> \<longleftrightarrow> agree ?m ?d1 ?d2"
      unfolding agree_iff [OF same(2)] list_all_iff set_sort using f by blast
    finally show ?thesis using same(1) keys nonempty by (simp add: def classes_match_def)
  qed
qed

lemma compare_file_eq:
  assumes "file_ok objs1 f1" and "file_ok objs2 f2"
  shows "compare_file_spec objs1 f1 objs2 f2 = Inr True \<longleftrightarrow>
    agree same_characters (global_var_spec f1) (global_var_spec f2)
    \<and> agree same_params (public_part (func_specs f1)) (public_part (func_specs f2))
    \<and> classes_match objs1 f1 objs2 f2"
proof -
  have "funcs_ok (func_specs f1)" "funcs_ok (func_specs f2)" using assms by (simp_all add: file_ok_def)
  then show ?thesis
    unfolding compare_file_spec_def compare_global_var_eq [OF assms] compare_func_eq
    using compare_class_eq [OF assms] by (auto simp: compare_func_eq)
qed

text \<open>
  C36. For a description and a source whose class and variable names have no blanks around them,
  whose functions and methods have names and whose global variables are public (\<open>file_ok\<close>), the comparison accepts exactly: the same public functions and
  the same global variables, the same classes with the same public methods, parameters equal in any
  order and values equal as bags of characters; and besides these, when the description has no
  class, any source whose first class in the order of the names is private, whatever classes
  follow. Private functions and methods and the super classes do not count.
\<close>

theorem compare_file_accepts:
  assumes "file_ok objs1 f1" and "file_ok objs2 f2"
  shows "compare_file_spec objs1 f1 objs2 f2 = Inr True \<longleftrightarrow>
    agree same_characters (global_var_spec f1) (global_var_spec f2)
    \<and> agree same_params (public_part (func_specs f1)) (public_part (func_specs f2))
    \<and> (same_classes objs1 f1 objs2 f2 \<or> class_specs f1 = [] \<and> private_class_first f2)"
  by (simp only: compare_file_eq [OF assms] classes_match_iff)

text \<open>
  The comparison of two classes stops with \<^verbatim>\<open>KeyError\<close> exactly when the description has a public
  method that the source has lost; a method that the source has gained is reported.
\<close>
theorem missing_method_raises:
  assumes "funcs_ok (class_funcs c1)" and "funcs_ok (class_funcs c2)"
  shows "compare_class_spec c1 c2 = Inl KeyError \<longleftrightarrow> \<not> set (map fst (methods c1)) \<subseteq> set (map fst (methods c2))"
  by (simp add: compare_class_spec_eq [OF assms])

definition class_ex :: "string list \<Rightarrow> class_spec" where
  "class_ex ms = (new_class ''Tensor'' [])\<lparr>class_funcs := map (\<lambda>m. (m, \<lparr>func_name = m, func_params = [''self'']\<rparr>)) ms\<rparr>"

theorem missing_method_raises_witness:
  "compare_class_spec (class_ex [''rank'', ''size'']) (class_ex [''rank'']) = Inl KeyError
   \<and> compare_class_spec (class_ex [''rank'']) (class_ex [''rank'', ''size'']) \<noteq> Inl KeyError"
proof -
  have ok: "funcs_ok (class_funcs (class_ex [''rank'', ''size'']))" "funcs_ok (class_funcs (class_ex [''rank'']))"
    by code_simp+
  have "\<not> set (map fst (methods (class_ex [''rank'', ''size'']))) \<subseteq> set (map fst (methods (class_ex [''rank''])))"
    "set (map fst (methods (class_ex [''rank'']))) \<subseteq> set (map fst (methods (class_ex [''rank'', ''size''])))"
    by code_simp+
  then show ?thesis using missing_method_raises [OF ok] missing_method_raises [OF ok(2) ok(1)] by simp
qed

definition file_ex :: "string list \<Rightarrow> file_spec" where
  "file_ex fs = (new_file ''api.pyh'' ''api.py'')\<lparr>class_specs := [(''Tensor'', 1)],
     func_specs := map (\<lambda>m. (m, \<lparr>func_name = m, func_params = [''lhs'', ''rhs'']\<rparr>)) fs,
     global_var_spec := [(''MAX'', \<lparr>global_var_name = ''MAX'', global_var_values = ''12''\<rparr>)]\<rparr>"

theorem compare_file_accepts_witness:
  "compare_file_spec [File_Obj (file_ex []), Class_Obj (class_ex [''rank''])] (file_ex [''vadd''])
     [File_Obj (file_ex []), Class_Obj (class_ex [''_hidden'', ''rank''])] (file_ex [''vadd'', ''_intern'']) = Inr True
   \<and> compare_file_spec [File_Obj (file_ex []), Class_Obj (class_ex [''rank''])] (file_ex [''vadd''])
     [File_Obj (file_ex []), Class_Obj (class_ex [''rank''])] (file_ex [''vadd'', ''vsub'']) \<noteq> Inr True"
proof -
  let ?o1 = "[File_Obj (file_ex []), Class_Obj (class_ex [''rank''])]"
  let ?o2 = "[File_Obj (file_ex []), Class_Obj (class_ex [''_hidden'', ''rank''])]"
  have ok: "file_ok ?o1 (file_ex [''vadd''])" "file_ok ?o2 (file_ex [''vadd'', ''_intern''])"
    "file_ok ?o1 (file_ex [''vadd'', ''vsub''])"
    by (simp_all add: file_ok_def file_ex_def class_ex_def new_file_def new_class_def funcs_ok_def keys_plain_def
        public_name_def startswith_def s_strip_def s_lstrip_def s_rstrip_def c_space_def)
  have refl: "agree cmp d d" if "\<And>x. cmp x x" for cmp :: "'v \<Rightarrow> 'v \<Rightarrow> bool" and d
    unfolding agree_def using that by (auto simp: option.rel_refl)
  have funcs: "public_part (func_specs (file_ex [''vadd''])) = public_part (func_specs (file_ex [''vadd'', ''_intern'']))"
    by code_simp
  have meths: "methods (class_ex [''rank'']) = methods (class_ex [''_hidden'', ''rank''])" by code_simp
  have cls: "same_classes ?o1 (file_ex [''vadd'']) ?o2 (file_ex [''vadd'', ''_intern''])"
    by (simp add: same_classes_def file_ex_def new_file_def agree_def class_of_def same_methods_def meths)
       (simp add: same_params_def option.rel_refl)
  have "compare_file_spec ?o1 (file_ex [''vadd'']) ?o2 (file_ex [''vadd'', ''_intern'']) = Inr True"
    unfolding compare_file_accepts [OF ok(1,2)] funcs
    using cls by (simp add: refl same_params_def same_characters_def file_ex_def)
  moreover have "map_of (public_part (func_specs (file_ex [''vadd'']))) ''vsub'' = None"
    "map_of (public_part (func_specs (file_ex [''vadd'', ''vsub'']))) ''vsub'' \<noteq> None" by code_simp+
  then have "\<not> agree same_params (public_part (func_specs (file_ex [''vadd'']))) (public_part (func_specs (file_ex [''vadd'', ''vsub''])))"
    unfolding agree_def by (metis option.rel_distinct(1) not_None_eq)
  then have "compare_file_spec ?o1 (file_ex [''vadd'']) ?o1 (file_ex [''vadd'', ''vsub'']) \<noteq> Inr True"
    unfolding compare_file_accepts [OF ok(1,3)] by blast
  ultimately show ?thesis by blast
qed

text \<open>The values of global variables are compared as bags of characters, and a description without
  classes is content with a source whose first class is private.\<close>

lemma values_as_characters:
  "compare_global_var_spec \<lparr>global_var_name = n, global_var_values = v\<rparr> \<lparr>global_var_name = n, global_var_values = rev v\<rparr>"
  by (simp add: compare_global_var_spec_eq same_characters_def)

lemma later_public_class:
  "compare_class [] (new_file [] [])
     [File_Obj (new_file [] []), Class_Obj (new_class ''_a'' []), Class_Obj (new_class ''b'' [])]
     ((new_file [] [])\<lparr>class_specs := [(''b'', 2), (''_a'', 1)]\<rparr>) = Inr True"
  by code_simp


text \<open>A class declared with a blank before its bracket is looked up without the blank.\<close>

lemma class_name_with_blank:
  "compare_class [File_Obj (new_file [] []), Class_Obj (new_class ''A '' [''B''])] ((new_file [] [])\<lparr>class_specs := [(''A '', 1)]\<rparr>)
     [File_Obj (new_file [] []), Class_Obj (new_class ''A '' [''B''])] ((new_file [] [])\<lparr>class_specs := [(''A '', 1)]\<rparr>)
   = Inl KeyError"
  by code_simp

text \<open>Every \<^verbatim>\<open>/te\<close> is cut out of a path with a directory \<^verbatim>\<open>te\<close>, also the beginning of a longer name.\<close>

lemma te_cut_everywhere:
  "source_path \<lparr>ie_fs = empty_fs, ie_lines = (\<lambda>_. []), tbe_root = ''/r'', specs_dir = ''/s''\<rparr> ''te/test/a.py'' = ''/rst/a.py''"
  by code_simp

end
