(* ===== verification/Intf_Readers.thy ===== *)
theory Intf_Readers
  imports Intf_Check
begin

section \<open>Both readers build the same\<close>

text \<open>What a line declares, without entering it.\<close>

definition parsed_line :: "string \<Rightarrow> (nat \<times> spec_obj) option res" where
  "parsed_line l =
     (if startswith l ''#'' then Inr None
      else if s_contains l ''class'' then
        bindE (if s_contains l ''('' then
                 bindE (s_index l ''('') (\<lambda>i. bindE (paren_parts l) (\<lambda>supers. Inr (new_class (slice 6 i l) supers)))
               else Inr (new_class (drop 6 (butlast l)) []))
          (\<lambda>c. Inr (Some (get_tree_idx l, Class_Obj c)))
      else if s_contains l ''def'' then
        bindE (s_index (s_strip l) ''('') (\<lambda>i. bindE (paren_parts (s_strip l)) (\<lambda>parts.
          Inr (Some (get_tree_idx l, Func_Obj \<lparr>func_name = slice 4 i (s_strip l), func_params = map s_strip parts\<rparr>))))
      else if is_global_variable l then
        bindE (s_index l ''='') (\<lambda>i. let name = rstrip (take i l) in
          Inr (Some (get_tree_idx l,
            Global_Obj \<lparr>global_var_name = name, global_var_values = drop (length name + 3) l\<rparr>)))
      else Inr None)"

definition enter_parsed :: "spec_state \<Rightarrow> (nat \<times> spec_obj) option \<Rightarrow> spec_state res" where
  "enter_parsed st d = (case d of None \<Rightarrow> Inr st | Some (i, obj) \<Rightarrow> enter_spec st i obj)"

lemma declaration_line_parsed: "declaration_line st l = bindE (parsed_line l) (enter_parsed st)"
  by (simp add: declaration_line_def parsed_line_def get_class_spec_info_def get_def_spec_info_def
      get_global_var_spec_info_def enter_parsed_def Let_def bindE_assoc)

definition is_file :: "spec_obj \<Rightarrow> bool" where
  "is_file obj = (case obj of File_Obj _ \<Rightarrow> True | _ \<Rightarrow> False)"

lemma parsed_line_no_file: "parsed_line l = Inr (Some (i, obj)) \<Longrightarrow> \<not> is_file obj \<and> 0 < i"
  by (auto simp: parsed_line_def is_file_def Let_def get_tree_idx.simps [of l] split: if_splits)

text \<open>The store of the description reader continues the store of earlier files: references are
  moved by its length.\<close>

definition moved_file :: "nat \<Rightarrow> string \<Rightarrow> file_spec \<Rightarrow> file_spec \<Rightarrow> bool" where
  "moved_file k src f1 f2 \<longleftrightarrow> source_file_name f2 = src
     \<and> class_specs f2 = map (apsnd ((+) k)) (class_specs f1)
     \<and> func_specs f2 = func_specs f1 \<and> global_var_spec f2 = global_var_spec f1"

definition moved_objs :: "spec_obj list \<Rightarrow> string \<Rightarrow> spec_obj list \<Rightarrow> spec_obj list \<Rightarrow> bool" where
  "moved_objs pre src objs1 objs2 \<longleftrightarrow> (\<exists>f1 f2 rest. objs1 = File_Obj f1 # rest \<and> objs2 = pre @ File_Obj f2 # rest
     \<and> moved_file (length pre) src f1 f2 \<and> list_all (\<lambda>obj. \<not> is_file obj) rest)"

definition moved :: "spec_obj list \<Rightarrow> string \<Rightarrow> spec_state \<Rightarrow> spec_state \<Rightarrow> bool" where
  "moved pre src st1 st2 \<longleftrightarrow> moved_objs pre src (fst st1) (fst st2)
     \<and> snd st2 = map ((+) (length pre)) (snd st1) \<and> list_all (\<lambda>r. r < length (fst st1)) (snd st1)"

definition same_result :: "('a \<Rightarrow> 'b \<Rightarrow> bool) \<Rightarrow> 'a res \<Rightarrow> 'b res \<Rightarrow> bool" where
  "same_result R m1 m2 \<longleftrightarrow> (case (m1, m2) of
     (Inl e1, Inl e2) \<Rightarrow> e1 = e2 | (Inr x, Inr y) \<Rightarrow> R x y | _ \<Rightarrow> False)"

lemma same_result_simps [simp]:
  "same_result R (Inl e1) (Inl e2) \<longleftrightarrow> e1 = e2" "same_result R (Inr x) (Inr y) \<longleftrightarrow> R x y"
  "\<not> same_result R (Inl e1) (Inr y)" "\<not> same_result R (Inr x) (Inl e2)"
  by (simp_all add: same_result_def)

lemma same_result_bind:
  "same_result R m1 m2 \<Longrightarrow> (\<And>x y. R x y \<Longrightarrow> same_result S (f1 x) (f2 y)) \<Longrightarrow> same_result S (bindE m1 f1) (bindE m2 f2)"
  by (cases m1; cases m2) auto

lemma same_result_foldE:
  assumes "R s1 s2" and "\<And>s1 s2 x. x \<in> set xs \<Longrightarrow> R s1 s2 \<Longrightarrow> same_result R (f1 s1 x) (f2 s2 x)"
  shows "same_result R (foldE f1 s1 xs) (foldE f2 s2 xs)"
  using assms
proof (induction xs arbitrary: s1 s2)
  case Nil
  then show ?case by simp
next
  case (Cons x xs)
  show ?case unfolding foldE.simps
  proof (rule same_result_bind)
    show "same_result R (f1 s1 x) (f2 s2 x)" using Cons.prems by simp
  next
    fix t1 t2 assume "R t1 t2"
    then show "same_result R (foldE f1 t1 xs) (foldE f2 t2 xs)" using Cons.prems(2) by (intro Cons.IH) simp_all
  qed
qed

lemma dset_moved: "dset (map (apsnd ((+) k)) d) n (k + r) = map (apsnd ((+) k)) (dset d n r)"
  unfolding dset_def by (induction d) auto

lemma moved_objs_length: "moved_objs pre src objs1 objs2 \<Longrightarrow> length objs2 = length pre + length objs1"
  by (auto simp: moved_objs_def)

lemma moved_objs_append:
  "moved_objs pre src objs1 objs2 \<Longrightarrow> \<not> is_file obj \<Longrightarrow> moved_objs pre src (objs1 @ [obj]) (objs2 @ [obj])"
  by (fastforce simp: moved_objs_def)

lemma moved_add_spec:
  assumes "moved_objs pre src objs1 objs2" and "p < length objs1" and "r < length objs1" and "0 < r"
  shows "same_result (moved_objs pre src) (add_spec objs1 p r) (add_spec objs2 (length pre + p) (length pre + r))"
proof -
  from assms(1) obtain f1 f2 rest where o: "objs1 = File_Obj f1 # rest" "objs2 = pre @ File_Obj f2 # rest"
    and m: "moved_file (length pre) src f1 f2" and nf: "list_all (\<lambda>obj. \<not> is_file obj) rest"
    by (auto simp: moved_objs_def)
  from assms(3,4) obtain r' where r: "r = Suc r'" "r' < length rest" by (cases r) (auto simp: o)
  have r1: "objs1 ! r = rest ! r'" and r2: "objs2 ! (length pre + r) = rest ! r'" by (simp_all add: o r nth_append)
  have nfr: "\<not> is_file (rest ! r')" using nf r by (simp add: list_all_length)
  show ?thesis
  proof (cases p)
    case 0
    have p1: "objs1 ! p = File_Obj f1" and p2: "objs2 ! (length pre + p) = File_Obj f2" by (simp_all add: o 0 nth_append)
    have upd: "objs1[p := x] = x # rest" "objs2[length pre + p := x] = pre @ x # rest" for x
      by (simp_all add: o 0 list_update_append)
    show ?thesis
      using m nf nfr
      by (cases "rest ! r'")
         (auto simp: add_spec_def p1 p2 r1 r2 upd moved_objs_def moved_file_def file_add_class_def
           file_add_func_def file_add_global_var_def dset_moved is_file_def)
  next
    case (Suc p')
    with assms(2) have p': "p' < length rest" by (simp add: o)
    have p1: "objs1 ! p = rest ! p'" and p2: "objs2 ! (length pre + p) = rest ! p'" by (simp_all add: o Suc nth_append)
    have upd: "objs1[p := x] = File_Obj f1 # rest[p' := x]" "objs2[length pre + p := x] = pre @ File_Obj f2 # rest[p' := x]" for x
      by (simp_all add: o Suc list_update_append)
    have nfp: "\<not> is_file (rest ! p')" using nf p' by (simp add: list_all_length)
    have keep: "list_all (\<lambda>obj. \<not> is_file obj) (rest[p' := Class_Obj c])" for c
      using nf p' by (auto simp: list_all_length nth_list_update is_file_def split: if_splits)
    show ?thesis
      using m nfr nfp keep
      by (cases "rest ! r'"; cases "rest ! p'") (auto simp: add_spec_def p1 p2 r1 r2 upd is_file_def moved_objs_def)
  qed
qed

lemma moved_enter:
  assumes "moved pre src st1 st2" and "\<not> is_file obj" and "0 < i"
  shows "same_result (moved pre src) (enter_spec st1 i obj) (enter_spec st2 i obj)"
proof -
  obtain objs1 tree1 where s1: "st1 = (objs1, tree1)" by (cases st1)
  obtain objs2 tree2 where s2: "st2 = (objs2, tree2)" by (cases st2)
  let ?k = "length pre"
  from assms(1) have m: "moved_objs pre src objs1 objs2" and t: "tree2 = map ((+) ?k) tree1"
    and ok: "list_all (\<lambda>r. r < length objs1) tree1" by (simp_all add: moved_def s1 s2)
  let ?t1 = "if length tree1 < i + 1 then tree1 @ [length objs1] else tree1[i := length objs1]"
  have len: "length objs2 = ?k + length objs1" by (rule moved_objs_length [OF m])
  have t2: "(if length tree2 < i + 1 then tree2 @ [length objs2] else tree2[i := length objs2]) = map ((+) ?k) ?t1"
    by (simp add: t len map_update)
  have ok1: "list_all (\<lambda>r. r < length (objs1 @ [obj])) ?t1"
    using ok by (auto simp: list_all_iff dest!: set_update_subset_insert [THEN subsetD])
  have pos: "0 < length objs1" using m by (auto simp: moved_objs_def)
  have len_add: "length objs = length objs1 + 1" if "add_spec (objs1 @ [obj]) p r = Inr objs" for objs p r
    using that by (auto simp: add_spec_def split: spec_obj.splits)
  show ?thesis
  proof (cases "length ?t1 \<le> i - 1")
    case True
    then show ?thesis using t2 by (simp add: enter_spec_def s1 s2 Let_def del: map_append map_update)
  next
    case False
    then have i: "i - 1 < length ?t1" by simp
    have p: "?t1 ! (i - 1) < length (objs1 @ [obj])" using ok1 i by (simp add: list_all_length)
    have nth: "map ((+) ?k) ?t1 ! (i - 1) = ?k + ?t1 ! (i - 1)" by (rule nth_map [OF i])
    have e1: "enter_spec st1 i obj = bindE (add_spec (objs1 @ [obj]) (?t1 ! (i - 1)) (length objs1)) (\<lambda>objs. Inr (objs, ?t1))"
      by (simp only: enter_spec_def s1 prod.case Let_def False if_False)
    have "\<not> length (map ((+) ?k) ?t1) \<le> i - 1" using False by (simp only: length_map not_False_eq_True)
    then have e2: "enter_spec st2 i obj = bindE (add_spec (objs2 @ [obj]) (?k + ?t1 ! (i - 1)) (length objs2))
        (\<lambda>objs. Inr (objs, map ((+) ?k) ?t1))"
      by (simp only: enter_spec_def s2 prod.case Let_def t2 nth if_False)
    have "same_result (moved_objs pre src) (add_spec (objs1 @ [obj]) (?t1 ! (i - 1)) (length objs1))
       (add_spec (objs2 @ [obj]) (?k + ?t1 ! (i - 1)) (?k + length objs1))"
      using moved_add_spec [OF moved_objs_append [OF m assms(2)] p _ pos] by simp
    then show ?thesis
      unfolding e1 e2 len using ok1 len_add
      by (cases "add_spec (objs1 @ [obj]) (?t1 ! (i - 1)) (length objs1)";
          cases "add_spec (objs2 @ [obj]) (?k + ?t1 ! (i - 1)) (?k + length objs1)")
         (simp_all add: moved_def del: map_append map_update)
  qed
qed

lemma moved_line:
  assumes "moved pre src st1 st2"
  shows "same_result (moved pre src) (declaration_line st1 l) (declaration_line st2 l)"
  unfolding declaration_line_parsed
  using assms parsed_line_no_file [of l]
  by (cases "parsed_line l") (auto simp: enter_parsed_def intro: moved_enter split: option.splits)


definition header_line :: "string \<Rightarrow> bool" where
  "header_line l \<longleftrightarrow> s_contains (rstrip l) ''# source file:''"

lemma build_file_spec_moved:
  assumes "list_all (\<lambda>l. \<not> header_line l) ls"
    and "moved pre src st1 st2"
  shows "same_result (\<lambda>st1 st2. moved pre src st1 (fst st2) \<and> snd st2 = refs)
    (foldE (\<lambda>st line. declaration_line st (rstrip line)) st1 ls)
    (foldE (spec_line_step nm) (st2, refs) ls)"
proof (rule same_result_foldE)
  show "moved pre src st1 (fst (st2, refs)) \<and> snd (st2, refs) = refs" using assms(2) by simp
next
  fix s1 :: spec_state and s2 :: spec_files and l
  assume l: "l \<in> set ls" and m: "moved pre src s1 (fst s2) \<and> snd s2 = refs"
  obtain t2 where s2: "s2 = (t2, refs)" using m by (cases s2) auto
  have "\<not> s_contains (rstrip l) ''# source file:''" using assms(1) l by (simp add: list_all_iff header_line_def)
  then have "spec_line_step nm s2 l = bindE (declaration_line t2 (rstrip l)) (\<lambda>st. Inr (st, refs))"
    by (cases t2) (simp add: spec_line_step_def s2 Let_def)
  moreover have "same_result (moved pre src) (declaration_line s1 (rstrip l)) (declaration_line t2 (rstrip l))"
    using m s2 by (intro moved_line) simp
  ultimately show "same_result (\<lambda>st1 st2. moved pre src st1 (fst st2) \<and> snd st2 = refs)
      (declaration_line s1 (rstrip l)) (spec_line_step nm s2 l)"
    by (cases "declaration_line s1 (rstrip l)"; cases "declaration_line t2 (rstrip l)") simp_all
qed

lemma readers_same:
  assumes "header_line h" and "list_all (\<lambda>l. \<not> header_line l) ls" and "endswith nm ''pyh''"
  shows "same_result (\<lambda>objs (objs', refs').
      moved_objs pre (s_strip (drop 14 (rstrip h))) objs objs' \<and> refs' = refs @ [length pre])
    (build_file_spec ls (new_file [] path))
    (process_spec_file (\<lambda>_. h # ls) dir (pre, refs) nm)"
proof -
  let ?src = "s_strip (drop 14 (rstrip h))"
  let ?f1 = "new_file [] path" and ?f2 = "new_file nm ?src"
  have step: "spec_line_step nm ((pre, []), refs) h = Inr ((pre @ [File_Obj ?f2], [length pre]), refs @ [length pre])"
    using assms(1) by (simp add: spec_line_step_def header_line_def Let_def)
  have "moved pre ?src ([File_Obj ?f1], [0]) (pre @ [File_Obj ?f2], [length pre])"
    by (simp add: moved_def moved_objs_def moved_file_def new_file_def)
  from build_file_spec_moved [OF assms(2) this, of "refs @ [length pre]" nm]
  show ?thesis
    using assms(3)
    by (auto simp: build_file_spec_eq process_spec_file_def step moved_def same_result_def split: sum.splits)
qed

text \<open>
  C37. The reader of sources and the reader of descriptions, two pieces of code with their own loops
  and their own copy of what a line declares, are equivalent: a description file whose first line
  names its source, and no later line does, gives the same specification as a source made of its
  later lines, objects and nesting included, or fails with the same exception, whatever the store
  holds from the files before. Source files and descriptions may therefore be compared object by
  object.
\<close>

theorem readers_agree:
  assumes "header_line h" and "list_all (\<lambda>l. \<not> header_line l) ls" and "endswith nm ''pyh''"
  shows "same_result (\<lambda>objs (objs', refs').
      moved_objs pre (s_strip (drop 14 (rstrip h))) objs objs' \<and> refs' = refs @ [length pre])
    (build_file_spec ls (new_file [] path))
    (process_spec_file (\<lambda>_. h # ls) dir (pre, refs) nm)"
  by (rule readers_same [OF assms])

lemma readers_example:
  "header_line ''# source file: a.py''" "list_all (\<lambda>l. \<not> header_line l) [''class A:'', ''    def f(self):'']"
  "endswith ''a.pyh'' ''pyh''"
  by code_simp+

theorem readers_agree_witness:
  "same_result (\<lambda>objs (objs', refs'). moved_objs [] (s_strip (drop 14 (rstrip ''# source file: a.py''))) objs objs'
      \<and> refs' = [] @ [length ([] :: spec_obj list)])
    (build_file_spec [''class A:'', ''    def f(self):''] (new_file [] ''/a.py''))
    (process_spec_file (\<lambda>_. [''# source file: a.py'', ''class A:'', ''    def f(self):'']) ''d'' ([], []) ''a.pyh'')"
  by (rule readers_agree [OF readers_example])

end
