(* ===== verification/Intf_Decls.thy ===== *)
theory Intf_Decls
  imports Intf_Readers Py_Number
begin

text \<open>
  The whole interface check on sources that declare what their description says: the texts of
  declarations, what the readers make of them, and the check of a directory of descriptions.
\<close>

section \<open>Declarations as text\<close>

datatype decl =
    D_Def string "string list"
  | D_Class string "string list" "(string \<times> string list) list"
  | D_Var string string

definition def_text :: "string \<Rightarrow> string list \<Rightarrow> string" where
  "def_text n ps = ''def '' @ n @ ''('' @ s_join '', '' ps @ ''):''"

definition class_text :: "string \<Rightarrow> string list \<Rightarrow> string" where
  "class_text n supers = ''class '' @ n @ (if supers = [] then '':'' else ''('' @ s_join '','' supers @ ''):'')"

definition var_text :: "string \<Rightarrow> string \<Rightarrow> string" where
  "var_text n v = n @ '' = '' @ v"

fun decl_lines :: "decl \<Rightarrow> string list" where
  "decl_lines (D_Def n ps) = [def_text n ps]"
| "decl_lines (D_Class n supers ms) = class_text n supers # map (\<lambda>(m, ps). ''    '' @ def_text m ps) ms"
| "decl_lines (D_Var n v) = [var_text n v]"

definition word_char :: "char \<Rightarrow> bool" where
  "word_char c \<longleftrightarrow> c_upper c \<or> c_lower c \<or> c_digit c \<or> c = CHR ''_''"

definition word :: "string \<Rightarrow> bool" where
  "word n \<longleftrightarrow> n \<noteq> [] \<and> list_all word_char n \<and> \<not> s_contains n ''class''"

definition param :: "string \<Rightarrow> bool" where
  "param p \<longleftrightarrow> p \<noteq> [] \<and> s_strip p = p \<and> list_all (\<lambda>c. c \<notin> set ''(),#'' \<and> c \<noteq> CHR 0x22) p \<and> \<not> s_contains p ''class''"

fun decl_ok :: "decl \<Rightarrow> bool" where
  "decl_ok (D_Def n ps) \<longleftrightarrow> word n \<and> list_all param ps"
| "decl_ok (D_Class n supers ms) \<longleftrightarrow> list_all word_char n \<and> n \<noteq> [] \<and> list_all (list_all word_char) supers
     \<and> list_all (\<lambda>(m, ps). word m \<and> list_all param ps) ms"
| "decl_ok (D_Var n v) \<longleftrightarrow> list_all s_isupper (s_split ''_'' n) \<and> list_all word_char n
     \<and> v \<noteq> [] \<and> \<not> c_space (last v) \<and> CHR ''#'' \<notin> set v \<and> CHR 0x22 \<notin> set v
     \<and> \<not> s_contains (var_text n v) ''class'' \<and> \<not> s_contains (var_text n v) ''def''"

section \<open>Occurrences beside separators\<close>

lemma s_contains_Cons: "s_contains (c # cs) p \<longleftrightarrow> startswith (c # cs) p \<or> s_contains cs p"
  by (simp add: s_contains_def)

lemma s_contains_Nil: "s_contains [] p \<longleftrightarrow> p = []"
  by (simp add: s_contains_def)

lemma startswith_sep: "x \<notin> set p \<Longrightarrow> startswith (u @ x # v) p \<longleftrightarrow> startswith u p"
proof (induction p arbitrary: u)
  case Nil
  then show ?case by (simp add: startswith_def)
next
  case (Cons a p)
  then show ?case by (cases u) (auto simp: startswith_def)
qed

lemma s_contains_sep:
  assumes "x \<notin> set p" and "p \<noteq> []"
  shows "s_contains (u @ x # v) p \<longleftrightarrow> s_contains u p \<or> s_contains v p"
proof (induction u)
  case Nil
  have "\<not> startswith (x # v) p" using assms by (cases p) (auto simp: startswith_def)
  then show ?case using assms by (simp add: s_contains_Cons s_contains_Nil)
next
  case (Cons c u)
  have "startswith ((c # u) @ x # v) p \<longleftrightarrow> startswith (c # u) p" using assms(1) by (rule startswith_sep)
  with Cons show ?case by (simp add: s_contains_Cons)
qed

lemma s_contains_skip: "c \<notin> set p \<Longrightarrow> p \<noteq> [] \<Longrightarrow> s_contains (c # cs) p \<longleftrightarrow> s_contains cs p"
  using s_contains_sep [of c p "[]" cs] by (simp add: s_contains_Nil)

lemma s_contains_single: "s_contains s [x] \<longleftrightarrow> x \<in> set s"
  by (induction s) (auto simp: s_contains_Cons s_contains_Nil startswith_def)

lemma s_contains_infix: "s_contains (u @ p @ v) p"
  unfolding s_contains_iff by blast

lemma s_contains_join:
  assumes "CHR '','' \<notin> set p" and "CHR '' '' \<notin> set p" and "p \<noteq> []"
  shows "s_contains (s_join '', '' ps) p \<longleftrightarrow> list_ex (\<lambda>x. s_contains x p) ps"
proof (induction ps)
  case Nil
  then show ?case using assms by (simp add: s_contains_Nil)
next
  case (Cons a ps)
  then show ?case
    using assms s_contains_sep [OF assms(1,3), of a] by (cases ps) (simp_all add: s_contains_skip)
qed

lemma s_find_first: "x \<notin> set u \<Longrightarrow> s_find (u @ x # v) [x] = Some (length u)"
  by (induction u) (auto simp: startswith_def)

lemma s_index_first: "x \<notin> set u \<Longrightarrow> s_index (u @ x # v) [x] = Inr (length u)"
  by (simp add: s_index_def s_find_first)

lemma word_char_not:
  "word_char c \<Longrightarrow> c \<noteq> CHR ''('' \<and> c \<noteq> CHR '')'' \<and> c \<noteq> CHR '','' \<and> c \<noteq> CHR ''#'' \<and> c \<noteq> CHR ''='' \<and> c \<noteq> CHR '':'' \<and> \<not> c_space c \<and> c \<noteq> CHR 0x22 \<and> c \<noteq> CHR '' ''"
  by (auto simp: word_char_def c_upper_def c_lower_def c_digit_def c_space_def)

lemma word_chars_not:
  assumes "list_all word_char n"
  shows "CHR ''('' \<notin> set n" "CHR '')'' \<notin> set n" "CHR '','' \<notin> set n" "CHR ''#'' \<notin> set n" "CHR ''='' \<notin> set n"
    "CHR 0x22 \<notin> set n" "CHR '' '' \<notin> set n"
  using assms word_char_not by (fastforce simp: list_all_iff)+

lemma word_strip: "list_all word_char n \<Longrightarrow> s_strip n = n"
proof (cases "n = []")
  case True
  then show ?thesis by (simp add: s_strip_def s_rstrip_def s_lstrip_def)
next
  case False
  assume "list_all word_char n"
  then show ?thesis using False word_char_not by (intro strip_solid) (auto simp: list_all_iff)
qed

section \<open>What the readers make of a declaration\<close>

lemma rstrip_solid: "s \<noteq> [] \<Longrightarrow> \<not> c_space (last s) \<Longrightarrow> rstrip s = s"
  by (cases s rule: rev_cases) (simp_all add: rstrip_def s_rstrip_def)

lemma tree_idx_top: "c \<noteq> CHR '' '' \<Longrightarrow> get_tree_idx (c # cs) = 1"
  by (subst get_tree_idx.simps) (simp add: startswith_def)

lemma s_join_hd: "s_join sep ((c # a) # xs) = c # s_join sep (a # xs)"
  by (cases xs) simp_all

lemma join_blank: "s_join '', '' (p # qs) = s_join '','' (p # map ((#) (CHR '' '')) qs)"
  by (induction qs arbitrary: p) (simp_all add: s_join_hd)

lemma strip_blank: "s_strip (CHR '' '' # q) = s_strip q"
  by (simp add: s_strip_def s_lstrip_def c_space_def)

lemma split_join_params:
  assumes "list_all param ps"
  shows "map s_strip (s_split '','' (s_join '', '' ps)) = (if ps = [] then [''''] else ps)"
proof (cases ps)
  case Nil
  then show ?thesis by (simp add: s_split_def s_strip_def s_rstrip_def s_lstrip_def)
next
  case (Cons p qs)
  let ?bs = "p # map ((#) (CHR '' '')) qs"
  have ok: "list_all (\<lambda>q. s_strip q = q \<and> CHR '','' \<notin> set q) (p # qs)"
    using assms Cons by (auto simp: list_all_iff param_def)
  then have "\<forall>q\<in>set ?bs. CHR '','' \<notin> set q" by (auto simp: list_all_iff)
  then have "s_split '','' (s_join '','' ?bs) = ?bs" by (intro s_split_join_char) simp_all
  then have "s_split '','' (s_join '', '' ps) = ?bs" by (simp only: Cons join_blank)
  moreover have "map s_strip (map ((#) (CHR '' '')) qs) = qs"
    using ok by (simp add: strip_blank list_all_iff map_idI)
  then have "map s_strip ?bs = ps" using ok by (simp add: Cons)
  ultimately show ?thesis using Cons by simp
qed

lemma join_params_clean:
  assumes "list_all param ps" and "c \<in> set ''()#'' \<or> c = CHR 0x22"
  shows "c \<notin> set (s_join '', '' ps)"
  using assms(1)
proof (induction ps)
  case Nil
  then show ?case by simp
next
  case (Cons p ps)
  then have "c \<notin> set p" using assms(2) by (auto simp: param_def list_all_iff)
  then show ?case using Cons assms(2) by (cases ps) auto
qed

lemma slice_between_chars: "slice (length u) (length u + length w) (u @ w @ v) = w"
  by (simp add: slice_def)

lemma def_text_parts:
  assumes "word n" and "list_all param ps"
  shows "s_index (def_text n ps) ''('' = Inr (4 + length n)"
    and "slice 4 (4 + length n) (def_text n ps) = n"
    and "paren_parts (def_text n ps) = Inr (s_split '','' (s_join '', '' ps))"
proof -
  let ?u = "''def '' @ n" and ?j = "s_join '', '' ps"
  have n: "CHR ''('' \<notin> set n" "CHR '')'' \<notin> set n" using assms(1) word_chars_not by (auto simp: word_def)
  have j: "CHR '')'' \<notin> set ?j" using join_params_clean [OF assms(2)] by simp
  have t1: "def_text n ps = ?u @ CHR ''('' # (?j @ '')'' @ '':'')" by (simp add: def_text_def)
  have t2: "def_text n ps = (?u @ CHR ''('' # ?j) @ CHR '')'' # '':''" by (simp add: def_text_def)
  have i1: "s_index (def_text n ps) ''('' = Inr (length ?u)"
    unfolding t1 using n by (intro s_index_first) simp
  have i2: "s_index (def_text n ps) '')'' = Inr (length (?u @ CHR ''('' # ?j))"
    unfolding t2 using n j by (intro s_index_first) simp
  show "s_index (def_text n ps) ''('' = Inr (4 + length n)" using i1 by simp
  show "slice 4 (4 + length n) (def_text n ps) = n"
    by (simp add: def_text_def slice_def eval_nat_numeral)
  have "slice (length ?u + 1) (length (?u @ CHR ''('' # ?j)) (def_text n ps) = ?j"
    unfolding t1 using slice_between_chars [of "?u @ ''(''" ?j] by simp
  then show "paren_parts (def_text n ps) = Inr (s_split '','' ?j)"
    unfolding paren_parts_def i1 i2 by simp
qed

lemma def_text_no_class:
  assumes "word n" and "list_all param ps"
  shows "\<not> s_contains (def_text n ps) ''class''"
proof -
  have "\<not> s_contains (s_join '', '' ps) ''class''"
    using assms(2) by (subst s_contains_join) (auto simp: param_def list_all_iff list_ex_iff)
  then have "\<not> s_contains (s_join '', '' ps @ CHR '')'' # '':'') ''class''"
    by (subst s_contains_sep) (simp_all add: s_contains_skip s_contains_Nil)
  moreover have "\<not> s_contains (n @ CHR ''('' # v) ''class''" if "\<not> s_contains v ''class''" for v
    using that assms(1) by (subst s_contains_sep) (simp_all add: word_def)
  ultimately show ?thesis by (simp add: def_text_def s_contains_Cons startswith_def)
qed

definition indented :: "nat \<Rightarrow> string \<Rightarrow> string" where
  "indented k s = concat (replicate k ''    '') @ s"

lemma indented_simps: "indented 0 s = s" "indented (Suc k) s = ''    '' @ indented k s"
  by (simp_all add: indented_def)

lemma indented_idx: "get_tree_idx (indented k (CHR ''d'' # s)) = k + 1"
  by (induction k) (simp_all add: indented_simps get_tree_idx.simps startswith_def)

lemma indented_strip: "s_strip (indented k s) = s_strip s"
  by (induction k) (simp_all add: indented_simps strip_blank)

lemma indented_contains:
  "CHR '' '' \<notin> set p \<Longrightarrow> p \<noteq> [] \<Longrightarrow> s_contains (indented k s) p \<longleftrightarrow> s_contains s p"
  by (induction k) (simp_all add: indented_simps s_contains_skip)

lemma def_text_strip: "s_strip (def_text n ps) = def_text n ps"
  by (intro strip_solid) (simp_all add: def_text_def c_space_def)

definition params_of :: "string list \<Rightarrow> string list" where
  "params_of ps = (if ps = [] then [''''] else ps)"

definition func_of :: "string \<Rightarrow> string list \<Rightarrow> func_spec" where
  "func_of n ps = \<lparr>func_name = n, func_params = params_of ps\<rparr>"

lemma parsed_def:
  assumes "word n" and "list_all param ps"
  shows "parsed_line (indented k (def_text n ps)) = Inr (Some (k + 1, Func_Obj (func_of n ps)))"
proof -
  have "\<not> startswith (indented k (def_text n ps)) ''#''"
    by (cases k) (simp_all add: indented_simps def_text_def startswith_def)
  moreover have "\<not> s_contains (indented k (def_text n ps)) ''class''"
    using def_text_no_class [OF assms] by (subst indented_contains) simp_all
  moreover have "s_contains (indented k (def_text n ps)) ''def''"
    by (subst indented_contains) (simp_all add: def_text_def s_contains_Cons startswith_def)
  moreover have "get_tree_idx (indented k (def_text n ps)) = k + 1"
    using indented_idx by (simp add: def_text_def)
  ultimately show ?thesis
    using def_text_parts [OF assms] split_join_params [OF assms(2)]
    by (simp add: parsed_line_def indented_strip def_text_strip func_of_def params_of_def)
qed

lemma class_text_idx: "get_tree_idx (class_text n supers) = 1"
  by (simp add: class_text_def tree_idx_top)

lemma join_words_clean:
  assumes "list_all (list_all word_char) ws" and "c \<in> set ''()#='' \<or> c = CHR 0x22"
  shows "c \<notin> set (s_join '','' ws)"
  using assms(1)
proof (induction ws)
  case Nil
  then show ?case by simp
next
  case (Cons w ws)
  then have "c \<notin> set w" using assms(2) word_chars_not by auto
  then show ?case using Cons assms(2) by (cases ws) auto
qed

lemma parsed_class:
  assumes "list_all word_char n" and "list_all (list_all word_char) supers"
  shows "parsed_line (class_text n supers) = Inr (Some (1, Class_Obj (new_class n supers)))"
proof -
  let ?l = "class_text n supers" and ?u = "''class '' @ n" and ?j = "s_join '','' supers"
  have n: "CHR ''('' \<notin> set n" "CHR '')'' \<notin> set n" using word_chars_not [OF assms(1)] by auto
  have start: "\<not> startswith ?l ''#''" by (simp add: class_text_def startswith_def)
  have cls: "s_contains ?l ''class''" by (simp add: class_text_def s_contains_Cons startswith_def)
  show ?thesis
  proof (cases "supers = []")
    case True
    then have "\<not> s_contains ?l ''(''" using n by (simp add: s_contains_single class_text_def)
    then show ?thesis using start cls True class_text_idx [of n supers]
      by (simp add: parsed_line_def) (simp add: class_text_def butlast_append)
  next
    case False
    have j: "CHR '')'' \<notin> set ?j" using join_words_clean [OF assms(2)] by simp
    have t1: "?l = ?u @ CHR ''('' # (?j @ '')'' @ '':'')" using False by (simp add: class_text_def)
    have t2: "?l = (?u @ CHR ''('' # ?j) @ CHR '')'' # '':''" using False by (simp add: class_text_def)
    have i1: "s_index ?l ''('' = Inr (length ?u)" unfolding t1 using n by (intro s_index_first) simp
    have i2: "s_index ?l '')'' = Inr (length (?u @ CHR ''('' # ?j))" unfolding t2 using n j by (intro s_index_first) simp
    have "slice (length ?u + 1) (length (?u @ CHR ''('' # ?j)) ?l = ?j"
      unfolding t1 using slice_between_chars [of "?u @ ''(''" ?j] by simp
    then have parts: "paren_parts ?l = Inr supers"
      unfolding paren_parts_def i1 i2 using assms(2) False word_chars_not(3)
      by (simp add: s_split_join_char list_all_iff)
    have nm: "slice 6 (length ?u) ?l = n" unfolding t1 by (simp add: slice_def eval_nat_numeral)
    have "s_contains ?l ''(''" unfolding s_contains_single t1 by simp
    then show ?thesis using start cls i1 nm parts class_text_idx [of n supers]
      by (simp add: parsed_line_def)
  qed
qed

lemma split_head: "c \<noteq> x \<Longrightarrow> \<exists>p ps. s_split [x] (c # cs) = (c # p) # ps"
proof -
  assume "c \<noteq> x"
  have "\<exists>p ps. split_aux [x] acc cs = (rev acc @ p) # ps" for acc
  proof (induction cs arbitrary: acc)
    case Nil
    then show ?case by simp
  next
    case (Cons a cs)
    from Cons.IH [of "a # acc"] show ?case by (auto simp: startswith_def)
  qed
  from this [of "[c]"] show ?thesis using \<open>c \<noteq> x\<close> by (simp add: s_split_def startswith_def)
qed

lemma upper_pieces:
  assumes "list_all s_isupper (s_split ''_'' n)"
  shows "n \<noteq> []" and "hd n \<noteq> CHR ''_''"
proof -
  show "n \<noteq> []" using assms by (auto simp: s_split_def s_isupper_def)
  then show "hd n \<noteq> CHR ''_''" using assms
    by (cases n) (auto simp: s_split_def s_isupper_def startswith_def)
qed

lemma var_name:
  assumes "list_all s_isupper (s_split ''_'' n)" and "list_all word_char n"
  shows "rstrip (take (length n + 1) (var_text n v)) = n" and "s_find (var_text n v) ''='' = Some (length n + 1)"
proof -
  have n: "n \<noteq> []" using upper_pieces assms(1) by blast
  then have "\<not> c_space (last n)" using assms(2) word_char_not by (auto simp: list_all_iff)
  then have "rstrip n = n" using n by (intro rstrip_solid)
  then have "rstrip (n @ '' '') = n" by (simp add: rstrip_def s_rstrip_def c_space_def)
  then show "rstrip (take (length n + 1) (var_text n v)) = n" by (simp add: var_text_def)
  have "CHR ''='' \<notin> set (n @ '' '')" using word_chars_not [OF assms(2)] by simp
  from s_find_first [OF this, of "CHR '' '' # v"] show "s_find (var_text n v) ''='' = Some (length n + 1)"
    by (simp add: var_text_def)
qed

lemma var_is_global:
  assumes "list_all s_isupper (s_split ''_'' n)" and "list_all word_char n"
  shows "is_global_variable (var_text n v @ w)"
proof -
  have n: "n \<noteq> []" using upper_pieces assms(1) by blast
  then have hd: "hd n \<noteq> CHR '' ''" using assms(2) word_char_not by (cases n) auto
  have "var_text n v @ w = var_text n (v @ w)" by (simp add: var_text_def)
  moreover have "\<not> startswith (var_text n (v @ w)) ''    ''"
    using n hd by (cases n) (auto simp: var_text_def startswith_def)
  ultimately show ?thesis using var_name [OF assms, of "v @ w"] assms(1) by (simp add: is_global_variable_def)
qed

definition var_of :: "string \<Rightarrow> string \<Rightarrow> global_var" where
  "var_of n v = \<lparr>global_var_name = n, global_var_values = v\<rparr>"

lemma parsed_var:
  assumes "decl_ok (D_Var n v)"
  shows "parsed_line (var_text n v) = Inr (Some (1, Global_Obj (var_of n v)))"
proof -
  have ok: "list_all s_isupper (s_split ''_'' n)" "list_all word_char n"
    "\<not> s_contains (var_text n v) ''class''" "\<not> s_contains (var_text n v) ''def''" using assms by simp_all
  have n: "n \<noteq> []" using upper_pieces ok(1) by blast
  then have hd: "hd n \<noteq> CHR ''#''" "hd n \<noteq> CHR '' ''" using ok(2) word_char_not by (cases n; auto)+
  have "\<not> startswith (var_text n v) ''#''" using n hd by (cases n) (auto simp: var_text_def startswith_def)
  moreover have "get_tree_idx (var_text n v) = 1" using n hd by (cases n) (auto simp: var_text_def tree_idx_top)
  moreover have "s_index (var_text n v) ''='' = Inr (length n + 1)" by (simp add: s_index_def var_name [OF ok(1,2)])
  moreover have "drop (length n + 3) (var_text n v) = v" by (simp add: var_text_def)
  ultimately show ?thesis
    using ok(3,4) var_is_global [OF ok(1,2), of v "[]"] var_name(1) [OF ok(1,2), of v]
    by (simp add: parsed_line_def Let_def var_of_def)
qed

section \<open>The lines of a source that declares\<close>

definition newline :: char where
  "newline = CHR 0x0A"

text \<open>A source is made of declarations, lines the reader ignores, and blocks of text between
  quotes that begin with more than the quotes.\<close>

datatype src_item =
    Code string
  | Quiet string
  | Block string "string list" string

fun item_lines :: "src_item \<Rightarrow> string list" where
  "item_lines (Code l) = [l @ [newline]]"
| "item_lines (Quiet l) = [l]"
| "item_lines (Block first inner final) = first # inner @ [final]"

definition quiet_line :: "string \<Rightarrow> bool" where
  "quiet_line l \<longleftrightarrow> startswith (s_strip l) ''#''
     \<or> \<not> (s_contains (s_strip l) quotes \<and> \<not> endswith (s_strip l) quotes)
       \<and> \<not> s_contains (cut_comment l) ''def '' \<and> \<not> s_contains (cut_comment l) ''class ''
       \<and> \<not> is_global_variable (cut_comment l)"

fun item_ok :: "src_item \<Rightarrow> bool" where
  "item_ok (Code l) \<longleftrightarrow> True"
| "item_ok (Quiet l) \<longleftrightarrow> quiet_line l"
| "item_ok (Block first inner final) \<longleftrightarrow>
     \<not> startswith (s_strip first) ''#'' \<and> s_contains (s_strip first) quotes \<and> \<not> endswith (s_strip first) quotes
     \<and> list_all (\<lambda>l. \<not> s_contains (s_strip l) quotes) inner \<and> s_contains (s_strip final) quotes"

fun code_of :: "src_item list \<Rightarrow> string list" where
  "code_of [] = []"
| "code_of (Code l # items) = l # code_of items"
| "code_of (_ # items) = code_of items"

definition code_line :: "string \<Rightarrow> bool" where
  "code_line l \<longleftrightarrow> rstrip (l @ [newline]) = l \<and> CHR ''#'' \<notin> set l \<and> CHR 0x22 \<notin> set l
     \<and> ((s_contains l ''def '' \<or> s_contains l ''class '') \<and> endswith l '':''
        \<or> \<not> s_contains l ''def '' \<and> \<not> s_contains l ''class '' \<and> is_global_variable (l @ [newline]))"

lemma set_strip_subset: "set (s_strip s) \<subseteq> set s"
  by (auto simp: s_strip_def s_rstrip_def s_lstrip_def dest!: set_dropWhileD)

lemma no_quotes: "CHR 0x22 \<notin> set s \<Longrightarrow> \<not> s_contains s quotes"
  unfolding s_contains_iff quotes_def by (auto simp: eval_nat_numeral)

lemma cut_comment_none: "CHR ''#'' \<notin> set s \<Longrightarrow> cut_comment s = s"
  using s_contains_single [of s "CHR ''#''"] by (auto simp: cut_comment_def s_contains_def split: option.splits)

lemma code_step:
  assumes "code_line l"
  shows "source_line_step (xs, False, True) (l @ [newline]) = Inr (xs @ [l], False, True)"
proof -
  let ?r = "l @ [newline]"
  have h: "CHR ''#'' \<notin> set ?r" and q: "CHR 0x22 \<notin> set ?r" using assms by (auto simp: code_line_def newline_def)
  have "CHR ''#'' \<notin> set (s_strip ?r)" using h set_strip_subset by blast
  then have s: "\<not> startswith (s_strip ?r) ''#''" by (auto simp: startswith_iff)
  have nq: "\<not> s_contains (s_strip ?r) quotes" using q set_strip_subset by (intro no_quotes) blast
  have c: "s_contains ?r p \<longleftrightarrow> s_contains l p" if "newline \<notin> set p" "p \<noteq> []" for p
    using s_contains_sep [OF that, of l "[]"] that by (simp add: s_contains_Nil)
  have cd: "s_contains ?r ''def '' \<longleftrightarrow> s_contains l ''def ''" "s_contains ?r ''class '' \<longleftrightarrow> s_contains l ''class ''"
    by (intro c; simp add: newline_def)+
  have "get_new_lines ?r (xs, False, True) = (xs @ [l], False, True)"
    using assms by (auto simp: get_new_lines_def cd code_line_def)
  then show ?thesis by (simp add: source_line_step_def Let_def s nq cut_comment_none [OF h])
qed

lemma quiet_step:
  assumes "quiet_line l"
  shows "source_line_step (xs, False, True) l = Inr (xs, False, True)"
  using assms by (auto simp: source_line_step_def quiet_line_def Let_def get_new_lines_def)

lemma block_steps:
  assumes "list_all (\<lambda>l. \<not> s_contains (s_strip l) quotes) inner"
  shows "foldE source_line_step (xs, True, True) inner = Inr (xs, True, True)"
  using assms by (induction inner) (simp_all add: source_line_step_def Let_def)

lemma item_steps:
  assumes "item_ok i" and "list_all code_line (code_of [i])"
  shows "foldE source_line_step (xs, False, True) (item_lines i) = Inr (xs @ code_of [i], False, True)"
proof (cases i)
  case (Code l)
  then show ?thesis using assms code_step by simp
next
  case (Quiet l)
  then show ?thesis using assms quiet_step by simp
next
  case (Block first inner final)
  have "source_line_step (xs, False, True) first = Inr (xs, True, True)"
    using assms Block by (simp add: source_line_step_def Let_def)
  moreover have "source_line_step (xs, True, True) final = Inr (xs, False, True)"
    using assms Block by (simp add: source_line_step_def Let_def)
  ultimately show ?thesis using assms Block block_steps [of inner xs] by (simp add: foldE_append)
qed

lemma code_of_Cons: "code_of (i # items) = code_of [i] @ code_of items"
  by (cases i) simp_all

lemma get_spec_from_items:
  assumes "list_all item_ok items" and "list_all code_line (code_of items)"
  shows "get_spec_from_file (concat (map item_lines items)) = Inr (code_of items)"
proof -
  have "foldE source_line_step (xs, False, True) (concat (map item_lines items))
      = Inr (xs @ code_of items, False, True)" for xs
    using assms
  proof (induction items arbitrary: xs)
    case Nil
    then show ?case by simp
  next
    case (Cons i items)
    have "list_all code_line (code_of [i])" "list_all code_line (code_of items)"
      using Cons.prems(2) unfolding code_of_Cons [of i items] by simp_all
    moreover have "item_ok i" "list_all item_ok items" using Cons.prems(1) by simp_all
    ultimately show ?case
      using item_steps [of i xs] Cons.IH [of "xs @ code_of [i]"]
      by (simp add: foldE_append code_of_Cons [of i items])
  qed
  then show ?thesis by (simp add: get_spec_from_file_def)
qed

section \<open>Declarations are code lines\<close>

lemma ends_colon: "endswith (s @ '':'') '':''"
  by (simp add: endswith_iff)

lemma rstrip_newline: "rstrip (s @ [newline]) = rstrip s"
  by (simp add: rstrip_def s_rstrip_def newline_def c_space_def)

lemma def_code:
  assumes "word n" and "list_all param ps"
  shows "code_line (indented k (def_text n ps))"
proof -
  let ?p = "concat (replicate k ''    '')"
  have e: "indented k (def_text n ps) = (?p @ ''def '' @ n @ ''('' @ s_join '', '' ps @ '')'') @ '':''"
    by (simp add: indented_def def_text_def)
  have "rstrip (indented k (def_text n ps)) = indented k (def_text n ps)"
    unfolding e by (intro rstrip_solid) (simp_all add: c_space_def)
  moreover have "c \<notin> set (indented k (def_text n ps))" if "c = CHR ''#'' \<or> c = CHR 0x22" for c
    using that word_chars_not [of n] assms(1) join_params_clean [OF assms(2), of c]
    by (auto simp: e word_def)
  moreover have "s_contains (indented k (def_text n ps)) ''def ''"
    unfolding indented_def def_text_def by (rule s_contains_infix)
  moreover have "endswith (indented k (def_text n ps)) '':''" unfolding e by (rule ends_colon)
  ultimately show ?thesis by (simp add: code_line_def rstrip_newline)
qed

lemma class_code:
  assumes "list_all word_char n" and "list_all (list_all word_char) supers"
  shows "code_line (class_text n supers)"
proof -
  obtain t where e: "class_text n supers = t @ '':''" and t: "t = ''class '' @ n \<or> t = ''class '' @ n @ ''('' @ s_join '','' supers @ '')''"
    by (cases "supers = []") (auto simp: class_text_def)
  have "rstrip (class_text n supers) = class_text n supers"
    unfolding e by (intro rstrip_solid) (simp_all add: c_space_def)
  moreover have "c \<notin> set (class_text n supers)" if "c = CHR ''#'' \<or> c = CHR 0x22" for c
    using that word_chars_not [OF assms(1)] join_words_clean [OF assms(2), of c] t by (auto simp: e)
  moreover have "s_contains (class_text n supers) ''class ''"
    using s_contains_infix [of "[]" "''class ''"] by (simp add: class_text_def)
  moreover have "endswith (class_text n supers) '':''" unfolding e by (rule ends_colon)
  ultimately show ?thesis by (simp add: code_line_def rstrip_newline)
qed

lemma s_contains_prefix: "s_contains s (p @ q) \<Longrightarrow> s_contains s p"
  unfolding s_contains_iff by (metis append.assoc)

lemma var_code:
  assumes "decl_ok (D_Var n v)"
  shows "code_line (var_text n v)"
proof -
  have ok: "list_all s_isupper (s_split ''_'' n)" "list_all word_char n"
    "\<not> s_contains (var_text n v) ''class''" "\<not> s_contains (var_text n v) ''def''" "v \<noteq> []" "\<not> c_space (last v)"
    using assms by simp_all
  have "rstrip (var_text n v) = var_text n v" using ok(5,6) by (intro rstrip_solid) (simp_all add: var_text_def)
  moreover have "\<not> s_contains (var_text n v) ''def ''" using ok(4) s_contains_prefix [of _ "''def''" "'' ''"] by auto
  moreover have "\<not> s_contains (var_text n v) ''class ''" using ok(3) s_contains_prefix [of _ "''class''" "'' ''"] by auto
  moreover have "CHR ''#'' \<notin> set (var_text n v)" "CHR 0x22 \<notin> set (var_text n v)"
    using assms word_chars_not [OF ok(2)] by (auto simp: var_text_def)
  ultimately show ?thesis using var_is_global [OF ok(1,2)] by (simp add: code_line_def rstrip_newline)
qed

lemma indented_one: "''    '' @ s = indented 1 s"
  by (simp add: indented_def)

lemma decl_code:
  assumes "decl_ok d"
  shows "list_all code_line (decl_lines d)"
proof (cases d)
  case (D_Def n ps)
  then show ?thesis using assms def_code [of n ps 0] by (simp add: indented_simps)
next
  case (D_Class n supers ms)
  then have "list_all (\<lambda>(m, ps). code_line (indented 1 (def_text m ps))) ms"
    using assms def_code by (auto simp: list_all_iff)
  then show ?thesis
    using assms D_Class class_code by (simp add: list.pred_map comp_def indented_simps case_prod_unfold)
next
  case (D_Var n v)
  then show ?thesis using assms var_code by simp
qed

section \<open>No declaration is taken for a nested function\<close>

definition tree_top :: "string list \<Rightarrow> bool" where
  "tree_top tree \<longleftrightarrow> tree \<noteq> [] \<and> tree ! 0 = []"

definition in_class :: "string list \<Rightarrow> bool" where
  "in_class tree \<longleftrightarrow> tree_top tree \<and> 1 < length tree \<and> tree ! 1 = ''class''"

definition put_type :: "string list \<Rightarrow> nat \<Rightarrow> string \<Rightarrow> string list" where
  "put_type tree i t = (if length tree \<le> i then tree @ [t] else tree[i := t])"

lemma remove_keep:
  assumes "line_type prev l = Some t" and "get_tree_idx l = i"
    and "t \<noteq> ''func'' \<or> tree ! (min (length tree - 1) (i - 1)) \<noteq> ''func''"
  shows "remove_sub_func prev tree (l # ls)
    = bindE (remove_sub_func (Some t) (put_type tree i t) ls) (\<lambda>rest. Inr (l # rest))"
  using assms by (auto simp: put_type_def)

lemma put_type_top: "tree_top tree \<Longrightarrow> tree_top (put_type tree (Suc i) t)"
  by (auto simp: put_type_def tree_top_def nth_append)

lemma put_class: "tree_top tree \<Longrightarrow> in_class (put_type tree 1 ''class'')"
  by (cases tree) (auto simp: put_type_def in_class_def tree_top_def nth_append)

lemma put_method: "in_class tree \<Longrightarrow> in_class (put_type tree 2 t)"
  by (auto simp: put_type_def in_class_def tree_top_def nth_append)

lemma def_type: "line_type prev (indented k (def_text n ps)) = Some ''func''"
  by (simp add: line_type_def indented_strip def_text_strip) (simp add: def_text_def startswith_def)

lemma def_idx: "get_tree_idx (indented k (def_text n ps)) = k + 1"
  using indented_idx by (simp add: def_text_def)

lemma remove_def:
  assumes "tree_top tree"
  shows "remove_sub_func prev tree (indented 0 (def_text n ps) # ls)
    = bindE (remove_sub_func (Some ''func'') (put_type tree 1 ''func'') ls) (\<lambda>rest. Inr (indented 0 (def_text n ps) # rest))"
  using assms by (intro remove_keep def_type) (simp_all add: def_idx tree_top_def)

lemma remove_method:
  assumes "in_class tree"
  shows "remove_sub_func prev tree (indented 1 (def_text n ps) # ls)
    = bindE (remove_sub_func (Some ''func'') (put_type tree 2 ''func'') ls) (\<lambda>rest. Inr (indented 1 (def_text n ps) # rest))"
proof (intro remove_keep def_type)
  show "get_tree_idx (indented 1 (def_text n ps)) = 2" by (simp add: def_idx)
  have "1 < length tree" using assms by (simp add: in_class_def)
  then have "min (length tree - 1) (2 - 1) = 1" by linarith
  then show "''func'' \<noteq> ''func'' \<or> tree ! min (length tree - 1) (2 - 1) \<noteq> ''func''"
    using assms by (simp add: in_class_def)
qed

lemma remove_methods:
  assumes "in_class tree"
  shows "\<exists>prev' tree'. tree_top tree' \<and>
    remove_sub_func prev tree (map (\<lambda>(m, ps). indented 1 (def_text m ps)) ms @ ls)
      = bindE (remove_sub_func prev' tree' ls)
          (\<lambda>rest. Inr (map (\<lambda>(m, ps). indented 1 (def_text m ps)) ms @ rest))"
  using assms
proof (induction ms arbitrary: prev tree)
  case Nil
  then show ?case by (intro exI [of _ prev] exI [of _ tree]) (simp add: in_class_def)
next
  case (Cons mp ms)
  obtain m ps where mp: "mp = (m, ps)" by (cases mp)
  from Cons.IH [OF put_method [OF Cons.prems], of "Some ''func''" "''func''"] obtain prev' tree' where
    t: "tree_top tree'" and r: "remove_sub_func (Some ''func'') (put_type tree 2 ''func'')
        (map (\<lambda>(m, ps). indented 1 (def_text m ps)) ms @ ls)
      = bindE (remove_sub_func prev' tree' ls) (\<lambda>rest. Inr (map (\<lambda>(m, ps). indented 1 (def_text m ps)) ms @ rest))"
    by blast
  have "remove_sub_func prev tree (map (\<lambda>(m, ps). indented 1 (def_text m ps)) (mp # ms) @ ls)
      = bindE (remove_sub_func prev' tree' ls)
          (\<lambda>rest. Inr (map (\<lambda>(m, ps). indented 1 (def_text m ps)) (mp # ms) @ rest))"
    by (simp only: mp list.map prod.case append_Cons remove_method [OF Cons.prems] r bindE_assoc bindE_simps)
  with t show ?case by blast
qed

lemma remove_class:
  assumes "tree_top tree"
  shows "remove_sub_func prev tree (class_text n supers # ls)
    = bindE (remove_sub_func (Some ''class'') (put_type tree 1 ''class'') ls) (\<lambda>rest. Inr (class_text n supers # rest))"
proof (intro remove_keep class_text_idx)
  have "s_strip (class_text n supers) = class_text n supers"
    by (intro strip_solid) (simp_all add: class_text_def c_space_def)
  then show "line_type prev (class_text n supers) = Some ''class''"
    by (simp add: line_type_def) (simp add: class_text_def startswith_def)
qed simp

lemma remove_var:
  assumes "decl_ok (D_Var n v)" and "tree_top tree"
  shows "remove_sub_func prev tree (var_text n v # ls)
    = bindE (remove_sub_func (Some n) (put_type tree 1 n) ls) (\<lambda>rest. Inr (var_text n v # rest))"
proof (intro remove_keep)
  have ok: "list_all s_isupper (s_split ''_'' n)" "list_all word_char n" "v \<noteq> []" "\<not> c_space (last v)"
    using assms(1) by simp_all
  have n: "n \<noteq> []" using upper_pieces ok(1) by blast
  have low: "\<not> c_lower (hd n)"
  proof -
    obtain c cs where n': "n = c # cs" using n by (cases n) auto
    have "c \<noteq> CHR ''_''" using upper_pieces(2) [OF ok(1)] n' by simp
    then have "\<exists>p ps. s_split ''_'' n = (c # p) # ps"
      using split_head [of c "CHR ''_''" cs] by (simp add: n')
    then show ?thesis using ok(1) n' by (auto simp: s_isupper_def)
  qed
  have hd: "\<not> c_space (hd n)" using ok(2) n word_char_not by (cases n) auto
  have "s_strip (var_text n v) = var_text n v"
    using n ok hd by (intro strip_solid) (simp_all add: var_text_def)
  moreover have "\<not> startswith (var_text n v) ''def ''" "\<not> startswith (var_text n v) ''class ''"
    using low n by (cases n; auto simp: var_text_def startswith_def c_lower_def)+
  ultimately show "line_type prev (var_text n v) = Some n"
    using var_is_global [OF ok(1,2), of v "[]"] var_name [OF ok(1,2), of v] by (simp add: line_type_def)
  show "get_tree_idx (var_text n v) = 1"
    using n hd by (cases n) (auto simp: var_text_def c_space_def intro!: tree_idx_top [unfolded One_nat_def])
  have "n \<noteq> ''func''" using low by (auto simp: c_lower_def)
  then show "n \<noteq> ''func'' \<or> tree ! (min (length tree - 1) (1 - 1)) \<noteq> ''func''" by simp
qed

lemma remove_decl:
  assumes "decl_ok d" and "tree_top tree"
  shows "\<exists>prev' tree'. tree_top tree' \<and> remove_sub_func prev tree (decl_lines d @ ls)
    = bindE (remove_sub_func prev' tree' ls) (\<lambda>rest. Inr (decl_lines d @ rest))"
proof (cases d)
  case (D_Def n ps)
  have "tree_top (put_type tree 1 ''func'')" using put_type_top [OF assms(2), of 0] by simp
  then show ?thesis using remove_def [OF assms(2), of prev n ps ls] D_Def by (auto simp: indented_simps)
next
  case (D_Class n supers ms)
  have lines: "decl_lines d = class_text n supers # map (\<lambda>(m, ps). indented 1 (def_text m ps)) ms"
    by (simp add: D_Class indented_simps)
  from remove_methods [OF put_class [OF assms(2)], of "Some ''class''" ms ls] obtain prev' tree' where
    t: "tree_top tree'" and r: "remove_sub_func (Some ''class'') (put_type tree 1 ''class'')
        (map (\<lambda>(m, ps). indented 1 (def_text m ps)) ms @ ls)
      = bindE (remove_sub_func prev' tree' ls) (\<lambda>rest. Inr (map (\<lambda>(m, ps). indented 1 (def_text m ps)) ms @ rest))"
    by blast
  have "remove_sub_func prev tree (decl_lines d @ ls)
      = bindE (remove_sub_func prev' tree' ls) (\<lambda>rest. Inr (decl_lines d @ rest))"
    by (simp only: lines append_Cons remove_class [OF assms(2)] r bindE_assoc bindE_simps)
  with t show ?thesis by blast
next
  case (D_Var n v)
  have "tree_top (put_type tree 1 n)" using put_type_top [OF assms(2), of 0] by simp
  then show ?thesis using remove_var [of n v tree prev ls] assms D_Var by auto
qed

lemma remove_none:
  assumes "list_all decl_ok ds"
  shows "remove_sub_func_under_func (concat (map decl_lines ds)) = Inr (concat (map decl_lines ds))"
proof -
  have "remove_sub_func prev tree (concat (map decl_lines ds)) = Inr (concat (map decl_lines ds))"
    if "tree_top tree" for prev tree
    using assms that
  proof (induction ds arbitrary: prev tree)
    case Nil
    then show ?case by simp
  next
    case (Cons d ds)
    from remove_decl [of d tree prev "concat (map decl_lines ds)"] Cons.prems obtain prev' tree' where
      "tree_top tree'" "remove_sub_func prev tree (decl_lines d @ concat (map decl_lines ds))
        = bindE (remove_sub_func prev' tree' (concat (map decl_lines ds))) (\<lambda>rest. Inr (decl_lines d @ rest))"
      by auto
    then show ?case using Cons by simp
  qed
  then show ?thesis by (simp add: remove_sub_func_under_func_def tree_top_def)
qed

section \<open>Entering declarations\<close>

fun obj_ok :: "spec_obj \<Rightarrow> bool" where
  "obj_ok (File_Obj _) \<longleftrightarrow> False"
| "obj_ok (Class_Obj c) \<longleftrightarrow> class_funcs c = [] \<and> s_strip (class_name c) = class_name c"
| "obj_ok (Func_Obj s) \<longleftrightarrow> func_name s \<noteq> []"
| "obj_ok (Global_Obj v) \<longleftrightarrow> s_strip (global_var_name v) = global_var_name v \<and> public_name (global_var_name v)"

definition refs_in :: "spec_obj list \<Rightarrow> file_spec \<Rightarrow> bool" where
  "refs_in objs f \<longleftrightarrow> list_all (\<lambda>(_, r). r < length objs) (class_specs f)"

definition store_ok :: "spec_obj list \<Rightarrow> bool" where
  "store_ok objs \<longleftrightarrow> (\<exists>f rest. objs = File_Obj f # rest \<and> file_ok objs f \<and> refs_in objs f)"

definition state_ok :: "spec_state \<Rightarrow> bool" where
  "state_ok st \<longleftrightarrow> store_ok (fst st) \<and> snd st \<noteq> [] \<and> snd st ! 0 = 0"

text \<open>A class is open: the object of the first level is one.\<close>

definition class_open :: "spec_state \<Rightarrow> bool" where
  "class_open st \<longleftrightarrow> state_ok st \<and> 1 < length (snd st) \<and> snd st ! 1 < length (fst st)
     \<and> (\<exists>c. fst st ! (snd st ! 1) = Class_Obj c)"

lemma list_all_dset: "list_all P d \<Longrightarrow> P (k, v) \<Longrightarrow> list_all P (dset d k v)"
  unfolding dset_def by (induction d) auto

lemma list_all_keys_dset: "list_all P (map fst d) \<Longrightarrow> P k \<Longrightarrow> list_all P (map fst (dset d k v))"
  by (simp add: keys_dset)

lemma funcs_ok_dset: "funcs_ok d \<Longrightarrow> k \<noteq> [] \<Longrightarrow> funcs_ok (dset d k v)"
  unfolding funcs_ok_def by (auto simp: keys_dset)

lemma keys_plain_dset: "keys_plain d \<Longrightarrow> s_strip k = k \<Longrightarrow> keys_plain (dset d k v)"
  unfolding keys_plain_def by (auto simp: keys_dset)

definition class_ref_ok :: "spec_obj list \<Rightarrow> nat \<Rightarrow> bool" where
  "class_ref_ok objs r \<longleftrightarrow> r < length objs \<and> (\<exists>c. objs ! r = Class_Obj c \<and> funcs_ok (class_funcs c))"

lemma store_ok_iff:
  "store_ok objs \<longleftrightarrow> (\<exists>f rest. objs = File_Obj f # rest \<and> funcs_ok (func_specs f)
     \<and> keys_plain (global_var_spec f) \<and> list_all public_name (map fst (global_var_spec f))
     \<and> keys_plain (class_specs f) \<and> list_all (\<lambda>(_, r). class_ref_ok objs r) (class_specs f))"
  by (auto simp: store_ok_def file_ok_def refs_in_def class_ref_ok_def list_all_iff)

lemma class_ref_mono:
  assumes "class_ref_ok objs r" and "length objs \<le> length objs'"
    and "\<And>c. objs ! r = Class_Obj c \<Longrightarrow> funcs_ok (class_funcs c) \<Longrightarrow>
           \<exists>c'. objs' ! r = Class_Obj c' \<and> funcs_ok (class_funcs c')"
  shows "class_ref_ok objs' r"
  using assms by (auto simp: class_ref_ok_def)

lemma add_to_file:
  assumes "store_ok objs" and "obj_ok obj"
  shows "\<exists>f rest. add_spec (objs @ [obj]) 0 (length objs) = Inr (File_Obj f # rest @ [obj])
    \<and> length rest + 1 = length objs \<and> store_ok (File_Obj f # rest @ [obj])"
proof -
  from assms(1) obtain f rest where o: "objs = File_Obj f # rest" and ok: "funcs_ok (func_specs f)"
    "keys_plain (global_var_spec f)" "list_all public_name (map fst (global_var_spec f))" "keys_plain (class_specs f)"
    and refs: "list_all (\<lambda>(_, r). class_ref_ok objs r) (class_specs f)"
    unfolding store_ok_iff by blast
  have refs': "list_all (\<lambda>(_, r). class_ref_ok (File_Obj f' # rest @ [obj]) r) (class_specs f)" for f'
  proof -
    have "class_ref_ok (File_Obj f' # rest @ [obj]) r" if "class_ref_ok objs r" for r
      using that by (intro class_ref_mono [OF that]) (auto simp: class_ref_ok_def o nth_Cons nth_append split: nat.splits)
    then show ?thesis using refs by (auto simp: list_all_iff)
  qed
  show ?thesis
  proof (cases obj)
    case (File_Obj x)
    then show ?thesis using assms(2) by simp
  next
    case (Class_Obj c)
    have "class_ref_ok (File_Obj f' # rest @ [obj]) (length objs)" for f'
      using assms(2) by (simp add: class_ref_ok_def o Class_Obj nth_append funcs_ok_def)
    then have "store_ok (File_Obj (file_add_class f (class_name c) (length objs)) # rest @ [obj])"
      unfolding store_ok_iff using ok refs' assms(2) Class_Obj
      by (auto simp: file_add_class_def intro!: keys_plain_dset list_all_dset)
    then show ?thesis by (auto simp: add_spec_def o Class_Obj nth_append)
  next
    case (Func_Obj s)
    have "store_ok (File_Obj (file_add_func f s) # rest @ [obj])"
      unfolding store_ok_iff using ok refs' assms(2) Func_Obj
      by (auto simp: file_add_func_def intro!: funcs_ok_dset)
    then show ?thesis by (auto simp: add_spec_def o Func_Obj nth_append)
  next
    case (Global_Obj v)
    have "store_ok (File_Obj (file_add_global_var f v) # rest @ [obj])"
      unfolding store_ok_iff using ok refs' assms(2) Global_Obj
      by (auto simp: file_add_global_var_def simp del: list.pred_map intro!: keys_plain_dset list_all_keys_dset)
    then show ?thesis by (auto simp: add_spec_def o Global_Obj nth_append)
  qed
qed

lemma enter_top:
  assumes "state_ok st" and "obj_ok obj"
  shows "\<exists>st'. enter_spec st 1 obj = Inr st' \<and> state_ok st' \<and> (\<forall>c. obj = Class_Obj c \<longrightarrow> class_open st')"
proof -
  obtain objs tree where st: "st = (objs, tree)" by (cases st)
  from assms(1) have ok: "store_ok objs" "tree \<noteq> []" "tree ! 0 = 0" by (simp_all add: state_ok_def st)
  let ?t = "if length tree < 1 + 1 then tree @ [length objs] else tree[1 := length objs]"
  have t: "?t \<noteq> []" "?t ! 0 = 0" "1 < length ?t" "?t ! 1 = length objs"
    using ok(2,3) by (cases tree; auto simp: nth_append)+
  from add_to_file [OF ok(1) assms(2)] obtain f rest where
    a: "add_spec (objs @ [obj]) 0 (length objs) = Inr (File_Obj f # rest @ [obj])"
    and l: "length rest + 1 = length objs" and s: "store_ok (File_Obj f # rest @ [obj])" by blast
  have e: "enter_spec st 1 obj = Inr (File_Obj f # rest @ [obj], ?t)"
    unfolding enter_spec_def st prod.case Let_def using t a by simp
  have "state_ok (File_Obj f # rest @ [obj], ?t)" using s t by (simp add: state_ok_def)
  moreover have "class_open (File_Obj f # rest @ [obj], ?t)" if "obj = Class_Obj c" for c
  proof -
    have "(File_Obj f # rest @ [obj]) ! length objs = obj" using l [symmetric] by (simp add: nth_append)
    then show ?thesis using calculation t l that by (simp add: class_open_def)
  qed
  ultimately show ?thesis using e by blast
qed

lemma enter_method:
  assumes "class_open st" and "func_name s \<noteq> []"
  shows "\<exists>st'. enter_spec st 2 (Func_Obj s) = Inr st' \<and> class_open st'"
proof -
  obtain objs tree where st: "st = (objs, tree)" by (cases st)
  from assms(1) obtain c where ok: "store_ok objs" "tree \<noteq> []" "tree ! 0 = 0" "1 < length tree" "tree ! 1 < length objs"
    and c: "objs ! (tree ! 1) = Class_Obj c" by (auto simp: class_open_def state_ok_def st)
  let ?p = "tree ! 1" and ?new = "Class_Obj (class_add_func c s)"
  let ?t = "if length tree < 2 + 1 then tree @ [length objs] else tree[2 := length objs]"
  have t: "?t \<noteq> []" "?t ! 0 = 0" "1 < length ?t" "?t ! 1 = ?p" "2 < length ?t"
    using ok(2-4) by (auto simp: nth_append)
  from ok(1) obtain f rest where o: "objs = File_Obj f # rest" and okf: "funcs_ok (func_specs f)"
    "keys_plain (global_var_spec f)" "list_all public_name (map fst (global_var_spec f))" "keys_plain (class_specs f)"
    and refs: "list_all (\<lambda>(_, r). class_ref_ok objs r) (class_specs f)"
    unfolding store_ok_iff by blast
  have p: "0 < ?p" using c by (cases "?p") (auto simp: o)
  let ?objs = "(objs @ [Func_Obj s])[?p := ?new]"
  have a: "add_spec (objs @ [Func_Obj s]) ?p (length objs) = Inr ?objs"
    using c ok(5) by (simp add: add_spec_def nth_append)
  have e: "enter_spec st 2 (Func_Obj s) = Inr (?objs, ?t)"
    unfolding enter_spec_def st prod.case Let_def using t a by simp
  have cls: "?objs ! ?p = ?new" using ok(5) by simp
  have "class_ref_ok ?objs r" if r: "class_ref_ok objs r" for r
  proof (rule class_ref_mono [OF r])
    fix c' assume c': "objs ! r = Class_Obj c'" "funcs_ok (class_funcs c')"
    show "\<exists>c'. ?objs ! r = Class_Obj c' \<and> funcs_ok (class_funcs c')"
    proof (cases "r = ?p")
      case True
      then have "funcs_ok (class_funcs (class_add_func c s))"
        using c' c assms(2) by (simp add: class_add_func_def funcs_ok_dset)
      then show ?thesis using True cls by blast
    next
      case False
      have "r < length objs" using r by (simp add: class_ref_ok_def)
      then have "?objs ! r = objs ! r" using False by (simp add: nth_append)
      then show ?thesis using c' by simp
    qed
  qed simp
  then have "list_all (\<lambda>(_, r). class_ref_ok ?objs r) (class_specs f)" using refs by (auto simp: list_all_iff)
  moreover have "\<exists>rest'. ?objs = File_Obj f # rest'" using p by (cases "?p") (auto simp: o)
  ultimately have "store_ok ?objs" unfolding store_ok_iff using okf by fastforce
  then have "class_open (?objs, ?t)" using t ok(5) cls by (auto simp: class_open_def state_ok_def)
  with e show ?thesis by blast
qed

section \<open>The whole check\<close>

lemma code_rstrip: "code_line l \<Longrightarrow> rstrip l = l"
  by (simp add: code_line_def rstrip_newline)

lemma run_methods:
  assumes "list_all (\<lambda>(m, ps). word m \<and> list_all param ps) ms" and "class_open st"
  shows "\<exists>st'. foldE declaration_line st (map (\<lambda>(m, ps). indented 1 (def_text m ps)) ms) = Inr st' \<and> class_open st'"
  using assms
proof (induction ms arbitrary: st)
  case Nil
  then show ?case by simp
next
  case (Cons mp ms)
  obtain m ps where mp: "mp = (m, ps)" by (cases mp)
  have ok: "word m" "list_all param ps" using Cons.prems(1) by (simp_all add: mp)
  have "func_name (func_of m ps) \<noteq> []" using ok by (simp add: func_of_def word_def)
  from enter_method [OF Cons.prems(2) this] obtain st1 where
    e: "enter_spec st 2 (Func_Obj (func_of m ps)) = Inr st1" and o: "class_open st1" by blast
  have "declaration_line st (indented 1 (def_text m ps)) = Inr st1"
    unfolding declaration_line_parsed parsed_def [OF ok] using e by (simp add: enter_parsed_def numeral_2_eq_2)
  moreover obtain st' where "foldE declaration_line st1 (map (\<lambda>(m, ps). indented 1 (def_text m ps)) ms) = Inr st'"
    "class_open st'" using Cons.IH [OF _ o] Cons.prems(1) by auto
  ultimately show ?case by (simp add: mp)
qed

lemma run_decl:
  assumes "decl_ok d" and "state_ok st"
  shows "\<exists>st'. foldE declaration_line st (decl_lines d) = Inr st' \<and> state_ok st'"
proof (cases d)
  case (D_Def n ps)
  then have ok: "word n" "list_all param ps" using assms(1) by simp_all
  have "obj_ok (Func_Obj (func_of n ps))" using ok by (simp add: func_of_def word_def)
  from enter_top [OF assms(2) this] obtain st' where
    e: "enter_spec st 1 (Func_Obj (func_of n ps)) = Inr st'" and s: "state_ok st'" by blast
  have "declaration_line st (def_text n ps) = Inr st'"
    unfolding declaration_line_parsed using parsed_def [OF ok, of 0] e by (simp add: indented_simps enter_parsed_def)
  then show ?thesis using s by (simp add: D_Def)
next
  case (D_Class n supers ms)
  then have ok: "list_all word_char n" "list_all (list_all word_char) supers"
    "list_all (\<lambda>(m, ps). word m \<and> list_all param ps) ms" using assms(1) by simp_all
  have "obj_ok (Class_Obj (new_class n supers))" using word_strip [OF ok(1)] by (simp add: new_class_def)
  from enter_top [OF assms(2) this] obtain st1 where
    e: "enter_spec st 1 (Class_Obj (new_class n supers)) = Inr st1" and s: "class_open st1" by blast
  have "declaration_line st (class_text n supers) = Inr st1"
    unfolding declaration_line_parsed parsed_class [OF ok(1,2)] using e by (simp add: enter_parsed_def)
  moreover obtain st' where "foldE declaration_line st1 (map (\<lambda>(m, ps). indented 1 (def_text m ps)) ms) = Inr st'"
    "class_open st'" using run_methods [OF ok(3) s] by blast
  ultimately show ?thesis by (auto simp: D_Class indented_simps class_open_def)
next
  case (D_Var n v)
  have ok: "list_all s_isupper (s_split ''_'' n)" "list_all word_char n" using assms(1) D_Var by simp_all
  have "public_name n" using upper_pieces [OF ok(1)] by (cases n) (auto simp: public_name_def startswith_def)
  then have "obj_ok (Global_Obj (var_of n v))" using word_strip [OF ok(2)] by (simp add: var_of_def)
  from enter_top [OF assms(2) this] obtain st' where
    e: "enter_spec st 1 (Global_Obj (var_of n v)) = Inr st'" and s: "state_ok st'" by blast
  have "declaration_line st (var_text n v) = Inr st'"
    unfolding declaration_line_parsed parsed_var [OF assms(1) [unfolded D_Var]] using e by (simp add: enter_parsed_def)
  then show ?thesis using s by (simp add: D_Var)
qed

lemma foldE_map: "foldE f s (map g xs) = foldE (\<lambda>s x. f s (g x)) s xs"
  by (induction xs arbitrary: s) simp_all

lemma build_decls:
  assumes "map rstrip ls = concat (map decl_lines ds)" and "list_all decl_ok ds"
  shows "\<exists>objs. build_file_spec ls (new_file [] path) = Inr objs \<and> store_ok objs"
proof -
  have run: "\<exists>st'. foldE declaration_line st (concat (map decl_lines ds)) = Inr st' \<and> state_ok st'"
    if "state_ok st" for st
    using assms(2) that
  proof (induction ds arbitrary: st)
    case Nil
    then show ?case by simp
  next
    case (Cons d ds)
    obtain st1 where "foldE declaration_line st (decl_lines d) = Inr st1" "state_ok st1"
      using run_decl [of d st] Cons.prems by auto
    then show ?case using Cons by (simp add: foldE_append)
  qed
  have "state_ok ([File_Obj (new_file [] path)], [0])"
    by (simp add: state_ok_def store_ok_iff new_file_def funcs_ok_def keys_plain_def)
  from run [OF this] obtain st' where
    r: "foldE declaration_line ([File_Obj (new_file [] path)], [0]) (map rstrip ls) = Inr st'" and s: "state_ok st'"
    unfolding assms(1) by blast
  have "build_file_spec ls (new_file [] path) = Inr (fst st')"
    using r by (simp add: build_file_spec_eq foldE_map)
  then show ?thesis using s by (simp add: state_ok_def)
qed

lemma decl_lines_code:
  assumes "list_all decl_ok ds"
  shows "list_all code_line (concat (map decl_lines ds))"
  using assms decl_code by (induction ds) simp_all

lemma no_header: "code_line (rstrip l) \<Longrightarrow> \<not> header_line l"
  using s_contains_prefix [of "rstrip l" "''#''" "'' source file:''"] s_contains_single [of "rstrip l" "CHR ''#''"]
  by (auto simp: code_line_def header_line_def)

lemma agree_refl: "(\<And>x. cmp x x) \<Longrightarrow> agree cmp d d"
  unfolding agree_def by (auto simp: option.rel_refl)

lemma moved_accepted:
  assumes m: "moved_objs pre src objs1 objs2" and s: "store_ok objs1"
  shows "\<exists>f1 f2. file_at objs1 0 = Inr f1 \<and> file_at (objs2 @ post) (length pre) = Inr f2 \<and> source_file_name f2 = src
    \<and> compare_file_spec (objs2 @ post) f2 objs1 f1 = Inr True"
proof -
  let ?k = "length pre" and ?objs = "objs2 @ post"
  from m obtain f1 f2 rest where o: "objs1 = File_Obj f1 # rest" "objs2 = pre @ File_Obj f2 # rest"
    and f: "source_file_name f2 = src" "class_specs f2 = map (apsnd ((+) ?k)) (class_specs f1)"
      "func_specs f2 = func_specs f1" "global_var_spec f2 = global_var_spec f1"
    by (auto simp: moved_objs_def moved_file_def)
  from s have ok: "funcs_ok (func_specs f1)" "keys_plain (global_var_spec f1)"
    "list_all public_name (map fst (global_var_spec f1))" "keys_plain (class_specs f1)"
    and refs: "list_all (\<lambda>(_, r). class_ref_ok objs1 r) (class_specs f1)"
    unfolding store_ok_iff by (auto simp: o)
  have same: "?objs ! (?k + r) = objs1 ! r" if "class_ref_ok objs1 r" for r
    using that by (cases r) (auto simp: class_ref_ok_def o nth_append)
  have fst: "map fst (map (apsnd g) d) = map fst d" for g :: "nat \<Rightarrow> nat" and d :: "(string \<times> nat) list"
    by (simp add: comp_def)
  have ok1: "file_ok objs1 f1" using ok refs by (auto simp: file_ok_def list_all_iff class_ref_ok_def)
  have "list_all (\<lambda>(_, r). \<exists>c. ?objs ! r = Class_Obj c \<and> funcs_ok (class_funcs c)) (class_specs f2)"
    unfolding f(2) list_all_iff using refs same by (fastforce simp: list_all_iff class_ref_ok_def)
  then have ok2: "file_ok ?objs f2" using ok unfolding file_ok_def keys_plain_def by (simp add: f fst)
  have cls: "agree (\<lambda>r1 r2. same_methods (class_of ?objs r1) (class_of objs1 r2)) (class_specs f2) (class_specs f1)"
    unfolding agree_def
  proof
    fix n
    have "map_of (class_specs f2) n = map_option ((+) ?k) (map_of (class_specs f1) n)"
      unfolding f(2) apsnd_def map_prod_def by (simp add: map_of_map id_def)
    moreover have "same_methods (class_of ?objs (?k + r)) (class_of objs1 r)" if r: "map_of (class_specs f1) n = Some r" for r
    proof -
      have "class_ref_ok objs1 r" using refs map_of_SomeD [OF r] by (auto simp: list_all_iff)
      from same [OF this] show ?thesis
        by (simp add: class_of_def same_methods_def agree_refl same_params_def)
    qed
    ultimately show "rel_option (\<lambda>r1 r2. same_methods (class_of ?objs r1) (class_of objs1 r2))
        (map_of (class_specs f2) n) (map_of (class_specs f1) n)"
      by (cases "map_of (class_specs f1) n") simp_all
  qed
  have "compare_file_spec ?objs f2 objs1 f1 = Inr True"
    unfolding compare_file_eq [OF ok2 ok1] classes_match_def
    using cls f by (simp add: agree_refl same_params_def same_characters_def)
  then show ?thesis using f(1) by (simp add: file_at_def o nth_append)
qed

text \<open>A description is declared by its source: the source has the same declarations, and otherwise
  only lines the reader ignores.\<close>

definition declared :: "intf_env \<Rightarrow> string \<Rightarrow> bool" where
  "declared env p \<longleftrightarrow> (\<exists>h dl ds items. ie_lines env p = h # dl \<and> header_line h
     \<and> list_all decl_ok ds \<and> map rstrip dl = concat (map decl_lines ds)
     \<and> ie_lines env (source_path env (s_strip (drop 14 (rstrip h)))) = concat (map item_lines items)
     \<and> list_all item_ok items \<and> code_of items = concat (map decl_lines ds))"

definition accepted :: "intf_env \<Rightarrow> spec_obj list \<times> nat list \<Rightarrow> bool" where
  "accepted env st \<longleftrightarrow> (\<forall>post. list_all (\<lambda>r. check_source_file_match env (fst st @ post) r = Inr True) (snd st))"

lemma process_declared:
  assumes "declared env (path_join dir nm)" and "endswith nm ''pyh''" and "accepted env st"
  shows "\<exists>st'. process_spec_file (ie_lines env) dir st nm = Inr st' \<and> accepted env st'"
proof -
  obtain pre refs where st: "st = (pre, refs)" by (cases st)
  from assms(1) obtain h dl ds items where lines: "ie_lines env (path_join dir nm) = h # dl" and h: "header_line h"
    and ok: "list_all decl_ok ds" and dl: "map rstrip dl = concat (map decl_lines ds)"
    and src: "ie_lines env (source_path env (s_strip (drop 14 (rstrip h)))) = concat (map item_lines items)"
    and items: "list_all item_ok items" "code_of items = concat (map decl_lines ds)" unfolding declared_def by blast
  let ?src = "s_strip (drop 14 (rstrip h))"
  let ?path = "source_path env ?src"
  have code: "list_all code_line (map rstrip dl)" unfolding dl by (rule decl_lines_code [OF ok])
  then have nh: "list_all (\<lambda>l. \<not> header_line l) dl" using no_header by (auto simp: list_all_iff)
  from build_decls [OF dl ok, of ?path] obtain objs1 where
    b: "build_file_spec dl (new_file [] ?path) = Inr objs1" and s: "store_ok objs1" by blast
  have "process_spec_file (\<lambda>_. h # dl) dir (pre, refs) nm = process_spec_file (ie_lines env) dir (pre, refs) nm"
    by (simp add: process_spec_file_def lines)
  with readers_same [OF h nh assms(2), of pre refs ?path dir] b obtain objs2 where
    p: "process_spec_file (ie_lines env) dir (pre, refs) nm = Inr (objs2, refs @ [length pre])"
    and m: "moved_objs pre ?src objs1 objs2"
    by (auto simp: same_result_def split: sum.splits)
  have "rstrip ` set dl = set (map rstrip dl)" by simp
  have rs: "map rstrip (map rstrip dl) = map rstrip dl"
    using code by (auto simp: list_all_iff code_rstrip)
  have b': "build_file_spec (map rstrip dl) (new_file [] ?path) = Inr objs1"
    using b rs by (simp add: build_file_spec_eq foldE_map [symmetric] del: map_map)
  have source: "source_spec ?path (ie_lines env ?path) = Inr objs1"
    unfolding source_spec_def src
    using get_spec_from_items [OF items(1)] items(2) code remove_none [OF ok] b' dl by simp
  have new: "check_source_file_match env (objs2 @ post) (length pre) = Inr True" for post
    using moved_accepted [OF m s, of post] source by (auto simp: check_source_file_match_def Let_def)
  obtain rest where "objs2 = pre @ rest" using m by (auto simp: moved_objs_def)
  then have "list_all (\<lambda>r. check_source_file_match env (objs2 @ post) r = Inr True) refs" for post
    using assms(3) by (simp add: accepted_def st)
  then show ?thesis using p new by (auto simp: st accepted_def)
qed

lemma foldE_progress:
  assumes "P s" and "\<And>s x. x \<in> set xs \<Longrightarrow> P s \<Longrightarrow> \<exists>s'. f s x = Inr s' \<and> P s'"
  shows "\<exists>s'. foldE f s xs = Inr s' \<and> P s'"
  using assms
proof (induction xs arbitrary: s)
  case Nil
  then show ?case by simp
next
  case (Cons x xs)
  then obtain s1 where "f s x = Inr s1" "P s1" by (meson list.set_intros(1))
  with Cons show ?case by simp
qed

definition visited_dirs :: "intf_env \<Rightarrow> string list" where
  "visited_dirs env = specs_dir env #
     concat (map (\<lambda>d. d # traversal_dir (ie_fs env) d) (traversal_dir (ie_fs env) (specs_dir env)))"

text \<open>
  C35. The interface check accepts what is declared the plain way: when every description file, in the
  directory and two levels below it, is a line that names the source and the declarations, one in a
  line, and the source has the same lines of declarations in the same order, the whole check
  succeeds. Declarations are functions, classes with methods but no class inside, and global
  variables in upper case words, of letters, digits and underscores; parameters and values hold no
  brackets, commas, comments, quotes and no \<^verbatim>\<open>class\<close> where these would be misread (\<open>decl_ok\<close>). The rest of
  the source are comments, lines without declarations and without opening quotes, and blocks of text
  whose first line does not end in its quotes (\<open>item_ok\<close>). Beyond that the check may fail or stop: see
  \<open>nested_class_raises\<close>, \<open>class_in_name\<close> and \<open>docstring_read\<close> below.
\<close>

theorem check_all_accepts:
  assumes "list_all (\<lambda>dir. list_all (\<lambda>nm. endswith nm ''pyh'' \<longrightarrow> declared env (path_join dir nm))
    (fs_listdir (ie_fs env) dir)) (visited_dirs env)"
  shows "check_all env = Inr True"
proof -
  have "\<exists>st'. process_dir (ie_lines env) (ie_fs env) st dir = Inr st' \<and> accepted env st'"
    if "dir \<in> set (visited_dirs env)" "accepted env st" for dir st
    unfolding process_dir_def
  proof (rule foldE_progress [where P = "accepted env"])
    show "accepted env st" by (rule that(2))
  next
    fix s nm assume nm: "nm \<in> set (fs_listdir (ie_fs env) dir)" and s: "accepted env s"
    show "\<exists>s'. process_spec_file (ie_lines env) dir s nm = Inr s' \<and> accepted env s'"
    proof (cases "endswith nm ''pyh''")
      case True
      then have "declared env (path_join dir nm)" using assms that(1) nm by (auto simp: list_all_iff)
      from process_declared [OF this True s] show ?thesis .
    next
      case False
      then show ?thesis using s by (cases s) (simp add: process_spec_file_def)
    qed
  qed
  then have "\<exists>st'. foldE (process_dir (ie_lines env) (ie_fs env)) ([], []) (visited_dirs env) = Inr st' \<and> accepted env st'"
    by (intro foldE_progress) (simp_all add: accepted_def)
  then obtain objs refs where
    r: "get_spec_info_list (ie_lines env) (ie_fs env) (specs_dir env) = Inr (objs, refs)" and a: "accepted env (objs, refs)"
    by (auto simp: get_spec_info_list_def visited_dirs_def Let_def)
  have "list_all (\<lambda>r. check_source_file_match env (objs @ []) r = Inr True) refs"
    using a unfolding accepted_def by (metis fst_conv snd_conv)
  then show ?thesis by (simp add: check_all_def r all_match_True)
qed

section \<open>An example, and what the check does not see\<close>

definition line_end :: "string \<Rightarrow> string" where
  "line_end s = s @ [newline]"

definition api_decls :: "decl list" where
  "api_decls = [D_Var ''MAX_DIM'' ''8'', D_Def ''vadd'' [''lhs'', ''rhs''],
     D_Class ''Tensor'' [''Base''] [(''rank'', [''self''])]]"

definition api_items :: "src_item list" where
  "api_items = [Quiet (line_end ''import os''), Code ''MAX_DIM = 8'', Code ''def vadd(lhs, rhs):'',
     Block (quotes @ line_end ''adds the class of'') [line_end ''two tensors''] (line_end quotes),
     Quiet (line_end ''    return lhs + rhs''), Code ''class Tensor(Base):'', Code ''    def rank(self):'',
     Quiet (line_end ''        return 4'')]"

definition api_fs :: fs where
  "api_fs = \<lparr>fs_realpath = (\<lambda>p. p), fs_exists = (\<lambda>p. True), fs_isdir = (\<lambda>p. False), fs_isfile = (\<lambda>p. True),
     fs_readable = (\<lambda>p. True), fs_writable = (\<lambda>p. True), fs_size = (\<lambda>p. None),
     fs_listdir = (\<lambda>p. if p = ''/spec'' then [''api.pyh''] else [])\<rparr>"

definition api_env :: intf_env where
  "api_env = \<lparr>ie_fs = api_fs,
     ie_lines = (\<lambda>p. if p = ''/spec/api.pyh''
       then map line_end (''# source file: dsl/api.py'' # concat (map decl_lines api_decls))
       else if p = ''/root/dsl/api.py'' then concat (map item_lines api_items) else []),
     tbe_root = ''/root'', specs_dir = ''/spec''\<rparr>"

lemma api_declared: "declared api_env ''/spec/api.pyh''"
  unfolding declared_def
proof (intro exI conjI)
  show "ie_lines api_env ''/spec/api.pyh'' = line_end ''# source file: dsl/api.py'' # map line_end (concat (map decl_lines api_decls))"
    by (simp add: api_env_def)
  show "header_line (line_end ''# source file: dsl/api.py'')" by code_simp
  show "list_all decl_ok api_decls" by code_simp
  show "map rstrip (map line_end (concat (map decl_lines api_decls))) = concat (map decl_lines api_decls)" by code_simp
  have "source_path api_env (s_strip (drop 14 (rstrip (line_end ''# source file: dsl/api.py'')))) = ''/root/dsl/api.py''"
    by code_simp
  then show "ie_lines api_env (source_path api_env (s_strip (drop 14 (rstrip (line_end ''# source file: dsl/api.py'')))))
      = concat (map item_lines api_items)"
    by (simp add: api_env_def)
  show "list_all item_ok api_items" by code_simp
  show "code_of api_items = concat (map decl_lines api_decls)" by code_simp
qed

theorem check_all_accepts_witness: "check_all api_env = Inr True"
proof (rule check_all_accepts)
  have "visited_dirs api_env = [''/spec'']" by code_simp
  moreover have "fs_listdir (ie_fs api_env) ''/spec'' = [''api.pyh'']" by code_simp
  moreover have "path_join ''/spec'' ''api.pyh'' = ''/spec/api.pyh''" by code_simp
  ultimately show "list_all (\<lambda>dir. list_all (\<lambda>nm. endswith nm ''pyh'' \<longrightarrow> declared api_env (path_join dir nm))
      (fs_listdir (ie_fs api_env) dir)) (visited_dirs api_env)"
    using api_declared by simp
qed

text \<open>A class in a class stops the check, and so does a function whose name contains the word
  \<^verbatim>\<open>class\<close>, which is entered as a class; the default of a parameter that has parentheses cuts
  the list of parameters.\<close>

lemma nested_class_raises:
  "build_file_spec [''class A:'', ''    class B:''] (new_file [] []) = Inl AttributeError"
  by code_simp

lemma class_in_name:
  "build_file_spec [''def subclass(a):''] (new_file [] [])
     = Inr [File_Obj ((new_file [] [])\<lparr>class_specs := [(''bclass'', 1)]\<rparr>), Class_Obj (new_class ''bclass'' [''a''])]"
  by code_simp

lemma default_cuts_params:
  "parsed_line ''def f(a=(1, 2), b=3):'' = parsed_line ''def f(a=(1, 2):''"
  by code_simp

text \<open>A text block whose first line is only the quotes is not recognised; its lines are read as
  declarations.\<close>

lemma docstring_read:
  "get_spec_from_file [''def f(a):'', ''    '' @ quotes, ''    the class of a'', ''    '' @ quotes, ''def g(b):'']
     = Inr [''def f(a):'', ''    the class of a'' @ quotes @ ''def g(b):'']"
  by code_simp

end
