(* ===== verification/Ini_File.thy ===== *)
theory Ini_File
  imports Py_String "HOL-Library.AList"
begin

text \<open>
  What the program uses of the standard library's \<^verbatim>\<open>configparser\<close>: reading a text with
  \<^verbatim>\<open>RawConfigParser(allow_no_value=True)\<close> line by line, with comments, continued values and
  duplicates, and the queries for options. Every error of the parser is \<open>ConfigError\<close>.
\<close>

section \<open>The reader\<close>

text \<open>A value is the list of its lines, \<open>None\<close> for an option without a value. The default section
  is kept with the others. Options are lists in the order of the text.\<close>

type_synonym ini_options = "(string \<times> string list option) list"

record ini_reader =
  ir_sections :: "(string \<times> ini_options) list"
  ir_section :: "string option"
  ir_option :: string
  ir_indent :: nat
  ir_error :: bool

definition ini_start :: ini_reader where
  "ini_start = \<lparr>ir_sections = [], ir_section = None, ir_option = [], ir_indent = 0, ir_error = False\<rparr>"

definition is_comment :: "string \<Rightarrow> bool" where
  "is_comment line \<longleftrightarrow> startswith (s_strip line) ''#'' \<or> startswith (s_strip line) '';''"

definition indent_of :: "string \<Rightarrow> nat" where
  "indent_of line = length (takeWhile c_space line)"

text \<open>\<^verbatim>\<open>[header]\<close> at the beginning of a line.\<close>

definition section_header :: "string \<Rightarrow> string option" where
  "section_header v = (case v of
      c # cs \<Rightarrow>
        (let h = takeWhile (\<lambda>x. x \<noteq> CHR '']'') cs in
         if c = CHR ''['' \<and> h \<noteq> [] \<and> length h < length cs then Some h else None)
    | [] \<Rightarrow> None)"

definition is_delimiter :: "char \<Rightarrow> bool" where
  "is_delimiter c \<longleftrightarrow> c = CHR ''='' \<or> c = CHR '':''"

text \<open>The name of an option and its value; without a delimiter there is no value.\<close>

definition option_parts :: "string \<Rightarrow> string \<times> string option" where
  "option_parts v =
     (let k = takeWhile (\<lambda>c. \<not> is_delimiter c) v; r = dropWhile (\<lambda>c. \<not> is_delimiter c) v in
      (s_lower (s_rstrip c_space k), if r = [] then None else Some (s_strip (tl r))))"

definition current_options :: "ini_reader \<Rightarrow> ini_options" where
  "current_options r = (case ir_section r of
      None \<Rightarrow> []
    | Some s \<Rightarrow> (case map_of (ir_sections r) s of None \<Rightarrow> [] | Some d \<Rightarrow> d))"

definition set_option :: "ini_reader \<Rightarrow> string \<Rightarrow> string list option \<Rightarrow> ini_reader" where
  "set_option r k v = (case ir_section r of
      None \<Rightarrow> r
    | Some s \<Rightarrow> r\<lparr>ir_sections := AList.update s (AList.update k v (current_options r)) (ir_sections r)\<rparr>)"

text \<open>A blank line or a line of a comment; the blank line belongs to an unfinished value.\<close>

definition ini_blank :: "ini_reader \<Rightarrow> bool \<Rightarrow> ini_reader" where
  "ini_blank r comment =
     (if \<not> comment \<and> ir_section r \<noteq> None \<and> ir_option r \<noteq> []
      then (case map_of (current_options r) (ir_option r) of
              Some (Some ls) \<Rightarrow> set_option r (ir_option r) (Some (ls @ [[]]))
            | _ \<Rightarrow> r)
      else r)"

definition ini_section_line :: "ini_reader \<Rightarrow> string \<Rightarrow> ini_reader res" where
  "ini_section_line r h =
     (if h = ''DEFAULT'' then
        Inr (r\<lparr>ir_sections := (if map_of (ir_sections r) h = None then ir_sections r @ [(h, [])] else ir_sections r),
               ir_section := Some h, ir_option := []\<rparr>)
      else if map_of (ir_sections r) h \<noteq> None then Inl ConfigError
      else Inr (r\<lparr>ir_sections := ir_sections r @ [(h, [])], ir_section := Some h, ir_option := []\<rparr>))"

definition ini_option_line :: "ini_reader \<Rightarrow> string \<Rightarrow> ini_reader res" where
  "ini_option_line r v =
     (let (k, val) = option_parts v; r = (if k = [] then r\<lparr>ir_error := True\<rparr> else r) in
      if map_of (current_options r) k \<noteq> None then Inl ConfigError
      else Inr ((set_option r k (map_option (\<lambda>x. [x]) val))\<lparr>ir_option := k\<rparr>))"

definition ini_line :: "ini_reader \<Rightarrow> string \<Rightarrow> ini_reader res" where
  "ini_line r line =
     (let v = (if is_comment line then [] else s_strip line) in
      if v = [] then Inr (ini_blank r (is_comment line))
      else if ir_section r \<noteq> None \<and> ir_option r \<noteq> [] \<and> indent_of line > ir_indent r then
        (case map_of (current_options r) (ir_option r) of
           Some (Some ls) \<Rightarrow> Inr (set_option r (ir_option r) (Some (ls @ [v])))
         | _ \<Rightarrow> Inl AttributeError)
      else let r = r\<lparr>ir_indent := indent_of line\<rparr> in
        (case section_header v of
           Some h \<Rightarrow> ini_section_line r h
         | None \<Rightarrow> if ir_section r = None then Inl ConfigError else ini_option_line r v))"

text \<open>At the end the lines of every value are joined and trailing space is removed.\<close>

definition join_value :: "string list option \<Rightarrow> string option" where
  "join_value v = map_option (\<lambda>ls. s_rstrip c_space (s_join [CHR 0x0A] ls)) v"

type_synonym ini_config = "(string \<times> (string \<times> string option) list) list"

definition read_ini :: "string list \<Rightarrow> ini_config res" where
  "read_ini lines =
     bindE (foldE ini_line ini_start lines) (\<lambda>r.
     bindE (raise_if (ir_error r) ConfigError) (\<lambda>_.
       Inr (map (\<lambda>(s, d). (s, map (\<lambda>(k, v). (k, join_value v)) d)) (ir_sections r))))"

section \<open>The queries\<close>

definition section_of :: "ini_config \<Rightarrow> string \<Rightarrow> (string \<times> string option) list" where
  "section_of c s = (case map_of c s of None \<Rightarrow> [] | Some d \<Rightarrow> d)"

definition ini_names :: "ini_config \<Rightarrow> string \<Rightarrow> string list" where
  "ini_names c s =
     (let own = map fst (section_of c s) in
      own @ filter (\<lambda>k. k \<notin> set own) (map fst (section_of c ''DEFAULT'')))"

definition ini_get :: "ini_config \<Rightarrow> string \<Rightarrow> string \<Rightarrow> string option option" where
  "ini_get c s k = (case map_of (section_of c s) k of
      Some v \<Rightarrow> Some v | None \<Rightarrow> map_of (section_of c ''DEFAULT'') k)"

definition ini_has :: "ini_config \<Rightarrow> string \<Rightarrow> string \<Rightarrow> bool" where
  "ini_has c s k \<longleftrightarrow> ini_get c s k \<noteq> None"

end
