(* ===== verification/Adv_Options.thy ===== *)
theory Adv_Options
  imports Utils Ini_File
begin

text \<open>
  The advanced options of a test run, \<^verbatim>\<open>advance_ini_parser.py\<close>: an \<^verbatim>\<open>INI\<close> file without sections
  sets modes, log levels, options for the compiler of models and the tool chain. Most wrong values
  are ignored with a warning, others are errors. Proved: whatever file is accepted, the
  options are in their range and no argument for the command line carries one of the refused
  characters.
\<close>

section \<open>The options\<close>

record adv_args =
  only_gen_without_run :: string
  only_run_without_gen :: string
  ascend_global_log_level :: string
  ascend_slog_print_to_stdout :: string
  atc_singleop_advance_option :: "string list"
  adv_performance_mode :: string
  compile_options :: "(string \<times> string) list"

definition init_adv_args :: adv_args where
  "init_adv_args = \<lparr>only_gen_without_run = ''False'', only_run_without_gen = ''False'',
     ascend_global_log_level = ''3'', ascend_slog_print_to_stdout = ''0'',
     atc_singleop_advance_option = [], adv_performance_mode = ''False'', compile_options = []\<rparr>"

text \<open>\<^verbatim>\<open>s.split()\<close>: the words between white space.\<close>

fun words_from :: "string \<Rightarrow> string \<Rightarrow> string list" where
  "words_from acc [] = (if acc = [] then [] else [rev acc])"
| "words_from acc (c # cs) =
     (if c_space c then (if acc = [] then words_from [] cs else rev acc # words_from [] cs)
      else words_from (c # acc) cs)"

definition s_words :: "string \<Rightarrow> string list" where
  "s_words s = words_from [] s"

definition check_atc_args_valid :: "string \<Rightarrow> unit res" where
  "check_atc_args_valid atc_args =
     bindE (raise_if (length atc_args > MAX_NAME_LENGTH) err_param) (\<lambda>_.
       raise_if (list_ex (\<lambda>c. c \<in> set atc_args) INJECT_CHARACTER) err_param)"

section \<open>One option each\<close>

definition adv_value :: "ini_config \<Rightarrow> string \<Rightarrow> string option option" where
  "adv_value cfg k = ini_get cfg ADVANCE_SECTION k"

text \<open>The switches: a value outside the list is left alone with a warning.\<close>

definition init_choice ::
    "ini_config \<Rightarrow> string \<Rightarrow> string list \<Rightarrow> (string \<Rightarrow> adv_args \<Rightarrow> adv_args) \<Rightarrow> adv_args \<Rightarrow> adv_args" where
  "init_choice cfg k allowed put a = (case adv_value cfg k of
      Some (Some v) \<Rightarrow> if v \<in> set allowed then put v a else a
    | _ \<Rightarrow> a)"

definition init_gen_flag :: "ini_config \<Rightarrow> adv_args \<Rightarrow> adv_args" where
  "init_gen_flag cfg = init_choice cfg ONLY_GEN_WITHOUT_RUN TRUE_OR_FALSE_LIST (\<lambda>v a. a\<lparr>only_gen_without_run := v\<rparr>)"

definition init_run_flag :: "ini_config \<Rightarrow> adv_args \<Rightarrow> adv_args" where
  "init_run_flag cfg = init_choice cfg ONLY_RUN_WITHOUT_GEN TRUE_OR_FALSE_LIST (\<lambda>v a. a\<lparr>only_run_without_gen := v\<rparr>)"

definition init_log_level_env :: "ini_config \<Rightarrow> adv_args \<Rightarrow> adv_args" where
  "init_log_level_env cfg = init_choice cfg ASCEND_GLOBAL_LOG_LEVEL ASCEND_GLOBAL_LOG_LEVEL_LIST
     (\<lambda>v a. a\<lparr>ascend_global_log_level := v\<rparr>)"

definition init_slog_flag_env :: "ini_config \<Rightarrow> adv_args \<Rightarrow> adv_args" where
  "init_slog_flag_env cfg = init_choice cfg ASCEND_SLOG_PRINT_TO_STDOUT ASCEND_SLOG_PRINT_TO_STDOUT_LIST
     (\<lambda>v a. a\<lparr>ascend_slog_print_to_stdout := v\<rparr>)"

definition init_performance_mode_flag :: "ini_config \<Rightarrow> adv_args \<Rightarrow> adv_args" where
  "init_performance_mode_flag cfg = init_choice cfg PERFORMACE_MODE TRUE_OR_FALSE_LIST (\<lambda>v a. a\<lparr>adv_performance_mode := v\<rparr>)"

text \<open>A text in double quotes; an option without a value has no text to strip.\<close>

definition unquoted :: "string option \<Rightarrow> string res" where
  "unquoted v = (case v of None \<Rightarrow> Inl AttributeError | Some s \<Rightarrow> Inr (s_strip_char (CHR 0x22) s))"

definition init_atc_advance_cmd :: "ini_config \<Rightarrow> adv_args \<Rightarrow> adv_args res" where
  "init_atc_advance_cmd cfg a = (case adv_value cfg ATC_SINGLEOP_ADVANCE_OPTION of
      None \<Rightarrow> Inr a
    | Some v \<Rightarrow> bindE (unquoted v) (\<lambda>atc_args.
        bindE (check_atc_args_valid atc_args) (\<lambda>_.
          Inr (a\<lparr>atc_singleop_advance_option := s_words atc_args\<rparr>))))"

definition set_compile_option :: "string \<Rightarrow> string \<Rightarrow> adv_args \<Rightarrow> adv_args" where
  "set_compile_option k v a = a\<lparr>compile_options := AList.update k v (compile_options a)\<rparr>"

definition init_host_arch :: "ini_config \<Rightarrow> adv_args \<Rightarrow> adv_args res" where
  "init_host_arch cfg a =
     (let a = set_compile_option HOST_ARCH [] a in
      case adv_value cfg HOST_ARCH of
        None \<Rightarrow> Inr a
      | Some v \<Rightarrow> bindE (unquoted v) (\<lambda>host_arch_args.
          if host_arch_args = [] then Inr a
          else if host_arch_args \<in> set HOST_ARCH_LIST then Inr (set_compile_option HOST_ARCH host_arch_args a)
          else Inl err_param))"

text \<open>An error of the test generator in the checks of the path is turned into another one.\<close>

definition as_param_error :: "'a res \<Rightarrow> 'a res" where
  "as_param_error m = (case m of Inl (OpTestGenException _) \<Rightarrow> Inl err_param | _ \<Rightarrow> m)"

definition init_tool_chain :: "makedirs \<Rightarrow> fs \<Rightarrow> ini_config \<Rightarrow> adv_args \<Rightarrow> adv_args res" where
  "init_tool_chain mk f cfg a =
     (let a = set_compile_option TOOL_CHAIN [] a in
      case adv_value cfg TOOL_CHAIN of
        None \<Rightarrow> Inr a
      | Some v \<Rightarrow> bindE (unquoted v) (\<lambda>get_tool_chain.
          if get_tool_chain = [] then Inr a
          else as_param_error
            (if endswith get_tool_chain C_PLUS_PLUS_COMPILER then
               (let tool_chain_realpath = fs_realpath f get_tool_chain in
                bindE (check_path_valid mk f tool_chain_realpath False) (\<lambda>_.
                  Inr (set_compile_option TOOL_CHAIN tool_chain_realpath a)))
             else Inl err_param)))"

section \<open>The file\<close>

text \<open>The table of handlers; a name that is not in it is reported and skipped.\<close>

definition adv_handler :: "makedirs \<Rightarrow> fs \<Rightarrow> ini_config \<Rightarrow> string \<Rightarrow> (adv_args \<Rightarrow> adv_args res) option" where
  "adv_handler mk f cfg option = map_of
     [(ONLY_GEN_WITHOUT_RUN, Inr \<circ> init_gen_flag cfg),
      (ONLY_RUN_WITHOUT_GEN, Inr \<circ> init_run_flag cfg),
      (ASCEND_GLOBAL_LOG_LEVEL, Inr \<circ> init_log_level_env cfg),
      (ASCEND_SLOG_PRINT_TO_STDOUT, Inr \<circ> init_slog_flag_env cfg),
      (ATC_SINGLEOP_ADVANCE_OPTION, init_atc_advance_cmd cfg),
      (PERFORMACE_MODE, Inr \<circ> init_performance_mode_flag cfg),
      (HOST_ARCH, init_host_arch cfg),
      (TOOL_CHAIN, init_tool_chain mk f cfg)] option"

definition read_config_file :: "string list \<Rightarrow> ini_config res" where
  "read_config_file lines = read_ini ((''[RUN]'' @ [CHR 0x0A]) # lines)"

definition apply_options :: "makedirs \<Rightarrow> fs \<Rightarrow> ini_config \<Rightarrow> string list \<Rightarrow> adv_args \<Rightarrow> adv_args res" where
  "apply_options mk f cfg names a =
     foldE (\<lambda>a option. case adv_handler mk f cfg option of None \<Rightarrow> Inr a | Some h \<Rightarrow> h a) a names"

definition get_advance_args_option :: "makedirs \<Rightarrow> fs \<Rightarrow> string list \<Rightarrow> adv_args res" where
  "get_advance_args_option mk f lines =
     bindE (read_config_file lines) (\<lambda>cfg.
       let names = ini_names cfg ADVANCE_SECTION in
       bindE (raise_if (names = []) (OpTestGenException OP_TEST_GEN_AND_RUN_ERROR)) (\<lambda>_.
         apply_options mk f cfg names init_adv_args))"

section \<open>What the run asks for\<close>

definition get_mode_flag :: "adv_args \<Rightarrow> int" where
  "get_mode_flag a =
     (if only_gen_without_run a = ''True'' then ONLY_GEN_WITHOUT_RUN_ACL_PROJ
      else if only_run_without_gen a = ''True'' then
        (if adv_performance_mode a = ''True'' then ONLY_RUN_WITHOUT_GEN_ACL_PROJ_PERFORMANCE
         else ONLY_RUN_WITHOUT_GEN_ACL_PROJ)
      else if adv_performance_mode a = ''True'' then BOTH_GEN_AND_RUN_ACL_PROJ_PERFORMANCE
      else BOTH_GEN_AND_RUN_ACL_PROJ)"

definition get_env_value :: "adv_args \<Rightarrow> string \<times> string" where
  "get_env_value a = (ascend_global_log_level a, ascend_slog_print_to_stdout a)"

definition get_atc_advance_cmd :: "adv_args \<Rightarrow> string list" where
  "get_atc_advance_cmd a = atc_singleop_advance_option a"

definition get_performance_mode_flag :: "adv_args \<Rightarrow> bool" where
  "get_performance_mode_flag a \<longleftrightarrow>
     \<not> (adv_performance_mode a \<notin> set TRUE_OR_FALSE_LIST \<or> adv_performance_mode a = TRUE_OR_FALSE_LIST ! 1)"

definition get_compile_options :: "adv_args \<Rightarrow> (string \<times> string) list" where
  "get_compile_options a = compile_options a"

section \<open>What every accepted file gives\<close>

definition atc_word_ok :: "string \<Rightarrow> bool" where
  "atc_word_ok w \<longleftrightarrow> w \<noteq> [] \<and> list_all (\<lambda>c. \<not> c_space c \<and> c \<notin> set INJECT_CHARACTER) w"

definition tool_chain_ok :: "fs \<Rightarrow> string \<Rightarrow> bool" where
  "tool_chain_ok f p \<longleftrightarrow> p = [] \<or>
     (\<exists>q. endswith q ''g++'' \<and> p = fs_realpath f q \<and> fs_exists f (fs_realpath f p)
        \<and> fs_isfile f (fs_realpath f p) \<and> fs_readable f (fs_realpath f p))"

definition compile_option_ok :: "fs \<Rightarrow> string \<times> string \<Rightarrow> bool" where
  "compile_option_ok f kv = (case kv of (k, v) \<Rightarrow>
     k = HOST_ARCH \<and> (v = [] \<or> v \<in> set HOST_ARCH_LIST) \<or> k = TOOL_CHAIN \<and> tool_chain_ok f v)"

definition adv_ok :: "fs \<Rightarrow> adv_args \<Rightarrow> bool" where
  "adv_ok f a \<longleftrightarrow> only_gen_without_run a \<in> set TRUE_OR_FALSE_LIST
     \<and> only_run_without_gen a \<in> set TRUE_OR_FALSE_LIST \<and> adv_performance_mode a \<in> set TRUE_OR_FALSE_LIST
     \<and> ascend_global_log_level a \<in> set ASCEND_GLOBAL_LOG_LEVEL_LIST
     \<and> ascend_slog_print_to_stdout a \<in> set ASCEND_SLOG_PRINT_TO_STDOUT_LIST
     \<and> list_all atc_word_ok (atc_singleop_advance_option a)
     \<and> sum_list (map length (atc_singleop_advance_option a)) \<le> MAX_NAME_LENGTH
     \<and> list_all (compile_option_ok f) (compile_options a)"

lemma words_from_ok:
  "list_all (\<lambda>c. c \<notin> set INJECT_CHARACTER) s \<Longrightarrow> list_all (\<lambda>c. \<not> c_space c \<and> c \<notin> set INJECT_CHARACTER) acc \<Longrightarrow>
    list_all atc_word_ok (words_from acc s)
    \<and> sum_list (map length (words_from acc s)) \<le> length acc + length s"
proof (induction acc s rule: words_from.induct)
  case (1 acc)
  then show ?case by (auto simp: atc_word_ok_def list_all_iff)
next
  case (2 acc c cs)
  show ?case
  proof (cases "c_space c")
    case True
    then show ?thesis using 2 by (cases "acc = []") (auto simp: atc_word_ok_def list_all_iff)
  next
    case False
    then show ?thesis using 2 by auto
  qed
qed

lemma init_choice_ok:
  assumes "adv_ok f a" and "\<And>v. v \<in> set allowed \<Longrightarrow> adv_ok f (put v a)"
  shows "adv_ok f (init_choice cfg k allowed put a)"
  using assms by (auto simp: init_choice_def split: option.splits)

lemma compile_options_update:
  "list_all (compile_option_ok f) d \<Longrightarrow> compile_option_ok f (k, v) \<Longrightarrow> list_all (compile_option_ok f) (AList.update k v d)"
  by (induction d) auto

lemma set_compile_option_ok:
  "adv_ok f a \<Longrightarrow> compile_option_ok f (k, v) \<Longrightarrow> adv_ok f (set_compile_option k v a)"
  by (simp add: adv_ok_def set_compile_option_def compile_options_update)

lemma adv_updates:
  assumes "adv_ok f a"
  shows "v \<in> set TRUE_OR_FALSE_LIST \<Longrightarrow> adv_ok f (a\<lparr>only_gen_without_run := v\<rparr>)"
    and "v \<in> set TRUE_OR_FALSE_LIST \<Longrightarrow> adv_ok f (a\<lparr>only_run_without_gen := v\<rparr>)"
    and "v \<in> set TRUE_OR_FALSE_LIST \<Longrightarrow> adv_ok f (a\<lparr>adv_performance_mode := v\<rparr>)"
    and "v \<in> set ASCEND_GLOBAL_LOG_LEVEL_LIST \<Longrightarrow> adv_ok f (a\<lparr>ascend_global_log_level := v\<rparr>)"
    and "v \<in> set ASCEND_SLOG_PRINT_TO_STDOUT_LIST \<Longrightarrow> adv_ok f (a\<lparr>ascend_slog_print_to_stdout := v\<rparr>)"
  using assms by (simp_all add: adv_ok_def)

lemma switches_ok:
  assumes "adv_ok f a"
  shows "adv_ok f (init_gen_flag cfg a)" "adv_ok f (init_run_flag cfg a)" "adv_ok f (init_log_level_env cfg a)"
    "adv_ok f (init_slog_flag_env cfg a)" "adv_ok f (init_performance_mode_flag cfg a)"
  unfolding init_gen_flag_def init_run_flag_def init_log_level_env_def init_slog_flag_env_def
    init_performance_mode_flag_def
  by (intro init_choice_ok assms adv_updates; assumption)+

lemma atc_option_ok:
  assumes "init_atc_advance_cmd cfg a = Inr a'" and "adv_ok f a"
  shows "adv_ok f a'"
proof (cases "adv_value cfg ATC_SINGLEOP_ADVANCE_OPTION")
  case None
  then show ?thesis using assms by (simp add: init_atc_advance_cmd_def)
next
  case (Some v)
  then obtain s where s: "length s \<le> MAX_NAME_LENGTH" "\<not> list_ex (\<lambda>c. c \<in> set s) INJECT_CHARACTER"
    and a': "a' = a\<lparr>atc_singleop_advance_option := s_words s\<rparr>"
    using assms(1) by (auto simp: init_atc_advance_cmd_def check_atc_args_valid_def not_less)
  have "list_all (\<lambda>c. c \<notin> set INJECT_CHARACTER) s" using s(2) by (auto simp: list_all_iff list_ex_iff)
  from words_from_ok [OF this, of "[]"] s(1)
  have "list_all atc_word_ok (s_words s)" "sum_list (map length (s_words s)) \<le> MAX_NAME_LENGTH"
    by (simp_all add: s_words_def)
  then show ?thesis using assms(2) by (simp add: a' adv_ok_def)
qed

lemma host_arch_ok:
  assumes "init_host_arch cfg a = Inr a'" and "adv_ok f a"
  shows "adv_ok f a'"
proof -
  have "compile_option_ok f (HOST_ARCH, [])" "\<And>v. v \<in> set HOST_ARCH_LIST \<Longrightarrow> compile_option_ok f (HOST_ARCH, v)"
    by (simp_all add: compile_option_ok_def)
  then show ?thesis using assms
    by (auto simp: init_host_arch_def Let_def split: option.splits if_splits intro!: set_compile_option_ok)
qed

lemma tool_chain_option_ok:
  assumes "init_tool_chain mk f cfg a = Inr a'" and "adv_ok f a"
  shows "adv_ok f a'"
proof -
  have empty: "compile_option_ok f (TOOL_CHAIN, [])" by (simp add: compile_option_ok_def tool_chain_ok_def)
  have path: "compile_option_ok f (TOOL_CHAIN, fs_realpath f q)"
    if "endswith q C_PLUS_PLUS_COMPILER" "check_path_valid mk f (fs_realpath f q) False = Inr f'" for q f'
    using that check_path_valid_file [of mk f "fs_realpath f q" f']
    by (auto simp: compile_option_ok_def tool_chain_ok_def)
  have err: "as_param_error m = Inr x \<longleftrightarrow> m = Inr x" for m :: "adv_args res" and x
    by (auto simp: as_param_error_def split: sum.splits exn.splits)
  show ?thesis using assms
    by (auto simp: init_tool_chain_def Let_def err split: option.splits if_splits
        intro!: set_compile_option_ok empty intro: path)
qed

lemma adv_handler_ok:
  assumes "adv_handler mk f cfg option = Some h" and "h a = Inr a'" and "adv_ok f a"
  shows "adv_ok f a'"
  using assms switches_ok [OF assms(3)] atc_option_ok host_arch_ok tool_chain_option_ok
  by (auto simp: adv_handler_def split: if_splits)

lemma accepted_options_ok:
  assumes "get_advance_args_option mk f lines = Inr a"
  shows "adv_ok f a"
proof -
  obtain cfg where "apply_options mk f cfg (ini_names cfg ADVANCE_SECTION) init_adv_args = Inr a"
    using assms by (auto simp: get_advance_args_option_def Let_def)
  then show ?thesis
    unfolding apply_options_def
  proof (rule foldE_inv [where P = "adv_ok f"])
    show "adv_ok f init_adv_args"
      by (simp add: adv_ok_def init_adv_args_def TRUE_OR_FALSE_LIST_def ASCEND_GLOBAL_LOG_LEVEL_LIST_def
          ASCEND_SLOG_PRINT_TO_STDOUT_LIST_def)
  next
    fix a option a'
    assume "adv_ok f a" and "(case adv_handler mk f cfg option of None \<Rightarrow> Inr a | Some h \<Rightarrow> h a) = Inr a'"
    then show "adv_ok f a'" by (auto split: option.splits intro: adv_handler_ok)
  qed
qed

text \<open>
  C38. Whatever options file is accepted, the values that leave it are checked: the switches are \<^verbatim>\<open>True\<close> or
  \<^verbatim>\<open>False\<close>, the log level is one of 0 to 4 and the other log switch 0 or 1, the words for the command line of the model compiler
  have at most 256 characters altogether, no white space and none of the characters \<^verbatim>\<open>| & $ > < ` \ !\<close>, the host
  is empty or one of the two known ones, and the tool chain is empty or the real path of a name that ends with \<^verbatim>\<open>g++\<close> and
  is an existing, readable file. (Other characters that a shell interprets, a semicolon among them, do pass: lemma
  \<open>semicolon_passes\<close>.)
\<close>

theorem adv_options_safe:
  assumes "get_advance_args_option mk f lines = Inr a"
  shows "{only_gen_without_run a, only_run_without_gen a, adv_performance_mode a} \<subseteq> {''True'', ''False''}
    \<and> ascend_global_log_level a \<in> {''0'', ''1'', ''2'', ''3'', ''4''} \<and> ascend_slog_print_to_stdout a \<in> {''0'', ''1''}
    \<and> list_all (\<lambda>w. w \<noteq> [] \<and> list_all (\<lambda>c. \<not> c_space c \<and> c \<notin> set (CHR 0x5C # CHR 0x60 # ''|&$><!'')) w)
        (atc_singleop_advance_option a)
    \<and> sum_list (map length (atc_singleop_advance_option a)) \<le> 256
    \<and> list_all (\<lambda>(k, v). k = ''host_arch'' \<and> v \<in> {[], ''x86_64'', ''aarch64''} \<or> k = ''tool_chain'' \<and> tool_chain_ok f v)
        (compile_options a)"
proof -
  have chars: "atc_word_ok w \<Longrightarrow> w \<noteq> [] \<and> list_all (\<lambda>c. \<not> c_space c \<and> c \<notin> set (CHR 0x5C # CHR 0x60 # ''|&$><!'')) w" for w
    by (auto simp: atc_word_ok_def INJECT_CHARACTER_def list_all_iff)
  have comp: "compile_option_ok f (k, v) \<Longrightarrow>
      k = ''host_arch'' \<and> v \<in> {[], ''x86_64'', ''aarch64''} \<or> k = ''tool_chain'' \<and> tool_chain_ok f v" for k v
    by (auto simp: compile_option_ok_def HOST_ARCH_LIST_def)
  have len: "MAX_NAME_LENGTH = 256" by (simp add: MAX_NAME_LENGTH_def)
  have "list_all atc_word_ok ws \<Longrightarrow>
      list_all (\<lambda>w. w \<noteq> [] \<and> list_all (\<lambda>c. \<not> c_space c \<and> c \<notin> set (CHR 0x5C # CHR 0x60 # ''|&$><!'')) w) ws" for ws
    using chars by (induction ws) auto
  moreover have "list_all (compile_option_ok f) kvs \<Longrightarrow> list_all (\<lambda>(k, v). k = ''host_arch'' \<and> v \<in> {[], ''x86_64'', ''aarch64''}
      \<or> k = ''tool_chain'' \<and> tool_chain_ok f v) kvs" for kvs
    using comp by (induction kvs) auto
  ultimately show ?thesis
    using accepted_options_ok [OF assms] unfolding adv_ok_def len
    by (simp add: TRUE_OR_FALSE_LIST_def ASCEND_GLOBAL_LOG_LEVEL_LIST_def ASCEND_SLOG_PRINT_TO_STDOUT_LIST_def)
qed

section \<open>A file of plain options\<close>

definition option_line :: "string \<times> string \<Rightarrow> string" where
  "option_line kv = (case kv of (k, v) \<Rightarrow> k @ ''='' @ v @ [CHR 0x0A])"

definition option_name_ok :: "string \<Rightarrow> bool" where
  "option_name_ok k \<longleftrightarrow> k \<noteq> [] \<and> s_lower k = k \<and> list_all (\<lambda>c. \<not> is_delimiter c \<and> \<not> c_space c) k
     \<and> hd k \<notin> set ''[#;''"

definition option_ok :: "string \<times> string \<Rightarrow> bool" where
  "option_ok kv = (case kv of (k, v) \<Rightarrow> option_name_ok k \<and> s_strip v = v)"

lemma rstrip_newline_text: "s_rstrip c_space (s @ [CHR 0x0A]) = s_rstrip c_space s"
  by (simp add: s_rstrip_def c_space_def)

lemma rstrip_solid_end: "s = [] \<or> \<not> c_space (last s) \<Longrightarrow> s_rstrip c_space s = s"
  by (cases s rule: rev_cases) (simp_all add: s_rstrip_def)

lemma stripped_end: "s_strip v = v \<Longrightarrow> v = [] \<or> \<not> c_space (last v)"
proof -
  assume "s_strip v = v"
  then have v: "v = rev (dropWhile c_space (rev (s_lstrip c_space v)))" by (simp add: s_strip_def s_rstrip_def)
  show ?thesis
  proof (cases "dropWhile c_space (rev (s_lstrip c_space v)) = []")
    case True
    then show ?thesis using v by (metis rev.simps(1))
  next
    case False
    then have "\<not> c_space (hd (dropWhile c_space (rev (s_lstrip c_space v))))" by (rule hd_dropWhile)
    then show ?thesis using False v by (metis last_rev)
  qed
qed

lemma option_line_strip:
  assumes "option_ok (k, v)"
  shows "s_strip (option_line (k, v)) = k @ ''='' @ v" and "indent_of (option_line (k, v)) = 0"
    and "\<not> is_comment (option_line (k, v))"
proof -
  have k: "k \<noteq> []" "\<not> c_space (hd k)" "hd k \<notin> set ''[#;''"
    using assms by (auto simp: option_ok_def option_name_ok_def list_all_iff)
  have "\<not> c_space (last (k @ ''='' @ v))"
    using assms stripped_end [of v] by (cases "v = []") (auto simp: option_ok_def c_space_def)
  then have "s_rstrip c_space (k @ ''='' @ v) = k @ ''='' @ v" by (intro rstrip_solid_end) simp
  moreover have "s_lstrip c_space (option_line (k, v)) = option_line (k, v)"
    using k by (cases k) (simp_all add: s_lstrip_def option_line_def)
  ultimately show strip: "s_strip (option_line (k, v)) = k @ ''='' @ v"
    using rstrip_newline_text [of "k @ ''='' @ v"] by (simp add: s_strip_def option_line_def)
  show "indent_of (option_line (k, v)) = 0" using k by (cases k) (simp_all add: indent_of_def option_line_def)
  show "\<not> is_comment (option_line (k, v))"
    unfolding is_comment_def strip using k by (cases k) (auto simp: startswith_def)
qed

definition in_run :: "ini_options \<Rightarrow> ini_reader \<Rightarrow> bool" where
  "in_run opts r \<longleftrightarrow> ir_sections r = [(ADVANCE_SECTION, opts)] \<and> ir_section r = Some ADVANCE_SECTION
     \<and> ir_indent r = 0 \<and> \<not> ir_error r"

lemma new_option_line:
  "option_parts w = (k, Some v) \<Longrightarrow> k \<noteq> [] \<Longrightarrow> map_of (current_options r) k = None \<Longrightarrow>
   ini_option_line r w = Inr ((set_option r k (Some [v]))\<lparr>ir_option := k\<rparr>)"
  by (simp add: ini_option_line_def)

lemma option_line_read:
  assumes "option_ok (k, v)" and "in_run opts r" and "k \<notin> set (map fst opts)"
  shows "\<exists>r'. ini_line r (option_line (k, v)) = Inr r' \<and> in_run (opts @ [(k, Some [v])]) r'"
proof -
  note l = option_line_strip [OF assms(1)]
  have k: "k \<noteq> []" "hd k \<noteq> CHR ''[''" "s_lower k = k" "list_all (\<lambda>c. \<not> is_delimiter c \<and> \<not> c_space c) k"
    using assms(1) by (auto simp: option_ok_def option_name_ok_def)
  have cur: "current_options r = opts" using assms(2) by (simp add: in_run_def current_options_def)
  have tw: "takeWhile (\<lambda>c. \<not> is_delimiter c) (k @ ''='' @ v) = k" "dropWhile (\<lambda>c. \<not> is_delimiter c) (k @ ''='' @ v) = ''='' @ v"
    using k(4) by (auto simp: list_all_iff is_delimiter_def takeWhile_append dropWhile_append)
  have "s_rstrip c_space k = k" using k(1,4) by (intro rstrip_solid_end) (auto simp: list_all_iff)
  then have parts: "option_parts (k @ ''='' @ v) = (k, Some v)"
    unfolding option_parts_def Let_def tw using k(3) assms(1) by (simp add: option_ok_def)
  have hdr: "section_header (k @ ''='' @ v) = None" using k(1,2) by (cases k) (simp_all add: section_header_def Let_def)
  let ?r = "r\<lparr>ir_indent := 0\<rparr>"
  have "in_run opts ?r" using assms(2) by (simp add: in_run_def)
  then have cur': "current_options ?r = opts" by (simp add: in_run_def current_options_def)
  have new: "map_of opts k = None" using assms(3) by (simp add: map_of_eq_None_iff)
  have "ini_option_line ?r (k @ ''='' @ v) = Inr ((set_option ?r k (Some [v]))\<lparr>ir_option := k\<rparr>)"
    using new_option_line [OF parts k(1)] new cur' by metis
  moreover have "ir_section r \<noteq> None" using assms(2) by (simp add: in_run_def)
  ultimately have "ini_line r (option_line (k, v)) = Inr ((set_option ?r k (Some [v]))\<lparr>ir_option := k\<rparr>)"
    using k(1) hdr [simplified] by (simp add: ini_line_def l Let_def)
  moreover have "AList.update k (Some [v]) opts = opts @ [(k, Some [v])]"
    using assms(3) by (induction opts) auto
  then have "in_run (opts @ [(k, Some [v])]) ((set_option ?r k (Some [v]))\<lparr>ir_option := k\<rparr>)"
    using assms(2) cur' by (simp add: in_run_def set_option_def)
  ultimately show ?thesis by blast
qed

lemma option_lines_read:
  assumes "list_all option_ok kvs" and "distinct (map fst opts @ map fst kvs)" and "in_run opts r"
  shows "\<exists>r'. foldE ini_line r (map option_line kvs) = Inr r' \<and> in_run (opts @ map (\<lambda>(k, v). (k, Some [v])) kvs) r'"
  using assms
proof (induction kvs arbitrary: opts r)
  case Nil
  then show ?case by simp
next
  case (Cons kv kvs)
  obtain k v where kv: "kv = (k, v)" by (cases kv)
  from option_line_read [of k v opts r] Cons.prems obtain r1 where
    r1: "ini_line r (option_line kv) = Inr r1" "in_run (opts @ [(k, Some [v])]) r1" by (auto simp: kv)
  from Cons.IH [OF _ _ r1(2)] Cons.prems show ?case by (simp add: r1(1)) (simp add: kv)
qed

lemma value_rejoined: "s_strip v = v \<Longrightarrow> join_value (Some [v]) = Some v"
  using stripped_end [of v] by (simp add: join_value_def rstrip_solid_end)

text \<open>
  A file that sets each option once, on a line of its own, is read back exactly: the section of
  the run has these names with these values, in this order.
\<close>

theorem option_file_round_trip:
  assumes "list_all option_ok kvs" and "distinct (map fst kvs)"
  shows "read_config_file (map option_line kvs) = Inr [(ADVANCE_SECTION, map (\<lambda>(k, v). (k, Some v)) kvs)]"
proof -
  obtain r0 where r0: "ini_line ini_start (''[RUN]'' @ [CHR 0x0A]) = Inr r0" and run: "in_run [] r0"
  proof
    show "ini_line ini_start (''[RUN]'' @ [CHR 0x0A]) = Inr
       \<lparr>ir_sections = [(''RUN'', [])], ir_section = Some ''RUN'', ir_option = [], ir_indent = 0, ir_error = False\<rparr>"
      by code_simp
  qed (simp add: in_run_def)
  from option_lines_read [OF assms(1) _ run] assms(2) obtain r where
    r: "foldE ini_line r0 (map option_line kvs) = Inr r" "in_run (map (\<lambda>(k, v). (k, Some [v])) kvs) r" by auto
  have "map (\<lambda>(k, v). (k, join_value v)) (map (\<lambda>(k, v). (k, Some [v])) kvs) = map (\<lambda>(k, v). (k, Some v)) kvs"
    using assms(1) by (auto simp: list_all_iff option_ok_def value_rejoined)
  moreover have "ir_sections r = [(''RUN'', map (\<lambda>(k, v). (k, Some [v])) kvs)]" "\<not> ir_error r"
    using r(2) by (simp_all add: in_run_def)
  ultimately show ?thesis
    unfolding read_config_file_def read_ini_def foldE.simps r0 bindE_simps r(1) by (simp del: map_map)
qed

section \<open>An example\<close>

definition opt_fs :: fs where
  "opt_fs = \<lparr>fs_realpath = (\<lambda>p. p), fs_exists = (\<lambda>p. True), fs_isdir = (\<lambda>p. False), fs_isfile = (\<lambda>p. True),
     fs_readable = (\<lambda>p. True), fs_writable = (\<lambda>p. True), fs_size = (\<lambda>p. Some 1), fs_listdir = (\<lambda>p. [])\<rparr>"

definition opt_pairs :: "(string \<times> string) list" where
  "opt_pairs = [(''only_gen_without_run'', ''True''), (''ascend_global_log_level'', ''7''),
     (''atc_singleop_advance_option'', [CHR 0x22] @ ''--log=info --mode=1'' @ [CHR 0x22]),
     (''host_arch'', ''aarch64''), (''tool_chain'', ''/usr/bin/g++''), (''colour'', ''red'')]"

lemma options_example:
  "get_advance_args_option (\<lambda>f p. None) opt_fs (map option_line opt_pairs) = Inr
     (init_adv_args\<lparr>only_gen_without_run := ''True'', atc_singleop_advance_option := [''--log=info'', ''--mode=1''],
        compile_options := [(''host_arch'', ''aarch64''), (''tool_chain'', ''/usr/bin/g++'')]\<rparr>)"
  by code_simp

theorem adv_options_safe_witness:
  "list_all (\<lambda>w. w \<noteq> [] \<and> list_all (\<lambda>c. \<not> c_space c \<and> c \<notin> set (CHR 0x5C # CHR 0x60 # ''|&$><!'')) w) [''--log=info'', ''--mode=1'']
   \<and> tool_chain_ok opt_fs ''/usr/bin/g++''"
  using adv_options_safe [OF options_example] by simp

text \<open>The list of refused characters has gaps: a semicolon, which ends a command, is let through.\<close>

lemma semicolon_passes:
  "map_sum id atc_singleop_advance_option
     (get_advance_args_option (\<lambda>f p. None) opt_fs [option_line (''atc_singleop_advance_option'', ''a;reboot'')])
   = Inr [''a;reboot'']"
  by code_simp

theorem option_file_round_trip_witness:
  "read_config_file (map option_line opt_pairs) = Inr [(ADVANCE_SECTION, map (\<lambda>(k, v). (k, Some v)) opt_pairs)]"
  by (rule option_file_round_trip; code_simp)

text \<open>An argument with a pipe is refused; an option without a value raises \<^verbatim>\<open>AttributeError\<close>; an
  option set twice and a section in the file are errors of the parser, which nothing catches.\<close>

lemma wrong_option_files:
  "get_advance_args_option (\<lambda>f p. None) opt_fs [option_line (''atc_singleop_advance_option'', ''a | b'')] = Inl err_param"
  "get_advance_args_option (\<lambda>f p. None) opt_fs [''host_arch'' @ [CHR 0x0A]] = Inl AttributeError"
  "get_advance_args_option (\<lambda>f p. None) opt_fs (map option_line [(''host_arch'', ''a''), (''host_arch'', ''b'')]) = Inl ConfigError"
  "get_advance_args_option (\<lambda>f p. None) opt_fs [''[RUN]'' @ [CHR 0x0A]] = Inl ConfigError"
  by code_simp+

end
