(* ===== verification/Kernel_Ir.thy ===== *)
theory Kernel_Ir
  imports Py_Value "HOL-Library.Word"
begin

text \<open>
  Kernels that the DSL emits through an IR builder (\<^verbatim>\<open>irbuilder_api.py\<close>, \<^verbatim>\<open>dim_conv.py\<close>). A builder
  records calls of instructions inside symbolic loops and conditions. Here a piece of emitted
  code is the list of calls that it executes, in order: \<^verbatim>\<open>ib.emit\<close> is a list of one call, statements
  after each other are appended, \<^verbatim>\<open>ib.for_range\<close> is \<open>for_range\<close>, and \<^verbatim>\<open>if_scope\<close> is a condition on the
  loop variables. What a call does to the memory of the device is a parameter.
\<close>

section \<open>Calls\<close>

record kbuffer =
  buf_name :: string
  buf_dtype :: string

text \<open>The arguments of \<^verbatim>\<open>tvm.call_extern\<close>: pointers with an access mode and an offset in elements,
  numbers, texts, constants of type \<^verbatim>\<open>uint64\<close>, constants of the type of a buffer, symbolic
  expressions of the caller, and registers.\<close>

datatype karg =
    Ptr string kbuffer int
  | Num int
  | Txt string
  | U64 "64 word"
  | Scalar pyval string
  | Sym string
  | Reg string int

datatype kcall = Call string string "karg list"

section \<open>Loops\<close>

definition for_range :: "int \<Rightarrow> (int \<Rightarrow> 'a list) \<Rightarrow> 'a list" where
  "for_range n body = concat (map body [0..n - 1])"

definition run_calls :: "(kcall \<Rightarrow> 's \<Rightarrow> 's) \<Rightarrow> kcall list \<Rightarrow> 's \<Rightarrow> 's" where
  "run_calls ex cs s = fold ex cs s"

lemma run_calls_simps [simp]:
  "run_calls ex [] s = s"
  "run_calls ex (c # cs) s = run_calls ex cs (ex c s)"
  "run_calls ex (cs @ ds) s = run_calls ex ds (run_calls ex cs s)"
  by (simp_all add: run_calls_def)

lemma for_range_0 [simp]: "n \<le> 0 \<Longrightarrow> for_range n body = []"
  by (simp add: for_range_def)

lemma for_range_Suc: "0 \<le> n \<Longrightarrow> for_range (n + 1) body = for_range n body @ body n"
  by (simp add: for_range_def upto_rec2)

lemma for_range_nat: "for_range (int n) body = concat (map (\<lambda>i. body (int i)) [0..<n])"
proof (induction n)
  case (Suc n)
  then show ?case using for_range_Suc [of "int n" body] by (simp add: add.commute)
qed simp

lemma for_range_cong:
  "n = m \<Longrightarrow> (\<And>i. 0 \<le> i \<Longrightarrow> i < m \<Longrightarrow> f i = g i) \<Longrightarrow> for_range n f = for_range m g"
  unfolding for_range_def by (intro arg_cong [where f = concat] map_cong) auto

text \<open>The invariant rule of an emitted loop.\<close>

lemma for_range_inv:
  assumes "P 0 s" and "\<And>i s. 0 \<le> i \<Longrightarrow> i < n \<Longrightarrow> P i s \<Longrightarrow> P (i + 1) (run_calls ex (body i) s)" and "0 \<le> n"
  shows "P n (run_calls ex (for_range n body) s)"
proof -
  have "P (int k) (run_calls ex (for_range (int k) body) s)" if "int k \<le> n" for k
    using that
  proof (induction k)
    case 0
    then show ?case using assms(1) by simp
  next
    case (Suc k)
    have e: "for_range (int (Suc k)) body = for_range (int k) body @ body (int k)"
      using for_range_Suc [of "int k" body] by (simp add: add.commute)
    show ?case using Suc assms(2) [of "int k"] unfolding e by (simp add: add.commute)
  qed
  from this [of "nat n"] assms(3) show ?thesis by simp
qed

lemma set_for_range: "set (for_range n body) = (\<Union>i\<in>{0..<n}. set (body i))"
  by (auto simp: for_range_def)

end
