(* ===== verification/Ir_Builder.thy ===== *)
theory Ir_Builder
  imports Kernel_Ir Py_Base
begin

text \<open>
  The helpers of \<^verbatim>\<open>irbuilder_api.py\<close> that emit vector instructions over a range of elements: whole
  repeats first, then the rest under a mask. Each is modelled as the calls it emits. Proved: under
  the documented behaviour of a vector instruction, the emitted calls compute exactly the
  elements asked for and leave the mask as it was.
\<close>

section \<open>Loops and masks\<close>

text \<open>The mask of \<open>n\<close> ones, as the loop \<^verbatim>\<open>mask = mask*2 + 1\<close> builds it.\<close>

definition ones_mask :: "int \<Rightarrow> int" where
  "ones_mask n = ((\<lambda>m. m * 2 + 1) ^^ nat n) 0"

definition MAX_VALUE_UINT64 :: int where
  "MAX_VALUE_UINT64 = 18446744073709551615"

definition get_loopnum_and_masklist :: "int \<Rightarrow> int \<Rightarrow> (int \<times> int \<times> 64 word \<times> 64 word) res" where
  "get_loopnum_and_masklist data_len align_len =
     (if align_len = 0 then Inl ZeroDivisionError
      else let loop = data_len div align_len; tmp = data_len mod align_len in
        Inr (if tmp \<noteq> 0 then
               (if tmp < 64 then (loop, 1, word_of_int (ones_mask tmp), 0)
                else (loop, 1, word_of_int (MAX_VALUE_UINT64 div 2 * 2 + 1), word_of_int (ones_mask (tmp - 64))))
             else (loop, 0, 0, 0)))"

definition set_vector_mask :: "64 word \<Rightarrow> 64 word \<Rightarrow> kcall" where
  "set_vector_mask m1 m0 = Call ''uint64'' ''set_vector_mask'' [U64 m1, U64 m0]"

section \<open>The kernels\<close>

type_synonym addr_info = "kbuffer \<times> int"

fun read_ptr :: "addr_info \<Rightarrow> karg" where
  "read_ptr (b, off) = Ptr ''r'' b off"

fun write_ptr :: "addr_info \<Rightarrow> karg" where
  "write_ptr (b, off) = Ptr ''rw'' b off"

definition moved_by :: "int \<Rightarrow> addr_info \<Rightarrow> addr_info" where
  "moved_by k a = (fst a, snd a + k)"

text \<open>The shape the kernels share: one call for the whole repeats, and one under the mask.\<close>

definition vector_kernel ::
    "(addr_info \<Rightarrow> addr_info list \<Rightarrow> int \<Rightarrow> kcall) \<Rightarrow> addr_info \<Rightarrow> addr_info list \<Rightarrow> int \<times> int \<Rightarrow> kcall list res" where
  "vector_kernel call dst srcs data_info = (case data_info of (data_len, align_len) \<Rightarrow>
     bindE (get_loopnum_and_masklist data_len align_len) (\<lambda>(loop, tail, mask0, mask1).
       let k = align_len * loop in
       Inr ((if loop \<noteq> 0 then [call dst srcs loop] else []) @
            (if tail = 1 then
               [set_vector_mask mask1 mask0, call (moved_by k dst) (map (moved_by k) srcs) 1, set_vector_mask (-1) (-1)]
             else []))))"

definition two_to_one_call :: "string \<Rightarrow> addr_info \<Rightarrow> addr_info list \<Rightarrow> int \<Rightarrow> kcall" where
  "two_to_one_call op dst srcs repeat = Call (buf_dtype (fst dst)) op
     (write_ptr dst # map read_ptr srcs @ map Num [repeat, 1, 1, 1, 8, 8, 8])"

definition kernel_two_to_one_common_fuc ::
    "addr_info \<Rightarrow> addr_info \<Rightarrow> addr_info \<Rightarrow> int \<times> int \<Rightarrow> string \<Rightarrow> kcall list res" where
  "kernel_two_to_one_common_fuc dst src1 src2 data_info op =
     vector_kernel (two_to_one_call op) dst [src1, src2] data_info"

definition one_to_one_call :: "string \<Rightarrow> addr_info \<Rightarrow> addr_info list \<Rightarrow> int \<Rightarrow> kcall" where
  "one_to_one_call op dst srcs repeat = Call (buf_dtype (fst dst)) op
     (write_ptr dst # map read_ptr srcs @ map Num [repeat, 1, 1, 8, 8])"

definition kernel_one_to_one_common_fuc :: "addr_info \<Rightarrow> addr_info \<Rightarrow> int \<times> int \<Rightarrow> string \<Rightarrow> kcall list res" where
  "kernel_one_to_one_common_fuc dst src data_info op =
     vector_kernel (one_to_one_call op) dst [src] data_info"

text \<open>A Python number becomes a constant of the type of the output, anything else is passed on.\<close>

datatype op_value = Py_Value pyval | Tvm_Value string

fun scalar_arg :: "string \<Rightarrow> op_value \<Rightarrow> karg" where
  "scalar_arg dtype (Py_Value v) = Scalar v dtype"
| "scalar_arg dtype (Tvm_Value e) = Sym e"

definition scalar_to_one_call :: "string \<Rightarrow> op_value \<Rightarrow> addr_info \<Rightarrow> addr_info list \<Rightarrow> int \<Rightarrow> kcall" where
  "scalar_to_one_call op v dst srcs repeat = Call (buf_dtype (fst dst)) op
     (write_ptr dst # map read_ptr srcs @ scalar_arg (buf_dtype (fst dst)) v # map Num [repeat, 1, 1, 8, 8])"

definition kernel_scalar_to_one_fuc ::
    "addr_info \<Rightarrow> addr_info \<Rightarrow> int \<times> int \<Rightarrow> string \<times> op_value \<Rightarrow> kcall list res" where
  "kernel_scalar_to_one_fuc dst src data_info fuc_info = (case fuc_info of (op, v) \<Rightarrow>
     vector_kernel (scalar_to_one_call op v) dst [src] data_info)"

definition vector_dup_call :: "op_value \<Rightarrow> addr_info \<Rightarrow> addr_info list \<Rightarrow> int \<Rightarrow> kcall" where
  "vector_dup_call v dst srcs repeat = Call (buf_dtype (fst dst)) ''vector_dup''
     (write_ptr dst # scalar_arg (buf_dtype (fst dst)) v # map Num [repeat, 1, 1, 8, 8])"

definition kernel_vector_dup_fuc :: "addr_info \<Rightarrow> op_value \<Rightarrow> int \<times> int \<Rightarrow> kcall list res" where
  "kernel_vector_dup_fuc dst v data_info = vector_kernel (vector_dup_call v) dst [] data_info"

definition kernel_cp_fuc :: "addr_info \<Rightarrow> addr_info \<Rightarrow> int \<times> int \<Rightarrow> string \<Rightarrow> kcall list res" where
  "kernel_cp_fuc des src data_info op = (case data_info of (data_len, align_len) \<Rightarrow>
     bindE (get_loopnum_and_masklist data_len align_len) (\<lambda>(loop, tail, _, _).
       Inr (if loop \<noteq> -1 then
              [Call (buf_dtype (fst des)) op ([write_ptr des, read_ptr src]
                 @ map Num (if op \<noteq> ''copy_gm_to_cbuf'' then [0, 1, loop + tail, 0, 0] else [0, 1, loop + tail, 0, 0, 0]))]
            else [])))"

text \<open>The casts: the strides depend on the instruction, an unknown one leaves them unbound. A call has
  at most 255 repeats, so the whole repeats are emitted in rounds.\<close>

definition cast_strides :: "string \<Rightarrow> (int \<times> int) option" where
  "cast_strides op =
     (if op \<in> {''vconv_u82f16'', ''vconv_s82f16''} then Some (4, 2)
      else if op \<in> {''vconv_f162f32'', ''vconv_f162s32r'', ''vconv_f162s32f''} then Some (8, 4)
      else if op \<in> {''vconv_deq'', ''vconv_f322f16''} then Some (4, 8)
      else if op \<in> {''vconv_f322s32r'', ''vconv_s322f32'', ''vconv_f322s32f''} then Some (8, 8)
      else None)"

definition cast_call :: "string \<Rightarrow> int \<times> int \<Rightarrow> addr_info \<Rightarrow> addr_info list \<Rightarrow> int \<Rightarrow> kcall" where
  "cast_call op strides dst srcs repeat = Call (buf_dtype (fst dst)) op
     (write_ptr dst # map read_ptr srcs @ map Num [repeat, 1, 1, fst strides, snd strides])"

definition cast_rounds ::
    "(addr_info \<Rightarrow> addr_info list \<Rightarrow> int \<Rightarrow> kcall) \<Rightarrow> addr_info \<Rightarrow> addr_info \<Rightarrow> int \<Rightarrow> int \<Rightarrow> kcall list" where
  "cast_rounds call dst src loop align_len =
     (let loop_round = (loop + 255 - 1) div 255; loop_round_left = loop mod 255 in
      for_range loop_round (\<lambda>i. let k = align_len * 255 * i in
        [call (moved_by k dst) [moved_by k src] (if i \<noteq> loop_round - 1 then 255 else loop_round_left)]))"

definition kernel_cast_to_fuc :: "addr_info \<Rightarrow> addr_info \<Rightarrow> int \<times> int \<Rightarrow> string \<Rightarrow> kcall list res" where
  "kernel_cast_to_fuc dst src data_info op = (case data_info of (data_len, align_len) \<Rightarrow>
     bindE (get_loopnum_and_masklist data_len align_len) (\<lambda>(loop, tail, mask0, mask1).
       if loop = 0 \<and> tail \<noteq> 1 then Inr []
       else (case cast_strides op of
         None \<Rightarrow> Inl NameError
       | Some strides \<Rightarrow>
           let call = cast_call op strides; k = align_len * loop in
           Inr ((if loop \<noteq> 0 then cast_rounds call dst src loop align_len else []) @
                (if tail = 1 then
                   [set_vector_mask mask1 mask0, call (moved_by k dst) [moved_by k src] 1, set_vector_mask (-1) (-1)]
                 else [])))))"

section \<open>The vector unit\<close>

text \<open>The memory of the buffers, by their names, and the mask that selects elements of a repeat.\<close>

record 'v vstate =
  vmem :: "string \<Rightarrow> int \<Rightarrow> 'v"
  vmask :: "64 word \<times> 64 word"

definition selected :: "64 word \<times> 64 word \<Rightarrow> int \<Rightarrow> bool" where
  "selected m j \<longleftrightarrow> (if j < 64 then bit (snd m) (nat j) else bit (fst m) (nat (j - 64)))"

text \<open>What a vector instruction with contiguous strides does: every repeat reads \<open>len\<close> elements of each
  source and writes as many, where the mask selects them.\<close>

definition vec_effect ::
    "int \<Rightarrow> ('v list \<Rightarrow> 'v) \<Rightarrow> addr_info \<Rightarrow> addr_info list \<Rightarrow> int \<Rightarrow> 'v vstate \<Rightarrow> 'v vstate" where
  "vec_effect len f dst srcs repeat st = st\<lparr>vmem := (vmem st)(buf_name (fst dst) := (\<lambda>i.
     if snd dst \<le> i \<and> i < snd dst + repeat * len \<and> selected (vmask st) ((i - snd dst) mod len)
     then f (map (\<lambda>(b, off). vmem st (buf_name b) (off + (i - snd dst))) srcs)
     else vmem st (buf_name (fst dst)) i))\<rparr>"

text \<open>A source is another buffer or starts where the output starts; nothing is said of instructions
  whose source and output overlap otherwise.\<close>

definition apart :: "addr_info \<Rightarrow> addr_info list \<Rightarrow> bool" where
  "apart dst srcs \<longleftrightarrow> list_all (\<lambda>s. buf_name (fst s) \<noteq> buf_name (fst dst) \<or> snd s = snd dst) srcs"

definition vector_unit ::
    "(kcall \<Rightarrow> 'v vstate \<Rightarrow> 'v vstate) \<Rightarrow> int \<Rightarrow> ('v list \<Rightarrow> 'v) \<Rightarrow> (addr_info \<Rightarrow> addr_info list \<Rightarrow> int \<Rightarrow> kcall)
      \<Rightarrow> nat \<Rightarrow> bool" where
  "vector_unit ex len f call n \<longleftrightarrow>
     (\<forall>dst srcs repeat st. 0 \<le> repeat \<and> repeat \<le> 255 \<and> length srcs = n \<and> apart dst srcs
        \<longrightarrow> ex (call dst srcs repeat) st = vec_effect len f dst srcs repeat st)
     \<and> (\<forall>m1 m0 st. ex (set_vector_mask m1 m0) st = st\<lparr>vmask := (m1, m0)\<rparr>)"

definition range_effect ::
    "('v list \<Rightarrow> 'v) \<Rightarrow> addr_info \<Rightarrow> addr_info list \<Rightarrow> int \<Rightarrow> 'v vstate \<Rightarrow> 'v vstate" where
  "range_effect f dst srcs n st = st\<lparr>vmem := (vmem st)(buf_name (fst dst) := (\<lambda>i.
     if snd dst \<le> i \<and> i < snd dst + n
     then f (map (\<lambda>(b, off). vmem st (buf_name b) (off + (i - snd dst))) srcs)
     else vmem st (buf_name (fst dst)) i))\<rparr>"

lemma ones_mask_eq: "ones_mask n = 2 ^ nat n - 1"
proof -
  have "((\<lambda>m. m * 2 + 1) ^^ k) 0 = (2 ^ k - 1 :: int)" for k
    by (induction k) simp_all
  then show ?thesis by (simp add: ones_mask_def)
qed

lemma bit_ones_mask: "bit (word_of_int (ones_mask n) :: 64 word) j \<longleftrightarrow> j < 64 \<and> j < nat n"
  by (simp add: ones_mask_eq bit_word_of_int_iff flip: mask_eq_exp_minus_1) (auto simp: bit_mask_iff)

lemma selected_full: "0 \<le> j \<Longrightarrow> j < 128 \<Longrightarrow> selected (-1, -1) j"
  by (auto simp: selected_def)

lemma masks_of_tail:
  assumes "get_loopnum_and_masklist n len = Inr (loop, 1, m0, m1)" and "0 < len" and "0 \<le> j" and "j < len" and "len \<le> 128"
  shows "selected (m1, m0) j \<longleftrightarrow> j < n mod len"
proof -
  have tmp: "n mod len \<noteq> 0" using assms(1) by (auto simp: get_loopnum_and_masklist_def Let_def split: if_splits)
  have lt: "n mod len < len" "0 \<le> n mod len" using assms(2) by simp_all
  show ?thesis
  proof (cases "n mod len < 64")
    case True
    then have "m0 = word_of_int (ones_mask (n mod len))" "m1 = 0"
      using assms(1,2) tmp by (auto simp: get_loopnum_and_masklist_def Let_def)
    then show ?thesis using True assms(3) by (auto simp: selected_def bit_ones_mask)
  next
    case False
    then have "m0 = word_of_int (MAX_VALUE_UINT64 div 2 * 2 + 1)" "m1 = word_of_int (ones_mask (n mod len - 64))"
      using assms(1,2) tmp by (auto simp: get_loopnum_and_masklist_def Let_def)
    moreover have "word_of_int (MAX_VALUE_UINT64 div 2 * 2 + 1) = (-1 :: 64 word)"
      by (simp add: MAX_VALUE_UINT64_def)
    ultimately have m: "m0 = -1" "m1 = word_of_int (ones_mask (n mod len - 64))" by simp_all
    show ?thesis unfolding m selected_def fst_conv snd_conv bit_ones_mask
      using False assms(3,4,5) lt by auto
  qed
qed


text \<open>Whole repeats under the full mask.\<close>

lemma vec_effect_full:
  assumes "0 < len" and "len \<le> 128" and "vmask st = (-1, -1)"
  shows "vec_effect len f dst srcs repeat st = range_effect f dst srcs (repeat * len) st"
proof -
  have "selected (-1, -1) ((i - snd dst) mod len)" for i
  proof (rule selected_full)
    show "0 \<le> (i - snd dst) mod len" using assms(1) by simp
    have "(i - snd dst) mod len < len" using assms(1) by simp
    then show "(i - snd dst) mod len < 128" using assms(2) by simp
  qed
  then show ?thesis by (simp add: vec_effect_def range_effect_def assms(3))
qed

text \<open>One repeat under the mask of the rest.\<close>

lemma vec_effect_tail:
  assumes "get_loopnum_and_masklist n len = Inr (loop, 1, m0, m1)" and "0 < len" and "len \<le> 128"
    and "vmask st = (m1, m0)"
  shows "vec_effect len f dst srcs 1 st = range_effect f dst srcs (n mod len) st"
proof -
  have lt: "n mod len < len" using assms(2) by simp
  have "snd dst \<le> i \<and> i < snd dst + 1 * len \<and> selected (vmask st) ((i - snd dst) mod len)
      \<longleftrightarrow> snd dst \<le> i \<and> i < snd dst + n mod len" for i
  proof (cases "snd dst \<le> i \<and> i < snd dst + len")
    case True
    then have "(i - snd dst) mod len = i - snd dst" by simp
    then show ?thesis using True masks_of_tail [OF assms(1,2) _ _ assms(3), of "i - snd dst"] assms(4) by auto
  next
    case False
    then show ?thesis using lt by auto
  qed
  then show ?thesis by (simp add: vec_effect_def range_effect_def)
qed

text \<open>Two ranges after each other are one range.\<close>

lemma moved_by_simps [simp]: "fst (moved_by k a) = fst a" "snd (moved_by k a) = snd a + k"
  by (simp_all add: moved_by_def)

lemma range_effect_mem:
  "vmem (range_effect f dst srcs n st) b i =
     (if b = buf_name (fst dst) \<and> snd dst \<le> i \<and> i < snd dst + n
      then f (map (\<lambda>s. vmem st (buf_name (fst s)) (snd s + (i - snd dst))) srcs) else vmem st b i)"
  by (simp add: range_effect_def split_def)

lemma range_effect_mask [simp]: "vmask (range_effect f dst srcs n st) = vmask st"
  by (simp add: range_effect_def)

lemma vstate_eqI: "(\<And>b i. vmem s b i = vmem t b i) \<Longrightarrow> vmask s = vmask t \<Longrightarrow> s = (t :: 'v vstate)"
  by (rule vstate.equality) auto

lemma range_effect_append:
  assumes "apart dst srcs" and "0 \<le> k" and "0 \<le> m"
  shows "range_effect f (moved_by k dst) (map (moved_by k) srcs) m (range_effect f dst srcs k st)
    = range_effect f dst srcs (k + m) st"
proof (rule vstate_eqI)
  fix b i
  let ?o = "snd dst" and ?st1 = "range_effect f dst srcs k st"
  have v: "map (\<lambda>s. vmem ?st1 (buf_name (fst s)) (snd s + (i - (?o + k)))) (map (moved_by k) srcs)
    = map (\<lambda>s. vmem st (buf_name (fst s)) (snd s + (i - ?o))) srcs" if "?o + k \<le> i"
    unfolding map_map
    using that assms(1) by (intro map_cong) (auto simp: range_effect_mem apart_def list_all_iff)
  show "vmem (range_effect f (moved_by k dst) (map (moved_by k) srcs) m ?st1) b i = vmem (range_effect f dst srcs (k + m) st) b i"
  proof (cases "?o + k \<le> i")
    case True
    then show ?thesis unfolding range_effect_mem [of f "moved_by k dst"] moved_by_simps v [OF True]
      using assms(2) by (auto simp: range_effect_mem)
  next
    case False
    then show ?thesis using assms(3) by (auto simp: range_effect_mem)
  qed
qed simp

lemma range_effect_0 [simp]: "n \<le> 0 \<Longrightarrow> range_effect f dst srcs n st = st"
  by (rule vstate_eqI) (auto simp: range_effect_mem)

lemma vector_unitD:
  assumes "vector_unit ex len f call n"
  shows "0 \<le> repeat \<Longrightarrow> repeat \<le> 255 \<Longrightarrow> length srcs = n \<Longrightarrow> apart dst srcs \<Longrightarrow>
      ex (call dst srcs repeat) st = vec_effect len f dst srcs repeat st"
    and "ex (set_vector_mask m1 m0) st = st\<lparr>vmask := (m1, m0)\<rparr>"
  using assms unfolding vector_unit_def by blast+

lemma apart_moved: "apart dst srcs \<Longrightarrow> apart (moved_by k dst) (map (moved_by k) srcs)"
  by (auto simp: apart_def list_all_iff)

text \<open>What the shared shape computes.\<close>

lemma loopnum_returns: "len \<noteq> 0 \<Longrightarrow> \<exists>loop tail m0 m1. get_loopnum_and_masklist n len = Inr (loop, tail, m0, m1)"
  by (auto simp: get_loopnum_and_masklist_def Let_def)

lemma loopnum_ok:
  assumes "get_loopnum_and_masklist n len = Inr (loop, tail, m0, m1)"
  shows "loop = n div len" and "tail = (if n mod len = 0 then 0 else 1)"
  using assms by (auto simp: get_loopnum_and_masklist_def Let_def split: if_splits)

lemma range_effect_masked:
  "range_effect f dst srcs n (st\<lparr>vmask := m\<rparr>) = (range_effect f dst srcs n st)\<lparr>vmask := m\<rparr>"
  by (rule vstate_eqI) (simp_all add: range_effect_mem)

lemma tail_run:
  assumes u: "vector_unit ex len f call (length srcs)" and g: "get_loopnum_and_masklist n len = Inr (loop, 1, m0, m1)"
    and len: "0 < len" "len \<le> 128" and a: "apart dst srcs" and m: "vmask st = (-1, -1)"
  shows "run_calls ex [set_vector_mask m1 m0, call dst srcs 1, set_vector_mask (-1) (-1)] st
    = range_effect f dst srcs (n mod len) st"
proof -
  let ?st = "st\<lparr>vmask := (m1, m0)\<rparr>"
  have "ex (call dst srcs 1) ?st = vec_effect len f dst srcs 1 ?st"
    using a by (intro vector_unitD(1) [OF u]) simp_all
  also have "\<dots> = range_effect f dst srcs (n mod len) ?st" by (rule vec_effect_tail [OF g len]) simp
  finally have "ex (call dst srcs 1) ?st = (range_effect f dst srcs (n mod len) st)\<lparr>vmask := (m1, m0)\<rparr>"
    by (simp add: range_effect_masked)
  moreover have "(range_effect f dst srcs (n mod len) st)\<lparr>vmask := (-1, -1)\<rparr> = range_effect f dst srcs (n mod len) st"
    using m by (intro vstate_eqI) simp_all
  ultimately show ?thesis by (simp add: vector_unitD(2) [OF u])
qed

lemma vector_kernel_returns: "len \<noteq> 0 \<Longrightarrow> \<exists>cs. vector_kernel call dst srcs (n, len) = Inr cs"
  by (simp add: vector_kernel_def get_loopnum_and_masklist_def Let_def split: prod.splits)

lemma vector_kernel_run:
  assumes u: "vector_unit ex len f call (length srcs)" and k: "vector_kernel call dst srcs (n, len) = Inr cs"
    and len: "0 < len" "len \<le> 128" and n: "0 \<le> n" "n div len \<le> 255"
    and a: "apart dst srcs" and m: "vmask st = (-1, -1)"
  shows "run_calls ex cs st = range_effect f dst srcs n st"
proof -
  obtain loop tail m0 m1 where g: "get_loopnum_and_masklist n len = Inr (loop, tail, m0, m1)"
    using k by (auto simp: vector_kernel_def)
  note lt = loopnum_ok [OF g]
  have loop: "0 \<le> loop" "loop \<le> 255" using n len(1) by (simp_all add: lt(1) pos_imp_zdiv_nonneg_iff)
  let ?k = "len * loop" and ?st1 = "range_effect f dst srcs (loop * len) st"
  have one: "run_calls ex (if loop \<noteq> 0 then [call dst srcs loop] else []) st = ?st1"
    using vec_effect_full [where f = f and dst = dst and srcs = srcs and repeat = loop, OF len m]
      vector_unitD(1) [OF u loop refl a] by simp
  have cs: "cs = (if loop \<noteq> 0 then [call dst srcs loop] else []) @ (if tail = 1 then
      [set_vector_mask m1 m0, call (moved_by ?k dst) (map (moved_by ?k) srcs) 1, set_vector_mask (-1) (-1)] else [])"
    using k by (simp add: vector_kernel_def g Let_def)
  have n_eq: "n = ?k + n mod len" by (simp add: lt(1))
  have "run_calls ex cs st = range_effect f dst srcs (?k + n mod len) st"
  proof (cases "tail = 1")
    case True
    have "run_calls ex [set_vector_mask m1 m0, call (moved_by ?k dst) (map (moved_by ?k) srcs) 1, set_vector_mask (-1) (-1)] ?st1
      = range_effect f (moved_by ?k dst) (map (moved_by ?k) srcs) (n mod len) ?st1"
      using tail_run [where dst = "moved_by ?k dst" and srcs = "map (moved_by ?k) srcs" and st = ?st1 and ex = ex and call = call]
        u g True len apart_moved [OF a] m by simp
    also have "\<dots> = range_effect f dst srcs (?k + n mod len) st"
      using range_effect_append [OF a, of ?k "n mod len"] loop(1) len(1) by (simp add: mult.commute)
    finally show ?thesis unfolding cs using True one by simp
  next
    case False
    then have "n mod len = 0" using lt(2) by (simp split: if_splits)
    then show ?thesis unfolding cs using False one by (simp add: mult.commute)
  qed
  then show ?thesis using n_eq by simp
qed


section \<open>Instructions with strides\<close>

lemma div_less_int:
  assumes "(0 :: int) < q" shows "x div q < r \<longleftrightarrow> x < r * q"
proof
  assume "x div q < r"
  then have "x div q + 1 \<le> r" by simp
  then have "(x div q + 1) * q \<le> r * q" using assms by (intro mult_right_mono) simp_all
  moreover have "x < (x div q + 1) * q"
    using pos_mod_bound [OF assms, of x] div_mult_mod_eq [of x q] unfolding distrib_right by linarith
  ultimately show "x < r * q" by simp
next
  assume x: "x < r * q"
  show "x div q < r"
  proof (rule ccontr)
    assume "\<not> x div q < r"
    then have "r * q \<le> x div q * q" using assms by (intro mult_right_mono) simp_all
    also have "\<dots> \<le> x" using pos_mod_sign [OF assms, of x] div_mult_mod_eq [of x q] by linarith
    finally show False using x by simp
  qed
qed

text \<open>
  The documented behaviour of a vector instruction, strides included. Every repeat handles \<open>len\<close> elements. The
  last numbers of a call are the strides, in blocks of 32 bytes, by which the output and each source move on from one repeat
  to the next; \<open>bytes\<close> are the sizes of their elements. Nothing is said of more than 255 repeats, of sources that
  overlap the output in another way than element by element, and of outputs that overlap themselves.
\<close>

definition vec_call :: "string \<Rightarrow> int list \<Rightarrow> addr_info \<Rightarrow> addr_info list \<Rightarrow> int \<Rightarrow> kcall" where
  "vec_call op strides dst srcs repeat = Call (buf_dtype (fst dst)) op
     (write_ptr dst # map read_ptr srcs @ map Num (repeat # replicate (Suc (length srcs)) 1 @ strides))"

definition strided_effect ::
    "int \<Rightarrow> int list \<Rightarrow> ('v list \<Rightarrow> 'v) \<Rightarrow> addr_info \<Rightarrow> addr_info list \<Rightarrow> int \<Rightarrow> 'v vstate \<Rightarrow> 'v vstate" where
  "strided_effect len steps f dst srcs repeat st = st\<lparr>vmem := (vmem st)(buf_name (fst dst) := (\<lambda>i.
     let r = (i - snd dst) div hd steps; j = (i - snd dst) mod hd steps in
     if snd dst \<le> i \<and> r < repeat \<and> j < len \<and> selected (vmask st) j
     then f (map2 (\<lambda>(b, off) step. vmem st (buf_name b) (off + (r * step + j))) srcs (tl steps))
     else vmem st (buf_name (fst dst)) i))\<rparr>"

definition steps_of :: "int list \<Rightarrow> int list \<Rightarrow> int list" where
  "steps_of strides bytes = map2 (\<lambda>s b. 32 * s div b) strides bytes"

definition strided_unit ::
    "(kcall \<Rightarrow> 'v vstate \<Rightarrow> 'v vstate) \<Rightarrow> string \<Rightarrow> int \<Rightarrow> int list \<Rightarrow> ('v list \<Rightarrow> 'v) \<Rightarrow> bool" where
  "strided_unit ex op len bytes f \<longleftrightarrow>
     (\<forall>strides dst srcs repeat st. 0 \<le> repeat \<and> repeat \<le> 255 \<and> length bytes = Suc (length srcs)
          \<and> length strides = length bytes \<and> apart dst srcs \<and> len \<le> hd (steps_of strides bytes)
        \<longrightarrow> ex (vec_call op strides dst srcs repeat) st
          = strided_effect len (steps_of strides bytes) f dst srcs repeat st)
     \<and> (\<forall>m1 m0 st. ex (set_vector_mask m1 m0) st = st\<lparr>vmask := (m1, m0)\<rparr>)"

lemma strided_contiguous:
  assumes "0 < len"
  shows "strided_effect len (replicate (Suc (length srcs)) len) f dst srcs repeat st = vec_effect len f dst srcs repeat st"
proof -
  have sources: "map2 (\<lambda>(b, off) step. m (buf_name b) (off + (r * step + j))) srcs (replicate (length srcs) len)
      = map (\<lambda>(b, off). m (buf_name b) (off + (r * len + j))) srcs" for m :: "string \<Rightarrow> int \<Rightarrow> 'a" and r j
    by (induction srcs) auto
  have cells: "snd dst \<le> i \<and> (i - snd dst) div len < repeat \<and> (i - snd dst) mod len < len
      \<longleftrightarrow> snd dst \<le> i \<and> i < snd dst + repeat * len" for i
    using assms by (auto simp: div_less_int)
  have place: "(i - snd dst) div len * len + (i - snd dst) mod len = i - snd dst" for i
    by (rule div_mult_mod_eq)
  show ?thesis
    unfolding strided_effect_def vec_effect_def Let_def replicate_Suc list.sel sources place
    using cells by (intro arg_cong [where f = "\<lambda>m. st\<lparr>vmem := (vmem st)(buf_name (fst dst) := m)\<rparr>"] ext) (metis (no_types, opaque_lifting))
qed

text \<open>Strides of \<open>len\<close> elements make the repeats contiguous.\<close>

lemma steps_contiguous:
  "list_all (\<lambda>b. 0 < b) bytes \<Longrightarrow> list_all2 (\<lambda>s b. 32 * s = len * b) strides bytes \<Longrightarrow>
     steps_of strides bytes = replicate (length bytes) len"
  unfolding steps_of_def by (induction strides bytes rule: list_induct2') auto

lemma strided_is_vector:
  assumes "strided_unit ex op len bytes f" and "0 < len" and "length bytes = Suc n"
    and "list_all (\<lambda>b. 0 < b) bytes" and "list_all2 (\<lambda>s b. 32 * s = len * b) strides bytes"
  shows "vector_unit ex len f (vec_call op strides) n"
proof -
  have steps: "steps_of strides bytes = replicate (Suc n) len"
    using steps_contiguous [OF assms(4,5)] assms(3) by simp
  have "ex (vec_call op strides dst srcs repeat) st = vec_effect len f dst srcs repeat st"
    if "0 \<le> repeat" "repeat \<le> 255" "length srcs = n" "apart dst srcs" for dst srcs repeat st
  proof -
    have "ex (vec_call op strides dst srcs repeat) st = strided_effect len (steps_of strides bytes) f dst srcs repeat st"
      using assms(1,3) that list_all2_lengthD [OF assms(5)] unfolding strided_unit_def
      by (simp add: steps del: split_paired_All)
    also have "\<dots> = vec_effect len f dst srcs repeat st"
      using strided_contiguous [OF assms(2), of srcs f dst repeat st] that(3) by (simp add: steps)
    finally show ?thesis .
  qed
  then show ?thesis using assms(1) by (simp add: vector_unit_def strided_unit_def)
qed

lemma vector_unit_same:
  assumes "vector_unit ex len f call n" and "\<And>dst srcs repeat. length srcs = n \<Longrightarrow> call' dst srcs repeat = call dst srcs repeat"
  shows "vector_unit ex len f call' n"
  using assms by (simp add: vector_unit_def)

lemma two_to_one_as_vec: "length srcs = 2 \<Longrightarrow> two_to_one_call op dst srcs repeat = vec_call op [8, 8, 8] dst srcs repeat"
  by (simp add: two_to_one_call_def vec_call_def eval_nat_numeral)

lemma cast_as_vec: "length srcs = 1 \<Longrightarrow> cast_call op strides dst srcs repeat = vec_call op [fst strides, snd strides] dst srcs repeat"
  by (simp add: cast_call_def vec_call_def)

text \<open>
  C18. A kernel of two inputs computes exactly the elements asked for. For an instruction that computes \<open>f\<close> on
  elements of \<open>b\<close> bytes, \<open>len\<close> of them in a repeat of 256 bytes, under the mask and with the strides of the call:
  from a full mask, with at most 255 whole repeats and sources that are other buffers or start where the output
  starts, the emitted calls write \<open>f\<close> of the two inputs to the \<open>n\<close> elements of the output, whole repeats
  or not, change nothing else, and restore the mask. (More repeats are put into one call as well, which the
  instruction does not take: lemma \<open>repeats_not_split\<close>.)
\<close>

theorem two_to_one_computes:
  assumes "strided_unit ex op len [b, b, b] f" and "len * b = 256" and "2 \<le> b" and "0 < len"
    and "0 \<le> n" and "n div len \<le> 255" and "apart dst [src1, src2]" and "vmask st = (-1, -1)"
  shows "\<exists>cs. kernel_two_to_one_common_fuc dst src1 src2 (n, len) op = Inr cs
    \<and> run_calls ex cs st = range_effect f dst [src1, src2] n st"
proof -
  have "len * 2 \<le> len * b" using assms(3,4) by simp
  then have len: "len \<le> 128" using assms(2) by simp
  obtain cs where cs: "vector_kernel (two_to_one_call op) dst [src1, src2] (n, len) = Inr cs"
    using vector_kernel_returns assms(4) by (metis less_irrefl)
  have "vector_unit ex len f (vec_call op [8, 8, 8]) 2"
    using assms(2-4) by (intro strided_is_vector [OF assms(1)]) simp_all
  then have "vector_unit ex len f (two_to_one_call op) (length [src1, src2])"
    by (rule vector_unit_same [THEN back_subst [where P = "\<lambda>n. vector_unit ex len f (two_to_one_call op) n"]])
      (simp_all add: two_to_one_as_vec)
  from vector_kernel_run [OF this cs assms(4) len assms(5-8)] cs show ?thesis
    by (simp add: kernel_two_to_one_common_fuc_def)
qed

section \<open>Casts in rounds\<close>

text \<open>The rounds compute the whole repeats, unless their number is a multiple of 255: then the last round
  has no repeats left.\<close>

lemma cast_rounds_run:
  assumes u: "vector_unit ex len f call 1" and len: "0 < len" "len \<le> 128" and loop: "0 < loop"
    and a: "apart dst [src]" and m: "vmask st = (-1, -1)"
  shows "run_calls ex (cast_rounds call dst src loop len) st
    = range_effect f dst [src] (if loop mod 255 = 0 then (loop - 255) * len else loop * len) st"
proof -
  define left where "left = loop mod 255"
  define r where "r = (loop + 255 - 1) div 255"
  define rep where "rep i = (if i \<noteq> r - 1 then 255 else left)" for i
  define ready where "ready i = (if i < r then 255 * i else 255 * (r - 1) + left)" for i
  define q where "q = loop div 255"
  have left: "0 \<le> left" "left < 255" by (simp_all add: left_def)
  have q: "loop = q * 255 + left" by (simp add: q_def left_def)
  have "(left + 254) div 255 = (if left = 0 then 0 else 1)" using left by (auto intro: div_pos_geq [THEN trans])
  moreover have "r = q + (left + 254) div 255"
    using div_mult_self1 [of 255 "left + 254" q] by (simp add: r_def q algebra_simps)
  ultimately have rq: "r = (if left = 0 then q else q + 1)" by simp
  have r: "1 \<le> r" "255 * (r - 1) + left = (if left = 0 then loop - 255 else loop)"
    using rq q loop left by (auto split: if_splits)
  have rep: "0 \<le> rep i" "rep i \<le> 255" for i using left by (simp_all add: rep_def)
  have succ: "255 * i + rep i = ready (i + 1)" if "0 \<le> i" "i < r" for i
    using that by (simp add: rep_def ready_def)
  let ?body = "\<lambda>i. [call (moved_by (len * 255 * i) dst) [moved_by (len * 255 * i) src] (rep i)]"
  have step: "run_calls ex (?body i) s = range_effect f dst [src] (ready (i + 1) * len) st"
    if i: "0 \<le> i" "i < r" and s: "s = range_effect f dst [src] (ready i * len) st" for i s
  proof -
    let ?k = "len * 255 * i"
    have k: "ready i * len = ?k" using i by (simp add: ready_def)
    have "ex (call (moved_by ?k dst) [moved_by ?k src] (rep i)) s
        = vec_effect len f (moved_by ?k dst) [moved_by ?k src] (rep i) s"
      using apart_moved [OF a, of ?k] by (intro vector_unitD(1) [OF u rep]) simp_all
    also have "\<dots> = range_effect f (moved_by ?k dst) (map (moved_by ?k) [src]) (rep i * len) s"
      using s m by (simp add: vec_effect_full [OF len])
    also have "\<dots> = range_effect f dst [src] (?k + rep i * len) st"
      unfolding s k using i(1) rep(1) len(1) by (intro range_effect_append [OF a]) simp_all
    also have "?k + rep i * len = ready (i + 1) * len"
      unfolding succ [OF i, symmetric] by (simp add: algebra_simps)
    finally show ?thesis by simp
  qed
  have "run_calls ex (for_range r ?body) st = range_effect f dst [src] (ready r * len) st"
  proof (rule for_range_inv [where P = "\<lambda>i s. s = range_effect f dst [src] (ready i * len) st"])
    show "st = range_effect f dst [src] (ready 0 * len) st" using r(1) by (simp add: ready_def)
  qed (use step r(1) in auto)
  moreover have "ready r = (if left = 0 then loop - 255 else loop)" using r(2) by (simp add: ready_def)
  moreover have "cast_rounds call dst src loop len = for_range r ?body"
    unfolding cast_rounds_def Let_def r_def rep_def left_def ..
  ultimately show ?thesis by (simp add: left_def)
qed


text \<open>
  The sizes in bytes of the elements of the output and of the source of the conversions, as their names tell: from 8 bit
  integers to half precision, from half precision to single precision or 32 bit integers, and so on. A repeat converts 64 elements.
\<close>

definition cast_bytes :: "string \<Rightarrow> int list option" where
  "cast_bytes op = map_of
     [(''vconv_u82f16'', [2, 1]), (''vconv_s82f16'', [2, 1]),
      (''vconv_f162f32'', [4, 2]), (''vconv_f162s32r'', [4, 2]), (''vconv_f162s32f'', [4, 2]),
      (''vconv_deq'', [2, 4]), (''vconv_f322f16'', [2, 4]),
      (''vconv_f322s32r'', [4, 4]), (''vconv_s322f32'', [4, 4]), (''vconv_f322s32f'', [4, 4])] op"

text \<open>The strides the kernel chooses are those of 64 elements, in the output and in the source.\<close>

lemma cast_strides_right:
  assumes "cast_bytes op = Some bytes"
  obtains ds ss where "cast_strides op = Some (ds, ss)" "list_all2 (\<lambda>s b. 32 * s = 64 * b) [ds, ss] bytes"
    "length bytes = 2" "list_all (\<lambda>b. 0 < b) bytes"
  using assms by (auto simp: cast_bytes_def cast_strides_def split: if_splits)

text \<open>
  C22. A cast in rounds of at most 255 repeats of 64 elements and a masked rest. For a conversion of the table that
  works as documented on elements of the sizes its name tells, with the strides of the call, from a full mask and with a source
  that is another buffer or starts where the output starts: the emitted calls convert exactly the \<open>n\<close> elements
  asked for when the number of whole repeats is zero or no multiple of 255; when it is another multiple, they convert the
  elements before the last 255 repeats and those of the rest, and leave the last 255 repeats out. Nothing else changes.
\<close>

theorem cast_converts:
  assumes "cast_bytes op = Some bytes" and "strided_unit ex op 64 bytes f"
    and "0 \<le> n" and "apart dst [src]" and "vmask st = (-1, -1)"
  shows "\<exists>cs. kernel_cast_to_fuc dst src (n, 64) op = Inr cs \<and>
    run_calls ex cs st =
      (let loop = n div 64; k = 64 * loop in
       if loop \<noteq> 0 \<and> loop mod 255 = 0
       then range_effect f (moved_by k dst) [moved_by k src] (n mod 64) (range_effect f dst [src] (64 * (loop - 255)) st)
       else range_effect f dst [src] n st)"
proof -
  obtain ds ss where strides: "cast_strides op = Some (ds, ss)" "list_all2 (\<lambda>s b. 32 * s = 64 * b) [ds, ss] bytes"
    and bytes: "length bytes = 2" "list_all (\<lambda>b. 0 < b) bytes"
    using cast_strides_right [OF assms(1)] .
  let ?call = "cast_call op (ds, ss)"
  have "vector_unit ex 64 f (vec_call op [ds, ss]) 1"
    by (rule strided_is_vector [OF assms(2) _ _ bytes(2) strides(2)]) (simp_all add: bytes(1))
  then have u: "vector_unit ex 64 f ?call 1"
    by (rule vector_unit_same) (simp add: cast_as_vec)
  have len: "(0 :: int) < 64" "(64 :: int) \<le> 128" by simp_all
  obtain loop tail m0 m1 where g: "get_loopnum_and_masklist n 64 = Inr (loop, tail, m0, m1)"
    using loopnum_returns [of 64 n] by auto
  note lt = loopnum_ok [OF g]
  have loop: "0 \<le> loop" using assms(3) by (simp add: lt(1) pos_imp_zdiv_nonneg_iff)
  let ?k = "64 * loop"
  let ?main = "if loop \<noteq> 0 then cast_rounds ?call dst src loop 64 else []"
  let ?rest = "if tail = 1 then [set_vector_mask m1 m0, ?call (moved_by ?k dst) [moved_by ?k src] 1,
      set_vector_mask (-1) (-1)] else []"
  have none: "range_effect f d ss' 0 st' = st'" for d ss' and st' :: "'a vstate"
    by (rule vstate_eqI) (simp_all add: range_effect_mem)
  have main: "run_calls ex ?main st =
      range_effect f dst [src] (64 * (if loop \<noteq> 0 \<and> loop mod 255 = 0 then loop - 255 else loop)) st"
    using cast_rounds_run [OF u len _ assms(4,5), of loop] loop none by (auto simp: mult.commute)
  have rest: "run_calls ex ?rest st' = range_effect f (moved_by ?k dst) [moved_by ?k src] (n mod 64) st'"
    if "vmask st' = (-1, -1)" for st'
  proof (cases "tail = 1")
    case True
    show ?thesis
      using tail_run [where dst = "moved_by ?k dst" and srcs = "[moved_by ?k src]" and st = st' and ex = ex and call = ?call]
        u g True len apart_moved [OF assms(4), of ?k] that by simp
  next
    case False
    then have "n mod 64 = 0" using lt(2) by (simp split: if_splits)
    then show ?thesis using False none by simp
  qed
  have calls: "kernel_cast_to_fuc dst src (n, 64) op = Inr (?main @ ?rest)"
    by (auto simp: kernel_cast_to_fuc_def g strides(1) Let_def)
  have whole: "range_effect f (moved_by ?k dst) [moved_by ?k src] (n mod 64) (range_effect f dst [src] ?k st)
      = range_effect f dst [src] n st"
  proof -
    have "range_effect f (moved_by ?k dst) (map (moved_by ?k) [src]) (n mod 64) (range_effect f dst [src] ?k st)
        = range_effect f dst [src] (?k + n mod 64) st"
      using loop by (intro range_effect_append [OF assms(4)]) simp_all
    then show ?thesis by (simp add: lt(1))
  qed
  have "run_calls ex (?main @ ?rest) st = range_effect f (moved_by ?k dst) [moved_by ?k src] (n mod 64)
      (range_effect f dst [src] (64 * (if loop \<noteq> 0 \<and> loop mod 255 = 0 then loop - 255 else loop)) st)"
    unfolding run_calls_simps(3) main by (rule rest) (simp add: range_effect_def assms(5))
  with calls whole lt(1) show ?thesis by (auto simp: Let_def)
qed

section \<open>Examples\<close>

text \<open>A vector unit on numbers: additions of two inputs and conversions of one.\<close>

fun ptrs_of :: "karg list \<Rightarrow> addr_info list" where
  "ptrs_of [] = []"
| "ptrs_of (Ptr _ b off # args) = (b, off) # ptrs_of args"
| "ptrs_of (_ # args) = ptrs_of args"

fun nums_of :: "karg list \<Rightarrow> int list" where
  "nums_of [] = []"
| "nums_of (Num n # args) = n # nums_of args"
| "nums_of (_ # args) = nums_of args"

definition unit_ex :: "int \<Rightarrow> int list \<Rightarrow> (int list \<Rightarrow> int) \<Rightarrow> kcall \<Rightarrow> int vstate \<Rightarrow> int vstate" where
  "unit_ex len bytes f c st = (case c of Call dt op args \<Rightarrow>
     (case args of
        [U64 m1, U64 m0] \<Rightarrow> st\<lparr>vmask := (m1, m0)\<rparr>
      | Ptr _ d od # rest \<Rightarrow>
          (let srcs = ptrs_of rest in
           case nums_of rest of
             repeat # nums \<Rightarrow>
               strided_effect len (steps_of (drop (Suc (length srcs)) nums) bytes) f (d, od) srcs repeat st
           | [] \<Rightarrow> st)
      | _ \<Rightarrow> st))"

lemma args_of_call:
  "ptrs_of (map read_ptr srcs @ map Num ns) = srcs" "nums_of (map read_ptr srcs @ map Num ns) = ns"
proof -
  have "ptrs_of (map Num ns) = []" "nums_of (map Num ns) = ns" by (induction ns) simp_all
  then show "ptrs_of (map read_ptr srcs @ map Num ns) = srcs" "nums_of (map read_ptr srcs @ map Num ns) = ns"
    by (induction srcs) auto
qed

lemma unit_ex_ok: "strided_unit (unit_ex len bytes f) op len bytes f"
proof -
  have "unit_ex len bytes f (vec_call op strides dst srcs repeat) st
      = strided_effect len (steps_of strides bytes) f dst srcs repeat st" for strides dst srcs repeat st
  proof (cases dst)
    case (Pair d od)
    show ?thesis
      unfolding Pair unit_ex_def vec_call_def write_ptr.simps kcall.case list.case karg.case args_of_call Let_def
      by simp
  qed
  then show ?thesis unfolding strided_unit_def by (simp add: set_vector_mask_def unit_ex_def)
qed

definition buf_ex :: "string \<Rightarrow> kbuffer" where
  "buf_ex nm = \<lparr>buf_name = nm, buf_dtype = ''float16''\<rparr>"

definition mem_ex :: "int vstate" where
  "mem_ex = \<lparr>vmem = (\<lambda>b i. if b = ''a'' then i else if b = ''b'' then 100 * i else -1), vmask = (-1, -1)\<rparr>"

text \<open>The sum of 300 elements: two whole repeats of 128 elements and a rest of 44.\<close>

theorem two_to_one_computes_witness:
  "\<exists>cs. kernel_two_to_one_common_fuc (buf_ex ''d'', 5) (buf_ex ''a'', 0) (buf_ex ''b'', 1) (300, 128) ''vadd'' = Inr cs
    \<and> vmem (run_calls (unit_ex 128 [2, 2, 2] sum_list) cs mem_ex) ''d'' 304 = 30299
    \<and> vmem (run_calls (unit_ex 128 [2, 2, 2] sum_list) cs mem_ex) ''d'' 305 = -1"
proof -
  have "apart (buf_ex ''d'', 5) [(buf_ex ''a'', 0), (buf_ex ''b'', 1)]" "vmask mem_ex = (-1, -1)"
    by (simp_all add: apart_def buf_ex_def mem_ex_def)
  from two_to_one_computes [where n = 300, OF unit_ex_ok [of 128 "[2, 2, 2]" sum_list "''vadd''"] _ _ _ _ _ this]
  obtain cs where
    cs: "kernel_two_to_one_common_fuc (buf_ex ''d'', 5) (buf_ex ''a'', 0) (buf_ex ''b'', 1) (300, 128) ''vadd'' = Inr cs"
      "run_calls (unit_ex 128 [2, 2, 2] sum_list) cs mem_ex
        = range_effect sum_list (buf_ex ''d'', 5) [(buf_ex ''a'', 0), (buf_ex ''b'', 1)] 300 mem_ex" by auto
  show ?thesis
    by (rule exI [of _ cs], unfold cs) (simp add: range_effect_mem buf_ex_def mem_ex_def)
qed

theorem cast_converts_witness:
  "(\<exists>cs. kernel_cast_to_fuc (buf_ex ''d'', 0) (buf_ex ''a'', 0) (20000, 64) ''vconv_f162f32'' = Inr cs
    \<and> vmem (run_calls (unit_ex 64 [4, 2] sum_list) cs mem_ex) ''d'' 19999 = 19999)
   \<and> (\<exists>cs. kernel_cast_to_fuc (buf_ex ''d'', 0) (buf_ex ''a'', 0) (16321, 64) ''vconv_f162f32'' = Inr cs
    \<and> vmem (run_calls (unit_ex 64 [4, 2] sum_list) cs mem_ex) ''d'' 16319 = -1
    \<and> vmem (run_calls (unit_ex 64 [4, 2] sum_list) cs mem_ex) ''d'' 16320 = 16320)"
proof -
  have s: "cast_bytes ''vconv_f162f32'' = Some [4, 2]" by code_simp
  have ok: "apart (buf_ex ''d'', 0) [(buf_ex ''a'', 0)]" "vmask mem_ex = (-1, -1)"
    by (simp_all add: apart_def buf_ex_def mem_ex_def)
  note converts = cast_converts [OF s unit_ex_ok _ ok]
  obtain cs where
    cs: "kernel_cast_to_fuc (buf_ex ''d'', 0) (buf_ex ''a'', 0) (20000, 64) ''vconv_f162f32'' = Inr cs"
      "run_calls (unit_ex 64 [4, 2] sum_list) cs mem_ex = range_effect sum_list (buf_ex ''d'', 0) [(buf_ex ''a'', 0)] 20000 mem_ex"
    using converts [of 20000 sum_list] by auto
  obtain cs' where
    cs': "kernel_cast_to_fuc (buf_ex ''d'', 0) (buf_ex ''a'', 0) (16321, 64) ''vconv_f162f32'' = Inr cs'"
      "run_calls (unit_ex 64 [4, 2] sum_list) cs' mem_ex =
        range_effect sum_list (moved_by 16320 (buf_ex ''d'', 0)) [moved_by 16320 (buf_ex ''a'', 0)] 1
          (range_effect sum_list (buf_ex ''d'', 0) [(buf_ex ''a'', 0)] 0 mem_ex)"
    using converts [of 16321 sum_list] by auto
  show ?thesis
    unfolding cs(1) cs'(1) sum.inject ex_simps
    by (simp add: cs(2) cs'(2)) (simp add: range_effect_mem moved_by_def buf_ex_def mem_ex_def)
qed

text \<open>Exactly 255 whole repeats: the only round has no repeats left and nothing is converted.\<close>

lemma cast_of_255_repeats:
  "kernel_cast_to_fuc dst src (255 * 64, 64) ''vconv_f162f32''
     = Inr [cast_call ''vconv_f162f32'' (8, 4) (moved_by 0 dst) [moved_by 0 src] 0]"
proof -
  have s: "cast_strides ''vconv_f162f32'' = Some (8, 4)" by code_simp
  show ?thesis
    by (simp add: kernel_cast_to_fuc_def get_loopnum_and_masklist_def s cast_rounds_def for_range_def)
qed

text \<open>The other kernels put any number of repeats into one call.\<close>

lemma repeats_not_split:
  "kernel_two_to_one_common_fuc dst src1 src2 (300 * 128, 128) op = Inr [two_to_one_call op dst [src1, src2] 300]"
  by (simp add: kernel_two_to_one_common_fuc_def vector_kernel_def get_loopnum_and_masklist_def)

end
