(* ===== verification/Dim_Conv.thy ===== *)
theory Dim_Conv
  imports Kernel_Ir Py_Base Py_String
begin

text \<open>
  The conversion between the layouts \<open>NCHW\<close> and \<open>NC1HWC0\<close> of a tensor, \<^verbatim>\<open>dim_conv.py\<close>, as the calls that
  the emitted kernels execute. The last dimension of the five-dimensional layout has 16 elements.
  The unified buffer of the device is filled tile by tile, transposed by an instruction, and copied
  out. The specification of the device is a parameter.
\<close>

section \<open>The pieces of a kernel\<close>

record tvm_env =
  soc_spec :: "string \<Rightarrow> int"
  bit_len :: "string \<Rightarrow> int"
  dma_sid :: "string \<Rightarrow> int"
  scope_reg :: string

text \<open>\<^verbatim>\<open>hex\<close> of a counter.\<close>

definition hex_char :: "nat \<Rightarrow> char" where
  "hex_char d = (if d < 10 then char_of (48 + d) else char_of (87 + d))"

fun hex_digits :: "nat \<Rightarrow> string" where
  "hex_digits n = (if n < 16 then [hex_char n] else hex_digits (n div 16) @ [hex_char (n mod 16)])"

declare hex_digits.simps [simp del]

definition py_hex :: "nat \<Rightarrow> string" where
  "py_hex n = ''0x'' @ hex_digits n"

definition ub_buffer :: "nat \<Rightarrow> string \<Rightarrow> string \<Rightarrow> kbuffer" where
  "ub_buffer sfx dtype nm = \<lparr>buf_name = nm @ ''.local.UB'' @ py_hex sfx, buf_dtype = dtype\<rparr>"

definition allocate_ub :: "nat \<Rightarrow> string \<Rightarrow> int \<Rightarrow> string \<Rightarrow> kcall list" where
  "allocate_ub sfx dtype sz nm =
     [Call dtype ''allocate'' [Txt (buf_name (ub_buffer sfx dtype nm)), Num sz, Txt (''local.UB'' @ py_hex sfx)]]"

definition emit_copy_gm_ubuf ::
    "tvm_env \<Rightarrow> string \<Rightarrow> string \<Rightarrow> int \<Rightarrow> kbuffer \<Rightarrow> int \<Rightarrow> kbuffer \<Rightarrow> int \<Rightarrow> kcall list" where
  "emit_copy_gm_ubuf env cmd dtype sz dst dst_offset src src_offset =
     (let n_burst = sz div (2 ^ 16 * 32); tail = sz mod (2 ^ 16 * 32); burst_ele_num = 256 div bit_len env dtype in
      if tail > 0 then
        (let dst_offset = dst_offset + n_burst * (2 ^ 16 * 32);
             src_offset = src_offset + n_burst * (2 ^ 16 * 32);
             len_burst = (tail + burst_ele_num - 1) div burst_ele_num;
             sid = (if cmd = ''copy_gm_to_ubuf'' then dma_sid env ''Sid_copy_gm_to_ubuf'' else 0) in
         [Call dtype cmd [Ptr ''w'' dst dst_offset, Ptr ''rw'' src src_offset, Num sid, Num 1, Num len_burst, Num 0, Num 0]])
      else [])"

text \<open>The registers of the transposing instruction: 16 addresses of rows to read and 16 of rows to
  write, in bytes.\<close>

definition addr_array_buf :: kbuffer where
  "addr_array_buf = \<lparr>buf_name = ''addr_array_buf'', buf_dtype = ''uint64_t''\<rparr>"

definition reg_mov :: "int \<Rightarrow> int \<Rightarrow> kcall" where
  "reg_mov k v = Call ''uint64'' ''reg_mov'' [Reg ''addr_array'' k, Num v]"

definition set_va :: "string \<Rightarrow> int \<Rightarrow> kcall" where
  "set_va va offset = Call ''int32'' ''set_va_reg_sb'' [Txt va, Ptr ''rw'' addr_array_buf offset]"

definition set_array_config :: "int \<Rightarrow> int \<Rightarrow> int \<Rightarrow> kcall list" where
  "set_array_config src_array_stride dst_array_stride output_offset =
     for_range 8 (\<lambda>i.
       [reg_mov (8 * 0 + i) (2 * src_array_stride * i),
        reg_mov (8 * 1 + i) (2 * src_array_stride * (i + 8)),
        reg_mov (8 * 2 + i) (2 * (output_offset + dst_array_stride * i)),
        reg_mov (8 * 3 + i) (2 * (output_offset + dst_array_stride * (i + 8)))])
     @ [set_va ''VA0'' (8 * 0), set_va ''VA1'' (8 * 1), set_va ''VA2'' (8 * 2), set_va ''VA3'' (8 * 3)]"

definition scatter :: "int \<Rightarrow> int \<Rightarrow> int \<Rightarrow> kcall" where
  "scatter repeat dst_stride src_stride =
     Call ''int32'' ''scatter_vnchwconv_b16'' [Txt ''VA2'', Txt ''VA0'', Num repeat, Num dst_stride, Num src_stride]"

text \<open>The size of a tile and of the last tile, in elements of two bytes. A buffer without room raises.\<close>

definition get_vnchwconv_cube_buf_max :: "tvm_env \<Rightarrow> int \<Rightarrow> bool \<Rightarrow> (int \<times> int) res" where
  "get_vnchwconv_cube_buf_max env actual_col_size is_four2five =
     (let actual_cube_buf_size = ((actual_col_size - 1) div 16 + 1) * 16 * 16 * 2;
          ub_cut_upper_limit = soc_spec env ''UB_SIZE'' div 2 in
      if actual_cube_buf_size > ub_cut_upper_limit then
        (let ub_cut_upper_limit =
           (if \<not> is_four2five \<and> actual_col_size mod 16 \<noteq> 0
            then (soc_spec env ''UB_SIZE'' - 512) div 2 div (2 * 16 * 16) * (2 * 16 * 16)
            else ub_cut_upper_limit) in
         if ub_cut_upper_limit = 0 then Inl ZeroDivisionError
         else Inr (ub_cut_upper_limit div 2, actual_cube_buf_size mod ub_cut_upper_limit div 2))
      else Inr (actual_cube_buf_size div 2, 0))"

type_synonym shape4 = "int \<times> int \<times> int \<times> int"

text \<open>What both kernels start with: the buffers and the registers.\<close>

definition kernel_setup :: "tvm_env \<Rightarrow> nat \<Rightarrow> kbuffer \<Rightarrow> kbuffer \<Rightarrow> int \<Rightarrow> int \<Rightarrow> int \<Rightarrow> kcall list" where
  "kernel_setup env sfx input_tensor output cube_buf_max src_array_stride dst_array_stride =
     allocate_ub sfx (buf_dtype input_tensor) cube_buf_max ''input_ub''
     @ allocate_ub sfx (buf_dtype output) cube_buf_max ''output_ub''
     @ [Call ''uint64'' ''allocate'' [Txt ''addr_array'', Num 32, Txt (scope_reg env)]]
     @ set_array_config src_array_stride dst_array_stride cube_buf_max"

definition c1_range :: "int \<Rightarrow> int" where
  "c1_range shape_c = (shape_c + 16 - 1) div 16"

definition c1_loop :: "int \<Rightarrow> int" where
  "c1_loop shape_c = (if shape_c mod 16 \<noteq> 0 then c1_range shape_c - 1 else c1_range shape_c)"

text \<open>The tiles: their size in elements, the size of the last one, and the rows they cover.\<close>

record tiling =
  cube_buf_max :: int
  tail_cube_size :: int
  cube_col_size :: int
  buf_cube_range :: int

definition make_tiling :: "tvm_env \<Rightarrow> int \<Rightarrow> bool \<Rightarrow> tiling res" where
  "make_tiling env actual_col_size is_four2five =
     bindE (get_vnchwconv_cube_buf_max env actual_col_size is_four2five) (\<lambda>(cube_max, tail_size).
       let col_size = cube_max div 16 in
       if col_size = 0 then Inl ZeroDivisionError
       else Inr \<lparr>cube_buf_max = cube_max, tail_cube_size = tail_size, cube_col_size = col_size,
              buf_cube_range = (actual_col_size + col_size - 1) div col_size\<rparr>)"

definition strides :: "int \<Rightarrow> int \<Rightarrow> int" where
  "strides repeat s = (if repeat = 1 then 0 else s)"

section \<open>From four to five dimensions\<close>

definition four2five_tile ::
    "tvm_env \<Rightarrow> nat \<Rightarrow> tiling \<Rightarrow> kbuffer \<Rightarrow> shape4 \<Rightarrow> kbuffer \<Rightarrow> int \<Rightarrow> int \<Rightarrow> int \<Rightarrow> int \<Rightarrow> int \<Rightarrow> kcall list" where
  "four2five_tile env sfx t input_tensor shape output c0_loop c1_begin idx_n idx_c1 cube_i =
     (case shape of (shape_n, shape_c, shape_h, shape_w) \<Rightarrow>
      let shape_c0 = 16; actual_col_size = shape_h * shape_w;
          cube_max = cube_buf_max t; tail_size = tail_cube_size t; col_size = cube_col_size t;
          input_ub = ub_buffer sfx (buf_dtype input_tensor) ''input_ub'';
          output_ub = ub_buffer sfx (buf_dtype output) ''output_ub'';
          out_offset = idx_n * (c1_range shape_c * shape_c0) * shape_h * shape_w
            + (idx_c1 + c1_begin) * shape_c0 * actual_col_size + cube_i * cube_max in
      if buf_cube_range t > 1 then
        (if cube_i \<noteq> buf_cube_range t - 1 then
           (let repeat = col_size div 16 in
            for_range c0_loop (\<lambda>col. emit_copy_gm_ubuf env ''copy_gm_to_ubuf'' (buf_dtype input_tensor) col_size
              input_ub (col * col_size) input_tensor
              (idx_n * shape_n * shape_n * shape_n + ((idx_c1 + c1_begin) * shape_c0 + col) * actual_col_size
                + cube_i * col_size))
            @ [scatter repeat (strides repeat 16) (strides repeat 1)]
            @ emit_copy_gm_ubuf env ''copy_ubuf_to_gm'' (buf_dtype output) cube_max output out_offset output_ub 0)
         else
           (let repeat = tail_size div 16 div 16 in
            for_range c0_loop (\<lambda>col. emit_copy_gm_ubuf env ''copy_gm_to_ubuf'' (buf_dtype input_tensor) (tail_size div 16)
              input_ub (col * col_size) input_tensor
              (idx_n * shape_c * shape_h * shape_w + ((idx_c1 + c1_begin) * shape_c0 + col) * actual_col_size
                + cube_i * col_size))
            @ [scatter repeat (strides repeat 16) (strides repeat 1)]
            @ emit_copy_gm_ubuf env ''copy_ubuf_to_gm'' (buf_dtype output) (actual_col_size mod col_size * shape_c0)
                output out_offset output_ub 0))
      else
        (let repeat = col_size div 16 in
         for_range c0_loop (\<lambda>col. emit_copy_gm_ubuf env ''copy_gm_to_ubuf'' (buf_dtype input_tensor) col_size
           input_ub (col * col_size) input_tensor
           (idx_n * shape_c * shape_h * shape_w + ((idx_c1 + c1_begin) * shape_c0 + col) * actual_col_size
             + cube_i * col_size))
         @ [scatter repeat (strides repeat 16) (strides repeat 1)]
         @ emit_copy_gm_ubuf env ''copy_ubuf_to_gm'' (buf_dtype output) (actual_col_size * shape_c0)
             output out_offset output_ub 0))"

definition four2five_intrin ::
    "tvm_env \<Rightarrow> nat \<Rightarrow> tiling \<Rightarrow> kbuffer \<Rightarrow> shape4 \<Rightarrow> kbuffer \<Rightarrow> int \<Rightarrow> int \<Rightarrow> int \<Rightarrow> kcall list" where
  "four2five_intrin env sfx t input_tensor shape output c0_loop c1_begin c1_end =
     for_range (fst shape) (\<lambda>idx_n. for_range (c1_end - c1_begin) (\<lambda>idx_c1. for_range (buf_cube_range t) (\<lambda>cube_i.
       four2five_tile env sfx t input_tensor shape output c0_loop c1_begin idx_n idx_c1 cube_i)))"

definition four2five_ir :: "tvm_env \<Rightarrow> nat \<Rightarrow> kbuffer \<Rightarrow> shape4 \<Rightarrow> kbuffer \<Rightarrow> kcall list res" where
  "four2five_ir env sfx input_tensor shape output =
     (case shape of (shape_n, shape_c, shape_h, shape_w) \<Rightarrow>
      bindE (make_tiling env (shape_h * shape_w) True) (\<lambda>t.
      let sfx = sfx + 1 in
      Inr (kernel_setup env sfx input_tensor output (cube_buf_max t) (cube_col_size t) 16
        @ four2five_intrin env sfx t input_tensor shape output 16 0 (c1_loop shape_c)
        @ (if shape_c mod 16 \<noteq> 0
           then four2five_intrin env sfx t input_tensor shape output (shape_c mod 16) (c1_loop shape_c) (c1_range shape_c)
           else []))))"

section \<open>From five to four dimensions\<close>

definition five2four_tile ::
    "tvm_env \<Rightarrow> nat \<Rightarrow> tiling \<Rightarrow> kbuffer \<Rightarrow> shape4 \<Rightarrow> kbuffer \<Rightarrow> int \<Rightarrow> int \<Rightarrow> int \<Rightarrow> int \<Rightarrow> int \<Rightarrow> kcall list" where
  "five2four_tile env sfx t input_tensor shape output c0_loop c1_begin idx_n idx_c1 cube_i =
     (case shape of (shape_n, shape_c, shape_h, shape_w) \<Rightarrow>
      let shape_c0 = 16; actual_col_size = shape_h * shape_w;
          cube_max = cube_buf_max t; tail_size = tail_cube_size t; col_size = cube_col_size t;
          hw_tail_size = actual_col_size mod col_size;
          input_ub = ub_buffer sfx (buf_dtype input_tensor) ''input_ub'';
          output_ub = ub_buffer sfx (buf_dtype output) ''output_ub'';
          output_head_ub = ub_buffer sfx (buf_dtype output) ''output_head_ub'';
          in_offset = idx_n * c1_range shape_c * shape_c0 * shape_h * shape_w
            + (idx_c1 + c1_begin) * shape_c0 * actual_col_size + cube_i * cube_max;
          row = (\<lambda>col. idx_n * shape_c * shape_h * shape_w + (idx_c1 + c1_begin) * shape_c0 * actual_col_size
            + col * actual_col_size);
          copy_in = (\<lambda>sz. emit_copy_gm_ubuf env ''copy_gm_to_ubuf'' (buf_dtype input_tensor) sz input_ub 0
            input_tensor in_offset);
          copy_out = (\<lambda>sz offset. for_range c0_loop (\<lambda>col. emit_copy_gm_ubuf env ''copy_ubuf_to_gm''
            (buf_dtype output) sz output (row col + offset) output_ub (col * col_size))) in
      if buf_cube_range t > 1 then
        (if cube_i \<noteq> buf_cube_range t - 1 then
           (let repeat = col_size div 16 in
            copy_in cube_max @ [scatter repeat (strides repeat 1) (strides repeat 16)]
            @ copy_out col_size (cube_i * col_size))
         else
           (let repeat = tail_size div 16 div 16 in
            copy_in tail_size @ [scatter repeat (strides repeat 1) (strides repeat 16)]
            @ (if hw_tail_size mod shape_c0 = 0 then copy_out hw_tail_size (cube_i * col_size)
               else
                 for_range c0_loop (\<lambda>col. emit_copy_gm_ubuf env ''copy_gm_to_ubuf'' (buf_dtype output) shape_c0
                   output_head_ub (col * shape_c0) output (row col))
                 @ copy_out hw_tail_size (cube_i * col_size)
                 @ for_range c0_loop (\<lambda>col. emit_copy_gm_ubuf env ''copy_ubuf_to_gm'' (buf_dtype output) shape_c0
                     output (row col) output_head_ub (col * shape_c0)))))
      else
        (let repeat = col_size div 16 in
         copy_in cube_max @ [scatter repeat (strides repeat 1) (strides repeat 16)]
         @ (if hw_tail_size = 0 then copy_out col_size 0 else copy_out hw_tail_size 0)))"

definition five2four_intrin ::
    "tvm_env \<Rightarrow> nat \<Rightarrow> tiling \<Rightarrow> kbuffer \<Rightarrow> shape4 \<Rightarrow> kbuffer \<Rightarrow> int \<Rightarrow> int \<Rightarrow> int \<Rightarrow> kcall list" where
  "five2four_intrin env sfx t input_tensor shape output c0_loop c1_begin c1_end =
     for_range (fst shape) (\<lambda>idx_n. for_range (c1_end - c1_begin) (\<lambda>idx_c1. for_range (buf_cube_range t) (\<lambda>cube_i.
       five2four_tile env sfx t input_tensor shape output c0_loop c1_begin idx_n idx_c1 cube_i)))"

definition five2four_ir :: "tvm_env \<Rightarrow> nat \<Rightarrow> kbuffer \<Rightarrow> shape4 \<Rightarrow> kbuffer \<Rightarrow> kcall list res" where
  "five2four_ir env sfx input_tensor shape output =
     (case shape of (shape_n, shape_c, shape_h, shape_w) \<Rightarrow>
      bindE (make_tiling env (shape_h * shape_w) False) (\<lambda>t.
      let sfx = sfx + 1; hw_tail_size = shape_h * shape_w mod cube_col_size t in
      Inr (kernel_setup env sfx input_tensor output (cube_buf_max t) 16 (cube_col_size t)
        @ (if hw_tail_size \<noteq> 0 \<and> hw_tail_size mod 16 \<noteq> 0 \<and> buf_cube_range t > 1
           then allocate_ub sfx (buf_dtype output) (16 * 16) ''output_head_ub'' else [])
        @ five2four_intrin env sfx t input_tensor shape output 16 0 (c1_loop shape_c)
        @ (if shape_c mod 16 \<noteq> 0
           then five2four_intrin env sfx t input_tensor shape output (shape_c mod 16) (c1_loop shape_c) (c1_range shape_c)
           else []))))"

section \<open>The public functions\<close>

text \<open>In debug mode the conversion is given as a definition of every element.\<close>

definition convert_4d_to_5d_for_protogenes ::
    "shape4 \<Rightarrow> (int \<Rightarrow> int \<Rightarrow> int \<Rightarrow> int \<Rightarrow> 'v) \<Rightarrow> 'v \<Rightarrow> int \<Rightarrow> int \<Rightarrow> int \<Rightarrow> int \<Rightarrow> int \<Rightarrow> 'v" where
  "convert_4d_to_5d_for_protogenes shape input_tensor zero i_n i_c1 i_h i_w i_c0 =
     (if i_c0 + i_c1 * 16 < fst (snd shape) then input_tensor i_n (i_c0 + i_c1 * 16) i_h i_w else zero)"

definition convert_5d_to_4d_for_protogenes ::
    "shape4 \<Rightarrow> (int \<Rightarrow> int \<Rightarrow> int \<Rightarrow> int \<Rightarrow> int \<Rightarrow> 'v) \<Rightarrow> 'v \<Rightarrow> int \<Rightarrow> int \<Rightarrow> int \<Rightarrow> int \<Rightarrow> 'v" where
  "convert_5d_to_4d_for_protogenes shape input_tensor zero i_n i_c i_h i_w =
     (if i_c < fst (snd shape) then input_tensor i_n (i_c div 16) i_h i_w (i_c mod 16) else zero)"

text \<open>The arguments: a tensor of the type \<^verbatim>\<open>float16\<close> and a shape of four numbers.\<close>

datatype dim_arg = Tensor_Arg kbuffer | Other_Arg pyval

definition check_input_para :: "dim_arg \<Rightarrow> pyval \<Rightarrow> (kbuffer \<times> pyval list) res" where
  "check_input_para input_tensor raw_shape_4D =
     (case input_tensor of
        Other_Arg _ \<Rightarrow> Inl RuntimeError
      | Tensor_Arg tensor \<Rightarrow>
          bindE (case raw_shape_4D of PyList xs \<Rightarrow> Inr xs | PyTuple xs \<Rightarrow> Inr xs | _ \<Rightarrow> Inl RuntimeError) (\<lambda>xs.
          bindE (raise_if (length xs \<noteq> 4) RuntimeError) (\<lambda>_.
          bindE (raise_if (buf_dtype tensor \<noteq> ''float16'') RuntimeError) (\<lambda>_. Inr (tensor, xs)))))"


text \<open>A converted tensor: the debug definition, or the external kernel with the calls it executes. The
  module counts the outputs and the buffers, and puts the counts into their names. The library runs the
  function that builds a kernel at once, with a buffer of the name and type of the output.\<close>

datatype dim_node =
    Compute_Node string "int list"
  | Extern_Node string "int list" string "kcall list"

record dim_counters =
  OUTPUT_NAME_SUFFIX :: nat
  UB_NAME_SUFFIX :: nat

definition output_name :: "nat \<Rightarrow> string" where
  "output_name k = ''output_'' @ py_hex k"

definition extern :: "int list \<Rightarrow> kbuffer \<Rightarrow> (kbuffer \<Rightarrow> kcall list res) \<Rightarrow> dim_counters \<Rightarrow> dim_node res \<times> dim_counters" where
  "extern shape input_tensor fcompute c =
     (let c = c\<lparr>OUTPUT_NAME_SUFFIX := OUTPUT_NAME_SUFFIX c + 1\<rparr>;
          nm = output_name (OUTPUT_NAME_SUFFIX c) in
      case fcompute \<lparr>buf_name = nm, buf_dtype = buf_dtype input_tensor\<rparr> of
        Inl e \<Rightarrow> (Inl e, c)
      | Inr body \<Rightarrow> (Inr (Extern_Node nm shape (buf_dtype input_tensor) body), c\<lparr>UB_NAME_SUFFIX := UB_NAME_SUFFIX c + 1\<rparr>))"

definition convert_4d_to_5d_for_davinci ::
    "tvm_env \<Rightarrow> kbuffer \<Rightarrow> shape4 \<Rightarrow> dim_counters \<Rightarrow> dim_node res \<times> dim_counters" where
  "convert_4d_to_5d_for_davinci env input_tensor raw_shape_4D c =
     (case raw_shape_4D of (shape_n, shape_c, shape_h, shape_w) \<Rightarrow>
      extern [shape_n, (shape_c + 16 - 1) div 16, shape_h, shape_w, 16] input_tensor
        (four2five_ir env (UB_NAME_SUFFIX c) input_tensor raw_shape_4D) c)"

definition convert_5d_to_4d_for_davinci ::
    "tvm_env \<Rightarrow> kbuffer \<Rightarrow> shape4 \<Rightarrow> dim_counters \<Rightarrow> dim_node res \<times> dim_counters" where
  "convert_5d_to_4d_for_davinci env input_tensor raw_shape_4D c =
     (case raw_shape_4D of (shape_n, shape_c, shape_h, shape_w) \<Rightarrow>
      extern [shape_n, shape_c, shape_h, shape_w] input_tensor
        (five2four_ir env (UB_NAME_SUFFIX c) input_tensor raw_shape_4D) c)"

definition shape4_of :: "pyval list \<Rightarrow> shape4 res" where
  "shape4_of xs = (case xs of [PyInt a, PyInt b, PyInt c, PyInt d] \<Rightarrow> Inr (a, b, c, d) | _ \<Rightarrow> Inl TypeError)"

definition with_input :: "dim_arg \<Rightarrow> pyval \<Rightarrow> (kbuffer \<Rightarrow> shape4 \<Rightarrow> dim_counters \<Rightarrow> dim_node res \<times> dim_counters)
    \<Rightarrow> dim_counters \<Rightarrow> dim_node res \<times> dim_counters" where
  "with_input input_tensor raw_shape_4D f c =
     (case bindE (check_input_para input_tensor raw_shape_4D) (\<lambda>(t, xs). bindE (shape4_of xs) (\<lambda>s. Inr (t, s))) of
        Inl e \<Rightarrow> (Inl e, c) | Inr (t, s) \<Rightarrow> f t s c)"

definition compute_four2five ::
    "tvm_env \<Rightarrow> bool \<Rightarrow> dim_arg \<Rightarrow> pyval \<Rightarrow> dim_counters \<Rightarrow> dim_node res \<times> dim_counters" where
  "compute_four2five env is_debug_mode input_tensor raw_shape_4D =
     with_input input_tensor raw_shape_4D (\<lambda>t s c.
       if is_debug_mode
       then (case s of (n, ch, h, w) \<Rightarrow> (Inr (Compute_Node ''compute_four2five'' [n, c1_range ch, h, w, 16]), c))
       else convert_4d_to_5d_for_davinci env t s c)"

definition compute_five2four ::
    "tvm_env \<Rightarrow> bool \<Rightarrow> dim_arg \<Rightarrow> pyval \<Rightarrow> dim_counters \<Rightarrow> dim_node res \<times> dim_counters" where
  "compute_five2four env is_debug_mode input_tensor raw_shape_4D =
     with_input input_tensor raw_shape_4D (\<lambda>t s c.
       if is_debug_mode
       then (case s of (n, ch, h, w) \<Rightarrow> (Inr (Compute_Node ''compute_five2four'' [n, ch, h, w]), c))
       else convert_5d_to_4d_for_davinci env t s c)"

end
