(* ===== verification/Dim_Machine.thy ===== *)
theory Dim_Machine
  imports Dim_Conv
begin

text \<open>
  The device that runs the kernels of \<^verbatim>\<open>dim_conv.py\<close>: global memory by buffers, the unified buffer as one
  array in which buffers are placed one after the other, the address registers, copies in blocks of 32
  bytes, and the instruction that transposes tiles of 16 times 16 elements. Its documented
  behaviour is the predicate \<open>cube_unit\<close>, an assumption of the theorems; \<open>cube_ex\<close> is a device that has it.
\<close>

section \<open>The state and the documented behaviour\<close>

record 'v cstate =
  gm :: "string \<Rightarrow> int \<Rightarrow> 'v"
  ub :: "int \<Rightarrow> 'v"
  ub_base :: "string \<Rightarrow> int option"
  ub_top :: int
  areg :: "int \<Rightarrow> int"
  va :: "string \<Rightarrow> int \<Rightarrow> int"

definition put_range :: "(int \<Rightarrow> 'v) \<Rightarrow> int \<Rightarrow> int \<Rightarrow> (int \<Rightarrow> 'v) \<Rightarrow> int \<Rightarrow> 'v" where
  "put_range f a n g = (\<lambda>i. if a \<le> i \<and> i < a + n then g (i - a) else f i)"

definition copy_call :: "string \<Rightarrow> kbuffer \<Rightarrow> int \<Rightarrow> kbuffer \<Rightarrow> int \<Rightarrow> int \<Rightarrow> int \<Rightarrow> kcall" where
  "copy_call cmd dst d src s sid len =
     Call ''float16'' cmd [Ptr ''w'' dst d, Ptr ''rw'' src s, Num sid, Num 1, Num len, Num 0, Num 0]"

definition src_row :: "'v cstate \<Rightarrow> int \<Rightarrow> int" where
  "src_row st i = (if i < 8 then va st ''VA0'' i else va st ''VA1'' (i - 8)) div 2"

definition dst_row :: "'v cstate \<Rightarrow> int \<Rightarrow> int" where
  "dst_row st i = (if i < 8 then va st ''VA2'' i else va st ''VA3'' (i - 8)) div 2"

text \<open>Element \<open>j\<close> of source row \<open>i\<close> becomes element \<open>i\<close> of output row \<open>j\<close>, for every repeat. The behaviour is
  only documented when no cell is written twice or both read and written.\<close>

definition lane :: "int \<Rightarrow> int \<Rightarrow> int \<Rightarrow> int \<Rightarrow> bool" where
  "lane repeat r i j \<longleftrightarrow> 0 \<le> r \<and> r < repeat \<and> 0 \<le> i \<and> i < 16 \<and> 0 \<le> j \<and> j < 16"

definition scatter_ready :: "int \<Rightarrow> int \<Rightarrow> int \<Rightarrow> 'v cstate \<Rightarrow> bool" where
  "scatter_ready repeat ds ss st \<longleftrightarrow>
     (\<forall>r i j r' i' j'. lane repeat r i j \<and> lane repeat r' i' j' \<longrightarrow>
        (dst_row st j + 16 * ds * r + i = dst_row st j' + 16 * ds * r' + i' \<longrightarrow> r = r' \<and> i = i' \<and> j = j')
        \<and> dst_row st j + 16 * ds * r + i \<noteq> src_row st i' + 16 * ss * r' + j')"

definition scatter_effect :: "int \<Rightarrow> int \<Rightarrow> int \<Rightarrow> 'v cstate \<Rightarrow> (int \<Rightarrow> 'v) \<Rightarrow> bool" where
  "scatter_effect repeat ds ss st u \<longleftrightarrow>
     (\<forall>r i j. lane repeat r i j \<longrightarrow> u (dst_row st j + 16 * ds * r + i) = ub st (src_row st i + 16 * ss * r + j))
     \<and> (\<forall>a. (\<forall>r i j. lane repeat r i j \<longrightarrow> a \<noteq> dst_row st j + 16 * ds * r + i) \<longrightarrow> u a = ub st a)"

definition alloc_ok :: "(kcall \<Rightarrow> 'v cstate \<Rightarrow> 'v cstate) \<Rightarrow> bool" where
  "alloc_ok ex \<longleftrightarrow> (\<forall>dt nm sz sc st. ex (Call dt ''allocate'' [Txt nm, Num sz, Txt sc]) st =
     (if startswith sc ''local.UB''
      then st\<lparr>ub_base := (ub_base st)(nm := Some (ub_top st)), ub_top := ub_top st + sz\<rparr> else st))"

definition copy_in_ok :: "(kcall \<Rightarrow> 'v cstate \<Rightarrow> 'v cstate) \<Rightarrow> bool" where
  "copy_in_ok ex \<longleftrightarrow> (\<forall>dst d src s sid len b st.
     ub_base st (buf_name dst) = Some b \<longrightarrow> ub_base st (buf_name src) = None \<longrightarrow>
     ex (copy_call ''copy_gm_to_ubuf'' dst d src s sid len) st
       = st\<lparr>ub := put_range (ub st) (b + d) (16 * len) (\<lambda>k. gm st (buf_name src) (s + k))\<rparr>)"

definition copy_out_ok :: "(kcall \<Rightarrow> 'v cstate \<Rightarrow> 'v cstate) \<Rightarrow> bool" where
  "copy_out_ok ex \<longleftrightarrow> (\<forall>dst d src s sid len b st.
     ub_base st (buf_name dst) = None \<longrightarrow> ub_base st (buf_name src) = Some b \<longrightarrow>
     ex (copy_call ''copy_ubuf_to_gm'' dst d src s sid len) st
       = st\<lparr>gm := (gm st)(buf_name dst := put_range (gm st (buf_name dst)) d (16 * len) (\<lambda>k. ub st (b + s + k)))\<rparr>)"

definition registers_ok :: "(kcall \<Rightarrow> 'v cstate \<Rightarrow> 'v cstate) \<Rightarrow> bool" where
  "registers_ok ex \<longleftrightarrow> (\<forall>k v st. ex (reg_mov k v) st = st\<lparr>areg := (areg st)(k := v)\<rparr>)
     \<and> (\<forall>nm off st. ex (set_va nm off) st = st\<lparr>va := (va st)(nm := (\<lambda>k. areg st (off + k)))\<rparr>)"

text \<open>The law of the transposition is assumed for every repeat count. The device takes at most 255, and the tiles
  that \<open>make_tiling\<close> makes of a unified buffer of 248 kilobytes have at most 248 blocks, each one a repeat.\<close>

definition scatter_ok :: "(kcall \<Rightarrow> 'v cstate \<Rightarrow> 'v cstate) \<Rightarrow> bool" where
  "scatter_ok ex \<longleftrightarrow> (\<forall>repeat ds ss st. scatter_ready repeat ds ss st \<longrightarrow>
     (\<exists>u. ex (scatter repeat ds ss) st = st\<lparr>ub := u\<rparr> \<and> scatter_effect repeat ds ss st u))"

definition cube_unit :: "(kcall \<Rightarrow> 'v cstate \<Rightarrow> 'v cstate) \<Rightarrow> bool" where
  "cube_unit ex \<longleftrightarrow> alloc_ok ex \<and> copy_in_ok ex \<and> copy_out_ok ex \<and> registers_ok ex \<and> scatter_ok ex"

lemma cube_unitD:
  assumes "cube_unit ex"
  shows "ex (Call dt ''allocate'' [Txt nm, Num sz, Txt sc]) st =
        (if startswith sc ''local.UB''
         then st\<lparr>ub_base := (ub_base st)(nm := Some (ub_top st)), ub_top := ub_top st + sz\<rparr> else st)"
    and "ub_base st (buf_name dst) = Some b \<Longrightarrow> ub_base st (buf_name src) = None \<Longrightarrow>
      ex (copy_call ''copy_gm_to_ubuf'' dst d src s sid len) st
          = st\<lparr>ub := put_range (ub st) (b + d) (16 * len) (\<lambda>k. gm st (buf_name src) (s + k))\<rparr>"
    and "ub_base st (buf_name dst) = None \<Longrightarrow> ub_base st (buf_name src) = Some b \<Longrightarrow>
      ex (copy_call ''copy_ubuf_to_gm'' dst d src s sid len) st
          = st\<lparr>gm := (gm st)(buf_name dst := put_range (gm st (buf_name dst)) d (16 * len) (\<lambda>k. ub st (b + s + k)))\<rparr>"
    and "ex (reg_mov k v) st = st\<lparr>areg := (areg st)(k := v)\<rparr>"
    and "ex (set_va nm off) st = st\<lparr>va := (va st)(nm := (\<lambda>k. areg st (off + k)))\<rparr>"
    and "scatter_ready repeat ds ss st \<Longrightarrow>
      \<exists>u. ex (scatter repeat ds ss) st = st\<lparr>ub := u\<rparr> \<and> scatter_effect repeat ds ss st u"
proof -
  have a: "alloc_ok ex" "copy_in_ok ex" "copy_out_ok ex" "registers_ok ex" "scatter_ok ex"
    using assms by (simp_all add: cube_unit_def)
  show "ex (Call dt ''allocate'' [Txt nm, Num sz, Txt sc]) st =
        (if startswith sc ''local.UB''
         then st\<lparr>ub_base := (ub_base st)(nm := Some (ub_top st)), ub_top := ub_top st + sz\<rparr> else st)"
    using a(1) unfolding alloc_ok_def by simp
qed (use assms in \<open>simp_all add: cube_unit_def copy_in_ok_def copy_out_ok_def registers_ok_def scatter_ok_def\<close>)

section \<open>Copies\<close>

text \<open>A copy of \<open>n\<close> elements moves whole blocks.\<close>

definition round16 :: "int \<Rightarrow> int" where
  "round16 n = 16 * ((n + 15) div 16)"

lemma round16_bounds: "n \<le> round16 n" "round16 n < n + 16"
  unfolding round16_def by presburger+

lemma round16_mult: "round16 (16 * n) = 16 * n" "round16 (n * 16) = n * 16"
  unfolding round16_def by presburger+

definition plain_env :: "tvm_env \<Rightarrow> bool" where
  "plain_env env \<longleftrightarrow> bit_len env ''float16'' = 16"

lemma emit_copy_eq:
  assumes "plain_env env" and "0 \<le> n" and "n < 2 ^ 21"
  shows "emit_copy_gm_ubuf env cmd ''float16'' n dst d src s =
    (if n = 0 then [] else [copy_call cmd dst d src s
       (if cmd = ''copy_gm_to_ubuf'' then dma_sid env ''Sid_copy_gm_to_ubuf'' else 0) ((n + 15) div 16)])"
  using assms by (simp add: emit_copy_gm_ubuf_def copy_call_def plain_env_def Let_def add.commute cong: if_cong)

lemma put_range_empty [simp]: "n \<le> 0 \<Longrightarrow> put_range f a n g = f"
  by (rule ext) (auto simp: put_range_def)

lemma run_copy_in:
  assumes "cube_unit ex" and "plain_env env" and "0 \<le> n" and "n < 2 ^ 21"
    and "ub_base st (buf_name dst) = Some b" and "ub_base st (buf_name src) = None"
  shows "run_calls ex (emit_copy_gm_ubuf env ''copy_gm_to_ubuf'' ''float16'' n dst d src s) st
    = st\<lparr>ub := put_range (ub st) (b + d) (round16 n) (\<lambda>k. gm st (buf_name src) (s + k))\<rparr>"
  using cube_unitD(2) [OF assms(1,5,6)] by (simp add: emit_copy_eq [OF assms(2-4)] round16_def)

lemma run_copy_out:
  assumes "cube_unit ex" and "plain_env env" and "0 \<le> n" and "n < 2 ^ 21"
    and "ub_base st (buf_name dst) = None" and "ub_base st (buf_name src) = Some b"
  shows "run_calls ex (emit_copy_gm_ubuf env ''copy_ubuf_to_gm'' ''float16'' n dst d src s) st
    = st\<lparr>gm := (gm st)(buf_name dst := put_range (gm st (buf_name dst)) d (round16 n) (\<lambda>k. ub st (b + s + k)))\<rparr>"
  using cube_unitD(3) [OF assms(1,5,6)] by (simp add: emit_copy_eq [OF assms(2-4)] round16_def)

section \<open>The layout\<close>

text \<open>The names of the global buffers are not those of the unified buffer.\<close>

definition plain_name :: "nat \<Rightarrow> kbuffer \<Rightarrow> bool" where
  "plain_name sfx b \<longleftrightarrow> \<not> endswith (buf_name b) (''.local.UB'' @ py_hex sfx)"

definition rows_at :: "int \<Rightarrow> int \<Rightarrow> int \<Rightarrow> 'v cstate \<Rightarrow> bool" where
  "rows_at ss ds m st \<longleftrightarrow> (\<forall>i. 0 \<le> i \<and> i < 16 \<longrightarrow> src_row st i = ss * i \<and> dst_row st i = m + ds * i)"

definition placed :: "nat \<Rightarrow> kbuffer \<Rightarrow> kbuffer \<Rightarrow> int \<Rightarrow> int \<Rightarrow> int \<Rightarrow> 'v cstate \<Rightarrow> bool" where
  "placed sfx inp out cube_max ss ds st \<longleftrightarrow>
     ub_base st (buf_name (ub_buffer sfx ''float16'' ''input_ub'')) = Some 0
     \<and> ub_base st (buf_name (ub_buffer sfx ''float16'' ''output_ub'')) = Some cube_max
     \<and> ub_base st (buf_name inp) = None \<and> ub_base st (buf_name out) = None
     \<and> rows_at ss ds cube_max st"

lemma placed_updates [simp]:
  "placed sfx inp out m ss ds (st\<lparr>ub := u\<rparr>) = placed sfx inp out m ss ds st"
  "placed sfx inp out m ss ds (st\<lparr>gm := g\<rparr>) = placed sfx inp out m ss ds st"
  by (simp_all add: placed_def rows_at_def src_row_def dst_row_def)

definition rows_set :: "int \<Rightarrow> int \<Rightarrow> int \<Rightarrow> int \<Rightarrow> (int \<Rightarrow> int) \<Rightarrow> bool" where
  "rows_set ss ds m n r \<longleftrightarrow> (\<forall>i. 0 \<le> i \<and> i < n \<longrightarrow> r i = 2 * ss * i \<and> r (8 + i) = 2 * ss * (i + 8)
     \<and> r (16 + i) = 2 * (m + ds * i) \<and> r (24 + i) = 2 * (m + ds * (i + 8)))"

lemma rows_set_Suc:
  assumes "rows_set ss ds m i r" and "0 \<le> i" and "i < 8"
  shows "rows_set ss ds m (i + 1)
    (r(i := 2 * ss * i, 8 + i := 2 * ss * (i + 8), 16 + i := 2 * (m + ds * i), 24 + i := 2 * (m + ds * (i + 8))))"
    (is "rows_set _ _ _ _ ?r")
  unfolding rows_set_def
proof (intro allI impI)
  fix k assume k: "0 \<le> k \<and> k < i + 1"
  have "?r k = (if k = i then 2 * ss * i else r k)" "?r (8 + k) = (if k = i then 2 * ss * (i + 8) else r (8 + k))"
    "?r (16 + k) = (if k = i then 2 * (m + ds * i) else r (16 + k))"
    "?r (24 + k) = (if k = i then 2 * (m + ds * (i + 8)) else r (24 + k))"
    using k assms(2,3) by simp_all
  then show "?r k = 2 * ss * k \<and> ?r (8 + k) = 2 * ss * (k + 8) \<and> ?r (16 + k) = 2 * (m + ds * k)
      \<and> ?r (24 + k) = 2 * (m + ds * (k + 8))"
    using assms(1) k unfolding rows_set_def by (simp del: fun_upd_apply)
qed

lemma rows_set_at:
  assumes "rows_set ss ds m 8 r"
    and "va st ''VA0'' = (\<lambda>k. r (8 * 0 + k))" "va st ''VA1'' = (\<lambda>k. r (8 * 1 + k))"
    "va st ''VA2'' = (\<lambda>k. r (8 * 2 + k))" "va st ''VA3'' = (\<lambda>k. r (8 * 3 + k))"
  shows "rows_at ss ds m st"
  unfolding rows_at_def
proof (intro allI impI)
  fix i :: int assume i: "0 \<le> i \<and> i < 16"
  have row: "src_row st i = (if i < 8 then r i else r (8 + (i - 8))) div 2"
    "dst_row st i = (if i < 8 then r (16 + i) else r (24 + (i - 8))) div 2"
    by (simp_all add: src_row_def dst_row_def assms(2-5))
  show "src_row st i = ss * i \<and> dst_row st i = m + ds * i"
  proof (cases "i < 8")
    case True
    then have "r i = 2 * (ss * i)" "r (16 + i) = 2 * (m + ds * i)"
      using assms(1) i unfolding rows_set_def by (simp_all add: mult.assoc)
    then show ?thesis unfolding row using True by simp
  next
    case False
    then have "0 \<le> i - 8 \<and> i - 8 < 8" using i by simp
    then have "r (8 + (i - 8)) = 2 * ss * (i - 8 + 8) \<and> r (24 + (i - 8)) = 2 * (m + ds * (i - 8 + 8))"
      using assms(1) unfolding rows_set_def by blast
    then have "r (8 + (i - 8)) = 2 * (ss * i)" "r (24 + (i - 8)) = 2 * (m + ds * i)"
      by (simp_all only: mult.assoc diff_add_cancel)
    then show ?thesis unfolding row using False by (simp only: if_False) simp
  qed
qed

lemma array_config_run:
  assumes "cube_unit ex"
  shows "\<exists>r v. run_calls ex (set_array_config ss ds m) st = st\<lparr>areg := r, va := v\<rparr> \<and> rows_at ss ds m (st\<lparr>areg := r, va := v\<rparr>)"
proof -
  note u = cube_unitD(4,5) [OF assms]
  let ?body = "\<lambda>i. [reg_mov (8 * 0 + i) (2 * ss * i), reg_mov (8 * 1 + i) (2 * ss * (i + 8)),
        reg_mov (8 * 2 + i) (2 * (m + ds * i)), reg_mov (8 * 3 + i) (2 * (m + ds * (i + 8)))]"
  let ?P = "\<lambda>n s. \<exists>r. s = st\<lparr>areg := r\<rparr> \<and> rows_set ss ds m n r"
  have "?P 8 (run_calls ex (for_range 8 ?body) st)"
  proof (rule for_range_inv [where P = ?P])
    have "st = st\<lparr>areg := areg st\<rparr>" "rows_set ss ds m 0 (areg st)" by (simp_all add: rows_set_def)
    then show "?P 0 st" by (intro exI conjI)
    fix i s assume i: "0 \<le> i" "i < 8" and "?P i s"
    then obtain r where r: "s = st\<lparr>areg := r\<rparr>" "rows_set ss ds m i r" by (elim exE conjE)
    let ?r = "r(i := 2 * ss * i, 8 + i := 2 * ss * (i + 8), 16 + i := 2 * (m + ds * i), 24 + i := 2 * (m + ds * (i + 8)))"
    have "run_calls ex (?body i) s = st\<lparr>areg := ?r\<rparr>" by (simp add: u r(1))
    then show "?P (i + 1) (run_calls ex (?body i) s)" using rows_set_Suc [OF r(2) i] by (intro exI conjI)
  qed simp
  then obtain r where run: "run_calls ex (for_range 8 ?body) st = st\<lparr>areg := r\<rparr>" and r: "rows_set ss ds m 8 r"
    by (elim exE conjE)
  let ?v = "(va st)(''VA0'' := (\<lambda>k. r (8 * 0 + k)), ''VA1'' := (\<lambda>k. r (8 * 1 + k)),
     ''VA2'' := (\<lambda>k. r (8 * 2 + k)), ''VA3'' := (\<lambda>k. r (8 * 3 + k)))"
  have "run_calls ex (set_array_config ss ds m) st = st\<lparr>areg := r, va := ?v\<rparr>"
    unfolding set_array_config_def run_calls_simps run by (simp add: u)
  moreover have "rows_at ss ds m (st\<lparr>areg := r, va := ?v\<rparr>)"
    by (rule rows_set_at [OF r]) simp_all
  ultimately show ?thesis by (intro exI conjI)
qed


section \<open>A device with this behaviour\<close>

definition scatter_ub :: "int \<Rightarrow> int \<Rightarrow> int \<Rightarrow> 'v cstate \<Rightarrow> int \<Rightarrow> 'v" where
  "scatter_ub repeat ds ss st a =
     (case find (\<lambda>(r, i, j). a = dst_row st j + 16 * ds * r + i) (List.product [0..repeat - 1] (List.product [0..15] [0..15])) of
        Some (r, i, j) \<Rightarrow> ub st (src_row st i + 16 * ss * r + j)
      | None \<Rightarrow> ub st a)"

fun arg_txt :: "karg \<Rightarrow> string" where
  "arg_txt (Txt s) = s"
| "arg_txt _ = []"

fun arg_num :: "karg \<Rightarrow> int" where
  "arg_num (Num n) = n"
| "arg_num (Reg _ k) = k"
| "arg_num (Ptr _ _ d) = d"
| "arg_num _ = 0"

fun arg_buf :: "karg \<Rightarrow> string" where
  "arg_buf (Ptr _ b _) = buf_name b"
| "arg_buf _ = []"

definition cube_ex :: "kcall \<Rightarrow> 'v cstate \<Rightarrow> 'v cstate" where
  "cube_ex c st = (case c of Call dt nm args \<Rightarrow>
     let txt = (\<lambda>k. arg_txt (args ! k)); num = (\<lambda>k. arg_num (args ! k)); buf = (\<lambda>k. arg_buf (args ! k)) in
     if nm = ''allocate'' then
       (if startswith (txt 2) ''local.UB''
        then st\<lparr>ub_base := (ub_base st)(txt 0 := Some (ub_top st)), ub_top := ub_top st + num 1\<rparr> else st)
     else if nm = ''copy_gm_to_ubuf'' then
       st\<lparr>ub := put_range (ub st) (the (ub_base st (buf 0)) + num 0) (16 * num 4) (\<lambda>k. gm st (buf 1) (num 1 + k))\<rparr>
     else if nm = ''copy_ubuf_to_gm'' then
       st\<lparr>gm := (gm st)(buf 0 := put_range (gm st (buf 0)) (num 0) (16 * num 4) (\<lambda>k. ub st (the (ub_base st (buf 1)) + num 1 + k)))\<rparr>
     else if nm = ''reg_mov'' then st\<lparr>areg := (areg st)(num 0 := num 1)\<rparr>
     else if nm = ''set_va_reg_sb'' then st\<lparr>va := (va st)(txt 0 := (\<lambda>k. areg st (num 1 + k)))\<rparr>
     else st\<lparr>ub := scatter_ub (num 2) (num 3) (num 4) st\<rparr>)"

lemma lane_mem: "(r, i, j) \<in> set (List.product [0..repeat - 1] (List.product [0..15] [0..15])) \<longleftrightarrow> lane repeat r i j"
  by (auto simp: lane_def)

lemma scatter_ub_effect:
  assumes "scatter_ready repeat ds ss st"
  shows "scatter_effect repeat ds ss st (scatter_ub repeat ds ss st)"
  unfolding scatter_effect_def
proof (intro conjI allI impI)
  fix r i j assume l: "lane repeat r i j"
  let ?a = "dst_row st j + 16 * ds * r + i" and ?ls = "List.product [0..repeat - 1] (List.product [0..15] [0..15])"
  let ?p = "\<lambda>(r', i', j'). ?a = dst_row st j' + 16 * ds * r' + i'"
  obtain t where t: "find ?p ?ls = Some t"
    using l [folded lane_mem] by (cases "find ?p ?ls") (auto simp: find_None_iff simp del: set_product)
  then have "t \<in> set ?ls" "?p t" using t unfolding find_Some_iff by (metis nth_mem)+
  moreover obtain r' i' j' where t': "t = (r', i', j')" by (cases t)
  ultimately have "lane repeat r' i' j'" "?a = dst_row st j' + 16 * ds * r' + i'" by (simp_all only: lane_mem prod.case)
  then have "r = r' \<and> i = i' \<and> j = j'" using assms l unfolding scatter_ready_def by blast
  then show "scatter_ub repeat ds ss st ?a = ub st (src_row st i + 16 * ss * r + j)"
    unfolding scatter_ub_def t t' by simp
next
  fix a assume a: "\<forall>r i j. lane repeat r i j \<longrightarrow> a \<noteq> dst_row st j + 16 * ds * r + i"
  have "find (\<lambda>(r, i, j). a = dst_row st j + 16 * ds * r + i) (List.product [0..repeat - 1] (List.product [0..15] [0..15])) = None"
    unfolding find_None_iff using a [folded lane_mem] by (auto simp del: set_product)
  then show "scatter_ub repeat ds ss st a = ub st a" by (simp only: scatter_ub_def option.case)
qed

lemma cube_unit_ex: "cube_unit cube_ex"
  unfolding cube_unit_def alloc_ok_def copy_in_ok_def copy_out_ok_def registers_ok_def scatter_ok_def
  by (auto simp: cube_ex_def Let_def copy_call_def reg_mov_def set_va_def scatter_def scatter_ub_effect)

end
