(* ===== verification/Dim_Tiles.thy ===== *)
theory Dim_Tiles
  imports Dim_Machine
begin

text \<open>
  What the pieces of the layout conversions do on the device: the placement of the buffers, the
  copies of rows, and the transposition of one tile, in both directions.
\<close>

section \<open>Names and placement\<close>

lemma ub_buffer_name: "buf_name (ub_buffer sfx dt nm) = nm @ ''.local.UB'' @ py_hex sfx"
  by (simp add: ub_buffer_def)

lemma plain_nameD: "plain_name sfx b \<Longrightarrow> buf_name b \<noteq> buf_name (ub_buffer sfx dt nm)"
  by (auto simp: plain_name_def ub_buffer_name endswith_iff)

lemma ub_names: "buf_name (ub_buffer sfx dt a) = buf_name (ub_buffer sfx dt' b) \<longleftrightarrow> a = b"
  by (simp add: ub_buffer_name)

definition fresh_unit :: "'v cstate \<Rightarrow> bool" where
  "fresh_unit st \<longleftrightarrow> ub_base st = (\<lambda>_. None) \<and> ub_top st = 0"

lemma alloc_ub_run:
  assumes "cube_unit ex"
  shows "run_calls ex (allocate_ub sfx dt sz nm) st
    = st\<lparr>ub_base := (ub_base st)(buf_name (ub_buffer sfx dt nm) := Some (ub_top st)), ub_top := ub_top st + sz\<rparr>"
proof -
  have "startswith (''local.UB'' @ py_hex sfx) ''local.UB''" by (simp add: startswith_iff)
  then show ?thesis by (simp only: allocate_ub_def run_calls_simps cube_unitD(1) [OF assms] if_True)
qed

lemma setup_run:
  assumes u: "cube_unit ex" and f: "fresh_unit st" and dt: "buf_dtype inp = ''float16''" "buf_dtype out = ''float16''"
    and nm: "plain_name sfx inp" "plain_name sfx out" and reg: "\<not> startswith (scope_reg env) ''local.UB''"
  shows "\<exists>st1. run_calls ex (kernel_setup env sfx inp out m ss ds) st = st1 \<and> gm st1 = gm st
    \<and> placed sfx inp out m ss ds st1 \<and> ub_top st1 = 2 * m
    \<and> ub_base st1 (buf_name (ub_buffer sfx ''float16'' ''output_head_ub'')) = None"
proof -
  let ?in = "buf_name (ub_buffer sfx ''float16'' ''input_ub'')" and ?out = "buf_name (ub_buffer sfx ''float16'' ''output_ub'')"
  let ?st0 = "st\<lparr>ub_base := (\<lambda>_. None)(?in := Some 0, ?out := Some m), ub_top := 2 * m\<rparr>"
  from array_config_run [OF u, of ss ds m ?st0] obtain r v where
    cfg: "run_calls ex (set_array_config ss ds m) ?st0 = ?st0\<lparr>areg := r, va := v\<rparr>"
    and rows: "rows_at ss ds m (?st0\<lparr>areg := r, va := v\<rparr>)" by blast
  have io: "?in \<noteq> ?out" by (simp add: ub_names)
  have "run_calls ex (allocate_ub sfx ''float16'' m ''input_ub'' @ allocate_ub sfx ''float16'' m ''output_ub''
      @ [Call ''uint64'' ''allocate'' [Txt ''addr_array'', Num 32, Txt (scope_reg env)]]) st = ?st0"
    unfolding run_calls_simps alloc_ub_run [OF u] cube_unitD(1) [OF u] using f reg by (simp add: fresh_unit_def)
  then have run: "run_calls ex (kernel_setup env sfx inp out m ss ds) st = ?st0\<lparr>areg := r, va := v\<rparr>"
    unfolding kernel_setup_def dt using cfg by (simp only: run_calls_simps)
  show ?thesis unfolding run
    using rows io plain_nameD [OF nm(1)] plain_nameD [OF nm(2)] by (simp add: placed_def ub_names)
qed

section \<open>Rows copied in and out\<close>

lemma rows_in:
  assumes u: "cube_unit ex" and e: "plain_env env" and w: "0 \<le> w" "w < 2 ^ 21" and L: "0 \<le> L" and cs: "round16 w \<le> cs"
    and b: "ub_base st (buf_name dst) = Some b0" and s: "ub_base st (buf_name src) = None"
  shows "\<exists>v. run_calls ex (for_range L (\<lambda>col. emit_copy_gm_ubuf env ''copy_gm_to_ubuf'' ''float16'' w dst (col * cs)
        src (o' + col * hw))) st = st\<lparr>ub := v\<rparr>
    \<and> (\<forall>col x. 0 \<le> col \<and> col < L \<and> 0 \<le> x \<and> x < round16 w \<longrightarrow> v (b0 + (cs * col + x)) = gm st (buf_name src) (o' + col * hw + x))
    \<and> (\<forall>a. a < b0 \<or> b0 + cs * L \<le> a \<longrightarrow> v a = ub st a)"
proof -
  let ?body = "\<lambda>col. emit_copy_gm_ubuf env ''copy_gm_to_ubuf'' ''float16'' w dst (col * cs) src (o' + col * hw)"
  let ?Q = "\<lambda>n v. (\<forall>col x. 0 \<le> col \<and> col < n \<and> 0 \<le> x \<and> x < round16 w \<longrightarrow> v (b0 + (cs * col + x)) = gm st (buf_name src) (o' + col * hw + x))
    \<and> (\<forall>a. a < b0 \<or> b0 + cs * n \<le> a \<longrightarrow> v a = ub st a)"
  let ?P = "\<lambda>n s'. \<exists>v. s' = st\<lparr>ub := v\<rparr> \<and> ?Q n v"
  have cs0: "0 \<le> cs" using round16_bounds(1) [of w] w(1) cs by linarith
  have "?P L (run_calls ex (for_range L ?body) st)"
  proof (rule for_range_inv [where P = ?P])
    show "?P 0 st" by (rule exI [of _ "ub st"]) auto
    fix n s' assume n: "0 \<le> n" "n < L" and "?P n s'"
    then obtain v where s': "s' = st\<lparr>ub := v\<rparr>" and Q: "?Q n v" by blast
    let ?v = "put_range v (b0 + n * cs) (round16 w) (\<lambda>k. gm st (buf_name src) (o' + n * hw + k))"
    have run: "run_calls ex (?body n) s' = st\<lparr>ub := ?v\<rparr>"
      using run_copy_in [OF u e w, of s' dst b0 src] b s by (simp add: s' add.assoc)
    have "?v (b0 + (cs * col + x)) = gm st (buf_name src) (o' + col * hw + x)" if c: "0 \<le> col" "col < n + 1" "0 \<le> x" "x < round16 w" for col x
    proof (cases "col = n")
      case True
      then show ?thesis using c by (simp add: put_range_def mult.commute)
    next
      case False
      then have "cs * (col + 1) \<le> cs * n" using c cs0 by (intro mult_left_mono) auto
      then have "cs * col + x < n * cs" using c cs by (simp add: algebra_simps)
      then show ?thesis using Q c False by (simp add: put_range_def)
    qed
    moreover have "?v a = ub st a" if "a < b0 \<or> b0 + cs * (n + 1) \<le> a" for a
    proof -
      have "0 \<le> n * cs" using n(1) cs0 by simp
      then have "\<not> (b0 + n * cs \<le> a \<and> a < b0 + n * cs + round16 w)" using that cs by (auto simp: algebra_simps)
      then have "?v a = v a" by (auto simp: put_range_def)
      moreover have "a < b0 \<or> b0 + cs * n \<le> a" using that cs0 by (auto simp: algebra_simps)
      ultimately show ?thesis using Q by simp
    qed
    ultimately have "?Q (n + 1) ?v" by blast
    with run show "?P (n + 1) (run_calls ex (?body n) s')" by blast
  qed (rule L)
  then show ?thesis by blast
qed

text \<open>Rows copied out: each is written as whole blocks, whose rest the next row overwrites.\<close>

definition row_cells :: "int \<Rightarrow> int \<Rightarrow> int \<Rightarrow> int \<Rightarrow> int set" where
  "row_cells b hw l n = {a. \<exists>c x. 0 \<le> c \<and> c < l \<and> 0 \<le> x \<and> x < n \<and> a = b + c * hw + x}"

lemma row_cells_mono: "l \<le> l' \<Longrightarrow> n \<le> n' \<Longrightarrow> row_cells b hw l n \<subseteq> row_cells b hw l' n'"
proof
  fix a assume "l \<le> l'" "n \<le> n'" "a \<in> row_cells b hw l n"
  then obtain c x where "0 \<le> c" "c < l'" "0 \<le> x" "x < n'" "a = b + c * hw + x" unfolding row_cells_def by fastforce
  then show "a \<in> row_cells b hw l' n'" unfolding row_cells_def by blast
qed

lemma rows_out:
  assumes u: "cube_unit ex" and e: "plain_env env" and n: "0 \<le> n" "n < 2 ^ 21" and L: "0 \<le> L" and hw: "n \<le> hw"
    and d: "ub_base st (buf_name dst) = None" and s: "ub_base st (buf_name src) = Some b0"
  shows "\<exists>f. run_calls ex (for_range L (\<lambda>col. emit_copy_gm_ubuf env ''copy_ubuf_to_gm'' ''float16'' n dst (b + col * hw)
        src (col * cs))) st = st\<lparr>gm := (gm st)(buf_name dst := f)\<rparr>
    \<and> (\<forall>c x. 0 \<le> c \<and> c < L \<and> 0 \<le> x \<and> x < n \<longrightarrow> f (b + c * hw + x) = ub st (b0 + c * cs + x))
    \<and> (\<forall>a. a \<notin> row_cells b hw L (round16 n) \<longrightarrow> f a = gm st (buf_name dst) a)"
proof -
  let ?body = "\<lambda>col. emit_copy_gm_ubuf env ''copy_ubuf_to_gm'' ''float16'' n dst (b + col * hw) src (col * cs)"
  let ?Q = "\<lambda>m f. (\<forall>c x. 0 \<le> c \<and> c < m \<and> 0 \<le> x \<and> x < n \<longrightarrow> f (b + c * hw + x) = ub st (b0 + c * cs + x))
    \<and> (\<forall>a. a \<notin> row_cells b hw m (round16 n) \<longrightarrow> f a = gm st (buf_name dst) a)"
  let ?P = "\<lambda>m s'. \<exists>f. s' = st\<lparr>gm := (gm st)(buf_name dst := f)\<rparr> \<and> ?Q m f"
  have "?P L (run_calls ex (for_range L ?body) st)"
  proof (rule for_range_inv [where P = ?P])
    show "?P 0 st" by (rule exI [of _ "gm st (buf_name dst)"]) auto
    fix m s' assume m: "0 \<le> m" "m < L" and "?P m s'"
    then obtain f where s': "s' = st\<lparr>gm := (gm st)(buf_name dst := f)\<rparr>" and Q: "?Q m f" by blast
    let ?f = "put_range f (b + m * hw) (round16 n) (\<lambda>k. ub st (b0 + m * cs + k))"
    have run: "run_calls ex (?body m) s' = st\<lparr>gm := (gm st)(buf_name dst := ?f)\<rparr>"
      using run_copy_out [OF u e n, of s' dst src b0] d s by (simp add: s' add.assoc)
    have "?f (b + c * hw + x) = ub st (b0 + c * cs + x)" if c: "0 \<le> c" "c < m + 1" "0 \<le> x" "x < n" for c x
    proof (cases "c = m")
      case True
      then show ?thesis using c round16_bounds(1) [of n] by (simp add: put_range_def)
    next
      case False
      have "(c + 1) * hw \<le> m * hw" using c False hw n(1) by (intro mult_right_mono) simp_all
      then have "c * hw + x < m * hw" using c hw by (simp add: algebra_simps)
      then show ?thesis using Q c False by (simp add: put_range_def)
    qed
    moreover have "?f a = gm st (buf_name dst) a" if a: "a \<notin> row_cells b hw (m + 1) (round16 n)" for a
    proof -
      have "a \<notin> row_cells b hw m (round16 n)" using a row_cells_mono [of m "m + 1" "round16 n"] by auto
      moreover have "\<not> (b + m * hw \<le> a \<and> a < b + m * hw + round16 n)"
      proof
        assume "b + m * hw \<le> a \<and> a < b + m * hw + round16 n"
        then have "a \<in> row_cells b hw (m + 1) (round16 n)" unfolding row_cells_def using m(1)
          by (intro CollectI exI [of _ m] exI [of _ "a - (b + m * hw)"]) simp
        with a show False ..
      qed
      then have "?f a = f a" unfolding put_range_def by (rule if_not_P)
      ultimately show ?thesis using Q by simp
    qed
    ultimately have "?Q (m + 1) ?f" by blast
    with run show "?P (m + 1) (run_calls ex (?body m) s')" by blast
  qed (rule L)
  then show ?thesis by blast
qed

section \<open>Transposed tiles\<close>

lemma digit16: "16 * a + i = 16 * b + (j :: int) \<Longrightarrow> 0 \<le> i \<Longrightarrow> i < 16 \<Longrightarrow> 0 \<le> j \<Longrightarrow> j < 16 \<Longrightarrow> a = b \<and> i = j"
  by presburger

lemma strides_lane: "lane R r i j \<Longrightarrow> 16 * strides R s * r = 16 * s * r"
  by (auto simp: lane_def strides_def)

text \<open>Rows of the tile are read at distance \<open>cs\<close>, columns are written one after the other.\<close>

lemma scatter_four2five:
  assumes u: "cube_unit ex" and p: "placed sfx inp out (16 * cs) cs 16 st" and R: "0 \<le> R" "16 * R \<le> cs"
  shows "\<exists>v. run_calls ex [scatter R (strides R 16) (strides R 1)] st = st\<lparr>ub := v\<rparr>
    \<and> (\<forall>hw c. 0 \<le> hw \<and> hw < 16 * R \<and> 0 \<le> c \<and> c < 16 \<longrightarrow> v (16 * cs + 16 * hw + c) = ub st (cs * c + hw))"
proof -
  have rows: "src_row st i = cs * i" "dst_row st i = 16 * cs + 16 * i" if "0 \<le> i" "i < 16" for i
    using p that by (simp_all add: placed_def rows_at_def)
  have dst: "dst_row st j + 16 * strides R 16 * r + i = 16 * cs + 256 * r + 16 * j + i"
    and src: "src_row st i + 16 * strides R 1 * r + j = cs * i + 16 * r + j" if "lane R r i j" for r i j
    using that strides_lane [OF that, of 16] strides_lane [OF that, of 1] rows [of i] rows [of j] by (simp_all add: lane_def)
  have lt: "cs * i + 16 * r + j < 16 * cs" if l: "lane R r i j" for r i j
  proof -
    have "cs * i \<le> cs * 15" using l R by (intro mult_left_mono) (auto simp: lane_def)
    then show ?thesis using l R(2) unfolding lane_def by linarith
  qed
  have "scatter_ready R (strides R 16) (strides R 1) st"
    unfolding scatter_ready_def
  proof (intro allI impI conjI)
    fix r i j r' i' j' assume "lane R r i j \<and> lane R r' i' j'"
    then have l: "lane R r i j" "lane R r' i' j'" by auto
    have l': "lane R r' i' j' = lane R r' j' i'" by (auto simp: lane_def)
    show "dst_row st j + 16 * strides R 16 * r + i \<noteq> src_row st i' + 16 * strides R 1 * r' + j'"
      unfolding dst [OF l(1)] src [OF l(2)] using lt [OF l(2)] l(1) by (simp add: lane_def)
    assume "dst_row st j + 16 * strides R 16 * r + i = dst_row st j' + 16 * strides R 16 * r' + i'"
    then have e: "16 * (16 * r + j) + i = 16 * (16 * r' + j') + i'" unfolding dst [OF l(1)] dst [OF l(2)] by simp
    have b: "0 \<le> i" "i < 16" "0 \<le> i'" "i' < 16" "0 \<le> j" "j < 16" "0 \<le> j'" "j' < 16" using l by (auto simp: lane_def)
    from digit16 [OF e b(1-4)] have "16 * r + j = 16 * r' + j'" "i = i'" by simp_all
    with digit16 [OF this(1) b(5-8)] show "r = r'" "i = i'" "j = j'" by simp_all
  qed
  from cube_unitD(6) [OF u this] obtain v where v: "ex (scatter R (strides R 16) (strides R 1)) st = st\<lparr>ub := v\<rparr>"
    and eff: "scatter_effect R (strides R 16) (strides R 1) st v" by blast
  have "v (16 * cs + 16 * hw + c) = ub st (cs * c + hw)" if h: "0 \<le> hw" "hw < 16 * R" "0 \<le> c" "c < 16" for hw c
  proof -
    have l: "lane R (hw div 16) c (hw mod 16)" using h by (auto simp: lane_def)
    have "v (dst_row st (hw mod 16) + 16 * strides R 16 * (hw div 16) + c)
      = ub st (src_row st c + 16 * strides R 1 * (hw div 16) + hw mod 16)"
      using eff l unfolding scatter_effect_def by blast
    moreover have "16 * cs + 256 * (hw div 16) + 16 * (hw mod 16) + c = 16 * cs + 16 * hw + c"
      and "cs * c + 16 * (hw div 16) + hw mod 16 = cs * c + hw" by presburger+
    ultimately show ?thesis unfolding dst [OF l] src [OF l] by simp
  qed
  then show ?thesis using v by (intro exI [of _ v]) simp
qed

text \<open>The other direction: a tile is read contiguously and its columns are written at distance \<open>cs\<close>.\<close>

lemma scatter_five2four:
  assumes u: "cube_unit ex" and p: "placed sfx inp out (16 * cs) 16 cs st" and R: "0 \<le> R" "16 * R \<le> cs"
  shows "\<exists>v. run_calls ex [scatter R (strides R 1) (strides R 16)] st = st\<lparr>ub := v\<rparr>
    \<and> (\<forall>hw c. 0 \<le> hw \<and> hw < 16 * R \<and> 0 \<le> c \<and> c < 16 \<longrightarrow> v (16 * cs + cs * c + hw) = ub st (16 * hw + c))
    \<and> (\<forall>a. 32 * cs \<le> a \<longrightarrow> v a = ub st a)"
proof -
  have rows: "src_row st i = 16 * i" "dst_row st i = 16 * cs + cs * i" if "0 \<le> i" "i < 16" for i
    using p that by (simp_all add: placed_def rows_at_def)
  have dst: "dst_row st j + 16 * strides R 1 * r + i = 16 * cs + cs * j + (16 * r + i)"
    and src: "src_row st i + 16 * strides R 16 * r + j = 256 * r + 16 * i + j" if "lane R r i j" for r i j
    using that strides_lane [OF that, of 16] strides_lane [OF that, of 1] rows [of i] rows [of j] by (simp_all add: lane_def)
  have cs: "0 \<le> cs" using R by simp
  have inner: "0 \<le> 16 * r + i" "16 * r + i < cs" if "lane R r i j" for r i j using that R(2) by (auto simp: lane_def)
  have row0: "0 \<le> cs * j" if "lane R r i j" for r i j using that cs by (simp add: lane_def)
  have "scatter_ready R (strides R 1) (strides R 16) st"
    unfolding scatter_ready_def
  proof (intro allI impI conjI)
    fix r i j r' i' j' assume "lane R r i j \<and> lane R r' i' j'"
    then have l: "lane R r i j" "lane R r' i' j'" by auto
    have "256 * r' + 16 * i' + j' < 16 * cs" using l(2) R(2) by (auto simp: lane_def)
    then show "dst_row st j + 16 * strides R 1 * r + i \<noteq> src_row st i' + 16 * strides R 16 * r' + j'"
      unfolding dst [OF l(1)] src [OF l(2)] using inner(1) [OF l(1)] row0 [OF l(1)] by simp
    assume "dst_row st j + 16 * strides R 1 * r + i = dst_row st j' + 16 * strides R 1 * r' + i'"
    then have e: "cs * j + (16 * r + i) = cs * j' + (16 * r' + i')" unfolding dst [OF l(1)] dst [OF l(2)] by simp
    have "(cs * j + (16 * r + i)) div cs = j" "(cs * j' + (16 * r' + i')) div cs = j'"
      using inner [OF l(1)] inner [OF l(2)] by (simp_all add: div_pos_pos_trivial)
    then have "j = j'" using e by simp
    moreover from this e have "16 * r + i = 16 * r' + i'" by simp
    moreover have "0 \<le> i" "i < 16" "0 \<le> i'" "i' < 16" using l by (auto simp: lane_def)
    ultimately show "r = r'" "i = i'" "j = j'" using digit16 by blast+
  qed
  from cube_unitD(6) [OF u this] obtain v where v: "ex (scatter R (strides R 1) (strides R 16)) st = st\<lparr>ub := v\<rparr>"
    and eff: "scatter_effect R (strides R 1) (strides R 16) st v" by blast
  have "v (16 * cs + cs * c + hw) = ub st (16 * hw + c)" if h: "0 \<le> hw" "hw < 16 * R" "0 \<le> c" "c < 16" for hw c
  proof -
    have l: "lane R (hw div 16) (hw mod 16) c" using h by (auto simp: lane_def)
    have "v (dst_row st c + 16 * strides R 1 * (hw div 16) + hw mod 16)
      = ub st (src_row st (hw mod 16) + 16 * strides R 16 * (hw div 16) + c)"
      using eff l unfolding scatter_effect_def by blast
    moreover have "16 * (hw div 16) + hw mod 16 = hw" "256 * (hw div 16) + 16 * (hw mod 16) + c = 16 * hw + c" by presburger+
    ultimately show ?thesis unfolding dst [OF l] src [OF l] by simp
  qed
  moreover have "v a = ub st a" if "32 * cs \<le> a" for a
  proof -
    have "a \<noteq> dst_row st j + 16 * strides R 1 * r + i" if l: "lane R r i j" for r i j
    proof -
      have "cs * j \<le> cs * 15" using l cs by (intro mult_left_mono) (auto simp: lane_def)
      then show ?thesis unfolding dst [OF l] using inner(2) [OF l] \<open>32 * cs \<le> a\<close> by simp
    qed
    then show ?thesis using eff unfolding scatter_effect_def by blast
  qed
  ultimately show ?thesis using v by (intro exI [of _ v]) simp
qed


section \<open>What a piece of a kernel writes\<close>

text \<open>Calls that run in every state with \<open>rdy\<close> and the input \<open>src\<close>: they store the wanted values in the cells
  \<open>K\<close> of the output, change no cell of it outside \<open>T\<close>, and nothing else but the unified buffer.\<close>

definition writes :: "(kcall \<Rightarrow> 'v cstate \<Rightarrow> 'v cstate) \<Rightarrow> ('v cstate \<Rightarrow> bool) \<Rightarrow> kbuffer \<Rightarrow> kbuffer \<Rightarrow> (int \<Rightarrow> 'v)
    \<Rightarrow> (int \<Rightarrow> 'v) \<Rightarrow> kcall list \<Rightarrow> int set \<Rightarrow> int set \<Rightarrow> bool" where
  "writes ex rdy inp out src want cs K T \<longleftrightarrow> (\<forall>st. rdy st \<and> gm st (buf_name inp) = src \<longrightarrow>
     (\<exists>v f. run_calls ex cs st = st\<lparr>ub := v, gm := (gm st)(buf_name out := f)\<rparr>
        \<and> (\<forall>a\<in>K. f a = want a) \<and> (\<forall>a. a \<notin> T \<longrightarrow> f a = gm st (buf_name out) a)))"

definition stable :: "('v cstate \<Rightarrow> bool) \<Rightarrow> bool" where
  "stable rdy \<longleftrightarrow> (\<forall>st u g. rdy st \<longrightarrow> rdy (st\<lparr>ub := u, gm := g\<rparr>))"

lemma writesI:
  assumes "\<And>st. rdy st \<Longrightarrow> gm st (buf_name inp) = src \<Longrightarrow>
     \<exists>v f. run_calls ex cs st = st\<lparr>ub := v, gm := (gm st)(buf_name out := f)\<rparr>
        \<and> (\<forall>a\<in>K. f a = want a) \<and> (\<forall>a. a \<notin> T \<longrightarrow> f a = gm st (buf_name out) a)"
  shows "writes ex rdy inp out src want cs K T"
  using assms unfolding writes_def by blast

lemma writesD:
  assumes "writes ex rdy inp out src want cs K T" and "rdy st" and "gm st (buf_name inp) = src"
  obtains v f where "run_calls ex cs st = st\<lparr>ub := v, gm := (gm st)(buf_name out := f)\<rparr>"
    and "\<And>a. a \<in> K \<Longrightarrow> f a = want a" and "\<And>a. a \<notin> T \<Longrightarrow> f a = gm st (buf_name out) a"
  using assms unfolding writes_def by blast

lemma writes_nil: "writes ex rdy inp out src want [] {} T"
proof (rule writesI)
  fix st :: "'a cstate"
  show "\<exists>v f. run_calls ex [] st = st\<lparr>ub := v, gm := (gm st)(buf_name out := f)\<rparr>
        \<and> (\<forall>a\<in>{}. f a = want a) \<and> (\<forall>a. a \<notin> T \<longrightarrow> f a = gm st (buf_name out) a)"
    by (rule exI [of _ "ub st"], rule exI [of _ "gm st (buf_name out)"]) simp
qed

lemma writes_mono: "writes ex rdy inp out src want cs K T \<Longrightarrow> K' \<subseteq> K \<Longrightarrow> T \<subseteq> T' \<Longrightarrow> writes ex rdy inp out src want cs K' T'"
  by (rule writesI, erule (2) writesD, intro exI conjI) (assumption, blast+)

text \<open>A later piece may destroy what an earlier one stored.\<close>

lemma writes_append:
  assumes w: "writes ex rdy inp out src want cs K T" "writes ex rdy inp out src want ds K' T'"
    and s: "stable rdy" and io: "buf_name inp \<noteq> buf_name out"
  shows "writes ex rdy inp out src want (cs @ ds) ((K - T') \<union> K') (T \<union> T')"
proof (rule writesI)
  fix st assume st: "rdy st" "gm st (buf_name inp) = src"
  obtain v f where
    1: "run_calls ex cs st = st\<lparr>ub := v, gm := (gm st)(buf_name out := f)\<rparr>" (is "_ = ?st")
    and f: "\<And>a. a \<in> K \<Longrightarrow> f a = want a" "\<And>a. a \<notin> T \<Longrightarrow> f a = gm st (buf_name out) a"
    by (rule writesD [OF w(1) st]) (rule that)
  have rdy: "rdy ?st" using s st(1) unfolding stable_def by blast
  have src: "gm ?st (buf_name inp) = src" using st(2) io by simp
  obtain v' f' where
    2: "run_calls ex ds ?st = ?st\<lparr>ub := v', gm := (gm ?st)(buf_name out := f')\<rparr>"
    and f': "\<And>a. a \<in> K' \<Longrightarrow> f' a = want a" "\<And>a. a \<notin> T' \<Longrightarrow> f' a = gm ?st (buf_name out) a"
    by (rule writesD [OF w(2) rdy src]) (rule that)
  show "\<exists>v f. run_calls ex (cs @ ds) st = st\<lparr>ub := v, gm := (gm st)(buf_name out := f)\<rparr>
        \<and> (\<forall>a\<in>(K - T') \<union> K'. f a = want a) \<and> (\<forall>a. a \<notin> T \<union> T' \<longrightarrow> f a = gm st (buf_name out) a)"
  proof (rule exI [of _ v'], rule exI [of _ f'], intro conjI)
    show "run_calls ex (cs @ ds) st = st\<lparr>ub := v', gm := (gm st)(buf_name out := f')\<rparr>" by (simp add: 1 2)
    have old: "gm ?st (buf_name out) = f" by simp
    show "\<forall>a\<in>(K - T') \<union> K'. f' a = want a"
      using f(1) f' unfolding old by (metis DiffD1 DiffD2 Un_iff)
    show "\<forall>a. a \<notin> T \<union> T' \<longrightarrow> f' a = gm st (buf_name out) a"
      using f(2) f'(2) unfolding old by simp
  qed
qed

lemma writes_loop:
  assumes body: "\<And>i. 0 \<le> i \<Longrightarrow> i < n \<Longrightarrow> writes ex rdy inp out src want (body i) (K i) (T i)"
    and keep: "\<And>i j a. 0 \<le> i \<Longrightarrow> i < j \<Longrightarrow> j < n \<Longrightarrow> a \<in> K i \<Longrightarrow> a \<notin> T j"
    and s: "stable rdy" and io: "buf_name inp \<noteq> buf_name out" and n: "0 \<le> n"
  shows "writes ex rdy inp out src want (for_range n body) (\<Union>i\<in>{0..<n}. K i) (\<Union>i\<in>{0..<n}. T i)"
proof -
  have "writes ex rdy inp out src want (for_range (int k) body) (\<Union>i\<in>{0..<int k}. K i) (\<Union>i\<in>{0..<int k}. T i)"
    if "int k \<le> n" for k
    using that
  proof (induction k)
    case 0
    show ?case by (simp add: writes_nil)
  next
    case (Suc k)
    have e: "for_range (int (Suc k)) body = for_range (int k) body @ body (int k)"
      using for_range_Suc [of "int k" body] by (simp add: add.commute)
    have u: "{0..<int (Suc k)} = insert (int k) {0..<int k}" by auto
    have "writes ex rdy inp out src want (for_range (int k) body) (\<Union>i\<in>{0..<int k}. K i) (\<Union>i\<in>{0..<int k}. T i)"
      using Suc by simp
    from writes_append [OF this body [of "int k"] s io] Suc.prems
    have "writes ex rdy inp out src want (for_range (int k) body @ body (int k))
      (((\<Union>i\<in>{0..<int k}. K i) - T (int k)) \<union> K (int k)) ((\<Union>i\<in>{0..<int k}. T i) \<union> T (int k))" by simp
    then show ?case unfolding e u by (rule writes_mono) (use keep Suc.prems in auto)
  qed
  from this [of "nat n"] n show ?thesis by simp
qed

lemma stable_placed: "stable (placed sfx inp out m ss ds)"
  by (auto simp: stable_def)

end
