(* ===== verification/Dim_Four2five.thy ===== *)
theory Dim_Four2five
  imports Dim_Tiles
begin

text \<open>
  The kernel from \<open>NCHW\<close> to \<open>NC1HWC0\<close> computes the conversion: every tile is transposed into its
  place and the tiles cover the output. Proved when one tile holds a whole plane, and for larger
  planes of a single image whose last tile is not empty; the examples show what happens otherwise.
\<close>

section \<open>The tiles of a plane\<close>

definition unit_ok :: "tvm_env \<Rightarrow> int \<Rightarrow> bool" where
  "unit_ok env q \<longleftrightarrow> plain_env env \<and> soc_spec env ''UB_SIZE'' = 1024 * q \<and> 0 < q \<and> q < 8192
     \<and> \<not> startswith (scope_reg env) ''local.UB''"

text \<open>The number of blocks of 16 elements in a plane, and the numbers that describe its tiles.\<close>

definition blocks :: "int \<Rightarrow> int" where
  "blocks hw = (hw - 1) div 16 + 1"

lemma blocks_bounds: "0 < hw \<Longrightarrow> 0 < blocks hw" "hw \<le> 16 * blocks hw" "16 * blocks hw < hw + 16"
  unfolding blocks_def by presburger+

lemma blocks_div: "0 < q \<Longrightarrow> 0 < hw \<Longrightarrow> blocks hw mod q \<noteq> 0 \<Longrightarrow> blocks hw div q = hw div (16 * q)
    \<and> hw mod (16 * q) \<le> 16 * (blocks hw mod q) \<and> 16 * (blocks hw mod q) < hw mod (16 * q) + 16"
proof -
  assume q: "0 < q" and hw: "0 < hw" and m: "blocks hw mod q \<noteq> 0"
  define d where "d = blocks hw div q"
  define m where "m = blocks hw mod q"
  let ?s = "hw - 16 * (blocks hw - 1)"
  have s: "1 \<le> ?s" "?s \<le> 16" using blocks_bounds(2,3) [of hw] hw by simp_all
  have k: "blocks hw = q * d + m" by (simp add: d_def m_def)
  have m: "0 < m" "m < q" using q m pos_mod_bound [of q "blocks hw"] pos_mod_sign [of q "blocks hw"] unfolding m_def by linarith+
  have e: "hw = 16 * q * d + (16 * (m - 1) + ?s)" by (simp add: k algebra_simps)
  have r: "0 \<le> 16 * (m - 1) + ?s" "16 * (m - 1) + ?s < 16 * q" using s m by simp_all
  have "hw div (16 * q) = d" "hw mod (16 * q) = 16 * (m - 1) + ?s"
    by (rule int_div_pos_eq [OF e r], rule int_mod_pos_eq [OF e r])
  then show ?thesis using s by (simp add: d_def m_def)
qed

lemma tiling_single:
  assumes "soc_spec env ''UB_SIZE'' = 1024 * q" and "0 < hw" and "blocks hw \<le> q"
  shows "make_tiling env hw is45 = Inr \<lparr>cube_buf_max = 256 * blocks hw, tail_cube_size = 0,
    cube_col_size = 16 * blocks hw, buf_cube_range = 1\<rparr>"
proof -
  have b: "0 < blocks hw" "hw \<le> 16 * blocks hw" using blocks_bounds assms(2) by blast+
  have "(hw + 16 * blocks hw - 1) div (16 * blocks hw) = 1"
    using b assms(2) by (intro div_pos_geq [THEN trans]) (auto simp: div_pos_pos_trivial)
  moreover have "get_vnchwconv_cube_buf_max env hw is45 = Inr (256 * blocks hw, 0)"
    using assms by (simp add: get_vnchwconv_cube_buf_max_def Let_def blocks_def)
  ultimately show ?thesis using b by (simp add: make_tiling_def Let_def)
qed

lemma tiling_many:
  assumes "soc_spec env ''UB_SIZE'' = 1024 * q" and "0 < q" and "q < blocks hw"
  shows "make_tiling env hw True = Inr \<lparr>cube_buf_max = 256 * q, tail_cube_size = 256 * (blocks hw mod q),
    cube_col_size = 16 * q, buf_cube_range = (hw + 16 * q - 1) div (16 * q)\<rparr>"
proof -
  have "512 * blocks hw mod (512 * q) div 2 = 256 * (blocks hw mod q)" by (simp add: mod_mult_mult1)
  then have "get_vnchwconv_cube_buf_max env hw True = Inr (256 * q, 256 * (blocks hw mod q))"
    using assms by (simp add: get_vnchwconv_cube_buf_max_def Let_def blocks_def [symmetric] mult.commute)
  then show ?thesis using assms(2) by (simp add: make_tiling_def Let_def)
qed

lemma range_of_tiles: "0 < c \<Longrightarrow> 0 < hw \<Longrightarrow> hw mod c \<noteq> 0 \<Longrightarrow> (hw + c - 1) div c = hw div c + (1 :: int)"
proof -
  assume c: "0 < c" and "0 < hw" and m: "hw mod c \<noteq> 0"
  have e: "hw + c - 1 = c * (hw div c + 1) + (hw mod c - 1)" by (simp add: algebra_simps)
  have "0 \<le> hw mod c - 1" "hw mod c - 1 < c"
    using c m pos_mod_bound [of c hw] pos_mod_sign [of c hw] by linarith+
  from int_div_pos_eq [OF e this] show ?thesis .
qed

section \<open>One tile\<close>

text \<open>\<open>plane\<close> holds for an output that has the first \<open>m\<close> places of a plane: 16 channels beside each other,
  of which \<open>l\<close> come from the input.\<close>

definition plane :: "(int \<Rightarrow> 'v) \<Rightarrow> int \<Rightarrow> int \<Rightarrow> int \<Rightarrow> (int \<Rightarrow> 'v) \<Rightarrow> int \<Rightarrow> int \<Rightarrow> bool" where
  "plane f b l hw src s m \<longleftrightarrow>
     (\<forall>x c. 0 \<le> x \<and> x < m \<and> 0 \<le> c \<and> c < l \<longrightarrow> f (b + 16 * x + c) = src (s + c * hw + x))"

definition same_outside :: "(int \<Rightarrow> 'v) \<Rightarrow> (int \<Rightarrow> 'v) \<Rightarrow> int \<Rightarrow> int \<Rightarrow> bool" where
  "same_outside f f0 b n \<longleftrightarrow> (\<forall>a. a < b \<or> b + n \<le> a \<longrightarrow> f a = f0 a)"

lemma tile_four2five:
  assumes u: "cube_unit ex" and e: "plain_env env" and p: "placed sfx inp out (16 * cs) cs 16 st"
    and R: "0 \<le> R" "16 * R \<le> cs" "cs < 2 ^ 17" and L: "0 \<le> L" "L \<le> 16" and n: "0 \<le> n" "n \<le> 16 * R"
  shows "\<exists>v g. run_calls ex (for_range L (\<lambda>col. emit_copy_gm_ubuf env ''copy_gm_to_ubuf'' ''float16'' (16 * R)
        (ub_buffer sfx ''float16'' ''input_ub'') (col * cs) inp (s + col * hw))
      @ [scatter R (strides R 16) (strides R 1)]
      @ emit_copy_gm_ubuf env ''copy_ubuf_to_gm'' ''float16'' (n * 16) out b (ub_buffer sfx ''float16'' ''output_ub'') 0) st
    = st\<lparr>ub := v, gm := (gm st)(buf_name out := put_range (gm st (buf_name out)) b (16 * n) g)\<rparr>
    \<and> (\<forall>x c. 0 \<le> x \<and> x < n \<and> 0 \<le> c \<and> c < L \<longrightarrow> g (16 * x + c) = gm st (buf_name inp) (s + c * hw + x))"
proof -
  have base: "ub_base st (buf_name (ub_buffer sfx ''float16'' ''input_ub'')) = Some 0"
    "ub_base st (buf_name (ub_buffer sfx ''float16'' ''output_ub'')) = Some (16 * cs)"
    "ub_base st (buf_name inp) = None" "ub_base st (buf_name out) = None"
    using p by (simp_all add: placed_def)
  have w: "0 \<le> 16 * R" "16 * R < 2 ^ 21" "round16 (16 * R) \<le> cs" using R by (simp_all add: round16_mult)
  from rows_in [OF u e w(1,2) L(1) w(3) base(1,3), of s hw, unfolded add_0] obtain v1 where
    r1: "run_calls ex (for_range L (\<lambda>col. emit_copy_gm_ubuf env ''copy_gm_to_ubuf'' ''float16'' (16 * R)
        (ub_buffer sfx ''float16'' ''input_ub'') (col * cs) inp (s + col * hw))) st = st\<lparr>ub := v1\<rparr>"
    and v1: "\<And>col x. 0 \<le> col \<Longrightarrow> col < L \<Longrightarrow> 0 \<le> x \<Longrightarrow> x < 16 * R \<Longrightarrow>
      v1 (cs * col + x) = gm st (buf_name inp) (s + col * hw + x)"
    by (auto simp: round16_mult)
  have "placed sfx inp out (16 * cs) cs 16 (st\<lparr>ub := v1\<rparr>)" using p by simp
  from scatter_four2five [OF u this R(1,2)] obtain v2 where
    r2: "run_calls ex [scatter R (strides R 16) (strides R 1)] (st\<lparr>ub := v1\<rparr>) = st\<lparr>ub := v2\<rparr>"
    and v2: "\<And>x c. 0 \<le> x \<Longrightarrow> x < 16 * R \<Longrightarrow> 0 \<le> c \<Longrightarrow> c < 16 \<Longrightarrow> v2 (16 * cs + 16 * x + c) = v1 (cs * c + x)"
    by auto
  have n16: "0 \<le> n * 16" "n * 16 < 2 ^ 21" using n R by simp_all
  have r3: "run_calls ex (emit_copy_gm_ubuf env ''copy_ubuf_to_gm'' ''float16'' (n * 16) out b
      (ub_buffer sfx ''float16'' ''output_ub'') 0) (st\<lparr>ub := v2\<rparr>)
    = st\<lparr>ub := v2, gm := (gm st)(buf_name out := put_range (gm st (buf_name out)) b (16 * n) (\<lambda>k. v2 (16 * cs + k)))\<rparr>"
    using run_copy_out [OF u e n16, of "st\<lparr>ub := v2\<rparr>" out "ub_buffer sfx ''float16'' ''output_ub''" "16 * cs" b 0] base
    by (simp add: round16_mult mult.commute)
  have "v2 (16 * cs + (16 * x + c)) = gm st (buf_name inp) (s + c * hw + x)" if "0 \<le> x" "x < n" "0 \<le> c" "c < L" for x c
    using v2 [of x c] v1 [of c x] that n L by (simp add: add.assoc)
  then show ?thesis unfolding run_calls_simps(3) r1 r2 r3
    by (intro exI [of _ v2] exI [of _ "\<lambda>k. v2 (16 * cs + k)"]) simp
qed

lemma plane_extend:
  assumes "plane f b l hw src s x0" and "\<forall>x c. 0 \<le> x \<and> x < n \<and> 0 \<le> c \<and> c < l \<longrightarrow> g (16 * x + c) = src (s + x0 + c * hw + x)"
    and "0 \<le> x0" and "0 \<le> n" and "l \<le> 16"
  shows "plane (put_range f (b + 16 * x0) (16 * n) g) b l hw src s (x0 + n)"
  unfolding plane_def
proof (intro allI impI)
  fix x c assume x: "0 \<le> x \<and> x < x0 + n \<and> 0 \<le> c \<and> c < l"
  show "put_range f (b + 16 * x0) (16 * n) g (b + 16 * x + c) = src (s + c * hw + x)"
  proof (cases "x < x0")
    case True
    then show ?thesis using assms(1,5) x by (simp add: plane_def put_range_def)
  next
    case False
    have "g (16 * (x - x0) + c) = src (s + x0 + c * hw + (x - x0))"
      using assms(2) [rule_format, of "x - x0" c] x False by simp
    moreover have "b + 16 * x + c - (b + 16 * x0) = 16 * (x - x0) + c" "s + x0 + c * hw + (x - x0) = s + c * hw + x"
      by simp_all
    moreover have "b + 16 * x0 \<le> b + 16 * x + c \<and> b + 16 * x + c < b + 16 * x0 + 16 * n"
      using x False assms(5) by linarith
    then have "put_range f (b + 16 * x0) (16 * n) g (b + 16 * x + c) = g (b + 16 * x + c - (b + 16 * x0))"
      unfolding put_range_def by (rule if_P)
    ultimately show ?thesis by (simp only:)
  qed
qed

lemma outside_extend:
  assumes "same_outside f f0 b (16 * hw)" and "0 \<le> x0" and "x0 + n \<le> hw"
  shows "same_outside (put_range f (b + 16 * x0) (16 * n) g) f0 b (16 * hw)"
  using assms by (auto simp: same_outside_def put_range_def)

section \<open>One block of channels\<close>

text \<open>What the loop over the tiles of a block does, given what each tile does.\<close>

lemma block_of_tiles:
  assumes step: "\<And>i s'. 0 \<le> i \<Longrightarrow> i < m \<Longrightarrow> placed sfx inp out cm cs 16 s' \<Longrightarrow> gm s' (buf_name inp) = src \<Longrightarrow>
      \<exists>v g n. run_calls ex (tile i) s' = s'\<lparr>ub := v, gm := (gm s')(buf_name out :=
          put_range (gm s' (buf_name out)) (b + 16 * (i * cs)) (16 * n) g)\<rparr>
        \<and> (\<forall>x c. 0 \<le> x \<and> x < n \<and> 0 \<le> c \<and> c < l \<longrightarrow> g (16 * x + c) = src (s + i * cs + c * hw + x))
        \<and> 0 \<le> n \<and> i * cs + n = min ((i + 1) * cs) hw"
    and m: "0 \<le> m" "hw \<le> m * cs" and cs: "0 \<le> cs" and hw: "0 \<le> hw" and l: "l \<le> 16"
    and p: "placed sfx inp out cm cs 16 st" and src: "gm st (buf_name inp) = src" and io: "buf_name inp \<noteq> buf_name out"
  shows "\<exists>v f. run_calls ex (for_range m tile) st = st\<lparr>ub := v, gm := (gm st)(buf_name out := f)\<rparr>
    \<and> plane f b l hw src s hw \<and> same_outside f (gm st (buf_name out)) b (16 * hw)"
proof -
  let ?old = "gm st (buf_name out)"
  let ?P = "\<lambda>i s'. \<exists>v f. s' = st\<lparr>ub := v, gm := (gm st)(buf_name out := f)\<rparr>
    \<and> plane f b l hw src s (min (i * cs) hw) \<and> same_outside f ?old b (16 * hw)"
  have "?P m (run_calls ex (for_range m tile) st)"
  proof (rule for_range_inv [where P = ?P])
    show "?P 0 st" using hw
      by (rule_tac exI [of _ "ub st"], rule_tac exI [of _ ?old]) (auto simp: plane_def same_outside_def)
    fix i s' assume i: "0 \<le> i" "i < m" and "?P i s'"
    then obtain v f where s': "s' = st\<lparr>ub := v, gm := (gm st)(buf_name out := f)\<rparr>"
      and pl: "plane f b l hw src s (min (i * cs) hw)" and so: "same_outside f ?old b (16 * hw)" by blast
    have "placed sfx inp out cm cs 16 s'" "gm s' (buf_name inp) = src" using p src io by (simp_all add: s')
    from step [OF i this] obtain v' g n where
      run: "run_calls ex (tile i) s' = s'\<lparr>ub := v', gm := (gm s')(buf_name out :=
          put_range (gm s' (buf_name out)) (b + 16 * (i * cs)) (16 * n) g)\<rparr>"
      and g: "\<forall>x c. 0 \<le> x \<and> x < n \<and> 0 \<le> c \<and> c < l \<longrightarrow> g (16 * x + c) = src (s + i * cs + c * hw + x)"
      and n: "0 \<le> n" "i * cs + n = min ((i + 1) * cs) hw" by blast
    let ?f = "put_range f (b + 16 * (i * cs)) (16 * n) g"
    have ics: "0 \<le> i * cs" "i * cs \<le> hw" using i cs n by (simp_all add: min_def split: if_splits)
    have "run_calls ex (tile i) s' = st\<lparr>ub := v', gm := (gm st)(buf_name out := ?f)\<rparr>"
      unfolding run by (simp add: s')
    moreover have "plane ?f b l hw src s (min ((i + 1) * cs) hw)"
    proof -
      have "plane f b l hw src s (i * cs)" using pl ics by simp
      from plane_extend [OF this g ics(1) n(1) l] show ?thesis by (simp only: n(2))
    qed
    moreover have "same_outside ?f ?old b (16 * hw)"
      by (rule outside_extend [OF so ics(1)]) (use n(2) in simp)
    ultimately show "?P (i + 1) (run_calls ex (tile i) s')" by blast
  qed (rule m)
  then show ?thesis using m(2) by (simp add: min_def split: if_splits)
qed


text \<open>When the loops of the kernel fill a block: a plane fits into one tile, or there is one image and
  the last tile is not empty.\<close>

definition four2five_ok :: "int \<Rightarrow> int \<Rightarrow> int \<Rightarrow> bool" where
  "four2five_ok q shape_n hw \<longleftrightarrow> blocks hw \<le> q \<or> blocks hw mod q \<noteq> 0 \<and> shape_n = 1"

text \<open>What a tile executes: the calls of \<open>four2five_tile\<close> with the repeat count, the rows, the offsets and
  the number of places of the tile.\<close>

definition four2five_core ::
    "tvm_env \<Rightarrow> nat \<Rightarrow> kbuffer \<Rightarrow> kbuffer \<Rightarrow> int \<Rightarrow> int \<Rightarrow> int \<Rightarrow> int \<Rightarrow> int \<Rightarrow> int \<Rightarrow> int \<Rightarrow> kcall list" where
  "four2five_core env sfx inp out cs hw l R s n b =
     for_range l (\<lambda>col. emit_copy_gm_ubuf env ''copy_gm_to_ubuf'' ''float16'' (16 * R)
        (ub_buffer sfx ''float16'' ''input_ub'') (col * cs) inp (s + col * hw))
     @ [scatter R (strides R 16) (strides R 1)]
     @ emit_copy_gm_ubuf env ''copy_ubuf_to_gm'' ''float16'' (n * 16) out b (ub_buffer sfx ''float16'' ''output_ub'') 0"

lemma four2five_coreI:
  "rep = R \<Longrightarrow> wd = 16 * R \<Longrightarrow> (\<And>col. off col = s + col * hw) \<Longrightarrow> sz = n * 16 \<Longrightarrow> b' = b \<Longrightarrow>
    for_range l (\<lambda>col. emit_copy_gm_ubuf env ''copy_gm_to_ubuf'' ''float16'' wd
        (ub_buffer sfx ''float16'' ''input_ub'') (col * cs) inp (off col))
     @ [scatter rep (strides rep 16) (strides rep 1)]
     @ emit_copy_gm_ubuf env ''copy_ubuf_to_gm'' ''float16'' sz out b' (ub_buffer sfx ''float16'' ''output_ub'') 0
    = four2five_core env sfx inp out cs hw l R s n b"
  by (simp add: four2five_core_def)

lemma four2five_step:
  assumes u: "cube_unit ex" and e: "unit_ok env q" and hw: "0 < h * w" and ok: "four2five_ok q sn (h * w)"
    and t: "make_tiling env (h * w) True = Inr t" and dt: "buf_dtype inp = ''float16''" "buf_dtype out = ''float16''"
    and l: "0 \<le> l" "l \<le> 16" and i: "0 \<le> i" "i < buf_cube_range t" and n: "0 \<le> idx_n" "idx_n < sn"
    and p: "placed sfx inp out (cube_buf_max t) (cube_col_size t) 16 st"
  shows "\<exists>v g m. run_calls ex (four2five_tile env sfx t inp (sn, sc, h, w) out l cb idx_n idx_c1 i) st
      = st\<lparr>ub := v, gm := (gm st)(buf_name out := put_range (gm st (buf_name out))
          ((idx_n * c1_range sc + (idx_c1 + cb)) * (16 * (h * w)) + 16 * (i * cube_col_size t)) (16 * m) g)\<rparr>
    \<and> (\<forall>x c. 0 \<le> x \<and> x < m \<and> 0 \<le> c \<and> c < l \<longrightarrow> g (16 * x + c)
        = gm st (buf_name inp) ((idx_n * sc + (idx_c1 + cb) * 16) * (h * w) + i * cube_col_size t + c * (h * w) + x))
    \<and> 0 \<le> m \<and> i * cube_col_size t + m = min ((i + 1) * cube_col_size t) (h * w)"
proof -
  let ?hw = "h * w" and ?k = "blocks (h * w)" and ?cs = "cube_col_size t"
  let ?b = "(idx_n * c1_range sc + (idx_c1 + cb)) * (16 * ?hw)" and ?s = "(idx_n * sc + (idx_c1 + cb) * 16) * ?hw"
  have q: "0 < q" "q < 8192" "plain_env env" "soc_spec env ''UB_SIZE'' = 1024 * q" using e by (simp_all add: unit_ok_def)
  note k = blocks_bounds(1) [OF hw] blocks_bounds(2,3) [of ?hw]
  note tile = tile_four2five [OF u q(3), of sfx inp out ?cs st, folded four2five_core_def]
  have max: "cube_buf_max t = 16 * ?cs"
  proof (cases "?k \<le> q")
    case True
    show ?thesis using t tiling_single [OF q(4) hw True] by auto
  next
    case False
    then show ?thesis using t tiling_many [OF q(4,1), of ?hw] by auto
  qed
  have p': "placed sfx inp out (16 * ?cs) ?cs 16 st" using p max by simp
  define m where "m = min ((i + 1) * ?cs) ?hw - i * ?cs"
  define R where "R = (if ?k \<le> q then ?k else if i \<noteq> buf_cube_range t - 1 then q else ?k mod q)"
  have facts: "0 \<le> R \<and> 16 * R \<le> ?cs \<and> ?cs < 2 ^ 17 \<and> 0 \<le> m \<and> m \<le> 16 * R
    \<and> four2five_tile env sfx t inp (sn, sc, h, w) out l cb idx_n idx_c1 i
      = four2five_core env sfx inp out ?cs ?hw l R (?s + i * ?cs) m (?b + 16 * (i * ?cs))"
  proof (cases "?k \<le> q")
    case True
    have tt: "t = \<lparr>cube_buf_max = 256 * ?k, tail_cube_size = 0, cube_col_size = 16 * ?k, buf_cube_range = 1\<rparr>"
      using t tiling_single [OF q(4) hw True] by simp
    have i0: "i = 0" using i tt by simp
    have "m = ?hw" using k i0 by (simp add: m_def tt)
    have "four2five_tile env sfx t inp (sn, sc, h, w) out l cb idx_n idx_c1 i
      = four2five_core env sfx inp out ?cs ?hw l ?k (?s + i * ?cs) ?hw (?b + 16 * (i * ?cs))"
      unfolding four2five_tile_def Let_def prod.case dt tt tiling.simps
      by (simp only: less_irrefl if_False, rule four2five_coreI) (simp_all add: i0 algebra_simps)
    with \<open>m = ?hw\<close> show ?thesis using True k q(2) by (simp add: R_def tt)
  next
    case False
    then have ok': "?k mod q \<noteq> 0" "idx_n = 0" using ok n by (auto simp: four2five_ok_def)
    have r: "(?hw + 16 * q - 1) div (16 * q) = ?hw div (16 * q) + 1"
    proof (rule range_of_tiles)
      have "0 < ?k mod q" using q(1) ok'(1) pos_mod_sign [of q ?k] by linarith
      then show "?hw mod (16 * q) \<noteq> 0" using blocks_div [OF q(1) hw ok'(1)] by linarith
    qed (use q hw in simp_all)
    have tt: "t = \<lparr>cube_buf_max = 256 * q, tail_cube_size = 256 * (?k mod q), cube_col_size = 16 * q,
        buf_cube_range = ?hw div (16 * q) + 1\<rparr>"
      using t tiling_many [OF q(4,1), of ?hw] False r by simp
    note d = blocks_div [OF q(1) hw ok'(1)]
    have "1 \<le> ?k div q" using False q(1) by (simp add: pos_imp_zdiv_pos_iff int_one_le_iff_zero_less)
    then have many: "1 < buf_cube_range t" using d by (simp add: tt)
    have kq: "0 \<le> ?k mod q" "?k mod q < q" using q(1) by simp_all
    show ?thesis
    proof (cases "i = buf_cube_range t - 1")
      case True
      then have last: "\<not> i \<noteq> buf_cube_range t - 1" by simp
      have ii: "i = ?hw div (16 * q)" using True by (simp add: tt)
      have hw_eq: "i * (16 * q) + ?hw mod (16 * q) = ?hw" unfolding ii by (rule div_mult_mod_eq)
      have "?hw mod (16 * q) < 16 * q" using q(1) by simp
      then have "(i + 1) * (16 * q) > ?hw" using hw_eq by (simp add: algebra_simps)
      then have m: "m = ?hw mod (16 * q)" using hw_eq by (simp add: m_def tt)
      have R: "R = ?k mod q" using False True by (simp add: R_def)
      have "four2five_tile env sfx t inp (sn, sc, h, w) out l cb idx_n idx_c1 i
        = four2five_core env sfx inp out ?cs ?hw l (?k mod q) (?s + i * ?cs) (?hw mod (16 * q)) (?b + 16 * (i * ?cs))"
        unfolding four2five_tile_def Let_def prod.case dt tt tiling.simps
        unfolding if_P [OF many [unfolded tt tiling.simps]] if_not_P [OF last [unfolded tt tiling.simps]]
        by (rule four2five_coreI) (simp_all add: algebra_simps)
      then show ?thesis using d kq q(1,2) by (simp add: m R tt order.strict_implies_order)
    next
      case False': False
      then have "i + 1 \<le> ?hw div (16 * q)" using i by (simp add: tt)
      then have "(i + 1) * (16 * q) \<le> ?hw div (16 * q) * (16 * q)" using q(1) by (intro mult_right_mono) simp_all
      also have "\<dots> \<le> ?hw" using q(1) using div_mult_mod_eq [of ?hw "16 * q"] pos_mod_sign [of "16 * q" ?hw] q(1) by linarith
      finally have m: "m = 16 * q" by (simp add: m_def tt algebra_simps)
      have R: "R = q" using False False' by (simp add: R_def)
      have "four2five_tile env sfx t inp (sn, sc, h, w) out l cb idx_n idx_c1 i
        = four2five_core env sfx inp out ?cs ?hw l q (?s + i * ?cs) (16 * q) (?b + 16 * (i * ?cs))"
        unfolding four2five_tile_def Let_def prod.case dt tt tiling.simps
        unfolding if_P [OF many [unfolded tt tiling.simps]] if_P [OF False' [unfolded tt tiling.simps]]
        by (rule four2five_coreI) (simp_all add: ok'(2) algebra_simps)
      then show ?thesis using q(1,2) by (simp add: m R tt)
    qed
  qed
  from tile [OF p', of R l m] facts l obtain v g where
    "run_calls ex (four2five_tile env sfx t inp (sn, sc, h, w) out l cb idx_n idx_c1 i) st
      = st\<lparr>ub := v, gm := (gm st)(buf_name out := put_range (gm st (buf_name out)) (?b + 16 * (i * ?cs)) (16 * m) g)\<rparr>"
    "\<forall>x c. 0 \<le> x \<and> x < m \<and> 0 \<le> c \<and> c < l \<longrightarrow> g (16 * x + c) = gm st (buf_name inp) (?s + i * ?cs + c * ?hw + x)"
    by metis
  then show ?thesis using facts by (intro exI [of _ v] exI [of _ g] exI [of _ m]) (simp add: m_def)
qed


lemma make_tiling_facts:
  assumes e: "unit_ok env q" and hw: "0 < hw" and t: "make_tiling env hw True = Inr t"
  shows "0 < cube_col_size t \<and> cube_buf_max t = 16 * cube_col_size t \<and> 0 \<le> buf_cube_range t
    \<and> hw \<le> buf_cube_range t * cube_col_size t"
proof -
  have q: "0 < q" "soc_spec env ''UB_SIZE'' = 1024 * q" using e by (simp_all add: unit_ok_def)
  have k: "0 < blocks hw" "hw \<le> 16 * blocks hw" using blocks_bounds hw by blast+
  have up: "0 \<le> (hw + c - 1) div c \<and> hw \<le> (hw + c - 1) div c * c" if "0 < c" for c
    using that hw div_mult_mod_eq [of "hw + c - 1" c] pos_mod_bound [of c "hw + c - 1"] pos_imp_zdiv_nonneg_iff [of c "hw + c - 1"]
    by linarith
  show ?thesis
  proof (cases "blocks hw \<le> q")
    case True
    then show ?thesis using t tiling_single [OF q(2) hw True] k by auto
  next
    case False
    then show ?thesis using t tiling_many [OF q(2,1), of hw] q(1) up [of "16 * q"] by auto
  qed
qed

lemma outside_div: "0 < n \<Longrightarrow> a div n \<noteq> b \<Longrightarrow> a < b * n \<or> b * n + n \<le> (a :: int)"
proof (rule ccontr)
  assume n: "0 < n" and ne: "a div n \<noteq> b" and "\<not> (a < b * n \<or> b * n + n \<le> a)"
  then have "a = n * b + (a - b * n)" "0 \<le> a - b * n" "a - b * n < n" by (simp_all add: mult.commute)
  from int_div_pos_eq [OF this] ne show False by simp
qed

section \<open>The whole kernel\<close>

text \<open>The value that belongs into a cell of the output, and the cells that have one: those of the channels of
  the input. The blocks of the output are \<open>16 * hw\<close> cells each, one per image and group of channels.\<close>

definition nc1hwc0_at :: "int \<Rightarrow> int \<Rightarrow> (int \<Rightarrow> 'v) \<Rightarrow> int \<Rightarrow> 'v" where
  "nc1hwc0_at sc hw src a =
     (let b = a div (16 * hw); y = a mod (16 * hw) in
      src ((b div c1_range sc * sc + (b mod c1_range sc * 16 + y mod 16)) * hw + y div 16))"

definition block_cells :: "int \<Rightarrow> int \<Rightarrow> int \<Rightarrow> int set" where
  "block_cells sc hw b = {a. a div (16 * hw) = b \<and> b mod c1_range sc * 16 + a mod (16 * hw) mod 16 < sc}"

lemma block_writes:
  assumes pl: "plane f (b * (16 * hw)) l hw src ((b div c1_range sc * sc + b mod c1_range sc * 16) * hw) hw"
    and hw: "0 < hw" and l: "min 16 (sc - b mod c1_range sc * 16) \<le> l" and a: "a \<in> block_cells sc hw b"
  shows "f a = nc1hwc0_at sc hw src a"
proof -
  let ?y = "a mod (16 * hw)"
  have y: "0 \<le> ?y" "?y < 16 * hw" using hw by simp_all
  have a_eq: "b * (16 * hw) + 16 * (?y div 16) + ?y mod 16 = a"
    using a div_mult_mod_eq [of a "16 * hw"] by (simp add: block_cells_def)
  have "0 \<le> ?y div 16" "?y div 16 < hw" "0 \<le> ?y mod 16" "?y mod 16 < l"
    using y a l by (auto simp: block_cells_def min_def split: if_splits)
  then have "f (b * (16 * hw) + 16 * (?y div 16) + ?y mod 16)
    = src ((b div c1_range sc * sc + b mod c1_range sc * 16) * hw + ?y mod 16 * hw + ?y div 16)"
    using pl unfolding plane_def by blast
  then show ?thesis using a unfolding a_eq
    by (simp add: nc1hwc0_at_def block_cells_def Let_def algebra_simps)
qed

lemma four2five_block:
  assumes u: "cube_unit ex" and e: "unit_ok env q" and hw: "0 < h * w" and ok: "four2five_ok q sn (h * w)"
    and t: "make_tiling env (h * w) True = Inr t" and dt: "buf_dtype inp = ''float16''" "buf_dtype out = ''float16''"
    and l: "min 16 (sc - k * 16) \<le> l" "0 \<le> l" "l \<le> 16" and n: "0 \<le> n" "n < sn" and k: "0 \<le> k" "k < c1_range sc"
    and io: "buf_name inp \<noteq> buf_name out" and kc: "i + cb = k"
  shows "writes ex (placed sfx inp out (cube_buf_max t) (cube_col_size t) 16) inp out src (nc1hwc0_at sc (h * w) src)
    (for_range (buf_cube_range t) (four2five_tile env sfx t inp (sn, sc, h, w) out l cb n i))
    (block_cells sc (h * w) (n * c1_range sc + k)) {a. a div (16 * (h * w)) = n * c1_range sc + k}"
proof (rule writesI)
  fix st :: "'a cstate"
  let ?hw = "h * w" and ?b = "n * c1_range sc + k" and ?cs = "cube_col_size t"
  assume p: "placed sfx inp out (cube_buf_max t) ?cs 16 st" and src: "gm st (buf_name inp) = src"
  have b: "?b div c1_range sc = n" "?b mod c1_range sc = k" using k by (simp_all add: div_pos_pos_trivial)
  have cs: "0 < ?cs" using make_tiling_facts [OF e hw t] by simp
  have cover: "0 \<le> buf_cube_range t" "?hw \<le> buf_cube_range t * ?cs" using make_tiling_facts [OF e hw t] by simp_all
  have step: "\<exists>v g m. run_calls ex (four2five_tile env sfx t inp (sn, sc, h, w) out l cb n i j) st'
      = st'\<lparr>ub := v, gm := (gm st')(buf_name out := put_range (gm st' (buf_name out))
          (?b * (16 * ?hw) + 16 * (j * ?cs)) (16 * m) g)\<rparr>
    \<and> (\<forall>x c. 0 \<le> x \<and> x < m \<and> 0 \<le> c \<and> c < l \<longrightarrow> g (16 * x + c) = src ((n * sc + k * 16) * ?hw + j * ?cs + c * ?hw + x))
    \<and> 0 \<le> m \<and> j * ?cs + m = min ((j + 1) * ?cs) ?hw"
    if "0 \<le> j" "j < buf_cube_range t" "placed sfx inp out (cube_buf_max t) ?cs 16 st'" "gm st' (buf_name inp) = src" for j st'
    using four2five_step [OF u e hw ok t dt l(2,3) that(1,2) n that(3), of sc cb i] unfolding that(4) kc .
  have "\<exists>v f. run_calls ex (for_range (buf_cube_range t) (four2five_tile env sfx t inp (sn, sc, h, w) out l cb n i)) st
      = st\<lparr>ub := v, gm := (gm st)(buf_name out := f)\<rparr>
    \<and> plane f (?b * (16 * ?hw)) l ?hw src ((n * sc + k * 16) * ?hw) ?hw
    \<and> same_outside f (gm st (buf_name out)) (?b * (16 * ?hw)) (16 * ?hw)"
    by (rule block_of_tiles [OF step cover less_imp_le [OF cs] less_imp_le [OF hw] l(3) p src io])
  then obtain v f where
    run: "run_calls ex (for_range (buf_cube_range t) (four2five_tile env sfx t inp (sn, sc, h, w) out l cb n i)) st
      = st\<lparr>ub := v, gm := (gm st)(buf_name out := f)\<rparr>"
    and pl: "plane f (?b * (16 * ?hw)) l ?hw src ((n * sc + k * 16) * ?hw) ?hw"
    and so: "same_outside f (gm st (buf_name out)) (?b * (16 * ?hw)) (16 * ?hw)"
    by (elim exE conjE)
  have "f a = nc1hwc0_at sc ?hw src a" if "a \<in> block_cells sc ?hw ?b" for a
    using block_writes [of f ?b ?hw l src sc a] pl hw l(1) that unfolding b by simp
  note K = this
  have T: "f a = gm st (buf_name out) a" if "a \<notin> {a. a div (16 * ?hw) = ?b}" for a
  proof -
    have "a < ?b * (16 * ?hw) \<or> ?b * (16 * ?hw) + 16 * ?hw \<le> a"
      using that hw outside_div [of "16 * ?hw" a ?b] by simp
    then show ?thesis using so unfolding same_outside_def by blast
  qed
  show "\<exists>v f. run_calls ex (for_range (buf_cube_range t) (four2five_tile env sfx t inp (sn, sc, h, w) out l cb n i)) st
      = st\<lparr>ub := v, gm := (gm st)(buf_name out := f)\<rparr>
    \<and> (\<forall>a\<in>block_cells sc ?hw ?b. f a = nc1hwc0_at sc ?hw src a)
    \<and> (\<forall>a. a \<notin> {a. a div (16 * ?hw) = ?b} \<longrightarrow> f a = gm st (buf_name out) a)"
    by (rule exI [of _ v], rule exI [of _ f], intro conjI ballI allI impI) (rule run K T, assumption?)+
qed


lemma four2five_intrin_writes:
  assumes u: "cube_unit ex" and e: "unit_ok env q" and hw: "0 < h * w" and ok: "four2five_ok q sn (h * w)"
    and t: "make_tiling env (h * w) True = Inr t" and dt: "buf_dtype inp = ''float16''" "buf_dtype out = ''float16''"
    and l: "\<And>k. cb \<le> k \<Longrightarrow> k < ce \<Longrightarrow> min 16 (sc - k * 16) \<le> l" "0 \<le> l" "l \<le> 16"
    and n: "0 \<le> sn" and c: "0 \<le> cb" "cb \<le> ce" "ce \<le> c1_range sc" and io: "buf_name inp \<noteq> buf_name out"
  shows "writes ex (placed sfx inp out (cube_buf_max t) (cube_col_size t) 16) inp out src (nc1hwc0_at sc (h * w) src)
    (four2five_intrin env sfx t inp (sn, sc, h, w) out l cb ce)
    (\<Union>n\<in>{0..<sn}. \<Union>i\<in>{0..<ce - cb}. block_cells sc (h * w) (n * c1_range sc + (i + cb)))
    (\<Union>n\<in>{0..<sn}. \<Union>i\<in>{0..<ce - cb}. {a. a div (16 * (h * w)) = n * c1_range sc + (i + cb)})"
  unfolding four2five_intrin_def fst_conv
proof (rule writes_loop [OF _ _ stable_placed io n], rule writes_loop [OF _ _ stable_placed io])
  fix n i assume "0 \<le> n" "n < sn" "0 \<le> i" "i < ce - cb"
  then show "writes ex (placed sfx inp out (cube_buf_max t) (cube_col_size t) 16) inp out src (nc1hwc0_at sc (h * w) src)
      (for_range (buf_cube_range t) (four2five_tile env sfx t inp (sn, sc, h, w) out l cb n i))
      (block_cells sc (h * w) (n * c1_range sc + (i + cb))) {a. a div (16 * (h * w)) = n * c1_range sc + (i + cb)}"
    using c by (intro four2five_block [OF u e hw ok t dt l(1-3)] io refl) simp_all
next
  fix n i m j a assume n: "0 \<le> n" "n < m" and a: "a \<in> (\<Union>i\<in>{0..<ce - cb}. block_cells sc (h * w) (n * c1_range sc + (i + cb)))"
  have "n * c1_range sc + (i + cb) < m * c1_range sc" if "i < ce - cb" for i
  proof -
    have "(n + 1) * c1_range sc \<le> m * c1_range sc" using n c by (intro mult_right_mono) simp_all
    then show ?thesis using that c by (simp add: algebra_simps)
  qed
  then have "a div (16 * (h * w)) < m * c1_range sc" using a by (auto simp: block_cells_def)
  then show "a \<notin> (\<Union>i\<in>{0..<ce - cb}. {a. a div (16 * (h * w)) = m * c1_range sc + (i + cb)})" using c by auto
qed (use c in \<open>auto simp: block_cells_def\<close>)

text \<open>All the cells of the output that a channel of the input belongs to.\<close>

definition channel_cells :: "int \<Rightarrow> int \<Rightarrow> int \<Rightarrow> int set" where
  "channel_cells sn sc hw = {a. 0 \<le> a \<and> a < sn * c1_range sc * (16 * hw) \<and> a \<in> block_cells sc hw (a div (16 * hw))}"

lemma c1_range_eq: "c1_range sc = sc div 16 + (if sc mod 16 = 0 then 0 else 1)"
proof (cases "sc mod 16 = 0")
  case True
  have "sc + 16 - 1 = 16 * (sc div 16) + 15" using div_mult_mod_eq [of sc 16] True by simp
  from int_div_pos_eq [OF this] show ?thesis using True by (simp add: c1_range_def)
next
  case False
  have m: "0 \<le> sc mod 16" "sc mod 16 < 16" by simp_all
  have "sc + 16 - 1 = 16 * (sc div 16 + 1) + (sc mod 16 - 1)" using div_mult_mod_eq [of sc 16] by (simp add: algebra_simps)
  from int_div_pos_eq [OF this] show ?thesis using False m by (simp add: c1_range_def)
qed

lemma c1_loop_eq: "c1_loop sc = sc div 16"
  by (simp add: c1_loop_def c1_range_eq)

lemma c1_facts:
  assumes "0 < sc"
  shows "0 \<le> c1_loop sc" "c1_loop sc \<le> c1_range sc" "0 < c1_range sc"
    and "sc mod 16 = 0 \<Longrightarrow> c1_loop sc = c1_range sc"
    and "sc mod 16 \<noteq> 0 \<Longrightarrow> c1_loop sc \<le> k \<Longrightarrow> sc - k * 16 \<le> sc mod 16"
    and "sc mod 16 \<noteq> 0 \<Longrightarrow> c1_range sc = c1_loop sc + 1"
proof -
  show "0 \<le> c1_loop sc" using assms by (simp add: c1_loop_eq pos_imp_zdiv_nonneg_iff)
  show "c1_loop sc \<le> c1_range sc" by (simp add: c1_loop_eq c1_range_eq)
  show "sc mod 16 = 0 \<Longrightarrow> c1_loop sc = c1_range sc" by (simp add: c1_loop_eq c1_range_eq)
  show "sc mod 16 \<noteq> 0 \<Longrightarrow> c1_range sc = c1_loop sc + 1" by (simp add: c1_loop_eq c1_range_eq)
  show "0 < c1_range sc" unfolding c1_range_def using assms by presburger
  show "sc mod 16 \<noteq> 0 \<Longrightarrow> c1_loop sc \<le> k \<Longrightarrow> sc - k * 16 \<le> sc mod 16"
    unfolding c1_loop_eq using div_mult_mod_eq [of sc 16] by linarith
qed

lemma div_less_pos: "0 < b \<Longrightarrow> a < c * b \<Longrightarrow> a div b < (c :: int)"
proof (rule ccontr)
  assume b: "0 < b" and a: "a < c * b" and "\<not> a div b < c"
  then have "c * b \<le> a div b * b" by (intro mult_right_mono) simp_all
  then show False using a b div_mult_mod_eq [of a b] pos_mod_sign [of b a] by linarith
qed

lemma block_union:
  assumes hw: "0 < hw" and c: "0 \<le> m" "m \<le> c1_range sc" and a: "a \<in> channel_cells sn sc hw"
  shows "a \<in> (\<Union>n\<in>{0..<sn}. \<Union>i\<in>{0..<m}. block_cells sc hw (n * c1_range sc + (i + 0)))
    \<or> a \<in> (\<Union>n\<in>{0..<sn}. \<Union>i\<in>{0..<c1_range sc - m}. block_cells sc hw (n * c1_range sc + (i + m)))"
proof -
  let ?b = "a div (16 * hw)" and ?r = "c1_range sc"
  have a: "0 \<le> a" "a < sn * ?r * (16 * hw)" "a \<in> block_cells sc hw ?b" using a by (simp_all add: channel_cells_def)
  have "0 \<le> ?b" using a(1) hw by (simp add: pos_imp_zdiv_nonneg_iff)
  moreover have "?b < sn * ?r" by (rule div_less_pos) (use a(2) hw in simp_all)
  moreover from calculation have "0 < ?r" using c by (cases "?r = 0") auto
  ultimately have n: "0 \<le> ?b div ?r" "?b div ?r < sn" "0 \<le> ?b mod ?r" "?b mod ?r < ?r"
    by (simp_all add: pos_imp_zdiv_nonneg_iff div_less_pos)
  show ?thesis
  proof (cases "?b mod ?r < m")
    case True
    then show ?thesis using n a(3) by (intro disjI1 UN_I [of "?b div ?r"] UN_I [of "?b mod ?r"]) simp_all
  next
    case False
    then show ?thesis using n a(3) by (intro disjI2 UN_I [of "?b div ?r"] UN_I [of "?b mod ?r - m"]) simp_all
  qed
qed


lemma make_tiling_total:
  assumes e: "unit_ok env q" and hw: "0 < hw"
  shows "\<exists>t. make_tiling env hw True = Inr t"
  using assms tiling_single [of env q hw] tiling_many [of env q hw] by (cases "blocks hw \<le> q") (auto simp: unit_ok_def)

lemma four2five_body_writes:
  assumes u: "cube_unit ex" and e: "unit_ok env q" and hw: "0 < h * w" and ok: "four2five_ok q sn (h * w)"
    and t: "make_tiling env (h * w) True = Inr t" and dt: "buf_dtype inp = ''float16''" "buf_dtype out = ''float16''"
    and n: "0 \<le> sn" "0 < sc" and io: "buf_name inp \<noteq> buf_name out"
  shows "writes ex (placed sfx inp out (cube_buf_max t) (cube_col_size t) 16) inp out src (nc1hwc0_at sc (h * w) src)
    (four2five_intrin env sfx t inp (sn, sc, h, w) out 16 0 (c1_loop sc)
      @ (if sc mod 16 \<noteq> 0 then four2five_intrin env sfx t inp (sn, sc, h, w) out (sc mod 16) (c1_loop sc) (c1_range sc) else []))
    (channel_cells sn sc (h * w)) UNIV"
proof -
  note c = c1_facts [OF n(2)]
  note intrin = four2five_intrin_writes [OF u e hw ok t dt _ _ _ n(1) _ _ _ io]
  have head: "writes ex (placed sfx inp out (cube_buf_max t) (cube_col_size t) 16) inp out src (nc1hwc0_at sc (h * w) src)
    (four2five_intrin env sfx t inp (sn, sc, h, w) out 16 0 (c1_loop sc))
    (\<Union>n\<in>{0..<sn}. \<Union>i\<in>{0..<c1_loop sc}. block_cells sc (h * w) (n * c1_range sc + (i + 0))) 
    (\<Union>n\<in>{0..<sn}. \<Union>i\<in>{0..<c1_loop sc}. {a. a div (16 * (h * w)) = n * c1_range sc + (i + 0)})"
    using intrin [of 0 "c1_loop sc" sc 16 sfx src] c(1,2) by (simp only: diff_zero)
  show ?thesis
  proof (cases "sc mod 16 = 0")
    case True
    have "channel_cells sn sc (h * w) \<subseteq> (\<Union>n\<in>{0..<sn}. \<Union>i\<in>{0..<c1_loop sc}. block_cells sc (h * w) (n * c1_range sc + (i + 0)))"
    proof
      fix a assume "a \<in> channel_cells sn sc (h * w)"
      from block_union [OF hw c(1,2) this] show "a \<in> (\<Union>n\<in>{0..<sn}. \<Union>i\<in>{0..<c1_loop sc}. block_cells sc (h * w) (n * c1_range sc + (i + 0)))"
        using c(4) [OF True] by simp
    qed
    from writes_mono [OF head this subset_UNIV] show ?thesis using True by simp
  next
    case False
    have m: "0 \<le> sc mod 16" "sc mod 16 \<le> 16" using pos_mod_bound [of 16 sc] by simp_all
    have tail: "writes ex (placed sfx inp out (cube_buf_max t) (cube_col_size t) 16) inp out src (nc1hwc0_at sc (h * w) src)
      (four2five_intrin env sfx t inp (sn, sc, h, w) out (sc mod 16) (c1_loop sc) (c1_range sc))
      (\<Union>n\<in>{0..<sn}. \<Union>i\<in>{0..<c1_range sc - c1_loop sc}. block_cells sc (h * w) (n * c1_range sc + (i + c1_loop sc))) 
      (\<Union>n\<in>{0..<sn}. \<Union>i\<in>{0..<c1_range sc - c1_loop sc}. {a. a div (16 * (h * w)) = n * c1_range sc + (i + c1_loop sc)})"
      (is "writes _ _ _ _ _ _ _ ?K ?T")
      using intrin [of "c1_loop sc" "c1_range sc" sc "sc mod 16" sfx src] c(1,2) c(5) [OF False] m by (simp add: min_le_iff_disj)
    let ?H = "\<Union>n\<in>{0..<sn}. \<Union>i\<in>{0..<c1_loop sc}. block_cells sc (h * w) (n * c1_range sc + (i + 0))"
    have sep: "a \<notin> ?T" if a: "a \<in> ?H" for a
    proof
      assume "a \<in> ?T"
      then have "c1_loop sc \<le> a div (16 * (h * w)) mod c1_range sc"
      proof (elim UN_E)
        fix n j assume j: "j \<in> {0..<c1_range sc - c1_loop sc}"
          and "a \<in> {a. a div (16 * (h * w)) = n * c1_range sc + (j + c1_loop sc)}"
        then have "a div (16 * (h * w)) = n * c1_range sc + (j + c1_loop sc)" by simp
        then show ?thesis using j c(1) by simp
      qed
      moreover from a have "a div (16 * (h * w)) mod c1_range sc < c1_loop sc"
      proof (elim UN_E)
        fix n i assume i: "i \<in> {0..<c1_loop sc}" and "a \<in> block_cells sc (h * w) (n * c1_range sc + (i + 0))"
        then have "a div (16 * (h * w)) = n * c1_range sc + i" by (simp add: block_cells_def)
        then show ?thesis using i c(2) by simp
      qed
      ultimately show False by simp
    qed
    have "channel_cells sn sc (h * w) \<subseteq> (?H - ?T) \<union> ?K"
    proof
      fix a assume "a \<in> channel_cells sn sc (h * w)"
      from block_union [OF hw c(1,2) this] show "a \<in> (?H - ?T) \<union> ?K" using sep [of a] by (elim disjE) (rule UnI1, rule DiffI, assumption+, rule UnI2)
    qed
    from writes_mono [OF writes_append [OF head tail stable_placed io] this subset_UNIV] show ?thesis using False by simp
  qed
qed

lemma four2five_runs:
  assumes u: "cube_unit ex" and e: "unit_ok env q" and pos: "0 < sn" "0 < sc" "0 < h" "0 < w"
    and ok: "four2five_ok q sn (h * w)" and dt: "buf_dtype inp = ''float16''" "buf_dtype out = ''float16''"
    and nm: "plain_name (sfx + 1) inp" "plain_name (sfx + 1) out" and io: "buf_name inp \<noteq> buf_name out"
    and f: "fresh_unit st"
  shows "\<exists>cs. four2five_ir env sfx inp (sn, sc, h, w) out = Inr cs
    \<and> (\<forall>a\<in>channel_cells sn sc (h * w). gm (run_calls ex cs st) (buf_name out) a
        = nc1hwc0_at sc (h * w) (gm st (buf_name inp)) a)
    \<and> (\<forall>b. b \<noteq> buf_name out \<longrightarrow> gm (run_calls ex cs st) b = gm st b)"
proof -
  have hw: "0 < h * w" using pos by simp
  obtain t where t: "make_tiling env (h * w) True = Inr t" using make_tiling_total [OF e hw] by blast
  let ?prelude_ok = "kernel_setup env (sfx + 1) inp out (cube_buf_max t) (cube_col_size t) 16"
  let ?body = "four2five_intrin env (sfx + 1) t inp (sn, sc, h, w) out 16 0 (c1_loop sc)
      @ (if sc mod 16 \<noteq> 0 then four2five_intrin env (sfx + 1) t inp (sn, sc, h, w) out (sc mod 16) (c1_loop sc) (c1_range sc) else [])"
  have ir: "four2five_ir env sfx inp (sn, sc, h, w) out = Inr (?prelude_ok @ ?body)"
    by (simp add: four2five_ir_def t Let_def bindE_simps)
  obtain st1 where st1: "run_calls ex ?prelude_ok st = st1" "gm st1 = gm st"
      "placed (sfx + 1) inp out (cube_buf_max t) (cube_col_size t) 16 st1"
    using setup_run [OF u f dt nm, of env "cube_buf_max t" "cube_col_size t" 16] e unfolding unit_ok_def by blast
  have src: "gm st1 (buf_name inp) = gm st (buf_name inp)" by (simp only: st1(2))
  obtain v g where run: "run_calls ex ?body st1 = st1\<lparr>ub := v, gm := (gm st1)(buf_name out := g)\<rparr>"
    and g: "\<And>a. a \<in> channel_cells sn sc (h * w) \<Longrightarrow> g a = nc1hwc0_at sc (h * w) (gm st (buf_name inp)) a"
    by (rule writesD [OF four2five_body_writes [OF u e hw ok t dt less_imp_le [OF pos(1)] pos(2) io] st1(3) src]) (rule that)
  have "run_calls ex (?prelude_ok @ ?body) st = st1\<lparr>ub := v, gm := (gm st1)(buf_name out := g)\<rparr>"
    unfolding run_calls_simps(3) [of _ ?prelude_ok] st1(1) run ..
  then show ?thesis using ir g st1(2) by (intro exI [of _ "?prelude_ok @ ?body"]) simp
qed


section \<open>The kernel agrees with the definition of debug mode\<close>

lemma nc1hwc0_index:
  assumes c: "0 \<le> c1" "c1 < c1_range sc" and c0: "0 \<le> c0" "c0 < 16" and k: "c0 + c1 * 16 < sc"
    and x: "0 \<le> x" "x < hw" and n: "0 \<le> n" "n < sn"
    and a: "a = ((n * c1_range sc + c1) * hw + x) * 16 + c0"
  shows "a \<in> channel_cells sn sc hw" and "nc1hwc0_at sc hw src a = src ((n * sc + (c0 + c1 * 16)) * hw + x)"
proof -
  let ?b = "n * c1_range sc + c1"
  have a': "a = 16 * hw * ?b + (16 * x + c0)" "0 \<le> 16 * x + c0" "16 * x + c0 < 16 * hw"
    using c0 x by (simp_all add: a algebra_simps)
  note d = int_div_pos_eq [OF a'] and m = int_mod_pos_eq [OF a']
  have b: "?b div c1_range sc = n" "?b mod c1_range sc = c1" using c by (simp_all add: div_pos_pos_trivial)
  have y: "(16 * x + c0) mod 16 = c0" "(16 * x + c0) div 16 = x" using c0 by simp_all
  have lt: "?b < sn * c1_range sc"
  proof -
    have "(n + 1) * c1_range sc \<le> sn * c1_range sc" using n c by (intro mult_right_mono) simp_all
    then show ?thesis using c by (simp add: algebra_simps)
  qed
  have "(?b + 1) * (16 * hw) \<le> sn * c1_range sc * (16 * hw)" using lt x by (intro mult_right_mono) simp_all
  then have "a < sn * c1_range sc * (16 * hw)" using a'(1,3) by (simp add: algebra_simps)
  moreover have "0 \<le> ?b" using n c by simp
  then have "0 \<le> a" using a'(1,2) x by simp
  moreover have "a \<in> block_cells sc hw (a div (16 * hw))" unfolding block_cells_def mem_Collect_eq d m b y using k by simp
  ultimately show "a \<in> channel_cells sn sc hw" unfolding channel_cells_def by blast
  show "nc1hwc0_at sc hw src a = src ((n * sc + (c0 + c1 * 16)) * hw + x)"
    unfolding nc1hwc0_at_def Let_def d m b y by (simp add: add.commute)
qed

lemma four2five_kernel:
  assumes "cube_unit ex" and "unit_ok env q" and "0 < sn" and "0 < sc" and "0 < h" and "0 < w"
    and "four2five_ok q sn (h * w)" and "buf_dtype inp = ''float16''" and "buf_dtype out = ''float16''"
    and "plain_name (sfx + 1) inp" and "plain_name (sfx + 1) out" and "buf_name inp \<noteq> buf_name out"
    and "fresh_unit st"
    and "0 \<le> n" and "n < sn" and "0 \<le> c1" and "0 \<le> c0" and "c0 < 16" and "c0 + c1 * 16 < sc"
    and "0 \<le> y" and "y < h" and "0 \<le> x" and "x < w"
  shows "\<exists>cs. four2five_ir env sfx inp (sn, sc, h, w) out = Inr cs
    \<and> gm (run_calls ex cs st) (buf_name out) ((((n * c1_range sc + c1) * h + y) * w + x) * 16 + c0)
      = convert_4d_to_5d_for_protogenes (sn, sc, h, w) (\<lambda>n c y x. gm st (buf_name inp) (((n * sc + c) * h + y) * w + x))
          zero n c1 y x c0
    \<and> (\<forall>b. b \<noteq> buf_name out \<longrightarrow> gm (run_calls ex cs st) b = gm st b)"
proof -
  let ?a = "(((n * c1_range sc + c1) * h + y) * w + x) * 16 + c0" and ?x = "y * w + x"
  have "(y + 1) * w \<le> h * w" using assms by (intro mult_right_mono) simp_all
  then have x: "0 \<le> ?x" "?x < h * w" using assms by (simp_all add: algebra_simps)
  have r: "c1 < c1_range sc"
    using assms c1_facts [OF \<open>0 < sc\<close>] div_less_pos [of 16 "c1 * 16" "c1_range sc"] unfolding c1_range_def by linarith
  have a: "?a = ((n * c1_range sc + c1) * (h * w) + ?x) * 16 + c0" by (simp add: algebra_simps)
  note i = nc1hwc0_index [OF \<open>0 \<le> c1\<close> r \<open>0 \<le> c0\<close> \<open>c0 < 16\<close> \<open>c0 + c1 * 16 < sc\<close> x \<open>0 \<le> n\<close> \<open>n < sn\<close> a]
  have "((n * sc + (c0 + c1 * 16)) * h + y) * w + x = (n * sc + (c0 + c1 * 16)) * (h * w) + ?x" by (simp add: algebra_simps)
  then have e: "nc1hwc0_at sc (h * w) (gm st (buf_name inp)) ?a
    = convert_4d_to_5d_for_protogenes (sn, sc, h, w) (\<lambda>n c y x. gm st (buf_name inp) (((n * sc + c) * h + y) * w + x)) zero n c1 y x c0"
    unfolding convert_4d_to_5d_for_protogenes_def i(2) fst_conv snd_conv if_P [OF assms(19)] by (rule arg_cong [OF sym])
  obtain cs where cs: "four2five_ir env sfx inp (sn, sc, h, w) out = Inr cs"
    "\<forall>a\<in>channel_cells sn sc (h * w). gm (run_calls ex cs st) (buf_name out) a = nc1hwc0_at sc (h * w) (gm st (buf_name inp)) a"
    "\<forall>b. b \<noteq> buf_name out \<longrightarrow> gm (run_calls ex cs st) b = gm st b"
    using four2five_runs [OF assms(1-13)] by (elim exE conjE)
  show ?thesis
  proof (rule exI [of _ cs], intro conjI cs(1,3))
    show "gm (run_calls ex cs st) (buf_name out) ?a = convert_4d_to_5d_for_protogenes (sn, sc, h, w)
        (\<lambda>n c y x. gm st (buf_name inp) (((n * sc + c) * h + y) * w + x)) zero n c1 y x c0"
      using bspec [OF cs(2) i(1)] unfolding e .
  qed
qed


text \<open>C1. The kernel from \<open>NCHW\<close> to \<open>NC1HWC0\<close>, run on a device with the documented behaviour, leaves in
  every cell of the output that belongs to a channel of the input the value that the debug definition of
  the same conversion gives, and changes no other buffer: for every shape whose plane fits one tile, and
  for a single image with larger planes whose last tile is not empty.\<close>

theorem four2five_correct:
  assumes "cube_unit ex" and "unit_ok env q" and "0 < sn" and "0 < sc" and "0 < h" and "0 < w"
    and "four2five_ok q sn (h * w)" and "buf_dtype inp = ''float16''" and "buf_dtype out = ''float16''"
    and "plain_name (sfx + 1) inp" and "plain_name (sfx + 1) out" and "buf_name inp \<noteq> buf_name out"
    and "fresh_unit st"
    and "0 \<le> n" and "n < sn" and "0 \<le> c1" and "0 \<le> c0" and "c0 < 16" and "c0 + c1 * 16 < sc"
    and "0 \<le> y" and "y < h" and "0 \<le> x" and "x < w"
  shows "\<exists>cs. four2five_ir env sfx inp (sn, sc, h, w) out = Inr cs
    \<and> gm (run_calls ex cs st) (buf_name out) ((((n * c1_range sc + c1) * h + y) * w + x) * 16 + c0)
      = convert_4d_to_5d_for_protogenes (sn, sc, h, w) (\<lambda>n c y x. gm st (buf_name inp) (((n * sc + c) * h + y) * w + x))
          zero n c1 y x c0
    \<and> (\<forall>b. b \<noteq> buf_name out \<longrightarrow> gm (run_calls ex cs st) b = gm st b)"
  by (rule four2five_kernel [OF assms])

section \<open>Examples\<close>

definition unit_env :: "int \<Rightarrow> tvm_env" where
  "unit_env n = \<lparr>soc_spec = (\<lambda>_. n), bit_len = (\<lambda>_. 16), dma_sid = (\<lambda>_. 9), scope_reg = ''local.REG''\<rparr>"

definition half_tensor :: "string \<Rightarrow> kbuffer" where
  "half_tensor nm = \<lparr>buf_name = nm, buf_dtype = ''float16''\<rparr>"

definition start_state :: "int cstate" where
  "start_state = \<lparr>gm = (\<lambda>b a. if b = ''data'' then a else - 1), ub = (\<lambda>_. 0), ub_base = (\<lambda>_. None), ub_top = 0,
     areg = (\<lambda>_. 0), va = (\<lambda>_ _. 0)\<rparr>"

lemma unit_env_ok: "0 < q \<Longrightarrow> q < 8192 \<Longrightarrow> unit_ok (unit_env (1024 * q)) q"
  by (simp add: unit_ok_def unit_env_def plain_env_def startswith_iff)

lemma four2five_correct_witness:
  "\<exists>cs. four2five_ir (unit_env 253952) 0 (half_tensor ''data'') (2, 20, 3, 5) (half_tensor ''res'') = Inr cs
     \<and> gm (run_calls cube_ex cs start_state) ''res'' 947 = 599"
proof -
  have "hex_digits 1 = ''1''" by code_simp
  then have nm: "plain_name (0 + 1) (half_tensor ''data'')" "plain_name (0 + 1) (half_tensor ''res'')"
    by (simp_all add: plain_name_def half_tensor_def endswith_iff py_hex_def)
  have "unit_ok (unit_env 253952) 248" using unit_env_ok [of 248] by simp
  from four2five_correct [OF cube_unit_ex this, of 2 20 3 5 "half_tensor ''data''" "half_tensor ''res''" 0 start_state 1 1 3 2 4 0]
  show ?thesis using nm
    by (auto simp: four2five_ok_def blocks_def half_tensor_def start_state_def fresh_unit_def c1_range_def
        convert_4d_to_5d_for_protogenes_def)
qed

text \<open>A full tile of an image is read at \<^verbatim>\<open>idx_n * shape_n * shape_n * shape_n\<close>: with two images of 16 channels
  and planes of 40 elements the second image starts at 640, but its first row is read at 8.\<close>

lemma full_tile_of_second_image:
  "\<exists>t. make_tiling (unit_env 2048) 40 True = Inr t
     \<and> hd (four2five_tile (unit_env 2048) 1 t (half_tensor ''data'') (2, 16, 5, 8) (half_tensor ''res'') 16 0 1 0 0)
       = copy_call ''copy_gm_to_ubuf'' (ub_buffer 1 ''float16'' ''input_ub'') 0 (half_tensor ''data'') 8 9 2"
  by (simp add: make_tiling_def get_vnchwconv_cube_buf_max_def unit_env_def four2five_tile_def half_tensor_def
      for_range_def upto.simps emit_copy_gm_ubuf_def copy_call_def Let_def)

text \<open>A plane of 64 elements with tiles of 32: the size of the last tile is computed as 0, so that the last
  tile is neither read nor written.\<close>

lemma last_tile_lost:
  "\<exists>t. make_tiling (unit_env 2048) 64 True = Inr t \<and> buf_cube_range t = 2
     \<and> four2five_tile (unit_env 2048) 1 t (half_tensor ''data'') (1, 16, 8, 8) (half_tensor ''res'') 16 0 0 0 1
       = [scatter 0 16 1]"
  by (simp add: make_tiling_def get_vnchwconv_cube_buf_max_def unit_env_def four2five_tile_def half_tensor_def
      for_range_def emit_copy_gm_ubuf_def strides_def Let_def)

end
