(* ===== verification/Dim_Five2four.thy ===== *)
theory Dim_Five2four
  imports Dim_Four2five
begin

text \<open>
  The kernel from \<open>NC1HWC0\<close> back to \<open>NCHW\<close>. Rows of a plane are written as whole blocks of 16 elements, so
  that a row that is no multiple of 16 spills into the next one: rows written later repair it, and in the
  last tile of a larger plane the heads of the rows are saved before and restored after the copy.
\<close>

section \<open>One tile\<close>

text \<open>What is written by a tile: rows of \<open>n\<close> elements, 16 at most for the heads.\<close>

lemma row_digits:
  assumes "b + c * hw + x = b + c' * hw + (x' :: int)" and "0 \<le> x" "x < hw" "0 \<le> x'" "x' < hw"
  shows "c = c' \<and> x = x'"
proof -
  have "hw * c + x = hw * c' + x'" using assms(1) by (simp add: mult.commute)
  then have "(hw * c + x) div hw = (hw * c' + x') div hw" "(hw * c + x) mod hw = (hw * c' + x') mod hw" by simp_all
  then show ?thesis using assms by simp
qed

definition five2four_in :: "tvm_env \<Rightarrow> nat \<Rightarrow> kbuffer \<Rightarrow> int \<Rightarrow> int \<Rightarrow> kcall list" where
  "five2four_in env sfx inp R s =
     emit_copy_gm_ubuf env ''copy_gm_to_ubuf'' ''float16'' (256 * R) (ub_buffer sfx ''float16'' ''input_ub'') 0 inp s
     @ [scatter R (strides R 1) (strides R 16)]"

definition five2four_out :: "tvm_env \<Rightarrow> nat \<Rightarrow> kbuffer \<Rightarrow> string \<Rightarrow> int \<Rightarrow> int \<Rightarrow> int \<Rightarrow> int \<Rightarrow> int \<Rightarrow> kcall list" where
  "five2four_out env sfx out nm cs hw l n b =
     for_range l (\<lambda>col. emit_copy_gm_ubuf env ''copy_ubuf_to_gm'' ''float16'' n out (b + col * hw)
       (ub_buffer sfx ''float16'' nm) (col * cs))"

lemma tile_in:
  assumes u: "cube_unit ex" and e: "plain_env env" and p: "placed sfx inp out (16 * cs) 16 cs st"
    and R: "0 \<le> R" "16 * R \<le> cs" "cs < 2 ^ 17"
  shows "\<exists>v. run_calls ex (five2four_in env sfx inp R s) st = st\<lparr>ub := v\<rparr>
    \<and> (\<forall>x c. 0 \<le> x \<and> x < 16 * R \<and> 0 \<le> c \<and> c < 16 \<longrightarrow> v (16 * cs + c * cs + x) = gm st (buf_name inp) (s + 16 * x + c))"
proof -
  have base: "ub_base st (buf_name (ub_buffer sfx ''float16'' ''input_ub'')) = Some 0" "ub_base st (buf_name inp) = None"
    using p by (simp_all add: placed_def)
  have w: "0 \<le> 256 * R" "256 * R < 2 ^ 21" using R by simp_all
  have r: "round16 (256 * R) = 256 * R" using round16_mult(1) [of "16 * R"] by simp
  let ?v = "put_range (ub st) 0 (256 * R) (\<lambda>k. gm st (buf_name inp) (s + k))"
  have 1: "run_calls ex (emit_copy_gm_ubuf env ''copy_gm_to_ubuf'' ''float16'' (256 * R)
      (ub_buffer sfx ''float16'' ''input_ub'') 0 inp s) st = st\<lparr>ub := ?v\<rparr>"
    using run_copy_in [OF u e w base, of 0 s] by (simp add: r)
  have "placed sfx inp out (16 * cs) 16 cs (st\<lparr>ub := ?v\<rparr>)" using p by simp
  from scatter_five2four [OF u this R(1,2)] obtain v where
    2: "run_calls ex [scatter R (strides R 1) (strides R 16)] (st\<lparr>ub := ?v\<rparr>) = st\<lparr>ub := v\<rparr>"
    and v: "\<And>x c. 0 \<le> x \<Longrightarrow> x < 16 * R \<Longrightarrow> 0 \<le> c \<Longrightarrow> c < 16 \<Longrightarrow> v (16 * cs + cs * c + x) = ?v (16 * x + c)"
    by auto
  have "v (16 * cs + c * cs + x) = gm st (buf_name inp) (s + 16 * x + c)" if "0 \<le> x" "x < 16 * R" "0 \<le> c" "c < 16" for x c
    using v [of x c] that by (simp add: put_range_def mult.commute add.assoc)
  then show ?thesis unfolding five2four_in_def run_calls_simps(3) 1 2 by (intro exI [of _ v]) simp
qed

lemma tile_five2four:
  assumes u: "cube_unit ex" and e: "plain_env env" and p: "placed sfx inp out (16 * cs) 16 cs st"
    and R: "0 \<le> R" "16 * R \<le> cs" "cs < 2 ^ 17" and l: "0 \<le> l" "l \<le> 16" and n: "0 \<le> n" "n \<le> 16 * R" "n \<le> hw"
  shows "\<exists>v f. run_calls ex (five2four_in env sfx inp R s @ five2four_out env sfx out ''output_ub'' cs hw l n b) st
      = st\<lparr>ub := v, gm := (gm st)(buf_name out := f)\<rparr>
    \<and> (\<forall>c x. 0 \<le> c \<and> c < l \<and> 0 \<le> x \<and> x < n \<longrightarrow> f (b + c * hw + x) = gm st (buf_name inp) (s + 16 * x + c))
    \<and> (\<forall>a. a \<notin> row_cells b hw l (round16 n) \<longrightarrow> f a = gm st (buf_name out) a)"
proof -
  obtain v where 1: "run_calls ex (five2four_in env sfx inp R s) st = st\<lparr>ub := v\<rparr>"
    and v: "\<And>x c. 0 \<le> x \<Longrightarrow> x < 16 * R \<Longrightarrow> 0 \<le> c \<Longrightarrow> c < 16 \<Longrightarrow> v (16 * cs + c * cs + x) = gm st (buf_name inp) (s + 16 * x + c)"
    using tile_in [OF u e p R, of s] by blast
  have base: "ub_base (st\<lparr>ub := v\<rparr>) (buf_name out) = None"
    "ub_base (st\<lparr>ub := v\<rparr>) (buf_name (ub_buffer sfx ''float16'' ''output_ub'')) = Some (16 * cs)"
    using p by (simp_all add: placed_def)
  have n': "n < 2 ^ 21" using n R by simp
  obtain f where 2: "run_calls ex (five2four_out env sfx out ''output_ub'' cs hw l n b) (st\<lparr>ub := v\<rparr>)
      = st\<lparr>ub := v, gm := (gm st)(buf_name out := f)\<rparr>"
    and f: "\<And>c x. 0 \<le> c \<Longrightarrow> c < l \<Longrightarrow> 0 \<le> x \<Longrightarrow> x < n \<Longrightarrow> f (b + c * hw + x) = v (16 * cs + c * cs + x)"
    and old: "\<And>a. a \<notin> row_cells b hw l (round16 n) \<Longrightarrow> f a = gm st (buf_name out) a"
    using rows_out [OF u e n(1) n' l(1) n(3) base, of b cs] unfolding five2four_out_def by auto
  show ?thesis
  proof (rule exI [of _ v], rule exI [of _ f], intro conjI allI impI)
    show "run_calls ex (five2four_in env sfx inp R s @ five2four_out env sfx out ''output_ub'' cs hw l n b) st
      = st\<lparr>ub := v, gm := (gm st)(buf_name out := f)\<rparr>"
      unfolding run_calls_simps(3) 1 2 ..
    show "f (b + c * hw + x) = gm st (buf_name inp) (s + 16 * x + c)" if "0 \<le> c \<and> c < l \<and> 0 \<le> x \<and> x < n" for c x
      using f [of c x] v [of x c] that l n by simp
  qed (rule old)
qed


text \<open>The last tile of a larger plane whose rows are no multiple of 16.\<close>

definition five2four_save :: "tvm_env \<Rightarrow> nat \<Rightarrow> kbuffer \<Rightarrow> int \<Rightarrow> int \<Rightarrow> int \<Rightarrow> kcall list" where
  "five2four_save env sfx out hw l b =
     for_range l (\<lambda>col. emit_copy_gm_ubuf env ''copy_gm_to_ubuf'' ''float16'' 16
       (ub_buffer sfx ''float16'' ''output_head_ub'') (col * 16) out (b + col * hw))"

lemma tile_five2four_head:
  assumes u: "cube_unit ex" and e: "plain_env env" and p: "placed sfx inp out (16 * cs) 16 cs st"
    and hd: "ub_base st (buf_name (ub_buffer sfx ''float16'' ''output_head_ub'')) = Some (32 * cs)"
    and R: "0 \<le> R" "16 * R \<le> cs" "cs < 2 ^ 17" and l: "0 \<le> l" "l \<le> 16" and n: "0 \<le> n" "n \<le> 16 * R"
    and x0: "16 \<le> x0" "x0 + n = hw"
  shows "\<exists>v f. run_calls ex (five2four_in env sfx inp R s @ five2four_save env sfx out hw l b
        @ five2four_out env sfx out ''output_ub'' cs hw l n (b + x0) @ five2four_out env sfx out ''output_head_ub'' 16 hw l 16 b) st
      = st\<lparr>ub := v, gm := (gm st)(buf_name out := f)\<rparr>
    \<and> (\<forall>c x. 0 \<le> c \<and> c < l \<and> 0 \<le> x \<and> x < n \<longrightarrow> f (b + x0 + c * hw + x) = gm st (buf_name inp) (s + 16 * x + c))
    \<and> (\<forall>a. a \<notin> row_cells (b + x0) hw l (round16 n) - row_cells b hw l 16 \<longrightarrow> f a = gm st (buf_name out) a)"
proof -
  obtain v where 1: "run_calls ex (five2four_in env sfx inp R s) st = st\<lparr>ub := v\<rparr>"
    and v: "\<And>x c. 0 \<le> x \<Longrightarrow> x < 16 * R \<Longrightarrow> 0 \<le> c \<Longrightarrow> c < 16 \<Longrightarrow> v (16 * cs + c * cs + x) = gm st (buf_name inp) (s + 16 * x + c)"
    using tile_in [OF u e p R, of s] by blast
  let ?head = "ub_buffer sfx ''float16'' ''output_head_ub''" and ?old = "gm st (buf_name out)"
  have r16: "round16 16 = 16" using round16_mult(1) [of 1] by simp
  have lim: "0 \<le> (16 :: int)" "(16 :: int) < 2 ^ 21" "round16 16 \<le> 16" by (simp_all add: r16)
  have base: "ub_base (st\<lparr>ub := v\<rparr>) (buf_name ?head) = Some (32 * cs)" "ub_base (st\<lparr>ub := v\<rparr>) (buf_name out) = None"
    using p hd by (simp_all add: placed_def)
  obtain w where 2: "run_calls ex (five2four_save env sfx out hw l b) (st\<lparr>ub := v\<rparr>) = st\<lparr>ub := w\<rparr>"
    and w: "\<And>c x. 0 \<le> c \<Longrightarrow> c < l \<Longrightarrow> 0 \<le> x \<Longrightarrow> x < 16 \<Longrightarrow> w (32 * cs + (16 * c + x)) = ?old (b + c * hw + x)"
    and wv: "\<And>a. a < 32 * cs \<Longrightarrow> w a = v a"
    using rows_in [OF u e lim(1,2) l(1) lim(3) base, of b hw] unfolding five2four_save_def r16 by auto
  have base: "ub_base (st\<lparr>ub := w\<rparr>) (buf_name out) = None"
    "ub_base (st\<lparr>ub := w\<rparr>) (buf_name (ub_buffer sfx ''float16'' ''output_ub'')) = Some (16 * cs)"
    using p by (simp_all add: placed_def)
  have n': "n < 2 ^ 21" "n \<le> hw" "16 \<le> hw" using n R x0 by simp_all
  obtain f where 3: "run_calls ex (five2four_out env sfx out ''output_ub'' cs hw l n (b + x0)) (st\<lparr>ub := w\<rparr>)
      = st\<lparr>ub := w, gm := (gm st)(buf_name out := f)\<rparr>"
    and f: "\<And>c x. 0 \<le> c \<Longrightarrow> c < l \<Longrightarrow> 0 \<le> x \<Longrightarrow> x < n \<Longrightarrow> f (b + x0 + c * hw + x) = w (16 * cs + c * cs + x)"
    and old: "\<And>a. a \<notin> row_cells (b + x0) hw l (round16 n) \<Longrightarrow> f a = ?old a"
    using rows_out [OF u e n(1) n'(1) l(1) n'(2) base, of "b + x0" cs] unfolding five2four_out_def by auto
  let ?st = "st\<lparr>ub := w, gm := (gm st)(buf_name out := f)\<rparr>"
  have base: "ub_base ?st (buf_name out) = None" "ub_base ?st (buf_name ?head) = Some (32 * cs)"
    using p hd by (simp_all add: placed_def)
  obtain g where 4: "run_calls ex (five2four_out env sfx out ''output_head_ub'' 16 hw l 16 b) ?st
      = st\<lparr>ub := w, gm := (gm st)(buf_name out := g)\<rparr>"
    and g: "\<And>c x. 0 \<le> c \<Longrightarrow> c < l \<Longrightarrow> 0 \<le> x \<Longrightarrow> x < 16 \<Longrightarrow> g (b + c * hw + x) = w (32 * cs + c * 16 + x)"
    and keep: "\<And>a. a \<notin> row_cells b hw l 16 \<Longrightarrow> g a = f a"
    using rows_out [OF u e lim(1,2) l(1) n'(3) base, of b 16] unfolding five2four_out_def r16 by auto
  show ?thesis
  proof (rule exI [of _ w], rule exI [of _ g], intro conjI allI impI)
    show "run_calls ex (five2four_in env sfx inp R s @ five2four_save env sfx out hw l b
        @ five2four_out env sfx out ''output_ub'' cs hw l n (b + x0) @ five2four_out env sfx out ''output_head_ub'' 16 hw l 16 b) st
      = st\<lparr>ub := w, gm := (gm st)(buf_name out := g)\<rparr>"
      unfolding run_calls_simps(3) 1 2 3 4 ..
  next
    fix c x assume c: "0 \<le> c \<and> c < l \<and> 0 \<le> x \<and> x < n"
    have "b + x0 + c * hw + x \<notin> row_cells b hw l 16"
    proof
      assume "b + x0 + c * hw + x \<in> row_cells b hw l 16"
      then obtain c' x' where d': "b + x0 + c * hw + x = b + c' * hw + x'" and d: "0 \<le> x'" "x' < 16"
        unfolding row_cells_def by blast
      from d' have "b + c * hw + (x0 + x) = b + c' * hw + x'" by simp
      note d = this d
      from row_digits [OF d(1)] d(2,3) c x0 n'(3) show False by auto
    qed
    then have "g (b + x0 + c * hw + x) = w (16 * cs + c * cs + x)" using keep f c by simp
    also have "c * cs \<le> 15 * cs" using c l R by (intro mult_right_mono) simp_all
    then have "w (16 * cs + c * cs + x) = v (16 * cs + c * cs + x)" using c n R by (intro wv) linarith
    finally show "g (b + x0 + c * hw + x) = gm st (buf_name inp) (s + 16 * x + c)" using v [of x c] c l n by simp
  next
    fix a assume a: "a \<notin> row_cells (b + x0) hw l (round16 n) - row_cells b hw l 16"
    show "g a = ?old a"
    proof (cases "a \<in> row_cells b hw l 16")
      case True
      then obtain c x where "0 \<le> c" "c < l" "0 \<le> x" "x < 16" "a = b + c * hw + x" unfolding row_cells_def by blast
      then show ?thesis using g [of c x] w [of c x] by (simp add: mult.commute add.assoc)
    next
      case False
      then show ?thesis using keep old a by simp
    qed
  qed
qed


section \<open>The tiles of a plane\<close>

text \<open>The number of blocks of 16 in a full tile: room is kept for the heads when the plane is no multiple of 16.\<close>

definition tile_blocks :: "int \<Rightarrow> int \<Rightarrow> int" where
  "tile_blocks q hw = (if hw mod 16 = 0 then q else q - 1)"

definition tiles_ok :: "int \<Rightarrow> int \<Rightarrow> bool" where
  "tiles_ok q hw \<longleftrightarrow> blocks hw \<le> q \<or> 0 < tile_blocks q hw \<and> blocks hw mod tile_blocks q hw \<noteq> 0"

lemma tiling_back_many:
  assumes "soc_spec env ''UB_SIZE'' = 1024 * q" and p: "p = tile_blocks q hw" "0 < p" and "q < blocks hw"
  shows "make_tiling env hw False = Inr \<lparr>cube_buf_max = 256 * p, tail_cube_size = 256 * (blocks hw mod p),
    cube_col_size = 16 * p, buf_cube_range = (hw + 16 * p - 1) div (16 * p)\<rparr>"
proof -
  have "512 * blocks hw mod (512 * p) div 2 = 256 * (blocks hw mod p)" by (simp add: mod_mult_mult1)
  moreover have "(1024 * q - 512) div 2 div (2 * 16 * 16) * (2 * 16 * 16) = 512 * (q - 1)" for q :: int
  proof -
    have "(1024 * q - 512) div 2 = 512 * (q - 1) + 256" by simp
    moreover have "(512 * (q - 1) + 256) div 512 = q - 1" by (rule int_div_pos_eq [OF refl]) simp_all
    ultimately show ?thesis by simp
  qed
  then have "(if hw mod 16 \<noteq> 0 then (1024 * q - 512) div 2 div (2 * 16 * 16) * (2 * 16 * 16) else 1024 * q div 2) = 512 * p"
    using p(1) by (simp add: tile_blocks_def)
  ultimately have "get_vnchwconv_cube_buf_max env hw False = Inr (256 * p, 256 * (blocks hw mod p))"
    using assms unfolding get_vnchwconv_cube_buf_max_def Let_def blocks_def [symmetric]
    by (simp only: not_False_eq_True simp_thms) (simp add: mult.commute)
  then show ?thesis using p(2) by (simp add: make_tiling_def Let_def)
qed

text \<open>What a tile of a block executes.\<close>

lemma five2four_plainI:
  "rep = R \<Longrightarrow> sz = 256 * R \<Longrightarrow> off = s \<Longrightarrow> n = m \<Longrightarrow> (\<And>col. rw col = b + col * hw) \<Longrightarrow>
    emit_copy_gm_ubuf env ''copy_gm_to_ubuf'' ''float16'' sz (ub_buffer sfx ''float16'' ''input_ub'') 0 inp off
      @ [scatter rep (strides rep 1) (strides rep 16)]
      @ for_range l (\<lambda>col. emit_copy_gm_ubuf env ''copy_ubuf_to_gm'' ''float16'' n out (rw col)
          (ub_buffer sfx ''float16'' ''output_ub'') (col * cs))
    = five2four_in env sfx inp R s @ five2four_out env sfx out ''output_ub'' cs hw l m b"
  by (simp add: five2four_in_def five2four_out_def)

lemma five2four_headI:
  "rep = R \<Longrightarrow> sz = 256 * R \<Longrightarrow> off = s \<Longrightarrow> n = m \<Longrightarrow> (\<And>col. rw col = b + col * hw) \<Longrightarrow> (\<And>col. rh col = b0 + col * hw) \<Longrightarrow>
    emit_copy_gm_ubuf env ''copy_gm_to_ubuf'' ''float16'' sz (ub_buffer sfx ''float16'' ''input_ub'') 0 inp off
      @ [scatter rep (strides rep 1) (strides rep 16)]
      @ for_range l (\<lambda>col. emit_copy_gm_ubuf env ''copy_gm_to_ubuf'' ''float16'' 16
          (ub_buffer sfx ''float16'' ''output_head_ub'') (col * 16) out (rh col))
      @ for_range l (\<lambda>col. emit_copy_gm_ubuf env ''copy_ubuf_to_gm'' ''float16'' n out (rw col)
          (ub_buffer sfx ''float16'' ''output_ub'') (col * cs))
      @ for_range l (\<lambda>col. emit_copy_gm_ubuf env ''copy_ubuf_to_gm'' ''float16'' 16 out (rh col)
          (ub_buffer sfx ''float16'' ''output_head_ub'') (col * 16))
    = five2four_in env sfx inp R s @ five2four_save env sfx out hw l b0
      @ five2four_out env sfx out ''output_ub'' cs hw l m b @ five2four_out env sfx out ''output_head_ub'' 16 hw l 16 b0"
  by (simp add: five2four_in_def five2four_out_def five2four_save_def)

lemma five2four_tile_cases:
  assumes e: "unit_ok env q" and hw: "0 < h * w" and ok: "tiles_ok q (h * w)"
    and t: "make_tiling env (h * w) False = Inr t" and dt: "buf_dtype inp = ''float16''" "buf_dtype out = ''float16''"
    and i: "0 \<le> i" "i < buf_cube_range t"
  obtains R m where "0 \<le> R" "16 * R \<le> cube_col_size t" "cube_col_size t < 2 ^ 17" "0 \<le> m" "m \<le> 16 * R"
    "i * cube_col_size t + m = min ((i + 1) * cube_col_size t) (h * w)" "i * cube_col_size t + m < h * w \<longrightarrow> m mod 16 = 0"
    "(five2four_tile env sfx t inp (sn, sc, h, w) out l cb n k i
        = five2four_in env sfx inp R ((n * c1_range sc + (k + cb)) * (16 * (h * w)) + i * (16 * cube_col_size t))
          @ five2four_out env sfx out ''output_ub'' (cube_col_size t) (h * w) l m ((n * sc + (k + cb) * 16) * (h * w) + i * cube_col_size t)
      \<and> (m mod 16 = 0 \<or> buf_cube_range t = 1))
    \<or> (five2four_tile env sfx t inp (sn, sc, h, w) out l cb n k i
        = five2four_in env sfx inp R ((n * c1_range sc + (k + cb)) * (16 * (h * w)) + i * (16 * cube_col_size t))
          @ five2four_save env sfx out (h * w) l ((n * sc + (k + cb) * 16) * (h * w))
          @ five2four_out env sfx out ''output_ub'' (cube_col_size t) (h * w) l m ((n * sc + (k + cb) * 16) * (h * w) + i * cube_col_size t)
          @ five2four_out env sfx out ''output_head_ub'' 16 (h * w) l 16 ((n * sc + (k + cb) * 16) * (h * w))
      \<and> 16 \<le> i * cube_col_size t \<and> i * cube_col_size t + m = h * w
      \<and> h * w mod cube_col_size t mod 16 \<noteq> 0 \<and> 1 < buf_cube_range t)"
proof -
  let ?hw = "h * w" and ?k = "blocks (h * w)" and ?cs = "cube_col_size t" and ?p = "tile_blocks q (h * w)"
  let ?s = "(n * c1_range sc + (k + cb)) * (16 * ?hw)" and ?b = "(n * sc + (k + cb) * 16) * ?hw"
  have q: "0 < q" "q < 8192" "soc_spec env ''UB_SIZE'' = 1024 * q" using e by (simp_all add: unit_ok_def)
  note kb = blocks_bounds(1) [OF hw] blocks_bounds(2,3) [of ?hw]
  show thesis
  proof (cases "?k \<le> q")
    case True
    have tt: "t = \<lparr>cube_buf_max = 256 * ?k, tail_cube_size = 0, cube_col_size = 16 * ?k, buf_cube_range = 1\<rparr>"
      using t tiling_single [OF q(3) hw True] by simp
    have i0: "i = 0" using i tt by simp
    have small: "?hw mod (16 * ?k) = ?hw" if "?hw \<noteq> 16 * ?k"
      by (rule mod_pos_pos_trivial) (use that kb hw in linarith)+
    have tile: "five2four_tile env sfx t inp (sn, sc, h, w) out l cb n k i
      = five2four_in env sfx inp ?k (?s + i * (16 * ?cs)) @ five2four_out env sfx out ''output_ub'' ?cs ?hw l ?hw (?b + i * ?cs)"
    proof (cases "?hw mod (16 * ?k) = 0")
      case True
      have "?hw = 16 * ?k"
      proof (rule ccontr)
        assume "?hw \<noteq> 16 * ?k"
        from small [OF this] True hw show False by linarith
      qed
      show ?thesis
        unfolding five2four_tile_def Let_def prod.case dt tt tiling.simps if_not_P [OF less_irrefl [of "1 :: int"]] if_P [OF True]
        by (rule five2four_plainI) (use \<open>?hw = 16 * ?k\<close> in \<open>simp_all add: i0 algebra_simps\<close>)
    next
      case False
      have "?hw mod (16 * ?k) = ?hw"
      proof (rule small)
        show "?hw \<noteq> 16 * ?k" using False by (metis mod_self)
      qed
      show ?thesis
        unfolding five2four_tile_def Let_def prod.case dt tt tiling.simps if_not_P [OF less_irrefl [of "1 :: int"]] if_not_P [OF False]
        by (rule five2four_plainI) (use \<open>?hw mod (16 * ?k) = ?hw\<close> in \<open>simp_all add: i0 algebra_simps\<close>)
    qed
    show thesis
      by (rule that [of ?k ?hw]) (use kb True q(2) tile in \<open>simp_all add: tt i0\<close>)
  next
    case False
    then have p: "0 < ?p" "?k mod ?p \<noteq> 0" "?p \<le> q" using ok by (auto simp: tiles_ok_def tile_blocks_def)
    note d = blocks_div [OF p(1) hw p(2)]
    have kp: "0 < ?k mod ?p" "?k mod ?p < ?p" using p(1,2) pos_mod_sign [of ?p ?k] pos_mod_bound [of ?p ?k] by linarith+
    have r: "(?hw + 16 * ?p - 1) div (16 * ?p) = ?hw div (16 * ?p) + 1"
      by (rule range_of_tiles) (use p(1) hw d kp in \<open>linarith+\<close>)
    have tt: "t = \<lparr>cube_buf_max = 256 * ?p, tail_cube_size = 256 * (?k mod ?p), cube_col_size = 16 * ?p,
        buf_cube_range = ?hw div (16 * ?p) + 1\<rparr>"
      using t tiling_back_many [OF q(3) refl p(1)] False r by simp
    have "1 \<le> ?k div ?p" using False p(1,3) by (simp add: pos_imp_zdiv_pos_iff int_one_le_iff_zero_less)
    then have many: "1 < buf_cube_range t" using d by (simp add: tt)
    have cs: "?cs = 16 * ?p" by (simp add: tt)
    have lim: "16 * ?p < 2 ^ 17" using p(3) q(2) by simp
    show thesis
    proof (cases "i = buf_cube_range t - 1")
      case True
      then have last: "\<not> i \<noteq> buf_cube_range t - 1" by simp
      have ii: "i = ?hw div (16 * ?p)" using True by (simp add: tt)
      have hw_eq: "i * (16 * ?p) + ?hw mod (16 * ?p) = ?hw" unfolding ii by (rule div_mult_mod_eq)
      have "?hw mod (16 * ?p) < 16 * ?p" using p(1) by simp
      then have "(i + 1) * (16 * ?p) > ?hw" using hw_eq by (simp add: algebra_simps)
      then have m: "i * (16 * ?p) + ?hw mod (16 * ?p) = min ((i + 1) * (16 * ?p)) ?hw" using hw_eq by simp
      have off: "n * c1_range sc * 16 * h * w + (k + cb) * 16 * ?hw + i * (256 * ?p) = ?s + i * (16 * (16 * ?p))"
        "n * sc * h * w + (k + cb) * 16 * ?hw + col * ?hw + i * (16 * ?p) = ?b + i * (16 * ?p) + col * ?hw"
        "n * sc * h * w + (k + cb) * 16 * ?hw + col * ?hw = ?b + col * ?hw" for col by (simp_all add: algebra_simps)
      have rep: "256 * (?k mod ?p) div 16 div 16 = ?k mod ?p" by simp
      have R: "16 * (?k mod ?p) \<le> ?cs" "?cs < 2 ^ 17" "0 \<le> ?hw mod (16 * ?p)"
        unfolding cs using less_imp_le [OF kp(2)] lim p(1) pos_mod_sign [of "16 * ?p" ?hw] by linarith+
      have m5: "?hw mod (16 * ?p) \<le> 16 * (?k mod ?p)" using d by blast
      have m6: "i * ?cs + ?hw mod (16 * ?p) = min ((i + 1) * ?cs) ?hw" unfolding cs by (rule m)
      have m7: "i * ?cs + ?hw mod (16 * ?p) < ?hw \<longrightarrow> ?hw mod (16 * ?p) mod 16 = 0" unfolding cs hw_eq by simp
      show thesis
      proof (cases "?hw mod (16 * ?p) mod 16 = 0")
        case True
        have tile: "five2four_tile env sfx t inp (sn, sc, h, w) out l cb n k i
          = five2four_in env sfx inp (?k mod ?p) (?s + i * (16 * ?cs))
            @ five2four_out env sfx out ''output_ub'' ?cs ?hw l (?hw mod (16 * ?p)) (?b + i * ?cs)"
          unfolding five2four_tile_def Let_def prod.case dt tt tiling.simps
          unfolding if_P [OF many [unfolded tt tiling.simps]] if_not_P [OF last [unfolded tt tiling.simps]] if_P [OF True]
          by (rule five2four_plainI [OF rep refl off(1) refl off(2)])
        show thesis
          by (rule that [OF less_imp_le [OF kp(1)] R m5 m6 m7 disjI1 [OF conjI [OF tile disjI1 [OF True]]]])
      next
        case False
        have tile: "five2four_tile env sfx t inp (sn, sc, h, w) out l cb n k i
          = five2four_in env sfx inp (?k mod ?p) (?s + i * (16 * ?cs)) @ five2four_save env sfx out ?hw l ?b
            @ five2four_out env sfx out ''output_ub'' ?cs ?hw l (?hw mod (16 * ?p)) (?b + i * ?cs)
            @ five2four_out env sfx out ''output_head_ub'' 16 ?hw l 16 ?b"
          unfolding five2four_tile_def Let_def prod.case dt tt tiling.simps
          unfolding if_P [OF many [unfolded tt tiling.simps]] if_not_P [OF last [unfolded tt tiling.simps]] if_not_P [OF False]
          by (rule five2four_headI [OF rep refl off(1) refl off(2,3)])
        have "1 * (16 * ?p) \<le> i * (16 * ?p)" using many True p(1) by (intro mult_right_mono) (simp_all add: tt)
        then have "16 \<le> i * (16 * ?p)" using p(1) by linarith
        then show thesis
          by (intro that [OF less_imp_le [OF kp(1)] R m5 m6 m7] disjI2 conjI tile)
            (use False hw_eq many in \<open>simp_all only: cs not_False_eq_True\<close>)
      qed
    next
      case False': False
      then have "i + 1 \<le> ?hw div (16 * ?p)" using i by (simp add: tt)
      then have "(i + 1) * (16 * ?p) \<le> ?hw div (16 * ?p) * (16 * ?p)" using p(1) by (intro mult_right_mono) simp_all
      also have "\<dots> \<le> ?hw" using div_mult_mod_eq [of ?hw "16 * ?p"] pos_mod_sign [of "16 * ?p" ?hw] p(1) by linarith
      finally have m: "i * (16 * ?p) + 16 * ?p = min ((i + 1) * (16 * ?p)) ?hw" by (simp add: algebra_simps)
      have tile: "five2four_tile env sfx t inp (sn, sc, h, w) out l cb n k i
        = five2four_in env sfx inp ?p (?s + i * (16 * ?cs)) @ five2four_out env sfx out ''output_ub'' ?cs ?hw l (16 * ?p) (?b + i * ?cs)"
        unfolding five2four_tile_def Let_def prod.case dt tt tiling.simps
        unfolding if_P [OF many [unfolded tt tiling.simps]] if_P [OF False' [unfolded tt tiling.simps]]
        by (rule five2four_plainI) (simp_all add: algebra_simps)
      show thesis
      proof (rule that [OF _ _ _ _ order_refl _ _ disjI1 [OF conjI [OF tile disjI1]]])
        show "i * ?cs + 16 * ?p = min ((i + 1) * ?cs) ?hw" unfolding cs by (rule m)
      qed (use p(1) lim in \<open>simp_all add: cs\<close>)
    qed
  qed
qed


text \<open>The state in which the tiles run, and the value that belongs into a cell of the output.\<close>

definition ready_back :: "nat \<Rightarrow> kbuffer \<Rightarrow> kbuffer \<Rightarrow> int \<Rightarrow> bool \<Rightarrow> 'v cstate \<Rightarrow> bool" where
  "ready_back sfx inp out cs saved st \<longleftrightarrow> placed sfx inp out (16 * cs) 16 cs st
     \<and> (saved \<longrightarrow> ub_base st (buf_name (ub_buffer sfx ''float16'' ''output_head_ub'')) = Some (32 * cs))"

lemma stable_ready_back: "stable (ready_back sfx inp out cs saved)"
  by (auto simp: stable_def ready_back_def)

definition nchw_at :: "int \<Rightarrow> int \<Rightarrow> (int \<Rightarrow> 'v) \<Rightarrow> int \<Rightarrow> 'v" where
  "nchw_at sc hw src a = (let ch = a div hw in
     src (((ch div sc * c1_range sc + ch mod sc div 16) * hw + a mod hw) * 16 + ch mod sc mod 16))"

lemma nchw_at_row:
  assumes "0 \<le> x" "x < hw" and "0 \<le> c" "c < 16" and "0 \<le> k" "k * 16 + c < sc"
  shows "nchw_at sc hw src ((n * sc + k * 16) * hw + c * hw + x) = src (((n * c1_range sc + k) * hw + x) * 16 + c)"
proof -
  let ?ch = "n * sc + (k * 16 + c)"
  have a: "(n * sc + k * 16) * hw + c * hw + x = hw * ?ch + x" by (simp add: algebra_simps)
  have d: "((n * sc + k * 16) * hw + c * hw + x) div hw = ?ch" "((n * sc + k * 16) * hw + c * hw + x) mod hw = x"
    by (rule int_div_pos_eq [OF a assms(1,2)], rule int_mod_pos_eq [OF a assms(1,2)])
  have e: "?ch = sc * n + (k * 16 + c)" "0 \<le> k * 16 + c" using assms by simp_all
  have m: "?ch div sc = n" "?ch mod sc = k * 16 + c"
    by (rule int_div_pos_eq [OF e assms(6)], rule int_mod_pos_eq [OF e assms(6)])
  have k: "(k * 16 + c) div 16 = k" "(k * 16 + c) mod 16 = c" using assms(3,4) by simp_all
  show ?thesis unfolding nchw_at_def Let_def d m k ..
qed

text \<open>The cells that a tile changes leave those of the tiles before it out.\<close>

lemma touched_later:
  assumes m: "0 \<le> m" and x0: "16 \<le> x0" "x0 + m = hw"
  shows "row_cells (b + x0) hw l (round16 m) - row_cells b hw l 16 \<subseteq> row_cells (b + x0) hw l (round16 m) - row_cells b hw l x0"
proof
  fix a assume a: "a \<in> row_cells (b + x0) hw l (round16 m) - row_cells b hw l 16"
  then obtain c x where c: "0 \<le> c" "c < l" "0 \<le> x" "x < round16 m" "a = b + x0 + c * hw + x" unfolding row_cells_def by blast
  have x: "x < m + 16" using c(4) round16_bounds(2) [of m] by simp
  have "a \<notin> row_cells b hw l x0"
  proof
    assume "a \<in> row_cells b hw l x0"
    then obtain c' x' where c': "0 \<le> c'" "c' < l" "0 \<le> x'" "x' < x0" "a = b + c' * hw + x'" unfolding row_cells_def by blast
    show False
    proof (cases "x < m")
      case True
      have "b + c * hw + (x0 + x) = b + c' * hw + x'" using c(5) c'(5) by simp
      from row_digits [OF this] c c' True x0 show False by auto
    next
      case False
      have "b + (c + 1) * hw + (x - m) = b + c' * hw + x'" using c(5) c'(5) x0 by (simp add: algebra_simps)
      from row_digits [OF this] have e: "c + 1 = c'" "x - m = x'" using False x c' x0 m by auto
      have "a \<in> row_cells b hw l 16" unfolding row_cells_def
        using c' e x by (intro CollectI exI [of _ c'] exI [of _ x']) simp
      then show False using a by simp
    qed
  qed
  then show "a \<in> row_cells (b + x0) hw l (round16 m) - row_cells b hw l x0" using a by simp
qed

lemma touched_full:
  assumes "m mod 16 = 0" and "0 \<le> x0" "x0 + m \<le> hw"
  shows "row_cells (b + x0) hw l (round16 m) \<subseteq> row_cells (b + x0) hw l (round16 m) - row_cells b hw l x0"
proof
  fix a assume a: "a \<in> row_cells (b + x0) hw l (round16 m)"
  have "m = 16 * (m div 16)" using assms(1) div_mult_mod_eq [of m 16] by linarith
  then have "round16 m = m" by (metis round16_mult(1))
  then obtain c x where c: "0 \<le> c" "c < l" "0 \<le> x" "x < m" "a = b + x0 + c * hw + x" using a unfolding row_cells_def by auto
  have "a \<notin> row_cells b hw l x0"
  proof
    assume "a \<in> row_cells b hw l x0"
    then obtain c' x' where c': "0 \<le> c'" "c' < l" "0 \<le> x'" "x' < x0" "a = b + c' * hw + x'" unfolding row_cells_def by blast
    have "b + c * hw + (x0 + x) = b + c' * hw + x'" using c(5) c'(5) by simp
    from row_digits [OF this] c c' assms show False by auto
  qed
  then show "a \<in> row_cells (b + x0) hw l (round16 m) - row_cells b hw l x0" using a by simp
qed


definition saves_heads :: "int \<Rightarrow> tiling \<Rightarrow> bool" where
  "saves_heads hw t \<longleftrightarrow> hw mod cube_col_size t \<noteq> 0 \<and> hw mod cube_col_size t mod 16 \<noteq> 0 \<and> buf_cube_range t > 1"

lemma five2four_tile_writes:
  assumes u: "cube_unit ex" and e: "unit_ok env q" and hw: "0 < h * w" and ok: "tiles_ok q (h * w)"
    and t: "make_tiling env (h * w) False = Inr t" and dt: "buf_dtype inp = ''float16''" "buf_dtype out = ''float16''"
    and i: "0 \<le> i" "i < buf_cube_range t" and l: "0 \<le> l" "l \<le> 16" "(k + cb) * 16 + l \<le> sc" and k: "0 \<le> k + cb"
  shows "\<exists>m. 0 \<le> m \<and> i * cube_col_size t + m = min ((i + 1) * cube_col_size t) (h * w)
    \<and> (i * cube_col_size t + m < h * w \<longrightarrow> m mod 16 = 0)
    \<and> writes ex (ready_back sfx inp out (cube_col_size t) (saves_heads (h * w) t)) inp out src (nchw_at sc (h * w) src)
        (five2four_tile env sfx t inp (sn, sc, h, w) out l cb n k i)
        (row_cells ((n * sc + (k + cb) * 16) * (h * w) + i * cube_col_size t) (h * w) l m)
        (row_cells ((n * sc + (k + cb) * 16) * (h * w) + i * cube_col_size t) (h * w) l (round16 m)
          - row_cells ((n * sc + (k + cb) * 16) * (h * w)) (h * w) l (i * cube_col_size t))"
proof -
  let ?hw = "h * w" and ?cs = "cube_col_size t" and ?b = "(n * sc + (k + cb) * 16) * (h * w)"
  let ?s = "(n * c1_range sc + (k + cb)) * (16 * ?hw) + i * (16 * ?cs)" and ?want = "nchw_at sc ?hw src"
  have env: "plain_env env" using e by (simp add: unit_ok_def)
  obtain R m where R: "0 \<le> R" "16 * R \<le> ?cs" "?cs < 2 ^ 17" and m: "0 \<le> m" "m \<le> 16 * R"
    and im: "i * ?cs + m = min ((i + 1) * ?cs) ?hw" "i * ?cs + m < ?hw \<longrightarrow> m mod 16 = 0"
    and cases: "(five2four_tile env sfx t inp (sn, sc, h, w) out l cb n k i
        = five2four_in env sfx inp R ?s @ five2four_out env sfx out ''output_ub'' ?cs ?hw l m (?b + i * ?cs)
      \<and> (m mod 16 = 0 \<or> buf_cube_range t = 1))
    \<or> (five2four_tile env sfx t inp (sn, sc, h, w) out l cb n k i
        = five2four_in env sfx inp R ?s @ five2four_save env sfx out ?hw l ?b
          @ five2four_out env sfx out ''output_ub'' ?cs ?hw l m (?b + i * ?cs) @ five2four_out env sfx out ''output_head_ub'' 16 ?hw l 16 ?b
      \<and> 16 \<le> i * ?cs \<and> i * ?cs + m = ?hw \<and> ?hw mod ?cs mod 16 \<noteq> 0 \<and> 1 < buf_cube_range t)"
    by (rule five2four_tile_cases [OF e hw ok t dt i]) (rule that)
  have ics: "0 \<le> i * ?cs" "i * ?cs + m \<le> ?hw" using i R im(1) by simp_all
  then have mhw: "m \<le> ?hw" by linarith
  have want: "gm st (buf_name inp) (?s + 16 * x + c) = ?want (?b + i * ?cs + c * ?hw + x)"
    if "gm st (buf_name inp) = src" "0 \<le> c" "c < l" "0 \<le> x" "x < m" for st :: "'a cstate" and c x
  proof -
    have "?want (?b + c * ?hw + (i * ?cs + x)) = src (((n * c1_range sc + (k + cb)) * ?hw + (i * ?cs + x)) * 16 + c)"
      by (rule nchw_at_row) (use that ics l k in simp_all)
    then show ?thesis using that(1) by (simp add: algebra_simps)
  qed
  have K: "\<forall>a\<in>row_cells (?b + i * ?cs) ?hw l m. f a = ?want a"
    if "gm st (buf_name inp) = src"
      and "\<forall>c x. 0 \<le> c \<and> c < l \<and> 0 \<le> x \<and> x < m \<longrightarrow> f (?b + i * ?cs + c * ?hw + x) = gm st (buf_name inp) (?s + 16 * x + c)"
    for st :: "'a cstate" and f
    using that want [OF that(1)] unfolding row_cells_def by auto
  from cases have "writes ex (ready_back sfx inp out ?cs (saves_heads ?hw t)) inp out src ?want
        (five2four_tile env sfx t inp (sn, sc, h, w) out l cb n k i) (row_cells (?b + i * ?cs) ?hw l m)
        (row_cells (?b + i * ?cs) ?hw l (round16 m) - row_cells ?b ?hw l (i * ?cs))"
  proof (elim disjE, goal_cases)
    case 1
    then have tile: "five2four_tile env sfx t inp (sn, sc, h, w) out l cb n k i
        = five2four_in env sfx inp R ?s @ five2four_out env sfx out ''output_ub'' ?cs ?hw l m (?b + i * ?cs)"
      and full: "m mod 16 = 0 \<or> buf_cube_range t = 1" by (rule conjunct1, rule conjunct2)
    have T: "row_cells (?b + i * ?cs) ?hw l (round16 m) \<subseteq> row_cells (?b + i * ?cs) ?hw l (round16 m) - row_cells ?b ?hw l (i * ?cs)"
    proof (cases "m mod 16 = 0")
      case True
      then show ?thesis by (rule touched_full) (use ics in simp_all)
    next
      case False
      then have "i = 0" using full i by simp
      then have "row_cells ?b ?hw l (i * ?cs) = {}" by (auto simp: row_cells_def)
      then show ?thesis by simp
    qed
    have "writes ex (ready_back sfx inp out ?cs (saves_heads ?hw t)) inp out src ?want
        (five2four_tile env sfx t inp (sn, sc, h, w) out l cb n k i) (row_cells (?b + i * ?cs) ?hw l m)
        (row_cells (?b + i * ?cs) ?hw l (round16 m))"
    proof (rule writesI)
      fix st :: "'a cstate" assume r: "ready_back sfx inp out ?cs (saves_heads ?hw t) st" and s: "gm st (buf_name inp) = src"
      from r have p: "placed sfx inp out (16 * ?cs) 16 ?cs st" by (simp add: ready_back_def)
      obtain v f where run: "run_calls ex (five2four_tile env sfx t inp (sn, sc, h, w) out l cb n k i) st
          = st\<lparr>ub := v, gm := (gm st)(buf_name out := f)\<rparr>"
        and f: "\<forall>c x. 0 \<le> c \<and> c < l \<and> 0 \<le> x \<and> x < m \<longrightarrow> f (?b + i * ?cs + c * ?hw + x) = gm st (buf_name inp) (?s + 16 * x + c)"
        and old: "\<forall>a. a \<notin> row_cells (?b + i * ?cs) ?hw l (round16 m) \<longrightarrow> f a = gm st (buf_name out) a"
        using tile_five2four [OF u env p R l(1,2) m mhw, of ?s "?b + i * ?cs"] unfolding tile [symmetric] by (elim exE conjE) (rule that)
      show "\<exists>v f. run_calls ex (five2four_tile env sfx t inp (sn, sc, h, w) out l cb n k i) st = st\<lparr>ub := v, gm := (gm st)(buf_name out := f)\<rparr>
        \<and> (\<forall>a\<in>row_cells (?b + i * ?cs) ?hw l m. f a = ?want a) \<and> (\<forall>a. a \<notin> row_cells (?b + i * ?cs) ?hw l (round16 m) \<longrightarrow> f a = gm st (buf_name out) a)"
        by (rule exI [of _ v], rule exI [of _ f], intro conjI run K [OF s f] old)
    qed
    from writes_mono [OF this subset_refl T] show ?thesis .
  next
    case 2
    have tile: "five2four_tile env sfx t inp (sn, sc, h, w) out l cb n k i
        = five2four_in env sfx inp R ?s @ five2four_save env sfx out ?hw l ?b
          @ five2four_out env sfx out ''output_ub'' ?cs ?hw l m (?b + i * ?cs) @ five2four_out env sfx out ''output_head_ub'' 16 ?hw l 16 ?b"
      by (rule conjunct1 [OF 2])
    have h: "16 \<le> i * ?cs" "i * ?cs + m = ?hw" "?hw mod ?cs mod 16 \<noteq> 0" "1 < buf_cube_range t"
      using conjunct2 [OF 2] by simp_all
    have sv: "saves_heads ?hw t" using h(3,4) by (auto simp: saves_heads_def)
    have "writes ex (ready_back sfx inp out ?cs (saves_heads ?hw t)) inp out src ?want
        (five2four_tile env sfx t inp (sn, sc, h, w) out l cb n k i) (row_cells (?b + i * ?cs) ?hw l m)
        (row_cells (?b + i * ?cs) ?hw l (round16 m) - row_cells ?b ?hw l 16)"
    proof (rule writesI)
      fix st :: "'a cstate" assume r: "ready_back sfx inp out ?cs (saves_heads ?hw t) st" and s: "gm st (buf_name inp) = src"
      from r sv have p: "placed sfx inp out (16 * ?cs) 16 ?cs st"
        "ub_base st (buf_name (ub_buffer sfx ''float16'' ''output_head_ub'')) = Some (32 * ?cs)" by (simp_all add: ready_back_def)
      obtain v f where run: "run_calls ex (five2four_tile env sfx t inp (sn, sc, h, w) out l cb n k i) st
          = st\<lparr>ub := v, gm := (gm st)(buf_name out := f)\<rparr>"
        and f: "\<forall>c x. 0 \<le> c \<and> c < l \<and> 0 \<le> x \<and> x < m \<longrightarrow> f (?b + i * ?cs + c * ?hw + x) = gm st (buf_name inp) (?s + 16 * x + c)"
        and old: "\<forall>a. a \<notin> row_cells (?b + i * ?cs) ?hw l (round16 m) - row_cells ?b ?hw l 16 \<longrightarrow> f a = gm st (buf_name out) a"
        using tile_five2four_head [OF u env p R l(1,2) m h(1,2), of ?s ?b] unfolding tile [symmetric] by (elim exE conjE) (rule that)
      show "\<exists>v f. run_calls ex (five2four_tile env sfx t inp (sn, sc, h, w) out l cb n k i) st = st\<lparr>ub := v, gm := (gm st)(buf_name out := f)\<rparr>
        \<and> (\<forall>a\<in>row_cells (?b + i * ?cs) ?hw l m. f a = ?want a) \<and> (\<forall>a. a \<notin> row_cells (?b + i * ?cs) ?hw l (round16 m) - row_cells ?b ?hw l 16 \<longrightarrow> f a = gm st (buf_name out) a)"
        by (rule exI [of _ v], rule exI [of _ f], intro conjI run K [OF s f] old)
    qed
    from writes_mono [OF this subset_refl touched_later [OF m(1) h(1,2)]] show ?thesis .
  qed
  note w = this
  show ?thesis by (rule exI [of _ m]) (intro conjI m(1) im w)
qed


section \<open>One block of channels\<close>

lemma back_tiling_facts:
  assumes e: "unit_ok env q" and hw: "0 < hw" and ok: "tiles_ok q hw" and t: "make_tiling env hw False = Inr t"
  shows "0 < cube_col_size t \<and> cube_col_size t mod 16 = 0 \<and> cube_buf_max t = 16 * cube_col_size t
    \<and> 0 \<le> buf_cube_range t \<and> hw \<le> buf_cube_range t * cube_col_size t"
proof -
  have q: "0 < q" "soc_spec env ''UB_SIZE'' = 1024 * q" using e by (simp_all add: unit_ok_def)
  have k: "0 < blocks hw" "hw \<le> 16 * blocks hw" using blocks_bounds hw by blast+
  have up: "0 \<le> (hw + c - 1) div c \<and> hw \<le> (hw + c - 1) div c * c" if "0 < c" for c
    using that hw div_mult_mod_eq [of "hw + c - 1" c] pos_mod_bound [of c "hw + c - 1"] pos_imp_zdiv_nonneg_iff [of c "hw + c - 1"]
    by linarith
  show ?thesis
  proof (cases "blocks hw \<le> q")
    case True
    then show ?thesis using t tiling_single [OF q(2) hw True] k by auto
  next
    case False
    then have "0 < tile_blocks q hw" using ok by (simp add: tiles_ok_def)
    then show ?thesis using t tiling_back_many [OF q(2) refl, of hw] False up [of "16 * tile_blocks q hw"] by auto
  qed
qed

lemma back_tiling_total:
  assumes e: "unit_ok env q" and hw: "0 < hw" and ok: "tiles_ok q hw"
  shows "\<exists>t. make_tiling env hw False = Inr t"
proof (cases "blocks hw \<le> q")
  case True
  then show ?thesis using e tiling_single [of env q hw] hw by (auto simp: unit_ok_def)
next
  case False
  then show ?thesis using e ok tiling_back_many [of env q _ hw] by (auto simp: unit_ok_def tiles_ok_def)
qed

text \<open>The cells behind a block that its last row may spill into.\<close>

definition spill :: "int \<Rightarrow> int" where
  "spill hw = (if hw mod 16 = 0 then 0 else 15)"

lemma round16_full: "m mod 16 = 0 \<Longrightarrow> round16 m = m"
  unfolding round16_def by (metis add.commute div_mult_mod_eq add_cancel_right_right mult.commute
      numeral_One round16_def round16_mult(1))

lemma round16_spill: "round16 m \<le> m + 15"
  using round16_bounds(2) [of m] by simp

lemma tile_reach:
  assumes m: "x0 + m \<le> hw" and part: "x0 + m < hw \<longrightarrow> m mod 16 = 0" and x0: "x0 mod 16 = 0"
  shows "x0 + round16 m \<le> hw + spill hw"
proof (cases "x0 + m < hw \<or> hw mod 16 = 0")
  case True
  have "m mod 16 = 0"
  proof (cases "x0 + m < hw")
    case False
    then have "hw = x0 + m" "hw mod 16 = 0" using m True by simp_all
    then show ?thesis using x0 by presburger
  qed (use part in simp)
  then show ?thesis using m by (simp add: round16_full spill_def)
next
  case False
  then show ?thesis using m round16_spill [of m] by (simp add: spill_def)
qed

lemma five2four_block:
  assumes u: "cube_unit ex" and e: "unit_ok env q" and hw: "0 < h * w" and ok: "tiles_ok q (h * w)"
    and t: "make_tiling env (h * w) False = Inr t" and dt: "buf_dtype inp = ''float16''" "buf_dtype out = ''float16''"
    and l: "0 \<le> l" "l \<le> 16" "(k + cb) * 16 + l \<le> sc" and k: "0 \<le> k + cb" and io: "buf_name inp \<noteq> buf_name out"
    and b: "b = (n * sc + (k + cb) * 16) * (h * w)"
  shows "writes ex (ready_back sfx inp out (cube_col_size t) (saves_heads (h * w) t)) inp out src (nchw_at sc (h * w) src)
        (for_range (buf_cube_range t) (five2four_tile env sfx t inp (sn, sc, h, w) out l cb n k))
        {b..<b + l * (h * w)} {b..<b + l * (h * w) + spill (h * w)}"
proof -
  let ?hw = "h * w" and ?cs = "cube_col_size t" and ?r = "buf_cube_range t"
  let ?m = "\<lambda>i. min ((i + 1) * ?cs) ?hw - i * ?cs"
  let ?K = "\<lambda>i. row_cells (b + i * ?cs) ?hw l (?m i)" and ?T = "\<lambda>i. row_cells (b + i * ?cs) ?hw l (round16 (?m i)) - row_cells b ?hw l (i * ?cs)"
  have cs: "0 < ?cs" "?cs mod 16 = 0" "0 \<le> ?r" "?hw \<le> ?r * ?cs" using back_tiling_facts [OF e hw ok t] by simp_all
  have tile: "0 \<le> ?m i \<and> (i * ?cs + ?m i < ?hw \<longrightarrow> ?m i mod 16 = 0)
      \<and> writes ex (ready_back sfx inp out ?cs (saves_heads ?hw t)) inp out src (nchw_at sc ?hw src)
        (five2four_tile env sfx t inp (sn, sc, h, w) out l cb n k i) (?K i) (?T i)"
    if i: "0 \<le> i" "i < ?r" for i
  proof -
    obtain m where m: "0 \<le> m" "i * ?cs + m = min ((i + 1) * ?cs) ?hw" "i * ?cs + m < ?hw \<longrightarrow> m mod 16 = 0"
      and w: "writes ex (ready_back sfx inp out ?cs (saves_heads ?hw t)) inp out src (nchw_at sc ?hw src)
        (five2four_tile env sfx t inp (sn, sc, h, w) out l cb n k i) (row_cells (b + i * ?cs) ?hw l m)
        (row_cells (b + i * ?cs) ?hw l (round16 m) - row_cells b ?hw l (i * ?cs))"
      using five2four_tile_writes [OF u e hw ok t dt i l k, of sfx src sn n] unfolding b by (elim exE conjE)
    have "?m i = m" using m(2) by linarith
    then show ?thesis using m(1,3) w by (simp only: simp_thms)
  qed
  have keep: "a \<notin> ?T j" if "0 \<le> i" "i < j" "j < ?r" "a \<in> ?K i" for i j a
  proof -
    note aK = \<open>a \<in> ?K i\<close>
    have "(i + 1) * ?cs \<le> j * ?cs" using that cs(1) by (intro mult_right_mono) simp_all
    then have "i * ?cs + ?m i \<le> j * ?cs" using min.cobounded1 [of "(i + 1) * ?cs" ?hw] by linarith
    moreover have "0 \<le> i * ?cs" using that(1) cs(1) by simp
    moreover obtain c x where "0 \<le> c" "c < l" "0 \<le> x" "x < ?m i" "a = b + i * ?cs + c * ?hw + x"
      using aK unfolding row_cells_def by blast
    ultimately have "0 \<le> c \<and> c < l \<and> 0 \<le> i * ?cs + x \<and> i * ?cs + x < j * ?cs \<and> a = b + c * ?hw + (i * ?cs + x)" by simp
    then have "a \<in> row_cells b ?hw l (j * ?cs)" unfolding row_cells_def by blast
    then show ?thesis by simp
  qed
  have all: "writes ex (ready_back sfx inp out ?cs (saves_heads ?hw t)) inp out src (nchw_at sc ?hw src)
      (for_range ?r (five2four_tile env sfx t inp (sn, sc, h, w) out l cb n k)) (\<Union>i\<in>{0..<?r}. ?K i) (\<Union>i\<in>{0..<?r}. ?T i)"
    by (rule writes_loop [OF _ keep stable_ready_back io cs(3)]) (use tile in blast)+
  show ?thesis
  proof (rule writes_mono [OF all])
    show "{b..<b + l * ?hw} \<subseteq> (\<Union>i\<in>{0..<?r}. ?K i)"
    proof
      fix a assume a: "a \<in> {b..<b + l * ?hw}"
      let ?c = "(a - b) div ?hw" and ?x = "(a - b) mod ?hw"
      let ?i = "?x div ?cs"
      have x: "0 \<le> ?x" "?x < ?hw" using hw by simp_all
      have c: "0 \<le> ?c" "?c < l" using a hw by (simp_all add: pos_imp_zdiv_nonneg_iff div_less_pos)
      have i: "0 \<le> ?i" "?i < ?r" using x cs div_less_pos [of ?cs ?x ?r] by (simp_all add: pos_imp_zdiv_nonneg_iff)
      have "(?i + 1) * ?cs = ?i * ?cs + ?cs" by (simp add: distrib_right)
      then have "?x < (?i + 1) * ?cs" using cs(1) div_mult_mod_eq [of ?x ?cs] pos_mod_bound [of ?cs ?x] by linarith
      then have "?x < min ((?i + 1) * ?cs) ?hw" using x(2) by simp
      then have xm: "0 \<le> ?x mod ?cs" "?x mod ?cs < ?m ?i"
        using cs(1) div_mult_mod_eq [of ?x ?cs] pos_mod_sign [of ?cs ?x] by linarith+
      have "a = b + ?i * ?cs + ?c * ?hw + ?x mod ?cs"
        using div_mult_mod_eq [of "a - b" ?hw] div_mult_mod_eq [of ?x ?cs] by linarith
      then have "a \<in> ?K ?i" unfolding row_cells_def using c xm by blast
      then show "a \<in> (\<Union>i\<in>{0..<?r}. ?K i)" using i by (intro UN_I [of ?i]) simp_all
    qed
    show "(\<Union>i\<in>{0..<?r}. ?T i) \<subseteq> {b..<b + l * ?hw + spill ?hw}"
    proof (intro UN_least subsetI)
      fix i a assume i: "i \<in> {0..<?r}" and a: "a \<in> ?T i"
      then obtain c x where c: "0 \<le> c" "c < l" "0 \<le> x" "x < round16 (?m i)" "a = b + i * ?cs + c * ?hw + x"
        unfolding row_cells_def by blast
      have i0: "0 \<le> i * ?cs" "i * ?cs mod 16 = 0" "i * ?cs + ?m i \<le> ?hw" using i cs by (simp_all add: mod_mult_eq mod_mult_right_eq [symmetric, of i ?cs 16])
      have "i * ?cs + round16 (?m i) \<le> ?hw + spill ?hw"
        by (rule tile_reach) (use tile [of i] i i0 in auto)
      moreover have "c * ?hw + ?hw \<le> l * ?hw"
        using mult_right_mono [of "c + 1" l ?hw] c hw by (simp add: algebra_simps)
      moreover have "0 \<le> c * ?hw" using c hw by simp
      ultimately show "a \<in> {b..<b + l * ?hw + spill ?hw}" using c i0(1) by simp
    qed
  qed
qed


section \<open>The whole kernel\<close>

text \<open>When every cell keeps its value: the last tile is not empty, and a plane is a multiple of 16 or no
  image is written after the spill of the last channels of another one.\<close>

definition five2four_ok :: "int \<Rightarrow> int \<Rightarrow> int \<Rightarrow> int \<Rightarrow> bool" where
  "five2four_ok q sn sc hw \<longleftrightarrow> tiles_ok q hw \<and> (hw mod 16 = 0 \<or> sn = 1 \<or> sc mod 16 = 0 \<or> sc < 16)"

lemma five2four_intrin_writes:
  assumes u: "cube_unit ex" and e: "unit_ok env q" and hw: "0 < h * w" and ok: "tiles_ok q (h * w)"
    and t: "make_tiling env (h * w) False = Inr t" and dt: "buf_dtype inp = ''float16''" "buf_dtype out = ''float16''"
    and l: "0 \<le> l" "l \<le> 16" "(ce - 1) * 16 + l \<le> sc" and c: "0 \<le> cb" "cb \<le> ce" and n: "0 \<le> sn"
    and io: "buf_name inp \<noteq> buf_name out"
  shows "writes ex (ready_back sfx inp out (cube_col_size t) (saves_heads (h * w) t)) inp out src (nchw_at sc (h * w) src)
    (five2four_intrin env sfx t inp (sn, sc, h, w) out l cb ce)
    (\<Union>n\<in>{0..<sn}. \<Union>i\<in>{0..<ce - cb}. {(n * sc + (i + cb) * 16) * (h * w)..<(n * sc + (i + cb) * 16) * (h * w) + l * (h * w)})
    (\<Union>n\<in>{0..<sn}. \<Union>i\<in>{0..<ce - cb}. {(n * sc + (i + cb) * 16) * (h * w)..<(n * sc + (i + cb) * 16) * (h * w) + l * (h * w) + spill (h * w)})"
  unfolding five2four_intrin_def fst_conv
proof (rule writes_loop [OF _ _ stable_ready_back io n], rule writes_loop [OF _ _ stable_ready_back io])
  fix n i :: int assume i: "0 \<le> n" "n < sn" "0 \<le> i" "i < ce - cb"
  then have "(i + cb) * 16 + l \<le> sc" using l(3) by (simp add: algebra_simps)
  with i show "writes ex (ready_back sfx inp out (cube_col_size t) (saves_heads (h * w) t)) inp out src (nchw_at sc (h * w) src)
      (for_range (buf_cube_range t) (five2four_tile env sfx t inp (sn, sc, h, w) out l cb n i))
      {(n * sc + (i + cb) * 16) * (h * w)..<(n * sc + (i + cb) * 16) * (h * w) + l * (h * w)}
      {(n * sc + (i + cb) * 16) * (h * w)..<(n * sc + (i + cb) * 16) * (h * w) + l * (h * w) + spill (h * w)}"
    using c by (intro five2four_block [OF u e hw ok t dt l(1,2)] io refl) simp_all
next
  fix n i j a assume i: "0 \<le> i" "i < j" "j < ce - cb"
    and a: "a \<in> {(n * sc + (i + cb) * 16) * (h * w)..<(n * sc + (i + cb) * 16) * (h * w) + l * (h * w)}"
  have "(n * sc + (i + cb) * 16 + l) * (h * w) \<le> (n * sc + (j + cb) * 16) * (h * w)"
    using i hw l(2) by (intro mult_right_mono) simp_all
  then show "a \<notin> {(n * sc + (j + cb) * 16) * (h * w)..<(n * sc + (j + cb) * 16) * (h * w) + l * (h * w) + spill (h * w)}"
    using a by (simp add: distrib_right)
next
  fix n m j a assume n: "0 \<le> n" "n < m"
    and a: "a \<in> (\<Union>i\<in>{0..<ce - cb}. {(n * sc + (i + cb) * 16) * (h * w)..<(n * sc + (i + cb) * 16) * (h * w) + l * (h * w)})"
  have "a < m * sc * (h * w)"
  proof -
    obtain i where i: "i < ce - cb" "0 \<le> i" "a < (n * sc + (i + cb) * 16 + l) * (h * w)" using a by (auto simp: distrib_right)
    have "0 \<le> sc" using l i(1,2) c by simp
    have "(n + 1) * sc \<le> m * sc" using n \<open>0 \<le> sc\<close> by (intro mult_right_mono) simp_all
    then have "n * sc + (i + cb) * 16 + l \<le> m * sc" using l(3) i(1) by (simp add: algebra_simps)
    then have "(n * sc + (i + cb) * 16 + l) * (h * w) \<le> m * sc * (h * w)" using hw by (intro mult_right_mono) simp_all
    with i(3) show ?thesis by simp
  qed
  moreover have "m * sc * (h * w) \<le> (m * sc + (i + cb) * 16) * (h * w)" if "0 \<le> i" for i
    using that c hw by (intro mult_right_mono) simp_all
  ultimately show "a \<notin> (\<Union>i\<in>{0..<ce - cb}. {(m * sc + (i + cb) * 16) * (h * w)..<(m * sc + (i + cb) * 16) * (h * w) + l * (h * w) + spill (h * w)})"
    by (fastforce dest: order_trans)
qed (use c in simp_all)


text \<open>A cell of the output lies in a block of its channel, and the spill of the last channels of an image only
  reaches cells of the next image.\<close>

lemma cell_block:
  assumes hw: "0 < hw" and sc: "0 < sc" and a: "0 \<le> a" "a < sn * sc * (hw :: int)"
  defines "n \<equiv> a div hw div sc" and "c \<equiv> a div hw mod sc"
  shows "0 \<le> n" "n < sn" "0 \<le> c" "c < sc" "(n * sc + c) * hw \<le> a" "a < (n * sc + c + 1) * hw"
proof -
  have ch: "0 \<le> a div hw" "a div hw < sn * sc" using hw a div_less_pos [OF hw a(2)] by (simp_all add: pos_imp_zdiv_nonneg_iff)
  show "0 \<le> n" "n < sn" using ch sc by (simp_all add: n_def pos_imp_zdiv_nonneg_iff div_less_pos)
  show "0 \<le> c" "c < sc" using sc by (simp_all add: c_def)
  have e: "n * sc + c = a div hw" unfolding n_def c_def by (rule div_mult_mod_eq)
  show "(n * sc + c) * hw \<le> a" "a < (n * sc + c + 1) * hw"
    using hw div_mult_mod_eq [of a hw] pos_mod_sign [of hw a] pos_mod_bound [of hw a] unfolding e distrib_right by linarith+
qed

lemma five2four_body_writes:
  assumes u: "cube_unit ex" and e: "unit_ok env q" and hw: "0 < h * w" and ok: "five2four_ok q sn sc (h * w)"
    and t: "make_tiling env (h * w) False = Inr t" and dt: "buf_dtype inp = ''float16''" "buf_dtype out = ''float16''"
    and n: "0 \<le> sn" "0 < sc" and io: "buf_name inp \<noteq> buf_name out"
  shows "writes ex (ready_back sfx inp out (cube_col_size t) (saves_heads (h * w) t)) inp out src (nchw_at sc (h * w) src)
    (five2four_intrin env sfx t inp (sn, sc, h, w) out 16 0 (c1_loop sc)
      @ (if sc mod 16 \<noteq> 0 then five2four_intrin env sfx t inp (sn, sc, h, w) out (sc mod 16) (c1_loop sc) (c1_range sc) else []))
    {0..<sn * sc * (h * w)} UNIV"
proof -
  let ?hw = "h * w" and ?L = "c1_loop sc" and ?t = "sc mod 16"
  note c = c1_facts [OF n(2)]
  have ok': "tiles_ok q ?hw" "?hw mod 16 = 0 \<or> sn = 1 \<or> ?t = 0 \<or> sc < 16" using ok by (simp_all add: five2four_ok_def)
  have L: "?L * 16 + ?t = sc" and m: "0 \<le> ?t" "?t \<le> 16" using c1_loop_eq [of sc] div_mult_mod_eq [of sc 16] pos_mod_bound [of 16 sc] by simp_all
  note intrin = five2four_intrin_writes [OF u e hw ok'(1) t dt _ _ _ _ _ n(1) io]
  let ?K = "\<Union>n\<in>{0..<sn}. \<Union>i\<in>{0..<?L - 0}. {(n * sc + (i + 0) * 16) * ?hw..<(n * sc + (i + 0) * 16) * ?hw + 16 * ?hw}"
  have head: "writes ex (ready_back sfx inp out (cube_col_size t) (saves_heads ?hw t)) inp out src (nchw_at sc ?hw src)
    (five2four_intrin env sfx t inp (sn, sc, h, w) out 16 0 ?L) ?K UNIV"
    by (rule writes_mono [OF intrin subset_refl subset_UNIV]) (use c(1) L m in simp_all)
  have inK: "a \<in> ?K" if a: "0 \<le> a" "a < sn * sc * ?hw" and ch: "a div ?hw mod sc < ?L * 16" for a
  proof -
    note b = cell_block [OF hw n(2) a]
    let ?c = "a div ?hw mod sc" and ?n = "a div ?hw div sc"
    let ?i = "?c div 16"
    have i: "0 \<le> ?i" "?i < ?L" using b(3) ch by (simp_all add: pos_imp_zdiv_nonneg_iff div_less_pos)
    have ci: "?i * 16 \<le> ?c" "?c + 1 \<le> ?i * 16 + 16"
      using div_mult_mod_eq [of ?c 16] pos_mod_sign [of 16 ?c] pos_mod_bound [of 16 ?c] by linarith+
    have "(?n * sc + ?i * 16) * ?hw \<le> (?n * sc + ?c) * ?hw" by (intro mult_right_mono) (use ci hw in linarith)+
    moreover have "(?n * sc + ?c + 1) * ?hw \<le> (?n * sc + (?i * 16 + 16)) * ?hw" by (intro mult_right_mono) (use ci hw in linarith)+
    ultimately have "a \<in> {(?n * sc + (?i + 0) * 16) * ?hw..<(?n * sc + (?i + 0) * 16) * ?hw + 16 * ?hw}"
      using b(5,6) by (simp add: distrib_right)
    then show ?thesis using i b(1,2) by (intro UN_I [of ?n] UN_I [of ?i]) simp_all
  qed
  show ?thesis
  proof (cases "?t = 0")
    case True
    have "{0..<sn * sc * ?hw} \<subseteq> ?K"
    proof
      fix a assume a: "a \<in> {0..<sn * sc * ?hw}"
      then show "a \<in> ?K" using cell_block(4) [OF hw n(2), of a sn] True L by (intro inK) simp_all
    qed
    from writes_mono [OF head this subset_refl] show ?thesis using True by simp
  next
    case False
    have ce: "c1_range sc - ?L = 1" using c(6) [OF False] by simp
    let ?S = "\<lambda>n. (n * sc + ?L * 16) * ?hw"
    let ?K2 = "\<Union>n\<in>{0..<sn}. {?S n..<?S n + ?t * ?hw}" and ?T2 = "\<Union>n\<in>{0..<sn}. {?S n..<?S n + ?t * ?hw + spill ?hw}"
    have one: "{0..<1 :: int} = {0}" by auto
    have tail: "writes ex (ready_back sfx inp out (cube_col_size t) (saves_heads ?hw t)) inp out src (nchw_at sc ?hw src)
      (five2four_intrin env sfx t inp (sn, sc, h, w) out ?t ?L (c1_range sc)) ?K2 ?T2"
      using intrin [of ?t "c1_range sc" sc ?L sfx src] c(1) c(6) [OF False] L m unfolding ce one by simp
    have S: "?S n + ?t * ?hw = (n + 1) * sc * ?hw" for n
    proof -
      have "?S n + ?t * ?hw = (n * sc + (?L * 16 + ?t)) * ?hw" by (simp only: distrib_right add.assoc)
      then show ?thesis unfolding L by (simp add: distrib_right)
    qed
    have keep: "a \<notin> ?T2" if a: "0 \<le> a" "a < sn * sc * ?hw" and ch: "a div ?hw mod sc < ?L * 16" for a
    proof
      assume "a \<in> ?T2"
      then obtain n' where n': "0 \<le> n'" "n' < sn" "?S n' \<le> a" "a < (n' + 1) * sc * ?hw + spill ?hw" unfolding S by auto
      note b = cell_block [OF hw n(2) a]
      let ?c = "a div ?hw mod sc" and ?n = "a div ?hw div sc"
      have "?n \<noteq> n'"
      proof
        assume e: "?n = n'"
        have "(?n * sc + ?c + 1) * ?hw \<le> ?S n'" unfolding e by (intro mult_right_mono) (use ch hw in linarith)+
        then show False using b(6) n'(3) by simp
      qed
      moreover have "\<not> ?n < n'"
      proof
        assume "?n < n'"
        then have "(?n + 1) * sc \<le> n' * sc" using n(2) by (intro mult_right_mono) simp_all
        then have "?n * sc + ?c + 1 \<le> n' * sc + ?L * 16" using b(4) c(1) unfolding distrib_right by linarith
        then have "(?n * sc + ?c + 1) * ?hw \<le> ?S n'" by (intro mult_right_mono) (use hw in linarith)+
        then show False using b(6) n'(3) by simp
      qed
      moreover have "\<not> n' < ?n"
      proof
        assume nn: "n' < ?n"
        then have "(n' + 1) * sc \<le> ?n * sc" using n(2) by (intro mult_right_mono) simp_all
        then have "(n' + 1) * sc * ?hw \<le> (?n * sc + ?c) * ?hw" by (intro mult_right_mono) (use b(3) hw \<open>(n' + 1) * sc \<le> ?n * sc\<close> in linarith)+
        then have "spill ?hw \<noteq> 0" using b(5) n'(4) by auto
        then have "?hw mod 16 \<noteq> 0" by (auto simp: spill_def)
        moreover have "sn \<noteq> 1" using nn n'(1) b(2) by simp
        moreover have "\<not> sc < 16"
        proof
          assume "sc < 16"
          then have "c1_loop sc = 0" using n(2) by (simp add: c1_loop_eq div_pos_pos_trivial)
          then show False using ch b(3) by linarith
        qed
        ultimately show False using ok'(2) False by simp
      qed
      ultimately show False by simp
    qed
    have inK2: "a \<in> ?K2" if a: "0 \<le> a" "a < sn * sc * ?hw" and ch: "\<not> a div ?hw mod sc < ?L * 16" for a
    proof -
      note b = cell_block [OF hw n(2) a]
      let ?c = "a div ?hw mod sc" and ?n = "a div ?hw div sc"
      have "?S ?n \<le> (?n * sc + ?c) * ?hw" by (intro mult_right_mono) (use ch hw in linarith)+
      moreover have "(?n * sc + ?c + 1) * ?hw \<le> (?n + 1) * sc * ?hw"
        unfolding distrib_right [of ?n 1 sc] by (intro mult_right_mono) (use b(4) hw in linarith)+
      ultimately have "a \<in> {?S ?n..<?S ?n + ?t * ?hw}" unfolding S using b(5,6) by simp
      then show ?thesis using b(1,2) by (intro UN_I [of ?n]) simp_all
    qed
    have "{0..<sn * sc * ?hw} \<subseteq> (?K - ?T2) \<union> ?K2"
    proof
      fix a assume "a \<in> {0..<sn * sc * ?hw}"
      then have a: "0 \<le> a" "a < sn * sc * ?hw" by simp_all
      show "a \<in> (?K - ?T2) \<union> ?K2" using inK [OF a] keep [OF a] inK2 [OF a] by (cases "a div ?hw mod sc < ?L * 16") simp_all
    qed
    from writes_mono [OF writes_append [OF head tail stable_ready_back io] this subset_UNIV] show ?thesis using False by simp
  qed
qed


lemma head_alloc_run:
  assumes u: "cube_unit ex" and p: "placed sfx inp out (16 * cs) 16 cs st" and top: "ub_top st = 32 * cs"
    and nm: "plain_name sfx inp" "plain_name sfx out"
  shows "\<exists>st2. run_calls ex (if sv then allocate_ub sfx ''float16'' (16 * 16) ''output_head_ub'' else []) st = st2
    \<and> gm st2 = gm st \<and> ready_back sfx inp out cs sv st2"
proof (cases sv)
  case True
  have rows: "rows_at ss ds m (st\<lparr>ub_base := b, ub_top := n\<rparr>) = rows_at ss ds m st" for ss ds m b n
    by (simp add: rows_at_def src_row_def dst_row_def)
  show ?thesis using p top plain_nameD [OF nm(1)] plain_nameD [OF nm(2)]
    by (simp add: True alloc_ub_run [OF u] ready_back_def placed_def ub_names rows)
next
  case False
  then show ?thesis using p by (simp add: ready_back_def)
qed

lemma five2four_runs:
  assumes u: "cube_unit ex" and e: "unit_ok env q" and pos: "0 < sn" "0 < sc" "0 < h" "0 < w"
    and ok: "five2four_ok q sn sc (h * w)" and dt: "buf_dtype inp = ''float16''" "buf_dtype out = ''float16''"
    and nm: "plain_name (sfx + 1) inp" "plain_name (sfx + 1) out" and io: "buf_name inp \<noteq> buf_name out"
    and f: "fresh_unit st"
  shows "\<exists>cs. five2four_ir env sfx inp (sn, sc, h, w) out = Inr cs
    \<and> (\<forall>a. 0 \<le> a \<and> a < sn * sc * (h * w) \<longrightarrow> gm (run_calls ex cs st) (buf_name out) a
        = nchw_at sc (h * w) (gm st (buf_name inp)) a)
    \<and> (\<forall>b. b \<noteq> buf_name out \<longrightarrow> gm (run_calls ex cs st) b = gm st b)"
proof -
  have hw: "0 < h * w" using pos by simp
  have tok: "tiles_ok q (h * w)" using ok by (simp add: five2four_ok_def)
  obtain t where t: "make_tiling env (h * w) False = Inr t" using back_tiling_total [OF e hw tok] by blast
  have max: "cube_buf_max t = 16 * cube_col_size t" using back_tiling_facts [OF e hw tok t] by simp
  let ?prelude_ok = "kernel_setup env (sfx + 1) inp out (cube_buf_max t) 16 (cube_col_size t)"
  let ?sv = "saves_heads (h * w) t"
  let ?head = "if ?sv then allocate_ub (sfx + 1) ''float16'' (16 * 16) ''output_head_ub'' else []"
  let ?body = "five2four_intrin env (sfx + 1) t inp (sn, sc, h, w) out 16 0 (c1_loop sc)
      @ (if sc mod 16 \<noteq> 0 then five2four_intrin env (sfx + 1) t inp (sn, sc, h, w) out (sc mod 16) (c1_loop sc) (c1_range sc) else [])"
  have ir: "five2four_ir env sfx inp (sn, sc, h, w) out = Inr (?prelude_ok @ ?head @ ?body)"
    by (simp add: five2four_ir_def t Let_def dt(2) saves_heads_def)
  obtain st1 where st1: "run_calls ex ?prelude_ok st = st1" "gm st1 = gm st"
      "placed (sfx + 1) inp out (16 * cube_col_size t) 16 (cube_col_size t) st1" "ub_top st1 = 32 * cube_col_size t"
    using setup_run [OF u f dt nm, of env "cube_buf_max t" 16 "cube_col_size t"] e unfolding unit_ok_def max by auto
  obtain st2 where st2: "run_calls ex ?head st1 = st2" "gm st2 = gm st1" "ready_back (sfx + 1) inp out (cube_col_size t) ?sv st2"
    using head_alloc_run [OF u st1(3,4) nm, of ?sv] by blast
  have src: "gm st2 (buf_name inp) = gm st (buf_name inp)" by (simp only: st1(2) st2(2))
  obtain v g where run: "run_calls ex ?body st2 = st2\<lparr>ub := v, gm := (gm st2)(buf_name out := g)\<rparr>"
    and g: "\<And>a. a \<in> {0..<sn * sc * (h * w)} \<Longrightarrow> g a = nchw_at sc (h * w) (gm st (buf_name inp)) a"
    by (rule writesD [OF five2four_body_writes [OF u e hw ok t dt less_imp_le [OF pos(1)] pos(2) io] st2(3) src]) (rule that)
  have "run_calls ex (?prelude_ok @ ?head @ ?body) st = st2\<lparr>ub := v, gm := (gm st2)(buf_name out := g)\<rparr>"
    unfolding run_calls_simps(3) [of _ ?prelude_ok] run_calls_simps(3) [of _ ?head] st1(1) st2(1) run ..
  then show ?thesis using ir g st1(2) st2(2) by (intro exI [of _ "?prelude_ok @ ?head @ ?body"]) simp
qed

section \<open>The kernel agrees with the definition of debug mode\<close>

lemma nchw_index:
  assumes "0 \<le> n" "n < sn" "0 \<le> c" "c < sc" "0 \<le> x" "x < hw"
  shows "0 \<le> (n * sc + c) * hw + x" "(n * sc + c) * hw + x < sn * sc * hw"
    and "nchw_at sc hw src ((n * sc + c) * hw + x) = src (((n * c1_range sc + c div 16) * hw + x) * 16 + c mod 16)"
proof -
  show "0 \<le> (n * sc + c) * hw + x" using assms by simp
  have "(n + 1) * sc \<le> sn * sc" using assms by (intro mult_right_mono) simp_all
  then have "n * sc + c + 1 \<le> sn * sc" using assms by (simp add: distrib_right)
  then have "(n * sc + c + 1) * hw \<le> sn * sc * hw" using assms by (intro mult_right_mono) simp_all
  then show "(n * sc + c) * hw + x < sn * sc * hw" using assms unfolding distrib_right by linarith
  have e: "(n * sc + (c div 16) * 16) * hw + c mod 16 * hw + x = (n * sc + c) * hw + x"
    by (simp add: add.assoc distrib_right [symmetric])
  show "nchw_at sc hw src ((n * sc + c) * hw + x) = src (((n * c1_range sc + c div 16) * hw + x) * 16 + c mod 16)"
    using nchw_at_row [of x hw "c mod 16" "c div 16" sc src n] assms unfolding e by (simp add: pos_imp_zdiv_nonneg_iff)
qed

text \<open>C1. The kernel from \<open>NC1HWC0\<close> to \<open>NCHW\<close>, run on a device with the documented behaviour, leaves in every
  cell of the output the value that the debug definition of the same conversion gives, and changes no other
  buffer, for tensors of half precision floats and all shapes (\<open>five2four_ok\<close>) whose plane fits one tile or whose
  last tile is not empty, and whose plane is a multiple of 16, or with one image, or with fewer than 16 channels or
  a multiple of 16: then what is written behind the rows that are no multiple of 16 elements is put right
  afterwards. (Otherwise the kernel is wrong: an empty last tile is not copied, lemma \<open>last_tile_lost_back\<close>, and the cells
  behind the last channels of one image spill into the next, lemma \<open>spill_into_next_image\<close>.)\<close>

theorem five2four_correct:
  assumes "cube_unit ex" and "unit_ok env q" and "0 < sn" and "0 < sc" and "0 < h" and "0 < w"
    and "five2four_ok q sn sc (h * w)" and "buf_dtype inp = ''float16''" and "buf_dtype out = ''float16''"
    and "plain_name (sfx + 1) inp" and "plain_name (sfx + 1) out" and "buf_name inp \<noteq> buf_name out"
    and "fresh_unit st"
    and "0 \<le> n" and "n < sn" and "0 \<le> c" and "c < sc" and "0 \<le> y" and "y < h" and "0 \<le> x" and "x < w"
  shows "\<exists>cs. five2four_ir env sfx inp (sn, sc, h, w) out = Inr cs
    \<and> gm (run_calls ex cs st) (buf_name out) (((n * sc + c) * h + y) * w + x)
      = convert_5d_to_4d_for_protogenes (sn, sc, h, w)
          (\<lambda>n c1 y x c0. gm st (buf_name inp) ((((n * c1_range sc + c1) * h + y) * w + x) * 16 + c0)) zero n c y x
    \<and> (\<forall>b. b \<noteq> buf_name out \<longrightarrow> gm (run_calls ex cs st) b = gm st b)"
proof -
  let ?a = "((n * sc + c) * h + y) * w + x" and ?x = "y * w + x" and ?src = "gm st (buf_name inp)"
  have "(y + 1) * w \<le> h * w" using assms by (intro mult_right_mono) simp_all
  then have x: "0 \<le> ?x" "?x < h * w" using assms by (simp_all add: algebra_simps)
  have a: "?a = (n * sc + c) * (h * w) + ?x" by (simp add: algebra_simps)
  note i = nchw_index [OF \<open>0 \<le> n\<close> \<open>n < sn\<close> \<open>0 \<le> c\<close> \<open>c < sc\<close> x]
  have "(((n * c1_range sc + c div 16) * h + y) * w + x) * 16 + c mod 16
    = ((n * c1_range sc + c div 16) * (h * w) + ?x) * 16 + c mod 16" by (simp add: algebra_simps)
  then have e: "nchw_at sc (h * w) ?src ?a = convert_5d_to_4d_for_protogenes (sn, sc, h, w)
          (\<lambda>n c1 y x c0. ?src ((((n * c1_range sc + c1) * h + y) * w + x) * 16 + c0)) zero n c y x"
    unfolding convert_5d_to_4d_for_protogenes_def a i(3) fst_conv snd_conv if_P [OF \<open>c < sc\<close>] by (rule arg_cong [OF sym])
  obtain cs where cs: "five2four_ir env sfx inp (sn, sc, h, w) out = Inr cs"
    "\<forall>a. 0 \<le> a \<and> a < sn * sc * (h * w) \<longrightarrow> gm (run_calls ex cs st) (buf_name out) a = nchw_at sc (h * w) ?src a"
    "\<forall>b. b \<noteq> buf_name out \<longrightarrow> gm (run_calls ex cs st) b = gm st b"
    using five2four_runs [OF assms(1-13)] by (elim exE conjE)
  have "gm (run_calls ex cs st) (buf_name out) ?a = nchw_at sc (h * w) ?src ?a"
    using cs(2) i(1,2) unfolding a by blast
  then show ?thesis unfolding e using cs(1,3) by (intro exI [of _ cs] conjI)
qed

lemma five2four_correct_witness:
  "\<exists>cs. five2four_ir (unit_env 253952) 0 (half_tensor ''data'') (1, 20, 3, 5) (half_tensor ''res'') = Inr cs
     \<and> gm (run_calls cube_ex cs start_state) ''res'' 299 = 467"
proof -
  have "hex_digits 1 = ''1''" by code_simp
  then have nm: "plain_name (0 + 1) (half_tensor ''data'')" "plain_name (0 + 1) (half_tensor ''res'')"
    by (simp_all add: plain_name_def half_tensor_def endswith_iff py_hex_def)
  have "unit_ok (unit_env 253952) 248" using unit_env_ok [of 248] by simp
  from five2four_correct [OF cube_unit_ex this, of 1 20 3 5 "half_tensor ''data''" "half_tensor ''res''" 0 start_state 0 19 2 4 0]
  show ?thesis using nm
    by (auto simp: five2four_ok_def tiles_ok_def blocks_def half_tensor_def start_state_def fresh_unit_def c1_range_def
        convert_5d_to_4d_for_protogenes_def)
qed


section \<open>Examples\<close>

text \<open>A plane of 64 elements with tiles of 32: the size of the last tile is computed as 0 and nothing of it
  is copied.\<close>

lemma last_tile_lost_back:
  "\<exists>t. make_tiling (unit_env 2048) 64 False = Inr t \<and> buf_cube_range t = 2
     \<and> five2four_tile (unit_env 2048) 1 t (half_tensor ''data'') (1, 16, 8, 8) (half_tensor ''res'') 16 0 0 0 1
       = [scatter 0 1 16]"
  by (simp add: make_tiling_def get_vnchwconv_cube_buf_max_def unit_env_def five2four_tile_def half_tensor_def
      for_range_def emit_copy_gm_ubuf_def strides_def Let_def)

text \<open>Two images of 17 channels and one pixel: channel 16 of the first image is written after the first 16
  channels of both, as a block of 16 cells from cell 16 on. The cells 17 to 31 belong to the second image.\<close>

lemma spill_into_next_image:
  "\<exists>t. make_tiling (unit_env 253952) 1 False = Inr t
     \<and> (\<forall>n. n = 0 \<or> n = 1 \<longrightarrow> last (five2four_tile (unit_env 253952) 1 t (half_tensor ''data'') (2, 17, 1, 1) (half_tensor ''res'') 1 1 n 0 0)
          = copy_call ''copy_ubuf_to_gm'' (half_tensor ''res'') (17 * n + 16) (ub_buffer 1 ''float16'' ''output_ub'') 0 0 1)"
proof -
  have t: "make_tiling (unit_env 253952) 1 False = Inr \<lparr>cube_buf_max = 256, tail_cube_size = 0, cube_col_size = 16, buf_cube_range = 1\<rparr>"
    using tiling_single [of "unit_env 253952" 248 1 False] by (simp add: unit_env_def blocks_def)
  have "last (five2four_tile (unit_env 253952) 1 \<lparr>cube_buf_max = 256, tail_cube_size = 0, cube_col_size = 16, buf_cube_range = 1\<rparr>
        (half_tensor ''data'') (2, 17, 1, 1) (half_tensor ''res'') 1 1 n 0 0)
      = copy_call ''copy_ubuf_to_gm'' (half_tensor ''res'') (17 * n + 16) (ub_buffer 1 ''float16'' ''output_ub'') 0 0 1" for n
    by (simp add: five2four_tile_def for_range_def half_tensor_def emit_copy_gm_ubuf_def copy_call_def unit_env_def Let_def)
  with t show ?thesis by blast
qed


section \<open>The kernels fit into the unified buffer\<close>

text \<open>The bytes that a kernel allocates there, elements of two bytes.\<close>

definition ub_bytes :: "kcall list \<Rightarrow> int" where
  "ub_bytes cs = sum_list (map (\<lambda>c. case c of Call dt nm args \<Rightarrow>
     if nm = ''allocate'' \<and> startswith (arg_txt (args ! 2)) ''local.UB'' then 2 * arg_num (args ! 1) else 0) cs)"

lemma ub_bytes_simps [simp]:
  "ub_bytes [] = 0" "ub_bytes (cs @ ds) = ub_bytes cs + ub_bytes ds"
  "ub_bytes (scatter r d s # cs) = ub_bytes cs"
  by (simp_all add: ub_bytes_def scatter_def)

lemma ub_bytes_loop: "(\<And>i. ub_bytes (body i) = 0) \<Longrightarrow> ub_bytes (for_range n body) = 0"
proof -
  assume "\<And>i. ub_bytes (body i) = 0"
  then have "ub_bytes (concat (map body is')) = 0" for is' by (induction is') simp_all
  then show ?thesis by (simp add: for_range_def)
qed

lemma ub_bytes_copy: "cmd \<noteq> ''allocate'' \<Longrightarrow> ub_bytes (emit_copy_gm_ubuf env cmd dt sz d od s os) = 0"
  by (simp add: emit_copy_gm_ubuf_def ub_bytes_def Let_def cong: if_cong)

lemma ub_bytes_alloc: "ub_bytes (allocate_ub sfx dt sz nm) = 2 * sz"
  by (simp add: ub_bytes_def allocate_ub_def startswith_iff)

lemma ub_bytes_config: "ub_bytes (set_array_config ss ds off) = 0"
proof -
  have "ub_bytes [reg_mov a b, reg_mov c d, reg_mov e f, reg_mov g h] = 0" for a b c d e f g h
    by (simp add: ub_bytes_def reg_mov_def)
  moreover have "ub_bytes [set_va a b, set_va c d, set_va e f, set_va g h] = 0" for a b c d e f g h
    by (simp add: ub_bytes_def set_va_def)
  ultimately show ?thesis unfolding set_array_config_def by (simp add: ub_bytes_loop)
qed

lemma ub_bytes_setup:
  "\<not> startswith (scope_reg env) ''local.UB'' \<Longrightarrow> ub_bytes (kernel_setup env sfx inp out m ss ds) = 4 * m"
proof -
  assume "\<not> startswith (scope_reg env) ''local.UB''"
  then have "ub_bytes (Call ''uint64'' ''allocate'' [Txt ''addr_array'', Num 32, Txt (scope_reg env)] # cs) = ub_bytes cs" for cs
    by (simp add: ub_bytes_def)
  then show ?thesis by (simp add: kernel_setup_def ub_bytes_alloc ub_bytes_config)
qed

lemma ub_bytes_four2five: "ub_bytes (four2five_intrin env sfx t inp shape out l cb ce) = 0"
  unfolding four2five_intrin_def
  by (intro ub_bytes_loop) (simp add: four2five_tile_def Let_def ub_bytes_loop ub_bytes_copy split: prod.split)

lemma ub_bytes_five2four: "ub_bytes (five2four_intrin env sfx t inp shape out l cb ce) = 0"
  unfolding five2four_intrin_def
  by (intro ub_bytes_loop) (simp add: five2four_tile_def Let_def ub_bytes_loop ub_bytes_copy split: prod.split)


lemma four2five_bytes:
  assumes e: "unit_ok env q" and pos: "0 < h * w" and ir: "four2five_ir env sfx inp (sn, sc, h, w) out = Inr cs"
  shows "ub_bytes cs \<le> soc_spec env ''UB_SIZE''"
proof -
  have q: "0 < q" "soc_spec env ''UB_SIZE'' = 1024 * q" "\<not> startswith (scope_reg env) ''local.UB''" using e by (simp_all add: unit_ok_def)
  obtain t where t: "make_tiling env (h * w) True = Inr t" using make_tiling_total [OF e pos] by blast
  have "ub_bytes cs = 4 * cube_buf_max t"
    using ir by (auto simp: four2five_ir_def t Let_def ub_bytes_four2five ub_bytes_setup [OF q(3)] split: if_splits)
  moreover have "cube_buf_max t \<le> 256 * q"
  proof (cases "blocks (h * w) \<le> q")
    case True
    then show ?thesis using t tiling_single [OF q(2) pos True] by auto
  next
    case False
    then show ?thesis using t tiling_many [OF q(2,1), of "h * w"] by auto
  qed
  ultimately show ?thesis using q(2) by simp
qed

lemma five2four_bytes:
  assumes e: "unit_ok env q" and pos: "0 < h * w" and ir: "five2four_ir env sfx inp (sn, sc, h, w) out = Inr cs"
  shows "ub_bytes cs \<le> soc_spec env ''UB_SIZE''"
proof -
  let ?hw = "h * w"
  have q: "0 < q" "soc_spec env ''UB_SIZE'' = 1024 * q" "\<not> startswith (scope_reg env) ''local.UB''" using e by (simp_all add: unit_ok_def)
  obtain t where t: "make_tiling env ?hw False = Inr t"
    using ir by (cases "make_tiling env ?hw False") (simp_all add: five2four_ir_def)
  have bytes: "ub_bytes cs = 4 * cube_buf_max t + (if saves_heads ?hw t then 512 else 0)"
    using ir by (auto simp: five2four_ir_def t Let_def ub_bytes_five2four ub_bytes_setup [OF q(3)] ub_bytes_alloc saves_heads_def split: if_splits)
  show ?thesis
  proof (cases "blocks ?hw \<le> q")
    case True
    then show ?thesis using t tiling_single [OF q(2) pos True] bytes q(2) by (auto simp: saves_heads_def)
  next
    case False
    let ?p = "tile_blocks q ?hw"
    have "?p \<noteq> 0"
    proof
      assume p: "?p = 0"
      then have "q = 1" "?hw mod 16 \<noteq> 0" using q(1) by (auto simp: tile_blocks_def split: if_splits)
      then have "make_tiling env ?hw False = Inl ZeroDivisionError"
        using False q(2) by (simp add: make_tiling_def get_vnchwconv_cube_buf_max_def blocks_def [symmetric] Let_def)
      with t show False by simp
    qed
    then have p: "0 < ?p" using q(1) by (auto simp: tile_blocks_def split: if_splits)
    have tt: "t = \<lparr>cube_buf_max = 256 * ?p, tail_cube_size = 256 * (blocks ?hw mod ?p), cube_col_size = 16 * ?p,
        buf_cube_range = (?hw + 16 * ?p - 1) div (16 * ?p)\<rparr>"
      using t tiling_back_many [OF q(2) refl p] False by simp
    have "?hw mod (16 * ?p) mod 16 = ?hw mod 16" by (rule mod_mod_cancel) simp
    then have "saves_heads ?hw t \<Longrightarrow> ?p = q - 1" by (simp add: saves_heads_def tt tile_blocks_def)
    then show ?thesis using bytes q p by (auto simp: tt tile_blocks_def split: if_splits)
  qed
qed

text \<open>C1. Both conversion kernels allocate no more of the unified buffer than it has: two buffers of a tile, and
  for the conversion to \<open>NCHW\<close> the heads of 16 rows as well, which the size of its tiles leaves room for.\<close>

theorem ub_bytes_fit:
  assumes "unit_ok env q" and "0 < h * w"
    and "four2five_ir env sfx inp (sn, sc, h, w) out = Inr cs \<or> five2four_ir env sfx inp (sn, sc, h, w) out = Inr cs"
  shows "ub_bytes cs \<le> soc_spec env ''UB_SIZE''"
  using assms four2five_bytes five2four_bytes by blast

lemma ub_bytes_fit_witness:
  "\<exists>cs. five2four_ir (unit_env 2048) 0 (half_tensor ''data'') (1, 16, 3, 15) (half_tensor ''res'') = Inr cs \<and> ub_bytes cs \<le> 2048"
proof -
  have "unit_ok (unit_env 2048) 2" using unit_env_ok [of 2] by simp
  note fit = ub_bytes_fit [OF this, of 3 15 0 "half_tensor ''data''" 1 16 "half_tensor ''res''"]
  obtain cs where "five2four_ir (unit_env 2048) 0 (half_tensor ''data'') (1, 16, 3, 15) (half_tensor ''res'') = Inr cs"
    by (simp add: five2four_ir_def make_tiling_def get_vnchwconv_cube_buf_max_def unit_env_def Let_def)
  with fit [of cs] show ?thesis by (simp add: unit_env_def)
qed

end
