(* ===== verification/Dim_Api.thy ===== *)
theory Dim_Api
  imports Dim_Five2four
begin

text \<open>
  The public conversions of \<^verbatim>\<open>dim_conv.py\<close>: their counters give every output its own name, so that the
  theorems on the kernels apply to each of them.
\<close>

section \<open>Names\<close>

definition hex_val :: "string \<Rightarrow> nat" where
  "hex_val s = foldl (\<lambda>a c. 16 * a + (if of_char c < (58 :: nat) then of_char c - 48 else of_char c - 87)) 0 s"

lemma hex_char_val: "d < 16 \<Longrightarrow> (if of_char (hex_char d) < (58 :: nat) then of_char (hex_char d) - 48 else of_char (hex_char d) - 87) = d"
  by (auto simp: hex_char_def of_char_of)

lemma hex_val_digits: "hex_val (hex_digits n) = n"
proof (induction n rule: hex_digits.induct)
  case (1 n)
  show ?case
  proof (cases "n < 16")
    case True
    then show ?thesis using hex_char_val [of n] by (subst hex_digits.simps) (simp add: hex_val_def)
  next
    case False
    then have "hex_val (hex_digits (n div 16)) = n div 16" by (rule 1)
    then show ?thesis using False hex_char_val [of "n mod 16"] by (subst hex_digits.simps) (simp add: hex_val_def)
  qed
qed

lemma output_name_inj: "output_name a = output_name b \<longleftrightarrow> a = b"
  by (metis append_same_eq same_append_eq output_name_def py_hex_def hex_val_digits)


lemma hex_digits_plain: "CHR ''.'' \<notin> set (hex_digits n)"
proof (induction n rule: hex_digits.induct)
  case (1 n)
  have h: "hex_char d \<noteq> CHR ''.''" if "d < 16" for d
  proof
    assume "hex_char d = CHR ''.''"
    moreover have "(48 :: nat) \<le> of_char (hex_char d)" using that by (simp add: hex_char_def of_char_of)
    ultimately show False by simp
  qed
  show ?case
  proof (cases "n < 16")
    case True
    then show ?thesis using h [of n] by (subst hex_digits.simps) auto
  next
    case False
    then show ?thesis using 1 h [of "n mod 16"] by (subst hex_digits.simps) auto
  qed
qed

lemma output_name_plain: "plain_name sfx \<lparr>buf_name = output_name k, buf_dtype = dt\<rparr>"
proof -
  have "CHR ''.'' \<notin> set (output_name k)" using hex_digits_plain [of k] by (simp add: output_name_def py_hex_def)
  then show ?thesis by (auto simp: plain_name_def endswith_iff)
qed

section \<open>Every output has its own name\<close>

fun run_dims :: "tvm_env \<Rightarrow> (bool \<times> dim_arg \<times> pyval) list \<Rightarrow> dim_counters \<Rightarrow> dim_node res list \<times> dim_counters" where
  "run_dims env [] c = ([], c)"
| "run_dims env ((to5, x, s) # steps) c =
     (let (r, c1) = (if to5 then compute_four2five env False x s c else compute_five2four env False x s c);
          (rs, c2) = run_dims env steps c1 in (r # rs, c2))"

fun extern_names :: "dim_node res list \<Rightarrow> string list" where
  "extern_names [] = []"
| "extern_names (Inr (Extern_Node nm _ _ _) # rs) = nm # extern_names rs"
| "extern_names (_ # rs) = extern_names rs"

lemma extern_step:
  "\<exists>r c1. extern shape x f c = (r, c1) \<and> OUTPUT_NAME_SUFFIX c1 = OUTPUT_NAME_SUFFIX c + 1
     \<and> ((\<exists>e. r = Inl e) \<or> (\<exists>s d b. r = Inr (Extern_Node (output_name (OUTPUT_NAME_SUFFIX c + 1)) s d b)))"
  by (auto simp: extern_def Let_def split: sum.split)

lemma with_input_step:
  assumes "\<And>t s. \<exists>r c1. f t s c = (r, c1) \<and> OUTPUT_NAME_SUFFIX c1 = OUTPUT_NAME_SUFFIX c + 1
     \<and> ((\<exists>e. r = Inl e) \<or> (\<exists>s d b. r = Inr (Extern_Node (output_name (OUTPUT_NAME_SUFFIX c + 1)) s d b)))"
    and "with_input x p f c = (r, c1)"
  shows "(\<exists>e. r = Inl e) \<and> OUTPUT_NAME_SUFFIX c \<le> OUTPUT_NAME_SUFFIX c1
    \<or> (\<exists>s d b. r = Inr (Extern_Node (output_name (OUTPUT_NAME_SUFFIX c + 1)) s d b)) \<and> OUTPUT_NAME_SUFFIX c1 = OUTPUT_NAME_SUFFIX c + 1"
proof (cases "bindE (check_input_para x p) (\<lambda>(t, xs). bindE (shape4_of xs) (\<lambda>s. Inr (t, s)))")
  case (Inl e)
  then show ?thesis using assms(2) by (auto simp: with_input_def)
next
  case (Inr ts)
  obtain t s where ts: "ts = (t, s)" by (cases ts)
  show ?thesis using assms(1) [of t s] assms(2) Inr by (auto simp: with_input_def ts)
qed

lemma compute_step:
  assumes "(if to5 then compute_four2five env False x s c else compute_five2four env False x s c) = (r, c1)"
  shows "(\<exists>e. r = Inl e) \<and> OUTPUT_NAME_SUFFIX c \<le> OUTPUT_NAME_SUFFIX c1
    \<or> (\<exists>s d b. r = Inr (Extern_Node (output_name (OUTPUT_NAME_SUFFIX c + 1)) s d b)) \<and> OUTPUT_NAME_SUFFIX c1 = OUTPUT_NAME_SUFFIX c + 1"
proof -
  have "\<exists>r c1. convert_4d_to_5d_for_davinci env t s c = (r, c1) \<and> OUTPUT_NAME_SUFFIX c1 = OUTPUT_NAME_SUFFIX c + 1
     \<and> ((\<exists>e. r = Inl e) \<or> (\<exists>s d b. r = Inr (Extern_Node (output_name (OUTPUT_NAME_SUFFIX c + 1)) s d b)))" for t s
    unfolding convert_4d_to_5d_for_davinci_def by (cases s) (simp only: prod.case, rule extern_step)
  moreover have "\<exists>r c1. convert_5d_to_4d_for_davinci env t s c = (r, c1) \<and> OUTPUT_NAME_SUFFIX c1 = OUTPUT_NAME_SUFFIX c + 1
     \<and> ((\<exists>e. r = Inl e) \<or> (\<exists>s d b. r = Inr (Extern_Node (output_name (OUTPUT_NAME_SUFFIX c + 1)) s d b)))" for t s
    unfolding convert_5d_to_4d_for_davinci_def by (cases s) (simp only: prod.case, rule extern_step)
  ultimately show ?thesis using assms
    unfolding compute_four2five_def compute_five2four_def by (cases to5) (simp_all only: if_True if_False, (rule with_input_step, assumption+)+)
qed

lemma run_dims_names:
  "run_dims env steps c = (rs, c2) \<Longrightarrow>
     \<exists>ks. extern_names rs = map output_name ks \<and> distinct ks \<and> (\<forall>k\<in>set ks. OUTPUT_NAME_SUFFIX c < k)"
proof (induction steps arbitrary: c rs c2)
  case (Cons p steps)
  obtain to5 x s where p: "p = (to5, x, s)" by (cases p)
  obtain r c1 where r: "(if to5 then compute_four2five env False x s c else compute_five2four env False x s c) = (r, c1)"
    by fastforce
  obtain rs' c2' where rs': "run_dims env steps c1 = (rs', c2')" by fastforce
  have e: "rs = r # rs'" using Cons.prems by (simp add: p r rs' Let_def)
  obtain ks where ks: "extern_names rs' = map output_name ks" "distinct ks" "\<forall>k\<in>set ks. OUTPUT_NAME_SUFFIX c1 < k"
    using Cons.IH [OF rs'] by blast
  from compute_step [OF r] show ?case
  proof (elim disjE conjE exE)
    fix ex assume "r = Inl ex" "OUTPUT_NAME_SUFFIX c \<le> OUTPUT_NAME_SUFFIX c1"
    then show ?thesis using ks e by (intro exI [of _ ks]) auto
  next
    fix s' d b assume "r = Inr (Extern_Node (output_name (OUTPUT_NAME_SUFFIX c + 1)) s' d b)" "OUTPUT_NAME_SUFFIX c1 = OUTPUT_NAME_SUFFIX c + 1"
    then show ?thesis using ks e by (intro exI [of _ "(OUTPUT_NAME_SUFFIX c + 1) # ks"]) auto
  qed
qed simp

text \<open>C1. Whatever conversions are asked for, in whatever order and with whatever arguments, no two tensors that
  the module builds share a name: the counter in the name only grows, also when a kernel cannot be built.\<close>

theorem output_names_distinct: "distinct (extern_names (fst (run_dims env steps c)))"
proof -
  obtain rs c2 where run: "run_dims env steps c = (rs, c2)" by fastforce
  from run_dims_names [OF run] show ?thesis by (auto simp: run distinct_map inj_on_def output_name_inj)
qed

text \<open>C1. The public conversion to five dimensions on a tensor of half precision floats, for the shapes \<open>four2five_ok\<close>
  (the plane fits one tile, or there is one image and the last tile is not empty): the node has the shape of the
  debug definition, and its calls, run on the device, leave in every cell of the node's buffer that belongs to a channel of the input the
  value that the debug definition gives. (Nothing is said of the cells that fill up the last 16 channels; for
  other shapes the conversion is wrong: lemmas \<open>full_tile_of_second_image\<close> and \<open>last_tile_lost\<close>.)\<close>

theorem compute_four2five_computes:
  assumes "cube_unit ex" and "unit_ok env q" and "0 < sn" and "0 < sc" and "0 < h" and "0 < w"
    and "four2five_ok q sn (h * w)" and "buf_dtype inp = ''float16''"
    and "\<And>sfx. plain_name sfx inp" and "buf_name inp \<noteq> output_name (OUTPUT_NAME_SUFFIX c + 1)"
    and "fresh_unit st"
    and "0 \<le> n" and "n < sn" and "0 \<le> c1" and "0 \<le> c0" and "c0 < 16" and "c0 + c1 * 16 < sc"
    and "0 \<le> y" and "y < h" and "0 \<le> x" and "x < w"
  shows "\<exists>nm body c'. compute_four2five env False (Tensor_Arg inp) (PyList [PyInt sn, PyInt sc, PyInt h, PyInt w]) c
        = (Inr (Extern_Node nm [sn, c1_range sc, h, w, 16] ''float16'' body), c')
    \<and> gm (run_calls ex body st) nm ((((n * c1_range sc + c1) * h + y) * w + x) * 16 + c0)
      = convert_4d_to_5d_for_protogenes (sn, sc, h, w) (\<lambda>n c y x. gm st (buf_name inp) (((n * sc + c) * h + y) * w + x))
          zero n c1 y x c0"
proof -
  let ?nm = "output_name (OUTPUT_NAME_SUFFIX c + 1)"
  let ?out = "\<lparr>buf_name = ?nm, buf_dtype = ''float16''\<rparr>"
  have out: "buf_dtype ?out = ''float16''" "plain_name (UB_NAME_SUFFIX c + 1) ?out" "buf_name inp \<noteq> buf_name ?out"
    using assms(10) output_name_plain by simp_all
  obtain cs where cs: "four2five_ir env (UB_NAME_SUFFIX c) inp (sn, sc, h, w) ?out = Inr cs"
    "gm (run_calls ex cs st) (buf_name ?out) ((((n * c1_range sc + c1) * h + y) * w + x) * 16 + c0)
      = convert_4d_to_5d_for_protogenes (sn, sc, h, w) (\<lambda>n c y x. gm st (buf_name inp) (((n * sc + c) * h + y) * w + x))
          zero n c1 y x c0"
    using four2five_kernel [OF assms(1-8) out(1) assms(9) out(2,3) assms(11-21), of zero] by (elim exE conjE) (rule that)
  show ?thesis
    by (rule exI [of _ ?nm], rule exI [of _ cs],
        rule exI [of _ "\<lparr>OUTPUT_NAME_SUFFIX = OUTPUT_NAME_SUFFIX c + 1, UB_NAME_SUFFIX = UB_NAME_SUFFIX c + 1\<rparr>"])
      (use cs assms(8) in \<open>simp add: compute_four2five_def with_input_def check_input_para_def shape4_of_def
        convert_4d_to_5d_for_davinci_def extern_def Let_def c1_range_def\<close>)
qed

lemma compute_four2five_computes_witness:
  "\<exists>nm body c'. compute_four2five (unit_env 253952) False (Tensor_Arg (half_tensor ''data''))
        (PyList [PyInt 2, PyInt 20, PyInt 3, PyInt 5]) \<lparr>OUTPUT_NAME_SUFFIX = 6, UB_NAME_SUFFIX = 6\<rparr>
      = (Inr (Extern_Node nm [2, 2, 3, 5, 16] ''float16'' body), c')
    \<and> gm (run_calls cube_ex body start_state) nm 947 = 599"
proof -
  have nm: "plain_name sfx (half_tensor ''data'')" for sfx
    by (auto simp: plain_name_def half_tensor_def endswith_iff dest: arg_cong [where f = set])
  have ne: "buf_name (half_tensor ''data'') \<noteq> output_name k" for k
    by (simp add: half_tensor_def output_name_def)
  have "unit_ok (unit_env 253952) 248" using unit_env_ok [of 248] by simp
  from compute_four2five_computes [OF cube_unit_ex this, of 2 20 3 5 "half_tensor ''data''"
      "\<lparr>OUTPUT_NAME_SUFFIX = 6, UB_NAME_SUFFIX = 6\<rparr>" start_state 1 1 3 2 4 0]
  show ?thesis using nm ne
    by (auto simp: four2five_ok_def blocks_def half_tensor_def start_state_def fresh_unit_def c1_range_def
        convert_4d_to_5d_for_protogenes_def)
qed

end
