(* ===== verification/Segment_Compute.thy ===== *)
theory Segment_Compute
  imports Dsl_Util Py_Number
begin

text \<open>
  The segment functions of the operator language, \<^verbatim>\<open>segment_compute.py\<close>: sums, means, products, minima
  and maxima of the rows of a tensor that carry the same number. A computation is an expression over
  the rows of the input, built as the code builds it; what the expression means is \<open>seg_eval\<close>, over any
  arithmetic. The formatting of numbers is a parameter.
\<close>

section \<open>Expressions\<close>

text \<open>\<open>Row k\<close> is \<^verbatim>\<open>tensor[(k,) + indices[1:]]\<close>, \<open>Select_Index i\<close> is \<^verbatim>\<open>tvm.select(indices[0] == i, ...)\<close>.\<close>

datatype seg_expr =
    Row nat
  | Astype string seg_expr
  | Add seg_expr seg_expr
  | Sub seg_expr seg_expr
  | Mul seg_expr seg_expr
  | Min_Of seg_expr seg_expr
  | Max_Of seg_expr seg_expr
  | Div_Const seg_expr nat string
  | Tvm_Value pyval string
  | Select_Index int seg_expr seg_expr

text \<open>A tensor of the compiler, and what the functions build: a computation of every row from its
  expression, a reduction over the rows, or a sum of two computations.\<close>

record seg_tensor =
  sg_name :: string
  sg_dtype :: string
  sg_shape :: "shape_value list"

datatype seg_node =
    Segment_Node string string "shape_value list" seg_expr
  | Reduce_Node string string "shape_value list" string shape_value pyval string
  | Special_Node string "shape_value list" seg_expr
  | Elewise_Node string "shape_value list" seg_expr

datatype seg_ids =
    Id_List "int list"
  | Id_Tensor seg_tensor

section \<open>Segments given as a list\<close>

fun list_index :: "int list \<Rightarrow> int \<Rightarrow> nat res" where
  "list_index [] i = Inl ValueError"
| "list_index (x # xs) i = (if x = i then Inr 0 else bindE (list_index xs i) (\<lambda>k. Inr (Suc k)))"

definition seg_combine :: "string \<Rightarrow> seg_expr \<Rightarrow> seg_expr \<Rightarrow> seg_expr res" where
  "seg_combine segment_op row tmp =
     (if segment_op \<in> {''segment_sum'', ''segment_mean''} then Inr (Add row tmp)
      else if segment_op = ''segment_prod'' then Inr (Mul row tmp)
      else if segment_op = ''segment_min'' then Inr (Min_Of row tmp)
      else if segment_op = ''segment_max'' then Inr (Max_Of row tmp)
      else Inl RuntimeError)"

text \<open>The loop over the further occurrences: each is looked for in a copy in which the earlier ones are
  overwritten by -1.\<close>

fun outer_loop :: "string \<Rightarrow> string \<Rightarrow> int \<Rightarrow> nat \<Rightarrow> int list \<Rightarrow> nat \<Rightarrow> seg_expr \<Rightarrow> seg_expr res" where
  "outer_loop segment_op output_dtype i 0 new_segment_id idx tmp = Inr tmp"
| "outer_loop segment_op output_dtype i (Suc n) new_segment_id idx tmp =
     (let new_segment_id = new_segment_id[idx := - 1] in
      bindE (list_index new_segment_id i) (\<lambda>idx.
      bindE (seg_combine segment_op (Astype output_dtype (Row idx)) tmp) (\<lambda>tmp.
        outer_loop segment_op output_dtype i n new_segment_id idx tmp)))"

definition compute_outer_dim ::
    "int list \<Rightarrow> seg_tensor \<Rightarrow> pyval \<Rightarrow> string \<Rightarrow> string \<Rightarrow> int \<Rightarrow> seg_expr res" where
  "compute_outer_dim segment_ids tensor init_value output_dtype segment_op i =
     (if i \<in> set segment_ids then
        bindE (list_index segment_ids i) (\<lambda>idx.
        bindE (outer_loop segment_op output_dtype i (count_list segment_ids i - 1) (segment_ids[idx := - 1]) idx
                 (Astype output_dtype (Row idx))) (\<lambda>tmp.
          Inr (if segment_op = ''segment_mean'' then Div_Const tmp (count_list segment_ids i) output_dtype else tmp)))
      else Inr (Tvm_Value init_value (sg_dtype tensor)))"

definition segment_compute ::
    "int list \<Rightarrow> seg_tensor \<Rightarrow> pyval \<Rightarrow> string \<Rightarrow> string \<Rightarrow> int \<Rightarrow> seg_expr res" where
  "segment_compute segment_ids tensor init_value output_dtype segment_op num_segments =
     bindE (compute_outer_dim segment_ids tensor init_value output_dtype segment_op 0) (\<lambda>res.
       foldE (\<lambda>res i. bindE (compute_outer_dim segment_ids tensor init_value output_dtype segment_op i)
                (\<lambda>e. Inr (Select_Index i e res))) res [1..num_segments - 1])"

text \<open>The name of the node and the numbers in its tag.\<close>

definition seg_name :: "string \<Rightarrow> string \<Rightarrow> string" where
  "seg_name segment_op tensor_name =
     ''data_'' @ (let ps = s_split ''_'' segment_op in ps ! (length ps - 2)) @ ''_'' @ last (s_split ''_'' tensor_name)"

definition int_value :: "pyval \<Rightarrow> int" where
  "int_value v = (case v of PyInt i \<Rightarrow> i | PyBool b \<Rightarrow> (if b then 1 else 0) | _ \<Rightarrow> 0)"

definition segment_op_list ::
    "dsl_env \<Rightarrow> (pyval \<Rightarrow> string) \<Rightarrow> seg_tensor \<Rightarrow> seg_ids \<Rightarrow> pyval \<Rightarrow> pyval \<Rightarrow> string \<Rightarrow> string \<Rightarrow> seg_node res" where
  "segment_op_list env str tensor segment_ids num_segments init_value output_dtype segment_op =
     bindE (raise_if (\<not> is_int num_segments) RuntimeError) (\<lambda>_.
     bindE (raise_if (\<not> is_int init_value \<and> \<not> is_float init_value) RuntimeError) (\<lambda>_.
     bindE (check_input_tensor_shape env (sg_shape tensor)) (\<lambda>_.
     bindE (case segment_ids of Id_List ids \<Rightarrow> Inr ids | Id_Tensor _ \<Rightarrow> Inl TypeError) (\<lambda>ids.
     bindE (case sg_shape tensor of [] \<Rightarrow> Inl IndexError | d # _ \<Rightarrow> Inr d) (\<lambda>d.
     bindE (raise_if (d \<noteq> Dim_Int (int (length ids))) RuntimeError) (\<lambda>_.
     bindE (if ids = [] then Inl ValueError else Inr (Max (set ids))) (\<lambda>max_id.
     bindE (raise_if (max_id + 1 > int_value num_segments) RuntimeError) (\<lambda>_.
     let nm = seg_name segment_op (sg_name tensor);
         shape = Dim_Int (int_value num_segments) # tl (sg_shape tensor) in
     if max_id < 0 then
       (let tmp = Add (Sub (Row 0) (Row 0)) (Tvm_Value init_value output_dtype) in
        Inr (if output_dtype \<in> {''int8'', ''uint8''} then Special_Node nm shape tmp
             else Elewise_Node ''elewise_binary_add'' shape tmp))
     else
       bindE (segment_compute ids tensor init_value output_dtype segment_op (int_value num_segments)) (\<lambda>body.
         Inr (Segment_Node nm
           (segment_op @ ''|'' @ s_join '','' (map str_int ids) @ ''|'' @ str num_segments @ ''|'' @ str init_value)
           shape body))))))))))"

section \<open>Segments given as a tensor\<close>

definition segment_tensor_op ::
    "(pyval \<Rightarrow> string) \<Rightarrow> seg_tensor \<Rightarrow> seg_tensor \<Rightarrow> pyval \<Rightarrow> pyval \<Rightarrow> string \<Rightarrow> string \<Rightarrow> seg_node res" where
  "segment_tensor_op str tensor segment_ids num_segments init_value output_dtype segment_op =
     bindE (case sg_shape segment_ids of [] \<Rightarrow> Inl IndexError | d # _ \<Rightarrow> Inr d) (\<lambda>k_extent.
     bindE (raise_if (sg_dtype tensor \<notin> {''float16'', ''float32'', ''int32'', ''int16''}) RuntimeError) (\<lambda>_.
     bindE (raise_if (sg_dtype segment_ids \<noteq> ''int32'') RuntimeError) (\<lambda>_.
     bindE (raise_if (\<not> is_int num_segments) RuntimeError) (\<lambda>_.
     bindE (case sg_shape tensor of [] \<Rightarrow> Inl IndexError | d # _ \<Rightarrow> Inr d) (\<lambda>d.
     bindE (raise_if (k_extent \<noteq> d) RuntimeError) (\<lambda>_.
     bindE (raise_if (length (sg_shape segment_ids) \<noteq> 1) RuntimeError) (\<lambda>_.
     bindE (raise_if (segment_op \<notin> {''segmentensor_min'', ''segmentensor_max'', ''segmentensor_prod''}) RuntimeError) (\<lambda>_.
       Inr (Reduce_Node (seg_name segment_op (sg_name tensor))
         (segment_op @ ''|'' @ str num_segments @ ''|'' @ str init_value)
         (Dim_Int (int_value num_segments) # tl (sg_shape tensor)) segment_op k_extent init_value (sg_dtype tensor))))))))))"

section \<open>The public functions\<close>

definition unsorted_segment_sum ::
    "dsl_env \<Rightarrow> (pyval \<Rightarrow> string) \<Rightarrow> seg_tensor \<Rightarrow> seg_ids \<Rightarrow> pyval \<Rightarrow> pyval \<Rightarrow> seg_node res" where
  "unsorted_segment_sum env str tensor segment_ids num_segments init_value =
     dtype_check_decorator env (\<lambda>_. segment_op_list env str tensor segment_ids num_segments init_value (sg_dtype tensor) ''segment_sum'')
       ''unsorted_segment_sum'' [Tensor (sg_dtype tensor)]"

definition unsorted_segment_mean ::
    "dsl_env \<Rightarrow> (pyval \<Rightarrow> string) \<Rightarrow> seg_tensor \<Rightarrow> seg_ids \<Rightarrow> pyval \<Rightarrow> pyval \<Rightarrow> seg_node res" where
  "unsorted_segment_mean env str tensor segment_ids num_segments init_value =
     dtype_check_decorator env (\<lambda>_. segment_op_list env str tensor segment_ids num_segments init_value (sg_dtype tensor) ''segment_mean'')
       ''unsorted_segment_mean'' [Tensor (sg_dtype tensor)]"

definition unsorted_segment_prod ::
    "dsl_env \<Rightarrow> (pyval \<Rightarrow> string) \<Rightarrow> seg_tensor \<Rightarrow> seg_ids \<Rightarrow> pyval \<Rightarrow> pyval \<Rightarrow> seg_node res" where
  "unsorted_segment_prod env str tensor segment_ids num_segments init_value =
     dtype_check_decorator env (\<lambda>_. (case segment_ids of
         Id_Tensor ids \<Rightarrow> segment_tensor_op str tensor ids num_segments (PyInt 1) (sg_dtype tensor) ''segmentensor_prod''
       | Id_List _ \<Rightarrow> segment_op_list env str tensor segment_ids num_segments init_value (sg_dtype tensor) ''segment_prod''))
       ''unsorted_segment_prod'' [Tensor (sg_dtype tensor)]"

definition unsorted_segment_min ::
    "dsl_env \<Rightarrow> (pyval \<Rightarrow> string) \<Rightarrow> seg_tensor \<Rightarrow> seg_ids \<Rightarrow> pyval \<Rightarrow> pyval \<Rightarrow> seg_node res" where
  "unsorted_segment_min env str tensor segment_ids num_segments init_value =
     dtype_check_decorator env (\<lambda>_. (case segment_ids of
         Id_Tensor ids \<Rightarrow> segment_tensor_op str tensor ids num_segments init_value (sg_dtype tensor) ''segmentensor_min''
       | Id_List _ \<Rightarrow> segment_op_list env str tensor segment_ids num_segments init_value (sg_dtype tensor) ''segment_min''))
       ''unsorted_segment_min'' [Tensor (sg_dtype tensor)]"

definition unsorted_segment_max ::
    "dsl_env \<Rightarrow> (pyval \<Rightarrow> string) \<Rightarrow> seg_tensor \<Rightarrow> seg_ids \<Rightarrow> pyval \<Rightarrow> pyval \<Rightarrow> seg_node res" where
  "unsorted_segment_max env str tensor segment_ids num_segments init_value =
     dtype_check_decorator env (\<lambda>_. (case segment_ids of
         Id_Tensor ids \<Rightarrow> segment_tensor_op str tensor ids num_segments init_value (sg_dtype tensor) ''segmentensor_max''
       | Id_List _ \<Rightarrow> segment_op_list env str tensor segment_ids num_segments init_value (sg_dtype tensor) ''segment_max''))
       ''unsorted_segment_max'' [Tensor (sg_dtype tensor)]"


section \<open>What a computation means\<close>

text \<open>An arithmetic of the target: casts, the binary operations, division by a count, and constants.\<close>

record 'v seg_alg =
  a_cast :: "string \<Rightarrow> 'v \<Rightarrow> 'v"
  a_add :: "'v \<Rightarrow> 'v \<Rightarrow> 'v"
  a_sub :: "'v \<Rightarrow> 'v \<Rightarrow> 'v"
  a_mul :: "'v \<Rightarrow> 'v \<Rightarrow> 'v"
  a_min :: "'v \<Rightarrow> 'v \<Rightarrow> 'v"
  a_max :: "'v \<Rightarrow> 'v \<Rightarrow> 'v"
  a_div :: "'v \<Rightarrow> nat \<Rightarrow> 'v"
  a_const :: "pyval \<Rightarrow> string \<Rightarrow> 'v"

fun seg_eval :: "'v seg_alg \<Rightarrow> (nat \<Rightarrow> 'v) \<Rightarrow> int \<Rightarrow> seg_expr \<Rightarrow> 'v" where
  "seg_eval A row i0 (Row k) = row k"
| "seg_eval A row i0 (Astype d e) = a_cast A d (seg_eval A row i0 e)"
| "seg_eval A row i0 (Add a b) = a_add A (seg_eval A row i0 a) (seg_eval A row i0 b)"
| "seg_eval A row i0 (Sub a b) = a_sub A (seg_eval A row i0 a) (seg_eval A row i0 b)"
| "seg_eval A row i0 (Mul a b) = a_mul A (seg_eval A row i0 a) (seg_eval A row i0 b)"
| "seg_eval A row i0 (Min_Of a b) = a_min A (seg_eval A row i0 a) (seg_eval A row i0 b)"
| "seg_eval A row i0 (Max_Of a b) = a_max A (seg_eval A row i0 a) (seg_eval A row i0 b)"
| "seg_eval A row i0 (Div_Const a n d) = a_div A (seg_eval A row i0 a) n"
| "seg_eval A row i0 (Tvm_Value v d) = a_const A v d"
| "seg_eval A row i0 (Select_Index i a b) = (if i0 = i then seg_eval A row i0 a else seg_eval A row i0 b)"

text \<open>The reference: the positions of a number in the list, in order, and the rows there combined.\<close>

definition positions :: "int list \<Rightarrow> int \<Rightarrow> nat list" where
  "positions ids i = filter (\<lambda>k. ids ! k = i) [0..<length ids]"

definition seg_fun :: "'v seg_alg \<Rightarrow> string \<Rightarrow> 'v \<Rightarrow> 'v \<Rightarrow> 'v" where
  "seg_fun A op = (if op = ''segment_prod'' then a_mul A else if op = ''segment_min'' then a_min A
     else if op = ''segment_max'' then a_max A else a_add A)"

definition segment_ops :: "string set" where
  "segment_ops = {''segment_sum'', ''segment_mean'', ''segment_prod'', ''segment_min'', ''segment_max''}"

definition segment_value :: "'v seg_alg \<Rightarrow> string \<Rightarrow> string \<Rightarrow> 'v \<Rightarrow> (nat \<Rightarrow> 'v) \<Rightarrow> int list \<Rightarrow> int \<Rightarrow> 'v" where
  "segment_value A op dtype init row ids i =
     (case positions ids i of
        [] \<Rightarrow> init
      | k # ks \<Rightarrow> (let v = fold (\<lambda>k acc. seg_fun A op (a_cast A dtype (row k)) acc) ks (a_cast A dtype (row k)) in
          if op = ''segment_mean'' then a_div A v (length (positions ids i)) else v))"

section \<open>The loop finds the positions\<close>

lemma positions_Nil [simp]: "positions [] i = []"
  by (simp add: positions_def)

lemma positions_Cons: "positions (x # xs) i = (if x = i then [0] else []) @ map Suc (positions xs i)"
proof -
  have "[0..<length (x # xs)] = 0 # map Suc [0..<length xs]" by (simp only: length_Cons map_Suc_upt upt_conv_Cons)
  then show ?thesis by (simp add: positions_def filter_map comp_def)
qed

lemma positions_count: "length (positions ids i) = count_list ids i"
  by (induction ids) (simp_all add: positions_Cons)

lemma positions_empty: "positions ids i = [] \<longleftrightarrow> i \<notin> set ids"
  by (induction ids) (auto simp: positions_Cons)

lemma list_index_first: "positions ids i = k # ks \<Longrightarrow> list_index ids i = Inr k"
proof (induction ids arbitrary: k ks)
  case (Cons x xs)
  show ?case
  proof (cases "x = i")
    case False
    then obtain k' ks' where "positions xs i = k' # ks'" "k = Suc k'"
      using Cons.prems by (auto simp: positions_Cons Cons_eq_append_conv map_eq_Cons_conv)
    then show ?thesis using Cons.IH False by simp
  qed (use Cons.prems in \<open>simp add: positions_Cons\<close>)
qed simp

lemma positions_update:
  "positions ids i = k # ks \<Longrightarrow> i \<noteq> - 1 \<Longrightarrow> positions (ids[k := - 1]) i = ks"
proof (induction ids arbitrary: k ks)
  case (Cons x xs)
  show ?case
  proof (cases "x = i")
    case True
    then show ?thesis using Cons.prems by (auto simp: positions_Cons)
  next
    case False
    then obtain k' ks' where k': "positions xs i = k' # ks'" "k = Suc k'" "ks = map Suc ks'"
      using Cons.prems by (auto simp: positions_Cons Cons_eq_append_conv map_eq_Cons_conv)
    then show ?thesis using Cons.IH [OF k'(1)] Cons.prems(2) False by (simp add: positions_Cons)
  qed
qed simp

lemma seg_combine_eval:
  assumes "op \<in> segment_ops"
  obtains e where "seg_combine op a b = Inr e"
    and "\<And>(A :: 'v seg_alg) row i0. seg_eval A row i0 e = seg_fun A op (seg_eval A row i0 a) (seg_eval A row i0 b)"
  using assms by (fastforce simp: segment_ops_def seg_combine_def seg_fun_def)

lemma outer_loop_eval:
  assumes op: "op \<in> segment_ops" and i: "i \<noteq> - 1"
  shows "positions (new[idx := - 1]) i = ks \<Longrightarrow> \<exists>e. outer_loop op dt i (length ks) new idx tmp = Inr e
    \<and> (\<forall>(A :: 'v seg_alg) row i0. seg_eval A row i0 e = fold (\<lambda>k acc. seg_fun A op (a_cast A dt (row k)) acc) ks (seg_eval A row i0 tmp))"
proof (induction ks arbitrary: new idx tmp)
  case (Cons k ks)
  obtain t where t: "seg_combine op (Astype dt (Row k)) tmp = Inr t"
    and ev: "\<And>(A :: 'v seg_alg) row i0. seg_eval A row i0 t = seg_fun A op (seg_eval A row i0 (Astype dt (Row k))) (seg_eval A row i0 tmp)"
    using seg_combine_eval [OF op, of "Astype dt (Row k)" tmp] by blast
  have "positions (new[idx := - 1, k := - 1]) i = ks" by (rule positions_update [OF Cons.prems i])
  from Cons.IH [OF this, of t] show ?case
    using list_index_first [OF Cons.prems] t ev by (simp add: Let_def)
qed simp

lemma compute_outer_dim_eval:
  assumes op: "op \<in> segment_ops" and i: "i \<noteq> - 1"
  shows "\<exists>e. compute_outer_dim ids tensor init dt op i = Inr e
    \<and> (\<forall>(A :: 'v seg_alg) row i0. seg_eval A row i0 e = segment_value A op dt (a_const A init (sg_dtype tensor)) row ids i)"
proof (cases "positions ids i")
  case Nil
  then have "i \<notin> set ids" by (simp add: positions_empty)
  then show ?thesis using Nil by (simp add: compute_outer_dim_def segment_value_def)
next
  case (Cons k ks)
  then have mem: "i \<in> set ids" using positions_empty [of ids i] by auto
  have "positions (ids[k := - 1, k := - 1]) i = ks" using positions_update [OF Cons i] by simp
  from outer_loop_eval [OF op i this, of dt "Astype dt (Row k)"] obtain e where
    e: "outer_loop op dt i (length ks) (ids[k := - 1]) k (Astype dt (Row k)) = Inr e"
    and ev: "\<And>(A :: 'v seg_alg) row i0. seg_eval A row i0 e = fold (\<lambda>k acc. seg_fun A op (a_cast A dt (row k)) acc) ks (a_cast A dt (row k))"
    by auto
  have n: "count_list ids i - 1 = length ks" using positions_count [of ids i] Cons by simp
  show ?thesis using list_index_first [OF Cons] mem e ev
    by (simp add: compute_outer_dim_def n segment_value_def Cons Let_def positions_count [symmetric])
qed


section \<open>Every row is the value of its segment\<close>

lemma select_rows_eval:
  assumes op: "op \<in> segment_ops"
  shows "- 1 \<notin> set is \<Longrightarrow> \<exists>e. foldE (\<lambda>res i. bindE (compute_outer_dim ids tensor init dt op i) (\<lambda>e. Inr (Select_Index i e res))) res is = Inr e
    \<and> (\<forall>(A :: 'v seg_alg) row i0. seg_eval A row i0 e =
        (if i0 \<in> set is then segment_value A op dt (a_const A init (sg_dtype tensor)) row ids i0 else seg_eval A row i0 res))"
proof (induction "is" arbitrary: res)
  case (Cons i "is")
  then have "i \<noteq> - 1" by auto
  from compute_outer_dim_eval [OF op this, where 'v = 'v] obtain e where e: "compute_outer_dim ids tensor init dt op i = Inr e"
    and ev: "\<And>(A :: 'v seg_alg) row i0. seg_eval A row i0 e = segment_value A op dt (a_const A init (sg_dtype tensor)) row ids i"
    by blast
  from Cons.IH [of "Select_Index i e res"] Cons.prems show ?case by (auto simp: e ev)
qed simp

lemma segment_compute_eval:
  assumes op: "op \<in> segment_ops" and i: "0 \<le> i0" "i0 < n"
  shows "\<exists>e. segment_compute ids tensor init dt op n = Inr e
    \<and> (\<forall>(A :: 'v seg_alg) row. seg_eval A row i0 e = segment_value A op dt (a_const A init (sg_dtype tensor)) row ids i0)"
proof -
  from compute_outer_dim_eval [OF op, of 0, where 'v = 'v] obtain e where e: "compute_outer_dim ids tensor init dt op 0 = Inr e"
    and ev: "\<And>(A :: 'v seg_alg) row i0. seg_eval A row i0 e = segment_value A op dt (a_const A init (sg_dtype tensor)) row ids 0"
    by fastforce
  from select_rows_eval [OF op, of "[1..n - 1]" ids tensor init dt e, where 'v = 'v] obtain b where
    b: "segment_compute ids tensor init dt op n = Inr b"
    and bv: "\<And>(A :: 'v seg_alg) row i0. seg_eval A row i0 b =
        (if i0 \<in> {1..n - 1} then segment_value A op dt (a_const A init (sg_dtype tensor)) row ids i0 else seg_eval A row i0 e)"
    by (auto simp: segment_compute_def e)
  have "i0 = 0 \<or> i0 \<in> {1..n - 1}" using i by auto
  then show ?thesis using b bv ev by (intro exI [of _ b]) auto
qed

text \<open>What a node computes in row \<open>i0\<close>. A reduction runs over all rows, those of other segments giving the
  initial value.\<close>

definition reduce_fun :: "'v seg_alg \<Rightarrow> string \<Rightarrow> 'v \<Rightarrow> 'v \<Rightarrow> 'v" where
  "reduce_fun A op = (if op = ''segmentensor_min'' then a_min A else if op = ''segmentensor_max'' then a_max A else a_mul A)"

fun fold1 :: "('v \<Rightarrow> 'v \<Rightarrow> 'v) \<Rightarrow> 'v list \<Rightarrow> 'v option" where
  "fold1 f [] = None"
| "fold1 f (x # xs) = Some (fold (\<lambda>y acc. f acc y) xs x)"

fun node_eval :: "'v seg_alg \<Rightarrow> (nat \<Rightarrow> 'v) \<Rightarrow> int list \<Rightarrow> int \<Rightarrow> seg_node \<Rightarrow> 'v option" where
  "node_eval A row ids i0 (Segment_Node _ _ _ e) = Some (seg_eval A row i0 e)"
| "node_eval A row ids i0 (Special_Node _ _ e) = Some (seg_eval A row i0 e)"
| "node_eval A row ids i0 (Elewise_Node _ _ e) = Some (seg_eval A row i0 e)"
| "node_eval A row ids i0 (Reduce_Node _ _ _ op _ init dt) =
     fold1 (reduce_fun A op) (map (\<lambda>k. if i0 = ids ! k then row k else a_const A init dt) [0..<length ids])"

fun node_rows :: "seg_node \<Rightarrow> shape_value list" where
  "node_rows (Segment_Node _ _ s _) = s"
| "node_rows (Special_Node _ s _) = s"
| "node_rows (Elewise_Node _ s _) = s"
| "node_rows (Reduce_Node _ _ s _ _ _ _) = s"

definition list_functions :: "(string \<times> (dsl_env \<Rightarrow> (pyval \<Rightarrow> string) \<Rightarrow> seg_tensor \<Rightarrow> seg_ids \<Rightarrow> pyval \<Rightarrow> pyval \<Rightarrow> seg_node res)) list" where
  "list_functions = [(''segment_sum'', unsorted_segment_sum), (''segment_mean'', unsorted_segment_mean),
     (''segment_prod'', unsorted_segment_prod), (''segment_min'', unsorted_segment_min), (''segment_max'', unsorted_segment_max)]"

lemma decorated_result: "dtype_check_decorator env (\<lambda>_. r) nm args = Inr x \<Longrightarrow> r = Inr x"
  by (auto simp: dtype_check_decorator_def bindE_def split: sum.splits if_splits)

lemma list_function_op:
  assumes "(op, f) \<in> set list_functions" and "f env str tensor (Id_List ids) n init = Inr node"
  shows "op \<in> segment_ops" and "segment_op_list env str tensor (Id_List ids) n init (sg_dtype tensor) op = Inr node"
  using assms by (auto simp: list_functions_def segment_ops_def unsorted_segment_sum_def unsorted_segment_mean_def
      unsorted_segment_prod_def unsorted_segment_min_def unsorted_segment_max_def dest: decorated_result)

text \<open>C1. Every segment function over a list of numbers that accepts its arguments builds a tensor of
  \<open>num_segments\<close> rows, and row \<open>i\<close> is the combination, in order, of the rows of the input whose number is \<open>i\<close>, divided
  by their count for the mean, and the initial value when there are none. (When all numbers are
  negative the code adds the initial value to a difference of equal rows, which is where \<open>x - x + y = y\<close> is needed.)\<close>

theorem segment_rows_correct:
  assumes "(op, f) \<in> set list_functions" and "f env str tensor (Id_List ids) (PyInt n) init = Inr node"
    and "0 \<le> i" and "i < n" and "\<And>x y. a_add A (a_sub A x x) y = y"
  shows "hd (node_rows node) = Dim_Int n
    \<and> node_eval A row ids i node
      = Some (segment_value A op (sg_dtype tensor) (a_const A init (sg_dtype tensor)) row ids i)"
proof -
  note f = list_function_op [OF assms(1,2)]
  obtain e where e: "segment_compute ids tensor init (sg_dtype tensor) op n = Inr e"
    and ev: "\<And>row. seg_eval A row i e = segment_value A op (sg_dtype tensor) (a_const A init (sg_dtype tensor)) row ids i"
    using segment_compute_eval [OF f(1) assms(3,4)] by blast
  have "segment_value A op (sg_dtype tensor) (a_const A init (sg_dtype tensor)) row ids i = a_const A init (sg_dtype tensor)"
    if "ids \<noteq> []" "Max (set ids) < 0"
  proof -
    have "i \<notin> set ids" using that assms(3) by (auto simp: Max_less_iff)
    then show ?thesis by (simp add: segment_value_def positions_empty [symmetric])
  qed
  then show ?thesis using f(2) assms(5)
    by (auto simp: segment_op_list_def int_value_def Let_def e ev split: if_splits)
qed


definition int_alg :: "int seg_alg" where
  "int_alg = \<lparr>a_cast = (\<lambda>_ x. x), a_add = (+), a_sub = (-), a_mul = (*), a_min = min, a_max = max,
     a_div = (\<lambda>x n. x div int n), a_const = (\<lambda>v _. int_value v)\<rparr>"

definition seg_env :: dsl_env where
  "seg_env = \<lparr>product_version = VERSION_CLOUD, context_mode = None, intrinsic_check_support = (\<lambda>_ _. True), in_dynamic = False\<rparr>"

definition seg_example :: seg_tensor where
  "seg_example = \<lparr>sg_name = ''data_0'', sg_dtype = ''int32'', sg_shape = [Dim_Int 4, Dim_Int 2]\<rparr>"

lemma segment_rows_correct_witness:
  "\<exists>node. unsorted_segment_sum seg_env (\<lambda>_. ''0'') seg_example (Id_List [0, 2, 0, - 1]) (PyInt 3) (PyInt 9) = Inr node
     \<and> node_eval int_alg (\<lambda>k. int k + 5) [0, 2, 0, - 1] 0 node = Some 12
     \<and> node_eval int_alg (\<lambda>k. int k + 5) [0, 2, 0, - 1] 1 node = Some 9"
proof -
  let ?f = "unsorted_segment_sum seg_env (\<lambda>_. ''0'') seg_example (Id_List [0, 2, 0, - 1]) (PyInt 3) (PyInt 9)"
  have "isl ?f = False" by code_simp
  then obtain node where n: "?f = Inr node" by (cases ?f) auto
  have mem: "(''segment_sum'', unsorted_segment_sum) \<in> set list_functions" by (simp add: list_functions_def)
  have A: "a_add int_alg (a_sub int_alg x x) y = y" for x y by (simp add: int_alg_def)
  from segment_rows_correct [OF mem n, of 0 int_alg "\<lambda>k. int k + 5"] segment_rows_correct [OF mem n, of 1 int_alg "\<lambda>k. int k + 5"] A
  show ?thesis using n
    by (simp add: segment_value_def positions_Cons seg_fun_def int_alg_def int_value_def)
qed

section \<open>Segments given as a tensor\<close>

lemma fold_neutral:
  assumes "\<And>x. f x z = x"
  shows "fold (\<lambda>k acc. f acc (if P k then g k else z)) ks x = fold (\<lambda>k acc. f acc (g k)) (filter P ks) x"
  using assms by (induction ks arbitrary: x) auto

text \<open>C1. The product over the segments of a tensor of numbers: the rows of other segments count as 1, so that
  row \<open>i\<close> is the product of the rows of its segment, in any arithmetic in which 1 is neutral.\<close>

theorem segment_prod_tensor:
  assumes "unsorted_segment_prod env str tensor (Id_Tensor ids_tensor) (PyInt n) init = Inr node"
    and "sg_shape ids_tensor = [Dim_Int (int (length ids))]" and "0 < length ids"
    and "\<And>x. a_mul A x (a_const A (PyInt 1) (sg_dtype tensor)) = x" and "\<And>x. a_mul A (a_const A (PyInt 1) (sg_dtype tensor)) x = x"
  shows "hd (node_rows node) = Dim_Int n
    \<and> node_eval A row ids i node
      = Some (fold (\<lambda>k acc. a_mul A acc (row k)) (positions ids i) (a_const A (PyInt 1) (sg_dtype tensor)))"
proof -
  let ?one = "a_const A (PyInt 1) (sg_dtype tensor)"
  have "segment_tensor_op str tensor ids_tensor (PyInt n) (PyInt 1) (sg_dtype tensor) ''segmentensor_prod'' = Inr node"
    using assms(1) by (auto simp: unsorted_segment_prod_def dest: decorated_result)
  then have node: "\<exists>nm tag s ext. node = Reduce_Node nm tag (Dim_Int n # s) ''segmentensor_prod'' ext (PyInt 1) (sg_dtype tensor)"
    by (auto simp: segment_tensor_op_def int_value_def)
  obtain m where m: "length ids = Suc m" using assms(3) gr0_conv_Suc by auto
  have fold1_unit: "fold1 f (map h [0..<length ids]) = Some (fold (\<lambda>k acc. f acc (h k)) [0..<length ids] z)"
    if "\<And>x. f z x = x" for f :: "'a \<Rightarrow> 'a \<Rightarrow> 'a" and h z
    unfolding m by (simp only: upt_conv_Cons [OF zero_less_Suc] list.map fold1.simps fold_simps that fold_map comp_def)
  have "fold1 (a_mul A) (map (\<lambda>k. if i = ids ! k then row k else ?one) [0..<length ids])
    = Some (fold (\<lambda>k acc. a_mul A acc (row k)) (positions ids i) ?one)"
    unfolding fold1_unit [of "a_mul A" ?one, OF assms(5)] positions_def
    by (simp add: fold_neutral [of "a_mul A" ?one, OF assms(4)] eq_commute [of i])
  then show ?thesis using node by (auto simp: reduce_fun_def)
qed

lemma segment_prod_tensor_witness:
  "\<exists>node. unsorted_segment_prod seg_env (\<lambda>_. ''0'') seg_example
        (Id_Tensor \<lparr>sg_name = ''ids_0'', sg_dtype = ''int32'', sg_shape = [Dim_Int 4]\<rparr>) (PyInt 3) (PyInt 0) = Inr node
     \<and> node_eval int_alg (\<lambda>k. int k + 5) [0, 2, 0, 1] 0 node = Some 35"
proof -
  let ?f = "unsorted_segment_prod seg_env (\<lambda>_. ''0'') seg_example
        (Id_Tensor \<lparr>sg_name = ''ids_0'', sg_dtype = ''int32'', sg_shape = [Dim_Int 4]\<rparr>) (PyInt 3) (PyInt 0)"
  have "isl ?f = False" by code_simp
  then obtain node where n: "?f = Inr node" by (cases ?f) auto
  from segment_prod_tensor [OF n, of "[0, 2, 0, 1]" int_alg "\<lambda>k. int k + 5" 0] show ?thesis using n
    by (simp add: positions_Cons int_alg_def int_value_def)
qed

text \<open>The minimum has no such neutral value: with the default initial value 0 the rows of the other segments
  enter as 0, and the minimum of the positive rows of a segment is 0.\<close>

lemma segment_min_tensor_zero:
  "\<exists>node. unsorted_segment_min seg_env (\<lambda>_. ''0'') seg_example
        (Id_Tensor \<lparr>sg_name = ''ids_0'', sg_dtype = ''int32'', sg_shape = [Dim_Int 4]\<rparr>) (PyInt 3) (PyInt 0) = Inr node
     \<and> node_eval int_alg (\<lambda>k. int k + 5) [0, 2, 0, 1] 0 node = Some 0
     \<and> segment_value int_alg ''segment_min'' ''int32'' 0 (\<lambda>k. int k + 5) [0, 2, 0, 1] 0 = 5"
proof -
  let ?f = "unsorted_segment_min seg_env (\<lambda>_. ''0'') seg_example
        (Id_Tensor \<lparr>sg_name = ''ids_0'', sg_dtype = ''int32'', sg_shape = [Dim_Int 4]\<rparr>) (PyInt 3) (PyInt 0)"
  have "isl ?f = False" by code_simp
  then obtain node where n: "?f = Inr node" by (cases ?f) auto
  then have "segment_tensor_op (\<lambda>_. ''0'') seg_example \<lparr>sg_name = ''ids_0'', sg_dtype = ''int32'', sg_shape = [Dim_Int 4]\<rparr>
      (PyInt 3) (PyInt 0) ''int32'' ''segmentensor_min'' = Inr node"
    by (auto simp: unsorted_segment_min_def seg_example_def dest: decorated_result)
  then have "node_eval int_alg (\<lambda>k. int k + 5) [0, 2, 0, 1] 0 node = Some 0"
    by (auto simp: segment_tensor_op_def reduce_fun_def int_alg_def int_value_def upt_rec)
  then show ?thesis using n by (simp add: segment_value_def positions_Cons seg_fun_def int_alg_def)
qed

end
