(* ===== verification/Tuple_Reduce.thy ===== *)
theory Tuple_Reduce
  imports Dsl_Util Py_Number
begin

text \<open>
  The sum of two tensors over the same axes, \<^verbatim>\<open>reduction_compute.py\<close>, with the casts it asks for,
  \<^verbatim>\<open>cast_compute.py\<close>. What is built is the description of a computation; \<open>res_indice\<close> is the place of
  the input that an output cell and the reduced indices read, and the theorems say what is summed.
\<close>

section \<open>Tensors and casts\<close>

datatype red_ten =
    In_Ten string "shape_value list"
  | Cast_Ten string string string red_ten
  | Muls_Ten red_ten

fun rt_dtype :: "red_ten \<Rightarrow> string" where
  "rt_dtype (In_Ten d _) = d"
| "rt_dtype (Cast_Ten _ _ d _) = d"
| "rt_dtype (Muls_Ten t) = rt_dtype t"

fun rt_shape :: "red_ten \<Rightarrow> shape_value list" where
  "rt_shape (In_Ten _ s) = s"
| "rt_shape (Cast_Ten _ _ _ t) = rt_shape t"
| "rt_shape (Muls_Ten t) = rt_shape t"

definition cast_ops :: "string list" where
  "cast_ops = [''elewise_single_cast'', ''elewise_single_round'', ''elewise_single_ceil'', ''elewise_single_floor'',
     ''elewise_single_trunc'', ''elewise_single_round_d'']"

text \<open>The counter of the module numbers the names.\<close>

definition cast_op :: "dsl_env \<Rightarrow> red_ten \<Rightarrow> string \<Rightarrow> string \<Rightarrow> bool \<Rightarrow> nat \<Rightarrow> (red_ten \<times> nat) res" where
  "cast_op env input_tensor output_dtype op_type is_auto_cast NAME_INDEX =
     bindE (check_input_tensor_shape env (rt_shape input_tensor)) (\<lambda>_.
     bindE (raise_if (op_type \<notin> set cast_ops) err_dtype) (\<lambda>_.
       Inr (Cast_Ten (last (s_split ''_'' op_type) @ ''_'' @ str_nat NAME_INDEX)
              (if is_auto_cast then op_type else op_type @ ''|not_auto_cast'') output_dtype input_tensor,
            NAME_INDEX + 1)))"

definition cast_via :: "dsl_env \<Rightarrow> string \<Rightarrow> string \<Rightarrow> string \<Rightarrow> bool res" where
  "cast_via env src_dtype dst_dtype mid =
     bindE (is_cast_support env (s_lower src_dtype) mid) (\<lambda>a.
       if a then is_cast_support env mid (s_lower dst_dtype) else Inr False)"

definition err_cast :: exn where
  "err_cast = OpTestGenMessage ''E90002''"

definition cast_first :: "dsl_env \<Rightarrow> red_ten \<Rightarrow> string \<Rightarrow> nat \<Rightarrow> (red_ten \<times> nat) res" where
  "cast_first env raw_tensor dst_dtype n =
     (let src_dtype = rt_dtype raw_tensor in
      bindE (is_cast_support env (s_lower src_dtype) (s_lower dst_dtype)) (\<lambda>direct.
        if direct then Inr (raw_tensor, n)
        else bindE (cast_via env src_dtype dst_dtype ''float32'') (\<lambda>v32.
          if v32 then cast_op env raw_tensor ''float32'' ''elewise_single_cast'' True n
          else bindE (cast_via env src_dtype dst_dtype ''float16'') (\<lambda>v16.
            if v16 then cast_op env raw_tensor ''float16'' ''elewise_single_cast'' True n
            else if \<not> intrinsic_check_support env ''Intrinsic_vconv'' ''deq'' \<and> intrinsic_check_support env ''Intrinsic_vcbd'' ''s322s16''
            then cast_op env raw_tensor ''int16'' ''elewise_single_cast'' True n
            else Inl err_cast))))"

definition cast_tensor :: "dsl_env \<Rightarrow> red_ten \<Rightarrow> string \<Rightarrow> bool \<Rightarrow> nat \<Rightarrow> (red_ten \<times> nat) res" where
  "cast_tensor env raw_tensor dst_dtype is_auto_cast n =
     (if s_lower dst_dtype = s_lower (rt_dtype raw_tensor) then Inr (raw_tensor, n)
      else bindE (cast_first env raw_tensor dst_dtype n) (\<lambda>(t, n).
        bindE (if s_contains dst_dtype ''int'' \<and> s_contains (rt_dtype t) ''float''
               then bindE (get_cast_type (rt_dtype t) dst_dtype) (\<lambda>c.
                 Inr (if intrinsic_check_support env ''Intrinsic_vconv'' (c @ ''z'') then ''trunc'' else ''cast''))
               else Inr ''cast'') (\<lambda>cast_type.
          cast_op env t dst_dtype (''elewise_single_'' @ cast_type) is_auto_cast n)))"

section \<open>The casts around the sum\<close>

definition local_axis :: "pyval \<Rightarrow> pyval list" where
  "local_axis axis = (case axis of PyTuple xs \<Rightarrow> xs | PyList xs \<Rightarrow> xs | _ \<Rightarrow> [axis])"

definition is_last_axis :: "shape_value list \<Rightarrow> pyval \<Rightarrow> bool" where
  "is_last_axis shape axis = py_in (PyInt (int (length shape) - 1)) (local_axis axis)"

definition deal_tensor_dtype :: "dsl_env \<Rightarrow> pyval \<Rightarrow> red_ten \<Rightarrow> nat \<Rightarrow> (red_ten \<times> nat) res" where
  "deal_tensor_dtype env axis raw_tensor n =
     (let dtype = rt_dtype raw_tensor;
          supported_types = [''float16'', ''float32''] @ (if \<not> is_last_axis (rt_shape raw_tensor) axis then [''int32''] else []) in
      if dtype \<notin> set supported_types then
        bindE (is_cast_support env dtype ''float32'') (\<lambda>wide.
          cast_tensor env raw_tensor (if wide then ''float32'' else ''float16'') True n)
      else Inr (raw_tensor, n))"

section \<open>The sum\<close>

datatype tuple_result =
    Scaled "red_ten list"
  | Reduced string "shape_value list" "nat list" "shape_value list" bool "red_ten list"

text \<open>The index of the input at an output index and a point of the reduced axes, with the two counters of the code.\<close>

fun res_indice :: "nat list \<Rightarrow> bool \<Rightarrow> 'i list \<Rightarrow> 'i list \<Rightarrow> nat list \<Rightarrow> nat \<Rightarrow> nat \<Rightarrow> 'i list" where
  "res_indice axis keepdims indice reduce_axises [] count_indice count_reduce = []"
| "res_indice axis keepdims indice reduce_axises (index # rest) count_indice count_reduce =
     (if index \<notin> set axis
      then indice ! count_indice # res_indice axis keepdims indice reduce_axises rest (count_indice + 1) count_reduce
      else reduce_axises ! count_reduce
             # res_indice axis keepdims indice reduce_axises rest (if keepdims then count_indice + 1 else count_indice) (count_reduce + 1))"

definition res_reshape :: "nat list \<Rightarrow> bool \<Rightarrow> shape_value list \<Rightarrow> shape_value list" where
  "res_reshape axis keepdims data_shape =
     (let dims = concat (map (\<lambda>(index, shape_l). if index \<notin> set axis then [shape_l] else if keepdims then [Dim_Int 1] else [])
            (enumerate 0 data_shape)) in
      if dims = [] then [Dim_Int 1] else dims)"

definition axis_ints :: "pyval \<Rightarrow> (int + int list) res" where
  "axis_ints axis = bindE (raise_if (\<not> (case axis of PyTuple xs \<Rightarrow> list_all is_int xs | PyList xs \<Rightarrow> list_all is_int xs | _ \<Rightarrow> is_int axis)) TypeError)
     (\<lambda>_. Inr (case axis of PyTuple xs \<Rightarrow> Inr (map axis_int xs) | PyList xs \<Rightarrow> Inr (map axis_int xs) | _ \<Rightarrow> Inl (axis_int axis)))"

definition tuple_reduce_op ::
    "dsl_env \<Rightarrow> red_ten list \<Rightarrow> pyval \<Rightarrow> string \<Rightarrow> bool \<Rightarrow> nat \<Rightarrow> (tuple_result \<times> nat) res" where
  "tuple_reduce_op env input_tensor_list axis in_op keepdims NAME_INDEX =
     bindE (raise_if (axis = PyNone) err_arg) (\<lambda>_.
     let shape = rt_shape (hd input_tensor_list) in
     bindE (check_input_tensor_shape env shape) (\<lambda>_.
     if axis = PyTuple [] \<or> axis = PyList [] then Inr (Scaled (map Muls_Ten input_tensor_list), NAME_INDEX)
     else
       bindE (raise_if (s_lower in_op \<noteq> ''tuple_reduce_sum'') err_dtype) (\<lambda>_.
       bindE (axis_ints axis) (\<lambda>ax.
       bindE (refine_axis ax shape) (\<lambda>res_axis.
       let axis = map nat res_axis in
         Inr (Reduced (''reduce_'' @ str_nat NAME_INDEX) (res_reshape axis keepdims shape) axis (map (\<lambda>j. shape ! j) axis)
                keepdims input_tensor_list, NAME_INDEX + 1))))))"

text \<open>\<^verbatim>\<open>tuple_sum\<close> with its decorator; the argument is \<open>None\<close> when it is no list or tuple. The state is the
  counter of the casts and that of the sums.\<close>

definition check_two_tensors :: "red_ten list \<Rightarrow> unit res" where
  "check_two_tensors tensor_list =
     bindE (raise_if (length tensor_list \<noteq> 2) err_arg) (\<lambda>_.
       raise_if (rt_shape (tensor_list ! 0) \<noteq> rt_shape (tensor_list ! 1)) err_arg)"

definition tuple_sum ::
    "dsl_env \<Rightarrow> red_ten list option \<Rightarrow> pyval \<Rightarrow> bool \<Rightarrow> nat \<Rightarrow> nat \<Rightarrow> (tuple_result \<times> nat \<times> nat) res" where
  "tuple_sum env input_tensor_list axis keepdims cast_index NAME_INDEX =
     (case input_tensor_list of
        None \<Rightarrow> Inl err_arg
      | Some raw_tensor_list \<Rightarrow>
          bindE (check_two_tensors raw_tensor_list) (\<lambda>_.
          bindE (foldE (\<lambda>(ts, n) raw. bindE (deal_tensor_dtype env axis raw n) (\<lambda>(t, n). Inr (ts @ [t], n))) ([], cast_index) raw_tensor_list)
            (\<lambda>(temp_tensor_list, cast_index).
          bindE (tuple_reduce_op env temp_tensor_list axis ''tuple_reduce_sum'' keepdims NAME_INDEX) (\<lambda>(r, NAME_INDEX).
            Inr (r, cast_index, NAME_INDEX)))))"


section \<open>A cast reaches its type\<close>

lemma cast_op_result:
  assumes "cast_op env t dst op auto n = Inr (t', n')"
  shows "rt_dtype t' = dst" "rt_shape t' = rt_shape t" "n' = n + 1"
  using assms by (auto simp: cast_op_def)

lemma cast_first_result:
  assumes "cast_first env raw dst n = Inr (t, n')"
  shows "rt_shape t = rt_shape raw" "n \<le> n'" "n' \<le> n + 1"
  using assms by (auto simp: cast_first_def Let_def split: if_splits dest: cast_op_result)

lemma cast_tensor_result:
  assumes "cast_tensor env raw dst auto n = Inr (t, n')"
  shows "s_lower (rt_dtype t) = s_lower dst \<and> rt_shape t = rt_shape raw \<and> n \<le> n' \<and> n' \<le> n + 2"
proof (cases "s_lower dst = s_lower (rt_dtype raw)")
  case True
  then show ?thesis using assms by (simp add: cast_tensor_def)
next
  case False
  then obtain t1 n1 c where 1: "cast_first env raw dst n = Inr (t1, n1)"
    and 2: "cast_op env t1 dst (''elewise_single_'' @ c) auto n1 = Inr (t, n')"
    using assms by (auto simp: cast_tensor_def split: prod.splits)
  show ?thesis using cast_first_result [OF 1] cast_op_result [OF 2] by simp
qed

lemma cast_tensor_shape: "cast_tensor env raw dst auto n = Inr (t, n') \<Longrightarrow> rt_shape t = rt_shape raw"
  using cast_tensor_result by blast

text \<open>C1. A cast that succeeds gives a tensor of the asked type and of the same shape, and builds two computations
  at most.\<close>

theorem cast_reaches_type:
  assumes "cast_tensor env raw dst auto n = Inr (t, n')"
  shows "s_lower (rt_dtype t) = s_lower dst \<and> rt_shape t = rt_shape raw \<and> n \<le> n' \<and> n' \<le> n + 2"
  by (rule cast_tensor_result [OF assms])

section \<open>What is summed\<close>

text \<open>The points of a box, and the parts of a point along the reduced and the other axes.\<close>

definition box :: "nat list \<Rightarrow> nat list set" where
  "box ds = {xs. list_all2 (<) xs ds}"

fun red_part :: "bool list \<Rightarrow> 'i list \<Rightarrow> 'i list" where
  "red_part (b # bs) (x # xs) = (if b then [x] else []) @ red_part bs xs"
| "red_part _ _ = []"

fun out_part :: "bool \<Rightarrow> 'i \<Rightarrow> bool list \<Rightarrow> 'i list \<Rightarrow> 'i list" where
  "out_part keep z (b # bs) (x # xs) = (if \<not> b then [x] else if keep then [z] else []) @ out_part keep z bs xs"
| "out_part keep z _ _ = []"

fun place :: "bool \<Rightarrow> bool list \<Rightarrow> 'i list \<Rightarrow> 'i list \<Rightarrow> 'i list" where
  "place keep [] out red = []"
| "place keep (b # bs) out red =
     (if \<not> b then hd out # place keep bs (tl out) red
      else hd red # place keep bs (if keep then tl out else out) (tl red))"

definition mask :: "nat list \<Rightarrow> nat list \<Rightarrow> bool list" where
  "mask axis js = map (\<lambda>j. j \<in> set axis) js"

lemma box_Cons: "x # xs \<in> box (d # ds) \<longleftrightarrow> x < d \<and> xs \<in> box ds"
  by (simp add: box_def)

lemma box_ConsE: "xs \<in> box (d # ds) \<Longrightarrow> (\<And>y ys. xs = y # ys \<Longrightarrow> y < d \<Longrightarrow> ys \<in> box ds \<Longrightarrow> P) \<Longrightarrow> P"
  by (auto simp: box_def list_all2_Cons2)

lemma box_Nil: "xs \<in> box [] \<longleftrightarrow> xs = []"
  by (simp add: box_def)

lemma place_in_box:
  "length m = length s \<Longrightarrow> out \<in> box (out_part keep 1 m s) \<Longrightarrow> red \<in> box (red_part m s) \<Longrightarrow>
     place keep m out red \<in> box s \<and> out_part keep 0 m (place keep m out red) = out \<and> red_part m (place keep m out red) = red"
proof (induction m s arbitrary: out red rule: list_induct2)
  case (Cons b m d s)
  show ?case
  proof (cases b)
    case False
    with Cons.prems obtain y ys where o: "out = y # ys" "y < d" "ys \<in> box (out_part keep 1 m s)"
      by (auto elim: box_ConsE)
    show ?thesis using Cons.IH [OF o(3), of red] Cons.prems False o by (simp add: box_Cons)
  next
    case True
    with Cons.prems obtain z zs where r: "red = z # zs" "z < d" "zs \<in> box (red_part m s)"
      by (auto elim: box_ConsE)
    show ?thesis
    proof (cases keep)
      case True
      with \<open>b\<close> Cons.prems obtain ys where o: "out = 0 # ys" "ys \<in> box (out_part keep 1 m s)"
        by (auto elim: box_ConsE)
      show ?thesis using Cons.IH [OF o(2) r(3)] \<open>b\<close> True o r by (simp add: box_Cons)
    next
      case False
      then have o: "out \<in> box (out_part keep 1 m s)" using Cons.prems \<open>b\<close> by simp
      show ?thesis using Cons.IH [OF o r(3)] \<open>b\<close> False r by (simp add: box_Cons)
    qed
  qed
qed (simp add: box_Nil)

lemma place_parts:
  "length m = length s \<Longrightarrow> x \<in> box s \<Longrightarrow>
     place keep m (out_part keep 0 m x) (red_part m x) = x \<and> red_part m x \<in> box (red_part m s)
     \<and> out_part keep 0 m x \<in> box (out_part keep 1 m s)"
proof (induction m s arbitrary: x rule: list_induct2)
  case (Cons b m d s)
  from Cons.prems obtain y ys where "x = y # ys" "y < d" "ys \<in> box s" by (rule box_ConsE)
  then show ?case using Cons.IH [of ys] by (auto simp: box_Cons)
qed (simp add: box_Nil)

lemma place_bij:
  assumes "length m = length s" and "out \<in> box (out_part keep 1 m s)"
  shows "bij_betw (place keep m out) (box (red_part m s)) {x \<in> box s. out_part keep 0 m x = out}"
proof (rule bij_betw_byWitness [where f' = "red_part m"])
  show "\<forall>red\<in>box (red_part m s). red_part m (place keep m out red) = red"
    using place_in_box [OF assms] by simp
  show "\<forall>x\<in>{x \<in> box s. out_part keep 0 m x = out}. place keep m out (red_part m x) = x"
    using place_parts [OF assms(1), where keep = keep] by auto
  show "place keep m out ` box (red_part m s) \<subseteq> {x \<in> box s. out_part keep 0 m x = out}"
    using place_in_box [OF assms] by auto
  show "red_part m ` {x \<in> box s. out_part keep 0 m x = out} \<subseteq> box (red_part m s)"
    using place_parts [OF assms(1), where keep = keep] by auto
qed


text \<open>The counters of the code walk through the two lists.\<close>

lemma res_indice_place:
  "length (out_part keep z (mask axis js) js') \<le> length (drop ci out) \<Longrightarrow> length (red_part (mask axis js) js') \<le> length (drop cr red) \<Longrightarrow>
     length js' = length js \<Longrightarrow>
     res_indice axis keep out red js ci cr = place keep (mask axis js) (drop ci out) (drop cr red)"
proof (induction js arbitrary: js' ci cr)
  case (Cons j js)
  then obtain y ys where js': "js' = y # ys" by (cases js') auto
  have d: "out ! ci = hd (drop ci out)" "drop (Suc ci) out = tl (drop ci out)" if "drop ci out \<noteq> []"
    using that by (simp_all add: hd_drop_conv_nth drop_Suc tl_drop)
  have r: "red ! cr = hd (drop cr red)" "drop (Suc cr) red = tl (drop cr red)" if "drop cr red \<noteq> []"
    using that by (simp_all add: hd_drop_conv_nth drop_Suc tl_drop)
  show ?case
  proof (cases "j \<in> set axis")
    case False
    then have ne: "drop ci out \<noteq> []" using Cons.prems by (auto simp: mask_def js')
    show ?thesis using Cons.IH [of ys "ci + 1" cr] Cons.prems False d [OF ne] by (simp add: mask_def js')
  next
    case True
    then have ne: "drop cr red \<noteq> []" using Cons.prems by (auto simp: mask_def js')
    show ?thesis
    proof (cases keep)
      case True
      then have ne': "drop ci out \<noteq> []" using Cons.prems \<open>j \<in> set axis\<close> by (auto simp: mask_def js')
      show ?thesis using Cons.IH [of ys "ci + 1" "cr + 1"] Cons.prems True \<open>j \<in> set axis\<close> r [OF ne] d [OF ne'] by (simp add: mask_def js')
    next
      case False
      show ?thesis using Cons.IH [of ys ci "cr + 1"] Cons.prems False \<open>j \<in> set axis\<close> r [OF ne] by (simp add: mask_def js')
    qed
  qed
qed (simp add: mask_def)

lemma place_unused: "out_part keep z m s = [] \<Longrightarrow> length m = length s \<Longrightarrow> place keep m out red = place keep m [] red"
proof (induction m arbitrary: s out red)
  case (Cons b m)
  obtain y ys where s: "s = y # ys" using Cons.prems(2) by (cases s) simp_all
  have b: "b" "\<not> keep" "out_part keep z m ys = []" using Cons.prems(1) by (simp_all add: s split: if_splits)
  show ?case using Cons.IH [OF b(3), of out "tl red"] Cons.prems(2) b by (simp add: s)
qed simp

lemma out_part_map: "out_part keep (f z) m (map f s) = map f (out_part keep z m s)"
proof (induction m arbitrary: s)
  case (Cons b m)
  then show ?case by (cases s) simp_all
qed simp

lemma red_part_map: "red_part m (map f s) = map f (red_part m s)"
proof (induction m arbitrary: s)
  case (Cons b m)
  then show ?case by (cases s) simp_all
qed simp

lemma concat_out_part:
  "concat (map (\<lambda>(index, d). if index \<notin> set axis then [d] else if keep then [z] else []) (enumerate k xs))
    = out_part keep z (mask axis [k..<k + length xs]) xs"
proof (induction xs arbitrary: k)
  case (Cons x xs)
  have u: "[k..<k + length (x # xs)] = k # [Suc k..<Suc k + length xs]"
    using upt_conv_Cons [of k "k + length (x # xs)"] by (simp del: upt_Suc)
  show ?case unfolding u using Cons.IH [of "Suc k"] by (simp add: mask_def)
qed (simp add: mask_def)

lemma red_part_nth:
  "red_part (mask axis [k..<k + length xs]) xs = map (\<lambda>j. xs ! (j - k)) (filter (\<lambda>j. j \<in> set axis) [k..<k + length xs])"
proof (induction xs arbitrary: k)
  case (Cons x xs)
  have u: "[k..<k + length (x # xs)] = k # [Suc k..<Suc k + length xs]"
    using upt_conv_Cons [of k "k + length (x # xs)"] by (simp del: upt_Suc)
  have "map (\<lambda>j. (x # xs) ! (j - k)) (filter (\<lambda>j. j \<in> set axis) [Suc k..<Suc k + length xs])
    = map (\<lambda>j. xs ! (j - Suc k)) (filter (\<lambda>j. j \<in> set axis) [Suc k..<Suc k + length xs])"
    by (rule map_cong) (auto simp: nth_Cons' Suc_diff_Suc)
  then show ?case unfolding u using Cons.IH [of "Suc k"] by (simp add: mask_def)
qed simp

lemma filter_sorted:
  assumes "sorted axis" "distinct axis" "\<forall>j\<in>set axis. j < n"
  shows "filter (\<lambda>j. j \<in> set axis) [0..<n] = axis"
  by (rule sorted_distinct_set_unique) (use assms in \<open>auto simp: sorted_wrt_filter\<close>)

definition out_dims :: "nat list \<Rightarrow> bool \<Rightarrow> nat list \<Rightarrow> nat list" where
  "out_dims axis keep shape = (let ds = out_part keep 1 (mask axis [0..<length shape]) shape in if ds = [] then [1] else ds)"

definition out_index :: "nat list \<Rightarrow> bool \<Rightarrow> nat list \<Rightarrow> nat list" where
  "out_index axis keep x = (let is = out_part keep 0 (mask axis [0..<length x]) x in if is = [] then [0] else is)"

definition dims_of :: "nat list \<Rightarrow> shape_value list" where
  "dims_of ns = map (\<lambda>n. Dim_Int (int n)) ns"

lemma res_reshape_dims: "res_reshape axis keep (dims_of shape) = dims_of (out_dims axis keep shape)"
  using concat_out_part [where z = "Dim_Int 1" and k = 0 and xs = "dims_of shape" and axis = axis and keep = keep]
    out_part_map [of keep "\<lambda>n. Dim_Int (int n)" 1 "mask axis [0..<length shape]" shape]
  by (auto simp: res_reshape_def out_dims_def dims_of_def Let_def)

lemma place_sum:
  fixes f :: "nat list \<Rightarrow> 'v :: comm_monoid_add"
  assumes ax: "sorted axis" "distinct axis" "\<forall>j\<in>set axis. j < length shape" and out: "out \<in> box (out_dims axis keep shape)"
  shows "(\<Sum>red\<in>box (map ((!) shape) axis). f (res_indice axis keep out red [0..<length shape] 0 0))
    = (\<Sum>x | x \<in> box shape \<and> out_index axis keep x = out. f x)"
proof -
  let ?m = "mask axis [0..<length shape]" and ?o = "out_part keep 1 (mask axis [0..<length shape]) shape"
  define o' where "o' = (if ?o = [] then [] else out)"
  have lm: "length ?m = length shape" by (simp add: mask_def)
  have o': "o' \<in> box ?o" using out by (auto simp: o'_def out_dims_def Let_def box_Nil split: if_splits)
  have r: "red_part ?m shape = map ((!) shape) axis"
    using red_part_nth [of axis 0 shape] filter_sorted [OF ax] by simp
  have len: "length (out_part keep 1 ?m shape) = length o'" using o' by (auto simp: box_def dest: list_all2_lengthD)
  have eq: "res_indice axis keep out red [0..<length shape] 0 0 = place keep ?m o' red" if "red \<in> box (red_part ?m shape)" for red
  proof -
    have "length (red_part ?m shape) \<le> length (drop 0 red)" using that by (auto simp: box_def dest: list_all2_lengthD)
    then have "res_indice axis keep out red [0..<length shape] 0 0 = place keep ?m out red"
      using res_indice_place [of keep 1 axis "[0..<length shape]" shape 0 out 0 red] len by (auto simp: o'_def split: if_splits)
    then show ?thesis using place_unused [OF _ lm, of keep 1 out red] by (auto simp: o'_def)
  qed
  have idx: "out_index axis keep x = out \<longleftrightarrow> out_part keep 0 ?m x = o'" if x: "x \<in> box shape" for x
  proof -
    have lx: "length x = length shape" using x by (auto simp: box_def dest: list_all2_lengthD)
    have "out_part keep 0 ?m x \<in> box ?o" using place_parts [OF lm x, of keep] by simp
    moreover have "out = [0]" if "?o = []" using out that by (auto simp: out_dims_def Let_def elim!: box_ConsE simp: box_Nil)
    ultimately show ?thesis by (auto simp: out_index_def o'_def lx Let_def box_Nil box_def)
  qed
  have "(\<Sum>red\<in>box (map ((!) shape) axis). f (res_indice axis keep out red [0..<length shape] 0 0))
    = (\<Sum>red\<in>box (red_part ?m shape). f (place keep ?m o' red))" unfolding r [symmetric] using eq by (intro sum.cong) simp_all
  also have "\<dots> = (\<Sum>x | x \<in> box shape \<and> out_part keep 0 ?m x = o'. f x)"
    by (rule sum.reindex_bij_betw [OF place_bij [OF lm o']])
  also have "\<dots> = (\<Sum>x | x \<in> box shape \<and> out_index axis keep x = out. f x)"
    by (rule sum.cong) (use idx in auto)
  finally show ?thesis .
qed


lemma refine_axis_range:
  assumes "refine_axis ax shape = Inr res_axis"
  shows "sorted (map nat res_axis)" and "\<forall>j\<in>set (map nat res_axis). j < length shape"
    and "distinct res_axis \<Longrightarrow> distinct (map nat res_axis)"
proof -
  let ?is = "case ax of Inl i \<Rightarrow> [i] | Inr is \<Rightarrow> is"
  obtain ys where m: "mapE (refine_one_axis (int (length shape))) ?is = Inr ys" and ys: "res_axis = sort ys"
    using assms unfolding refine_axis_def Let_def bindE_eq_Inr by blast
  have r: "0 \<le> y \<and> y < int (length shape)" if y: "y \<in> set ys" for y
  proof -
    obtain x where "refine_one_axis (int (length shape)) x = Inr y"
      using m y unfolding mapE_ok by (auto simp: list_all2_conv_all_nth in_set_conv_nth)
    then have "\<not> (y \<ge> int (length shape) \<or> y < 0)"
      unfolding refine_one_axis_def Let_def by (auto split: if_splits)
    then show ?thesis by simp
  qed
  have "sorted res_axis" by (simp add: ys)
  then show "sorted (map nat res_axis)"
    unfolding sorted_map by (rule sorted_wrt_mono_rel [rotated]) (rule nat_mono)
  show "\<forall>j\<in>set (map nat res_axis). j < length shape"
  proof
    fix j assume "j \<in> set (map nat res_axis)"
    then obtain y where "y \<in> set ys" "j = nat y" by (auto simp: ys)
    then show "j < length shape" using r [of y] by linarith
  qed
  assume d: "distinct res_axis"
  have "inj_on nat (set res_axis)"
  proof (rule inj_onI)
    fix x y assume "x \<in> set res_axis" "y \<in> set res_axis" "nat x = nat y"
    then show "x = y" using r [of x] r [of y] by (simp add: ys eq_nat_nat_iff)
  qed
  with d show "distinct (map nat res_axis)" by (simp add: distinct_map)
qed

lemma deal_shape:
  assumes "deal_tensor_dtype env axis raw n = Inr (t, n')"
  shows "rt_shape t = rt_shape raw"
  using assms cast_tensor_shape by (fastforce simp: deal_tensor_dtype_def Let_def split: if_splits)

text \<open>The axes that an argument names: integers, counted from the end when they are negative, in ascending order.\<close>

definition named_axes :: "nat \<Rightarrow> pyval \<Rightarrow> nat list" where
  "named_axes rank axis =
     map nat (sort (map (\<lambda>i. i mod int rank)
       (case axis of PyTuple xs \<Rightarrow> map axis_int xs | PyList xs \<Rightarrow> map axis_int xs | v \<Rightarrow> [axis_int v])))"

lemma refined_axes:
  assumes "axis_ints axis = Inr axi" and "refine_axis axi shape = Inr r"
  shows "map nat r = named_axes (length shape) axis"
proof -
  let ?is = "case axi of Inl i \<Rightarrow> [i] | Inr is \<Rightarrow> is"
  obtain ys where m: "mapE (refine_one_axis (int (length shape))) ?is = Inr ys" and r: "r = sort ys"
    using assms(2) unfolding refine_axis_def Let_def bindE_eq_Inr by blast
  then have "ys = map (\<lambda>i. i mod int (length shape)) ?is"
    by (subst (asm) mapE_uniform [OF refine_one_axis_eq]) (simp split: if_splits)
  moreover have "?is = (case axis of PyTuple xs \<Rightarrow> map axis_int xs | PyList xs \<Rightarrow> map axis_int xs | v \<Rightarrow> [axis_int v])"
    using assms(1) by (cases axis) (auto simp: axis_ints_def)
  ultimately show ?thesis by (simp add: r named_axes_def)
qed

text \<open>A tensor that is another one or casts of it.\<close>

fun cast_from :: "red_ten \<Rightarrow> red_ten \<Rightarrow> bool" where
  "cast_from t (In_Ten d s) \<longleftrightarrow> In_Ten d s = t"
| "cast_from t (Muls_Ten u) \<longleftrightarrow> Muls_Ten u = t"
| "cast_from t (Cast_Ten nm op d u) \<longleftrightarrow> Cast_Ten nm op d u = t \<or> cast_from t u"

lemma cast_from_refl [simp]: "cast_from t t"
  by (cases t) simp_all

lemma cast_op_from: "cast_op env t dst op auto n = Inr (t', n') \<Longrightarrow> cast_from raw t \<Longrightarrow> cast_from raw t'"
  by (auto simp: cast_op_def)

lemma cast_first_from: "cast_first env raw dst n = Inr (t, n') \<Longrightarrow> cast_from raw t"
  by (auto simp: cast_first_def Let_def split: if_splits dest: cast_op_from [OF _ cast_from_refl])

lemma cast_tensor_from: "cast_tensor env raw dst auto n = Inr (t, n') \<Longrightarrow> cast_from raw t"
  by (auto simp: cast_tensor_def split: if_splits prod.splits dest: cast_first_from cast_op_from)

lemma deal_from: "deal_tensor_dtype env axis raw n = Inr (t, n') \<Longrightarrow> cast_from raw t"
  by (auto simp: deal_tensor_dtype_def Let_def split: if_splits dest: cast_tensor_from)

text \<open>C1. The sum of two tensors over pairwise different axes, after the checks and casts: the tensors summed are
  the two given ones, in order, themselves or cast; the axes summed over are the named ones; the result's dimensions are those
  of the input without these axes (or with 1 in their place); and every cell of it sums exactly the
  cells of the input whose other indices are those of the cell, each once.\<close>

theorem tuple_sum_sums:
  fixes f :: "nat list \<Rightarrow> 'v :: comm_monoid_add"
  assumes "tuple_sum env (Some ts) axis keepdims k n = Inr (Reduced nm rs ax ext keep ts', k', n')"
    and "rt_shape (hd ts) = dims_of shape" and "distinct (named_axes (length shape) axis)"
    and "out \<in> box (out_dims (named_axes (length shape) axis) keepdims shape)"
  shows "list_all2 cast_from ts ts' \<and> length ts' = 2 \<and> ax = named_axes (length shape) axis
    \<and> keep = keepdims \<and> rs = dims_of (out_dims ax keep shape) \<and> ext = dims_of (map ((!) shape) ax)
    \<and> (\<Sum>red\<in>box (map ((!) shape) ax). f (res_indice ax keep out red [0..<length shape] 0 0))
      = (\<Sum>x | x \<in> box shape \<and> out_index ax keep x = out. f x)"
proof -
  obtain a b where ts: "ts = [a, b]" using assms(1)
    by (cases ts; cases "tl ts"; cases "tl (tl ts)") (auto simp: tuple_sum_def check_two_tensors_def raise_if_def)
  obtain ta tb n1 n2 where da: "deal_tensor_dtype env axis a k = Inr (ta, n1)" "deal_tensor_dtype env axis b n1 = Inr (tb, n2)"
    and op: "tuple_reduce_op env [ta, tb] axis ''tuple_reduce_sum'' keepdims n = Inr (Reduced nm rs ax ext keep ts', n')"
    using assms(1) by (auto simp: tuple_sum_def ts split: prod.splits)
  have shape: "rt_shape ta = dims_of shape" using deal_shape [OF da(1)] assms(2) by (simp add: ts)
  obtain axi r where axi: "axis_ints axis = Inr axi" and r: "refine_axis axi (dims_of shape) = Inr r"
    and eqs: "rs = res_reshape (map nat r) keepdims (dims_of shape)" "ax = map nat r"
      "ext = map (\<lambda>j. dims_of shape ! j) (map nat r)" "keep = keepdims" "ts' = [ta, tb]"
    using op by (auto simp: tuple_reduce_op_def shape Let_def split: if_splits)
  note rr = refine_axis_range [OF r]
  have ax: "ax = named_axes (length shape) axis" using refined_axes [OF axi r] by (simp add: eqs(2) dims_of_def)
  have lt: "\<forall>j\<in>set ax. j < length shape" using rr(2) by (simp add: eqs dims_of_def)
  have "ext = dims_of (map ((!) shape) ax)" using lt by (auto simp: eqs dims_of_def)
  moreover have "list_all2 cast_from ts ts'" using deal_from [OF da(1)] deal_from [OF da(2)] by (simp add: ts eqs(5))
  moreover have "sorted ax" using rr(1) by (simp add: eqs(2))
  ultimately show ?thesis
    using place_sum [OF _ assms(3) [folded ax] lt, of out keepdims f] assms(4) [folded ax] res_reshape_dims [of ax keepdims shape] ax
    by (simp add: eqs(1,4,5)) (simp add: eqs(2))
qed

theorem tuple_sum_sums_witness:
  "list_all2 cast_from [In_Ten ''int8'' (dims_of [2, 3]), In_Ten ''float16'' (dims_of [2, 3])]
      [Cast_Ten ''cast_0'' ''elewise_single_cast'' ''float32'' (In_Ten ''int8'' (dims_of [2, 3])), In_Ten ''float16'' (dims_of [2, 3])]
   \<and> (\<Sum>red\<in>box [3]. sum_list (res_indice [1] False [1] red [0..<2] 0 0))
     = (\<Sum>x | x \<in> box [2, 3] \<and> out_index [1] False x = [1]. sum_list x)"
proof -
  let ?env = "\<lparr>product_version = VERSION_CLOUD, context_mode = None, intrinsic_check_support = (\<lambda>_ _. True), in_dynamic = False\<rparr>"
  let ?s = "In_Ten ''int8'' (dims_of [2, 3])" and ?t = "In_Ten ''float16'' (dims_of [2, 3])"
  let ?c = "Cast_Ten ''cast_0'' ''elewise_single_cast'' ''float32'' ?s"
  have run: "tuple_sum ?env (Some [?s, ?t]) (PyInt (- 1)) False 0 0
    = Inr (Reduced ''reduce_0'' (dims_of [2]) [1] (dims_of [3]) False [?c, ?t], 1, 1)"
    by code_simp
  have ax: "named_axes (length [2, 3 :: nat]) (PyInt (- 1)) = [1]" by code_simp
  have out: "[1] \<in> box (out_dims (named_axes (length [2, 3 :: nat]) (PyInt (- 1))) False [2, 3])"
    unfolding ax by (simp add: box_def out_dims_def mask_def upt_rec Let_def)
  have m: "map ((!) [2, 3 :: nat]) [1] = [3]" "length [2, 3 :: nat] = 2" by simp_all
  have s: "rt_shape (hd [?s, ?t]) = dims_of [2, 3]" "distinct (named_axes (length [2, 3 :: nat]) (PyInt (- 1)))"
    unfolding ax by simp_all
  from tuple_sum_sums [OF run s out, of sum_list] show ?thesis unfolding m by blast
qed

text \<open>An axis given twice is summed twice: both entries become reduced indices of the computation, and only the
  first of them reads the input.\<close>

lemma axis_twice:
  "tuple_sum \<lparr>product_version = VERSION_CLOUD, context_mode = None, intrinsic_check_support = (\<lambda>_ _. True), in_dynamic = False\<rparr>
      (Some [In_Ten ''float16'' (dims_of [2, 3]), In_Ten ''float16'' (dims_of [2, 3])]) (PyList [PyInt 0, PyInt (- 2)]) False 0 0
    = Inr (Reduced ''reduce_0'' (dims_of [3]) [0, 0] (dims_of [2, 2]) False
        [In_Ten ''float16'' (dims_of [2, 3]), In_Ten ''float16'' (dims_of [2, 3])], 0, 1)"
  by code_simp

text \<open>The last axis given as -1 is not recognised as the last one: the tensors of type \<^verbatim>\<open>int32\<close> are not cast, while
  they are when the axis is given as 1.\<close>

lemma negative_last_axis:
  "\<not> is_last_axis (dims_of [2, 3]) (PyInt (- 1)) \<and> is_last_axis (dims_of [2, 3]) (PyInt 1)
   \<and> refine_axis (Inl (- 1)) (dims_of [2, 3]) = refine_axis (Inl 1) (dims_of [2, 3])"
  by code_simp

end
