(* ===== verification/Dsl_Common.thy ===== *)
theory Dsl_Common
  imports Dsl_Util Py_Number
begin

text \<open>
  The helpers of \<^verbatim>\<open>common.py\<close>: rounding casts, the sizes of windows under the two paddings, the product
  of fractal matrices, and the test for positive elements. The block sizes of the device (16
  elements, 32 for \<^verbatim>\<open>int8\<close>) are \<^verbatim>\<open>BLOCK_REDUCE\<close> and \<^verbatim>\<open>BLOCK_REDUCE_INT8\<close> of the platform package.
\<close>

section \<open>Rounding\<close>

datatype round_call = Cast_To string | Round_Half_Up

definition cast_to_round :: "dsl_env \<Rightarrow> string \<Rightarrow> string \<Rightarrow> round_call res" where
  "cast_to_round env data_dtype dtype =
     (let dtype = s_lower dtype in
      bindE (raise_if (dtype \<noteq> ''int32'') err_arg) (\<lambda>_.
      let src_dtype = s_lower data_dtype in
      bindE (ditem DTYPE_MAP src_dtype) (\<lambda>short.
        Inr (if \<not> intrinsic_check_support env ''Intrinsic_vconv'' (short @ ''2s32a'') then Cast_To dtype else Round_Half_Up))))"

section \<open>Windows\<close>

definition tf_get_windowed_output_size_verbose_v2 ::
    "int \<Rightarrow> int \<Rightarrow> int \<Rightarrow> int \<Rightarrow> string \<Rightarrow> (int \<times> int \<times> int) res" where
  "tf_get_windowed_output_size_verbose_v2 input_size filter_size dilation_rate stride padding_type =
     bindE (raise_if (stride \<le> 0) err_arg) (\<lambda>_.
     bindE (raise_if (dilation_rate < 1) err_arg) (\<lambda>_.
     let effective_filter_size = (filter_size - 1) * dilation_rate + 1 in
     if padding_type = ''VALID'' then Inr ((input_size - effective_filter_size + stride) div stride, 0, 0)
     else if padding_type = ''SAME'' then
       (let output_size = (input_size + stride - 1) div stride;
            padding_needed = max 0 ((output_size - 1) * stride + effective_filter_size - input_size);
            padding_before = padding_needed div 2 in
        Inr (output_size, padding_before, padding_needed - padding_before))
     else Inl err_arg))"

definition tf_get_windowed_output_size_verbose :: "int \<Rightarrow> int \<Rightarrow> int \<Rightarrow> string \<Rightarrow> (int \<times> int \<times> int) res" where
  "tf_get_windowed_output_size_verbose input_size filter_size stride padding_type =
     tf_get_windowed_output_size_verbose_v2 input_size filter_size 1 stride padding_type"

definition tf_get_windowed_output_size :: "int \<Rightarrow> int \<Rightarrow> int \<Rightarrow> string \<Rightarrow> (int \<times> int) res" where
  "tf_get_windowed_output_size input_size filter_size stride padding_type =
     bindE (raise_if (padding_type = ''EXPLICIT'') err_arg) (\<lambda>_.
     bindE (tf_get_windowed_output_size_verbose input_size filter_size stride padding_type) (\<lambda>(output_size, padding_size, _).
       Inr (output_size, padding_size)))"

lemma le_div_iff: "0 < s \<Longrightarrow> i \<le> a div s \<longleftrightarrow> i * s \<le> (a :: int)"
proof
  assume s: "0 < s"
  show "i * s \<le> a" if "i \<le> a div s"
    using mult_right_mono [OF that, of s] s div_mult_mod_eq [of a s] pos_mod_sign [of s a] by linarith
  show "i \<le> a div s" if i: "i * s \<le> a"
  proof (rule ccontr)
    assume "\<not> i \<le> a div s"
    then have "(a div s + 1) * s \<le> i * s" using s by (intro mult_right_mono) simp_all
    then show False using i s div_mult_mod_eq [of a s] pos_mod_bound [of s a] unfolding distrib_right by linarith
  qed
qed

lemma count_windows: "0 < s \<Longrightarrow> i < (a + s) div s \<longleftrightarrow> i * s \<le> (a :: int)"
  using le_div_iff [of s i a] by simp

text \<open>C1. The sizes are right: with \<^verbatim>\<open>VALID\<close> there are as many windows as lie inside the input, and with
  \<^verbatim>\<open>SAME\<close> one for every stride that starts in it, the padded input holds them all and no longer one is needed, and the
  padding is spread evenly with the odd element at the end.\<close>

theorem windows_fit:
  assumes "tf_get_windowed_output_size_verbose_v2 n k d s pad = Inr (m, before, after)"
  shows "if pad = ''VALID''
    then before = 0 \<and> after = 0 \<and> (i < m \<longleftrightarrow> i * s + ((k - 1) * d + 1) \<le> n)
    else (i < m \<longleftrightarrow> i * s < n) \<and> 0 \<le> before \<and> before \<le> after \<and> after \<le> before + 1
      \<and> before + after = max 0 ((m - 1) * s + ((k - 1) * d + 1) - n)"
proof -
  let ?e = "(k - 1) * d + 1"
  have s: "0 < s" using assms by (auto simp: tf_get_windowed_output_size_verbose_v2_def raise_if_def split: if_splits)
  show ?thesis
  proof (cases "pad = ''VALID''")
    case True
    then have m: "m = (n - ?e + s) div s" "before = 0" "after = 0"
      using assms by (auto simp: tf_get_windowed_output_size_verbose_v2_def Let_def)
    show ?thesis using True count_windows [OF s, of i "n - ?e"] m by auto
  next
    case False
    define p where "p = max 0 (((n + s - 1) div s - 1) * s + ?e - n)"
    have m: "m = (n + s - 1) div s" "before = p div 2" "after = p - p div 2"
      using assms False unfolding p_def
      by (auto simp: tf_get_windowed_output_size_verbose_v2_def Let_def split: if_splits)
    have "0 \<le> p" by (simp add: p_def)
    then have "0 \<le> p div 2" "p div 2 \<le> p - p div 2" "p - p div 2 \<le> p div 2 + 1" by linarith+
    moreover have "i < m \<longleftrightarrow> i * s < n"
    proof -
      have e: "n - 1 + s = n + s - 1" by simp
      show ?thesis using count_windows [OF s, of i "n - 1"] unfolding m(1) e zle_diff1_eq .
    qed
    moreover have "p = max 0 ((m - 1) * s + ?e - n)" by (simp add: p_def m(1))
    ultimately show ?thesis using False m(2,3) by simp
  qed
qed

lemma windows_fit_witness:
  "tf_get_windowed_output_size_verbose_v2 10 3 2 3 ''SAME'' = Inr (4, 2, 2) \<and> (3 :: int) < 4 \<and> (3 :: int) * 3 < 10"
proof -
  have "tf_get_windowed_output_size_verbose_v2 10 3 2 3 ''SAME'' = Inr (4, 2, 2)" by code_simp
  from windows_fit [OF this, of 3] this show ?thesis by simp
qed

text \<open>The message for \<^verbatim>\<open>EXPLICIT\<close> refers the caller to a function that does not know it either.\<close>

lemma explicit_refused: "0 < s \<Longrightarrow> tf_get_windowed_output_size_verbose n k s ''EXPLICIT'' = Inl err_arg"
  by (simp add: tf_get_windowed_output_size_verbose_def tf_get_windowed_output_size_verbose_v2_def Let_def)

section \<open>The product of fractal matrices\<close>

text \<open>An element of \<^verbatim>\<open>mad\<close>: the left matrix by image, group, blocks of rows and of columns, the right one by group,
  blocks and places. The cast of the elements is a parameter.\<close>

definition BLOCK_SIZE :: nat where "BLOCK_SIZE = 16"
definition BLOCK_INT8_SIZE :: nat where "BLOCK_INT8_SIZE = 32"

definition mad_k0 :: "string \<Rightarrow> nat" where
  "mad_k0 res_type = (if res_type \<in> {''int32'', ''uint32''} then BLOCK_INT8_SIZE else BLOCK_SIZE)"

definition mad_mode :: "string \<Rightarrow> string" where
  "mad_mode res_type = (if res_type = ''float16'' then ''f162f16'' else ''f162f32'')"

definition mad ::
    "(string \<Rightarrow> 'v \<Rightarrow> 'v) \<Rightarrow> nat \<Rightarrow> (nat \<Rightarrow> nat \<Rightarrow> nat \<Rightarrow> nat \<Rightarrow> nat \<Rightarrow> nat \<Rightarrow> 'v) \<Rightarrow> (nat \<Rightarrow> nat \<Rightarrow> nat \<Rightarrow> nat \<Rightarrow> nat \<Rightarrow> 'v)
      \<Rightarrow> string \<Rightarrow> 'v \<Rightarrow> bool \<Rightarrow> nat \<Rightarrow> nat \<Rightarrow> nat \<Rightarrow> nat \<Rightarrow> nat \<Rightarrow> 'v :: comm_ring_1" where
  "mad astype k1_extent in_a in_b res_type offset_x v200_flag n cg j1 i j0 =
     (let offset_x = (if v200_flag then offset_x else 0) in
      \<Sum>k1<k1_extent. \<Sum>k0<mad_k0 res_type.
        astype res_type (in_a n cg (i div BLOCK_SIZE) k1 (i mod BLOCK_SIZE) k0 - offset_x)
          * astype res_type (in_b cg k1 j1 j0 k0))"

text \<open>C1. On matrices stored as fractals, the left one in blocks of 16 rows and the right one in blocks of 16 columns
  (of 32 places for the 32 bit integers, else 16, in the inner direction), \<^verbatim>\<open>mad\<close> is the product of the matrices
  of cast elements, over the whole inner dimension; with \<^verbatim>\<open>v200_flag\<close>, which is not set unless it is given, the offset is taken
  off the left elements before their cast, without it the offset is ignored. The arithmetic is exact, that of a ring:
  rounding and the order of the device's sums are not part of it.\<close>

theorem mad_is_product:
  assumes "\<And>n g i1 k1 i0 k0. in_a n g i1 k1 i0 k0 = A n g (i1 * 16 + i0) (k1 * mad_k0 res_type + k0)"
    and "\<And>g k1 j1 j0 k0. in_b g k1 j1 j0 k0 = B g (k1 * mad_k0 res_type + k0) (j1 * 16 + j0)"
  shows "mad astype K1 in_a in_b res_type offset v200 n g j1 i j0
    = (\<Sum>k<K1 * mad_k0 res_type. astype res_type (A n g i k - (if v200 then offset else 0)) * astype res_type (B g k (j1 * 16 + j0)))"
proof -
  let ?b = "mad_k0 res_type"
  have b: "0 < ?b" by (simp add: mad_k0_def BLOCK_SIZE_def BLOCK_INT8_SIZE_def)
  have "(\<Sum>k<K1 * ?b. f k) = (\<Sum>k1<K1. \<Sum>k0<?b. f (k1 * ?b + k0))" for f :: "nat \<Rightarrow> 'a"
  proof -
    have "(\<Sum>k0<?b. f (c + k0)) = sum f {c..<c + ?b}" for c
      by (rule sum.reindex_bij_witness [of _ "\<lambda>x. x - c" "\<lambda>x. c + x"]) auto
    then show ?thesis by (simp only: sum.nat_group)
  qed
  then show ?thesis by (simp add: mad_def assms Let_def BLOCK_SIZE_def)
qed

theorem mad_is_product_witness:
  "list_all (\<lambda>v200. mad (\<lambda>_ x. x) 1 (\<lambda>_ _ i1 k1 i0 k0. int (i1 * 16 + i0 + (k1 * 16 + k0)))
         (\<lambda>_ k1 j1 j0 k0. int ((k1 * 16 + k0) * (j1 * 16 + j0))) ''float16'' 3 v200 0 0 0 2 1
     = (\<Sum>k<16. (int (2 + k) - (if v200 then 3 else 0)) * int k)) [True, False]"
proof -
  have b: "mad_k0 ''float16'' = 16" by (simp add: mad_k0_def BLOCK_SIZE_def)
  have "mad (\<lambda>_ x. x) 1 (\<lambda>_ _ i1 k1 i0 k0. int (i1 * 16 + i0 + (k1 * 16 + k0)))
         (\<lambda>_ k1 j1 j0 k0. int ((k1 * 16 + k0) * (j1 * 16 + j0))) ''float16'' 3 v200 0 0 0 2 1
     = (\<Sum>k<16. (int (2 + k) - (if v200 then 3 else 0)) * int k)" for v200
    using mad_is_product [of "\<lambda>_ _ i1 k1 i0 k0. int (i1 * 16 + i0 + (k1 * 16 + k0))" "\<lambda>_ _ i k. int (i + k)" "''float16''"
      "\<lambda>_ k1 j1 j0 k0. int ((k1 * 16 + k0) * (j1 * 16 + j0))" "\<lambda>_ k j. int (k * j)" "\<lambda>_ x. x" 1 3 v200 0 0 0 2 1]
    unfolding b by simp
  then show ?thesis by simp
qed

section \<open>Positive elements\<close>

text \<open>The constants: the smallest positive number of the type and the factors that take it to 1. The products of
  powers of two are exact. Another type leaves the constants unbound.\<close>

definition help_consts :: "string \<Rightarrow> (rat \<times> rat \<times> rat) res" where
  "help_consts dtype =
     (if dtype = ''float32'' then Inr (1 / 2 ^ 126, 2 ^ 38, 2 ^ 44)
      else if dtype = ''float16'' then Inr (1 / 2 ^ 24, 2 ^ 12, 2 ^ 12)
      else if dtype = ''int32'' then Inr (1, 1, 1)
      else Inl NameError)"

definition calculate_one_or_zero :: "rat \<Rightarrow> string \<Rightarrow> rat res" where
  "calculate_one_or_zero input_tensor dtype =
     bindE (help_consts dtype) (\<lambda>(help_min, help_rec_one, help_rec_sec).
       let tmp_min_y = min input_tensor help_min;
           tmp_max_y = max tmp_min_y 0;
           result_tmp = tmp_max_y * help_rec_one;
           result_tmp = (if dtype = ''float32'' then result_tmp * help_rec_sec else result_tmp) in
       Inr (result_tmp * help_rec_sec))"

text \<open>The positive values of a type: multiples of the smallest one, which for \<^verbatim>\<open>float32\<close> is below the constant.\<close>

definition value_of :: "string \<Rightarrow> rat \<Rightarrow> bool" where
  "value_of dtype x \<longleftrightarrow> (\<exists>k :: int. x = of_int k * (if dtype = ''float32'' then 1 / 2 ^ 149 else if dtype = ''float16'' then 1 / 2 ^ 24 else 1))"

text \<open>C1. For every \<^verbatim>\<open>float16\<close> and \<^verbatim>\<open>int32\<close> value the result is 1 for positive and 0 for other elements; for
  \<^verbatim>\<open>float32\<close> it is so for normal numbers, and only for them.\<close>

theorem one_or_zero:
  assumes "dtype \<in> {''float16'', ''float32'', ''int32''}" and "value_of dtype x"
  shows "calculate_one_or_zero x dtype = Inr (if x > 0 then 1 else 0)
    \<longleftrightarrow> dtype \<noteq> ''float32'' \<or> x \<le> 0 \<or> 1 / 2 ^ 126 \<le> x"
proof -
  obtain k :: int where k: "x = of_int k * (if dtype = ''float32'' then 1 / 2 ^ 149 else if dtype = ''float16'' then 1 / 2 ^ 24 else 1)"
    using assms(2) unfolding value_of_def by blast
  consider (h) "dtype = ''float16''" | (i) "dtype = ''int32''" | (f) "dtype = ''float32''" using assms(1) by blast
  then show ?thesis
  proof cases
    case h
    have "1 / 2 ^ 24 \<le> x" if "0 < x"
    proof -
      have "1 \<le> k" using that by (simp add: k h zero_less_mult_iff)
      then have "(1 :: rat) \<le> of_int k" by simp
      then show ?thesis by (simp add: k h divide_right_mono)
    qed
    then show ?thesis by (auto simp: h calculate_one_or_zero_def help_consts_def Let_def min_def max_def)
  next
    case i
    have "1 \<le> x" if "0 < x" using that by (simp add: k i)
    then show ?thesis by (auto simp: i calculate_one_or_zero_def help_consts_def Let_def min_def max_def)
  next
    case f
    then show ?thesis by (auto simp: f calculate_one_or_zero_def help_consts_def Let_def min_def max_def field_simps)
  qed
qed

lemma one_or_zero_witness: "calculate_one_or_zero (3 / 2 ^ 20) ''float16'' = Inr 1"
proof -
  have "value_of ''float16'' (3 / 2 ^ 20)" unfolding value_of_def by (rule exI [of _ 48]) simp
  from one_or_zero [OF _ this] show ?thesis by simp
qed

text \<open>A positive \<^verbatim>\<open>float32\<close> number below the normal ones gives neither.\<close>

lemma subnormal_is_neither: "value_of ''float32'' (1 / 2 ^ 127) \<and> calculate_one_or_zero (1 / 2 ^ 127) ''float32'' = Inr (1 / 2)"
proof -
  have "value_of ''float32'' (1 / 2 ^ 127)" unfolding value_of_def by (rule exI [of _ "2 ^ 22"]) simp
  then show ?thesis by (simp add: calculate_one_or_zero_def help_consts_def Let_def min_def max_def)
qed

end
