(* ===== verification/Changed_Files.thy ===== *)
theory Changed_Files
  imports Py_Os
begin

text \<open>
  The two scripts that read the list of changed files of a pull request,
  \<^verbatim>\<open>scripts/parse_changed_files.py\<close> (which test suites to run) and
  \<^verbatim>\<open>scripts/parse_compile_changed_files.py\<close> (which parts to build). The file system and the lines of the
  list are arguments. Python prints a set in no fixed order, so the two sets are returned, not their text.
\<close>

section \<open>What a change list holds\<close>

text \<open>A list of changed files holds lines, and, where the scripts append the wrong variable, whole files.\<close>

datatype entry = Line string | All_Lines "string list"

text \<open>\<^verbatim>\<open>'\n'.join\<close> over such a list: only texts can be joined.\<close>

fun entry_text :: "entry \<Rightarrow> string res" where
  "entry_text (Line l) = Inr l"
| "entry_text (All_Lines ls) = Inl TypeError"

definition shown :: "string \<Rightarrow> entry list \<Rightarrow> string res" where
  "shown title files = bindE (mapE entry_text files) (\<lambda>texts.
     Inr (title @ '' changed files: '' @ [CHR 0x0A] @ s_join [CHR 0x0A] texts))"

definition rule_line :: "char \<Rightarrow> string" where
  "rule_line c = replicate 73 c @ [CHR 0x0A]"

text \<open>Prints of titled lists, with a line after each.\<close>

fun shown_all :: "(string \<times> entry list \<times> char) list \<Rightarrow> string list res" where
  "shown_all [] = Inr []"
| "shown_all ((title, files, c) # rest) = bindE (shown title files) (\<lambda>t.
     bindE (shown_all rest) (\<lambda>ts. Inr (t # rule_line c # ts)))"

text \<open>
  Both scripts sort line after line into lists and then ask which lists are not empty. What they answer
  is a set of names that grows with each line by what this line is related to.
\<close>

locale line_sorter =
  fixes step :: "'l \<Rightarrow> 's \<Rightarrow> 's" and names :: "'s \<Rightarrow> string set" and related :: "'l \<Rightarrow> string set"
  assumes names_step: "names (step l s) = related l \<union> names s"
begin

lemma names_fold: "names (fold step ls s) = names s \<union> (\<Union>l\<in>set ls. related l)"
  by (induction ls arbitrary: s) (auto simp: names_step)

lemma names_order: "set ls = set ls' \<Longrightarrow> names (fold step ls s) = names (fold step ls' s)"
  by (simp add: names_fold)

end

section \<open>Which suites to run\<close>

definition CPU_UT :: string where "CPU_UT = ''CPU_UT''"
definition PASS_UT :: string where "PASS_UT = ''PASS_UT''"
definition OM_UT :: string where "OM_UT = ''OM_UT''"
definition TILING_UT :: string where "TILING_UT = ''TILING_UT''"
definition PROTO_UT :: string where "PROTO_UT = ''PROTO_UT''"
definition PLUGIN_UT :: string where "PLUGIN_UT = ''PLUGIN_UT''"
definition ONNX_PLUGIN_UT :: string where "ONNX_PLUGIN_UT = ''ONNX_PLUGIN_UT''"
definition OTHER_FILE :: string where "OTHER_FILE = ''OTHER_FILE''"

record file_change_info =
  proto_changed_files :: "entry list"
  tiling_changed_files :: "entry list"
  pass_changed_files :: "entry list"
  om_changed_files :: "entry list"
  aicpu_changed_files :: "entry list"
  plugin_changed_files :: "entry list"
  onnx_plugin_changed_files :: "entry list"
  other_changed_files :: "entry list"

definition no_changes :: file_change_info where
  "no_changes = \<lparr>proto_changed_files = [], tiling_changed_files = [], pass_changed_files = [], om_changed_files = [],
     aicpu_changed_files = [], plugin_changed_files = [], onnx_plugin_changed_files = [], other_changed_files = []\<rparr>"

definition print_change_info :: "file_change_info \<Rightarrow> string list res" where
  "print_change_info info = bindE (shown_all
     [(''infershape proto'', proto_changed_files info, CHR ''-''),
      (''tiling'', tiling_changed_files info, CHR ''-''),
      (''fusion'', pass_changed_files info, CHR ''-''),
      (''bianry om'', om_changed_files info, CHR ''-''),
      (''aicpu'', aicpu_changed_files info, CHR ''-''),
      (''plugin'', plugin_changed_files info, CHR ''-''),
      (''onnx plugin'', onnx_plugin_changed_files info, CHR ''-''),
      (''other'', other_changed_files info, CHR ''='')])
     (\<lambda>ts. Inr ([rule_line CHR ''='', ''changed file info'' @ [CHR 0x0A], rule_line CHR ''-''] @ ts))"

definition base_path :: string where
  "base_path = path_join ''ops'' ''built-in''"

definition ut_path :: string where
  "ut_path = path_join (path_join (path_join ''ops'' ''built-in'') ''tests'') ''ut''"

text \<open>One line of the list. \<open>lines\<close> is the whole list, which the branch of the tilings appends.\<close>

definition ut_step :: "string list \<Rightarrow> string \<Rightarrow> file_change_info \<Rightarrow> file_change_info" where
  "ut_step lines line0 info =
     (let line = s_strip line0 in
      if endswith line ''.py'' then info
      else if startswith line (path_join base_path ''aicpu'') \<or> startswith line (path_join ut_path ''aicpu_test'')
        \<or> startswith line (path_join (path_join base_path ''tests'') ''utils'')
      then info\<lparr>aicpu_changed_files := aicpu_changed_files info @ [Line line]\<rparr>
      else if startswith line (path_join base_path ''fusion_pass'') \<or> startswith line (path_join ut_path ''graph_fusion'')
      then info\<lparr>pass_changed_files := pass_changed_files info @ [Line line]\<rparr>
      else if (startswith line (path_join base_path ''kernel/binary_config/utils'')
          \<or> startswith line (path_join ut_path ''binary_om_test''))
        \<and> (endswith line ''.cc'' \<or> endswith line ''.h'' \<or> endswith line ''.cpp'')
      then info\<lparr>om_changed_files := om_changed_files info @ [Line line]\<rparr>
      else if startswith line (path_join base_path ''op_proto'') \<or> startswith line (path_join ut_path ''ops_test'')
      then info\<lparr>proto_changed_files := proto_changed_files info @ [Line line]\<rparr>
      else if startswith line (path_join base_path ''op_tiling'') \<or> startswith line (path_join ut_path ''op_tiling_test'')
      then info\<lparr>tiling_changed_files := tiling_changed_files info @ [All_Lines lines]\<rparr>
      else if startswith line (path_join (path_join base_path ''framework'') ''tf_plugin'')
        \<or> startswith line (path_join (path_join ut_path ''plugin_test'') ''tensorflow'')
        \<or> startswith line (path_join (path_join ut_path ''plugin_test'') ''common'')
      then info\<lparr>plugin_changed_files := plugin_changed_files info @ [Line line]\<rparr>
      else if startswith line (path_join (path_join base_path ''framework'') ''onnx_plugin'')
        \<or> startswith line (path_join (path_join ut_path ''plugin_test'') ''onnx'')
        \<or> startswith line (path_join (path_join ut_path ''plugin_test'') ''common'')
      then info\<lparr>onnx_plugin_changed_files := onnx_plugin_changed_files info @ [Line line]\<rparr>
      else info\<lparr>other_changed_files := other_changed_files info @ [Line line]\<rparr>)"

definition get_file_change_info_from_ci :: "fs \<Rightarrow> (string \<Rightarrow> string list) \<Rightarrow> string \<Rightarrow> file_change_info option" where
  "get_file_change_info_from_ci f read_lines changed_file_info_from_ci =
     (let or_file_path = fs_realpath f changed_file_info_from_ci in
      if \<not> fs_exists f or_file_path then None
      else let lines = read_lines or_file_path in Some (fold (ut_step lines) lines no_changes))"

definition relate_ut :: "file_change_info \<Rightarrow> string set" where
  "relate_ut info =
     (if aicpu_changed_files info \<noteq> [] then {CPU_UT} else {})
     \<union> (if pass_changed_files info \<noteq> [] then {PASS_UT} else {})
     \<union> (if tiling_changed_files info \<noteq> [] then {TILING_UT} else {})
     \<union> (if proto_changed_files info \<noteq> [] then {PROTO_UT, PASS_UT, PLUGIN_UT} else {})
     \<union> (if plugin_changed_files info \<noteq> [] then {PLUGIN_UT} else {})
     \<union> (if onnx_plugin_changed_files info \<noteq> [] then {ONNX_PLUGIN_UT} else {})
     \<union> (if om_changed_files info \<noteq> [] then {OM_UT} else {})"

definition other_file :: "file_change_info \<Rightarrow> string set" where
  "other_file info = (if other_changed_files info \<noteq> [] then {OTHER_FILE} else {})"

definition get_change_relate_ut_dir_list ::
    "fs \<Rightarrow> (string \<Rightarrow> string list) \<Rightarrow> string \<Rightarrow> (string set \<times> string set) option" where
  "get_change_relate_ut_dir_list f read_lines changed_file_info_from_ci =
     map_option (\<lambda>info. (relate_ut info, other_file info))
       (get_file_change_info_from_ci f read_lines changed_file_info_from_ci)"

section \<open>Which parts to build\<close>

definition CPU :: string where "CPU = ''CPU''"
definition PASS :: string where "PASS = ''PASS''"
definition TILING :: string where "TILING = ''TILING''"
definition PROTO :: string where "PROTO = ''PROTO''"
definition TF_PLUGIN :: string where "TF_PLUGIN = ''TF_PLUGIN''"
definition ONNX_PLUGIN :: string where "ONNX_PLUGIN = ''ONNX_PLUGIN''"
definition CAFFE_PLUGIN :: string where "CAFFE_PLUGIN = ''CAFFE_PLUGIN''"
definition SCHEDULE :: string where "SCHEDULE = ''SCHEDULE''"
definition TBE :: string where "TBE = ''TBE''"
definition FUSION_RULES :: string where "FUSION_RULES = ''FUSION_RULES''"
definition TOOLS :: string where "TOOLS = ''TOOLS''"

record build_change_info =
  b_proto :: "entry list"
  b_tiling :: "entry list"
  b_pass :: "entry list"
  b_aicpu :: "entry list"
  b_plugin :: "entry list"
  b_onnx_plugin :: "entry list"
  b_caffe_plugin :: "entry list"
  b_other :: "entry list"
  b_schedule :: "entry list"
  b_tbe :: "entry list"
  b_fusion_rules :: "entry list"
  b_tools :: "entry list"

definition nothing_to_build :: build_change_info where
  "nothing_to_build = \<lparr>b_proto = [], b_tiling = [], b_pass = [], b_aicpu = [], b_plugin = [], b_onnx_plugin = [],
     b_caffe_plugin = [], b_other = [], b_schedule = [], b_tbe = [], b_fusion_rules = [], b_tools = []\<rparr>"

definition print_build_info :: "build_change_info \<Rightarrow> string list res" where
  "print_build_info info = bindE (shown_all
     [(''infershape proto'', b_proto info, CHR ''-''),
      (''tiling'', b_tiling info, CHR ''-''),
      (''fusion'', b_pass info, CHR ''-''),
      (''aicpu'', b_aicpu info, CHR ''-''),
      (''plugin'', b_plugin info, CHR ''-''),
      (''onnx plugin'', b_onnx_plugin info, CHR ''-''),
      (''caffe plugin'', b_caffe_plugin info, CHR ''-''),
      (''other'', b_other info, CHR ''=''),
      (''schedule'', b_schedule info, CHR ''=''),
      (''tbe'', b_tbe info, CHR ''=''),
      (''fusion_rules'', b_fusion_rules info, CHR ''=''),
      (''tools'', b_tools info, CHR ''='')])
     (\<lambda>ts. Inr ([rule_line CHR ''='', ''changed file info'' @ [CHR 0x0A], rule_line CHR ''-''] @ ts))"

definition not_compile_file :: "string list" where
  "not_compile_file = [''OWNERS'', ''NOTICE'', ''LICENSE'', ''README.md'', ''classify_rule.yaml'']"

definition build_step :: "string list \<Rightarrow> string \<Rightarrow> build_change_info \<Rightarrow> build_change_info" where
  "build_step lines line0 info =
     (let line = s_strip line0 in
      if startswith line ''auto_schedule'' then info\<lparr>b_schedule := b_schedule info @ [Line line]\<rparr>
      else if startswith line (path_join base_path ''tbe'') then info\<lparr>b_tbe := b_tbe info @ [Line line]\<rparr>
      else if startswith line (path_join base_path ''fusion_rules'')
      then info\<lparr>b_fusion_rules := b_fusion_rules info @ [Line line]\<rparr>
      else if startswith line ''tools'' then info\<lparr>b_tools := b_tools info @ [Line line]\<rparr>
      else if startswith line ''scripts'' then info
      else if endswith line ''.py'' then info
      else if startswith line (path_join base_path ''tests'') then info
      else if line \<in> set not_compile_file then info
      else if startswith line (path_join base_path ''aicpu'') then info\<lparr>b_aicpu := b_aicpu info @ [Line line]\<rparr>
      else if startswith line (path_join base_path ''fusion_pass'') then info\<lparr>b_pass := b_pass info @ [Line line]\<rparr>
      else if startswith line (path_join base_path ''op_proto'') then info\<lparr>b_proto := b_proto info @ [Line line]\<rparr>
      else if startswith line (path_join base_path ''op_tiling'') then info\<lparr>b_tiling := b_tiling info @ [All_Lines lines]\<rparr>
      else if startswith line (path_join (path_join base_path ''framework'') ''tf_plugin'')
      then info\<lparr>b_plugin := b_plugin info @ [Line line]\<rparr>
      else if startswith line (path_join (path_join base_path ''framework'') ''onnx_plugin'')
      then info\<lparr>b_onnx_plugin := b_onnx_plugin info @ [Line line]\<rparr>
      else if startswith line (path_join (path_join base_path ''framework'') ''caffe_plugin'')
      then info\<lparr>b_caffe_plugin := b_caffe_plugin info @ [Line line]\<rparr>
      else info\<lparr>b_other := b_other info @ [Line line]\<rparr>)"

definition get_build_change_info :: "fs \<Rightarrow> (string \<Rightarrow> string list) \<Rightarrow> string \<Rightarrow> build_change_info option" where
  "get_build_change_info f read_lines changed_file_info_from_ci =
     (let or_file_path = fs_realpath f changed_file_info_from_ci in
      if \<not> fs_exists f or_file_path then None
      else let lines = read_lines or_file_path in Some (fold (build_step lines) lines nothing_to_build))"

definition relate_build :: "build_change_info \<Rightarrow> string set" where
  "relate_build info =
     (if b_aicpu info \<noteq> [] then {CPU} else {})
     \<union> (if b_pass info \<noteq> [] then {PASS} else {})
     \<union> (if b_tiling info \<noteq> [] then {TILING} else {})
     \<union> (if b_proto info \<noteq> [] then {PROTO} else {})
     \<union> (if b_plugin info \<noteq> [] then {TF_PLUGIN} else {})
     \<union> (if b_onnx_plugin info \<noteq> [] then {ONNX_PLUGIN} else {})
     \<union> (if b_caffe_plugin info \<noteq> [] then {CAFFE_PLUGIN} else {})
     \<union> (if b_schedule info \<noteq> [] then {SCHEDULE} else {})
     \<union> (if b_tbe info \<noteq> [] then {TBE} else {})
     \<union> (if b_fusion_rules info \<noteq> [] then {FUSION_RULES} else {})
     \<union> (if b_tools info \<noteq> [] then {TOOLS} else {})"

definition other_build :: "build_change_info \<Rightarrow> string set" where
  "other_build info = (if b_other info \<noteq> [] then {OTHER_FILE} else {})"

definition get_change_relate_dir_list ::
    "fs \<Rightarrow> (string \<Rightarrow> string list) \<Rightarrow> string \<Rightarrow> (string set \<times> string set) option" where
  "get_change_relate_dir_list f read_lines changed_file_info_from_ci =
     map_option (\<lambda>info. (relate_build info, other_build info))
       (get_build_change_info f read_lines changed_file_info_from_ci)"

section \<open>The answers as tables\<close>

text \<open>
  A table gives, for the first row with a prefix of the path (and, where the row asks for one, an ending of it),
  the names the path is related to.
\<close>

fun by_rules :: "(string list \<times> string list \<times> string set) list \<Rightarrow> string set \<Rightarrow> string \<Rightarrow> string set" where
  "by_rules [] dflt path = dflt"
| "by_rules ((heads, endings, ns) # rules) dflt path =
     (if list_ex (startswith path) heads \<and> (endings = [] \<or> list_ex (endswith path) endings) then ns
      else by_rules rules dflt path)"

definition ut_rules :: "(string list \<times> string list \<times> string set) list" where
  "ut_rules =
    [([''ops/built-in/aicpu'', ''ops/built-in/tests/ut/aicpu_test'', ''ops/built-in/tests/utils''], [], {''CPU_UT''}),
     ([''ops/built-in/fusion_pass'', ''ops/built-in/tests/ut/graph_fusion''], [], {''PASS_UT''}),
     ([''ops/built-in/kernel/binary_config/utils'', ''ops/built-in/tests/ut/binary_om_test''], [''.cc'', ''.h'', ''.cpp''],
      {''OM_UT''}),
     ([''ops/built-in/op_proto'', ''ops/built-in/tests/ut/ops_test''], [], {''PROTO_UT'', ''PASS_UT'', ''PLUGIN_UT''}),
     ([''ops/built-in/op_tiling'', ''ops/built-in/tests/ut/op_tiling_test''], [], {''TILING_UT''}),
     ([''ops/built-in/framework/tf_plugin'', ''ops/built-in/tests/ut/plugin_test/tensorflow'',
       ''ops/built-in/tests/ut/plugin_test/common''], [], {''PLUGIN_UT''}),
     ([''ops/built-in/framework/onnx_plugin'', ''ops/built-in/tests/ut/plugin_test/onnx''], [], {''ONNX_PLUGIN_UT''})]"

text \<open>What is built: some files are left out between the rows of two tables.\<close>

definition first_rules :: "(string list \<times> string list \<times> string set) list" where
  "first_rules =
    [([''auto_schedule''], [], {''SCHEDULE''}), ([''ops/built-in/tbe''], [], {''TBE''}),
     ([''ops/built-in/fusion_rules''], [], {''FUSION_RULES''}), ([''tools''], [], {''TOOLS''}), ([''scripts''], [], {}),
     ([[]], [''.py''], {}), ([''ops/built-in/tests''], [], {})]"

definition build_rules :: "(string list \<times> string list \<times> string set) list" where
  "build_rules =
    [([''ops/built-in/aicpu''], [], {''CPU''}), ([''ops/built-in/fusion_pass''], [], {''PASS''}),
     ([''ops/built-in/op_proto''], [], {''PROTO''}), ([''ops/built-in/op_tiling''], [], {''TILING''}),
     ([''ops/built-in/framework/tf_plugin''], [], {''TF_PLUGIN''}),
     ([''ops/built-in/framework/onnx_plugin''], [], {''ONNX_PLUGIN''}),
     ([''ops/built-in/framework/caffe_plugin''], [], {''CAFFE_PLUGIN''})]"

text \<open>The same table, for the lines that no row knows.\<close>

definition no_names :: "(string list \<times> string list \<times> string set) list \<Rightarrow> (string list \<times> string list \<times> string set) list" where
  "no_names = map (\<lambda>(heads, endings, _). (heads, endings, {}))"

definition ut_suites :: "string \<Rightarrow> string set" where
  "ut_suites line = (if endswith (s_strip line) ''.py'' then {} else by_rules ut_rules {} (s_strip line))"

definition ut_other :: "string \<Rightarrow> string set" where
  "ut_other line = (if endswith (s_strip line) ''.py'' then {} else by_rules (no_names ut_rules) {''OTHER_FILE''} (s_strip line))"

definition build_parts :: "string \<Rightarrow> string set" where
  "build_parts line = (let l = s_strip line in
     by_rules first_rules (if l \<in> set not_compile_file then {} else by_rules build_rules {} l) l)"

definition build_other :: "string \<Rightarrow> string set" where
  "build_other line = (let l = s_strip line in
     by_rules (no_names first_rules)
       (if l \<in> set not_compile_file then {} else by_rules (no_names build_rules) {''OTHER_FILE''} l) l)"

lemmas suite_names = CPU_UT_def PASS_UT_def OM_UT_def TILING_UT_def PROTO_UT_def PLUGIN_UT_def ONNX_PLUGIN_UT_def OTHER_FILE_def

lemmas part_names = CPU_def PASS_def TILING_def PROTO_def TF_PLUGIN_def ONNX_PLUGIN_def CAFFE_PLUGIN_def SCHEDULE_def
  TBE_def FUSION_RULES_def TOOLS_def OTHER_FILE_def

text \<open>The paths of the scripts, put together.\<close>

lemma paths:
  "path_join base_path ''aicpu'' = ''ops/built-in/aicpu''"
  "path_join base_path ''fusion_pass'' = ''ops/built-in/fusion_pass''"
  "path_join base_path ''kernel/binary_config/utils'' = ''ops/built-in/kernel/binary_config/utils''"
  "path_join base_path ''op_proto'' = ''ops/built-in/op_proto''"
  "path_join base_path ''op_tiling'' = ''ops/built-in/op_tiling''"
  "path_join base_path ''tbe'' = ''ops/built-in/tbe''"
  "path_join base_path ''fusion_rules'' = ''ops/built-in/fusion_rules''"
  "path_join base_path ''tests'' = ''ops/built-in/tests''"
  "path_join ''ops/built-in/tests'' ''utils'' = ''ops/built-in/tests/utils''"
  "path_join (path_join base_path ''framework'') ''tf_plugin'' = ''ops/built-in/framework/tf_plugin''"
  "path_join (path_join base_path ''framework'') ''onnx_plugin'' = ''ops/built-in/framework/onnx_plugin''"
  "path_join (path_join base_path ''framework'') ''caffe_plugin'' = ''ops/built-in/framework/caffe_plugin''"
  "path_join ut_path ''aicpu_test'' = ''ops/built-in/tests/ut/aicpu_test''"
  "path_join ut_path ''graph_fusion'' = ''ops/built-in/tests/ut/graph_fusion''"
  "path_join ut_path ''binary_om_test'' = ''ops/built-in/tests/ut/binary_om_test''"
  "path_join ut_path ''ops_test'' = ''ops/built-in/tests/ut/ops_test''"
  "path_join ut_path ''op_tiling_test'' = ''ops/built-in/tests/ut/op_tiling_test''"
  "path_join (path_join ut_path ''plugin_test'') ''tensorflow'' = ''ops/built-in/tests/ut/plugin_test/tensorflow''"
  "path_join (path_join ut_path ''plugin_test'') ''onnx'' = ''ops/built-in/tests/ut/plugin_test/onnx''"
  "path_join (path_join ut_path ''plugin_test'') ''common'' = ''ops/built-in/tests/ut/plugin_test/common''"
  by code_simp+

lemma mem_when: "x \<in> (if c then S else {}) \<longleftrightarrow> c \<and> x \<in> S"
  by simp

lemma relate_ut_append:
  "relate_ut (info\<lparr>aicpu_changed_files := aicpu_changed_files info @ [e]\<rparr>) = {CPU_UT} \<union> relate_ut info"
  "relate_ut (info\<lparr>pass_changed_files := pass_changed_files info @ [e]\<rparr>) = {PASS_UT} \<union> relate_ut info"
  "relate_ut (info\<lparr>om_changed_files := om_changed_files info @ [e]\<rparr>) = {OM_UT} \<union> relate_ut info"
  "relate_ut (info\<lparr>proto_changed_files := proto_changed_files info @ [e]\<rparr>) = {PROTO_UT, PASS_UT, PLUGIN_UT} \<union> relate_ut info"
  "relate_ut (info\<lparr>tiling_changed_files := tiling_changed_files info @ [e]\<rparr>) = {TILING_UT} \<union> relate_ut info"
  "relate_ut (info\<lparr>plugin_changed_files := plugin_changed_files info @ [e]\<rparr>) = {PLUGIN_UT} \<union> relate_ut info"
  "relate_ut (info\<lparr>onnx_plugin_changed_files := onnx_plugin_changed_files info @ [e]\<rparr>) = {ONNX_PLUGIN_UT} \<union> relate_ut info"
  "relate_ut (info\<lparr>other_changed_files := other_changed_files info @ [e]\<rparr>) = {} \<union> relate_ut info"
  by (auto simp: relate_ut_def mem_when split del: if_split)

lemma other_file_append:
  "other_file (info\<lparr>aicpu_changed_files := aicpu_changed_files info @ [e]\<rparr>) = {} \<union> other_file info"
  "other_file (info\<lparr>pass_changed_files := pass_changed_files info @ [e]\<rparr>) = {} \<union> other_file info"
  "other_file (info\<lparr>om_changed_files := om_changed_files info @ [e]\<rparr>) = {} \<union> other_file info"
  "other_file (info\<lparr>proto_changed_files := proto_changed_files info @ [e]\<rparr>) = {} \<union> other_file info"
  "other_file (info\<lparr>tiling_changed_files := tiling_changed_files info @ [e]\<rparr>) = {} \<union> other_file info"
  "other_file (info\<lparr>plugin_changed_files := plugin_changed_files info @ [e]\<rparr>) = {} \<union> other_file info"
  "other_file (info\<lparr>onnx_plugin_changed_files := onnx_plugin_changed_files info @ [e]\<rparr>) = {} \<union> other_file info"
  "other_file (info\<lparr>other_changed_files := other_changed_files info @ [e]\<rparr>) = {OTHER_FILE} \<union> other_file info"
  by (auto simp: other_file_def mem_when split del: if_split)

lemma relate_build_append:
  "relate_build (info\<lparr>b_schedule := b_schedule info @ [e]\<rparr>) = {SCHEDULE} \<union> relate_build info"
  "relate_build (info\<lparr>b_tbe := b_tbe info @ [e]\<rparr>) = {TBE} \<union> relate_build info"
  "relate_build (info\<lparr>b_fusion_rules := b_fusion_rules info @ [e]\<rparr>) = {FUSION_RULES} \<union> relate_build info"
  "relate_build (info\<lparr>b_tools := b_tools info @ [e]\<rparr>) = {TOOLS} \<union> relate_build info"
  "relate_build (info\<lparr>b_aicpu := b_aicpu info @ [e]\<rparr>) = {CPU} \<union> relate_build info"
  "relate_build (info\<lparr>b_pass := b_pass info @ [e]\<rparr>) = {PASS} \<union> relate_build info"
  "relate_build (info\<lparr>b_proto := b_proto info @ [e]\<rparr>) = {PROTO} \<union> relate_build info"
  "relate_build (info\<lparr>b_tiling := b_tiling info @ [e]\<rparr>) = {TILING} \<union> relate_build info"
  "relate_build (info\<lparr>b_plugin := b_plugin info @ [e]\<rparr>) = {TF_PLUGIN} \<union> relate_build info"
  "relate_build (info\<lparr>b_onnx_plugin := b_onnx_plugin info @ [e]\<rparr>) = {ONNX_PLUGIN} \<union> relate_build info"
  "relate_build (info\<lparr>b_caffe_plugin := b_caffe_plugin info @ [e]\<rparr>) = {CAFFE_PLUGIN} \<union> relate_build info"
  "relate_build (info\<lparr>b_other := b_other info @ [e]\<rparr>) = {} \<union> relate_build info"
  by (auto simp: relate_build_def mem_when split del: if_split)

lemma other_build_append:
  "other_build (info\<lparr>b_schedule := b_schedule info @ [e]\<rparr>) = {} \<union> other_build info"
  "other_build (info\<lparr>b_tbe := b_tbe info @ [e]\<rparr>) = {} \<union> other_build info"
  "other_build (info\<lparr>b_fusion_rules := b_fusion_rules info @ [e]\<rparr>) = {} \<union> other_build info"
  "other_build (info\<lparr>b_tools := b_tools info @ [e]\<rparr>) = {} \<union> other_build info"
  "other_build (info\<lparr>b_aicpu := b_aicpu info @ [e]\<rparr>) = {} \<union> other_build info"
  "other_build (info\<lparr>b_pass := b_pass info @ [e]\<rparr>) = {} \<union> other_build info"
  "other_build (info\<lparr>b_proto := b_proto info @ [e]\<rparr>) = {} \<union> other_build info"
  "other_build (info\<lparr>b_tiling := b_tiling info @ [e]\<rparr>) = {} \<union> other_build info"
  "other_build (info\<lparr>b_plugin := b_plugin info @ [e]\<rparr>) = {} \<union> other_build info"
  "other_build (info\<lparr>b_onnx_plugin := b_onnx_plugin info @ [e]\<rparr>) = {} \<union> other_build info"
  "other_build (info\<lparr>b_caffe_plugin := b_caffe_plugin info @ [e]\<rparr>) = {} \<union> other_build info"
  "other_build (info\<lparr>b_other := b_other info @ [e]\<rparr>) = {OTHER_FILE} \<union> other_build info"
  by (auto simp: other_build_def mem_when split del: if_split)

text \<open>The second look for the common plugin tests finds nothing that the first has left.\<close>

lemma shared_row: "(if p \<or> q \<or> r then a else if s \<or> t \<or> r then b else c) = (if p \<or> q \<or> r then a else if s \<or> t then b else c)"
  by simp

lemma starts_with_nothing: "startswith line []"
  by (simp add: startswith_def)

lemma relate_ut_step: "relate_ut (ut_step ls line info) = ut_suites line \<union> relate_ut info"
  unfolding ut_step_def ut_suites_def ut_rules_def Let_def paths shared_row if_distrib [of relate_ut] relate_ut_append
    by_rules.simps list_ex_iff list.set ball_simps bex_simps if_distrib [of "\<lambda>s. s \<union> relate_ut info"] suite_names
  by simp

lemma other_file_step: "other_file (ut_step ls line info) = ut_other line \<union> other_file info"
  unfolding ut_step_def ut_other_def no_names_def ut_rules_def Let_def paths shared_row if_distrib [of other_file] other_file_append
    by_rules.simps list_ex_iff list.set ball_simps bex_simps if_distrib [of "\<lambda>s. s \<union> other_file info"] suite_names list.map prod.case
  by simp

lemma relate_build_step: "relate_build (build_step ls line info) = build_parts line \<union> relate_build info"
  unfolding build_step_def build_parts_def first_rules_def build_rules_def Let_def paths shared_row if_distrib [of relate_build] relate_build_append
    by_rules.simps list_ex_iff list.set ball_simps bex_simps starts_with_nothing if_distrib [of "\<lambda>s. s \<union> relate_build info"] part_names
  by (simp add: starts_with_nothing)

lemma other_build_step: "other_build (build_step ls line info) = build_other line \<union> other_build info"
  unfolding build_step_def build_other_def no_names_def first_rules_def build_rules_def Let_def paths shared_row if_distrib [of other_build] other_build_append
    by_rules.simps list_ex_iff list.set ball_simps bex_simps starts_with_nothing if_distrib [of "\<lambda>s. s \<union> other_build info"] part_names list.map prod.case
  by (simp add: starts_with_nothing)

interpretation uts: line_sorter "ut_step ls" relate_ut ut_suites for ls
  by unfold_locales (rule relate_ut_step)

interpretation uto: line_sorter "ut_step ls" other_file ut_other for ls
  by unfold_locales (rule other_file_step)

interpretation bts: line_sorter "build_step ls" relate_build build_parts for ls
  by unfold_locales (rule relate_build_step)

interpretation bto: line_sorter "build_step ls" other_build build_other for ls
  by unfold_locales (rule other_build_step)

lemma nothing_related:
  "relate_ut no_changes = {}" "other_file no_changes = {}"
  "relate_build nothing_to_build = {}" "other_build nothing_to_build = {}"
  by (simp_all add: relate_ut_def other_file_def no_changes_def relate_build_def other_build_def nothing_to_build_def)

text \<open>C1. Both scripts answer, for an existing list of changed files, with exactly the names that a table of path
  prefixes gives for its lines, in whatever order and however often the lines come; a missing list has no answer.\<close>

theorem changed_files_by_tables:
  "get_change_relate_ut_dir_list f read_lines p =
     (if fs_exists f (fs_realpath f p)
      then Some (\<Union>l\<in>set (read_lines (fs_realpath f p)). ut_suites l, \<Union>l\<in>set (read_lines (fs_realpath f p)). ut_other l)
      else None) \<and>
   get_change_relate_dir_list f read_lines p =
     (if fs_exists f (fs_realpath f p)
      then Some (\<Union>l\<in>set (read_lines (fs_realpath f p)). build_parts l, \<Union>l\<in>set (read_lines (fs_realpath f p)). build_other l)
      else None)"
  by (simp add: get_change_relate_ut_dir_list_def get_file_change_info_from_ci_def get_change_relate_dir_list_def
      get_build_change_info_def Let_def uts.names_fold uto.names_fold bts.names_fold bto.names_fold nothing_related)

section \<open>What the scripts get wrong\<close>

text \<open>A tiling file appends the whole list instead of its line, and the list can no longer be printed.\<close>

lemma entries_texts: "mapE entry_text es = (if \<exists>ls. All_Lines ls \<in> set es then Inl TypeError else mapE entry_text es)"
proof (induction es)
  case (Cons e es)
  then show ?case by (cases e) (auto split: if_splits)
qed simp

lemma entries_ok: "\<nexists>ls. All_Lines ls \<in> set es \<Longrightarrow> \<exists>ts. mapE entry_text es = Inr ts"
proof (induction es)
  case (Cons e es)
  then show ?case by (cases e) auto
qed simp

lemma shown_bad: "All_Lines ls \<in> set es \<Longrightarrow> shown t es = Inl TypeError"
  unfolding shown_def by (subst entries_texts) auto

lemma shown_cases: "shown t es = Inl TypeError \<or> (\<exists>text. shown t es = Inr text)"
proof (cases "\<exists>ls. All_Lines ls \<in> set es")
  case True
  then show ?thesis using shown_bad by blast
next
  case False
  from entries_ok [OF False] show ?thesis by (auto simp: shown_def)
qed

lemma shown_all_bad:
  assumes "(t, es, c) \<in> set rows" and "All_Lines ls \<in> set es"
  shows "shown_all rows = Inl TypeError"
  using assms(1)
proof (induction rows)
  case (Cons row rows)
  obtain t' es' c' where row: "row = (t', es', c')" by (cases row)
  show ?case
  proof (cases "row = (t, es, c)")
    case True
    with row show ?thesis using shown_bad [OF assms(2), of t] by simp
  next
    case False
    with Cons have "shown_all rows = Inl TypeError" by simp
    with row show ?thesis using shown_cases [of t' es'] by auto
  qed
qed simp

lemma tiling_not_printable:
  assumes "All_Lines ls \<in> set (tiling_changed_files info)"
  shows "print_change_info info = Inl TypeError"
  unfolding print_change_info_def
  by (subst shown_all_bad [OF _ assms, of "''tiling''" "CHR ''-''"]) simp_all

text \<open>A change to the common tests of the plugins runs the suite of one of the two plugins only.\<close>

lemma common_plugin_tests_tf_only:
  "ut_suites ''ops/built-in/tests/ut/plugin_test/common/a.cc'' = {''PLUGIN_UT''}"
  by code_simp

text \<open>An empty line counts as a changed file of unknown kind.\<close>

lemma empty_line_is_other: "ut_other [CHR 0x0A] = {''OTHER_FILE''}" "build_other [CHR 0x0A] = {''OTHER_FILE''}"
  by code_simp+

end
