(* ===== verification/Py_Argparse.thy ===== *)
theory Py_Argparse
  imports Py_Value Py_String
begin

text \<open>
  The part of \<^verbatim>\<open>argparse\<close> the program uses: parsers with options only, each option with a value or a switch,
  as in Python 3.8. Words are sorted into options and values by their form; options may be joined with their
  value, and long ones shortened where the parser allows it. Whatever \<^verbatim>\<open>argparse\<close> refuses ends the process
  with a message, here the exception \<open>SystemExit\<close>; so does the help.
  The word \<^verbatim>\<open>--\<close> is refused wherever it stands: no parser here has positional arguments, so it is either the missing
  value of an option or left over as an unrecognized argument, and before the command it is no command.
\<close>

datatype opt_action = Store | Store_True | Help

record opt =
  o_flags :: "string list"
  o_dest :: string
  o_action :: opt_action
  o_default :: pyval
  o_required :: bool
  o_choices :: "string list"

definition help_option :: opt where
  "help_option = \<lparr>o_flags = [''-h'', ''--help''], o_dest = ''help'', o_action = Help, o_default = PyNone,
     o_required = False, o_choices = []\<rparr>"

text \<open>An option with a value, no restriction on it.\<close>

definition add_argument :: "string list \<Rightarrow> string \<Rightarrow> pyval \<Rightarrow> bool \<Rightarrow> opt" where
  "add_argument flags dest dflt required = \<lparr>o_flags = flags, o_dest = dest, o_action = Store, o_default = dflt,
     o_required = required, o_choices = []\<rparr>"

section \<open>The form of a word\<close>

datatype word_form = Value_Word | Option_Word opt string "string option" | Bad_Word

definition with_flag :: "opt list \<Rightarrow> string \<Rightarrow> opt option" where
  "with_flag opts s = find (\<lambda>o'. s \<in> set (o_flags o')) opts"

text \<open>A negative number is a value: \<^verbatim>\<open>-\<close> and digits, or a decimal fraction.\<close>

definition negative_number :: "string \<Rightarrow> bool" where
  "negative_number s = (case s of
      c # ds \<Rightarrow> c = CHR ''-'' \<and>
        (ds \<noteq> [] \<and> list_all c_digit ds \<or>
         (let r = dropWhile c_digit ds in r \<noteq> [] \<and> hd r = CHR ''.'' \<and> tl r \<noteq> [] \<and> list_all c_digit (tl r)))
    | [] \<Rightarrow> False)"

text \<open>What \<^verbatim>\<open>name=value\<close> is cut into.\<close>

definition cut_equals :: "string \<Rightarrow> (string \<times> string) option" where
  "cut_equals s = (case s_find s ''='' of None \<Rightarrow> None | Some i \<Rightarrow> Some (take i s, drop (Suc i) s))"

text \<open>The options a word may stand for: shortened, or a short one joined with its value.\<close>

definition shortened :: "bool \<Rightarrow> opt list \<Rightarrow> string \<Rightarrow> (opt \<times> string \<times> string option) list" where
  "shortened allow_abbrev opts s =
     (let flags = concat (map (\<lambda>o'. map (\<lambda>f. (o', f)) (o_flags o')) opts) in
      if startswith s ''--'' then
        (if \<not> allow_abbrev then []
         else (case cut_equals s of
            Some (name, v) \<Rightarrow> map (\<lambda>(o', f). (o', f, Some v)) (filter (\<lambda>(o', f). startswith f name) flags)
          | None \<Rightarrow> map (\<lambda>(o', f). (o', f, None)) (filter (\<lambda>(o', f). startswith f s) flags)))
      else
        concat (map (\<lambda>(o', f). if f = take 2 s then [(o', f, Some (drop 2 s))]
          else if startswith f s then [(o', f, None)] else []) flags))"

definition word_form :: "bool \<Rightarrow> opt list \<Rightarrow> string \<Rightarrow> word_form" where
  "word_form allow_abbrev opts s =
     (if s = ''--'' then Bad_Word
      else if \<not> startswith s ''-'' then Value_Word
      else case with_flag opts s of Some o' \<Rightarrow> Option_Word o' s None
      | None \<Rightarrow>
        if length s = 1 then Value_Word
        else case (case cut_equals s of None \<Rightarrow> None
               | Some (name, v) \<Rightarrow> map_option (\<lambda>o'. Option_Word o' name (Some v)) (with_flag opts name)) of
          Some w \<Rightarrow> w
        | None \<Rightarrow>
          (case shortened allow_abbrev opts s of
             [(o', f, v)] \<Rightarrow> Option_Word o' f v
           | [] \<Rightarrow> if negative_number s \<or> CHR '' '' \<in> set s then Value_Word else Bad_Word
           | _ \<Rightarrow> Bad_Word))"

section \<open>Reading the words\<close>

type_synonym given = "(string \<times> pyval) list"

definition put :: "opt \<Rightarrow> string \<Rightarrow> given \<Rightarrow> given res" where
  "put o' v given =
     (if o_choices o' \<noteq> [] \<and> v \<notin> set (o_choices o') then Inl SystemExit
      else Inr (dset given (o_dest o') (PyStr v)))"

text \<open>A switch joined with further letters is a group of short options; the last may take the rest or wait for
  the next word.\<close>

fun switch_group :: "opt list \<Rightarrow> opt \<Rightarrow> given \<Rightarrow> string \<Rightarrow> (given \<times> opt option) res" where
  "switch_group opts o' given [] = Inl IndexError"
| "switch_group opts o' given (c # e) =
     (case with_flag opts (''-'' @ [c]) of
        None \<Rightarrow> Inl SystemExit
      | Some o2 \<Rightarrow>
        let given = dset given (o_dest o') (PyBool True) in
        (case o_action o2 of
           Help \<Rightarrow> Inl SystemExit
         | Store \<Rightarrow> (if e = [] then Inr (given, Some o2) else bindE (put o2 e given) (\<lambda>given. Inr (given, None)))
         | Store_True \<Rightarrow> (if e = [] then Inr (dset given (o_dest o2) (PyBool True), None) else switch_group opts o2 given e)))"

definition start_option :: "opt list \<Rightarrow> opt \<Rightarrow> string \<Rightarrow> string option \<Rightarrow> given \<Rightarrow> (given \<times> opt option) res" where
  "start_option opts o' f v given =
     (case o_action o' of
        Help \<Rightarrow> Inl SystemExit
      | Store \<Rightarrow> (case v of None \<Rightarrow> Inr (given, Some o') | Some v \<Rightarrow> bindE (put o' v given) (\<lambda>given. Inr (given, None)))
      | Store_True \<Rightarrow> (case v of
            None \<Rightarrow> Inr (dset given (o_dest o') (PyBool True), None)
          | Some v \<Rightarrow> if startswith f ''--'' then Inl SystemExit else switch_group opts o' given v))"

text \<open>The second argument is the option that waits for its value.\<close>

fun parse_words :: "bool \<Rightarrow> opt list \<Rightarrow> opt option \<Rightarrow> given \<Rightarrow> string list \<Rightarrow> given res" where
  "parse_words ab opts None given [] = Inr given"
| "parse_words ab opts (Some o') given [] = Inl SystemExit"
| "parse_words ab opts (Some o') given (s # rest) =
     (if word_form ab opts s = Value_Word
      then bindE (put o' s given) (\<lambda>given. parse_words ab opts None given rest) else Inl SystemExit)"
| "parse_words ab opts None given (s # rest) =
     (case word_form ab opts s of
        Option_Word o' f v \<Rightarrow> bindE (start_option opts o' f v given) (\<lambda>(given, wait). parse_words ab opts wait given rest)
      | _ \<Rightarrow> Inl SystemExit)"

text \<open>\<^verbatim>\<open>parse_args\<close> of one parser: the defaults, overwritten by what is given.\<close>

definition parse_args :: "bool \<Rightarrow> opt list \<Rightarrow> string list \<Rightarrow> pydict res" where
  "parse_args allow_abbrev opts argv =
     bindE (parse_words allow_abbrev (help_option # opts) None [] argv) (\<lambda>given.
     bindE (raise_if (\<exists>o'\<in>set opts. o_required o' \<and> o_dest o' \<notin> set (map fst given)) SystemExit) (\<lambda>_.
       Inr (foldl (\<lambda>ns (k, v). dset ns k v) (map (\<lambda>o'. (o_dest o', o_default o')) opts) given)))"

text \<open>\<^verbatim>\<open>args.name\<close>\<close>

definition ns_attr :: "pydict \<Rightarrow> string \<Rightarrow> pyval res" where
  "ns_attr ns k = (case map_of ns k of None \<Rightarrow> Inl AttributeError | Some v \<Rightarrow> Inr v)"

section \<open>What a successful parse gives\<close>

lemma put_ok: "put o' v given = Inr given' \<longleftrightarrow>
    (o_choices o' = [] \<or> v \<in> set (o_choices o')) \<and> given' = dset given (o_dest o') (PyStr v)"
  by (auto simp: put_def)

text \<open>Every given value belongs to an option of the parser: a text within its choices, or a switch.\<close>

definition given_ok :: "opt list \<Rightarrow> given \<Rightarrow> bool" where
  "given_ok opts given = list_all (\<lambda>(k, v). \<exists>o'\<in>set opts. o_dest o' = k \<and>
     (o_action o' = Store_True \<and> v = PyBool True
      \<or> o_action o' = Store \<and> (\<exists>s. v = PyStr s \<and> (o_choices o' = [] \<or> s \<in> set (o_choices o'))))) given"

lemma given_ok_dset:
  assumes "given_ok opts given" and "given_ok opts [(k, v)]"
  shows "given_ok opts (dset given k v)"
  using assms by (induction given) (auto simp: given_ok_def dset_def)

lemma given_ok_put:
  assumes "given_ok opts given" and "o' \<in> set opts" and "o_action o' = Store" and "put o' v given = Inr given'"
  shows "given_ok opts given'"
proof -
  from assms(4) have g: "given' = dset given (o_dest o') (PyStr v)" and "o_choices o' = [] \<or> v \<in> set (o_choices o')"
    by (auto simp: put_ok)
  with assms(2,3) have "given_ok opts [(o_dest o', PyStr v)]" by (auto simp: given_ok_def)
  with assms(1) show ?thesis unfolding g by (rule given_ok_dset)
qed

lemma given_ok_switch:
  assumes "given_ok opts given" and "o' \<in> set opts" and "o_action o' = Store_True"
  shows "given_ok opts (dset given (o_dest o') (PyBool True))"
  by (rule given_ok_dset [OF assms(1)]) (use assms(2,3) in \<open>auto simp: given_ok_def\<close>)

lemma with_flag_in: "with_flag opts s = Some o' \<Longrightarrow> o' \<in> set opts"
  by (auto simp: with_flag_def find_Some_iff)

definition waits :: "opt list \<Rightarrow> opt option \<Rightarrow> bool" where
  "waits opts wait = (case wait of None \<Rightarrow> True | Some o' \<Rightarrow> o' \<in> set opts \<and> o_action o' = Store)"

lemma switch_group_ok:
  assumes "switch_group opts o' given e = Inr (given', wait)" and "o' \<in> set opts" and "o_action o' = Store_True"
    and "given_ok opts given"
  shows "given_ok opts given' \<and> waits opts wait"
  using assms
proof (induction opts o' given e rule: switch_group.induct)
  case (2 opts o' given c e)
  then obtain o2 where o2: "with_flag opts (''-'' @ [c]) = Some o2" by (auto split: option.splits)
  have g: "given_ok opts (dset given (o_dest o') (PyBool True))" using 2 by (auto intro: given_ok_switch)
  note mem = with_flag_in [OF o2]
  show ?case
  proof (cases "o_action o2")
    case Store
    then have "given' = dset given (o_dest o') (PyBool True) \<and> wait = Some o2
        \<or> wait = None \<and> put o2 e (dset given (o_dest o') (PyBool True)) = Inr given'"
      using 2(2) o2 by (simp add: Let_def split: if_splits)
    then show ?thesis using Store mem g given_ok_put [OF g mem Store] unfolding waits_def by fastforce
  next
    case Store_True
    with 2 o2 g mem show ?thesis by (auto simp: waits_def Let_def intro: given_ok_switch split: if_splits)
  next
    case Help
    with 2(2) o2 show ?thesis by simp
  qed
qed simp

lemma start_option_ok:
  assumes "start_option opts o' f v given = Inr (given', wait)" and "o' \<in> set opts" and "given_ok opts given"
  shows "given_ok opts given' \<and> waits opts wait"
proof (cases "o_action o'")
  case Store
  with assms show ?thesis by (auto simp: start_option_def waits_def intro: given_ok_put split: option.splits)
next
  case Store_True
  with assms switch_group_ok [of opts o' given _ given' wait] show ?thesis
    by (auto simp: start_option_def waits_def intro: given_ok_switch split: option.splits if_splits)
next
  case Help
  with assms show ?thesis by (simp add: start_option_def)
qed

lemma shortened_in: "(o', f, v) \<in> set (shortened ab opts s) \<Longrightarrow> o' \<in> set opts"
  by (auto simp: shortened_def Let_def split: if_splits option.splits)

lemma word_form_option:
  assumes "word_form ab opts s = Option_Word o' f v"
  shows "o' \<in> set opts"
proof (cases "with_flag opts s")
  case (Some o2)
  with assms show ?thesis by (auto simp: word_form_def with_flag_in split: if_splits)
next
  case None
  show ?thesis
  proof (cases "cut_equals s \<noteq> None \<and> with_flag opts (fst (the (cut_equals s))) \<noteq> None")
    case True
    then obtain n w o2 where "cut_equals s = Some (n, w)" "with_flag opts n = Some o2" by auto
    with None assms show ?thesis by (auto simp: word_form_def with_flag_in split: if_splits)
  next
    case False
    then have no: "(case cut_equals s of None \<Rightarrow> None
        | Some (name, v) \<Rightarrow> map_option (\<lambda>o'. Option_Word o' name (Some v)) (with_flag opts name)) = None"
      by (auto split: option.splits)
    from assms have "shortened ab opts s = [(o', f, v)]"
      unfolding word_form_def None no by (auto split: if_splits list.splits)
    then show ?thesis using shortened_in [of o' f v ab opts s] by simp
  qed
qed

lemma parse_words_ok:
  assumes "parse_words ab opts wait given ws = Inr given'" and "waits opts wait" and "given_ok opts given"
  shows "given_ok opts given'"
  using assms
proof (induction ab opts wait given ws rule: parse_words.induct)
  case (3 ab opts o' given s rest)
  then obtain g where "word_form ab opts s = Value_Word" "put o' s given = Inr g" "parse_words ab opts None g rest = Inr given'"
    by (auto split: if_splits)
  moreover with 3 have "given_ok opts g" by (auto simp: waits_def intro: given_ok_put)
  ultimately show ?case using 3(1) by (auto simp: waits_def)
next
  case (4 ab opts given s rest)
  then obtain o' f v g w where parts: "word_form ab opts s = Option_Word o' f v" "start_option opts o' f v given = Inr (g, w)"
      "parse_words ab opts w g rest = Inr given'"
    by (auto split: word_form.splits)
  with 4 start_option_ok [OF parts(2) word_form_option [OF parts(1)]] show ?case by auto
qed (auto simp: waits_def)

lemma map_of_folded:
  "map_of (foldl (\<lambda>ns (k, v). dset ns k v) d given) k = (case map_of (rev given) k of None \<Rightarrow> map_of d k | Some v \<Rightarrow> Some v)"
  by (induction given arbitrary: d) (auto simp: map_of_dset map_add_def split: option.splits)

text \<open>The value of an argument that a successful parse returns: a default, unless the option is required, a switch,
  or a text within the choices.\<close>

lemma parse_args_values:
  assumes "parse_args ab opts ws = Inr ns" and "ns_attr ns k = Inr v"
  obtains o' where "o' \<in> set opts" "o_dest o' = k"
    "v = o_default o' \<and> \<not> o_required o' \<or> o_action o' = Store_True \<and> v = PyBool True
     \<or> o_action o' = Store \<and> (\<exists>s. v = PyStr s \<and> (o_choices o' = [] \<or> s \<in> set (o_choices o')))"
proof -
  from assms(1) obtain given where words: "parse_words ab (help_option # opts) None [] ws = Inr given"
    and req: "\<not> (\<exists>o'\<in>set opts. o_required o' \<and> o_dest o' \<notin> set (map fst given))"
    and ns: "ns = foldl (\<lambda>ns (k, v). dset ns k v) (map (\<lambda>o'. (o_dest o', o_default o')) opts) given"
    by (auto simp: parse_args_def)
  have ok: "given_ok (help_option # opts) given"
    by (rule parse_words_ok [OF words]) (simp_all add: waits_def given_ok_def)
  from assms(2) have v: "map_of ns k = Some v" by (auto simp: ns_attr_def split: option.splits)
  show thesis
  proof (cases "map_of (rev given) k")
    case None
    with v ns have "map_of (map (\<lambda>o'. (o_dest o', o_default o')) opts) k = Some v" by (simp add: map_of_folded)
    then obtain o' where o': "o' \<in> set opts" "o_dest o' = k" "v = o_default o'" by (auto dest!: map_of_SomeD)
    moreover from None have "k \<notin> set (map fst given)" by (simp add: map_of_eq_None_iff)
    with req o' have "\<not> o_required o'" by auto
    ultimately show thesis by (intro that) auto
  next
    case (Some w)
    with v ns have "w = v" by (simp add: map_of_folded)
    with Some have "(k, v) \<in> set given" by (auto dest: map_of_SomeD)
    with ok obtain o' where "o' \<in> set (help_option # opts)" "o_dest o' = k"
      "o_action o' = Store_True \<and> v = PyBool True
       \<or> o_action o' = Store \<and> (\<exists>s. v = PyStr s \<and> (o_choices o' = [] \<or> s \<in> set (o_choices o')))"
      by (force simp: given_ok_def list_all_iff)
    then show thesis by (intro that [of o']) (auto simp: help_option_def)
  qed
qed

section \<open>Options written and read back\<close>

definition write_options :: "(opt \<times> string \<times> string) list \<Rightarrow> string list" where
  "write_options ps = concat (map (\<lambda>(o', f, v). [f, v]) ps)"

definition writable :: "opt list \<Rightarrow> opt \<times> string \<times> string \<Rightarrow> bool" where
  "writable opts p = (case p of (o', f, v) \<Rightarrow> with_flag (help_option # opts) f = Some o' \<and> startswith f ''-'' \<and> f \<noteq> ''--''
     \<and> o_action o' = Store \<and> o' \<in> set opts \<and> \<not> startswith v ''-'' \<and> (o_choices o' = [] \<or> v \<in> set (o_choices o')))"

definition read_options :: "opt list \<Rightarrow> (string \<times> string) list \<Rightarrow> pydict" where
  "read_options opts vals = map (\<lambda>o'. (o_dest o', case map_of vals (o_dest o') of None \<Rightarrow> o_default o' | Some v \<Rightarrow> PyStr v)) opts"

definition values_of :: "(opt \<times> string \<times> string) list \<Rightarrow> (string \<times> string) list" where
  "values_of ps = map (\<lambda>(o', f, v). (o_dest o', v)) ps"

lemma value_word: "\<not> startswith v ''-'' \<Longrightarrow> word_form ab opts v = Value_Word"
  by (auto simp: word_form_def startswith_def)

lemma option_word:
  "with_flag opts f = Some o' \<Longrightarrow> startswith f ''-'' \<Longrightarrow> f \<noteq> ''--'' \<Longrightarrow> word_form ab opts f = Option_Word o' f None"
  by (simp add: word_form_def)

lemma parse_written:
  assumes "list_all (writable opts) ps"
  shows "parse_words ab (help_option # opts) None given (write_options ps)
    = Inr (foldl (\<lambda>ns (k, v). dset ns k (PyStr v)) given (values_of ps))"
  using assms
proof (induction ps arbitrary: given)
  case (Cons p ps)
  obtain o' f v where p: "p = (o', f, v)" by (cases p)
  from Cons.prems p have w: "writable opts (o', f, v)" by simp
  then have form: "word_form ab (help_option # opts) f = Option_Word o' f None" "word_form ab (help_option # opts) v = Value_Word"
    and put: "put o' v given = Inr (dset given (o_dest o') (PyStr v))" and st: "o_action o' = Store"
    by (auto simp: writable_def option_word value_word put_ok)
  have "write_options (p # ps) = f # v # write_options ps" by (simp add: write_options_def p)
  with form put st Cons show ?case by (simp add: start_option_def values_of_def p)
qed (simp add: write_options_def values_of_def)

lemma fresh_dset: "k \<notin> set (map fst d) \<Longrightarrow> dset d k v = d @ [(k, v)]"
  unfolding dset_def by (induction d) auto

lemma foldl_dset_fresh:
  assumes "distinct (map fst vals)" and "set (map fst vals) \<inter> set (map fst d) = {}"
  shows "foldl (\<lambda>ns (k, v). dset ns k (PyStr v)) d vals = d @ map (\<lambda>(k, v). (k, PyStr v)) vals"
  using assms by (induction vals arbitrary: d) (auto simp: fresh_dset)

lemma dset_read:
  assumes "distinct (map o_dest opts)" and "k \<in> set (map o_dest opts)" and "k \<notin> set (map fst vals)"
  shows "dset (read_options opts vals) k (PyStr v) = read_options opts ((k, v) # vals)"
  using assms
proof (induction opts)
  case (Cons o' opts)
  show ?case
  proof (cases "o_dest o' = k")
    case True
    with Cons.prems have k: "k \<notin> set (map o_dest opts)" by auto
    have "read_options opts ((k, v) # vals) = read_options opts vals"
      unfolding read_options_def by (rule map_cong [OF refl]) (use k in force)
    with True show ?thesis by (simp add: read_options_def dset_def)
  next
    case False
    with Cons show ?thesis by (auto simp: read_options_def dset_def)
  qed
qed simp

lemma read_options_order:
  assumes "distinct (map fst vals)" and "set vals = set vals'" and "distinct (map fst vals')"
  shows "read_options opts vals = read_options opts vals'"
proof -
  from assms have "map_of vals = map_of vals'" by (metis map_of_eqI map_of_is_SomeI map_of_SomeD not_None_eq ext)
  then show ?thesis by (simp add: read_options_def)
qed

lemma parse_args_written:
  assumes "list_all (writable opts) ps" and "distinct (map o_dest opts)" and "distinct (map fst (values_of ps))"
  shows "parse_args ab opts (write_options ps) =
    (if \<exists>o'\<in>set opts. o_required o' \<and> o_dest o' \<notin> set (map fst (values_of ps)) then Inl SystemExit
     else Inr (read_options opts (values_of ps)))"
proof -
  let ?given = "map (\<lambda>(k, v). (k, PyStr v)) (values_of ps)"
  have words: "parse_words ab (help_option # opts) None [] (write_options ps) = Inr ?given"
    unfolding parse_written [OF assms(1)] using foldl_dset_fresh [OF assms(3), of "[]"] by simp
  have keys: "set (map fst (values_of ps)) \<subseteq> set (map o_dest opts)"
    using assms(1) by (force simp: values_of_def writable_def list_all_iff)
  have fold: "foldl (\<lambda>ns (k, v). dset ns k v) (read_options opts ws) (map (\<lambda>(k, v). (k, PyStr v)) vs)
      = read_options opts (rev vs @ ws)"
    if "distinct (map fst (rev vs @ ws))" "set (map fst vs) \<subseteq> set (map o_dest opts)" for vs ws
    using that
  proof (induction vs arbitrary: ws)
    case (Cons kv vs)
    obtain k v where kv: "kv = (k, v)" by (cases kv)
    with Cons.prems have "dset (read_options opts ws) k (PyStr v) = read_options opts ((k, v) # ws)"
      by (intro dset_read [OF assms(2)]) auto
    with Cons.IH [of "(k, v) # ws"] Cons.prems kv show ?case by simp
  qed simp
  have start: "map (\<lambda>o'. (o_dest o', o_default o')) opts = read_options opts []" by (simp add: read_options_def)
  have "foldl (\<lambda>ns (k, v). dset ns k v) (read_options opts []) ?given = read_options opts (rev (values_of ps))"
    using fold [of "values_of ps" "[]"] assms(3) keys by (simp add: rev_map [symmetric])
  also have "\<dots> = read_options opts (values_of ps)"
    by (rule read_options_order) (use assms(3) in \<open>simp_all add: rev_map [symmetric]\<close>)
  finally have fold': "foldl (\<lambda>ns (k, v). dset ns k v) (read_options opts []) ?given = read_options opts (values_of ps)" .
  have "map fst ?given = map fst (values_of ps)" by auto
  then show ?thesis unfolding parse_args_def words start bindE_simps fold' by (auto simp: image_image case_prod_unfold)
qed

end
