(* ===== verification/Arg_Parser.thy ===== *)
theory Arg_Parser
  imports Py_Argparse Utils
begin

text \<open>
  The command line, \<^verbatim>\<open>src/main/arg_parser.py\<close>: the options of every command, the choice of the command, and the
  checks of the values. The words of the command line, the time, the file system and
  \<^verbatim>\<open>ast.literal_eval\<close> are arguments.
\<close>

section \<open>The options of the commands\<close>

definition error_report_option :: opt where
  "error_report_option = \<lparr>o_flags = [''-err_report'', ''--error_report''], o_dest = ''error_report'', o_action = Store,
     o_default = PyStr ''false'', o_required = False, o_choices = [''false'', ''true'']\<rparr>"

definition output_option :: opt where
  "output_option = add_argument [''-out'', ''--output''] ''output_path'' (PyStr []) False"

definition create_parser :: "opt list" where
  "create_parser =
    [add_argument [''-i'', ''--input''] ''input_file'' (PyStr []) True,
     output_option,
     add_argument [''-m'', ''--model''] ''model_path'' (PyStr []) False,
     \<lparr>o_flags = [''-q'', ''--quiet''], o_dest = ''quiet'', o_action = Store_True, o_default = PyBool False,
      o_required = False, o_choices = []\<rparr>]"

definition run_parser :: "opt list" where
  "run_parser =
    [add_argument [''-i'', ''--input''] ''input_file'' (PyStr []) True,
     add_argument [''-soc'', ''--soc_version''] ''soc_version'' PyNone True,
     output_option,
     add_argument [''-c'', ''--case_name''] ''case_name'' (PyStr ''all'') False,
     add_argument [''-d'', ''--device_id''] ''device_id'' (PyStr ''0'') False,
     add_argument [''-conf'', ''--config_file''] ''config_file'' (PyStr []) False,
     add_argument [''-err_thr'', ''--error_threshold''] ''error_threshold'' PyNone False,
     error_report_option]"

definition get_shape_parser :: "opt list" where
  "get_shape_parser = [add_argument [''-m'', ''--model''] ''model_path'' (PyStr []) True, output_option]"

definition change_shape_parser :: "opt list" where
  "change_shape_parser =
    [add_argument [''-m'', ''--model''] ''model_path'' (PyStr []) True,
     add_argument [''-i'', ''--input''] ''input_file'' (PyStr []) True,
     output_option]"

definition gen_json_parser :: "opt list" where
  "gen_json_parser =
    [add_argument [''-i'', ''--input''] ''input_file'' (PyStr []) True,
     output_option,
     add_argument [''-c'', ''--case_name''] ''case_name'' (PyStr ''all'') False]"

definition gen_testcase_parser :: "opt list" where
  "gen_testcase_parser =
    [add_argument [''-i'', ''--input''] ''input_file'' (PyStr []) True,
     output_option,
     add_argument [''-d'', ''--device_id''] ''device_id'' (PyStr ''0'') False]"

definition compare_parser :: "opt list" where
  "compare_parser =
    [add_argument [''-i'', ''--report path''] ''report_path'' (PyStr []) False,
     output_option,
     add_argument [''-err_thr'', ''--error_threshold''] ''error_threshold'' (PyStr ''[0.01, 0.05]'') False,
     error_report_option]"

definition compare_by_path_parser :: "opt list" where
  "compare_by_path_parser =
    [add_argument [''-result'', ''--result path''] ''result_path'' (PyStr []) True,
     add_argument [''-expect'', ''--expect path''] ''expect_path'' (PyStr []) True,
     error_report_option]"

definition mi_parser :: "(string \<times> opt list) list" where
  "mi_parser =
    [(''get_shape'', get_shape_parser), (''change_shape'', change_shape_parser), (''gen'', gen_json_parser),
     (''gen_testcase'', gen_testcase_parser), (''compare'', compare_parser), (''compare_by_path'', compare_by_path_parser)]"

text \<open>\<^verbatim>\<open>parse.parse_args(sys.argv[1:])\<close>. The first word has to name a command; \<^verbatim>\<open>mi\<close> has commands of its own, or none.
  The parsers of the commands do not allow shortened names, those below \<^verbatim>\<open>mi\<close> do.\<close>

definition parse_command :: "string list \<Rightarrow> pydict res" where
  "parse_command words = (case words of
      command # rest \<Rightarrow>
        if command = ''create'' then parse_args False create_parser rest
        else if command = ''run'' then parse_args False run_parser rest
        else if command = ''mi'' then
          (case rest of
             [] \<Rightarrow> Inr []
           | sub # rest \<Rightarrow> (case map_of mi_parser sub of
                None \<Rightarrow> Inl SystemExit
              | Some opts \<Rightarrow> parse_args True opts rest))
        else Inl SystemExit
    | [] \<Rightarrow> Inr [])"

section \<open>The checks\<close>

record arg_parser =
  input_file :: pyval
  output_path :: pyval
  case_name :: pyval
  model_path :: pyval
  device_id :: pyval
  soc_version :: pyval
  err_thr :: pyval
  config_file :: pyval
  report_path :: pyval
  expect_path :: pyval
  result_path :: pyval
  error_report :: pyval
  quiet :: "pyval option"

definition init_arg_parser :: arg_parser where
  "init_arg_parser = \<lparr>input_file = PyStr [], output_path = PyStr [], case_name = PyStr [], model_path = PyStr [],
     device_id = PyInt 0, soc_version = PyStr [], err_thr = PyStr [], config_file = PyStr [], report_path = PyStr [],
     expect_path = PyStr [], result_path = PyStr [], error_report = PyStr [], quiet = None\<rparr>"

record arg_env =
  ae_fs :: fs
  ae_makedirs :: makedirs
  ae_time :: string
  ae_literal_eval :: "string \<Rightarrow> pyval res"

text \<open>All values of options are texts.\<close>

definition text_of :: "pyval \<Rightarrow> string res" where
  "text_of v = (case v of PyStr s \<Rightarrow> Inr s | _ \<Rightarrow> Inl TypeError)"

definition add_time_steamp :: "arg_env \<Rightarrow> pyval \<Rightarrow> pyval res" where
  "add_time_steamp env out_path = bindE (text_of out_path) (\<lambda>p.
     Inr (PyStr (fs_realpath (ae_fs env) (path_join p (ae_time env)))))"

definition check_file_valid :: "arg_env \<Rightarrow> fs \<Rightarrow> pyval \<Rightarrow> bool \<Rightarrow> (pyval \<times> fs) res" where
  "check_file_valid env f input isdir = bindE (text_of input) (\<lambda>p.
     bindE (check_path_valid (ae_makedirs env) f p isdir) (\<lambda>f. Inr (input, f)))"

definition get_input_file :: "arg_parser \<Rightarrow> pyval" where
  "get_input_file a = input_file a"

definition get_output_path :: "arg_parser \<Rightarrow> pyval" where
  "get_output_path a = output_path a"

definition check_case_name_valid :: "pyval \<Rightarrow> arg_parser \<Rightarrow> arg_parser res" where
  "check_case_name_valid nm a =
     (if nm \<noteq> PyStr [] then bindE (check_name_valid nm) (\<lambda>_. Inr (a\<lparr>case_name := nm\<rparr>)) else Inr a)"

definition check_soc_version :: "pyval \<Rightarrow> arg_parser \<Rightarrow> arg_parser res" where
  "check_soc_version soc a = bindE (check_name_valid soc) (\<lambda>_. Inr (a\<lparr>soc_version := soc\<rparr>))"

definition check_device_id :: "pyval \<Rightarrow> arg_parser \<Rightarrow> arg_parser res" where
  "check_device_id dev a = (case dev of
      PyStr s \<Rightarrow> if \<not> s_isdigit s then Inl (OpTestGenException OP_TEST_GEN_INVALID_DEVICE_ID_ERROR)
                  else Inr (a\<lparr>device_id := dev\<rparr>)
    | _ \<Rightarrow> Inl AttributeError)"

definition err_threshold :: exn where
  "err_threshold = OpTestGenException OP_TEST_GEN_INVALID_ERROR_THRESHOLD_ERROR"

definition check_error_threshold :: "pyval \<Rightarrow> arg_parser \<Rightarrow> arg_parser res" where
  "check_error_threshold thr a = (case thr of
      PyList xs \<Rightarrow>
        if length xs = 0 then Inr (a\<lparr>err_thr := thr\<rparr>)
        else if length xs = 2 then bindE (check_list_float xs) (\<lambda>ys. Inr (a\<lparr>err_thr := PyList ys\<rparr>))
        else Inl err_threshold
    | _ \<Rightarrow> Inl err_threshold)"

definition gen_error_threshold :: "arg_env \<Rightarrow> pyval \<Rightarrow> arg_parser \<Rightarrow> arg_parser res" where
  "gen_error_threshold env thr a =
     bindE (case thr of
         PyNone \<Rightarrow> Inr (PyList [])
       | _ \<Rightarrow> bindE (text_of thr) (\<lambda>s. case ae_literal_eval env s of
             Inl ValueError \<Rightarrow> Inl err_threshold | r \<Rightarrow> r))
       (\<lambda>thr. check_error_threshold thr a)"

definition check_run_args :: "arg_env \<Rightarrow> pydict \<Rightarrow> arg_parser \<Rightarrow> arg_parser res" where
  "check_run_args env args a =
     bindE (ns_attr args ''input_file'') (\<lambda>v. let a = a\<lparr>input_file := v\<rparr> in
     bindE (ns_attr args ''case_name'') (\<lambda>v. bindE (check_case_name_valid v a) (\<lambda>a.
     bindE (ns_attr args ''soc_version'') (\<lambda>v. bindE (check_soc_version v a) (\<lambda>a.
     bindE (ns_attr args ''device_id'') (\<lambda>v. bindE (check_device_id v a) (\<lambda>a.
     bindE (ns_attr args ''error_threshold'') (\<lambda>v. bindE (gen_error_threshold env v a) (\<lambda>a.
     bindE (ns_attr args ''error_report'') (\<lambda>v. let a = a\<lparr>error_report := v\<rparr> in
     bindE (ns_attr args ''config_file'') (\<lambda>v. let a = a\<lparr>config_file := v\<rparr> in
     bindE (ns_attr args ''output_path'') (\<lambda>v. bindE (add_time_steamp env v) (\<lambda>v.
     Inr (a\<lparr>output_path := v\<rparr>))))))))))))))"

text \<open>The second command word decides which values are taken over.\<close>

definition check_mi_args :: "arg_env \<Rightarrow> string \<Rightarrow> pydict \<Rightarrow> arg_parser \<Rightarrow> fs \<Rightarrow> (arg_parser \<times> fs) res" where
  "check_mi_args env sub args a f =
     (let out = (\<lambda>a. bindE (ns_attr args ''output_path'') (\<lambda>v. Inr (a\<lparr>output_path := v\<rparr>, f)));
          model = (\<lambda>a. bindE (ns_attr args ''model_path'') (\<lambda>v. Inr (a\<lparr>model_path := v\<rparr>)));
          input = (\<lambda>a. bindE (ns_attr args ''input_file'') (\<lambda>v. Inr (a\<lparr>input_file := v\<rparr>)));
          rep = (\<lambda>a. bindE (ns_attr args ''error_report'') (\<lambda>v. Inr (a\<lparr>error_report := v\<rparr>))) in
      if sub = ''get_shape'' then bindE (model a) out
      else if sub = ''change_shape'' then bindE (input a) (\<lambda>a. bindE (model a) out)
      else if sub = ''gen'' then
        bindE (input a) (\<lambda>a. bindE (ns_attr args ''case_name'') (\<lambda>v. bindE (check_case_name_valid v a) out))
      else if sub = ''gen_testcase'' then
        bindE (input a) (\<lambda>a. bindE (ns_attr args ''device_id'') (\<lambda>v. bindE (check_device_id v a) out))
      else if sub = ''compare'' then
        bindE (ns_attr args ''report_path'') (\<lambda>v. let a = a\<lparr>report_path := v\<rparr> in
        bindE (ns_attr args ''error_threshold'') (\<lambda>v. bindE (gen_error_threshold env v a) (\<lambda>a. bindE (rep a) out)))
      else if sub = ''compare_by_path'' then
        bindE (ns_attr args ''result_path'') (\<lambda>v. bindE (check_file_valid env f v True) (\<lambda>(v, f).
        let a = a\<lparr>result_path := v\<rparr> in
        bindE (ns_attr args ''expect_path'') (\<lambda>v. bindE (check_file_valid env f v True) (\<lambda>(v, f).
        bindE (rep (a\<lparr>expect_path := v\<rparr>)) (\<lambda>a. Inr (a, f))))))
      else Inr (a, f))"

text \<open>\<open>argv\<close> is \<^verbatim>\<open>sys.argv\<close>.\<close>

definition new_arg_parser :: "arg_env \<Rightarrow> string list \<Rightarrow> (arg_parser \<times> fs) res" where
  "new_arg_parser env argv =
     bindE (raise_if (length argv \<le> 1) (OpTestGenException OP_TEST_GEN_INVALID_PARAM_ERROR)) (\<lambda>_.
     bindE (parse_command (tl argv)) (\<lambda>args.
     let a = init_arg_parser; f = ae_fs env in
     if argv ! 1 = ''create'' then
       bindE (ns_attr args ''input_file'') (\<lambda>i. bindE (ns_attr args ''model_path'') (\<lambda>m.
       bindE (ns_attr args ''quiet'') (\<lambda>q. bindE (ns_attr args ''output_path'') (\<lambda>out.
       Inr (a\<lparr>input_file := i, model_path := m, quiet := Some q, output_path := out\<rparr>, f)))))
     else if argv ! 1 = ''mi'' then
       bindE (raise_if (length argv \<le> 2) (OpTestGenException OP_TEST_GEN_INVALID_PARAM_ERROR)) (\<lambda>_.
         check_mi_args env (argv ! 2) args a f)
     else bindE (check_run_args env args a) (\<lambda>a. Inr (a, f))))"

section \<open>What the rest of the program can rely on\<close>

lemma ns_attr_ok: "ns_attr ns k = Inr v \<longleftrightarrow> map_of ns k = Some v"
  by (auto simp: ns_attr_def split: option.splits)

lemma check_case_name_ok:
  "check_case_name_valid v a = Inr a' \<longleftrightarrow>
     (v = PyStr [] \<and> a' = a \<or> v \<noteq> PyStr [] \<and> check_name_valid v = Inr () \<and> a' = a\<lparr>case_name := v\<rparr>)"
  by (auto simp: check_case_name_valid_def)

lemma check_soc_ok: "check_soc_version v a = Inr a' \<longleftrightarrow> check_name_valid v = Inr () \<and> a' = a\<lparr>soc_version := v\<rparr>"
  by (auto simp: check_soc_version_def)

lemma check_device_ok:
  "check_device_id v a = Inr a' \<longleftrightarrow> (\<exists>s. v = PyStr s \<and> s_isdigit s \<and> a' = a\<lparr>device_id := PyStr s\<rparr>)"
  by (auto simp: check_device_id_def split: pyval.splits)

text \<open>A number from 0 to 1, or NaN, of which neither comparison of the check holds (no literal denotes it).\<close>

definition unit_or_nan :: "pyfloat \<Rightarrow> bool" where
  "unit_or_nan x \<longleftrightarrow> (case x of Fin q \<Rightarrow> 0 \<le> q \<and> q \<le> 1 | NaN \<Rightarrow> True | _ \<Rightarrow> False)"

definition threshold_ok :: "pyval \<Rightarrow> bool" where
  "threshold_ok thr \<longleftrightarrow> thr = PyList []
     \<or> (\<exists>x y. thr = PyList [PyFloat x, PyFloat y] \<and> unit_or_nan x \<and> unit_or_nan y)"

lemma float_item_unit: "float_item_ok i \<longleftrightarrow> (\<exists>x. i = PyFloat x \<and> unit_or_nan x)"
proof (cases i)
  case (PyFloat x)
  then show ?thesis by (cases x) (auto simp: float_item_ok_def unit_or_nan_def)
qed (auto simp: float_item_ok_def)

lemma check_error_threshold_ok:
  "check_error_threshold thr a = Inr a' \<longleftrightarrow> threshold_ok thr \<and> a' = a\<lparr>err_thr := thr\<rparr>"
proof (cases thr)
  case (PyList xs)
  then show ?thesis
    by (auto simp: check_error_threshold_def threshold_ok_def check_list_float_def length_Suc_conv numeral_2_eq_2
        float_item_unit split: if_splits)
qed (auto simp: check_error_threshold_def threshold_ok_def)

text \<open>What the value of the option becomes: no option is an empty list, a text is read as a literal.\<close>

definition threshold_read :: "arg_env \<Rightarrow> pyval \<Rightarrow> pyval \<Rightarrow> bool" where
  "threshold_read env v thr \<longleftrightarrow>
     v = PyNone \<and> thr = PyList [] \<or> (\<exists>s. v = PyStr s \<and> ae_literal_eval env s = Inr thr)"

lemma gen_error_threshold_ok:
  "gen_error_threshold env v a = Inr a' \<Longrightarrow>
     \<exists>thr. threshold_ok thr \<and> threshold_read env v thr \<and> a' = a\<lparr>err_thr := thr\<rparr>"
  by (cases v)
     (auto simp: gen_error_threshold_def check_error_threshold_ok threshold_read_def text_of_def
       split: sum.splits exn.splits)

lemmas arg_checks = check_case_name_ok check_soc_ok check_device_ok

text \<open>The object that the checks leave, in terms of the parsed arguments.\<close>

definition holds_args :: "arg_env \<Rightarrow> pydict \<Rightarrow> arg_parser \<Rightarrow> bool" where
  "holds_args env args a \<longleftrightarrow>
     map_of args ''input_file'' = Some (input_file a) \<and> map_of args ''case_name'' = Some (case_name a)
     \<and> map_of args ''soc_version'' = Some (soc_version a) \<and> map_of args ''device_id'' = Some (device_id a)
     \<and> map_of args ''error_report'' = Some (error_report a) \<and> map_of args ''config_file'' = Some (config_file a)
     \<and> (\<exists>t. map_of args ''error_threshold'' = Some t \<and> threshold_read env t (err_thr a))
     \<and> (\<exists>out. map_of args ''output_path'' = Some (PyStr out)
          \<and> output_path a = PyStr (fs_realpath (ae_fs env) (path_join out (ae_time env))))"

lemma check_run_args_result:
  assumes "check_run_args env args init_arg_parser = Inr a"
  shows "holds_args env args a \<and> (case_name a = PyStr [] \<or> check_name_valid (case_name a) = Inr ())
    \<and> check_name_valid (soc_version a) = Inr () \<and> (\<exists>d. device_id a = PyStr d \<and> s_isdigit d)
    \<and> threshold_ok (err_thr a)"
proof -
  from assms obtain i c a1 soc a2 d a3 t a4 rep conf out p where parts:
      "map_of args ''input_file'' = Some i" "map_of args ''case_name'' = Some c"
      "check_case_name_valid c (init_arg_parser\<lparr>input_file := i\<rparr>) = Inr a1"
      "map_of args ''soc_version'' = Some soc" "check_soc_version soc a1 = Inr a2"
      "map_of args ''device_id'' = Some d" "check_device_id d a2 = Inr a3"
      "map_of args ''error_threshold'' = Some t" "gen_error_threshold env t a3 = Inr a4"
      "map_of args ''error_report'' = Some rep" "map_of args ''config_file'' = Some conf"
      "map_of args ''output_path'' = Some out" "add_time_steamp env out = Inr p"
      "a = a4\<lparr>error_report := rep, config_file := conf, output_path := p\<rparr>"
    unfolding check_run_args_def Let_def bindE_eq_Inr ns_attr_ok by (elim exE conjE) simp
  from parts(3) have a1: "c = PyStr [] \<or> check_name_valid c = Inr ()"
      "a1 = init_arg_parser\<lparr>input_file := i, case_name := c\<rparr>"
    by (auto simp: check_case_name_ok init_arg_parser_def)
  from parts(5,7) obtain s where a3: "check_name_valid soc = Inr ()" "s_isdigit s" "d = PyStr s"
      "a3 = a1\<lparr>soc_version := soc, device_id := PyStr s\<rparr>"
    by (auto simp: check_soc_ok check_device_ok)
  from gen_error_threshold_ok [OF parts(9)] obtain thr where
    a4: "threshold_ok thr" "threshold_read env t thr" "a4 = a3\<lparr>err_thr := thr\<rparr>" by blast
  from parts(13) obtain o' where out: "out = PyStr o'"
    "p = PyStr (fs_realpath (ae_fs env) (path_join o' (ae_time env)))"
    by (cases out) (auto simp: add_time_steamp_def text_of_def)
  show ?thesis
    unfolding holds_args_def parts(14) a4(3) a3(4) a1(2)
    using parts(1,2,4,6,8,10,11,12) a1(1) a3(1-3) a4(1,2) out by simp
qed

lemmas run_tables = run_parser_def add_argument_def output_option_def error_report_option_def

lemma run_value:
  assumes "parse_args False run_parser ws = Inr args" and "map_of args k = Some v"
  shows "k = ''input_file'' \<Longrightarrow> \<exists>s. v = PyStr s" "k = ''config_file'' \<Longrightarrow> \<exists>s. v = PyStr s"
    "k = ''error_report'' \<Longrightarrow> v \<in> {PyStr ''false'', PyStr ''true''}"
proof -
  from assms(2) have "ns_attr args k = Inr v" by (simp add: ns_attr_ok)
  from parse_args_values [OF assms(1) this] obtain o' where o': "o' \<in> set run_parser" "o_dest o' = k"
    "v = o_default o' \<and> \<not> o_required o' \<or> o_action o' = Store_True \<and> v = PyBool True
     \<or> o_action o' = Store \<and> (\<exists>s. v = PyStr s \<and> (o_choices o' = [] \<or> s \<in> set (o_choices o')))" .
  show "k = ''input_file'' \<Longrightarrow> \<exists>s. v = PyStr s" "k = ''config_file'' \<Longrightarrow> \<exists>s. v = PyStr s"
    "k = ''error_report'' \<Longrightarrow> v \<in> {PyStr ''false'', PyStr ''true''}"
    using o' by (auto simp: run_tables)
qed

text \<open>C1. Whatever is typed after \<^verbatim>\<open>run\<close>: if it is accepted, nothing has been written, and the object holds
  the parsed values: the input file and the configuration file, texts; the case name, which is empty or a valid name; the SoC
  version, a valid name; the device, digits only; the error report, one of two words; the threshold, the literal that was
  given or an empty list, which is empty or a pair of floats, neither below 0 nor above 1 (NaN would pass); and for
  the report, the real path of the directory named by the time below the path of \<^verbatim>\<open>-out\<close>.\<close>

theorem run_arguments_safe:
  assumes "new_arg_parser env (prog # ''run'' # ws) = Inr (a, f)"
  shows "f = ae_fs env \<and> (\<exists>args. parse_args False run_parser ws = Inr args \<and> holds_args env args a)
    \<and> (\<exists>i. input_file a = PyStr i) \<and> (\<exists>c. config_file a = PyStr c)
    \<and> (case_name a = PyStr [] \<or> check_name_valid (case_name a) = Inr ()) \<and> check_name_valid (soc_version a) = Inr ()
    \<and> (\<exists>d. device_id a = PyStr d \<and> s_isdigit d) \<and> threshold_ok (err_thr a)
    \<and> error_report a \<in> {PyStr ''false'', PyStr ''true''}"
proof -
  from assms obtain args where args: "parse_args False run_parser ws = Inr args"
      and a: "check_run_args env args init_arg_parser = Inr a" and f: "f = ae_fs env"
    by (auto simp: new_arg_parser_def parse_command_def)
  note result = check_run_args_result [OF a]
  then have "map_of args ''input_file'' = Some (input_file a)" "map_of args ''config_file'' = Some (config_file a)"
    "map_of args ''error_report'' = Some (error_report a)" by (simp_all add: holds_args_def)
  from run_value(1) [OF args this(1)] run_value(2) [OF args this(2)] run_value(3) [OF args this(3)]
  show ?thesis using result f args by blast
qed

text \<open>
  The options of \<^verbatim>\<open>run\<close>, as its help describes them: the names of each option and the argument they set.
\<close>

definition run_option_names :: "(string \<times> string) list" where
  "run_option_names =
     [(''-i'', ''input_file''), (''--input'', ''input_file''),
      (''-soc'', ''soc_version''), (''--soc_version'', ''soc_version''),
      (''-out'', ''output_path''), (''--output'', ''output_path''),
      (''-c'', ''case_name''), (''--case_name'', ''case_name''),
      (''-d'', ''device_id''), (''--device_id'', ''device_id''),
      (''-conf'', ''config_file''), (''--config_file'', ''config_file''),
      (''-err_thr'', ''error_threshold''), (''--error_threshold'', ''error_threshold''),
      (''-err_report'', ''error_report''), (''--error_report'', ''error_report'')]"

text \<open>A name of the table, and a value that does not start with \<^verbatim>\<open>-\<close> and, for the error report, is one of its choices.\<close>

definition typed_ok :: "string \<times> string \<Rightarrow> bool" where
  "typed_ok p = (case p of (f, v) \<Rightarrow> (case map_of run_option_names f of
       None \<Rightarrow> False
     | Some k \<Rightarrow> \<not> startswith v ''-'' \<and> (k \<noteq> ''error_report'' \<or> v = ''true'' \<or> v = ''false'')))"

definition typed_values :: "(string \<times> string) list \<Rightarrow> (string \<times> string) list" where
  "typed_values ps = map (\<lambda>(f, v). (the (map_of run_option_names f), v)) ps"

definition typed_words :: "(string \<times> string) list \<Rightarrow> string list" where
  "typed_words ps = concat (map (\<lambda>(f, v). [f, v]) ps)"

definition given_or :: "(string \<times> string) list \<Rightarrow> string \<Rightarrow> pyval \<Rightarrow> string \<times> pyval" where
  "given_or vals k dflt = (k, case map_of vals k of None \<Rightarrow> dflt | Some v \<Rightarrow> PyStr v)"

text \<open>The option of the table that a name stands for.\<close>

definition as_option :: "string \<times> string \<Rightarrow> opt \<times> string \<times> string" where
  "as_option p = (case p of (f, v) \<Rightarrow> (the (with_flag (help_option # run_parser) f), f, v))"

lemma names_are_flags:
  "list_all (\<lambda>(f, k). case with_flag (help_option # run_parser) f of
       None \<Rightarrow> False
     | Some o' \<Rightarrow> o_dest o' = k \<and> startswith f ''-'' \<and> f \<noteq> ''--'' \<and> o_action o' = Store \<and> o' \<in> set run_parser
         \<and> (o_choices o' = [] \<or> k = ''error_report'' \<and> o_choices o' = [''false'', ''true''])) run_option_names"
  by code_simp

lemma typed_is_writable:
  assumes "typed_ok p"
  shows "writable run_parser (as_option p)"
    and "(\<lambda>(o', f, v). (o_dest o', v)) (as_option p) = (the (map_of run_option_names (fst p)), snd p)"
proof -
  obtain f v where p: "p = (f, v)" by (cases p)
  from assms p obtain k where k: "map_of run_option_names f = Some k" "\<not> startswith v ''-''"
      "k \<noteq> ''error_report'' \<or> v = ''true'' \<or> v = ''false''"
    by (auto simp: typed_ok_def split: option.splits)
  from map_of_SomeD [OF k(1)] names_are_flags obtain o' where
      "with_flag (help_option # run_parser) f = Some o'" "o_dest o' = k" "startswith f ''-''" "f \<noteq> ''--''"
      "o_action o' = Store" "o' \<in> set run_parser"
      "o_choices o' = [] \<or> k = ''error_report'' \<and> o_choices o' = [''false'', ''true'']"
    by (auto simp: list_all_iff split: option.splits dest!: bspec)
  with k p show "writable run_parser (as_option p)"
    and "(\<lambda>(o', f, v). (o_dest o', v)) (as_option p) = (the (map_of run_option_names (fst p)), snd p)"
    by (auto simp: writable_def as_option_def)
qed

lemma typed_as_options:
  assumes "list_all typed_ok ps"
  shows "write_options (map as_option ps) = typed_words ps" "values_of (map as_option ps) = typed_values ps"
    "list_all (writable run_parser) (map as_option ps)"
proof -
  show "write_options (map as_option ps) = typed_words ps"
    by (induction ps) (auto simp: write_options_def typed_words_def as_option_def)
  show "values_of (map as_option ps) = typed_values ps"
    using assms by (induction ps) (auto simp: values_of_def typed_values_def dest: typed_is_writable(2) split: prod.splits)
  show "list_all (writable run_parser) (map as_option ps)"
    using assms typed_is_writable(1) by (auto simp: list_all_iff)
qed

lemma read_run_options:
  "read_options run_parser vals =
     [given_or vals ''input_file'' (PyStr []), given_or vals ''soc_version'' PyNone,
      given_or vals ''output_path'' (PyStr []), given_or vals ''case_name'' (PyStr ''all''),
      given_or vals ''device_id'' (PyStr ''0''), given_or vals ''config_file'' (PyStr []),
      given_or vals ''error_threshold'' PyNone, given_or vals ''error_report'' (PyStr ''false'')]"
  by (simp add: read_options_def given_or_def run_tables split: option.split)

text \<open>C1. Options of \<^verbatim>\<open>run\<close> that are written out in any order, under any of their names and each at most once, with
  values that do not start with a dash (and \<^verbatim>\<open>true\<close> or \<^verbatim>\<open>false\<close> for the error report), are read back: the checks
  see exactly the given values and the documented defaults of the others; without the input file or the SoC version the process ends.\<close>

theorem run_options_read:
  assumes "list_all typed_ok ps" and "distinct (map fst (typed_values ps))"
  shows "new_arg_parser env (prog # ''run'' # typed_words ps) =
    (let vals = typed_values ps in
     if {''input_file'', ''soc_version''} \<subseteq> set (map fst vals)
     then bindE (check_run_args env
         [given_or vals ''input_file'' (PyStr []), given_or vals ''soc_version'' PyNone,
          given_or vals ''output_path'' (PyStr []), given_or vals ''case_name'' (PyStr ''all''),
          given_or vals ''device_id'' (PyStr ''0''), given_or vals ''config_file'' (PyStr []),
          given_or vals ''error_threshold'' PyNone, given_or vals ''error_report'' (PyStr ''false'')]
         init_arg_parser) (\<lambda>a. Inr (a, ae_fs env))
     else Inl SystemExit)"
proof -
  note opts = typed_as_options [OF assms(1)]
  have d: "distinct (map o_dest run_parser)" by (simp add: run_tables)
  have req: "(\<exists>o'\<in>set run_parser. o_required o' \<and> o_dest o' \<notin> S) \<longleftrightarrow> \<not> {''input_file'', ''soc_version''} \<subseteq> S" for S
    by (auto simp: run_tables)
  from parse_args_written [OF opts(3) d] assms(2)
  have "parse_args False run_parser (typed_words ps) =
      (if {''input_file'', ''soc_version''} \<subseteq> set (map fst (typed_values ps))
       then Inr (read_options run_parser (typed_values ps)) else Inl SystemExit)"
    unfolding opts req by auto
  then show ?thesis
    by (simp add: new_arg_parser_def parse_command_def Let_def read_run_options del: insert_subset)
qed

definition run_env :: arg_env where
  "run_env = \<lparr>ae_fs = empty_fs, ae_makedirs = mkdir_one, ae_time = ''20240101120000'',
     ae_literal_eval = (\<lambda>s. Inl SyntaxError)\<rparr>"

definition run_words :: "string list" where
  "run_words = [''msopst'', ''run'', ''-d'', ''1'', ''-i'', ''add.json'', ''--soc_version'', ''Ascend310'']"

theorem run_arguments_safe_witness:
  "\<exists>a. new_arg_parser run_env run_words = Inr (a, empty_fs) \<and> error_report a \<in> {PyStr ''false'', PyStr ''true''}"
proof -
  have "\<not> isl (new_arg_parser run_env run_words)" by code_simp
  then obtain a f where run: "new_arg_parser run_env run_words = Inr (a, f)"
    by (cases "new_arg_parser run_env run_words") auto
  from run_arguments_safe [of run_env "''msopst''" "drop 2 run_words" a f] run show ?thesis
    by (simp add: run_words_def run_env_def)
qed

definition typed_ex :: "(string \<times> string) list" where
  "typed_ex = [(''-d'', ''1''), (''-i'', ''add.json''), (''--soc_version'', ''Ascend310'')]"

theorem run_options_read_witness:
  "new_arg_parser run_env (''msopst'' # ''run'' # typed_words typed_ex) =
    Inr (init_arg_parser\<lparr>input_file := PyStr ''add.json'', case_name := PyStr ''all'',
      soc_version := PyStr ''Ascend310'', device_id := PyStr ''1'', err_thr := PyList [],
      error_report := PyStr ''false'', output_path := PyStr ''20240101120000''\<rparr>, empty_fs)
   \<and> new_arg_parser run_env (''msopst'' # ''run'' # typed_words [(''--input'', ''add.json'')]) = Inl SystemExit"
proof -
  have ok: "list_all typed_ok typed_ex" "list_all typed_ok [(''--input'', ''add.json'')]"
    and vals: "typed_values typed_ex
      = [(''device_id'', ''1''), (''input_file'', ''add.json''), (''soc_version'', ''Ascend310'')]"
      "typed_values [(''--input'', ''add.json'')] = [(''input_file'', ''add.json'')]"
    by code_simp+
  have names: "check_name_valid (PyStr ''all'') = Inr ()" "check_name_valid (PyStr ''Ascend310'') = Inr ()"
    "s_isdigit ''1''"
    by code_simp+
  have path: "fs_realpath empty_fs (path_join [] ''20240101120000'') = ''20240101120000''"
    by code_simp
  show ?thesis
    using run_options_read [OF ok(1), of run_env "''msopst''"] run_options_read [OF ok(2), of run_env "''msopst''"]
    by (simp add: vals given_or_def check_run_args_def ns_attr_def check_case_name_valid_def check_soc_version_def
        check_device_id_def gen_error_threshold_def check_error_threshold_def add_time_steamp_def text_of_def names
        path run_env_def init_arg_parser_def Let_def)
qed

section \<open>What goes wrong\<close>

text \<open>A threshold that is no Python expression raises \<^verbatim>\<open>SyntaxError\<close>, which is not among the handled errors.\<close>

lemma broken_threshold_escapes:
  "ae_literal_eval env s = Inl SyntaxError \<Longrightarrow> gen_error_threshold env (PyStr s) a = Inl SyntaxError"
  by (simp add: gen_error_threshold_def text_of_def)

text \<open>The report is required by its description, but \<^verbatim>\<open>compare\<close> is accepted without it.\<close>

lemma compare_without_report:
  "ae_literal_eval env ''[0.01, 0.05]'' = Inr (PyList []) \<Longrightarrow>
     \<exists>a. new_arg_parser env [prog, ''mi'', ''compare''] = Inr (a, ae_fs env) \<and> report_path a = PyStr []"
proof -
  assume lit: "ae_literal_eval env ''[0.01, 0.05]'' = Inr (PyList [])"
  have "parse_command [''mi'', ''compare''] = Inr [(''report_path'', PyStr []), (''output_path'', PyStr []),
      (''error_threshold'', PyStr ''[0.01, 0.05]''), (''error_report'', PyStr ''false'')]" by code_simp
  with lit show ?thesis
    by (simp add: new_arg_parser_def check_mi_args_def Let_def ns_attr_def gen_error_threshold_def text_of_def
        check_error_threshold_def init_arg_parser_def)
qed

end
