(* ===== verification/Py_Format.thy ===== *)
theory Py_Format
  imports Py_Value Py_String
begin

text \<open>
  \<^verbatim>\<open>str.format\<close> with named fields: a name in braces is replaced by its text, doubled braces stand for one. A
  name that is not given raises \<^verbatim>\<open>KeyError\<close>, an unpaired brace \<^verbatim>\<open>ValueError\<close>. Conversions and format
  specifications, which the program does not use, are left out.
\<close>

text \<open>The first argument is the part of a name read so far, reversed, if a name has been opened.\<close>

fun format_from :: "(string \<times> string) list \<Rightarrow> string option \<Rightarrow> string \<Rightarrow> string res" where
  "format_from env None [] = Inr []"
| "format_from env (Some name) [] = Inl ValueError"
| "format_from env (Some name) (c # s) =
     (if c = CHR ''}''
      then bindE (ditem env (rev name)) (\<lambda>v. bindE (format_from env None s) (\<lambda>t. Inr (v @ t)))
      else format_from env (Some (c # name)) s)"
| "format_from env None [c] = (if c \<in> {CHR ''{'', CHR ''}''} then Inl ValueError else Inr [c])"
| "format_from env None (c # d # s) =
     (if c = CHR ''{'' then
        (if d = CHR ''{'' then bindE (format_from env None s) (\<lambda>t. Inr (c # t)) else format_from env (Some []) (d # s))
      else if c = CHR ''}'' then
        (if d = CHR ''}'' then bindE (format_from env None s) (\<lambda>t. Inr (c # t)) else Inl ValueError)
      else bindE (format_from env None (d # s)) (\<lambda>t. Inr (c # t)))"

definition py_format :: "string \<Rightarrow> (string \<times> string) list \<Rightarrow> string res" where
  "py_format template env = format_from env None template"

text \<open>A template as the pieces it is made of.\<close>

datatype piece = Txt string | Field string

fun piece_text :: "piece \<Rightarrow> string" where
  "piece_text (Txt s) = concat (map (\<lambda>c. if c \<in> {CHR ''{'', CHR ''}''} then [c, c] else [c]) s)"
| "piece_text (Field n) = ''{'' @ n @ ''}''"

fun piece_value :: "(string \<times> string) list \<Rightarrow> piece \<Rightarrow> string res" where
  "piece_value env (Txt s) = Inr s"
| "piece_value env (Field n) = ditem env n"

definition template_of :: "piece list \<Rightarrow> string" where
  "template_of ps = concat (map piece_text ps)"

definition field_name :: "string \<Rightarrow> bool" where
  "field_name n \<longleftrightarrow> n \<noteq> [] \<and> CHR ''{'' \<notin> set n \<and> CHR ''}'' \<notin> set n"

lemma format_name:
  "CHR ''}'' \<notin> set n \<Longrightarrow> format_from env (Some acc) (n @ CHR ''}'' # s)
     = bindE (ditem env (rev acc @ n)) (\<lambda>v. bindE (format_from env None s) (\<lambda>t. Inr (v @ t)))"
  by (induction n arbitrary: acc) auto

lemma format_field:
  assumes "field_name n"
  shows "format_from env None (piece_text (Field n) @ s)
    = bindE (ditem env n) (\<lambda>v. bindE (format_from env None s) (\<lambda>t. Inr (v @ t)))"
proof -
  from assms obtain c n' where n: "n = c # n'" by (auto simp: field_name_def neq_Nil_conv)
  with assms have "c \<noteq> CHR ''{''" by (auto simp: field_name_def)
  with n have "format_from env None (piece_text (Field n) @ s) = format_from env (Some []) (n @ CHR ''}'' # s)" by simp
  with assms show ?thesis by (simp add: format_name field_name_def)
qed

lemma format_char:
  assumes "c \<notin> {CHR ''{'', CHR ''}''}"
  shows "format_from env None (c # s) = bindE (format_from env None s) (\<lambda>t. Inr (c # t))"
  using assms by (cases s) auto

lemma format_txt:
  "format_from env None (piece_text (Txt x) @ s) = bindE (format_from env None s) (\<lambda>t. Inr (x @ t))"
proof (induction x)
  case (Cons c x)
  show ?case
  proof (cases "c \<in> {CHR ''{'', CHR ''}''}")
    case True
    then have "format_from env None (piece_text (Txt (c # x)) @ s)
        = bindE (format_from env None (piece_text (Txt x) @ s)) (\<lambda>t. Inr (c # t))" by auto
    with Cons show ?thesis by (simp add: bindE_assoc)
  next
    case False
    then have "format_from env None (piece_text (Txt (c # x)) @ s)
        = bindE (format_from env None (piece_text (Txt x) @ s)) (\<lambda>t. Inr (c # t))"
      using format_char [OF False] by simp
    with Cons show ?thesis by (simp add: bindE_assoc)
  qed
qed simp

text \<open>Formatting a template puts the values into the fields and changes nothing else.\<close>

lemma format_pieces:
  assumes "list_all (\<lambda>p. case p of Txt s \<Rightarrow> True | Field n \<Rightarrow> field_name n) ps"
  shows "py_format (template_of ps) env = bindE (mapE (piece_value env) ps) (\<lambda>ts. Inr (concat ts))"
  using assms
proof (induction ps)
  case (Cons p ps)
  then have IH: "format_from env None (template_of ps) = bindE (mapE (piece_value env) ps) (\<lambda>ts. Inr (concat ts))"
    by (simp add: py_format_def)
  have step: "template_of (p # ps) = piece_text p @ template_of ps" by (simp add: template_of_def)
  show ?case
  proof (cases p)
    case (Txt s)
    then show ?thesis unfolding py_format_def step by (simp only: format_txt IH) (simp add: bindE_assoc)
  next
    case (Field n)
    with Cons.prems have "field_name n" by simp
    with Field show ?thesis unfolding py_format_def step by (simp only: format_field IH) (simp add: bindE_assoc)
  qed
qed (simp add: py_format_def template_of_def)

end
