(* ===== verification/Code_Snippet.thy ===== *)
theory Code_Snippet
  imports Py_Format
begin

text \<open>
  The texts of \<^verbatim>\<open>src/main/code_snippet.py\<close>, which the generators of test programs fill in.
\<close>

definition text_lines :: "string list \<Rightarrow> string" where
  "text_lines = s_join [CHR 0x0A]"

definition MAIN_CPP_CONTENT :: string where
  "MAIN_CPP_CONTENT = text_lines
    [[],
     ''/**'',
     ''* @file main.cpp'',
     ''*'',
     ''* Copyright (C) 2020. Huawei Technologies Co., Ltd. All rights reserved.'',
     ''*'',
     ''* This program is distributed in the hope that it will be useful,'',
     ''* but WITHOUT ANY WARRANTY; without even the implied warranty of'',
     ''* MERCHANTABILITY or FITNESS FOR A PARTICULAR PURPOSE.'',
     ''*/'',
     ''#include <cstdint>'',
     ''#include <iostream>'',
     ''#include <unistd.h>'',
     ''#include <sys/types.h>'',
     ''#include <sys/stat.h>'',
     [],
     ''#include \"acl/acl.h\"'',
     ''#include \"op_runner.h\"'',
     [],
     ''#include \"common.h\"'',
     [],
     ''int main()'',
     ''{{'',
     ''  {testcase_call_sentences}  '',
     ''}}'',
     []]"

definition TESTCASE_CALL :: string where
  "TESTCASE_CALL = text_lines
    [[],
     ''    if (!{function_name}()) {{'',
     ''        cout << \"{function_name} execute failed!\";'',
     ''    }}'',
     []]"

definition TESTCASE_FUNCTION :: string where
  "TESTCASE_FUNCTION = text_lines
    [[],
     ''OP_TEST({op_name}, {testcase_name})'',
     ''{{'',
     ''    {testcase_content}'',
     ''}}'',
     [],
     []]"

definition TESTCASE_CONTENT :: string where
  "TESTCASE_CONTENT = text_lines
    [[],
     ''    std::string opType = \"{op_name}\";'',
     ''    OpTestDesc opTestDesc(opType);'',
     ''    // input parameter init'',
     ''    opTestDesc.inputShape = {{{input_shape_data}}};'',
     ''    opTestDesc.inputDataType = {{{input_data_type}}};'',
     ''    opTestDesc.inputFormat = {{{input_format}}};'',
     ''    opTestDesc.inputFilePath = {{{input_file_path}}};'',
     ''    opTestDesc.inputConst = {{{is_const}}};'',
     ''    // output parameter init'',
     ''    opTestDesc.outputShape = {{{output_shape_data}}};'',
     ''    opTestDesc.outputDataType = {{{output_data_type}}};'',
     ''    opTestDesc.outputFormat = {{{output_format}}};'',
     ''    opTestDesc.outputFilePath = {{{output_file_path}}};'',
     ''    // attr parameter init'',
     ''    {all_attr_code_snippet}'',
     ''    // set deviceId'',
     ''    const uint32_t deviceId = {device_id};'',
     ''    EXPECT_EQ_AND_RECORD(true, OpExecute(opTestDesc, deviceId), opTestDesc, \"{testcase_name}\");'',
     []]"

definition PYTEST_INI_CONTEN :: string where
  "PYTEST_INI_CONTEN = text_lines
    [[],
     ''[pytest]'',
     ''log_cli = 1'',
     ''log_cli_level = INFO'',
     ''log_cli_format = %(asctime)s [%(levelname)8s] %(message)s (%(filename)s:%(lineno)s)'',
     ''log_cli_date_format=%Y-%m-%d %H:%M:%S'',
     []]"

definition TESTCASE_IMPORT_CONTENT :: string where
  "TESTCASE_IMPORT_CONTENT = text_lines
    [''import numpy as np'',
     ''import pytest'',
     ''import time'',
     ''import logging'',
     ''import mindspore.nn as nn'',
     ''import mindspore.context as context'',
     ''from mindspore import Tensor'',
     [],
     ''# Import the definition of the {op_name} primtive.'',
     ''from {import_op} import {op_name}'',
     ''context.set_context(mode=context.GRAPH_MODE, device_target=\"Ascend\", device_id={device_id})'',
     ''logger = logging.getLogger(__name__)'',
     [],
     []]"

definition TESTCASE_CLASS_CONTENT_NO_ATTR :: string where
  "TESTCASE_CLASS_CONTENT_NO_ATTR = text_lines
    [[],
     ''class Net(nn.Cell):'',
     ''    \"\"\"Net definition\"\"\"'',
     [],
     ''    def __init__(self):'',
     ''        super(Net, self).__init__()'',
     ''        self.{op_lower} = {op_name}()'',
     ''        {cust_aicpu}'',
     [],
     ''    def construct(self,{input_args}):'',
     ''        return self.{op_lower}({inputs})'',
     []]"

definition TESTCASE_CLASS_CONTENT_WITH_ATTR_CONSTRUCT :: string where
  "TESTCASE_CLASS_CONTENT_WITH_ATTR_CONSTRUCT = text_lines
    [[],
     ''    def construct(self, {inputs}):'',
     ''        return self.{op_lower}({inputs})'',
     []]"

definition TESTCASE_CLASS_CONTENT_WITH_ATTR :: string where
  "TESTCASE_CLASS_CONTENT_WITH_ATTR = text_lines
    [[],
     ''class Net(nn.Cell):'',
     ''    \"\"\"Net definition\"\"\"'',
     [],
     ''    def __init__(self):'',
     ''        super(Net, self).__init__()'',
     ''        self.{op_lower} = {op_name}({attr_value})'',
     ''        {cust_aicpu}'',
     [],
     ''    {attr_constrct}'',
     []]"

definition TESTCASE_TEST_NET_INPUT :: string where
  "TESTCASE_TEST_NET_INPUT = text_lines
    [[],
     ''    {input_name} = np.fromfile('{file}', np.{np_type})'',
     ''    {input_name}.shape = {op_shape}'',
     []]"

definition TESTCASE_TEST_TENSOR :: string where
  "TESTCASE_TEST_TENSOR = text_lines
    [''Tensor({input_name})'']"

definition TESTCASE_TEST_NET_OUTPUT :: string where
  "TESTCASE_TEST_NET_OUTPUT = text_lines
    [''{output_name} = {op_lower}_test({tensor})'',
     []]"

definition TESTCASE_TEST_NET :: string where
  "TESTCASE_TEST_NET = text_lines
    [[],
     ''def {subcase}():'',
     ''    {inputs}'',
     ''    {op_lower}_test = Net()'',
     ''    '',
     ''    start = time.time()'',
     ''    '',
     ''    {outputs}'',
     ''    end = time.time()'',
     ''    '',
     ''    print(\"running time: %.2f s\" %(end-start))'',
     []]"

definition get_main_cpp_content :: string where
  "get_main_cpp_content = MAIN_CPP_CONTENT"

definition get_testcase_test_net :: string where
  "get_testcase_test_net = TESTCASE_TEST_NET"

end
