(* ===== verification/Ms_Generator.thy ===== *)
theory Ms_Generator
  imports Code_Snippet Data_Gen
begin

text \<open>
  The generator of MindSpore test programs, \<^verbatim>\<open>src/main/ms_op_generator.py\<close>, and their runner,
  \<^verbatim>\<open>src/main/ms_op_runner.py\<close>. The texts written to files are part of the state; the modules that describe
  operators, the text of floats, \<^verbatim>\<open>json.dumps\<close>, the file system and the exit code of a process are arguments.
\<close>

record ms_env =
  me_import :: "string \<Rightarrow> string \<Rightarrow> pyval res"
  me_float :: "pyfloat \<Rightarrow> string"
  me_can_write :: "string \<Rightarrow> bool"
  me_mkdirs :: makedirs
  me_dumps :: "pyval \<Rightarrow> string res"

section \<open>The JSON description\<close>

definition add_op_info_in_tmp_dict :: "pydict \<Rightarrow> pydict \<Rightarrow> string \<Rightarrow> pydict res" where
  "add_op_info_in_tmp_dict testcase_struct tmp_dict op_key =
     (if dhas testcase_struct op_key then
        bindE (py_iter (dget testcase_struct op_key)) (\<lambda>descs.
        bindE (mapE (\<lambda>d. bindE (as_dict d) (\<lambda>d.
          Inr (PyDict [(''type'', dget d ''type''), (''shape'', dget d ''shape'')]))) descs) (\<lambda>ds.
        Inr (dset tmp_dict op_key (PyList ds))))
      else Inr tmp_dict)"

definition add_attr_info_in_tmp_dict :: "pydict \<Rightarrow> pydict \<Rightarrow> string \<Rightarrow> pydict res" where
  "add_attr_info_in_tmp_dict testcase_struct tmp_dict op_key =
     (if dhas testcase_struct op_key then
        bindE (py_iter (dget testcase_struct op_key)) (\<lambda>attrs. Inr (dset tmp_dict op_key (PyList attrs)))
      else Inr tmp_dict)"

definition ms_op_json_step :: "pyval list \<Rightarrow> pydict \<Rightarrow> pyval list res" where
  "ms_op_json_step content testcase_struct =
     bindE (add_op_info_in_tmp_dict testcase_struct [(''op'', dget testcase_struct ''op'')] INPUT_DESC) (\<lambda>d.
     bindE (add_op_info_in_tmp_dict testcase_struct d OUTPUT_DESC) (\<lambda>d.
     bindE (add_attr_info_in_tmp_dict testcase_struct d ATTR) (\<lambda>d.
       Inr (if py_in (PyDict d) content then content else content @ [PyDict d]))))"

definition create_ms_op_json_content :: "ms_env \<Rightarrow> pydict list \<Rightarrow> string res" where
  "create_ms_op_json_content env testcase_list =
     bindE (foldE ms_op_json_step [] testcase_list) (\<lambda>content.
       case me_dumps env (PyList content) of Inl TypeError \<Rightarrow> Inr [] | r \<Rightarrow> r)"

section \<open>The generator\<close>

record ms_gen =
  mg_testcase_list :: "pydict list"
  mg_machine_type :: bool
  mg_output_path :: string
  mg_report :: st_report
  mg_device_id :: pyval
  mg_fs :: fs
  mg_files :: "(string \<times> string) list"

definition new_ms_gen :: "ms_env \<Rightarrow> fs \<Rightarrow> pydict list \<Rightarrow> string \<times> pyval \<Rightarrow> bool \<Rightarrow> st_report \<Rightarrow> ms_gen res" where
  "new_ms_gen env f testcase_list path_and_device_id machine_type report =
     bindE (check_output_path (me_mkdirs env) f (fst path_and_device_id) testcase_list machine_type) (\<lambda>(p, f).
       Inr \<lparr>mg_testcase_list = testcase_list, mg_machine_type = machine_type, mg_output_path = p, mg_report = report,
         mg_device_id = snd path_and_device_id, mg_fs = f, mg_files = []\<rparr>)"

text \<open>The message of the handler of a file that cannot be written has two fields and one value: building it
  raises, before the error of the program does.\<close>

definition append_content_to_file :: "ms_env \<Rightarrow> string \<Rightarrow> string \<Rightarrow> ms_gen \<Rightarrow> ms_gen res" where
  "append_content_to_file env content file_path g =
     (if \<not> me_can_write env file_path then Inl TypeError
      else Inr (g\<lparr>mg_files := mg_files g @ [(file_path, content)]\<rparr>))"

definition get_ms_ops_info :: "ms_env \<Rightarrow> string \<Rightarrow> string \<Rightarrow> pyval res" where
  "get_ms_ops_info env op_name_impl op_name_op_info = me_import env op_name_impl op_name_op_info"

definition assignment_attr_value :: "ms_env \<Rightarrow> pydict \<Rightarrow> string" where
  "assignment_attr_value env attr_info =
     (let attr_value = py_str (me_float env) (dget attr_info ''value'');
          attr_value = (if dget attr_info ''type'' = PyStr ''string'' then quoted attr_value else attr_value) in
      py_str (me_float env) (dget attr_info ''name'') @ ''='' @ attr_value)"

text \<open>Slices and items of a list, with indices that may be negative.\<close>

definition from_end :: "'a list \<Rightarrow> int \<Rightarrow> int" where
  "from_end xs i = (if i < 0 then i + int (length xs) else i)"

definition list_slice :: "'a list \<Rightarrow> int \<Rightarrow> int \<Rightarrow> 'a list" where
  "list_slice xs a b =
     (let cut = (\<lambda>i. nat (max 0 (min (int (length xs)) (from_end xs i)))) in take (cut b - cut a) (drop (cut a) xs))"

definition list_item :: "'a list \<Rightarrow> int \<Rightarrow> 'a res" where
  "list_item xs i = (let j = from_end xs i in
     if 0 \<le> j \<and> j < int (length xs) then Inr (xs ! nat j) else Inl IndexError)"

fun input_tensors :: "int \<Rightarrow> string list \<Rightarrow> pyval list \<Rightarrow> int \<Rightarrow> string list res" where
  "input_tensors dynamic_input_count input_name_list [] input_index = Inr []"
| "input_tensors dynamic_input_count input_name_list (t # ts) input_index =
     (if t = PyStr DYNAMIC_INPUT then
        bindE (input_tensors dynamic_input_count input_name_list ts (input_index + dynamic_input_count + 1)) (\<lambda>rest.
          Inr ((''('' @ s_join '','' (list_slice input_name_list input_index (input_index + dynamic_input_count)) @ '')'') # rest))
      else
        bindE (list_item input_name_list input_index) (\<lambda>nm.
        bindE (input_tensors dynamic_input_count input_name_list ts (input_index + 1)) (\<lambda>rest. Inr (nm # rest))))"

definition get_dynamic_input_info :: "pyval list \<Rightarrow> int \<Rightarrow> string list \<Rightarrow> (string \<times> string) res" where
  "get_dynamic_input_info ms_param_type_list count_input input_name_list =
     (if length ms_param_type_list = 1 then Inr (DYNAMIC_INPUT_ARGS, DYNAMIC_INPUT_NAME)
      else bindE (input_tensors (count_input - int (length ms_param_type_list)) input_name_list ms_param_type_list 0)
        (\<lambda>ts. Inr (s_join '','' input_name_list, s_join '','' ts)))"

definition get_no_attr_input_args :: "pyval list \<Rightarrow> int \<Rightarrow> string list \<Rightarrow> (string \<times> string) res" where
  "get_no_attr_input_args ms_param_type_list count_input input_name_list =
     (if \<not> py_in (PyStr DYNAMIC_INPUT) ms_param_type_list
      then Inr (s_join '','' input_name_list, s_join '','' input_name_list)
      else get_dynamic_input_info ms_param_type_list count_input input_name_list)"

definition get_device_id :: "ms_gen \<Rightarrow> pyval" where
  "get_device_id g = mg_device_id g"

definition get_op_name :: "ms_gen \<Rightarrow> (string \<times> string) res" where
  "get_op_name g = (case mg_testcase_list g of
      [] \<Rightarrow> Inl IndexError
    | c # _ \<Rightarrow> bindE (py_name (dget c ''op'')) (\<lambda>op. Inr (op, fix_name_lower_with_under op)))"

definition mkdir_output_dir :: "ms_env \<Rightarrow> ms_gen \<Rightarrow> ms_gen res" where
  "mkdir_output_dir env g =
     bindE (make_dirs (me_mkdirs env) (mg_fs g) (path_join (path_join (path_join (mg_output_path g) ''run'') ''out'') ''test_data'')) (\<lambda>f.
     bindE (make_dirs (me_mkdirs env) f (path_join (mg_output_path g) ''src'')) (\<lambda>f.
       Inr (g\<lparr>mg_fs := f\<rparr>)))"

definition get_mindspore_input_param_type :: "ms_env \<Rightarrow> ms_gen \<Rightarrow> (pyval list \<times> pyval) res" where
  "get_mindspore_input_param_type env g =
     bindE (get_op_name g) (\<lambda>(_, op_name_lower).
     bindE (case get_ms_ops_info env (op_name_lower @ ''_impl'') (op_name_lower @ ''_op_info'') of
         Inl _ \<Rightarrow> Inl (OpTestGenException OP_TEST_GEN_INVALID_DATA_ERROR) | Inr v \<Rightarrow> Inr v) (\<lambda>v.
     bindE (as_dict v) (\<lambda>info.
     bindE (py_iter (dget info ''inputs'')) (\<lambda>ins.
     bindE (mapE (\<lambda>i. bindE (as_dict i) (\<lambda>i. Inr (dget i ''param_type''))) ins) (\<lambda>types.
       Inr (types, dget info ''imply_type''))))))"

section \<open>One case\<close>

definition input_data_paths_of :: "string \<Rightarrow> string \<Rightarrow> nat \<Rightarrow> string list" where
  "input_data_paths_of output_path case_nm count_input =
     map (\<lambda>i. path_join (path_join (path_join (path_basename output_path) ''run'') ''out'')
          (path_join ''test_data/data/'' (case_nm @ ''_input_'' @ str_nat i) @ ''.bin'')) [0..<count_input]"

definition mkdir_input_data_path :: "ms_env \<Rightarrow> ms_gen \<Rightarrow> pydict \<Rightarrow> (string list \<times> ms_gen) res" where
  "mkdir_input_data_path env g testcase_struct =
     bindE (ditem testcase_struct ''case_name'') (\<lambda>testcase_name.
     bindE (bindE (ditem testcase_struct ''input_desc'') py_iter) (\<lambda>ins.
     let paths = input_data_paths_of (mg_output_path g) (py_str (me_float env) testcase_name) (length ins) in
     case get_case_report (mg_report g) testcase_name of
       None \<Rightarrow> Inl AttributeError
     | Some _ \<Rightarrow> Inr (paths, g\<lparr>mg_report := (mg_report g)\<lparr>report_list :=
         map (\<lambda>r. if py_eq (rpt_case_name r) testcase_name
            then r\<lparr>trace_detail := (trace_detail r)\<lparr>st_case_info :=
               (st_case_info (trace_detail r))\<lparr>planned_output_data_paths := PyList (map PyStr paths)\<rparr>\<rparr>\<rparr>
            else r) (report_list (mg_report g))\<rparr>\<rparr>)))"

definition generate_output_content :: "ms_gen \<Rightarrow> pydict \<Rightarrow> string list \<Rightarrow> string \<Rightarrow> string res" where
  "generate_output_content g testcase_struct tensor_list inputs_str =
     bindE (get_op_name g) (\<lambda>(_, op_name_lower).
     bindE (py_len (dget testcase_struct ''output_desc'')) (\<lambda>n.
     if n = 0 then Inr []
     else
       bindE (py_format TESTCASE_TEST_NET_OUTPUT
          [(''output_name'', s_join '', '' (map (\<lambda>i. ''output'' @ str_nat i) [0..<nat n])),
           (''op_lower'', op_name_lower), (''tensor'', s_join '','' tensor_list)]) (\<lambda>outputs_str.
       bindE (py_name (dget testcase_struct ''case_name'')) (\<lambda>nm.
       bindE (raise_if (nm = []) IndexError) (\<lambda>_.
         py_format TESTCASE_TEST_NET
          [(''subcase'', c_to_lower (hd nm) # tl nm), (''op_lower'', op_name_lower), (''inputs'', inputs_str),
           (''outputs'', outputs_str)])))))"

definition input_name :: "nat \<Rightarrow> string" where
  "input_name i = ''input'' @ str_nat i"

definition generate_function_content ::
    "ms_env \<Rightarrow> ms_gen \<Rightarrow> pydict \<Rightarrow> string list \<Rightarrow> (string \<times> int \<times> string list) res" where
  "generate_function_content env g testcase_struct input_data_abs_paths =
     bindE (py_iter (dget testcase_struct ''input_desc'')) (\<lambda>ins.
     bindE (mapE (\<lambda>(i, d).
         bindE (py_format TESTCASE_TEST_TENSOR [(''input_name'', input_name i)]) (\<lambda>tensor.
         bindE (as_dict d) (\<lambda>d.
         bindE (py_format TESTCASE_TEST_NET_INPUT
           [(''input_name'', input_name i), (''file'', input_data_abs_paths ! i),
            (''np_type'', py_str (me_float env) (dget d ''type'')),
            (''op_shape'', py_str (me_float env) (dget d ''shape''))]) (\<lambda>t. Inr (tensor, t)))))
       (enumerate 0 ins)) (\<lambda>ts.
     bindE (generate_output_content g testcase_struct (map fst ts) (concat (map snd ts))) (\<lambda>func_content.
       Inr (func_content, int (length ins), map input_name [0..<length ins]))))"

section \<open>The network and the file\<close>

definition cust_aicpu_text :: "string \<Rightarrow> pyval \<Rightarrow> string" where
  "cust_aicpu_text op_name_lower imply_type =
     (if imply_type = PyStr ''AiCPU''
      then ''# The value of \"cust_aicpu\" is a string with removing the lib prefix and .so suffix.'' @ [CHR 0x0A]
        @ ''        self.'' @ op_name_lower @ ''.add_prim_attr(\"cust_aicpu\", \"cust_aicpu_kernels\")''
      else [])"

definition generate_net_content ::
    "ms_env \<Rightarrow> ms_gen \<Rightarrow> int \<Rightarrow> string list \<Rightarrow> pyval list \<Rightarrow> pyval \<Rightarrow> string res" where
  "generate_net_content env g input_count input_name_list ms_param_type_list imply_type =
     bindE (get_op_name g) (\<lambda>(op_name, op_name_lower).
     let cust_aicpu = cust_aicpu_text op_name_lower imply_type; attrs = dget (hd (mg_testcase_list g)) ''attr'' in
     if \<not> truthy attrs \<or> py_in (PyStr DYNAMIC_INPUT) ms_param_type_list then
       bindE (get_no_attr_input_args ms_param_type_list input_count input_name_list) (\<lambda>(input_args, inputs_str).
         py_format TESTCASE_CLASS_CONTENT_NO_ATTR
           [(''op_lower'', op_name_lower), (''op_name'', op_name), (''input_args'', input_args), (''inputs'', inputs_str),
            (''cust_aicpu'', cust_aicpu)])
     else
       bindE (py_iter attrs) (\<lambda>as.
       bindE (mapE (\<lambda>a. bindE (as_dict a) (\<lambda>a. Inr (assignment_attr_value env a))) as) (\<lambda>attr_value_list.
       bindE (py_format TESTCASE_CLASS_CONTENT_WITH_ATTR_CONSTRUCT
          [(''inputs'', s_join '','' input_name_list), (''op_lower'', op_name_lower)]) (\<lambda>attr_construct.
         py_format TESTCASE_CLASS_CONTENT_WITH_ATTR
           [(''op_name'', op_name), (''op_lower'', op_name_lower), (''attr_value'', s_join '', '' attr_value_list),
            (''attr_constrct'', attr_construct), (''cust_aicpu'', cust_aicpu)]))))"

text \<open>The network is built from the inputs of the last case.\<close>

definition test_function_step ::
    "ms_env \<Rightarrow> ms_gen \<times> string \<times> int \<times> string list \<Rightarrow> pydict \<Rightarrow> (ms_gen \<times> string \<times> int \<times> string list) res" where
  "test_function_step env st testcase_struct = (case st of (g, func_content, _, _) \<Rightarrow>
     bindE (mkdir_input_data_path env g testcase_struct) (\<lambda>(paths, g).
     bindE (generate_function_content env g testcase_struct paths) (\<lambda>(content, n, names).
       Inr (g, func_content @ content, n, names))))"

definition generate_test_function :: "ms_env \<Rightarrow> ms_gen \<Rightarrow> (string \<times> ms_gen) res" where
  "generate_test_function env g =
     bindE (get_mindspore_input_param_type env g) (\<lambda>(ms_param_type_list, imply_type).
     bindE (foldE (test_function_step env) (g, [], 1, []) (mg_testcase_list g)) (\<lambda>(g, func_content, n, names).
     bindE (generate_net_content env g n names ms_param_type_list imply_type) (\<lambda>net.
       Inr (net @ func_content, g))))"

definition generate_test_template_content :: "ms_env \<Rightarrow> ms_gen \<Rightarrow> (string \<times> ms_gen) res" where
  "generate_test_template_content env g =
     bindE (get_op_name g) (\<lambda>(op_name, op_name_lower).
     bindE (py_format TESTCASE_IMPORT_CONTENT
        [(''import_op'', op_name_lower), (''op_name'', op_name), (''device_id'', py_str (me_float env) (mg_device_id g))]) (\<lambda>hdr.
     bindE (generate_test_function env g) (\<lambda>(body, g). Inr (hdr @ body, g))))"

definition ms_stage :: "string \<Rightarrow> string \<Rightarrow> pyval \<Rightarrow> pyval \<Rightarrow> stage" where
  "ms_stage status nm result cmd = \<lparr>sr_status = PyStr status, sr_result = result, sr_stage_name = PyStr nm, sr_cmd = cmd\<rparr>"

definition rewrite_files_for_output_dir :: "ms_env \<Rightarrow> ms_gen \<Rightarrow> ms_gen res" where
  "rewrite_files_for_output_dir env g =
     bindE (generate_test_template_content env g) (\<lambda>(content, g).
     bindE (get_op_name g) (\<lambda>(_, op_name_lower).
     bindE (py_format TESTCASE_PY_RELATIVE_PATH [(''op_name'', op_name_lower)]) (\<lambda>rel.
     let py_path = mg_output_path g @ rel in
     bindE (append_content_to_file env content py_path g) (\<lambda>g.
     bindE (append_content_to_file env PYTEST_INI_CONTEN (mg_output_path g @ PYTEST_INI_RELATIVE_PATH) g) (\<lambda>g.
       Inr (g\<lparr>mg_report := add_op_st_stage_result (ms_stage SUCCESS ''gen_ms_code'' (PyStr py_path) PyNone) (mg_report g)\<rparr>))))))"

definition ms_generate :: "ms_env \<Rightarrow> ms_gen \<Rightarrow> ms_gen res" where
  "ms_generate env g = bindE (mkdir_output_dir env g) (rewrite_files_for_output_dir env)"

section \<open>The runner\<close>

record ms_runner =
  mr_path :: string
  mr_op_name :: string
  mr_soc_version :: pyval
  mr_report :: st_report
  mr_cwd :: string

record run_env =
  re_fs :: fs
  re_mkdirs :: makedirs
  re_chdir :: "string \<Rightarrow> bool"
  re_execute :: "string \<Rightarrow> string list \<Rightarrow> int"

definition runner_stage :: "string \<Rightarrow> string list \<Rightarrow> ms_runner \<Rightarrow> ms_runner" where
  "runner_stage status cmd r =
     r\<lparr>mr_report := add_op_st_stage_result (ms_stage status ''run_ms_op_test_code'' PyNone (PyStr (s_join '' '' cmd))) (mr_report r)\<rparr>"

text \<open>The report that a failed run leaves behind is the second component.\<close>

definition execute_command :: "run_env \<Rightarrow> string list \<Rightarrow> ms_runner \<Rightarrow> unit res \<times> ms_runner" where
  "execute_command env cmd r =
     (if re_execute env (mr_cwd r) cmd \<noteq> 0
      then (Inl (OpTestGenException OP_TEST_GEN_INVALID_DATA_ERROR), runner_stage FAILED cmd r)
      else (Inr (), r))"

definition test_py_path :: "ms_runner \<Rightarrow> string res" where
  "test_py_path r = bindE (py_format TEST_PY [(''op_name'', mr_op_name r)]) (\<lambda>test_file.
     Inr (path_join (path_join (mr_path r) ''src'') test_file))"

definition ms_run :: "run_env \<Rightarrow> ms_runner \<Rightarrow> unit res \<times> ms_runner" where
  "ms_run env r =
     (case bindE (test_py_path r) (\<lambda>py_path.
          bindE (raise_if (\<not> fs_exists (re_fs env) py_path) (OpTestGenException OP_TEST_GEN_INVALID_DATA_ERROR)) (\<lambda>_.
          bindE (check_path_valid (re_mkdirs env) (re_fs env) (path_dirname py_path) True) (\<lambda>_.
          bindE (raise_if (\<not> re_chdir env (path_dirname (mr_path r))) OSError) (\<lambda>_. Inr py_path)))) of
        Inl e \<Rightarrow> (Inl e, r)
      | Inr py_path \<Rightarrow>
          let cmd = [''python3'', ''-m'', ''pytest'', ''-s'', py_path] in
          (case execute_command env cmd (r\<lparr>mr_cwd := path_dirname (mr_path r)\<rparr>) of
             (Inl e, r) \<Rightarrow> (Inl e, r)
           | (Inr _, r) \<Rightarrow> (Inr (), runner_stage SUCCESS cmd r)))"

definition ms_process :: "run_env \<Rightarrow> ms_runner \<Rightarrow> unit res \<times> ms_runner" where
  "ms_process env r = ms_run env r"

section \<open>What a generated program reads\<close>

lemma no_slash_end:
  assumes "op \<noteq> []" and "CHR ''/'' \<notin> set op"
  shows "\<not> endswith (a @ op) ''/''"
proof -
  from assms obtain o' c where "op = o' @ [c]" "c \<noteq> CHR ''/''" by (cases op rule: rev_cases) auto
  then show ?thesis by (auto simp: endswith_iff)
qed

lemma no_slash_start: "op \<noteq> [] \<Longrightarrow> CHR ''/'' \<notin> set op \<Longrightarrow> \<not> startswith (op @ w) ''/''"
  by (cases op) (auto simp: startswith_def)

lemma below_directory:
  assumes "\<not> endswith out ''/''" and "out \<noteq> []" and "\<not> startswith b ''/''"
  shows "path_join out b = out @ ''/'' @ b"
  using assms by (simp add: path_join_def)

lemma operator_directory:
  assumes "\<not> endswith out ''/''" and "out \<noteq> []" and "op \<noteq> []" and "CHR ''/'' \<notin> set op"
  shows "path_join out op = out @ ''/'' @ op" "path_basename (out @ ''/'' @ op) = op" "path_dirname (out @ ''/'' @ op) = out"
proof -
  from assms(3,4) have op: "\<not> startswith op ''/''" by (cases op) (auto simp: startswith_def)
  with assms(1,2) show "path_join out op = out @ ''/'' @ op" by (rule below_directory)
  have tw: "takeWhile (\<lambda>c. c \<noteq> CHR ''/'') (rev op @ CHR ''/'' # rev out) = rev op"
    using assms(4) by (subst takeWhile_append2) auto
  have dw: "dropWhile (\<lambda>c. c \<noteq> CHR ''/'') (rev op @ CHR ''/'' # rev out) = CHR ''/'' # rev out"
    using assms(4) by (subst dropWhile_append2) auto
  from tw show "path_basename (out @ ''/'' @ op) = op" by (simp add: path_basename_def)
  from assms(2) obtain o' c where o': "out = o' @ [c]" by (cases out rule: rev_cases) auto
  with assms(1) have "c \<noteq> CHR ''/''" by (auto simp: endswith_def)
  with o' dw show "path_dirname (out @ ''/'' @ op) = out"
    by (simp add: path_dirname_def s_rstrip_def)
qed

text \<open>C1. A generated test finds its inputs, when the output directory is given by an absolute path without a slash at its
  end, the operator's name is not empty and has no slash, the case name does not start with one, and the mode is not
  \<^verbatim>\<open>mi\<close>: seen from the directory in which the runner starts it, the file it names for an input of a case is the file that
  the data generator writes for this input. (With a relative path the two differ: lemma \<open>output_path_twice\<close>.)\<close>

theorem generated_test_reads_inputs:
  assumes "check_output_path mk f out cases False = Inr (outp, f')" and "data_output_path cases out False = Inr dp"
    and "dget (hd cases) ''op'' = PyStr op" and "op \<noteq> []" "CHR ''/'' \<notin> set op"
    and "startswith out ''/''" "\<not> endswith out ''/''" "\<not> startswith nm ''/''" "i < n"
  shows "path_join (path_dirname outp) (input_data_paths_of outp nm n ! i) = input_file_path dp nm i"
proof -
  have out: "out \<noteq> []" using assms(6) by (auto simp: startswith_def)
  note dirs = operator_directory [OF assms(7) out assms(4,5)]
  from assms(2) obtain c cs where cs: "cases = c # cs" by (cases cases) (auto simp: data_output_path_def)
  with assms(3) have op: "dget c ''op'' = PyStr op" by simp
  from assms(1) op have outp: "outp = out @ ''/'' @ op"
    by (auto simp: check_output_path_def dirs(1) Let_def cs split: if_splits option.splits)
  from assms(2) op have dp: "dp = path_join (path_join out (out @ ''/'' @ op)) ''run/out/test_data/data''"
    by (auto simp: data_output_path_def ditem_dget py_name_def dirs(1) ditem_def dget_def cs split: option.splits)
  have absolute: "startswith (out @ ''/'' @ op) ''/''" using assms(6) by (auto simp: startswith_iff)
  have "path_join (out @ ''/'' @ op) ''run/out/test_data/data'' = (out @ ''/'' @ op) @ ''/'' @ ''run/out/test_data/data''"
    by (rule below_directory) (use no_slash_end [OF assms(4,5), of "out @ ''/''"] out in \<open>auto simp: startswith_def\<close>)
  then have dp': "dp = out @ ''/'' @ op @ ''/run/out/test_data/data''"
    unfolding dp using absolute by (simp add: path_join_def)
  let ?file = "nm @ ''_input_'' @ str_nat i @ ''.bin''"
  have nm: "\<not> startswith (nm @ CHR ''_'' # u) ''/''" for u
    using assms(8) by (cases nm) (auto simp: startswith_def)
  have run: "path_join op ''run'' = op @ ''/'' @ ''run''"
    by (rule below_directory) (use no_slash_end [OF assms(4,5), of "[]"] assms(4) in \<open>auto simp: startswith_def\<close>)
  have "path_join (op @ ''/'' @ ''run'') ''out'' = (op @ ''/'' @ ''run'') @ ''/'' @ ''out''"
    by (rule below_directory) (use no_slash_end [of "''run''" "op @ ''/''"] in \<open>auto simp: startswith_def\<close>)
  moreover have "path_join ''test_data/data/'' (nm @ ''_input_'' @ str_nat i) = ''test_data/data/'' @ nm @ ''_input_'' @ str_nat i"
    using nm [of "''input_'' @ str_nat i"] by (simp add: path_join_def endswith_def)
  moreover have "path_join (op @ ''/'' @ ''run/out'') (''test_data/data/'' @ ?file) = (op @ ''/'' @ ''run/out'') @ ''/'' @ ''test_data/data/'' @ ?file"
    by (rule below_directory) (use no_slash_end [of "''out''" "op @ ''/'' @ ''run/''"] in \<open>auto simp: startswith_def\<close>)
  ultimately have path: "input_data_paths_of outp nm n ! i = op @ ''/run/out/test_data/data/'' @ ?file"
    using assms(9) dirs(2) run by (simp add: input_data_paths_of_def outp)
  have "path_join out (op @ w) = out @ ''/'' @ op @ w" for w
    by (rule below_directory [OF assms(7) out]) (rule no_slash_start [OF assms(4,5)])
  moreover have "path_join (out @ ''/'' @ op @ ''/run/out/test_data/data'') ?file
      = (out @ ''/'' @ op @ ''/run/out/test_data/data'') @ ''/'' @ ?file"
    by (rule below_directory) (use no_slash_end [of "''data''" "out @ ''/'' @ op @ ''/run/out/test_data/''"]
        nm [of "''input_'' @ str_nat i @ ''.bin''"] in \<open>auto\<close>)
  ultimately show ?thesis unfolding path input_file_path_def dp' unfolding outp dirs(3) by simp
qed

section \<open>What a run of the generator leaves behind\<close>

text \<open>The cases are processed without touching the files and the stages.\<close>

definition same_outside :: "ms_gen \<Rightarrow> ms_gen \<Rightarrow> bool" where
  "same_outside g g' \<longleftrightarrow> mg_files g' = mg_files g \<and> mg_output_path g' = mg_output_path g
     \<and> mg_testcase_list g' = mg_testcase_list g \<and> mg_device_id g' = mg_device_id g
     \<and> stages (mg_report g') = stages (mg_report g)
     \<and> map (stage_result \<circ> trace_detail) (report_list (mg_report g')) = map (stage_result \<circ> trace_detail) (report_list (mg_report g))"

lemma same_outside_refl: "same_outside g g"
  by (simp add: same_outside_def)

lemma same_outside_trans: "same_outside g h \<Longrightarrow> same_outside h k \<Longrightarrow> same_outside g k"
  by (simp add: same_outside_def)

lemma shown_by_refs:
  "shown_stages rpt = map (map ((!) (stages rpt))) (map (stage_result \<circ> trace_detail) (report_list rpt))"
  by (simp add: shown_stages_def trace_stages_def)

lemma ok_by_refs:
  "report_ok rpt \<longleftrightarrow> list_all (list_all (\<lambda>r. r < length (stages rpt))) (map (stage_result \<circ> trace_detail) (report_list rpt))"
  by (simp add: report_ok_def refs_ok_def list.pred_map comp_def)

lemma same_outside_shown:
  assumes "same_outside g g'"
  shows "shown_stages (mg_report g') = shown_stages (mg_report g)" "report_ok (mg_report g') \<longleftrightarrow> report_ok (mg_report g)"
  using assms unfolding shown_by_refs ok_by_refs same_outside_def by simp_all

lemma mkdir_input_same: "mkdir_input_data_path env g c = Inr (ps, g') \<Longrightarrow> same_outside g g'"
  by (auto simp: mkdir_input_data_path_def same_outside_def Let_def comp_def split: option.splits)

lemma test_function_same:
  "test_function_step env st c = Inr st' \<Longrightarrow> same_outside (fst st) (fst st')"
  by (cases st) (auto simp: test_function_step_def dest: mkdir_input_same)

lemma test_functions_same:
  assumes "foldE (test_function_step env) st cs = Inr st'"
  shows "same_outside (fst st) (fst st')"
  by (rule foldE_inv [OF assms, where P = "\<lambda>s. same_outside (fst st) (fst s)"])
     (auto intro: same_outside_refl same_outside_trans test_function_same)

lemma template_content_same:
  assumes "generate_test_template_content env g = Inr (content, g')"
  shows "same_outside g g'"
proof -
  from assms obtain body where "generate_test_function env g = Inr (body, g')"
    by (auto simp: generate_test_template_content_def)
  then obtain fc n names where "foldE (test_function_step env) (g, [], 1, []) (mg_testcase_list g) = Inr (g', fc, n, names)"
    by (auto simp: generate_test_function_def)
  from test_functions_same [OF this] show ?thesis by simp
qed

lemma py_path_text: "py_format TESTCASE_PY_RELATIVE_PATH [(''op_name'', op)] = Inr (''/src/test_'' @ op @ ''.py'')"
proof -
  have "TESTCASE_PY_RELATIVE_PATH = template_of [Txt ''/src/test_'', Field ''op_name'', Txt ''.py'']" by (simp add: template_of_def)
  then show ?thesis by (simp add: format_pieces field_name_def ditem_def)
qed

text \<open>C1. When the generator succeeds it has written two files, the test program, named after the operator, and the
  configuration of \<^verbatim>\<open>pytest\<close>, and every case of the report shows the new stage, with the path of the program.\<close>

theorem ms_generate_leaves:
  assumes "ms_generate env g = Inr g'" and "report_ok (mg_report g)"
  shows "\<exists>op content. dget (hd (mg_testcase_list g)) ''op'' = PyStr op
    \<and> (let py = mg_output_path g @ ''/src/test_'' @ fix_name_lower_with_under op @ ''.py'';
           s = ms_stage SUCCESS ''gen_ms_code'' (PyStr py) PyNone in
       mg_files g' = mg_files g @ [(py, content), (mg_output_path g @ ''/src/pytest.ini'', PYTEST_INI_CONTEN)]
       \<and> shown_stages (mg_report g') = map (\<lambda>ss. map (overwrite s) ss @ [s]) (shown_stages (mg_report g)))"
proof -
  from assms(1) obtain f where "rewrite_files_for_output_dir env (g\<lparr>mg_fs := f\<rparr>) = Inr g'"
    by (auto simp: ms_generate_def mkdir_output_dir_def)
  moreover have "same_outside g (g\<lparr>mg_fs := f\<rparr>)" by (simp add: same_outside_def)
  ultimately obtain g1 where g1: "same_outside g g1" and rw: "rewrite_files_for_output_dir env g1 = Inr g'" by blast
  from rw obtain content g2 where gen: "generate_test_template_content env g1 = Inr (content, g2)"
    and rest: "bindE (get_op_name g2) (\<lambda>(_, op_name_lower).
      bindE (py_format TESTCASE_PY_RELATIVE_PATH [(''op_name'', op_name_lower)]) (\<lambda>rel.
      let py_path = mg_output_path g2 @ rel in
      bindE (append_content_to_file env content py_path g2) (\<lambda>g.
      bindE (append_content_to_file env PYTEST_INI_CONTEN (mg_output_path g @ PYTEST_INI_RELATIVE_PATH) g) (\<lambda>g.
        Inr (g\<lparr>mg_report := add_op_st_stage_result (ms_stage SUCCESS ''gen_ms_code'' (PyStr py_path) PyNone) (mg_report g)\<rparr>))))) = Inr g'"
    unfolding rewrite_files_for_output_dir_def by auto
  from same_outside_trans [OF g1 template_content_same [OF gen]] have same: "same_outside g g2" .
  from rest obtain op low where op: "get_op_name g2 = Inr (op, low)" by auto
  then have op': "dget (hd (mg_testcase_list g)) ''op'' = PyStr op" "low = fix_name_lower_with_under op"
    using same by (auto simp: get_op_name_def same_outside_def py_name_def split: list.splits pyval.splits)
  have ok: "report_ok (mg_report g2)" using same_outside_shown(2) [OF same] assms(2) by simp
  show ?thesis
    by (rule exI [of _ op], rule exI [of _ content])
       (use rest op op' same shown_after_stage [OF ok] same_outside_shown(1) [OF same] in
         \<open>auto simp: py_path_text Let_def append_content_to_file_def same_outside_def split: if_splits\<close>)
qed

section \<open>An example, and what goes wrong\<close>

definition ms_case :: pydict where
  "ms_case = [(''case_name'', PyStr ''Add_case_1''), (''op'', PyStr ''Add''),
     (''input_desc'', PyList [PyDict [(''type'', PyStr ''float16''), (''shape'', PyList [PyInt 8])]]),
     (''output_desc'', PyList [PyDict [(''type'', PyStr ''float16''), (''shape'', PyList [PyInt 8])]])]"

definition ms_env_ex :: ms_env where
  "ms_env_ex = \<lparr>me_import = (\<lambda>m a. Inr (PyDict [(''inputs'', PyList [PyDict [(''param_type'', PyStr ''required'')]]),
       (''imply_type'', PyStr ''AiCPU'')])), me_float = (\<lambda>_. ''0.0''), me_can_write = (\<lambda>_. True),
     me_mkdirs = mkdir_one, me_dumps = (\<lambda>_. Inl TypeError)\<rparr>"

definition ms_gen_ex :: ms_gen where
  "ms_gen_ex = \<lparr>mg_testcase_list = [ms_case], mg_machine_type = False, mg_output_path = ''/o/Add'',
     mg_report = add_case_report (new_report PyNone) (new_case_report \<lparr>st_case_info = new_case (PyStr ''Add_case_1'') PyNone, stage_result = []\<rparr>),
     mg_device_id = PyInt 0, mg_fs = empty_fs, mg_files = []\<rparr>"

theorem generated_test_reads_inputs_witness:
  "path_join ''/o'' (input_data_paths_of ''/o/Add'' ''Add_case_1'' 1 ! 0)
     = input_file_path ''/o/Add/run/out/test_data/data'' ''Add_case_1'' 0"
proof -
  have outp: "map_sum id fst (check_output_path mkdir_one empty_fs ''/o'' [ms_case] False) = Inr ''/o/Add''" by code_simp
  then obtain f' where check: "check_output_path mkdir_one empty_fs ''/o'' [ms_case] False = Inr (''/o/Add'', f')"
    by (cases "check_output_path mkdir_one empty_fs ''/o'' [ms_case] False") auto
  have dp: "data_output_path [ms_case] ''/o'' False = Inr ''/o/Add/run/out/test_data/data''" by code_simp
  have "path_dirname ''/o/Add'' = ''/o''" by code_simp
  with generated_test_reads_inputs [OF check dp, of "''Add''" "''Add_case_1''" 0 1] show ?thesis
    by (simp add: ms_case_def dget_def startswith_def endswith_def)
qed

theorem ms_generate_leaves_witness:
  "\<exists>g' content. ms_generate ms_env_ex ms_gen_ex = Inr g' \<and>
     mg_files g' = [(''/o/Add/src/test_add.py'', content), (''/o/Add/src/pytest.ini'', PYTEST_INI_CONTEN)]"
proof -
  have "\<not> isl (ms_generate ms_env_ex ms_gen_ex)" by code_simp
  then obtain g' where g': "ms_generate ms_env_ex ms_gen_ex = Inr g'" by (cases "ms_generate ms_env_ex ms_gen_ex") auto
  have ok: "report_ok (mg_report ms_gen_ex)" by code_simp
  have name: "fix_name_lower_with_under ''Add'' = ''add''" by code_simp
  from ms_generate_leaves [OF g' ok] name g' show ?thesis
    by (auto simp: Let_def ms_gen_ex_def ms_case_def dget_def)
qed

text \<open>With one dynamic input among others its tensors are counted one short, and the next one is skipped: of the three
  inputs below the second reaches nothing.\<close>

lemma dynamic_input_lost:
  "get_dynamic_input_info [PyStr ''dynamic'', PyStr ''required''] 3 [''input0'', ''input1'', ''input2'']
     = Inr (''input0,input1,input2'', ''(input0),input2'')"
  by code_simp

text \<open>The handler of a file that cannot be written raises an error of its own.\<close>

lemma write_error_hidden: "\<not> me_can_write env p \<Longrightarrow> append_content_to_file env c p g = Inl TypeError"
  by (simp add: append_content_to_file_def)

text \<open>A failing process leaves the stage \<^verbatim>\<open>FAILED\<close> with every case, a missing program leaves none.\<close>

lemma execute_failed:
  assumes "re_execute env (mr_cwd r) cmd \<noteq> 0" and "report_ok (mr_report r)"
  shows "fst (execute_command env cmd r) = Inl (OpTestGenException OP_TEST_GEN_INVALID_DATA_ERROR)"
    and "shown_stages (mr_report (snd (execute_command env cmd r)))
      = map (\<lambda>ss. map (overwrite (ms_stage FAILED ''run_ms_op_test_code'' PyNone (PyStr (s_join '' '' cmd)))) ss
          @ [ms_stage FAILED ''run_ms_op_test_code'' PyNone (PyStr (s_join '' '' cmd))]) (shown_stages (mr_report r))"
  using assms by (simp_all add: execute_command_def runner_stage_def shown_after_stage)

lemma missing_program_unreported:
  "test_py_path r = Inr p \<Longrightarrow> \<not> fs_exists (re_fs env) p \<Longrightarrow>
     ms_run env r = (Inl (OpTestGenException OP_TEST_GEN_INVALID_DATA_ERROR), r)"
  by (simp add: ms_run_def)

end
