(* ===== verification/Py_Json.thy ===== *)
theory Py_Json
  imports Utils Py_Number "HOL-Library.Multiset"
begin

text \<open>
  The part of Python's \<^verbatim>\<open>json\<close> that the program uses: \<^verbatim>\<open>json.dumps\<close> with an indentation, sorted keys or
  not, and \<^verbatim>\<open>json.loads\<close>. Texts are ASCII: for other characters the standard library writes an escape of
  the code point, which the model leaves as it is. The decimal text of a finite double is the argument
  \<open>fr\<close>, as in the texts of values. A reader runs in two steps, words first, then values; the fuel of the
  second bounds the calls, of which at most two fall on a word. Proved: reading what was written gives the
  value back, with tuples read as lists.
\<close>

section \<open>Writing\<close>

definition json_char :: "char \<Rightarrow> string" where
  "json_char c =
     (if c = CHR 0x22 \<or> c = CHR 0x5C then [CHR 0x5C, c]
      else if c = CHR 0x0A then [CHR 0x5C, CHR ''n'']
      else if c = CHR 0x0D then [CHR 0x5C, CHR ''r'']
      else if c = CHR 0x09 then [CHR 0x5C, CHR ''t'']
      else if c = CHR 0x0C then [CHR 0x5C, CHR ''f'']
      else if c = CHR 0x08 then [CHR 0x5C, CHR ''b'']
      else if (of_char c :: nat) < 32
      then [CHR 0x5C, CHR ''u'', CHR ''0'', CHR ''0'',
            hex_digit (of_char c div 16), hex_digit (of_char c mod 16)]
      else [c])"

definition json_str :: "string \<Rightarrow> string" where
  "json_str s = CHR 0x22 # concat (map json_char s) @ [CHR 0x22]"

definition json_float :: "(pyfloat \<Rightarrow> string) \<Rightarrow> pyfloat \<Rightarrow> string" where
  "json_float fr f =
     (case f of Fin q \<Rightarrow> fr f | PInf \<Rightarrow> ''Infinity'' | NInf \<Rightarrow> ''-Infinity'' | NaN \<Rightarrow> ''NaN'')"

definition new_line :: "nat \<Rightarrow> nat \<Rightarrow> string" where
  "new_line ind level = CHR 0x0A # replicate (ind * level) CHR '' ''"

definition json_block :: "nat \<Rightarrow> nat \<Rightarrow> char \<Rightarrow> char \<Rightarrow> string list \<Rightarrow> string" where
  "json_block ind level opening closing items =
     (if items = [] then [opening, closing]
      else opening # new_line ind (Suc level) @ s_join (CHR '','' # new_line ind (Suc level)) items
           @ new_line ind level @ [closing])"

fun json_text :: "(pyfloat \<Rightarrow> string) \<Rightarrow> nat \<Rightarrow> nat \<Rightarrow> pyval \<Rightarrow> string"
  and json_items :: "(pyfloat \<Rightarrow> string) \<Rightarrow> nat \<Rightarrow> nat \<Rightarrow> pyval list \<Rightarrow> string list"
  and json_pairs :: "(pyfloat \<Rightarrow> string) \<Rightarrow> nat \<Rightarrow> nat \<Rightarrow> pydict \<Rightarrow> string list" where
  "json_text fr ind level PyNone = ''null''"
| "json_text fr ind level (PyBool b) = (if b then ''true'' else ''false'')"
| "json_text fr ind level (PyInt i) = str_int i"
| "json_text fr ind level (PyFloat f) = json_float fr f"
| "json_text fr ind level (PyStr s) = json_str s"
| "json_text fr ind level (PyList xs) =
     json_block ind level CHR ''['' CHR '']'' (json_items fr ind (Suc level) xs)"
| "json_text fr ind level (PyTuple xs) =
     json_block ind level CHR ''['' CHR '']'' (json_items fr ind (Suc level) xs)"
| "json_text fr ind level (PyDict d) =
     json_block ind level CHR ''{'' CHR ''}'' (json_pairs fr ind (Suc level) d)"
| "json_items fr ind level [] = []"
| "json_items fr ind level (x # xs) = json_text fr ind level x # json_items fr ind level xs"
| "json_pairs fr ind level [] = []"
| "json_pairs fr ind level ((k, v) # d) =
     (json_str k @ '': '' @ json_text fr ind level v) # json_pairs fr ind level d"

text \<open>The order of the keys under \<^verbatim>\<open>sort_keys=True\<close>, that of the character codes.\<close>

fun str_le :: "string \<Rightarrow> string \<Rightarrow> bool" where
  "str_le [] t = True"
| "str_le (c # s) [] = False"
| "str_le (c # s) (d # t) =
     ((of_char c :: nat) < of_char d \<or> c = d \<and> str_le s t)"

fun insert_key :: "string \<times> 'a \<Rightarrow> (string \<times> 'a) list \<Rightarrow> (string \<times> 'a) list" where
  "insert_key p [] = [p]"
| "insert_key p (q # qs) = (if str_le (fst p) (fst q) then p # q # qs else q # insert_key p qs)"

definition sort_keys :: "(string \<times> 'a) list \<Rightarrow> (string \<times> 'a) list" where
  "sort_keys d = foldr insert_key d []"

fun sort_value :: "pyval \<Rightarrow> pyval"
  and sort_items :: "pyval list \<Rightarrow> pyval list"
  and sort_pairs :: "pydict \<Rightarrow> pydict" where
  "sort_value (PyList xs) = PyList (sort_items xs)"
| "sort_value (PyTuple xs) = PyTuple (sort_items xs)"
| "sort_value (PyDict d) = PyDict (sort_keys (sort_pairs d))"
| "sort_value v = v"
| "sort_items [] = []"
| "sort_items (x # xs) = sort_value x # sort_items xs"
| "sort_pairs [] = []"
| "sort_pairs ((k, v) # d) = (k, sort_value v) # sort_pairs d"

definition json_dumps :: "(pyfloat \<Rightarrow> string) \<Rightarrow> bool \<Rightarrow> nat \<Rightarrow> pyval \<Rightarrow> string" where
  "json_dumps fr by_key ind v = json_text fr ind 0 (if by_key then sort_value v else v)"

section \<open>Reading\<close>

datatype word = Sym char | Val pyval

definition hex_value :: "char \<Rightarrow> nat option" where
  "hex_value c =
     (let n = (of_char c :: nat) in
      if c_digit c then Some (n - 48)
      else if 97 \<le> n \<and> n \<le> 102 then Some (n - 87)
      else if 65 \<le> n \<and> n \<le> 70 then Some (n - 55)
      else None)"

definition hex4 :: "char \<Rightarrow> char \<Rightarrow> char \<Rightarrow> char \<Rightarrow> nat option" where
  "hex4 a b c d =
     (case (hex_value a, hex_value b, hex_value c, hex_value d) of
        (Some p, Some q, Some r, Some s) \<Rightarrow> Some (((p * 16 + q) * 16 + r) * 16 + s)
      | _ \<Rightarrow> None)"

text \<open>The bytes of a code point in UTF-8.\<close>

definition utf8 :: "nat \<Rightarrow> string" where
  "utf8 n =
     (if n < 128 then [char_of n]
      else if n < 2048 then [char_of (192 + n div 64), char_of (128 + n mod 64)]
      else [char_of (224 + n div 4096), char_of (128 + n div 64 mod 64), char_of (128 + n mod 64)])"

definition plain_escape :: "char \<Rightarrow> char option" where
  "plain_escape e =
     map_of [(CHR 0x22, CHR 0x22), (CHR 0x5C, CHR 0x5C), (CHR ''/'', CHR ''/''), (CHR ''b'', CHR 0x08),
       (CHR ''f'', CHR 0x0C), (CHR ''n'', CHR 0x0A), (CHR ''r'', CHR 0x0D), (CHR ''t'', CHR 0x09)] e"

fun read_str :: "string \<Rightarrow> (string \<times> string) option" where
  "read_str [] = None"
| "read_str (c # cs) =
     (if c = CHR 0x22 then Some ([], cs)
      else if c = CHR 0x5C then
        (case cs of
           e # es \<Rightarrow>
             (if e = CHR ''u'' then
                (case es of
                   h1 # h2 # h3 # h4 # ds \<Rightarrow>
                     (case hex4 h1 h2 h3 h4 of
                        Some n \<Rightarrow> map_option (\<lambda>(s, r). (utf8 n @ s, r)) (read_str ds)
                      | None \<Rightarrow> None)
                 | _ \<Rightarrow> None)
              else (case plain_escape e of
                      Some x \<Rightarrow> map_option (\<lambda>(s, r). (x # s, r)) (read_str es)
                    | None \<Rightarrow> None))
         | [] \<Rightarrow> None)
      else if (of_char c :: nat) < 32 then None
      else map_option (\<lambda>(s, r). (c # s, r)) (read_str cs))"

text \<open>A number: an integer part without leading zeros, then a fraction and an exponent.\<close>

definition exponent_ok :: "string \<Rightarrow> bool" where
  "exponent_ok r \<longleftrightarrow>
     r = [] \<or> (is_exp_mark (hd r) \<and>
       (let s = tl r; ds = (if s \<noteq> [] \<and> (hd s = CHR ''+'' \<or> hd s = CHR ''-'') then tl s else s)
        in ds \<noteq> [] \<and> list_all c_digit ds))"

definition fraction_ok :: "string \<Rightarrow> bool" where
  "fraction_ok r \<longleftrightarrow>
     (if r \<noteq> [] \<and> hd r = CHR ''.''
      then takeWhile c_digit (tl r) \<noteq> [] \<and> exponent_ok (dropWhile c_digit (tl r))
      else exponent_ok r)"

definition json_number :: "string \<Rightarrow> pyval option" where
  "json_number text =
     (let neg = (text \<noteq> [] \<and> hd text = CHR ''-''); t = (if neg then tl text else text);
          ip = takeWhile c_digit t; rest = dropWhile c_digit t in
      if ip = [] \<or> (hd ip = CHR ''0'' \<and> ip \<noteq> ''0'') then None
      else if rest = [] then Some (PyInt (if neg then - int (digits_value ip) else int (digits_value ip)))
      else if fraction_ok rest then map_option PyFloat (py_float_of text)
      else None)"

definition number_char :: "char \<Rightarrow> bool" where
  "number_char c \<longleftrightarrow> c_digit c \<or> is_exp_mark c \<or> c = CHR ''+'' \<or> c = CHR ''-'' \<or> c = CHR ''.''"

definition letter :: "char \<Rightarrow> bool" where
  "letter c \<longleftrightarrow> c_lower c \<or> c_upper c"

definition json_name :: "string \<Rightarrow> pyval option" where
  "json_name s =
     map_of [(''null'', PyNone), (''true'', PyBool True), (''false'', PyBool False),
       (''NaN'', PyFloat NaN), (''Infinity'', PyFloat PInf)] s"

definition json_space :: "char \<Rightarrow> bool" where
  "json_space c \<longleftrightarrow> c = CHR '' '' \<or> c = CHR 0x09 \<or> c = CHR 0x0A \<or> c = CHR 0x0D"

lemma dropWhile_shorter: "length (dropWhile P cs) \<le> length cs"
  by (rule length_dropWhile_le)

lemma read_str_shorter: "read_str cs = Some (s, r) \<Longrightarrow> length r < length cs"
  by (induction cs arbitrary: s r rule: read_str.induct)
    (auto split: if_splits list.splits option.splits, fastforce+)

function read_words :: "string \<Rightarrow> word list option" where
  "read_words [] = Some []"
| "read_words (c # cs) =
     (if json_space c then read_words cs
      else if c \<in> set ''[]{}:,'' then map_option ((#) (Sym c)) (read_words cs)
      else if c = CHR 0x22 then
        (case read_str cs of
           Some (s, r) \<Rightarrow> map_option ((#) (Val (PyStr s))) (read_words r)
         | None \<Rightarrow> None)
      else if c = CHR ''-'' \<and> takeWhile letter cs = ''Infinity'' then
        map_option ((#) (Val (PyFloat NInf))) (read_words (dropWhile letter cs))
      else if c_digit c \<or> c = CHR ''-'' then
        (case json_number (c # takeWhile number_char cs) of
           Some v \<Rightarrow> map_option ((#) (Val v)) (read_words (dropWhile number_char cs))
         | None \<Rightarrow> None)
      else
        (case json_name (c # takeWhile letter cs) of
           Some v \<Rightarrow> map_option ((#) (Val v)) (read_words (dropWhile letter cs))
         | None \<Rightarrow> None))"
  by pat_completeness auto
termination
  by (relation "measure length") (auto dest: read_str_shorter simp: le_imp_less_Suc dropWhile_shorter)

declare read_words.simps [simp del]

fun read_value :: "nat \<Rightarrow> word list \<Rightarrow> (pyval \<times> word list) option"
  and read_elems :: "nat \<Rightarrow> word list \<Rightarrow> (pyval list \<times> word list) option"
  and read_members :: "nat \<Rightarrow> pydict \<Rightarrow> word list \<Rightarrow> (pydict \<times> word list) option" where
  "read_value 0 ws = None"
| "read_value (Suc n) ws =
     (case ws of
        Val v # r \<Rightarrow> Some (v, r)
      | Sym c # r \<Rightarrow>
          if c = CHR ''['' then
            (case r of
               Sym d # r' \<Rightarrow> if d = CHR '']'' then Some (PyList [], r')
                 else map_option (\<lambda>(xs, t). (PyList xs, t)) (read_elems n r)
             | _ \<Rightarrow> map_option (\<lambda>(xs, t). (PyList xs, t)) (read_elems n r))
          else if c = CHR ''{'' then
            (case r of
               Sym d # r' \<Rightarrow> if d = CHR ''}'' then Some (PyDict [], r') else None
             | _ \<Rightarrow> map_option (\<lambda>(d, t). (PyDict d, t)) (read_members n [] r))
          else None
      | [] \<Rightarrow> None)"
| "read_elems 0 ws = None"
| "read_elems (Suc n) ws =
     (case read_value n ws of
        Some (v, Sym c # r) \<Rightarrow>
          if c = CHR '']'' then Some ([v], r)
          else if c = CHR '','' then map_option (\<lambda>(xs, t). (v # xs, t)) (read_elems n r)
          else None
      | _ \<Rightarrow> None)"
| "read_members 0 d ws = None"
| "read_members (Suc n) d ws =
     (case ws of
        Val (PyStr k) # Sym c # r \<Rightarrow>
          if c = CHR '':'' then
            (case read_value n r of
               Some (v, Sym e # t) \<Rightarrow>
                 if e = CHR ''}'' then Some (dset d k v, t)
                 else if e = CHR '','' then read_members n (dset d k v) t
                 else None
             | _ \<Rightarrow> None)
          else None
      | _ \<Rightarrow> None)"

text \<open>\<^verbatim>\<open>JSONDecodeError\<close> is a \<^verbatim>\<open>ValueError\<close>.\<close>

definition json_loads :: "string \<Rightarrow> pyval res" where
  "json_loads text =
     (case read_words text of
        None \<Rightarrow> Inl ValueError
      | Some ws \<Rightarrow>
          (case read_value (2 * length ws + 2) ws of
             Some (v, []) \<Rightarrow> Inr v
           | _ \<Rightarrow> Inl ValueError))"

section \<open>What was written is read back\<close>

fun words_of :: "pyval \<Rightarrow> word list"
  and words_of_items :: "pyval list \<Rightarrow> word list list"
  and words_of_pairs :: "pydict \<Rightarrow> word list list" where
  "words_of (PyList xs) = Sym CHR ''['' # concat (words_of_items xs) @ [Sym CHR '']'']"
| "words_of (PyTuple xs) = Sym CHR ''['' # concat (words_of_items xs) @ [Sym CHR '']'']"
| "words_of (PyDict d) = Sym CHR ''{'' # concat (words_of_pairs d) @ [Sym CHR ''}'']"
| "words_of v = [Val v]"
| "words_of_items [] = []"
| "words_of_items (x # xs) =
     (words_of x @ (if xs = [] then [] else [Sym CHR '','' ])) # words_of_items xs"
| "words_of_pairs [] = []"
| "words_of_pairs ((k, v) # d) =
     (Val (PyStr k) # Sym CHR '':'' # words_of v @ (if d = [] then [] else [Sym CHR '','' ]))
       # words_of_pairs d"

text \<open>Tuples become lists.\<close>

fun as_json :: "pyval \<Rightarrow> pyval"
  and as_json_items :: "pyval list \<Rightarrow> pyval list"
  and as_json_pairs :: "pydict \<Rightarrow> pydict" where
  "as_json (PyList xs) = PyList (as_json_items xs)"
| "as_json (PyTuple xs) = PyList (as_json_items xs)"
| "as_json (PyDict d) = PyDict (as_json_pairs d)"
| "as_json v = v"
| "as_json_items [] = []"
| "as_json_items (x # xs) = as_json x # as_json_items xs"
| "as_json_pairs [] = []"
| "as_json_pairs ((k, v) # d) = (k, as_json v) # as_json_pairs d"

definition ascii :: "string \<Rightarrow> bool" where
  "ascii s \<longleftrightarrow> list_all (\<lambda>c. (of_char c :: nat) < 128) s"

text \<open>A text of a finite double that reads as that double and no integer.\<close>

definition float_text_ok :: "(pyfloat \<Rightarrow> string) \<Rightarrow> pyfloat \<Rightarrow> bool" where
  "float_text_ok fr f \<longleftrightarrow>
     (case f of
        Fin q \<Rightarrow> fr f \<noteq> [] \<and> (c_digit (hd (fr f)) \<or> hd (fr f) = CHR ''-'' \<and> tl (fr f) \<noteq> [] \<and> c_digit (hd (tl (fr f))))
          \<and> list_all number_char (fr f) \<and> json_number (fr f) = Some (PyFloat f)
      | _ \<Rightarrow> True)"

fun json_ok :: "(pyfloat \<Rightarrow> string) \<Rightarrow> pyval \<Rightarrow> bool"
  and json_ok_items :: "(pyfloat \<Rightarrow> string) \<Rightarrow> pyval list \<Rightarrow> bool"
  and json_ok_pairs :: "(pyfloat \<Rightarrow> string) \<Rightarrow> pydict \<Rightarrow> bool" where
  "json_ok fr (PyStr s) = ascii s"
| "json_ok fr (PyFloat f) = float_text_ok fr f"
| "json_ok fr (PyList xs) = json_ok_items fr xs"
| "json_ok fr (PyTuple xs) = json_ok_items fr xs"
| "json_ok fr (PyDict d) = (distinct (map fst d) \<and> json_ok_pairs fr d)"
| "json_ok fr v = True"
| "json_ok_items fr [] = True"
| "json_ok_items fr (x # xs) = (json_ok fr x \<and> json_ok_items fr xs)"
| "json_ok_pairs fr [] = True"
| "json_ok_pairs fr ((k, v) # d) = (ascii k \<and> json_ok fr v \<and> json_ok_pairs fr d)"

subsection \<open>Texts\<close>

lemma hex_value_digit: "n < 16 \<Longrightarrow> hex_value (hex_digit n) = Some n"
  by (cases "n < 10") (simp_all add: hex_value_def hex_digit_def c_digit_def Let_def)

lemma hex_value_zero: "hex_value CHR ''0'' = Some 0"
  by (simp add: hex_value_def c_digit_def)

lemma hex4_control:
  "n < 32 \<Longrightarrow> hex4 CHR ''0'' CHR ''0'' (hex_digit (n div 16)) (hex_digit (n mod 16)) = Some n"
  by (simp add: hex4_def hex_value_zero hex_value_digit)

lemma plain_escapes:
  "plain_escape CHR 0x22 = Some CHR 0x22" "plain_escape CHR 0x5C = Some CHR 0x5C"
  "plain_escape CHR ''n'' = Some CHR 0x0A" "plain_escape CHR ''r'' = Some CHR 0x0D"
  "plain_escape CHR ''t'' = Some CHR 0x09" "plain_escape CHR ''f'' = Some CHR 0x0C"
  "plain_escape CHR ''b'' = Some CHR 0x08"
  by (simp_all add: plain_escape_def)

lemma json_char_cases:
  obtains (plain) "json_char c = [c]" and "c \<noteq> CHR 0x22" and "c \<noteq> CHR 0x5C" and "\<not> (of_char c :: nat) < 32"
  | (short) e where "json_char c = [CHR 0x5C, e]" and "e \<noteq> CHR ''u''" and "plain_escape e = Some c"
  | (long) "json_char c = [CHR 0x5C, CHR ''u'', CHR ''0'', CHR ''0'',
      hex_digit (of_char c div 16), hex_digit (of_char c mod 16)]" and "(of_char c :: nat) < 32"
proof -
  consider "c = CHR 0x22" | "c = CHR 0x5C" | "c = CHR 0x0A" | "c = CHR 0x0D" | "c = CHR 0x09" | "c = CHR 0x0C"
    | "c = CHR 0x08" | "c \<notin> {CHR 0x22, CHR 0x5C, CHR 0x0A, CHR 0x0D, CHR 0x09, CHR 0x0C, CHR 0x08}"
    by blast
  then show ?thesis
  proof cases
    case 1 show ?thesis by (rule short [of "CHR 0x22"]) (use 1 in \<open>simp_all add: json_char_def plain_escapes\<close>)
  next
    case 2 show ?thesis by (rule short [of "CHR 0x5C"]) (use 2 in \<open>simp_all add: json_char_def plain_escapes\<close>)
  next
    case 3 show ?thesis by (rule short [of "CHR ''n''"]) (use 3 in \<open>simp_all add: json_char_def plain_escapes\<close>)
  next
    case 4 show ?thesis by (rule short [of "CHR ''r''"]) (use 4 in \<open>simp_all add: json_char_def plain_escapes\<close>)
  next
    case 5 show ?thesis by (rule short [of "CHR ''t''"]) (use 5 in \<open>simp_all add: json_char_def plain_escapes\<close>)
  next
    case 6 show ?thesis by (rule short [of "CHR ''f''"]) (use 6 in \<open>simp_all add: json_char_def plain_escapes\<close>)
  next
    case 7 show ?thesis by (rule short [of "CHR ''b''"]) (use 7 in \<open>simp_all add: json_char_def plain_escapes\<close>)
  next
    case 8
    then have "json_char c = (if (of_char c :: nat) < 32 then [CHR 0x5C, CHR ''u'', CHR ''0'', CHR ''0'',
        hex_digit (of_char c div 16), hex_digit (of_char c mod 16)] else [c])"
      by (simp only: json_char_def insert_iff empty_iff de_Morgan_disj if_False simp_thms)
    with 8 show ?thesis by (cases "(of_char c :: nat) < 32") (auto intro: plain long)
  qed
qed

lemma read_json_char: "read_str (json_char c @ r) = map_option (\<lambda>(s, t). (c # s, t)) (read_str r)"
proof (cases c rule: json_char_cases)
  case long
  with hex4_control [OF long(2)] show ?thesis by (simp add: utf8_def)
qed simp_all

lemma read_json_str: "read_str (concat (map json_char s) @ CHR 0x22 # r) = Some (s, r)"
  by (induction s) (simp_all add: read_json_char)

subsection \<open>Numbers\<close>

lemma str_nat_no_zero: "0 < n \<Longrightarrow> hd (str_nat n) \<noteq> CHR ''0''"
proof (induction n rule: str_nat.induct)
  case (1 n)
  show ?case
  proof (cases "n < 10")
    case True
    with \<open>0 < n\<close> have "(of_char (digit_char n) :: nat) \<noteq> of_char CHR ''0''"
      by (simp add: of_char_digit)
    with True show ?thesis by (subst str_nat.simps) auto
  next
    case False
    with 1 show ?thesis by (subst str_nat.simps) (simp add: hd_append)
  qed
qed

lemma char_zero: "char_of (48 :: nat) = CHR ''0''"
  using char_of_char [where ?'a = nat, of "CHR ''0''"] by (simp del: char_of_char)

lemma str_nat_zero: "str_nat 0 = ''0''"
  by (simp add: str_nat.simps digit_char_def char_zero)

lemma json_number_digits:
  assumes "list_all c_digit ds"
  shows "takeWhile c_digit ds = ds" and "dropWhile c_digit ds = []"
  using assms by (simp_all add: list_all_iff)

lemma minus_no_digit [simp]: "\<not> c_digit CHR ''-''"
  by (simp add: c_digit_def)

lemma str_nat_hd_digit: "c_digit (hd (str_nat n))"
  using str_nat_digits [of n] by (cases "str_nat n") auto

lemma str_nat_hd: "hd (str_nat n) \<noteq> CHR ''-''"
  using str_nat_hd_digit [of n] by force

lemma json_number_plain:
  assumes "list_all c_digit ds" and "ds \<noteq> []" and "hd ds = CHR ''0'' \<longrightarrow> ds = ''0''"
  shows "json_number ds = Some (PyInt (int (digits_value ds)))"
    and "json_number (CHR ''-'' # ds) = Some (PyInt (- int (digits_value ds)))"
proof -
  note d = json_number_digits [OF assms(1)]
  from assms have m: "(hd ds = CHR ''-'') = False" by (cases ds) auto
  from assms(2,3) have z: "(ds = [] \<or> hd ds = CHR ''0'' \<and> ds \<noteq> ''0'') = False" by blast
  show "json_number ds = Some (PyInt (int (digits_value ds)))"
    by (simp only: json_number_def Let_def m simp_thms if_False if_True d z)
  show "json_number (CHR ''-'' # ds) = Some (PyInt (- int (digits_value ds)))"
    by (simp only: json_number_def Let_def list.sel simp_thms list.distinct if_False if_True d z)
qed

lemma str_nat_plain: "hd (str_nat n) = CHR ''0'' \<longrightarrow> str_nat n = ''0''"
  using str_nat_no_zero [of n] str_nat_zero by (cases "n = 0") auto

lemmas json_number_nat = json_number_plain [OF str_nat_digits str_nat_nonempty str_nat_plain]

lemma json_number_int: "json_number (str_int i) = Some (PyInt i)"
  by (cases "i < 0") (simp_all add: str_int_def json_number_nat digits_value_str_nat)

lemma str_int_number_chars: "list_all number_char (str_int i)"
  using str_nat_digits by (auto simp: str_int_def list_all_iff number_char_def)

definition stops :: "string \<Rightarrow> bool" where
  "stops r \<longleftrightarrow> r = [] \<or> \<not> number_char (hd r) \<and> \<not> letter (hd r)"

lemma takeWhile_stop: "list_all P s \<Longrightarrow> r = [] \<or> \<not> P (hd r) \<Longrightarrow> takeWhile P (s @ r) = s \<and> dropWhile P (s @ r) = r"
  by (induction s) (cases r; simp)+

lemma digit_kind: "c_digit c \<Longrightarrow> \<not> json_space c \<and> c \<notin> set ''[]{}:,'' \<and> c \<noteq> CHR 0x22 \<and> \<not> letter c \<and> c \<noteq> CHR ''-''"
  by (auto simp: c_digit_def json_space_def letter_def c_lower_def c_upper_def)

lemma minus_kind: "\<not> json_space CHR ''-'' \<and> CHR ''-'' \<notin> set ''[]{}:,''"
  by (simp add: json_space_def)

lemma read_number:
  assumes "c_digit c \<or> c = CHR ''-'' \<and> s \<noteq> [] \<and> c_digit (hd s)"
    and "list_all number_char s" and "json_number (c # s) = Some v" and "stops r"
  shows "read_words (c # s @ r) = map_option ((#) (Val v)) (read_words r)"
proof -
  from assms(2,4) have t: "takeWhile number_char (s @ r) = s" "dropWhile number_char (s @ r) = r"
    using takeWhile_stop [of number_char s r] by (auto simp: stops_def)
  have i: "\<not> (c = CHR ''-'' \<and> takeWhile letter (s @ r) = ''Infinity'')"
    using assms(1) digit_kind by (cases s) auto
  have k: "\<not> json_space c \<and> c \<notin> set ''[]{}:,'' \<and> c \<noteq> CHR 0x22"
    using assms(1) digit_kind minus_kind by auto
  have n: "c_digit c \<or> c = CHR ''-''"
    using assms(1) by blast
  show ?thesis
    by (subst read_words.simps(2)) (simp only: k i n t if_True if_False assms(3) option.case simp_thms)
qed

subsection \<open>Words\<close>

lemma read_space: "json_space c \<Longrightarrow> read_words (c # r) = read_words r"
  by (simp add: read_words.simps)

lemma read_spaces: "list_all json_space s \<Longrightarrow> read_words (s @ r) = read_words r"
  by (induction s) (simp_all add: read_space)

lemma new_line_spaces: "list_all json_space (new_line ind level)"
  by (auto simp: new_line_def json_space_def list_all_iff)

lemmas read_new_line = read_spaces [OF new_line_spaces]

lemma symbol_no_space: "c \<in> set ''[]{}:,'' \<Longrightarrow> \<not> json_space c"
  by (auto simp: json_space_def)

lemma read_symbol:
  "c \<in> set ''[]{}:,'' \<Longrightarrow> read_words (c # r) = map_option ((#) (Sym c)) (read_words r)"
  by (subst read_words.simps(2)) (simp only: symbol_no_space if_True if_False)

lemma read_text: "read_words (json_str s @ r) = map_option ((#) (Val (PyStr s))) (read_words r)"
  by (simp add: json_str_def read_words.simps(2) read_json_str json_space_def)

lemma letter_kind: "letter c \<Longrightarrow> \<not> json_space c \<and> c \<notin> set ''[]{}:,'' \<and> c \<noteq> CHR 0x22 \<and> c \<noteq> CHR ''-'' \<and> \<not> c_digit c"
  by (auto simp: c_digit_def json_space_def letter_def c_lower_def c_upper_def)

lemma read_name:
  assumes "letter c" and "list_all letter s" and "json_name (c # s) = Some v" and "stops r"
  shows "read_words (c # s @ r) = map_option ((#) (Val v)) (read_words r)"
proof -
  from assms(2,4) have t: "takeWhile letter (s @ r) = s" "dropWhile letter (s @ r) = r"
    using takeWhile_stop [of letter s r] by (auto simp: stops_def)
  note k = letter_kind [OF assms(1)]
  show ?thesis
    by (subst read_words.simps(2)) (simp only: k t if_False assms(3) option.case simp_thms)
qed

lemma read_minus_infinity:
  assumes "stops r"
  shows "read_words (''-Infinity'' @ r) = map_option ((#) (Val (PyFloat NInf))) (read_words r)"
proof -
  have "list_all letter ''Infinity''" by (simp add: letter_def c_lower_def c_upper_def)
  with assms have t: "takeWhile letter (''Infinity'' @ r) = ''Infinity''" "dropWhile letter (''Infinity'' @ r) = r"
    using takeWhile_stop [of letter "''Infinity''" r] by (auto simp: stops_def)
  have "read_words (CHR ''-'' # ''Infinity'' @ r) = map_option ((#) (Val (PyFloat NInf))) (read_words r)"
    by (subst read_words.simps(2)) (simp add: t json_space_def del: append_Cons)
  then show ?thesis by simp
qed

lemma letters_of_names:
  "letter CHR ''n''" "list_all letter ''ull''" "letter CHR ''t''" "list_all letter ''rue''"
  "letter CHR ''f''" "list_all letter ''alse''" "letter CHR ''N''" "list_all letter ''aN''"
  "letter CHR ''I''" "list_all letter ''nfinity''"
  by (simp_all add: letter_def c_lower_def c_upper_def)

lemma read_names:
  assumes "stops r"
  shows "read_words (''null'' @ r) = map_option ((#) (Val PyNone)) (read_words r)"
    and "read_words (''true'' @ r) = map_option ((#) (Val (PyBool True))) (read_words r)"
    and "read_words (''false'' @ r) = map_option ((#) (Val (PyBool False))) (read_words r)"
    and "read_words (''NaN'' @ r) = map_option ((#) (Val (PyFloat NaN))) (read_words r)"
    and "read_words (''Infinity'' @ r) = map_option ((#) (Val (PyFloat PInf))) (read_words r)"
  using read_name [OF letters_of_names(1,2) _ assms, of PyNone]
    read_name [OF letters_of_names(3,4) _ assms, of "PyBool True"]
    read_name [OF letters_of_names(5,6) _ assms, of "PyBool False"]
    read_name [OF letters_of_names(7,8) _ assms, of "PyFloat NaN"]
    read_name [OF letters_of_names(9,10) _ assms, of "PyFloat PInf"]
  by (simp_all add: json_name_def)

lemma read_int: "stops r \<Longrightarrow> read_words (str_int i @ r) = map_option ((#) (Val (PyInt i))) (read_words r)"
proof -
  assume r: "stops r"
  obtain c s where cs: "str_int i = c # s" by (cases "str_int i") (auto simp: str_int_def split: if_splits)
  have "c_digit c \<or> c = CHR ''-'' \<and> s \<noteq> [] \<and> c_digit (hd s)"
    using cs str_nat_hd_digit [of "nat i"] str_nat_hd_digit [of "nat (- i)"]
    by (auto simp: str_int_def split: if_splits)
  from read_number [OF this _ _ r, of "PyInt i"] show ?thesis
    using str_int_number_chars [of i] json_number_int [of i] by (simp add: cs)
qed

lemma read_float:
  assumes "float_text_ok fr f" and "stops r"
  shows "read_words (json_float fr f @ r) = map_option ((#) (Val (PyFloat f))) (read_words r)"
proof (cases f)
  case (Fin q)
  with assms(1) obtain c s where "fr f = c # s" by (cases "fr f") (auto simp: float_text_ok_def)
  with assms Fin read_number [of c s "PyFloat f" r] show ?thesis
    by (simp add: json_float_def float_text_ok_def)
next
  case NInf
  with assms(2) show ?thesis
    by (simp add: json_float_def read_minus_infinity [simplified])
qed (simp_all add: json_float_def read_names [OF assms(2), simplified])

subsection \<open>Values\<close>

lemma stops_char: "c \<in> set ''[]{}:,'' \<or> json_space c \<or> c = CHR 0x22 \<Longrightarrow> stops (c # r)"
  by (auto simp: stops_def number_char_def letter_def c_digit_def c_lower_def c_upper_def is_exp_mark_def
      json_space_def)

lemma stops_new_line: "stops (new_line ind level @ r)"
  by (simp add: new_line_def stops_char json_space_def)

lemma read_separator:
  "read_words (CHR '','' # new_line ind level @ r) = map_option ((#) (Sym CHR '','')) (read_words r)"
  by (simp add: read_symbol read_new_line)

lemma read_block:
  assumes "items \<noteq> []" and "a \<in> set ''[{''" and "b \<in> set '']}''"
    and "\<And>t. stops t \<Longrightarrow> read_words (s_join (CHR '','' # new_line ind (Suc level)) items @ t)
           = map_option ((@) ws) (read_words t)"
  shows "read_words (json_block ind level a b items @ r) = map_option ((@) (Sym a # ws @ [Sym b])) (read_words r)"
proof -
  have "a \<in> set ''[]{}:,''" "b \<in> set ''[]{}:,''" using assms(2,3) by auto
  then have "read_words (a # t) = map_option ((#) (Sym a)) (read_words t)"
      "read_words (b # t) = map_option ((#) (Sym b)) (read_words t)" for t by (auto intro: read_symbol)
  with assms(1) show ?thesis
    by (cases "read_words r")
      (simp_all add: json_block_def read_new_line assms(4) [OF stops_new_line])
qed

lemma read_empty_block:
  assumes "a \<in> set ''[{''" and "b \<in> set '']}''"
  shows "read_words (json_block ind level a b [] @ r) = map_option ((@) [Sym a, Sym b]) (read_words r)"
proof -
  have "a \<in> set ''[]{}:,''" "b \<in> set ''[]{}:,''" using assms by auto
  then have "read_words (a # t) = map_option ((#) (Sym a)) (read_words t)"
      "read_words (b # t) = map_option ((#) (Sym b)) (read_words t)" for t by (auto intro: read_symbol)
  then show ?thesis by (cases "read_words r") (simp_all add: json_block_def)
qed

lemma s_join_cons: "s_join sep (x # xs) = x @ (if xs = [] then [] else sep @ s_join sep xs)"
  by (cases xs) simp_all

lemma json_items_empty [simp]: "json_items fr ind level xs = [] \<longleftrightarrow> xs = []"
  by (cases xs) simp_all

lemma json_pairs_empty [simp]: "json_pairs fr ind level d = [] \<longleftrightarrow> d = []"
  by (cases d) auto

lemma map_option_words: "map_option ((@) a) (map_option ((@) b) x) = map_option ((@) (a @ b)) x"
  "map_option ((#) c) (map_option ((@) b) x) = map_option ((@) (c # b)) x"
  "map_option ((#) c) x = map_option ((@) [c]) x"
  by (cases x; simp)+

lemma stops_comma: "stops (CHR '','' # r)"
  by (rule stops_char) simp

lemma read_colon: "read_words ('': '' @ r) = map_option ((@) [Sym CHR '':'']) (read_words r)"
  by (simp add: read_symbol read_space json_space_def map_option_words(3))

lemma read_json_text:
  "json_ok fr v \<Longrightarrow> stops r \<Longrightarrow>
     read_words (json_text fr ind level v @ r) = map_option ((@) (words_of v)) (read_words r)"
  "json_ok_items fr xs \<Longrightarrow> xs \<noteq> [] \<Longrightarrow> stops r \<Longrightarrow>
     read_words (s_join (CHR '','' # new_line ind level) (json_items fr ind level xs) @ r)
       = map_option ((@) (concat (words_of_items xs))) (read_words r)"
  "json_ok_pairs fr d \<Longrightarrow> d \<noteq> [] \<Longrightarrow> stops r \<Longrightarrow>
     read_words (s_join (CHR '','' # new_line ind level) (json_pairs fr ind level d) @ r)
       = map_option ((@) (concat (words_of_pairs d))) (read_words r)"
proof (induction fr ind level v and fr ind level xs and fr ind level d
    arbitrary: r and r and r rule: json_text_json_items_json_pairs.induct)
  case (6 fr ind level xs)
  then show ?case
    by (cases "xs = []"; cases "read_words r") (simp_all add: read_block read_empty_block)
next
  case (7 fr ind level xs)
  then show ?case
    by (cases "xs = []"; cases "read_words r") (simp_all add: read_block read_empty_block)
next
  case (8 fr ind level d)
  then show ?case
    by (cases "d = []"; cases "read_words r") (simp_all add: read_block read_empty_block)
next
  case (10 fr ind level x xs)
  then show ?case
    by (cases "xs = []"; cases "read_words r") (simp_all add: s_join_cons stops_comma read_separator map_option_words)
next
  case (12 fr ind level k v d)
  then show ?case
    by (cases "d = []"; cases "read_words r")
      (simp_all add: s_join_cons stops_comma read_separator read_text map_option_words read_colon [simplified])
qed (simp_all add: read_names [simplified] read_int read_float read_text map_option_words)

lemma dupdate_new: "distinct (map fst (acc @ d)) \<Longrightarrow> dupdate acc d = acc @ d"
proof (induction d arbitrary: acc)
  case (Cons p d)
  obtain k v where p: "p = (k, v)" by (cases p)
  with Cons.prems have "k \<notin> set (map fst acc)" by auto
  then have "dset acc k v = acc @ [(k, v)]" by (induction acc) (auto simp: dset_def)
  with Cons p show ?case by (simp add: dupdate_def)
qed (simp add: dupdate_def)

lemma as_json_keys [simp]: "map fst (as_json_pairs d) = map fst d"
  by (induction d) auto

lemma words_of_first: "words_of v = w # ws \<Longrightarrow> w \<noteq> Sym CHR '']'' \<and> w \<noteq> Sym CHR ''}''"
  by (cases v) auto

lemma words_of_nonempty [simp]: "words_of v \<noteq> []"
  by (cases v) auto

lemma read_value_list:
  assumes "words_of x @ ws = w # us" and "w \<noteq> Sym CHR '']''"
  shows "read_value (Suc n) (Sym CHR ''['' # words_of x @ ws)
    = map_option (\<lambda>(xs, t). (PyList xs, t)) (read_elems n (words_of x @ ws))"
  using assms by (cases w) simp_all

lemma read_value_items:
  "xs \<noteq> [] \<Longrightarrow> read_value (Suc n) (Sym CHR ''['' # concat (words_of_items xs) @ r)
     = map_option (\<lambda>(ys, t). (PyList ys, t)) (read_elems n (concat (words_of_items xs) @ r))"
proof (cases xs)
  case (Cons x ys)
  obtain w ws where w: "words_of x = w # ws" by (cases "words_of x") auto
  with words_of_first [OF w] Cons show ?thesis by (cases w) simp_all
qed simp

lemma read_scalar: "2 \<le> n \<Longrightarrow> read_value n (Val v # r) = Some (v, r)"
  by (cases n) simp_all

lemma read_words_of:
  "json_ok fr v \<Longrightarrow> 2 * length (words_of v) \<le> n \<Longrightarrow> read_value n (words_of v @ r) = Some (as_json v, r)"
  "json_ok_items fr xs \<Longrightarrow> xs \<noteq> [] \<Longrightarrow> 2 * length (concat (words_of_items xs)) < n \<Longrightarrow>
     read_elems n (concat (words_of_items xs) @ Sym CHR '']'' # r) = Some (as_json_items xs, r)"
  "json_ok_pairs fr d \<Longrightarrow> d \<noteq> [] \<Longrightarrow> 2 * length (concat (words_of_pairs d)) < n \<Longrightarrow>
     read_members n acc (concat (words_of_pairs d) @ Sym CHR ''}'' # r) = Some (dupdate acc (as_json_pairs d), r)"
proof (induction v and xs and d arbitrary: n r and n r and n r acc
    rule: words_of_words_of_items_words_of_pairs.induct)
  case (1 xs)
  then obtain m where "n = Suc m" by (cases n) auto
  with 1 show ?case
    by (cases "xs = []") (simp, simp add: read_value_items del: read_value.simps(2))
next
  case (2 xs)
  then obtain m where "n = Suc m" by (cases n) auto
  with 2 show ?case
    by (cases "xs = []") (simp, simp add: read_value_items del: read_value.simps(2))
next
  case (3 d)
  then obtain m where m: "n = Suc m" by (cases n) auto
  show ?case
  proof (cases d)
    case Nil
    with m show ?thesis by simp
  next
    case (Cons p d')
    obtain k v where p: "p = (k, v)" by (cases p)
    have "distinct (map fst d)" using 3 by simp
    then have "dupdate [] (as_json_pairs d) = as_json_pairs d" by (subst dupdate_new) simp_all
    moreover from 3 m Cons have
      "read_members m [] (concat (words_of_pairs d) @ Sym CHR ''}'' # r) = Some (dupdate [] (as_json_pairs d), r)"
      by simp
    ultimately show ?thesis using m Cons p by simp
  qed
next
  case (6 x xs)
  then obtain m where "n = Suc m" by (cases n) auto
  with 6 show ?case by (cases "xs = []") simp_all
next
  case (8 k v d)
  then obtain m where "n = Suc m" by (cases n) auto
  with 8 show ?case by (cases "d = []") (simp_all add: dupdate_def)
qed (simp_all add: read_scalar)

subsection \<open>Sorted keys\<close>

lemma str_le_total: "str_le s t \<or> str_le t s"
  by (induction s t rule: str_le.induct) (auto simp: linorder_neq_iff)

lemma str_le_trans: "str_le s t \<Longrightarrow> str_le t u \<Longrightarrow> str_le s u"
proof (induction s arbitrary: t u)
  case (Cons c s)
  then show ?case by (cases t; cases u) auto
qed simp

lemma mset_insert_key: "mset (insert_key p qs) = add_mset p (mset qs)"
  by (induction qs) auto

lemma mset_sort_keys: "mset (sort_keys d) = mset d"
  by (induction d) (simp_all add: sort_keys_def mset_insert_key)

lemma sorted_insert_key:
  "sorted_wrt (\<lambda>p q. str_le (fst p) (fst q)) qs \<Longrightarrow> sorted_wrt (\<lambda>p q. str_le (fst p) (fst q)) (insert_key p qs)"
proof (induction qs)
  case (Cons q qs)
  have "set (insert_key p qs) = insert p (set qs)"
    using mset_insert_key [of p qs] by (metis set_mset_add_mset_insert set_mset_mset)
  with Cons str_le_total [of "fst p" "fst q"] show ?case by (auto intro: str_le_trans)
qed simp

lemma sorted_sort_keys: "sorted_wrt (\<lambda>p q. str_le (fst p) (fst q)) (sort_keys d)"
  by (induction d) (simp_all add: sort_keys_def sorted_insert_key)

lemma set_sort_keys: "set (sort_keys d) = set d"
  using mset_sort_keys by (metis set_mset_mset)

lemma distinct_sort_keys: "distinct (map fst (sort_keys d)) \<longleftrightarrow> distinct (map fst d)"
  by (rule mset_eq_imp_distinct_iff) (simp add: mset_sort_keys)

lemma json_ok_pairs_set: "json_ok_pairs fr d \<longleftrightarrow> (\<forall>(k, v)\<in>set d. ascii k \<and> json_ok fr v)"
  by (induction d) auto

lemma sort_pairs_keys [simp]: "map fst (sort_pairs d) = map fst d"
  by (induction d) auto

lemma json_ok_sort:
  "json_ok fr v \<Longrightarrow> json_ok fr (sort_value v)"
  "json_ok_items fr xs \<Longrightarrow> json_ok_items fr (sort_items xs)"
  "json_ok_pairs fr d \<Longrightarrow> json_ok_pairs fr (sort_pairs d)"
proof (induction v and xs and d rule: sort_value_sort_items_sort_pairs.induct)
  case (3 d)
  then have "json_ok_pairs fr (sort_keys (sort_pairs d))"
    by (simp add: json_ok_pairs_set set_sort_keys)
  with 3 show ?case by (simp add: distinct_sort_keys)
qed simp_all

subsection \<open>The round trip\<close>

lemma json_round_trip:
  assumes "json_ok fr v"
  shows "json_loads (json_dumps fr by_key ind v) = Inr (as_json (if by_key then sort_value v else v))"
proof -
  let ?v = "if by_key then sort_value v else v"
  have ok: "json_ok fr ?v" using assms json_ok_sort(1) by simp
  have "read_words (json_text fr ind 0 ?v @ []) = map_option ((@) (words_of ?v)) (read_words [])"
    by (rule read_json_text(1) [OF ok]) (simp add: stops_def)
  then have "read_words (json_dumps fr by_key ind v) = Some (words_of ?v)"
    by (simp add: read_words.simps(1) json_dumps_def)
  with read_words_of(1) [OF ok, of "2 * length (words_of ?v) + 2" "[]"] show ?thesis
    by (simp add: json_loads_def)
qed

end
