(* ===== verification/Util_Files.thy ===== *)
theory Util_Files
  imports Py_Json
begin

text \<open>
  The files the program reads and writes: the readers and writers of \<^verbatim>\<open>src/main/utils.py\<close>, the report
  and case files, \<^verbatim>\<open>ScanFile\<close>, \<^verbatim>\<open>CallingCounter\<close>, the running of commands, and the white lists of
  \<^verbatim>\<open>src/main/global_config_parser.py\<close>. Files are opened for writing without truncation, so a text written
  over a longer one leaves the rest of the old one behind; the writers that remove the old file first are
  proved to be read back exactly.
\<close>

section \<open>Files\<close>

text \<open>
  The texts of the files, which of them may be read, and which paths may be written or removed. A directory
  can be opened neither way.
\<close>

record disk =
  d_text :: "(string \<times> string) list"
  d_read_ok :: "string \<Rightarrow> bool"
  d_write_ok :: "string \<Rightarrow> bool"

definition err_open :: exn where
  "err_open = OpTestGenException OP_TEST_GEN_OPEN_FILE_ERROR"

definition err_json :: exn where
  "err_json = OpTestGenException OP_TEST_GEN_PARSE_JSON_FILE_ERROR"

definition err_write_file :: exn where
  "err_write_file = OpTestGenException OP_TEST_GEN_WRITE_FILE_ERROR"

definition open_text :: "disk \<Rightarrow> string \<Rightarrow> string res" where
  "open_text d p =
     (case map_of (d_text d) p of
        Some t \<Rightarrow> if d_read_ok d p then Inr t else Inl OSError
      | None \<Rightarrow> Inl OSError)"

definition read_file :: "disk \<Rightarrow> string \<Rightarrow> string res" where
  "read_file d op_file =
     (case open_text d op_file of Inl e \<Rightarrow> Inl err_open | Inr t \<Rightarrow> Inr t)"

definition json_load :: "string \<Rightarrow> pyval res" where
  "json_load input_text =
     (case json_loads input_text of Inl e \<Rightarrow> Inl err_json | Inr v \<Rightarrow> Inr v)"

definition load_json_file :: "disk \<Rightarrow> string \<Rightarrow> pyval res" where
  "load_json_file d json_path =
     (case open_text d json_path of Inl e \<Rightarrow> Inl err_open | Inr t \<Rightarrow> json_load t)"

definition os_remove :: "string \<Rightarrow> disk \<Rightarrow> disk res" where
  "os_remove p d =
     (if dhas (d_text d) p \<and> d_write_ok d p then Inr (d\<lparr>d_text := dpop (d_text d) p\<rparr>) else Inl OSError)"

text \<open>
  \<^verbatim>\<open>os.open\<close> with \<^verbatim>\<open>O_WRONLY | O_CREAT\<close>, then one write at the start: the characters of the old text
  beyond the new one stay.
\<close>

definition over_text :: "string \<Rightarrow> string \<Rightarrow> string" where
  "over_text new old = new @ drop (length new) old"

definition text_at :: "disk \<Rightarrow> string \<Rightarrow> string" where
  "text_at d p = (case map_of (d_text d) p of Some t \<Rightarrow> t | None \<Rightarrow> [])"

definition write_over :: "string \<Rightarrow> string \<Rightarrow> disk \<Rightarrow> disk res" where
  "write_over p new d =
     (if d_write_ok d p then Inr (d\<lparr>d_text := dset (d_text d) p (over_text new (text_at d p))\<rparr>)
      else Inl OSError)"

definition remove_old :: "string \<Rightarrow> disk \<Rightarrow> disk res" where
  "remove_old p d = (if dhas (d_text d) p then os_remove p d else Inr d)"

definition dump_json :: "(pyfloat \<Rightarrow> string) \<Rightarrow> string \<Rightarrow> pyval \<Rightarrow> disk \<Rightarrow> disk res" where
  "dump_json fr json_path content d =
     bindE (remove_old json_path d) (\<lambda>d. write_over json_path (json_dumps fr False 4 content) d)"

definition write_json_file :: "(pyfloat \<Rightarrow> string) \<Rightarrow> string \<Rightarrow> pyval \<Rightarrow> disk \<Rightarrow> disk res" where
  "write_json_file fr json_path content d =
     (case dump_json fr json_path content d of Inl e \<Rightarrow> Inl err_write_file | Inr d' \<Rightarrow> Inr d')"

text \<open>
  \<^verbatim>\<open>_save_json_file\<close> of \<^verbatim>\<open>OpSTReport\<close> removes whatever is at the path, too, and then opens it with
  \<^verbatim>\<open>O_EXCL\<close>, which refuses a file that is there.
\<close>

definition write_new :: "string \<Rightarrow> string \<Rightarrow> disk \<Rightarrow> disk res" where
  "write_new p new d =
     (if d_write_ok d p \<and> \<not> dhas (d_text d) p then Inr (d\<lparr>d_text := dset (d_text d) p new\<rparr>) else Inl OSError)"

definition save_json_file :: "string \<Rightarrow> string \<Rightarrow> disk \<Rightarrow> disk res" where
  "save_json_file report_data_path new_text d =
     bindE (remove_old report_data_path d) (\<lambda>d. write_new report_data_path new_text d)"

text \<open>The end of \<^verbatim>\<open>CaseGenerator.generate\<close>, which removes nothing.\<close>

definition write_case_file :: "(pyfloat \<Rightarrow> string) \<Rightarrow> string \<Rightarrow> pyval \<Rightarrow> disk \<Rightarrow> disk res" where
  "write_case_file fr json_path base_case d =
     (case write_over json_path (json_dumps fr False 4 base_case) d of
        Inl e \<Rightarrow> Inl err_write_file
      | Inr d' \<Rightarrow> Inr d')"

section \<open>Small helpers\<close>

text \<open>
  \<^verbatim>\<open>get_content_from_double_quotes\<close>: the pattern is greedy and stays within a line, so a line with two
  quotes gives what is between its first and its last one.
\<close>

definition line_quoted :: "string \<Rightarrow> string list" where
  "line_quoted l =
     (let after = tl (dropWhile (\<lambda>c. c \<noteq> CHR 0x22) l) in
      if CHR 0x22 \<in> set after then [rev (tl (dropWhile (\<lambda>c. c \<noteq> CHR 0x22) (rev after)))] else [])"

definition get_content_from_double_quotes :: "string \<Rightarrow> string list res" where
  "get_content_from_double_quotes line =
     (let found = concat (map line_quoted (s_split [CHR 0x0A] line)) in
      if found \<noteq> [] then Inr found else Inl (OpTestGenException OP_TEST_GEN_CONFIG_OP_DEFINE_ERROR))"

record ('a, 'b) calling_counter =
  cc_func :: "'a \<Rightarrow> 'b"
  cc_count :: nat

definition calling_counter :: "('a \<Rightarrow> 'b) \<Rightarrow> ('a, 'b) calling_counter" where
  "calling_counter f = \<lparr>cc_func = f, cc_count = 0\<rparr>"

definition counted_call :: "('a, 'b) calling_counter \<Rightarrow> 'a \<Rightarrow> 'b \<times> ('a, 'b) calling_counter" where
  "counted_call c x = (cc_func c x, c\<lparr>cc_count := Suc (cc_count c)\<rparr>)"

text \<open>\<^verbatim>\<open>print_step_log\<close> reads the count of its own wrapper, which the call has raised already.\<close>

definition print_step_log :: "string \<Rightarrow> nat \<Rightarrow> string \<times> nat" where
  "print_step_log step_msg steps = (''[STEP'' @ str_nat (Suc steps) @ ''] '' @ step_msg, Suc steps)"

fun print_steps :: "string list \<Rightarrow> nat \<Rightarrow> string list \<times> nat" where
  "print_steps [] steps = ([], steps)"
| "print_steps (m # ms) steps =
     (let (l, c) = print_step_log m steps; (ls, c') = print_steps ms c in (l # ls, c'))"

text \<open>
  A process: the lines it wrote while it was running, those that were left when it ended, and its exit
  code. \<^verbatim>\<open>execute_command\<close> reads one line per look at the process and stops when it has ended.
\<close>

type_synonym process = "string list \<times> string list \<times> int"

definition execute_command :: "(string list \<Rightarrow> process option) \<Rightarrow> string list \<Rightarrow> string list res" where
  "execute_command popen cmd =
     (case popen cmd of
        None \<Rightarrow> Inl OSError
      | Some (seen, left, returncode) \<Rightarrow>
          if returncode \<noteq> 0 then Inl err_data
          else Inr (filter (\<lambda>l. l \<noteq> []) (map s_strip seen)))"

section \<open>Scanning directories\<close>

record scan_file =
  sf_directory :: string
  first_prefix :: "string option"
  second_prefix :: "string option"

definition given :: "string option \<Rightarrow> bool" where
  "given p \<longleftrightarrow> (case p of Some s \<Rightarrow> s \<noteq> [] | None \<Rightarrow> False)"

definition check_second_prefix_dir :: "scan_file \<Rightarrow> string \<Rightarrow> string list \<Rightarrow> string list res" where
  "check_second_prefix_dir sf each_file_path files_list =
     (if given (first_prefix sf) then
        (case second_prefix sf of
           None \<Rightarrow> Inl TypeError
         | Some p \<Rightarrow>
             Inr (if startswith (path_basename each_file_path) p then files_list @ [each_file_path] else files_list))
      else Inr files_list)"

text \<open>\<^verbatim>\<open>os.listdir\<close> raises on what is no directory.\<close>

definition list_dir :: "fs \<Rightarrow> string \<Rightarrow> string list res" where
  "list_dir f p = (if fs_isdir f p then Inr (fs_listdir f p) else Inl OSError)"

definition get_files_list :: "fs \<Rightarrow> scan_file \<Rightarrow> string \<Rightarrow> string list \<Rightarrow> string list res" where
  "get_files_list f sf file_path files_list =
     bindE (list_dir f file_path) (\<lambda>all_files.
       foldE (\<lambda>acc each_file.
         let each_file_path = path_join file_path each_file in
         if fs_isdir f each_file_path then check_second_prefix_dir sf each_file_path acc else Inr acc)
       files_list all_files)"

definition scan_subdirs :: "fs \<Rightarrow> scan_file \<Rightarrow> string list res" where
  "scan_subdirs f sf =
     (if fs_exists f (sf_directory sf) then
        bindE (list_dir f (sf_directory sf)) (\<lambda>all_files.
          foldE (\<lambda>acc each_file. get_files_list f sf (path_join (sf_directory sf) each_file) acc) [] all_files)
      else Inr [])"

text \<open>The constructor never sets the attribute that \<^verbatim>\<open>get_prefix\<close> returns.\<close>

definition get_prefix :: "scan_file \<Rightarrow> string res" where
  "get_prefix sf = Inl AttributeError"

section \<open>White lists\<close>

record white_lists =
  format_map :: pyval
  wl_type_list :: pyval
  wl_mindspore_type_list :: pyval
  wl_data_distribution_list :: pyval
  aicpu_ir2ini_type_map :: pyval

definition config_path_of :: "string \<Rightarrow> string" where
  "config_path_of module_file =
     path_join (path_join (path_join (path_dirname module_file) ''..'') ''config'') WHITE_LIST_FILE_NAME"

definition init_white_lists :: "disk \<Rightarrow> string \<Rightarrow> white_lists res" where
  "init_white_lists d module_file =
     bindE (load_json_file d (config_path_of module_file)) (\<lambda>v.
     bindE (as_dict v) (\<lambda>config_dict.
       Inr \<lparr>format_map = dget config_dict ''FORMAT_ENUM_MAP'', wl_type_list = dget config_dict DTYPE_LIST,
            wl_mindspore_type_list = dget config_dict MINDSPORE_DTYPE_LIST,
            wl_data_distribution_list = dget config_dict DATA_DISTRIBUTION_LIST,
            aicpu_ir2ini_type_map = dget config_dict ''DTYPE_TO_AICPU_TYPE_MAP''\<rparr>))"

text \<open>
  The class attribute of the singleton: absent, or an instance that may lack its white lists, since it is
  stored before they are read.
\<close>

datatype global_config = No_Instance | Instance "white_lists option"

definition instance_of :: "disk \<Rightarrow> string \<Rightarrow> global_config \<Rightarrow> white_lists option res \<times> global_config" where
  "instance_of d module_file g =
     (case g of
        Instance w \<Rightarrow> (Inr w, g)
      | No_Instance \<Rightarrow>
          (case init_white_lists d module_file of
             Inl e \<Rightarrow> (Inl e, Instance None)
           | Inr w \<Rightarrow> (Inr (Some w), Instance (Some w))))"

definition get_white_lists :: "white_lists option \<Rightarrow> white_lists res" where
  "get_white_lists inst = (case inst of None \<Rightarrow> Inl AttributeError | Some w \<Rightarrow> Inr w)"

section \<open>Properties\<close>

subsection \<open>Files\<close>

lemma over_text_nothing [simp]: "over_text new [] = new"
  by (simp add: over_text_def)

lemma remove_old_ok:
  "remove_old p d = Inr d' \<Longrightarrow>
     \<not> dhas (d_text d') p \<and> text_at d' p = [] \<and> d_read_ok d' = d_read_ok d \<and> d_write_ok d' = d_write_ok d
       \<and> (\<forall>q. q \<noteq> p \<longrightarrow> map_of (d_text d') q = map_of (d_text d) q)"
  by (auto simp: remove_old_def os_remove_def text_at_def dhas_def map_of_dpop map_of_eq_None_iff [symmetric]
      split: if_splits option.splits)

lemma write_over_ok:
  "write_over p new d = Inr d' \<longleftrightarrow>
     d_write_ok d p \<and> d' = d\<lparr>d_text := dset (d_text d) p (over_text new (text_at d p))\<rparr>"
  by (auto simp: write_over_def)

lemma saved_text:
  assumes "save_json_file p new d = Inr d'"
  shows "open_text d' p = (if d_read_ok d p then Inr new else Inl OSError)"
    and "q \<noteq> p \<Longrightarrow> open_text d' q = open_text d q"
  using assms by (auto simp: save_json_file_def write_new_def map_of_dset open_text_def
      split: if_splits option.splits dest: remove_old_ok)

lemma dump_json_save: "dump_json fr p v d = save_json_file p (json_dumps fr False 4 v) d"
proof (cases "remove_old p d")
  case (Inr d')
  from remove_old_ok [OF this] Inr show ?thesis
    by (simp add: dump_json_def save_json_file_def write_over_def write_new_def)
qed (simp add: dump_json_def save_json_file_def)

text \<open>
  What \<^verbatim>\<open>write_json_file\<close> writes, \<^verbatim>\<open>load_json_file\<close> reads back, tuples as lists, even where a longer file
  was before; every other file stays.
\<close>

theorem json_file_round_trip:
  assumes "json_ok fr v" and "d_read_ok d p" and "write_json_file fr p v d = Inr d'"
  shows "load_json_file d' p = Inr (as_json v) \<and> (q = p \<or> load_json_file d' q = load_json_file d q)"
proof -
  from assms(3) have s: "save_json_file p (json_dumps fr False 4 v) d = Inr d'"
    by (simp add: write_json_file_def dump_json_save split: sum.splits)
  from saved_text(1) [OF s] assms(2) json_round_trip [OF assms(1), of False 4]
  have "load_json_file d' p = Inr (as_json v)"
    by (simp add: load_json_file_def json_load_def)
  with saved_text(2) [OF s] show ?thesis by (cases "q = p") (simp_all add: load_json_file_def)
qed

definition half_text :: "pyfloat \<Rightarrow> string" where
  "half_text f = ''0.5''"

definition old_disk :: disk where
  "old_disk = \<lparr>d_text = [(''a.json'', replicate 40 CHR ''x'')], d_read_ok = \<lambda>_. True, d_write_ok = \<lambda>_. True\<rparr>"

definition small_value :: pyval where
  "small_value = PyDict [(''n'', PyInt (- 3)), (''xs'', PyTuple [PyFloat (Fin (1 / 2)), PyStr ''b''])]"

lemma small_value_ok: "json_ok half_text small_value"
proof -
  have "json_number ''0.5'' = Some (PyFloat (Fin (1 / 2)))" by code_simp
  then show ?thesis
    by (simp add: small_value_def half_text_def float_text_ok_def ascii_def number_char_def c_digit_def)
qed

theorem json_file_round_trip_witness:
  "\<exists>d'. write_json_file half_text ''a.json'' small_value old_disk = Inr d'
     \<and> load_json_file d' ''a.json''
       = Inr (PyDict [(''n'', PyInt (- 3)), (''xs'', PyList [PyFloat (Fin (1 / 2)), PyStr ''b''])])"
proof -
  obtain d' where d': "write_json_file half_text ''a.json'' small_value old_disk = Inr d'"
    by (simp add: write_json_file_def dump_json_def remove_old_def os_remove_def write_over_def old_disk_def dhas_def)
  have "d_read_ok old_disk ''a.json''" by (simp add: old_disk_def)
  from json_file_round_trip [OF small_value_ok this d'] d' show ?thesis by (simp add: small_value_def)
qed

text \<open>
  The generator of cases writes without removing: on a fresh path its cases are read back, but the
  name of the file has the resolution of a second, and two runs within one write over each other.
\<close>

lemma case_file_round_trip:
  assumes "json_ok fr v" and "d_read_ok d p" and "write_case_file fr p v d = Inr d'"
    and "map_of (d_text d) p = None"
  shows "load_json_file d' p = Inr (as_json v)"
proof -
  from assms(3,4) have "d_text d' = dset (d_text d) p (json_dumps fr False 4 v)" "d_read_ok d' = d_read_ok d"
    by (auto simp: write_case_file_def text_at_def write_over_def split: if_splits sum.splits)
  with assms(2) json_round_trip [OF assms(1), of False 4] show ?thesis
    by (simp add: load_json_file_def open_text_def json_load_def map_of_dset)
qed

lemma write_over_keeps_rest:
  assumes "write_over p new d = Inr d'" and "map_of (d_text d) p = Some old"
  shows "map_of (d_text d') p = Some (new @ drop (length new) old)"
  using assms by (simp add: write_over_ok map_of_dset text_at_def over_text_def)

subsection \<open>Steps, directories and white lists\<close>

lemma print_steps_lines:
  "print_steps ms n = (map (\<lambda>(i, m). ''[STEP'' @ str_nat i @ ''] '' @ m) (zip [Suc n..<Suc n + length ms] ms),
     n + length ms)"
proof (induction ms arbitrary: n)
  case (Cons m ms)
  have "[Suc n..<Suc n + length (m # ms)] = Suc n # [Suc (Suc n)..<Suc (Suc n) + length ms]"
    by (subst upt_conv_Cons) simp_all
  with Cons show ?case by (simp add: print_step_log_def del: upt_Suc)
qed simp

lemma fold_files:
  assumes "given (first_prefix sf)" and "second_prefix sf = Some pre"
  shows "foldE (\<lambda>acc each_file.
      let each_file_path = path_join p each_file in
      if fs_isdir f each_file_path then check_second_prefix_dir sf each_file_path acc else Inr acc) acc fs
    = Inr (acc @ filter (\<lambda>q. fs_isdir f q \<and> startswith (path_basename q) pre) (map (path_join p) fs))"
  by (induction fs arbitrary: acc) (simp_all add: Let_def check_second_prefix_dir_def assms)

lemma scan_fold:
  assumes "given (first_prefix sf)" and "second_prefix sf = Some pre"
  shows "foldE (\<lambda>acc each_file. get_files_list f sf (path_join base each_file) acc) acc fs
    = (if list_all (\<lambda>p. fs_isdir f (path_join base p)) fs
       then Inr (acc @ concat (map (\<lambda>a. filter (\<lambda>q. fs_isdir f q \<and> startswith (path_basename q) pre)
              (map (path_join (path_join base a)) (fs_listdir f (path_join base a)))) fs))
       else Inl OSError)"
  by (induction fs arbitrary: acc) (simp_all add: get_files_list_def list_dir_def fold_files [OF assms])

text \<open>
  \<^verbatim>\<open>scan_subdirs\<close> returns the directories two levels below the given one whose name starts with the
  second prefix; the first prefix is never compared with a name, and a plain file among the
  entries of the first level is an error.
\<close>

theorem scan_subdirs_result:
  assumes "fs_exists f (sf_directory sf)" and "fs_isdir f (sf_directory sf)"
    and "given (first_prefix sf)" and "second_prefix sf = Some pre"
  shows "scan_subdirs f sf =
    (if list_all (\<lambda>a. fs_isdir f (path_join (sf_directory sf) a)) (fs_listdir f (sf_directory sf))
     then Inr (concat (map (\<lambda>a.
            filter (\<lambda>q. fs_isdir f q \<and> startswith (path_basename q) pre)
              (map (path_join (path_join (sf_directory sf) a))
                (fs_listdir f (path_join (sf_directory sf) a))))
            (fs_listdir f (sf_directory sf))))
     else Inl OSError)"
  using assms(1,2) by (simp add: scan_subdirs_def list_dir_def scan_fold [OF assms(3,4)])

definition two_levels :: fs where
  "two_levels = empty_fs\<lparr>fs_exists := \<lambda>_. True, fs_isdir := \<lambda>_. True,
     fs_listdir := \<lambda>p. if p = ''/r'' then [''b''] else if p = ''/r/b'' then [''lib_x'', ''y''] else []\<rparr>"

theorem scan_subdirs_result_witness:
  "scan_subdirs two_levels \<lparr>sf_directory = ''/r'', first_prefix = Some ''a'', second_prefix = Some ''lib''\<rparr>
     = Inr [''/r/b/lib_x'']"
  by (subst scan_subdirs_result [where pre = "''lib''"])
    (simp_all add: two_levels_def given_def path_join_def startswith_def endswith_def path_basename_def)

text \<open>
  A first attempt to read the configuration that fails leaves an instance without white lists: later
  calls return it, without another attempt, and asking it for its lists raises.
\<close>

theorem failed_configuration_stays:
  assumes "instance_of d m No_Instance = (Inl e, g)"
  shows "instance_of d' m' g = (Inr None, g) \<and> get_white_lists None = Inl AttributeError"
proof -
  have "g = Instance None"
    using assms by (simp add: instance_of_def split: sum.splits)
  then show ?thesis by (simp add: instance_of_def get_white_lists_def)
qed

theorem failed_configuration_stays_witness:
  "instance_of old_disk ''/st/interface/global_config_parser.py'' (Instance None) = (Inr None, Instance None)"
proof -
  have "init_white_lists old_disk ''/st/interface/global_config_parser.py'' = Inl err_open"
    by (simp add: init_white_lists_def load_json_file_def open_text_def config_path_of_def old_disk_def
        path_join_def path_dirname_def s_rstrip_def startswith_def endswith_def)
  then have "instance_of old_disk ''/st/interface/global_config_parser.py'' No_Instance = (Inl err_open, Instance None)"
    by (simp add: instance_of_def)
  from failed_configuration_stays [OF this] show ?thesis by blast
qed

lemma configuration_once:
  "fst (instance_of d m g) = Inr (Some w) \<Longrightarrow> instance_of d' m' (snd (instance_of d m g)) = (Inr (Some w), snd (instance_of d m g))"
  by (auto simp: instance_of_def split: global_config.splits sum.splits)

end
