(* ===== verification/Report_Files.thy ===== *)
theory Report_Files
  imports St_Report Util_Files
begin

text \<open>
  The files of the test report, \<^verbatim>\<open>src/main/st_report.py\<close>: saving, loading, the expectations of the case
  file and the summary printed at the end. Proved: a report that is saved and loaded again has its cases,
  its stages and its command.
\<close>

section \<open>Saving, loading and printing\<close>

definition save_report ::
    "(pyfloat \<Rightarrow> string) \<Rightarrow> makedirs \<Rightarrow> fs \<Rightarrow> string \<Rightarrow> st_report \<Rightarrow> disk \<Rightarrow> disk res" where
  "save_report fr mk f report_data_path rpt d =
     (let p = fs_realpath f report_data_path; dir = path_dirname p in
      bindE (if fs_exists f dir then Inr f
             else (case mk f dir of None \<Rightarrow> Inl OSError | Some f' \<Rightarrow> Inr f')) (\<lambda>_.
        case save_json_file p (json_dumps fr False 4 (PyDict (report_to_json rpt))) d of
          Inl e \<Rightarrow> Inl err_path
        | Inr d' \<Rightarrow> Inr d'))"

definition load_report :: "disk \<Rightarrow> string \<Rightarrow> st_report \<Rightarrow> st_report res" where
  "load_report d report_file rpt =
     bindE (open_text d report_file) (\<lambda>json_text_read.
     bindE (json_loads json_text_read) (\<lambda>v.
     bindE (as_dict v) (load rpt)))"

definition set_expect_file :: "disk \<Rightarrow> string \<Rightarrow> st_report \<Rightarrow> st_report res" where
  "set_expect_file d input_json_path rpt =
     bindE (load_json_file d input_json_path) (\<lambda>v.
     bindE (py_iter v) (\<lambda>items.
     bindE (mapE as_dict items) (set_expect rpt)))"

definition rule_line :: "char \<Rightarrow> string" where
  "rule_line c = replicate 72 c @ [CHR 0x0A]"

definition summary_lines :: "(pyfloat \<Rightarrow> string) \<Rightarrow> st_report \<Rightarrow> string" where
  "summary_lines fr rpt =
     rule_line CHR ''='' @ ''run command: '' @ py_str fr (run_cmd rpt) @ [CHR 0x0A]
     @ rule_line CHR ''-'' @ ''- test case count: '' @ str_int (total_cnt rpt) @ [CHR 0x0A]
     @ ''- success count: '' @ str_int (success_cnt rpt) @ [CHR 0x0A]
     @ ''- failed count: '' @ str_int (failed_cnt rpt) @ [CHR 0x0A]
     @ rule_line CHR ''-'' @ rule_line CHR ''=''"

definition summary_txt :: "(pyfloat \<Rightarrow> string) \<Rightarrow> st_report \<Rightarrow> (string \<times> st_report) res" where
  "summary_txt fr rpt =
     (if report_list rpt = [] then Inr ([], rpt)
      else bindE (summary rpt) (\<lambda>rpt. Inr (summary_lines fr rpt, rpt)))"

section \<open>Properties\<close>

text \<open>A report that its JSON text can carry: ASCII texts, readable doubles and no tuples.\<close>

definition json_report :: "(pyfloat \<Rightarrow> string) \<Rightarrow> st_report \<Rightarrow> bool" where
  "json_report fr rpt \<longleftrightarrow>
     json_ok fr (PyDict (report_to_json rpt))
       \<and> as_json (PyDict (report_to_json rpt)) = PyDict (report_to_json rpt)"

lemma save_report_text:
  assumes "save_report fr mk f path rpt d = Inr d'" and "d_read_ok d (fs_realpath f path)"
  shows "open_text d' (fs_realpath f path) = Inr (json_dumps fr False 4 (PyDict (report_to_json rpt)))"
proof -
  from assms(1) have
    "save_json_file (fs_realpath f path) (json_dumps fr False 4 (PyDict (report_to_json rpt))) d = Inr d'"
    by (auto simp: save_report_def Let_def split: sum.splits if_splits option.splits)
  from saved_text(1) [OF this] assms(2) show ?thesis by simp
qed

text \<open>
  C39. A report that was saved to a file, replacing whatever was there, loads again, with the command, the
  information of every case and every stage of every trace (a stage command that is empty comes back as
  \<^verbatim>\<open>None\<close>). The status, the expectation and the counters are not restored: every case is a
  success again.
\<close>

theorem saved_report_loads:
  assumes "json_report fr rpt" and "save_report fr mk f path rpt d = Inr d'"
    and "d_read_ok d (fs_realpath f path)"
  shows "\<exists>rpt'. load_report d' (fs_realpath f path) (new_report cmd) = Inr rpt'
     \<and> run_cmd rpt' = run_cmd rpt
     \<and> map (\<lambda>c. st_case_info (trace_detail c)) (report_list rpt')
         = map (\<lambda>c. st_case_info (trace_detail c)) (report_list rpt)
     \<and> shown_stages rpt' = map (map kept_stage) (shown_stages rpt)
     \<and> list_all (\<lambda>c. rpt_status c = SUCCESS \<and> rpt_expect c = EXPECT_SUCCESS) (report_list rpt')
     \<and> total_cnt rpt' = 0"
proof -
  from assms(1) have "json_loads (json_dumps fr False 4 (PyDict (report_to_json rpt)))
      = Inr (PyDict (report_to_json rpt))"
    using json_round_trip [of fr "PyDict (report_to_json rpt)" False 4] by (simp add: json_report_def)
  with save_report_text [OF assms(2,3)]
  have "load_report d' (fs_realpath f path) (new_report cmd) = load (new_report cmd) (report_to_json rpt)"
    by (simp add: load_report_def)
  with report_roundtrip [of cmd rpt] show ?thesis by simp
qed

definition small_report :: st_report where
  "small_report = (new_report (PyStr ''msopst run''))\<lparr>
     stages := [\<lparr>sr_status = PyStr FAILED, sr_result = PyNone, sr_stage_name = PyStr ''run_acl_code'', sr_cmd = PyStr ''./main''\<rparr>],
     report_list := [new_case_report \<lparr>st_case_info = new_case (PyStr ''Add_case_001'') PyNone, stage_result = [0]\<rparr>]\<rparr>"

lemma small_report_json: "json_report half_text small_report"
  by (simp add: json_report_def small_report_def report_to_json_def new_report_def new_case_report_def new_case_def
      case_report_to_json_def trace_to_json_def case_to_json_def stage_to_json_def summary_to_json_def ascii_def)

theorem saved_report_loads_witness:
  "\<exists>d'. save_report half_text mkdir_one empty_fs ''a.json'' small_report old_disk = Inr d'
     \<and> (\<exists>rpt'. load_report d' ''a.json'' (new_report PyNone) = Inr rpt' \<and> run_cmd rpt' = PyStr ''msopst run'')"
proof -
  obtain d' where d': "save_report half_text mkdir_one empty_fs ''a.json'' small_report old_disk = Inr d'"
    by (simp add: save_report_def save_json_file_def remove_old_def os_remove_def write_new_def old_disk_def
        dhas_def dpop_def empty_fs_def mkdir_one_def Let_def)
  have p: "fs_realpath empty_fs ''a.json'' = ''a.json''" by (simp add: empty_fs_def)
  have "d_read_ok old_disk (fs_realpath empty_fs ''a.json'')" by (simp add: old_disk_def)
  from saved_report_loads [OF small_report_json d' this, of PyNone] d' show ?thesis
    unfolding p by (force simp: small_report_def new_report_def)
qed

text \<open>An empty report prints nothing and changes nothing.\<close>

lemma summary_txt_empty: "report_list rpt = [] \<Longrightarrow> summary_txt fr rpt = Inr ([], rpt)"
  by (simp add: summary_txt_def)

end
