(* ===== verification/Atc_Transform.thy ===== *)
theory Atc_Transform
  imports St_Report Adv_Options Data_Gen Util_Files
begin

text \<open>
  The conversion of single operators to models, \<^verbatim>\<open>src/main/atc_transform_om.py\<close>, with the constant inputs
  of \<^verbatim>\<open>src/main/utils.py\<close>: the test cases become \<^verbatim>\<open>acl_op.json\<close>, and \<^verbatim>\<open>atc\<close> runs on it. Proved: the file
  holds the entry of every case and no entry twice, the inputs of an entry have different names, and a
  conversion that returns leaves the same report whatever the exit code of \<^verbatim>\<open>atc\<close> was.
\<close>

section \<open>The state\<close>

text \<open>
  \<open>atc_env\<close> is what runs outside: numpy, the creation of directories, and the process, which sees the
  directory it starts in, the environment and the command, and may change the files. \<open>atc_fs\<close> answers for
  paths as seen from the directory where the program started, which \<open>atc_cwd = []\<close> stands for.
\<close>

record 'a atc_env =
  atc_numpy :: "'a dg_env"
  np_flatten :: "'a \<Rightarrow> 'a"
  np_tolist :: "'a \<Rightarrow> pyval"
  flat_list :: "pyval \<Rightarrow> pyval res"
  float_text :: "pyfloat \<Rightarrow> string"
  atc_mkdirs :: makedirs
  atc_process :: "string \<Rightarrow> (string \<times> string) list \<Rightarrow> string list \<Rightarrow> fs \<Rightarrow> (process \<times> fs) option"

record 'a atc_state =
  testcase_list :: "pydict list"
  atc_consts :: "(string \<times> 'a) list"
  atc_disk :: disk
  atc_fs :: fs
  atc_report :: st_report
  atc_cwd :: string
  atc_environ :: "(string \<times> string) list"

definition here :: "'a atc_state \<Rightarrow> string \<Rightarrow> string" where
  "here s p = path_join (atc_cwd s) p"

definition atc_init ::
    "'a atc_env \<Rightarrow> pydict list \<Rightarrow> string \<Rightarrow> bool \<Rightarrow> st_report \<Rightarrow> disk \<Rightarrow> fs \<Rightarrow> (string \<times> 'a atc_state) res" where
  "atc_init env cases output_path machine_type report d f =
     bindE (check_output_path (atc_mkdirs env) f output_path cases machine_type) (\<lambda>(out, f').
       Inr (out, \<lparr>testcase_list = cases, atc_consts = [], atc_disk = d, atc_fs = f', atc_report = report,
                  atc_cwd = [], atc_environ = []\<rparr>))"

section \<open>Constant inputs\<close>

definition generate_const_value ::
    "'a atc_env \<Rightarrow> 'a \<Rightarrow> string \<Rightarrow> pyval \<Rightarrow> nat \<Rightarrow> 'a atc_state \<Rightarrow> (pyval \<times> 'a atc_state) res" where
  "generate_const_value env data output_path case_nm index s =
     (let const_data = np_flatten env data;
          dir = foldl path_join output_path [''run'', ''out'', ''test_data'', ''data''] in
      bindE (make_dirs (atc_mkdirs env) (atc_fs s) dir) (\<lambda>f.
      bindE (py_name case_nm) (\<lambda>nm.
      let file_path = path_join dir (nm @ ''_input_'' @ str_nat index @ ''.bin'') in
      bindE (raise_if (\<not> can_write (atc_numpy env) file_path) OSError) (\<lambda>_.
        Inr (np_tolist env const_data,
             s\<lparr>atc_fs := f, atc_consts := dset (atc_consts s) file_path const_data\<rparr>)))))"

definition const_value_of ::
    "'a atc_env \<Rightarrow> pydict \<Rightarrow> string \<Rightarrow> pyval \<Rightarrow> nat \<Rightarrow> 'a atc_state \<Rightarrow> (pyval \<times> 'a atc_state) res" where
  "const_value_of env desc_dict output_path case_nm index s =
     (let case_value = dget desc_dict VALUE in
      if truthy case_value then
        (case case_value of
           PyStr path \<Rightarrow>
             bindE (str_field desc_dict ''type'') (\<lambda>dtype.
             bindE (np_type (atc_numpy env) dtype) (\<lambda>t.
             bindE (np_fromfile (atc_numpy env) path t) (\<lambda>r. case r of
               None \<Rightarrow> Inl RuntimeError
             | Some data \<Rightarrow> Inr (np_tolist env data, s))))
         | _ \<Rightarrow> bindE (flat_list env case_value) (\<lambda>v. Inr (v, s)))
      else
        bindE (unpack_range (dget desc_dict ''value_range'')) (\<lambda>(range_min, range_max).
        bindE (str_field desc_dict ''type'') (\<lambda>dtype.
        bindE (gen_data (atc_numpy env) (dget desc_dict ''shape'') range_min range_max dtype
                 (distribution_of desc_dict)) (\<lambda>r. case r of
          None \<Rightarrow> Inl AttributeError
        | Some data \<Rightarrow> generate_const_value env data output_path case_nm index s))))"

definition add_const_info_in_acl_json ::
    "'a atc_env \<Rightarrow> pydict \<Rightarrow> pydict \<Rightarrow> string \<Rightarrow> pyval \<Rightarrow> nat \<Rightarrow> 'a atc_state \<Rightarrow> (pydict \<times> 'a atc_state) res" where
  "add_const_info_in_acl_json env desc_dict res_desc_dic output_path case_nm index s =
     (if dget desc_dict IS_CONST = PyBool True then
        bindE (const_value_of env desc_dict output_path case_nm index s) (\<lambda>(const_value, s).
          Inr (dupdate res_desc_dic [(IS_CONST, dget desc_dict IS_CONST), (CONST_VALUE, const_value)], s))
      else Inr (res_desc_dic, s))"

section \<open>The entry of a test case\<close>

definition get_trans_data_info :: "pydict \<Rightarrow> pyval \<times> pyval \<times> pyval" where
  "get_trans_data_info desc_dic =
     (if py_in (dget desc_dic ''format'') (map PyStr OPTIONAL_TYPE_LIST)
         \<or> dget desc_dic ''type'' = PyStr TYPE_UNDEFINED
      then (PyList [], PyStr TYPE_UNDEFINED, PyStr TYPE_UNDEFINED)
      else (dget desc_dic ''shape'', dget desc_dic ''type'', dget desc_dic ''format''))"

definition base_desc :: "pydict \<Rightarrow> pydict" where
  "base_desc desc_dic =
     (let (data_shape, data_type, data_format) = get_trans_data_info desc_dic in
      if dget desc_dic ''ori_format'' \<noteq> PyNone \<and> dget desc_dic ''ori_shape'' \<noteq> PyNone
      then [(''format'', data_format), (''origin_format'', dget desc_dic ''ori_format''), (''type'', data_type),
            (''shape'', data_shape), (''origin_shape'', dget desc_dic ''ori_shape'')]
      else [(''format'', data_format), (''type'', data_type), (''shape'', data_shape)])"

definition add_desc_name :: "pydict \<Rightarrow> pydict \<Rightarrow> pyval list \<Rightarrow> (pydict \<times> pyval list) res" where
  "add_desc_name desc_dic res_desc_dic names =
     (let input_name = dget desc_dic ''name'' in
      if input_name = PyNone then Inr (res_desc_dic, names)
      else if py_in input_name names then Inl (OpTestGenException OP_TEST_GEN_INVALID_INPUT_NAME_ERROR)
      else Inr (dset res_desc_dic ''name'' input_name, names @ [input_name]))"

definition add_shape_range :: "pydict \<Rightarrow> pydict \<Rightarrow> pydict" where
  "add_shape_range desc_dic res_desc_dic =
     (if truthy (dget desc_dic SHAPE_RANGE) then dset res_desc_dic SHAPE_RANGE (dget desc_dic SHAPE_RANGE)
      else res_desc_dic)"

definition desc_step ::
    "'a atc_env \<Rightarrow> string \<Rightarrow> pyval \<Rightarrow> pyval list \<times> pyval list \<times> 'a atc_state \<Rightarrow> nat \<times> pyval \<Rightarrow>
      (pyval list \<times> pyval list \<times> 'a atc_state) res" where
  "desc_step env output_path case_nm st entry =
     (case (st, entry) of ((descs, names, s), (index, desc)) \<Rightarrow>
        bindE (as_dict desc) (\<lambda>desc_dic.
        bindE (add_const_info_in_acl_json env desc_dic (base_desc desc_dic) output_path case_nm index s) (\<lambda>(res, s).
        bindE (add_desc_name desc_dic res names) (\<lambda>(res, names).
          Inr (descs @ [PyDict (add_shape_range desc_dic res)], names, s)))))"

definition get_desc_dic ::
    "'a atc_env \<Rightarrow> string \<Rightarrow> pydict \<Rightarrow> string \<Rightarrow> pydict \<Rightarrow> 'a atc_state \<Rightarrow> (pydict \<times> 'a atc_state) res" where
  "get_desc_dic env key_desc testcase_struct output_path tmp_dic s =
     bindE (py_iter (dget testcase_struct key_desc)) (\<lambda>descs.
     bindE (foldE (desc_step env output_path (dget testcase_struct CASE_NAME)) ([], [], s)
              (zip [0..<length descs] descs)) (\<lambda>(out, names, s).
       Inr (dset tmp_dic key_desc (PyList out), s)))"

definition acl_attr :: "pyval \<Rightarrow> pyval res" where
  "acl_attr v =
     bindE (as_dict v) (\<lambda>attr_dic.
       if dget attr_dic ''type'' = PyStr ''data_type'' then
         bindE (raise_if (\<not> hashable (dget attr_dic ''value'')) TypeError) (\<lambda>_.
           Inr (PyDict (case dget attr_dic ''value'' of
              PyStr t \<Rightarrow>
                (case map_of ATTR_TYPE_SUPPORT_TYPE_MAP t of
                   Some dt \<Rightarrow> dset attr_dic ''value'' (PyStr dt)
                 | None \<Rightarrow> attr_dic)
            | _ \<Rightarrow> attr_dic)))
       else Inr (PyDict attr_dic))"

text \<open>
  The attributes are changed in place, so the test case that later steps see has the new values: the
  result is the entry, the test case and the state.
\<close>

definition get_testcase_dict ::
    "'a atc_env \<Rightarrow> pydict \<Rightarrow> string \<Rightarrow> 'a atc_state \<Rightarrow> (pydict \<times> pydict \<times> 'a atc_state) res" where
  "get_testcase_dict env testcase_struct output_path s =
     (let tmp = [(''op'', dget testcase_struct ''op'')] in
      bindE (if dhas testcase_struct ''input_desc''
             then get_desc_dic env ''input_desc'' testcase_struct output_path tmp s else Inr (tmp, s)) (\<lambda>(tmp, s).
      bindE (if dhas testcase_struct ''output_desc''
             then get_desc_dic env ''output_desc'' testcase_struct output_path tmp s else Inr (tmp, s)) (\<lambda>(tmp, s).
      if dhas testcase_struct ''attr'' then
        bindE (py_iter (dget testcase_struct ''attr'')) (\<lambda>attrs.
        bindE (mapE acl_attr attrs) (\<lambda>attrs.
          Inr (dset tmp ''attr'' (PyList attrs), dset testcase_struct ''attr'' (PyList attrs), s)))
      else Inr (tmp, testcase_struct, s))))"

section \<open>The file\<close>

definition add_entry :: "pyval list \<Rightarrow> pydict \<Rightarrow> pyval list" where
  "add_entry content tmp_dic =
     (if py_in (PyDict tmp_dic) content then content else content @ [PyDict tmp_dic])"

definition content_step ::
    "'a atc_env \<Rightarrow> string \<Rightarrow> pyval list \<times> pydict list \<times> 'a atc_state \<Rightarrow> pydict \<Rightarrow>
      (pyval list \<times> pydict list \<times> 'a atc_state) res" where
  "content_step env output_path st testcase_struct =
     (case st of (content, done_cases, s) \<Rightarrow>
        bindE (get_testcase_dict env testcase_struct output_path s) (\<lambda>(tmp_dic, tc, s).
          Inr (add_entry content tmp_dic, done_cases @ [tc], s)))"

definition create_acl_op_json_content ::
    "'a atc_env \<Rightarrow> string \<Rightarrow> pyval option \<Rightarrow> 'a atc_state \<Rightarrow> (pyval list \<times> 'a atc_state) res" where
  "create_acl_op_json_content env output_path compile_flag s =
     (let content = (case compile_flag of None \<Rightarrow> [] | Some cf \<Rightarrow> [PyDict [(''compile_flag'', cf)]]) in
      bindE (foldE (content_step env output_path) (content, [], s) (testcase_list s))
        (\<lambda>(content, cases, s). Inr (content, s\<lparr>testcase_list := cases\<rparr>)))"

text \<open>\<^verbatim>\<open>_write_content_to_file\<close> truncates, so nothing of an old file stays.\<close>

definition write_content_to_file :: "string \<Rightarrow> string \<Rightarrow> disk \<Rightarrow> disk res" where
  "write_content_to_file content file_path d =
     (if d_write_ok d file_path then Inr (d\<lparr>d_text := dset (d_text d) file_path content\<rparr>) else Inl err_write_file)"

definition create_acl_op ::
    "'a atc_env \<Rightarrow> string \<Rightarrow> pyval option \<Rightarrow> 'a atc_state \<Rightarrow> 'a atc_state res" where
  "create_acl_op env output_path compile_flag s =
     bindE (create_acl_op_json_content env output_path compile_flag s) (\<lambda>(content, s).
     let dir = output_path @ TEST_DATA_CONFIG_RELATIVE_PATH in
     bindE (if fs_exists (atc_fs s) dir then Inr (atc_fs s)
            else (case atc_mkdirs env (atc_fs s) dir of None \<Rightarrow> Inl OSError | Some f \<Rightarrow> Inr f)) (\<lambda>f.
     bindE (write_content_to_file (json_dumps (float_text env) True 2 (PyList content))
              (path_join dir ''acl_op.json'') (atc_disk s)) (\<lambda>d.
       Inr (s\<lparr>atc_fs := f, atc_disk := d\<rparr>))))"

section \<open>The conversion\<close>

definition set_log_level_env :: "adv_args option \<Rightarrow> 'a atc_state \<Rightarrow> 'a atc_state" where
  "set_log_level_env advance_args s =
     (case advance_args of
        None \<Rightarrow> s
      | Some a \<Rightarrow>
          (let (level, slog) = get_env_value a in
           s\<lparr>atc_environ := dset (dset (atc_environ s) ''ASCEND_GLOBAL_LOG_LEVEL'' level)
                ''ASCEND_SLOG_PRINT_TO_STDOUT'' slog\<rparr>))"

definition get_atc_cmd :: "string \<Rightarrow> adv_args option \<Rightarrow> string list" where
  "get_atc_cmd soc_version advance_args =
     [''atc'', ''--singleop=test_data/config/acl_op.json'', ''--soc_version='' @ soc_version, ''--output=op_models'']
     @ (case advance_args of None \<Rightarrow> [] | Some a \<Rightarrow> get_atc_advance_cmd a)"

definition convert_stage :: "string \<Rightarrow> string \<Rightarrow> stage" where
  "convert_stage status cmd_str =
     \<lparr>sr_status = PyStr status, sr_result = PyNone, sr_stage_name = PyStr ''atc_single_op_convert'',
      sr_cmd = PyStr cmd_str\<rparr>"

definition add_stage :: "string \<Rightarrow> string \<Rightarrow> 'a atc_state \<Rightarrow> 'a atc_state" where
  "add_stage status cmd_str s =
     s\<lparr>atc_report := add_op_st_stage_result (convert_stage status cmd_str) (atc_report s)\<rparr>"

definition execute_atc_cmd ::
    "'a atc_env \<Rightarrow> string list \<Rightarrow> string \<Rightarrow> 'a atc_state \<Rightarrow> unit res \<times> 'a atc_state" where
  "execute_atc_cmd env atc_cmd cmd_str s =
     (case atc_process env (atc_cwd s) (atc_environ s) atc_cmd (atc_fs s) of
        None \<Rightarrow> (Inl OSError, s)
      | Some (p, f) \<Rightarrow>
          (case execute_command (\<lambda>_. Some p) atc_cmd of
             Inl e \<Rightarrow> (Inl e, s\<lparr>atc_fs := f\<rparr>)
           | Inr _ \<Rightarrow> (Inr (), add_stage SUCCESS cmd_str (s\<lparr>atc_fs := f\<rparr>))))"

definition finish_convert :: "string \<Rightarrow> 'a atc_state \<Rightarrow> unit res \<times> 'a atc_state" where
  "finish_convert cmd_str s = (Inr (), (add_stage SUCCESS cmd_str s)\<lparr>atc_cwd := []\<rparr>)"

definition cmd_line :: "string \<Rightarrow> string list \<Rightarrow> string" where
  "cmd_line run_out_path atc_cmd = ''cd '' @ run_out_path @ '' && '' @ s_join '' '' atc_cmd @ '' ''"

definition convert_in_run_out ::
    "'a atc_env \<Rightarrow> string \<Rightarrow> string list \<Rightarrow> 'a atc_state \<Rightarrow> unit res \<times> 'a atc_state" where
  "convert_in_run_out env run_out_path atc_cmd s =
     (let cmd_str = cmd_line run_out_path atc_cmd in
      case execute_atc_cmd env atc_cmd cmd_str s of
        (Inl (OpTestGenException _), s) \<Rightarrow>
          (let s = add_stage FAILED cmd_str s in
           if EXPECT_FAILED \<notin> snd ` set (expect_dict (atc_report s)) then
             (case check_path_exists (atc_fs s) (here s (path_join run_out_path ''op_models'')) ATC_TRANSFORM_ERROR of
                Inl e \<Rightarrow> (Inl e, s)
              | Inr _ \<Rightarrow> finish_convert cmd_str s)
           else finish_convert cmd_str s)
      | (Inl e, s) \<Rightarrow> (Inl e, s)
      | (Inr _, s) \<Rightarrow> finish_convert cmd_str s)"

definition transform_acl_json_to_om ::
    "'a atc_env \<Rightarrow> string \<Rightarrow> pyval option \<Rightarrow> string \<Rightarrow> adv_args option \<Rightarrow> 'a atc_state \<Rightarrow> unit res \<times> 'a atc_state" where
  "transform_acl_json_to_om env output_path compile_flag soc_version advance_args s =
     (case create_acl_op env output_path compile_flag s of
        Inl e \<Rightarrow> (Inl e, s)
      | Inr s \<Rightarrow>
          (let s = set_log_level_env advance_args s; run_out_path = path_join output_path RUN_OUT in
           if \<not> fs_isdir (atc_fs s) run_out_path then (Inl OSError, s)
           else convert_in_run_out env run_out_path (get_atc_cmd soc_version advance_args)
                  (s\<lparr>atc_cwd := run_out_path\<rparr>)))"

section \<open>The report is left alone until the conversion\<close>

lemma const_value_report:
  "const_value_of env d out nm i s = Inr (v, s') \<Longrightarrow> atc_report s' = atc_report s"
  by (auto simp: const_value_of_def generate_const_value_def Let_def split: if_splits pyval.splits option.splits)

lemma add_const_report:
  "add_const_info_in_acl_json env d r out nm i s = Inr (r', s') \<Longrightarrow> atc_report s' = atc_report s"
  by (auto simp: add_const_info_in_acl_json_def dest: const_value_report split: if_splits)

lemma desc_step_report:
  "desc_step env out nm (ds, ns, s) e = Inr (ds', ns', s') \<Longrightarrow> atc_report s' = atc_report s"
  by (cases e) (auto simp: desc_step_def dest: add_const_report)

lemma get_desc_report:
  assumes "get_desc_dic env k tc out tmp s = Inr (tmp', s')"
  shows "atc_report s' = atc_report s"
proof -
  have "foldE (desc_step env out nm) st es = Inr st' \<Longrightarrow> atc_report (snd (snd st')) = atc_report (snd (snd st))"
    for nm st es st'
    by (induction es arbitrary: st) (auto dest: desc_step_report)
  with assms show ?thesis by (fastforce simp: get_desc_dic_def)
qed

lemma testcase_report:
  "get_testcase_dict env tc out s = Inr (tmp, tc', s') \<Longrightarrow> atc_report s' = atc_report s"
  by (auto simp: get_testcase_dict_def Let_def split: if_splits dest!: get_desc_report)

lemma content_report:
  assumes "create_acl_op_json_content env out cf s = Inr (content, s')"
  shows "atc_report s' = atc_report s"
proof -
  have "foldE (content_step env out) st cs = Inr st' \<Longrightarrow> atc_report (snd (snd st')) = atc_report (snd (snd st))"
    for st cs st'
    by (induction cs arbitrary: st) (auto simp: content_step_def dest: testcase_report)
  with assms show ?thesis by (fastforce simp: create_acl_op_json_content_def Let_def)
qed

lemma create_acl_op_report: "create_acl_op env out cf s = Inr s' \<Longrightarrow> atc_report s' = atc_report s"
  by (auto simp: create_acl_op_def Let_def split: if_splits option.splits dest: content_report)

lemma log_level_report [simp]: "atc_report (set_log_level_env adv s) = atc_report s"
  by (simp add: set_log_level_env_def split: option.splits prod.splits)

section \<open>Properties\<close>

lemma overwrite_same_name:
  "sr_stage_name a = sr_stage_name b \<Longrightarrow> overwrite a (overwrite b x) = overwrite a x"
  by (simp add: overwrite_def)

lemma overwrite_convert [simp]:
  "overwrite (convert_stage a l) (overwrite (convert_stage b l') x) = overwrite (convert_stage a l) x"
  "overwrite (convert_stage a l) (convert_stage b l) = convert_stage a l"
  by (simp_all add: overwrite_same_name convert_stage_def) (simp add: overwrite_def)

lemma two_stages_shown:
  assumes "report_ok (atc_report s)"
  shows "shown_stages (atc_report (snd (finish_convert l (add_stage a l s))))
    = map (\<lambda>ss. map (overwrite (convert_stage SUCCESS l)) ss @ [convert_stage SUCCESS l, convert_stage SUCCESS l])
        (shown_stages (atc_report s))"
  using assms
  by (simp add: finish_convert_def add_stage_def shown_after_stage report_ok_add_op comp_def)

text \<open>With a relative output path, the models are looked for in the wrong place.\<close>

lemma relative_output_elsewhere:
  "\<not> startswith r ''/'' \<Longrightarrow> r \<noteq> [] \<Longrightarrow>
     here (s\<lparr>atc_cwd := r\<rparr>) (path_join r ''op_models'') = path_join r (path_join r ''op_models'')"
  "startswith r ''/'' \<Longrightarrow> here (s\<lparr>atc_cwd := c\<rparr>) (path_join r ''op_models'') = path_join r ''op_models''"
  by (auto simp: here_def path_join_def startswith_def)

text \<open>
  C13. A conversion that returns shows every case a successful stage, twice, and turns every earlier stage of
  that name into a success, whatever the exit code of \<^verbatim>\<open>atc\<close> was: the failure that the handler reports
  is overwritten by the success that follows it.
\<close>

theorem conversion_always_success:
  assumes "report_ok (atc_report s)"
    and "transform_acl_json_to_om env out cf soc adv s = (Inr (), s')"
  shows "shown_stages (atc_report s')
    = (let ok = convert_stage SUCCESS (cmd_line (path_join out RUN_OUT) (get_atc_cmd soc adv)) in
       map (\<lambda>ss. map (overwrite ok) ss @ [ok, ok]) (shown_stages (atc_report s)))"
proof -
  let ?l = "cmd_line (path_join out RUN_OUT) (get_atc_cmd soc adv)"
  from assms(2) obtain u where u: "create_acl_op env out cf s = Inr u"
    and c: "convert_in_run_out env (path_join out RUN_OUT) (get_atc_cmd soc adv)
      ((set_log_level_env adv u)\<lparr>atc_cwd := path_join out RUN_OUT\<rparr>) = (Inr (), s')"
    by (auto simp: transform_acl_json_to_om_def Let_def split: sum.splits if_splits)
  define t where "t = (set_log_level_env adv u)\<lparr>atc_cwd := path_join out RUN_OUT\<rparr>"
  have t: "atc_report t = atc_report s" by (simp add: t_def create_acl_op_report [OF u])
  note c = c [folded t_def]
  from c obtain a f where "finish_convert ?l (add_stage a ?l (t\<lparr>atc_fs := f\<rparr>)) = (Inr (), s')"
    by (auto simp: convert_in_run_out_def execute_atc_cmd_def Let_def
        split: option.splits sum.splits prod.splits exn.splits if_splits)
  then have "s' = snd (finish_convert ?l (add_stage a ?l (t\<lparr>atc_fs := f\<rparr>)))"
    by (metis snd_conv)
  with two_stages_shown [of "t\<lparr>atc_fs := f\<rparr>" ?l a] assms(1) t show ?thesis
    by (simp add: Let_def)
qed

definition all_there :: fs where
  "all_there = empty_fs\<lparr>fs_exists := \<lambda>_. True, fs_isdir := \<lambda>_. True, fs_listdir := \<lambda>_. [''add.om'']\<rparr>"

definition failing_env :: "nat atc_env" where
  "failing_env = \<lparr>atc_numpy = zeros_env, np_flatten = \<lambda>x. x, np_tolist = \<lambda>x. PyList [], flat_list = Inr,
     float_text = half_text, atc_mkdirs = mkdir_one, atc_process = \<lambda>_ _ _ f. Some (([], [], 1), f)\<rparr>"

definition before_convert :: "nat atc_state" where
  "before_convert = \<lparr>testcase_list = [], atc_consts = [], atc_disk = old_disk, atc_fs = all_there,
     atc_report = report_ex, atc_cwd = [], atc_environ = []\<rparr>"

theorem conversion_always_success_witness:
  "let (r, s') = transform_acl_json_to_om failing_env ''/o'' None ''Ascend310'' None before_convert;
       l = cmd_line ''/o/run/out'' (get_atc_cmd ''Ascend310'' None) in
   r = Inr () \<and> last (hd (shown_stages (atc_report s'))) = convert_stage SUCCESS l"
proof -
  obtain s' where s': "transform_acl_json_to_om failing_env ''/o'' None ''Ascend310'' None before_convert = (Inr (), s')"
    by (simp add: transform_acl_json_to_om_def create_acl_op_def create_acl_op_json_content_def before_convert_def
        write_content_to_file_def old_disk_def set_log_level_env_def convert_in_run_out_def execute_atc_cmd_def
        failing_env_def execute_command_def check_path_exists_def all_there_def Let_def finish_convert_def
        add_stage_def cong: if_cong)
  have ok: "report_ok (atc_report before_convert)" by (simp add: before_convert_def report_ex_ok)
  have p: "path_join ''/o'' RUN_OUT = ''/o/run/out''" by (simp add: path_join_def startswith_def endswith_def)
  have n: "shown_stages (atc_report before_convert) \<noteq> []"
    by (simp add: before_convert_def report_ex_def shown_stages_def)
  from conversion_always_success [OF ok s'] n show ?thesis
    unfolding s' p by (simp add: Let_def hd_map)
qed

section \<open>The entries of the file\<close>

abbreviation (input) unequal :: "pyval list \<Rightarrow> bool" where
  "unequal vs \<equiv> sorted_wrt (\<lambda>a b. \<not> py_eq a b) vs"

definition desc_names :: "pyval \<Rightarrow> pyval list" where
  "desc_names v =
     (case v of
        PyList descs \<Rightarrow> filter (\<lambda>n. n \<noteq> PyNone)
          (map (\<lambda>d. case d of PyDict e \<Rightarrow> dget e ''name'' | _ \<Rightarrow> PyNone) descs)
      | _ \<Rightarrow> [])"

definition names_differ :: "pydict \<Rightarrow> bool" where
  "names_differ e \<longleftrightarrow> unequal (desc_names (dget e ''input_desc'')) \<and> unequal (desc_names (dget e ''output_desc''))"

lemma unequal_snoc: "unequal (vs @ [v]) \<longleftrightarrow> unequal vs \<and> \<not> py_in v vs"
  by (auto simp: sorted_wrt_append py_in_def list_ex_iff)

lemma add_entries:
  "unequal content \<Longrightarrow>
     unequal (foldl add_entry content es)
       \<and> set content \<subseteq> set (foldl add_entry content es)
       \<and> (\<forall>e\<in>set es. PyDict e \<in> set (foldl add_entry content es) \<or> py_in (PyDict e) (foldl add_entry content es))"
proof (induction es arbitrary: content)
  case (Cons e es)
  have u: "unequal (add_entry content e)"
    using Cons.prems by (simp add: add_entry_def unequal_snoc)
  have e: "PyDict e \<in> set (add_entry content e) \<or> py_in (PyDict e) (add_entry content e)"
    and c: "set content \<subseteq> set (add_entry content e)"
    by (auto simp: add_entry_def)
  from Cons.IH [OF u] e c show ?case by (auto simp: py_in_def list_ex_iff)
qed simp

lemma base_desc_name: "dget (base_desc d) ''name'' = PyNone"
  by (simp add: base_desc_def split: prod.splits)

lemma add_const_name:
  "add_const_info_in_acl_json env d r out nm i s = Inr (r', s') \<Longrightarrow> dget r' ''name'' = dget r ''name''"
  by (auto simp: add_const_info_in_acl_json_def dupdate_def split: if_splits)

lemma desc_step_names:
  assumes "desc_step env out nm (ds, ns, s) e = Inr (ds', ns', s')"
    and "desc_names (PyList ds) = ns" and "unequal ns"
  shows "desc_names (PyList ds') = ns' \<and> unequal ns'"
proof -
  obtain i desc where e: "e = (i, desc)" by (cases e)
  from assms(1) e obtain d r r' where
    r: "add_const_info_in_acl_json env d (base_desc d) out nm i s = Inr (r, s')"
    and n: "add_desc_name d r ns = Inr (r', ns')" and ds: "ds' = ds @ [PyDict (add_shape_range d r')]"
    by (auto simp: desc_step_def)
  have "dget r ''name'' = PyNone" using add_const_name [OF r] by (simp add: base_desc_name)
  with n have "(dget r' ''name'' = PyNone \<and> ns' = ns)
      \<or> (dget r' ''name'' \<noteq> PyNone \<and> ns' = ns @ [dget r' ''name''] \<and> \<not> py_in (dget r' ''name'') ns)"
    by (auto simp: add_desc_name_def Let_def split: if_splits)
  moreover have "dget (add_shape_range d r') ''name'' = dget r' ''name''"
    by (simp add: add_shape_range_def)
  ultimately show ?thesis using assms(2,3) by (auto simp: ds desc_names_def unequal_snoc)
qed

lemma desc_steps_names:
  assumes "foldE (desc_step env out nm) (ds, ns, s) es = Inr (ds', ns', s')"
    and "desc_names (PyList ds) = ns" and "unequal ns"
  shows "desc_names (PyList ds') = ns' \<and> unequal ns'"
  using assms
proof (induction es arbitrary: ds ns s)
  case (Cons e es)
  then obtain ds1 ns1 s1 where 1: "desc_step env out nm (ds, ns, s) e = Inr (ds1, ns1, s1)"
    and r: "foldE (desc_step env out nm) (ds1, ns1, s1) es = Inr (ds', ns', s')" by auto
  from desc_step_names [OF 1 Cons.prems(2,3)] Cons.IH [OF r] show ?case by blast
qed simp

lemma get_desc_names:
  assumes "get_desc_dic env k tc out tmp s = Inr (tmp', s')"
  obtains v where "tmp' = dset tmp k v" and "unequal (desc_names v)"
proof -
  from assms obtain descs ds ns where
    f: "foldE (desc_step env out (dget tc CASE_NAME)) ([], [], s) (zip [0..<length descs] descs) = Inr (ds, ns, s')"
    and t: "tmp' = dset tmp k (PyList ds)"
    by (auto simp: get_desc_dic_def)
  have "unequal (desc_names (PyList ds))"
    using desc_steps_names [OF f] by (simp add: desc_names_def)
  with t show thesis by (rule that)
qed

lemma testcase_names:
  assumes "get_testcase_dict env tc out s = Inr (tmp, tc', s')"
  shows "dget tmp ''op'' = dget tc ''op'' \<and> names_differ tmp"
proof -
  let ?t0 = "[(''op'', dget tc ''op'')]"
  have none: "unequal (desc_names PyNone)" by (simp add: desc_names_def)
  let ?A = "if dhas tc ''input_desc'' then get_desc_dic env ''input_desc'' tc out ?t0 s else Inr (?t0, s)"
  have "\<exists>x. ?A = Inr x"
    using assms by (simp only: get_testcase_dict_def Let_def bindE_eq_Inr) blast
  then obtain t1 s1 where 1: "?A = Inr (t1, s1)" by (metis surj_pair)
  let ?B = "if dhas tc ''output_desc'' then get_desc_dic env ''output_desc'' tc out t1 s1 else Inr (t1, s1)"
  have "\<exists>x. ?B = Inr x"
    using assms by (simp only: get_testcase_dict_def Let_def 1 bindE_simps prod.case bindE_eq_Inr) blast
  then obtain t2 s2 where 2: "?B = Inr (t2, s2)" by (metis surj_pair)
  from assms have 3: "dget tmp ''op'' = dget t2 ''op''" "dget tmp ''input_desc'' = dget t2 ''input_desc''"
      "dget tmp ''output_desc'' = dget t2 ''output_desc''"
    unfolding get_testcase_dict_def Let_def 1 bindE_simps prod.case 2 by (auto split: if_splits)
  from 1 have "dget t1 ''op'' = dget tc ''op'' \<and> unequal (desc_names (dget t1 ''input_desc'')) \<and> dget t1 ''output_desc'' = PyNone"
    by (auto split: if_splits elim: get_desc_names simp: none)
  with 2 have "dget t2 ''op'' = dget tc ''op'' \<and> unequal (desc_names (dget t2 ''input_desc''))
      \<and> unequal (desc_names (dget t2 ''output_desc''))"
    by (auto split: if_splits elim: get_desc_names simp: none)
  with 3 show ?thesis by (simp add: names_differ_def)
qed

lemma content_entries:
  "foldE (content_step env out) (content, cs, s) tcs = Inr (content', cs', s') \<Longrightarrow>
     \<exists>es. content' = foldl add_entry content es
       \<and> list_all2 (\<lambda>tc e. dget e ''op'' = dget tc ''op'' \<and> names_differ e) tcs es"
proof (induction tcs arbitrary: content cs s)
  case (Cons tc tcs)
  then obtain c1 cs1 s1 where st: "content_step env out (content, cs, s) tc = Inr (c1, cs1, s1)"
    and r: "foldE (content_step env out) (c1, cs1, s1) tcs = Inr (content', cs', s')" by auto
  from st obtain tmp tc1 where 1: "get_testcase_dict env tc out s = Inr (tmp, tc1, s1)"
    and c1: "c1 = add_entry content tmp"
    by (auto simp: content_step_def)
  from Cons.IH [OF r [unfolded c1]] obtain es where "content' = foldl add_entry (add_entry content tmp) es"
    and "list_all2 (\<lambda>tc e. dget e ''op'' = dget tc ''op'' \<and> names_differ e) tcs es" by blast
  with testcase_names [OF 1] show ?case by (intro exI [of _ "tmp # es"]) simp
qed simp

text \<open>
  C27. Every test case has its entry in \<^verbatim>\<open>acl_op.json\<close>, one that names its operator and gives no two inputs
  and no two outputs the same name, and no two entries of the file are equal.
\<close>

theorem acl_op_entries:
  assumes "create_acl_op_json_content env out cf s = Inr (content, s')"
  shows "unequal content \<and>
    (\<exists>es. list_all2 (\<lambda>tc e. dget e ''op'' = dget tc ''op'' \<and> names_differ e) (testcase_list s) es
       \<and> (\<forall>e\<in>set es. PyDict e \<in> set content \<or> py_in (PyDict e) content))"
proof -
  let ?c0 = "case cf of None \<Rightarrow> [] | Some v \<Rightarrow> [PyDict [(''compile_flag'', v)]]"
  from assms obtain cs t where "foldE (content_step env out) (?c0, [], s) (testcase_list s) = Inr (content, cs, t)"
    by (auto simp: create_acl_op_json_content_def Let_def)
  from content_entries [OF this] obtain es where es: "content = foldl add_entry ?c0 es"
    "list_all2 (\<lambda>tc e. dget e ''op'' = dget tc ''op'' \<and> names_differ e) (testcase_list s) es" by blast
  have "unequal ?c0" by (simp split: option.split)
  from add_entries [OF this, of es] es show ?thesis by blast
qed

definition two_adds :: "pydict list" where
  "two_adds = replicate 2 [(''op'', PyStr ''Add''), (''case_name'', PyStr ''c''),
     (''input_desc'', PyList [PyDict [(''name'', PyStr ''x''), (''type'', PyStr ''float'')]])]"

theorem acl_op_entries_witness:
  "\<exists>content s'. create_acl_op_json_content failing_env ''/o'' None (before_convert\<lparr>testcase_list := two_adds\<rparr>)
       = Inr (content, s') \<and> unequal content \<and> length content = 1"
proof -
  let ?r = "create_acl_op_json_content failing_env ''/o'' None (before_convert\<lparr>testcase_list := two_adds\<rparr>)"
  have "case ?r of Inl _ \<Rightarrow> False | Inr (content, s') \<Rightarrow> length content = 1"
    by code_simp
  then obtain content s' where r: "?r = Inr (content, s')" and l: "length content = 1"
    by (cases ?r) auto
  from acl_op_entries [OF r] r l show ?thesis by blast
qed

end
