(* ===== verification/Op_Patterns.thy ===== *)
theory Op_Patterns
  imports Py_Value Py_Number
begin

text \<open>
  The tables by which the operator compiler chooses a schedule: the tag lists of
  \<^verbatim>\<open>src/auto_schedule/python/pattern.py\<close>, the enumerations of \<^verbatim>\<open>cce_schedule_declarations.py\<close> and the
  constants of \<^verbatim>\<open>constants.py\<close>. Proved: no two patterns have the same list of tags, no member of an
  enumeration is an alias of another, and the list of a half precision operator is the one of its single
  precision form with conversions added.
\<close>

section \<open>Tag lists\<close>

definition P_NONE :: string where
  "P_NONE = ''pattern_none''"

definition layernorm_fp16_1980 :: "string list" where
  "layernorm_fp16_1980 =
    [''elewise_single_cast|not_auto_cast'', ''elewise_binary_add'', ''elewise_binary_mul'',
     ''broadcast_for_tensor'', ''elewise_single_cast|not_auto_cast'', ''elewise_binary_mul'',
     ''elewise_binary_sub'', ''elewise_single_cast|not_auto_cast'', ''broadcast_for_tensor'',
     ''reduce_sum'', ''elewise_single_VS_mul'', ''elewise_single_exp'', ''elewise_single_VS_mul'',
     ''elewise_single_log'', ''elewise_single_VS_add'', ''broadcast_for_tensor'', ''reduce_sum'',
     ''elewise_single_VS_mul'', ''elewise_binary_mul'', ''elewise_binary_sub'',
     ''broadcast_for_tensor'', ''elewise_single_cast|not_auto_cast'',
     ''elewise_single_cast|not_auto_cast'', ''elewise_single_cast|not_auto_cast'']"

definition layernorm_fp32_1980 :: "string list" where
  "layernorm_fp32_1980 =
    [''elewise_binary_add'', ''elewise_binary_mul'', ''broadcast_for_tensor'', ''elewise_binary_mul'',
     ''elewise_binary_sub'', ''broadcast_for_tensor'', ''reduce_sum'', ''elewise_single_VS_mul'',
     ''elewise_single_exp'', ''elewise_single_VS_mul'', ''elewise_single_log'',
     ''elewise_single_VS_add'', ''broadcast_for_tensor'', ''reduce_sum'', ''elewise_single_VS_mul'',
     ''elewise_binary_mul'', ''elewise_binary_sub'', ''broadcast_for_tensor'',
     ''elewise_set_gm_scope'', ''elewise_set_gm_scope'']"

definition layernorm_v2_fp16_1980 :: "string list" where
  "layernorm_v2_fp16_1980 =
    [''elewise_single_cast|not_auto_cast'', ''elewise_binary_add'', ''elewise_binary_mul'',
     ''broadcast_for_tensor'', ''elewise_single_cast|not_auto_cast'', ''elewise_binary_div'',
     ''elewise_binary_sub'', ''elewise_single_cast|not_auto_cast'', ''broadcast_for_tensor'',
     ''reduce_sum'', ''elewise_single_VS_mul'', ''broadcast_for_tensor'', ''elewise_single_sqrt'',
     ''elewise_single_VS_add'', ''reduce_sum'', ''elewise_single_VS_mul'', ''elewise_binary_mul'',
     ''broadcast_for_tensor'', ''elewise_single_cast|not_auto_cast'',
     ''elewise_single_cast|not_auto_cast'', ''elewise_single_cast|not_auto_cast'']"

definition layernorm_v2_fp32_1980 :: "string list" where
  "layernorm_v2_fp32_1980 =
    [''elewise_binary_add'', ''elewise_binary_mul'', ''broadcast_for_tensor'', ''elewise_binary_div'',
     ''elewise_binary_sub'', ''broadcast_for_tensor'', ''reduce_sum'', ''elewise_single_VS_mul'',
     ''broadcast_for_tensor'', ''elewise_single_sqrt'', ''elewise_single_VS_add'', ''reduce_sum'',
     ''elewise_single_VS_mul'', ''elewise_binary_mul'', ''broadcast_for_tensor'',
     ''elewise_set_gm_scope'', ''elewise_set_gm_scope'']"

definition layernorm_x_backprop_fp16_1980 :: "string list" where
  "layernorm_x_backprop_fp16_1980 =
    [''elewise_single_cast|not_auto_cast'', ''elewise_binary_add'', ''elewise_binary_add'',
     ''elewise_binary_mul'', ''broadcast_for_tensor'', ''elewise_single_exp'',
     ''elewise_single_VS_mul'', ''elewise_single_log'', ''elewise_single_VS_add'',
     ''elewise_single_cast|not_auto_cast'', ''elewise_binary_mul'', ''broadcast_for_tensor'',
     ''elewise_single_cast|not_auto_cast'', ''elewise_single_cast|not_auto_cast'',
     ''elewise_single_VS_mul'', ''elewise_binary_mul'', ''broadcast_for_tensor'',
     ''elewise_single_VS_mul'', ''elewise_binary_mul'', ''reduce_sum'', ''elewise_binary_mul'',
     ''elewise_binary_sub'', ''elewise_single_cast|not_auto_cast'', ''broadcast_for_tensor'',
     ''elewise_single_cast|not_auto_cast'', ''elewise_binary_mul'', ''elewise_binary_mul'',
     ''broadcast_for_tensor'', ''elewise_single_VS_mul'', ''elewise_binary_add'',
     ''elewise_binary_mul'', ''elewise_single_VS_mul'', ''reduce_sum'', ''elewise_single_VS_mul'',
     ''elewise_single_VS_mul'', ''elewise_binary_mul'', ''reduce_sum'']"

definition layernorm_x_backprop_fp16_1980_0611 :: "string list" where
  "layernorm_x_backprop_fp16_1980_0611 =
    [''elewise_single_cast|not_auto_cast'', ''elewise_binary_add'', ''elewise_binary_add'',
     ''elewise_binary_mul'', ''broadcast_for_tensor'', ''elewise_single_exp'',
     ''elewise_single_VS_mul'', ''elewise_single_log'', ''elewise_single_VS_add'',
     ''elewise_single_cast|not_auto_cast'', ''elewise_binary_mul'', ''broadcast_for_tensor'',
     ''elewise_single_cast|not_auto_cast'', ''elewise_single_cast|not_auto_cast'',
     ''elewise_single_VS_mul'', ''elewise_binary_mul'', ''broadcast_for_tensor'',
     ''elewise_single_VS_mul'', ''elewise_binary_mul'', ''reduce_sum'', ''elewise_binary_mul'',
     ''elewise_binary_sub'', ''elewise_single_cast|not_auto_cast'', ''broadcast_for_tensor'',
     ''elewise_single_cast|not_auto_cast'', ''elewise_binary_mul'', ''elewise_binary_mul'',
     ''broadcast_for_tensor'', ''elewise_single_VS_mul'', ''elewise_single_VS_mul'',
     ''elewise_binary_mul'', ''reduce_sum'']"

definition layernorm_x_backprop_fp32_1980 :: "string list" where
  "layernorm_x_backprop_fp32_1980 =
    [''elewise_binary_add'', ''elewise_binary_add'', ''elewise_binary_mul'', ''broadcast_for_tensor'',
     ''elewise_single_exp'', ''elewise_single_VS_mul'', ''elewise_single_log'',
     ''elewise_single_VS_add'', ''elewise_binary_mul'', ''broadcast_for_tensor'',
     ''elewise_single_VS_mul'', ''elewise_binary_mul'', ''broadcast_for_tensor'',
     ''elewise_single_VS_mul'', ''elewise_binary_mul'', ''reduce_sum'', ''elewise_binary_mul'',
     ''elewise_binary_sub'', ''broadcast_for_tensor'', ''elewise_binary_mul'', ''elewise_binary_mul'',
     ''broadcast_for_tensor'', ''elewise_single_VS_mul'', ''elewise_single_VS_mul'',
     ''elewise_binary_mul'', ''reduce_sum'']"

definition layer_norm_beta_gamma_backprop_fp16_1980 :: "string list" where
  "layer_norm_beta_gamma_backprop_fp16_1980 =
    [''elewise_single_cast|not_auto_cast'', ''elewise_binary_sub'', ''elewise_binary_add'',
     ''reduce_sum'', ''elewise_binary_mul'', ''elewise_single_cast|not_auto_cast'',
     ''elewise_binary_mul'', ''broadcast_for_tensor'', ''elewise_single_exp'',
     ''elewise_single_VS_mul'', ''elewise_single_log'', ''elewise_single_VS_add'',
     ''elewise_single_cast|not_auto_cast'', ''elewise_binary_sub'',
     ''elewise_single_cast|not_auto_cast'', ''broadcast_for_tensor'',
     ''elewise_single_cast|not_auto_cast'', ''elewise_single_cast|not_auto_cast'',
     ''elewise_single_cast|not_auto_cast'', ''reduce_sum'']"

definition layer_norm_beta_gamma_backprop_fp32_1980 :: "string list" where
  "layer_norm_beta_gamma_backprop_fp32_1980 =
    [''elewise_binary_sub'', ''elewise_binary_add'', ''reduce_sum'', ''elewise_binary_mul'',
     ''elewise_binary_mul'', ''broadcast_for_tensor'', ''elewise_single_exp'',
     ''elewise_single_VS_mul'', ''elewise_single_log'', ''elewise_single_VS_add'',
     ''elewise_binary_sub'', ''broadcast_for_tensor'', ''reduce_sum'']"

definition l2_normalize_grad_fp16_1980 :: "string list" where
  "l2_normalize_grad_fp16_1980 =
    [''elewise_binary_div'', ''elewise_binary_sub'', ''elewise_binary_mul'', ''broadcast_for_tensor'',
     ''elewise_single_cast|not_auto_cast'', ''reduce_sum'', ''elewise_single_cast|not_auto_cast'',
     ''elewise_binary_mul'', ''broadcast_for_tensor'', ''elewise_single_VS_max'',
     ''elewise_single_sqrt'', ''elewise_single_cast|not_auto_cast'', ''reduce_sum'',
     ''elewise_single_cast|not_auto_cast'', ''elewise_binary_mul'']"

definition l2_normalize_grad_fp32_1980 :: "string list" where
  "l2_normalize_grad_fp32_1980 =
    [''elewise_binary_div'', ''elewise_binary_sub'', ''elewise_binary_mul'', ''broadcast_for_tensor'',
     ''reduce_sum'', ''elewise_binary_mul'', ''broadcast_for_tensor'', ''elewise_single_VS_max'',
     ''elewise_single_sqrt'', ''reduce_sum'', ''elewise_binary_mul'']"

definition softmax_fp16_1980 :: "string list" where
  "softmax_fp16_1980 =
    [''elewise_single_cast|not_auto_cast'', ''elewise_binary_div'', ''elewise_single_exp'',
     ''elewise_single_cast|not_auto_cast'', ''elewise_binary_sub'', ''broadcast_for_tensor'',
     ''reduce_max'', ''broadcast_for_tensor'', ''reduce_sum'']"

definition softmax_fp32_1980 :: "string list" where
  "softmax_fp32_1980 =
    [''elewise_binary_div'', ''elewise_single_exp'', ''elewise_binary_sub'', ''elewise_single_cast'',
     ''broadcast_for_tensor'', ''reduce_max'', ''elewise_single_cast'', ''broadcast_for_tensor'',
     ''reduce_sum'']"

definition confusion_softmax_grad_fp16_1980 :: "string list" where
  "confusion_softmax_grad_fp16_1980 =
    [''elewise_binary_sub'', ''broadcast_for_tensor'', ''elewise_single_cast|not_auto_cast'',
     ''reduce_sum'', ''elewise_single_cast|not_auto_cast'', ''elewise_binary_mul'']"

definition confusion_softmax_grad_fp32_1980 :: "string list" where
  "confusion_softmax_grad_fp32_1980 =
    [''elewise_binary_sub'', ''broadcast_for_tensor'', ''reduce_sum'', ''elewise_binary_mul'']"

definition log_softmax_fp16_1980 :: "string list" where
  "log_softmax_fp16_1980 =
    [''elewise_single_cast|not_auto_cast'', ''elewise_binary_sub'',
     ''elewise_single_cast|not_auto_cast'', ''elewise_binary_sub'', ''broadcast_for_tensor'',
     ''reduce_max'', ''broadcast_for_tensor'', ''elewise_single_log'', ''reduce_sum'',
     ''elewise_single_exp'']"

definition log_softmax_fp32_1980 :: "string list" where
  "log_softmax_fp32_1980 =
    [''elewise_binary_sub'', ''elewise_binary_sub'', ''elewise_single_cast'', ''broadcast_for_tensor'',
     ''reduce_max'', ''elewise_single_cast'', ''broadcast_for_tensor'', ''elewise_single_log'',
     ''reduce_sum'', ''elewise_single_exp'']"

definition log_softmax_grad_fp16_1980 :: "string list" where
  "log_softmax_grad_fp16_1980 =
    [''elewise_single_cast|not_auto_cast'', ''elewise_binary_sub'',
     ''elewise_single_cast|not_auto_cast'', ''elewise_binary_mul'', ''elewise_single_exp'',
     ''elewise_single_cast|not_auto_cast'', ''broadcast_for_tensor'', ''reduce_sum'']"

definition log_softmax_grad_fp32_1980 :: "string list" where
  "log_softmax_grad_fp32_1980 =
    [''elewise_binary_sub'', ''elewise_binary_mul'', ''elewise_single_exp'', ''broadcast_for_tensor'',
     ''reduce_sum'']"

definition bn_update_bert_target :: "string list list" where
  "bn_update_bert_target =
    [[''elewise_binary_sub'', ''elewise_binary_add'', ''broadcast_for_tensor'',
      ''elewise_single_VS_mul'', ''elewise_binary_mul'', ''broadcast_for_tensor'',
      ''elewise_single_VS_mul'', ''elewise_binary_mul'', ''elewise_binary_add'',
      ''broadcast_for_tensor'', ''elewise_single_VS_mul'', ''broadcast_for_tensor'',
      ''elewise_binary_div'', ''broadcast'', ''elewise_single_sqrt'', ''elewise_single_VS_add'',
      ''broadcast_for_tensor'', ''elewise_binary_mul''],
     [''elewise_binary_mul'', ''elewise_binary_sub'', ''elewise_binary_add'',
      ''elewise_single_cast|not_auto_cast'', ''broadcast_for_tensor'', ''elewise_single_VS_mul'',
      ''elewise_binary_mul'', ''broadcast_for_tensor'', ''elewise_single_VS_mul'',
      ''elewise_binary_mul'', ''elewise_binary_add'', ''elewise_single_cast|not_auto_cast'',
      ''broadcast_for_tensor'', ''elewise_single_VS_mul'', ''broadcast_for_tensor'',
      ''elewise_binary_div'', ''broadcast'', ''elewise_single_sqrt'', ''elewise_single_VS_add'',
      ''broadcast_for_tensor'', ''elewise_binary_mul''],
     [''elewise_binary_add'', ''elewise_binary_mul'', ''broadcast_for_tensor'', ''elewise_binary_div'',
      ''elewise_single_sqrt'', ''elewise_single_VS_add'', ''elewise_binary_sub'',
      ''elewise_single_VS_mul'', ''elewise_binary_mul'', ''elewise_single_VS_mul'',
      ''broadcast_for_tensor'', ''elewise_binary_sub'', ''elewise_binary_mul'',
      ''elewise_set_gm_scope'', ''elewise_set_gm_scope''],
     [''elewise_single_cast|not_auto_cast'', ''elewise_binary_add'', ''elewise_binary_mul'',
      ''broadcast_for_tensor'', ''elewise_binary_div'', ''elewise_single_sqrt'',
      ''elewise_single_VS_add'', ''elewise_binary_sub'', ''elewise_single_VS_mul'',
      ''elewise_binary_mul'', ''elewise_single_VS_mul'', ''elewise_single_cast|not_auto_cast'',
      ''broadcast_for_tensor'', ''elewise_binary_sub'', ''elewise_binary_mul'',
      ''elewise_set_gm_scope'', ''elewise_set_gm_scope'']]"

definition softmax_grad_ext_fp16_1980 :: "string list" where
  "softmax_grad_ext_fp16_1980 =
    [''elewise_binary_mul'', ''elewise_binary_sub'', ''broadcast_for_tensor'',
     ''elewise_single_cast|not_auto_cast'', ''reduce_sum'', ''elewise_single_cast|not_auto_cast'',
     ''elewise_binary_mul'', ''elewise_binary_mul'', ''broadcast_for_tensor'']"

definition softmax_grad_ext_fp32_1980 :: "string list" where
  "softmax_grad_ext_fp32_1980 =
    [''elewise_binary_mul'', ''elewise_binary_sub'', ''broadcast_for_tensor'', ''reduce_sum'',
     ''elewise_binary_mul'', ''elewise_binary_mul'', ''broadcast_for_tensor'']"

definition pattern_data :: "(string \<times> string list) list" where
  "pattern_data =
    [(''layernorm_fp16_1980'', layernorm_fp16_1980), (''layernorm_fp32_1980'', layernorm_fp32_1980),
     (''layernorm_V2_fp16_1980'', layernorm_v2_fp16_1980),
     (''layernorm_V2_fp32_1980'', layernorm_v2_fp32_1980),
     (''layernorm_x_backprop_fp16_1980'', layernorm_x_backprop_fp16_1980),
     (''layernorm_x_backprop_fp16_1980_0611'', layernorm_x_backprop_fp16_1980_0611),
     (''layernorm_x_backprop_fp32_1980'', layernorm_x_backprop_fp32_1980),
     (''layer_norm_beta_gamma_backprop_fp16_1980'', layer_norm_beta_gamma_backprop_fp16_1980),
     (''layer_norm_beta_gamma_backprop_fp32_1980'', layer_norm_beta_gamma_backprop_fp32_1980),
     (''l2_normalize_grad_fp16_1980'', l2_normalize_grad_fp16_1980),
     (''l2_normalize_grad_fp32_1980'', l2_normalize_grad_fp32_1980),
     (''softmax_fp16_1980'', softmax_fp16_1980), (''softmax_fp32_1980'', softmax_fp32_1980),
     (''confusion_softmax_grad_fp16_1980'', confusion_softmax_grad_fp16_1980),
     (''confusion_softmax_grad_fp32_1980'', confusion_softmax_grad_fp32_1980),
     (''log_softmax_fp16_1980'', log_softmax_fp16_1980),
     (''log_softmax_fp32_1980'', log_softmax_fp32_1980),
     (''log_softmax_grad_fp16_1980'', log_softmax_grad_fp16_1980),
     (''log_softmax_grad_fp32_1980'', log_softmax_grad_fp32_1980),
     (''softmax_grad_ext_fp16_1980'', softmax_grad_ext_fp16_1980),
     (''softmax_grad_ext_fp32_1980'', softmax_grad_ext_fp32_1980)]"

definition pattern_width :: "(string \<times> pyval) list" where
  "pattern_width =
    [(''layernorm_fp16_1980'', PyInt 10), (''layernorm_fp32_1980'', PyFloat (decimal 81 10)),
     (''layernorm_V2_fp16_1980'', PyInt 10), (''layernorm_V2_fp32_1980'', PyInt 8),
     (''layernorm_x_backprop_fp16_1980'', PyFloat (decimal 79 5)),
     (''layernorm_x_backprop_fp16_1980_0611'', PyFloat (decimal 79 5)),
     (''layernorm_x_backprop_fp32_1980'', PyFloat (decimal 79 5)),
     (''layer_norm_beta_gamma_backprop_fp16_1980'', PyFloat (decimal 19 2)),
     (''layer_norm_beta_gamma_backprop_fp32_1980'', PyFloat (decimal 19 2)),
     (''l2_normalize_grad_fp16_1980'', PyInt 6), (''l2_normalize_grad_fp32_1980'', PyInt 8),
     (''softmax_fp16_1980'', PyFloat (decimal 11 2)), (''softmax_fp32_1980'', PyFloat (decimal 11 2)),
     (''confusion_softmax_grad_fp16_1980'', PyFloat (decimal 11 2)),
     (''confusion_softmax_grad_fp32_1980'', PyFloat (decimal 11 2)),
     (''log_softmax_fp16_1980'', PyFloat (decimal 11 2)),
     (''log_softmax_fp32_1980'', PyFloat (decimal 11 2)),
     (''log_softmax_grad_fp16_1980'', PyFloat (decimal 11 2)),
     (''log_softmax_grad_fp32_1980'', PyFloat (decimal 11 2))]"

definition layernorm_width :: "(string \<times> pyval) list" where
  "layernorm_width =
    [(''layernorm_fp16_1980'', PyFloat (decimal 79 10)),
     (''layernorm_fp32_1980'', PyFloat (decimal 79 10)),
     (''layernorm_V2_fp16_1980'', PyFloat (decimal 79 10)),
     (''layernorm_V2_fp32_1980'', PyFloat (decimal 79 10)),
     (''layernorm_x_backprop_fp16_1980'', PyFloat (decimal 79 10)),
     (''layernorm_x_backprop_fp16_1980_0611'', PyFloat (decimal 79 10)),
     (''layernorm_x_backprop_fp32_1980'', PyInt 6)]"

definition no_buffer_reused :: "string list" where
  "no_buffer_reused =
    [''l2_normalize_grad_fp16_1980'', ''l2_normalize_grad_fp32_1980'']"

section \<open>Enumerations\<close>

text \<open>An enumeration lists its members with their values.\<close>

definition op_flags :: "(string \<times> string) list" where
  "op_flags =
    [(''elewise_single_flag'', ''elewise_single''), (''elewise_binary_flag'', ''elewise_binary''),
     (''elewise_flag'', ''elewise''), (''broadcast_flag'', ''broadcast''),
     (''reduce_flag'', ''reduce''), (''segment_flag'', ''segment''),
     (''segment_tensor_flag'', ''segmentensor''), (''inplace_flag'', ''inplace''),
     (''matmul_flag'', ''matmul''), (''matmul_v2_flag'', ''matmul_v2''),
     (''convolution_flag'', ''convolution''),
     (''conv2d_backprop_input_flag'', ''conv2d_backprop_input''),
     (''conv2d_backprop_filter_flag'', ''conv2d_backprop_filter''),
     (''conv3d_backprop_input_flag'', ''conv3d_backprop_input''),
     (''conv3d_backprop_filter_flag'', ''conv3d_backprop_filter''), (''concat_flag'', ''concat''),
     (''ascend_quant_flag'', ''quant''), (''ascend_dequant_flag'', ''dequant''),
     (''ascend_anti_quant_flag'', ''anti_quant''), (''strided_read_flag'', ''strided_read''),
     (''strided_write_flag'', ''strided_write''), (''ascend_dequant_s16_flag'', ''dequant_s16''),
     (''ascend_requant_flag'', ''requant''), (''ascend_requant_s16_flag'', ''requant_s16''),
     (''max_pool_flag'', ''pooling2d_max_''), (''depthwise_conv_flag'', ''depthwise_conv2d''),
     (''conv3d_flag'', ''conv3d_''), (''pool2d_avg_flag'', ''pooling2d_avg''),
     (''pool2d_max_flag'', ''pooling2d_max''), (''pool2d_gap_flag'', ''pooling2d_gap''),
     (''pool2d_gmp_flag'', ''pooling2d_gmp''), (''pool3d_avg_flag'', ''pooling3d_avg''),
     (''pool3d_max_flag'', ''pooling3d_max''), (''pool3d_gap_flag'', ''pooling3d_gap''),
     (''pool3d_gmp_flag'', ''pooling3d_gmp''), (''read_select_flag'', ''read_select''),
     (''write_select_flag'', ''write_select''), (''cast_flag'', ''elewise_single_cast''),
     (''cmpsel_flag'', ''elewise_binary_cmpsel''), (''cmp_flag'', ''elewise_binary_vcmpv_eq''),
     (''sel_flag'', ''elewise_multiple_sel''), (''dilation_flag'', ''dilation'')]"

definition op_patterns :: "(string \<times> string) list" where
  "op_patterns =
    [(''BN_UPDATE_GRAD_PATTERN'', ''bn_update_grad''),
     (''BN_GRAD_REDUCE_PATTERN'', ''bn_grad_reduce''),
     (''LAYER_NORM_GRAD_PATTERN'', ''layer_norm_grad''),
     (''L2LOSS_MUL_ADDN_PATTERN'', ''l2loss_mul_addn''), (''ELEMWISE_PATTERN'', ''ElemWise''),
     (''PURE_BROADCAST_PATTERN'', ''PureBroadcast''), (''REDUCE_PATTERN'', ''CommReduce''),
     (''SEGMENT_PATTERN'', ''Segment''), (''INPLACE_PATTERN'', ''Inplace''),
     (''MATMUL_PATTERN'', ''Matmul''), (''MATMUL_V2_PATTERN'', ''Matmul_v2''),
     (''CONV_PATTERN'', ''Convolution''),
     (''CONV2D_BACKPROP_INPUT_PATTERN'', ''Conv2d_backprop_input''),
     (''CONV2D_BACKPROP_FILTER_PATTERN'', ''Conv2d_backprop_filter''),
     (''CONV3D_BACKPROP_INPUT_PATTERN'', ''Conv3d_backprop_input''),
     (''CONV3D_BACKPROP_FILTER_PATTERN'', ''Conv3d_backprop_filter''),
     (''OPAQUE_PATTERN'', ''Opaque''), (''BN_REDUCE_PATTERN'', ''bn_reduce''),
     (''BN_UPDATE_PATTERN'', ''bn_update''),
     (''SOFTMAX_CROSS_ENTROPY_WITH_LOGITS_PATTERN'', ''softmax_cross_entropy_with_logits''),
     (''L2_NORMALIZE_PATTERN'', ''l2_normalize''), (''SOFTMAX_PATTERN'', ''softmax_pattern''),
     (''L2_LOSS_PATTERN'', ''l2_loss''), (''ASCEND_QUANT_PATTERN'', ''quant''),
     (''ASCEND_DEQUANT_PATTERN'', ''dequant''), (''ASCEND_ANTI_QUANT_PATTERN'', ''anti_quant''),
     (''STRIDED_READ_PATTERN'', ''strided_read''), (''STRIDED_WRITE_PATTERN'', ''strided_write''),
     (''ASCEND_DEQUANT_S16_PATTERN'', ''dequant_s16''), (''ASCEND_REQUANT_PATTERN'', ''requant''),
     (''ASCEND_REQUANT_S16_PATTERN'', ''requant_s16''), (''MAX_POOL_PATTERN'', ''MaxPool''),
     (''DEPTHWISECONV_PATTERN'', ''DepthwiseConvolution''), (''CONV3D_PATTERN'', ''Conv3d''),
     (''POOL2D_PATTERN'', ''Pool2d''), (''POOL3D_PATTERN'', ''Pool3d''),
     (''READ_SELECT_PATTERN'', ''read_select''), (''WRITE_SELECT_PATTERN'', ''write_select''),
     (''COSINE_EMBEDDING_LOSS_PATTERN'', ''cosine_embedding_loss''),
     (''DILATION_PATTERN'', ''dilation'')]"

definition op_sub_patterns :: "(string \<times> string) list" where
  "op_sub_patterns =
    [(''REDUCE_ATOMIC_PATTERN'', ''reduce_atomic''), (''REDUCE_5HDC_PATTERN'', ''reduce_5hdc''),
     (''CMPSEL_PATTERN'', ''cmpsel'')]"

definition op_spec_types :: "(string \<times> string) list" where
  "op_spec_types =
    [(''RELU_GRAD_V2'', ''relu_grad_v2''), (''FLOOR_MOD'', ''floor_mod''),
     (''TRUNCATE_DIV'', ''truncate_div''), (''THRESHOLD_GRAD_V2_D'', ''threshold_grad_v2_d''),
     (''RELU_V2'', ''relu_v2''), (''NORMALIZE_SCALE'', ''normalize_scale''),
     (''ONLY_BROADCAST_TYPE'', ''only_broadcast_type''), (''MVN'', ''mvn''),
     (''BN_EXT2'', ''bn_ext2''),
     (''REDUCE_MEAN_2D_ALIGNED_MID_REDUCE_NO_CAST'', ''reduce_mean_2d_aligned_mid_reduce_no_cast'')]"

definition builtin_patterns :: "(string \<times> string) list" where
  "builtin_patterns =
    [(''OPAQUE'', ''Opaque''), (''CONV2D'', ''Convolution''),
     (''CONV2D_BACKPROP_INPUT'', ''Conv2d_backprop_input''),
     (''CONV2D_BACKPROP_FILTER'', ''Conv2d_backprop_filter''), (''MAT_MUL'', ''Matmul''),
     (''BATCH_MATMUL'', ''BatchMatmul''),
     (''LAYER_NORM_BETA_GAMMA_BACKPROP'', ''Layer_norm_beta_gamma_backprop''),
     (''CONV3D'', ''conv3d''), (''CONV3D_BACKPROP_INPUT'', ''Conv3d_backprop_input'')]"

text \<open>The keys of the groups of a convolution, \<^verbatim>\<open>cube_util.py\<close>.\<close>

definition group_dict_keys :: "string list" where
  "group_dict_keys =
    [''groups'', ''g_extend'', ''multiple_extend'', ''dx_c1_extend'', ''dy_c1_extend'', ''dx_c_ori'',
     ''dy_c_ori'', ''filter_batch_ori'', ''filter_c_ori'', ''filter_ori_format'']"

text \<open>\<^verbatim>\<open>OpFlags.name.value\<close> and \<^verbatim>\<open>OpFlags(value)\<close>, which raises when no member has the value.\<close>

definition enum_value :: "(string \<times> string) list \<Rightarrow> string \<Rightarrow> string res" where
  "enum_value enum nm = (case map_of enum nm of Some v \<Rightarrow> Inr v | None \<Rightarrow> Inl AttributeError)"

definition enum_member :: "(string \<times> string) list \<Rightarrow> string \<Rightarrow> string res" where
  "enum_member enum v =
     (case map_of (map prod.swap enum) v of Some nm \<Rightarrow> Inr nm | None \<Rightarrow> Inl ValueError)"

section \<open>Properties\<close>

lemma swap_fst: "map fst (map prod.swap xs) = map snd xs"
  by (induction xs) auto

lemma enum_round_trip:
  assumes "distinct (map snd enum)" and "distinct (map fst enum)" and "(nm, v) \<in> set enum"
  shows "enum_value enum nm = Inr v" and "enum_member enum v = Inr nm"
proof -
  from assms(2,3) show "enum_value enum nm = Inr v" by (simp add: enum_value_def)
  from assms(3) have "(v, nm) \<in> set (map prod.swap enum)" by force
  moreover have "distinct (map fst (map prod.swap enum))"
    using assms(1) by (simp only: swap_fst)
  ultimately have "map_of (map prod.swap enum) v = Some nm" by (rule map_of_is_SomeI [rotated])
  then show "enum_member enum v = Inr nm" by (simp add: enum_member_def)
qed

lemma flags_distinct: "distinct (map fst op_flags)" "distinct (map snd op_flags)"
  by (simp_all add: op_flags_def)

lemma patterns_distinct: "distinct (map fst op_patterns)" "distinct (map snd op_patterns)"
  by (simp_all add: op_patterns_def)

lemma data_keys_distinct: "distinct (map fst pattern_data)"
  by (simp add: pattern_data_def)

lemmas tag_lists =
  layernorm_fp16_1980_def
  layernorm_fp32_1980_def
  layernorm_v2_fp16_1980_def
  layernorm_v2_fp32_1980_def
  layernorm_x_backprop_fp16_1980_def
  layernorm_x_backprop_fp16_1980_0611_def
  layernorm_x_backprop_fp32_1980_def
  layer_norm_beta_gamma_backprop_fp16_1980_def
  layer_norm_beta_gamma_backprop_fp32_1980_def
  l2_normalize_grad_fp16_1980_def
  l2_normalize_grad_fp32_1980_def
  softmax_fp16_1980_def
  softmax_fp32_1980_def
  confusion_softmax_grad_fp16_1980_def
  confusion_softmax_grad_fp32_1980_def
  log_softmax_fp16_1980_def
  log_softmax_fp32_1980_def
  log_softmax_grad_fp16_1980_def
  log_softmax_grad_fp32_1980_def
  softmax_grad_ext_fp16_1980_def
  softmax_grad_ext_fp32_1980_def

text \<open>No two patterns have the same tags, so the tags of an operator select at most one pattern.\<close>

lemma tags_distinct: "distinct (map snd pattern_data)"
  by (simp add: pattern_data_def tag_lists)

definition pattern_of :: "string list \<Rightarrow> string option" where
  "pattern_of tags = map_of (map prod.swap pattern_data) tags"

lemma pattern_of_tags:
  assumes "(nm, tags) \<in> set pattern_data"
  shows "pattern_of tags = Some nm"
proof -
  from assms have "(tags, nm) \<in> set (map prod.swap pattern_data)" by force
  moreover have "distinct (map fst (map prod.swap pattern_data))"
    using tags_distinct by (simp only: swap_fst)
  ultimately show ?thesis unfolding pattern_of_def by (rule map_of_is_SomeI [rotated])
qed

text \<open>What is left of a list without the conversions and the marks of outputs.\<close>

definition computing :: "string list \<Rightarrow> string list" where
  "computing tags = filter (\<lambda>t. t \<notin> {''elewise_single_cast|not_auto_cast'', ''elewise_single_cast'', ''elewise_set_gm_scope''}) tags"

lemma half_is_single_with_casts:
  "computing layernorm_fp16_1980 = computing layernorm_fp32_1980"
  "computing layernorm_v2_fp16_1980 = computing layernorm_v2_fp32_1980"
  "computing layernorm_x_backprop_fp16_1980_0611 = computing layernorm_x_backprop_fp32_1980"
  "computing layer_norm_beta_gamma_backprop_fp16_1980 = computing layer_norm_beta_gamma_backprop_fp32_1980"
  "computing l2_normalize_grad_fp16_1980 = computing l2_normalize_grad_fp32_1980"
  "computing softmax_fp16_1980 = computing softmax_fp32_1980"
  "computing confusion_softmax_grad_fp16_1980 = computing confusion_softmax_grad_fp32_1980"
  "computing log_softmax_fp16_1980 = computing log_softmax_fp32_1980"
  "computing log_softmax_grad_fp16_1980 = computing log_softmax_grad_fp32_1980"
  "computing softmax_grad_ext_fp16_1980 = computing softmax_grad_ext_fp32_1980"
  by (simp_all add: computing_def tag_lists)

lemma older_backprop_differs:
  "computing layernorm_x_backprop_fp16_1980 \<noteq> computing layernorm_x_backprop_fp32_1980"
  by (simp add: computing_def tag_lists)

text \<open>The patterns without a width of their own.\<close>

lemma patterns_without_width:
  "filter (\<lambda>k. k \<notin> set (map fst pattern_width)) (map fst pattern_data)
     = [''softmax_grad_ext_fp16_1980'', ''softmax_grad_ext_fp32_1980'']"
  by (simp add: pattern_data_def pattern_width_def)

lemma tables_name_patterns:
  "set (map fst pattern_width) \<union> set (map fst layernorm_width) \<union> set no_buffer_reused \<subseteq> set (map fst pattern_data)"
  by (simp add: pattern_data_def pattern_width_def layernorm_width_def no_buffer_reused_def)

text \<open>The constants of \<^verbatim>\<open>Pattern\<close> that are no values of \<^verbatim>\<open>OpPatterns\<close>: the two spell the
  three-dimensional convolution differently.\<close>

lemma patterns_spelled_differently:
  "filter (\<lambda>v. v \<notin> set (map snd op_patterns)) (map snd builtin_patterns)
     = [''BatchMatmul'', ''Layer_norm_beta_gamma_backprop'', ''conv3d'']"
  by (simp add: op_patterns_def builtin_patterns_def)

end
