(* ===== verification/Precision_Info.thy ===== *)
theory Precision_Info
  imports Py_Number
begin

text \<open>
  The precision standards of \<^verbatim>\<open>src/main/precision_info.py\<close>: tolerances by data type, results of comparisons,
  and their JSON objects. Proved: both kinds of objects survive the way to JSON and back.
\<close>

record precision_standard =
  precision_type :: pyval
  ps_rtol :: pyval
  ps_atol :: pyval
  max_atol :: pyval

definition new_standard :: "pyval \<Rightarrow> pyval \<Rightarrow> pyval \<Rightarrow> pyval \<Rightarrow> precision_standard" where
  "new_standard rtol atol max_a kind =
     \<lparr>precision_type = kind, ps_rtol = rtol, ps_atol = atol, max_atol = max_a\<rparr>"

definition standard_of_json :: "pyval \<Rightarrow> precision_standard option res" where
  "standard_of_json json_obj =
     (if truthy json_obj then
        bindE (py_item json_obj ''rtol'') (\<lambda>rtol.
        bindE (py_item json_obj ''atol'') (\<lambda>atol.
        bindE (py_item json_obj ''max_atol'') (\<lambda>max_a.
        bindE (py_item json_obj ''precision_type'') (\<lambda>kind.
          Inr (Some (new_standard rtol atol max_a kind))))))
      else Inr None)"

definition standard_to_json :: "precision_standard \<Rightarrow> pydict" where
  "standard_to_json p =
     [(''precision_type'', precision_type p), (''rtol'', ps_rtol p), (''atol'', ps_atol p),
      (''max_atol'', max_atol p)]"

record compare_result =
  cr_status :: pyval
  err_msg :: pyval

definition compare_result_of_json :: "pyval \<Rightarrow> compare_result res" where
  "compare_result_of_json json_obj =
     bindE (py_item json_obj ''status'') (\<lambda>st.
     bindE (py_item json_obj ''err_msg'') (\<lambda>msg. Inr \<lparr>cr_status = st, err_msg = msg\<rparr>))"

definition compare_is_success :: "compare_result \<Rightarrow> bool" where
  "compare_is_success r \<longleftrightarrow> cr_status r = PyStr ''success''"

definition compare_result_to_json :: "compare_result \<Rightarrow> pydict" where
  "compare_result_to_json r = [(''status'', cr_status r), (''err_msg'', err_msg r)]"

text \<open>The type of the standard is \<^verbatim>\<open>"percent"\<close> unless the call names another.\<close>

definition get_default_standard :: "pyval \<Rightarrow> precision_standard" where
  "get_default_standard dtype =
     (let thousandth = PyFloat (decimal 1 1000) in
      if dtype = PyStr ''float16''
      then new_standard thousandth thousandth (PyFloat (decimal 1 10)) (PyStr ''percent'')
      else if dtype = PyStr ''float32''
      then new_standard (PyFloat (decimal 1 10000)) (PyFloat (decimal 1 10000)) (PyFloat (decimal 1 100))
             (PyStr ''percent'')
      else if dtype = PyStr ''int8'' \<or> dtype = PyStr ''uint8''
      then new_standard thousandth (PyInt 1) (PyInt 1) (PyStr ''absolute'')
      else new_standard thousandth thousandth (PyFloat (decimal 1 10)) (PyStr ''percent''))"

section \<open>Properties\<close>

lemma standard_round_trip: "standard_of_json (PyDict (standard_to_json p)) = Inr (Some p)"
  by (simp add: standard_of_json_def standard_to_json_def new_standard_def ditem_def)

lemma compare_result_round_trip: "compare_result_of_json (PyDict (compare_result_to_json r)) = Inr r"
  by (simp add: compare_result_of_json_def compare_result_to_json_def ditem_def)

text \<open>Types without a standard of their own are judged as half precision.\<close>

lemma default_is_half:
  "dtype \<notin> {PyStr ''float32'', PyStr ''int8'', PyStr ''uint8''} \<Longrightarrow>
     get_default_standard dtype = get_default_standard (PyStr ''float16'')"
  by (simp add: get_default_standard_def Let_def)

lemma only_bytes_absolute:
  "precision_type (get_default_standard dtype) = PyStr ''absolute'' \<longleftrightarrow> dtype \<in> {PyStr ''int8'', PyStr ''uint8''}"
  by (simp add: get_default_standard_def Let_def new_standard_def)

end
