(* ===== verification/Cce_Diag.thy ===== *)
theory Cce_Diag
  imports Py_Number
begin

text \<open>
  \<^verbatim>\<open>src/auto_schedule/python/cce_diag.py\<close>: building an operator for the host and comparing what it computes
  with a reference. The compiler, the built module and numpy are the record \<open>diag_env\<close>. Proved: every key
  of the configuration is required except \<^verbatim>\<open>need_build\<close>, which is never read, although the
  documentation gives defaults.
\<close>

text \<open>A value of the configuration, by what the function uses it for.\<close>

datatype ('t, 'a) setting =
    Tensors "'t list"
  | Truth bool
  | Text string
  | Input_Func "('t list \<Rightarrow> 'a list) option"
  | Output_Func "('a list \<Rightarrow> 'a) option"
  | Tolerance "rat option"

type_synonym ('t, 'a) config_map = "(string \<times> ('t, 'a) setting) list"

record ('t, 'a) diag_env =
  lower_text :: "'t list \<Rightarrow> string"
  run_module :: "'t list \<Rightarrow> string \<Rightarrow> 'a list \<Rightarrow> 'a list"
  host_exists :: bool
  random_input :: "'t \<Rightarrow> 'a"
  allclose :: "'a \<Rightarrow> 'a \<Rightarrow> rat \<Rightarrow> bool"

datatype 'a verdict = Printed "'a list" | Check_Pass | Not_Close

definition tensors_of :: "('t, 'a) setting \<Rightarrow> 't list res" where
  "tensors_of v = (case v of Tensors ts \<Rightarrow> Inr ts | _ \<Rightarrow> Inl TypeError)"

definition np_inputs_of :: "('t, 'a) diag_env \<Rightarrow> 't list \<Rightarrow> ('t, 'a) setting \<Rightarrow> 'a list res" where
  "np_inputs_of env input_tensors ref_input_func =
     (case ref_input_func of
        Input_Func None \<Rightarrow> Inr (map (random_input env) input_tensors)
      | Input_Func (Some g) \<Rightarrow> Inr (g input_tensors)
      | _ \<Rightarrow> Inl TypeError)"

text \<open>
  \<open>run_module\<close> is the effect of the call on the output buffers, which hold zeros before it. The tolerance
  is a thousandth unless one is given.
\<close>

definition diag_check ::
    "('t, 'a) diag_env \<Rightarrow> 't list \<Rightarrow> string \<Rightarrow> 't list \<Rightarrow> ('t, 'a) setting \<Rightarrow> ('t, 'a) setting \<Rightarrow> ('t, 'a) setting \<Rightarrow>
      'a verdict res" where
  "diag_check env all_tensors kernel_name input_tensors ref_input_func ref_output_func rtol =
     bindE (raise_if (\<not> host_exists env) RuntimeError) (\<lambda>_.
     bindE (np_inputs_of env input_tensors ref_input_func) (\<lambda>np_inputs.
       let tvm_outputs = run_module env all_tensors kernel_name np_inputs in
       case ref_output_func of
         Output_Func None \<Rightarrow> Inr (Printed tvm_outputs)
       | Output_Func (Some g) \<Rightarrow>
           (case tvm_outputs of
              [] \<Rightarrow> Inl IndexError
            | out # _ \<Rightarrow>
                (case rtol of
                   Tolerance t \<Rightarrow>
                     Inr (if allclose env out (g np_inputs) (case t of None \<Rightarrow> 1 / 1000 | Some r \<Rightarrow> r)
                          then Check_Pass else Not_Close)
                 | _ \<Rightarrow> Inl TypeError))
       | _ \<Rightarrow> Inl TypeError))"

definition setting_true :: "('t, 'a) setting \<Rightarrow> bool" where
  "setting_true v =
     (case v of
        Tensors ts \<Rightarrow> ts \<noteq> [] | Truth b \<Rightarrow> b | Text s \<Rightarrow> s \<noteq> []
      | Input_Func g \<Rightarrow> g \<noteq> None | Output_Func g \<Rightarrow> g \<noteq> None
      | Tolerance t \<Rightarrow> (case t of None \<Rightarrow> False | Some r \<Rightarrow> r \<noteq> 0))"

definition cce_diag ::
    "('t, 'a) diag_env \<Rightarrow> ('t, 'a) config_map option \<Rightarrow> (string list \<times> 'a verdict) res" where
  "cce_diag env config =
     (let config_map = (case config of None \<Rightarrow> [] | Some c \<Rightarrow> c) in
      bindE (ditem config_map ''input_tensors'') (\<lambda>ins.
      bindE (ditem config_map ''output_tensors'') (\<lambda>outs.
      bindE (ditem config_map ''ref_input_func'') (\<lambda>ref_input_func.
      bindE (ditem config_map ''ref_output_func'') (\<lambda>ref_output_func.
      bindE (ditem config_map ''rtol'') (\<lambda>rtol.
      bindE (tensors_of outs) (\<lambda>output_tensors.
      bindE (ditem config_map ''print_ir'') (\<lambda>print_ir.
      bindE (tensors_of ins) (\<lambda>input_tensors.
      let all_tensors = input_tensors @ output_tensors;
          printed = (if setting_true print_ir then [lower_text env all_tensors] else []) in
      bindE (ditem config_map ''name'') (\<lambda>nm.
      bindE (case nm of Text s \<Rightarrow> Inr s | _ \<Rightarrow> Inl TypeError) (\<lambda>kernel_name.
      bindE (diag_check env all_tensors kernel_name input_tensors ref_input_func ref_output_func rtol) (\<lambda>v.
        Inr (printed, v)))))))))))))"

section \<open>Properties\<close>

definition required_keys :: "string list" where
  "required_keys = [''input_tensors'', ''output_tensors'', ''ref_input_func'', ''ref_output_func'', ''rtol'',
     ''print_ir'', ''name'']"

lemma ditem_key: "ditem d k = Inr v \<Longrightarrow> k \<in> fst ` set d"
  by (auto simp: ditem_def split: option.splits dest: map_of_SomeD intro: rev_image_eqI)

lemma diag_needs_keys:
  assumes "cce_diag env config = Inr r"
  shows "\<exists>c. config = Some c \<and> set required_keys \<subseteq> fst ` set c"
proof (cases config)
  case None
  with assms show ?thesis by (simp add: cce_diag_def ditem_def)
next
  case (Some c)
  with assms show ?thesis
    by (auto simp: cce_diag_def required_keys_def Let_def dest: ditem_key)
qed

lemma diag_ignores_need_build:
  "cce_diag env (Some ((''need_build'', v) # c)) = cce_diag env (Some c)"
  by (simp add: cce_diag_def ditem_def)

text \<open>With a reference, the check passes exactly when the first output is close to it.\<close>

lemma diag_verdict:
  assumes "host_exists env" and "np_inputs_of env ins (Input_Func g) = Inr xs"
    and "run_module env ts nm xs = out # outs"
  shows "diag_check env ts nm ins (Input_Func g) (Output_Func (Some f)) (Tolerance None)
    = Inr (if allclose env out (f xs) (1 / 1000) then Check_Pass else Not_Close)"
  using assms by (simp add: diag_check_def)

end
