(* ===== verification/Gen_Files.thy ===== *)
theory Gen_Files
  imports Gen_Design Util_Files
begin

text \<open>
  The generator and the designer through the file between them: \<^verbatim>\<open>CaseGenerator.generate\<close> writes the base
  cases as JSON, \<^verbatim>\<open>CaseDesign\<close> loads them with \<^verbatim>\<open>load_json_file\<close> and checks their keys. Proved: a file
  that the generator has written to a fresh path passes the designer's first checks.
\<close>

definition case_file_value :: "base_case list \<Rightarrow> pyval" where
  "case_file_value bs = PyList (map (\<lambda>b. PyDict (base_case_dict b)) bs)"

text \<open>The end of \<^verbatim>\<open>generate\<close>, from the description that was read to the file.\<close>

definition write_base_cases ::
    "(pyfloat \<Rightarrow> string) \<Rightarrow> gen_env \<Rightarrow> string \<Rightarrow> case_gen \<Rightarrow> disk \<Rightarrow> disk res" where
  "write_base_cases fr env json_path g d =
     bindE (generate_base_cases env g) (\<lambda>bs. write_case_file fr json_path (case_file_value bs) d)"

text \<open>The whole of it.\<close>

definition generate_case_file ::
    "(pyfloat \<Rightarrow> string) \<Rightarrow> gen_env \<Rightarrow> (string \<Rightarrow> string list option) \<Rightarrow> importer \<Rightarrow> string \<Rightarrow> case_gen \<Rightarrow> disk \<Rightarrow>
      (string \<times> disk) res" where
  "generate_case_file fr env lines imp stamp g d =
     bindE (gen_generate env lines imp stamp g) (\<lambda>(json_path, cases).
     bindE (write_case_file fr json_path (PyList (map PyDict cases)) d) (\<lambda>d'. Inr (json_path, d')))"

section \<open>Reading changes nothing that the checks look at\<close>

lemma as_json_dget: "dget (as_json_pairs d) k = as_json (dget d k)"
  by (induction d) auto

lemma as_json_dhas [simp]: "dhas (as_json_pairs d) k = dhas d k"
  by (simp add: dhas_def)

lemma check_required_as_json:
  assumes "\<And>k. k \<in> {CASE_NAME, OP, ST_MODE} \<Longrightarrow> as_json (dget d k) = dget d k"
  shows "check_required_key_valid (as_json_pairs d) ks = check_required_key_valid d ks"
proof -
  have "check_required_key (as_json_pairs d) = check_required_key d"
    using assms by (intro ext) (simp add: check_required_key_def as_json_dget Let_def)
  moreover have "required_keys_for (as_json_pairs d) ks = required_keys_for d ks"
    using assms by (simp add: required_keys_for_def as_json_dget)
  ultimately show ?thesis by (simp add: check_required_key_valid_def)
qed

section \<open>Property\<close>

text \<open>
  C9. The file that the generator writes from an \<^verbatim>\<open>.ini\<close> or \<^verbatim>\<open>.py\<close> file, the designer reads back and passes
  to the design of sub cases: for an operator that is no AI CPU operator, without a model file, whose name is made
  of the characters allowed in names and is short enough, with values that JSON keeps (ASCII texts, different
  keys) and a path where no file was, loading gives the one generated case, as JSON has it, and its required keys, the check that the designer
  makes of every case, are all there, \<^verbatim>\<open>st_mode\<close> included where the case asks for it, with valid names. (Its
  formats, shapes and types are checked later and may still be refused: a description without formats gives an empty
  list of them.)
\<close>

theorem generated_file_accepted:
  assumes "\<not> is_aicpu_op (cg_op_info g)" and "cg_model_path g = []"
    and "cg_op_type g = PyStr t" and "t \<noteq> []" and "list_all name_char t"
    and "length t + 9 \<le> MAX_NAME_LENGTH"
    and "generate_base_cases env g = Inr bs" and "json_ok fr (case_file_value bs)"
    and "write_base_cases fr env p g d = Inr d'"
    and "map_of (d_text d) p = None" and "d_read_ok d p"
  shows "\<exists>b. bs = [b] \<and> load_json_file d' p = Inr (PyList [PyDict (as_json_pairs (base_case_dict b))])
    \<and> check_required_key_valid (as_json_pairs (base_case_dict b)) REQUIRED_KEYS
      = Inr (REQUIRED_KEYS @ (if bc_st_mode b then [ST_MODE] else []))"
proof -
  from generated_case_acceptable [OF assms(1-7)] obtain b where b: "bs = [b]"
    and n: "bc_case_name b = PyStr (''Test_'' @ s_replace t ''/'' ''_'' @ ''_001'')" "bc_op b = PyStr t"
    and c: "check_required_key_valid (base_case_dict b) REQUIRED_KEYS
      = Inr (REQUIRED_KEYS @ (if bc_st_mode b then [ST_MODE] else []))" by blast
  have "as_json (dget (base_case_dict b) k) = dget (base_case_dict b) k" if "k \<in> {CASE_NAME, OP, ST_MODE}" for k
    using that by (auto simp: base_case_keys n)
  note same = check_required_as_json [OF this]
  from assms(7,9) have "write_case_file fr p (case_file_value bs) d = Inr d'"
    by (simp add: write_base_cases_def)
  from case_file_round_trip [OF assms(8,11) this assms(10)]
  have "load_json_file d' p = Inr (PyList [PyDict (as_json_pairs (base_case_dict b))])"
    by (simp add: case_file_value_def b)
  with same c b show ?thesis by auto
qed

definition range_text :: "pyfloat \<Rightarrow> string" where
  "range_text f = (if f = Fin 1 then ''1.0'' else ''0.1'')"

lemma range_numbers:
  "json_number ''1.0'' = Some (PyFloat (Fin 1))"
  "json_number ''0.1'' = Some (PyFloat (Fin (3602879701896397 / 36028797018963968)))"
  by code_simp+

definition written :: pydict where
  "written = [(''case_name'', PyStr ''Test_Add_001''), (''op'', PyStr ''Add''),
       (''input_desc'',
        PyList
         [PyDict
           [(''format'', PyList []),
            (''type'', PyList [PyStr ''float'', PyStr ''int8'']),
            (''shape'', PyList []),
            (''data_distribute'', PyList [PyStr ''uniform'']),
            (''value_range'',
             PyList
              [PyList
                [PyFloat (Fin (3602879701896397 / 36028797018963968)),
                 PyFloat (Fin 1)]]),
            (''name'', PyStr ''x0'')]]),
       (''output_desc'',
        PyList
         [PyDict
           [(''format'', PyList []), (''type'', PyList [PyStr ''float'']),
            (''shape'', PyList []), (''name'', PyStr ''y'')]]),
       (''attr'',
        PyList
         [PyDict
           [(''name'', PyStr ''axis''), (''type'', PyStr ''list_int''),
            (''value'', PyList [PyInt 1, PyInt (- 2)])]])]"
lemma written_ok: "json_ok_pairs range_text written \<and> distinct (map fst written)"
  by (simp add: written_def range_text_def float_text_ok_def range_numbers ascii_def number_char_def c_digit_def)

lemma written_generated: "map_sum id (map base_case_dict) (generate_base_cases gen_env_ex ini_gen) = Inr [written]"
  by code_simp

theorem generated_file_accepted_witness:
  "\<exists>d'. write_base_cases range_text gen_env_ex ''/out/Add_case.json'' ini_gen old_disk = Inr d'
     \<and> load_json_file d' ''/out/Add_case.json'' = Inr (PyList [PyDict (as_json_pairs written)])"
proof -
  obtain bs where bs: "generate_base_cases gen_env_ex ini_gen = Inr bs" and wr: "map base_case_dict bs = [written]"
    using written_generated by (cases "generate_base_cases gen_env_ex ini_gen") auto
  then have ok: "json_ok range_text (case_file_value bs)"
    using wr written_ok by (cases bs) (auto simp: case_file_value_def)
  have plain: "\<not> is_aicpu_op (cg_op_info ini_gen)" "list_all name_char ''Add''" by code_simp+
  have g: "cg_model_path ini_gen = []" "cg_op_type ini_gen = PyStr ''Add''"
    by (simp_all add: gen_ex_def ini_gen_def)
  obtain d' where w: "write_base_cases range_text gen_env_ex ''/out/Add_case.json'' ini_gen old_disk = Inr d'"
    by (simp add: write_base_cases_def bs write_case_file_def write_over_def old_disk_def)
  have "length ''Add'' + 9 \<le> MAX_NAME_LENGTH" by (simp add: MAX_NAME_LENGTH_def)
  moreover have "map_of (d_text old_disk) ''/out/Add_case.json'' = None" "d_read_ok old_disk ''/out/Add_case.json''"
    by (simp_all add: old_disk_def)
  ultimately show ?thesis
    using generated_file_accepted [OF plain(1) g _ plain(2) _ bs ok w] w wr by auto
qed

end
