(* ===== verification/Model_Commands.thy ===== *)
theory Model_Commands
  imports Case_Gen Util_Files
begin

text \<open>
  The commands on model files, \<^verbatim>\<open>src/main/model_parser.py\<close>, with the table of frameworks read from its file:
  the nodes of a model, its shapes, and a model with other shapes. The parsers are modules that are
  imported by name, a parameter. Proved: the command and the generator of cases choose the same
  framework, and a parser that fails gives one error of the program's own.
\<close>

text \<open>The loop over the table stops at the first suffix that fits, so later entries are not looked at.\<close>

fun any_suffix :: "string \<Rightarrow> pyval list \<Rightarrow> bool res" where
  "any_suffix path [] = Inr False"
| "any_suffix path (PyStr s # items) = (if endswith path s then Inr True else any_suffix path items)"
| "any_suffix path (_ # items) = Inl TypeError"

fun first_framework :: "pydict \<Rightarrow> string \<Rightarrow> string option res" where
  "first_framework [] path = Inr None"
| "first_framework ((key, value) # d) path =
     bindE (py_iter value) (\<lambda>items.
     bindE (any_suffix path items) (\<lambda>b. if b then Inr (Some key) else first_framework d path))"

definition framework_config :: "string \<Rightarrow> string" where
  "framework_config module_file = path_join (path_dirname module_file) FRAMEWORK_CONFIG_PATH"

definition framework_type_of :: "disk \<Rightarrow> string \<Rightarrow> string \<Rightarrow> string res" where
  "framework_type_of d module_file path =
     bindE (load_json_file d (framework_config module_file)) (\<lambda>v.
     bindE (as_dict v) (\<lambda>framework_dict.
     bindE (first_framework framework_dict path) (\<lambda>r. case r of
       Some key \<Rightarrow> Inr key
     | None \<Rightarrow> Inl (OpTestGenException OP_TEST_GEN_INVALID_PARAM_ERROR))))"

text \<open>
  A module gives its functions by name; a module that cannot be imported is shown as
  \<open>RuntimeError\<close>. What the function raises becomes the program's own error.
\<close>

type_synonym model_modules = "string \<Rightarrow> (string \<Rightarrow> (string \<Rightarrow> pyval \<Rightarrow> pyval res) option) option"

definition function_call ::
    "model_modules \<Rightarrow> disk \<Rightarrow> string \<Rightarrow> string \<Rightarrow> pyval \<Rightarrow> string \<Rightarrow> pyval res" where
  "function_call modules d module_file model_path op_type func_name =
     bindE (framework_type_of d module_file model_path) (\<lambda>framework.
     case modules (''op_test_frame.st.interface.framework.'' @ framework @ ''_model_parser'') of
       None \<Rightarrow> Inl RuntimeError
     | Some members \<Rightarrow>
         (case members func_name of
            None \<Rightarrow> Inl AttributeError
          | Some func \<Rightarrow>
              (case func model_path op_type of
                 Inl e \<Rightarrow> Inl (OpTestGenException OP_TEST_GEN_INVALID_PARAM_ERROR)
               | Inr v \<Rightarrow> Inr v)))"

definition model_nodes :: "model_modules \<Rightarrow> disk \<Rightarrow> string \<Rightarrow> string \<Rightarrow> pyval \<Rightarrow> pyval res" where
  "model_nodes modules d module_file model_path op_type =
     function_call modules d module_file model_path op_type GET_MODEL_NODES_FUNC"

definition get_shape :: "model_modules \<Rightarrow> disk \<Rightarrow> string \<Rightarrow> string \<Rightarrow> pyval res" where
  "get_shape modules d module_file model_path =
     function_call modules d module_file model_path (PyStr []) GET_SHAPE_FUNC"

definition change_shape :: "model_modules \<Rightarrow> disk \<Rightarrow> string \<Rightarrow> string \<Rightarrow> pyval res" where
  "change_shape modules d module_file model_path =
     function_call modules d module_file model_path (PyStr []) CHANGE_SHAPE_FUNC"

section \<open>Properties\<close>

lemma any_suffix_strs: "any_suffix path (map PyStr ss) = Inr (list_ex (endswith path) ss)"
  by (induction ss) auto

definition framework_json :: "(string \<times> string list) list \<Rightarrow> pydict" where
  "framework_json fs = map (\<lambda>(k, ss). (k, PyList (map PyStr ss))) fs"

lemma first_framework_json:
  "first_framework (framework_json fs) path
     = Inr (map_option fst (find (\<lambda>(_, ss). list_ex (endswith path) ss) fs))"
  by (induction fs) (auto simp: framework_json_def any_suffix_strs)

text \<open>With the table of a well-formed file, the framework is the one the generator of cases takes.\<close>

lemma framework_agrees:
  assumes "load_json_file d (framework_config m) = Inr (PyDict (framework_json fs))"
  shows "framework_type_of d m path = get_framework_type fs path"
  using assms
  by (auto simp: framework_type_of_def first_framework_json get_framework_type_def split: option.splits)

lemma parser_errors:
  assumes "framework_type_of d m path = Inr fw"
    and "modules (''op_test_frame.st.interface.framework.'' @ fw @ ''_model_parser'') = Some members"
    and "members f = Some func" and "func path op = Inl e"
  shows "function_call modules d m path op f = Inl (OpTestGenException OP_TEST_GEN_INVALID_PARAM_ERROR)"
  using assms by (simp add: function_call_def)

end
