(* ===== verification/Run_Ut.thy ===== *)
theory Run_Ut
  imports Utils
begin

text \<open>
  The driver of the unit tests, \<^verbatim>\<open>src/scripts/run_ut.py\<close>, and the levels of \<^verbatim>\<open>src/main/logger.py\<close>. The driver
  looks at the changed files, starts one or two test programs through a shell and moves a coverage file.
  The exit code of a command is a parameter. Proved: which programs run, by the changed files alone.
\<close>

section \<open>The driver\<close>

record ut_flags =
  fl_soc_version :: pyval
  fl_report_path :: pyval
  fl_cov_path :: pyval
  fl_simulator_lib_path :: pyval
  fl_pr_changed_file :: pyval
  fl_process_num :: pyval

text \<open>\<^verbatim>\<open>sch_tag\<close> and \<^verbatim>\<open>ops_tag\<close>.\<close>

definition schedule_line :: "string \<Rightarrow> bool" where
  "schedule_line line \<longleftrightarrow>
     startswith (s_strip line) ''auto_schedule/python'' \<or> startswith (s_strip line) ''tools/sch_test_frame''"

definition tag_line :: "bool \<times> bool \<Rightarrow> string \<Rightarrow> bool \<times> bool" where
  "tag_line tags line = (if schedule_line line then (True, snd tags) else (fst tags, True))"

definition ut_tags :: "(string \<Rightarrow> string list option) \<Rightarrow> pyval \<Rightarrow> (bool \<times> bool) res" where
  "ut_tags lines_of changed =
     (case changed of
        PyStr f \<Rightarrow>
          if f = [] \<or> s_strip f = [] then Inr (False, True)
          else (case lines_of f of
                  None \<Rightarrow> Inl OSError
                | Some lines \<Rightarrow> Inr (foldl tag_line (False, False) lines))
      | _ \<Rightarrow> if truthy changed then Inl TypeError else Inr (False, True))"

definition params_dict :: "ut_flags \<Rightarrow> bool \<Rightarrow> (string \<times> pyval) list" where
  "params_dict fl ops_tag =
     [(''--soc_version='', fl_soc_version fl), (''--simulator_lib_path='', fl_simulator_lib_path fl),
      (''--pr_changed_file='', fl_pr_changed_file fl), (''--cov_path='', fl_cov_path fl),
      (''--report_path='', fl_report_path fl)]
     @ (if ops_tag then [(''--process_num='', fl_process_num fl)] else [])"

definition param_words :: "(pyfloat \<Rightarrow> string) \<Rightarrow> (string \<times> pyval) list \<Rightarrow> string list" where
  "param_words fr ps = map (\<lambda>(k, v). k @ py_str fr v) ps"

record ut_run =
  ut_commands :: "(string \<times> string) list"
  ut_exit :: int
  ut_made :: "string list"
  ut_moved :: "(string \<times> string) list"

text \<open>A program runs with its search path; without \<^verbatim>\<open>PYTHONPATH\<close> joining the paths raises.\<close>

definition python_path_of :: "string list \<Rightarrow> string option \<Rightarrow> string res" where
  "python_path_of paths python_path =
     (case python_path of None \<Rightarrow> Inl TypeError | Some p \<Rightarrow> Inr (s_join '':'' (paths @ [p])))"

definition run_suite ::
    "(string \<Rightarrow> string \<Rightarrow> int) \<Rightarrow> string list \<Rightarrow> string option \<Rightarrow> string list \<Rightarrow> ut_run \<Rightarrow> ut_run res" where
  "run_suite system paths python_path cmd r =
     bindE (python_path_of paths python_path) (\<lambda>pp.
       let c = s_join '' '' cmd in
       Inr (r\<lparr>ut_commands := ut_commands r @ [(pp, c)], ut_exit := (if system pp c \<noteq> 0 then -1 else 0)\<rparr>))"

definition schedule_suite ::
    "(pyfloat \<Rightarrow> string) \<Rightarrow> (string \<Rightarrow> string \<Rightarrow> int) \<Rightarrow> string \<Rightarrow> string option \<Rightarrow> (string \<times> pyval) list \<Rightarrow> ut_run \<Rightarrow> ut_run res" where
  "schedule_suite fr system base python_path ps r =
     (let cov = path_join base ''build/test/ut/cov_report/sch/python_utest'';
          report = path_join base ''build/test/ut/cov_report/sch/report'';
          ps = dset (dset ps ''--cov_path='' (PyStr cov)) ''--report_path='' (PyStr report) in
      run_suite system [path_join base ''auto_schedule/python/tests/ut'', path_join base ''auto_schedule/python/tests'']
        python_path (''python3'' # path_join base ''auto_schedule/python/tests/sch_run_ut.py'' # param_words fr ps) r)"

definition ops_suite ::
    "(pyfloat \<Rightarrow> string) \<Rightarrow> (string \<Rightarrow> string \<Rightarrow> int) \<Rightarrow> string \<Rightarrow> string option \<Rightarrow> (string \<times> pyval) list \<Rightarrow> ut_run \<Rightarrow> ut_run res" where
  "ops_suite fr system base python_path ps r =
     run_suite system [path_join base ''tools/op_test_frame/python''] python_path
       (''python3'' # path_join base ''ops/built-in/tests/run_ut.py'' # param_words fr ps) r"

text \<open>The coverage of the schedule suite goes to the coverage directory of the call.\<close>

definition move_coverage :: "(string \<Rightarrow> bool) \<Rightarrow> string \<Rightarrow> pyval \<Rightarrow> ut_run \<Rightarrow> ut_run res" where
  "move_coverage exists_now base cov_path r =
     (let cov_file = path_join (path_join base ''build/test/ut/cov_report/sch/python_utest'') ''.coverage'' in
      if exists_now cov_file then
        (case cov_path of
           PyStr p \<Rightarrow> Inr (r\<lparr>ut_made := ut_made r @ (if exists_now p then [] else [p]),
                         ut_moved := ut_moved r @ [(cov_file, path_join p ''.coverage.sch'')]\<rparr>)
         | _ \<Rightarrow> Inl TypeError)
      else Inr r)"

definition step_if :: "bool \<Rightarrow> ('a \<Rightarrow> 'a res) \<Rightarrow> 'a \<Rightarrow> 'a res" where
  "step_if b f r = (if b then f r else Inr r)"

text \<open>A suite that fails ends the program with code -1; the later steps are skipped.\<close>

definition ut_main ::
    "(pyfloat \<Rightarrow> string) \<Rightarrow> (string \<Rightarrow> string list option) \<Rightarrow> (string \<Rightarrow> string \<Rightarrow> int) \<Rightarrow> (string \<Rightarrow> bool) \<Rightarrow> string \<Rightarrow>
      string option \<Rightarrow> ut_flags \<Rightarrow> ut_run res" where
  "ut_main fr lines_of system exists_now base python_path fl =
     bindE (ut_tags lines_of (fl_pr_changed_file fl)) (\<lambda>(sch_tag, ops_tag).
     let ps = params_dict fl ops_tag in
     bindE (step_if sch_tag (schedule_suite fr system base python_path ps) \<lparr>ut_commands = [], ut_exit = 0, ut_made = [], ut_moved = []\<rparr>) (\<lambda>r.
     if ut_exit r \<noteq> 0 then Inr r
     else bindE (step_if ops_tag (ops_suite fr system base python_path ps) r) (\<lambda>r.
       if ut_exit r \<noteq> 0 then Inr r else move_coverage exists_now base (fl_cov_path fl) r)))"

section \<open>Log levels\<close>

text \<open>The lines printed, each with its level; \<^verbatim>\<open>log_debug\<close> and \<^verbatim>\<open>log_info\<close> look at the level set.\<close>

record logger =
  log_level :: string
  log_lines :: "(string \<times> string) list"

definition new_logger :: logger where
  "new_logger = \<lparr>log_level = ''INFO'', log_lines = []\<rparr>"

definition set_logger_level :: "string \<Rightarrow> logger \<Rightarrow> logger" where
  "set_logger_level level l = l\<lparr>log_level := level\<rparr>"

definition log_line :: "string \<Rightarrow> string \<Rightarrow> logger \<Rightarrow> logger" where
  "log_line level msg l = l\<lparr>log_lines := log_lines l @ [(level, msg)]\<rparr>"

definition log_warn :: "string \<Rightarrow> logger \<Rightarrow> logger" where
  "log_warn msg l = log_line ''WARN'' msg l"

definition log_debug :: "string \<Rightarrow> logger \<Rightarrow> logger" where
  "log_debug msg l = (if log_level l \<notin> {''DEBUG''} then l else log_line ''DEBUG'' msg l)"

definition log_info :: "string \<Rightarrow> logger \<Rightarrow> logger" where
  "log_info msg l = (if log_level l \<notin> {''DEBUG'', ''INFO''} then l else log_line ''INFO'' msg l)"

definition log_err :: "string \<Rightarrow> logger \<Rightarrow> logger" where
  "log_err msg l = log_line ''ERROR'' msg l"

lemma log_level_simps [simp]:
  "log_lines (log_warn m l) = log_lines l @ [(''WARN'', m)]"
  "log_lines (log_err m l) = log_lines l @ [(''ERROR'', m)]"
  "log_lines (log_info m l) = log_lines l @ (if log_level l = ''DEBUG'' \<or> log_level l = ''INFO'' then [(''INFO'', m)] else [])"
  "log_lines (log_debug m l) = log_lines l @ (if log_level l = ''DEBUG'' then [(''DEBUG'', m)] else [])"
  by (simp_all add: log_warn_def log_err_def log_info_def log_debug_def log_line_def)

section \<open>Which suites run\<close>

lemma tag_lines:
  "foldl tag_line (a, b) lines = (a \<or> list_ex schedule_line lines, b \<or> list_ex (\<lambda>l. \<not> schedule_line l) lines)"
  by (induction lines arbitrary: a b) (auto simp: tag_line_def)

lemma ut_tags_file:
  "s_strip f \<noteq> [] \<Longrightarrow> lines_of f = Some lines \<Longrightarrow>
     ut_tags lines_of (PyStr f) = Inr (list_ex schedule_line lines, list_ex (\<lambda>l. \<not> schedule_line l) lines)"
  by (auto simp: ut_tags_def tag_lines s_strip_def s_rstrip_def s_lstrip_def)

text \<open>Nothing runs for an empty list of changes, and the driver ends well.\<close>

lemma no_changes_no_tests:
  assumes "fl_pr_changed_file fl = PyStr f" and "s_strip f \<noteq> []" and "lines_of f = Some []"
    and "\<not> exists_now (path_join (path_join base ''build/test/ut/cov_report/sch/python_utest'') ''.coverage'')"
  shows "ut_main fr lines_of system exists_now base pp fl = Inr \<lparr>ut_commands = [], ut_exit = 0, ut_made = [], ut_moved = []\<rparr>"
  using assms(4)
  by (simp add: ut_main_def assms(1) ut_tags_file [where f = f and lines_of = lines_of, OF assms(2,3)] step_if_def move_coverage_def Let_def)

lemma run_suite_ok:
  "run_suite system paths pp cmd r = Inr r' \<Longrightarrow>
     \<exists>c. ut_commands r' = ut_commands r @ [c] \<and> (ut_exit r' = 0 \<longleftrightarrow> system (fst c) (snd c) = 0)"
  by (auto simp: run_suite_def Let_def)

lemma suites_run:
  assumes "schedule_suite fr system base pp ps r = Inr r1"
  shows "length (ut_commands r1) = Suc (length (ut_commands r))"
  using run_suite_ok [OF assms [unfolded schedule_suite_def Let_def]] by auto

lemma ops_suite_runs:
  assumes "ops_suite fr system base pp ps r = Inr r1"
  shows "length (ut_commands r1) = Suc (length (ut_commands r))"
  using run_suite_ok [OF assms [unfolded ops_suite_def]] by auto

lemma move_keeps_commands: "move_coverage e base c r = Inr r' \<Longrightarrow> ut_commands r' = ut_commands r \<and> ut_exit r' = ut_exit r"
  by (auto simp: move_coverage_def Let_def split: if_splits pyval.splits)

text \<open>
  A driver that ends well has started one program per kind of change: one for the schedules when a changed
  file lies in their directories, one for the operators when one lies elsewhere.
\<close>

lemma suites_by_changes:
  assumes "fl_pr_changed_file fl = PyStr f" and "s_strip f \<noteq> []" and "lines_of f = Some lines"
    and "ut_main fr lines_of system exists_now base pp fl = Inr r" and "ut_exit r = 0"
  shows "length (ut_commands r)
    = (if list_ex schedule_line lines then 1 else 0) + (if list_ex (\<lambda>l. \<not> schedule_line l) lines then 1 else 0)"
proof -
  let ?s = "list_ex schedule_line lines" and ?o = "list_ex (\<lambda>l. \<not> schedule_line l) lines"
  let ?ps = "params_dict fl ?o" and ?r0 = "\<lparr>ut_commands = [], ut_exit = 0, ut_made = [], ut_moved = []\<rparr>"
  note tags = ut_tags_file [where f = f and lines_of = lines_of, OF assms(2,3)]
  from assms(4) obtain r1 where 1: "step_if ?s (schedule_suite fr system base pp ?ps) ?r0 = Inr r1"
    and rest: "(if ut_exit r1 \<noteq> 0 then Inr r1
      else bindE (step_if ?o (ops_suite fr system base pp ?ps) r1) (\<lambda>r.
        if ut_exit r \<noteq> 0 then Inr r else move_coverage exists_now base (fl_cov_path fl) r)) = Inr r"
    unfolding ut_main_def assms(1) tags Let_def bindE_simps prod.case bindE_eq_Inr by blast
  from rest assms(5) obtain r2 where 2: "step_if ?o (ops_suite fr system base pp ?ps) r1 = Inr r2"
    and 3: "ut_commands r = ut_commands r2"
    by (auto split: if_splits dest: move_keeps_commands)
  from 1 have "length (ut_commands r1) = (if ?s then 1 else 0)"
    by (cases ?s) (auto simp: step_if_def dest: suites_run)
  moreover from 2 have "length (ut_commands r2) = length (ut_commands r1) + (if ?o then 1 else 0)"
    by (cases ?o) (auto simp: step_if_def dest: ops_suite_runs)
  ultimately show ?thesis by (simp add: 3)
qed

end
