(* ===== verification/Esl_Logs.thy ===== *)
theory Esl_Logs
  imports Utils
begin

text \<open>
  The simulator's side of the kernel runner: loading its libraries (\<^verbatim>\<open>src/main/rts_api.py\<close>) and clearing and
  collecting the logs it leaves in the working directory (\<^verbatim>\<open>src/main/ascend_tbe_op.py\<close>). Proved: a
  collection takes every log file that a session left and nothing else, and the log directory itself
  only when the directory for the dumps was there before.
\<close>

section \<open>Libraries\<close>

text \<open>
  \<open>can_load\<close> is the loader. The environment is changed first; every library must load, and the
  last one is the runtime.
\<close>

definition dll_simulator_so ::
    "(string \<Rightarrow> bool) \<Rightarrow> string list \<Rightarrow> string \<Rightarrow> string \<Rightarrow> (string \<times> string) list \<Rightarrow>
      ((string \<times> string) list \<times> string list \<times> string) res" where
  "dll_simulator_so can_load so_path_list addition_ld_lib_paths simulator_dump_path environ =
     bindE (ditem environ ''LD_LIBRARY_PATH'') (\<lambda>old.
       let environ = dset (dset environ ''LD_LIBRARY_PATH'' (old @ '':'' @ addition_ld_lib_paths))
             ''CAMODEL_LOG_PATH'' simulator_dump_path in
       bindE (forE (\<lambda>so_path. raise_if (\<not> can_load so_path) RuntimeError) (butlast so_path_list)) (\<lambda>_.
       bindE (raise_if (so_path_list = [] \<or> \<not> can_load (last so_path_list)) RuntimeError) (\<lambda>_.
         Inr (environ, butlast so_path_list, last so_path_list))))"

section \<open>Logs\<close>

definition esl_file :: "string \<Rightarrow> bool" where
  "esl_file file_name \<longleftrightarrow>
     list_ex (endswith file_name) [''_summary_log'', ''wave.vcd'', ''log.toml'', ''dirSaveDump.txt'', ''log.log'', ''log1.dump'']"

text \<open>
  The working directory: its plain files and the files below \<^verbatim>\<open>./log\<close>, if there is one. The directory for
  the dumps, if there is one: its \<^verbatim>\<open>log\<close> and its \<^verbatim>\<open>summary_log\<close>.
\<close>

record dump_dir =
  dump_log :: "string list option"
  dump_summary :: "string list option"

record esl_dirs =
  plain_files :: "string list"
  log_dir :: "string list option"
  dump :: "dump_dir option"

definition prepare_esl :: "esl_dirs \<Rightarrow> esl_dirs" where
  "prepare_esl d = d\<lparr>log_dir := Some [], plain_files := filter (\<lambda>f. \<not> esl_file f) (plain_files d)\<rparr>"

definition collect_log :: "string list \<Rightarrow> esl_dirs \<Rightarrow> esl_dirs" where
  "collect_log files d =
     (case dump d of
        None \<Rightarrow> d
      | Some dd \<Rightarrow> d\<lparr>log_dir := None, dump := Some (dd\<lparr>dump_log := Some files\<rparr>)\<rparr>)"

text \<open>The summary directory is made anew, and with it the directory for the dumps.\<close>

definition collect_summary :: "esl_dirs \<Rightarrow> esl_dirs" where
  "collect_summary d =
     (let dd = (case dump d of None \<Rightarrow> \<lparr>dump_log = None, dump_summary = None\<rparr> | Some dd \<Rightarrow> dd) in
      d\<lparr>dump := Some (dd\<lparr>dump_summary := Some (filter esl_file (plain_files d))\<rparr>),
        plain_files := filter (\<lambda>f. \<not> esl_file f) (plain_files d)\<rparr>)"

definition collect_esl_log :: "esl_dirs \<Rightarrow> esl_dirs" where
  "collect_esl_log d =
     (case log_dir d of None \<Rightarrow> d | Some files \<Rightarrow> collect_summary (collect_log files d))"

text \<open>A session adds files to the working directory and to \<^verbatim>\<open>./log\<close>.\<close>

definition session_leaves :: "string list \<Rightarrow> string list \<Rightarrow> esl_dirs \<Rightarrow> esl_dirs" where
  "session_leaves files logs d =
     d\<lparr>plain_files := plain_files d @ files, log_dir := map_option (\<lambda>l. l @ logs) (log_dir d)\<rparr>"

lemma session_logs_collected:
  "\<exists>dd. dump (collect_esl_log (session_leaves files logs (prepare_esl d))) = Some dd
     \<and> dump_summary dd = Some (filter esl_file files)
     \<and> (dump d \<noteq> None \<longrightarrow> dump_log dd = Some logs)
     \<and> plain_files (collect_esl_log (session_leaves files logs (prepare_esl d)))
         = filter (\<lambda>f. \<not> esl_file f) (plain_files d @ files)"
  by (cases "dump d") (simp_all add: collect_esl_log_def session_leaves_def prepare_esl_def collect_log_def collect_summary_def)

text \<open>
  The first collection into a directory that did not exist leaves the log behind, where the next
  session deletes it.
\<close>

lemma first_log_lost:
  assumes "dump d = None"
  shows "\<exists>dd. dump (collect_esl_log (session_leaves files logs (prepare_esl d))) = Some dd \<and> dump_log dd = None"
    and "log_dir (prepare_esl (collect_esl_log (session_leaves files logs (prepare_esl d)))) = Some []"
  using assms by (simp_all add: collect_esl_log_def session_leaves_def prepare_esl_def collect_log_def collect_summary_def)

lemma all_or_none_loaded:
  "dll_simulator_so can_load paths add out env = Inr (env', libs, rt) \<Longrightarrow>
     paths = libs @ [rt] \<and> list_all can_load paths"
  by (cases paths rule: rev_cases) (auto simp: dll_simulator_so_def forE_ok list_all_iff)

end
