(* ===== verification/Spec2Isabelle.thy ===== *)
theory Spec2Isabelle
  imports Result_Compare Runner_Session Gen_Design Data_Gen Dsl_Forward Intf_Decls Adv_Options
    Ir_Builder Dim_Api Segment_Compute Tuple_Reduce Dsl_Common Changed_Files Arg_Parser Ms_Generator
    Report_Files Atc_Transform Op_Patterns Precision_Info Cce_Diag Gen_Files Model_Commands Run_Ut Esl_Logs
begin

text \<open>
  \<^bold>\<open>A verification library for the operator test framework.\<close> The program designs test cases for
  operators of an AI accelerator, runs the compiled operators on the device or in a simulator,
  compares what they compute with expected data, and reports on every stage. This library
  models \<^verbatim>\<open>src/main\<close>, the operator DSL with its kernels and the checker of its interface,
  \<^verbatim>\<open>src/auto_schedule\<close>, and proves what the parts promise. This theory imports all
  others and says what they hold.

  \<^bold>\<open>The flow of the program.\<close> A JSON file describes operators: tensors with several formats, types
  and shapes each, attributes, and names. \<^verbatim>\<open>CaseDesign\<close> (\<^verbatim>\<open>case_design.py\<close>) reads the files and
  gives every object to a designer: the cross product of its profiles
  (\<^verbatim>\<open>subcase_design_cross.py\<close>) or, when a value is the text \<^verbatim>\<open>fuzz\<close>, repeated calls of a user
  function (\<^verbatim>\<open>subcase_design_fuzz.py\<close>); both share the checks of \<^verbatim>\<open>subcase_design.py\<close> and
  \<^verbatim>\<open>utils.py\<close>. Every case gets a report (\<^verbatim>\<open>st_report.py\<close>) whose trace
  (\<^verbatim>\<open>op_st_case_info.py\<close>) collects the results of the stages. After the run,
  \<^verbatim>\<open>result_comparer.py\<close> reads \<^verbatim>\<open>result.txt\<close>, compares the outputs with
  \<^verbatim>\<open>compare_data.py\<close> and adds the verdicts. Beside this flow stands the direct one: an operator
  is compiled to a kernel and run with its parameters on the device (\<^verbatim>\<open>ascend_tbe_op.py\<close>), through the
  interface of the runtime library (\<^verbatim>\<open>rts_api.py\<close>). Before both stands the generator
  (\<^verbatim>\<open>case_generator.py\<close>), which makes the JSON file from the description of an operator, and
  between design and run the data generator (\<^verbatim>\<open>data_generator.py\<close>) writes the inputs and the
  expected outputs.

  \<^bold>\<open>The theories.\<close>
  \<^item> \<open>Py_Base\<close>, \<open>Py_Value\<close>, \<open>Py_String\<close>, \<open>Py_Os\<close>: the prelude. Exceptions as the left side of a
    sum, loops that stop at the first exception, Python values with \<^verbatim>\<open>isinstance\<close>, truth and
    equality, dictionaries that keep their order, the text and path functions the code calls. The
    locale \<open>elem_check\<close> is the contract of a validating loop and is interpreted for every loop of
    that shape; the locale \<open>ordered_dict\<close> is the contract of a dictionary.
  \<^item> \<open>Const_Manager\<close>, \<open>Rts_Info\<close>: the constants of \<^verbatim>\<open>const_manager.py\<close> and the tables of
    \<^verbatim>\<open>rts_info.py\<close>.
  \<^item> \<open>Utils\<close>: the checks of \<^verbatim>\<open>utils.py\<close> on names, paths, attributes and lists, and the name
    conversion. For each the exact set of accepted values is proved.
  \<^item> \<open>St_Report\<close>: stages, traces, case reports and the report. Stage objects have identity: they
    live in a store, since one object is put into the traces of all cases. The locale
    \<open>case_registry\<close> is the contract of adding and finding a case by name. Proved: what adding a stage
    shows in every trace, what saving and loading keeps, how the summary counts.
  \<^item> \<open>Dynamic_Handle\<close>, \<open>Subcase_Design\<close>: dynamic shapes, and the checks both designers share.
  \<^item> \<open>Subcase_Cross\<close>, \<open>Subcase_Fuzz\<close>, \<open>Case_Design\<close>: the designers and the loop over the files.
    Proved: how many cases are made, that the product is covered, that the names of new cases
    differ, and that the cases of a whole design run come one by one from the objects of the files,
    each with its report, and no name twice.
  \<^item> \<open>Compare_Data\<close>, \<open>Result_Compare\<close>: the comparison of arrays, its report files, the parsing of
    \<^verbatim>\<open>result.txt\<close> and the verdict of a case. Floats are rationals with infinities and NaN;
    rounding to 32 and 64 bits is a parameter. Proved: the comparison raises for a threshold of zero and
    passes exactly when the share and the size of the relative errors stay within their limits;
    a case succeeds exactly when none of its stages failed and all its outputs passed.
  \<^item> \<open>Rts_Api\<close>: \<^verbatim>\<open>AscendRTSApi\<close>. The runtime library is a record of functions on an
    abstract device state; arguments are converted to the machine words that the code's
    \<^verbatim>\<open>ctypes\<close> constructors make. Proved: error decoding, that a copy is tried until it succeeds
    and at most four times, buffer sizes, the storages
    of kernels and contexts.
  \<^item> \<open>Dtype_Trans\<close>, \<open>Ascend_Op\<close>: the data types, operators, and compiled kernels.
  \<^item> \<open>Kernel_Runner\<close>, \<open>Runner_Memory\<close>, \<open>Runner_Session\<close>: parameters and the runner. Parameter and
    kernel objects are kept in stores and named by position. The locale \<open>accounting\<close> adds up what
    the steps of a loop leave behind, the locale \<open>step_order\<close> carries relations through
    sequences and loops; both are interpreted on the code's own operations. Proved under the
    documented behaviour of the library's memory (\<open>memory_model\<close>): every step of a run is balanced,
    and a whole session, the inductive relation \<open>session\<close>, gives back every buffer.

  \<^item> \<open>Py_Number\<close>: numbers as text and the integer and float readers of Python.
  \<^item> \<open>Case_Ini\<close>, \<open>Op_Proto\<close>, \<open>Case_Template\<close>, \<open>Case_Gen\<close>, \<open>Gen_Design\<close>: the generator of case
    descriptions, \<^verbatim>\<open>case_generator.py\<close>: its two readers, of an INI file and of the C++ header of an
    operator, the checks and the defaults of attributes, the base cases of both kinds of operators,
    and the cases taken from a model. Proved: an operator description written as INI is read back,
    the header parser refines a grammar of declarations, the loop over inputs, outputs and
    attributes is three independent passes, the errors of the generator from a
    description of an AI Core operator are a fixed set, and a generated case has the keys that
    the designer requires, which is the interface between the two.
  \<^item> \<open>Data_Gen\<close>: \<^verbatim>\<open>data_generator.py\<close>. The draws are expressions that numpy evaluates; the files
    written and the parameters of the expectation function are state. Proved: no input file is
    written twice.
  \<^item> \<open>Ini_File\<close>, \<open>Adv_Options\<close>: the part of \<^verbatim>\<open>configparser\<close> the program uses, and the options of a
    run, \<^verbatim>\<open>advance_ini_parser.py\<close>. Proved: an accepted file gives options in their range, without
    the characters that the program forbids, and plain files are read back. Its list of characters is short of
    some that a shell interprets.
  \<^item> \<open>Dsl_Tables\<close>, \<open>Dsl_Util\<close>, \<open>Dsl_Cast\<close>, \<open>Dsl_Api\<close>: the operator DSL under
    \<^verbatim>\<open>src/auto_schedule/python\<close>: the tables of supported types, the checks of types, axes and
    shapes (\<^verbatim>\<open>util.py\<close>), the decorators that cast arguments (\<^verbatim>\<open>auto_cast.py\<close>), and the public functions
    (\<^verbatim>\<open>api.py\<close>). Tensors and the compiler behind the DSL are parameters. Proved: that tensors of different types and
    Python numbers reach the compiler with one type after the casts, that the decorator is transparent for matching types, which axes
    and types are accepted, and that queries written twice agree.
  \<^item> \<open>Kernel_Ir\<close>, \<open>Ir_Builder\<close>: the calls that the kernels are made of, and the builders of
    \<^verbatim>\<open>irbuilder_api.py\<close>. A vector unit is given by what one repeat does to the bytes at its addresses,
    which the strides of the call determine. Proved: up to 255 repeats the calls compute the operation on
    exactly the elements that were asked for, and the cast also beyond, except that multiples of 255
    repeats lose their last round.
  \<^item> \<open>Dim_Conv\<close>, \<open>Dim_Machine\<close>, \<open>Dim_Tiles\<close>, \<open>Dim_Four2five\<close>, \<open>Dim_Five2four\<close>,
    \<open>Dim_Api\<close>: the conversions between the four- and the five-dimensional layout, \<^verbatim>\<open>dim_conv.py\<close>. The kernels
    are lists of calls, which a machine with a transposing unit runs. Proved: within the stated sizes
    the kernels place every element where the layout wants it, the buffers fit, and the public
    functions compose these.
  \<^item> \<open>Segment_Compute\<close>, \<open>Tuple_Reduce\<close>, \<open>Dsl_Common\<close>: the segment operations, the sum of a
    tuple of tensors with its casts, and the window sizes and the matrix product of \<^verbatim>\<open>common.py\<close>. The
    expressions handed to the compiler are data with an evaluation. Proved: they compute the
    reference reductions, and the windows that a size promises fit.
  \<^item> \<open>Dsl_Forward\<close>: the functions of the package that have moved to another place. Proved: all arguments
    arrive there, in order.
  \<^item> \<open>Py_Argparse\<close>, \<open>Arg_Parser\<close>: the part of \<^verbatim>\<open>argparse\<close> the program uses, and the commands, options and
    checks of \<^verbatim>\<open>arg_parser.py\<close>. Proved: what an accepted command line of a run guarantees, and that its options
    are read with their values and defaults.
  \<^item> \<open>Py_Format\<close>, \<open>Code_Snippet\<close>, \<open>Ms_Generator\<close>: \<^verbatim>\<open>str.format\<close>, the templates, the
    generator of MindSpore test programs and their runner. Proved: a generated program reads the files that the
    data generator writes, and what a run of the generator leaves behind.
  \<^item> \<open>Changed_Files\<close>: the two scripts under \<^verbatim>\<open>src/scripts\<close> that sort changed files. The locale
    \<open>line_sorter\<close> is the contract of sorting line after line. Proved: both answer what a table of path
    prefixes says.
  \<^item> \<open>Py_Json\<close>, \<open>Util_Files\<close>: the part of \<^verbatim>\<open>json\<close> the program uses, and its files: the readers and writers
    of \<^verbatim>\<open>utils.py\<close>, scanning of directories, running of commands, and the white lists of
    \<^verbatim>\<open>global_config_parser.py\<close>. A disk holds texts; writing without truncation leaves the rest of an
    old text behind. Proved: what is written as JSON is read back.
  \<^item> \<open>Report_Files\<close>, \<open>Gen_Files\<close>, \<open>Model_Commands\<close>: the files of the report, the case file between
    generator and designer, and the commands on model files (\<^verbatim>\<open>model_parser.py\<close>). Proved: a saved report
    loads, and the designer loads the cases that the generator wrote and finds the keys it requires.
  \<^item> \<open>Atc_Transform\<close>: \<^verbatim>\<open>atc_transform_om.py\<close>, the file of single operators and their conversion to models.
    The process is a parameter that sees its directory, environment and command. Proved: the entries of
    the file, and what the report shows after the conversion.
  \<^item> \<open>Op_Patterns\<close>, \<open>Precision_Info\<close>, \<open>Cce_Diag\<close>, \<open>Esl_Logs\<close>, \<open>Run_Ut\<close>: the tables by which
    schedules are chosen, the precision standards, the diagnosis of an operator on the host, the logs and
    libraries of the simulator, the driver of the unit tests and the levels of the logger.
  \<^item> \<open>Intf_Spec\<close>, \<open>Intf_Check\<close>, \<open>Intf_Readers\<close>, \<open>Intf_Decls\<close>: the interface checker,
    \<^verbatim>\<open>cann_check_interface.py\<close>: the two readers of declarations, each with its own copy of the parsing, whose objects live in a store, the cleaning
    of a source, the comparison and the whole check. Proved: what the comparison accepts, that the
    readers agree, when a comparison raises, and that the check accepts descriptions of plain
    declarations that their sources contain.

  \<^bold>\<open>Conventions.\<close> A function that raises returns a sum; the \<open>exn\<close> of the test generator carries the
  error code. Functions that change objects return the changed state. What is not under
  \<^verbatim>\<open>src\<close> is an argument: the file system answers queries (\<open>fs\<close>) and holds texts (\<open>disk\<close>), user modules
  are functions, numpy and the runtime library are records. Text is compared with
  ASCII separators only. Each property has a concrete instance beside it, computed on small
  inputs or on the simulated library \<open>sim_dll\<close>.

  \<^bold>\<open>Bounds.\<close> The loops are structural, except the retries of a copy, which end after four
  attempts, and a few readers that recurse on a rest of their text, with a measure. The one fuel is
  that of the JSON reader, twice the number of words and two: a value or the rest of a list takes one
  call for each and at most two fall on a word, and the round trip is proved with this fuel. Sizes
  that reach the device are words of 32 or 64 bits.

  \<^bold>\<open>Not modelled.\<close> Log lines and console output, but for the summary of the report, the numbered steps and
  the levels; the bodies of the processes that are started (\<^verbatim>\<open>atc\<close>, test programs), of numpy, of the
  runtime library and of the tensor compiler, which are parameters; the layouts of \<^verbatim>\<open>ctypes\<close> structures; the
  upload of reports over the network (\<^verbatim>\<open>scripts/upload.py\<close>), the constants of \<^verbatim>\<open>llt_config.py\<close> and the set-up
  script of the DSL. Text beyond ASCII is outside the model of JSON.
\<close>

end
